(* ===== verification/Prelude.thy ===== *)
theory Prelude
  imports Main "HOL-Library.AList" "HOL-Library.Multiset"
begin

text \<open>
  What every component of the model shares: the outcomes a C++ operation has beside returning a
  value, sequencing of such operations, \<open>std::unordered_map\<close> and \<open>std::map\<close> keyed by strings,
  32-bit \<open>int\<close> arithmetic, loops over a container that may break or return early, and the
  collections of facts that carry the component proofs.

  A \<open>std::unordered_map\<close> is an association list in the order in which the program iterates over
  it. That order is unspecified by the C++ standard, so no theorem of the development fixes it:
  the lists are arbitrary, and insertion of a fresh key puts it at the end of the list.
\<close>

named_theorems map_simps \<open>lookup after an update of a string map\<close>
named_theorems result_simps \<open>unfolding sequences of fallible operations\<close>

section \<open>Faults\<close>

text \<open>
  The ways an operation of the program ends without a value. \<open>OutOfRange\<close> is the exception
  \<open>std::out_of_range\<close> that \<open>map::at\<close> throws for a missing key and \<open>stoul\<close> for a number too
  large, \<open>InvalidArgument\<close> the \<open>std::invalid_argument\<close> of \<open>stoul\<close> on a text without digits and
  \<open>BadOptional\<close> the \<open>std::bad_optional_access\<close> of \<open>value()\<close> on an empty optional; \<open>Abort\<close> is
  \<open>LOG(FATAL)\<close>, which ends the process; \<open>UB\<close> is undefined behaviour: an index past the end of a
  vector, signed overflow, a float-to-int conversion whose value does not fit, \<open>erase(end())\<close>, a
  null pointer that is dereferenced. \<open>Diverges\<close> is a recursion that used up the bound its model has:
  it stands for one that does not end, and the theorems on termination exclude it.
\<close>

datatype fault = OutOfRange | UB | Abort | BadOptional | InvalidArgument | Diverges

type_synonym 'a result = "fault + 'a"

definition bindE :: "'a result \<Rightarrow> ('a \<Rightarrow> 'b result) \<Rightarrow> 'b result" where
  "bindE m f = (case m of Inl e \<Rightarrow> Inl e | Inr a \<Rightarrow> f a)"

lemma bindE_simps [simp, result_simps]:
  "bindE (Inl e) f = Inl e"
  "bindE (Inr a) f = f a"
  by (simp_all add: bindE_def)

lemma bindE_eq_Inr_iff: "bindE m f = Inr b \<longleftrightarrow> (\<exists>a. m = Inr a \<and> f a = Inr b)"
  by (cases m) simp_all

lemma bindE_eq_InrE [elim!]:
  assumes "bindE m f = Inr b"
  obtains a where "m = Inr a" and "f a = Inr b"
  using assms by (auto simp: bindE_eq_Inr_iff)

lemma bindE_cong [fundef_cong]:
  "m = m' \<Longrightarrow> (\<And>a. m' = Inr a \<Longrightarrow> f a = f' a) \<Longrightarrow> bindE m f = bindE m' f'"
  by (cases m') simp_all

lemma bindE_Inr_right [simp]: "bindE m Inr = m"
  by (cases m) simp_all

lemma bindE_assoc: "bindE (bindE m f) g = bindE m (\<lambda>a. bindE (f a) g)"
  by (cases m) simp_all

section \<open>Vectors\<close>

text \<open>\<open>v[i]\<close> on a \<open>std::vector\<close>; an index outside the vector is undefined.\<close>

definition vec_at :: "'a list \<Rightarrow> int \<Rightarrow> 'a result" where
  "vec_at v i = (if 0 \<le> i \<and> i < int (length v) then Inr (v ! nat i) else Inl UB)"

lemma vec_at_Inr_iff:
  "vec_at v i = Inr x \<longleftrightarrow> 0 \<le> i \<and> i < int (length v) \<and> x = v ! nat i"
  by (auto simp: vec_at_def)

text \<open>\<open>v[i] = x\<close>\<close>

definition vec_set :: "'a list \<Rightarrow> int \<Rightarrow> 'a \<Rightarrow> 'a list result" where
  "vec_set v i x = (if 0 \<le> i \<and> i < int (length v) then Inr (v[nat i := x]) else Inl UB)"

lemma vec_at_ok [simp]: "0 \<le> i \<Longrightarrow> i < int (length v) \<Longrightarrow> vec_at v i = Inr (v ! nat i)"
  by (simp add: vec_at_def)

lemma vec_set_ok [simp]: "0 \<le> i \<Longrightarrow> i < int (length v) \<Longrightarrow> vec_set v i x = Inr (v[nat i := x])"
  by (simp add: vec_set_def)

section \<open>32-bit int arithmetic\<close>

definition INT_MAX :: int where "INT_MAX = 2147483647"
definition INT_MIN :: int where "INT_MIN = - 2147483648"

definition is_int32 :: "int \<Rightarrow> bool" where
  "is_int32 i \<longleftrightarrow> INT_MIN \<le> i \<and> i \<le> INT_MAX"

text \<open>The result of a signed operation whose mathematical value is \<open>i\<close>; overflow is undefined.\<close>

definition int32 :: "int \<Rightarrow> int result" where
  "int32 i = (if is_int32 i then Inr i else Inl UB)"

lemma int32_Inr_iff [simp]: "int32 i = Inr j \<longleftrightarrow> is_int32 i \<and> j = i"
  by (auto simp: int32_def)

lemma is_int32_between: "is_int32 a \<Longrightarrow> is_int32 b \<Longrightarrow> a \<le> i \<Longrightarrow> i \<le> b \<Longrightarrow> is_int32 i"
  by (simp add: is_int32_def)

text \<open>The same for a 64-bit operation.\<close>

definition int64 :: "int \<Rightarrow> int result" where
  "int64 i = (if - (2 ^ 63) \<le> i \<and> i < 2 ^ 63 then Inr i else Inl UB)"

section \<open>Time\<close>

text \<open>
  \<open>boot_clock::time_point\<close> counts nanoseconds in 64 bits. The difference of two time points is
  computed as the machine does, modulo \<open>2 ^ 64\<close>: against \<open>time_point::min()\<close>, which the code uses
  for "never", it leaves the range. \<open>since_ms\<close> is \<open>duration_cast<milliseconds>(now - t)\<close>, which
  truncates towards zero.
\<close>

definition TIME_MIN :: int where "TIME_MIN = - (2 ^ 63)"

definition wrap64 :: "int \<Rightarrow> int" where
  "wrap64 i = (i + 2 ^ 63) mod 2 ^ 64 - 2 ^ 63"

definition since_ms :: "int \<Rightarrow> int \<Rightarrow> int" where
  "since_ms now t = (let d = wrap64 (now - t) in sgn d * (\<bar>d\<bar> div 1000000))"

definition is_time :: "int \<Rightarrow> bool" where
  "is_time t \<longleftrightarrow> 0 \<le> t \<and> t < 2 ^ 63"

lemma wrap64_id: "- (2 ^ 63) \<le> i \<Longrightarrow> i < 2 ^ 63 \<Longrightarrow> wrap64 i = i"
  by (simp add: wrap64_def)

lemma since_ms_time: "is_time now \<Longrightarrow> is_time t \<Longrightarrow> t \<le> now \<Longrightarrow> since_ms now t = (now - t) div 1000000"
  by (cases "t = now") (auto simp: since_ms_def is_time_def wrap64_id Let_def)

lemma since_ms_never: "is_time now \<Longrightarrow> since_ms now TIME_MIN < 0 \<or> 2 ^ 63 - 1000000 \<le> now"
proof -
  assume now: "is_time now"
  have "wrap64 (now - TIME_MIN) = now - 2 ^ 63"
    using now by (simp add: wrap64_def TIME_MIN_def is_time_def)
  then show ?thesis using now by (auto simp: since_ms_def is_time_def Let_def)
qed

section \<open>String maps\<close>

type_synonym 'v smap = "(string \<times> 'v) list"

text \<open>\<open>m.count(k)\<close> and \<open>m.contains(k)\<close>\<close>

definition has :: "'v smap \<Rightarrow> string \<Rightarrow> bool" where
  "has m k \<longleftrightarrow> map_of m k \<noteq> None"

text \<open>\<open>m.at(k)\<close>, read\<close>

definition at_key :: "'v smap \<Rightarrow> string \<Rightarrow> 'v result" where
  "at_key m k = (case map_of m k of None \<Rightarrow> Inl OutOfRange | Some v \<Rightarrow> Inr v)"

text \<open>\<open>m[k] = v\<close>\<close>

definition put :: "string \<Rightarrow> 'v \<Rightarrow> 'v smap \<Rightarrow> 'v smap" where
  "put k v m = AList.update k v m"

text \<open>\<open>m.at(k) = v\<close>\<close>

definition set_key :: "string \<Rightarrow> 'v \<Rightarrow> 'v smap \<Rightarrow> 'v smap result" where
  "set_key k v m = (if has m k then Inr (put k v m) else Inl OutOfRange)"

text \<open>\<open>for (auto \<and>p : m) p.second = v\<close>\<close>

definition fill_all :: "'v \<Rightarrow> 'v smap \<Rightarrow> 'v smap" where
  "fill_all v m = map (\<lambda>p. (fst p, v)) m"

lemma map_of_put [simp, map_simps]: "map_of (put k v m) = (map_of m)(k \<mapsto> v)"
  by (simp add: put_def update_conv')

lemma has_put [simp, map_simps]: "has (put k v m) j \<longleftrightarrow> j = k \<or> has m j"
  by (simp add: has_def)

lemma has_iff_in_keys: "has m k \<longleftrightarrow> k \<in> fst ` set m"
  by (simp add: has_def map_of_eq_None_iff)

lemma at_key_put [simp, map_simps]:
  "at_key (put k v m) j = (if j = k then Inr v else at_key m j)"
  by (simp add: at_key_def)

lemma at_key_Inr_iff: "at_key m k = Inr v \<longleftrightarrow> map_of m k = Some v"
  by (simp add: at_key_def split: option.splits)

lemma at_key_ok [simp]: "map_of m k = Some v \<Longrightarrow> at_key m k = Inr v"
  by (simp add: at_key_def)

lemma has_at_key: "has m k \<Longrightarrow> \<exists>v. at_key m k = Inr v"
  by (auto simp: has_def at_key_def)

lemma set_key_Inr_iff: "set_key k v m = Inr m' \<longleftrightarrow> has m k \<and> m' = put k v m"
  by (auto simp: set_key_def)

lemma keys_put_present: "has m k \<Longrightarrow> map fst (put k v m) = map fst m"
  by (simp add: put_def update_keys has_iff_in_keys)

lemma distinct_put: "distinct (map fst m) \<Longrightarrow> distinct (map fst (put k v m))"
  by (simp add: put_def distinct_update)

lemma set_put: "set (put k v m) \<subseteq> insert (k, v) (set m)"
  unfolding put_def by (induction m) auto

lemma put_put [simp, map_simps]: "put k v (put k w m) = put k v m"
  unfolding put_def by (induction m) auto

lemma map_of_fill_all [simp, map_simps]:
  "map_of (fill_all v m) k = map_option (\<lambda>_. v) (map_of m k)"
  by (induction m) (auto simp: fill_all_def)

lemma has_fill_all [simp, map_simps]: "has (fill_all v m) k \<longleftrightarrow> has m k"
  by (simp add: has_def)

lemma keys_fill_all [simp]: "map fst (fill_all v m) = map fst m"
  by (simp add: fill_all_def)

lemma fill_all_Nil_iff [simp]: "fill_all v m = [] \<longleftrightarrow> m = []"
  by (simp add: fill_all_def)

section \<open>Loops over a container\<close>

text \<open>
  One step of a \<open>for\<close> loop either goes on to the next element (falling off the end of the body or
  \<open>continue\<close>), leaves the loop (\<open>break\<close>), or leaves the function with a value (\<open>return\<close>).
\<close>

datatype ('s, 'r) ctl = Next 's | Break 's | Return 'r 's

fun loopE :: "('a \<Rightarrow> 's \<Rightarrow> ('s, 'r) ctl result) \<Rightarrow> 'a list \<Rightarrow> 's \<Rightarrow> ('s, 'r) ctl result" where
  "loopE f [] s = Inr (Next s)"
| "loopE f (x # xs) s =
     (case f x s of
        Inl e \<Rightarrow> Inl e
      | Inr (Next s') \<Rightarrow> loopE f xs s'
      | Inr (Break s') \<Rightarrow> Inr (Next s')
      | Inr (Return r s') \<Rightarrow> Inr (Return r s'))"

text \<open>A loop without \<open>break\<close> or \<open>return\<close>.\<close>

fun foldE :: "('a \<Rightarrow> 's \<Rightarrow> 's result) \<Rightarrow> 'a list \<Rightarrow> 's \<Rightarrow> 's result" where
  "foldE f [] s = Inr s"
| "foldE f (x # xs) s = bindE (f x s) (foldE f xs)"

definition ctl_state :: "('s, 'r) ctl \<Rightarrow> 's" where
  "ctl_state c = (case c of Next s \<Rightarrow> s | Break s \<Rightarrow> s | Return r s \<Rightarrow> s)"

lemma ctl_state_simps [simp]:
  "ctl_state (Next s) = s" "ctl_state (Break s) = s" "ctl_state (Return r s) = s"
  by (simp_all add: ctl_state_def)

text \<open>The two loop rules: an invariant that every step keeps is kept by the loop.\<close>

lemma loopE_inv:
  assumes "loopE f xs s = Inr c" and "I s"
    and "\<And>x s c. x \<in> set xs \<Longrightarrow> I s \<Longrightarrow> f x s = Inr c \<Longrightarrow> I (ctl_state c)"
  shows "I (ctl_state c)"
  using assms
proof (induction xs arbitrary: s)
  case Nil
  then show ?case by auto
next
  case (Cons x xs)
  obtain c0 where c0: "f x s = Inr c0"
    using Cons.prems(1) by (cases "f x s") auto
  have I0: "I (ctl_state c0)"
    by (rule Cons.prems(3) [of x s]) (use Cons.prems(2) c0 in auto)
  show ?case
  proof (cases c0)
    case (Next s')
    have "loopE f xs s' = Inr c" using Cons.prems(1) c0 Next by simp
    moreover have "I s'" using I0 Next by simp
    ultimately show ?thesis using Cons.prems(3) by (intro Cons.IH) auto
  next
    case (Break s')
    then show ?thesis using Cons.prems(1) c0 I0 by auto
  next
    case (Return r s')
    then show ?thesis using Cons.prems(1) c0 I0 by auto
  qed
qed

lemma foldE_inv:
  assumes "foldE f xs s = Inr s'" and "I s"
    and "\<And>x s s'. x \<in> set xs \<Longrightarrow> I s \<Longrightarrow> f x s = Inr s' \<Longrightarrow> I s'"
  shows "I s'"
  using assms
proof (induction xs arbitrary: s)
  case Nil
  then show ?case by simp
next
  case (Cons x xs)
  obtain s1 where s1: "f x s = Inr s1" and rest: "foldE f xs s1 = Inr s'"
    using Cons.prems(1) by auto
  have "I s1" by (rule Cons.prems(3) [of x s]) (use Cons.prems(2) s1 in auto)
  with rest show ?case using Cons.prems(3) by (intro Cons.IH) auto
qed

text \<open>A loop whose steps all succeed under an invariant succeeds.\<close>

lemma foldE_total:
  assumes "I s" and "\<And>x s. x \<in> set xs \<Longrightarrow> I s \<Longrightarrow> \<exists>s'. f x s = Inr s' \<and> I s'"
  shows "\<exists>s'. foldE f xs s = Inr s' \<and> I s'"
  using assms
proof (induction xs arbitrary: s)
  case Nil
  then show ?case by simp
next
  case (Cons x xs)
  obtain s1 where "f x s = Inr s1" and "I s1"
    using Cons.prems by (meson list.set_intros(1))
  moreover have "\<exists>s'. foldE f xs s1 = Inr s' \<and> I s'"
    using Cons.prems(2) \<open>I s1\<close> by (intro Cons.IH) auto
  ultimately show ?case by auto
qed

lemma foldE_append: "foldE f (xs @ ys) s = bindE (foldE f xs s) (foldE f ys)"
proof (induction xs arbitrary: s)
  case Nil
  then show ?case by simp
next
  case (Cons x xs)
  then show ?case by (cases "f x s") simp_all
qed

lemma foldE_Inr_fold: "foldE (\<lambda>x s. Inr (f x s)) xs s = Inr (fold f xs s)"
  by (induction xs arbitrary: s) auto

section \<open>Simulations\<close>

text \<open>
  Functional refinement: the steps of a program that can fault, over states that satisfy an invariant,
  do on the abstraction of the state what the steps of a specification do. It carries over from one
  step to runs.
\<close>

locale simulation =
  fixes inv :: "'s \<Rightarrow> bool" and abstract :: "'s \<Rightarrow> 'a"
    and step :: "'op \<Rightarrow> 's \<Rightarrow> 's result" and spec_step :: "'op \<Rightarrow> 'a \<Rightarrow> 'a" and legal :: "'op \<Rightarrow> bool"
  assumes step_refines: "inv s \<Longrightarrow> legal op \<Longrightarrow>
    \<exists>s'. step op s = Inr s' \<and> inv s' \<and> abstract s' = spec_step op (abstract s)"
begin

lemma run_refines:
  assumes "inv s" "\<forall>op \<in> set ops. legal op"
  shows "\<exists>s'. foldE step ops s = Inr s' \<and> inv s' \<and> abstract s' = fold spec_step ops (abstract s)"
  using assms
proof (induction ops arbitrary: s)
  case (Cons op ops)
  obtain s1 where "step op s = Inr s1" "inv s1" "abstract s1 = spec_step op (abstract s)"
    using step_refines [of s op] Cons.prems by auto
  then show ?case using Cons.IH [of s1] Cons.prems(2) by simp
qed simp

text \<open>The step that has been taken, and what it has done.\<close>

lemma stepD:
  assumes "step op s = Inr s'" "inv s" "legal op"
  shows "inv s'" "abstract s' = spec_step op (abstract s)"
  using step_refines [OF assms(2,3)] assms(1) by auto

lemma step_returns: "inv s \<Longrightarrow> legal op \<Longrightarrow> step op s \<noteq> Inl e"
  using step_refines [of s op] by auto

end

end
