(* ===== verification/Floats.thy ===== *)
theory Floats
  imports Prelude
begin

text \<open>
  The C++ \<open>float\<close> of the program: IEEE 754 binary32 with round-to-nearest-even. A finite value is
  the integer \<open>k\<close> of units of \<open>2 ^ -149\<close>, the least positive binary32 value, so \<open>Fin k\<close> is the
  number \<open>k * 2 ^ -149\<close>. An operation computes the exact result as a quotient of integers and
  rounds it once, to 24 significant bits or to a whole unit. The model has one zero and one NaN:
  the sign of a zero is seen only by dividing by it or printing it, the payload of a NaN never.
\<close>

datatype flt = NaN | PInf | NInf | Fin int

section \<open>Rounding\<close>

text \<open>The integer nearest to \<open>n / d\<close>, ties to the even one.\<close>

definition rne :: "int \<Rightarrow> int \<Rightarrow> int" where
  "rne n d = (let q = n div d; r = n mod d
              in if 2 * r < d \<or> (2 * r = d \<and> even q) then q else q + 1)"

text \<open>The length of the binary notation of a positive integer.\<close>

function bits :: "int \<Rightarrow> nat" where
  "bits n = (if n \<le> 0 then 0 else 1 + bits (n div 2))"
  by pat_completeness auto
termination
  by (relation "measure nat") auto

declare bits.simps [simp del]

lemma bits_nonpos [simp]: "n \<le> 0 \<Longrightarrow> bits n = 0"
  by (simp add: bits.simps)

lemma bits_pos: "0 < n \<Longrightarrow> 0 < bits n"
  by (subst bits.simps) simp

lemma bits_upper: "n < 2 ^ bits n"
proof (induction n rule: bits.induct)
  case (1 n)
  then show ?case by (cases "n \<le> 0") (auto simp: bits.simps [of n])
qed

lemma bits_lower: "0 < n \<Longrightarrow> 2 ^ (bits n - 1) \<le> n"
proof (induction n rule: bits.induct)
  case (1 n)
  show ?case
  proof (cases "n = 1")
    case True
    then show ?thesis by (simp add: bits.simps [of 1])
  next
    case False
    with "1.prems" have half: "0 < n div 2" by simp
    then obtain b where b: "bits (n div 2) = Suc b"
      using bits_pos gr0_implies_Suc by blast
    have "2 ^ b \<le> n div 2" using "1.IH" "1.prems" half b by simp
    then show ?thesis using "1.prems" b by (simp add: bits.simps [of n])
  qed
qed

lemma bits_mono:
  assumes "m \<le> n"
  shows "bits m \<le> bits n"
proof (cases "0 < m")
  case True
  have "(2::int) ^ (bits m - 1) < 2 ^ bits n"
    using bits_lower [OF True] bits_upper [of n] assms by linarith
  then show ?thesis using bits_pos [OF True] by (simp add: power_strict_increasing_iff)
next
  case False
  then show ?thesis by simp
qed

text \<open>How many low bits of the unit count of \<open>n / d\<close> do not fit in 24 significant bits.\<close>

definition ulp_exp :: "int \<Rightarrow> int \<Rightarrow> nat" where
  "ulp_exp n d = bits (\<bar>n\<bar> div d) - 24"

definition rnd_units :: "int \<Rightarrow> int \<Rightarrow> int" where
  "rnd_units n d = rne n (d * 2 ^ ulp_exp n d) * 2 ^ ulp_exp n d"

text \<open>\<open>std::numeric_limits<float>::max()\<close> in units: \<open>(2 ^ 24 - 1) * 2 ^ 104\<close>.\<close>

definition fmax_units :: int where
  "fmax_units = (2 ^ 24 - 1) * 2 ^ 253"

definition FLT_MAX :: flt where "FLT_MAX = Fin fmax_units"

definition rnd :: "int \<Rightarrow> int \<Rightarrow> flt" where
  "rnd n d = (let k = rnd_units n d
              in if fmax_units < k then PInf else if k < - fmax_units then NInf else Fin k)"

text \<open>The integers that are binary32 values.\<close>

definition rep :: "int \<Rightarrow> bool" where
  "rep k \<longleftrightarrow> 2 ^ ulp_exp k 1 dvd k"

fun frep :: "flt \<Rightarrow> bool" where
  "frep (Fin k) \<longleftrightarrow> rep k \<and> \<bar>k\<bar> \<le> fmax_units"
| "frep _ \<longleftrightarrow> True"

section \<open>Operations\<close>

fun fneg :: "flt \<Rightarrow> flt" where
  "fneg NaN = NaN"
| "fneg PInf = NInf"
| "fneg NInf = PInf"
| "fneg (Fin k) = Fin (- k)"

fun ffabs :: "flt \<Rightarrow> flt" where
  "ffabs NaN = NaN"
| "ffabs PInf = PInf"
| "ffabs NInf = PInf"
| "ffabs (Fin k) = Fin \<bar>k\<bar>"

fun fadd :: "flt \<Rightarrow> flt \<Rightarrow> flt" where
  "fadd (Fin a) (Fin b) = rnd (a + b) 1"
| "fadd NaN y = NaN"
| "fadd x NaN = NaN"
| "fadd PInf NInf = NaN"
| "fadd NInf PInf = NaN"
| "fadd PInf y = PInf"
| "fadd NInf y = NInf"
| "fadd x PInf = PInf"
| "fadd x NInf = NInf"

definition fsub :: "flt \<Rightarrow> flt \<Rightarrow> flt" where
  "fsub x y = fadd x (fneg y)"

definition sgn_flt :: "flt \<Rightarrow> int" where
  "sgn_flt x = (case x of NaN \<Rightarrow> 0 | PInf \<Rightarrow> 1 | NInf \<Rightarrow> - 1 | Fin k \<Rightarrow> sgn k)"

definition inf_of_sgn :: "int \<Rightarrow> flt" where
  "inf_of_sgn s = (if s < 0 then NInf else if 0 < s then PInf else NaN)"

fun fmul :: "flt \<Rightarrow> flt \<Rightarrow> flt" where
  "fmul (Fin a) (Fin b) = rnd (a * b) (2 ^ 149)"
| "fmul NaN y = NaN"
| "fmul x NaN = NaN"
| "fmul x y = inf_of_sgn (sgn_flt x * sgn_flt y)"

fun fdiv :: "flt \<Rightarrow> flt \<Rightarrow> flt" where
  "fdiv (Fin a) (Fin b) =
     (if b = 0 then inf_of_sgn (sgn a) else rnd (a * sgn b * 2 ^ 149) \<bar>b\<bar>)"
| "fdiv NaN y = NaN"
| "fdiv x NaN = NaN"
| "fdiv (Fin a) y = Fin 0"
| "fdiv x (Fin b) = inf_of_sgn (sgn_flt x * (if b < 0 then - 1 else 1))"
| "fdiv x y = NaN"

text \<open>Conversion of an integer of the program, and a literal \<open>n / d\<close> of its source.\<close>

definition of_int_f :: "int \<Rightarrow> flt" where
  "of_int_f i = rnd (i * 2 ^ 149) 1"

definition lit_f :: "int \<Rightarrow> int \<Rightarrow> flt" where
  "lit_f n d = rnd (n * 2 ^ 149) d"

text \<open>\<open>static_cast<int>\<close> of a float: towards zero, undefined where the value does not fit.\<close>

definition trunc_units :: "int \<Rightarrow> int" where
  "trunc_units k = sgn k * (\<bar>k\<bar> div 2 ^ 149)"

fun to_int_f :: "flt \<Rightarrow> int result" where
  "to_int_f (Fin k) = int32 (trunc_units k)"
| "to_int_f _ = Inl UB"

section \<open>Comparison\<close>

definition isnan :: "flt \<Rightarrow> bool" where "isnan x \<longleftrightarrow> x = NaN"

fun flt_lt :: "flt \<Rightarrow> flt \<Rightarrow> bool" where
  "flt_lt (Fin a) (Fin b) \<longleftrightarrow> a < b"
| "flt_lt NInf (Fin b) \<longleftrightarrow> True"
| "flt_lt NInf PInf \<longleftrightarrow> True"
| "flt_lt (Fin a) PInf \<longleftrightarrow> True"
| "flt_lt _ _ \<longleftrightarrow> False"

definition flt_eq :: "flt \<Rightarrow> flt \<Rightarrow> bool" where
  "flt_eq x y \<longleftrightarrow> x = y \<and> x \<noteq> NaN"

definition flt_le :: "flt \<Rightarrow> flt \<Rightarrow> bool" where
  "flt_le x y \<longleftrightarrow> flt_lt x y \<or> flt_eq x y"

text \<open>\<open>std::max\<close>, \<open>std::min\<close> and \<open>std::clamp\<close> as the library defines them on \<open>operator<\<close>.\<close>

definition fmax_std :: "flt \<Rightarrow> flt \<Rightarrow> flt" where
  "fmax_std a b = (if flt_lt a b then b else a)"

definition fmin_std :: "flt \<Rightarrow> flt \<Rightarrow> flt" where
  "fmin_std a b = (if flt_lt b a then b else a)"

definition fclamp :: "flt \<Rightarrow> flt \<Rightarrow> flt \<Rightarrow> flt" where
  "fclamp v lo hi = (if flt_lt v lo then lo else if flt_lt hi v then hi else v)"

lemma isnan_simps [simp]:
  "isnan NaN" "\<not> isnan PInf" "\<not> isnan NInf" "\<not> isnan (Fin k)"
  by (simp_all add: isnan_def)

lemma flt_lt_NaN [simp]: "\<not> flt_lt NaN x" "\<not> flt_lt x NaN"
  by (cases x; simp)+

lemma flt_lt_irrefl [simp]: "\<not> flt_lt x x"
  by (cases x) auto

lemma flt_lt_trans: "flt_lt x y \<Longrightarrow> flt_lt y z \<Longrightarrow> flt_lt x z"
  by (cases x; cases y; cases z) auto

lemma flt_lt_asym: "flt_lt x y \<Longrightarrow> \<not> flt_lt y x"
  by (cases x; cases y) auto

lemma flt_le_simps [simp]:
  "flt_le (Fin a) (Fin b) \<longleftrightarrow> a \<le> b"
  "\<not> flt_le NaN x" "\<not> flt_le x NaN"
  "flt_le NInf (Fin a)" "flt_le (Fin a) PInf" "flt_le NInf PInf"
  "flt_le PInf PInf" "flt_le NInf NInf"
  "\<not> flt_le PInf (Fin a)" "\<not> flt_le PInf NInf" "\<not> flt_le (Fin a) NInf"
  by (auto simp: flt_le_def flt_eq_def)

lemma flt_le_refl: "\<not> isnan x \<Longrightarrow> flt_le x x"
  by (cases x) auto

lemma flt_le_trans: "flt_le x y \<Longrightarrow> flt_le y z \<Longrightarrow> flt_le x z"
  by (cases x; cases y; cases z) auto

lemma flt_lt_le_trans: "flt_lt x y \<Longrightarrow> flt_le y z \<Longrightarrow> flt_lt x z"
  by (cases x; cases y; cases z) auto

lemma flt_le_lt_trans: "flt_le x y \<Longrightarrow> flt_lt y z \<Longrightarrow> flt_lt x z"
  by (cases x; cases y; cases z) auto

lemma flt_not_lt: "\<not> isnan x \<Longrightarrow> \<not> isnan y \<Longrightarrow> \<not> flt_lt x y \<longleftrightarrow> flt_le y x"
  by (cases x; cases y) auto

lemma flt_not_le: "\<not> isnan x \<Longrightarrow> \<not> isnan y \<Longrightarrow> \<not> flt_le x y \<longleftrightarrow> flt_lt y x"
  by (cases x; cases y) auto

lemma flt_le_not_nan: "flt_le x y \<Longrightarrow> \<not> isnan x \<and> \<not> isnan y"
  by (cases x; cases y) auto

lemma flt_lt_imp_le: "flt_lt x y \<Longrightarrow> flt_le x y"
  by (simp add: flt_le_def)

lemma fclamp_bounds:
  "flt_le lo hi \<Longrightarrow> \<not> isnan v \<Longrightarrow> flt_le lo (fclamp v lo hi) \<and> flt_le (fclamp v lo hi) hi"
  by (cases v; cases lo; cases hi) (auto simp: fclamp_def)

lemma fclamp_nan: "fclamp NaN lo hi = NaN"
  by (simp add: fclamp_def)

section \<open>Rounding is monotone and exact on representable values\<close>

lemma rne_mono:
  assumes "0 < d" and "m \<le> n"
  shows "rne m d \<le> rne n d"
proof -
  have q: "m div d \<le> n div d" using assms by (simp add: zdiv_mono1)
  have up: "rne n d \<ge> n div d" and low: "rne m d \<le> m div d + 1"
    by (auto simp: rne_def Let_def)
  show ?thesis
  proof (cases "m div d = n div d")
    case True
    have "m mod d \<le> n mod d"
      using assms(2) True by (metis add_le_cancel_left div_mult_mod_eq)
    then show ?thesis using True by (auto simp: rne_def Let_def)
  next
    case False
    then have "m div d + 1 \<le> n div d" using q by simp
    then show ?thesis using up low by linarith
  qed
qed

lemma rne_exact: "0 < d \<Longrightarrow> rne (c * d) d = c"
  by (simp add: rne_def)

lemma rne_neg:
  assumes "0 < d"
  shows "rne (- n) d = - rne n d"
proof (cases "n mod d = 0")
  case True
  then obtain c where "n = d * c" by auto
  then have "n = c * d" "- n = (- c) * d" by simp_all
  then show ?thesis using rne_exact [OF assms] by metis
next
  case False
  have q: "(- n) div d = - (n div d) - 1" and r: "(- n) mod d = d - n mod d"
    using False assms by (simp_all add: zdiv_zminus1_eq_if zmod_zminus1_eq_if)
  show ?thesis using assms False unfolding rne_def Let_def q r by auto
qed

lemma ulp_exp_neg [simp]: "ulp_exp (- n) d = ulp_exp n d"
  by (simp add: ulp_exp_def)

lemma rnd_units_neg: "0 < d \<Longrightarrow> rnd_units (- n) d = - rnd_units n d"
  by (simp add: rnd_units_def rne_neg)

lemma rne_0 [simp]: "0 < d \<Longrightarrow> rne 0 d = 0"
  by (simp add: rne_def)

lemma rnd_units_0 [simp]: "0 < d \<Longrightarrow> rnd_units 0 d = 0"
  by (simp add: rnd_units_def)

lemma div_mult_bounds:
  fixes n d :: int
  assumes "0 < d"
  shows "n div d * d \<le> n" and "n < (n div d + 1) * d"
proof -
  have "n div d * d + n mod d = n" and "0 \<le> n mod d" and "n mod d < d"
    using assms by simp_all
  then show "n div d * d \<le> n" and "n < (n div d + 1) * d"
    unfolding distrib_right mult_1 by linarith+
qed

lemma ulp_exp_mono:
  "0 < d \<Longrightarrow> 0 \<le> m \<Longrightarrow> m \<le> n \<Longrightarrow> ulp_exp m d \<le> ulp_exp n d"
  by (simp add: ulp_exp_def bits_mono diff_le_mono zdiv_mono1)

text \<open>The magnitude lies just below \<open>2 ^ (24 + ulp_exp)\<close> units.\<close>

lemma ulp_exp_upper:
  assumes "0 < d" and "0 \<le> n"
  shows "n < 2 ^ (24 + ulp_exp n d) * d"
proof -
  have "n div d < 2 ^ bits (n div d)" by (rule bits_upper)
  also have "(2::int) ^ bits (n div d) \<le> 2 ^ (24 + ulp_exp n d)"
    using assms(2) by (intro power_increasing) (auto simp: ulp_exp_def)
  finally have "n div d < 2 ^ (24 + ulp_exp n d)" .
  then have "(n div d + 1) * d \<le> 2 ^ (24 + ulp_exp n d) * d"
    using assms(1) by (intro mult_right_mono) auto
  with div_mult_bounds(2) [OF assms(1), of n] show ?thesis by linarith
qed

lemma ulp_exp_lower:
  assumes "0 < d" and "0 \<le> n" and "0 < ulp_exp n d"
  shows "2 ^ (23 + ulp_exp n d) * d \<le> n"
proof -
  have f: "bits (n div d) = 24 + ulp_exp n d"
    using assms by (simp add: ulp_exp_def)
  then have "0 < n div d" by (metis bits_nonpos add_is_0 not_le zero_neq_numeral)
  from bits_lower [OF this] have "2 ^ (23 + ulp_exp n d) \<le> n div d"
    by (simp add: f)
  then have "2 ^ (23 + ulp_exp n d) * d \<le> (n div d) * d"
    using assms(1) by (simp add: mult_right_mono)
  also have "\<dots> \<le> n" by (rule div_mult_bounds(1) [OF assms(1)])
  finally show ?thesis .
qed

lemma rnd_units_mono_nonneg:
  assumes d: "0 < d" and m: "0 \<le> m" and mn: "m \<le> n"
  shows "rnd_units m d \<le> rnd_units n d"
proof -
  let ?s = "ulp_exp m d" and ?t = "ulp_exp n d"
  have st: "?s \<le> ?t" by (rule ulp_exp_mono [OF assms])
  show ?thesis
  proof (cases "?s = ?t")
    case True
    have "rne m (d * 2 ^ ?s) \<le> rne n (d * 2 ^ ?s)"
      by (rule rne_mono) (use d mn in auto)
    then show ?thesis using True by (simp add: rnd_units_def)
  next
    case False
    then have lt: "?s < ?t" using st by simp
    have "m \<le> 2 ^ 24 * (d * 2 ^ ?s)"
      using ulp_exp_upper [OF d m] by (simp add: power_add mult.commute mult.left_commute)
    then have "rne m (d * 2 ^ ?s) \<le> rne (2 ^ 24 * (d * 2 ^ ?s)) (d * 2 ^ ?s)"
      using d by (intro rne_mono) auto
    then have a: "rne m (d * 2 ^ ?s) \<le> 2 ^ 24"
      using d rne_exact [of "d * 2 ^ ?s" "2 ^ 24"] by simp
    have "2 ^ 23 * (d * 2 ^ ?t) \<le> n"
      using ulp_exp_lower [OF d, of n] m mn lt
      by (simp add: power_add mult.commute mult.left_commute)
    then have "rne (2 ^ 23 * (d * 2 ^ ?t)) (d * 2 ^ ?t) \<le> rne n (d * 2 ^ ?t)"
      using d by (intro rne_mono) auto
    then have b: "2 ^ 23 \<le> rne n (d * 2 ^ ?t)"
      using d rne_exact [of "d * 2 ^ ?t" "2 ^ 23"] by simp
    have "rnd_units m d \<le> 2 ^ 24 * 2 ^ ?s"
      unfolding rnd_units_def using a by (intro mult_right_mono) auto
    also have "\<dots> = 2 ^ 23 * 2 ^ (Suc ?s)" by simp
    also have "\<dots> \<le> 2 ^ 23 * 2 ^ ?t"
      using lt by (intro mult_left_mono power_increasing) auto
    also have "\<dots> \<le> rnd_units n d"
      unfolding rnd_units_def using b by (intro mult_right_mono) auto
    finally show ?thesis .
  qed
qed

lemma rnd_units_nonneg: "0 < d \<Longrightarrow> 0 \<le> n \<Longrightarrow> 0 \<le> rnd_units n d"
  using rnd_units_mono_nonneg [of d 0 n] by simp

lemma rnd_units_mono:
  assumes d: "0 < d" and mn: "m \<le> n"
  shows "rnd_units m d \<le> rnd_units n d"
proof (cases "0 \<le> m")
  case True
  then show ?thesis using rnd_units_mono_nonneg d mn by blast
next
  case m: False
  have neg: "rnd_units m d = - rnd_units (- m) d"
    using rnd_units_neg [OF d, of "- m"] by simp
  show ?thesis
  proof (cases "0 \<le> n")
    case True
    have "rnd_units m d \<le> 0" using neg rnd_units_nonneg [OF d, of "- m"] m by simp
    also have "0 \<le> rnd_units n d" using rnd_units_nonneg [OF d True] .
    finally show ?thesis .
  next
    case False
    have "rnd_units (- n) d \<le> rnd_units (- m) d"
      using False mn d by (intro rnd_units_mono_nonneg) auto
    then show ?thesis using neg rnd_units_neg [OF d, of "- n"] by simp
  qed
qed

lemma rnd_units_exact: "rep k \<Longrightarrow> rnd_units k 1 = k"
  unfolding rep_def rnd_units_def
  by (metis dvd_div_mult_self mult.commute mult_1 rne_exact zero_less_numeral zero_less_power)

text \<open>A product of at most 24 significant bits and a power of two is representable.\<close>

lemma rep_times_power:
  assumes "\<bar>c\<bar> \<le> 2 ^ 24"
  shows "rep (c * 2 ^ s)"
proof -
  let ?k = "\<bar>c * 2 ^ s\<bar>" and ?e = "ulp_exp (c * 2 ^ s) 1"
  have e: "?e = ulp_exp ?k 1" by (simp add: ulp_exp_def)
  show ?thesis
  proof (cases "?e \<le> s")
    case True
    then show ?thesis by (simp add: rep_def le_imp_power_dvd dvd_mult)
  next
    case False
    have "2 ^ (23 + ?e) \<le> ?k"
      using ulp_exp_lower [of 1 ?k] False e by simp
    also have le: "?k \<le> 2 ^ (24 + s)"
      using assms by (simp add: abs_mult power_add mult_right_mono)
    finally have "23 + ?e \<le> 24 + s" by simp
    with False have es: "?e = Suc s" by simp
    with \<open>2 ^ (23 + ?e) \<le> ?k\<close> le have "?k = 2 ^ (24 + s)" by (simp add: add.commute)
    then have "?k = 2 ^ ?e * 2 ^ 23" using es by (simp add: power_add)
    then have "2 ^ ?e dvd ?k" by (metis dvd_triv_left)
    then show ?thesis by (simp add: rep_def)
  qed
qed

lemma rnd_units_rep:
  assumes "0 < d"
  shows "rep (rnd_units n d)"
proof -
  let ?s = "ulp_exp n d" and ?a = "ulp_exp \<bar>n\<bar> d"
  have s: "?s = ?a" by (simp add: ulp_exp_def)
  have "\<bar>n\<bar> \<le> 2 ^ 24 * (d * 2 ^ ?s)"
    using ulp_exp_upper [OF assms, of "\<bar>n\<bar>"] s
    by (simp add: power_add mult.commute mult.left_commute)
  then have "rne \<bar>n\<bar> (d * 2 ^ ?s) \<le> rne (2 ^ 24 * (d * 2 ^ ?s)) (d * 2 ^ ?s)"
    using assms by (intro rne_mono) auto
  then have up: "rne \<bar>n\<bar> (d * 2 ^ ?s) \<le> 2 ^ 24"
    using assms rne_exact [of "d * 2 ^ ?s" "2 ^ 24"] by simp
  have "rne 0 (d * 2 ^ ?s) \<le> rne \<bar>n\<bar> (d * 2 ^ ?s)"
    using assms by (intro rne_mono) auto
  then have low: "0 \<le> rne \<bar>n\<bar> (d * 2 ^ ?s)" using assms by simp
  have "\<bar>rne n (d * 2 ^ ?s)\<bar> \<le> 2 ^ 24"
    using up low rne_neg [of "d * 2 ^ ?s" n] assms by (cases "0 \<le> n") auto
  then show ?thesis unfolding rnd_units_def by (rule rep_times_power)
qed

section \<open>What arithmetic relies on: the rounding interface\<close>

text \<open>
  Everything the components use of rounding follows from three laws: it is monotone, its results
  are representable, and it leaves representable values alone.
\<close>

locale rounding =
  fixes rd :: "int \<Rightarrow> int" and rp :: "int \<Rightarrow> bool"
  assumes rd_mono: "m \<le> n \<Longrightarrow> rd m \<le> rd n"
    and rp_rd: "rp (rd n)"
    and rd_rp: "rp n \<Longrightarrow> rd n = n"
begin

lemma rd_idem: "rd (rd n) = rd n"
  by (rule rd_rp [OF rp_rd])

lemma rd_ge: "rp a \<Longrightarrow> a \<le> n \<Longrightarrow> a \<le> rd n"
  using rd_mono [of a n] rd_rp [of a] by simp

lemma rd_le: "rp a \<Longrightarrow> n \<le> a \<Longrightarrow> rd n \<le> a"
  using rd_mono [of n a] rd_rp [of a] by simp

lemma rd_minus_le: "rp a \<Longrightarrow> 0 \<le> b \<Longrightarrow> rd (a - b) \<le> a"
  by (rule rd_le) simp_all

lemma rd_plus_ge: "rp a \<Longrightarrow> 0 \<le> b \<Longrightarrow> a \<le> rd (a + b)"
  by (rule rd_ge) simp_all

end

interpretation f32: rounding "\<lambda>n. rnd_units n 1" rep
  by unfold_locales (auto intro: rnd_units_mono rnd_units_rep rnd_units_exact)

lemma fmax_units_pos [simp]: "0 < fmax_units" "0 \<le> fmax_units" "\<not> fmax_units < 0"
  by (simp_all add: fmax_units_def)

lemma rnd_mono: "0 < d \<Longrightarrow> m \<le> n \<Longrightarrow> flt_le (rnd m d) (rnd n d)"
  using rnd_units_mono [of d m n] by (auto simp: rnd_def Let_def)

lemma rnd_exact: "frep (Fin k) \<Longrightarrow> rnd k 1 = Fin k"
  by (auto simp: rnd_def Let_def f32.rd_rp)

lemma rnd_not_nan [simp]: "rnd n d \<noteq> NaN" "\<not> isnan (rnd n d)"
  by (simp_all add: rnd_def Let_def)

lemma rnd_0 [simp]: "0 < d \<Longrightarrow> rnd 0 d = Fin 0"
  by (simp add: rnd_def Let_def less_imp_le)

lemma frep_rnd: "0 < d \<Longrightarrow> frep (rnd n d)"
  by (auto simp: rnd_def Let_def rnd_units_rep)

lemma frep_0 [simp]: "frep (Fin 0)"
  by (simp add: rep_def)

lemma rnd_le_iff_exact: "frep (Fin a) \<Longrightarrow> m \<le> a \<Longrightarrow> flt_le (rnd m 1) (Fin a)"
  using rnd_mono [of 1 m a] rnd_exact [of a] by simp

lemma rnd_ge_iff_exact: "frep (Fin a) \<Longrightarrow> a \<le> m \<Longrightarrow> flt_le (Fin a) (rnd m 1)"
  using rnd_mono [of 1 a m] rnd_exact [of a] by simp

text \<open>Subtracting something non-negative never gives a larger float.\<close>

lemma fsub_nonneg_le:
  assumes "frep x" and "flt_le (Fin 0) h" and "\<not> isnan (fsub x h)"
  shows "flt_le (fsub x h) x"
  using assms by (cases x; cases h) (auto simp: fsub_def intro: rnd_le_iff_exact)

lemma fsub_not_nan: "\<not> isnan x \<Longrightarrow> flt_le (Fin 0) (Fin h) \<Longrightarrow> \<not> isnan (fsub x (Fin h))"
  by (cases x) (auto simp: fsub_def)

lemma frep_fadd: "frep (fadd x y)"
  by (cases x; cases y) (auto intro: frep_rnd)

lemma frep_fneg: "frep x \<Longrightarrow> frep (fneg x)"
  by (cases x) (auto simp: rep_def)

lemma frep_of_int_f: "frep (of_int_f i)"
  by (simp add: of_int_f_def frep_rnd)

lemma of_int_f_mono: "i \<le> j \<Longrightarrow> flt_le (of_int_f i) (of_int_f j)"
  by (simp add: of_int_f_def rnd_mono)

lemma of_int_f_0 [simp]: "of_int_f 0 = Fin 0"
  by (simp add: of_int_f_def)

lemma of_int_f_not_nan [simp]: "of_int_f i \<noteq> NaN" "\<not> isnan (of_int_f i)"
  by (simp_all add: of_int_f_def)

text \<open>Closed float terms are evaluated by these equations.\<close>

lemmas flt_eval =
  rnd_def rnd_units_def ulp_exp_def rne_def fmax_units_def FLT_MAX_def bits.simps
  of_int_f_def lit_f_def trunc_units_def fsub_def inf_of_sgn_def sgn_flt_def Let_def

end
