(* ===== verification/ThermalTypes.thy ===== *)
theory ThermalTypes
  imports Floats
begin

text \<open>
  The data of the thermal HAL (aidl/thermal/utils/thermal_info.h, thermal_throttling.h,
  power_files.h and thermal-helper.h): the throttling severities and the records that the
  configuration parser fills and the throttling algorithms read. Record fields carry the name of
  the C++ member behind a short tag of its struct, because several structs share member names.
\<close>

section \<open>Severities\<close>

datatype severity = NONE | LIGHT | MODERATE | SEVERE | CRITICAL | EMERGENCY | SHUTDOWN

definition sev_idx :: "severity \<Rightarrow> nat" where
  "sev_idx s = (case s of NONE \<Rightarrow> 0 | LIGHT \<Rightarrow> 1 | MODERATE \<Rightarrow> 2 | SEVERE \<Rightarrow> 3
                 | CRITICAL \<Rightarrow> 4 | EMERGENCY \<Rightarrow> 5 | SHUTDOWN \<Rightarrow> 6)"

lemma sev_idx_simps [simp]:
  "sev_idx NONE = 0" "sev_idx LIGHT = 1" "sev_idx MODERATE = 2" "sev_idx SEVERE = 3"
  "sev_idx CRITICAL = 4" "sev_idx EMERGENCY = 5" "sev_idx SHUTDOWN = 6"
  by (simp_all add: sev_idx_def)

lemma sev_idx_inj [simp]: "sev_idx s = sev_idx t \<longleftrightarrow> s = t"
  by (cases s; cases t) simp_all

instantiation severity :: linorder
begin

definition less_eq_severity :: "severity \<Rightarrow> severity \<Rightarrow> bool" where
  "less_eq_severity s t \<longleftrightarrow> sev_idx s \<le> sev_idx t"

definition less_severity :: "severity \<Rightarrow> severity \<Rightarrow> bool" where
  "less_severity s t \<longleftrightarrow> sev_idx s < sev_idx t"

instance
proof
  fix s t u :: severity
  show "s < t \<longleftrightarrow> s \<le> t \<and> \<not> t \<le> s"
    by (auto simp: less_eq_severity_def less_severity_def)
  show "s \<le> s" by (simp add: less_eq_severity_def)
  show "s \<le> t \<Longrightarrow> t \<le> u \<Longrightarrow> s \<le> u" by (simp add: less_eq_severity_def)
  show "s \<le> t \<Longrightarrow> t \<le> s \<Longrightarrow> s = t" by (simp add: less_eq_severity_def)
  show "s \<le> t \<or> t \<le> s" by (auto simp: less_eq_severity_def)
qed

end

lemmas sev_order = less_eq_severity_def less_severity_def

lemma NONE_le [simp]: "NONE \<le> s" "\<not> s < NONE" "s \<le> NONE \<longleftrightarrow> s = NONE"
  by (cases s; simp add: sev_order)+

lemma le_SHUTDOWN [simp]: "s \<le> SHUTDOWN" "\<not> SHUTDOWN < s"
  by (cases s; simp add: sev_order)+

text \<open>\<open>::ndk::enum_range<ThrottlingSeverity>()\<close>\<close>

definition sev_range :: "severity list" where
  "sev_range = [NONE, LIGHT, MODERATE, SEVERE, CRITICAL, EMERGENCY, SHUTDOWN]"

lemma sev_range_all [simp]: "s \<in> set sev_range"
  by (cases s) (simp_all add: sev_range_def)

lemma sorted_sev_range: "sorted_wrt (<) sev_range"
  by (simp add: sev_range_def sev_order)

text \<open>\<open>ThrottlingArray\<close> and \<open>CdevArray\<close>: one element for each severity.\<close>

type_synonym 'a sev_array = "severity \<Rightarrow> 'a"

definition sev_array_of :: "'a list \<Rightarrow> 'a sev_array" where
  "sev_array_of xs s = xs ! sev_idx s"

section \<open>Configuration records\<close>

datatype ReleaseLogic = INCREASE | DECREASE | STEPWISE | RELEASE_TO_FLOOR | RELEASE_NONE

record BindedCdevInfo =
  bc_limit_info :: "int sev_array"
  bc_power_thresholds :: "flt sev_array"
  bc_release_logic :: ReleaseLogic
  bc_cdev_weight_for_pid :: "flt sev_array"
  bc_cdev_ceiling :: "int sev_array"
  bc_max_release_step :: int
  bc_max_throttle_step :: int
  bc_cdev_floor_with_power_link :: "int sev_array"
  bc_power_rail :: string
  bc_high_power_check :: bool
  bc_throttling_with_power_link :: bool
  bc_enabled :: bool

record ThrottlingInfo =
  ti_k_po :: "flt sev_array"
  ti_k_pu :: "flt sev_array"
  ti_k_io :: "flt sev_array"
  ti_k_iu :: "flt sev_array"
  ti_k_d :: "flt sev_array"
  ti_i_max :: "flt sev_array"
  ti_max_alloc_power :: "flt sev_array"
  ti_min_alloc_power :: "flt sev_array"
  ti_s_power :: "flt sev_array"
  ti_i_cutoff :: "flt sev_array"
  ti_i_default :: flt
  ti_i_default_pct :: flt
  ti_tran_cycle :: int
  ti_excluded_power_info_map :: "flt sev_array smap"
  ti_binded_cdev_info_map :: "BindedCdevInfo smap"
  ti_profile_map :: "BindedCdevInfo smap smap"

record PredictorInfo =
  pi_sensor :: string
  pi_support_pid_compensation :: bool
  pi_prediction_weights :: "flt list"
  pi_k_p_compensate :: "flt sev_array"
  pi_supports_predictions :: bool
  pi_prediction_sample_interval :: int
  pi_num_prediction_samples :: int
  pi_prediction_duration :: int

datatype FormulaOption = COUNT_THRESHOLD | WEIGHTED_AVG | MAXIMUM | MINIMUM | USE_ML_MODEL
  | USE_LINEAR_MODEL | PREVIOUSLY_PREDICTED

datatype SensorFusionType = SENSOR | ODPM | CONSTANT | CDEV

datatype SensorReadStatus = OKAY | UNDER_COLLECTING | ERROR

record VirtualSensorInfo =
  vs_linked_sensors :: "string list"
  vs_linked_sensors_type :: "SensorFusionType list"
  vs_coefficients :: "string list"
  vs_coefficients_type :: "SensorFusionType list"
  vs_offset :: flt
  vs_trigger_sensors :: "string list"
  vs_formula :: FormulaOption
  vs_backup_sensor :: string

text \<open>The aidl \<open>TemperatureType\<close> of a sensor is only stored, compared and reported: a number.\<close>

record SensorInfo =
  si_type :: int
  si_hot_thresholds :: "flt sev_array"
  si_cold_thresholds :: "flt sev_array"
  si_hot_hysteresis :: "flt sev_array"
  si_cold_hysteresis :: "flt sev_array"
  si_temp_path :: string
  si_severity_reference :: "string list"
  si_zone_name :: string
  si_vr_threshold :: flt
  si_multiplier :: flt
  si_polling_delay :: int
  si_passive_delay :: int
  si_time_resolution :: int
  si_step_ratio :: flt
  si_send_cb :: bool
  si_send_powerhint :: bool
  si_is_watch :: bool
  si_is_hidden :: bool
  si_is_trip_point_ignorable :: bool
  si_log_level :: severity
  si_virtual_sensor_info :: "VirtualSensorInfo option"
  si_throttling_info :: "ThrottlingInfo option"
  si_predictor_info :: "PredictorInfo option"

record CdevInfo =
  ci_type :: int
  ci_read_path :: string
  ci_write_path :: string
  ci_state2power :: "flt list"
  ci_max_state :: int
  ci_apply_powercap :: bool
  ci_multiplier :: flt

text \<open>The aidl parcelable \<open>Temperature\<close>.\<close>

record Temperature =
  tp_type :: int
  tp_name :: string
  tp_value :: flt
  tp_throttlingStatus :: severity

section \<open>State records\<close>

record PowerSample =
  ps_energy_counter :: nat
  ps_duration :: nat

record PowerStatus =
  pw_last_update_time :: int
  pw_power_history :: "PowerSample list list"
  pw_last_updated_avg_power :: flt
  pw_enabled :: bool

text \<open>
  \<open>prev_target\<close> is declared \<open>float\<close> and only ever holds one of the numbers 0 to 6 of a severity,
  all of them exact in binary32: it is a severity here.
\<close>

record ThermalThrottlingStatus =
  ts_pid_power_budget_map :: "int smap"
  ts_pid_cdev_request_map :: "int smap"
  ts_hardlimit_cdev_request_map :: "int smap"
  ts_throttling_release_map :: "int smap"
  ts_cdev_status_map :: "int smap"
  ts_prev_err :: flt
  ts_i_budget :: flt
  ts_prev_target :: severity
  ts_prev_power_budget :: flt
  ts_budget_transient :: flt
  ts_tran_cycle :: int
  ts_profile :: string

section \<open>Concrete sensors and devices\<close>

text \<open>
  One concrete configuration, for the closed instances that show that the hypotheses of the
  theorems can hold: a sensor \<open>cpu\<close> with one cooling device \<open>fan\<close> of six states.
\<close>

definition ex_binding :: BindedCdevInfo where
  "ex_binding = \<lparr> bc_limit_info = sev_array_of [0, 0, 1, 3, 4, 5, 5],
     bc_power_thresholds = (\<lambda>_. NaN), bc_release_logic = RELEASE_NONE,
     bc_cdev_weight_for_pid = (\<lambda>_. NaN), bc_cdev_ceiling = (\<lambda>_. 5),
     bc_max_release_step = INT_MAX, bc_max_throttle_step = INT_MAX,
     bc_cdev_floor_with_power_link = (\<lambda>_. 0), bc_power_rail = [],
     bc_high_power_check = False, bc_throttling_with_power_link = False, bc_enabled = True \<rparr>"

text \<open>The same device driven by the PID controller and watched on the power rail \<open>S1M\<close>.\<close>

definition ex_pid_binding :: BindedCdevInfo where
  "ex_pid_binding = ex_binding\<lparr> bc_limit_info := (\<lambda>_. 0),
     bc_cdev_weight_for_pid := (\<lambda>_. of_int_f 1), bc_power_rail := ''S1M'' \<rparr>"

definition ex_info :: ThrottlingInfo where
  "ex_info = \<lparr> ti_k_po = (\<lambda>_. of_int_f 100), ti_k_pu = (\<lambda>_. of_int_f 50),
     ti_k_io = (\<lambda>_. Fin 0), ti_k_iu = (\<lambda>_. Fin 0), ti_k_d = (\<lambda>_. Fin 0),
     ti_i_max = (\<lambda>_. of_int_f 200), ti_max_alloc_power = (\<lambda>_. of_int_f 4000),
     ti_min_alloc_power = (\<lambda>_. of_int_f 500),
     ti_s_power = sev_array_of [NaN, NaN, of_int_f 3000, of_int_f 2000, NaN, NaN, NaN],
     ti_i_cutoff = (\<lambda>_. NaN), ti_i_default = Fin 0, ti_i_default_pct = NaN,
     ti_tran_cycle = 0, ti_excluded_power_info_map = [],
     ti_binded_cdev_info_map = [(''fan'', ex_binding)], ti_profile_map = [] \<rparr>"

definition ex_pid_info :: ThrottlingInfo where
  "ex_pid_info = ex_info\<lparr>ti_binded_cdev_info_map := [(''fan'', ex_pid_binding)]\<rparr>"

definition ex_sensor :: "ThrottlingInfo \<Rightarrow> SensorInfo" where
  "ex_sensor info = \<lparr> si_type = 0,
     si_hot_thresholds = sev_array_of [NaN, of_int_f 40, of_int_f 45, of_int_f 50, NaN, NaN, of_int_f 60],
     si_cold_thresholds = (\<lambda>_. NaN), si_hot_hysteresis = (\<lambda>_. of_int_f 2),
     si_cold_hysteresis = (\<lambda>_. Fin 0), si_temp_path = [], si_severity_reference = [],
     si_zone_name = [], si_vr_threshold = NaN, si_multiplier = of_int_f 1,
     si_polling_delay = 2000, si_passive_delay = 1000, si_time_resolution = 0,
     si_step_ratio = NaN, si_send_cb = True, si_send_powerhint = False, si_is_watch = True,
     si_is_hidden = False, si_is_trip_point_ignorable = False, si_log_level = NONE,
     si_virtual_sensor_info = None, si_throttling_info = Some info,
     si_predictor_info = None \<rparr>"

definition ex_cdev :: CdevInfo where
  "ex_cdev = \<lparr> ci_type = 0, ci_read_path = [], ci_write_path = [],
     ci_state2power = map of_int_f [4000, 3000, 2000, 1500, 1000, 500], ci_max_state = 5,
     ci_apply_powercap = False, ci_multiplier = of_int_f 1 \<rparr>"

definition ex_cdevs :: "CdevInfo smap" where
  "ex_cdevs = [(''fan'', ex_cdev)]"

definition ex_temp :: "flt \<Rightarrow> Temperature" where
  "ex_temp v = \<lparr>tp_type = 0, tp_name = ''cpu'', tp_value = v, tp_throttlingStatus = NONE\<rparr>"

lemmas ex_defs = ex_binding_def ex_pid_binding_def ex_info_def ex_pid_info_def ex_sensor_def
  ex_cdev_def ex_cdevs_def ex_temp_def sev_array_of_def

end
