(* ===== verification/Throttling.thy ===== *)
theory Throttling
  imports Prelude ThermalTypes
begin

text \<open>
  The \<open>std::multiset<int, std::greater<int>>\<close> of \<open>cdev_all_request_map_\<close>
  (aidl/thermal/utils/thermal_throttling.h): the votes of all sensors for one cooling device, the
  largest first. The interface is what the throttling code calls, \<open>insert\<close>, \<open>erase(find(x))\<close>
  and \<open>*begin()\<close>; the container is a list in descending order.
\<close>

text \<open>\<open>request_set.insert(x)\<close>\<close>

fun votes_insert :: "int \<Rightarrow> int list \<Rightarrow> int list" where
  "votes_insert x [] = [x]"
| "votes_insert x (y # ys) = (if y < x then x # y # ys else y # votes_insert x ys)"

text \<open>\<open>request_set.erase(request_set.find(x))\<close>: undefined when \<open>x\<close> is not there\<close>

definition votes_erase :: "int \<Rightarrow> int list \<Rightarrow> int list result" where
  "votes_erase x xs = (if x \<in> set xs then Inr (remove1 x xs) else Inl UB)"

text \<open>\<open>*request_set.begin()\<close>: undefined on the empty set\<close>

definition votes_begin :: "int list \<Rightarrow> int result" where
  "votes_begin xs = (case xs of [] \<Rightarrow> Inl UB | x # _ \<Rightarrow> Inr x)"

definition votes_inv :: "int list \<Rightarrow> bool" where
  "votes_inv xs \<longleftrightarrow> sorted_wrt (\<ge>) xs"

section \<open>The interface\<close>

locale vote_set =
  fixes ins :: "int \<Rightarrow> 's \<Rightarrow> 's"
    and era :: "int \<Rightarrow> 's \<Rightarrow> 's result"
    and top :: "'s \<Rightarrow> int result"
    and abs :: "'s \<Rightarrow> int multiset"
    and inv :: "'s \<Rightarrow> bool"
  assumes abs_ins: "inv s \<Longrightarrow> abs (ins x s) = add_mset x (abs s)"
    and inv_ins: "inv s \<Longrightarrow> inv (ins x s)"
    and era_member: "inv s \<Longrightarrow> x \<in># abs s \<Longrightarrow>
          \<exists>s'. era x s = Inr s' \<and> inv s' \<and> abs s' = abs s - {#x#}"
    and top_Max: "inv s \<Longrightarrow> abs s \<noteq> {#} \<Longrightarrow> top s = Inr (Max (set_mset (abs s)))"
begin

text \<open>Replacing one vote by another: the step of \<open>updateCdevMaxRequestAndNotifyIfChange\<close>.\<close>

definition replace :: "int \<Rightarrow> int \<Rightarrow> 's \<Rightarrow> ('s \<times> bool) result" where
  "replace old new s =
     bindE (top s) (\<lambda>m.
     bindE (era old s) (\<lambda>s1.
     let s2 = ins new s1 in
     bindE (top s2) (\<lambda>m'. Inr (s2, m' \<noteq> m))))"

lemma replace_spec:
  assumes inv: "inv s" and old: "old \<in># abs s"
  shows "\<exists>s'. replace old new s =
      Inr (s', Max (set_mset (add_mset new (abs s - {#old#}))) \<noteq> Max (set_mset (abs s)))
    \<and> inv s' \<and> abs s' = add_mset new (abs s - {#old#})"
proof -
  obtain s1 where s1: "era old s = Inr s1" "inv s1" "abs s1 = abs s - {#old#}"
    using era_member [OF inv old] by blast
  have "abs s \<noteq> {#}" using old by auto
  moreover have "abs (ins new s1) \<noteq> {#}" using abs_ins [OF s1(2)] by simp
  ultimately show ?thesis
    using s1 top_Max [OF inv] top_Max [OF inv_ins [OF s1(2)]] abs_ins [OF s1(2)]
      inv_ins [OF s1(2)]
    by (simp add: replace_def Let_def)
qed

end

section \<open>The sorted list is a vote set\<close>

lemma mset_votes_insert [simp]: "mset (votes_insert x xs) = add_mset x (mset xs)"
  by (induction xs) auto

lemma set_votes_insert [simp]: "set (votes_insert x xs) = insert x (set xs)"
  by (induction xs) auto

lemma votes_inv_insert: "votes_inv xs \<Longrightarrow> votes_inv (votes_insert x xs)"
  unfolding votes_inv_def by (induction xs) auto

lemma votes_inv_remove1: "votes_inv xs \<Longrightarrow> votes_inv (remove1 x xs)"
  unfolding votes_inv_def by (induction xs) (auto dest: set_remove1_subset [THEN subsetD])

lemma votes_begin_Max:
  assumes "votes_inv xs" and "xs \<noteq> []"
  shows "votes_begin xs = Inr (Max (set xs))"
proof (cases xs)
  case Nil
  with assms(2) show ?thesis by simp
next
  case (Cons y ys)
  have "Max (set (y # ys)) = y"
    using assms(1) Cons by (intro Max_eqI) (auto simp: votes_inv_def)
  then show ?thesis using Cons by (simp add: votes_begin_def)
qed

interpretation votes: vote_set votes_insert votes_erase votes_begin mset votes_inv
proof unfold_locales
  fix x :: int and s
  assume inv: "votes_inv s"
  show "mset (votes_insert x s) = add_mset x (mset s)" by simp
  show "votes_inv (votes_insert x s)" using inv by (rule votes_inv_insert)
  show "x \<in># mset s \<Longrightarrow>
      \<exists>s'. votes_erase x s = Inr s' \<and> votes_inv s' \<and> mset s' = mset s - {#x#}"
    using inv by (simp add: votes_erase_def votes_inv_remove1)
  show "mset s \<noteq> {#} \<Longrightarrow> votes_begin s = Inr (Max (set_mset (mset s)))"
    using inv by (simp add: votes_begin_Max)
qed

section \<open>The throttling of a sensor\<close>

text \<open>
  The state of \<open>class ThermalThrottling\<close> (aidl/thermal/utils/thermal_throttling.cpp) and its
  operations apart from the PID power budget, which is in PidBudget: registration of a sensor,
  clearing, the hard limit and release algorithms, and the aggregation of the votes of all
  sensors into one request for each cooling device.
\<close>

record throttling_state =
  th_status_map :: "ThermalThrottlingStatus smap"
  th_cdev_all_request_map :: "int list smap"

text \<open>\<open>ThermalThrottlingStatus\<close> as \<open>operator[]\<close> creates it for a fresh sensor.\<close>

definition empty_status :: ThermalThrottlingStatus where
  "empty_status = \<lparr> ts_pid_power_budget_map = [], ts_pid_cdev_request_map = [],
     ts_hardlimit_cdev_request_map = [], ts_throttling_release_map = [], ts_cdev_status_map = [],
     ts_prev_err = Fin 0, ts_i_budget = Fin 0, ts_prev_target = NONE,
     ts_prev_power_budget = Fin 0, ts_budget_transient = Fin 0, ts_tran_cycle = 0,
     ts_profile = [] \<rparr>"

section \<open>PID target, profile, clearing\<close>

fun pid_target_loop :: "flt sev_array \<Rightarrow> severity \<Rightarrow> severity list \<Rightarrow> severity \<Rightarrow> severity" where
  "pid_target_loop s_power cur [] target = target"
| "pid_target_loop s_power cur (s # ss) target =
     (if isnan (s_power s) then pid_target_loop s_power cur ss target
      else if cur < s then s
      else pid_target_loop s_power cur ss s)"

definition getTargetStateOfPID :: "ThrottlingInfo \<Rightarrow> severity \<Rightarrow> severity" where
  "getTargetStateOfPID info cur = pid_target_loop (ti_s_power info) cur sev_range NONE"

text \<open>
  \<open>get_property\<close> is \<open>android::base::GetProperty(key, "")\<close>, the system property service.
\<close>

definition parseProfileProperty ::
    "(string \<Rightarrow> string) \<Rightarrow> string \<Rightarrow> SensorInfo \<Rightarrow> ThermalThrottlingStatus \<Rightarrow> ThermalThrottlingStatus"
where
  "parseProfileProperty get_property sensor_name si st =
     (case si_throttling_info si of
        None \<Rightarrow> st
      | Some info \<Rightarrow>
          let profile = get_property (''vendor.thermal.'' @ sensor_name @ ''.profile'')
          in if profile = [] \<or> has (ti_profile_map info) profile
             then (if profile \<noteq> ts_profile st then st\<lparr>ts_profile := profile\<rparr> else st)
             else st\<lparr>ts_profile := []\<rparr>)"

definition clear_status :: "ThermalThrottlingStatus \<Rightarrow> ThermalThrottlingStatus" where
  "clear_status st = st\<lparr>
     ts_pid_power_budget_map := fill_all INT_MAX (ts_pid_power_budget_map st),
     ts_pid_cdev_request_map := fill_all 0 (ts_pid_cdev_request_map st),
     ts_hardlimit_cdev_request_map := fill_all 0 (ts_hardlimit_cdev_request_map st),
     ts_throttling_release_map := fill_all 0 (ts_throttling_release_map st),
     ts_prev_err := NaN, ts_i_budget := NaN, ts_prev_target := NONE,
     ts_prev_power_budget := NaN, ts_tran_cycle := 0 \<rparr>"

definition clearThrottlingData :: "string \<Rightarrow> throttling_state \<Rightarrow> throttling_state" where
  "clearThrottlingData sensor_name th =
     (case map_of (th_status_map th) sensor_name of
        None \<Rightarrow> th
      | Some st \<Rightarrow> th\<lparr>th_status_map := put sensor_name (clear_status st) (th_status_map th)\<rparr>)"

section \<open>Registration\<close>

definition votes_of :: "throttling_state \<Rightarrow> string \<Rightarrow> int list" where
  "votes_of th cdev = (case map_of (th_cdev_all_request_map th) cdev of None \<Rightarrow> [] | Some v \<Rightarrow> v)"

text \<open>\<open>cdev_all_request_map_[cdev].insert(0)\<close>\<close>

definition add_zero_vote :: "string \<Rightarrow> throttling_state \<Rightarrow> throttling_state" where
  "add_zero_vote cdev th = th\<lparr>th_cdev_all_request_map :=
     put cdev (votes_insert 0 (votes_of th cdev)) (th_cdev_all_request_map th)\<rparr>"

definition upd_status ::
    "string \<Rightarrow> (ThermalThrottlingStatus \<Rightarrow> ThermalThrottlingStatus) \<Rightarrow> throttling_state \<Rightarrow> throttling_state"
where
  "upd_status sensor f th = th\<lparr>th_status_map :=
     put sensor (f (case map_of (th_status_map th) sensor of None \<Rightarrow> empty_status | Some st \<Rightarrow> st))
       (th_status_map th)\<rparr>"

definition register_pid :: "string \<Rightarrow> string \<Rightarrow> throttling_state \<Rightarrow> throttling_state" where
  "register_pid sensor cdev th = add_zero_vote cdev (upd_status sensor (\<lambda>st. st\<lparr>
     ts_pid_power_budget_map := put cdev INT_MAX (ts_pid_power_budget_map st),
     ts_pid_cdev_request_map := put cdev 0 (ts_pid_cdev_request_map st),
     ts_cdev_status_map := put cdev 0 (ts_cdev_status_map st)\<rparr>) th)"

definition register_hardlimit :: "string \<Rightarrow> string \<Rightarrow> throttling_state \<Rightarrow> throttling_state" where
  "register_hardlimit sensor cdev th = add_zero_vote cdev (upd_status sensor (\<lambda>st. st\<lparr>
     ts_hardlimit_cdev_request_map := put cdev 0 (ts_hardlimit_cdev_request_map st),
     ts_cdev_status_map := put cdev 0 (ts_cdev_status_map st)\<rparr>) th)"

definition register_release :: "string \<Rightarrow> string \<Rightarrow> throttling_state \<Rightarrow> throttling_state" where
  "register_release sensor cdev th = upd_status sensor (\<lambda>st. st\<lparr>
     ts_throttling_release_map := put cdev 0 (ts_throttling_release_map st)\<rparr>) th"

definition register_cdev ::
    "string \<Rightarrow> string \<times> BindedCdevInfo \<Rightarrow> throttling_state \<Rightarrow> throttling_state"
where
  "register_cdev sensor p th =
     (let cdev = fst p; bc = snd p;
          th1 = (if list_ex (\<lambda>s. \<not> isnan (bc_cdev_weight_for_pid bc s)) sev_range
                 then register_pid sensor cdev th else th);
          th2 = (if list_ex (\<lambda>s. 0 < bc_limit_info bc s) sev_range
                 then register_hardlimit sensor cdev th1 else th1)
      in if bc_power_rail bc \<noteq> [] \<and> list_ex (\<lambda>s. \<not> isnan (bc_power_thresholds bc s)) sev_range
         then register_release sensor cdev th2 else th2)"

fun register_cdevs ::
    "string \<Rightarrow> CdevInfo smap \<Rightarrow> BindedCdevInfo smap \<Rightarrow> throttling_state \<Rightarrow> bool \<times> throttling_state"
where
  "register_cdevs sensor cdevs [] th = (True, th)"
| "register_cdevs sensor cdevs (p # ps) th =
     (if has cdevs (fst p) then register_cdevs sensor cdevs ps (register_cdev sensor p th)
      else (False, th))"

definition registerThermalThrottling ::
    "string \<Rightarrow> ThrottlingInfo option \<Rightarrow> CdevInfo smap \<Rightarrow> throttling_state \<Rightarrow> bool \<times> throttling_state"
where
  "registerThermalThrottling sensor_name throttling_info cdevs th =
     (if has (th_status_map th) sensor_name then (False, th)
      else case throttling_info of
        None \<Rightarrow> (False, th)
      | Some info \<Rightarrow>
          register_cdevs sensor_name cdevs (ti_binded_cdev_info_map info)
            (upd_status sensor_name (\<lambda>st. st\<lparr>ts_prev_err := NaN, ts_i_budget := NaN,
               ts_prev_target := NONE, ts_prev_power_budget := NaN, ts_tran_cycle := 0,
               ts_profile := []\<rparr>) th))"

section \<open>Votes\<close>

definition getCdevMaxRequest :: "throttling_state \<Rightarrow> string \<Rightarrow> int option result" where
  "getCdevMaxRequest th cdev =
     (case map_of (th_cdev_all_request_map th) cdev of
        None \<Rightarrow> Inr None
      | Some v \<Rightarrow> bindE (votes_begin v) (\<lambda>m. Inr (Some m)))"

definition updateCdevMaxRequestAndNotifyIfChange ::
    "string \<Rightarrow> int \<Rightarrow> int \<Rightarrow> throttling_state \<Rightarrow> (throttling_state \<times> bool) result"
where
  "updateCdevMaxRequestAndNotifyIfChange cdev cur_request new_request th =
     bindE (at_key (th_cdev_all_request_map th) cdev) (\<lambda>request_set.
     bindE (votes_begin request_set) (\<lambda>cur_max_request.
     bindE (votes_erase cur_request request_set) (\<lambda>s1.
     let s2 = votes_insert new_request s1 in
     bindE (votes_begin s2) (\<lambda>new_max_request.
     Inr (th\<lparr>th_cdev_all_request_map := put cdev s2 (th_cdev_all_request_map th)\<rparr>,
          new_max_request \<noteq> cur_max_request)))))"

section \<open>Hard limit and release algorithms\<close>

text \<open>The bindings in force: those of the sensor's profile if it has one, the default otherwise.\<close>

definition active_cdevs :: "ThrottlingInfo \<Rightarrow> string \<Rightarrow> BindedCdevInfo smap" where
  "active_cdevs info profile =
     (case map_of (ti_profile_map info) profile of
        None \<Rightarrow> ti_binded_cdev_info_map info
      | Some m \<Rightarrow> m)"

definition hardlimit_step ::
    "severity \<Rightarrow> string \<times> BindedCdevInfo \<Rightarrow> ThermalThrottlingStatus \<Rightarrow> ThermalThrottlingStatus"
where
  "hardlimit_step cur p st =
     (if has (ts_hardlimit_cdev_request_map st) (fst p)
      then st\<lparr>ts_hardlimit_cdev_request_map :=
             put (fst p) (if bc_enabled (snd p) then bc_limit_info (snd p) cur else 0)
               (ts_hardlimit_cdev_request_map st)\<rparr>
      else st)"

definition updateCdevRequestBySeverity ::
    "ThrottlingInfo \<Rightarrow> severity \<Rightarrow> ThermalThrottlingStatus \<Rightarrow> ThermalThrottlingStatus"
where
  "updateCdevRequestBySeverity info cur st =
     fold (hardlimit_step cur) (active_cdevs info (ts_profile st)) st"

definition is_over_budget :: "BindedCdevInfo \<Rightarrow> severity \<Rightarrow> flt \<Rightarrow> bool" where
  "is_over_budget bc sev avg_power =
     (if \<not> bc_high_power_check bc then \<not> flt_lt avg_power (bc_power_thresholds bc sev)
      else \<not> flt_lt (bc_power_thresholds bc sev) avg_power)"

text \<open>\<open>release_step\<close> after one call, by the release logic of the binding.\<close>

definition release_logic_step :: "ReleaseLogic \<Rightarrow> bool \<Rightarrow> int \<Rightarrow> int \<Rightarrow> int" where
  "release_logic_step logic over max_state step =
     (case logic of
        INCREASE \<Rightarrow>
          if \<not> over then (if \<bar>step\<bar> < max_state then step - 1 else step) else 0
      | DECREASE \<Rightarrow>
          if \<not> over then (if step < max_state then step + 1 else step) else 0
      | STEPWISE \<Rightarrow>
          if \<not> over then (if step < max_state then step + 1 else step)
          else (if \<bar>step\<bar> < max_state then step - 1 else step)
      | RELEASE_TO_FLOOR \<Rightarrow> if over then 0 else max_state
      | RELEASE_NONE \<Rightarrow> step)"

definition release_step_of ::
    "BindedCdevInfo \<Rightarrow> severity \<Rightarrow> int \<Rightarrow> flt \<Rightarrow> int \<Rightarrow> int"
where
  "release_step_of bc sev max_state avg_power step =
     (if isnan avg_power \<or> flt_lt avg_power (Fin 0)
      then (if bc_throttling_with_power_link bc then max_state else 0)
      else release_logic_step (bc_release_logic bc) (is_over_budget bc sev avg_power)
             max_state step)"

definition release_body ::
    "CdevInfo smap \<Rightarrow> PowerStatus smap \<Rightarrow> severity \<Rightarrow> string \<times> BindedCdevInfo
      \<Rightarrow> ThermalThrottlingStatus \<Rightarrow> (ThermalThrottlingStatus, bool) ctl result"
where
  "release_body cdevs pows sev p st =
     (case map_of (ts_throttling_release_map st) (fst p) of
        None \<Rightarrow> Inr (Return False st)
      | Some step \<Rightarrow>
          (case map_of pows (bc_power_rail (snd p)) of
             None \<Rightarrow> Inr (Return False st)
           | Some pw \<Rightarrow>
               bindE (at_key cdevs (fst p)) (\<lambda>ci.
               Inr (Next (st\<lparr>ts_throttling_release_map :=
                 put (fst p)
                   (release_step_of (snd p) sev (ci_max_state ci) (pw_last_updated_avg_power pw) step)
                   (ts_throttling_release_map st)\<rparr>)))))"

definition throttlingReleaseUpdate ::
    "string \<Rightarrow> CdevInfo smap \<Rightarrow> PowerStatus smap \<Rightarrow> severity \<Rightarrow> ThrottlingInfo
      \<Rightarrow> throttling_state \<Rightarrow> (throttling_state \<times> bool) result"
where
  "throttlingReleaseUpdate sensor_name cdevs pows sev info th =
     (case map_of (th_status_map th) sensor_name of
        None \<Rightarrow> Inr (th, False)
      | Some st \<Rightarrow>
          bindE (loopE (release_body cdevs pows sev) (ti_binded_cdev_info_map info) st) (\<lambda>c.
          Inr (th\<lparr>th_status_map := put sensor_name (ctl_state c) (th_status_map th)\<rparr>,
               case c of Return b _ \<Rightarrow> b | _ \<Rightarrow> True)))"

section \<open>From the algorithms' requests to one vote per cooling device\<close>

definition map_default :: "int \<Rightarrow> int smap \<Rightarrow> string \<Rightarrow> int" where
  "map_default d m k = (case map_of m k of None \<Rightarrow> d | Some v \<Rightarrow> v)"

text \<open>\<open>request_state - release_step\<close> is a signed subtraction.\<close>

definition final_request :: "int \<Rightarrow> int \<Rightarrow> int \<Rightarrow> int \<Rightarrow> int \<Rightarrow> int result" where
  "final_request pid hard release_step cdev_floor cdev_ceiling =
     (let request = max pid hard
      in bindE (if release_step \<noteq> 0
                then bindE (if request \<le> release_step then Inr 0
                            else int32 (request - release_step))
                       (\<lambda>r. Inr (max r cdev_floor))
                else Inr request)
           (\<lambda>r. Inr (min r cdev_ceiling)))"

text \<open>The new request of a sensor for one of its devices.\<close>

definition request_for ::
    "BindedCdevInfo smap \<Rightarrow> severity \<Rightarrow> ThermalThrottlingStatus \<Rightarrow> string \<Rightarrow> int result"
where
  "request_for binded cur st cdev =
     bindE (at_key binded cdev) (\<lambda>bc.
     final_request
       (map_default 0 (ts_pid_cdev_request_map st) cdev)
       (map_default 0 (ts_hardlimit_cdev_request_map st) cdev)
       (map_default 0 (ts_throttling_release_map st) cdev)
       (bc_cdev_floor_with_power_link bc cur) (bc_cdev_ceiling bc cur))"

text \<open>
  \<open>upd_stats\<close> is \<open>ThermalStatsHelper::updateSensorCdevRequestStats\<close>, called for every request
  that changed; \<open>'h\<close> is the state of the stats helper.
\<close>

definition compute_step ::
    "(string \<Rightarrow> string \<Rightarrow> int \<Rightarrow> 'h \<Rightarrow> 'h) \<Rightarrow> string \<Rightarrow> BindedCdevInfo smap \<Rightarrow> severity
      \<Rightarrow> ThermalThrottlingStatus \<Rightarrow> string \<times> int
      \<Rightarrow> throttling_state \<times> int smap \<times> string list \<times> 'h
      \<Rightarrow> (throttling_state \<times> int smap \<times> string list \<times> 'h) result"
where
  "compute_step upd_stats sensor_name binded cur st0 p s =
     (case s of (th, cdev_status, to_update, h) \<Rightarrow>
      let cdev = fst p in
      bindE (request_for binded cur st0 cdev) (\<lambda>request_state.
      if snd p \<noteq> request_state then
        bindE (updateCdevMaxRequestAndNotifyIfChange cdev (snd p) request_state th) (\<lambda>(th', changed).
        Inr (th', put cdev request_state cdev_status,
             (if changed then to_update @ [cdev] else to_update),
             upd_stats sensor_name cdev request_state h))
      else Inr (th, cdev_status, to_update, h)))"

definition computeCoolingDevicesRequest ::
    "(string \<Rightarrow> string \<Rightarrow> int \<Rightarrow> 'h \<Rightarrow> 'h) \<Rightarrow> string \<Rightarrow> ThrottlingInfo \<Rightarrow> severity
      \<Rightarrow> string list \<Rightarrow> 'h \<Rightarrow> throttling_state \<Rightarrow> (throttling_state \<times> string list \<times> 'h) result"
where
  "computeCoolingDevicesRequest upd_stats sensor_name info cur to_update h th =
     (case map_of (th_status_map th) sensor_name of
        None \<Rightarrow> Inr (th, to_update, h)
      | Some st \<Rightarrow>
          bindE (foldE (compute_step upd_stats sensor_name (active_cdevs info (ts_profile st)) cur st)
                   (ts_cdev_status_map st) (th, ts_cdev_status_map st, to_update, h))
            (\<lambda>(th', cdev_status, to_update', h').
             Inr (th'\<lparr>th_status_map :=
                    put sensor_name (st\<lparr>ts_cdev_status_map := cdev_status\<rparr>) (th_status_map th')\<rparr>,
                  to_update', h')))"

end
