(* ===== verification/PidBudget.thy ===== *)
theory PidBudget
  imports Throttling
begin

text \<open>
  The PID half of \<open>class ThermalThrottling\<close> (aidl/thermal/utils/thermal_throttling.cpp): the
  power budget of a sensor, its allocation to the bound cooling devices, the request that a budget
  means for a device, and \<open>thermalThrottlingUpdate\<close>, which runs all algorithms of a sensor.
  Every arithmetic operation rounds on its own (no fused multiply-add).
\<close>

section \<open>The power budget\<close>

text \<open>Whether every bound device is at its limit (released) or at its ceiling (throttled).\<close>

definition fully_step ::
    "int smap \<Rightarrow> severity \<Rightarrow> string \<times> BindedCdevInfo \<Rightarrow> bool \<times> bool \<Rightarrow> (bool \<times> bool) result"
where
  "fully_step requests cur p acc =
     bindE (at_key requests (fst p)) (\<lambda>r.
     Inr (fst acc \<and> \<not> bc_limit_info (snd p) cur < r,
          snd acc \<and> \<not> r < bc_cdev_ceiling (snd p) cur))"

text \<open>
  \<open>max_cdev_vote = getCdevMaxRequest(name, \<and>max_cdev_vote)\<close> stores the \<^emph>\<open>returned bool\<close>
  into the variable that the call had filled: the index used is 1 for a known device, 0 otherwise.
\<close>

definition default_i_step ::
    "throttling_state \<Rightarrow> CdevInfo smap \<Rightarrow> string \<times> BindedCdevInfo \<Rightarrow> flt \<Rightarrow> flt result"
where
  "default_i_step th cdevs p acc =
     bindE (at_key cdevs (fst p)) (\<lambda>ci.
     bindE (getCdevMaxRequest th (fst p)) (\<lambda>found.
     let max_cdev_vote = (if found \<noteq> None then 1 else 0 :: int) in
     bindE (vec_at (ci_state2power ci) max_cdev_vote) (\<lambda>pw.
     Inr (fadd acc pw))))"

definition initial_i_budget ::
    "throttling_state \<Rightarrow> CdevInfo smap \<Rightarrow> ThrottlingInfo \<Rightarrow> flt \<Rightarrow> flt result"
where
  "initial_i_budget th cdevs info i_budget =
     (if \<not> isnan i_budget then Inr i_budget
      else if isnan (ti_i_default_pct info) then Inr (ti_i_default info)
      else bindE (foldE (default_i_step th cdevs) (ti_binded_cdev_info_map info) (Fin 0)) (\<lambda>s.
           Inr (fdiv (fmul s (ti_i_default_pct info)) (of_int_f 100))))"

definition next_i_budget ::
    "ThrottlingInfo \<Rightarrow> severity \<Rightarrow> flt \<Rightarrow> flt \<Rightarrow> bool \<Rightarrow> bool \<Rightarrow> flt \<Rightarrow> flt"
where
  "next_i_budget info tgt err prev_power_budget is_fully_release is_fully_throttle i_budget =
     (let i1 =
        (if flt_lt err (ti_i_cutoff info tgt) then
           if flt_lt err (Fin 0) \<and> flt_lt (ti_min_alloc_power info tgt) prev_power_budget
              \<and> \<not> is_fully_throttle
           then fadd i_budget (fmul err (ti_k_io info tgt))
           else if flt_lt (Fin 0) err \<and> flt_lt prev_power_budget (ti_max_alloc_power info tgt)
              \<and> \<not> is_fully_release
           then fadd i_budget (fmul err (ti_k_iu info tgt))
           else i_budget
         else i_budget)
      in if flt_lt (ti_i_max info tgt) (ffabs i1)
         then fmul (ti_i_max info tgt) (if flt_lt (Fin 0) i1 then of_int_f 1 else of_int_f (- 1))
         else i1)"

definition d_budget :: "ThrottlingInfo \<Rightarrow> severity \<Rightarrow> flt \<Rightarrow> flt \<Rightarrow> int \<Rightarrow> flt" where
  "d_budget info tgt err prev_err time_elapsed_ms =
     (if \<not> isnan prev_err \<and> time_elapsed_ms \<noteq> 0
      then fdiv (fmul (ti_k_d info tgt) (fsub err prev_err)) (of_int_f time_elapsed_ms)
      else Fin 0)"

fun compensation_loop :: "flt list \<Rightarrow> flt \<Rightarrow> flt \<Rightarrow> flt list \<Rightarrow> flt \<Rightarrow> flt result" where
  "compensation_loop weights target multiplier [] acc = Inr acc"
| "compensation_loop weights target multiplier (p # ps) acc =
     (case weights of
        [] \<Rightarrow> Inl UB
      | w # ws \<Rightarrow> compensation_loop ws target multiplier ps
                   (fadd acc (fmul w (fsub target (fmul p multiplier)))))"

definition compensation :: "SensorInfo \<Rightarrow> severity \<Rightarrow> flt \<Rightarrow> flt list \<Rightarrow> flt result" where
  "compensation si tgt target predictions =
     (case si_predictor_info si of
        None \<Rightarrow> Inr (Fin 0)
      | Some pred \<Rightarrow>
          if pi_support_pid_compensation pred
          then bindE (compensation_loop (pi_prediction_weights pred) target (si_multiplier si)
                        predictions (Fin 0))
                 (\<lambda>c. Inr (fmul c (pi_k_p_compensate pred tgt)))
          else Inr (Fin 0))"

definition excluded_step ::
    "PowerStatus smap \<Rightarrow> severity \<Rightarrow> string \<times> flt sev_array \<Rightarrow> flt \<Rightarrow> flt result"
where
  "excluded_step pows cur p acc =
     bindE (at_key pows (fst p)) (\<lambda>pw.
     Inr (if \<not> isnan (pw_last_updated_avg_power pw)
          then fadd acc (fmul (pw_last_updated_avg_power pw) (snd p cur))
          else acc))"

definition computeExcludedPower ::
    "ThrottlingInfo \<Rightarrow> severity \<Rightarrow> PowerStatus smap \<Rightarrow> flt result"
where
  "computeExcludedPower info cur pows =
     foldE (excluded_step pows cur) (ti_excluded_power_info_map info) (Fin 0)"

text \<open>
  The target of the controller moves: \<open>tran_cycle\<close> restarts, and the second component says that
  the transient is to be measured.
\<close>

definition retarget ::
    "ThrottlingInfo \<Rightarrow> severity \<Rightarrow> ThermalThrottlingStatus \<Rightarrow> (ThermalThrottlingStatus \<times> bool) result"
where
  "retarget info tgt st =
     (if ts_prev_target st \<noteq> NONE \<and> tgt \<noteq> ts_prev_target st \<and> 0 < ti_tran_cycle info
      then bindE (int32 (ti_tran_cycle info - 1)) (\<lambda>c.
           Inr (st\<lparr>ts_tran_cycle := c, ts_prev_target := tgt\<rparr>, True))
      else Inr (st\<lparr>ts_prev_target := tgt\<rparr>, False))"

text \<open>The last step: clamping, the transient of a moved target, and the stored budget.\<close>

definition settle_budget ::
    "ThrottlingInfo \<Rightarrow> severity \<Rightarrow> bool \<Rightarrow> flt \<Rightarrow> ThermalThrottlingStatus
      \<Rightarrow> (flt \<times> ThermalThrottlingStatus) result"
where
  "settle_budget info tgt target_changed raw st =
     (let b = fclamp raw (ti_min_alloc_power info tgt) (ti_max_alloc_power info tgt);
          st1 = (if target_changed
                 then st\<lparr>ts_budget_transient := fsub (ts_prev_power_budget st) b\<rparr> else st)
      in if ts_tran_cycle st1 \<noteq> 0
         then bindE (int32 (ts_tran_cycle st1 - 1)) (\<lambda>c.
              let b' = fadd b (fmul (ts_budget_transient st1)
                         (fdiv (of_int_f (ts_tran_cycle st1)) (of_int_f (ti_tran_cycle info))))
              in Inr (b', st1\<lparr>ts_tran_cycle := c, ts_prev_power_budget := b'\<rparr>))
         else Inr (b, st1\<lparr>ts_prev_power_budget := b\<rparr>))"

definition updatePowerBudget ::
    "Temperature \<Rightarrow> SensorInfo \<Rightarrow> ThrottlingInfo \<Rightarrow> CdevInfo smap \<Rightarrow> int \<Rightarrow> severity \<Rightarrow> bool
      \<Rightarrow> PowerStatus smap \<Rightarrow> flt list \<Rightarrow> throttling_state \<Rightarrow> ThermalThrottlingStatus
      \<Rightarrow> (flt \<times> ThermalThrottlingStatus) result"
where
  "updatePowerBudget temp si info cdevs time_elapsed_ms cur max_throttling pows predictions th st =
     (if cur = NONE then Inr (FLT_MAX, st)
      else
        bindE (foldE (fully_step (ts_pid_cdev_request_map st) cur)
                 (active_cdevs info (ts_profile st)) (True, True)) (\<lambda>(is_release, is_throttle).
        let tgt = getTargetStateOfPID info cur in
        bindE (retarget info tgt st) (\<lambda>(st1, target_changed).
        let target = si_hot_thresholds si tgt;
            err = fsub target (tp_value temp)
        in if max_throttling \<and> flt_le err (Fin 0) then Inr (ti_min_alloc_power info tgt, st1)
        else
          let p = fmul err (if flt_lt err (Fin 0) then ti_k_po info tgt else ti_k_pu info tgt) in
          bindE (initial_i_budget th cdevs info (ts_i_budget st1)) (\<lambda>i0.
          let i = next_i_budget info tgt err (ts_prev_power_budget st1) is_release is_throttle i0;
              d = d_budget info tgt err (ts_prev_err st1) time_elapsed_ms
          in
          bindE (compensation si tgt target predictions) (\<lambda>comp.
          bindE (computeExcludedPower info cur pows) (\<lambda>excl.
          settle_budget info tgt target_changed
            (fsub (fadd (fadd (fadd (fadd (ti_s_power info tgt) p) i) d) comp) excl)
            (st1\<lparr>ts_i_budget := i, ts_prev_err := err\<rparr>)))))))"

section \<open>Allocation to the bound cooling devices\<close>

text \<open>The variables of \<open>allocatePowerToCdev\<close> that live across the devices and the two rounds.\<close>

record alloc_state =
  al_status :: ThermalThrottlingStatus
  al_total_power_budget :: flt
  al_total_weight :: flt
  al_last_updated_avg_power :: flt
  al_allocated_power :: flt
  al_allocated_weight :: flt
  al_power_data_invalid :: bool
  al_allocated_cdev :: "string list"

definition weight_step ::
    "severity \<Rightarrow> string \<times> BindedCdevInfo \<Rightarrow> alloc_state \<Rightarrow> alloc_state"
where
  "weight_step cur p al =
     (let w = bc_cdev_weight_for_pid (snd p) cur
      in if \<not> bc_enabled (snd p) then al
         else if isnan w \<or> flt_eq w (Fin 0)
         then al\<lparr>al_allocated_cdev := fst p # al_allocated_cdev al\<rparr>
         else al\<lparr>al_total_weight := fadd (al_total_weight al) w\<rparr>)"

text \<open>
  Reading the power of the device's rail. \<open>break\<close> leaves the loop over the devices of this round,
  \<open>return false\<close> leaves the function.
\<close>

definition alloc_power_data ::
    "PowerStatus smap \<Rightarrow> BindedCdevInfo \<Rightarrow> alloc_state \<Rightarrow> (alloc_state, bool) ctl result"
where
  "alloc_power_data pows bc al =
     (if al_power_data_invalid al then Inr (Next al)
      else if bc_power_rail bc \<noteq> [] then
        bindE (at_key pows (bc_power_rail bc)) (\<lambda>pw.
        let al1 = al\<lparr>al_last_updated_avg_power := pw_last_updated_avg_power pw\<rparr>
        in if isnan (pw_last_updated_avg_power pw)
           then Inr (Break (al1\<lparr>al_power_data_invalid := True\<rparr>))
           else if bc_throttling_with_power_link bc then Inr (Return False al1)
           else Inr (Next al1))
      else Inr (Break (al\<lparr>al_power_data_invalid := True\<rparr>)))"

text \<open>First round: a device below its share, and not throttled, keeps what it uses.\<close>

definition alloc_low_power ::
    "string \<Rightarrow> flt \<Rightarrow> flt \<Rightarrow> alloc_state \<Rightarrow> alloc_state result"
where
  "alloc_low_power cdev w adj al =
     (if flt_lt (Fin 0) adj
      then bindE (at_key (ts_pid_cdev_request_map (al_status al)) cdev) (\<lambda>r.
           Inr (if r = 0
                then al\<lparr>al_allocated_power := fadd (al_allocated_power al) (al_last_updated_avg_power al),
                        al_allocated_weight := fadd (al_allocated_weight al) w,
                        al_allocated_cdev := cdev # al_allocated_cdev al\<rparr>
                else al))
      else Inr al)"

text \<open>\<open>cdev_curr_power_budget += \<dots>\<close> on an \<open>int\<close>: computed in float, converted back.\<close>

definition track_budget :: "int \<Rightarrow> flt \<Rightarrow> flt \<Rightarrow> int result" where
  "track_budget cvote avg adj =
     (if flt_lt (of_int_f cvote) avg
      then to_int_f (fadd (of_int_f cvote) (fmul adj (fdiv (of_int_f cvote) avg)))
      else to_int_f (fadd (of_int_f cvote) adj))"

definition device_budget ::
    "string \<Rightarrow> BindedCdevInfo \<Rightarrow> CdevInfo \<Rightarrow> flt \<Rightarrow> flt \<Rightarrow> alloc_state \<Rightarrow> flt result"
where
  "device_budget cdev bc ci w adj al =
     bindE (if \<not> bc_enabled bc then vec_at (ci_state2power ci) 0
            else if \<not> al_power_data_invalid al \<and> bc_power_rail bc \<noteq> []
            then bindE (at_key (ts_pid_power_budget_map (al_status al)) cdev) (\<lambda>cvote.
                 bindE (track_budget cvote (al_last_updated_avg_power al) adj) (\<lambda>b. Inr (of_int_f b)))
            else Inr (fmul (al_total_power_budget al) (fdiv w (al_total_weight al)))) (\<lambda>b.
     bindE (vec_at (ci_state2power ci) 0) (\<lambda>top.
     Inr (if \<not> isnan top \<and> flt_lt top b then top else if flt_lt b (Fin 0) then Fin 0 else b)))"

function release_step_loop :: "flt list \<Rightarrow> int \<Rightarrow> int \<Rightarrow> int \<Rightarrow> int result" where
  "release_step_loop s2p cvote limit step =
     bindE (int32 (cvote - step)) (\<lambda>t.
     if limit < cvote - step then
       bindE (vec_at s2p t) (\<lambda>a.
       bindE (vec_at s2p cvote) (\<lambda>b.
       if flt_eq a b then bindE (int32 (step + 1)) (\<lambda>_. release_step_loop s2p cvote limit (step + 1))
       else Inr step))
     else Inr step)"
  by pat_completeness auto
termination
  by (relation "measure (\<lambda>(s2p, cvote, limit, step). nat (cvote - step - limit))") auto

function throttle_step_loop :: "flt list \<Rightarrow> int \<Rightarrow> int \<Rightarrow> int \<Rightarrow> int result" where
  "throttle_step_loop s2p cvote ceiling step =
     bindE (int32 (cvote + step)) (\<lambda>t.
     if cvote + step < ceiling then
       bindE (vec_at s2p t) (\<lambda>a.
       bindE (vec_at s2p cvote) (\<lambda>b.
       if flt_eq a b then bindE (int32 (step + 1)) (\<lambda>_. throttle_step_loop s2p cvote ceiling (step + 1))
       else Inr step))
     else Inr step)"
  by pat_completeness auto
termination
  by (relation "measure (\<lambda>(s2p, cvote, ceiling, step). nat (ceiling - cvote - step))") auto

declare release_step_loop.simps [simp del] throttle_step_loop.simps [simp del]

definition limit_release ::
    "BindedCdevInfo \<Rightarrow> severity \<Rightarrow> flt list \<Rightarrow> bool \<Rightarrow> flt \<Rightarrow> int \<Rightarrow> int \<Rightarrow> flt \<Rightarrow> flt result"
where
  "limit_release bc cur s2p invalid adj cvote max_vote b =
     (if bc_max_release_step bc \<noteq> INT_MAX \<and> (invalid \<or> flt_lt (Fin 0) adj) then
        if \<not> invalid \<and> cvote < max_vote then vec_at s2p cvote
        else bindE (release_step_loop s2p cvote (bc_limit_info bc cur) (bc_max_release_step bc)) (\<lambda>step.
             bindE (int32 (cvote - step)) (\<lambda>t.
             bindE (vec_at s2p (max t 0)) (\<lambda>pw. Inr (fmin_std b pw))))
      else Inr b)"

definition limit_throttle ::
    "BindedCdevInfo \<Rightarrow> severity \<Rightarrow> flt list \<Rightarrow> bool \<Rightarrow> flt \<Rightarrow> int \<Rightarrow> flt \<Rightarrow> flt result"
where
  "limit_throttle bc cur s2p invalid adj cvote b =
     (if bc_max_throttle_step bc \<noteq> INT_MAX \<and> (invalid \<or> flt_lt adj (Fin 0)) then
        bindE (throttle_step_loop s2p cvote (bc_cdev_ceiling bc cur) (bc_max_throttle_step bc)) (\<lambda>step.
        bindE (int32 (cvote + step)) (\<lambda>t.
        bindE (vec_at s2p (min t (bc_cdev_ceiling bc cur))) (\<lambda>pw. Inr (fmax_std b pw))))
      else Inr b)"

text \<open>Second round: the budget of one device, stored as an \<open>int\<close>.\<close>

definition alloc_device ::
    "throttling_state \<Rightarrow> CdevInfo smap \<Rightarrow> severity \<Rightarrow> bool \<Rightarrow> string \<times> BindedCdevInfo \<Rightarrow> flt \<Rightarrow> flt
      \<Rightarrow> alloc_state \<Rightarrow> (alloc_state, bool) ctl result"
where
  "alloc_device th cdevs cur max_throttling p w adj al =
     (let cdev = fst p; bc = snd p in
      bindE (at_key cdevs cdev) (\<lambda>ci.
      bindE (if flt_lt adj (Fin 0)
             then bindE (at_key (ts_pid_cdev_request_map (al_status al)) cdev) (\<lambda>r.
                  Inr (r = ci_max_state ci))
             else Inr False) (\<lambda>at_max.
      if at_max then Inr (Next al)
      else
        bindE (device_budget cdev bc ci w adj al) (\<lambda>b0.
        bindE (getCdevMaxRequest th cdev) (\<lambda>found.
        case found of
          None \<Rightarrow> Inr (Return False al)
        | Some max_vote \<Rightarrow>
            bindE (at_key (ts_pid_cdev_request_map (al_status al)) cdev) (\<lambda>cvote.
            bindE (if max_throttling then Inr b0
                   else bindE (limit_release bc cur (ci_state2power ci) (al_power_data_invalid al)
                                 adj cvote max_vote b0)
                          (limit_throttle bc cur (ci_state2power ci) (al_power_data_invalid al)
                             adj cvote)) (\<lambda>b.
            bindE (to_int_f b) (\<lambda>bi.
            bindE (set_key cdev bi (ts_pid_power_budget_map (al_status al))) (\<lambda>m.
            Inr (Next (al\<lparr>al_status := (al_status al)\<lparr>ts_pid_power_budget_map := m\<rparr>\<rparr>)))))))))))"

definition alloc_body ::
    "throttling_state \<Rightarrow> CdevInfo smap \<Rightarrow> PowerStatus smap \<Rightarrow> severity \<Rightarrow> bool \<Rightarrow> bool
      \<Rightarrow> string \<times> BindedCdevInfo \<Rightarrow> alloc_state \<Rightarrow> (alloc_state, bool) ctl result"
where
  "alloc_body th cdevs pows cur max_throttling low_power p al =
     (if fst p \<in> set (al_allocated_cdev al) then Inr (Next al)
      else
        bindE (alloc_power_data pows (snd p) al) (\<lambda>c.
        case c of
          Next al1 \<Rightarrow>
            let w = bc_cdev_weight_for_pid (snd p) cur;
                adj = fsub (fmul (al_total_power_budget al1) (fdiv w (al_total_weight al1)))
                        (al_last_updated_avg_power al1)
            in if low_power
               then bindE (alloc_low_power (fst p) w adj al1) (\<lambda>al2. Inr (Next al2))
               else alloc_device th cdevs cur max_throttling p w adj al1
        | other \<Rightarrow> Inr other))"

text \<open>What the body of the \<open>while\<close> does after its loop over the devices.\<close>

definition alloc_settle :: "alloc_state \<Rightarrow> alloc_state" where
  "alloc_settle al =
     (if al_power_data_invalid al then al
      else al\<lparr>al_total_power_budget := fsub (al_total_power_budget al) (al_allocated_power al),
              al_total_weight := fsub (al_total_weight al) (al_allocated_weight al)\<rparr>)
     \<lparr>al_allocated_power := Fin 0, al_allocated_weight := Fin 0\<rparr>"

text \<open>
  \<open>while (!is_budget_allocated)\<close>: the first pass runs with \<open>low_power_device_check\<close> set and
  clears it, the second one sets \<open>is_budget_allocated\<close>.
\<close>

function alloc_while ::
    "throttling_state \<Rightarrow> CdevInfo smap \<Rightarrow> PowerStatus smap \<Rightarrow> severity \<Rightarrow> bool
      \<Rightarrow> BindedCdevInfo smap \<Rightarrow> bool \<Rightarrow> alloc_state \<Rightarrow> (alloc_state \<times> bool) result"
where
  "alloc_while th cdevs pows cur max_throttling binded low_power al =
     bindE (loopE (alloc_body th cdevs pows cur max_throttling low_power) binded al) (\<lambda>c.
     case c of
       Return b al1 \<Rightarrow> Inr (al1, b)
     | other \<Rightarrow>
         let al1 = alloc_settle (ctl_state other)
         in if low_power then alloc_while th cdevs pows cur max_throttling binded False al1
            else Inr (al1, True))"
  by pat_completeness auto
termination
  by (relation "measure (\<lambda>(_, _, _, _, _, _, low_power, _). if low_power then 1 else 0)") auto

declare alloc_while.simps [simp del]

definition allocatePowerToCdev ::
    "Temperature \<Rightarrow> SensorInfo \<Rightarrow> ThrottlingInfo \<Rightarrow> severity \<Rightarrow> int \<Rightarrow> PowerStatus smap
      \<Rightarrow> CdevInfo smap \<Rightarrow> bool \<Rightarrow> flt list \<Rightarrow> throttling_state \<Rightarrow> ThermalThrottlingStatus
      \<Rightarrow> (ThermalThrottlingStatus \<times> bool) result"
where
  "allocatePowerToCdev temp si info cur time_elapsed_ms pows cdevs max_throttling predictions th st =
     bindE (updatePowerBudget temp si info cdevs time_elapsed_ms cur max_throttling pows predictions
              th st) (\<lambda>(total, st1).
     let binded = active_cdevs info (ts_profile st1);
         al0 = \<lparr> al_status = st1, al_total_power_budget = total, al_total_weight = Fin 0,
                 al_last_updated_avg_power = NaN, al_allocated_power = Fin 0,
                 al_allocated_weight = Fin 0, al_power_data_invalid = False,
                 al_allocated_cdev = [] \<rparr>
     in bindE (alloc_while th cdevs pows cur max_throttling binded True
                 (fold (weight_step cur) binded al0)) (\<lambda>(al, ok).
        Inr (al_status al, ok)))"

section \<open>From budgets to requests\<close>

text \<open>
  The first state whose power the budget covers, the last state if there is none. On an empty
  table \<open>size() - 1\<close> is the largest \<open>size_t\<close> and the loop reads past the end.
\<close>

fun state_for_budget :: "flt list \<Rightarrow> flt \<Rightarrow> int \<Rightarrow> int result" where
  "state_for_budget [] b i = Inl UB"
| "state_for_budget [p] b i = Inr i"
| "state_for_budget (p # q # ps) b i =
     (if flt_le p b then Inr i else state_for_budget (q # ps) b (i + 1))"

definition request_by_power_step ::
    "CdevInfo smap \<Rightarrow> string \<times> int \<Rightarrow> int smap \<Rightarrow> int smap result"
where
  "request_by_power_step cdevs p requests =
     bindE (at_key cdevs (fst p)) (\<lambda>ci.
     bindE (state_for_budget (ci_state2power ci) (of_int_f (snd p)) 0) (\<lambda>i.
     set_key (fst p) i requests))"

definition updateCdevRequestByPower ::
    "CdevInfo smap \<Rightarrow> ThermalThrottlingStatus \<Rightarrow> ThermalThrottlingStatus result"
where
  "updateCdevRequestByPower cdevs st =
     bindE (foldE (request_by_power_step cdevs) (ts_pid_power_budget_map st)
              (ts_pid_cdev_request_map st)) (\<lambda>m.
     Inr (st\<lparr>ts_pid_cdev_request_map := m\<rparr>))"

section \<open>One update of a sensor\<close>

definition pid_update ::
    "Temperature \<Rightarrow> SensorInfo \<Rightarrow> ThrottlingInfo \<Rightarrow> severity \<Rightarrow> int \<Rightarrow> PowerStatus smap
      \<Rightarrow> CdevInfo smap \<Rightarrow> bool \<Rightarrow> flt list \<Rightarrow> throttling_state \<Rightarrow> ThermalThrottlingStatus
      \<Rightarrow> ThermalThrottlingStatus result"
where
  "pid_update temp si info cur time_elapsed_ms pows cdevs max_throttling predictions th st =
     (if ts_pid_power_budget_map st = [] then Inr st
      else
        bindE (allocatePowerToCdev temp si info cur time_elapsed_ms pows cdevs max_throttling
                 predictions th st) (\<lambda>(st1, ok).
        updateCdevRequestByPower cdevs
          (if ok then st1
           else st1\<lparr>ts_pid_cdev_request_map := fill_all 0 (ts_pid_cdev_request_map st1)\<rparr>)))"

text \<open>
  \<open>sensor_info.throttling_info\<close> is dereferenced without a test: a null pointer is undefined
  behaviour as soon as the sensor is registered.
\<close>

definition thermalThrottlingUpdate ::
    "(string \<Rightarrow> string) \<Rightarrow> Temperature \<Rightarrow> SensorInfo \<Rightarrow> severity \<Rightarrow> int \<Rightarrow> PowerStatus smap
      \<Rightarrow> CdevInfo smap \<Rightarrow> bool \<Rightarrow> flt list \<Rightarrow> throttling_state \<Rightarrow> throttling_state result"
where
  "thermalThrottlingUpdate get_property temp si cur time_elapsed_ms pows cdevs max_throttling
     predictions th =
     (case map_of (th_status_map th) (tp_name temp) of
        None \<Rightarrow> Inr th
      | Some st \<Rightarrow>
          (case si_throttling_info si of
             None \<Rightarrow> Inl UB
           | Some info \<Rightarrow>
               let st1 = (if ti_profile_map info \<noteq> []
                          then parseProfileProperty get_property (tp_name temp) si st else st)
               in
               bindE (pid_update temp si info cur time_elapsed_ms pows cdevs max_throttling
                        predictions th st1) (\<lambda>st2.
               let st3 = (if ts_hardlimit_cdev_request_map st2 \<noteq> []
                          then updateCdevRequestBySeverity info cur st2 else st2);
                   th3 = th\<lparr>th_status_map := put (tp_name temp) st3 (th_status_map th)\<rparr>
               in if ts_throttling_release_map st3 \<noteq> []
                  then bindE (throttlingReleaseUpdate (tp_name temp) cdevs pows cur info th3)
                         (\<lambda>(th4, _). Inr th4)
                  else Inr th3)))"

end
