(* ===== verification/VoteInvariant.thy ===== *)
theory VoteInvariant
  imports Throttling
begin

text \<open>
  The invariant between the two maps of \<open>class ThermalThrottling\<close>: the votes recorded for a
  cooling device in \<open>cdev_all_request_map_\<close> are the current requests of all registered sensors,
  read from their \<open>cdev_status_map\<close>, and possibly further zero votes (a device that a sensor
  binds for both the PID and the hard limit algorithm is registered with two of them).
\<close>

section \<open>The votes of the sensors\<close>

definition vote_mset :: "string \<Rightarrow> ThermalThrottlingStatus \<Rightarrow> int multiset" where
  "vote_mset c st = (case map_of (ts_cdev_status_map st) c of None \<Rightarrow> {#} | Some v \<Rightarrow> {#v#})"

definition sensor_votes :: "string \<Rightarrow> ThermalThrottlingStatus smap \<Rightarrow> int multiset" where
  "sensor_votes c m = sum_list (map (\<lambda>p. vote_mset c (snd p)) m)"

lemma sensor_votes_put:
  "sensor_votes c (put s st m) + (case map_of m s of None \<Rightarrow> {#} | Some st0 \<Rightarrow> vote_mset c st0)
     = sensor_votes c m + vote_mset c st"
  unfolding sensor_votes_def put_def by (induction m) auto

lemma sensor_votes_put_fresh:
  "\<not> has m s \<Longrightarrow> sensor_votes c (put s st m) = sensor_votes c m + vote_mset c st"
  using sensor_votes_put [of c s st m] by (simp add: has_def)

lemma sensor_votes_put_frame:
  assumes "map_of m s = Some st" and "vote_mset c st' = vote_mset c st"
  shows "sensor_votes c (put s st' m) = sensor_votes c m"
  using sensor_votes_put [of c s st' m] assms by simp

lemma vote_in_sensor_votes:
  assumes "map_of m s = Some st" and "map_of (ts_cdev_status_map st) c = Some v"
  shows "v \<in># sensor_votes c m"
  using assms unfolding sensor_votes_def
  by (induction m) (auto simp: vote_mset_def split: if_splits)

lemma sensor_votes_nonneg:
  assumes "\<And>s st v. (s, st) \<in> set m \<Longrightarrow> map_of (ts_cdev_status_map st) c = Some v \<Longrightarrow> 0 \<le> v"
    and "v \<in># sensor_votes c m"
  shows "0 \<le> v"
  using assms unfolding sensor_votes_def
  by (induction m) (fastforce simp: vote_mset_def split: option.splits)+

section \<open>The invariant\<close>

definition votes_agree :: "throttling_state \<Rightarrow> bool" where
  "votes_agree th \<longleftrightarrow>
     (\<forall>c. votes_inv (votes_of th c)) \<and>
     (\<forall>c. has (th_cdev_all_request_map th) c \<longrightarrow> votes_of th c \<noteq> []) \<and>
     (\<forall>c. \<exists>k. mset (votes_of th c) = sensor_votes c (th_status_map th) + replicate_mset k 0)"

lemma votes_agreeD:
  assumes "votes_agree th"
  shows "votes_inv (votes_of th c)"
    and "has (th_cdev_all_request_map th) c \<Longrightarrow> votes_of th c \<noteq> []"
    and "\<exists>k. mset (votes_of th c) = sensor_votes c (th_status_map th) + replicate_mset k 0"
  using assms by (auto simp: votes_agree_def)

lemma votes_of_put [simp]:
  "votes_of (th\<lparr>th_cdev_all_request_map := put c v (th_cdev_all_request_map th)\<rparr>) d
     = (if d = c then v else votes_of th d)"
  by (simp add: votes_of_def)

lemma votes_of_status [simp]: "votes_of (th\<lparr>th_status_map := m\<rparr>) c = votes_of th c"
  by (simp add: votes_of_def)

lemma votes_of_known: "v \<in># mset (votes_of th c) \<Longrightarrow>
    map_of (th_cdev_all_request_map th) c = Some (votes_of th c)"
  by (cases "map_of (th_cdev_all_request_map th) c") (auto simp: votes_of_def)

lemma votes_agree_empty: "votes_agree \<lparr>th_status_map = [], th_cdev_all_request_map = []\<rparr>"
  by (auto simp: votes_agree_def votes_of_def votes_inv_def sensor_votes_def has_def
      intro: exI [where x = 0])

text \<open>An operation that leaves the requests of a sensor alone keeps the invariant.\<close>

lemma votes_agree_frame:
  assumes "votes_agree th" and "map_of (th_status_map th) s = Some st"
    and "ts_cdev_status_map st' = ts_cdev_status_map st"
  shows "votes_agree (th\<lparr>th_status_map := put s st' (th_status_map th)\<rparr>)"
proof -
  have "\<And>c. sensor_votes c (put s st' (th_status_map th)) = sensor_votes c (th_status_map th)"
    using assms(2,3) by (intro sensor_votes_put_frame) (auto simp: vote_mset_def)
  then show ?thesis using assms(1) by (simp add: votes_agree_def)
qed

text \<open>The aggregated request is the greatest of the sensors' requests.\<close>

lemma getCdevMaxRequest_Max:
  assumes agree: "votes_agree th" and known: "has (th_cdev_all_request_map th) c"
    and nonneg: "\<And>v. v \<in># sensor_votes c (th_status_map th) \<Longrightarrow> 0 \<le> v"
  shows "getCdevMaxRequest th c
    = Inr (Some (Max (insert 0 (set_mset (sensor_votes c (th_status_map th))))))"
proof -
  obtain v where v: "map_of (th_cdev_all_request_map th) c = Some v"
    using known by (auto simp: has_def)
  then have vo: "votes_of th c = v" by (simp add: votes_of_def)
  obtain k where k: "mset v = sensor_votes c (th_status_map th) + replicate_mset k 0"
    using votes_agreeD(3) [OF agree, of c] vo by auto
  have inv: "votes_inv v" and ne: "v \<noteq> []"
    using votes_agreeD(1,2) [OF agree, of c] known vo by auto
  let ?V = "set_mset (sensor_votes c (th_status_map th))"
  have "set v = ?V \<union> (if k = 0 then {} else {0})"
    using arg_cong [OF k, of set_mset] by simp
  then have "set v = insert 0 ?V \<or> set v = ?V" by auto
  then have "Max (set v) = Max (insert 0 ?V)"
  proof
    assume eq: "set v = ?V"
    then have V: "?V \<noteq> {}" using ne by auto
    then have "0 \<le> Max ?V" using nonneg by (auto simp: Max_ge_iff)
    then show ?thesis using V eq by simp
  qed simp
  then show ?thesis
    using v votes_begin_Max [OF inv ne] by (simp add: getCdevMaxRequest_def)
qed

section \<open>Changing one vote\<close>

lemma updateCdevMaxRequest_replace:
  "updateCdevMaxRequestAndNotifyIfChange c old new th =
     bindE (at_key (th_cdev_all_request_map th) c) (\<lambda>v.
     bindE (votes.replace old new v) (\<lambda>(s, changed).
     Inr (th\<lparr>th_cdev_all_request_map := put c s (th_cdev_all_request_map th)\<rparr>, changed)))"
  by (simp add: updateCdevMaxRequestAndNotifyIfChange_def votes.replace_def bindE_assoc Let_def)

definition set_vote ::
    "string \<Rightarrow> ThermalThrottlingStatus \<Rightarrow> int smap \<Rightarrow> throttling_state \<Rightarrow> throttling_state"
where
  "set_vote s st cs th =
     th\<lparr>th_status_map := put s (st\<lparr>ts_cdev_status_map := cs\<rparr>) (th_status_map th)\<rparr>"

text \<open>
  A sensor whose recorded request for \<open>c\<close> is \<open>old\<close> may replace it by \<open>new\<close>: the call succeeds,
  keeps the invariant once the sensor's own record is updated too, touches no other device, and
  reports whether the aggregated request changed.
\<close>

lemma update_vote:
  assumes agree: "votes_agree (set_vote s st cs th)"
    and old: "map_of cs c = Some old"
  obtains th' changed where
    "updateCdevMaxRequestAndNotifyIfChange c old new th = Inr (th', changed)"
    "th_status_map th' = th_status_map th"
    "votes_agree (set_vote s st (put c new cs) th')"
    "\<And>d. d \<noteq> c \<Longrightarrow> getCdevMaxRequest th' d = getCdevMaxRequest th d"
    "changed \<longleftrightarrow> getCdevMaxRequest th' c \<noteq> getCdevMaxRequest th c"
proof -
  let ?m = "th_status_map th" and ?st = "st\<lparr>ts_cdev_status_map := cs\<rparr>"
  let ?st' = "st\<lparr>ts_cdev_status_map := put c new cs\<rparr>" and ?v = "votes_of th c"
  have m: "th_status_map (set_vote s st cs th) = put s ?st ?m" by (simp add: set_vote_def)
  have vo: "votes_of (set_vote s st cs th) d = votes_of th d" for d by (simp add: set_vote_def)
  have inv: "votes_inv (votes_of th d)" for d using votes_agreeD(1) [OF agree] vo by simp
  obtain k where k: "mset ?v = sensor_votes c (put s ?st ?m) + replicate_mset k 0"
    using votes_agreeD(3) [OF agree, of c] vo m by auto
  have "old \<in># sensor_votes c (put s ?st ?m)"
    using old by (intro vote_in_sensor_votes [where s = s and st = ?st]) auto
  then have mem: "old \<in># mset ?v" using k by simp
  obtain s' where s': "votes.replace old new ?v =
      Inr (s', Max (set_mset (add_mset new (mset ?v - {#old#}))) \<noteq> Max (set_mset (mset ?v)))"
    and inv': "votes_inv s'" and ms': "mset s' = add_mset new (mset ?v - {#old#})"
    using votes.replace_spec [OF inv mem] by blast
  have known: "map_of (th_cdev_all_request_map th) c = Some ?v" by (rule votes_of_known [OF mem])
  let ?th' = "th\<lparr>th_cdev_all_request_map := put c s' (th_cdev_all_request_map th)\<rparr>"
  have ne: "?v \<noteq> []" "s' \<noteq> []" using mem ms' by auto
  have val: "votes_begin ?v = Inr (Max (set ?v))" "votes_begin s' = Inr (Max (set s'))"
    using votes_begin_Max inv inv' ne by auto
  have sv: "sensor_votes d (put s ?st' ?m) + vote_mset d ?st
      = sensor_votes d (put s ?st ?m) + vote_mset d ?st'" for d
    using sensor_votes_put [of d s ?st' "put s ?st ?m"] by simp
  show thesis
  proof (rule that [of ?th' "Max (set s') \<noteq> Max (set ?v)"])
    show "updateCdevMaxRequestAndNotifyIfChange c old new th = Inr (?th', Max (set s') \<noteq> Max (set ?v))"
    proof -
      have "set_mset (add_mset new (mset ?v - {#old#})) = set s'" by (metis ms' set_mset_mset)
      then have "votes.replace old new ?v = Inr (s', Max (set s') \<noteq> Max (set ?v))"
        using s' by (simp only: set_mset_mset)
      then show ?thesis using known by (simp add: updateCdevMaxRequest_replace)
    qed
    show "votes_agree (set_vote s st (put c new cs) ?th')"
    proof -
      have "\<exists>k. mset (votes_of ?th' d) = sensor_votes d (put s ?st' ?m) + replicate_mset k 0" for d
      proof (cases "d = c")
        case True
        obtain Y where Y: "sensor_votes c (put s ?st ?m) = add_mset old Y"
          using multi_member_split [OF \<open>old \<in># sensor_votes c (put s ?st ?m)\<close>] by blast
        then have "sensor_votes c (put s ?st' ?m) = add_mset new Y"
          using sv [of c] old by (simp add: vote_mset_def)
        then have "sensor_votes c (put s ?st' ?m)
            = add_mset new (sensor_votes c (put s ?st ?m) - {#old#})" using Y by simp
        then show ?thesis
          using True ms' k \<open>old \<in># sensor_votes c (put s ?st ?m)\<close> by auto
      next
        case False
        then have "sensor_votes d (put s ?st' ?m) = sensor_votes d (put s ?st ?m)"
          using sv [of d] by (simp add: vote_mset_def)
        then show ?thesis using False votes_agreeD(3) [OF agree, of d] vo m by simp
      qed
      moreover have "has (th_cdev_all_request_map th) d \<Longrightarrow> votes_of th d \<noteq> []" for d
        using votes_agreeD(2) [OF agree, of d] vo by (simp add: set_vote_def)
      ultimately show ?thesis
        using inv inv' ne by (auto simp: votes_agree_def set_vote_def)
    qed
  qed (use known val in \<open>auto simp: getCdevMaxRequest_def\<close>)
qed

section \<open>The requests of one sensor\<close>

lemma compute_loop_requests:
  assumes "foldE (compute_step upd s binded cur st) xs acc = Inr out" and "p \<in> set xs"
  shows "\<exists>r. request_for binded cur st (fst p) = Inr r"
  using assms by (induction xs arbitrary: acc) (auto simp: compute_step_def Let_def split: prod.splits)

text \<open>
  The loop of \<open>computeCoolingDevicesRequest\<close>: it succeeds when every request can be computed,
  records the new requests, keeps the invariant, and collects exactly the devices whose
  aggregated request changed.
\<close>

lemma compute_loop:
  assumes "votes_agree (set_vote s st cs th)" and "distinct (map fst xs)"
    and "\<And>p. p \<in> set xs \<Longrightarrow> map_of cs (fst p) = Some (snd p)"
    and "\<And>p. p \<in> set xs \<Longrightarrow> request_for binded cur st0 (fst p) = Inr (req (fst p))"
  shows "\<exists>th' cs' new h'. foldE (compute_step upd s binded cur st0) xs (th, cs, tu, h)
      = Inr (th', cs', tu @ new, h')
    \<and> th_status_map th' = th_status_map th
    \<and> votes_agree (set_vote s st cs' th')
    \<and> (\<forall>c. map_of cs' c = (if c \<in> fst ` set xs then Some (req c) else map_of cs c))
    \<and> (\<forall>c. c \<in> set new \<longleftrightarrow> getCdevMaxRequest th' c \<noteq> getCdevMaxRequest th c)
    \<and> (\<forall>c. c \<notin> fst ` set xs \<longrightarrow> getCdevMaxRequest th' c = getCdevMaxRequest th c)
    \<and> (distinct (map fst cs) \<longrightarrow> distinct (map fst cs'))"
  using assms
proof (induction xs arbitrary: th cs tu h)
  case Nil
  then show ?case by auto
next
  case (Cons p xs)
  obtain c old where p: "p = (c, old)" by (cases p)
  have old: "map_of cs c = Some old" and req: "request_for binded cur st0 c = Inr (req c)"
    using Cons.prems(3,4) [of p] p by auto
  have c_xs: "c \<notin> fst ` set xs" using Cons.prems(2) p by simp
  have rest: "request_for binded cur st0 (fst q) = Inr (req (fst q))" if "q \<in> set xs" for q
    using Cons.prems(4) that by simp
  show ?case
  proof (cases "old = req c")
    case True
    obtain th' cs' new h' where ih:
      "foldE (compute_step upd s binded cur st0) xs (th, cs, tu, h) = Inr (th', cs', tu @ new, h')"
      "th_status_map th' = th_status_map th" "votes_agree (set_vote s st cs' th')"
      "\<forall>c. map_of cs' c = (if c \<in> fst ` set xs then Some (req c) else map_of cs c)"
      "\<forall>c. c \<in> set new \<longleftrightarrow> getCdevMaxRequest th' c \<noteq> getCdevMaxRequest th c"
      "\<forall>c. c \<notin> fst ` set xs \<longrightarrow> getCdevMaxRequest th' c = getCdevMaxRequest th c"
      "distinct (map fst cs) \<longrightarrow> distinct (map fst cs')"
      using Cons.IH [OF Cons.prems(1) _ _ rest, of tu h] Cons.prems(2,3) by auto
    have "compute_step upd s binded cur st0 p (th, cs, tu, h) = Inr (th, cs, tu, h)"
      using True req p by (simp add: compute_step_def)
    then show ?thesis
      using ih old True p by (intro exI [of _ th'] exI [of _ cs'] exI [of _ new] exI [of _ h']) auto
  next
    case False
    obtain th1 changed where up:
      "updateCdevMaxRequestAndNotifyIfChange c old (req c) th = Inr (th1, changed)"
      "th_status_map th1 = th_status_map th"
      "votes_agree (set_vote s st (put c (req c) cs) th1)"
      "\<And>d. d \<noteq> c \<Longrightarrow> getCdevMaxRequest th1 d = getCdevMaxRequest th d"
      "changed \<longleftrightarrow> getCdevMaxRequest th1 c \<noteq> getCdevMaxRequest th c"
      using update_vote [OF Cons.prems(1) old, where new = "req c"] by metis
    let ?tu = "if changed then tu @ [c] else tu"
    let ?h = "upd s c (req c) h" and ?cs = "put c (req c) cs"
    have keep: "map_of ?cs (fst q) = Some (snd q)" if "q \<in> set xs" for q
      using Cons.prems(3) that c_xs by (auto simp: image_iff)
    obtain th' cs' new h' where ih:
      "foldE (compute_step upd s binded cur st0) xs (th1, ?cs, ?tu, ?h)
        = Inr (th', cs', ?tu @ new, h')"
      "th_status_map th' = th_status_map th1" "votes_agree (set_vote s st cs' th')"
      "\<forall>c. map_of cs' c = (if c \<in> fst ` set xs then Some (req c) else map_of ?cs c)"
      "\<forall>c. c \<in> set new \<longleftrightarrow> getCdevMaxRequest th' c \<noteq> getCdevMaxRequest th1 c"
      "\<forall>c. c \<notin> fst ` set xs \<longrightarrow> getCdevMaxRequest th' c = getCdevMaxRequest th1 c"
      "distinct (map fst ?cs) \<longrightarrow> distinct (map fst cs')"
      using Cons.IH [OF up(3) _ keep rest, of ?tu ?h] Cons.prems(2) by auto
    have step: "compute_step upd s binded cur st0 p (th, cs, tu, h) = Inr (th1, ?cs, ?tu, ?h)"
      using False req p up(1) by (simp add: compute_step_def)
    let ?new = "(if changed then [c] else []) @ new"
    have "d \<in> set ?new \<longleftrightarrow> getCdevMaxRequest th' d \<noteq> getCdevMaxRequest th d" for d
      using ih(5,6) up(4,5) c_xs by (cases "d = c") auto
    moreover have "d \<notin> fst ` set (p # xs) \<longrightarrow> getCdevMaxRequest th' d = getCdevMaxRequest th d" for d
      using ih(6) up(4) p by auto
    moreover have "map_of cs' d = (if d \<in> fst ` set (p # xs) then Some (req d) else map_of cs d)" for d
      using ih(4) p by auto
    moreover have "distinct (map fst cs) \<longrightarrow> distinct (map fst cs')"
      using ih(7) distinct_put [of cs c "req c"] by simp
    moreover have "foldE (compute_step upd s binded cur st0) (p # xs) (th, cs, tu, h)
        = Inr (th', cs', tu @ ?new, h')"
      using step ih(1) by simp
    moreover have "th_status_map th' = th_status_map th" using ih(2) up(2) by simp
    ultimately show ?thesis using ih(3)
      by (intro exI [of _ th'] exI [of _ cs'] exI [of _ ?new] exI [of _ h'] conjI allI) assumption+
  qed
qed

section \<open>The operations of the throttling\<close>

text \<open>
  What makes the operations of Throttling correct: the choice of the PID target, the bounds of the
  release steps, the formula of the final request, and the invariant between the votes recorded
  for a cooling device and the requests of the sensors, with its preservation by every operation.
\<close>

section \<open>PID target\<close>

lemma pid_target_loop_eq:
  "pid_target_loop sp cur ss t =
     (case find (\<lambda>s. \<not> isnan (sp s) \<and> cur < s) ss of
        Some s \<Rightarrow> s
      | None \<Rightarrow> last (t # filter (\<lambda>s. \<not> isnan (sp s)) ss))"
proof (induction ss arbitrary: t)
  case Nil
  then show ?case by simp
next
  case (Cons s ss)
  then show ?case by (cases "isnan (sp s)") (auto split: option.splits)
qed

lemma last_sorted_Max:
  fixes xs :: "'a::linorder list"
  assumes "sorted_wrt (<) xs" and "xs \<noteq> []"
  shows "last xs = Max (set xs)"
proof (rule Max_eqI [symmetric])
  show "x \<le> last xs" if "x \<in> set xs" for x
    using assms(1) that by (induction xs) (auto intro: less_imp_le)
qed (use assms(2) in auto)

lemma find_sorted_Min:
  fixes xs :: "'a::linorder list"
  assumes "sorted_wrt (<) xs" and "find P xs = Some y"
  shows "y = Min {x \<in> set xs. P x}"
proof (rule Min_eqI [symmetric])
  show "finite {x \<in> set xs. P x}" by simp
  show "y \<le> x" if "x \<in> {x \<in> set xs. P x}" for x
    using assms that by (induction xs) (auto split: if_splits intro: less_imp_le)
  show "y \<in> {x \<in> set xs. P x}"
    using assms(2) by (auto simp: find_Some_iff)
qed

text \<open>
  The PID controller of a sensor is steered to the least severity above the current one that
  has a nominal power configured; when there is none, to the greatest severity that has one, or to
  NONE when no nominal power is configured at all.
\<close>

theorem getTargetStateOfPID_spec:
  "getTargetStateOfPID info cur =
     (if \<exists>s. \<not> isnan (ti_s_power info s) \<and> cur < s
      then Min {s. \<not> isnan (ti_s_power info s) \<and> cur < s}
      else Max (insert NONE {s. \<not> isnan (ti_s_power info s)}))"
proof -
  let ?live = "\<lambda>s. \<not> isnan (ti_s_power info s)" and ?P = "\<lambda>s. \<not> isnan (ti_s_power info s) \<and> cur < s"
  have t: "getTargetStateOfPID info cur =
      (case find ?P sev_range of Some s \<Rightarrow> s | None \<Rightarrow> last (NONE # filter ?live sev_range))"
    by (simp add: getTargetStateOfPID_def pid_target_loop_eq)
  show ?thesis
  proof (cases "find ?P sev_range")
    case None
    have none: "\<not> (\<exists>s. ?P s)" using None by (auto simp: find_None_iff)
    have "last (NONE # filter ?live sev_range) = Max (insert NONE {s. ?live s})"
    proof (cases "filter ?live sev_range = []")
      case True
      then show ?thesis by (simp add: filter_empty_conv)
    next
      case False
      have eq: "set (filter ?live sev_range) = {s. ?live s}" by auto
      have fin: "finite {s. ?live s}" using eq by (metis finite_set)
      have ne: "{s. ?live s} \<noteq> {}" using False eq by (metis set_empty)
      have "last (filter ?live sev_range) = Max {s. ?live s}"
        using last_sorted_Max [of "filter ?live sev_range"] False sorted_sev_range eq
        by (simp add: sorted_wrt_filter)
      then show ?thesis using False fin ne by (simp add: max_def)
    qed
    with t None have "getTargetStateOfPID info cur = Max (insert NONE {s. ?live s})" by simp
    with none show ?thesis by (simp only: if_False)
  next
    case (Some y)
    then have ex: "\<exists>s. ?P s" by (auto simp: find_Some_iff)
    have "y = Min {s \<in> set sev_range. ?P s}" by (rule find_sorted_Min [OF sorted_sev_range Some])
    then have y: "y = Min {s. ?P s}" by simp
    from t Some have "getTargetStateOfPID info cur = y" by simp
    with ex y show ?thesis by (simp only: if_True)
  qed
qed

section \<open>Release steps\<close>

text \<open>
  One update of the release algorithm keeps every release step of a device with \<open>max_state\<close>
  states within \<open>-max_state\<close> and \<open>max_state\<close>, whatever the release logic, the power reading and
  the thresholds; without the increasing logics it is never negative.
\<close>

theorem release_step_bounded:
  assumes "0 \<le> max_state" and "\<bar>step\<bar> \<le> max_state"
  shows "\<bar>release_step_of bc sev max_state avg_power step\<bar> \<le> max_state
    \<and> (bc_release_logic bc \<noteq> INCREASE \<and> bc_release_logic bc \<noteq> STEPWISE \<and> 0 \<le> step
       \<longrightarrow> 0 \<le> release_step_of bc sev max_state avg_power step)"
  using assms
  by (auto simp: release_step_of_def release_logic_step_def split: ReleaseLogic.splits)

theorem release_step_bounded_witness:
  "\<bar>release_step_of
      \<lparr> bc_limit_info = (\<lambda>_. 0), bc_power_thresholds = (\<lambda>_. of_int_f 500),
        bc_release_logic = DECREASE, bc_cdev_weight_for_pid = (\<lambda>_. NaN),
        bc_cdev_ceiling = (\<lambda>_. 3), bc_max_release_step = INT_MAX,
        bc_max_throttle_step = INT_MAX, bc_cdev_floor_with_power_link = (\<lambda>_. 0),
        bc_power_rail = ''S2M'', bc_high_power_check = False,
        bc_throttling_with_power_link = False, bc_enabled = True \<rparr>
      SEVERE 3 (of_int_f 200) 2\<bar> \<le> 3"
  by (rule release_step_bounded [THEN conjunct1]) simp_all

end
