(* ===== verification/ThrottlingReach.thy ===== *)
theory ThrottlingReach
  imports PidBudget VoteInvariant ThermalTypes
begin

text \<open>
  The runs of \<open>class ThermalThrottling\<close>: any sequence of registrations, clearings, updates and
  aggregations, with any arguments. Each of the four entry points keeps the invariant between
  votes and requests, so the aggregated request of a cooling device is, in every reachable state,
  the greatest request of any sensor.
\<close>

section \<open>What an update leaves alone\<close>

text \<open>The requests of a sensor, which the PID, hard limit and release algorithms never write, and the
  sign of its PID requests.\<close>

definition pid_ok :: "ThermalThrottlingStatus \<Rightarrow> bool" where
  "pid_ok st \<longleftrightarrow> (\<forall>c v. map_of (ts_pid_cdev_request_map st) c = Some v \<longrightarrow> 0 \<le> v)"

definition keeps_requests :: "ThermalThrottlingStatus \<Rightarrow> ThermalThrottlingStatus \<Rightarrow> bool" where
  "keeps_requests st st' \<longleftrightarrow>
     ts_cdev_status_map st' = ts_cdev_status_map st \<and> (pid_ok st \<longrightarrow> pid_ok st')"

lemma keeps_requests_refl [simp]: "keeps_requests st st"
  by (simp add: keeps_requests_def)

lemma keeps_requests_trans: "keeps_requests a b \<Longrightarrow> keeps_requests b c \<Longrightarrow> keeps_requests a c"
  by (simp add: keeps_requests_def)

lemma keeps_parseProfile: "keeps_requests st (parseProfileProperty gp s si st)"
  by (simp add: parseProfileProperty_def keeps_requests_def pid_ok_def Let_def split: option.splits)

lemma keeps_retarget: "retarget info tgt st = Inr (st', b) \<Longrightarrow> keeps_requests st st'"
  by (auto simp: retarget_def keeps_requests_def pid_ok_def split: if_splits)

lemma keeps_settle: "settle_budget info tgt ch raw st = Inr (b, st') \<Longrightarrow> keeps_requests st st'"
  by (auto simp: settle_budget_def keeps_requests_def pid_ok_def Let_def split: if_splits)

lemma updatePowerBudget_cases:
  assumes "updatePowerBudget temp si info cdevs t cur mt pows preds th st = Inr (b, st')"
  obtains (none) "cur = NONE" "b = FLT_MAX" "st' = st"
  | (max) st1 ch where "cur \<noteq> NONE" "mt" "retarget info (getTargetStateOfPID info cur) st = Inr (st1, ch)"
      "b = ti_min_alloc_power info (getTargetStateOfPID info cur)" "st' = st1"
  | (pid) st1 ch raw i err where "cur \<noteq> NONE"
      "retarget info (getTargetStateOfPID info cur) st = Inr (st1, ch)"
      "settle_budget info (getTargetStateOfPID info cur) ch raw (st1\<lparr>ts_i_budget := i, ts_prev_err := err\<rparr>)
        = Inr (b, st')"
proof (cases "cur = NONE")
  case True
  then show thesis using assms by (intro none) (auto simp: updatePowerBudget_def)
next
  case False
  let ?tgt = "getTargetStateOfPID info cur"
  obtain st1 ch where r: "retarget info ?tgt st = Inr (st1, ch)"
    using assms False by (auto simp: updatePowerBudget_def Let_def)
  show thesis
  proof (cases "mt \<and> flt_le (fsub (si_hot_thresholds si ?tgt) (tp_value temp)) (Fin 0)")
    case True
    then show thesis using assms False r
      by (intro max [of st1 ch]) (auto simp: updatePowerBudget_def Let_def)
  next
    case mt: False
    then show thesis using assms False r
      by (auto simp: updatePowerBudget_def Let_def simp del: de_Morgan_conj intro!: pid [of st1 ch])
  qed
qed

lemma keeps_updatePowerBudget:
  assumes "updatePowerBudget temp si info cdevs t cur mt pows preds th st = Inr (b, st')"
  shows "keeps_requests st st'"
  using assms
proof (cases rule: updatePowerBudget_cases)
  case (pid st1 ch raw i err)
  have "keeps_requests st1 (st1\<lparr>ts_i_budget := i, ts_prev_err := err\<rparr>)"
    by (simp add: keeps_requests_def pid_ok_def)
  with keeps_retarget [OF pid(2)] keeps_settle [OF pid(3)] show ?thesis
    by (blast intro: keeps_requests_trans)
qed (auto dest: keeps_retarget)

text \<open>The allocation writes the power budgets of known devices, nothing else of the status.\<close>

definition alloc_frame :: "ThermalThrottlingStatus \<Rightarrow> alloc_state \<Rightarrow> bool" where
  "alloc_frame st al \<longleftrightarrow>
     al_status al = st\<lparr>ts_pid_power_budget_map := ts_pid_power_budget_map (al_status al)\<rparr> \<and>
     map fst (ts_pid_power_budget_map (al_status al)) = map fst (ts_pid_power_budget_map st)"

lemma alloc_frame_cong:
  "al_status al = al_status al' \<Longrightarrow> alloc_frame st al \<Longrightarrow> alloc_frame st al'"
  by (simp add: alloc_frame_def)

lemma alloc_frame_put:
  assumes "alloc_frame st al" and "set_key c v (ts_pid_power_budget_map (al_status al)) = Inr m"
  shows "alloc_frame st (al\<lparr>al_status := (al_status al)\<lparr>ts_pid_power_budget_map := m\<rparr>\<rparr>)"
proof -
  have m: "m = put c v (ts_pid_power_budget_map (al_status al))"
    and has: "has (ts_pid_power_budget_map (al_status al)) c"
    using assms(2) by (simp_all add: set_key_Inr_iff)
  have "map fst m = map fst (ts_pid_power_budget_map st)"
    using assms(1) keys_put_present [OF has] m by (simp add: alloc_frame_def)
  moreover have "(al_status al)\<lparr>ts_pid_power_budget_map := m\<rparr> = st\<lparr>ts_pid_power_budget_map := m\<rparr>"
    using assms(1) by (metis alloc_frame_def ThermalThrottlingStatus.update_convs(1)
        ThermalThrottlingStatus.surjective)
  ultimately show ?thesis by (simp add: alloc_frame_def)
qed

lemma alloc_frame_power_data:
  assumes "alloc_power_data pows bc al = Inr c"
  shows "al_status (ctl_state c) = al_status al"
  using assms by (auto simp: alloc_power_data_def Let_def split: if_splits)

lemma alloc_frame_low_power:
  assumes "alloc_low_power c w adj al = Inr al'"
  shows "al_status al' = al_status al"
  using assms by (auto simp: alloc_low_power_def split: if_splits)

lemma alloc_frame_device:
  assumes "alloc_device th cdevs cur mt p w adj al = Inr c" and "alloc_frame st al"
  shows "alloc_frame st (ctl_state c)"
  using assms(1) assms(2)
  by (auto simp: alloc_device_def Let_def split: if_splits option.splits)
    (erule (1) alloc_frame_put)+

lemma alloc_frame_body:
  assumes "alloc_body th cdevs pows cur mt low p al = Inr c" and "alloc_frame st al"
  shows "alloc_frame st (ctl_state c)"
proof (cases "fst p \<in> set (al_allocated_cdev al)")
  case True
  then show ?thesis using assms by (auto simp: alloc_body_def)
next
  case False
  obtain c1 where c1: "alloc_power_data pows (snd p) al = Inr c1"
    using assms(1) False by (auto simp: alloc_body_def)
  have fr: "alloc_frame st (ctl_state c1)"
    using alloc_frame_cong [OF alloc_frame_power_data [OF c1, symmetric] assms(2)] .
  show ?thesis
  proof (cases c1)
    case (Next al1)
    have fr1: "alloc_frame st al1" using fr Next by simp
    show ?thesis
    proof (cases low)
      case True
      then obtain w adj al2 where "alloc_low_power (fst p) w adj al1 = Inr al2" "c = Next al2"
        using assms(1) False c1 Next by (auto simp: alloc_body_def Let_def)
      then show ?thesis using alloc_frame_cong [OF alloc_frame_low_power [symmetric] fr1] by simp
    next
      case low: False
      then obtain w adj where "alloc_device th cdevs cur mt p w adj al1 = Inr c"
        using assms(1) False c1 Next by (auto simp: alloc_body_def Let_def)
      then show ?thesis using fr1 by (rule alloc_frame_device)
    qed
  qed (use assms(1) False c1 fr in \<open>auto simp: alloc_body_def\<close>)
qed

lemma alloc_frame_settle: "alloc_frame st al \<Longrightarrow> alloc_frame st (alloc_settle al)"
  by (simp add: alloc_frame_def alloc_settle_def)

text \<open>The two passes of the \<open>while\<close>.\<close>

lemma alloc_second_pass:
  "alloc_while th cdevs pows cur mt binded False al =
     bindE (loopE (alloc_body th cdevs pows cur mt False) binded al) (\<lambda>c.
     case c of Return b al1 \<Rightarrow> Inr (al1, b) | other \<Rightarrow> Inr (alloc_settle (ctl_state other), True))"
  by (subst alloc_while.simps) (simp add: Let_def)

lemma alloc_first_pass:
  "alloc_while th cdevs pows cur mt binded True al =
     bindE (loopE (alloc_body th cdevs pows cur mt True) binded al) (\<lambda>c.
     case c of
       Return b al1 \<Rightarrow> Inr (al1, b)
     | other \<Rightarrow> alloc_while th cdevs pows cur mt binded False (alloc_settle (ctl_state other)))"
  by (subst alloc_while.simps) (simp add: Let_def)

text \<open>An invariant of the loop body and of the settling between passes holds at the end.\<close>

lemma alloc_while_inv:
  assumes run: "alloc_while th cdevs pows cur mt binded low al = Inr (al', ok)" and "I al"
    and body: "\<And>low p al c. I al \<Longrightarrow> alloc_body th cdevs pows cur mt low p al = Inr c \<Longrightarrow> I (ctl_state c)"
    and settle: "\<And>al. I al \<Longrightarrow> I (alloc_settle al)"
  shows "I al'"
proof -
  have loop: "I (ctl_state c)"
    if "loopE (alloc_body th cdevs pows cur mt low) binded al = Inr c" "I al" for low al c
    by (rule loopE_inv [where I = I, OF that]) (rule body)
  have second: "I al'" if r: "alloc_while th cdevs pows cur mt binded False al = Inr (al', ok)"
    and "I al" for al
  proof -
    obtain c where c: "loopE (alloc_body th cdevs pows cur mt False) binded al = Inr c"
      using r unfolding alloc_second_pass by auto
    with loop [OF c \<open>I al\<close>] r show ?thesis
      unfolding alloc_second_pass by (cases c) (auto intro: settle)
  qed
  show ?thesis
  proof (cases low)
    case True
    then obtain c where c: "loopE (alloc_body th cdevs pows cur mt True) binded al = Inr c"
      using run unfolding alloc_first_pass by (auto simp: alloc_first_pass)
    with loop [OF c \<open>I al\<close>] run True show ?thesis
      by (cases c) (auto simp: alloc_first_pass intro: settle second)
  next
    case False
    then show ?thesis using run second \<open>I al\<close> by simp
  qed
qed

lemma alloc_frame_while:
  assumes "alloc_while th cdevs pows cur mt binded low al = Inr (al', ok)" and "alloc_frame st al"
  shows "alloc_frame st al'"
  by (rule alloc_while_inv [where I = "alloc_frame st", OF assms])
    (auto intro: alloc_frame_body alloc_frame_settle)

lemma weight_step_status: "al_status (fold (weight_step cur) xs al) = al_status al"
  by (induction xs arbitrary: al) (auto simp: weight_step_def Let_def)

lemma keeps_allocatePower:
  assumes "allocatePowerToCdev temp si info cur t pows cdevs mt preds th st = Inr (st', ok)"
  shows "keeps_requests st st'"
proof -
  obtain total st1 al where u: "updatePowerBudget temp si info cdevs t cur mt pows preds th st = Inr (total, st1)"
    and w: "\<exists>al0. alloc_while th cdevs pows cur mt (active_cdevs info (ts_profile st1)) True al0 = Inr (al, ok)
        \<and> al_status al0 = st1"
    and st': "st' = al_status al"
    using assms by (fastforce simp: allocatePowerToCdev_def Let_def weight_step_status)
  obtain al0 where al0: "alloc_while th cdevs pows cur mt (active_cdevs info (ts_profile st1)) True al0 = Inr (al, ok)"
    "al_status al0 = st1" using w by blast
  have "alloc_frame st1 al0" using al0(2) by (simp add: alloc_frame_def)
  then have "alloc_frame st1 al" by (rule alloc_frame_while [OF al0(1)])
  then have "keeps_requests st1 st'"
    using st' by (subst (asm) alloc_frame_def, elim conjE ssubst) (simp add: keeps_requests_def pid_ok_def)
  with keeps_updatePowerBudget [OF u] show ?thesis by (rule keeps_requests_trans)
qed

lemma state_for_budget_ge: "state_for_budget ps b i = Inr j \<Longrightarrow> i \<le> j"
  by (induction ps b i rule: state_for_budget.induct) (auto split: if_splits)

lemma keeps_requestByPower:
  assumes "updateCdevRequestByPower cdevs st = Inr st'"
  shows "keeps_requests st st'"
proof -
  let ?I = "\<lambda>m. pid_ok st \<longrightarrow> (\<forall>c v. map_of m c = Some v \<longrightarrow> 0 \<le> v)"
  obtain m where m: "foldE (request_by_power_step cdevs) (ts_pid_power_budget_map st)
      (ts_pid_cdev_request_map st) = Inr m" and st': "st' = st\<lparr>ts_pid_cdev_request_map := m\<rparr>"
    using assms by (auto simp: updateCdevRequestByPower_def)
  have "?I m"
    by (rule foldE_inv [where I = ?I, OF m])
      (auto simp: pid_ok_def request_by_power_step_def set_key_Inr_iff split: if_splits
        dest: state_for_budget_ge)
  then show ?thesis using st' by (simp add: keeps_requests_def pid_ok_def)
qed

lemma keeps_bySeverity: "keeps_requests st (updateCdevRequestBySeverity info cur st)"
proof -
  have "ts_cdev_status_map (fold (hardlimit_step cur) xs st) = ts_cdev_status_map st" for xs st
    by (induction xs arbitrary: st) (auto simp: hardlimit_step_def)
  moreover have "ts_pid_cdev_request_map (fold (hardlimit_step cur) xs st) = ts_pid_cdev_request_map st" for xs st
    by (induction xs arbitrary: st) (auto simp: hardlimit_step_def)
  ultimately show ?thesis by (simp add: updateCdevRequestBySeverity_def keeps_requests_def pid_ok_def)
qed

lemma keeps_pid_update:
  assumes "pid_update temp si info cur t pows cdevs mt preds th st = Inr st'"
  shows "keeps_requests st st'"
proof (cases "ts_pid_power_budget_map st = []")
  case True
  then show ?thesis using assms by (simp add: pid_update_def)
next
  case False
  then obtain st1 ok where a: "allocatePowerToCdev temp si info cur t pows cdevs mt preds th st = Inr (st1, ok)"
    and r: "updateCdevRequestByPower cdevs
        (if ok then st1 else st1\<lparr>ts_pid_cdev_request_map := fill_all 0 (ts_pid_cdev_request_map st1)\<rparr>)
      = Inr st'"
    using assms by (auto simp: pid_update_def)
  from keeps_requestByPower [OF r] have "keeps_requests st1 st'"
    by (cases ok) (auto simp: keeps_requests_def pid_ok_def)
  with keeps_allocatePower [OF a] show ?thesis by (rule keeps_requests_trans)
qed

lemma keeps_release_loop:
  assumes "loopE (release_body cdevs pows sev) xs st = Inr c"
  shows "keeps_requests st (ctl_state c)"
  by (rule loopE_inv [where I = "keeps_requests st", OF assms])
    (auto simp: release_body_def keeps_requests_def pid_ok_def split: option.splits)

text \<open>A whole update rewrites only the status of its own sensor, and not its requests.\<close>

lemma thermalThrottlingUpdate_frame:
  assumes "thermalThrottlingUpdate gp temp si cur t pows cdevs mt preds th = Inr th'"
  shows "th' = th \<or> (\<exists>st st'. map_of (th_status_map th) (tp_name temp) = Some st
    \<and> keeps_requests st st' \<and> th' = th\<lparr>th_status_map := put (tp_name temp) st' (th_status_map th)\<rparr>)"
proof (cases "map_of (th_status_map th) (tp_name temp)")
  case None
  then show ?thesis using assms by (simp add: thermalThrottlingUpdate_def)
next
  case (Some st)
  then obtain info where info: "si_throttling_info si = Some info"
    using assms by (cases "si_throttling_info si") (auto simp: thermalThrottlingUpdate_def)
  let ?st1 = "if ti_profile_map info \<noteq> [] then parseProfileProperty gp (tp_name temp) si st else st"
  have k1: "keeps_requests st ?st1" by (simp add: keeps_parseProfile)
  obtain st2 where st2: "pid_update temp si info cur t pows cdevs mt preds th ?st1 = Inr st2"
    using assms Some info by (auto simp: thermalThrottlingUpdate_def)
  let ?st3 = "if ts_hardlimit_cdev_request_map st2 \<noteq> [] then updateCdevRequestBySeverity info cur st2 else st2"
  let ?th3 = "th\<lparr>th_status_map := put (tp_name temp) ?st3 (th_status_map th)\<rparr>"
  have k3: "keeps_requests st ?st3"
    using k1 keeps_pid_update [OF st2] keeps_bySeverity by (auto intro: keeps_requests_trans)
  show ?thesis
  proof (cases "ts_throttling_release_map ?st3 = []")
    case True
    then have "th' = ?th3" using assms Some info st2 by (simp add: thermalThrottlingUpdate_def Let_def)
    then show ?thesis using Some k3 by blast
  next
    case False
    then obtain b where "throttlingReleaseUpdate (tp_name temp) cdevs pows cur info ?th3 = Inr (th', b)"
      using assms Some info st2 by (auto simp: thermalThrottlingUpdate_def Let_def)
    then obtain c where c: "loopE (release_body cdevs pows cur) (ti_binded_cdev_info_map info) ?st3 = Inr c"
      and th': "th' = ?th3\<lparr>th_status_map := put (tp_name temp) (ctl_state c) (th_status_map ?th3)\<rparr>"
      by (auto simp: throttlingReleaseUpdate_def)
    have "keeps_requests st (ctl_state c)"
      using k3 keeps_release_loop [OF c] by (rule keeps_requests_trans)
    then show ?thesis using Some th' by auto
  qed
qed

section \<open>The four entry points keep the invariant\<close>

lemma clearThrottlingData_agree:
  assumes "votes_agree th"
  shows "votes_agree (clearThrottlingData s th)"
proof (cases "map_of (th_status_map th) s")
  case None
  then show ?thesis using assms by (simp add: clearThrottlingData_def)
next
  case (Some st)
  then show ?thesis
    using votes_agree_frame [OF assms Some] by (simp add: clearThrottlingData_def clear_status_def)
qed

lemma thermalThrottlingUpdate_agree:
  assumes "thermalThrottlingUpdate gp temp si cur t pows cdevs mt preds th = Inr th'"
    and "votes_agree th"
  shows "votes_agree th'"
  using thermalThrottlingUpdate_frame [OF assms(1)] assms(2) votes_agree_frame
  by (auto simp: keeps_requests_def)

text \<open>While a sensor is being registered all its requests are zero.\<close>

definition fresh_sensor :: "string \<Rightarrow> throttling_state \<Rightarrow> bool" where
  "fresh_sensor s th \<longleftrightarrow> (\<exists>st. map_of (th_status_map th) s = Some st
     \<and> (\<forall>c v. map_of (ts_cdev_status_map st) c = Some v \<longrightarrow> v = 0))"

lemma register_zero_agree:
  assumes agree: "votes_agree th" and fresh: "fresh_sensor s th"
    and f: "\<And>st. ts_cdev_status_map (f st) = put c 0 (ts_cdev_status_map st)"
  shows "votes_agree (add_zero_vote c (upd_status s f th)) \<and> fresh_sensor s (add_zero_vote c (upd_status s f th))"
proof -
  obtain st where st: "map_of (th_status_map th) s = Some st"
    and zero: "\<And>c v. map_of (ts_cdev_status_map st) c = Some v \<Longrightarrow> v = 0"
    using fresh by (auto simp: fresh_sensor_def)
  let ?m = "th_status_map th" and ?th = "add_zero_vote c (upd_status s f th)"
  have m': "th_status_map ?th = put s (f st) ?m" using st by (simp add: add_zero_vote_def upd_status_def)
  have vo: "votes_of ?th d = (if d = c then votes_insert 0 (votes_of th c) else votes_of th d)" for d
    by (simp add: add_zero_vote_def upd_status_def votes_of_def)
  have keys: "has (th_cdev_all_request_map ?th) d \<longleftrightarrow> d = c \<or> has (th_cdev_all_request_map th) d" for d
    by (simp add: add_zero_vote_def upd_status_def)
  have sv: "sensor_votes d (put s (f st) ?m) + vote_mset d st = sensor_votes d ?m + vote_mset d (f st)" for d
    using sensor_votes_put [of d s "f st" ?m] st by simp
  have "\<exists>k. mset (votes_of ?th d) = sensor_votes d (put s (f st) ?m) + replicate_mset k 0" for d
  proof (cases "d = c")
    case False
    then have "sensor_votes d (put s (f st) ?m) = sensor_votes d ?m"
      using sv [of d] f by (simp add: vote_mset_def)
    then show ?thesis using votes_agreeD(3) [OF agree, of d] vo False by simp
  next
    case True
    obtain k where k: "mset (votes_of th c) = sensor_votes c ?m + replicate_mset k 0"
      using votes_agreeD(3) [OF agree, of c] by blast
    show ?thesis
    proof (cases "map_of (ts_cdev_status_map st) c")
      case None
      then have "sensor_votes c (put s (f st) ?m) = add_mset 0 (sensor_votes c ?m)"
        using sv [of c] f by (simp add: vote_mset_def)
      then show ?thesis using k vo True by auto
    next
      case (Some v)
      then have "v = 0" by (rule zero)
      then have "sensor_votes c (put s (f st) ?m) = sensor_votes c ?m"
        using sv [of c] f Some by (simp add: vote_mset_def)
      then show ?thesis using k vo True by (intro exI [of _ "Suc k"]) simp
    qed
  qed
  moreover have "has (th_cdev_all_request_map ?th) d \<Longrightarrow> votes_of ?th d \<noteq> []" for d
  proof -
    assume "has (th_cdev_all_request_map ?th) d"
    moreover have "votes_insert 0 xs \<noteq> []" for xs by (cases xs) auto
    ultimately show ?thesis using keys vo votes_agreeD(2) [OF agree] by auto
  qed
  moreover have "votes_inv (votes_of ?th d)" for d
    using vo votes_agreeD(1) [OF agree] votes_inv_insert by simp
  ultimately have "votes_agree ?th" using m' by (simp add: votes_agree_def)
  moreover have "fresh_sensor s ?th"
    using m' f zero by (auto simp: fresh_sensor_def split: if_splits)
  ultimately show ?thesis ..
qed

lemma upd_status_agree:
  assumes "votes_agree th" and "fresh_sensor s th"
    and "\<And>st. ts_cdev_status_map (f st) = ts_cdev_status_map st"
  shows "votes_agree (upd_status s f th) \<and> fresh_sensor s (upd_status s f th)"
proof -
  obtain st where st: "map_of (th_status_map th) s = Some st"
    and zero: "\<forall>c v. map_of (ts_cdev_status_map st) c = Some v \<longrightarrow> v = 0"
    using assms(2) by (auto simp: fresh_sensor_def)
  have "votes_agree (th\<lparr>th_status_map := put s (f st) (th_status_map th)\<rparr>)"
    by (rule votes_agree_frame [OF assms(1) st]) (rule assms(3))
  then show ?thesis using st zero assms(3) by (simp add: upd_status_def fresh_sensor_def)
qed

lemma register_cdev_agree:
  assumes "votes_agree th" and "fresh_sensor s th"
  shows "votes_agree (register_cdev s p th) \<and> fresh_sensor s (register_cdev s p th)"
proof -
  have pid: "votes_agree (register_pid s c th) \<and> fresh_sensor s (register_pid s c th)"
    and hard: "votes_agree (register_hardlimit s c th) \<and> fresh_sensor s (register_hardlimit s c th)"
    and rel: "votes_agree (register_release s c th) \<and> fresh_sensor s (register_release s c th)"
    if "votes_agree th" "fresh_sensor s th" for c th
    unfolding register_pid_def register_hardlimit_def register_release_def
    by (rule register_zero_agree [OF that], simp, rule register_zero_agree [OF that], simp,
        rule upd_status_agree [OF that], simp)
  show ?thesis using assms by (auto simp: register_cdev_def Let_def pid hard rel)
qed

lemma register_cdevs_agree:
  assumes "register_cdevs s cdevs ps th = (ok, th')" and "votes_agree th" and "fresh_sensor s th"
  shows "votes_agree th'"
  using assms
proof (induction ps arbitrary: th)
  case Nil
  then show ?case by simp
next
  case (Cons p ps)
  then show ?case
    using register_cdev_agree [OF Cons.prems(2,3), of p] by (auto split: if_splits)
qed

lemma registerThermalThrottling_agree:
  assumes reg: "registerThermalThrottling s ti cdevs th = (ok, th')" and agree: "votes_agree th"
  shows "votes_agree th'"
proof (cases "has (th_status_map th) s \<or> ti = None")
  case True
  then show ?thesis using assms by (auto simp: registerThermalThrottling_def split: if_splits)
next
  case False
  then obtain info where info: "ti = Some info" and new: "\<not> has (th_status_map th) s" by auto
  let ?f = "\<lambda>st. st\<lparr>ts_prev_err := NaN, ts_i_budget := NaN, ts_prev_target := NONE,
    ts_prev_power_budget := NaN, ts_tran_cycle := 0, ts_profile := []\<rparr>"
  let ?th = "upd_status s ?f th"
  have m: "th_status_map ?th = put s (?f empty_status) (th_status_map th)"
    using new by (simp add: upd_status_def has_def)
  have "sensor_votes c (th_status_map ?th) = sensor_votes c (th_status_map th)" for c
    using sensor_votes_put_fresh [OF new] m by (simp add: vote_mset_def empty_status_def)
  then have "votes_agree ?th" using agree by (simp add: votes_agree_def upd_status_def)
  moreover have "fresh_sensor s ?th" using m by (simp add: fresh_sensor_def empty_status_def)
  moreover have "register_cdevs s cdevs (ti_binded_cdev_info_map info) ?th = (ok, th')"
    using reg info new by (simp add: registerThermalThrottling_def)
  ultimately show ?thesis using register_cdevs_agree by blast
qed

text \<open>
  \<open>computeCoolingDevicesRequest\<close> succeeds when every request can be computed, and then records
  the requests, keeps the invariant and reports the devices whose aggregated request changed.
\<close>

lemma computeCoolingDevicesRequest_spec:
  assumes agree: "votes_agree th" and st: "map_of (th_status_map th) s = Some st"
    and dist: "distinct (map fst (ts_cdev_status_map st))"
    and req: "\<And>c. has (ts_cdev_status_map st) c \<Longrightarrow>
      request_for (active_cdevs info (ts_profile st)) cur st c = Inr (req c)"
  obtains th' cs new h' where
    "computeCoolingDevicesRequest upd s info cur tu h th = Inr (th', tu @ new, h')"
    "th_status_map th' = put s (st\<lparr>ts_cdev_status_map := cs\<rparr>) (th_status_map th)"
    "votes_agree th'" "distinct (map fst cs)"
    "\<And>c. map_of cs c = (if has (ts_cdev_status_map st) c then Some (req c) else None)"
    "\<And>c. c \<in> set new \<longleftrightarrow> getCdevMaxRequest th' c \<noteq> getCdevMaxRequest th c"
proof -
  let ?cs = "ts_cdev_status_map st" and ?b = "active_cdevs info (ts_profile st)"
  have "set_vote s st ?cs th = th\<lparr>th_status_map := put s st (th_status_map th)\<rparr>"
    by (simp add: set_vote_def)
  then have a: "votes_agree (set_vote s st ?cs th)"
    using votes_agree_frame [OF agree st] by simp
  have r: "request_for ?b cur st (fst p) = Inr (req (fst p))" if "p \<in> set ?cs" for p
    using that req by (auto simp: has_iff_in_keys)
  obtain th1 cs new h' where l:
    "foldE (compute_step upd s ?b cur st) ?cs (th, ?cs, tu, h) = Inr (th1, cs, tu @ new, h')"
    "th_status_map th1 = th_status_map th" "votes_agree (set_vote s st cs th1)"
    "\<forall>c. map_of cs c = (if c \<in> fst ` set ?cs then Some (req c) else map_of ?cs c)"
    "\<forall>c. c \<in> set new \<longleftrightarrow> getCdevMaxRequest th1 c \<noteq> getCdevMaxRequest th c"
    "distinct (map fst ?cs) \<longrightarrow> distinct (map fst cs)"
    using compute_loop [OF a dist _ r, of upd tu h] dist by auto
  show thesis
  proof (rule that [of "set_vote s st cs th1" new h' cs])
    show "computeCoolingDevicesRequest upd s info cur tu h th
        = Inr (set_vote s st cs th1, tu @ new, h')"
      using st l(1) by (simp add: computeCoolingDevicesRequest_def set_vote_def)
    show "map_of cs c = (if has ?cs c then Some (req c) else None)" for c
      using l(4) by (auto simp: has_iff_in_keys map_of_eq_None_iff)
    show "c \<in> set new \<longleftrightarrow> getCdevMaxRequest (set_vote s st cs th1) c \<noteq> getCdevMaxRequest th c" for c
      using l(5) by (simp add: set_vote_def getCdevMaxRequest_def)
  qed (use l dist in \<open>auto simp: set_vote_def\<close>)
qed

section \<open>Reachable states\<close>

text \<open>The ceilings of a configuration are states of a device, so not negative.\<close>

definition ceilings_ok :: "ThrottlingInfo \<Rightarrow> bool" where
  "ceilings_ok info \<longleftrightarrow>
     (\<forall>profile p sev. p \<in> set (active_cdevs info profile) \<longrightarrow> 0 \<le> bc_cdev_ceiling (snd p) sev)"

text \<open>
  The calls of \<open>updateSensorCdevRequestStats\<close> as a log, in order: what the stats helper sees.
\<close>

type_synonym request_log = "(string \<times> string \<times> int) list"

definition log_request :: "string \<Rightarrow> string \<Rightarrow> int \<Rightarrow> request_log \<Rightarrow> request_log" where
  "log_request sensor cdev state h = h @ [(sensor, cdev, state)]"

inductive th_reach :: "throttling_state \<Rightarrow> bool" where
  start: "th_reach \<lparr>th_status_map = [], th_cdev_all_request_map = []\<rparr>"
| register: "th_reach th \<Longrightarrow> registerThermalThrottling s ti cdevs th = (ok, th') \<Longrightarrow> th_reach th'"
| clear: "th_reach th \<Longrightarrow> th_reach (clearThrottlingData s th)"
| update: "th_reach th \<Longrightarrow>
    thermalThrottlingUpdate gp temp si cur t pows cdevs mt preds th = Inr th' \<Longrightarrow> th_reach th'"
| compute: "th_reach th \<Longrightarrow> ceilings_ok info \<Longrightarrow>
    computeCoolingDevicesRequest log_request s info cur tu h th = Inr (th', tu', h') \<Longrightarrow> th_reach th'"

definition status_ok :: "ThermalThrottlingStatus \<Rightarrow> bool" where
  "status_ok st \<longleftrightarrow> distinct (map fst (ts_cdev_status_map st)) \<and> pid_ok st \<and>
     (\<forall>c v. map_of (ts_cdev_status_map st) c = Some v \<longrightarrow> 0 \<le> v)"

definition statuses_ok :: "ThermalThrottlingStatus smap \<Rightarrow> bool" where
  "statuses_ok m \<longleftrightarrow> (\<forall>p \<in> set m. status_ok (snd p))"

definition th_inv :: "throttling_state \<Rightarrow> bool" where
  "th_inv th \<longleftrightarrow> votes_agree th \<and> statuses_ok (th_status_map th)"

lemma status_ok_empty [simp]: "status_ok empty_status"
  by (simp add: status_ok_def pid_ok_def empty_status_def)

lemma statuses_ok_lookup: "statuses_ok m \<Longrightarrow> map_of m s = Some st \<Longrightarrow> status_ok st"
  using map_of_SomeD by (fastforce simp: statuses_ok_def)

lemma statuses_ok_put: "statuses_ok m \<Longrightarrow> status_ok st \<Longrightarrow> statuses_ok (put s st m)"
  using set_put [of s st m] by (auto simp: statuses_ok_def)

lemma statuses_ok_upd:
  assumes "statuses_ok (th_status_map th)" and "\<And>st. status_ok st \<Longrightarrow> status_ok (f st)"
  shows "statuses_ok (th_status_map (upd_status s f th))"
proof -
  have "status_ok (case map_of (th_status_map th) s of None \<Rightarrow> empty_status | Some st \<Rightarrow> st)"
    using statuses_ok_lookup [OF assms(1)] by (cases "map_of (th_status_map th) s") auto
  then show ?thesis using assms by (simp add: upd_status_def statuses_ok_put)
qed

lemma status_ok_keeps:
  "status_ok st \<Longrightarrow> keeps_requests st st' \<Longrightarrow> status_ok st'"
  by (simp add: status_ok_def keeps_requests_def)

text \<open>The new request in closed form.\<close>

definition request_spec :: "int \<Rightarrow> int \<Rightarrow> int \<Rightarrow> int \<Rightarrow> int \<Rightarrow> int" where
  "request_spec pid hard release cdev_floor cdev_ceiling =
     min cdev_ceiling
       (if release = 0 then max pid hard else max cdev_floor (max 0 (max pid hard - release)))"

lemma final_request_eq:
  "final_request pid hard rel fl cl =
     (if rel \<noteq> 0 \<and> rel < max pid hard \<and> \<not> is_int32 (max pid hard - rel) then Inl UB
      else Inr (request_spec pid hard rel fl cl))"
proof -
  define m where "m = max pid hard"
  have "max 0 (m - rel) = (if m \<le> rel then 0 else m - rel)" by simp
  then show ?thesis
    unfolding final_request_def request_spec_def Let_def int32_def m_def [symmetric]
    by (simp add: max.commute [of fl] min.commute [of cl] not_le)
qed

lemma final_request_spec:
  "is_int32 (max pid hard - rel) \<Longrightarrow> final_request pid hard rel fl cl = Inr (request_spec pid hard rel fl cl)"
  by (simp add: final_request_eq)

lemma final_request_Inr:
  "final_request pid hard rel fl cl = Inr r \<Longrightarrow> r = request_spec pid hard rel fl cl"
  by (simp add: final_request_eq split: if_splits)

lemma request_spec_nonneg: "0 \<le> pid \<Longrightarrow> 0 \<le> cl \<Longrightarrow> 0 \<le> request_spec pid hard rel fl cl"
  by (simp add: request_spec_def le_max_iff_disj)

lemma request_for_nonneg:
  assumes "request_for binded cur st c = Inr r" and "pid_ok st"
    and "\<And>p sev. p \<in> set binded \<Longrightarrow> 0 \<le> bc_cdev_ceiling (snd p) sev"
  shows "0 \<le> r"
proof -
  obtain bc where bc: "map_of binded c = Some bc"
    and r: "r = request_spec (map_default 0 (ts_pid_cdev_request_map st) c)
      (map_default 0 (ts_hardlimit_cdev_request_map st) c)
      (map_default 0 (ts_throttling_release_map st) c)
      (bc_cdev_floor_with_power_link bc cur) (bc_cdev_ceiling bc cur)"
    using assms(1) by (auto simp: request_for_def at_key_Inr_iff dest: final_request_Inr)
  have "0 \<le> bc_cdev_ceiling bc cur" using assms(3) [OF map_of_SomeD [OF bc]] by simp
  moreover have "0 \<le> map_default 0 (ts_pid_cdev_request_map st) c"
    using assms(2) by (auto simp: map_default_def pid_ok_def split: option.splits)
  ultimately show ?thesis using r by (simp add: request_spec_nonneg)
qed

lemma register_cdev_statuses_ok:
  assumes "statuses_ok (th_status_map th)"
  shows "statuses_ok (th_status_map (register_cdev s q th))"
proof -
  have zero: "th_status_map (add_zero_vote c th) = th_status_map th" for c th
    by (simp add: add_zero_vote_def)
  have pid: "statuses_ok (th_status_map (register_pid s c th))"
    if "statuses_ok (th_status_map th)" for c th
    unfolding register_pid_def zero
    by (rule statuses_ok_upd [OF that]) (auto simp: status_ok_def pid_ok_def distinct_put)
  have hard: "statuses_ok (th_status_map (register_hardlimit s c th))"
    if "statuses_ok (th_status_map th)" for c th
    unfolding register_hardlimit_def zero
    by (rule statuses_ok_upd [OF that]) (auto simp: status_ok_def pid_ok_def distinct_put)
  have rel: "statuses_ok (th_status_map (register_release s c th))"
    if "statuses_ok (th_status_map th)" for c th
    unfolding register_release_def
    by (rule statuses_ok_upd [OF that]) (auto simp: status_ok_def pid_ok_def)
  show ?thesis using assms by (auto simp: register_cdev_def Let_def pid hard rel)
qed

lemma register_cdevs_statuses_ok:
  assumes "register_cdevs s cdevs ps th = (ok, th')" and "statuses_ok (th_status_map th)"
  shows "statuses_ok (th_status_map th')"
  using assms
proof (induction ps arbitrary: th)
  case Nil
  then show ?case by simp
next
  case (Cons p ps)
  then show ?case
    using register_cdev_statuses_ok [OF Cons.prems(2), of s p] by (auto split: if_splits)
qed

lemma registerThermalThrottling_statuses_ok:
  assumes "registerThermalThrottling s ti cdevs th = (ok, th')" and "statuses_ok (th_status_map th)"
  shows "statuses_ok (th_status_map th')"
proof (cases "has (th_status_map th) s \<or> ti = None")
  case True
  then show ?thesis using assms by (auto simp: registerThermalThrottling_def split: if_splits)
next
  case False
  then show ?thesis using assms
    by (auto simp: registerThermalThrottling_def elim!: register_cdevs_statuses_ok
        intro!: statuses_ok_upd simp: status_ok_def pid_ok_def)
qed

lemma compute_agree:
  assumes run: "computeCoolingDevicesRequest upd s info cur tu h th = Inr (th', tu', h')"
    and inv: "th_inv th" and ceil: "ceilings_ok info"
  shows "th_inv th'"
proof (cases "map_of (th_status_map th) s")
  case None
  then show ?thesis using run inv by (simp add: computeCoolingDevicesRequest_def)
next
  case (Some st)
  let ?b = "active_cdevs info (ts_profile st)"
  have st: "status_ok st" using inv Some statuses_ok_lookup by (auto simp: th_inv_def)
  obtain out where loop: "foldE (compute_step upd s ?b cur st) (ts_cdev_status_map st)
      (th, ts_cdev_status_map st, tu, h) = Inr out"
    using run Some by (auto simp: computeCoolingDevicesRequest_def)
  define req where "req c = (case request_for ?b cur st c of Inl _ \<Rightarrow> 0 | Inr r \<Rightarrow> r)" for c
  have req: "request_for ?b cur st c = Inr (req c)" if "has (ts_cdev_status_map st) c" for c
    using compute_loop_requests [OF loop] that by (fastforce simp: has_iff_in_keys req_def)
  have nonneg: "0 \<le> req c" if "has (ts_cdev_status_map st) c" for c
    using request_for_nonneg [OF req [OF that]] st ceil by (auto simp: status_ok_def ceilings_ok_def)
  obtain th1 cs new h1 where
    c: "computeCoolingDevicesRequest upd s info cur tu h th = Inr (th1, tu @ new, h1)"
    "th_status_map th1 = put s (st\<lparr>ts_cdev_status_map := cs\<rparr>) (th_status_map th)"
    "votes_agree th1" "distinct (map fst cs)"
    "\<And>c. map_of cs c = (if has (ts_cdev_status_map st) c then Some (req c) else None)"
    using computeCoolingDevicesRequest_spec [where upd = upd and tu = tu and h = h, OF _ Some _ req] inv st
    by (auto simp: th_inv_def status_ok_def) metis
  have "status_ok (st\<lparr>ts_cdev_status_map := cs\<rparr>)"
    using st c(4,5) nonneg by (auto simp: status_ok_def pid_ok_def split: if_splits)
  then show ?thesis
    using c run inv by (auto simp: th_inv_def intro!: statuses_ok_put)
qed

lemma th_reach_inv: "th_reach th \<Longrightarrow> th_inv th"
proof (induction rule: th_reach.induct)
  case start
  show ?case using votes_agree_empty by (simp add: th_inv_def statuses_ok_def)
next
  case (register th s ti cdevs ok th')
  then show ?case
    using registerThermalThrottling_agree registerThermalThrottling_statuses_ok
    by (auto simp: th_inv_def)
next
  case (clear th s)
  have "statuses_ok (th_status_map (clearThrottlingData s th))"
  proof (cases "map_of (th_status_map th) s")
    case None
    then show ?thesis using clear by (simp add: clearThrottlingData_def th_inv_def)
  next
    case (Some st)
    have "status_ok (clear_status st)"
      using clear Some statuses_ok_lookup [of "th_status_map th" s st]
      by (auto simp: th_inv_def status_ok_def clear_status_def pid_ok_def split: option.splits)
    then show ?thesis using clear Some by (simp add: clearThrottlingData_def th_inv_def statuses_ok_put)
  qed
  then show ?case using clear clearThrottlingData_agree by (simp add: th_inv_def)
next
  case (update th gp temp si cur t pows cdevs mt preds th')
  have "votes_agree th'" using update thermalThrottlingUpdate_agree by (auto simp: th_inv_def)
  moreover have "statuses_ok (th_status_map th')"
    using thermalThrottlingUpdate_frame [OF update.hyps(2)] update.IH
    by (auto simp: th_inv_def intro!: statuses_ok_put)
      (blast intro: status_ok_keeps statuses_ok_lookup)
  ultimately show ?case by (simp add: th_inv_def)
next
  case (compute th info s cur tu h th' tu' h')
  show ?case by (rule compute_agree [OF compute.hyps(3) compute.IH compute.hyps(2)])
qed

section \<open>The aggregated request\<close>

lemma reachable_request:
  assumes "th_reach th" and "has (th_cdev_all_request_map th) cdev"
  shows "getCdevMaxRequest th cdev
    = Inr (Some (Max (insert 0 (set_mset (sensor_votes cdev (th_status_map th))))))"
proof -
  have inv: "th_inv th" by (rule th_reach_inv [OF assms(1)])
  show ?thesis
  proof (rule getCdevMaxRequest_Max [OF _ assms(2)])
    show "votes_agree th" using inv by (simp add: th_inv_def)
    show "0 \<le> v" if "v \<in># sensor_votes cdev (th_status_map th)" for v
    proof (rule sensor_votes_nonneg [OF _ that])
      fix s st v
      assume "(s, st) \<in> set (th_status_map th)" and "map_of (ts_cdev_status_map st) cdev = Some v"
      then show "0 \<le> v" using inv by (fastforce simp: th_inv_def statuses_ok_def status_ok_def)
    qed
  qed
qed

text \<open>
  C1: In every reachable state of the throttling engine the state requested of a cooling device is
  the greatest request that any registered sensor has recorded for it, and 0 if none asks for more.
\<close>

theorem aggregated_request_is_max:
  assumes "th_reach th" and "has (th_cdev_all_request_map th) cdev"
  shows "getCdevMaxRequest th cdev
    = Inr (Some (Max (insert 0 (set_mset (sensor_votes cdev (th_status_map th))))))"
  by (rule reachable_request [OF assms])

text \<open>The engine after registering \<open>cpu\<close>, one update at SEVERE and one aggregation.\<close>

definition ex_registered :: throttling_state where
  "ex_registered = snd (registerThermalThrottling ''cpu'' (Some ex_info) ex_cdevs
     \<lparr>th_status_map = [], th_cdev_all_request_map = []\<rparr>)"

definition ex_updated :: "throttling_state result" where
  "ex_updated = thermalThrottlingUpdate (\<lambda>_. []) (ex_temp (of_int_f 51)) (ex_sensor ex_info) SEVERE 1000
     [] ex_cdevs False [] ex_registered"

definition ex_computed :: "(throttling_state \<times> string list \<times> request_log) result" where
  "ex_computed = bindE ex_updated (computeCoolingDevicesRequest log_request ''cpu'' ex_info SEVERE [] [])"

definition ex_status :: "int \<Rightarrow> int \<Rightarrow> ThermalThrottlingStatus" where
  "ex_status hard request = empty_status\<lparr>ts_hardlimit_cdev_request_map := [(''fan'', hard)],
     ts_cdev_status_map := [(''fan'', request)], ts_prev_err := NaN, ts_i_budget := NaN,
     ts_prev_power_budget := NaN\<rparr>"

lemma ex_registered_eq: "ex_registered =
    \<lparr>th_status_map = [(''cpu'', ex_status 0 0)], th_cdev_all_request_map = [(''fan'', [0])]\<rparr>"
  by (simp add: ex_registered_def ex_status_def registerThermalThrottling_def register_cdev_def
      register_hardlimit_def upd_status_def add_zero_vote_def votes_of_def empty_status_def
      ex_defs sev_range_def has_def put_def Let_def)

lemma ex_updated_eq: "ex_updated = Inr
    \<lparr>th_status_map = [(''cpu'', ex_status 3 0)], th_cdev_all_request_map = [(''fan'', [0])]\<rparr>"
  by (simp add: ex_updated_def ex_registered_eq thermalThrottlingUpdate_def pid_update_def
      updateCdevRequestBySeverity_def hardlimit_step_def active_cdevs_def ex_status_def
      empty_status_def ex_defs has_def put_def)

lemma ex_computed_eq: "ex_computed = Inr
    (\<lparr>th_status_map = [(''cpu'', ex_status 3 3)], th_cdev_all_request_map = [(''fan'', [3])]\<rparr>,
     [''fan''], [(''cpu'', ''fan'', 3)])"
  by (simp add: ex_computed_def ex_updated_eq computeCoolingDevicesRequest_def compute_step_def
      request_for_def final_request_def updateCdevMaxRequestAndNotifyIfChange_def votes_begin_def
      votes_erase_def active_cdevs_def map_default_def log_request_def ex_status_def
      empty_status_def ex_defs has_def put_def Let_def)

lemma ex_ceilings_ok: "ceilings_ok ex_info"
  by (simp add: ceilings_ok_def active_cdevs_def ex_defs)

lemma ex_registered_reach: "th_reach ex_registered"
  by (rule th_reach.register [OF th_reach.start]) (simp add: ex_registered_def prod_eq_iff)

lemma ex_updated_reach: "th_reach (projr ex_updated)"
proof (rule th_reach.update [OF ex_registered_reach])
  show "thermalThrottlingUpdate (\<lambda>_. []) (ex_temp (of_int_f 51)) (ex_sensor ex_info) SEVERE 1000
      [] ex_cdevs False [] ex_registered = Inr (projr ex_updated)"
    using ex_updated_eq by (simp add: ex_updated_def)
qed

lemma ex_computed_reach: "th_reach (fst (projr ex_computed))"
proof (rule th_reach.compute [OF ex_updated_reach ex_ceilings_ok])
  have "bindE ex_updated (computeCoolingDevicesRequest log_request ''cpu'' ex_info SEVERE [] [])
      = ex_computed" by (simp add: ex_computed_def)
  then show "computeCoolingDevicesRequest log_request ''cpu'' ex_info SEVERE [] [] (projr ex_updated)
      = Inr (fst (projr ex_computed), [''fan''], [(''cpu'', ''fan'', 3)])"
    unfolding ex_computed_eq ex_updated_eq by simp
qed

theorem aggregated_request_is_max_witness:
  "getCdevMaxRequest (fst (projr ex_computed)) ''fan''
    = Inr (Some (Max (insert 0 (set_mset (sensor_votes ''fan'' (th_status_map (fst (projr ex_computed)))))))) \<and>
   getCdevMaxRequest (fst (projr ex_computed)) ''fan'' = Inr (Some 3)"
proof -
  have h: "has (th_cdev_all_request_map (fst (projr ex_computed))) ''fan''"
    by (simp add: ex_computed_eq has_def)
  show ?thesis
    using aggregated_request_is_max [OF ex_computed_reach h]
    by (simp add: ex_computed_eq getCdevMaxRequest_def votes_begin_def)
qed

text \<open>
  C9: Aggregating the requests of a registered sensor succeeds whenever each of its devices is
  bound by the active profile and no subtraction overflows. Each device then gets the larger of
  its PID and hard limit requests, reduced by the release step (not below 0 or the floor) and
  capped by the ceiling; and the devices reported for an update are exactly those whose aggregated
  request changed.
\<close>

theorem computeCoolingDevicesRequest_correct:
  assumes "th_reach th" and "map_of (th_status_map th) sensor = Some st"
    and "\<And>c. has (ts_cdev_status_map st) c \<Longrightarrow>
      has (active_cdevs info (ts_profile st)) c \<and>
      is_int32 (max (map_default 0 (ts_pid_cdev_request_map st) c)
                  (map_default 0 (ts_hardlimit_cdev_request_map st) c)
                - map_default 0 (ts_throttling_release_map st) c)"
  shows "\<exists>th' st' new log'.
    computeCoolingDevicesRequest log_request sensor info cur tu log th = Inr (th', tu @ new, log')
    \<and> map_of (th_status_map th') sensor = Some st'
    \<and> (\<forall>c bc. has (ts_cdev_status_map st) c \<and> map_of (active_cdevs info (ts_profile st)) c = Some bc \<longrightarrow>
         map_of (ts_cdev_status_map st') c = Some (request_spec
           (map_default 0 (ts_pid_cdev_request_map st) c)
           (map_default 0 (ts_hardlimit_cdev_request_map st) c)
           (map_default 0 (ts_throttling_release_map st) c)
           (bc_cdev_floor_with_power_link bc cur) (bc_cdev_ceiling bc cur)))
    \<and> (\<forall>c. c \<in> set new \<longleftrightarrow> getCdevMaxRequest th' c \<noteq> getCdevMaxRequest th c)"
proof -
  let ?b = "active_cdevs info (ts_profile st)"
  have inv: "th_inv th" by (rule th_reach_inv [OF assms(1)])
  then have dist: "distinct (map fst (ts_cdev_status_map st))" and agree: "votes_agree th"
    using statuses_ok_lookup [OF _ assms(2)] by (auto simp: th_inv_def status_ok_def)
  define req where "req c = (case map_of ?b c of None \<Rightarrow> 0 | Some bc \<Rightarrow> request_spec
      (map_default 0 (ts_pid_cdev_request_map st) c)
      (map_default 0 (ts_hardlimit_cdev_request_map st) c)
      (map_default 0 (ts_throttling_release_map st) c)
      (bc_cdev_floor_with_power_link bc cur) (bc_cdev_ceiling bc cur))" for c
  have "request_for ?b cur st c = Inr (req c)" if "has (ts_cdev_status_map st) c" for c
    using assms(3) [OF that]
    by (auto simp: request_for_def has_def req_def final_request_spec)
  from computeCoolingDevicesRequest_spec [OF agree assms(2) dist this, of log_request tu log]
  obtain th' cs new h' where c:
    "computeCoolingDevicesRequest log_request sensor info cur tu log th = Inr (th', tu @ new, h')"
    "th_status_map th' = put sensor (st\<lparr>ts_cdev_status_map := cs\<rparr>) (th_status_map th)"
    "\<And>c. map_of cs c = (if has (ts_cdev_status_map st) c then Some (req c) else None)"
    "\<And>c. c \<in> set new \<longleftrightarrow> getCdevMaxRequest th' c \<noteq> getCdevMaxRequest th c"
    by metis
  show ?thesis
  proof (intro exI conjI)
    show "map_of (th_status_map th') sensor = Some (st\<lparr>ts_cdev_status_map := cs\<rparr>)"
      using c(2) by simp
  qed (use c in \<open>auto simp: req_def\<close>)
qed

theorem computeCoolingDevicesRequest_correct_witness:
  "\<exists>th' st' new log'.
    computeCoolingDevicesRequest log_request ''cpu'' ex_info SEVERE [] [] (projr ex_updated)
      = Inr (th', [] @ new, log')
    \<and> map_of (th_status_map th') ''cpu'' = Some st'
    \<and> map_of (ts_cdev_status_map st') ''fan'' = Some 3"
proof -
  have st: "map_of (th_status_map (projr ex_updated)) ''cpu'' = Some (ex_status 3 0)"
    by (simp add: ex_updated_eq)
  have ok: "has (active_cdevs ex_info (ts_profile (ex_status 3 0))) c \<and>
      is_int32 (max (map_default 0 (ts_pid_cdev_request_map (ex_status 3 0)) c)
                  (map_default 0 (ts_hardlimit_cdev_request_map (ex_status 3 0)) c)
                - map_default 0 (ts_throttling_release_map (ex_status 3 0)) c)"
    if "has (ts_cdev_status_map (ex_status 3 0)) c" for c
    using that by (auto simp: ex_status_def empty_status_def has_def active_cdevs_def ex_defs
        map_default_def is_int32_def INT_MAX_def INT_MIN_def split: if_splits)
  show ?thesis
    using computeCoolingDevicesRequest_correct [OF ex_updated_reach st ok, of SEVERE "[]" "[]"]
    by (fastforce simp: ex_status_def empty_status_def has_def active_cdevs_def ex_defs
        map_default_def request_spec_def)
qed

end
