(* ===== verification/PidLemmas.thy ===== *)
theory PidLemmas
  imports PidBudget ThrottlingReach ThermalTypes
begin

text \<open>
  What the PID half of the throttling engine guarantees: the bounds of the power budget and of its
  integral term, the state a budget is turned into, the steps that the release and throttle limits
  take over states of equal power; and where the code departs from what it means to do.
\<close>

section \<open>Floats at the bounds\<close>

lemma frep_one: "frep (Fin (2 ^ 149))"
  by (simp add: rep_def ulp_exp_def bits.simps fmax_units_def)

lemma of_int_f_1: "of_int_f 1 = Fin (2 ^ 149)"
  using rnd_exact [OF frep_one] by (simp add: of_int_f_def)

lemma rne_scale:
  assumes "0 < d"
  shows "rne (k * d) (d * p) = rne k p"
proof -
  have q: "k * d div (d * p) = k div p"
    using assms by (subst mult.commute) (rule div_mult_mult1, simp)
  have r: "k * d mod (d * p) = d * (k mod p)"
    by (subst mult.commute) (rule mult_mod_right [symmetric])
  have "2 * (d * (k mod p)) < d * p \<longleftrightarrow> 2 * (k mod p) < p"
    using mult_less_cancel_left_pos [OF assms, of "2 * (k mod p)" p] by (simp only: mult.left_commute)
  moreover have "2 * (d * (k mod p)) = d * p \<longleftrightarrow> 2 * (k mod p) = p"
    using mult_cancel_left [of d "2 * (k mod p)" p] assms by (simp only: mult.left_commute) simp
  ultimately show ?thesis unfolding rne_def q r Let_def by simp
qed

lemma rnd_scale: "0 < d \<Longrightarrow> rnd (k * d) d = rnd k 1"
proof -
  assume d: "0 < d"
  have "\<bar>k * d\<bar> div d = \<bar>k\<bar>" using d by (simp add: abs_mult)
  then have "ulp_exp (k * d) d = ulp_exp k 1" by (simp add: ulp_exp_def)
  then show ?thesis using rne_scale [OF d] by (simp add: rnd_def rnd_units_def)
qed

lemma rnd_neg: "0 < d \<Longrightarrow> rnd (- n) d = fneg (rnd n d)"
  using fmax_units_pos(1) by (simp add: rnd_def rnd_units_neg Let_def del: fmax_units_pos)

lemma fmul_one: "frep x \<Longrightarrow> fmul x (of_int_f 1) = x"
proof (cases x)
  case (Fin k)
  assume "frep x"
  then have "rnd (k * 2 ^ 149) (2 ^ 149) = Fin k" using Fin rnd_exact rnd_scale [of "2 ^ 149" k] by simp
  then show ?thesis by (simp only: Fin of_int_f_1 fmul.simps)
qed (simp_all add: of_int_f_1 sgn_flt_def inf_of_sgn_def)

lemma of_int_f_neg: "of_int_f (- i) = fneg (of_int_f i)"
  using rnd_neg [of 1 "i * 2 ^ 149"] by (simp add: of_int_f_def)

lemma fmul_fneg_right: "fmul x (fneg (Fin k)) = fneg (fmul x (Fin k))"
proof (cases x)
  case (Fin a)
  have "rnd (- (a * k)) (2 ^ 149) = fneg (rnd (a * k) (2 ^ 149))" by (rule rnd_neg) simp
  then show ?thesis by (simp only: Fin fmul.simps fneg.simps mult_minus_right)
qed (auto simp: sgn_flt_def inf_of_sgn_def)

lemma fmul_minus_one: "frep x \<Longrightarrow> fmul x (of_int_f (- 1)) = fneg x"
  using fmul_one [of x] fmul_fneg_right [of x "2 ^ 149"] by (simp add: of_int_f_neg of_int_f_1)

lemma ffabs_fneg [simp]: "ffabs (fneg x) = ffabs x"
  by (cases x) auto

lemma ffabs_nonneg: "flt_le (Fin 0) x \<Longrightarrow> ffabs x = x"
  by (cases x) auto

section \<open>The integral term\<close>

text \<open>
  Anti-windup. Whatever the error, the gains and the stored term, the integral term the
  controller keeps is at most \<open>i_max\<close> of the target state in magnitude (or NaN, when the gains
  are not configured).
\<close>

theorem i_budget_limited:
  assumes "frep (ti_i_max info tgt)" and "flt_le (Fin 0) (ti_i_max info tgt)"
  shows "isnan (next_i_budget info tgt err prev rel thr i)
    \<or> flt_le (ffabs (next_i_budget info tgt err prev rel thr i)) (ti_i_max info tgt)"
proof -
  let ?m = "ti_i_max info tgt"
  obtain j where j: "next_i_budget info tgt err prev rel thr i =
      (if flt_lt ?m (ffabs j)
       then fmul ?m (if flt_lt (Fin 0) j then of_int_f 1 else of_int_f (- 1)) else j)"
    unfolding next_i_budget_def Let_def by blast
  have m: "ffabs ?m = ?m" "\<not> isnan ?m" using assms(2) ffabs_nonneg flt_le_not_nan by auto
  show ?thesis
  proof (cases "flt_lt ?m (ffabs j)")
    case True
    then have "next_i_budget info tgt err prev rel thr i = (if flt_lt (Fin 0) j then ?m else fneg ?m)"
      using j fmul_one [OF assms(1)] fmul_minus_one [OF assms(1)] by auto
    then show ?thesis using m flt_le_refl [of ?m] by auto
  next
    case False
    then have eq: "next_i_budget info tgt err prev rel thr i = j" using j by simp
    show ?thesis
    proof (cases "isnan j")
      case nan: False
      then have "\<not> isnan (ffabs j)" by (cases j) auto
      then show ?thesis using eq False flt_not_lt m(2) by blast
    qed (use eq in simp)
  qed
qed

theorem i_budget_limited_witness:
  "isnan (next_i_budget ex_info SEVERE (of_int_f (- 9)) (of_int_f 900) False False (of_int_f 700))
    \<or> flt_le (ffabs (next_i_budget ex_info SEVERE (of_int_f (- 9)) (of_int_f 900) False False
        (of_int_f 700))) (of_int_f 200)"
  using i_budget_limited [of ex_info SEVERE "of_int_f (- 9)" "of_int_f 900" False False "of_int_f 700"]
    frep_of_int_f of_int_f_mono [of 0 200]
  by (simp add: ex_info_def)

section \<open>The power budget\<close>

lemma fully_loop_total:
  assumes "\<And>p. p \<in> set binded \<Longrightarrow> has requests (fst p)"
  shows "\<exists>r. foldE (fully_step requests cur) binded acc = Inr r"
proof -
  have "\<exists>s'. foldE (fully_step requests cur) binded acc = Inr s' \<and> True"
    by (rule foldE_total [where I = "\<lambda>_. True"])
      (use assms has_at_key in \<open>force simp: fully_step_def\<close>)+
  then show ?thesis by blast
qed

lemma excluded_total:
  assumes "\<And>p. p \<in> set (ti_excluded_power_info_map info) \<Longrightarrow> has pows (fst p)"
  shows "\<exists>r. computeExcludedPower info cur pows = Inr r"
proof -
  have "\<exists>s'. computeExcludedPower info cur pows = Inr s' \<and> True"
    unfolding computeExcludedPower_def
    by (rule foldE_total [where I = "\<lambda>_. True"])
      (use assms has_at_key in \<open>force simp: excluded_step_def\<close>)+
  then show ?thesis by blast
qed

lemma compensation_loop_total:
  "length preds \<le> length ws \<Longrightarrow> \<exists>r. compensation_loop ws target mp preds acc = Inr r"
  by (induction ws target mp preds acc rule: compensation_loop.induct) (auto split: list.splits)

lemma compensation_total:
  assumes "\<And>pred. si_predictor_info si = Some pred \<Longrightarrow> length preds \<le> length (pi_prediction_weights pred)"
  shows "\<exists>r. compensation si tgt target preds = Inr r"
proof (cases "si_predictor_info si")
  case (Some pred)
  then show ?thesis using assms [OF Some] compensation_loop_total
    by (auto simp: compensation_def) (metis bindE_simps(2))
qed (simp add: compensation_def)

lemma default_i_total:
  assumes "\<And>p. p \<in> set ps \<Longrightarrow> (\<exists>ci. map_of cdevs (fst p) = Some ci \<and> 2 \<le> length (ci_state2power ci))
      \<and> (\<exists>v vs. map_of (th_cdev_all_request_map th) (fst p) = Some (v # vs))"
  shows "\<exists>r. foldE (default_i_step th cdevs) ps acc = Inr r"
proof -
  have step: "\<exists>s'. default_i_step th cdevs p s = Inr s' \<and> True" if p: "p \<in> set ps" for p s
  proof -
    obtain ci v vs where "map_of cdevs (fst p) = Some ci" "2 \<le> length (ci_state2power ci)"
      "map_of (th_cdev_all_request_map th) (fst p) = Some (v # vs)" using assms [OF p] by blast
    then show ?thesis by (simp add: default_i_step_def getCdevMaxRequest_def votes_begin_def vec_at_def Let_def)
  qed
  have "\<exists>s'. foldE (default_i_step th cdevs) ps acc = Inr s' \<and> True"
    by (rule foldE_total [where I = "\<lambda>_. True"]) (use step in blast)+
  then show ?thesis by blast
qed

text \<open>
  Whether this round mixes the clamped budget with the one of the target before: a move of the
  target has just started a transition of more than one cycle, or one is still running.
\<close>

definition budget_smoothed :: "ThrottlingInfo \<Rightarrow> severity \<Rightarrow> ThermalThrottlingStatus \<Rightarrow> bool" where
  "budget_smoothed info tgt st \<longleftrightarrow>
     (if ts_prev_target st \<noteq> NONE \<and> tgt \<noteq> ts_prev_target st \<and> 0 < ti_tran_cycle info
      then ti_tran_cycle info \<noteq> 1 else ts_tran_cycle st \<noteq> 0)"

lemma retarget_total:
  assumes "is_int32 (ti_tran_cycle info)" and "0 \<le> ts_tran_cycle st" and "ts_tran_cycle st \<le> INT_MAX"
  obtains st1 ch where "retarget info tgt st = Inr (st1, ch)" and "ts_i_budget st1 = ts_i_budget st"
    and "0 \<le> ts_tran_cycle st1" and "ts_tran_cycle st1 \<le> INT_MAX"
    and "\<not> budget_smoothed info tgt st \<Longrightarrow> ts_tran_cycle st1 = 0"
proof (cases "ts_prev_target st \<noteq> NONE \<and> tgt \<noteq> ts_prev_target st \<and> 0 < ti_tran_cycle info")
  case True
  have "int32 (ti_tran_cycle info - 1) = Inr (ti_tran_cycle info - 1)"
    using assms(1) True by (simp add: is_int32_def INT_MIN_def INT_MAX_def)
  then show thesis using True assms(1)
    by (intro that [of "st\<lparr>ts_tran_cycle := ti_tran_cycle info - 1, ts_prev_target := tgt\<rparr>" True])
      (simp_all add: retarget_def budget_smoothed_def int32_def is_int32_def)
next
  case False
  have "retarget info tgt st = Inr (st\<lparr>ts_prev_target := tgt\<rparr>, False)" using False by (auto simp: retarget_def)
  then show thesis using assms(2,3) False
    by (intro that [of "st\<lparr>ts_prev_target := tgt\<rparr>" False]) (auto simp: budget_smoothed_def)
qed

lemma settle_budget_bounds:
  assumes "0 \<le> ts_tran_cycle st" and "ts_tran_cycle st \<le> INT_MAX"
    and "flt_le (ti_min_alloc_power info tgt) (ti_max_alloc_power info tgt)"
  shows "\<exists>b st'. settle_budget info tgt ch raw st = Inr (b, st')
    \<and> (ts_tran_cycle st = 0 \<longrightarrow>
        isnan b \<or> flt_le (ti_min_alloc_power info tgt) b \<and> flt_le b (ti_max_alloc_power info tgt))"
proof -
  let ?b = "fclamp raw (ti_min_alloc_power info tgt) (ti_max_alloc_power info tgt)"
  have "isnan ?b \<or> flt_le (ti_min_alloc_power info tgt) ?b \<and> flt_le ?b (ti_max_alloc_power info tgt)"
    using fclamp_bounds [OF assms(3)] fclamp_nan by (cases "isnan raw") (auto simp: isnan_def)
  moreover have "int32 (ts_tran_cycle st - 1) = Inr (ts_tran_cycle st - 1)"
    using assms(1,2) by (simp add: is_int32_def INT_MIN_def)
  ultimately show ?thesis by (auto simp: settle_budget_def Let_def int32_def)
qed

text \<open>
  C10: In a round at a severity above NONE the power budget exists, if every bound device is
  registered for the PID algorithm, the excluded rails are known, the predictions have weights and
  the devices that a configured default of the integral term needs are known; and when the budget
  is not smoothed by a transition between two targets, it lies between the least and the greatest
  allocatable power of its PID target, or is NaN (when gains or thresholds are missing).
\<close>

theorem updatePowerBudget_bounds:
  fixes info cur
  defines "tgt \<equiv> getTargetStateOfPID info cur"
  assumes "cur \<noteq> NONE"
    and bound: "\<And>p. p \<in> set (active_cdevs info (ts_profile st)) \<Longrightarrow> has (ts_pid_cdev_request_map st) (fst p)"
    and excl: "\<And>p. p \<in> set (ti_excluded_power_info_map info) \<Longrightarrow> has pows (fst p)"
    and preds: "\<And>pred. si_predictor_info si = Some pred \<Longrightarrow> length preds \<le> length (pi_prediction_weights pred)"
    and dflt: "\<And>p. isnan (ts_i_budget st) \<Longrightarrow> \<not> isnan (ti_i_default_pct info)
      \<Longrightarrow> p \<in> set (ti_binded_cdev_info_map info)
      \<Longrightarrow> (\<exists>ci. map_of cdevs (fst p) = Some ci \<and> 2 \<le> length (ci_state2power ci))
        \<and> (\<exists>v vs. map_of (th_cdev_all_request_map th) (fst p) = Some (v # vs))"
    and "is_int32 (ti_tran_cycle info)" and "0 \<le> ts_tran_cycle st" and "ts_tran_cycle st \<le> INT_MAX"
    and mm: "flt_le (ti_min_alloc_power info tgt) (ti_max_alloc_power info tgt)"
  shows "\<exists>b st'. updatePowerBudget temp si info cdevs t cur mt pows preds th st = Inr (b, st')
    \<and> (\<not> budget_smoothed info tgt st \<longrightarrow>
        isnan b \<or> flt_le (ti_min_alloc_power info tgt) b \<and> flt_le b (ti_max_alloc_power info tgt))"
proof -
  obtain rel thr where loop: "foldE (fully_step (ts_pid_cdev_request_map st) cur)
      (active_cdevs info (ts_profile st)) (True, True) = Inr (rel, thr)"
    using fully_loop_total [OF bound] by fastforce
  obtain st1 ch where rt: "retarget info tgt st = Inr (st1, ch)" and ib: "ts_i_budget st1 = ts_i_budget st"
    and tc: "0 \<le> ts_tran_cycle st1" "ts_tran_cycle st1 \<le> INT_MAX"
    and settled: "\<not> budget_smoothed info tgt st \<Longrightarrow> ts_tran_cycle st1 = 0"
    using retarget_total [OF assms(7-9)] by metis
  let ?target = "si_hot_thresholds si tgt"
  let ?err = "fsub ?target (tp_value temp)"
  obtain c where c: "compensation si tgt ?target preds = Inr c" using compensation_total [OF preds] by blast
  obtain e where e: "computeExcludedPower info cur pows = Inr e" using excluded_total [OF excl] by blast
  obtain i0 where i0: "initial_i_budget th cdevs info (ts_i_budget st1) = Inr i0"
  proof (cases "isnan (ts_i_budget st) \<and> \<not> isnan (ti_i_default_pct info)")
    case True
    then obtain s where "foldE (default_i_step th cdevs) (ti_binded_cdev_info_map info) (Fin 0) = Inr s"
      using default_i_total [OF dflt] by blast
    then show thesis using that True by (simp add: initial_i_budget_def ib)
  next
    case False
    then show thesis using that [unfolded initial_i_budget_def ib] by (cases "isnan (ts_i_budget st)") auto
  qed
  note unfold = updatePowerBudget_def [of temp si info cdevs t cur mt pows preds th st, folded tgt_def]
  show ?thesis
  proof (cases "mt \<and> flt_le ?err (Fin 0)")
    case True
    then show ?thesis using assms(2) loop rt mm flt_le_refl flt_le_not_nan [OF mm]
      unfolding unfold by (auto simp: Let_def)
  next
    case False
    let ?i = "next_i_budget info tgt ?err (ts_prev_power_budget st1) rel thr i0"
    have "\<exists>b st'. settle_budget info tgt ch raw (st1\<lparr>ts_i_budget := ?i, ts_prev_err := ?err\<rparr>) = Inr (b, st')
        \<and> (\<not> budget_smoothed info tgt st \<longrightarrow>
            isnan b \<or> flt_le (ti_min_alloc_power info tgt) b \<and> flt_le b (ti_max_alloc_power info tgt))" for raw
      using settle_budget_bounds [of "st1\<lparr>ts_i_budget := ?i, ts_prev_err := ?err\<rparr>", OF _ _ mm] tc settled
      by fastforce
    then show ?thesis using assms(2) loop rt c e i0 False
      unfolding unfold by (simp add: Let_def) blast
  qed
qed

theorem updatePowerBudget_bounds_witness:
  "\<exists>b st'. updatePowerBudget (ex_temp (of_int_f 47)) (ex_sensor ex_pid_info) ex_pid_info ex_cdevs 1000 SEVERE
      False [] [] ex_registered (empty_status\<lparr>ts_pid_cdev_request_map := [(''fan'', 2)]\<rparr>) = Inr (b, st')
    \<and> (isnan b \<or> flt_le (of_int_f 500) b \<and> flt_le b (of_int_f 4000))"
proof -
  let ?st = "empty_status\<lparr>ts_pid_cdev_request_map := [(''fan'', 2)]\<rparr>"
  have a: "\<And>p. p \<in> set (active_cdevs ex_pid_info (ts_profile ?st)) \<Longrightarrow> has (ts_pid_cdev_request_map ?st) (fst p)"
    by (simp add: active_cdevs_def ex_defs empty_status_def has_def)
  have m: "flt_le (ti_min_alloc_power ex_pid_info t) (ti_max_alloc_power ex_pid_info t)" for t
    using of_int_f_mono [of 500 4000] by (simp add: ex_pid_info_def ex_info_def)
  have settled: "\<not> budget_smoothed ex_pid_info t ?st" for t
    by (simp add: budget_smoothed_def ex_pid_info_def ex_info_def empty_status_def)
  show ?thesis
    using updatePowerBudget_bounds [of SEVERE ex_pid_info ?st "[]" "ex_sensor ex_pid_info" "[]"
        ex_cdevs ex_registered "ex_temp (of_int_f 47)" 1000 False, OF _ a _ _ _ _ _ _ m] settled
    by (simp add: ex_pid_info_def ex_info_def ex_sensor_def empty_status_def is_int32_def INT_MIN_def INT_MAX_def)
qed

end
