(* ===== verification/PidRequests.thy ===== *)
theory PidRequests
  imports PidLemmas
begin

text \<open>
  From power budgets to requested states, the steps that the release and throttle limits take, and
  the places where the PID code departs from what it means to do.
\<close>

section \<open>The state a budget is turned into\<close>

text \<open>State \<open>i\<close> of a power table is the first that the budget covers, the last one if none is.\<close>

definition covering_state :: "flt list \<Rightarrow> flt \<Rightarrow> int \<Rightarrow> bool" where
  "covering_state ps b i \<longleftrightarrow> 0 \<le> i \<and> i < int (length ps)
     \<and> (\<forall>j < nat i. \<not> flt_le (ps ! j) b)
     \<and> (flt_le (ps ! nat i) b \<or> i = int (length ps) - 1)"

lemma covering_state_Cons:
  assumes "covering_state (q # ps) b i" and "\<not> flt_le p b"
  shows "covering_state (p # q # ps) b (i + 1)"
proof -
  have i: "0 \<le> i" and n: "nat (i + 1) = Suc (nat i)" using assms(1) by (auto simp: covering_state_def)
  have "\<not> flt_le ((p # q # ps) ! j) b" if "j < Suc (nat i)" for j
    using that assms by (cases j) (auto simp: covering_state_def)
  then show ?thesis using assms(1) unfolding covering_state_def n by auto
qed

lemma covering_state_unique:
  assumes "covering_state ps b i" and "covering_state ps b j"
  shows "i = j"
proof (rule ccontr)
  have *: False if "covering_state ps b i" and "covering_state ps b j" and "i < j" for i j
    using that by (auto simp: covering_state_def)
  assume "i \<noteq> j"
  then show False using * assms by (meson linorder_neqE)
qed

lemma state_for_budget_covering:
  "ps \<noteq> [] \<Longrightarrow> \<exists>i. state_for_budget ps b k = Inr (k + i) \<and> covering_state ps b i"
proof (induction ps b k rule: state_for_budget.induct)
  case (2 p b k)
  then show ?case by (intro exI [of _ 0]) (simp add: covering_state_def)
next
  case (3 p q ps b k)
  show ?case
  proof (cases "flt_le p b")
    case True
    then show ?thesis by (intro exI [of _ 0]) (simp add: covering_state_def)
  next
    case False
    then obtain i where "state_for_budget (q # ps) b (k + 1) = Inr (k + 1 + i)" and c: "covering_state (q # ps) b i"
      using 3 by auto
    moreover have "covering_state (p # q # ps) b (i + 1)"
      using covering_state_Cons [OF c False] .
    ultimately show ?thesis using False by (intro exI [of _ "i + 1"]) (simp add: algebra_simps)
  qed
qed simp

lemma request_by_power_loop:
  assumes "distinct (map fst budgets)"
    and "\<And>p. p \<in> set budgets \<Longrightarrow> has requests (fst p) \<and> (\<exists>ci. map_of cdevs (fst p) = Some ci \<and> ci_state2power ci \<noteq> [])"
  shows "\<exists>m. foldE (request_by_power_step cdevs) budgets requests = Inr m
    \<and> map fst m = map fst requests
    \<and> (\<forall>c. c \<notin> fst ` set budgets \<longrightarrow> map_of m c = map_of requests c)
    \<and> (\<forall>(c, b) \<in> set budgets. \<exists>i. map_of m c = Some i
         \<and> covering_state (ci_state2power (the (map_of cdevs c))) (of_int_f b) i)"
  using assms
proof (induction budgets arbitrary: requests)
  case (Cons p budgets)
  obtain ci where ci: "map_of cdevs (fst p) = Some ci" "ci_state2power ci \<noteq> []"
    and h: "has requests (fst p)" using Cons.prems(2) [of p] by auto
  obtain i where i: "state_for_budget (ci_state2power ci) (of_int_f (snd p)) 0 = Inr i"
    and cov: "covering_state (ci_state2power ci) (of_int_f (snd p)) i"
    using state_for_budget_covering [OF ci(2), of "of_int_f (snd p)" 0] by auto
  let ?r = "put (fst p) i requests"
  have "\<exists>m. foldE (request_by_power_step cdevs) budgets ?r = Inr m \<and> map fst m = map fst ?r
    \<and> (\<forall>c. c \<notin> fst ` set budgets \<longrightarrow> map_of m c = map_of ?r c)
    \<and> (\<forall>(c, b) \<in> set budgets. \<exists>i. map_of m c = Some i
         \<and> covering_state (ci_state2power (the (map_of cdevs c))) (of_int_f b) i)"
    using Cons.prems by (intro Cons.IH) auto
  then obtain m where m: "foldE (request_by_power_step cdevs) budgets ?r = Inr m" "map fst m = map fst ?r"
    "\<forall>c. c \<notin> fst ` set budgets \<longrightarrow> map_of m c = map_of ?r c"
    "\<forall>(c, b) \<in> set budgets. \<exists>i. map_of m c = Some i
         \<and> covering_state (ci_state2power (the (map_of cdevs c))) (of_int_f b) i" by blast
  have "request_by_power_step cdevs p requests = Inr ?r"
    using ci i h by (simp add: request_by_power_step_def set_key_def)
  moreover have "map_of m (fst p) = Some i" using m(3) Cons.prems(1) by simp
  ultimately show ?case using m h ci cov
    by (intro exI [of _ m]) (auto simp: keys_put_present)
qed simp

text \<open>
  C11: The requests after \<open>updateCdevRequestByPower\<close>: it succeeds, keeps the devices, leaves those
  without a budget alone, and gives every device with a budget the first state whose power the
  budget covers (the last state when it covers none), provided that each has a power table.
\<close>

theorem updateCdevRequestByPower_spec:
  assumes "distinct (map fst (ts_pid_power_budget_map st))"
    and "\<And>p. p \<in> set (ts_pid_power_budget_map st) \<Longrightarrow> has (ts_pid_cdev_request_map st) (fst p)
      \<and> (\<exists>ci. map_of cdevs (fst p) = Some ci \<and> ci_state2power ci \<noteq> [])"
  shows "\<exists>m. updateCdevRequestByPower cdevs st = Inr (st\<lparr>ts_pid_cdev_request_map := m\<rparr>)
    \<and> map fst m = map fst (ts_pid_cdev_request_map st)
    \<and> (\<forall>c. \<not> has (ts_pid_power_budget_map st) c \<longrightarrow> map_of m c = map_of (ts_pid_cdev_request_map st) c)
    \<and> (\<forall>(c, b) \<in> set (ts_pid_power_budget_map st). \<exists>i. map_of m c = Some i
         \<and> covering_state (ci_state2power (the (map_of cdevs c))) (of_int_f b) i)"
proof -
  from request_by_power_loop [OF assms] obtain m where
    "foldE (request_by_power_step cdevs) (ts_pid_power_budget_map st) (ts_pid_cdev_request_map st) = Inr m"
    "map fst m = map fst (ts_pid_cdev_request_map st)"
    "\<forall>c. c \<notin> fst ` set (ts_pid_power_budget_map st) \<longrightarrow> map_of m c = map_of (ts_pid_cdev_request_map st) c"
    "\<forall>(c, b) \<in> set (ts_pid_power_budget_map st). \<exists>i. map_of m c = Some i
         \<and> covering_state (ci_state2power (the (map_of cdevs c))) (of_int_f b) i" by blast
  then show ?thesis by (intro exI [of _ m]) (simp add: updateCdevRequestByPower_def has_iff_in_keys)
qed

theorem updateCdevRequestByPower_spec_witness:
  "\<exists>m. updateCdevRequestByPower ex_cdevs (empty_status\<lparr>ts_pid_power_budget_map := [(''fan'', 1700)],
        ts_pid_cdev_request_map := [(''fan'', 0)]\<rparr>)
      = Inr (empty_status\<lparr>ts_pid_power_budget_map := [(''fan'', 1700)], ts_pid_cdev_request_map := m\<rparr>)
    \<and> (\<exists>i. map_of m ''fan'' = Some i \<and> covering_state (ci_state2power ex_cdev) (of_int_f 1700) i)"
proof -
  let ?st = "empty_status\<lparr>ts_pid_power_budget_map := [(''fan'', 1700)], ts_pid_cdev_request_map := [(''fan'', 0)]\<rparr>"
  have "distinct (map fst (ts_pid_power_budget_map ?st))" by simp
  moreover have "\<And>p. p \<in> set (ts_pid_power_budget_map ?st) \<Longrightarrow> has (ts_pid_cdev_request_map ?st) (fst p)
      \<and> (\<exists>ci. map_of ex_cdevs (fst p) = Some ci \<and> ci_state2power ci \<noteq> [])"
    by (simp add: has_def ex_cdevs_def ex_cdev_def)
  ultimately show ?thesis
    using updateCdevRequestByPower_spec [of ?st ex_cdevs] by (auto simp: ex_cdevs_def)
qed

text \<open>
  A smaller power budget never asks for less throttling: over the same power table the state
  chosen for the smaller budget is at least the one chosen for the larger.
\<close>

theorem state_for_budget_antimono:
  assumes "flt_le b b'" and "state_for_budget ps b 0 = Inr i" and "state_for_budget ps b' 0 = Inr j"
  shows "j \<le> i"
proof -
  have ne: "ps \<noteq> []" using assms(2) by (cases ps) auto
  have i: "covering_state ps b i" using state_for_budget_covering [OF ne, of b 0] assms(2) by auto
  have j: "covering_state ps b' j" using state_for_budget_covering [OF ne, of b' 0] assms(3) by auto
  show ?thesis
  proof (rule ccontr)
    assume "\<not> j \<le> i"
    then have "nat i < nat j" and "i \<noteq> int (length ps) - 1" using i j by (auto simp: covering_state_def)
    then have "\<not> flt_le (ps ! nat i) b'" and "flt_le (ps ! nat i) b"
      using i j by (auto simp: covering_state_def)
    then show False using flt_le_trans [OF _ assms(1)] by blast
  qed
qed

theorem state_for_budget_antimono_witness:
  "state_for_budget (ci_state2power ex_cdev) (of_int_f 2500) 0 = Inr 2
    \<and> state_for_budget (ci_state2power ex_cdev) (of_int_f 1700) 0 = Inr 3 \<and> (2::int) \<le> 3"
proof -
  have e: "state_for_budget (ci_state2power ex_cdev) (of_int_f 2500) 0 = Inr 2"
    "state_for_budget (ci_state2power ex_cdev) (of_int_f 1700) 0 = Inr 3"
    by (simp_all add: ex_cdev_def flt_eval)
  show ?thesis
    using state_for_budget_antimono [OF of_int_f_mono [of 1700 2500] e(2) e(1)] e by simp
qed

section \<open>Where the code departs from its intention\<close>

text \<open>
  The default integral term sums a power of each bound device. The loop that reads the devices'
  greatest votes into \<open>max_cdev_vote\<close> overwrites the vote by the returned flag.
\<close>

definition power_of_state_1 :: "CdevInfo smap \<Rightarrow> string \<times> BindedCdevInfo \<Rightarrow> flt \<Rightarrow> flt" where
  "power_of_state_1 cdevs p acc = fadd acc (ci_state2power (the (map_of cdevs (fst p))) ! 1)"

lemma default_i_loop:
  assumes "\<And>p. p \<in> set ps \<Longrightarrow> (\<exists>ci. map_of cdevs (fst p) = Some ci \<and> 2 \<le> length (ci_state2power ci))
      \<and> (\<exists>v vs. map_of (th_cdev_all_request_map th) (fst p) = Some (v # vs))"
  shows "foldE (default_i_step th cdevs) ps acc = Inr (fold (power_of_state_1 cdevs) ps acc)"
  using assms
proof (induction ps arbitrary: acc)
  case (Cons p ps)
  obtain ci v vs where "map_of cdevs (fst p) = Some ci" "2 \<le> length (ci_state2power ci)"
    "map_of (th_cdev_all_request_map th) (fst p) = Some (v # vs)" using Cons.prems [of p] by auto
  then have "default_i_step th cdevs p acc = Inr (power_of_state_1 cdevs p acc)"
    by (simp add: default_i_step_def power_of_state_1_def getCdevMaxRequest_def votes_begin_def
        vec_at_def Let_def)
  then show ?case using Cons by simp
qed simp

text \<open>
  The default integral term does not depend on what any sensor has requested: with a default
  percentage configured, and every bound device registered, it is that percentage of the sum of the
  devices' power at \<^emph>\<open>state 1\<close>, whatever the votes are. (The code reads the greatest vote of
  the device and then uses the flag that the read returned.)
\<close>

theorem default_i_budget_ignores_votes:
  assumes "\<And>p. p \<in> set (ti_binded_cdev_info_map info) \<Longrightarrow>
      (\<exists>ci. map_of cdevs (fst p) = Some ci \<and> 2 \<le> length (ci_state2power ci))
      \<and> (\<exists>v vs. map_of (th_cdev_all_request_map th) (fst p) = Some (v # vs))"
    and "\<not> isnan (ti_i_default_pct info)"
  shows "initial_i_budget th cdevs info NaN = Inr (fdiv (fmul
      (fold (power_of_state_1 cdevs) (ti_binded_cdev_info_map info) (Fin 0)) (ti_i_default_pct info))
      (of_int_f 100))"
  using default_i_loop [OF assms(1)] assms(2) by (simp add: initial_i_budget_def)

theorem default_i_budget_ignores_votes_witness:
  "initial_i_budget \<lparr>th_status_map = [], th_cdev_all_request_map = [(''fan'', [5, 2, 0])]\<rparr> ex_cdevs
      (ex_info\<lparr>ti_i_default_pct := of_int_f 50\<rparr>) NaN = Inr (of_int_f 1500)"
proof -
  let ?th = "\<lparr>th_status_map = [], th_cdev_all_request_map = [(''fan'', [5, 2, 0])]\<rparr>"
  have "\<And>p. p \<in> set (ti_binded_cdev_info_map (ex_info\<lparr>ti_i_default_pct := of_int_f 50\<rparr>)) \<Longrightarrow>
      (\<exists>ci. map_of ex_cdevs (fst p) = Some ci \<and> 2 \<le> length (ci_state2power ci))
      \<and> (\<exists>v vs. map_of (th_cdev_all_request_map ?th) (fst p) = Some (v # vs))"
    by (simp add: ex_info_def ex_cdevs_def ex_cdev_def)
  moreover have "\<not> isnan (ti_i_default_pct (ex_info\<lparr>ti_i_default_pct := of_int_f 50\<rparr>))" by simp
  ultimately have "initial_i_budget ?th ex_cdevs (ex_info\<lparr>ti_i_default_pct := of_int_f 50\<rparr>) NaN
      = Inr (fdiv (fmul (fold (power_of_state_1 ex_cdevs)
          (ti_binded_cdev_info_map (ex_info\<lparr>ti_i_default_pct := of_int_f 50\<rparr>)) (Fin 0))
          (ti_i_default_pct (ex_info\<lparr>ti_i_default_pct := of_int_f 50\<rparr>))) (of_int_f 100))"
    by (rule default_i_budget_ignores_votes)
  moreover have "fadd (Fin 0) (of_int_f 3000) = of_int_f 3000" by (simp add: flt_eval)
  moreover have "fmul (of_int_f 3000) (of_int_f 50) = of_int_f 150000" by (simp add: flt_eval)
  moreover have "fdiv (of_int_f 150000) (of_int_f 100) = of_int_f 1500" by (simp add: flt_eval)
  ultimately show ?thesis
    by (simp add: ex_info_def ex_cdevs_def ex_cdev_def power_of_state_1_def)
qed

text \<open>
  A budget that has just been registered or cleared is the largest \<open>int\<close>; as a float it is
  \<open>2 ^ 31\<close>, so adding any adjustment that is not negative leaves the range of \<open>int\<close> and
  the conversion back is undefined.
\<close>

theorem fresh_budget_overflows:
  assumes "flt_le (Fin 0) (Fin a)" and "\<not> flt_lt (of_int_f INT_MAX) avg"
  shows "track_budget INT_MAX avg (Fin a) = Inl UB"
proof -
  have top: "of_int_f INT_MAX = Fin (2147483648 * 2 ^ 149)" by (simp add: INT_MAX_def flt_eval)
  have "frep (Fin (2147483648 * 2 ^ 149))" unfolding top [symmetric] by (rule frep_of_int_f)
  then have le: "flt_le (Fin (2147483648 * 2 ^ 149)) (fadd (of_int_f INT_MAX) (Fin a))"
    using rnd_ge_iff_exact [of "2147483648 * 2 ^ 149" "2147483648 * 2 ^ 149 + a"] assms(1)
    by (simp only: top fadd.simps) simp
  have "to_int_f (fadd (of_int_f INT_MAX) (Fin a)) = Inl UB"
  proof (cases "fadd (of_int_f INT_MAX) (Fin a)")
    case (Fin k)
    then have "2147483648 \<le> k div 2 ^ 149" using le by simp
    moreover have "0 < k" using Fin le by simp
    ultimately show ?thesis using Fin by (simp add: trunc_units_def int32_def is_int32_def INT_MAX_def)
  qed (use le in simp_all)
  then show ?thesis using assms(2) by (simp add: track_budget_def)
qed

theorem fresh_budget_overflows_witness:
  "track_budget INT_MAX (of_int_f 1600) (Fin (1300 * 2 ^ 149)) = Inl UB"
  using fresh_budget_overflows [of "1300 * 2 ^ 149" "of_int_f 1600"]
    of_int_f_mono [of 1600 INT_MAX] flt_not_lt by (simp add: INT_MAX_def)

text \<open>When the allocation fails, all requests are set to 0 before they are computed again.\<close>

lemma smap_eqI:
  assumes "map fst m = map fst m'" and "distinct (map fst m)"
    and "\<And>k. has m k \<Longrightarrow> map_of m k = map_of m' k"
  shows "m = m'"
  using assms
proof (induction m arbitrary: m')
  case (Cons p m)
  then obtain p' m'' where m': "m' = p' # m''" "fst p' = fst p" "map fst m = map fst m''"
    by (cases m') auto
  have "snd p = snd p'" using Cons.prems(3) [of "fst p"] m' by (simp add: has_def)
  moreover have "m = m''"
  proof (rule Cons.IH [OF m'(3)])
    show "distinct (map fst m)" using Cons.prems(2) by simp
    fix k assume k: "has m k"
    then have "k \<noteq> fst p" using Cons.prems(2) by (force simp: has_iff_in_keys)
    then show "map_of m k = map_of m'' k"
      using k Cons.prems(3) [of k] m' by (simp add: has_def)
  qed
  ultimately show ?case using m' by (simp add: prod_eq_iff)
qed simp

definition agree_on :: "string set \<Rightarrow> int smap \<Rightarrow> int smap \<Rightarrow> bool" where
  "agree_on K m m' \<longleftrightarrow> map fst m = map fst m' \<and> (\<forall>k \<in> K. map_of m k = map_of m' k)"

lemma agree_on_has: "agree_on K m m' \<Longrightarrow> has m k \<longleftrightarrow> has m' k"
  by (metis agree_on_def has_iff_in_keys list.set_map)

lemma agree_on_put: "agree_on K m m' \<Longrightarrow> has m c \<Longrightarrow> agree_on (insert c K) (put c v m) (put c v m')"
  using agree_on_has [of K m m' c] by (auto simp: agree_on_def keys_put_present)

lemma request_by_power_agree:
  "agree_on K m m' \<Longrightarrow>
    (\<exists>e. foldE (request_by_power_step cdevs) budgets m = Inl e \<and> foldE (request_by_power_step cdevs) budgets m' = Inl e)
    \<or> (\<exists>r r'. foldE (request_by_power_step cdevs) budgets m = Inr r
        \<and> foldE (request_by_power_step cdevs) budgets m' = Inr r' \<and> agree_on (K \<union> fst ` set budgets) r r')"
proof (induction budgets arbitrary: K m m')
  case (Cons p budgets)
  let ?f = "request_by_power_step cdevs p"
  have "(\<exists>e. ?f m = Inl e \<and> ?f m' = Inl e)
      \<or> (\<exists>i. ?f m = Inr (put (fst p) i m) \<and> ?f m' = Inr (put (fst p) i m') \<and> has m (fst p))"
    using agree_on_has [OF Cons.prems, of "fst p"]
    by (cases "at_key cdevs (fst p)"; cases "state_for_budget (ci_state2power (projr (at_key cdevs (fst p)))) (of_int_f (snd p)) 0")
      (auto simp: request_by_power_step_def set_key_def)
  then show ?case
  proof
    assume "\<exists>i. ?f m = Inr (put (fst p) i m) \<and> ?f m' = Inr (put (fst p) i m') \<and> has m (fst p)"
    then obtain i where i: "?f m = Inr (put (fst p) i m)" "?f m' = Inr (put (fst p) i m')" "has m (fst p)"
      by blast
    show ?thesis using Cons.IH [OF agree_on_put [OF Cons.prems i(3), of i]] i by simp
  qed auto
qed simp

text \<open>
  Clearing the requests after a failed allocation has no effect: for a sensor whose devices all
  have a budget (as registration makes it), computing the requests from the budgets gives the same
  outcome whether or not the requests were set to 0 before.
\<close>

theorem clear_after_failure_is_dead:
  assumes "distinct (map fst (ts_pid_cdev_request_map st))"
    and "\<And>c. has (ts_pid_cdev_request_map st) c \<Longrightarrow> has (ts_pid_power_budget_map st) c"
  shows "updateCdevRequestByPower cdevs (st\<lparr>ts_pid_cdev_request_map := fill_all 0 (ts_pid_cdev_request_map st)\<rparr>)
    = updateCdevRequestByPower cdevs st"
proof -
  let ?m = "ts_pid_cdev_request_map st" and ?bs = "ts_pid_power_budget_map st"
  let ?run = "foldE (request_by_power_step cdevs) ?bs"
  have "agree_on {} (fill_all 0 ?m) ?m" by (simp add: agree_on_def)
  from request_by_power_agree [OF this, of cdevs ?bs] have "?run (fill_all 0 ?m) = ?run ?m"
  proof
    assume "\<exists>r r'. ?run (fill_all 0 ?m) = Inr r \<and> ?run ?m = Inr r' \<and> agree_on ({} \<union> fst ` set ?bs) r r'"
    then obtain r r' where r: "?run (fill_all 0 ?m) = Inr r" "?run ?m = Inr r'" "agree_on (fst ` set ?bs) r r'"
      by auto
    have "map fst r' = map fst ?m"
      by (rule foldE_inv [where I = "\<lambda>m. map fst m = map fst ?m", OF r(2)])
        (auto simp: request_by_power_step_def set_key_Inr_iff keys_put_present)
    then have keys: "map fst r = map fst ?m" using r(3) by (simp add: agree_on_def)
    have "r = r'"
    proof (rule smap_eqI)
      show "map fst r = map fst r'" using r(3) by (simp add: agree_on_def)
      show "distinct (map fst r)" using keys assms(1) by simp
      fix c assume "has r c"
      then have "has ?m c" using keys by (metis has_iff_in_keys list.set_map)
      then have "c \<in> fst ` set ?bs" using assms(2) by (simp add: has_iff_in_keys)
      then show "map_of r c = map_of r' c" using r(3) by (auto simp: agree_on_def)
    qed
    then show ?thesis using r by simp
  qed auto
  then show ?thesis by (simp add: updateCdevRequestByPower_def)
qed

theorem clear_after_failure_is_dead_witness:
  "updateCdevRequestByPower ex_cdevs (empty_status\<lparr>ts_pid_power_budget_map := [(''fan'', 1700)],
      ts_pid_cdev_request_map := fill_all 0 [(''fan'', 4)]\<rparr>)
    = updateCdevRequestByPower ex_cdevs (empty_status\<lparr>ts_pid_power_budget_map := [(''fan'', 1700)],
        ts_pid_cdev_request_map := [(''fan'', 4)]\<rparr>)"
proof -
  let ?st = "empty_status\<lparr>ts_pid_power_budget_map := [(''fan'', 1700)], ts_pid_cdev_request_map := [(''fan'', 4)]\<rparr>"
  have "\<And>c. has (ts_pid_cdev_request_map ?st) c \<Longrightarrow> has (ts_pid_power_budget_map ?st) c"
    by (simp add: has_def split: if_splits)
  from clear_after_failure_is_dead [of ?st ex_cdevs, OF _ this] show ?thesis by simp
qed

text \<open>
  A device that the active profile binds but that is not registered for the PID algorithm (a
  device with hard limits only, or one that only a profile binds) makes the computation of the
  sensor's power budget throw \<open>std::out_of_range\<close> at every severity above NONE.
\<close>

theorem unregistered_device_throws:
  assumes "cur \<noteq> NONE" and "p \<in> set (active_cdevs info (ts_profile st))"
    and "\<not> has (ts_pid_cdev_request_map st) (fst p)"
  shows "updatePowerBudget temp si info cdevs t cur mt pows preds th st = Inl OutOfRange"
proof -
  have "foldE (fully_step (ts_pid_cdev_request_map st) cur) xs acc = Inl OutOfRange"
    if "p \<in> set xs" for xs acc
    using that
  proof (induction xs arbitrary: acc)
    case (Cons q xs)
    show ?case
    proof (cases "map_of (ts_pid_cdev_request_map st) (fst q)")
      case None
      then show ?thesis by (simp add: fully_step_def at_key_def)
    next
      case (Some r)
      then have "q \<noteq> p" using assms(3) by (auto simp: has_def)
      then show ?thesis using Cons Some by (simp add: fully_step_def)
    qed
  qed simp
  then show ?thesis using assms(1,2) by (simp add: updatePowerBudget_def)
qed

theorem unregistered_device_throws_witness:
  "updatePowerBudget (ex_temp (of_int_f 47)) (ex_sensor ex_info) ex_info ex_cdevs 1000 SEVERE False [] []
     ex_registered (empty_status\<lparr>ts_pid_cdev_request_map := [(''gpu'', 0)]\<rparr>) = Inl OutOfRange"
  by (rule unregistered_device_throws [where p = "(''fan'', ex_binding)"])
    (simp_all add: active_cdevs_def ex_info_def empty_status_def has_def)

end
