(* ===== verification/Severity.thy ===== *)
theory Severity
  imports ThermalTypes
begin

text \<open>
  The severity of a temperature, \<open>getSeverityFromThresholds\<close> (aidl/thermal/thermal-helper.cpp):
  the thresholds are compared from SHUTDOWN down to LIGHT, and a severity that falls is held by the
  hysteresis of its threshold.
\<close>

section \<open>The loop over the severities\<close>

definition sev_desc :: "severity list" where
  "sev_desc = [SHUTDOWN, EMERGENCY, CRITICAL, SEVERE, MODERATE, LIGHT]"

record severity_state =
  ret_hot :: severity
  ret_hot_hysteresis :: severity
  ret_cold :: severity
  ret_cold_hysteresis :: severity

text \<open>The four conditions of the loop.\<close>

definition hot_at :: "flt sev_array \<Rightarrow> flt \<Rightarrow> severity \<Rightarrow> bool" where
  "hot_at hot value s \<longleftrightarrow> \<not> isnan (hot s) \<and> flt_le (hot s) value"

definition hot_held :: "flt sev_array \<Rightarrow> flt sev_array \<Rightarrow> flt \<Rightarrow> severity \<Rightarrow> bool" where
  "hot_held hot hyst value s \<longleftrightarrow> \<not> isnan (hot s) \<and> flt_lt (fsub (hot s) (hyst s)) value"

definition cold_at :: "flt sev_array \<Rightarrow> flt \<Rightarrow> severity \<Rightarrow> bool" where
  "cold_at cold value s \<longleftrightarrow> \<not> isnan (cold s) \<and> flt_le value (cold s)"

definition cold_held :: "flt sev_array \<Rightarrow> flt sev_array \<Rightarrow> flt \<Rightarrow> severity \<Rightarrow> bool" where
  "cold_held cold hyst value s \<longleftrightarrow> \<not> isnan (cold s) \<and> flt_lt value (fadd (cold s) (hyst s))"

definition severity_step ::
    "flt sev_array \<Rightarrow> flt sev_array \<Rightarrow> flt sev_array \<Rightarrow> flt sev_array \<Rightarrow> flt
      \<Rightarrow> severity \<Rightarrow> severity_state \<Rightarrow> severity_state"
where
  "severity_step hot cold hot_hyst cold_hyst value i r0 =
     (let r1 = (if hot_at hot value i \<and> ret_hot r0 = NONE then r0\<lparr>ret_hot := i\<rparr> else r0);
          r2 = (if hot_held hot hot_hyst value i \<and> ret_hot_hysteresis r1 = NONE
                then r1\<lparr>ret_hot_hysteresis := i\<rparr> else r1);
          r3 = (if cold_at cold value i \<and> ret_cold r2 = NONE then r2\<lparr>ret_cold := i\<rparr> else r2)
      in if cold_held cold cold_hyst value i \<and> ret_cold_hysteresis r3 = NONE
         then r3\<lparr>ret_cold_hysteresis := i\<rparr> else r3)"

definition getSeverityFromThresholds ::
    "flt sev_array \<Rightarrow> flt sev_array \<Rightarrow> flt sev_array \<Rightarrow> flt sev_array \<Rightarrow> severity \<Rightarrow> severity \<Rightarrow> flt
      \<Rightarrow> severity \<times> severity"
where
  "getSeverityFromThresholds hot cold hot_hyst cold_hyst prev_hot prev_cold value =
     (let r = fold (severity_step hot cold hot_hyst cold_hyst value) sev_desc
                \<lparr>ret_hot = NONE, ret_hot_hysteresis = NONE, ret_cold = NONE, ret_cold_hysteresis = NONE\<rparr>
      in (if ret_hot r < prev_hot then ret_hot_hysteresis r else ret_hot r,
          if ret_cold r < prev_cold then ret_cold_hysteresis r else ret_cold r))"

section \<open>What the loop finds\<close>

text \<open>The greatest severity above NONE with a property, NONE if there is none.\<close>

definition greatest_sev :: "(severity \<Rightarrow> bool) \<Rightarrow> severity" where
  "greatest_sev P = (case find P sev_desc of None \<Rightarrow> NONE | Some s \<Rightarrow> s)"

lemma sev_desc_set: "s \<in> set sev_desc \<longleftrightarrow> s \<noteq> NONE"
  by (cases s) (simp_all add: sev_desc_def)

lemma greatest_sev_upper: "P s \<Longrightarrow> s \<le> greatest_sev P"
  by (cases s) (auto simp: greatest_sev_def sev_desc_def sev_order)

lemma greatest_sev_holds: "greatest_sev P \<noteq> NONE \<Longrightarrow> P (greatest_sev P)"
  by (auto simp: greatest_sev_def sev_desc_def split: if_splits)

lemma greatest_sev_mono: "(\<And>s. P s \<Longrightarrow> Q s) \<Longrightarrow> greatest_sev P \<le> greatest_sev Q"
  using greatest_sev_upper greatest_sev_holds NONE_le(1) by metis

lemma greatest_sev_unique:
  "(s \<noteq> NONE \<Longrightarrow> P s) \<Longrightarrow> (\<And>t. t \<noteq> NONE \<Longrightarrow> P t \<Longrightarrow> t \<le> s) \<Longrightarrow> greatest_sev P = s"
  by (metis NONE_le(3) antisym greatest_sev_holds greatest_sev_upper NONE_le(1))

definition keep_first :: "severity \<Rightarrow> (severity \<Rightarrow> bool) \<Rightarrow> severity list \<Rightarrow> severity" where
  "keep_first s0 P xs = (if s0 \<noteq> NONE then s0 else case find P xs of None \<Rightarrow> NONE | Some s \<Rightarrow> s)"

lemma severity_loop:
  "NONE \<notin> set xs \<Longrightarrow> fold (severity_step hot cold hh ch v) xs r
    = \<lparr>ret_hot = keep_first (ret_hot r) (hot_at hot v) xs,
       ret_hot_hysteresis = keep_first (ret_hot_hysteresis r) (hot_held hot hh v) xs,
       ret_cold = keep_first (ret_cold r) (cold_at cold v) xs,
       ret_cold_hysteresis = keep_first (ret_cold_hysteresis r) (cold_held cold ch v) xs\<rparr>"
proof (induction xs arbitrary: r)
  case Nil
  then show ?case by (simp add: keep_first_def)
next
  case (Cons x xs)
  have x: "x \<noteq> NONE" using Cons.prems by auto
  have "ret_hot (severity_step hot cold hh ch v x r)
      = (if ret_hot r = NONE \<and> hot_at hot v x then x else ret_hot r)"
    "ret_hot_hysteresis (severity_step hot cold hh ch v x r)
      = (if ret_hot_hysteresis r = NONE \<and> hot_held hot hh v x then x else ret_hot_hysteresis r)"
    "ret_cold (severity_step hot cold hh ch v x r)
      = (if ret_cold r = NONE \<and> cold_at cold v x then x else ret_cold r)"
    "ret_cold_hysteresis (severity_step hot cold hh ch v x r)
      = (if ret_cold_hysteresis r = NONE \<and> cold_held cold ch v x then x else ret_cold_hysteresis r)"
    by (auto simp: severity_step_def Let_def)
  moreover have "NONE \<notin> set xs" using Cons.prems by simp
  ultimately show ?case using Cons.IH x by (simp add: keep_first_def)
qed

lemma getSeverity_greatest:
  "getSeverityFromThresholds hot cold hh ch ph pc v =
    (let h = greatest_sev (hot_at hot v); c = greatest_sev (cold_at cold v)
     in (if h < ph then greatest_sev (hot_held hot hh v) else h,
         if c < pc then greatest_sev (cold_held cold ch v) else c))"
proof -
  have "NONE \<notin> set sev_desc" by (simp add: sev_desc_def)
  then show ?thesis
    by (simp add: getSeverityFromThresholds_def severity_loop keep_first_def greatest_sev_def Let_def)
qed

section \<open>Hysteresis\<close>

text \<open>
  Every configured threshold, less its hysteresis, lies not above the threshold and not below any
  lower one; and the mirror image for cold thresholds. A hysteresis of 0, the parser's default, is
  included.
\<close>

definition hot_bands :: "flt sev_array \<Rightarrow> flt sev_array \<Rightarrow> bool" where
  "hot_bands hot hyst \<longleftrightarrow> (\<forall>s. s \<noteq> NONE \<longrightarrow> \<not> isnan (hot s) \<longrightarrow>
     flt_le (fsub (hot s) (hyst s)) (hot s)
     \<and> (\<forall>t. t \<noteq> NONE \<longrightarrow> t < s \<longrightarrow> \<not> isnan (hot t) \<longrightarrow> flt_le (hot t) (fsub (hot s) (hyst s))))"

definition cold_bands :: "flt sev_array \<Rightarrow> flt sev_array \<Rightarrow> bool" where
  "cold_bands cold hyst \<longleftrightarrow> (\<forall>s. s \<noteq> NONE \<longrightarrow> \<not> isnan (cold s) \<longrightarrow>
     flt_le (cold s) (fadd (cold s) (hyst s))
     \<and> (\<forall>t. t \<noteq> NONE \<longrightarrow> t < s \<longrightarrow> \<not> isnan (cold t) \<longrightarrow> flt_le (fadd (cold s) (hyst s)) (cold t)))"

text \<open>
  The common shape of both directions: \<open>A\<close> is reaching a threshold, \<open>H\<close> being held by it and
  \<open>C\<close> having one.
\<close>

definition held_severity :: "(severity \<Rightarrow> bool) \<Rightarrow> (severity \<Rightarrow> bool) \<Rightarrow> severity \<Rightarrow> severity" where
  "held_severity A H prev = (if greatest_sev A < prev then greatest_sev H else greatest_sev A)"

lemma hysteresis_pattern:
  assumes conf: "\<forall>s. A s \<longrightarrow> C s"
    and below: "\<forall>s t. s \<noteq> NONE \<longrightarrow> H s \<longrightarrow> t < s \<longrightarrow> t \<noteq> NONE \<longrightarrow> C t \<longrightarrow> A t \<and> H t"
    and prev: "prev = NONE \<or> C prev"
  shows "held_severity A H prev \<le> max prev (greatest_sev A)"
    and "prev \<noteq> NONE \<Longrightarrow> prev \<le> held_severity A H prev \<longleftrightarrow> H prev \<or> prev \<le> greatest_sev A"
    and "greatest_sev A \<le> held_severity A H prev
      \<longleftrightarrow> greatest_sev A = NONE \<or> H (greatest_sev A) \<or> prev \<le> greatest_sev A"
proof -
  let ?a = "greatest_sev A" and ?h = "greatest_sev H"
  have top: "?h \<le> prev" if "?a < prev"
  proof (rule ccontr)
    assume "\<not> ?h \<le> prev"
    then have "prev < ?h" by simp
    have ne: "prev \<noteq> NONE" using that by (metis NONE_le(2))
    then have "C prev" using prev by blast
    have "?h \<noteq> NONE" using \<open>prev < ?h\<close> by (metis NONE_le(2))
    then have "A prev" using below greatest_sev_holds \<open>prev < ?h\<close> ne \<open>C prev\<close> by blast
    then have "prev \<le> ?a" by (rule greatest_sev_upper)
    then show False using that by simp
  qed
  then show "held_severity A H prev \<le> max prev ?a" by (auto simp: held_severity_def max_def)
  show "prev \<le> held_severity A H prev \<longleftrightarrow> H prev \<or> prev \<le> ?a" if "prev \<noteq> NONE"
  proof (cases "?a < prev")
    case True
    have "H prev" if "prev \<le> ?h"
    proof -
      have "?h = prev" using top [OF True] that by simp
      then show ?thesis using greatest_sev_holds [of H] \<open>prev \<noteq> NONE\<close> by metis
    qed
    then show ?thesis using True greatest_sev_upper [of H prev] by (auto simp: held_severity_def)
  qed (auto simp: held_severity_def)
  have "?a \<le> ?h \<longleftrightarrow> ?a = NONE \<or> H ?a"
  proof
    assume le: "?a \<le> ?h"
    show "?a = NONE \<or> H ?a"
    proof (cases "?a = NONE \<or> ?a = ?h")
      case True
      then show ?thesis using greatest_sev_holds [of H] by metis
    next
      case False
      then have lt: "?a < ?h" and ne: "?a \<noteq> NONE" using le by auto
      have "?h \<noteq> NONE" using lt by (metis NONE_le(2))
      moreover have "C ?a" using conf greatest_sev_holds [OF ne] by blast
      ultimately show ?thesis using below greatest_sev_holds [of H] lt ne by blast
    qed
  qed (use greatest_sev_upper [of H ?a] in auto)
  then show "?a \<le> held_severity A H prev \<longleftrightarrow> ?a = NONE \<or> H ?a \<or> prev \<le> ?a"
    by (auto simp: held_severity_def)
qed

lemma getSeverity_held:
  "getSeverityFromThresholds hot cold hh ch ph pc v =
    (held_severity (hot_at hot v) (hot_held hot hh v) ph, held_severity (cold_at cold v) (cold_held cold ch v) pc)"
  by (simp add: getSeverity_greatest held_severity_def Let_def)

lemma hot_bands_pattern:
  assumes "hot_bands hot hyst"
  shows "\<forall>s. hot_at hot v s \<longrightarrow> \<not> isnan (hot s)"
    and "\<forall>s t. s \<noteq> NONE \<longrightarrow> hot_held hot hyst v s \<longrightarrow> t < s \<longrightarrow> t \<noteq> NONE \<longrightarrow> \<not> isnan (hot t)
      \<longrightarrow> hot_at hot v t \<and> hot_held hot hyst v t"
proof -
  show "\<forall>s. hot_at hot v s \<longrightarrow> \<not> isnan (hot s)" by (simp add: hot_at_def)
  have "hot_at hot v t \<and> hot_held hot hyst v t"
    if "s \<noteq> NONE" "hot_held hot hyst v s" "t < s" "t \<noteq> NONE" "\<not> isnan (hot t)" for s t
  proof -
    have "flt_lt (hot t) v" using assms that flt_le_lt_trans unfolding hot_bands_def hot_held_def by metis
    moreover have "flt_le (fsub (hot t) (hyst t)) (hot t)" using assms that unfolding hot_bands_def by blast
    ultimately show ?thesis using that(5) flt_le_lt_trans flt_lt_imp_le
      unfolding hot_at_def hot_held_def by blast
  qed
  then show "\<forall>s t. s \<noteq> NONE \<longrightarrow> hot_held hot hyst v s \<longrightarrow> t < s \<longrightarrow> t \<noteq> NONE \<longrightarrow> \<not> isnan (hot t)
      \<longrightarrow> hot_at hot v t \<and> hot_held hot hyst v t" by blast
qed

lemma cold_bands_pattern:
  assumes "cold_bands cold hyst"
  shows "\<forall>s. cold_at cold v s \<longrightarrow> \<not> isnan (cold s)"
    and "\<forall>s t. s \<noteq> NONE \<longrightarrow> cold_held cold hyst v s \<longrightarrow> t < s \<longrightarrow> t \<noteq> NONE \<longrightarrow> \<not> isnan (cold t)
      \<longrightarrow> cold_at cold v t \<and> cold_held cold hyst v t"
proof -
  show "\<forall>s. cold_at cold v s \<longrightarrow> \<not> isnan (cold s)" by (simp add: cold_at_def)
  have "cold_at cold v t \<and> cold_held cold hyst v t"
    if "s \<noteq> NONE" "cold_held cold hyst v s" "t < s" "t \<noteq> NONE" "\<not> isnan (cold t)" for s t
  proof -
    have "flt_lt v (cold t)" using assms that flt_lt_le_trans unfolding cold_bands_def cold_held_def by metis
    moreover have "flt_le (cold t) (fadd (cold t) (hyst t))" using assms that unfolding cold_bands_def by blast
    ultimately show ?thesis using that(5) flt_lt_le_trans flt_lt_imp_le
      unfolding cold_at_def cold_held_def by blast
  qed
  then show "\<forall>s t. s \<noteq> NONE \<longrightarrow> cold_held cold hyst v s \<longrightarrow> t < s \<longrightarrow> t \<noteq> NONE \<longrightarrow> \<not> isnan (cold t)
      \<longrightarrow> cold_at cold v t \<and> cold_held cold hyst v t" by blast
qed

text \<open>
  C12: Hysteresis. Let the thresholds be ordered bands (the hysteresis is not negative, and a
  threshold less its hysteresis is not below a lower threshold; 0, the default, is allowed) and let
  the previous severity be NONE or have a threshold. Then the new severity is never above both the
  previous one and what the temperature itself reaches; it stays at or above the previous one
  exactly when the temperature is strictly above that severity's threshold less the hysteresis, or
  reaches the severity; and it is at least what the temperature reaches exactly when that is not
  below the previous severity, or is NONE, or the temperature is strictly above its threshold less
  the hysteresis (which fails only with a hysteresis of 0, exactly at the threshold). The same
  holds of the cold severity, mirrored.
\<close>

theorem severity_hysteresis:
  fixes hot cold hh ch ph pc v
  defines "r \<equiv> getSeverityFromThresholds hot cold hh ch ph pc v"
    and "h \<equiv> greatest_sev (hot_at hot v)" and "c \<equiv> greatest_sev (cold_at cold v)"
  assumes "hot_bands hot hh" and "cold_bands cold ch"
    and "ph = NONE \<or> \<not> isnan (hot ph)" and "pc = NONE \<or> \<not> isnan (cold pc)"
  shows "fst r \<le> max ph h
    \<and> (ph \<noteq> NONE \<longrightarrow> (ph \<le> fst r \<longleftrightarrow> hot_held hot hh v ph \<or> ph \<le> h))
    \<and> (h \<le> fst r \<longleftrightarrow> h = NONE \<or> hot_held hot hh v h \<or> ph \<le> h)
    \<and> snd r \<le> max pc c
    \<and> (pc \<noteq> NONE \<longrightarrow> (pc \<le> snd r \<longleftrightarrow> cold_held cold ch v pc \<or> pc \<le> c))
    \<and> (c \<le> snd r \<longleftrightarrow> c = NONE \<or> cold_held cold ch v c \<or> pc \<le> c)"
proof -
  note hots = hysteresis_pattern [OF hot_bands_pattern [OF assms(4)] assms(6), of v]
  note colds = hysteresis_pattern [OF cold_bands_pattern [OF assms(5)] assms(7), of v]
  show ?thesis using hots colds by (simp add: r_def h_def c_def getSeverity_held)
qed

lemma ex_hot_bands: "hot_bands (si_hot_thresholds (ex_sensor ex_info)) (si_hot_hysteresis (ex_sensor ex_info))"
proof -
  have sub: "fsub (of_int_f 40) (of_int_f 2) = of_int_f 38" "fsub (of_int_f 45) (of_int_f 2) = of_int_f 43"
    "fsub (of_int_f 50) (of_int_f 2) = of_int_f 48" "fsub (of_int_f 60) (of_int_f 2) = of_int_f 58"
    by (simp_all add: flt_eval)
  have lt: "flt_lt (of_int_f 38) (of_int_f 40)" "flt_lt (of_int_f 43) (of_int_f 45)"
    "flt_lt (of_int_f 48) (of_int_f 50)" "flt_lt (of_int_f 58) (of_int_f 60)"
    by (simp_all add: flt_eval)
  have le: "flt_le (of_int_f 40) (of_int_f 43)" "flt_le (of_int_f 40) (of_int_f 48)"
    "flt_le (of_int_f 40) (of_int_f 58)" "flt_le (of_int_f 45) (of_int_f 48)"
    "flt_le (of_int_f 45) (of_int_f 58)" "flt_le (of_int_f 50) (of_int_f 58)"
    by (rule of_int_f_mono, simp)+
  have "flt_lt (fsub (si_hot_thresholds (ex_sensor ex_info) s) (of_int_f 2)) (si_hot_thresholds (ex_sensor ex_info) s)"
    if "\<not> isnan (si_hot_thresholds (ex_sensor ex_info) s)" for s
    using that lt by (cases s) (simp_all add: ex_sensor_def sev_array_of_def sub)
  moreover have "flt_le (si_hot_thresholds (ex_sensor ex_info) t) (fsub (si_hot_thresholds (ex_sensor ex_info) s) (of_int_f 2))"
    if "\<not> isnan (si_hot_thresholds (ex_sensor ex_info) s)" "\<not> isnan (si_hot_thresholds (ex_sensor ex_info) t)" "t < s" for s t
    using that le by (cases s; cases t) (simp_all add: ex_sensor_def sev_array_of_def sub sev_order)
  moreover have "si_hot_hysteresis (ex_sensor ex_info) = (\<lambda>_. of_int_f 2)" by (simp add: ex_sensor_def)
  ultimately show ?thesis using flt_lt_imp_le by (simp add: hot_bands_def)
qed

text \<open>At 49 degrees a sensor that was SEVERE (from 50 degrees, 2 degrees of hysteresis) stays there.\<close>

theorem severity_hysteresis_witness:
  "SEVERE \<le> fst (getSeverityFromThresholds (si_hot_thresholds (ex_sensor ex_info)) (\<lambda>_. NaN)
     (si_hot_hysteresis (ex_sensor ex_info)) (\<lambda>_. Fin 0) SEVERE NONE (of_int_f 49))"
proof -
  have sub: "fsub (of_int_f 50) (of_int_f 2) = of_int_f 48" by (simp add: flt_eval)
  have lt: "flt_lt (of_int_f 48) (of_int_f 49)" by (simp add: flt_eval)
  have "hot_held (si_hot_thresholds (ex_sensor ex_info)) (si_hot_hysteresis (ex_sensor ex_info)) (of_int_f 49) SEVERE"
    by (simp add: hot_held_def ex_sensor_def sev_array_of_def sub lt)
  then show ?thesis
    using severity_hysteresis [OF ex_hot_bands, of "\<lambda>_. NaN" "\<lambda>_. Fin 0" SEVERE NONE "of_int_f 49"]
    by (simp add: cold_bands_def ex_sensor_def sev_array_of_def)
qed

text \<open>
  Without hysteresis (the parser's default of 0) a falling severity overshoots: when the
  temperature is exactly at the threshold of \<open>s\<close>, the greatest it reaches, and the previous
  severity was higher, the result is \<^emph>\<open>below\<close> \<open>s\<close>, although from any previous severity up to
  \<open>s\<close> it would be \<open>s\<close>.
\<close>

theorem zero_hysteresis_undershoots:
  assumes "hh = (\<lambda>_. Fin 0)" and "\<And>t. frep (hot t)" and "s \<noteq> NONE" and "v = hot s" and "\<not> isnan v"
    and "\<And>t. s < t \<Longrightarrow> \<not> flt_le (hot t) v" and "s < ph"
  shows "fst (getSeverityFromThresholds hot cold hh ch ph pc v) < s
    \<and> fst (getSeverityFromThresholds hot cold hh ch s pc v) = s"
proof -
  have at: "greatest_sev (hot_at hot v) = s"
    using assms(3-6) flt_le_refl [of v]
    by (intro greatest_sev_unique) (auto simp: hot_at_def not_le [symmetric])
  have zero: "fsub (hot t) (Fin 0) = hot t" for t
    using assms(2) [of t] rnd_exact by (cases "hot t") (auto simp: fsub_def)
  have "t < s" if "hot_held hot hh v t" for t
  proof -
    have lt: "flt_lt (hot t) v" using that by (simp add: hot_held_def assms(1) zero)
    then have "t \<noteq> s" using assms(4) by auto
    moreover have "\<not> s < t" using assms(6) lt flt_lt_imp_le by blast
    ultimately show ?thesis by simp
  qed
  then have "greatest_sev (hot_held hot hh v) < s"
    using greatest_sev_holds [of "hot_held hot hh v"] assms(3)
    by (cases "greatest_sev (hot_held hot hh v) = NONE") (auto simp: less_le)
  then show ?thesis using at assms(7) by (simp add: getSeverity_held held_severity_def)
qed

theorem zero_hysteresis_undershoots_witness:
  "fst (getSeverityFromThresholds (si_hot_thresholds (ex_sensor ex_info)) (\<lambda>_. NaN) (\<lambda>_. Fin 0) (\<lambda>_. Fin 0)
      SEVERE NONE (of_int_f 40)) < LIGHT"
proof -
  have lt: "flt_lt (of_int_f 40) (of_int_f 45)" "flt_lt (of_int_f 40) (of_int_f 50)" "flt_lt (of_int_f 40) (of_int_f 60)"
    by (simp_all add: flt_eval)
  then have nle: "\<not> flt_le (of_int_f 45) (of_int_f 40)" "\<not> flt_le (of_int_f 50) (of_int_f 40)"
    "\<not> flt_le (of_int_f 60) (of_int_f 40)" using flt_not_le by auto
  have above: "\<not> flt_le (si_hot_thresholds (ex_sensor ex_info) t) (of_int_f 40)" if "LIGHT < t" for t
    using that nle by (cases t) (simp_all add: ex_sensor_def sev_array_of_def sev_order)
  have reps: "frep (si_hot_thresholds (ex_sensor ex_info) t)" for t
    using frep_of_int_f by (cases t) (simp_all add: ex_sensor_def sev_array_of_def)
  have at: "of_int_f 40 = si_hot_thresholds (ex_sensor ex_info) LIGHT"
    by (simp add: ex_sensor_def sev_array_of_def)
  show ?thesis
    by (rule conjunct1 [OF zero_hysteresis_undershoots [where hot = "si_hot_thresholds (ex_sensor ex_info)"
          and s = LIGHT and ph = SEVERE and pc = NONE, OF refl reps _ at _ above]])
      (simp_all add: sev_order)
qed

end
