(* ===== verification/Predictions.thy ===== *)
theory Predictions
  imports ThermalTypes
begin

text \<open>
  \<open>class ThermalPredictionsHelper\<close> (aidl/thermal/utils/thermal_predictions_helper.cpp): predictors
  keep their last \<open>num_out_samples\<close> predictions in a ring, and a predicted sensor reads what its
  predictor foretold \<open>duration\<close> milliseconds ago.
\<close>

section \<open>State\<close>

record PredictionSample =
  sm_timestamp :: int
  sm_values :: "flt list"

record PredictorSensorInfo =
  pr_sensor_name :: string
  pr_sample_duration :: int
  pr_num_out_samples :: int
  pr_samples :: "PredictionSample list"
  pr_cur_index :: int

record PredictedSensorInfo =
  pd_sensor_name :: string
  pd_linked_sensor :: string
  pd_duration :: int
  pd_prediction_index :: int

record predictions_state =
  predictor_sensors :: "PredictorSensorInfo smap"
  predicted_sensors :: "PredictedSensorInfo smap"

definition kToleranceIntervalMs :: int where "kToleranceIntervalMs = 3750"

definition fresh_sample :: "int \<Rightarrow> PredictionSample" where
  "fresh_sample n = \<lparr>sm_timestamp = TIME_MIN, sm_values = replicate (nat n) NaN\<rparr>"

section \<open>Operations\<close>

definition registerPredictorSensor ::
    "string \<Rightarrow> int \<Rightarrow> int \<Rightarrow> predictions_state \<Rightarrow> bool \<times> predictions_state"
where
  "registerPredictorSensor sensor_name sample_duration num_out_samples st =
     (if sample_duration \<le> 0 \<or> num_out_samples \<le> 0 then (False, st)
      else if has (predictor_sensors st) sensor_name then (False, st)
      else (True, st\<lparr>predictor_sensors := put sensor_name
        \<lparr> pr_sensor_name = sensor_name, pr_sample_duration = sample_duration,
          pr_num_out_samples = num_out_samples,
          pr_samples = replicate (nat num_out_samples) (fresh_sample num_out_samples),
          pr_cur_index = 0 \<rparr> (predictor_sensors st)\<rparr>))"

definition registerPredictedSensor ::
    "string \<Rightarrow> string \<Rightarrow> int \<Rightarrow> predictions_state \<Rightarrow> (bool \<times> predictions_state) result"
where
  "registerPredictedSensor sensor_name linked_sensor duration st =
     (if duration < 0 then Inr (False, st)
      else if has (predicted_sensors st) sensor_name then Inr (False, st)
      else case map_of (predictor_sensors st) linked_sensor of
        None \<Rightarrow> Inr (False, st)
      | Some p \<Rightarrow>
          bindE (int32 ((pr_num_out_samples p - 1) * pr_sample_duration p)) (\<lambda>max_prediction_duration.
          if max_prediction_duration < duration then Inr (False, st)
          else Inr (True, st\<lparr>predicted_sensors := put sensor_name
            \<lparr> pd_sensor_name = sensor_name, pd_linked_sensor = linked_sensor, pd_duration = duration,
              pd_prediction_index = duration div pr_sample_duration p \<rparr>
            (predicted_sensors st)\<rparr>)))"

text \<open>\<open>now\<close> is \<open>boot_clock::now()\<close>.\<close>

definition updateSensor ::
    "string \<Rightarrow> flt list \<Rightarrow> int \<Rightarrow> predictions_state \<Rightarrow> (bool \<times> predictions_state) result"
where
  "updateSensor sensor_name values now st =
     (case map_of (predictor_sensors st) sensor_name of
        None \<Rightarrow> Inr (False, st)
      | Some p \<Rightarrow>
          if int (length values) \<noteq> pr_num_out_samples p then Inr (False, st)
          else
            bindE (vec_set (pr_samples p) (pr_cur_index p) \<lparr>sm_timestamp = now, sm_values = values\<rparr>)
              (\<lambda>samples.
            bindE (int32 (pr_cur_index p + 1)) (\<lambda>i.
            Inr (True, st\<lparr>predictor_sensors := put sensor_name
              (p\<lparr>pr_samples := samples, pr_cur_index := i mod pr_num_out_samples p\<rparr>)
              (predictor_sensors st)\<rparr>))))"

text \<open>The \<open>do \<dots> while\<close> of \<open>readSensor\<close>, from \<open>loop_count\<close> on.\<close>

function read_loop ::
    "PredictedSensorInfo \<Rightarrow> PredictorSensorInfo \<Rightarrow> int \<Rightarrow> int \<Rightarrow> flt option result"
where
  "read_loop pd p now loop_count =
     (let i0 = pr_cur_index p - loop_count - 1;
          index = (if i0 < 0 then i0 + pr_num_out_samples p else i0)
      in
      bindE (vec_at (pr_samples p) index) (\<lambda>s.
      let time_elapsed = since_ms now (sm_timestamp s)
      in
      if time_elapsed \<le> pd_duration pd + kToleranceIntervalMs
         \<and> pd_duration pd - kToleranceIntervalMs \<le> time_elapsed
      then bindE (vec_at (sm_values s) (pd_prediction_index pd)) (\<lambda>t. Inr (Some t))
      else if loop_count + 1 < pr_num_out_samples p then read_loop pd p now (loop_count + 1)
      else Inr None))"
  by pat_completeness auto
termination
  by (relation "measure (\<lambda>(pd, p, now, k). nat (pr_num_out_samples p - k))") auto

declare read_loop.simps [simp del]

definition readSensor ::
    "string \<Rightarrow> int \<Rightarrow> predictions_state \<Rightarrow> (SensorReadStatus \<times> flt option) result"
where
  "readSensor sensor_name now st =
     (case map_of (predicted_sensors st) sensor_name of
        None \<Rightarrow> Inr (ERROR, None)
      | Some pd \<Rightarrow>
          (case map_of (predictor_sensors st) (pd_linked_sensor pd) of
             None \<Rightarrow> Inr (ERROR, None)
           | Some p \<Rightarrow>
               bindE (int32 (pd_duration pd + kToleranceIntervalMs)) (\<lambda>_.
               bindE (read_loop pd p now 0) (\<lambda>r.
               Inr (case r of Some t \<Rightarrow> (OKAY, Some t) | None \<Rightarrow> (UNDER_COLLECTING, None))))))"

text \<open>The two passes over the sensors of the configuration.\<close>

definition register_predictor_of ::
    "string \<times> SensorInfo \<Rightarrow> predictions_state \<Rightarrow> (predictions_state, bool) ctl result"
where
  "register_predictor_of p st =
     (case (si_predictor_info (snd p), si_virtual_sensor_info (snd p)) of
        (Some pred, Some vs) \<Rightarrow>
          if \<not> pi_supports_predictions pred then Inr (Next st)
          else
            (case registerPredictorSensor (fst p) (pi_prediction_sample_interval pred)
                    (pi_num_prediction_samples pred) st of
               (ok, st') \<Rightarrow> Inr (if ok then Next st' else Return False st'))
      | _ \<Rightarrow> Inr (Next st))"

definition register_predicted_of ::
    "string \<times> SensorInfo \<Rightarrow> predictions_state \<Rightarrow> (predictions_state, bool) ctl result"
where
  "register_predicted_of p st =
     (case (si_predictor_info (snd p), si_virtual_sensor_info (snd p)) of
        (Some pred, Some vs) \<Rightarrow>
          if vs_formula vs \<noteq> PREVIOUSLY_PREDICTED then Inr (Next st)
          else if length (vs_linked_sensors vs) \<noteq> 1 then Inr (Return False st)
          else
            bindE (registerPredictedSensor (fst p) (vs_linked_sensors vs ! 0)
                     (pi_prediction_duration pred) st) (\<lambda>(ok, st').
            Inr (if ok then Next st' else Return False st'))
      | _ \<Rightarrow> Inr (Next st))"

definition initializePredictionSensors ::
    "SensorInfo smap \<Rightarrow> predictions_state \<Rightarrow> (bool \<times> predictions_state) result"
where
  "initializePredictionSensors sensors st =
     bindE (loopE register_predictor_of sensors st) (\<lambda>c1.
     case c1 of
       Return b st1 \<Rightarrow> Inr (b, st1)
     | _ \<Rightarrow>
         bindE (loopE register_predicted_of sensors (ctl_state c1)) (\<lambda>c2.
         case c2 of
           Return b st2 \<Rightarrow> Inr (b, st2)
         | _ \<Rightarrow> Inr (True, ctl_state c2)))"

end
