(* ===== verification/PredictionsRing.thy ===== *)
theory PredictionsRing
  imports Predictions ThermalTypes
begin

text \<open>
  The predictions helper as an interface: a predictor is a bounded history of its samples, and a
  predicted sensor reads the newest sample whose age is its duration, within the tolerance. The
  index arithmetic of the ring never leaves the vectors in any reachable state.
\<close>

section \<open>Bounded histories\<close>

text \<open>
  A bounded history, the interface of the buffers that hold the last samples of a sensor: pushing a
  sample makes it the most recent one and forgets the oldest. The ring of the predictions helper
  and of the linear estimator (an array and the index to write next) implements it.
\<close>

locale bounded_history =
  fixes push :: "'x \<Rightarrow> 's \<Rightarrow> 's"
    and recent :: "'s \<Rightarrow> 'x list"
    and ok :: "'s \<Rightarrow> bool"
  assumes ok_push: "ok s \<Longrightarrow> ok (push x s)"
    and recent_push: "ok s \<Longrightarrow> recent (push x s) = x # butlast (recent s)"
    and recent_nonempty: "ok s \<Longrightarrow> recent s \<noteq> []"
begin

lemma ok_pushes: "ok s \<Longrightarrow> ok (fold push xs s)"
  by (induction xs arbitrary: s) (simp_all add: ok_push)

lemma length_push: "ok s \<Longrightarrow> length (recent (push x s)) = length (recent s)"
  using recent_nonempty by (simp add: recent_push)

lemma length_pushes: "ok s \<Longrightarrow> length (recent (fold push xs s)) = length (recent s)"
  by (induction xs arbitrary: s) (simp_all add: ok_push length_push)

lemma recent_pushes: "ok s \<Longrightarrow> recent (fold push xs s) = take (length (recent s)) (rev xs @ recent s)"
proof (induction xs arbitrary: s)
  case (Cons x xs)
  have "recent (fold push xs (push x s))
      = take (length (recent (push x s))) (rev xs @ recent (push x s))"
    by (rule Cons.IH [OF ok_push [OF Cons.prems]])
  also have "\<dots> = take (length (recent s)) (rev xs @ x # butlast (recent s))"
    unfolding length_push [OF Cons.prems] unfolding recent_push [OF Cons.prems] ..
  also have "\<dots> = take (length (recent s)) (rev xs @ x # recent s)"
  proof -
    have "take m (x # butlast (recent s)) = take m (x # recent s)" if "m \<le> length (recent s)" for m
      using that by (cases m) (simp_all add: butlast_conv_take)
    then show ?thesis by simp
  qed
  finally show ?case by simp
qed simp

text \<open>After as many pushes as the history is long, only the pushed samples are left.\<close>

lemma recent_full: "ok s \<Longrightarrow> length (recent s) \<le> length xs \<Longrightarrow>
    recent (fold push xs s) = take (length (recent s)) (rev xs)"
  by (simp add: recent_pushes)

end

section \<open>Rings\<close>

definition ring_ok :: "'x list \<times> int \<Rightarrow> bool" where
  "ring_ok r \<longleftrightarrow> 0 \<le> snd r \<and> snd r < int (length (fst r))"

definition ring_push :: "'x \<Rightarrow> 'x list \<times> int \<Rightarrow> 'x list \<times> int" where
  "ring_push x r = ((fst r)[nat (snd r) := x], (snd r + 1) mod int (length (fst r)))"

definition ring_at :: "'x list \<times> int \<Rightarrow> nat \<Rightarrow> 'x" where
  "ring_at r k = fst r ! nat ((snd r - int k - 1) mod int (length (fst r)))"

definition ring_recent :: "'x list \<times> int \<Rightarrow> 'x list" where
  "ring_recent r = map (ring_at r) [0..<length (fst r)]"

lemma ring_recent_length [simp]: "length (ring_recent r) = length (fst r)"
  by (simp add: ring_recent_def)

lemma ring_recent_nth: "k < length (fst r) \<Longrightarrow> ring_recent r ! k = ring_at r k"
  by (simp add: ring_recent_def)

lemma ring_push_recent:
  assumes "ring_ok r"
  shows "ring_recent (ring_push x r) = x # butlast (ring_recent r)"
proof (rule nth_equalityI)
  let ?n = "length (fst r)" and ?N = "int (length (fst r))"
  have n: "0 < ?n" using assms by (auto simp: ring_ok_def)
  show "length (ring_recent (ring_push x r)) = length (x # butlast (ring_recent r))"
    using n by (simp add: ring_push_def)
  fix k assume "k < length (ring_recent (ring_push x r))"
  then have k: "k < ?n" by (simp add: ring_push_def)
  have idx: "((snd r + 1) mod ?N - int k - 1) mod ?N = (snd r - int k) mod ?N"
    by (simp add: mod_diff_left_eq [of "snd r + 1" ?N "int k + 1", symmetric] algebra_simps)
       (metis (no_types, opaque_lifting) add.commute add_diff_cancel_left diff_diff_add mod_diff_left_eq)
  have at: "ring_recent (ring_push x r) ! k
      = (fst r)[nat (snd r) := x] ! nat ((snd r - int k) mod ?N)"
    using k by (simp add: ring_recent_nth ring_at_def ring_push_def idx)
  show "ring_recent (ring_push x r) ! k = (x # butlast (ring_recent r)) ! k"
  proof (cases k)
    case 0
    have "nat (snd r) < ?n" using assms by (simp add: ring_ok_def nat_less_iff)
    then show ?thesis using 0 at assms by (simp add: ring_ok_def)
  next
    case (Suc j)
    have "(snd r - int k) mod ?N \<noteq> snd r"
    proof
      assume "(snd r - int k) mod ?N = snd r"
      then have "(snd r - int k) mod ?N = snd r mod ?N" using assms by (simp add: ring_ok_def)
      then have "?N dvd int k" by (metis diff_diff_eq2 add_diff_cancel_left' dvd_minus_iff minus_diff_eq mod_eq_dvd_iff)
      then show False using k Suc by (auto dest: zdvd_imp_le)
    qed
    moreover have "0 \<le> (snd r - int k) mod ?N" using n by simp
    ultimately have "nat ((snd r - int k) mod ?N) \<noteq> nat (snd r)"
      using assms by (auto simp: ring_ok_def)
    then have "ring_recent (ring_push x r) ! k = ring_at r j"
      using at Suc by (simp add: ring_at_def algebra_simps)
    then show ?thesis using k Suc by (simp add: nth_butlast ring_recent_nth)
  qed
qed

interpretation ring: bounded_history ring_push ring_recent ring_ok
proof
  fix r :: "'x list \<times> int" and x
  assume r: "ring_ok r"
  then have "0 < int (length (fst r))" unfolding ring_ok_def by linarith
  then show "ring_ok (ring_push x r)" by (simp add: ring_ok_def ring_push_def)
  show "ring_recent (ring_push x r) = x # butlast (ring_recent r)" by (rule ring_push_recent [OF r])
  have "length (ring_recent r) \<noteq> 0" using r by (cases r) (auto simp: ring_ok_def)
  then show "ring_recent r \<noteq> []" by (simp only: length_0_conv simp_thms)
qed

text \<open>The index arithmetic of the code: one addition of the length brings the index back.\<close>

lemma ring_wrap:
  "0 \<le> cur \<Longrightarrow> cur < n \<Longrightarrow> 0 \<le> k \<Longrightarrow> k < n \<Longrightarrow>
    (if cur - k - 1 < 0 then cur - k - 1 + n else cur - k - 1) = (cur - k - 1) mod n" for n :: int
  by (smt (verit) mod_add_self2 mod_pos_pos_trivial)

section \<open>The invariant\<close>

definition pr_ring :: "PredictorSensorInfo \<Rightarrow> PredictionSample list \<times> int" where
  "pr_ring p = (pr_samples p, pr_cur_index p)"

definition predictor_ok :: "PredictorSensorInfo \<Rightarrow> bool" where
  "predictor_ok p \<longleftrightarrow> 0 < pr_sample_duration p \<and> 0 < pr_num_out_samples p \<and> is_int32 (pr_num_out_samples p)
     \<and> int (length (pr_samples p)) = pr_num_out_samples p \<and> ring_ok (pr_ring p)
     \<and> (\<forall>s \<in> set (pr_samples p). int (length (sm_values s)) = pr_num_out_samples p)"

definition predictions_ok :: "predictions_state \<Rightarrow> bool" where
  "predictions_ok st \<longleftrightarrow>
     (\<forall>n p. map_of (predictor_sensors st) n = Some p \<longrightarrow> predictor_ok p)
     \<and> (\<forall>n pd. map_of (predicted_sensors st) n = Some pd \<longrightarrow> 0 \<le> pd_duration pd
         \<and> (\<exists>p. map_of (predictor_sensors st) (pd_linked_sensor pd) = Some p
              \<and> 0 \<le> pd_prediction_index pd \<and> pd_prediction_index pd < pr_num_out_samples p))"

lemma predictions_okD:
  "predictions_ok st \<Longrightarrow> map_of (predictor_sensors st) n = Some p \<Longrightarrow> predictor_ok p"
  by (auto simp: predictions_ok_def)

lemma predictor_ok_fresh:
  "0 < d \<Longrightarrow> 0 < n \<Longrightarrow> is_int32 n \<Longrightarrow> predictor_ok \<lparr> pr_sensor_name = s, pr_sample_duration = d,
     pr_num_out_samples = n, pr_samples = replicate (nat n) (fresh_sample n), pr_cur_index = 0 \<rparr>"
  by (auto simp: predictor_ok_def pr_ring_def ring_ok_def fresh_sample_def)

text \<open>A new or changed predictor keeps what is predicted from it as long as its size is kept.\<close>

lemma predictions_ok_put:
  assumes "predictions_ok st" and "predictor_ok p"
    and "\<And>q. map_of (predictor_sensors st) n = Some q \<Longrightarrow> pr_num_out_samples q = pr_num_out_samples p"
  shows "predictions_ok (st\<lparr>predictor_sensors := put n p (predictor_sensors st)\<rparr>)"
  using assms unfolding predictions_ok_def by (auto split: if_splits) metis

lemma registerPredictorSensor_ok:
  "predictions_ok st \<Longrightarrow> is_int32 n \<Longrightarrow> registerPredictorSensor s d n st = (b, st') \<Longrightarrow> predictions_ok st'"
  using predictor_ok_fresh
  by (auto simp: registerPredictorSensor_def has_def split: if_splits intro!: predictions_ok_put)

lemma registerPredictedSensor_ok:
  assumes "predictions_ok st" and "registerPredictedSensor s linked d st = Inr (b, st')"
  shows "predictions_ok st'"
proof (cases "d < 0 \<or> has (predicted_sensors st) s \<or> map_of (predictor_sensors st) linked = None")
  case True
  then show ?thesis using assms by (auto simp: registerPredictedSensor_def split: if_splits)
next
  case False
  then obtain p where p: "map_of (predictor_sensors st) linked = Some p" and d: "0 \<le> d" by auto
  have ok: "predictor_ok p" using predictions_okD [OF assms(1) p] .
  show ?thesis
  proof (cases "(pr_num_out_samples p - 1) * pr_sample_duration p < d")
    case True
    then show ?thesis using False p assms by (auto simp: registerPredictedSensor_def)
  next
    case fits: False
    have pos: "0 < pr_sample_duration p" using ok by (simp add: predictor_ok_def)
    have "d div pr_sample_duration p \<le> pr_num_out_samples p - 1"
      using fits pos zdiv_mono1 [of d "(pr_num_out_samples p - 1) * pr_sample_duration p" "pr_sample_duration p"]
      by simp
    moreover have "0 \<le> d div pr_sample_duration p" using d pos by (simp add: pos_imp_zdiv_nonneg_iff)
    moreover have "st' = st\<lparr>predicted_sensors := put s \<lparr> pd_sensor_name = s, pd_linked_sensor = linked,
        pd_duration = d, pd_prediction_index = d div pr_sample_duration p \<rparr> (predicted_sensors st)\<rparr>"
      using False p fits assms(2) by (auto simp: registerPredictedSensor_def)
    ultimately show ?thesis using assms(1) p d by (auto simp: predictions_ok_def split: if_splits)
  qed
qed

lemma initialize_ok:
  assumes "predictions_ok st" and "initializePredictionSensors sensors st = Inr (b, st')"
    and "\<And>p pred. p \<in> set sensors \<Longrightarrow> si_predictor_info (snd p) = Some pred \<Longrightarrow> is_int32 (pi_num_prediction_samples pred)"
  shows "predictions_ok st'"
proof -
  obtain c1 where c1: "loopE register_predictor_of sensors st = Inr c1"
    using assms(2) by (auto simp: initializePredictionSensors_def)
  have ok1: "predictions_ok (ctl_state c1)"
  proof (rule loopE_inv [where I = predictions_ok, OF c1 assms(1)])
    fix p s c assume "p \<in> set sensors" "predictions_ok s" "register_predictor_of p s = Inr c"
    moreover from this have "is_int32 (pi_num_prediction_samples pred)" if "si_predictor_info (snd p) = Some pred" for pred
      using assms(3) that by blast
    ultimately show "predictions_ok (ctl_state c)"
      using registerPredictorSensor_ok [of s]
      by (auto simp: register_predictor_of_def split: option.splits if_splits prod.splits)
  qed
  show ?thesis
  proof (cases "\<exists>r s. c1 = Return r s")
    case True
    then show ?thesis using assms(2) c1 ok1 by (auto simp: initializePredictionSensors_def)
  next
    case False
    obtain c2 where c2: "loopE register_predicted_of sensors (ctl_state c1) = Inr c2"
      using assms(2) c1 False by (cases c1) (auto simp: initializePredictionSensors_def)
    have ok2: "predictions_ok (ctl_state c2)"
    proof (rule loopE_inv [where I = predictions_ok, OF c2 ok1])
      fix p s c assume "p \<in> set sensors" "predictions_ok s" "register_predicted_of p s = Inr c"
      then show "predictions_ok (ctl_state c)"
        using registerPredictedSensor_ok [of s]
        by (auto simp: register_predicted_of_def split: option.splits if_splits)
    qed
    then show ?thesis using assms(2) c1 c2 False
      by (cases c1; cases c2) (auto simp: initializePredictionSensors_def)
  qed
qed

section \<open>Updating is pushing\<close>

lemma updateSensor_push:
  fixes now vs
  assumes p: "map_of (predictor_sensors st) n = Some p" and ok: "predictor_ok p"
    and len: "int (length vs) = pr_num_out_samples p"
  defines "r \<equiv> ring_push \<lparr>sm_timestamp = now, sm_values = vs\<rparr> (pr_ring p)"
  shows "updateSensor n vs now st = Inr (True, st\<lparr>predictor_sensors :=
      put n (p\<lparr>pr_samples := fst r, pr_cur_index := snd r\<rparr>) (predictor_sensors st)\<rparr>)"
proof -
  have cur: "0 \<le> pr_cur_index p" "pr_cur_index p < int (length (pr_samples p))"
    using ok by (auto simp: predictor_ok_def ring_ok_def pr_ring_def)
  have "is_int32 (pr_cur_index p + 1)"
    using ok cur by (auto simp: predictor_ok_def is_int32_def INT_MIN_def)
  then show ?thesis using p len cur ok
    by (simp add: updateSensor_def r_def ring_push_def pr_ring_def int32_def predictor_ok_def)
qed

lemma predictor_ok_push:
  assumes "predictor_ok p" and "int (length (sm_values x)) = pr_num_out_samples p"
  shows "predictor_ok (p\<lparr>pr_samples := fst (ring_push x (pr_ring p)), pr_cur_index := snd (ring_push x (pr_ring p))\<rparr>)"
proof -
  have "ring_ok (ring_push x (pr_ring p))" using assms(1) by (simp add: predictor_ok_def ring.ok_push)
  moreover have "\<forall>s \<in> set (fst (ring_push x (pr_ring p))). int (length (sm_values s)) = pr_num_out_samples p"
    using assms set_update_subset_insert [of "pr_samples p" "nat (pr_cur_index p)" x]
    by (auto simp: ring_push_def pr_ring_def predictor_ok_def)
  ultimately show ?thesis using assms(1)
    by (simp add: predictor_ok_def ring_push_def pr_ring_def)
qed

lemma updateSensor_ok:
  assumes "predictions_ok st" and "updateSensor n vs now st = Inr (b, st')"
  shows "predictions_ok st'"
proof (cases "map_of (predictor_sensors st) n")
  case None
  then show ?thesis using assms by (simp add: updateSensor_def)
next
  case (Some p)
  have ok: "predictor_ok p" using predictions_okD [OF assms(1) Some] .
  show ?thesis
  proof (cases "int (length vs) = pr_num_out_samples p")
    case True
    have "predictor_ok (p\<lparr>pr_samples := fst (ring_push \<lparr>sm_timestamp = now, sm_values = vs\<rparr> (pr_ring p)),
        pr_cur_index := snd (ring_push \<lparr>sm_timestamp = now, sm_values = vs\<rparr> (pr_ring p))\<rparr>)"
      by (rule predictor_ok_push [OF ok]) (simp add: True)
    then show ?thesis using assms(2) Some unfolding updateSensor_push [OF Some ok True]
      by (auto intro!: predictions_ok_put assms(1))
  qed (use assms Some in \<open>simp add: updateSensor_def\<close>)
qed

inductive pred_reach :: "predictions_state \<Rightarrow> bool" where
  start: "pred_reach \<lparr>predictor_sensors = [], predicted_sensors = []\<rparr>"
| init: "pred_reach st \<Longrightarrow> initializePredictionSensors sensors st = Inr (b, st') \<Longrightarrow>
    (\<And>p pred. p \<in> set sensors \<Longrightarrow> si_predictor_info (snd p) = Some pred \<Longrightarrow> is_int32 (pi_num_prediction_samples pred))
    \<Longrightarrow> pred_reach st'"
| update: "pred_reach st \<Longrightarrow> updateSensor n vs now st = Inr (b, st') \<Longrightarrow> pred_reach st'"

lemma pred_reach_ok: "pred_reach st \<Longrightarrow> predictions_ok st"
proof (induction rule: pred_reach.induct)
  case start
  then show ?case by (simp add: predictions_ok_def)
next
  case (init st sensors b st')
  then show ?case using initialize_ok by blast
next
  case (update st n vs now b st')
  then show ?case using updateSensor_ok by blast
qed

section \<open>Reading\<close>

definition recent_samples :: "PredictorSensorInfo \<Rightarrow> PredictionSample list" where
  "recent_samples p = ring_recent (pr_ring p)"

definition in_window :: "PredictedSensorInfo \<Rightarrow> int \<Rightarrow> PredictionSample \<Rightarrow> bool" where
  "in_window pd now s \<longleftrightarrow> \<bar>since_ms now (sm_timestamp s) - pd_duration pd\<bar> \<le> kToleranceIntervalMs"

definition predicted_value :: "PredictedSensorInfo \<Rightarrow> PredictionSample \<Rightarrow> flt" where
  "predicted_value pd s = sm_values s ! nat (pd_prediction_index pd)"

lemma drop_Cons_nth: "i < length xs \<Longrightarrow> drop i xs = xs ! i # drop (Suc i) xs"
  by (rule Cons_nth_drop_Suc [symmetric])

lemma read_loop_spec:
  assumes ok: "predictor_ok p" and idx: "0 \<le> pd_prediction_index pd" "pd_prediction_index pd < pr_num_out_samples p"
  shows "int k < pr_num_out_samples p \<Longrightarrow> read_loop pd p now (int k)
    = Inr (map_option (predicted_value pd) (find (in_window pd now) (drop k (recent_samples p))))"
proof (induction "nat (pr_num_out_samples p) - k" arbitrary: k)
  case (Suc m)
  let ?N = "pr_num_out_samples p" and ?i = "(pr_cur_index p - int k - 1) mod pr_num_out_samples p"
  have len: "int (length (pr_samples p)) = ?N" and cur: "0 \<le> pr_cur_index p" "pr_cur_index p < ?N"
    using ok by (auto simp: predictor_ok_def ring_ok_def pr_ring_def)
  have i: "0 \<le> ?i" "?i < int (length (pr_samples p))" using cur len by (auto intro: pos_mod_sign pos_mod_bound)
  let ?s = "pr_samples p ! nat ?i"
  have s: "?s \<in> set (pr_samples p)" using i by (intro nth_mem) (simp add: nat_less_iff)
  have vals: "int (length (sm_values ?s)) = ?N" using ok s by (auto simp: predictor_ok_def)
  have k: "k < length (recent_samples p)" using Suc.prems len by (simp add: recent_samples_def pr_ring_def)
  have d: "drop k (recent_samples p) = ?s # drop (Suc k) (recent_samples p)"
    using drop_Cons_nth [OF k] k len
    by (simp add: recent_samples_def ring_recent_nth ring_at_def pr_ring_def)
  have wrap: "(if pr_cur_index p - int k - 1 < 0 then pr_cur_index p - int k - 1 + ?N else pr_cur_index p - int k - 1) = ?i"
    using ring_wrap [OF cur, of "int k"] Suc.prems by simp
  have window: "since_ms now (sm_timestamp ?s) \<le> pd_duration pd + kToleranceIntervalMs
      \<and> pd_duration pd - kToleranceIntervalMs \<le> since_ms now (sm_timestamp ?s) \<longleftrightarrow> in_window pd now ?s"
    by (auto simp: in_window_def)
  have at: "vec_at (pr_samples p) ?i = Inr ?s" using i by simp
  have step: "read_loop pd p now (int k) =
      (if in_window pd now ?s then Inr (Some (predicted_value pd ?s))
       else if int k + 1 < ?N then read_loop pd p now (int k + 1) else Inr None)"
    unfolding read_loop.simps [of pd p now "int k"] Let_def wrap at bindE_simps window
    using vals idx by (simp add: predicted_value_def)
  show ?case
  proof (cases "\<not> in_window pd now ?s \<and> int k + 1 < ?N")
    case True
    then have "read_loop pd p now (int (Suc k))
      = Inr (map_option (predicted_value pd) (find (in_window pd now) (drop (Suc k) (recent_samples p))))"
      using Suc.hyps(2) by (intro Suc.hyps(1)) auto
    then show ?thesis unfolding d step using True by (simp add: add.commute)
  next
    case False
    then have "in_window pd now ?s \<or> drop (Suc k) (recent_samples p) = []"
      using len by (auto simp: recent_samples_def pr_ring_def)
    then show ?thesis unfolding d step using False by auto
  qed
qed simp

text \<open>
  C13: Reading a predicted sensor in any reachable state never leaves the ring or a sample: it
  returns the value foretold by the \<^emph>\<open>newest\<close> stored sample of its predictor whose age differs
  from the sensor's duration by at most the tolerance, and reports "under collecting" when there is
  none.
\<close>

theorem readSensor_newest:
  assumes "pred_reach st" and pd: "map_of (predicted_sensors st) n = Some pd"
    and tol: "is_int32 (pd_duration pd + kToleranceIntervalMs)"
  shows "\<exists>p. map_of (predictor_sensors st) (pd_linked_sensor pd) = Some p
    \<and> readSensor n now st = Inr (case find (in_window pd now) (recent_samples p) of
        None \<Rightarrow> (UNDER_COLLECTING, None)
      | Some s \<Rightarrow> (OKAY, Some (predicted_value pd s)))"
proof -
  have ok: "predictions_ok st" by (rule pred_reach_ok [OF assms(1)])
  then obtain p where p: "map_of (predictor_sensors st) (pd_linked_sensor pd) = Some p"
    and idx: "0 \<le> pd_prediction_index pd" "pd_prediction_index pd < pr_num_out_samples p"
    using pd unfolding predictions_ok_def by blast
  have pok: "predictor_ok p" by (rule predictions_okD [OF ok p])
  then have "0 < pr_num_out_samples p" by (simp add: predictor_ok_def)
  then have "read_loop pd p now 0
      = Inr (map_option (predicted_value pd) (find (in_window pd now) (recent_samples p)))"
    using read_loop_spec [OF pok idx, of 0 now] by simp
  then show ?thesis using pd p tol
    by (intro exI [of _ p]) (simp add: readSensor_def int32_def split: option.splits)
qed

text \<open>
  Updates are pushes: after any sequence of updates with as many values as the predictor holds,
  its samples, newest first, are the given ones in reverse order before the old ones, cut to the
  size of the ring.
\<close>

theorem updateSensor_history:
  assumes "pred_reach st" and "map_of (predictor_sensors st) n = Some p"
    and "\<And>x. x \<in> set xs \<Longrightarrow> int (length (sm_values x)) = pr_num_out_samples p"
  shows "\<exists>st' p'. foldE (\<lambda>x s. bindE (updateSensor n (sm_values x) (sm_timestamp x) s) (\<lambda>r. Inr (snd r))) xs st = Inr st'
    \<and> map_of (predictor_sensors st') n = Some p'
    \<and> recent_samples p' = take (nat (pr_num_out_samples p)) (rev xs @ recent_samples p)"
proof -
  let ?step = "\<lambda>x s. bindE (updateSensor n (sm_values x) (sm_timestamp x) s) (\<lambda>r. Inr (snd r))"
  have "\<exists>st' p'. foldE ?step xs st = Inr st' \<and> map_of (predictor_sensors st') n = Some p'
      \<and> pr_ring p' = fold ring_push xs (pr_ring p)"
    if "predictor_ok p" "map_of (predictor_sensors st) n = Some p"
      "\<And>x. x \<in> set xs \<Longrightarrow> int (length (sm_values x)) = pr_num_out_samples p" for st p
    using that
  proof (induction xs arbitrary: st p)
    case (Cons x xs)
    let ?r = "ring_push x (pr_ring p)"
    let ?p = "p\<lparr>pr_samples := fst ?r, pr_cur_index := snd ?r\<rparr>"
    let ?st = "st\<lparr>predictor_sensors := put n ?p (predictor_sensors st)\<rparr>"
    have len: "int (length (sm_values x)) = pr_num_out_samples p" using Cons.prems(3) by simp
    have "\<exists>st' p'. foldE ?step xs ?st = Inr st' \<and> map_of (predictor_sensors st') n = Some p'
        \<and> pr_ring p' = fold ring_push xs (pr_ring ?p)"
      using predictor_ok_push [OF Cons.prems(1) len] Cons.prems(3) by (intro Cons.IH) auto
    moreover have "pr_ring ?p = ?r" by (simp add: pr_ring_def)
    moreover have "updateSensor n (sm_values x) (sm_timestamp x) st = Inr (True, ?st)"
      using updateSensor_push [OF Cons.prems(2,1) len, of "sm_timestamp x"] by (cases x) simp
    ultimately show ?case by simp
  qed simp
  moreover have ok: "predictor_ok p" using predictions_okD [OF pred_reach_ok [OF assms(1)] assms(2)] .
  ultimately obtain st' p' where *: "foldE ?step xs st = Inr st'" "map_of (predictor_sensors st') n = Some p'"
    "pr_ring p' = fold ring_push xs (pr_ring p)" using assms(2,3) by blast
  have "ring_ok (pr_ring p)" and "length (fst (pr_ring p)) = nat (pr_num_out_samples p)"
    using ok by (auto simp: predictor_ok_def pr_ring_def)
  then have "recent_samples p' = take (nat (pr_num_out_samples p)) (rev xs @ recent_samples p)"
    by (simp add: recent_samples_def *(3) ring.recent_pushes)
  then show ?thesis using * by blast
qed

text \<open>
  A predictor \<open>skin\<close> of three samples, ten seconds apart, and a sensor that reads what it foretold
  ten seconds ago.
\<close>

definition ex_predictor_sensors :: "SensorInfo smap" where
  "ex_predictor_sensors =
     (let pred = \<lparr> pi_sensor = ''skin'', pi_support_pid_compensation = False, pi_prediction_weights = [],
            pi_k_p_compensate = (\<lambda>_. NaN), pi_supports_predictions = True,
            pi_prediction_sample_interval = 10000, pi_num_prediction_samples = 3,
            pi_prediction_duration = 10000 \<rparr>;
          vs = \<lparr> vs_linked_sensors = [''skin''], vs_linked_sensors_type = [SENSOR], vs_coefficients = [],
            vs_coefficients_type = [], vs_offset = Fin 0, vs_trigger_sensors = [],
            vs_formula = USE_ML_MODEL, vs_backup_sensor = [] \<rparr>
      in [(''skin'', (ex_sensor ex_info)\<lparr>si_predictor_info := Some pred, si_virtual_sensor_info := Some vs\<rparr>),
          (''later'', (ex_sensor ex_info)\<lparr>
             si_predictor_info := Some (pred\<lparr>pi_supports_predictions := False\<rparr>),
             si_virtual_sensor_info := Some (vs\<lparr>vs_formula := PREVIOUSLY_PREDICTED\<rparr>)\<rparr>)])"

definition ex_predictor :: PredictorSensorInfo where
  "ex_predictor = \<lparr> pr_sensor_name = ''skin'', pr_sample_duration = 10000, pr_num_out_samples = 3,
     pr_samples = replicate 3 (fresh_sample 3), pr_cur_index = 0 \<rparr>"

definition ex_predicted :: PredictedSensorInfo where
  "ex_predicted = \<lparr> pd_sensor_name = ''later'', pd_linked_sensor = ''skin'', pd_duration = 10000,
     pd_prediction_index = 1 \<rparr>"

definition ex_predictions :: predictions_state where
  "ex_predictions = \<lparr>predictor_sensors = [(''skin'', ex_predictor)], predicted_sensors = [(''later'', ex_predicted)]\<rparr>"

lemma ex_predictions_reach: "pred_reach ex_predictions"
proof (rule pred_reach.init [OF pred_reach.start])
  show "initializePredictionSensors ex_predictor_sensors \<lparr>predictor_sensors = [], predicted_sensors = []\<rparr>
      = Inr (True, ex_predictions)"
    by (simp add: initializePredictionSensors_def ex_predictor_sensors_def register_predictor_of_def
        register_predicted_of_def registerPredictorSensor_def registerPredictedSensor_def ex_predictions_def
        ex_predictor_def ex_predicted_def int32_def is_int32_def INT_MAX_def INT_MIN_def put_def has_def
        Let_def numeral_3_eq_3)
  fix p pred assume "p \<in> set ex_predictor_sensors" "si_predictor_info (snd p) = Some pred"
  then show "is_int32 (pi_num_prediction_samples pred)"
    by (auto simp: ex_predictor_sensors_def is_int32_def INT_MAX_def INT_MIN_def Let_def)
qed

definition ex_sample :: PredictionSample where
  "ex_sample = \<lparr>sm_timestamp = 5000000000, sm_values = [of_int_f 40, of_int_f 41, of_int_f 42]\<rparr>"

theorem updateSensor_history_witness:
  "\<exists>st' p'. foldE (\<lambda>x s. bindE (updateSensor ''skin'' (sm_values x) (sm_timestamp x) s) (\<lambda>r. Inr (snd r)))
      [ex_sample] ex_predictions = Inr st'
    \<and> map_of (predictor_sensors st') ''skin'' = Some p'
    \<and> recent_samples p' = take 3 (ex_sample # recent_samples ex_predictor)"
proof -
  have "map_of (predictor_sensors ex_predictions) ''skin'' = Some ex_predictor"
    by (simp add: ex_predictions_def)
  from updateSensor_history [OF ex_predictions_reach this, of "[ex_sample]"] show ?thesis
    by (simp add: ex_sample_def ex_predictor_def)
qed

definition ex_predictions' :: predictions_state where
  "ex_predictions' = snd (projr (updateSensor ''skin'' (sm_values ex_sample) (sm_timestamp ex_sample) ex_predictions))"

lemma ex_predictions'_eq: "updateSensor ''skin'' (sm_values ex_sample) (sm_timestamp ex_sample) ex_predictions
    = Inr (True, ex_predictions') \<and> ex_predictions' = ex_predictions\<lparr>predictor_sensors :=
      [(''skin'', ex_predictor\<lparr>pr_samples := [ex_sample, fresh_sample 3, fresh_sample 3], pr_cur_index := 1\<rparr>)]\<rparr>"
  by (simp add: ex_predictions'_def updateSensor_def ex_predictions_def ex_predictor_def ex_sample_def
      int32_def is_int32_def INT_MAX_def INT_MIN_def put_def numeral_3_eq_3)

theorem readSensor_newest_witness:
  "readSensor ''later'' 15000000000 ex_predictions' = Inr (OKAY, Some (of_int_f 41))"
proof -
  have r: "pred_reach ex_predictions'"
    using pred_reach.update [OF ex_predictions_reach] ex_predictions'_eq by blast
  have pd: "map_of (predicted_sensors ex_predictions') ''later'' = Some ex_predicted"
    by (simp add: ex_predictions'_eq ex_predictions_def)
  have "is_int32 (pd_duration ex_predicted + kToleranceIntervalMs)"
    by (simp add: ex_predicted_def kToleranceIntervalMs_def is_int32_def INT_MAX_def INT_MIN_def)
  from readSensor_newest [OF r pd this, of 15000000000] show ?thesis
    by (simp add: ex_predictions'_eq ex_predictor_def ex_predicted_def recent_samples_def ring_recent_def
        ring_at_def pr_ring_def upt_conv_Cons in_window_def ex_sample_def predicted_value_def since_ms_def
        wrap64_def kToleranceIntervalMs_def Let_def)
qed

end
