(* ===== verification/Text.thy ===== *)
theory Text
  imports Floats
begin

text \<open>
  The text functions of the C and C++ library and of android-base that the thermal HAL reads
  sysfs files and configuration strings with: \<open>Trim\<close>, \<open>atoi\<close>, \<open>atof\<close>, \<open>strtoul\<close>, \<open>stoul\<close>,
  \<open>stream >> int\<close>, \<open>to_string\<close> and \<open>lround\<close>. Hexadecimal floating point text is not covered.
\<close>

section \<open>Characters\<close>

definition char_code :: "char \<Rightarrow> nat" where "char_code c = of_char c"

definition is_space :: "char \<Rightarrow> bool" where
  "is_space c \<longleftrightarrow> char_code c = 32 \<or> 9 \<le> char_code c \<and> char_code c \<le> 13"

definition is_digit :: "char \<Rightarrow> bool" where
  "is_digit c \<longleftrightarrow> 48 \<le> char_code c \<and> char_code c \<le> 57"

definition lower :: "char \<Rightarrow> char" where
  "lower c = (if 65 \<le> char_code c \<and> char_code c \<le> 90 then char_of (char_code c + 32) else c)"

definition digit_value :: "char \<Rightarrow> int" where
  "digit_value c = int (char_code c) - 48"

definition digits_value :: "string \<Rightarrow> int" where
  "digits_value s = foldl (\<lambda>n c. 10 * n + digit_value c) 0 s"

text \<open>\<open>android::base::Trim\<close>\<close>

definition Trim :: "string \<Rightarrow> string" where
  "Trim s = rev (dropWhile is_space (rev (dropWhile is_space s)))"

definition prefixed :: "string \<Rightarrow> string \<Rightarrow> bool" where
  "prefixed p s \<longleftrightarrow> take (length p) s = p"

section \<open>Integers\<close>

text \<open>The sign and the rest of a number, after white space.\<close>

definition split_sign :: "string \<Rightarrow> bool \<times> string" where
  "split_sign s = (case dropWhile is_space s of
     [] \<Rightarrow> (False, [])
   | c # cs \<Rightarrow> if c = CHR ''-'' then (True, cs) else if c = CHR ''+'' then (False, cs) else (False, c # cs))"

definition signed_value :: "string \<Rightarrow> int" where
  "signed_value s = (case split_sign s of
     (neg, r) \<Rightarrow> (if neg then - 1 else 1) * digits_value (takeWhile is_digit r))"

text \<open>\<open>atoi\<close>: a value that does not fit is undefined behaviour.\<close>

definition atoi :: "string \<Rightarrow> int result" where
  "atoi s = int32 (signed_value s)"

text \<open>\<open>strtoul(s, NULL, 10)\<close>, 64 bits: saturates; a minus sign negates modulo \<open>2 ^ 64\<close>.\<close>

definition strtoul10 :: "string \<Rightarrow> int" where
  "strtoul10 s = (case split_sign s of
     (neg, r) \<Rightarrow>
       let n = digits_value (takeWhile is_digit r)
       in if 2 ^ 64 \<le> n then 2 ^ 64 - 1 else if neg then (- n) mod 2 ^ 64 else n)"

definition stoul :: "string \<Rightarrow> int result" where
  "stoul s = (case split_sign s of
     (neg, r) \<Rightarrow>
       let ds = takeWhile is_digit r; n = digits_value ds
       in if ds = [] then Inl InvalidArgument
          else if 2 ^ 64 \<le> n then Inl OutOfRange
          else Inr (if neg then (- n) mod 2 ^ 64 else n))"

text \<open>The conversion of an unsigned 64-bit value to \<open>int\<close>, modulo \<open>2 ^ 32\<close>.\<close>

definition to_int32 :: "int \<Rightarrow> int" where
  "to_int32 n = (n + 2 ^ 31) mod 2 ^ 32 - 2 ^ 31"

lemma split_sign_length:
  assumes "split_sign s = (neg, r)"
  shows "length r \<le> length s"
proof -
  define w where "w = dropWhile is_space s"
  have "length r \<le> length w"
    using assms unfolding split_sign_def w_def [symmetric] by (cases w) (auto split: if_splits)
  then show ?thesis using length_dropWhile_le [of is_space s] unfolding w_def by (rule order_trans)
qed

lemma digits_progress: "takeWhile P r \<noteq> [] \<Longrightarrow> length (dropWhile P r) < length r"
  by (cases r) (auto simp: less_Suc_eq_le length_dropWhile_le split: if_splits)

text \<open>\<open>while (stream >> number)\<close> for a type whose values are \<open>lo .. hi\<close>; a minus sign is accepted.\<close>

function read_numbers :: "int \<Rightarrow> int \<Rightarrow> string \<Rightarrow> int list" where
  "read_numbers lo hi s = (case split_sign s of
     (neg, r) \<Rightarrow>
       let ds = takeWhile is_digit r; n = (if neg then - digits_value ds else digits_value ds)
       in if ds = [] \<or> n < lo \<or> hi < n then []
          else n # read_numbers lo hi (dropWhile is_digit r))"
  by pat_completeness auto
termination
  by (relation "measure (\<lambda>(lo, hi, s). length s)")
    (auto dest!: split_sign_length [OF sym] digits_progress intro: less_le_trans)

declare read_numbers.simps [simp del]

fun nat_digits :: "nat \<Rightarrow> nat \<Rightarrow> string" where
  "nat_digits 0 n = []"
| "nat_digits (Suc f) n =
     (if n < 10 then [char_of (48 + n)] else nat_digits f (n div 10) @ [char_of (48 + n mod 10)])"

text \<open>\<open>std::to_string\<close>: \<open>Suc n\<close> is more fuel than \<open>n\<close> has digits.\<close>

definition to_string :: "int \<Rightarrow> string" where
  "to_string i = (if i < 0 then CHR ''-'' # nat_digits (Suc (nat (- i))) (nat (- i))
                  else nat_digits (Suc (nat i)) (nat i))"

section \<open>Floating point text\<close>

text \<open>
  \<open>atof\<close> yields a \<open>double\<close>, which the program assigns to a \<open>float\<close>: the decimal value is rounded
  to 53 bits (multiples of \<open>2 ^ - 1074\<close>) and then to binary32.
\<close>

definition double_units :: "int \<Rightarrow> int \<Rightarrow> int" where
  "double_units n d =
     (let N = n * 2 ^ 1074; e = bits (\<bar>N\<bar> div d) - 53 in rne N (d * 2 ^ e) * 2 ^ e)"

definition float_of_double :: "int \<Rightarrow> flt" where
  "float_of_double k = rnd k (2 ^ 925)"

definition exponent_of :: "string \<Rightarrow> int" where
  "exponent_of s =
     (case s of
        [] \<Rightarrow> 0
      | c # cs \<Rightarrow>
          if lower c = CHR ''e'' \<and> cs \<noteq> [] then
            (let body = (if hd cs = CHR ''-'' \<or> hd cs = CHR ''+'' then tl cs else cs);
                 ds = takeWhile is_digit body
             in if hd cs = CHR ''-'' then - digits_value ds else digits_value ds)
          else 0)"

text \<open>A \<open>double\<close>: a number of units of \<open>2 ^ - 1074\<close>, or one that is not finite.\<close>

datatype double = Double int | NoNumber flt

definition atof_double :: "string \<Rightarrow> double" where
  "atof_double s = (case split_sign s of
     (neg, r) \<Rightarrow>
       if map lower (take 3 r) = ''nan'' then NoNumber NaN
       else if map lower (take 3 r) = ''inf'' then NoNumber (if neg then NInf else PInf)
       else
         let ds = takeWhile is_digit r; r1 = dropWhile is_digit r;
             fs = (case r1 of [] \<Rightarrow> [] | c # cs \<Rightarrow> if c = CHR ''.'' then takeWhile is_digit cs else []);
             r2 = (case r1 of [] \<Rightarrow> [] | c # cs \<Rightarrow> if c = CHR ''.'' then dropWhile is_digit cs else r1)
         in if ds = [] \<and> fs = [] then Double 0
            else
              let m = (if neg then - 1 else 1) * digits_value (ds @ fs);
                  x = exponent_of r2 - int (length fs)
              in Double (if 0 \<le> x then double_units (m * 10 ^ nat x) 1
                         else double_units m (10 ^ nat (- x))))"

definition atof :: "string \<Rightarrow> flt" where
  "atof s = (case atof_double s of Double k \<Rightarrow> float_of_double k | NoNumber x \<Rightarrow> x)"

text \<open>The conversion of a \<open>double\<close> to \<open>int\<close>: towards zero, undefined where the value does not fit.\<close>

fun double_to_int :: "double \<Rightarrow> int result" where
  "double_to_int (Double k) = int32 (sgn k * (\<bar>k\<bar> div 2 ^ 1074))"
| "double_to_int (NoNumber x) = Inl UB"

text \<open>
  \<open>std::lround\<close>: to the nearest integer, halves away from zero; what it returns for a value outside
  \<open>long\<close> is unspecified, and a fault here.
\<close>

fun lround :: "flt \<Rightarrow> int result" where
  "lround (Fin k) =
     (let r = sgn k * ((\<bar>k\<bar> + 2 ^ 148) div 2 ^ 149)
      in if - (2 ^ 63) \<le> r \<and> r < 2 ^ 63 then Inr r else Inl UB)"
| "lround _ = Inl UB"

section \<open>JSON values\<close>

text \<open>
  The operations of \<open>Json::Value\<close> (jsoncpp, a library the repository links) that the program reads
  configurations with, as a record of functions over an abstract type of values. Every parser of
  the development takes such a record: nothing is assumed of it. The conversions \<open>as...\<close> are taken
  to return a value (jsoncpp aborts on a value of the wrong kind, which is not modelled).
\<close>

record 'j json_ops =
  jget :: "'j \<Rightarrow> string \<Rightarrow> 'j"
  jat :: "'j \<Rightarrow> nat \<Rightarrow> 'j"
  jsize :: "'j \<Rightarrow> nat"
  jempty :: "'j \<Rightarrow> bool"
  jtrue :: "'j \<Rightarrow> bool"
  jisString :: "'j \<Rightarrow> bool"
  jisBool :: "'j \<Rightarrow> bool"
  jasString :: "'j \<Rightarrow> string"
  jasBool :: "'j \<Rightarrow> bool"
  jasInt :: "'j \<Rightarrow> int"
  jasUInt :: "'j \<Rightarrow> int"
  jasFloat :: "'j \<Rightarrow> flt"

text \<open>The elements of an array, in order.\<close>

definition jlist :: "'j json_ops \<Rightarrow> 'j \<Rightarrow> 'j list" where
  "jlist J v = map (jat J v) [0..<jsize J v]"

text \<open>\<open>getFloatFromValue\<close>, the same function in thermal_info.cpp and virtualtemp_estimator.cpp\<close>

definition getFloatFromValue :: "'j json_ops \<Rightarrow> 'j \<Rightarrow> flt" where
  "getFloatFromValue J value = (if jisString J value then atof (jasString J value) else jasFloat J value)"

end
