(* ===== verification/VtEstimator.thy ===== *)
theory VtEstimator
  imports Text
begin

text \<open>
  \<open>class VirtualTempEstimator\<close> (aidl/thermal/virtualtemp_estimator/): a temperature estimated from
  the readings of other sensors, by a linear model over the last samples or by a TensorFlow Lite
  model in a separate library. The library's entry points are parameters. \<open>size_t\<close> counters are
  natural numbers; logging and tracing are left out.
\<close>

section \<open>State\<close>

datatype VtEstimatorStatus = kVtEstimatorOk | kVtEstimatorInvalidArgs | kVtEstimatorInitFailed
  | kVtEstimatorInvokeFailed | kVtEstimatorUnSupported | kVtEstimatorLowConfidence
  | kVtEstimatorUnderSampling

datatype VtEstimationType = kUseMLModel | kUseLinearModel | kInvalidEstimationType

record MLModelInitData =
  ml_model_path :: string
  ml_use_prev_samples :: bool
  ml_prev_samples_order :: nat
  ml_output_label_count :: nat
  ml_num_hot_spots :: nat
  ml_enable_input_validation :: bool
  ml_offset_thresholds :: "flt list"
  ml_offset_values :: "flt list"
  ml_support_under_sampling :: bool

record LinearModelInitData =
  li_use_prev_samples :: bool
  li_prev_samples_order :: nat
  li_coefficients :: "flt list"
  li_offset_thresholds :: "flt list"
  li_offset_values :: "flt list"

record VtEstimatorCommonData =
  cm_sensor_name :: string
  cm_offset_thresholds :: "flt list"
  cm_offset_values :: "flt list"
  cm_num_linked_sensors :: nat
  cm_prev_samples_order :: nat
  cm_cur_sample_count :: nat
  cm_use_prev_samples :: bool
  cm_is_initialized :: bool

record VtEstimatorLinearModelData =
  ln_input_samples :: "flt list list"
  ln_coefficients :: "flt list list"

record InputRangeInfo =
  ir_max_threshold :: flt
  ir_min_threshold :: flt

text \<open>
  An array of \<open>new float[n]\<close> holds indeterminate values until it is written: \<open>None\<close>. A null
  pointer is the empty list.
\<close>

record VtEstimatorTFLiteData =
  tf_scratch_buffer :: "flt option list"
  tf_input_buffer :: "flt option list"
  tf_input_buffer_size :: nat
  tf_num_hot_spots :: nat
  tf_output_label_count :: nat
  tf_output_buffer :: "flt option list"
  tf_output_buffer_size :: nat
  tf_model_path :: string
  tf_input_range :: "InputRangeInfo list"
  tf_support_under_sampling :: bool
  tf_sample_interval :: int
  tf_max_sample_interval :: int
  tf_predict_window_ms :: nat
  tf_last_update_time :: int
  tf_prev_sample_time :: int
  tf_enable_input_validation :: bool

record VirtualTempEstimator =
  vt_type :: VtEstimationType
  vt_common :: VtEstimatorCommonData
  vt_tflite :: "VtEstimatorTFLiteData option"
  vt_linear :: "VtEstimatorLinearModelData option"

section \<open>Construction\<close>

definition fresh_common :: "string \<Rightarrow> nat \<Rightarrow> VtEstimatorCommonData" where
  "fresh_common name num_input_sensors = \<lparr> cm_sensor_name = name, cm_offset_thresholds = [],
     cm_offset_values = [], cm_num_linked_sensors = num_input_sensors, cm_prev_samples_order = 1,
     cm_cur_sample_count = 0, cm_use_prev_samples = False, cm_is_initialized = False \<rparr>"

definition fresh_tflite :: VtEstimatorTFLiteData where
  "fresh_tflite = \<lparr> tf_scratch_buffer = [], tf_input_buffer = [], tf_input_buffer_size = 0,
     tf_num_hot_spots = 1, tf_output_label_count = 1, tf_output_buffer = [],
     tf_output_buffer_size = 1, tf_model_path = [], tf_input_range = [],
     tf_support_under_sampling = False, tf_sample_interval = 0, tf_max_sample_interval = INT_MAX,
     tf_predict_window_ms = 0, tf_last_update_time = TIME_MIN, tf_prev_sample_time = TIME_MIN,
     tf_enable_input_validation = False \<rparr>"

definition new_estimator :: "string \<Rightarrow> VtEstimationType \<Rightarrow> nat \<Rightarrow> VirtualTempEstimator" where
  "new_estimator sensor_name estimationType num_linked_sensors =
     \<lparr> vt_type = estimationType, vt_common = fresh_common sensor_name num_linked_sensors,
       vt_tflite = (if estimationType = kUseMLModel then Some fresh_tflite else None),
       vt_linear = (if estimationType = kUseLinearModel
                    then Some \<lparr>ln_input_samples = [], ln_coefficients = []\<rparr> else None) \<rparr>"

section \<open>Initialization\<close>

text \<open>
  The coefficients of order \<open>i\<close> are the \<open>i\<close>-th slice of the list. \<open>input_samples.reserve\<close> allocates
  but adds no element: the vector stays empty.
\<close>

definition LinearModelInitialize ::
    "LinearModelInitData \<Rightarrow> VirtualTempEstimator \<Rightarrow> VtEstimatorStatus \<times> VirtualTempEstimator"
where
  "LinearModelInitialize d vt =
     (case vt_linear vt of
        None \<Rightarrow> (kVtEstimatorInitFailed, vt)
      | Some ln \<Rightarrow>
          let n = cm_num_linked_sensors (vt_common vt)
          in if n = 0 \<or> length (li_coefficients d) = 0 \<or> li_prev_samples_order d = 0
             then (kVtEstimatorInitFailed, vt)
             else if length (li_coefficients d) \<noteq> n * li_prev_samples_order d
             then (kVtEstimatorInvalidArgs, vt)
             else (kVtEstimatorOk, vt\<lparr>
               vt_common := (vt_common vt)\<lparr> cm_use_prev_samples := li_use_prev_samples d,
                 cm_prev_samples_order := li_prev_samples_order d,
                 cm_offset_thresholds := li_offset_thresholds d,
                 cm_offset_values := li_offset_values d, cm_is_initialized := True \<rparr>,
               vt_linear := Some (ln\<lparr> ln_coefficients := ln_coefficients ln
                 @ map (\<lambda>i. map (\<lambda>j. li_coefficients d ! (i * n + j)) [0..<n])
                     [0..<li_prev_samples_order d] \<rparr>)\<rparr>))"

definition getInputRangeInfoFromJsonValues :: "'j json_ops \<Rightarrow> 'j \<Rightarrow> InputRangeInfo option" where
  "getInputRangeInfoFromJsonValues J values =
     (if jsize J values \<noteq> 2 then None
      else
        let min_val = getFloatFromValue J (jat J values 0);
            max_val = getFloatFromValue J (jat J values 1)
        in if isnan min_val \<or> isnan max_val then None
           else if flt_lt max_val min_val then None
           else Some \<lparr>ir_max_threshold = max_val, ir_min_threshold = min_val\<rparr>)"

fun parse_input_ranges :: "'j json_ops \<Rightarrow> 'j list \<Rightarrow> InputRangeInfo list option" where
  "parse_input_ranges J [] = Some []"
| "parse_input_ranges J (v # vs) =
     (case getInputRangeInfoFromJsonValues J (jget J v ''Range'') of
        None \<Rightarrow> None
      | Some r \<Rightarrow> (case parse_input_ranges J vs of None \<Rightarrow> None | Some rs \<Rightarrow> Some (r # rs)))"

definition parse_sample_interval ::
    "'j json_ops \<Rightarrow> 'j \<Rightarrow> VtEstimatorTFLiteData \<Rightarrow> VtEstimatorTFLiteData option"
where
  "parse_sample_interval J mc tf =
     (if jempty J (jget J mc ''sample_interval_ms'') then Some tf
      else
        let ms = jasInt J (jget J mc ''sample_interval_ms'')
        in if ms \<le> 0 then None
           else Some (tf\<lparr> tf_sample_interval := ms,
                  tf_predict_window_ms := nat ms * (tf_output_label_count tf - 1) \<rparr>))"

definition parse_max_sample_interval ::
    "'j json_ops \<Rightarrow> 'j \<Rightarrow> VtEstimatorTFLiteData \<Rightarrow> VtEstimatorTFLiteData option"
where
  "parse_max_sample_interval J mc tf =
     (if jempty J (jget J mc ''max_sample_interval_ms'') then Some tf
      else
        let ms = jasInt J (jget J mc ''max_sample_interval_ms'')
        in if ms \<le> 0 then None else Some (tf\<lparr>tf_max_sample_interval := ms\<rparr>))"

definition ParseInputConfig ::
    "'j json_ops \<Rightarrow> 'j \<Rightarrow> VtEstimatorCommonData \<Rightarrow> VtEstimatorTFLiteData \<Rightarrow> VtEstimatorTFLiteData option"
where
  "ParseInputConfig J input_config cm tf0 =
     (let mc = jget J input_config ''ModelConfig'';
          step1 =
            (if jempty J mc then Some tf0
             else case parse_sample_interval J mc tf0 of
               None \<Rightarrow> None
             | Some tf1 \<Rightarrow>
                 (case parse_max_sample_interval J mc tf1 of
                    None \<Rightarrow> None
                  | Some tf2 \<Rightarrow>
                      if \<not> jempty J (jget J mc ''prev_samples_order'')
                         \<and> jasUInt J (jget J mc ''prev_samples_order'') \<noteq> int (cm_prev_samples_order cm)
                      then None else Some tf2))
      in case step1 of
           None \<Rightarrow> None
         | Some tf \<Rightarrow>
             let input_data = jget J input_config ''InputData''
             in if jempty J input_data then Some tf
                else if jsize J input_data \<noteq> cm_num_linked_sensors cm then None
                else (case parse_input_ranges J (jlist J input_data) of
                        None \<Rightarrow> None
                      | Some rs \<Rightarrow> Some (tf\<lparr>tf_input_range := rs\<rparr>)))"

text \<open>
  The model library: whether all its entry points were found, whether a wrapper could be created,
  the result of initializing it on a file, its JSON configuration if it could be read and parsed,
  and the model itself, which fills the output buffer or fails.
\<close>

record 'j tflite_wrapper =
  wr_linked :: bool
  wr_created :: bool
  wr_init_failed :: "string \<Rightarrow> bool"
  wr_input_config :: "'j option"
  wr_invoke :: "flt list \<Rightarrow> nat \<Rightarrow> bool \<times> flt list"

definition TFliteInitialize ::
    "'j json_ops \<Rightarrow> 'j tflite_wrapper \<Rightarrow> MLModelInitData \<Rightarrow> VirtualTempEstimator
      \<Rightarrow> VtEstimatorStatus \<times> VirtualTempEstimator"
where
  "TFliteInitialize J wr d vt =
     (case vt_tflite vt of
        None \<Rightarrow> (kVtEstimatorInitFailed, vt)
      | Some tf0 \<Rightarrow>
          let n = cm_num_linked_sensors (vt_common vt); order = ml_prev_samples_order d
          in if ml_model_path d = [] then (kVtEstimatorInvalidArgs, vt)
             else if n = 0 \<or> order < 1 \<or> (\<not> ml_use_prev_samples d \<and> 1 < order)
             then (kVtEstimatorInitFailed, vt)
             else
               let cm1 = (vt_common vt)\<lparr> cm_use_prev_samples := ml_use_prev_samples d,
                           cm_prev_samples_order := order \<rparr>;
                   size = n * order;
                   tf1 = tf0\<lparr> tf_support_under_sampling := ml_support_under_sampling d,
                     tf_enable_input_validation := ml_enable_input_validation d,
                     tf_input_buffer_size := size, tf_input_buffer := replicate size None,
                     tf_scratch_buffer := (if ml_use_prev_samples d then replicate size None
                                           else tf_scratch_buffer tf0) \<rparr>;
                   vt1 = vt\<lparr>vt_common := cm1, vt_tflite := Some tf1\<rparr>
               in if ml_output_label_count d < 1 \<or> ml_num_hot_spots d < 1
                  then (kVtEstimatorInitFailed, vt1)
                  else
                    let osize = ml_output_label_count d * ml_num_hot_spots d;
                        tf2 = tf1\<lparr> tf_output_label_count := ml_output_label_count d,
                          tf_num_hot_spots := ml_num_hot_spots d, tf_output_buffer_size := osize,
                          tf_output_buffer := replicate osize None \<rparr>;
                        vt2 = vt1\<lparr>vt_tflite := Some tf2\<rparr>
                    in if \<not> wr_linked wr \<or> \<not> wr_created wr \<or> wr_init_failed wr (ml_model_path d)
                       then (kVtEstimatorInitFailed, vt2)
                       else
                         (case wr_input_config wr of
                            None \<Rightarrow> (kVtEstimatorInitFailed, vt2)
                          | Some input_config \<Rightarrow>
                              (case ParseInputConfig J input_config cm1 tf2 of
                                 None \<Rightarrow> (kVtEstimatorInitFailed, vt2)
                               | Some tf3 \<Rightarrow>
                                   if tf_enable_input_validation tf3 \<and> tf_input_range tf3 = []
                                   then (kVtEstimatorInitFailed, vt2\<lparr>vt_tflite := Some tf3\<rparr>)
                                   else (kVtEstimatorOk, vt2\<lparr>
                                     vt_tflite := Some (tf3\<lparr>tf_model_path := ml_model_path d\<rparr>),
                                     vt_common := cm1\<lparr>
                                       cm_offset_thresholds := ml_offset_thresholds d,
                                       cm_offset_values := ml_offset_values d,
                                       cm_is_initialized := True \<rparr>\<rparr>))))"

text \<open>
  \<open>union VtEstimationInitData\<close>: its constructor writes the member of the estimator's type, and
  \<open>Initialize\<close> reads that member.
\<close>

datatype VtEstimationInitData = ml_model_init_data MLModelInitData | linear_model_init_data LinearModelInitData

definition default_init_data :: "VtEstimationType \<Rightarrow> VtEstimationInitData option" where
  "default_init_data ty =
     (case ty of
        kUseMLModel \<Rightarrow> Some (ml_model_init_data
          \<lparr> ml_model_path = [], ml_use_prev_samples = False, ml_prev_samples_order = 1,
            ml_output_label_count = 1, ml_num_hot_spots = 1, ml_enable_input_validation = False,
            ml_offset_thresholds = [], ml_offset_values = [], ml_support_under_sampling = False \<rparr>)
      | kUseLinearModel \<Rightarrow> Some (linear_model_init_data
          \<lparr> li_use_prev_samples = False, li_prev_samples_order = 1, li_coefficients = [],
            li_offset_thresholds = [], li_offset_values = [] \<rparr>)
      | kInvalidEstimationType \<Rightarrow> None)"

definition Initialize ::
    "'j json_ops \<Rightarrow> 'j tflite_wrapper \<Rightarrow> VtEstimationInitData \<Rightarrow> VirtualTempEstimator
      \<Rightarrow> (VtEstimatorStatus \<times> VirtualTempEstimator) result"
where
  "Initialize J wr data vt =
     (case (vt_type vt, data) of
        (kUseMLModel, ml_model_init_data d) \<Rightarrow> Inr (TFliteInitialize J wr d vt)
      | (kUseLinearModel, linear_model_init_data d) \<Rightarrow> Inr (LinearModelInitialize d vt)
      | (kInvalidEstimationType, _) \<Rightarrow> Inr (kVtEstimatorUnSupported, vt)
      | _ \<Rightarrow> Inl UB)"

section \<open>The offset of an estimate\<close>

text \<open>The loop of \<open>CalculateOffset\<close> runs from the last threshold to the first.\<close>

fun offset_loop :: "flt list \<Rightarrow> flt list \<Rightarrow> flt \<Rightarrow> nat \<Rightarrow> flt result" where
  "offset_loop ths vals v 0 = Inr (Fin 0)"
| "offset_loop ths vals v (Suc i) =
     bindE (vec_at ths (int i)) (\<lambda>t.
     if flt_lt t v then vec_at vals (int i) else offset_loop ths vals v i)"

definition CalculateOffset :: "flt list \<Rightarrow> flt list \<Rightarrow> flt \<Rightarrow> flt result" where
  "CalculateOffset offset_thresholds offset_values v =
     offset_loop offset_thresholds offset_values v (length offset_thresholds)"

definition add_offset :: "VtEstimatorCommonData \<Rightarrow> flt \<Rightarrow> flt result" where
  "add_offset cm v =
     bindE (CalculateOffset (cm_offset_thresholds cm) (cm_offset_values cm) v) (\<lambda>o'. Inr (fadd v o'))"

section \<open>The linear model\<close>

text \<open>One order of the weighted sum: the coefficients of level \<open>i\<close> against one stored sample.\<close>

fun weighted_row :: "flt list \<Rightarrow> flt list \<Rightarrow> nat \<Rightarrow> nat \<Rightarrow> flt \<Rightarrow> flt result" where
  "weighted_row cs xs j 0 acc = Inr acc"
| "weighted_row cs xs j (Suc k) acc =
     bindE (vec_at cs (int j)) (\<lambda>c.
     bindE (vec_at xs (int j)) (\<lambda>x.
     weighted_row cs xs (Suc j) k (fadd acc (fmul c x))))"

text \<open>The orders \<open>i, i + 1, \<dots>\<close>, walking back through the samples from \<open>input_level\<close>.\<close>

fun weighted_sum :: "flt list list \<Rightarrow> flt list list \<Rightarrow> nat \<Rightarrow> nat \<Rightarrow> int \<Rightarrow> nat \<Rightarrow> nat \<Rightarrow> flt \<Rightarrow> flt result" where
  "weighted_sum cs samples n order input_level i 0 acc = Inr acc"
| "weighted_sum cs samples n order input_level i (Suc k) acc =
     bindE (vec_at cs (int i)) (\<lambda>row.
     bindE (vec_at samples input_level) (\<lambda>sample.
     bindE (weighted_row row sample 0 n acc) (\<lambda>acc'.
     let level = input_level - 1
     in weighted_sum cs samples n order (if 0 \<le> level then level else int order - 1) (Suc i) k acc')))"

fun fill_samples :: "flt list \<Rightarrow> nat \<Rightarrow> nat \<Rightarrow> flt list list \<Rightarrow> flt list list result" where
  "fill_samples v i 0 samples = Inr samples"
| "fill_samples v i (Suc k) samples =
     bindE (vec_set samples (int i) v) (fill_samples v (Suc i) k)"

definition LinearModelEstimate ::
    "flt list \<Rightarrow> VirtualTempEstimator \<Rightarrow> (VtEstimatorStatus \<times> flt list option \<times> VirtualTempEstimator) result"
where
  "LinearModelEstimate thermistors vt =
     (case vt_linear vt of
        None \<Rightarrow> Inr (kVtEstimatorInitFailed, None, vt)
      | Some ln \<Rightarrow>
          let cm = vt_common vt; order = cm_prev_samples_order cm; n = cm_num_linked_sensors cm
          in if length thermistors \<noteq> n then Inr (kVtEstimatorInvalidArgs, None, vt)
             else if \<not> cm_is_initialized cm then Inr (kVtEstimatorInitFailed, None, vt)
             else
               bindE (if cm_cur_sample_count cm = 0
                      then fill_samples thermistors 0 order (ln_input_samples ln)
                      else Inr (ln_input_samples ln)) (\<lambda>samples0.
               let cur = cm_cur_sample_count cm mod order
               in
               bindE (vec_set samples0 (int cur) thermistors) (\<lambda>samples.
               bindE (weighted_sum (ln_coefficients ln) samples n order (int cur) 0 order (Fin 0)) (\<lambda>v.
               let vt' = vt\<lparr>vt_common := cm\<lparr>cm_cur_sample_count := cm_cur_sample_count cm + 1\<rparr>,
                           vt_linear := Some (ln\<lparr>ln_input_samples := samples\<rparr>)\<rparr>
               in
               bindE (add_offset cm v) (\<lambda>v'.
               Inr (kVtEstimatorOk, Some [v'], vt'))))))"

end
