(* ===== verification/VtTflite.thy ===== *)
theory VtTflite
  imports VtEstimator
begin

text \<open>
  The TensorFlow Lite half of \<open>class VirtualTempEstimator\<close>: the buffer of the last samples, the
  order in which they are handed to the model, the outputs, and the prediction at a later time. The
  clock is read by the callers of these definitions: \<open>now1\<close>, \<open>now2\<close>, \<dots> are successive readings.
\<close>

section \<open>Estimation\<close>

text \<open>Reading an element of a \<open>float[]\<close>; one that was never written is indeterminate.\<close>

definition read_array :: "flt option list \<Rightarrow> nat \<Rightarrow> flt result" where
  "read_array a i =
     bindE (vec_at a (int i)) (\<lambda>x. case x of None \<Rightarrow> Inl UB | Some v \<Rightarrow> Inr v)"

fun read_from :: "flt option list \<Rightarrow> nat \<Rightarrow> nat \<Rightarrow> flt list result" where
  "read_from a i 0 = Inr []"
| "read_from a i (Suc k) =
     bindE (read_array a i) (\<lambda>v. bindE (read_from a (Suc i) k) (\<lambda>vs. Inr (v # vs)))"

text \<open>The copies of sensor \<open>i\<close> into the slots of the older samples.\<close>

fun fill_older :: "flt \<Rightarrow> nat \<Rightarrow> nat \<Rightarrow> nat \<Rightarrow> nat \<Rightarrow> flt option list \<Rightarrow> flt option list result" where
  "fill_older v n i j 0 buf = Inr buf"
| "fill_older v n i j (Suc k) buf =
     bindE (vec_set buf (int (j * n + i)) (Some v)) (fill_older v n i (Suc j) k)"

text \<open>
  The loop over the sensors from \<open>i\<close> on. With validation, a reading out of its range ends the
  estimate with low confidence.
\<close>

fun copy_inputs ::
    "VtEstimatorTFLiteData \<Rightarrow> nat \<Rightarrow> nat \<Rightarrow> nat \<Rightarrow> flt list \<Rightarrow> nat \<Rightarrow> flt option list
      \<Rightarrow> (bool \<times> flt option list) result"
where
  "copy_inputs tf n order cur [] i buf = Inr (True, buf)"
| "copy_inputs tf n order cur (t # ts) i buf =
     bindE (if tf_enable_input_validation tf
            then bindE (vec_at (tf_input_range tf) (int i)) (\<lambda>r.
                 Inr (flt_lt t (ir_min_threshold r) \<or> flt_lt (ir_max_threshold r) t))
            else Inr False) (\<lambda>bad.
     if bad then Inr (False, buf)
     else
       bindE (vec_set buf (int (cur * n + i)) (Some t)) (\<lambda>buf1.
       bindE (if cur = 0 \<and> tf_support_under_sampling tf
              then fill_older t n i 1 (order - 1) buf1 else Inr buf1) (\<lambda>buf2.
       copy_inputs tf n order cur ts (Suc i) buf2)))"

text \<open>The samples from the oldest to the newest: \<open>scratch[i] = input[(start + i) % size]\<close>.\<close>

fun reorder :: "flt option list \<Rightarrow> nat \<Rightarrow> nat \<Rightarrow> nat \<Rightarrow> nat \<Rightarrow> flt list result" where
  "reorder buf start bsize i 0 = Inr []"
| "reorder buf start bsize i (Suc k) =
     bindE (read_array buf ((start + i) mod bsize)) (\<lambda>v.
     bindE (reorder buf start bsize (Suc i) k) (\<lambda>vs. Inr (v # vs)))"

fun add_offsets :: "VtEstimatorCommonData \<Rightarrow> flt list \<Rightarrow> flt list result" where
  "add_offsets cm [] = Inr []"
| "add_offsets cm (v # vs) =
     bindE (add_offset cm v) (\<lambda>v'. bindE (add_offsets cm vs) (\<lambda>vs'. Inr (v' # vs')))"

definition set_tflite :: "VtEstimatorCommonData \<Rightarrow> VtEstimatorTFLiteData \<Rightarrow> VirtualTempEstimator \<Rightarrow> VirtualTempEstimator" where
  "set_tflite cm tf vt = vt\<lparr>vt_common := cm, vt_tflite := Some tf\<rparr>"

text \<open>The input handed to the model: the input buffer itself, or the samples in order.\<close>

definition model_input ::
    "nat \<Rightarrow> VtEstimatorCommonData \<Rightarrow> VtEstimatorTFLiteData \<Rightarrow> (flt list \<times> VtEstimatorTFLiteData) result"
where
  "model_input cur cm tf =
     (let n = cm_num_linked_sensors cm; bsize = tf_input_buffer_size tf
      in if cm_use_prev_samples cm
         then bindE (reorder (tf_input_buffer tf) (((cur + 1) * n) mod bsize) bsize 0 bsize) (\<lambda>inp.
              Inr (inp, tf\<lparr>tf_scratch_buffer := map Some inp\<rparr>))
         else bindE (read_from (tf_input_buffer tf) 0 bsize) (\<lambda>inp. Inr (inp, tf)))"

text \<open>Running the model and reading its output.\<close>

definition invoke_model ::
    "'j tflite_wrapper \<Rightarrow> int \<Rightarrow> flt list \<Rightarrow> VtEstimatorCommonData \<Rightarrow> VtEstimatorTFLiteData \<Rightarrow> VirtualTempEstimator
      \<Rightarrow> (VtEstimatorStatus \<times> flt list option \<times> VirtualTempEstimator) result"
where
  "invoke_model wr now3 inp cm tf vt =
     (let osize = tf_output_buffer_size tf;
          r = wr_invoke wr inp osize; tf2 = tf\<lparr>tf_output_buffer := map Some (snd r)\<rparr>
      in if fst r then Inr (kVtEstimatorInvokeFailed, None, set_tflite cm tf2 vt)
         else
           bindE (read_from (tf_output_buffer tf2) 0 osize) (\<lambda>out.
           bindE (add_offsets cm out) (\<lambda>data.
           Inr (kVtEstimatorOk, Some data, set_tflite cm (tf2\<lparr>tf_last_update_time := now3\<rparr>) vt))))"

definition TFliteEstimate ::
    "'j tflite_wrapper \<Rightarrow> int \<Rightarrow> int \<Rightarrow> int \<Rightarrow> flt list \<Rightarrow> VirtualTempEstimator
      \<Rightarrow> (VtEstimatorStatus \<times> flt list option \<times> VirtualTempEstimator) result"
where
  "TFliteEstimate wr now1 now2 now3 thermistors vt =
     (case vt_tflite vt of
        None \<Rightarrow> Inr (kVtEstimatorInitFailed, None, vt)
      | Some tf \<Rightarrow>
          let cm = vt_common vt; n = cm_num_linked_sensors cm; order = cm_prev_samples_order cm
          in if \<not> cm_is_initialized cm then Inr (kVtEstimatorInitFailed, None, vt)
             else if length thermistors \<noteq> n then Inr (kVtEstimatorInvalidArgs, None, vt)
             else
               let cm1 = (if tf_max_sample_interval tf \<le> since_ms now1 (tf_prev_sample_time tf)
                          then cm\<lparr>cm_cur_sample_count := 0\<rparr> else cm);
                   cur = cm_cur_sample_count cm1 mod order
               in
               bindE (copy_inputs tf n order cur thermistors 0 (tf_input_buffer tf)) (\<lambda>(ok, buf).
               let tf1 = tf\<lparr>tf_input_buffer := buf\<rparr>
               in if \<not> ok
                  then Inr (kVtEstimatorLowConfidence, None,
                            set_tflite (cm1\<lparr>cm_cur_sample_count := 0\<rparr>) tf1 vt)
                  else
                    let cm2 = cm1\<lparr>cm_cur_sample_count := cm_cur_sample_count cm1 + 1\<rparr>;
                        tf2 = tf1\<lparr>tf_prev_sample_time := now2\<rparr>
                    in if cm_cur_sample_count cm2 < order \<and> \<not> tf_support_under_sampling tf2
                       then Inr (kVtEstimatorUnderSampling, None, set_tflite cm2 tf2 vt)
                       else bindE (model_input cur cm2 tf2) (\<lambda>(inp, tf3).
                            invoke_model wr now3 inp cm2 tf3 vt)))"

definition Estimate ::
    "'j tflite_wrapper \<Rightarrow> int \<Rightarrow> int \<Rightarrow> int \<Rightarrow> flt list \<Rightarrow> VirtualTempEstimator
      \<Rightarrow> (VtEstimatorStatus \<times> flt list option \<times> VirtualTempEstimator) result"
where
  "Estimate wr now1 now2 now3 thermistors vt =
     (case vt_type vt of
        kUseMLModel \<Rightarrow> TFliteEstimate wr now1 now2 now3 thermistors vt
      | kUseLinearModel \<Rightarrow> LinearModelEstimate thermistors vt
      | _ \<Rightarrow> Inr (kVtEstimatorUnSupported, None, vt))"

section \<open>Predictions\<close>

definition TFliteGetMaxPredictWindowMs :: "VirtualTempEstimator \<Rightarrow> VtEstimatorStatus \<times> nat option" where
  "TFliteGetMaxPredictWindowMs vt =
     (case vt_tflite vt of
        None \<Rightarrow> (kVtEstimatorInitFailed, None)
      | Some tf \<Rightarrow>
          if \<not> cm_is_initialized (vt_common vt) then (kVtEstimatorInitFailed, None)
          else if tf_predict_window_ms tf = 0 then (kVtEstimatorUnSupported, None)
          else (kVtEstimatorOk, Some (tf_predict_window_ms tf)))"

definition GetMaxPredictWindowMs :: "VirtualTempEstimator \<Rightarrow> VtEstimatorStatus \<times> nat option" where
  "GetMaxPredictWindowMs vt =
     (if vt_type vt = kUseMLModel then TFliteGetMaxPredictWindowMs vt else (kVtEstimatorUnSupported, None))"

text \<open>
  \<open>request\<close> is the time since the last update plus \<open>time_ms\<close>, a signed 64-bit count that the
  comparison with the window reads as unsigned.
\<close>

definition TFlitePredictAfterTimeMs ::
    "int \<Rightarrow> nat \<Rightarrow> VirtualTempEstimator \<Rightarrow> (VtEstimatorStatus \<times> flt option) result"
where
  "TFlitePredictAfterTimeMs now time_ms vt =
     (case vt_tflite vt of
        None \<Rightarrow> Inr (kVtEstimatorInitFailed, None)
      | Some tf \<Rightarrow>
          let cm = vt_common vt; window = tf_predict_window_ms tf; interval = tf_sample_interval tf;
              request = wrap64 (since_ms now (tf_last_update_time tf) + int time_ms)
          in if \<not> cm_is_initialized cm then Inr (kVtEstimatorInitFailed, None)
             else if cm_cur_sample_count cm < cm_prev_samples_order cm \<and> \<not> tf_support_under_sampling tf
             then Inr (kVtEstimatorUnderSampling, None)
             else if interval = 0 \<or> window = 0 \<or> int window < request mod 2 ^ 64
             then Inr (kVtEstimatorUnSupported, None)
             else
               let step = nat (request div interval); count = tf_output_label_count tf
               in if step = count - 1
                  then bindE (read_array (tf_output_buffer tf) (count - 1)) (\<lambda>v.
                       Inr (kVtEstimatorOk, Some v))
                  else
                    bindE (read_array (tf_output_buffer tf) step) (\<lambda>left.
                    bindE (read_array (tf_output_buffer tf) (step + 1)) (\<lambda>right.
                    Inr (kVtEstimatorOk, Some
                      (if \<not> flt_eq left right
                       then fadd left (fdiv (fmul (of_int_f (request - interval * int step))
                                               (fsub right left)) (of_int_f interval))
                       else left)))))"

definition PredictAfterTimeMs ::
    "int \<Rightarrow> nat \<Rightarrow> VirtualTempEstimator \<Rightarrow> (VtEstimatorStatus \<times> flt option) result"
where
  "PredictAfterTimeMs now time_ms vt =
     (if vt_type vt = kUseMLModel then TFlitePredictAfterTimeMs now time_ms vt
      else Inr (kVtEstimatorUnSupported, None))"

definition TFliteGetAllPredictions ::
    "VirtualTempEstimator \<Rightarrow> (VtEstimatorStatus \<times> flt list option) result"
where
  "TFliteGetAllPredictions vt =
     (case vt_tflite vt of
        None \<Rightarrow> Inr (kVtEstimatorInitFailed, None)
      | Some tf \<Rightarrow>
          if \<not> cm_is_initialized (vt_common vt) then Inr (kVtEstimatorInitFailed, None)
          else bindE (read_from (tf_output_buffer tf) 0 (tf_output_buffer_size tf)) (\<lambda>out.
               Inr (kVtEstimatorOk, Some out)))"

definition GetAllPredictions :: "VirtualTempEstimator \<Rightarrow> (VtEstimatorStatus \<times> flt list option) result" where
  "GetAllPredictions vt =
     (if vt_type vt = kUseMLModel then TFliteGetAllPredictions vt
      else Inr (kVtEstimatorUnSupported, None))"

text \<open>The values \<open>DumpStatus\<close> prints.\<close>

definition TFLiteDumpStatus :: "VirtualTempEstimator \<Rightarrow> (VtEstimatorStatus \<times> flt list) result" where
  "TFLiteDumpStatus vt =
     (if \<not> cm_is_initialized (vt_common vt) then Inr (kVtEstimatorInitFailed, [])
      else case vt_tflite vt of
        None \<Rightarrow> Inl UB
      | Some tf \<Rightarrow>
          bindE (read_from (tf_output_buffer tf) 0 (tf_output_buffer_size tf)) (\<lambda>out.
          bindE (add_offsets (vt_common vt) out) (\<lambda>vals. Inr (kVtEstimatorOk, vals))))"

definition DumpStatus :: "VirtualTempEstimator \<Rightarrow> (VtEstimatorStatus \<times> flt list) result" where
  "DumpStatus vt = (if vt_type vt = kUseMLModel then TFLiteDumpStatus vt else Inr (kVtEstimatorUnSupported, []))"

end
