(* ===== verification/VtProps.thy ===== *)
theory VtProps
  imports VtTflite
begin

text \<open>
  What the virtual temperature estimators do with their sample buffers: the model is given the last
  samples from the oldest to the newest, in whatever order the ring holds them; and where the
  buffers are used wrongly.
\<close>

section \<open>The linear model\<close>

text \<open>
  The first estimate of a linear model is undefined behaviour: after a successful
  initialization the vector of samples is empty (its memory is only reserved), and the first
  estimate assigns to its elements.
\<close>

theorem linear_first_estimate_undefined:
  assumes "LinearModelInitialize d (new_estimator name kUseLinearModel n) = (kVtEstimatorOk, vt)"
    and "length thermistors = n"
  shows "LinearModelEstimate thermistors vt = Inl UB"
proof -
  have order: "li_prev_samples_order d \<noteq> 0"
    and vt: "cm_prev_samples_order (vt_common vt) = li_prev_samples_order d"
      "cm_num_linked_sensors (vt_common vt) = n" "cm_is_initialized (vt_common vt)"
      "cm_cur_sample_count (vt_common vt) = 0" "\<exists>cs. vt_linear vt = Some \<lparr>ln_input_samples = [], ln_coefficients = cs\<rparr>"
    using assms(1)
    by (auto simp: LinearModelInitialize_def new_estimator_def fresh_common_def Let_def split: if_splits)
  obtain k where "li_prev_samples_order d = Suc k" using order by (cases "li_prev_samples_order d") auto
  then show ?thesis using vt assms(2) by (auto simp: LinearModelEstimate_def vec_set_def Let_def)
qed

theorem linear_first_estimate_undefined_witness:
  "LinearModelEstimate [of_int_f 40, of_int_f 30] (snd (LinearModelInitialize
     \<lparr> li_use_prev_samples = True, li_prev_samples_order = 2, li_coefficients = replicate 4 (of_int_f 1),
       li_offset_thresholds = [], li_offset_values = [] \<rparr> (new_estimator ''skin'' kUseLinearModel 2))) = Inl UB"
proof -
  let ?d = "\<lparr> li_use_prev_samples = True, li_prev_samples_order = 2, li_coefficients = replicate 4 (of_int_f 1),
       li_offset_thresholds = [], li_offset_values = [] \<rparr>"
  have "fst (LinearModelInitialize ?d (new_estimator ''skin'' kUseLinearModel 2)) = kVtEstimatorOk"
    by (simp add: LinearModelInitialize_def new_estimator_def fresh_common_def)
  then show ?thesis
    by (intro linear_first_estimate_undefined [where n = 2 and name = "''skin''"]) (simp_all add: prod_eq_iff)
qed

section \<open>The sample buffer of the TensorFlow model\<close>

definition input_ok :: "VtEstimatorTFLiteData \<Rightarrow> nat \<Rightarrow> flt list \<Rightarrow> bool" where
  "input_ok tf i ts \<longleftrightarrow> tf_enable_input_validation tf \<longrightarrow>
     (\<forall>k < length ts. i + k < length (tf_input_range tf)
        \<and> \<not> flt_lt (ts ! k) (ir_min_threshold (tf_input_range tf ! (i + k)))
        \<and> \<not> flt_lt (ir_max_threshold (tf_input_range tf ! (i + k))) (ts ! k))"

lemma input_ok_Cons:
  assumes "input_ok tf i (t # ts)"
  shows "input_ok tf (Suc i) ts"
    and "tf_enable_input_validation tf \<Longrightarrow> i < length (tf_input_range tf)
        \<and> \<not> flt_lt t (ir_min_threshold (tf_input_range tf ! i)) \<and> \<not> flt_lt (ir_max_threshold (tf_input_range tf ! i)) t"
proof -
  have "i + k < length (tf_input_range tf)
        \<and> \<not> flt_lt ((t # ts) ! k) (ir_min_threshold (tf_input_range tf ! (i + k)))
        \<and> \<not> flt_lt (ir_max_threshold (tf_input_range tf ! (i + k))) ((t # ts) ! k)"
    if "tf_enable_input_validation tf" "k < Suc (length ts)" for k
    using assms that by (simp add: input_ok_def)
  from this [of 0] this [of "Suc _"] show "input_ok tf (Suc i) ts"
    and "tf_enable_input_validation tf \<Longrightarrow> i < length (tf_input_range tf)
        \<and> \<not> flt_lt t (ir_min_threshold (tf_input_range tf ! i)) \<and> \<not> flt_lt (ir_max_threshold (tf_input_range tf ! i)) t"
    by (auto simp: input_ok_def)
qed

lemma slot_lt: "b < order \<Longrightarrow> j < n \<Longrightarrow> b * n + j < n * order" for n :: nat
proof -
  assume "b < order" and "j < n"
  then have "b * n + j < Suc b * n" by simp
  also have "\<dots> \<le> order * n" using \<open>b < order\<close> by (intro mult_le_mono1) simp
  finally show ?thesis by (simp add: mult.commute)
qed

lemma slot_eq: "j < n \<Longrightarrow> j' < n \<Longrightarrow> b * n + j = b' * n + j' \<longleftrightarrow> b = b' \<and> j = j'" for n :: nat
  by (metis add.commute add_left_cancel div_mult_self_is_m div_mult_self3 div_less mod_less mod_mult_self3
      add_0 less_nat_zero_code not_gr_zero add_cancel_right_left)

lemma fill_older_spec:
  assumes "j + k \<le> order" and "i < n" and "length buf = n * order"
  shows "\<exists>buf'. fill_older v n i j k buf = Inr buf' \<and> length buf' = n * order
    \<and> (\<forall>b < order. \<forall>j' < n. buf' ! (b * n + j') =
         (if j \<le> b \<and> b < j + k \<and> j' = i then Some v else buf ! (b * n + j')))"
  using assms
proof (induction k arbitrary: j buf)
  case (Suc k)
  let ?p = "j * n + i"
  have p: "?p < length buf" using slot_lt [of j order i n] Suc.prems by simp
  let ?b1 = "buf[?p := Some v]"
  have "\<exists>buf'. fill_older v n i (Suc j) k ?b1 = Inr buf' \<and> length buf' = n * order
    \<and> (\<forall>b < order. \<forall>j' < n. buf' ! (b * n + j') =
         (if Suc j \<le> b \<and> b < Suc j + k \<and> j' = i then Some v else ?b1 ! (b * n + j')))"
    using Suc.prems by (intro Suc.IH) auto
  then obtain buf' where buf': "fill_older v n i (Suc j) k ?b1 = Inr buf'" "length buf' = n * order"
    "\<And>b j'. b < order \<Longrightarrow> j' < n \<Longrightarrow> buf' ! (b * n + j') =
         (if Suc j \<le> b \<and> b < Suc j + k \<and> j' = i then Some v else ?b1 ! (b * n + j'))" by blast
  have "vec_set buf (int ?p) (Some v) = Inr ?b1"
    using p by (simp only: vec_set_def of_nat_0_le_iff of_nat_less_iff nat_int simp_thms if_True)
  then have "fill_older v n i j (Suc k) buf = Inr buf'" using buf'(1) by (simp del: of_nat_add of_nat_mult)
  moreover have "buf' ! (b * n + j') = (if j \<le> b \<and> b < j + Suc k \<and> j' = i then Some v else buf ! (b * n + j'))"
    if "b < order" "j' < n" for b j'
  proof (cases "b = j \<and> j' = i")
    case True
    then show ?thesis using buf'(3) [OF that] p by simp
  next
    case False
    then have "b * n + j' \<noteq> ?p" using slot_eq [OF that(2) Suc.prems(2)] by auto
    then show ?thesis using buf'(3) [OF that] False by auto
  qed
  ultimately show ?case using buf'(2) by blast
qed auto

text \<open>Sensor \<open>i\<close> goes to the slot of the current sample, or to all slots.\<close>

definition fills_all :: "VtEstimatorTFLiteData \<Rightarrow> nat \<Rightarrow> bool" where
  "fills_all tf cur \<longleftrightarrow> cur = 0 \<and> tf_support_under_sampling tf"

lemma copy_one_spec:
  assumes "cur < order" and i: "i < n" and "length buf = n * order"
  shows "\<exists>b2. bindE (vec_set buf (int (cur * n + i)) (Some t)) (\<lambda>b1.
        if fills_all tf cur then fill_older t n i 1 (order - 1) b1 else Inr b1) = Inr b2
    \<and> length b2 = n * order
    \<and> (\<forall>b < order. \<forall>j < n. b2 ! (b * n + j) =
         (if (b = cur \<or> fills_all tf cur) \<and> j = i then Some t else buf ! (b * n + j)))"
proof -
  let ?p = "cur * n + i"
  have p: "?p < length buf" using slot_lt [OF assms(1) i] assms(3) by simp
  let ?b1 = "buf[?p := Some t]"
  have set: "vec_set buf (int ?p) (Some t) = Inr ?b1"
    using p by (simp only: vec_set_def of_nat_0_le_iff of_nat_less_iff nat_int simp_thms if_True)
  have b1: "?b1 ! (b * n + j) = (if b = cur \<and> j = i then Some t else buf ! (b * n + j))" if "j < n" for b j
  proof (cases "b = cur \<and> j = i")
    case True
    then show ?thesis using p by simp
  next
    case False
    then have "?p \<noteq> b * n + j" using slot_eq [OF i that] by auto
    then show ?thesis using False by auto
  qed
  show ?thesis
  proof (cases "fills_all tf cur")
    case True
    obtain b2 where "fill_older t n i 1 (order - 1) ?b1 = Inr b2" "length b2 = n * order"
      "\<forall>b < order. \<forall>j < n. b2 ! (b * n + j) = (if 1 \<le> b \<and> b < 1 + (order - 1) \<and> j = i then Some t else ?b1 ! (b * n + j))"
      using fill_older_spec [of 1 "order - 1" order i n ?b1 t] assms by auto
    moreover have "cur = 0" using True by (simp add: fills_all_def)
    ultimately show ?thesis using set True b1 assms(1) by (auto simp del: of_nat_add of_nat_mult)
  next
    case False
    then show ?thesis using set b1 assms(3) by (simp del: of_nat_add of_nat_mult)
  qed
qed

lemma copy_inputs_spec:
  assumes "cur < order" and "i + length ts = n" and "length buf = n * order" and "input_ok tf i ts"
  shows "\<exists>buf'. copy_inputs tf n order cur ts i buf = Inr (True, buf') \<and> length buf' = n * order
    \<and> (\<forall>b < order. \<forall>j < n. buf' ! (b * n + j) =
         (if (b = cur \<or> fills_all tf cur) \<and> i \<le> j then Some (ts ! (j - i)) else buf ! (b * n + j)))"
  using assms
proof (induction ts arbitrary: i buf)
  case (Cons t ts)
  have i: "i < n" using Cons.prems(2) by simp
  obtain b2 where b2': "bindE (vec_set buf (int (cur * n + i)) (Some t)) (\<lambda>b1.
        if fills_all tf cur then fill_older t n i 1 (order - 1) b1 else Inr b1) = Inr b2" "length b2 = n * order"
    "\<forall>b < order. \<forall>j < n. b2 ! (b * n + j) =
         (if (b = cur \<or> fills_all tf cur) \<and> j = i then Some t else buf ! (b * n + j))"
    using copy_one_spec [OF Cons.prems(1) i Cons.prems(3), of t tf] by (elim exE conjE)
  note b2 = b2'(1,2) b2'(3) [rule_format]
  have "\<exists>buf'. copy_inputs tf n order cur ts (Suc i) b2 = Inr (True, buf') \<and> length buf' = n * order
    \<and> (\<forall>b < order. \<forall>j < n. buf' ! (b * n + j) =
         (if (b = cur \<or> fills_all tf cur) \<and> Suc i \<le> j then Some (ts ! (j - Suc i)) else b2 ! (b * n + j)))"
    using Cons.prems b2(2) input_ok_Cons(1) by (intro Cons.IH) auto
  then obtain buf' where buf': "copy_inputs tf n order cur ts (Suc i) b2 = Inr (True, buf')" "length buf' = n * order"
    "\<And>b j. b < order \<Longrightarrow> j < n \<Longrightarrow> buf' ! (b * n + j) =
         (if (b = cur \<or> fills_all tf cur) \<and> Suc i \<le> j then Some (ts ! (j - Suc i)) else b2 ! (b * n + j))" by blast
  have "copy_inputs tf n order cur (t # ts) i buf =
      bindE (bindE (vec_set buf (int (cur * n + i)) (Some t)) (\<lambda>b1.
        if fills_all tf cur then fill_older t n i 1 (order - 1) b1 else Inr b1))
        (copy_inputs tf n order cur ts (Suc i))"
    using input_ok_Cons(2) [OF Cons.prems(4)]
    by (cases "tf_enable_input_validation tf") (auto simp: fills_all_def bindE_assoc simp del: of_nat_add of_nat_mult)
  then have "copy_inputs tf n order cur (t # ts) i buf = Inr (True, buf')" using b2(1) buf'(1) by simp
  moreover have "buf' ! (b * n + j) =
      (if (b = cur \<or> fills_all tf cur) \<and> i \<le> j then Some ((t # ts) ! (j - i)) else buf ! (b * n + j))"
    if "b < order" "j < n" for b j
    using buf'(3) [OF that] b2(3) [OF that] by (auto simp: nth_Cons' Suc_le_eq)
  ultimately show ?case using buf'(2) by blast
qed simp

lemma read_array_ok: "i < length a \<Longrightarrow> a ! i = Some v \<Longrightarrow> read_array a i = Inr v"
  by (simp add: read_array_def)

lemma reorder_spec:
  assumes "length buf = blen" and "0 < blen"
    and "\<And>j. i \<le> j \<Longrightarrow> j < i + k \<Longrightarrow> buf ! ((start + j) mod blen) = Some (f j)"
  shows "reorder buf start blen i k = Inr (map f [i..<i + k])"
  using assms
proof (induction k arbitrary: i)
  case (Suc k)
  have "read_array buf ((start + i) mod blen) = Inr (f i)"
    using Suc.prems by (intro read_array_ok) auto
  moreover have "reorder buf start blen (Suc i) k = Inr (map f [Suc i..<Suc i + k])"
    using Suc.prems by (intro Suc.IH) auto
  ultimately show ?case by (simp add: upt_conv_Cons del: upt_Suc)
qed simp


section \<open>The samples the model is given\<close>

text \<open>
  \<open>hist\<close> are the samples since the last reset, the newest first: the buffer holds the last
  \<open>order\<close> of them, sample number \<open>c\<close> in block \<open>c mod order\<close>.
\<close>

definition block_of :: "nat \<Rightarrow> flt list list \<Rightarrow> nat \<Rightarrow> nat" where
  "block_of order hist k = (length hist - 1 - k) mod order"

definition holds_history :: "VirtualTempEstimator \<Rightarrow> flt list list \<Rightarrow> bool" where
  "holds_history vt hist \<longleftrightarrow>
     (\<exists>tf. vt_tflite vt = Some tf
      \<and> (let cm = vt_common vt; n = cm_num_linked_sensors cm; order = cm_prev_samples_order cm
         in cm_is_initialized cm \<and> 0 < n \<and> 0 < order \<and> (cm_use_prev_samples cm \<or> order = 1)
          \<and> cm_cur_sample_count cm = length hist \<and> (\<forall>h \<in> set hist. length h = n)
          \<and> tf_input_buffer_size tf = n * order \<and> length (tf_input_buffer tf) = n * order
          \<and> (\<forall>k < min (length hist) order. \<forall>j < n.
               tf_input_buffer tf ! (block_of order hist k * n + j) = Some (hist ! k ! j))))"

lemma mod_shift_neq: "0 < d \<Longrightarrow> d < order \<Longrightarrow> d \<le> m \<Longrightarrow> (m - d) mod order \<noteq> m mod order" for m :: nat
proof
  assume "0 < d" "d < order" "d \<le> m" "(m - d) mod order = m mod order"
  then have "order dvd m - (m - d)" using mod_eq_dvd_iff_nat [of "m - d" m order] by simp
  then have "order dvd d" using \<open>d \<le> m\<close> by simp
  then show False using \<open>0 < d\<close> \<open>d < order\<close> by (simp add: nat_dvd_not_less)
qed

lemma block_of_push:
  assumes "k < min (length hist) order" and "Suc k < order"
  shows "block_of order (ts # hist) (Suc k) = block_of order hist k"
    and "block_of order (ts # hist) (Suc k) \<noteq> length hist mod order"
proof -
  show "block_of order (ts # hist) (Suc k) = block_of order hist k" by (simp add: block_of_def)
  show "block_of order (ts # hist) (Suc k) \<noteq> length hist mod order"
    using mod_shift_neq [of "Suc k" order "length hist"] assms by (simp add: block_of_def)
qed

lemma pushed_blocks:
  assumes old: "\<And>k j. k < min (length hist) order \<Longrightarrow> j < n \<Longrightarrow>
        buf ! (block_of order hist k * n + j) = Some (hist ! k ! j)"
    and new: "\<And>b j. b < order \<Longrightarrow> j < n \<Longrightarrow> buf' ! (b * n + j) =
        (if b = length hist mod order then Some (ts ! j) else buf ! (b * n + j))"
    and k: "k < min (length (ts # hist)) order" and j: "j < n"
  shows "buf' ! (block_of order (ts # hist) k * n + j) = Some ((ts # hist) ! k ! j)"
proof (cases k)
  case 0
  then show ?thesis using new [of "length hist mod order" j] k j by (simp add: block_of_def)
next
  case (Suc k')
  have k': "k' < min (length hist) order" "Suc k' < order" using k Suc by auto
  have "block_of order hist k' < order" using k' by (simp add: block_of_def)
  then show ?thesis using new [of "block_of order hist k'" j] old [OF k'(1) j] block_of_push [OF k', of ts] Suc j
    by simp
qed

lemma map_blocks:
  assumes "\<And>x. x \<in> set xs \<Longrightarrow> length x = n" and "0 < n"
  shows "map (\<lambda>j. xs ! (j div n) ! (j mod n)) [0..<n * length xs] = concat xs"
  using assms(1)
proof (induction xs rule: rev_induct)
  case (snoc x xs)
  have "[0..<n * length (xs @ [x])] = [0..<n * length xs] @ map (\<lambda>j. j + n * length xs) [0..<n]"
    using upt_add_eq_append [of 0 "n * length xs" n] by (simp add: map_add_upt add.commute [of n])
  moreover have "map (\<lambda>j. (xs @ [x]) ! (j div n) ! (j mod n)) [0..<n * length xs]
      = map (\<lambda>j. xs ! (j div n) ! (j mod n)) [0..<n * length xs]"
    using assms(2) by (simp add: nth_append less_mult_imp_div_less mult.commute)
  moreover have "map ((\<lambda>j. (xs @ [x]) ! (j div n) ! (j mod n)) \<circ> (\<lambda>j. j + n * length xs)) [0..<n] = x"
    using assms(2) snoc.prems [of x] by (intro nth_equalityI) (simp_all add: nth_append)
  ultimately show ?case using snoc by (simp add: o_def)
qed simp

text \<open>The position of reading \<open>i\<close> of the ordered samples in the ring.\<close>

lemma ring_position:
  fixes n order c :: nat
  assumes "0 < n" and "0 < order" and "i < n * order"
  shows "(((c mod order + 1) * n) mod (n * order) + i) mod (n * order)
       = ((c + 1 + i div n) mod order) * n + i mod n"
proof -
  have "(c mod order + 1) * n + i = (c mod order + 1) * n + (i div n * n + i mod n)" by simp
  also have "\<dots> = (c mod order + 1 + i div n) * n + i mod n" by (simp only: distrib_right add.assoc)
  finally have "((c mod order + 1) * n + i) mod (n * order) = ((c mod order + 1 + i div n) * n + i mod n) mod (n * order)"
    by (rule arg_cong)
  also have "\<dots> = n * ((c mod order + 1 + i div n) mod order) + i mod n"
    unfolding mod_mult2_eq using assms(1)
    by (simp only: div_mult_self3 mod_mult_self3 mod_mod_trivial mod_div_trivial add_0_right neq0_conv simp_thms)
  also have "(c mod order + 1 + i div n) mod order = (c + 1 + i div n) mod order"
    by (metis mod_add_left_eq)
  finally show ?thesis by (simp only: mod_add_left_eq mult.commute [of n "_ mod order"])
qed

lemma ordered_samples:
  assumes "length buf = n * order" and "0 < n" and "0 < order" and "order \<le> length hist"
    and "\<forall>h \<in> set hist. length h = n"
    and blocks: "\<And>k j. k < order \<Longrightarrow> j < n \<Longrightarrow> buf ! (block_of order hist k * n + j) = Some (hist ! k ! j)"
  shows "reorder buf ((((length hist - 1) mod order + 1) * n) mod (n * order)) (n * order) 0 (n * order)
       = Inr (concat (rev (take order hist)))"
proof -
  let ?xs = "rev (take order hist)"
  let ?f = "\<lambda>j. ?xs ! (j div n) ! (j mod n)"
  have "buf ! (((((length hist - 1) mod order + 1) * n) mod (n * order) + j) mod (n * order)) = Some (?f j)"
    if j: "j < n * order" for j
  proof -
    have q: "j div n < order" using j by (simp add: less_mult_imp_div_less mult.commute)
    let ?k = "order - 1 - j div n"
    have "length hist - 1 - ?k + order = length hist - 1 + 1 + j div n" using q assms(4) by simp
    then have "(length hist - 1 + 1 + j div n) mod order = block_of order hist ?k"
      unfolding block_of_def by (metis mod_add_self2)
    moreover have "?xs ! (j div n) = hist ! ?k" using q assms(4) by (simp add: rev_nth min_absorb2)
    ultimately show ?thesis
      using blocks [of ?k "j mod n"] q assms(2) ring_position [OF assms(2,3) j, of "length hist - 1"] by simp
  qed
  then have "reorder buf ((((length hist - 1) mod order + 1) * n) mod (n * order)) (n * order) 0 (n * order)
       = Inr (map ?f [0..<0 + n * order])"
    using assms(1-3) by (intro reorder_spec) auto
  moreover have "map ?f [0..<n * length ?xs] = concat ?xs"
    using assms(2,5) by (intro map_blocks) (auto dest: in_set_takeD)
  ultimately show ?thesis using assms(4) by (simp add: min_absorb2)
qed


lemma read_from_ok:
  assumes "\<And>j. i \<le> j \<Longrightarrow> j < i + k \<Longrightarrow> j < length a \<and> a ! j = Some (f j)"
  shows "read_from a i k = Inr (map f [i..<i + k])"
  using assms
proof (induction k arbitrary: i)
  case (Suc k)
  have "read_array a i = Inr (f i)" using Suc.prems [of i] by (intro read_array_ok) auto
  moreover have "read_from a (Suc i) k = Inr (map f [Suc i..<Suc i + k])"
    using Suc.prems by (intro Suc.IH) auto
  ultimately show ?case by (simp add: upt_conv_Cons del: upt_Suc)
qed simp

text \<open>The input handed to the model once enough samples are in.\<close>

lemma model_input_samples:
  assumes hist: "holds_history (set_tflite cm tf vt) hist" and "cm_prev_samples_order cm \<le> length hist"
  shows "\<exists>tf'. model_input ((length hist - 1) mod cm_prev_samples_order cm) cm tf
        = Inr (concat (rev (take (cm_prev_samples_order cm) hist)), tf')
      \<and> holds_history (set_tflite cm tf' vt) hist \<and> tf_prev_sample_time tf' = tf_prev_sample_time tf"
proof -
  let ?n = "cm_num_linked_sensors cm" and ?order = "cm_prev_samples_order cm"
  have h: "0 < ?n" "0 < ?order" "cm_use_prev_samples cm \<or> ?order = 1" "\<forall>h \<in> set hist. length h = ?n"
    "tf_input_buffer_size tf = ?n * ?order" "length (tf_input_buffer tf) = ?n * ?order"
    using hist by (auto simp: holds_history_def set_tflite_def Let_def)
  have blocks: "tf_input_buffer tf ! (block_of ?order hist k * ?n + j) = Some (hist ! k ! j)"
    if "k < ?order" "j < ?n" for k j
    using hist that assms(2) by (auto simp: holds_history_def set_tflite_def Let_def)
  show ?thesis
  proof (cases "cm_use_prev_samples cm")
    case True
    then show ?thesis
      using ordered_samples [OF h(6,1,2) assms(2) h(4) blocks] h hist
      by (simp add: model_input_def Let_def holds_history_def set_tflite_def)
  next
    case False
    then have o1: "?order = 1" using h(3) by simp
    obtain x xs where x: "hist = x # xs" "length x = ?n" using assms(2) h(2,4) by (cases hist) auto
    have "read_from (tf_input_buffer tf) 0 ?n = Inr (map (\<lambda>j. x ! j) [0..<0 + ?n])"
      using blocks [of 0] o1 x h(6) by (intro read_from_ok) (simp_all add: block_of_def)
    then show ?thesis using False o1 x h hist by (simp add: model_input_def Let_def) (metis map_nth)
  qed
qed

definition stale :: "int \<Rightarrow> VirtualTempEstimator \<Rightarrow> bool" where
  "stale now vt \<longleftrightarrow> (\<exists>tf. vt_tflite vt = Some tf
     \<and> tf_max_sample_interval tf \<le> since_ms now (tf_prev_sample_time tf))"

definition accepts :: "VirtualTempEstimator \<Rightarrow> flt list \<Rightarrow> bool" where
  "accepts vt ts \<longleftrightarrow> length ts = cm_num_linked_sensors (vt_common vt)
     \<and> (\<exists>tf. vt_tflite vt = Some tf \<and> input_ok tf 0 ts)"

definition under_sampling :: "VirtualTempEstimator \<Rightarrow> bool" where
  "under_sampling vt \<longleftrightarrow> (\<exists>tf. vt_tflite vt = Some tf \<and> tf_support_under_sampling tf)"

text \<open>A rejected reading stops the copying; the buffer keeps its size.\<close>

lemma copy_inputs_rejects:
  assumes "cur < order" and "i + length ts = n" and "length buf = n * order" and "\<not> input_ok tf i ts"
    and "n \<le> length (tf_input_range tf)"
  shows "\<exists>buf'. copy_inputs tf n order cur ts i buf = Inr (False, buf') \<and> length buf' = n * order"
  using assms
proof (induction ts arbitrary: i buf)
  case Nil
  then show ?case by (simp add: input_ok_def)
next
  case (Cons t ts)
  have on: "tf_enable_input_validation tf" using Cons.prems(4) by (simp add: input_ok_def)
  have i: "i < n" "i < length (tf_input_range tf)" using Cons.prems(2,5) by simp_all
  show ?case
  proof (cases "flt_lt t (ir_min_threshold (tf_input_range tf ! i)) \<or> flt_lt (ir_max_threshold (tf_input_range tf ! i)) t")
    case True
    then show ?thesis using on i(2) Cons.prems(3) by simp
  next
    case False
    have rest: "\<not> input_ok tf (Suc i) ts"
    proof
      assume "input_ok tf (Suc i) ts"
      then have ok: "\<forall>k < length ts. Suc i + k < length (tf_input_range tf)
        \<and> \<not> flt_lt (ts ! k) (ir_min_threshold (tf_input_range tf ! (Suc i + k)))
        \<and> \<not> flt_lt (ir_max_threshold (tf_input_range tf ! (Suc i + k))) (ts ! k)" using on by (simp add: input_ok_def)
      have "input_ok tf i (t # ts)" unfolding input_ok_def
      proof (intro impI allI)
        fix k
        assume "k < length (t # ts)"
        then show "i + k < length (tf_input_range tf)
          \<and> \<not> flt_lt ((t # ts) ! k) (ir_min_threshold (tf_input_range tf ! (i + k)))
          \<and> \<not> flt_lt (ir_max_threshold (tf_input_range tf ! (i + k))) ((t # ts) ! k)"
          using ok i(2) False by (cases k) simp_all
      qed
      then show False using Cons.prems(4) by simp
    qed
    obtain b2 where b2: "bindE (vec_set buf (int (cur * n + i)) (Some t)) (\<lambda>b1.
        if fills_all tf cur then fill_older t n i 1 (order - 1) b1 else Inr b1) = Inr b2" "length b2 = n * order"
      using copy_one_spec [OF Cons.prems(1) i(1) Cons.prems(3), of t tf] by (elim exE conjE)
    have "copy_inputs tf n order cur (t # ts) i buf =
      bindE (bindE (vec_set buf (int (cur * n + i)) (Some t)) (\<lambda>b1.
        if fills_all tf cur then fill_older t n i 1 (order - 1) b1 else Inr b1))
        (copy_inputs tf n order cur ts (Suc i))"
      using on i(2) False by (auto simp: fills_all_def bindE_assoc simp del: of_nat_add of_nat_mult)
    then show ?thesis using b2 Cons.IH [OF Cons.prems(1) _ b2(2) rest Cons.prems(5)] Cons.prems(2) by simp
  qed
qed

lemma model_input_count [simp]: "model_input cur (cm\<lparr>cm_cur_sample_count := c\<rparr>) tf = model_input cur cm tf"
  by (simp add: model_input_def Let_def)

section \<open>The estimator as a list of samples\<close>

text \<open>
  With support for under-sampling, the slots behind the first sample hold copies of it; and the
  sample that comes when the ring starts over replaces all the samples.
\<close>

definition padded :: "bool \<Rightarrow> nat \<Rightarrow> 'a list \<Rightarrow> 'a list" where
  "padded us order hist = (if us \<and> hist \<noteq> [] then hist @ replicate order (last hist) else hist)"

definition push_sample :: "bool \<Rightarrow> nat \<Rightarrow> 'a \<Rightarrow> 'a list \<Rightarrow> 'a list" where
  "push_sample us order ts hist =
     (if us \<and> length hist mod order = 0 then replicate (Suc (length hist)) ts else ts # hist)"

definition with_count :: "nat \<Rightarrow> VirtualTempEstimator \<Rightarrow> VirtualTempEstimator" where
  "with_count c vt = vt\<lparr>vt_common := (vt_common vt)\<lparr>cm_cur_sample_count := c\<rparr>\<rparr>"

lemma with_count_set_tflite:
  "with_count c (set_tflite cm tf vt) = set_tflite (cm\<lparr>cm_cur_sample_count := c\<rparr>) tf vt"
  by (cases vt) (simp add: with_count_def set_tflite_def)

definition samples_of :: "VirtualTempEstimator \<Rightarrow> flt list list \<Rightarrow> flt list list" where
  "samples_of vt hist = padded (under_sampling vt) (cm_prev_samples_order (vt_common vt)) hist"

text \<open>\<open>hist\<close> are the samples since the last reset; the ring holds the newest of them and the padding.\<close>

definition holds_samples :: "VirtualTempEstimator \<Rightarrow> flt list list \<Rightarrow> bool" where
  "holds_samples vt hist \<longleftrightarrow> cm_cur_sample_count (vt_common vt) = length hist
     \<and> holds_history (with_count (length (samples_of vt hist)) vt) (samples_of vt hist)"

lemma invoke_model_keeps:
  assumes "invoke_model wr now3 inp cm tf vt = Inr (st, out, vt')" and "holds_samples (set_tflite cm tf vt) hist"
  shows "holds_samples vt' hist"
proof -
  obtain tf' where tf': "vt' = set_tflite cm tf' vt" "tf_support_under_sampling tf' = tf_support_under_sampling tf"
    "tf_input_buffer tf' = tf_input_buffer tf" "tf_input_buffer_size tf' = tf_input_buffer_size tf"
    using assms(1) by (auto simp: invoke_model_def Let_def split: if_splits)
  then show ?thesis using assms(2)
    by (simp add: holds_samples_def samples_of_def under_sampling_def with_count_set_tflite)
      (simp add: holds_history_def set_tflite_def)
qed

definition ranges_fit :: "VirtualTempEstimator \<Rightarrow> bool" where
  "ranges_fit vt \<longleftrightarrow> (\<forall>tf. vt_tflite vt = Some tf \<longrightarrow> tf_enable_input_validation tf \<longrightarrow>
     cm_num_linked_sensors (vt_common vt) \<le> length (tf_input_range tf))"

lemma length_padded_mod: "length (padded us order hist) mod order = length hist mod order"
  by (simp add: padded_def)

lemma push_padded:
  "us \<and> length hist mod order = 0 \<Longrightarrow>
     padded us order (push_sample us order ts hist) = replicate (Suc (length hist) + order) ts"
  "\<not> (us \<and> length hist mod order = 0) \<Longrightarrow>
     padded us order (push_sample us order ts hist) = ts # padded us order hist"
proof -
  show "padded us order (push_sample us order ts hist) = replicate (Suc (length hist) + order) ts"
    if "us \<and> length hist mod order = 0"
    using that unfolding padded_def push_sample_def replicate_add by (simp add: last_replicate)
qed (auto simp: padded_def push_sample_def)

text \<open>
  C14: The TensorFlow estimator refines a list of samples, kept since the last pause longer than the
  maximal sample interval or the last rejected reading. A reading outside the configured ranges is
  answered by low confidence and empties the list. Any other is put in front of it; with
  under-sampling supported, a reading that comes when the ring starts over replaces the samples in
  the list instead, and the first sample is repeated where samples are missing. Without that
  support, fewer samples than the model was built for are reported as under-sampling; else the model
  is run on exactly the last ones, from the oldest to the newest, however the ring has wrapped. The
  state that is left holds the new list.
\<close>

theorem TFliteEstimate_refines_history:
  fixes vt ts hist now1
  defines "order \<equiv> cm_prev_samples_order (vt_common vt)"
    and "hist' \<equiv> push_sample (under_sampling vt) (cm_prev_samples_order (vt_common vt)) ts (if stale now1 vt then [] else hist)"
  assumes "holds_samples vt hist" and "ranges_fit vt" and "length ts = cm_num_linked_sensors (vt_common vt)"
  shows "(accepts vt ts \<longrightarrow> (\<exists>cm tf. holds_samples (set_tflite cm tf vt) hist' \<and> tf_prev_sample_time tf = now2
      \<and> TFliteEstimate wr now1 now2 now3 ts vt =
          (if \<not> under_sampling vt \<and> length hist' < order
           then Inr (kVtEstimatorUnderSampling, None, set_tflite cm tf vt)
           else invoke_model wr now3 (concat (rev (take order (padded (under_sampling vt) order hist')))) cm tf vt)
      \<and> (\<forall>st out vt'. TFliteEstimate wr now1 now2 now3 ts vt = Inr (st, out, vt') \<longrightarrow> holds_samples vt' hist')))
    \<and> (\<not> accepts vt ts \<longrightarrow> (\<exists>vt'. TFliteEstimate wr now1 now2 now3 ts vt = Inr (kVtEstimatorLowConfidence, None, vt')
          \<and> holds_samples vt' []))"
proof -
  obtain tf where tf: "vt_tflite vt = Some tf"
    using assms(3) by (auto simp: holds_samples_def holds_history_def with_count_def)
  define cm where "cm = vt_common vt"
  define n where "n = cm_num_linked_sensors cm"
  define us where "us = tf_support_under_sampling tf"
  define old where "old = (if stale now1 vt then [] else hist)"
  define cur where "cur = length old mod order"
  let ?P = "padded us order old"
  have us: "under_sampling vt = us" using tf by (simp add: us_def under_sampling_def)
  have h: "cm_is_initialized cm" "0 < n" "0 < order" "cm_use_prev_samples cm \<or> order = 1"
    "cm_cur_sample_count cm = length hist" "\<forall>h \<in> set (padded us order hist). length h = n"
    "tf_input_buffer_size tf = n * order" "length (tf_input_buffer tf) = n * order"
    and blocks0: "\<And>k j. k < min (length (padded us order hist)) order \<Longrightarrow> j < n \<Longrightarrow>
      tf_input_buffer tf ! (block_of order (padded us order hist) k * n + j) = Some (padded us order hist ! k ! j)"
    using assms(3) tf us
    by (auto simp: holds_samples_def samples_of_def holds_history_def with_count_def Let_def cm_def n_def order_def)
  have P: "\<forall>h \<in> set ?P. length h = n" using h(6) by (cases "stale now1 vt") (simp_all add: old_def padded_def)
  have blocks: "tf_input_buffer tf ! (block_of order ?P k * n + j) = Some (?P ! k ! j)"
    if "k < min (length ?P) order" "j < n" for k j
    using blocks0 that by (cases "stale now1 vt") (simp_all add: old_def padded_def)
  have cur: "cur < order" using h(3) by (simp add: cur_def)
  have ts: "length ts = n" using assms(5) by (simp add: n_def cm_def)
  have hh: "hist' = push_sample us order ts old" by (simp add: hist'_def old_def us order_def)
  show ?thesis
  proof (intro conjI impI)
    assume "accepts vt ts"
    then have ok: "input_ok tf 0 ts" using tf by (auto simp: accepts_def)
    have "\<exists>buf'. copy_inputs tf n order cur ts 0 (tf_input_buffer tf) = Inr (True, buf') \<and> length buf' = n * order
      \<and> (\<forall>b < order. \<forall>j < n. buf' ! (b * n + j) =
           (if (b = cur \<or> fills_all tf cur) \<and> 0 \<le> j then Some (ts ! (j - 0)) else tf_input_buffer tf ! (b * n + j)))"
      using h(8) ts ok cur by (intro copy_inputs_spec) simp_all
    then obtain buf where buf: "copy_inputs tf n order cur ts 0 (tf_input_buffer tf) = Inr (True, buf)" "length buf = n * order"
      and new: "\<And>b j. b < order \<Longrightarrow> j < n \<Longrightarrow>
        buf ! (b * n + j) = (if b = cur \<or> us \<and> cur = 0 then Some (ts ! j) else tf_input_buffer tf ! (b * n + j))"
      by (auto simp: fills_all_def us_def)
    let ?P' = "padded us order hist'"
    have blocks': "buf ! (block_of order ?P' k * n + j) = Some (?P' ! k ! j)" if k: "k < min (length ?P') order" "j < n" for k j
    proof (cases "us \<and> cur = 0")
      case True
      have "block_of order ?P' k < order" using h(3) by (simp add: block_of_def)
      moreover have "?P' = replicate (Suc (length old) + order) ts" using push_padded(1) [of us old order ts] True unfolding hh cur_def by blast
      ultimately show ?thesis using new [of "block_of order ?P' k" j] True k by (simp del: replicate_Suc)
    next
      case False
      then have p: "?P' = ts # ?P" using push_padded(2) [of us old order ts] unfolding hh cur_def by blast
      have "buf ! (block_of order (ts # ?P) k * n + j) = Some ((ts # ?P) ! k ! j)"
      proof (rule pushed_blocks [OF blocks])
        show "buf ! (b * n + j') = (if b = length ?P mod order then Some (ts ! j') else tf_input_buffer tf ! (b * n + j'))"
          if "b < order" "j' < n" for b j' using new [OF that] False by (auto simp: length_padded_mod cur_def)
      qed (use k p in auto)
      then show ?thesis by (simp add: p)
    qed
    have P': "\<forall>h \<in> set ?P'. length h = n" "0 < length hist'"
      "(length ?P' - 1) mod order = cur" "us \<or> order \<le> length hist' \<Longrightarrow> order \<le> length ?P'" "length hist' = Suc (length old)"
    proof -
      show len: "length hist' = Suc (length old)" by (simp add: hh push_sample_def)
      then show "0 < length hist'" by simp
      show "(length ?P' - 1) mod order = cur" using len by (auto simp: padded_def cur_def)
      show "order \<le> length ?P'" if "us \<or> order \<le> length hist'" using that len by (auto simp: padded_def)
      show "\<forall>h \<in> set ?P'. length h = n"
        using P ts push_padded [of us old order ts] by (cases "us \<and> cur = 0") (auto simp: hh cur_def)
    qed
    define tf2 where "tf2 = tf\<lparr>tf_input_buffer := buf, tf_prev_sample_time := now2\<rparr>"
    define cm2 where "cm2 = cm\<lparr>cm_cur_sample_count := length old + 1\<rparr>"
    define cm3 where "cm3 = cm2\<lparr>cm_cur_sample_count := length ?P'\<rparr>"
    have fields: "cm_prev_samples_order cm2 = order" "cm_prev_samples_order cm3 = order" "cm_cur_sample_count cm2 = length hist'"
      by (simp_all add: cm2_def cm3_def order_def cm_def P'(5))
    have inv: "holds_history (set_tflite cm3 tf2 vt) ?P'"
      using h P'(1) buf(2) blocks'
      by (auto simp: holds_history_def set_tflite_def Let_def cm3_def cm2_def tf2_def cm_def [symmetric] order_def
          simp flip: n_def)
    have samples: "holds_samples (set_tflite cm2 tf' vt) hist'"
      if "holds_history (set_tflite cm3 tf' vt) ?P'" "tf_support_under_sampling tf' = us" for tf'
      using that fields
      unfolding holds_samples_def samples_of_def with_count_set_tflite
      by (simp add: under_sampling_def cm3_def) (simp add: set_tflite_def)
    have run: "TFliteEstimate wr now1 now2 now3 ts vt =
        (if \<not> us \<and> length hist' < order then Inr (kVtEstimatorUnderSampling, None, set_tflite cm2 tf2 vt)
         else bindE (model_input cur cm2 tf2) (\<lambda>(inp, tf3). invoke_model wr now3 inp cm2 tf3 vt))"
      using tf h(1,5) ts buf(1)
      by (auto simp: TFliteEstimate_def Let_def P'(5) old_def stale_def cm2_def tf2_def cur_def us_def order_def
          simp flip: cm_def n_def)
    show "\<exists>cm tf. holds_samples (set_tflite cm tf vt) hist' \<and> tf_prev_sample_time tf = now2
      \<and> TFliteEstimate wr now1 now2 now3 ts vt =
          (if \<not> under_sampling vt \<and> length hist' < order
           then Inr (kVtEstimatorUnderSampling, None, set_tflite cm tf vt)
           else invoke_model wr now3 (concat (rev (take order (padded (under_sampling vt) order hist')))) cm tf vt)
      \<and> (\<forall>st out vt'. TFliteEstimate wr now1 now2 now3 ts vt = Inr (st, out, vt') \<longrightarrow> holds_samples vt' hist')"
    proof (cases "\<not> us \<and> length hist' < order")
      case True
      then show ?thesis using samples [OF inv] run us
        by (intro exI [of _ cm2] exI [of _ tf2]) (simp add: tf2_def us_def)
    next
      case False
      then have "order \<le> length ?P'" by (intro P'(4)) auto
      then obtain tf' where tf': "model_input cur cm3 tf2 = Inr (concat (rev (take order ?P')), tf')"
          "holds_history (set_tflite cm3 tf' vt) ?P'" "tf_prev_sample_time tf' = now2"
        using model_input_samples [OF inv] P'(3) by (auto simp: fields tf2_def)
      have "tf_support_under_sampling tf' = us"
        using tf'(1) by (auto simp: model_input_def Let_def tf2_def us_def split: if_splits)
      moreover have "model_input cur cm2 tf2 = model_input cur cm3 tf2" by (simp add: cm3_def)
      ultimately show ?thesis using samples [OF tf'(2)] run False us tf' invoke_model_keeps
        by (intro exI [of _ cm2] exI [of _ tf']) auto
    qed
  next
    assume "\<not> accepts vt ts"
    then have bad: "\<not> input_ok tf 0 ts" using tf ts by (auto simp: accepts_def n_def cm_def)
    then have "tf_enable_input_validation tf" by (simp add: input_ok_def)
    then have "n \<le> length (tf_input_range tf)" using assms(4) tf by (simp add: ranges_fit_def n_def cm_def)
    then obtain buf where buf: "copy_inputs tf n order cur ts 0 (tf_input_buffer tf) = Inr (False, buf)" "length buf = n * order"
      using copy_inputs_rejects [OF cur _ h(8) bad] ts by auto
    let ?vt = "set_tflite (cm\<lparr>cm_cur_sample_count := 0\<rparr>) (tf\<lparr>tf_input_buffer := buf\<rparr>) vt"
    have "TFliteEstimate wr now1 now2 now3 ts vt = Inr (kVtEstimatorLowConfidence, None, ?vt)"
      using tf h(1,5) ts buf(1)
      by (auto simp: TFliteEstimate_def Let_def old_def stale_def cur_def order_def simp flip: cm_def n_def)
    moreover have "holds_samples ?vt []"
      using h buf(2)
      by (auto simp: holds_samples_def samples_of_def padded_def holds_history_def with_count_def set_tflite_def Let_def
          cm_def order_def n_def)
    ultimately show "\<exists>vt'. TFliteEstimate wr now1 now2 now3 ts vt = Inr (kVtEstimatorLowConfidence, None, vt')
          \<and> holds_samples vt' []" by blast
  qed
qed

end
