(* ===== verification/VtClaims.thy ===== *)
theory VtClaims
  imports VtProps
begin

text \<open>
  Initialization establishes what the estimates rely on; the predictions stay inside the output
  buffer; and the two uses of the buffers that are wrong.
\<close>

section \<open>Initialization\<close>

lemma ParseInputConfig_keeps:
  assumes "ParseInputConfig J c cm tf = Some tf'"
  shows "tf_input_buffer tf' = tf_input_buffer tf" and "tf_input_buffer_size tf' = tf_input_buffer_size tf"
    and "tf_output_buffer tf' = tf_output_buffer tf" and "tf_output_buffer_size tf' = tf_output_buffer_size tf"
    and "tf_output_label_count tf' = tf_output_label_count tf"
  using assms
  by (auto simp: ParseInputConfig_def parse_sample_interval_def parse_max_sample_interval_def Let_def
      split: if_splits option.splits)

lemma ParseInputConfig_window:
  assumes "ParseInputConfig J c cm tf = Some tf'" and "tf_sample_interval tf = 0"
  shows "tf_sample_interval tf' = 0 \<or> 0 < tf_sample_interval tf'
     \<and> tf_predict_window_ms tf' = nat (tf_sample_interval tf') * (tf_output_label_count tf' - 1)"
  using assms
  by (auto simp: ParseInputConfig_def parse_sample_interval_def parse_max_sample_interval_def Let_def
      split: if_splits option.splits)

text \<open>The output buffer has the length the predictions assume.\<close>

definition output_ok :: "VirtualTempEstimator \<Rightarrow> bool" where
  "output_ok vt \<longleftrightarrow> (\<exists>tf. vt_tflite vt = Some tf \<and> 0 < tf_output_label_count tf
     \<and> tf_output_label_count tf \<le> length (tf_output_buffer tf)
     \<and> length (tf_output_buffer tf) = tf_output_buffer_size tf
     \<and> (tf_sample_interval tf = 0 \<or> 0 < tf_sample_interval tf
        \<and> tf_predict_window_ms tf = nat (tf_sample_interval tf) * (tf_output_label_count tf - 1)))"

text \<open>What a successful initialization has checked and built.\<close>

definition sized_tflite :: "MLModelInitData \<Rightarrow> nat \<Rightarrow> VtEstimatorTFLiteData" where
  "sized_tflite d n = fresh_tflite\<lparr> tf_support_under_sampling := ml_support_under_sampling d,
     tf_enable_input_validation := ml_enable_input_validation d,
     tf_input_buffer_size := n * ml_prev_samples_order d,
     tf_input_buffer := replicate (n * ml_prev_samples_order d) None,
     tf_scratch_buffer := (if ml_use_prev_samples d then replicate (n * ml_prev_samples_order d) None
                           else tf_scratch_buffer fresh_tflite),
     tf_output_label_count := ml_output_label_count d, tf_num_hot_spots := ml_num_hot_spots d,
     tf_output_buffer_size := ml_output_label_count d * ml_num_hot_spots d,
     tf_output_buffer := replicate (ml_output_label_count d * ml_num_hot_spots d) None \<rparr>"

lemma TFliteInitialize_ok:
  assumes "TFliteInitialize J wr d (new_estimator name kUseMLModel n) = (kVtEstimatorOk, vt)"
  obtains c cm1 tf3 where "0 < n" "0 < ml_prev_samples_order d"
    "ml_use_prev_samples d \<or> ml_prev_samples_order d = 1"
    "0 < ml_output_label_count d" "0 < ml_num_hot_spots d"
    "ParseInputConfig J c cm1 (sized_tflite d n) = Some tf3"
    "vt_tflite vt = Some (tf3\<lparr>tf_model_path := ml_model_path d\<rparr>)" "vt_type vt = kUseMLModel"
    "vt_common vt = (fresh_common name n)\<lparr> cm_use_prev_samples := ml_use_prev_samples d,
       cm_prev_samples_order := ml_prev_samples_order d, cm_offset_thresholds := ml_offset_thresholds d,
       cm_offset_values := ml_offset_values d, cm_is_initialized := True \<rparr>"
proof -
  let ?cm1 = "(fresh_common name n)\<lparr> cm_use_prev_samples := ml_use_prev_samples d,
       cm_prev_samples_order := ml_prev_samples_order d \<rparr>"
  have g: "0 < n" "0 < ml_prev_samples_order d" "ml_use_prev_samples d \<or> ml_prev_samples_order d = 1"
    "0 < ml_output_label_count d" "0 < ml_num_hot_spots d"
    using assms
    by (auto simp: TFliteInitialize_def new_estimator_def fresh_common_def Let_def
        split: if_splits option.splits)
  have "\<exists>c. wr_input_config wr = Some c"
    using assms by (auto simp: TFliteInitialize_def new_estimator_def Let_def split: if_splits option.splits)
  then obtain c where c: "wr_input_config wr = Some c" ..
  obtain tf3 where tf3: "ParseInputConfig J c ?cm1 (sized_tflite d n) = Some tf3"
    using assms c
    by (cases "ParseInputConfig J c ?cm1 (sized_tflite d n)")
      (simp_all add: TFliteInitialize_def new_estimator_def Let_def fresh_common_def sized_tflite_def
        split: if_splits)
  have "vt_tflite vt = Some (tf3\<lparr>tf_model_path := ml_model_path d\<rparr>) \<and> vt_type vt = kUseMLModel
      \<and> vt_common vt = ?cm1\<lparr> cm_offset_thresholds := ml_offset_thresholds d,
          cm_offset_values := ml_offset_values d, cm_is_initialized := True \<rparr>"
    using assms c tf3
    by (auto simp: TFliteInitialize_def new_estimator_def Let_def fresh_common_def sized_tflite_def
        split: if_splits)
  then show ?thesis using g tf3 by (intro that) auto
qed

text \<open>
  A successful initialization of a TensorFlow estimator allocates the buffers the estimates
  and the predictions index: the input ring has room for the samples of the model and holds none,
  the output buffer holds a value per label and hot spot, and the prediction window spans the
  labels of one hot spot.
\<close>

theorem TFliteInitialize_establishes:
  assumes "TFliteInitialize J wr d (new_estimator name kUseMLModel n) = (kVtEstimatorOk, vt)"
  shows "holds_history vt [] \<and> output_ok vt"
proof (rule TFliteInitialize_ok [OF assms])
  fix c cm1 tf3
  assume g: "0 < n" "0 < ml_prev_samples_order d" "ml_use_prev_samples d \<or> ml_prev_samples_order d = 1"
      "0 < ml_output_label_count d" "0 < ml_num_hot_spots d"
    and p: "ParseInputConfig J c cm1 (sized_tflite d n) = Some tf3"
    and vt: "vt_tflite vt = Some (tf3\<lparr>tf_model_path := ml_model_path d\<rparr>)"
      "vt_common vt = (fresh_common name n)\<lparr> cm_use_prev_samples := ml_use_prev_samples d,
       cm_prev_samples_order := ml_prev_samples_order d, cm_offset_thresholds := ml_offset_thresholds d,
       cm_offset_values := ml_offset_values d, cm_is_initialized := True \<rparr>"
  have "holds_history vt []"
    using g vt ParseInputConfig_keeps [OF p]
    by (auto simp: holds_history_def Let_def sized_tflite_def fresh_common_def)
  moreover have "output_ok vt"
    using g vt ParseInputConfig_keeps [OF p] ParseInputConfig_window [OF p]
    by (simp add: output_ok_def sized_tflite_def fresh_tflite_def)
  ultimately show ?thesis ..
qed

section \<open>Predictions\<close>

lemma wrap64_mod: "0 \<le> wrap64 i \<Longrightarrow> wrap64 i mod 2 ^ 64 = wrap64 i"
  by (simp add: wrap64_def)

text \<open>
  C15: Once the model has run, a prediction for any time, asked at any moment, reads inside the
  output buffer: it returns a status, and a temperature with status Ok only.
\<close>

theorem PredictAfterTimeMs_in_bounds:
  assumes "output_ok vt" and "vt_tflite vt = Some tf" and "\<forall>x \<in> set (tf_output_buffer tf). x \<noteq> None"
  shows "\<exists>st out. PredictAfterTimeMs now time_ms vt = Inr (st, out) \<and> (st = kVtEstimatorOk \<longleftrightarrow> out \<noteq> None)"
proof -
  let ?interval = "tf_sample_interval tf" and ?count = "tf_output_label_count tf"
  let ?request = "wrap64 (since_ms now (tf_last_update_time tf) + int time_ms)"
  have o: "0 < ?count" "?count \<le> length (tf_output_buffer tf)"
    "?interval = 0 \<or> 0 < ?interval \<and> tf_predict_window_ms tf = nat ?interval * (?count - 1)"
    using assms(1,2) by (auto simp: output_ok_def)
  have rd: "\<exists>v. read_array (tf_output_buffer tf) i = Inr v" if "i < ?count" for i
  proof -
    have "i < length (tf_output_buffer tf)" using that o(2) by simp
    moreover from this have "tf_output_buffer tf ! i \<noteq> None" using assms(3) nth_mem by blast
    ultimately show ?thesis using read_array_ok by blast
  qed
  show ?thesis
  proof (cases "?interval = 0 \<or> tf_predict_window_ms tf = 0 \<or> int (tf_predict_window_ms tf) < ?request mod 2 ^ 64")
    case True
    then show ?thesis using assms(2)
      by (simp add: PredictAfterTimeMs_def TFlitePredictAfterTimeMs_def Let_def)
  next
    case False
    let ?step = "nat (?request div ?interval)"
    have w: "0 < ?interval" "tf_predict_window_ms tf = nat ?interval * (?count - 1)" using False o(3) by auto
    have "?request \<le> ?request mod 2 ^ 64 \<or> ?request < 0"
      using wrap64_mod [of "since_ms now (tf_last_update_time tf) + int time_ms"] by linarith
    then have "?request \<le> int (tf_predict_window_ms tf)" using False by linarith
    then have "?request div ?interval \<le> int (?count - 1)"
      using w zdiv_mono1 [of ?request "?interval * int (?count - 1)" ?interval] by simp
    then have step: "?step \<le> ?count - 1" by simp
    obtain a where a: "read_array (tf_output_buffer tf) (?count - 1) = Inr a" using rd [of "?count - 1"] o(1) by auto
    obtain b where b: "read_array (tf_output_buffer tf) ?step = Inr b"
      using rd [of ?step] step o(1) by (metis Suc_pred' le_imp_less_Suc)
    have "\<exists>c. read_array (tf_output_buffer tf) (?step + 1) = Inr c" if "?step \<noteq> ?count - 1"
      using rd [of "?step + 1"] step that by auto
    then show ?thesis using assms(2) a b False
      by (cases "?step = ?count - 1") (auto simp: PredictAfterTimeMs_def TFlitePredictAfterTimeMs_def Let_def)
  qed
qed

text \<open>
  Asking for all predictions between the initialization and the first successful run of the
  model reads the output buffer while its contents are indeterminate, which is undefined.
\<close>

theorem GetAllPredictions_before_estimate:
  assumes "TFliteInitialize J wr d (new_estimator name kUseMLModel n) = (kVtEstimatorOk, vt)"
  shows "GetAllPredictions vt = Inl UB"
proof (rule TFliteInitialize_ok [OF assms])
  fix c cm1 tf3
  assume g: "0 < ml_output_label_count d" "0 < ml_num_hot_spots d"
    and p: "ParseInputConfig J c cm1 (sized_tflite d n) = Some tf3"
    and vt: "vt_tflite vt = Some (tf3\<lparr>tf_model_path := ml_model_path d\<rparr>)" "vt_type vt = kUseMLModel"
      "vt_common vt = (fresh_common name n)\<lparr> cm_use_prev_samples := ml_use_prev_samples d,
       cm_prev_samples_order := ml_prev_samples_order d, cm_offset_thresholds := ml_offset_thresholds d,
       cm_offset_values := ml_offset_values d, cm_is_initialized := True \<rparr>"
  let ?size = "ml_output_label_count d * ml_num_hot_spots d"
  obtain k where k: "?size = Suc k" using g by (cases ?size) auto
  have "read_from (replicate (Suc k) None) 0 (Suc k) = Inl UB" by (simp add: read_array_def vec_at_def)
  then show ?thesis using vt ParseInputConfig_keeps [OF p] k
    by (simp add: GetAllPredictions_def TFliteGetAllPredictions_def sized_tflite_def)
qed


section \<open>Under-sampling\<close>

text \<open>
  With support for under-sampling the estimator loses its history each time the ring wraps: the
  copies that stand for missing samples after a reset are also made when the current slot is the
  first one again, so the model is run on copies of the newest sample although the older ones
  were present.
\<close>

theorem under_sampling_forgets:
  assumes hist: "holds_history vt hist" and "accepts vt ts" and "under_sampling vt" and "\<not> stale now1 vt"
    and wrapped: "length hist mod cm_prev_samples_order (vt_common vt) = 0"
  shows "\<exists>cm tf. TFliteEstimate wr now1 now2 now3 ts vt
     = invoke_model wr now3 (concat (replicate (cm_prev_samples_order (vt_common vt)) ts)) cm tf vt"
proof -
  obtain tf where tf: "vt_tflite vt = Some tf" using hist by (auto simp: holds_history_def)
  define cm where "cm = vt_common vt"
  define n order where "n = cm_num_linked_sensors cm" and "order = cm_prev_samples_order cm"
  have h: "cm_is_initialized cm" "0 < n" "0 < order" "cm_use_prev_samples cm \<or> order = 1"
    "tf_input_buffer_size tf = n * order" "length (tf_input_buffer tf) = n * order"
    "cm_cur_sample_count cm mod order = 0"
    using hist wrapped tf by (auto simp: holds_history_def Let_def cm_def n_def order_def)
  have ts: "length ts = n" "input_ok tf 0 ts" "tf_support_under_sampling tf"
    using assms(2,3) tf by (auto simp: accepts_def under_sampling_def cm_def n_def)
  have "\<exists>buf'. copy_inputs tf n order 0 ts 0 (tf_input_buffer tf) = Inr (True, buf') \<and> length buf' = n * order
    \<and> (\<forall>b < order. \<forall>j < n. buf' ! (b * n + j) =
         (if (b = 0 \<or> fills_all tf 0) \<and> 0 \<le> j then Some (ts ! (j - 0)) else tf_input_buffer tf ! (b * n + j)))"
    using h(3,6) ts(1,2) by (intro copy_inputs_spec) simp_all
  then obtain buf where buf: "copy_inputs tf n order 0 ts 0 (tf_input_buffer tf) = Inr (True, buf)" "length buf = n * order"
    and new: "\<And>b j. b < order \<Longrightarrow> j < n \<Longrightarrow> buf ! (b * n + j) = Some (ts ! j)"
    using ts(3) by (auto simp: fills_all_def)
  define tf2 where "tf2 = tf\<lparr>tf_input_buffer := buf, tf_prev_sample_time := now2\<rparr>"
  define cm2 where "cm2 = cm\<lparr>cm_cur_sample_count := cm_cur_sample_count cm + 1\<rparr>"
  have run: "TFliteEstimate wr now1 now2 now3 ts vt =
      bindE (model_input 0 cm2 tf2) (\<lambda>(inp, tf3). invoke_model wr now3 inp cm2 tf3 vt)"
    using tf h(1,7) ts(1,3) buf(1) assms(4)
    by (simp add: TFliteEstimate_def Let_def stale_def cm2_def tf2_def flip: cm_def n_def order_def)
  define cm3 where "cm3 = cm\<lparr>cm_cur_sample_count := Suc order\<rparr>"
  have "holds_history (set_tflite cm3 tf2 vt) (replicate (Suc order) ts)"
    using h ts(1) buf(2) new
    by (auto simp: holds_history_def set_tflite_def Let_def cm3_def tf2_def block_of_def nth_Cons'
        simp flip: n_def order_def)
  from model_input_samples [OF this] obtain tf3
    where "model_input 0 cm3 tf2 = Inr (concat (replicate order ts), tf3)"
    by (auto simp: cm3_def simp flip: order_def simp del: replicate_Suc)
  moreover have "model_input 0 cm3 tf2 = model_input 0 cm2 tf2" by (simp add: cm2_def cm3_def)
  ultimately have "TFliteEstimate wr now1 now2 now3 ts vt
     = invoke_model wr now3 (concat (replicate order ts)) cm2 tf3 vt" using run by simp
  then show ?thesis unfolding order_def cm_def by blast
qed

section \<open>Examples\<close>

text \<open>An estimator of two sensors and two samples, one of which it has seen.\<close>

definition ex_vt :: "bool \<Rightarrow> nat \<Rightarrow> flt option list \<Rightarrow> VirtualTempEstimator" where
  "ex_vt us c0 buf =
     \<lparr> vt_type = kUseMLModel,
       vt_common = \<lparr> cm_sensor_name = ''skin'', cm_offset_thresholds = [], cm_offset_values = [],
         cm_num_linked_sensors = 2, cm_prev_samples_order = 2, cm_cur_sample_count = c0,
         cm_use_prev_samples = True, cm_is_initialized = True \<rparr>,
       vt_tflite = Some (fresh_tflite\<lparr> tf_support_under_sampling := us, tf_input_buffer := buf,
         tf_input_buffer_size := 4, tf_output_buffer := [Some (Fin 0), Some (Fin 0)],
         tf_output_buffer_size := 2, tf_output_label_count := 2, tf_sample_interval := 1000,
         tf_predict_window_ms := 1000, tf_prev_sample_time := 1000000 \<rparr>),
       vt_linear = None \<rparr>"

lemma ex_vt_holds: "holds_history (ex_vt us 1 [Some a, Some b, None, None]) [[a, b]]"
  by (simp add: holds_history_def ex_vt_def block_of_def Let_def less_2_cases_iff)

lemma ex_vt_holds2: "holds_history (ex_vt us 2 [Some a, Some b, Some c, Some d]) [[c, d], [a, b]]"
  by (simp add: holds_history_def ex_vt_def block_of_def Let_def less_2_cases_iff) (auto simp: less_2_cases_iff)

lemma ex_vt_accepts: "accepts (ex_vt us c0 buf) [a, b]"
  by (simp add: accepts_def ex_vt_def input_ok_def fresh_tflite_def)

lemma ex_vt_not_stale: "\<not> stale 2000000 (ex_vt us c0 buf)"
  by (simp add: stale_def ex_vt_def fresh_tflite_def since_ms_def wrap64_def INT_MAX_def)

text \<open>A model library that accepts any file, with an empty configuration.\<close>

definition ex_json :: "unit json_ops" where
  "ex_json = \<lparr> jget = (\<lambda>_ _. ()), jat = (\<lambda>_ _. ()), jsize = (\<lambda>_. 0), jempty = (\<lambda>_. True),
     jtrue = (\<lambda>_. False), jisString = (\<lambda>_. False), jisBool = (\<lambda>_. False), jasString = (\<lambda>_. []),
     jasBool = (\<lambda>_. False), jasInt = (\<lambda>_. 0), jasUInt = (\<lambda>_. 0), jasFloat = (\<lambda>_. Fin 0) \<rparr>"

definition ex_wrapper :: "unit tflite_wrapper" where
  "ex_wrapper = \<lparr> wr_linked = True, wr_created = True, wr_init_failed = (\<lambda>_. False),
     wr_input_config = Some (), wr_invoke = (\<lambda>_ k. (False, replicate k (Fin 0))) \<rparr>"

theorem TFliteEstimate_refines_history_witness:
  "(\<exists>cm tf. TFliteEstimate ex_wrapper 2000000 3000000 4000000 [Fin 3, Fin 4] (ex_vt False 1 [Some (Fin 1), Some (Fin 2), None, None])
        = invoke_model ex_wrapper 4000000 [Fin 1, Fin 2, Fin 3, Fin 4] cm tf (ex_vt False 1 [Some (Fin 1), Some (Fin 2), None, None]))
   \<and> (\<exists>cm tf. TFliteEstimate ex_wrapper 2000000 3000000 4000000 [Fin 3, Fin 4] (ex_vt True 0 [None, None, None, None])
        = invoke_model ex_wrapper 4000000 [Fin 3, Fin 4, Fin 3, Fin 4] cm tf (ex_vt True 0 [None, None, None, None]))"
proof -
  let ?vt = "ex_vt False 1 [Some (Fin 1), Some (Fin 2), None, None]" and ?us = "ex_vt True 0 [None, None, None, None]"
  have o: "cm_prev_samples_order (vt_common ?vt) = 2" "cm_prev_samples_order (vt_common ?us) = 2"
    "\<not> under_sampling ?vt" "under_sampling ?us" "ranges_fit ?vt" "ranges_fit ?us"
    by (simp_all add: ex_vt_def under_sampling_def ranges_fit_def fresh_tflite_def)
  have a: "accepts ?vt [Fin 3, Fin 4]" "accepts ?us [Fin 3, Fin 4]" by (rule ex_vt_accepts)+
  have l: "length [Fin 3, Fin 4] = cm_num_linked_sensors (vt_common ?vt)"
    "length [Fin 3, Fin 4] = cm_num_linked_sensors (vt_common ?us)" by (simp_all add: ex_vt_def)
  have h: "holds_samples ?vt [[Fin 1, Fin 2]]"
  proof -
    have "samples_of ?vt [[Fin 1, Fin 2]] = [[Fin 1, Fin 2]]" using o(3) by (simp add: samples_of_def padded_def)
    then show ?thesis
      by (simp add: holds_samples_def) (simp add: holds_history_def with_count_def ex_vt_def block_of_def Let_def less_2_cases_iff)
  qed
  have u: "holds_samples ?us []"
    by (simp add: holds_samples_def samples_of_def padded_def holds_history_def with_count_def ex_vt_def Let_def)
  show ?thesis
    using TFliteEstimate_refines_history [OF h o(5) l(1), where ?now1.0 = 2000000 and ?now2.0 = 3000000 and ?now3.0 = 4000000 and wr = ex_wrapper]
      TFliteEstimate_refines_history [OF u o(6) l(2), where ?now1.0 = 2000000 and ?now2.0 = 3000000 and ?now3.0 = 4000000 and wr = ex_wrapper]
      a o ex_vt_not_stale
    by (auto simp: push_sample_def padded_def numeral_2_eq_2)
qed

theorem under_sampling_forgets_witness:
  "\<exists>cm tf. TFliteEstimate ex_wrapper 2000000 3000000 4000000 [Fin 5, Fin 6]
       (ex_vt True 2 [Some (Fin 1), Some (Fin 2), Some (Fin 3), Some (Fin 4)])
     = invoke_model ex_wrapper 4000000 [Fin 5, Fin 6, Fin 5, Fin 6] cm tf
       (ex_vt True 2 [Some (Fin 1), Some (Fin 2), Some (Fin 3), Some (Fin 4)])"
proof -
  let ?vt = "ex_vt True 2 [Some (Fin 1), Some (Fin 2), Some (Fin 3), Some (Fin 4)]"
  have o: "cm_prev_samples_order (vt_common ?vt) = 2" "under_sampling ?vt"
    by (simp_all add: ex_vt_def under_sampling_def)
  have "\<exists>cm tf. TFliteEstimate ex_wrapper 2000000 3000000 4000000 [Fin 5, Fin 6] ?vt
     = invoke_model ex_wrapper 4000000 (concat (replicate (cm_prev_samples_order (vt_common ?vt)) [Fin 5, Fin 6])) cm tf ?vt"
    by (rule under_sampling_forgets [OF ex_vt_holds2 ex_vt_accepts o(2) ex_vt_not_stale]) (simp add: o)
  moreover have "concat (replicate (cm_prev_samples_order (vt_common ?vt)) [Fin 5, Fin 6]) = [Fin 5, Fin 6, Fin 5, Fin 6]"
    unfolding o by (simp add: numeral_2_eq_2)
  ultimately show ?thesis by simp
qed

theorem PredictAfterTimeMs_in_bounds_witness:
  "\<exists>st out. PredictAfterTimeMs 2000000 500 (ex_vt True 2 []) = Inr (st, out)
     \<and> (st = kVtEstimatorOk \<longleftrightarrow> out \<noteq> None)"
proof (rule PredictAfterTimeMs_in_bounds)
  show "output_ok (ex_vt True 2 [])" by (simp add: output_ok_def ex_vt_def)
  show "vt_tflite (ex_vt True 2 []) = Some (the (vt_tflite (ex_vt True 2 [])))" by (simp add: ex_vt_def)
  show "\<forall>x \<in> set (tf_output_buffer (the (vt_tflite (ex_vt True 2 [])))). x \<noteq> None" by (simp add: ex_vt_def)
qed

definition ex_ml_data :: MLModelInitData where
  "ex_ml_data = \<lparr> ml_model_path = ''skin.tflite'', ml_use_prev_samples = True, ml_prev_samples_order = 2,
     ml_output_label_count = 1, ml_num_hot_spots = 1, ml_enable_input_validation = False,
     ml_offset_thresholds = [], ml_offset_values = [], ml_support_under_sampling = True \<rparr>"

lemma ex_init: "fst (TFliteInitialize ex_json ex_wrapper ex_ml_data (new_estimator ''skin'' kUseMLModel 2)) = kVtEstimatorOk"
  by (simp add: TFliteInitialize_def ex_json_def ex_wrapper_def ex_ml_data_def new_estimator_def
      fresh_common_def fresh_tflite_def ParseInputConfig_def Let_def)

theorem TFliteInitialize_establishes_witness:
  "holds_history (snd (TFliteInitialize ex_json ex_wrapper ex_ml_data (new_estimator ''skin'' kUseMLModel 2))) []
   \<and> output_ok (snd (TFliteInitialize ex_json ex_wrapper ex_ml_data (new_estimator ''skin'' kUseMLModel 2)))"
  using ex_init by (intro TFliteInitialize_establishes) (simp add: prod_eq_iff)

theorem GetAllPredictions_before_estimate_witness:
  "GetAllPredictions (snd (TFliteInitialize ex_json ex_wrapper ex_ml_data (new_estimator ''skin'' kUseMLModel 2)))
     = Inl UB"
  using ex_init by (intro GetAllPredictions_before_estimate) (simp add: prod_eq_iff)

end
