(* ===== verification/PowerRails.thy ===== *)
theory PowerRails
  imports Text ThermalTypes
begin

text \<open>
  \<open>class PowerFiles\<close> (aidl/thermal/utils/power_files.cpp): the energy counters of the power rails,
  read from sysfs files, and the average power of each rail over its last samples. Files are
  arguments: \<open>files path\<close> is what \<open>ReadFileToString\<close> delivers, \<open>dir\<close> the entries of the directory
  if it can be opened. Parsing the configuration of the rails is in \<open>ConfigRails\<close>.
\<close>

section \<open>State\<close>

record VirtualPowerRailInfo =
  vp_linked_power_rails :: "string list"
  vp_coefficients :: "flt list"
  vp_offset :: flt
  vp_formula :: FormulaOption

record PowerRailInfo =
  pr_power_sample_count :: int
  pr_power_sample_delay :: int
  pr_virtual_power_rail_info :: "VirtualPowerRailInfo option"

text \<open>\<open>std::chrono::milliseconds::max()\<close>\<close>

definition MS_MAX :: int where "MS_MAX = 2 ^ 63 - 1"

record power_files =
  pf_energy_info :: "PowerSample smap"
  pf_power_status :: "PowerStatus smap"
  pf_rail_info :: "PowerRailInfo smap"
  pf_energy_paths :: "string list"
  pf_prev_log_time :: int
  pf_prev_energy_info :: "PowerSample smap"

section \<open>Finding the energy counters\<close>

text \<open>\<open>std::string::find\<close> and \<open>substr(pos, n)\<close>; \<open>npos\<close> is the largest 64-bit number.\<close>

fun find_sub :: "string \<Rightarrow> string \<Rightarrow> nat option" where
  "find_sub p [] = (if p = [] then Some 0 else None)"
| "find_sub p (c # cs) = (if prefixed p (c # cs) then Some 0 else map_option Suc (find_sub p cs))"

definition npos :: int where "npos = 2 ^ 64 - 1"

definition pos_of :: "nat option \<Rightarrow> int" where
  "pos_of r = (case r of None \<Rightarrow> npos | Some i \<Rightarrow> int i)"

text \<open>The text from \<open>start\<close> up to \<open>end\<close>, a size computed modulo \<open>2 ^ 64\<close>.\<close>

definition text_between :: "string \<Rightarrow> nat \<Rightarrow> int \<Rightarrow> string" where
  "text_between s start stop = take (nat ((stop - int start) mod 2 ^ 64)) (drop start s)"

text \<open>\<open>std::getline\<close> until the end of the stream.\<close>

fun split_lines :: "string \<Rightarrow> string \<Rightarrow> string list" where
  "split_lines acc [] = (if acc = [] then [] else [rev acc])"
| "split_lines acc (c # cs) = (if char_code c = 10 then rev acc # split_lines [] cs else split_lines (c # acc) cs)"

text \<open>A line \<open>CH3(T=358356)[S2M_VDD_CPUCL2], 761330\<close>.\<close>

definition parse_energy_line :: "string \<Rightarrow> (string \<times> PowerSample) option" where
  "parse_energy_line line =
     (case find_sub ''T='' line of
        None \<Rightarrow> None
      | Some s1 \<Rightarrow>
          let duration = strtoul10 (text_between line (s1 + 2) (pos_of (find_sub '')'' line)))
          in (case find_sub '')['' line of
                None \<Rightarrow> None
              | Some s2 \<Rightarrow>
                  let railName = text_between line (s2 + 2) (pos_of (find_sub '']'' line))
                  in (case find_sub ''],'' line of
                        None \<Rightarrow> None
                      | Some s3 \<Rightarrow> Some (railName,
                          \<lparr> ps_energy_counter = nat (strtoul10 (drop (s3 + 2) line)),
                            ps_duration = nat duration \<rparr>))))"

definition record_energy_line :: "string \<Rightarrow> PowerSample smap \<Rightarrow> PowerSample smap" where
  "record_energy_line line m =
     (case parse_energy_line line of None \<Rightarrow> m | Some (rail, sample) \<Rightarrow> put rail sample m)"

fun read_all :: "(string \<Rightarrow> string option) \<Rightarrow> string list \<Rightarrow> string option" where
  "read_all files [] = Some []"
| "read_all files (p # ps) =
     (case files p of None \<Rightarrow> None
      | Some c \<Rightarrow> (case read_all files ps of None \<Rightarrow> None | Some cs \<Rightarrow> Some (c @ cs)))"

definition updateEnergyValues :: "(string \<Rightarrow> string option) \<Rightarrow> power_files \<Rightarrow> bool \<times> power_files" where
  "updateEnergyValues files pf =
     (case read_all files (pf_energy_paths pf) of
        None \<Rightarrow> (False, pf)
      | Some contents \<Rightarrow>
          (True, pf\<lparr>pf_energy_info := fold record_energy_line (split_lines [] contents) (pf_energy_info pf)\<rparr>))"

definition kIioRootDir :: string where "kIioRootDir = ''/sys/bus/iio/devices''"

definition energy_path :: "string \<Rightarrow> string" where
  "energy_path d = kIioRootDir @ ''/'' @ d @ ''/energy_value''"

definition findEnergySourceToWatch ::
    "string list option \<Rightarrow> (string \<Rightarrow> string option) \<Rightarrow> power_files \<Rightarrow> bool \<times> power_files"
where
  "findEnergySourceToWatch dir files pf =
     (if pf_energy_paths pf \<noteq> [] then (True, pf)
      else case dir of
        None \<Rightarrow> (False, pf)
      | Some entries \<Rightarrow>
          let found = [energy_path d. d \<leftarrow> entries, find_sub ''iio:device'' d \<noteq> None \<and>
                         (case files (energy_path d) of None \<Rightarrow> False | Some c \<Rightarrow> c \<noteq> [])]
          in (found \<noteq> [], pf\<lparr>pf_energy_paths := remdups found\<rparr>))"

section \<open>Average power\<close>

text \<open>\<open>None\<close> is the failure of a counter that went backwards.\<close>

definition calculateAvgPower :: "PowerSample \<Rightarrow> PowerSample \<Rightarrow> flt option" where
  "calculateAvgPower last_sample curr_sample =
     (if ps_duration last_sample = 0 then Some NaN
      else if ps_duration curr_sample = ps_duration last_sample then Some NaN
      else if ps_duration curr_sample < ps_duration last_sample
              \<or> ps_energy_counter curr_sample < ps_energy_counter last_sample then None
      else Some (fdiv (of_int_f (int (ps_energy_counter curr_sample - ps_energy_counter last_sample)))
                      (of_int_f (int (ps_duration curr_sample - ps_duration last_sample)))))"

text \<open>A \<open>std::queue\<close> is the list of its elements from front to back; \<open>front\<close> of an empty one is undefined.\<close>

definition updateAveragePower ::
    "PowerSample smap \<Rightarrow> string \<Rightarrow> PowerSample list \<Rightarrow> (flt \<times> PowerSample list) result"
where
  "updateAveragePower energy power_rail history =
     (case map_of energy power_rail of
        None \<Rightarrow> Inr (NaN, history)
      | Some curr_sample \<Rightarrow>
          (case history of
             [] \<Rightarrow> Inl UB
           | last_sample # rest \<Rightarrow>
               (case calculateAvgPower last_sample curr_sample of
                  None \<Rightarrow> Inr (NaN, history)
                | Some avg \<Rightarrow> Inr (avg, rest @ [curr_sample]))))"

definition rail_step :: "FormulaOption \<Rightarrow> nat \<Rightarrow> flt \<Rightarrow> flt \<Rightarrow> flt \<Rightarrow> flt" where
  "rail_step formula i coefficient number val =
     (case formula of
        COUNT_THRESHOLD \<Rightarrow>
          if flt_lt coefficient (Fin 0) \<and> flt_lt number (fneg coefficient)
             \<or> flt_le (Fin 0) coefficient \<and> flt_le coefficient number
          then fadd val (of_int_f 1) else val
      | WEIGHTED_AVG \<Rightarrow> fadd val (fmul number coefficient)
      | MAXIMUM \<Rightarrow>
          (let v = (if i = 0 then fneg FLT_MAX else val); x = fmul number coefficient
           in if flt_lt v x then x else v)
      | MINIMUM \<Rightarrow>
          (let v = (if i = 0 then FLT_MAX else val); x = fmul number coefficient
           in if flt_lt x v then x else v)
      | _ \<Rightarrow> val)"

text \<open>The linked rails \<open>i, i + 1, \<dots>\<close> of a virtual rail.\<close>

fun virtual_rail_loop ::
    "PowerSample smap \<Rightarrow> VirtualPowerRailInfo \<Rightarrow> string list \<Rightarrow> nat \<Rightarrow> PowerSample list list \<Rightarrow> flt
      \<Rightarrow> (flt \<times> PowerSample list list) result"
where
  "virtual_rail_loop energy vp [] i histories val = Inr (val, histories)"
| "virtual_rail_loop energy vp (rail # rails) i histories val =
     bindE (vec_at (vp_coefficients vp) (int i)) (\<lambda>coefficient.
     bindE (vec_at histories (int i)) (\<lambda>history.
     bindE (updateAveragePower energy rail history) (\<lambda>(number, history').
     virtual_rail_loop energy vp rails (Suc i) (histories[i := history'])
       (rail_step (vp_formula vp) i coefficient number val))))"

definition rail_power ::
    "PowerSample smap \<Rightarrow> string \<Rightarrow> PowerRailInfo \<Rightarrow> PowerSample list list \<Rightarrow> (flt \<times> PowerSample list list) result"
where
  "rail_power energy power_rail info histories =
     (case pr_virtual_power_rail_info info of
        None \<Rightarrow>
          bindE (vec_at histories 0) (\<lambda>history.
          bindE (updateAveragePower energy power_rail history) (\<lambda>(avg, history').
          Inr (avg, histories[0 := history'])))
      | Some vp \<Rightarrow>
          bindE (virtual_rail_loop energy vp (vp_linked_power_rails vp) 0 histories (Fin 0)) (\<lambda>(val, hs).
          Inr (if flt_le (Fin 0) val then fadd val (vp_offset vp) else val, hs)))"

definition updatePowerRail ::
    "int \<Rightarrow> (string \<Rightarrow> string option) \<Rightarrow> string \<Rightarrow> power_files \<Rightarrow> (flt \<times> power_files) result"
where
  "updatePowerRail now files power_rail pf0 =
     (case (map_of (pf_rail_info pf0) power_rail, map_of (pf_power_status pf0) power_rail) of
        (Some info, Some status) \<Rightarrow>
          if pw_last_update_time status \<noteq> TIME_MIN
             \<and> since_ms now (pw_last_update_time status) < pr_power_sample_delay info
          then Inr (pw_last_updated_avg_power status, pf0)
          else
            let (ok, pf) = (if pf_energy_info pf0 = [] then updateEnergyValues files pf0 else (True, pf0))
            in if \<not> ok then Inr (NaN, pf)
               else
                 bindE (rail_power (pf_energy_info pf) power_rail info (pw_power_history status)) (\<lambda>(avg0, hs).
                 let avg = (if flt_lt avg0 (Fin 0) then NaN else avg0)
                 in Inr (avg, pf\<lparr>pf_power_status := put power_rail
                      (status\<lparr>pw_power_history := hs, pw_last_updated_avg_power := avg,
                              pw_last_update_time := now\<rparr>) (pf_power_status pf)\<rparr>))
      | _ \<Rightarrow> Inr (NaN, pf0))"

section \<open>Refreshing and switching\<close>

definition refresh_step ::
    "int \<Rightarrow> (string \<Rightarrow> string option) \<Rightarrow> string \<Rightarrow> power_files \<Rightarrow> power_files result"
where
  "refresh_step now files rail pf =
     bindE (at_key (pf_power_status pf) rail) (\<lambda>status.
     if pw_enabled status then bindE (updatePowerRail now files rail pf) (\<lambda>r. Inr (snd r)) else Inr pf)"

definition refreshPowerStatus ::
    "int \<Rightarrow> (string \<Rightarrow> string option) \<Rightarrow> power_files \<Rightarrow> (bool \<times> power_files) result"
where
  "refreshPowerStatus now files pf0 =
     (case updateEnergyValues files pf0 of
        (False, pf) \<Rightarrow> Inr (False, pf)
      | (True, pf) \<Rightarrow>
          bindE (foldE (refresh_step now files) (map fst (pf_power_status pf)) pf) (\<lambda>pf'.
          Inr (True, pf')))"

definition powerSamplingSwitch :: "string \<Rightarrow> bool \<Rightarrow> power_files \<Rightarrow> power_files result" where
  "powerSamplingSwitch power_rail enabled pf =
     (if \<not> has (pf_rail_info pf) power_rail then Inr pf
      else
        bindE (at_key (pf_power_status pf) power_rail) (\<lambda>status.
        let st1 = status\<lparr>pw_enabled := enabled\<rparr>;
            st2 = (if enabled then st1
                   else st1\<lparr> pw_power_history :=
                          map (map (\<lambda>_. \<lparr>ps_energy_counter = 0, ps_duration = 0\<rparr>)) (pw_power_history st1),
                        pw_last_updated_avg_power := NaN \<rparr>)
        in Inr (pf\<lparr>pf_power_status := put power_rail st2 (pf_power_status pf)\<rparr>)))"

section \<open>Registration\<close>

text \<open>The rails whose samples a rail keeps, and its first history.\<close>

definition sampled_rails :: "string \<Rightarrow> PowerRailInfo \<Rightarrow> string list" where
  "sampled_rails rail info =
     (case pr_virtual_power_rail_info info of
        Some vp \<Rightarrow> if vp_linked_power_rails vp \<noteq> [] then vp_linked_power_rails vp else [rail]
      | None \<Rightarrow> [rail])"

fun first_history :: "PowerSample smap \<Rightarrow> int \<Rightarrow> string list \<Rightarrow> PowerSample list list option" where
  "first_history energy cnt [] = Some []"
| "first_history energy cnt (r # rs) =
     (case map_of energy r of
        None \<Rightarrow> None
      | Some sample \<Rightarrow>
          (case first_history energy cnt rs of
             None \<Rightarrow> None
           | Some hs \<Rightarrow> Some (replicate (nat cnt) sample # hs)))"

fun register_rails :: "PowerRailInfo smap \<Rightarrow> power_files \<Rightarrow> bool \<times> power_files" where
  "register_rails [] pf = (True, pf)"
| "register_rails ((rail, info) # rest) pf =
     (if pr_power_sample_count info = 0 \<or> pr_power_sample_delay info = MS_MAX then register_rails rest pf
      else case first_history (pf_energy_info pf) (pr_power_sample_count info) (sampled_rails rail info) of
        None \<Rightarrow> (False, pf)
      | Some [] \<Rightarrow> (False, pf)
      | Some hs \<Rightarrow> register_rails rest (pf\<lparr>pf_power_status := put rail
            \<lparr> pw_last_update_time = TIME_MIN, pw_power_history = hs,
              pw_last_updated_avg_power = NaN, pw_enabled = True \<rparr> (pf_power_status pf)\<rparr>))"

text \<open>\<open>rails\<close> is the outcome of \<open>ParsePowerRailInfo\<close>: whether it succeeded, and the map it filled.\<close>

definition registerPowerRailsToWatch ::
    "int \<Rightarrow> string list option \<Rightarrow> (string \<Rightarrow> string option) \<Rightarrow> bool \<times> PowerRailInfo smap \<Rightarrow> power_files
      \<Rightarrow> bool \<times> power_files"
where
  "registerPowerRailsToWatch now dir files rails pf0 =
     (let pf1 = pf0\<lparr>pf_rail_info := snd rails\<rparr>
      in if \<not> fst rails then (False, pf1)
         else if snd rails = [] then (True, pf1)
         else case findEnergySourceToWatch dir files pf1 of
           (False, pf2) \<Rightarrow> (False, pf2)
         | (True, pf2) \<Rightarrow>
             (case (if pf_energy_info pf2 = [] then updateEnergyValues files pf2 else (True, pf2)) of
                (False, pf3) \<Rightarrow> (False, pf3)
              | (True, pf3) \<Rightarrow>
                  (case register_rails (pf_rail_info pf3) pf3 of
                     (False, pf4) \<Rightarrow> (False, pf4)
                   | (True, pf4) \<Rightarrow> (True, pf4\<lparr> pf_prev_log_time := now,
                                               pf_prev_energy_info := pf_energy_info pf4 \<rparr>))))"

section \<open>The power log\<close>

text \<open>The rails that are logged with their power, their sum, and the longest duration.\<close>

definition log_rail :: "PowerSample smap \<Rightarrow> string \<times> PowerSample
      \<Rightarrow> (string \<times> flt) list \<times> flt \<times> nat \<Rightarrow> (string \<times> flt) list \<times> flt \<times> nat" where
  "log_rail prev entry acc =
     (case (entry, acc) of ((rail, curr_sample), (out, tot_power, max_duration)) \<Rightarrow>
        (case map_of prev rail of
           None \<Rightarrow> acc
         | Some last_sample \<Rightarrow>
             (case calculateAvgPower last_sample curr_sample of
                None \<Rightarrow> acc
              | Some avg \<Rightarrow>
                  if isnan avg then acc
                  else (out @ [(rail, avg)], fadd tot_power avg,
                        max max_duration (ps_duration curr_sample - ps_duration last_sample)))))"

definition logPowerStatus :: "int \<Rightarrow> power_files \<Rightarrow> ((string \<times> flt) list \<times> flt \<times> nat) \<times> power_files" where
  "logPowerStatus now pf =
     (fold (log_rail (pf_prev_energy_info pf)) (pf_energy_info pf) ([], Fin 0, 0),
      pf\<lparr>pf_prev_log_time := now, pf_prev_energy_info := pf_energy_info pf\<rparr>)"

end
