(* ===== verification/PowerClaims.thy ===== *)
theory PowerClaims
  imports PowerRails
begin

text \<open>
  The histories of the power rails are well-formed in every reachable state, so refreshing never
  faults; and the cases in which a rail reports a power it has not measured, stops being updated
  or throws. The last part is about the text of the energy files: printing a number and reading it back,
  where a text is found, and the round trip of a line.
\<close>

section \<open>Well-formed histories\<close>

definition rail_ok :: "string \<Rightarrow> PowerRailInfo \<Rightarrow> PowerSample list list \<Rightarrow> bool" where
  "rail_ok rail info hs \<longleftrightarrow>
     (\<forall>vp. pr_virtual_power_rail_info info = Some vp \<longrightarrow> length (vp_linked_power_rails vp) \<le> length (vp_coefficients vp))
     \<and> length hs = length (sampled_rails rail info) \<and> (\<forall>h \<in> set hs. h \<noteq> [])"

definition power_ok :: "power_files \<Rightarrow> bool" where
  "power_ok pf \<longleftrightarrow> (\<forall>rail st. map_of (pf_power_status pf) rail = Some st \<longrightarrow>
     (\<exists>info. map_of (pf_rail_info pf) rail = Some info \<and> rail_ok rail info (pw_power_history st)))"

text \<open>
  Distinct names and a coefficient for every linked rail, which the configuration parser guarantees,
  and a number of samples that is not negative, which it does not check.
\<close>

definition rails_ok :: "PowerRailInfo smap \<Rightarrow> bool" where
  "rails_ok rails \<longleftrightarrow> distinct (map fst rails) \<and> (\<forall>(rail, info) \<in> set rails. 0 \<le> pr_power_sample_count info
     \<and> (\<forall>vp. pr_virtual_power_rail_info info = Some vp \<longrightarrow> length (vp_linked_power_rails vp) \<le> length (vp_coefficients vp)))"

lemma updateEnergyValues_frame [simp]:
  assumes "updateEnergyValues files pf = (b, pf')"
  shows "pf_power_status pf' = pf_power_status pf" and "pf_rail_info pf' = pf_rail_info pf"
  using assms by (auto simp: updateEnergyValues_def split: option.splits)

lemma updateAveragePower_ok:
  assumes "h \<noteq> []"
  shows "\<exists>x h'. updateAveragePower energy rail h = Inr (x, h') \<and> h' \<noteq> [] \<and> length h' = length h"
  using assms by (cases h) (auto simp: updateAveragePower_def split: option.splits)

lemma virtual_rail_loop_ok:
  assumes "\<forall>h \<in> set hs. h \<noteq> []" and "i + length rails \<le> length hs" and "i + length rails \<le> length (vp_coefficients vp)"
  shows "\<exists>v hs'. virtual_rail_loop energy vp rails i hs val = Inr (v, hs') \<and> length hs' = length hs \<and> (\<forall>h \<in> set hs'. h \<noteq> [])"
  using assms
proof (induction rails arbitrary: i hs val)
  case (Cons rail rails)
  have "i < length hs" using Cons.prems(2) by simp
  then obtain x h' where h': "updateAveragePower energy rail (hs ! i) = Inr (x, h')" "h' \<noteq> []"
    using updateAveragePower_ok [of "hs ! i"] Cons.prems(1) by (metis nth_mem)
  have "\<forall>h \<in> set (hs[i := h']). h \<noteq> []" using h'(2) Cons.prems(1) set_update_subset_insert by fast
  from Cons.IH [OF this, of "Suc i"] show ?case using Cons.prems(2,3) h'(1) by simp
qed simp

lemma rail_power_ok:
  assumes "rail_ok rail info hs"
  shows "\<exists>v hs'. rail_power energy rail info hs = Inr (v, hs') \<and> rail_ok rail info hs'"
proof (cases "pr_virtual_power_rail_info info")
  case None
  then obtain h where h: "hs = [h]" "h \<noteq> []"
    using assms by (auto simp: rail_ok_def sampled_rails_def length_Suc_conv)
  then obtain x h' where "updateAveragePower energy rail h = Inr (x, h')" "h' \<noteq> []"
    using updateAveragePower_ok by blast
  then show ?thesis using None h by (auto simp: rail_power_def rail_ok_def sampled_rails_def)
next
  case (Some vp)
  have "length (vp_linked_power_rails vp) \<le> length hs" "length (vp_linked_power_rails vp) \<le> length (vp_coefficients vp)"
    using assms Some by (auto simp: rail_ok_def sampled_rails_def split: if_splits)
  then obtain v hs' where "virtual_rail_loop energy vp (vp_linked_power_rails vp) 0 hs (Fin 0) = Inr (v, hs')"
      "length hs' = length hs" "\<forall>h \<in> set hs'. h \<noteq> []"
    using virtual_rail_loop_ok [of hs 0 "vp_linked_power_rails vp" vp energy "Fin 0"] assms by (auto simp: rail_ok_def)
  then show ?thesis using Some assms by (auto simp: rail_power_def rail_ok_def)
qed

lemma power_ok_put:
  assumes "power_ok pf" and "map_of (pf_rail_info pf) rail = Some info" and "rail_ok rail info (pw_power_history st)"
  shows "power_ok (pf\<lparr>pf_power_status := put rail st (pf_power_status pf)\<rparr>)"
  using assms by (auto simp: power_ok_def)

lemma updatePowerRail_ok:
  assumes "power_ok pf"
  shows "\<exists>x pf'. updatePowerRail now files rail pf = Inr (x, pf') \<and> power_ok pf'
     \<and> map fst (pf_power_status pf') = map fst (pf_power_status pf)"
proof (cases "map_of (pf_power_status pf) rail")
  case None
  then show ?thesis using assms by (auto simp: updatePowerRail_def split: option.splits)
next
  case (Some st)
  then obtain info where info: "map_of (pf_rail_info pf) rail = Some info" "rail_ok rail info (pw_power_history st)"
    using assms by (auto simp: power_ok_def)
  obtain ok pf1 where pf1: "(if pf_energy_info pf = [] then updateEnergyValues files pf else (True, pf)) = (ok, pf1)"
    by fastforce
  then have frame: "pf_power_status pf1 = pf_power_status pf" "pf_rail_info pf1 = pf_rail_info pf"
    by (auto split: if_splits)
  obtain v hs where "rail_power (pf_energy_info pf1) rail info (pw_power_history st) = Inr (v, hs)" "rail_ok rail info hs"
    using rail_power_ok [OF info(2)] by blast
  moreover have "power_ok pf1" using assms frame by (simp add: power_ok_def)
  moreover have "has (pf_power_status pf) rail" using Some by (simp add: has_def)
  ultimately show ?thesis using Some info pf1 frame power_ok_put [of pf1 rail info] assms
    by (auto simp: updatePowerRail_def Let_def keys_put_present)
qed

lemma refreshPowerStatus_ok:
  assumes "power_ok pf"
  shows "\<exists>b pf'. refreshPowerStatus now files pf = Inr (b, pf') \<and> power_ok pf'"
proof -
  obtain b pf1 where e: "updateEnergyValues files pf = (b, pf1)" by fastforce
  define ks where "ks = map fst (pf_power_status pf1)"
  have "\<exists>pf'. foldE (refresh_step now files) ks pf1 = Inr pf' \<and> (power_ok pf' \<and> map fst (pf_power_status pf') = ks)"
  proof (rule foldE_total)
    show "power_ok pf1 \<and> map fst (pf_power_status pf1) = ks"
      using assms e updateEnergyValues_frame [OF e] by (simp add: power_ok_def ks_def)
    fix rail s
    assume rail: "rail \<in> set ks" and s: "power_ok s \<and> map fst (pf_power_status s) = ks"
    then have "has (pf_power_status s) rail" by (auto simp: has_iff_in_keys simp flip: set_map)
    then obtain st where "map_of (pf_power_status s) rail = Some st" by (auto simp: has_def)
    then show "\<exists>s'. refresh_step now files rail s = Inr s' \<and> power_ok s' \<and> map fst (pf_power_status s') = ks"
      using updatePowerRail_ok [of s now files rail] s by (auto simp: refresh_step_def)
  qed
  then obtain pf2 where "foldE (refresh_step now files) (map fst (pf_power_status pf1)) pf1 = Inr pf2" "power_ok pf2"
    by (auto simp: ks_def)
  moreover have "power_ok pf1" using assms updateEnergyValues_frame [OF e] by (simp add: power_ok_def)
  ultimately show ?thesis using e by (cases b) (auto simp: refreshPowerStatus_def)
qed

lemma powerSamplingSwitch_ok:
  assumes "power_ok pf" and "powerSamplingSwitch rail enabled pf = Inr pf'"
  shows "power_ok pf'"
proof (cases "has (pf_rail_info pf) rail")
  case True
  then obtain st where st: "map_of (pf_power_status pf) rail = Some st"
    using assms(2) by (auto simp: powerSamplingSwitch_def at_key_Inr_iff)
  then obtain info where "map_of (pf_rail_info pf) rail = Some info" "rail_ok rail info (pw_power_history st)"
    using assms(1) by (auto simp: power_ok_def)
  then show ?thesis using assms True st power_ok_put
    by (auto simp: powerSamplingSwitch_def Let_def rail_ok_def intro!: power_ok_put)
next
  case False
  then show ?thesis using assms by (simp add: powerSamplingSwitch_def)
qed

lemma first_history_ok:
  assumes "first_history energy cnt rs = Some hs" and "0 < cnt"
  shows "length hs = length rs \<and> (\<forall>h \<in> set hs. h \<noteq> [])"
  using assms
proof (induction rs arbitrary: hs)
  case (Cons r rs)
  then show ?case by (auto split: option.splits)
qed simp

lemma register_rails_ok:
  assumes "register_rails rails pf = (b, pf')" and "power_ok pf" and "set rails \<subseteq> set (pf_rail_info pf)"
    and "rails_ok (pf_rail_info pf)"
  shows "power_ok pf' \<and> pf_rail_info pf' = pf_rail_info pf"
  using assms
proof (induction rails pf rule: register_rails.induct)
  case (2 rail info rest pf)
  have mem: "(rail, info) \<in> set (pf_rail_info pf)" using "2.prems"(3) by auto
  have info: "map_of (pf_rail_info pf) rail = Some info"
    using mem "2.prems"(4) by (intro map_of_is_SomeI) (simp_all add: rails_ok_def)
  consider (skip) "pr_power_sample_count info = 0 \<or> pr_power_sample_delay info = MS_MAX"
    | (fail) "\<not> (pr_power_sample_count info = 0 \<or> pr_power_sample_delay info = MS_MAX)"
        "first_history (pf_energy_info pf) (pr_power_sample_count info) (sampled_rails rail info) = None
         \<or> first_history (pf_energy_info pf) (pr_power_sample_count info) (sampled_rails rail info) = Some []"
    | (reg) h hs where "\<not> (pr_power_sample_count info = 0 \<or> pr_power_sample_delay info = MS_MAX)"
        "first_history (pf_energy_info pf) (pr_power_sample_count info) (sampled_rails rail info) = Some (h # hs)"
    by (metis list.exhaust option.exhaust)
  then show ?case
  proof cases
    case skip
    then show ?thesis using 2 by auto
  next
    case fail
    then show ?thesis using 2 by auto
  next
    case reg
    define st where "st = \<lparr> pw_last_update_time = TIME_MIN, pw_power_history = h # hs,
              pw_last_updated_avg_power = NaN, pw_enabled = True \<rparr>"
    have "0 < pr_power_sample_count info" using mem "2.prems"(4) reg(1) by (fastforce simp: rails_ok_def)
    then have "rail_ok rail info (pw_power_history st)"
      using first_history_ok [OF reg(2)] mem "2.prems"(4) by (fastforce simp: rail_ok_def rails_ok_def st_def)
    then have "power_ok (pf\<lparr>pf_power_status := put rail st (pf_power_status pf)\<rparr>)"
      by (rule power_ok_put [OF "2.prems"(2) info])
    then show ?thesis using "2.IH"(2) [OF reg(1,2)] "2.prems" reg by (auto simp: st_def)
  qed
qed simp

text \<open>The states of the power files.\<close>

inductive rails_reach :: "power_files \<Rightarrow> bool" where
  register: "rails_ok rails \<Longrightarrow> pf_power_status pf0 = [] \<Longrightarrow>
    registerPowerRailsToWatch now dir files (True, rails) pf0 = (b, pf) \<Longrightarrow> rails_reach pf"
| refresh: "rails_reach pf \<Longrightarrow> refreshPowerStatus now files pf = Inr (b, pf') \<Longrightarrow> rails_reach pf'"
| switch: "rails_reach pf \<Longrightarrow> powerSamplingSwitch rail enabled pf = Inr pf' \<Longrightarrow> rails_reach pf'"
| log: "rails_reach pf \<Longrightarrow> logPowerStatus now pf = (out, pf') \<Longrightarrow> rails_reach pf'"

lemma findEnergySourceToWatch_frame:
  assumes "findEnergySourceToWatch dir files pf = (b, pf')"
  shows "pf_power_status pf' = pf_power_status pf" and "pf_rail_info pf' = pf_rail_info pf"
  using assms by (auto simp: findEnergySourceToWatch_def Let_def split: option.splits if_splits)

lemma register_rails_infos: "register_rails rails pf = (b, pf') \<Longrightarrow> pf_rail_info pf' = pf_rail_info pf"
  by (induction rails pf rule: register_rails.induct) (auto split: if_splits option.splits list.splits)

text \<open>A registration either adds no status or adds them with \<open>register_rails\<close>.\<close>

lemma registerPowerRailsToWatch_cases:
  assumes "registerPowerRailsToWatch now dir files (True, rails) pf0 = (b, pf)" and "pf_power_status pf0 = []"
  obtains (none) "pf_power_status pf = []" "pf_rail_info pf = rails"
  | (rails) pf3 b4 pf4 where "pf_power_status pf3 = []" "pf_rail_info pf3 = rails"
      "register_rails rails pf3 = (b4, pf4)" "pf_power_status pf = pf_power_status pf4" "pf_rail_info pf = rails"
proof -
  define pf1 where "pf1 = pf0\<lparr>pf_rail_info := rails\<rparr>"
  obtain b2 pf2 where f: "findEnergySourceToWatch dir files pf1 = (b2, pf2)" by fastforce
  obtain b3 pf3 where u: "(if pf_energy_info pf2 = [] then updateEnergyValues files pf2 else (True, pf2)) = (b3, pf3)"
    by fastforce
  obtain b4 pf4 where r: "register_rails (pf_rail_info pf3) pf3 = (b4, pf4)" by fastforce
  have 1: "pf_power_status pf1 = []" "pf_rail_info pf1 = rails" using assms(2) by (simp_all add: pf1_def)
  have 2: "pf_power_status pf2 = []" "pf_rail_info pf2 = rails"
    using findEnergySourceToWatch_frame [OF f] 1 by simp_all
  then have 3: "pf_power_status pf3 = []" "pf_rail_info pf3 = rails"
    using u updateEnergyValues_frame [of files pf2 b3 pf3] by (auto split: if_splits)
  have 4: "pf_rail_info pf4 = rails" using register_rails_infos [OF r] 3(2) by simp
  have "pf \<in> {pf1, pf2, pf3, pf4, pf4\<lparr>pf_prev_log_time := now, pf_prev_energy_info := pf_energy_info pf4\<rparr>}"
    using assms(1)
    unfolding registerPowerRailsToWatch_def Let_def fst_conv snd_conv pf1_def [symmetric] f prod.case u r
    by (cases b2; cases b3; cases b4) (auto split: if_splits)
  then show ?thesis using none rails [OF 3 r [unfolded 3(2)]] 1 2 3 4 by auto
qed

lemma registerPowerRailsToWatch_ok:
  assumes "registerPowerRailsToWatch now dir files (True, rails) pf0 = (b, pf)"
    and "rails_ok rails" and "pf_power_status pf0 = []"
  shows "power_ok pf"
proof (rule registerPowerRailsToWatch_cases [OF assms(1,3)])
  assume "pf_power_status pf = []"
  then show ?thesis by (simp add: power_ok_def)
next
  fix pf3 b4 pf4
  assume rails: "pf_power_status pf3 = []" "pf_rail_info pf3 = rails"
      "register_rails rails pf3 = (b4, pf4)" "pf_power_status pf = pf_power_status pf4" "pf_rail_info pf = rails"
  have "power_ok pf3" using rails(1) by (simp add: power_ok_def)
  then have "power_ok pf4" and "pf_rail_info pf4 = rails"
    using register_rails_ok [OF rails(3)] rails(2) assms(2) by simp_all
  then show ?thesis using rails by (simp add: power_ok_def)
qed

lemma rails_reach_ok: "rails_reach pf \<Longrightarrow> power_ok pf"
proof (induction rule: rails_reach.induct)
  case (register rails pf0 now dir files b pf)
  then show ?case by (intro registerPowerRailsToWatch_ok) auto
next
  case (refresh pf now files b pf')
  then show ?case using refreshPowerStatus_ok [of pf now files] by auto
next
  case (switch pf rail enabled pf')
  then show ?case using powerSamplingSwitch_ok by blast
next
  case (log pf now out pf')
  then show ?case by (auto simp: logPowerStatus_def power_ok_def)
qed

text \<open>
  C19: In every state the power files reach, by refreshing, switching rails and logging, from the
  registration of rails whose numbers of samples are not negative (the parser does not check this),
  the invariant of the rails holds: every watched rail is configured, has one non-empty history per
  measured rail, and a coefficient for every linked one. A refresh of such a state then succeeds,
  whatever the files hold, and keeps the invariant.
\<close>

theorem refresh_never_faults:
  assumes "rails_reach pf"
  shows "power_ok pf \<and> (\<exists>b pf'. refreshPowerStatus now files pf = Inr (b, pf') \<and> power_ok pf')"
  using rails_reach_ok [OF assms] refreshPowerStatus_ok [OF rails_reach_ok [OF assms], of now files] by blast

section \<open>Rails that are not measured\<close>

lemma updateAveragePower_unmeasured:
  assumes "h \<noteq> []" and "ps_duration (hd h) = 0"
  shows "\<exists>h'. updateAveragePower energy rail h = Inr (NaN, h')"
  using assms by (cases h) (auto simp: updateAveragePower_def calculateAvgPower_def split: option.splits)

lemma minimum_loop_unmeasured:
  assumes "vp_formula vp = MINIMUM" and "\<forall>h \<in> set hs. h \<noteq> [] \<and> ps_duration (hd h) = 0"
    and "i + length rails \<le> length hs" and "i + length rails \<le> length (vp_coefficients vp)"
    and "i = 0 \<or> val = FLT_MAX" and "0 < i + length rails"
    and "\<And>k. i \<le> k \<Longrightarrow> k < length hs0 \<Longrightarrow> hs0 ! k = hs ! k" and "length hs0 = length hs"
  shows "\<exists>hs'. virtual_rail_loop energy vp rails i hs0 val = Inr (FLT_MAX, hs')"
  using assms(3-)
proof (induction rails arbitrary: i val hs0)
  case (Cons rail rails)
  have i: "i < length hs" "hs0 ! i = hs ! i" using Cons.prems(1,5,6) by auto
  then obtain h' where h': "updateAveragePower energy rail (hs0 ! i) = Inr (NaN, h')"
    using updateAveragePower_unmeasured [of "hs ! i"] assms(2) by (metis nth_mem)
  have step: "rail_step MINIMUM i c NaN val = FLT_MAX" for c
    using Cons.prems(3) by (auto simp: rail_step_def Let_def)
  have "\<exists>hs'. virtual_rail_loop energy vp rails (Suc i) (hs0[i := h']) FLT_MAX = Inr (FLT_MAX, hs')"
    using Cons.prems by (intro Cons.IH) auto
  then show ?case using h' i step assms(1) Cons.prems(2,6) by simp
qed auto

lemma fadd_FLT_MAX_0: "fadd FLT_MAX (Fin 0) = FLT_MAX" and FLT_MAX_pos: "flt_le (Fin 0) FLT_MAX" "\<not> flt_lt FLT_MAX (Fin 0)"
  by (simp_all add: flt_eval)

text \<open>
  A virtual rail with the MINIMUM formula reports the greatest float as its power when none of
  its rails is measured yet: the accumulator starts at that value, a missing sample is NaN and
  loses every comparison, and the result is not negative.
\<close>

theorem minimum_rail_unmeasured:
  assumes "power_ok pf" and "map_of (pf_rail_info pf) rail = Some info"
    and "pr_virtual_power_rail_info info = Some vp" and "vp_formula vp = MINIMUM"
    and "vp_linked_power_rails vp \<noteq> []" and "vp_offset vp = Fin 0"
    and "map_of (pf_power_status pf) rail = Some st" and "pw_last_update_time st = TIME_MIN"
    and "pf_energy_info pf \<noteq> []" and "\<forall>h \<in> set (pw_power_history st). ps_duration (hd h) = 0"
  shows "\<exists>pf'. updatePowerRail now files rail pf = Inr (FLT_MAX, pf')"
proof -
  let ?rails = "vp_linked_power_rails vp" and ?hs = "pw_power_history st"
  have ok: "rail_ok rail info ?hs" using assms(1,2,7) unfolding power_ok_def by fastforce
  have "\<exists>hs'. virtual_rail_loop (pf_energy_info pf) vp ?rails 0 ?hs (Fin 0) = Inr (FLT_MAX, hs')"
    using assms(3-5,10) ok
    by (intro minimum_loop_unmeasured [where hs = ?hs]) (auto simp: rail_ok_def sampled_rails_def)
  then show ?thesis using assms(2,3,6-9)
    by (auto simp: updatePowerRail_def rail_power_def Let_def fadd_FLT_MAX_0 FLT_MAX_pos)
qed

lemma register_rails_unsampled:
  assumes "register_rails rails pf = (b, pf')" and "map_of (pf_power_status pf) rail = None"
    and "\<forall>(r, info) \<in> set rails. r = rail \<longrightarrow> pr_power_sample_count info = 0"
  shows "map_of (pf_power_status pf') rail = None"
  using assms
  by (induction rails pf rule: register_rails.induct) (auto split: if_splits option.splits list.splits)

text \<open>
  Switching a rail throws \<open>std::out_of_range\<close> when the rail is configured without samples: the
  guard asks the map of the configured rails, but only rails with samples have a status.
\<close>

theorem switch_of_unsampled_rail_throws:
  assumes "registerPowerRailsToWatch now dir files (True, rails) pf0 = (b, pf)"
    and "pf_power_status pf0 = []" and "distinct (map fst rails)"
    and "(rail, info) \<in> set rails" and "pr_power_sample_count info = 0"
  shows "powerSamplingSwitch rail enabled pf = Inl OutOfRange"
proof -
  have only: "\<forall>(r, i) \<in> set rails. r = rail \<longrightarrow> pr_power_sample_count i = 0"
    using assms(3-5) by (auto dest: eq_key_imp_eq_value)
  have "map_of (pf_power_status pf) rail = None \<and> pf_rail_info pf = rails"
    by (rule registerPowerRailsToWatch_cases [OF assms(1,2)])
      (use register_rails_unsampled [OF _ _ only] in auto)
  moreover have "map_of rails rail = Some info" using assms(3,4) by simp
  ultimately show ?thesis by (simp add: powerSamplingSwitch_def has_def at_key_def)
qed

section \<open>Examples\<close>

definition ex_sampled :: PowerRailInfo where
  "ex_sampled = \<lparr> pr_power_sample_count = 2, pr_power_sample_delay = 1000, pr_virtual_power_rail_info = None \<rparr>"

definition ex_minimum :: PowerRailInfo where
  "ex_minimum = \<lparr> pr_power_sample_count = 1, pr_power_sample_delay = 1000,
     pr_virtual_power_rail_info = Some \<lparr> vp_linked_power_rails = [''CPU''], vp_coefficients = [of_int_f 1],
       vp_offset = Fin 0, vp_formula = MINIMUM \<rparr> \<rparr>"

definition ex_unsampled :: PowerRailInfo where
  "ex_unsampled = \<lparr> pr_power_sample_count = 0, pr_power_sample_delay = 1000, pr_virtual_power_rail_info = None \<rparr>"

definition ex_no_files :: power_files where
  "ex_no_files = \<lparr> pf_energy_info = [], pf_power_status = [], pf_rail_info = [], pf_energy_paths = [],
     pf_prev_log_time = 0, pf_prev_energy_info = [] \<rparr>"

definition ex_energy :: "string \<Rightarrow> string option" where
  "ex_energy path = Some ''CH0(T=0)[CPU], 9''"

definition ex_rails :: power_files where
  "ex_rails = snd (registerPowerRailsToWatch 5 (Some [''iio:device0'']) ex_energy
     (True, [(''CPU'', ex_sampled), (''LOW'', ex_minimum), (''GPU'', ex_unsampled)]) ex_no_files)"

lemmas ex_power_defs = ex_sampled_def ex_minimum_def ex_unsampled_def ex_no_files_def ex_energy_def

lemma ex_line: "parse_energy_line ''CH0(T=0)[CPU], 9'' = Some (''CPU'', \<lparr>ps_energy_counter = 9, ps_duration = 0\<rparr>)"
  by (simp add: parse_energy_line_def prefixed_def pos_of_def text_between_def strtoul10_def
      split_sign_def is_space_def is_digit_def char_code_def digits_value_def digit_value_def)

lemma ex_rails_eq: "ex_rails =
   \<lparr> pf_energy_info = [(''CPU'', \<lparr>ps_energy_counter = 9, ps_duration = 0\<rparr>)],
     pf_power_status =
       [(''CPU'', \<lparr> pw_last_update_time = TIME_MIN, pw_power_history = [replicate 2 \<lparr>ps_energy_counter = 9, ps_duration = 0\<rparr>],
          pw_last_updated_avg_power = NaN, pw_enabled = True \<rparr>),
        (''LOW'', \<lparr> pw_last_update_time = TIME_MIN, pw_power_history = [[\<lparr>ps_energy_counter = 9, ps_duration = 0\<rparr>]],
          pw_last_updated_avg_power = NaN, pw_enabled = True \<rparr>)],
     pf_rail_info = [(''CPU'', ex_sampled), (''LOW'', ex_minimum), (''GPU'', ex_unsampled)],
     pf_energy_paths = [energy_path ''iio:device0''], pf_prev_log_time = 5,
     pf_prev_energy_info = [(''CPU'', \<lparr>ps_energy_counter = 9, ps_duration = 0\<rparr>)] \<rparr>"
  by (simp add: ex_rails_def registerPowerRailsToWatch_def findEnergySourceToWatch_def updateEnergyValues_def
      record_energy_line_def ex_line put_def prefixed_def sampled_rails_def MS_MAX_def char_code_def
      ex_power_defs Let_def)

lemma ex_rails_ok: "rails_ok [(''CPU'', ex_sampled), (''LOW'', ex_minimum), (''GPU'', ex_unsampled)]"
  by (simp add: rails_ok_def ex_power_defs)

lemma ex_rails_reach: "rails_reach ex_rails"
  by (rule rails_reach.register [OF ex_rails_ok, of ex_no_files 5 "Some [''iio:device0'']" ex_energy])
    (simp_all add: ex_no_files_def ex_rails_def prod_eq_iff)

theorem refresh_never_faults_witness:
  "power_ok ex_rails \<and> (\<exists>b pf'. refreshPowerStatus 1000000000 ex_energy ex_rails = Inr (b, pf') \<and> power_ok pf')"
  by (rule refresh_never_faults [OF ex_rails_reach])

theorem minimum_rail_unmeasured_witness:
  "\<exists>pf'. updatePowerRail 1000000000 ex_energy ''LOW'' ex_rails = Inr (FLT_MAX, pf')"
  by (rule minimum_rail_unmeasured [OF rails_reach_ok [OF ex_rails_reach], where info = ex_minimum
        and vp = "the (pr_virtual_power_rail_info ex_minimum)" and st = "the (map_of (pf_power_status ex_rails) ''LOW'')"])
    (simp_all add: ex_rails_eq ex_minimum_def)

theorem switch_of_unsampled_rail_throws_witness:
  "powerSamplingSwitch ''GPU'' True ex_rails = Inl OutOfRange"
  by (rule switch_of_unsampled_rail_throws [where rails = "[(''CPU'', ex_sampled), (''LOW'', ex_minimum), (''GPU'', ex_unsampled)]"
        and ?pf0.0 = ex_no_files and now = 5 and dir = "Some [''iio:device0'']" and files = ex_energy and info = ex_unsampled])
    (simp_all add: ex_no_files_def ex_rails_def ex_unsampled_def prod_eq_iff)

section \<open>Numbers in texts\<close>

lemma char_code_of [simp]: "n < 256 \<Longrightarrow> char_code (char_of n) = n"
  by (simp add: char_code_def)

lemma is_digit_of [simp]: "d < 10 \<Longrightarrow> is_digit (char_of (48 + d))" for d :: nat
  by (simp add: is_digit_def)

lemma digit_value_of [simp]: "d < 10 \<Longrightarrow> digit_value (char_of (48 + d)) = int d" for d :: nat
  by (simp add: digit_value_def)

lemma digits_value_snoc: "digits_value (s @ [c]) = 10 * digits_value s + digit_value c"
  by (simp add: digits_value_def)

lemma nat_digits_digit: "c \<in> set (nat_digits f n) \<Longrightarrow> is_digit c"
  by (induction f n rule: nat_digits.induct) (auto split: if_splits)

lemma nat_digits_value: "n < f \<Longrightarrow> digits_value (nat_digits f n) = int n"
proof (induction f n rule: nat_digits.induct)
  case (2 f n)
  show ?case
  proof (cases "n < 10")
    case True
    then show ?thesis using digits_value_snoc [of "[]" "char_of (48 + n)"] by (simp add: digits_value_def)
  next
    case False
    then have "digits_value (nat_digits f (n div 10)) = int (n div 10)" using "2.IH" "2.prems" by simp
    moreover have "digit_value (char_of (48 + n mod 10)) = int (n mod 10)" by (rule digit_value_of) simp
    ultimately have "digits_value (nat_digits (Suc f) n) = 10 * int (n div 10) + int (n mod 10)"
      using False by (simp only: nat_digits.simps if_False digits_value_snoc)
    also have "\<dots> = int (10 * (n div 10) + n mod 10)" by (simp only: of_nat_add of_nat_mult of_nat_numeral)
    finally show ?thesis by simp
  qed
qed simp

lemma length_nat_digits: "length (nat_digits f n) \<le> f"
  by (induction f n rule: nat_digits.induct) auto

lemma length_to_string: "length (to_string (int n)) \<le> Suc n"
  using length_nat_digits [of "Suc n" n] by (simp add: to_string_def del: nat_digits.simps)

lemma nat_digits_nonempty: "nat_digits (Suc f) n \<noteq> []"
  by simp

lemma digit_no_sign: "is_digit c \<Longrightarrow> \<not> is_space c \<and> c \<noteq> CHR ''-'' \<and> c \<noteq> CHR ''+''"
  by (auto simp: is_digit_def is_space_def char_code_def)

lemma split_sign_digits:
  assumes "ds \<noteq> []" and "\<And>c. c \<in> set ds \<Longrightarrow> is_digit c"
  shows "split_sign (ds @ rest) = (False, ds @ rest)"
  using assms digit_no_sign by (cases ds) (auto simp: split_sign_def)

lemma strtoul10_to_string:
  assumes "n < 2 ^ 64" and "rest = [] \<or> \<not> is_digit (hd rest)"
  shows "strtoul10 (to_string (int n) @ rest) = int n"
proof -
  let ?ds = "nat_digits (Suc n) n"
  have "takeWhile is_digit (?ds @ rest) = ?ds"
    using assms(2) nat_digits_digit by (cases rest) (auto simp: takeWhile_append simp del: nat_digits.simps)
  moreover have "split_sign (?ds @ rest) = (False, ?ds @ rest)"
    using nat_digits_digit nat_digits_nonempty
    by (intro split_sign_digits) (auto simp del: nat_digits.simps)
  moreover have "digits_value ?ds = int n" by (rule nat_digits_value) simp
  moreover have "\<not> 2 ^ 64 \<le> int n"
    using assms(1) by (metis linorder_not_le of_nat_le_iff of_nat_numeral of_nat_power)
  ultimately show ?thesis
    by (simp add: strtoul10_def to_string_def Let_def del: nat_digits.simps)
qed

lemma strtoul10_space: "is_space c \<Longrightarrow> strtoul10 (c # s) = strtoul10 s"
  by (simp add: strtoul10_def split_sign_def)

lemma to_string_digit: "c \<in> set (to_string (int n)) \<Longrightarrow> is_digit c"
  using nat_digits_digit by (auto simp: to_string_def simp del: nat_digits.simps)

section \<open>Searching\<close>

lemma find_sub_first:
  assumes "p = c # cs" and "c \<notin> set a"
  shows "find_sub p (a @ p @ b) = Some (length a)"
  using assms
proof (induction a)
  case Nil
  then show ?case by (simp add: prefixed_def)
next
  case (Cons x a)
  then show ?case by (auto simp: prefixed_def)
qed

lemma drop_past: "drop (length a + length p) (a @ p @ b) = b"
  by simp

lemma text_between_mid:
  assumes "length (a @ b @ r) < 2 ^ 64"
  shows "text_between (a @ b @ r) (length a) (int (length (a @ b))) = b"
proof -
  have "int (length b) < 2 ^ 64"
    using assms by (metis le_add1 le_add2 length_append of_nat_less_numeral_power_cancel_iff order_le_less_trans add_leE)
  then have "(int (length (a @ b)) - int (length a)) mod 2 ^ 64 = int (length b)" by simp
  then show ?thesis by (simp add: text_between_def)
qed

section \<open>The lines of an energy file\<close>

text \<open>The line the driver prints for a rail.\<close>

definition show_energy_line :: "string \<Rightarrow> string \<Rightarrow> nat \<Rightarrow> nat \<Rightarrow> string" where
  "show_energy_line channel rail duration energy =
     channel @ ''(T='' @ to_string (int duration) @ '')['' @ rail @ ''], '' @ to_string (int energy)"

text \<open>
  C18: Reading back a printed line of an energy file yields the rail and its sample, for every
  channel and rail name without the characters the parser looks for and every 64-bit counter.
\<close>

theorem energy_line_roundtrip:
  assumes "CHR ''T'' \<notin> set channel" and "CHR '')'' \<notin> set channel" and "CHR '']'' \<notin> set channel"
    and "CHR '']'' \<notin> set rail" and "duration < 2 ^ 64" and "energy < 2 ^ 64"
    and len: "length (show_energy_line channel rail duration energy) < 2 ^ 64"
  shows "parse_energy_line (show_energy_line channel rail duration energy) =
    Some (rail, \<lparr>ps_energy_counter = energy, ps_duration = duration\<rparr>)"
proof -
  let ?d = "to_string (int duration)" and ?e = "to_string (int energy)"
  let ?a1 = "channel @ ''(''" and ?b1 = "?d @ '')['' @ rail @ ''], '' @ ?e"
  let ?a2 = "channel @ ''(T='' @ ?d" and ?b2 = "rail @ ''], '' @ ?e"
  let ?a3 = "channel @ ''(T='' @ ?d @ '')['' @ rail"
  define line where "line = show_energy_line channel rail duration energy"
  have d: "CHR '')'' \<notin> set ?d" "CHR '']'' \<notin> set ?d"
    using to_string_digit by (force simp: is_digit_def char_code_def)+
  have l1: "line = ?a1 @ ''T='' @ ?b1" and l2: "line = ?a2 @ '')['' @ ?b2"
    and l2': "line = ?a2 @ '')'' @ ''['' @ ?b2"
    and l3: "line = ?a3 @ ''],'' @ '' '' @ ?e" and l3': "line = ?a3 @ '']'' @ '', '' @ ?e"
    by (simp_all add: line_def show_energy_line_def)
  have f1: "find_sub ''T='' line = Some (length ?a1)"
    unfolding l1 using assms(1) by (intro find_sub_first) auto
  have f2: "find_sub '')['' line = Some (length ?a2)"
    unfolding l2 using assms(2) d by (intro find_sub_first) auto
  have f2': "find_sub '')'' line = Some (length ?a2)"
    unfolding l2' using assms(2) d by (intro find_sub_first) auto
  have f3: "find_sub ''],'' line = Some (length ?a3)"
    unfolding l3 using assms(3,4) d by (intro find_sub_first) auto
  have f3': "find_sub '']'' line = Some (length ?a3)"
    unfolding l3' using assms(3,4) d by (intro find_sub_first) auto
  have t1: "text_between line (length ?a1 + 2) (int (length ?a2)) = ?d"
    using text_between_mid [of "?a1 @ ''T=''" ?d "'')['' @ ?b2"] len
    by (simp add: show_energy_line_def line_def)
  have t2: "text_between line (length ?a2 + 2) (int (length ?a3)) = rail"
    using text_between_mid [of "?a2 @ '')[''" rail "''], '' @ ?e"] len
    by (simp add: show_energy_line_def line_def)
  have "length ''],'' = 2" by simp
  then have "drop (length ?a3 + 2) line = '' '' @ ?e"
    unfolding l3 using drop_past [of ?a3 "''],''" "'' '' @ ?e"] by (simp only: append_assoc)
  then have n2: "strtoul10 (drop (length ?a3 + 2) line) = int energy"
    using strtoul10_to_string [OF assms(6), of "[]"] by (simp add: strtoul10_space is_space_def char_code_def)
  have n1: "strtoul10 ?d = int duration" using strtoul10_to_string [OF assms(5), of "[]"] by simp
  show ?thesis
    unfolding line_def [symmetric] parse_energy_line_def f1 f2 f2' f3 f3'
    by (simp only: option.case pos_of_def Let_def t1 t2 n1 n2 nat_int)
qed

theorem energy_line_roundtrip_witness:
  "parse_energy_line (show_energy_line ''CH3'' ''S2M_VDD_CPUCL2'' 358356 761330) =
    Some (''S2M_VDD_CPUCL2'', \<lparr>ps_energy_counter = 761330, ps_duration = 358356\<rparr>)"
proof (rule energy_line_roundtrip)
  show "length (show_energy_line ''CH3'' ''S2M_VDD_CPUCL2'' 358356 761330) < 2 ^ 64"
    using length_to_string [of 358356] length_to_string [of 761330] by (simp add: show_energy_line_def)
qed simp_all

end
