(* ===== verification/ConfigValues.thy ===== *)
theory ConfigValues
  imports Text ThermalTypes
begin

text \<open>
  Reading the thermal configuration (aidl/thermal/utils/thermal_info.cpp): the values every section
  is made of, and the inclusion of one file in another. A parser ends in one of three ways: it
  returns true with what it has read, it returns false (\<open>None\<close>), or it leaves the function by an
  exception or an abort (a fault). After \<open>false\<close> the caller gives up the whole configuration, so
  what a failing parser leaves in its out parameters is not part of the model.
\<close>

section \<open>Parsers\<close>

type_synonym 'a parse = "'a option result"

definition bindP :: "'a parse \<Rightarrow> ('a \<Rightarrow> 'b parse) \<Rightarrow> 'b parse" where
  "bindP m f = (case m of Inl e \<Rightarrow> Inl e | Inr None \<Rightarrow> Inr None | Inr (Some x) \<Rightarrow> f x)"

definition okP :: "'a \<Rightarrow> 'a parse" where "okP x = Inr (Some x)"
definition failP :: "'a parse" where "failP = Inr None"

definition needP :: "bool \<Rightarrow> unit parse" where
  "needP b = (if b then okP () else failP)"

definition liftP :: "'a result \<Rightarrow> 'a parse" where
  "liftP m = (case m of Inl e \<Rightarrow> Inl e | Inr x \<Rightarrow> okP x)"

definition ofP :: "'a option \<Rightarrow> 'a parse" where "ofP m = Inr m"

fun mapP :: "('a \<Rightarrow> 'b parse) \<Rightarrow> 'a list \<Rightarrow> 'b list parse" where
  "mapP f [] = okP []"
| "mapP f (x # xs) = bindP (f x) (\<lambda>y. bindP (mapP f xs) (\<lambda>ys. okP (y # ys)))"

fun foldP :: "('a \<Rightarrow> 's \<Rightarrow> 's parse) \<Rightarrow> 'a list \<Rightarrow> 's \<Rightarrow> 's parse" where
  "foldP f [] s = okP s"
| "foldP f (x # xs) s = bindP (f x s) (foldP f xs)"

named_theorems parse_simps \<open>evaluating parsers\<close>

lemma bindP_simps [simp, parse_simps]:
  "bindP (Inl e) f = Inl e" "bindP failP f = failP" "bindP (Inr None) f = Inr None"
  "bindP (okP x) f = f x" "bindP (Inr (Some x)) f = f x"
  by (simp_all add: bindP_def failP_def okP_def)

lemma needP_simps [simp, parse_simps]: "needP True = okP ()" "needP False = failP"
  by (simp_all add: needP_def)

lemma liftP_simps [simp, parse_simps]: "liftP (Inl e) = Inl e" "liftP (Inr x) = okP x"
  by (simp_all add: liftP_def)

lemma okP_eq [simp]: "okP x = okP y \<longleftrightarrow> x = y" "okP x \<noteq> failP" "failP \<noteq> okP x" "Inl e \<noteq> okP x" "okP x \<noteq> Inl e"
    "Inr None \<noteq> okP x" "okP x \<noteq> Inr None" "Inr (Some y) = okP x \<longleftrightarrow> y = x"
  by (auto simp: okP_def failP_def)

lemma needP_ok [simp]: "needP b = okP u \<longleftrightarrow> b"
  by (cases b) auto

lemma liftP_ok [simp]: "liftP m = okP x \<longleftrightarrow> m = Inr x"
  by (cases m) (auto simp: okP_def)

lemma ofP_ok [simp]: "ofP m = okP x \<longleftrightarrow> m = Some x"
  by (auto simp: ofP_def okP_def)

lemma bindP_okE [elim!]:
  assumes "bindP m f = okP y"
  obtains x where "m = okP x" and "f x = okP y"
  using assms by (cases m) (auto simp: bindP_def okP_def split: option.splits)

lemma bindP_ok_iff: "bindP m f = okP y \<longleftrightarrow> (\<exists>x. m = okP x \<and> f x = okP y)"
  by (cases m) (auto simp: bindP_def okP_def split: option.splits)

lemma bindP_cong [fundef_cong]:
  "m = m' \<Longrightarrow> (\<And>a. m' = okP a \<Longrightarrow> f a = f' a) \<Longrightarrow> bindP m f = bindP m' f'"
  by (cases m') (auto simp: bindP_def okP_def split: option.splits)

lemma mapP_ok_length: "mapP f xs = okP ys \<Longrightarrow> length ys = length xs"
  by (induction xs arbitrary: ys) auto

lemma mapP_ok_nth: "mapP f xs = okP ys \<Longrightarrow> i < length xs \<Longrightarrow> f (xs ! i) = okP (ys ! i)"
  by (induction xs arbitrary: ys i) (auto simp: nth_Cons split: nat.splits)

lemma foldP_inv:
  assumes "foldP f xs s = okP s'" and "I s"
    and "\<And>x s s'. x \<in> set xs \<Longrightarrow> I s \<Longrightarrow> f x s = okP s' \<Longrightarrow> I s'"
  shows "I s'"
  using assms
proof (induction xs arbitrary: s)
  case (Cons x xs)
  then obtain s1 where s1: "f x s = okP s1" "foldP f xs s1 = okP s'" by auto
  have "I s1" by (rule Cons.prems(3) [OF _ Cons.prems(2) s1(1)]) simp
  then show ?case using s1(2) Cons.prems(3) by (intro Cons.IH) auto
qed simp

section \<open>Numbers\<close>

text \<open>\<open>stoul\<close> yields an \<open>unsigned long\<close>, which is converted to \<open>int\<close>.\<close>

definition getIntFromValue :: "'j json_ops \<Rightarrow> 'j \<Rightarrow> int result" where
  "getIntFromValue J value =
     (if jisString J value
      then if jasString J value = ''max'' then Inr INT_MAX
           else bindE (stoul (jasString J value)) (\<lambda>n. Inr (to_int32 n))
      else Inr (jasInt J value))"

text \<open>An array of seven numbers; an array out of order ends the process.\<close>

fun int_values :: "'j json_ops \<Rightarrow> bool \<Rightarrow> bool \<Rightarrow> int \<Rightarrow> 'j list \<Rightarrow> int list result" where
  "int_values J inc_check dec_check last_v [] = Inr []"
| "int_values J inc_check dec_check last_v (v # vs) =
     bindE (getIntFromValue J v) (\<lambda>r.
     if inc_check \<and> r < last_v then Inl Abort
     else if dec_check \<and> last_v < r then Inl Abort
     else bindE (int_values J inc_check dec_check r vs) (\<lambda>rs. Inr (r # rs)))"

definition getIntFromJsonValues :: "'j json_ops \<Rightarrow> 'j \<Rightarrow> bool \<Rightarrow> bool \<Rightarrow> int sev_array parse" where
  "getIntFromJsonValues J values inc_check dec_check =
     (if inc_check \<and> dec_check then failP
      else if jsize J values \<noteq> 7 then failP
      else
        liftP (bindE (int_values J inc_check dec_check (if inc_check then INT_MIN else INT_MAX) (jlist J values))
          (\<lambda>rs. Inr (sev_array_of rs))))"

fun float_values :: "'j json_ops \<Rightarrow> bool \<Rightarrow> bool \<Rightarrow> flt \<Rightarrow> 'j list \<Rightarrow> flt list result" where
  "float_values J inc_check dec_check last_v [] = Inr []"
| "float_values J inc_check dec_check last_v (v # vs) =
     (let r = getFloatFromValue J v
      in if inc_check \<and> \<not> isnan last_v \<and> \<not> isnan r \<and> flt_lt r last_v then Inl Abort
         else if dec_check \<and> \<not> isnan last_v \<and> \<not> isnan r \<and> flt_lt last_v r then Inl Abort
         else bindE (float_values J inc_check dec_check (if isnan r then last_v else r) vs) (\<lambda>rs. Inr (r # rs)))"

definition getFloatFromJsonValues :: "'j json_ops \<Rightarrow> 'j \<Rightarrow> bool \<Rightarrow> bool \<Rightarrow> flt sev_array parse" where
  "getFloatFromJsonValues J values inc_check dec_check =
     (if inc_check \<and> dec_check then failP
      else if jsize J values \<noteq> 7 then failP
      else liftP (bindE (float_values J inc_check dec_check NaN (jlist J values)) (\<lambda>rs. Inr (sev_array_of rs))))"

section \<open>Ranges of plausible temperatures\<close>

record TempRangeInfo =
  tr_max_temp_threshold :: int
  tr_min_temp_threshold :: int

record TempStuckInfo =
  tk_min_polling_count :: int
  tk_min_stuck_duration :: int

definition getTempRangeInfoFromJsonValues :: "'j json_ops \<Rightarrow> 'j \<Rightarrow> TempRangeInfo parse" where
  "getTempRangeInfoFromJsonValues J values =
     (if jsize J values \<noteq> 2 then failP
      else
        let min_temp = getFloatFromValue J (jat J values 0); max_temp = getFloatFromValue J (jat J values 1)
        in if isnan min_temp \<or> isnan max_temp then failP
           else if flt_lt max_temp min_temp then failP
           else bindP (liftP (to_int_f min_temp)) (\<lambda>lo. bindP (liftP (to_int_f max_temp)) (\<lambda>hi.
                okP \<lparr>tr_max_temp_threshold = hi, tr_min_temp_threshold = lo\<rparr>)))"

definition getTempStuckInfoFromJsonValue :: "'j json_ops \<Rightarrow> 'j \<Rightarrow> TempStuckInfo parse" where
  "getTempStuckInfoFromJsonValue J values =
     (if jempty J (jget J values ''MinStuckDuration'') then failP
      else bindP (liftP (getIntFromValue J (jget J values ''MinStuckDuration''))) (\<lambda>duration.
        if duration \<le> 0 then failP
        else if jempty J (jget J values ''MinPollingCount'') then failP
        else bindP (liftP (getIntFromValue J (jget J values ''MinPollingCount''))) (\<lambda>polls.
          if polls \<le> 0 then failP
          else okP \<lparr>tk_min_polling_count = polls, tk_min_stuck_duration = duration\<rparr>)))"

section \<open>Included files\<close>

text \<open>
  A configuration as far as \<open>ParseThermalConfig\<close> handles it: the entries of its sections with
  their names, and the statistics section, whose sensor thresholds are merged.
\<close>

record 'j config_file =
  cf_include :: "string list"
  cf_sensors :: "'j smap"
  cf_cooling_devices :: "'j smap"
  cf_power_rails :: "'j smap"
  cf_stats :: "'j smap option"

definition MergeConfigEntries :: "'j smap \<Rightarrow> 'j smap \<Rightarrow> 'j smap" where
  "MergeConfigEntries config_entries sub_entries =
     config_entries @ filter (\<lambda>e. fst e \<notin> fst ` set config_entries) sub_entries"

definition merge_config :: "'j config_file \<Rightarrow> 'j config_file \<Rightarrow> 'j config_file" where
  "merge_config config sub_config = config\<lparr>
     cf_sensors := MergeConfigEntries (cf_sensors config) (cf_sensors sub_config),
     cf_cooling_devices := MergeConfigEntries (cf_cooling_devices config) (cf_cooling_devices sub_config),
     cf_power_rails := MergeConfigEntries (cf_power_rails config) (cf_power_rails sub_config),
     cf_stats := (case (cf_stats config, cf_stats sub_config) of
         (s, None) \<Rightarrow> s
       | (None, Some s) \<Rightarrow> Some s
       | (Some s, Some s') \<Rightarrow> Some (MergeConfigEntries s s'))\<rparr>"

text \<open>
  \<open>files\<close> are the files that can be read and parsed. The recursion is bounded by fuel: the first
  component of the result is \<open>None\<close> when it runs out, which \<open>ParseThermalConfig_terminates\<close> excludes.
  The loaded paths are returned, since the code shares one set.
\<close>

fun ParseThermalConfig ::
    "nat \<Rightarrow> 'j config_file smap \<Rightarrow> string \<Rightarrow> string list \<Rightarrow> ('j config_file option \<times> string list) option"
  and parse_includes ::
    "nat \<Rightarrow> 'j config_file smap \<Rightarrow> string list \<Rightarrow> 'j config_file \<Rightarrow> string list
      \<Rightarrow> ('j config_file option \<times> string list) option"
where
  "ParseThermalConfig 0 files path loaded = None"
| "ParseThermalConfig (Suc fuel) files path loaded =
     (if path \<in> set loaded then Some (None, loaded)
      else case map_of files path of
        None \<Rightarrow> Some (None, loaded)
      | Some config \<Rightarrow> parse_includes fuel files (cf_include config) config (path # loaded))"
| "parse_includes fuel files [] config loaded = Some (Some config, loaded)"
| "parse_includes fuel files (p # ps) config loaded =
     (case ParseThermalConfig fuel files (''/vendor/etc/'' @ p) loaded of
        None \<Rightarrow> None
      | Some (None, loaded') \<Rightarrow> Some (None, loaded')
      | Some (Some sub_config, loaded') \<Rightarrow>
          parse_includes fuel files ps (merge_config config sub_config) loaded')"

end
