(* ===== verification/ConfigSensor.thy ===== *)
theory ConfigSensor
  imports ConfigValues VtEstimator
begin

text \<open>
  The virtual sensors and predictors of the thermal configuration (\<open>ParseOffsetThresholds\<close>,
  \<open>ParseVirtualSensorInfo\<close> and \<open>ParsePredictorInfo\<close> of thermal_info.cpp). A virtual sensor is read
  together with its estimator, which the C++ record owns.
\<close>

section \<open>Offsets\<close>

fun offset_pairs :: "'j json_ops \<Rightarrow> ('j \<times> 'j) list \<Rightarrow> flt option \<Rightarrow> (flt \<times> flt) list parse" where
  "offset_pairs J [] prev = okP []"
| "offset_pairs J ((t, v) # rest) prev =
     (let th = jasFloat J t; val = jasFloat J v
      in if isnan th \<or> isnan val then failP
         else if (case prev of None \<Rightarrow> False | Some p \<Rightarrow> flt_lt th p) then failP
         else bindP (offset_pairs J rest (Some th)) (\<lambda>ps. okP ((th, val) # ps)))"

definition ParseOffsetThresholds :: "'j json_ops \<Rightarrow> 'j \<Rightarrow> (flt list \<times> flt list) parse" where
  "ParseOffsetThresholds J sensor =
     (let ths = jget J sensor ''OffsetThresholds''; vals = jget J sensor ''OffsetValues''
      in if jempty J ths then okP ([], [])
         else if jsize J ths \<noteq> jsize J vals then failP
         else bindP (offset_pairs J (zip (jlist J ths) (jlist J vals)) None) (\<lambda>ps. okP (map fst ps, map snd ps)))"

section \<open>Virtual sensors\<close>

definition formula_of :: "string \<Rightarrow> FormulaOption parse" where
  "formula_of s =
     (if s = ''COUNT_THRESHOLD'' then okP COUNT_THRESHOLD else if s = ''WEIGHTED_AVG'' then okP WEIGHTED_AVG
      else if s = ''MAXIMUM'' then okP MAXIMUM else if s = ''MINIMUM'' then okP MINIMUM
      else if s = ''USE_ML_MODEL'' then okP USE_ML_MODEL else if s = ''USE_LINEAR_MODEL'' then okP USE_LINEAR_MODEL
      else if s = ''PREVIOUSLY_PREDICTED'' then okP PREVIOUSLY_PREDICTED else failP)"

definition fusion_type_of :: "string \<Rightarrow> SensorFusionType parse" where
  "fusion_type_of s =
     (if s = ''SENSOR'' then okP SENSOR else if s = ''ODPM'' then okP ODPM
      else if s = ''CONSTANT'' then okP CONSTANT else if s = ''CDEV'' then okP CDEV else failP)"

definition coefficient_type_of :: "string \<Rightarrow> SensorFusionType parse" where
  "coefficient_type_of s =
     (if s = ''CONSTANT'' then okP CONSTANT else if s = ''SENSOR'' then okP SENSOR
      else if s = ''ODPM'' then okP ODPM else failP)"

definition strings_of :: "'j json_ops \<Rightarrow> 'j \<Rightarrow> string list" where
  "strings_of J v = map (jasString J) (jlist J v)"

definition trigger_sensor :: "'j json_ops \<Rightarrow> 'j \<Rightarrow> string parse" where
  "trigger_sensor J v = (if jisString J v then okP (jasString J v) else failP)"

definition trigger_sensors_of :: "'j json_ops \<Rightarrow> 'j \<Rightarrow> string list parse" where
  "trigger_sensors_of J values =
     (if jempty J values then okP []
      else if jisString J values then okP [jasString J values]
      else if jsize J values \<noteq> 0 then mapP (trigger_sensor J) (jlist J values)
      else failP)"

definition needs_coefficients :: "FormulaOption \<Rightarrow> bool" where
  "needs_coefficients f \<longleftrightarrow> f \<noteq> USE_ML_MODEL \<and> f \<noteq> PREVIOUSLY_PREDICTED"

text \<open>\<open>CombinationType\<close>, \<open>Coefficient\<close> and \<open>CoefficientType\<close>.\<close>

definition linked_types_of :: "'j json_ops \<Rightarrow> 'j \<Rightarrow> string list \<Rightarrow> SensorFusionType list parse" where
  "linked_types_of J sensor linked =
     (let values = jget J sensor ''CombinationType''
      in if jsize J values = 0 then okP (replicate (length linked) SENSOR)
         else if jsize J values \<noteq> length linked then failP
         else mapP fusion_type_of (strings_of J values))"

definition coefficients_of :: "'j json_ops \<Rightarrow> 'j \<Rightarrow> FormulaOption \<Rightarrow> string list \<Rightarrow> string list parse" where
  "coefficients_of J sensor formula linked =
     (let values = jget J sensor ''Coefficient''
      in if jsize J values = 0 \<and> needs_coefficients formula then failP
         else
           let cs = strings_of J values
           in if length linked \<noteq> length cs \<and> needs_coefficients formula \<and> formula \<noteq> USE_LINEAR_MODEL
              then failP else okP cs)"

definition coefficient_types_of ::
    "'j json_ops \<Rightarrow> 'j \<Rightarrow> string list \<Rightarrow> string list \<Rightarrow> SensorFusionType list parse"
where
  "coefficient_types_of J sensor linked cs =
     (let values = jget J sensor ''CoefficientType''
      in bindP (if jsize J values = 0 then okP (replicate (length linked) CONSTANT)
                else if jsize J values \<noteq> length cs then failP
                else mapP coefficient_type_of (strings_of J values)) (\<lambda>types.
         if length linked \<noteq> length types then failP else okP types))"

text \<open>\<open>asInt\<close> assigned to a \<open>size_t\<close>.\<close>

definition size_of_int :: "int \<Rightarrow> nat" where "size_of_int i = nat (i mod 2 ^ 64)"

definition ml_init_data ::
    "'j json_ops \<Rightarrow> 'j \<Rightarrow> flt list \<times> flt list \<Rightarrow> MLModelInitData"
where
  "ml_init_data J sensor offsets =
     \<lparr> ml_model_path = ''vendor/etc/'' @ jasString J (jget J sensor ''ModelPath''),
       ml_use_prev_samples = (\<not> jempty J (jget J sensor ''PreviousSampleCount'')),
       ml_prev_samples_order =
         (if jempty J (jget J sensor ''PreviousSampleCount'') then 1
          else size_of_int (jasInt J (jget J sensor ''PreviousSampleCount''))),
       ml_output_label_count =
         (if jempty J (jget J sensor ''OutputLabelCount'') then 1
          else size_of_int (jasInt J (jget J sensor ''OutputLabelCount''))),
       ml_num_hot_spots =
         (if jempty J (jget J sensor ''PredictHotSpotCount'') then 1
          else size_of_int (jasInt J (jget J sensor ''PredictHotSpotCount''))),
       ml_enable_input_validation = jasBool J (jget J sensor ''ValidateInput''),
       ml_offset_thresholds = fst offsets, ml_offset_values = snd offsets,
       ml_support_under_sampling = jasBool J (jget J sensor ''SupportUnderSampling'') \<rparr>"

definition parse_ml_estimator ::
    "'j json_ops \<Rightarrow> 'j tflite_wrapper \<Rightarrow> string \<Rightarrow> 'j \<Rightarrow> string list \<Rightarrow> VirtualTempEstimator parse"
where
  "parse_ml_estimator J wr name sensor linked =
     (if jempty J (jget J sensor ''ModelPath'') then failP
      else if linked = [] then failP
      else
        bindP (ParseOffsetThresholds J sensor) (\<lambda>offsets.
        bindP (liftP (Initialize J wr (ml_model_init_data (ml_init_data J sensor offsets))
                        (new_estimator name kUseMLModel (length linked)))) (\<lambda>(ret, vt).
        if ret \<noteq> kVtEstimatorOk then failP else okP vt)))"

definition parse_linear_estimator ::
    "'j json_ops \<Rightarrow> 'j tflite_wrapper \<Rightarrow> string \<Rightarrow> 'j \<Rightarrow> string list \<Rightarrow> string list \<Rightarrow> VirtualTempEstimator parse"
where
  "parse_linear_estimator J wr name sensor linked cs =
     (if linked = [] \<or> length cs < length linked then failP
      else
        bindP (ParseOffsetThresholds J sensor) (\<lambda>offsets.
        let values = map atof cs
        in if \<exists>c \<in> set values. isnan c then failP
           else
             bindP (liftP (Initialize J wr (linear_model_init_data
                 \<lparr> li_use_prev_samples = (length linked < length cs),
                   li_prev_samples_order = length cs div length linked, li_coefficients = values,
                   li_offset_thresholds = fst offsets, li_offset_values = snd offsets \<rparr>)
                 (new_estimator name kUseLinearModel (length linked)))) (\<lambda>(ret, vt).
             if ret \<noteq> kVtEstimatorOk then failP else okP vt)))"

definition parse_estimator ::
    "'j json_ops \<Rightarrow> 'j tflite_wrapper \<Rightarrow> string \<Rightarrow> 'j \<Rightarrow> FormulaOption \<Rightarrow> string list \<Rightarrow> string list
      \<Rightarrow> VirtualTempEstimator option parse"
where
  "parse_estimator J wr name sensor formula linked cs =
     (if formula = USE_ML_MODEL then bindP (parse_ml_estimator J wr name sensor linked) (\<lambda>vt. okP (Some vt))
      else if formula = USE_LINEAR_MODEL
      then bindP (parse_linear_estimator J wr name sensor linked cs) (\<lambda>vt. okP (Some vt))
      else okP None)"

definition ParseVirtualSensorInfo ::
    "'j json_ops \<Rightarrow> 'j tflite_wrapper \<Rightarrow> string \<Rightarrow> 'j
      \<Rightarrow> (VirtualSensorInfo \<times> VirtualTempEstimator option) option parse"
where
  "ParseVirtualSensorInfo J wr name sensor =
     (let v = jget J sensor ''VirtualSensor''
      in if jempty J v \<or> \<not> jisBool J v then okP None
         else if \<not> jasBool J v then okP None
         else
           let linked = strings_of J (jget J sensor ''Combination'')
           in if linked = [] then failP
              else
                bindP (formula_of (jasString J (jget J sensor ''Formula''))) (\<lambda>formula.
                bindP (linked_types_of J sensor linked) (\<lambda>types.
                bindP (coefficients_of J sensor formula linked) (\<lambda>cs.
                bindP (coefficient_types_of J sensor linked cs) (\<lambda>ctypes.
                bindP (trigger_sensors_of J (jget J sensor ''TriggerSensor'')) (\<lambda>triggers.
                bindP (parse_estimator J wr name sensor formula linked cs) (\<lambda>vt.
                okP (Some
                  (\<lparr> vs_linked_sensors = linked, vs_linked_sensors_type = types, vs_coefficients = cs,
                     vs_coefficients_type = ctypes,
                     vs_offset = (if jempty J (jget J sensor ''Offset'') then Fin 0
                                  else jasFloat J (jget J sensor ''Offset'')),
                     vs_trigger_sensors = triggers, vs_formula = formula,
                     vs_backup_sensor = (if jempty J (jget J sensor ''BackupSensor'') then []
                                         else jasString J (jget J sensor ''BackupSensor'')) \<rparr>, vt)))))))))"

section \<open>Predictors\<close>

text \<open>
  \<open>garbage\<close> is the content of the local array \<open>k_p_compensate\<close>, which the code copies into the
  record even when it has not read it.
\<close>

definition parse_compensation ::
    "'j json_ops \<Rightarrow> flt sev_array \<Rightarrow> 'j \<Rightarrow> (bool \<times> flt list \<times> flt sev_array) parse"
where
  "parse_compensation J garbage predictor =
     (let w = jget J predictor ''PredictionWeight''; k = jget J predictor ''KPCompensate''
      in if jempty J w \<or> jempty J k then okP (False, [], garbage)
         else if jsize J w = 0 then failP
         else bindP (getFloatFromJsonValues J k False False) (\<lambda>ks.
              okP (True, map (jasFloat J) (jlist J w), ks)))"

definition ParsePredictorInfo ::
    "'j json_ops \<Rightarrow> flt sev_array \<Rightarrow> 'j \<Rightarrow> PredictorInfo option parse"
where
  "ParsePredictorInfo J garbage sensor =
     (let predictor = jget J sensor ''PredictorInfo''; has_predictor = (\<not> jempty J predictor);
          supports = jasBool J (jget J sensor ''SupportPrediction'');
          predicted = (jasString J (jget J sensor ''Formula'') = ''PREVIOUSLY_PREDICTED'')
      in if has_predictor \<and> jempty J (jget J predictor ''Sensor'') then failP
         else
           bindP (if has_predictor then parse_compensation J garbage predictor else okP (False, [], garbage))
             (\<lambda>(pid, weights, ks).
           if supports \<and> (jempty J (jget J sensor ''SampleDuration'') \<or> jempty J (jget J sensor ''OutputLabelCount''))
           then failP
           else if predicted \<and> jempty J (jget J sensor ''PredictionDuration'') then failP
           else if \<not> (has_predictor \<or> supports \<or> predicted) then okP None
           else okP (Some
             \<lparr> pi_sensor = (if has_predictor then jasString J (jget J predictor ''Sensor'') else []),
               pi_support_pid_compensation = pid, pi_prediction_weights = weights, pi_k_p_compensate = ks,
               pi_supports_predictions = supports,
               pi_prediction_sample_interval = (if supports then jasInt J (jget J sensor ''SampleDuration'') else 0),
               pi_num_prediction_samples = (if supports then jasInt J (jget J sensor ''OutputLabelCount'') else 0),
               pi_prediction_duration = (if predicted then jasInt J (jget J sensor ''PredictionDuration'') else 0) \<rparr>)))"

section \<open>The statistics of the configuration\<close>

text \<open>
  The statistics section of the thermal configuration (\<open>ParseStatsInfo\<close> and the three functions
  after it in thermal_info.cpp). The template is instantiated twice: with \<open>float\<close> for temperatures
  and with \<open>int\<close> for requests of cooling devices.
\<close>

section \<open>Records\<close>

record 'a ThresholdList =
  tl_logging_name :: "string option"
  tl_thresholds :: "'a list"

text \<open>The variant: a flag for all names, or the set of the names (in order of insertion).\<close>

datatype record_default = RecordAll bool | RecordNames "string list"

record 'a StatsInfo =
  st_record_default :: record_default
  st_record_by_threshold :: "'a ThresholdList list smap"

record AbnormalStatsInfo =
  ab_default_temp_range_info :: "TempRangeInfo option"
  ab_sensors_temp_range_infos :: "(string list \<times> TempRangeInfo) list"
  ab_default_temp_stuck_info :: "TempStuckInfo option"
  ab_sensors_temp_stuck_infos :: "(string list \<times> TempStuckInfo) list"

definition kMaxStatsThresholdCount :: nat where "kMaxStatsThresholdCount = 19"

section \<open>Thresholds\<close>

text \<open>
  \<open>read\<close> yields a value of the array's type and \<open>le\<close> compares two. For \<open>int\<close> the two arms of the
  conditional expression have the common type \<open>float\<close>, so the number is converted to \<open>float\<close> and
  back.
\<close>

fun stats_thresholds :: "('j \<Rightarrow> 'a result) \<Rightarrow> ('a \<Rightarrow> 'a \<Rightarrow> bool) \<Rightarrow> 'a \<Rightarrow> 'j list \<Rightarrow> 'a list parse" where
  "stats_thresholds read le prev [] = okP []"
| "stats_thresholds read le prev (v # vs) =
     bindP (liftP (read v)) (\<lambda>t.
     if le t prev then failP
     else bindP (stats_thresholds read le t vs) (\<lambda>ts. okP (t # ts)))"

definition read_float_threshold :: "'j json_ops \<Rightarrow> 'j \<Rightarrow> flt result" where
  "read_float_threshold J v = Inr (getFloatFromValue J v)"

definition read_int_threshold :: "'j json_ops \<Rightarrow> 'j \<Rightarrow> int result" where
  "read_int_threshold J v = bindE (getIntFromValue J v) (\<lambda>i. to_int_f (of_int_f i))"

definition threshold_entry ::
    "'j json_ops \<Rightarrow> ('j \<Rightarrow> 'a result) \<Rightarrow> ('a \<Rightarrow> 'a \<Rightarrow> bool) \<Rightarrow> 'a \<Rightarrow> (string \<Rightarrow> bool) \<Rightarrow> 'j
      \<Rightarrow> 'a ThresholdList list smap \<Rightarrow> 'a ThresholdList list smap parse"
where
  "threshold_entry J read le min_value known v m =
     (let name = jasString J (jget J v ''Name''); l = jget J v ''LoggingName''; t = jget J v ''Thresholds''
      in if \<not> known name then failP
         else if jempty J t then failP
         else if kMaxStatsThresholdCount < jsize J t then failP
         else
           bindP (stats_thresholds read le min_value (jlist J t)) (\<lambda>ts.
           okP (put name
             ((case map_of m name of None \<Rightarrow> [] | Some old \<Rightarrow> old)
              @ [\<lparr>tl_logging_name = (if jempty J l then None else Some (jasString J l)), tl_thresholds = ts\<rparr>]) m)))"

definition record_default_of :: "'j json_ops \<Rightarrow> (string \<Rightarrow> bool) \<Rightarrow> 'j \<Rightarrow> record_default parse" where
  "record_default_of J known stats =
     (let e = jget J stats ''DefaultThresholdEnableAll''; r = jget J stats ''RecordWithDefaultThreshold'';
          enable_all = (\<not> jempty J e \<and> jisBool J e \<and> jasBool J e)
      in if jsize J r = 0 then okP (RecordAll enable_all)
         else if enable_all then failP
         else if \<forall>n \<in> set (strings_of J r). known n then okP (RecordNames (remdups (strings_of J r)))
         else failP)"

text \<open>\<open>None\<close> inside the success is "no section": the caller's record stays.\<close>

definition ParseStatsInfo ::
    "'j json_ops \<Rightarrow> ('j \<Rightarrow> 'a result) \<Rightarrow> ('a \<Rightarrow> 'a \<Rightarrow> bool) \<Rightarrow> 'a \<Rightarrow> (string \<Rightarrow> bool) \<Rightarrow> 'j \<Rightarrow> 'a StatsInfo option parse"
where
  "ParseStatsInfo J read le min_value known stats =
     (if jempty J stats then okP None
      else
        bindP (record_default_of J known stats) (\<lambda>dflt.
        bindP (foldP (threshold_entry J read le min_value known)
                 (jlist J (jget J stats ''RecordWithThreshold'')) []) (\<lambda>m.
        okP (Some \<lparr>st_record_default = dflt, st_record_by_threshold = m\<rparr>))))"

section \<open>Abnormal temperatures\<close>

text \<open>
  \<open>&default_temp_range_info.value()\<close> on an optional that is always empty at this point throws.
\<close>

definition parse_default_info :: "'j json_ops \<Rightarrow> 'j \<Rightarrow> 'a option parse" where
  "parse_default_info J v = (if jtrue J v then liftP (Inl BadOptional) else okP None)"

fun monitored :: "(string \<Rightarrow> bool) \<Rightarrow> string list \<Rightarrow> string list \<Rightarrow> string list option" where
  "monitored known seen [] = Some seen"
| "monitored known seen (n # ns) =
     (if \<not> known n then None else if n \<in> set seen then None else monitored known (n # seen) ns)"

definition abnormal_entry ::
    "'j json_ops \<Rightarrow> (string \<Rightarrow> bool) \<Rightarrow> ('j \<Rightarrow> 'a parse) \<Rightarrow> 'j
      \<Rightarrow> string list \<times> (string list \<times> 'a) list \<Rightarrow> (string list \<times> (string list \<times> 'a) list) parse"
where
  "abnormal_entry J known read v acc =
     (let names = strings_of J (jget J v ''Monitor'')
      in if names = [] then failP
         else bindP (ofP (monitored known (fst acc) names)) (\<lambda>seen.
              bindP (read v) (\<lambda>info. okP (seen, snd acc @ [(names, info)]))))"

definition abnormal_section ::
    "'j json_ops \<Rightarrow> (string \<Rightarrow> bool) \<Rightarrow> ('j \<Rightarrow> 'a parse) \<Rightarrow> 'j \<Rightarrow> ('a option \<times> (string list \<times> 'a) list) parse"
where
  "abnormal_section J known read section =
     (if \<not> jtrue J section then okP (None, [])
      else
        bindP (parse_default_info J (jget J section ''Default'')) (\<lambda>dflt.
        let configs = jget J section ''Configs''
        in if \<not> jtrue J configs then okP (dflt, [])
           else bindP (foldP (abnormal_entry J known read) (jlist J configs) ([], [])) (\<lambda>(seen, infos).
                okP (dflt, infos))))"

definition ParseSensorAbnormalStatsConfig ::
    "'j json_ops \<Rightarrow> (string \<Rightarrow> bool) \<Rightarrow> 'j \<Rightarrow> AbnormalStatsInfo option parse"
where
  "ParseSensorAbnormalStatsConfig J known v =
     (if jempty J v then okP None
      else
        bindP (abnormal_section J known (\<lambda>c. getTempRangeInfoFromJsonValues J (jget J c ''TempRange''))
                 (jget J v ''Outlier'')) (\<lambda>(range_default, ranges).
        bindP (abnormal_section J known (\<lambda>c. getTempStuckInfoFromJsonValue J (jget J c ''TempStuck''))
                 (jget J v ''Stuck'')) (\<lambda>(stuck_default, stucks).
        okP (Some \<lparr> ab_default_temp_range_info = range_default, ab_sensors_temp_range_infos = ranges,
                    ab_default_temp_stuck_info = stuck_default, ab_sensors_temp_stuck_infos = stucks \<rparr>))))"

section \<open>The two configurations\<close>

definition ParseSensorStatsConfig ::
    "'j json_ops \<Rightarrow> (string \<Rightarrow> bool) \<Rightarrow> 'j \<Rightarrow> (flt StatsInfo option \<times> AbnormalStatsInfo option) parse"
where
  "ParseSensorStatsConfig J known config =
     (let stats = jget J config ''Stats''; sensors = jget J stats ''Sensors''
      in if jempty J stats then okP (None, None)
         else if jempty J sensors then okP (None, None)
         else
           bindP (ParseStatsInfo J (read_float_threshold J) flt_le (fneg FLT_MAX) known sensors) (\<lambda>info.
           bindP (ParseSensorAbnormalStatsConfig J known (jget J sensors ''Abnormality'')) (\<lambda>abnormal.
           okP (info, abnormal))))"

definition ParseCoolingDeviceStatsConfig ::
    "'j json_ops \<Rightarrow> (string \<Rightarrow> bool) \<Rightarrow> 'j \<Rightarrow> int StatsInfo option parse"
where
  "ParseCoolingDeviceStatsConfig J known config =
     (let stats = jget J config ''Stats''; devices = jget J stats ''CoolingDevices''
      in if jempty J stats then okP None
         else if jempty J devices then okP None
         else ParseStatsInfo J (read_int_threshold J) (\<le>) (- 1) known (jget J devices ''RecordVotePerSensor''))"

end
