(* ===== verification/ConfigCdev.thy ===== *)
theory ConfigCdev
  imports ConfigValues
begin

text \<open>
  The throttling rules of a sensor (\<open>ParseBindedCdevInfo\<close> and \<open>ParseSensorThrottlingInfo\<close> of
  thermal_info.cpp): the cooling devices bound to it, the search of a frequency among the levels
  of a device, and the parameters of the PID algorithm.
\<close>

section \<open>Levels of a frequency\<close>

text \<open>
  The loop with two indices: the frequencies from level \<open>level\<close> on, the limits still to be placed
  and the values their places hold.
\<close>

fun freq_search :: "int list \<Rightarrow> nat \<Rightarrow> int list \<Rightarrow> int list \<Rightarrow> int list" where
  "freq_search [] level limits old = old"
| "freq_search (f # fs) level [] old = old"
| "freq_search (f # fs) level (l # ls) [] = []"
| "freq_search (f # fs) level (l # ls) (d # ds) =
     (if f \<le> l then int level # freq_search (f # fs) level ls ds
      else freq_search fs (Suc level) (l # ls) (d # ds))"

definition frequency_levels :: "int list \<Rightarrow> int sev_array \<Rightarrow> int \<Rightarrow> int sev_array" where
  "frequency_levels freqs limits dflt =
     sev_array_of (freq_search freqs 0 (map limits sev_range) (replicate 7 dflt))"

text \<open>A frequency array of the configuration, searched among the frequencies of the device.\<close>

definition parse_frequency ::
    "'j json_ops \<Rightarrow> int list smap \<Rightarrow> string \<Rightarrow> 'j \<Rightarrow> int \<Rightarrow> int sev_array parse"
where
  "parse_frequency J scaling cdev_name values dflt =
     (case map_of scaling cdev_name of
        None \<Rightarrow> failP
      | Some freqs \<Rightarrow>
          bindP (getIntFromJsonValues J values False True) (\<lambda>limits. okP (frequency_levels freqs limits dflt)))"

section \<open>One bound cooling device\<close>

definition parse_step :: "'j json_ops \<Rightarrow> 'j \<Rightarrow> int parse" where
  "parse_step J v =
     (if jempty J v then okP INT_MAX
      else bindP (liftP (getIntFromValue J v)) (\<lambda>s. if s < 0 then failP else okP s))"

definition parse_ceiling :: "'j json_ops \<Rightarrow> int list smap \<Rightarrow> string \<Rightarrow> 'j \<Rightarrow> int sev_array parse" where
  "parse_ceiling J scaling cdev_name v =
     (let c = jget J v ''CdevCeiling''; cf = jget J v ''CdevCeilingFrequency''
      in if \<not> jempty J c \<and> \<not> jempty J cf then failP
         else if \<not> jempty J c then getIntFromJsonValues J c False False
         else if \<not> jempty J cf then parse_frequency J scaling cdev_name cf INT_MAX
         else okP (\<lambda>_. INT_MAX))"

text \<open>The fields of the PID algorithm: the weights, the ceilings and the two steps.\<close>

definition parse_pid_fields ::
    "'j json_ops \<Rightarrow> bool \<Rightarrow> int list smap \<Rightarrow> string \<Rightarrow> 'j
      \<Rightarrow> (flt sev_array \<times> int sev_array \<times> int \<times> int) parse"
where
  "parse_pid_fields J support_pid scaling cdev_name v =
     (if \<not> support_pid then okP ((\<lambda>_. NaN), (\<lambda>_. INT_MAX), INT_MAX, INT_MAX)
      else
        bindP (if jempty J (jget J v ''CdevWeightForPID'') then okP (\<lambda>_. NaN)
               else getFloatFromJsonValues J (jget J v ''CdevWeightForPID'') False False) (\<lambda>weights.
        bindP (parse_ceiling J scaling cdev_name v) (\<lambda>ceiling.
        bindP (parse_step J (jget J v ''MaxReleaseStep'')) (\<lambda>release.
        bindP (parse_step J (jget J v ''MaxThrottleStep'')) (\<lambda>throttle.
        okP (weights, ceiling, release, throttle))))))"

text \<open>The limits, and whether the entry has any.\<close>

definition parse_limits ::
    "'j json_ops \<Rightarrow> int list smap \<Rightarrow> string \<Rightarrow> 'j \<Rightarrow> (int sev_array \<times> bool) parse"
where
  "parse_limits J scaling cdev_name v =
     (let l = jget J v ''LimitInfo''; lf = jget J v ''LimitInfoFrequency''
      in if \<not> jempty J l \<and> \<not> jempty J lf then failP
         else if \<not> jempty J l then bindP (getIntFromJsonValues J l False False) (\<lambda>a. okP (a, True))
         else if \<not> jempty J lf then bindP (parse_frequency J scaling cdev_name lf 0) (\<lambda>a. okP (a, True))
         else okP ((\<lambda>_. 0), False))"

definition release_logic_of :: "string \<Rightarrow> ReleaseLogic parse" where
  "release_logic_of s =
     (if s = ''INCREASE'' then okP INCREASE else if s = ''DECREASE'' then okP DECREASE
      else if s = ''STEPWISE'' then okP STEPWISE else if s = ''RELEASE_TO_FLOOR'' then okP RELEASE_TO_FLOOR
      else failP)"

text \<open>The link to a power rail: rail, high power check, throttling, floors, thresholds, release logic.\<close>

definition parse_power_link ::
    "'j json_ops \<Rightarrow> bool \<Rightarrow> 'j \<Rightarrow> (string \<times> bool \<times> bool \<times> int sev_array \<times> flt sev_array \<times> ReleaseLogic) parse"
where
  "parse_power_link J power_link_disabled v =
     (if power_link_disabled then okP ([], False, False, (\<lambda>_. 0), (\<lambda>_. NaN), RELEASE_NONE)
      else
        let rail = jasString J (jget J v ''BindedPowerRail''); high = jasBool J (jget J v ''HighPowerCheck'');
            link = jasBool J (jget J v ''ThrottlingWithPowerLink''); fl = jget J v ''CdevFloorWithPowerLink'';
            th = jget J v ''PowerThreshold''
        in bindP (if jsize J fl \<noteq> 0 then getIntFromJsonValues J fl False False else okP (\<lambda>_. 0)) (\<lambda>floors.
           if jsize J th = 0 then okP (rail, high, link, floors, (\<lambda>_. NaN), RELEASE_NONE)
           else
             bindP (getFloatFromJsonValues J th False False) (\<lambda>thresholds.
             bindP (release_logic_of (jasString J (jget J v ''ReleaseLogic''))) (\<lambda>logic.
             okP (rail, high, link, floors, thresholds, logic)))))"

text \<open>
  One entry: whether it has set the hard limit flag, which it does before it reads the power link,
  and the record, \<open>None\<close> if the entry is invalid.
\<close>

definition parse_binded_entry ::
    "'j json_ops \<Rightarrow> bool \<Rightarrow> bool \<Rightarrow> int list smap \<Rightarrow> string \<Rightarrow> 'j \<Rightarrow> (bool \<times> BindedCdevInfo option) result"
where
  "parse_binded_entry J power_link_disabled support_pid scaling cdev_name v =
     bindE (parse_pid_fields J support_pid scaling cdev_name v) (\<lambda>pid.
     case pid of None \<Rightarrow> Inr (False, None)
     | Some (weights, ceiling, release, throttle) \<Rightarrow>
     bindE (parse_limits J scaling cdev_name v) (\<lambda>limits.
     case limits of None \<Rightarrow> Inr (False, None)
     | Some (limit_info, hard) \<Rightarrow>
     bindE (parse_power_link J power_link_disabled v) (\<lambda>link.
     case link of None \<Rightarrow> Inr (hard, None)
     | Some (rail, high, with_link, floors, thresholds, logic) \<Rightarrow>
       Inr (hard, Some
         \<lparr> bc_limit_info = limit_info, bc_power_thresholds = thresholds, bc_release_logic = logic,
           bc_cdev_weight_for_pid = weights, bc_cdev_ceiling = ceiling, bc_max_release_step = release,
           bc_max_throttle_step = throttle, bc_cdev_floor_with_power_link = floors, bc_power_rail = rail,
           bc_high_power_check = high, bc_throttling_with_power_link = with_link,
           bc_enabled = (\<not> jasBool J (jget J v ''Disabled'')) \<rparr>))))"

text \<open>
  The loop over the entries: whether it succeeded, the map, and the flag. An entry whose device is
  unknown leaves the map as it is, any other failure clears it.
\<close>

fun ParseBindedCdevInfo ::
    "'j json_ops \<Rightarrow> bool \<Rightarrow> bool \<Rightarrow> int list smap \<Rightarrow> CdevInfo smap \<Rightarrow> 'j list \<Rightarrow> BindedCdevInfo smap \<Rightarrow> bool
      \<Rightarrow> (bool \<times> BindedCdevInfo smap \<times> bool) result"
where
  "ParseBindedCdevInfo J pld pid scaling cdevs [] m hard = Inr (True, m, hard)"
| "ParseBindedCdevInfo J pld pid scaling cdevs (v # vs) m hard =
     (let cdev_name = jasString J (jget J v ''CdevRequest'')
      in if \<not> has cdevs cdev_name then Inr (False, m, hard)
         else
           bindE (parse_binded_entry J pld pid scaling cdev_name v) (\<lambda>(h, info).
           case info of
             None \<Rightarrow> Inr (False, [], hard \<or> h)
           | Some i \<Rightarrow> ParseBindedCdevInfo J pld pid scaling cdevs vs (put cdev_name i m) (hard \<or> h)))"

section \<open>PID parameters\<close>

definition pid_array :: "'j json_ops \<Rightarrow> 'j \<Rightarrow> string \<Rightarrow> bool \<Rightarrow> flt sev_array parse" where
  "pid_array J pid key dec_check =
     (if jempty J (jget J pid key) then failP else getFloatFromJsonValues J (jget J pid key) False dec_check)"

definition parse_k_i :: "'j json_ops \<Rightarrow> 'j \<Rightarrow> (flt sev_array \<times> flt sev_array) parse" where
  "parse_k_i J pid =
     (let k = jget J pid ''K_I''; ko = jget J pid ''K_Io''; ku = jget J pid ''K_Iu''
      in if \<not> jempty J k
         then if \<not> jempty J ko \<or> \<not> jempty J ku then failP
              else bindP (getFloatFromJsonValues J k False False) (\<lambda>a. okP (a, a))
         else if \<not> jempty J ko \<and> \<not> jempty J ku
         then bindP (getFloatFromJsonValues J ko False False) (\<lambda>a.
              bindP (getFloatFromJsonValues J ku False False) (\<lambda>b. okP (a, b)))
         else failP)"

definition no_pid_info :: ThrottlingInfo where
  "no_pid_info = \<lparr> ti_k_po = (\<lambda>_. Fin 0), ti_k_pu = (\<lambda>_. Fin 0), ti_k_io = (\<lambda>_. Fin 0), ti_k_iu = (\<lambda>_. Fin 0),
     ti_k_d = (\<lambda>_. Fin 0), ti_i_max = (\<lambda>_. NaN), ti_max_alloc_power = (\<lambda>_. NaN), ti_min_alloc_power = (\<lambda>_. NaN),
     ti_s_power = (\<lambda>_. NaN), ti_i_cutoff = (\<lambda>_. NaN), ti_i_default = Fin 0, ti_i_default_pct = NaN,
     ti_tran_cycle = 0, ti_excluded_power_info_map = [], ti_binded_cdev_info_map = [], ti_profile_map = [] \<rparr>"

definition pid_hole :: "ThrottlingInfo \<Rightarrow> severity \<Rightarrow> bool" where
  "pid_hole ti s \<longleftrightarrow> isnan (ti_k_po ti s) \<or> isnan (ti_k_pu ti s) \<or> isnan (ti_k_io ti s) \<or> isnan (ti_k_iu ti s)
     \<or> isnan (ti_k_d ti s) \<or> isnan (ti_i_max ti s) \<or> isnan (ti_max_alloc_power ti s)
     \<or> isnan (ti_min_alloc_power ti s) \<or> isnan (ti_i_cutoff ti s)"

fun valid_pid :: "ThrottlingInfo \<Rightarrow> bool \<Rightarrow> severity list \<Rightarrow> bool" where
  "valid_pid ti valid [] = valid"
| "valid_pid ti valid (s # ss) =
     (if isnan (ti_s_power ti s) then valid_pid ti valid ss
      else if pid_hole ti s then False
      else valid_pid ti True ss)"

definition parse_defaults :: "'j json_ops \<Rightarrow> 'j \<Rightarrow> (flt \<times> flt) parse" where
  "parse_defaults J pid =
     (let d = jget J pid ''I_Default''; p = jget J pid ''I_Default_Pct''
      in if \<not> jempty J d \<and> \<not> jempty J p then failP
         else if \<not> jempty J d then okP (getFloatFromValue J d, NaN)
         else if \<not> jempty J p then okP (Fin 0, getFloatFromValue J p)
         else okP (Fin 0, NaN))"

definition parse_pid_info :: "'j json_ops \<Rightarrow> 'j \<Rightarrow> ThrottlingInfo parse" where
  "parse_pid_info J pid =
     bindP (pid_array J pid ''K_Po'' False) (\<lambda>k_po. bindP (pid_array J pid ''K_Pu'' False) (\<lambda>k_pu.
     bindP (parse_k_i J pid) (\<lambda>(k_io, k_iu). bindP (pid_array J pid ''K_D'' False) (\<lambda>k_d.
     bindP (pid_array J pid ''I_Max'' False) (\<lambda>i_max.
     bindP (pid_array J pid ''MaxAllocPower'' True) (\<lambda>max_alloc.
     bindP (pid_array J pid ''MinAllocPower'' True) (\<lambda>min_alloc.
     bindP (pid_array J pid ''S_Power'' True) (\<lambda>s_power.
     bindP (pid_array J pid ''I_Cutoff'' False) (\<lambda>i_cutoff.
     bindP (parse_defaults J pid) (\<lambda>(i_default, i_default_pct).
     bindP (liftP (to_int_f (getFloatFromValue J (jget J pid ''TranCycle'')))) (\<lambda>tran_cycle.
     let ti = no_pid_info\<lparr> ti_k_po := k_po, ti_k_pu := k_pu, ti_k_io := k_io, ti_k_iu := k_iu, ti_k_d := k_d,
           ti_i_max := i_max, ti_max_alloc_power := max_alloc, ti_min_alloc_power := min_alloc,
           ti_s_power := s_power, ti_i_cutoff := i_cutoff, ti_i_default := i_default,
           ti_i_default_pct := i_default_pct, ti_tran_cycle := tran_cycle \<rparr>
     in if valid_pid ti False sev_range then okP ti else failP)))))))))))"

section \<open>Profiles and excluded rails\<close>

definition profile_fits :: "BindedCdevInfo smap \<Rightarrow> BindedCdevInfo smap \<Rightarrow> bool" where
  "profile_fits dflt profile \<longleftrightarrow> length dflt = length profile \<and>
     (\<forall>(n, i) \<in> set profile. (case map_of dflt n of None \<Rightarrow> False | Some d \<Rightarrow> bc_power_rail i = bc_power_rail d))"

text \<open>A profile that cannot be parsed is only logged: what its map then holds is compared all the same.\<close>

definition parse_profile ::
    "'j json_ops \<Rightarrow> bool \<Rightarrow> bool \<Rightarrow> int list smap \<Rightarrow> CdevInfo smap \<Rightarrow> BindedCdevInfo smap \<Rightarrow> 'j
      \<Rightarrow> BindedCdevInfo smap smap \<times> bool \<Rightarrow> (BindedCdevInfo smap smap \<times> bool) parse"
where
  "parse_profile J pld pid scaling cdevs dflt v acc =
     bindP (liftP (ParseBindedCdevInfo J pld pid scaling cdevs (jlist J (jget J v ''BindedCdevInfo'')) [] (snd acc)))
       (\<lambda>(ok, profile, hard).
     if profile_fits dflt profile then okP (put (jasString J (jget J v ''Mode'')) profile (fst acc), hard) else failP)"

definition parse_excluded :: "'j json_ops \<Rightarrow> 'j \<Rightarrow> flt sev_array smap \<Rightarrow> flt sev_array smap parse" where
  "parse_excluded J v m =
     (let rail = jasString J (jget J v ''PowerRail''); w = jget J v ''PowerWeight''
      in if rail = [] then failP
         else
           bindP (if jempty J w then okP (\<lambda>_. of_int_f 1) else getFloatFromJsonValues J w False False) (\<lambda>weight.
           okP (put rail weight m)))"

text \<open>The throttling information of a sensor, and whether it supports throttling at all.\<close>

definition ParseSensorThrottlingInfo ::
    "'j json_ops \<Rightarrow> bool \<Rightarrow> int list smap \<Rightarrow> CdevInfo smap \<Rightarrow> 'j \<Rightarrow> (ThrottlingInfo \<times> bool) parse"
where
  "ParseSensorThrottlingInfo J pld scaling cdevs sensor =
     (let pid = jget J sensor ''PIDInfo''; support_pid = (\<not> jempty J pid)
      in bindP (if support_pid then parse_pid_info J pid else okP no_pid_info) (\<lambda>ti.
         bindP (liftP (ParseBindedCdevInfo J pld support_pid scaling cdevs
                         (jlist J (jget J sensor ''BindedCdevInfo'')) [] False)) (\<lambda>(ok, binded, hard).
         if \<not> ok then failP
         else
           bindP (foldP (parse_profile J pld support_pid scaling cdevs binded)
                    (jlist J (jget J sensor ''Profile'')) ([], hard)) (\<lambda>(profiles, hard').
           bindP (foldP (parse_excluded J) (jlist J (jget J sensor ''ExcludedPowerInfo'')) []) (\<lambda>excluded.
           okP (ti\<lparr> ti_excluded_power_info_map := excluded, ti_binded_cdev_info_map := binded,
                    ti_profile_map := profiles \<rparr>, support_pid \<or> hard'))))))"

end
