(* ===== verification/ConfigRoot.thy ===== *)
theory ConfigRoot
  imports ConfigSensor ConfigCdev PowerRails
begin

text \<open>
  The sections of the thermal configuration (\<open>ParseSensorInfo\<close>, \<open>ParseCoolingDevice\<close> and
  \<open>ParsePowerRailInfo\<close> of thermal_info.cpp). The names of the AIDL enumerations, which a
  generated header holds, are a parameter \<open>type_of\<close>; \<open>files\<close> are the readable files.
\<close>

section \<open>Thresholds\<close>

text \<open>\<open>std::numeric_limits<float>::min()\<close>, the least positive normal number.\<close>

definition FLT_MIN :: flt where "FLT_MIN = Fin (2 ^ 23)"

text \<open>Hot thresholds may not decrease, cold ones not increase; NaN is no threshold.\<close>

fun hot_threshold_values :: "flt \<Rightarrow> flt list \<Rightarrow> bool" where
  "hot_threshold_values low [] = True"
| "hot_threshold_values low (t # ts) =
     (if isnan t then hot_threshold_values low ts
      else if flt_lt t low then False else hot_threshold_values t ts)"

fun cold_threshold_values :: "flt \<Rightarrow> flt list \<Rightarrow> bool" where
  "cold_threshold_values high [] = True"
| "cold_threshold_values high (t # ts) =
     (if isnan t then cold_threshold_values high ts
      else if flt_lt high t then False else cold_threshold_values t ts)"

definition parse_thresholds ::
    "'j json_ops \<Rightarrow> 'j \<Rightarrow> (flt list \<Rightarrow> bool) \<Rightarrow> flt sev_array parse"
where
  "parse_thresholds J values accept =
     (if jsize J values = 0 then okP (\<lambda>_. NaN)
      else if jsize J values \<noteq> 7 then failP
      else
        let ts = map (getFloatFromValue J) (jlist J values)
        in if accept ts then okP (sev_array_of ts) else failP)"

definition parse_hysteresis :: "'j json_ops \<Rightarrow> 'j \<Rightarrow> flt sev_array parse" where
  "parse_hysteresis J values =
     (if jsize J values = 0 then okP (\<lambda>_. Fin 0)
      else if jsize J values \<noteq> 7 then failP
      else
        let hs = map (getFloatFromValue J) (jlist J values)
        in if \<exists>h \<in> set hs. isnan h then failP else okP (sev_array_of hs))"

text \<open>Each threshold is compared with the next one there is, less (cold: plus) its hysteresis.\<close>

fun hot_overlap :: "flt sev_array \<Rightarrow> flt sev_array \<Rightarrow> severity list \<Rightarrow> bool" where
  "hot_overlap hot hyst [] = False"
| "hot_overlap hot hyst (j # ks) =
     (if isnan (hot j) then hot_overlap hot hyst ks
      else (case find (\<lambda>k. \<not> isnan (hot k)) ks of
              None \<Rightarrow> False
            | Some k \<Rightarrow> flt_lt (fsub (hot k) (hyst k)) (hot j)) \<or> hot_overlap hot hyst ks)"

fun cold_overlap :: "flt sev_array \<Rightarrow> flt sev_array \<Rightarrow> severity list \<Rightarrow> bool" where
  "cold_overlap cold hyst [] = False"
| "cold_overlap cold hyst (j # ks) =
     (if isnan (cold j) then cold_overlap cold hyst ks
      else (case find (\<lambda>k. \<not> isnan (cold k)) ks of
              None \<Rightarrow> False
            | Some k \<Rightarrow> flt_lt (cold j) (fadd (cold k) (hyst k))) \<or> cold_overlap cold hyst ks)"

section \<open>One sensor\<close>

definition parse_flag :: "'j json_ops \<Rightarrow> 'j \<Rightarrow> bool" where
  "parse_flag J v \<longleftrightarrow> \<not> jempty J v \<and> jisBool J v \<and> jasBool J v"

definition parse_send_cb :: "'j json_ops \<Rightarrow> 'j \<Rightarrow> bool" where
  "parse_send_cb J sensor =
     (let m = jget J sensor ''Monitor''; c = jget J sensor ''SendCallback''
      in if \<not> jempty J m \<and> jisBool J m then jasBool J m
         else if \<not> jempty J c \<and> jisBool J c then jasBool J c else False)"

text \<open>
  Only logging compares the level; a negative one, which the code stores, lies below all severities
  as NONE does.
\<close>

definition parse_log_level :: "'j json_ops \<Rightarrow> 'j \<Rightarrow> severity" where
  "parse_log_level J v =
     (if jempty J v then NONE
      else let level = jasInt J v in if level < 0 \<or> 6 < level then NONE else sev_range ! nat level)"

definition parse_delay :: "'j json_ops \<Rightarrow> 'j \<Rightarrow> int \<Rightarrow> int parse" where
  "parse_delay J v dflt =
     (if jempty J v then okP dflt
      else bindP (liftP (getIntFromValue J v)) (\<lambda>d. okP (if 0 < d then d else MS_MAX)))"

definition parse_step_ratio :: "'j json_ops \<Rightarrow> 'j \<Rightarrow> flt parse" where
  "parse_step_ratio J sensor =
     (let v = jget J sensor ''StepRatio''
      in if jempty J v then okP NaN
         else
           let r = jasFloat J v
           in if flt_lt r (Fin 0) \<or> flt_lt (of_int_f 1) r then failP
              else if jempty J (jget J sensor ''PassiveDelay'') then failP
              else okP r)"

definition parse_severity_reference :: "'j json_ops \<Rightarrow> 'j \<Rightarrow> string list" where
  "parse_severity_reference J v = (if jisString J v then [jasString J v] else strings_of J v)"

text \<open>The six arrays of a sensor: thresholds, hysteresis, and the checks between them.\<close>

definition parse_bands ::
    "'j json_ops \<Rightarrow> 'j \<Rightarrow> (flt sev_array \<times> flt sev_array \<times> flt sev_array \<times> flt sev_array) parse"
where
  "parse_bands J sensor =
     bindP (parse_thresholds J (jget J sensor ''HotThreshold'') (hot_threshold_values FLT_MIN)) (\<lambda>hot.
     bindP (parse_hysteresis J (jget J sensor ''HotHysteresis'')) (\<lambda>hot_hyst.
     if hot_overlap hot hot_hyst sev_range then failP
     else
       bindP (parse_thresholds J (jget J sensor ''ColdThreshold'') (cold_threshold_values FLT_MAX)) (\<lambda>cold.
       bindP (parse_hysteresis J (jget J sensor ''ColdHysteresis'')) (\<lambda>cold_hyst.
       if cold_overlap cold cold_hyst sev_range then failP else okP (hot, hot_hyst, cold, cold_hyst)))))"

definition kUeventPollTimeoutMs :: int where "kUeventPollTimeoutMs = 300000"
definition kMinPollIntervalMs :: int where "kMinPollIntervalMs = 2000"

text \<open>What the parser reads beside the JSON values.\<close>

record 'j config_env =
  ce_type_of :: "string \<Rightarrow> int option"
  ce_files :: "string \<Rightarrow> string option"
  ce_power_link_disabled :: bool
  ce_wrapper :: "'j tflite_wrapper"
  ce_garbage :: "flt sev_array"

definition parse_sensor ::
    "'j json_ops \<Rightarrow> 'j config_env \<Rightarrow> int list smap \<Rightarrow> CdevInfo smap \<Rightarrow> string \<Rightarrow> 'j
      \<Rightarrow> (SensorInfo \<times> VirtualTempEstimator option) parse"
where
  "parse_sensor J env scaling cdevs name sensor =
     bindP (ofP (ce_type_of env (jasString J (jget J sensor ''Type'')))) (\<lambda>ty.
     let send_cb = parse_send_cb J sensor; send_powerhint = parse_flag J (jget J sensor ''SendPowerHint'');
         is_hidden = parse_flag J (jget J sensor ''Hidden'') in
     bindP (parse_bands J sensor) (\<lambda>(hot, hot_hyst, cold, cold_hyst).
     bindP (parse_delay J (jget J sensor ''PollingDelay'') kUeventPollTimeoutMs) (\<lambda>polling.
     bindP (parse_delay J (jget J sensor ''PassiveDelay'') kMinPollIntervalMs) (\<lambda>passive.
     bindP (if jempty J (jget J sensor ''TimeResolution'') then okP kMinPollIntervalMs
            else liftP (getIntFromValue J (jget J sensor ''TimeResolution''))) (\<lambda>resolution.
     bindP (parse_step_ratio J sensor) (\<lambda>step_ratio.
     if is_hidden \<and> send_cb then failP
     else
       bindP (ParseVirtualSensorInfo J (ce_wrapper env) name sensor) (\<lambda>virtual.
       bindP (ParsePredictorInfo J (ce_garbage env) sensor) (\<lambda>predictor.
       bindP (ParseSensorThrottlingInfo J (ce_power_link_disabled env) scaling cdevs sensor)
         (\<lambda>(throttling, support_throttling).
       okP
        (\<lparr> si_type = ty, si_hot_thresholds = hot, si_cold_thresholds = cold,
           si_hot_hysteresis = hot_hyst, si_cold_hysteresis = cold_hyst,
           si_temp_path = (if jempty J (jget J sensor ''TempPath'') then []
                           else jasString J (jget J sensor ''TempPath'')),
           si_severity_reference = parse_severity_reference J (jget J sensor ''SeverityReference''),
           si_zone_name = (if jempty J (jget J sensor ''ZoneName'') then name
                           else jasString J (jget J sensor ''ZoneName'')),
           si_vr_threshold = (if jempty J (jget J sensor ''VrThreshold'') then NaN
                              else getFloatFromValue J (jget J sensor ''VrThreshold'')),
           si_multiplier = (if jempty J (jget J sensor ''Multiplier'') then of_int_f 1
                            else jasFloat J (jget J sensor ''Multiplier'')),
           si_polling_delay = polling, si_passive_delay = passive, si_time_resolution = resolution,
           si_step_ratio = step_ratio, si_send_cb = send_cb, si_send_powerhint = send_powerhint,
           si_is_watch = (send_cb \<or> send_powerhint \<or> support_throttling), si_is_hidden = is_hidden,
           si_is_trip_point_ignorable = parse_flag J (jget J sensor ''TripPointIgnorable''),
           si_log_level = parse_log_level J (jget J sensor ''LogLevel''),
           si_virtual_sensor_info = map_option fst virtual, si_throttling_info = Some throttling,
           si_predictor_info = predictor \<rparr>,
         case virtual of None \<Rightarrow> None | Some (_, vt) \<Rightarrow> vt))))))))))"

section \<open>All sensors\<close>

text \<open>The available frequencies of a device, reversed if they start from the small end.\<close>

definition strictly_decreasing :: "int list \<Rightarrow> bool" where
  "strictly_decreasing fs \<longleftrightarrow> (\<forall>i < length fs - 1. fs ! Suc i < fs ! i)"

definition scaling_step ::
    "'j json_ops \<Rightarrow> (string \<Rightarrow> string option) \<Rightarrow> 'j \<Rightarrow> int list smap \<Rightarrow> int list smap parse"
where
  "scaling_step J files cdev m =
     (let p = jget J cdev ''ScalingAvailableFrequenciesPath''; name = jasString J (jget J cdev ''Name'')
      in if jempty J p \<or> jasBool J (jget J cdev ''isDisabled'') then okP m
         else case files (jasString J p) of
           None \<Rightarrow> failP
         | Some text \<Rightarrow>
             let fs = (case map_of m name of None \<Rightarrow> [] | Some old \<Rightarrow> old) @ read_numbers INT_MIN INT_MAX text
             in if fs = [] then liftP (Inl UB)
                else
                  let fs' = (if hd fs < last fs then rev fs else fs)
                  in if strictly_decreasing fs' then okP (put name fs' m) else failP)"

definition sensor_step ::
    "'j json_ops \<Rightarrow> 'j config_env \<Rightarrow> int list smap \<Rightarrow> CdevInfo smap \<Rightarrow> 'j
      \<Rightarrow> SensorInfo smap \<times> VirtualTempEstimator smap \<Rightarrow> (SensorInfo smap \<times> VirtualTempEstimator smap) parse"
where
  "sensor_step J env scaling cdevs sensor acc =
     (let name = jasString J (jget J sensor ''Name'')
      in if name = [] then failP
         else if jasBool J (jget J sensor ''isDisabled'') then okP acc
         else if has (fst acc) name then failP
         else
           bindP (parse_sensor J env scaling cdevs name sensor) (\<lambda>(info, vt).
           okP (put name info (fst acc),
                case vt of None \<Rightarrow> snd acc | Some e \<Rightarrow> put name e (snd acc))))"

definition ParseSensorInfo ::
    "'j json_ops \<Rightarrow> 'j config_env \<Rightarrow> 'j \<Rightarrow> CdevInfo smap \<Rightarrow> (SensorInfo smap \<times> VirtualTempEstimator smap) parse"
where
  "ParseSensorInfo J env config cdevs =
     bindP (foldP (scaling_step J (ce_files env)) (jlist J (jget J config ''CoolingDevices'')) []) (\<lambda>scaling.
     foldP (sensor_step J env scaling cdevs) (jlist J (jget J config ''Sensors'')) ([], []))"

section \<open>Cooling devices\<close>

definition cdev_step ::
    "'j json_ops \<Rightarrow> (string \<Rightarrow> int option) \<Rightarrow> 'j \<Rightarrow> CdevInfo smap \<Rightarrow> CdevInfo smap parse"
where
  "cdev_step J type_of cdev m =
     (let name = jasString J (jget J cdev ''Name''); mu = jget J cdev ''Multiplier''
      in if name = [] then failP
         else if jasBool J (jget J cdev ''isDisabled'') then okP m
         else if \<not> jempty J mu \<and> flt_le (jasFloat J mu) (Fin 0) then failP
         else if has m name then failP
         else
           bindP (ofP (type_of (jasString J (jget J cdev ''Type'')))) (\<lambda>ty.
           okP (put name
             \<lparr> ci_type = ty, ci_read_path = jasString J (jget J cdev ''ReadPath''),
               ci_write_path = jasString J (jget J cdev ''WritePath''),
               ci_state2power = map (getFloatFromValue J) (jlist J (jget J cdev ''State2Power'')),
               ci_max_state = 0,
               ci_apply_powercap = (jasBool J (jget J cdev ''PowerCap'') \<and> jisBool J (jget J cdev ''PowerCap'')),
               ci_multiplier = (if jempty J mu then of_int_f 1 else jasFloat J mu) \<rparr> m)))"

definition ParseCoolingDevice ::
    "'j json_ops \<Rightarrow> (string \<Rightarrow> int option) \<Rightarrow> 'j \<Rightarrow> CdevInfo smap parse"
where
  "ParseCoolingDevice J type_of config =
     foldP (cdev_step J type_of) (jlist J (jget J config ''CoolingDevices'')) []"

section \<open>Power rails\<close>

definition rail_formula_of :: "string \<Rightarrow> FormulaOption parse" where
  "rail_formula_of s =
     (if s = ''COUNT_THRESHOLD'' then okP COUNT_THRESHOLD else if s = ''WEIGHTED_AVG'' then okP WEIGHTED_AVG
      else if s = ''MAXIMUM'' then okP MAXIMUM else if s = ''MINIMUM'' then okP MINIMUM else failP)"

definition parse_virtual_rail :: "'j json_ops \<Rightarrow> 'j \<Rightarrow> VirtualPowerRailInfo option parse" where
  "parse_virtual_rail J rail =
     (if \<not> parse_flag J (jget J rail ''VirtualRails'') then okP None
      else
        let linked = strings_of J (jget J rail ''Combination'');
            cs = map (getFloatFromValue J) (jlist J (jget J rail ''Coefficient''));
            off = jget J rail ''Offset''
        in if linked = [] then failP else if cs = [] then failP
           else if length linked \<noteq> length cs then failP
           else
             bindP (rail_formula_of (jasString J (jget J rail ''Formula''))) (\<lambda>formula.
             okP (Some \<lparr> vp_linked_power_rails = linked, vp_coefficients = cs,
               vp_offset = (if jempty J off then Fin 0 else jasFloat J off), vp_formula = formula \<rparr>)))"

definition rail_step_parse ::
    "'j json_ops \<Rightarrow> 'j \<Rightarrow> PowerRailInfo smap \<times> string list smap \<Rightarrow> (PowerRailInfo smap \<times> string list smap) parse"
where
  "rail_step_parse J rail acc =
     (case acc of (rails, switches) \<Rightarrow>
      let name = jasString J (jget J rail ''Name''); d = jget J rail ''PowerSampleDelay'';
          trigger = jget J rail ''TriggerSensor''
      in if name = [] then failP
         else
           bindP (parse_virtual_rail J rail) (\<lambda>virtual.
           bindP (if \<not> jtrue J d then okP MS_MAX else liftP (getIntFromValue J d)) (\<lambda>delay.
           let info = \<lparr> pr_power_sample_count = jasInt J (jget J rail ''PowerSampleCount''),
                        pr_power_sample_delay = delay, pr_virtual_power_rail_info = virtual \<rparr>;
               switches' = (if \<not> jempty J trigger \<and> jisString J trigger
                            then put (jasString J trigger)
                              ((case map_of switches (jasString J trigger) of None \<Rightarrow> [] | Some ns \<Rightarrow> ns) @ [name])
                              switches
                            else switches)
           in okP (put name info rails, switches'))))"

definition ParsePowerRailInfo ::
    "'j json_ops \<Rightarrow> 'j \<Rightarrow> (PowerRailInfo smap \<times> string list smap) parse"
where
  "ParsePowerRailInfo J config =
     foldP (rail_step_parse J) (jlist J (jget J config ''PowerRails'')) ([], [])"

end
