(* ===== verification/ConfigClaims.thy ===== *)
theory ConfigClaims
  imports ConfigRoot ConfigSensor PowerClaims Severity
begin

text \<open>
  What an accepted configuration guarantees the components that read it, and the configurations
  that are handled wrongly.
\<close>

section \<open>Including files\<close>

definition unloaded :: "'j config_file smap \<Rightarrow> string list \<Rightarrow> nat" where
  "unloaded files loaded = card (fst ` set files - set loaded)"

lemma unloaded_Cons:
  assumes "path \<notin> set loaded" and "map_of files path = Some c"
  shows "Suc (unloaded files (path # loaded)) = unloaded files loaded"
proof -
  have "path \<in> fst ` set files" using assms(2) by (metis domI dom_map_of_conv_image_fst)
  then have "fst ` set files - set loaded = insert path (fst ` set files - set (path # loaded))" using assms(1) by auto
  moreover have "path \<notin> fst ` set files - set (path # loaded)" and "finite (fst ` set files - set (path # loaded))"
    by simp_all
  ultimately show ?thesis unfolding unloaded_def by (metis card_insert_disjoint)
qed

lemma unloaded_mono: "set loaded \<subseteq> set loaded' \<Longrightarrow> unloaded files loaded' \<le> unloaded files loaded"
  unfolding unloaded_def by (intro card_mono) auto

lemma include_terminates:
  "unloaded files loaded < fuel \<Longrightarrow>
     \<exists>c l. ParseThermalConfig fuel files path loaded = Some (c, l) \<and> set loaded \<subseteq> set l"
  "unloaded files loaded < fuel \<Longrightarrow>
     \<exists>c l. parse_includes fuel files ps config loaded = Some (c, l) \<and> set loaded \<subseteq> set l"
proof (induction fuel files path loaded and fuel files ps config loaded
    rule: ParseThermalConfig_parse_includes.induct)
  case (2 fuel files path loaded)
  show ?case
  proof (cases "path \<in> set loaded \<or> map_of files path = None")
    case True
    then show ?thesis by auto
  next
    case False
    then obtain config where c: "map_of files path = Some config" "path \<notin> set loaded" by auto
    then have "unloaded files (path # loaded) < fuel"
      using "2.prems" unloaded_Cons [OF c(2,1)] by simp
    then show ?thesis using "2.IH" [OF c(2) c(1)] c by auto
  qed
next
  case (4 fuel files p ps config loaded)
  then obtain sub l where s: "ParseThermalConfig fuel files (''/vendor/etc/'' @ p) loaded = Some (sub, l)"
    "set loaded \<subseteq> set l" by blast
  show ?case
  proof (cases sub)
    case None
    then show ?thesis using s by simp
  next
    case (Some sub_config)
    have "unloaded files l < fuel" using unloaded_mono [OF s(2)] "4.prems" by (rule le_less_trans)
    then have "\<exists>c l'. parse_includes fuel files ps (merge_config config sub_config) l = Some (c, l') \<and> set l \<subseteq> set l'"
      using "4.IH"(2) s(1) Some by simp
    then show ?thesis using s Some by auto
  qed
qed auto

text \<open>
  C16: Reading a configuration ends, whatever the files include and even if they include each other:
  fuel for one more call than there are files is never used up.
\<close>

theorem ParseThermalConfig_terminates:
  "\<exists>result. ParseThermalConfig (Suc (length files)) files path [] = Some result"
proof -
  have "unloaded files [] \<le> length files"
    unfolding unloaded_def by (metis Diff_empty card_image_le card_length empty_set finite_set le_trans)
  then have "unloaded files [] < Suc (length files)" by simp
  then show ?thesis using include_terminates(1) by fast
qed

text \<open>A file included by two others is reported as a circular dependency.\<close>

definition ex_file :: "string list \<Rightarrow> unit config_file" where
  "ex_file includes = \<lparr> cf_include = includes, cf_sensors = [], cf_cooling_devices = [],
     cf_power_rails = [], cf_stats = None \<rparr>"

theorem diamond_include_rejected:
  "fst (the (ParseThermalConfig 9
     [(''main'', ex_file [''a'', ''b'']), (''/vendor/etc/a'', ex_file [''c'']),
      (''/vendor/etc/b'', ex_file [''c'']), (''/vendor/etc/c'', ex_file [])] ''main'' [])) = None"
  by (simp add: ex_file_def eval_nat_numeral)

text \<open>The entries of the including file win.\<close>

lemma MergeConfigEntries_lookup:
  fixes main sub :: "'v smap"
  shows "map_of (MergeConfigEntries main sub) n = (case map_of main n of None \<Rightarrow> map_of sub n | Some v \<Rightarrow> Some v)"
proof -
  have "map_of (filter (\<lambda>e. fst e \<notin> K) xs) n = (if n \<in> K then None else map_of xs n)" for K and xs :: "'v smap"
    by (induction xs) auto
  moreover have "n \<in> fst ` set main" if "map_of main n = Some v" for v
    using that by (metis domI dom_map_of_conv_image_fst)
  ultimately show ?thesis
    by (auto simp: MergeConfigEntries_def map_add_def map_of_eq_None_iff split: option.splits)
qed

section \<open>Levels of a frequency\<close>

definition first_level :: "int list \<Rightarrow> nat \<Rightarrow> int \<Rightarrow> int \<Rightarrow> int" where
  "first_level fs level l d =
     (case find (\<lambda>i. fs ! i \<le> l) [0..<length fs] of None \<Rightarrow> d | Some i \<Rightarrow> int (level + i))"

lemma first_level_Cons:
  "first_level (f # fs) level l d = (if f \<le> l then int level else first_level fs (Suc level) l d)"
proof -
  have "[0..<length (f # fs)] = 0 # map Suc [0..<length fs]" by (simp add: map_Suc_upt upt_conv_Cons del: upt_Suc)
  moreover have "find P (map Suc xs) = map_option Suc (find (P \<circ> Suc) xs)" for P xs
    by (induction xs) auto
  ultimately show ?thesis by (simp add: first_level_def o_def split: option.split)
qed

lemma freq_search_reference:
  assumes "sorted_wrt (\<ge>) limits" and "length old = length limits"
  shows "freq_search fs level limits old = map (\<lambda>(l, d). first_level fs level l d) (zip limits old)"
  using assms
proof (induction fs level limits old rule: freq_search.induct)
  case (1 level limits old)
  then show ?case by (simp add: first_level_def split_def)
next
  case (4 f fs level l ls d ds)
  show ?case
  proof (cases "f \<le> l")
    case True
    then show ?thesis using 4 by (simp add: first_level_Cons)
  next
    case False
    have "\<forall>p \<in> set (zip (l # ls) (d # ds)). \<not> f \<le> fst p"
      using set_zip_leftD [of _ _ "l # ls" "d # ds"] "4.prems"(1) False by fastforce
    then have "map (\<lambda>(l, d). first_level (f # fs) level l d) (zip (l # ls) (d # ds))
        = map (\<lambda>(l, d). first_level fs (Suc level) l d) (zip (l # ls) (d # ds))"
      by (intro map_cong refl) (auto simp: split_def first_level_Cons)
    then show ?thesis using 4 False by simp
  qed
qed auto

text \<open>
  The search with two indices finds, for every severity, the first level of the device whose
  frequency is at most the limit, and leaves the default where there is none; the limits may not
  increase, which the parser checks.
\<close>

theorem frequency_levels_first:
  assumes "\<And>s t. s \<le> t \<Longrightarrow> limits t \<le> limits s"
  shows "frequency_levels freqs limits dflt s =
    (case find (\<lambda>i. freqs ! i \<le> limits s) [0..<length freqs] of None \<Rightarrow> dflt | Some i \<Rightarrow> int i)"
proof -
  have "sorted_wrt (\<ge>) (map limits sev_range)"
    using sorted_sev_range assms by (auto simp: sorted_wrt_map intro: sorted_wrt_mono_rel [of _ "(<)"])
  then have "freq_search freqs 0 (map limits sev_range) (replicate 7 dflt)
      = map (\<lambda>(l, d). first_level freqs 0 l d) (zip (map limits sev_range) (replicate 7 dflt))"
    by (intro freq_search_reference) (simp_all add: sev_range_def)
  then show ?thesis
    by (cases s) (simp_all add: frequency_levels_def sev_array_of_def sev_range_def first_level_def eval_nat_numeral split: option.split)
qed


text \<open>Where no frequency of the device is at or below the limit, the level is 0: no throttling.\<close>

theorem limit_below_lowest_is_unthrottled:
  assumes "jempty J (jget J v ''LimitInfo'')" and "\<not> jempty J (jget J v ''LimitInfoFrequency'')"
    and "map_of scaling cdev = Some freqs" and "parse_limits J scaling cdev v = okP (limit_info, hard)"
    and "getIntFromJsonValues J (jget J v ''LimitInfoFrequency'') False True = okP limits"
    and "\<And>s t. s \<le> t \<Longrightarrow> limits t \<le> limits s" and "\<And>f. f \<in> set freqs \<Longrightarrow> limits s < f"
  shows "limit_info s = 0"
proof -
  have "limit_info = frequency_levels freqs limits 0"
    using assms(1-5) by (auto simp: parse_limits_def parse_frequency_def)
  moreover have "find (\<lambda>i. freqs ! i \<le> limits s) [0..<length freqs] = None"
    using assms(7) by (auto simp: find_None_iff linorder_not_le)
  ultimately show ?thesis by (simp add: frequency_levels_first [OF assms(6)])
qed

section \<open>Accepted thresholds\<close>

lemma hot_overlap_next:
  assumes "\<not> hot_overlap hot hyst ss" and "sorted_wrt (<) ss" and "t \<in> set ss" and "s \<in> set ss" and "t < s"
    and "\<not> isnan (hot t)" and "\<not> isnan (hot s)"
    and pos: "\<And>u. \<not> isnan (hot u) \<Longrightarrow> flt_le (fsub (hot u) (hyst u)) (hot u)"
  shows "flt_le (hot t) (fsub (hot s) (hyst s))"
  using assms(1-7)
proof (induction ss arbitrary: t)
  case (Cons j ks)
  have tail: "\<not> hot_overlap hot hyst ks" using Cons.prems(1) by (cases "isnan (hot j)") auto
  have sk: "s \<in> set ks" using Cons.prems(2-5) by auto
  show ?case
  proof (cases "t = j")
    case False
    then show ?thesis using Cons.IH [OF tail] Cons.prems sk by simp
  next
    case True
    obtain k where k: "find (\<lambda>k. \<not> isnan (hot k)) ks = Some k"
      using sk Cons.prems(7) by (cases "find (\<lambda>k. \<not> isnan (hot k)) ks") (auto simp: find_None_iff)
    then have kk: "k \<in> set ks" "\<not> isnan (hot k)" by (auto simp: find_Some_iff)
    have "\<not> flt_lt (fsub (hot k) (hyst k)) (hot j)" using Cons.prems(1,6) True k by simp
    moreover have "\<not> isnan (fsub (hot k) (hyst k))" using pos [OF kk(2)] by (metis flt_le_not_nan)
    ultimately have jk: "flt_le (hot j) (fsub (hot k) (hyst k))"
      using flt_not_lt Cons.prems(6) True by blast
    show ?thesis
    proof (cases "s = k")
      case True
      then show ?thesis using jk \<open>t = j\<close> by simp
    next
      case False
      have "\<not> s < k"
      proof
        assume "s < k"
        obtain i where "i < length ks" "k = ks ! i" "\<forall>j<i. isnan (hot (ks ! j))"
          using k by (auto simp: find_Some_iff)
        moreover obtain i' where "i' < length ks" "s = ks ! i'" using sk by (auto simp: in_set_conv_nth)
        ultimately show False using \<open>s < k\<close> Cons.prems(2,7)
          by (metis linorder_neqE_nat order_less_asym sorted_wrt.simps(2) sorted_wrt_nth_less)
      qed
      then have "k < s" using False by simp
      then have "flt_le (hot k) (fsub (hot s) (hyst s))"
        using Cons.IH [OF tail _ kk(1) sk] Cons.prems(2,7) kk(2) by simp
      then show ?thesis using jk pos [OF kk(2)] \<open>t = j\<close> flt_le_trans by blast
    qed
  qed
qed simp

lemma parse_bands_hot:
  assumes "parse_bands J sensor = okP (hot, hh, cold, ch)"
  shows "\<not> hot_overlap hot hh sev_range" and "\<not> cold_overlap cold ch sev_range"
  using assms by (auto simp: parse_bands_def split: if_splits)

text \<open>
  The thresholds of a sensor that the parser accepts satisfy what the hysteresis of the
  severities needs, for all pairs of thresholds and not only for the neighbours it compares, as
  soon as no hysteresis is negative, which the parser does not check (0 is its default).
\<close>

theorem accepted_hot_bands:
  assumes "parse_bands J sensor = okP (hot, hh, cold, ch)"
    and "\<And>u. \<not> isnan (hot u) \<Longrightarrow> flt_le (fsub (hot u) (hh u)) (hot u)"
  shows "hot_bands hot hh"
  using assms parse_bands_hot(1) [OF assms(1)] sorted_sev_range hot_overlap_next [of hot hh sev_range]
  by (auto simp: hot_bands_def)

section \<open>Accepted sensors\<close>

text \<open>The lists of a virtual sensor that are indexed together.\<close>

definition virtual_ok :: "VirtualSensorInfo \<Rightarrow> bool" where
  "virtual_ok vs \<longleftrightarrow> vs_linked_sensors vs \<noteq> []
     \<and> length (vs_linked_sensors_type vs) = length (vs_linked_sensors vs)
     \<and> length (vs_coefficients_type vs) = length (vs_linked_sensors vs)
     \<and> (vs_formula vs \<in> {COUNT_THRESHOLD, WEIGHTED_AVG, MAXIMUM, MINIMUM} \<longrightarrow>
          length (vs_coefficients vs) = length (vs_linked_sensors vs))"

lemma ParseVirtualSensorInfo_ok:
  assumes "ParseVirtualSensorInfo J wr name sensor = okP (Some (vs, vt))"
  shows "virtual_ok vs \<and> (vs_formula vs \<in> {USE_ML_MODEL, USE_LINEAR_MODEL} \<longleftrightarrow> vt \<noteq> None)"
proof -
  let ?linked = "strings_of J (jget J sensor ''Combination'')"
  obtain formula types cs ctypes triggers where p: "?linked \<noteq> []"
    "linked_types_of J sensor ?linked = okP types" "coefficients_of J sensor formula ?linked = okP cs"
    "coefficient_types_of J sensor ?linked cs = okP ctypes" "parse_estimator J wr name sensor formula ?linked cs = okP vt"
    and vs: "vs_linked_sensors vs = ?linked" "vs_linked_sensors_type vs = types" "vs_coefficients vs = cs"
      "vs_coefficients_type vs = ctypes" "vs_formula vs = formula"
    using assms by (auto simp: ParseVirtualSensorInfo_def Let_def split: if_splits)
  have "length types = length ?linked"
    using p(2) mapP_ok_length by (force simp: linked_types_of_def strings_of_def jlist_def Let_def split: if_splits)
  moreover have "length ctypes = length ?linked"
    using p(4) by (auto simp: coefficient_types_of_def Let_def split: if_splits)
  moreover have "length cs = length ?linked" if "formula \<in> {COUNT_THRESHOLD, WEIGHTED_AVG, MAXIMUM, MINIMUM}"
    using p(3) that by (auto simp: coefficients_of_def needs_coefficients_def Let_def split: if_splits)
  moreover have "formula \<in> {USE_ML_MODEL, USE_LINEAR_MODEL} \<longleftrightarrow> vt \<noteq> None"
    using p(5) by (auto simp: parse_estimator_def split: if_splits)
  ultimately show ?thesis using p(1) vs by (simp add: virtual_ok_def)
qed

definition sensor_ok :: "SensorInfo \<Rightarrow> bool" where
  "sensor_ok si \<longleftrightarrow>
     \<not> (si_is_hidden si \<and> si_send_cb si) \<and> (si_send_cb si \<longrightarrow> si_is_watch si)
     \<and> si_throttling_info si \<noteq> None
     \<and> \<not> hot_overlap (si_hot_thresholds si) (si_hot_hysteresis si) sev_range
     \<and> \<not> cold_overlap (si_cold_thresholds si) (si_cold_hysteresis si) sev_range
     \<and> (\<forall>vs. si_virtual_sensor_info si = Some vs \<longrightarrow> virtual_ok vs)"

lemma parse_sensor_ok:
  assumes "parse_sensor J env scaling cdevs name sensor = okP (si, vt)"
  shows "sensor_ok si"
proof -
  obtain virtual where "ParseVirtualSensorInfo J (ce_wrapper env) name sensor = okP virtual"
    and "si_virtual_sensor_info si = map_option fst virtual"
    and b: "parse_bands J sensor = okP (si_hot_thresholds si, si_hot_hysteresis si, si_cold_thresholds si, si_cold_hysteresis si)"
    and f: "\<not> (si_is_hidden si \<and> si_send_cb si)" "si_send_cb si \<longrightarrow> si_is_watch si" "si_throttling_info si \<noteq> None"
    using assms by (auto simp: parse_sensor_def Let_def split: if_splits)
  then have "virtual_ok vs" if "si_virtual_sensor_info si = Some vs" for vs
    using that ParseVirtualSensorInfo_ok [of J "ce_wrapper env" name sensor] by (cases virtual) auto
  then show ?thesis using f parse_bands_hot [OF b] by (simp add: sensor_ok_def)
qed

text \<open>
  C17: Every sensor of an accepted configuration is well formed: the lists of a virtual sensor that
  are indexed together have one length, its thresholds do not overlap, a sensor that reports to
  clients is watched and not hidden, and it has throttling information.
\<close>

theorem ParseSensorInfo_establishes:
  assumes "ParseSensorInfo J env config cdevs = okP (sensors, estimators)"
  shows "\<forall>(name, si) \<in> set sensors. name \<noteq> [] \<and> sensor_ok si"
proof -
  obtain scaling where "foldP (sensor_step J env scaling cdevs) (jlist J (jget J config ''Sensors'')) ([], [])
      = okP (sensors, estimators)"
    using assms by (auto simp: ParseSensorInfo_def)
  then have "\<forall>(name, si) \<in> set (fst (sensors, estimators)). name \<noteq> [] \<and> sensor_ok si"
  proof (rule foldP_inv [where I = "\<lambda>acc. \<forall>(name, si) \<in> set (fst acc). name \<noteq> [] \<and> sensor_ok si"])
    fix v acc acc'
    assume I: "\<forall>(name, si) \<in> set (fst acc). name \<noteq> [] \<and> sensor_ok si"
      and step: "sensor_step J env scaling cdevs v acc = okP acc'"
    let ?name = "jasString J (jget J v ''Name'')"
    show "\<forall>(name, si) \<in> set (fst acc'). name \<noteq> [] \<and> sensor_ok si"
    proof (cases "jasBool J (jget J v ''isDisabled'')")
      case True
      then show ?thesis using I step by (auto simp: sensor_step_def Let_def split: if_splits)
    next
      case False
      then obtain si vt where "parse_sensor J env scaling cdevs ?name v = okP (si, vt)"
        and "fst acc' = put ?name si (fst acc)" and "?name \<noteq> []"
        using step by (auto simp: sensor_step_def Let_def split: if_splits)
      then show ?thesis using I parse_sensor_ok set_put [of ?name si "fst acc"] by fastforce
    qed
  qed simp
  then show ?thesis by simp
qed

end
