(* ===== verification/ConfigFaults.thy ===== *)
theory ConfigFaults
  imports ConfigClaims
begin

text \<open>
  The power rails of an accepted configuration fit the code that samples them, unless a sample
  count is negative; the configurations that end the parser with an exception or undefined
  behaviour; and a small instance of the JSON operations with which the examples are evaluated.
\<close>

section \<open>Power rails\<close>

lemma parse_virtual_rail_ok:
  assumes "parse_virtual_rail J rail = okP (Some vp)"
  shows "length (vp_linked_power_rails vp) = length (vp_coefficients vp)" and "vp_linked_power_rails vp \<noteq> []"
  using assms by (auto simp: parse_virtual_rail_def Let_def split: if_splits)

text \<open>
  The power rails of an accepted configuration have distinct names, and every linked rail of a
  virtual rail has its coefficient: with sample counts that are not negative, the states reached
  from registering them are those whose refresh never faults.
\<close>

theorem ParsePowerRailInfo_fits:
  assumes "ParsePowerRailInfo J config = okP (rails, switches)"
    and "\<And>name info. (name, info) \<in> set rails \<Longrightarrow> 0 \<le> pr_power_sample_count info"
  shows "rails_ok rails"
proof -
  let ?I = "\<lambda>acc. distinct (map fst (fst acc)) \<and> (\<forall>(rail, info) \<in> set (fst acc).
     \<forall>vp. pr_virtual_power_rail_info info = Some vp \<longrightarrow> length (vp_linked_power_rails vp) \<le> length (vp_coefficients vp))"
  have "?I (rails, switches)"
  proof (rule foldP_inv [where I = ?I])
    show "foldP (rail_step_parse J) (jlist J (jget J config ''PowerRails'')) ([], []) = okP (rails, switches)"
      using assms(1) by (simp add: ParsePowerRailInfo_def)
    fix v acc acc'
    assume I: "?I acc" and step: "rail_step_parse J v acc = okP acc'"
    have "\<exists>virtual delay. parse_virtual_rail J v = okP virtual \<and> fst acc' = put (jasString J (jget J v ''Name''))
        \<lparr> pr_power_sample_count = jasInt J (jget J v ''PowerSampleCount''), pr_power_sample_delay = delay,
          pr_virtual_power_rail_info = virtual \<rparr> (fst acc)"
      using step by (cases acc) (auto simp: rail_step_parse_def Let_def split: if_splits, (rule exI, rule refl)+)
    then obtain virtual delay where v: "parse_virtual_rail J v = okP virtual"
      and put: "fst acc' = put (jasString J (jget J v ''Name''))
        \<lparr> pr_power_sample_count = jasInt J (jget J v ''PowerSampleCount''), pr_power_sample_delay = delay,
          pr_virtual_power_rail_info = virtual \<rparr> (fst acc)" by blast
    define info where "info = \<lparr> pr_power_sample_count = jasInt J (jget J v ''PowerSampleCount''),
      pr_power_sample_delay = delay, pr_virtual_power_rail_info = virtual \<rparr>"
    have "fst acc' = put (jasString J (jget J v ''Name'')) info (fst acc)" and "pr_virtual_power_rail_info info = virtual"
      using put by (simp_all add: info_def)
    then show "?I acc'" using I v distinct_put set_put [of "jasString J (jget J v ''Name'')" info "fst acc"]
        parse_virtual_rail_ok(1) [of J v] by fastforce
  qed simp
  then show ?thesis using assms(2) by (fastforce simp: rails_ok_def)
qed

text \<open>
  A negative sample count, which the parser accepts and the registration takes for a count,
  gives a rail whose history is empty: the first refresh reads the front of an empty queue.
\<close>

theorem negative_sample_count_undefined:
  assumes "register_rails ((rail, info) # rest) pf = (b, pf')" and "pr_power_sample_count info < 0"
    and "pr_power_sample_delay info \<noteq> MS_MAX" and "pr_virtual_power_rail_info info = None"
    and "map_of (pf_energy_info pf) rail = Some sample" and "rest = []"
    and "map_of (pf_rail_info pf) rail = Some info"
  shows "updatePowerRail now files rail pf' = Inl UB"
proof -
  have "pf' = pf\<lparr>pf_power_status := put rail \<lparr> pw_last_update_time = TIME_MIN, pw_power_history = [[]],
              pw_last_updated_avg_power = NaN, pw_enabled = True \<rparr> (pf_power_status pf)\<rparr>"
    using assms(1-6) by (simp add: sampled_rails_def)
  moreover have "pf_energy_info pf \<noteq> []" using assms(5) by auto
  ultimately show ?thesis using assms(4,5,7)
    by (simp add: updatePowerRail_def rail_power_def updateAveragePower_def)
qed

section \<open>Statistics\<close>

text \<open>
  A configuration with a default range or a default duration for abnormal temperatures ends in
  an exception: the parser writes through \<open>value()\<close> of an optional it has just declared empty.
\<close>

theorem default_outlier_throws:
  assumes "\<not> jempty J v" and "jtrue J (jget J v ''Outlier'')" and "jtrue J (jget J (jget J v ''Outlier'') ''Default'')"
  shows "ParseSensorAbnormalStatsConfig J known v = Inl BadOptional"
  using assms by (simp add: ParseSensorAbnormalStatsConfig_def abnormal_section_def parse_default_info_def)

text \<open>The threshold "max" of a cooling device passes through \<open>float\<close> and does not fit \<open>int\<close> again.\<close>

theorem max_request_threshold_undefined:
  assumes "jisString J v" and "jasString J v = ''max''"
  shows "read_int_threshold J v = Inl UB"
proof -
  have "to_int_f (of_int_f INT_MAX) = Inl UB"
    by (simp add: flt_eval INT_MAX_def INT_MIN_def is_int32_def int32_def)
  then show ?thesis using assms by (simp add: read_int_threshold_def getIntFromValue_def)
qed

section \<open>JSON values\<close>

datatype json = JNull | JBool bool | JNum int | JStr string | JArr "json list" | JObj "json smap"

definition json_get :: "json \<Rightarrow> string \<Rightarrow> json" where
  "json_get v k = (case v of JObj m \<Rightarrow> (case map_of m k of Some x \<Rightarrow> x | None \<Rightarrow> JNull) | _ \<Rightarrow> JNull)"

definition json_values :: "json json_ops" where
  "json_values = \<lparr> jget = json_get,
     jat = (\<lambda>v i. case v of JArr xs \<Rightarrow> if i < length xs then xs ! i else JNull | _ \<Rightarrow> JNull),
     jsize = (\<lambda>v. case v of JArr xs \<Rightarrow> length xs | JObj m \<Rightarrow> length m | _ \<Rightarrow> 0),
     jempty = (\<lambda>v. case v of JNull \<Rightarrow> True | JArr xs \<Rightarrow> xs = [] | JObj m \<Rightarrow> m = [] | _ \<Rightarrow> False),
     jtrue = (\<lambda>v. v \<noteq> JNull),
     jisString = (\<lambda>v. case v of JStr s \<Rightarrow> True | _ \<Rightarrow> False),
     jisBool = (\<lambda>v. case v of JBool b \<Rightarrow> True | _ \<Rightarrow> False),
     jasString = (\<lambda>v. case v of JStr s \<Rightarrow> s | _ \<Rightarrow> []),
     jasBool = (\<lambda>v. case v of JBool b \<Rightarrow> b | _ \<Rightarrow> False),
     jasInt = (\<lambda>v. case v of JNum i \<Rightarrow> i | _ \<Rightarrow> 0), jasUInt = (\<lambda>v. case v of JNum i \<Rightarrow> i | _ \<Rightarrow> 0),
     jasFloat = (\<lambda>v. case v of JNum i \<Rightarrow> of_int_f i | _ \<Rightarrow> Fin 0) \<rparr>"

lemmas json_eval = json_values_def json_get_def jlist_def strings_of_def parse_flag_def getFloatFromValue_def
  getIntFromValue_def

definition ex_rail_config :: json where
  "ex_rail_config = JObj [(''PowerRails'', JArr [JObj
     [(''Name'', JStr ''CPU''), (''PowerSampleCount'', JNum 2), (''PowerSampleDelay'', JNum 1000)]])]"

lemma ex_rail_config_parsed:
  "ParsePowerRailInfo json_values ex_rail_config = okP ([(''CPU'', ex_sampled)], [])"
  by (simp add: ParsePowerRailInfo_def ex_rail_config_def rail_step_parse_def parse_virtual_rail_def json_eval
      put_def ex_sampled_def MS_MAX_def)

theorem ParsePowerRailInfo_fits_witness: "rails_ok [(''CPU'', ex_sampled)]"
  by (rule ParsePowerRailInfo_fits [OF ex_rail_config_parsed]) (simp add: ex_sampled_def)

definition ex_negative :: PowerRailInfo where
  "ex_negative = \<lparr> pr_power_sample_count = - 1, pr_power_sample_delay = 1000, pr_virtual_power_rail_info = None \<rparr>"

definition ex_negative_files :: power_files where
  "ex_negative_files = ex_no_files\<lparr> pf_energy_info := [(''CPU'', \<lparr>ps_energy_counter = 9, ps_duration = 7\<rparr>)],
     pf_rail_info := [(''CPU'', ex_negative)] \<rparr>"

theorem negative_sample_count_undefined_witness:
  "updatePowerRail 5 ex_energy ''CPU'' (snd (register_rails [(''CPU'', ex_negative)] ex_negative_files)) = Inl UB"
  by (rule negative_sample_count_undefined [where info = ex_negative and rest = "[]" and pf = ex_negative_files
        and b = "fst (register_rails [(''CPU'', ex_negative)] ex_negative_files)"
        and sample = "\<lparr>ps_energy_counter = 9, ps_duration = 7\<rparr>"])
    (simp_all add: ex_negative_def ex_negative_files_def MS_MAX_def)

definition ex_outlier_config :: json where
  "ex_outlier_config = JObj [(''Outlier'', JObj [(''Default'', JArr [JNum 0, JNum 100])])]"

theorem default_outlier_throws_witness:
  "ParseSensorAbnormalStatsConfig json_values (\<lambda>_. True) ex_outlier_config = Inl BadOptional"
  by (rule default_outlier_throws) (simp_all add: ex_outlier_config_def json_eval)

definition ex_band_config :: json where
  "ex_band_config = JObj [(''HotThreshold'', JArr (map JNum [1, 2, 3, 4, 5, 6, 7])),
     (''HotHysteresis'', JArr (map JNum [1, 1, 1, 1, 1, 1, 1]))]"

lemma ex_ints: "of_int_f 1 = Fin (2 ^ 149)" "of_int_f 2 = Fin (2 * 2 ^ 149)" "of_int_f 3 = Fin (3 * 2 ^ 149)"
  "of_int_f 4 = Fin (4 * 2 ^ 149)" "of_int_f 5 = Fin (5 * 2 ^ 149)" "of_int_f 6 = Fin (6 * 2 ^ 149)"
  "of_int_f 7 = Fin (7 * 2 ^ 149)"
  by (simp_all add: flt_eval)

lemma ex_differences: "fsub (of_int_f 1) (of_int_f 1) = of_int_f 0" "fsub (of_int_f 2) (of_int_f 1) = of_int_f 1"
  "fsub (of_int_f 3) (of_int_f 1) = of_int_f 2" "fsub (of_int_f 4) (of_int_f 1) = of_int_f 3"
  "fsub (of_int_f 5) (of_int_f 1) = of_int_f 4" "fsub (of_int_f 6) (of_int_f 1) = of_int_f 5"
  "fsub (of_int_f 7) (of_int_f 1) = of_int_f 6"
  by (simp_all add: flt_eval)

definition ex_hot :: "flt sev_array" where "ex_hot = sev_array_of (map of_int_f [1, 2, 3, 4, 5, 6, 7])"
definition ex_hot_hysteresis :: "flt sev_array" where "ex_hot_hysteresis = sev_array_of (map of_int_f [1, 1, 1, 1, 1, 1, 1])"

lemma ex_hot_simps: "ex_hot NONE = of_int_f 1" "ex_hot LIGHT = of_int_f 2" "ex_hot MODERATE = of_int_f 3"
  "ex_hot SEVERE = of_int_f 4" "ex_hot CRITICAL = of_int_f 5" "ex_hot EMERGENCY = of_int_f 6"
  "ex_hot SHUTDOWN = of_int_f 7" "ex_hot_hysteresis s = of_int_f 1"
  by (cases s; simp add: ex_hot_def ex_hot_hysteresis_def sev_array_of_def)+

lemma ex_band_config_parsed:
  "parse_bands json_values ex_band_config = okP (ex_hot, ex_hot_hysteresis, (\<lambda>_. NaN), (\<lambda>_. Fin 0))"
proof -
  have hot: "parse_thresholds json_values (json_get ex_band_config ''HotThreshold'') (hot_threshold_values FLT_MIN) = okP ex_hot"
    by (simp add: parse_thresholds_def json_eval ex_band_config_def ex_hot_def ex_ints FLT_MIN_def upt_conv_Cons)
  have hyst: "parse_hysteresis json_values (json_get ex_band_config ''HotHysteresis'') = okP ex_hot_hysteresis"
    by (simp add: parse_hysteresis_def json_eval ex_band_config_def ex_hot_hysteresis_def upt_conv_Cons)
  have "\<not> hot_overlap ex_hot ex_hot_hysteresis sev_range"
    by (simp add: sev_range_def ex_hot_simps ex_differences)
  moreover have "\<not> cold_overlap (\<lambda>_. NaN) (\<lambda>_. Fin 0) sev_range" by (simp add: sev_range_def)
  ultimately show ?thesis using hot hyst
    by (simp add: parse_bands_def json_values_def parse_thresholds_def parse_hysteresis_def json_get_def ex_band_config_def)
qed

theorem accepted_hot_bands_witness: "hot_bands ex_hot ex_hot_hysteresis"
proof (rule accepted_hot_bands [OF ex_band_config_parsed])
  fix u :: severity
  show "flt_le (fsub (ex_hot u) (ex_hot_hysteresis u)) (ex_hot u)"
    by (cases u) (simp_all add: ex_hot_simps ex_differences, simp_all add: ex_ints)
qed

definition ex_sensor_config :: json where
  "ex_sensor_config = JObj [(''Sensors'', JArr [JObj
     [(''Name'', JStr ''skin''), (''Type'', JStr ''SKIN''), (''SendCallback'', JBool True)]])]"

definition ex_env :: "json config_env" where
  "ex_env = \<lparr> ce_type_of = (\<lambda>s. if s = ''SKIN'' then Some 3 else None), ce_files = (\<lambda>_. None),
     ce_power_link_disabled = False,
     ce_wrapper = \<lparr> wr_linked = False, wr_created = False, wr_init_failed = (\<lambda>_. True), wr_input_config = None,
       wr_invoke = (\<lambda>_ _. (True, [])) \<rparr>, ce_garbage = (\<lambda>_. Fin 0) \<rparr>"

lemma ex_sensor_config_parsed:
  "\<exists>si. ParseSensorInfo json_values ex_env ex_sensor_config [] = okP ([(''skin'', si)], []) \<and> si_send_cb si"
  by (simp add: ParseSensorInfo_def ex_sensor_config_def ex_env_def json_eval sensor_step_def parse_sensor_def
      parse_bands_def parse_thresholds_def parse_hysteresis_def parse_send_cb_def parse_delay_def parse_step_ratio_def
      ParseVirtualSensorInfo_def ParsePredictorInfo_def ParseSensorThrottlingInfo_def sev_range_def has_def put_def
      ofP_def Let_def)

theorem ParseSensorInfo_establishes_witness:
  "\<exists>si. ParseSensorInfo json_values ex_env ex_sensor_config [] = okP ([(''skin'', si)], []) \<and> si_is_watch si"
proof -
  obtain si where si: "ParseSensorInfo json_values ex_env ex_sensor_config [] = okP ([(''skin'', si)], [])" "si_send_cb si"
    using ex_sensor_config_parsed by blast
  then have "sensor_ok si" using ParseSensorInfo_establishes [OF si(1)] by simp
  then show ?thesis using si by (auto simp: sensor_ok_def)
qed

theorem frequency_levels_first_witness:
  "frequency_levels [2000, 1500, 1000] (\<lambda>s. if s = NONE then 1800 else 1200) 0 LIGHT = 2"
  by (subst frequency_levels_first) (auto simp: upt_conv_Cons)

end
