(* ===== verification/StatsHelper.thy ===== *)
theory StatsHelper
  imports ConfigSensor ConfigRoot
begin

text \<open>
  Residency statistics: the records of aidl/thermal/utils/thermal_stats_helper.h and what the
  helper (thermal_stats_helper.cpp) does with a single one: choosing a bucket, closing the current
  interval, preparing a report and restoring after a failed one. Times are nanoseconds, the
  residencies milliseconds; their 64-bit range is not checked.
\<close>

section \<open>Records\<close>

record StatsRecord =
  sr_cur_state :: int
  sr_cur_state_start_time :: int
  sr_last_stats_report_time :: int
  sr_time_in_state_ms :: "int list"
  sr_report_fail_count :: int

definition new_stats_record :: "int \<Rightarrow> nat \<Rightarrow> int \<Rightarrow> StatsRecord" where
  "new_stats_record now time_in_state_size state =
     \<lparr> sr_cur_state = state, sr_cur_state_start_time = now, sr_last_stats_report_time = now,
       sr_time_in_state_ms = replicate time_in_state_size 0, sr_report_fail_count = 0 \<rparr>"

record 'a StatsByThreshold =
  sb_thresholds :: "'a list"
  sb_logging_name :: "string option"
  sb_stats_record :: StatsRecord

definition stats_by_threshold :: "int \<Rightarrow> 'a ThresholdList \<Rightarrow> 'a StatsByThreshold" where
  "stats_by_threshold now threshold_list =
     \<lparr> sb_thresholds = tl_thresholds threshold_list, sb_logging_name = tl_logging_name threshold_list,
       sb_stats_record = new_stats_record now (length (tl_thresholds threshold_list) + 1) 0 \<rparr>"

record 'a ThermalStats =
  hs_by_custom_threshold :: "'a StatsByThreshold list"
  hs_by_default_threshold :: "StatsRecord option"

definition empty_thermal_stats :: "'a ThermalStats" where
  "empty_thermal_stats = \<lparr> hs_by_custom_threshold = [], hs_by_default_threshold = None \<rparr>"

text \<open>
  \<open>max_temp\<close> starts from \<open>numeric_limits<float>::min()\<close>, the least positive normal number. Wall
  clock time points count microseconds.
\<close>

record SensorTempStats = "flt ThermalStats" +
  ss_max_temp :: flt
  ss_max_temp_timestamp :: int
  ss_min_temp :: flt
  ss_min_temp_timestamp :: int

definition empty_temp_stats :: SensorTempStats where
  "empty_temp_stats = \<lparr> hs_by_custom_threshold = [], hs_by_default_threshold = None,
     ss_max_temp = FLT_MIN, ss_max_temp_timestamp = TIME_MIN,
     ss_min_temp = FLT_MAX, ss_min_temp_timestamp = TIME_MIN \<rparr>"

record CurrTempStatus =
  cs_temp :: flt
  cs_start_time :: int
  cs_repeat_count :: int

section \<open>Buckets\<close>

text \<open>
  \<open>std::upper_bound\<close>: the binary search of the standard library, on \<open>len\<close> elements from \<open>first\<close>;
  \<open>lt\<close> is \<open>operator<\<close>. The index stays below \<open>first + len\<close>.
\<close>

function upper_bound :: "('a \<Rightarrow> 'a \<Rightarrow> bool) \<Rightarrow> 'a list \<Rightarrow> 'a \<Rightarrow> nat \<Rightarrow> nat \<Rightarrow> nat" where
  "upper_bound lt xs value first len =
     (if len = 0 then first
      else let half = len div 2
           in if lt value (xs ! (first + half)) then upper_bound lt xs value first half
              else upper_bound lt xs value (first + half + 1) (len - (half + 1)))"
  by pat_completeness auto
termination
  by (relation "measure (\<lambda>(lt, xs, value, first, len). len)") auto

declare upper_bound.simps [simp del]

text \<open>\<open>to_int\<close> is \<open>static_cast<int>\<close>.\<close>

definition calculateThresholdBucket ::
    "('a \<Rightarrow> 'a \<Rightarrow> bool) \<Rightarrow> ('a \<Rightarrow> int result) \<Rightarrow> 'a list \<Rightarrow> 'a \<Rightarrow> int result"
where
  "calculateThresholdBucket lt to_int thresholds value =
     (if thresholds = [] then to_int value
      else Inr (int (upper_bound lt thresholds value 0 (length thresholds))))"

section \<open>One record\<close>

definition updateStatsRecord :: "int \<Rightarrow> int \<Rightarrow> StatsRecord \<Rightarrow> StatsRecord result" where
  "updateStatsRecord now new_state r =
     bindE (vec_at (sr_time_in_state_ms r) (sr_cur_state r)) (\<lambda>t.
     bindE (vec_set (sr_time_in_state_ms r) (sr_cur_state r) (t + since_ms now (sr_cur_state_start_time r)))
       (\<lambda>ts. Inr (r\<lparr>sr_time_in_state_ms := ts, sr_cur_state_start_time := now, sr_cur_state := new_state\<rparr>)))"

definition switch_state :: "int \<Rightarrow> int \<Rightarrow> StatsRecord \<Rightarrow> StatsRecord result" where
  "switch_state now state r = (if state \<noteq> sr_cur_state r then updateStatsRecord now state r else Inr r)"

definition update_custom ::
    "('a \<Rightarrow> 'a \<Rightarrow> bool) \<Rightarrow> ('a \<Rightarrow> int result) \<Rightarrow> int \<Rightarrow> 'a \<Rightarrow> 'a StatsByThreshold \<Rightarrow> 'a StatsByThreshold result"
where
  "update_custom lt to_int now value sb =
     bindE (calculateThresholdBucket lt to_int (sb_thresholds sb) value) (\<lambda>bucket.
     bindE (switch_state now bucket (sb_stats_record sb)) (\<lambda>r.
     Inr (sb\<lparr>sb_stats_record := r\<rparr>)))"

definition processStatsRecordForReporting :: "int \<Rightarrow> StatsRecord \<Rightarrow> (int list \<times> StatsRecord) result" where
  "processStatsRecordForReporting now r =
     bindE (updateStatsRecord now (sr_cur_state r) r) (\<lambda>r'.
     Inr (sr_time_in_state_ms r',
          r'\<lparr>sr_time_in_state_ms := replicate (length (sr_time_in_state_ms r')) 0\<rparr>))"

definition kMaxStatsReportingFailCount :: int where "kMaxStatsReportingFailCount = 3"

definition restoreStatsRecordOnFailure :: "int \<Rightarrow> StatsRecord \<Rightarrow> StatsRecord result" where
  "restoreStatsRecordOnFailure now before =
     bindE (int32 (sr_report_fail_count before + 1)) (\<lambda>n.
     Inr (if kMaxStatsReportingFailCount \<le> n
          then new_stats_record now (length (sr_time_in_state_ms before)) (sr_cur_state before)
          else before\<lparr>sr_report_fail_count := n\<rparr>))"

section \<open>Traversals that may fault\<close>

fun mapE :: "('a \<Rightarrow> 'b result) \<Rightarrow> 'a list \<Rightarrow> 'b list result" where
  "mapE f [] = Inr []"
| "mapE f (x # xs) = bindE (f x) (\<lambda>y. bindE (mapE f xs) (\<lambda>ys. Inr (y # ys)))"

definition optE :: "('a \<Rightarrow> 'b result) \<Rightarrow> 'a option \<Rightarrow> 'b option result" where
  "optE f m = (case m of None \<Rightarrow> Inr None | Some x \<Rightarrow> bindE (f x) (\<lambda>y. Inr (Some y)))"

lemma mapE_ok:
  assumes "\<forall>x \<in> set xs. P x" and "\<And>x. P x \<Longrightarrow> \<exists>y. f x = Inr y \<and> Q y"
  shows "\<exists>ys. mapE f xs = Inr ys \<and> (\<forall>y \<in> set ys. Q y)"
  using assms(1)
proof (induction xs)
  case Nil
  then show ?case by simp
next
  case (Cons x xs)
  obtain y where "f x = Inr y" "Q y" using assms(2) Cons.prems by (meson list.set_intros(1))
  moreover obtain ys where "mapE f xs = Inr ys" "\<forall>y \<in> set ys. Q y"
    using Cons.IH Cons.prems by auto
  ultimately show ?case by auto
qed

lemma mapE_rel: "mapE f xs = Inr ys \<Longrightarrow> list_all2 (\<lambda>x y. f x = Inr y) xs ys"
  by (induction xs arbitrary: ys) auto

lemma mapE_length: "mapE f xs = Inr ys \<Longrightarrow> length ys = length xs"
  by (induction xs arbitrary: ys) auto

section \<open>The statistics helper\<close>

text \<open>
  \<open>class ThermalStatsHelper\<close> (aidl/thermal/utils/thermal_stats_helper.cpp): the statistics of every
  watched sensor and of every request a sensor makes of a cooling device, the detection of
  abnormal temperatures and the reports to the statistics service. One operation reads the clock
  several times; its readings are taken to be the same, the parameter \<open>now\<close>. \<open>wall\<close> is the wall
  clock. Locking, logging and the additional traces of an abnormality are left out.
\<close>

section \<open>State and the statistics service\<close>

datatype AbnormalityType = EXTREME_LOW_TEMP | EXTREME_HIGH_TEMP | SENSOR_STUCK | TEMP_READ_FAIL

datatype VendorAtomValue = StringValue string | LongValue int | FloatValue flt

text \<open>The abnormality's field numbers are in generated code, so its fields are kept apart.\<close>

datatype VendorAtom = kVendorTempResidencyStats "VendorAtomValue list"
  | kVendorSensorCoolingDeviceStats "VendorAtomValue list"
  | kThermalSensorAbnormalityDetected AbnormalityType string "int option"

text \<open>
  The service, if there is one: whether it accepts an atom may depend on all it was sent before.
\<close>

type_synonym stats_client = "(VendorAtom list \<Rightarrow> VendorAtom \<Rightarrow> bool) option"

record stats_state =
  sh_temp_stats_map :: "SensorTempStats smap"
  sh_temp_range_info_map :: "TempRangeInfo smap"
  sh_temp_stuck_info_map :: "TempStuckInfo smap"
  sh_curr_temp_status_map :: "CurrTempStatus smap"
  sh_cdev_request_stats_map :: "int ThermalStats smap smap"
  sh_last_total_stats_report_time :: int
  sh_abnormal_stats_reported :: int
  sh_atoms :: "VendorAtom list"

definition empty_stats_state :: stats_state where
  "empty_stats_state = \<lparr> sh_temp_stats_map = [], sh_temp_range_info_map = [],
     sh_temp_stuck_info_map = [], sh_curr_temp_status_map = [], sh_cdev_request_stats_map = [],
     sh_last_total_stats_report_time = TIME_MIN, sh_abnormal_stats_reported = 0, sh_atoms = [] \<rparr>"

definition kMaxAbnormalLoggingPerUpdateInterval :: int where
  "kMaxAbnormalLoggingPerUpdateInterval = 20"
definition kMaxStatsResidencyCount :: int where "kMaxStatsResidencyCount = 20"
definition kUpdateIntervalMs :: int where "kUpdateIntervalMs = 86400000"
definition kPrecisionThreshold :: flt where "kPrecisionThreshold = lit_f 1 10000"

definition lookup_or :: "'v \<Rightarrow> 'v smap \<Rightarrow> string \<Rightarrow> 'v" where
  "lookup_or d m k = (case map_of m k of None \<Rightarrow> d | Some v \<Rightarrow> v)"

section \<open>Initialization\<close>

definition isRecordByDefaultThreshold :: "record_default \<Rightarrow> string \<Rightarrow> bool" where
  "isRecordByDefaultThreshold r name =
     (case r of RecordAll b \<Rightarrow> b | RecordNames names \<Rightarrow> name \<in> set names)"

definition add_custom :: "int \<Rightarrow> 'a ThresholdList \<Rightarrow> ('a, 'b) ThermalStats_scheme \<Rightarrow> ('a, 'b) ThermalStats_scheme" where
  "add_custom now threshold_list st =
     st\<lparr>hs_by_custom_threshold := hs_by_custom_threshold st @ [stats_by_threshold now threshold_list]\<rparr>"

text \<open>The thresholds for a device with more states than an atom has buckets.\<close>

definition compressed_thresholds :: "string \<Rightarrow> int \<Rightarrow> int ThresholdList" where
  "compressed_thresholds cdev max_state =
     \<lparr> tl_logging_name = Some (cdev @ ''-CMBN-TH''),
       tl_thresholds = map (\<lambda>i. max_state - kMaxStatsResidencyCount + 1 + int i)
                         [0..<nat kMaxStatsResidencyCount] \<rparr>"

text \<open>
  A negative size makes the vector's constructor throw \<open>std::length_error\<close>, which nothing catches.
\<close>

definition default_request_stats ::
    "int \<Rightarrow> string \<Rightarrow> int \<Rightarrow> int ThermalStats \<Rightarrow> int ThermalStats result"
where
  "default_request_stats now cdev max_state st =
     (if kMaxStatsResidencyCount \<le> max_state
      then Inr (add_custom now (compressed_thresholds cdev max_state) st)
      else bindE (int32 (max_state + 1)) (\<lambda>n.
           if n < 0 then Inl Abort
           else Inr (st\<lparr>hs_by_default_threshold := Some (new_stats_record now (nat n) 0)\<rparr>)))"

definition custom_request_stats ::
    "int \<Rightarrow> int \<Rightarrow> int ThresholdList \<Rightarrow> int ThermalStats \<Rightarrow> int ThermalStats parse"
where
  "custom_request_stats now max_state threshold_list st =
     (if tl_thresholds threshold_list = [] then Inl UB
      else if max_state \<le> last (tl_thresholds threshold_list) then failP
      else okP (add_custom now threshold_list st))"

text \<open>
  One pair of a sensor and a device. \<open>m[sensor][cdev]\<close> creates an entry only where something is
  recorded.
\<close>

definition request_stats_for ::
    "int \<Rightarrow> int StatsInfo \<Rightarrow> CdevInfo smap \<Rightarrow> string \<Rightarrow> string
      \<Rightarrow> int ThermalStats smap smap \<Rightarrow> int ThermalStats smap smap parse"
where
  "request_stats_for now info cdevs sensor cdev m =
     bindP (liftP (at_key cdevs cdev)) (\<lambda>ci.
     let lists = lookup_or [] (st_record_by_threshold info) cdev;
         by_default = isRecordByDefaultThreshold (st_record_default info) cdev;
         st0 = lookup_or empty_thermal_stats (lookup_or [] m sensor) cdev
     in bindP (if by_default then liftP (default_request_stats now cdev (ci_max_state ci) st0) else okP st0)
          (\<lambda>st1.
        bindP (foldP (custom_request_stats now (ci_max_state ci)) lists st1) (\<lambda>st2.
        okP (if by_default \<or> lists \<noteq> []
             then put sensor (put cdev st2 (lookup_or [] m sensor)) m else m))))"

definition initializeSensorCdevRequestStats ::
    "int \<Rightarrow> int StatsInfo \<Rightarrow> SensorInfo smap \<Rightarrow> CdevInfo smap \<Rightarrow> int ThermalStats smap smap
      \<Rightarrow> int ThermalStats smap smap parse"
where
  "initializeSensorCdevRequestStats now info sensors cdevs =
     foldP (\<lambda>(sensor, si) m.
       (case si_throttling_info si of
          None \<Rightarrow> Inl UB
        | Some ti \<Rightarrow> foldP (\<lambda>(cdev, bc). request_stats_for now info cdevs sensor cdev)
                       (ti_binded_cdev_info_map ti) m)) sensors"

definition temp_stats_for ::
    "int \<Rightarrow> flt StatsInfo \<Rightarrow> string \<times> SensorInfo \<Rightarrow> SensorTempStats smap \<Rightarrow> SensorTempStats smap"
where
  "temp_stats_for now info p m =
     (let sensor = fst p; lists = lookup_or [] (st_record_by_threshold info) sensor;
          by_default = (si_is_watch (snd p) \<and> isRecordByDefaultThreshold (st_record_default info) sensor);
          st0 = lookup_or empty_temp_stats m sensor;
          st1 = (if by_default then st0\<lparr>hs_by_default_threshold := Some (new_stats_record now 7 0)\<rparr> else st0)
      in if by_default \<or> lists \<noteq> [] then put sensor (fold (add_custom now) lists st1) m else m)"

definition initializeSensorTempStats ::
    "int \<Rightarrow> flt StatsInfo \<Rightarrow> SensorInfo smap \<Rightarrow> SensorTempStats smap \<Rightarrow> SensorTempStats smap"
where
  "initializeSensorTempStats now info sensors m = fold (temp_stats_for now info) sensors m"

text \<open>Every sensor of a group gets the group's limits; the default fills the sensors left over.\<close>

definition assign_infos :: "(string list \<times> 'a) list \<Rightarrow> 'a smap \<Rightarrow> 'a smap" where
  "assign_infos groups m = fold (\<lambda>g. fold (\<lambda>s. put s (snd g)) (fst g)) groups m"

definition assign_default :: "'a option \<Rightarrow> string list \<Rightarrow> 'a smap \<Rightarrow> 'a smap" where
  "assign_default dflt sensors m =
     (case dflt of None \<Rightarrow> m | Some d \<Rightarrow> fold (\<lambda>s m. if has m s then m else put s d m) sensors m)"

definition initializeSensorAbnormalityStats ::
    "AbnormalStatsInfo \<Rightarrow> SensorInfo smap \<Rightarrow> stats_state \<Rightarrow> stats_state"
where
  "initializeSensorAbnormalityStats info sensors st =
     (let ranges = assign_default (ab_default_temp_range_info info) (map fst sensors)
                     (assign_infos (ab_sensors_temp_range_infos info) (sh_temp_range_info_map st));
          stucks = assign_default (ab_default_temp_stuck_info info) (map fst sensors)
                     (assign_infos (ab_sensors_temp_stuck_infos info) (sh_temp_stuck_info_map st))
      in st\<lparr> sh_temp_range_info_map := ranges, sh_temp_stuck_info_map := stucks,
             sh_curr_temp_status_map :=
               fold (\<lambda>p. put (fst p) \<lparr>cs_temp = FLT_MIN, cs_start_time = TIME_MIN, cs_repeat_count = 0\<rparr>)
                 stucks (sh_curr_temp_status_map st) \<rparr>)"

definition no_stats_info :: "'a StatsInfo" where
  "no_stats_info = \<lparr> st_record_default = RecordAll False, st_record_by_threshold = [] \<rparr>"

definition no_abnormal_info :: AbnormalStatsInfo where
  "no_abnormal_info = \<lparr> ab_default_temp_range_info = None, ab_sensors_temp_range_infos = [],
     ab_default_temp_stuck_info = None, ab_sensors_temp_stuck_infos = [] \<rparr>"

definition initializeStats ::
    "'j json_ops \<Rightarrow> 'j \<Rightarrow> SensorInfo smap \<Rightarrow> CdevInfo smap \<Rightarrow> int \<Rightarrow> stats_state \<Rightarrow> stats_state parse"
where
  "initializeStats J config sensors cdevs now st =
     bindP (ParseSensorStatsConfig J (has sensors) config) (\<lambda>(temp_info, abnormal_info).
     bindP (ParseCoolingDeviceStatsConfig J (has cdevs) config) (\<lambda>request_info.
     let temps = initializeSensorTempStats now (case temp_info of None \<Rightarrow> no_stats_info | Some i \<Rightarrow> i)
                   sensors (sh_temp_stats_map st) in
     bindP (initializeSensorCdevRequestStats now (case request_info of None \<Rightarrow> no_stats_info | Some i \<Rightarrow> i)
              sensors cdevs (sh_cdev_request_stats_map st)) (\<lambda>requests.
     okP (initializeSensorAbnormalityStats
            (case abnormal_info of None \<Rightarrow> no_abnormal_info | Some i \<Rightarrow> i) sensors
            (st\<lparr>sh_temp_stats_map := temps, sh_cdev_request_stats_map := requests\<rparr>)
          \<lparr>sh_last_total_stats_report_time := now, sh_abnormal_stats_reported := 0\<rparr>))))"

end
