(* ===== verification/StatsReports.thy ===== *)
theory StatsReports
  imports StatsHelper
begin

text \<open>
  The running of the statistics helper: updates by temperature, severity and request, the detection
  of abnormal temperatures, the daily report and the snapshots (thermal_stats_helper.cpp).
\<close>

section \<open>Abnormalities\<close>

text \<open>The service is asked at most twenty times in an interval; a limited report counts as done.\<close>

definition send_atom :: "(VendorAtom list \<Rightarrow> VendorAtom \<Rightarrow> bool) \<Rightarrow> VendorAtom \<Rightarrow> stats_state \<Rightarrow> bool \<times> stats_state" where
  "send_atom service atom st = (service (sh_atoms st) atom, st\<lparr>sh_atoms := sh_atoms st @ [atom]\<rparr>)"

definition reportThermalAbnormality ::
    "stats_client \<Rightarrow> AbnormalityType \<Rightarrow> string \<Rightarrow> int option \<Rightarrow> stats_state \<Rightarrow> bool \<times> stats_state"
where
  "reportThermalAbnormality client type name reading st =
     (if kMaxAbnormalLoggingPerUpdateInterval \<le> sh_abnormal_stats_reported st then (True, st)
      else case client of
        None \<Rightarrow> (False, st)
      | Some service \<Rightarrow>
          (case send_atom service (kThermalSensorAbnormalityDetected type name reading) st of
             (ok, st') \<Rightarrow>
               if ok then (True, st'\<lparr>sh_abnormal_stats_reported := sh_abnormal_stats_reported st' + 1\<rparr>)
               else (False, st')))"

text \<open>\<open>std::round\<close> and the conversion to \<open>int\<close>\<close>

definition round_int :: "flt \<Rightarrow> int result" where
  "round_int x = bindE (lround x) int32"

definition verify_range ::
    "stats_client \<Rightarrow> string \<Rightarrow> flt \<Rightarrow> stats_state \<Rightarrow> stats_state result"
where
  "verify_range client sensor temp st =
     (case map_of (sh_temp_range_info_map st) sensor of
        None \<Rightarrow> Inr st
      | Some info \<Rightarrow>
          if flt_lt temp (of_int_f (tr_min_temp_threshold info))
          then bindE (round_int temp) (\<lambda>r.
               Inr (snd (reportThermalAbnormality client EXTREME_LOW_TEMP sensor (Some r) st)))
          else if flt_lt (of_int_f (tr_max_temp_threshold info)) temp
          then bindE (round_int temp) (\<lambda>r.
               Inr (snd (reportThermalAbnormality client EXTREME_HIGH_TEMP sensor (Some r) st)))
          else Inr st)"

definition resetCurrentTempStatus :: "int \<Rightarrow> flt \<Rightarrow> CurrTempStatus" where
  "resetCurrentTempStatus now new_temp = \<lparr> cs_temp = new_temp, cs_start_time = now, cs_repeat_count = 1 \<rparr>"

definition set_curr :: "string \<Rightarrow> CurrTempStatus \<Rightarrow> stats_state \<Rightarrow> stats_state" where
  "set_curr sensor cs st = st\<lparr>sh_curr_temp_status_map := put sensor cs (sh_curr_temp_status_map st)\<rparr>"

text \<open>\<open>curr_temp_status_map_[sensor]\<close> creates a zero entry when there is none.\<close>

definition verify_stuck ::
    "stats_client \<Rightarrow> int \<Rightarrow> string \<Rightarrow> flt \<Rightarrow> stats_state \<Rightarrow> stats_state result"
where
  "verify_stuck client now sensor temp st =
     (case map_of (sh_temp_stuck_info_map st) sensor of
        None \<Rightarrow> Inr st
      | Some info \<Rightarrow>
          let cs = lookup_or \<lparr>cs_temp = Fin 0, cs_start_time = 0, cs_repeat_count = 0\<rparr>
                     (sh_curr_temp_status_map st) sensor
          in if flt_le (ffabs (fsub (cs_temp cs) temp)) kPrecisionThreshold
             then bindE (int32 (cs_repeat_count cs + 1)) (\<lambda>n.
               let st1 = set_curr sensor (cs\<lparr>cs_repeat_count := n\<rparr>) st
               in if tk_min_polling_count info \<le> n
                     \<and> tk_min_stuck_duration info \<le> since_ms now (cs_start_time cs)
                  then bindE (round_int temp) (\<lambda>r.
                    case reportThermalAbnormality client SENSOR_STUCK sensor (Some r) st1 of
                      (ok, st2) \<Rightarrow> Inr (if ok then set_curr sensor (resetCurrentTempStatus now temp) st2 else st2))
                  else Inr st1)
             else Inr (set_curr sensor (resetCurrentTempStatus now temp) st))"

definition verifySensorAbnormality ::
    "stats_client \<Rightarrow> int \<Rightarrow> string \<Rightarrow> flt \<Rightarrow> stats_state \<Rightarrow> stats_state result"
where
  "verifySensorAbnormality client now sensor temp st =
     bindE (verify_range client sensor temp st) (verify_stuck client now sensor temp)"

section \<open>Updates\<close>

definition updateSensorCdevRequestStats ::
    "int \<Rightarrow> string \<Rightarrow> string \<Rightarrow> int \<Rightarrow> stats_state \<Rightarrow> stats_state result"
where
  "updateSensorCdevRequestStats now sensor cdev new_value st =
     (case map_of (lookup_or [] (sh_cdev_request_stats_map st) sensor) cdev of
        None \<Rightarrow> Inr st
      | Some hs \<Rightarrow>
          bindE (mapE (update_custom (<) Inr now new_value) (hs_by_custom_threshold hs)) (\<lambda>customs.
          bindE (optE (switch_state now new_value) (hs_by_default_threshold hs)) (\<lambda>dflt.
          Inr (st\<lparr>sh_cdev_request_stats_map := put sensor
                 (put cdev (hs\<lparr>hs_by_custom_threshold := customs, hs_by_default_threshold := dflt\<rparr>)
                    (lookup_or [] (sh_cdev_request_stats_map st) sensor))
                 (sh_cdev_request_stats_map st)\<rparr>))))"

definition track_extremes :: "int \<Rightarrow> flt \<Rightarrow> SensorTempStats \<Rightarrow> SensorTempStats" where
  "track_extremes wall temperature ss0 =
     (let ss1 = (if flt_lt (ss_max_temp ss0) temperature
                 then ss0\<lparr>ss_max_temp := temperature, ss_max_temp_timestamp := wall\<rparr> else ss0)
      in if flt_lt temperature (ss_min_temp ss1)
         then ss1\<lparr>ss_min_temp := temperature, ss_min_temp_timestamp := wall\<rparr> else ss1)"

definition update_temp_stats :: "int \<Rightarrow> int \<Rightarrow> flt \<Rightarrow> SensorTempStats \<Rightarrow> SensorTempStats result" where
  "update_temp_stats now wall temperature ss =
     bindE (mapE (update_custom flt_lt to_int_f now temperature) (hs_by_custom_threshold ss)) (\<lambda>customs.
     Inr (track_extremes wall temperature (ss\<lparr>hs_by_custom_threshold := customs\<rparr>)))"

definition updateSensorTempStatsByThreshold ::
    "stats_client \<Rightarrow> int \<Rightarrow> int \<Rightarrow> string \<Rightarrow> flt \<Rightarrow> stats_state \<Rightarrow> stats_state result"
where
  "updateSensorTempStatsByThreshold client now wall sensor temperature st0 =
     bindE (verifySensorAbnormality client now sensor temperature st0) (\<lambda>st.
     case map_of (sh_temp_stats_map st) sensor of
       None \<Rightarrow> Inr st
     | Some ss \<Rightarrow>
         bindE (update_temp_stats now wall temperature ss) (\<lambda>ss'.
         Inr (st\<lparr>sh_temp_stats_map := put sensor ss' (sh_temp_stats_map st)\<rparr>)))"

definition updateSensorTempStatsBySeverity ::
    "int \<Rightarrow> string \<Rightarrow> severity \<Rightarrow> stats_state \<Rightarrow> stats_state result"
where
  "updateSensorTempStatsBySeverity now sensor severity st =
     (case map_of (sh_temp_stats_map st) sensor of
        None \<Rightarrow> Inr st
      | Some ss \<Rightarrow>
          bindE (optE (switch_state now (int (sev_idx severity))) (hs_by_default_threshold ss)) (\<lambda>dflt.
          Inr (st\<lparr>sh_temp_stats_map := put sensor (ss\<lparr>hs_by_default_threshold := dflt\<rparr>)
                 (sh_temp_stats_map st)\<rparr>)))"

section \<open>Reports\<close>

text \<open>\<open>system_clock::to_time_t\<close>, seconds\<close>

definition to_time_t :: "int \<Rightarrow> int" where
  "to_time_t t = sgn t * (\<bar>t\<bar> div 1000000)"

text \<open>
  The number of zeros that fill up the buckets is computed without sign: a record with more
  buckets than an atom has asks for almost \<open>2 ^ 64\<close> zeros, which cannot be allocated.
\<close>

definition temp_atom ::
    "string \<Rightarrow> SensorTempStats \<Rightarrow> int list \<Rightarrow> StatsRecord \<Rightarrow> VendorAtom result"
where
  "temp_atom sensor ss residency r =
     (if nat kMaxStatsResidencyCount < length residency then Inl Abort
      else Inr (kVendorTempResidencyStats
        ([StringValue sensor, LongValue (since_ms (sr_cur_state_start_time r) (sr_last_stats_report_time r))]
         @ map LongValue residency
         @ replicate (nat kMaxStatsResidencyCount - length residency) (LongValue 0)
         @ [FloatValue (ss_max_temp ss), LongValue (to_time_t (ss_max_temp_timestamp ss)),
            FloatValue (ss_min_temp ss), LongValue (to_time_t (ss_min_temp_timestamp ss))])))"

definition request_atom :: "string \<Rightarrow> string \<Rightarrow> int list \<Rightarrow> StatsRecord \<Rightarrow> VendorAtom result" where
  "request_atom sensor cdev residency r =
     Inr (kVendorSensorCoolingDeviceStats
       ([StringValue sensor, StringValue cdev,
         LongValue (since_ms (sr_cur_state_start_time r) (sr_last_stats_report_time r))]
        @ map LongValue residency))"

text \<open>
  \<open>reportSensorTempStats\<close> and \<open>reportSensorCdevRequestStats\<close> differ in the atom they make. The
  number of failed reports and the state of the service are passed along.
\<close>

definition report_record ::
    "(VendorAtom list \<Rightarrow> VendorAtom \<Rightarrow> bool) \<Rightarrow> int \<Rightarrow> (int list \<Rightarrow> StatsRecord \<Rightarrow> VendorAtom result)
      \<Rightarrow> StatsRecord \<Rightarrow> VendorAtom list \<Rightarrow> (bool \<times> StatsRecord \<times> VendorAtom list) result"
where
  "report_record service now atom_of r atoms =
     bindE (processStatsRecordForReporting now r) (\<lambda>(residency, r1).
     bindE (atom_of residency r1) (\<lambda>atom.
     if service atoms atom
     then Inr (True, r1\<lparr>sr_last_stats_report_time := now\<rparr>, atoms @ [atom])
     else bindE (restoreStatsRecordOnFailure now r) (\<lambda>r2. Inr (False, r2, atoms @ [atom]))))"

fun report_customs ::
    "(VendorAtom list \<Rightarrow> VendorAtom \<Rightarrow> bool) \<Rightarrow> int \<Rightarrow> (string \<Rightarrow> int list \<Rightarrow> StatsRecord \<Rightarrow> VendorAtom result)
      \<Rightarrow> string \<Rightarrow> nat \<Rightarrow> 'a StatsByThreshold list \<Rightarrow> int \<times> VendorAtom list
      \<Rightarrow> ('a StatsByThreshold list \<times> int \<times> VendorAtom list) result"
where
  "report_customs service now atom_of name idx [] acc = Inr ([], acc)"
| "report_customs service now atom_of name idx (sb # sbs) acc =
     (let logged = (case sb_logging_name sb of
                      Some n \<Rightarrow> n | None \<Rightarrow> name @ ''-TH-'' @ to_string (int idx))
      in bindE (report_record service now (atom_of logged) (sb_stats_record sb) (snd acc)) (\<lambda>(ok, r, atoms).
         bindE (report_customs service now atom_of name (Suc idx) sbs
                  (fst acc + (if ok then 0 else 1), atoms)) (\<lambda>(rest, acc').
         Inr (sb\<lparr>sb_stats_record := r\<rparr> # rest, acc'))))"

definition report_stats ::
    "(VendorAtom list \<Rightarrow> VendorAtom \<Rightarrow> bool) \<Rightarrow> int \<Rightarrow> (string \<Rightarrow> int list \<Rightarrow> StatsRecord \<Rightarrow> VendorAtom result)
      \<Rightarrow> string \<Rightarrow> ('a, 'b) ThermalStats_scheme \<Rightarrow> int \<times> VendorAtom list
      \<Rightarrow> (('a, 'b) ThermalStats_scheme \<times> int \<times> VendorAtom list) result"
where
  "report_stats service now atom_of name hs acc =
     bindE (report_customs service now atom_of name 0 (hs_by_custom_threshold hs) acc) (\<lambda>(customs, acc1).
     case hs_by_default_threshold hs of
       None \<Rightarrow> Inr (hs\<lparr>hs_by_custom_threshold := customs\<rparr>, acc1)
     | Some r \<Rightarrow>
         bindE (report_record service now (atom_of name) r (snd acc1)) (\<lambda>(ok, r', atoms).
         Inr (hs\<lparr>hs_by_custom_threshold := customs, hs_by_default_threshold := Some r'\<rparr>,
              fst acc1 + (if ok then 0 else 1), atoms)))"

fun traverse ::
    "(string \<Rightarrow> 'v \<Rightarrow> 's \<Rightarrow> ('v \<times> 's) result) \<Rightarrow> 'v smap \<Rightarrow> 's \<Rightarrow> ('v smap \<times> 's) result"
where
  "traverse f [] s = Inr ([], s)"
| "traverse f ((k, v) # m) s =
     bindE (f k v s) (\<lambda>(v', s1). bindE (traverse f m s1) (\<lambda>(m', s2). Inr ((k, v') # m', s2)))"

text \<open>The extremes are reset after the report, whether it succeeded or not.\<close>

definition reportAllSensorTempStats ::
    "(VendorAtom list \<Rightarrow> VendorAtom \<Rightarrow> bool) \<Rightarrow> int \<Rightarrow> stats_state \<Rightarrow> (int \<times> stats_state) result"
where
  "reportAllSensorTempStats service now st =
     bindE (traverse (\<lambda>sensor ss acc.
              bindE (report_stats service now (\<lambda>name. temp_atom name ss) sensor ss acc) (\<lambda>(ss', acc').
              Inr (ss'\<lparr>ss_max_temp := FLT_MIN, ss_min_temp := FLT_MAX\<rparr>, acc')))
            (sh_temp_stats_map st) (0, sh_atoms st)) (\<lambda>(m, failed, atoms).
     Inr (failed, st\<lparr>sh_temp_stats_map := m, sh_atoms := atoms\<rparr>))"

definition reportAllSensorCdevRequestStats ::
    "(VendorAtom list \<Rightarrow> VendorAtom \<Rightarrow> bool) \<Rightarrow> int \<Rightarrow> stats_state \<Rightarrow> (int \<times> stats_state) result"
where
  "reportAllSensorCdevRequestStats service now st =
     bindE (traverse (\<lambda>sensor. traverse (\<lambda>cdev.
              report_stats service now (request_atom sensor) cdev))
            (sh_cdev_request_stats_map st) (0, sh_atoms st)) (\<lambda>(m, failed, atoms).
     Inr (failed, st\<lparr>sh_cdev_request_stats_map := m, sh_atoms := atoms\<rparr>))"

text \<open>
  The code adds the results of the two reports in one expression, whose order of evaluation is not
  specified; the temperatures come first here.
\<close>

definition reportStats :: "stats_client \<Rightarrow> int \<Rightarrow> stats_state \<Rightarrow> (int \<times> stats_state) result" where
  "reportStats client now st =
     (if since_ms now (sh_last_total_stats_report_time st) < kUpdateIntervalMs then Inr (0, st)
      else case client of
        None \<Rightarrow> Inr (- 1, st)
      | Some service \<Rightarrow>
          bindE (reportAllSensorTempStats service now st) (\<lambda>(n, st1).
          bindE (reportAllSensorCdevRequestStats service now st1) (\<lambda>(m, st2).
          Inr (n + m, st2\<lparr>sh_last_total_stats_report_time := now, sh_abnormal_stats_reported := 0\<rparr>))))"

section \<open>Snapshots\<close>

definition close_record :: "int \<Rightarrow> StatsRecord \<Rightarrow> StatsRecord result" where
  "close_record now r = updateStatsRecord now (sr_cur_state r) r"

definition close_stats :: "int \<Rightarrow> ('a, 'b) ThermalStats_scheme \<Rightarrow> ('a, 'b) ThermalStats_scheme result" where
  "close_stats now hs =
     bindE (mapE (\<lambda>sb. bindE (close_record now (sb_stats_record sb)) (\<lambda>r. Inr (sb\<lparr>sb_stats_record := r\<rparr>)))
              (hs_by_custom_threshold hs)) (\<lambda>customs.
     bindE (optE (close_record now) (hs_by_default_threshold hs)) (\<lambda>dflt.
     Inr (hs\<lparr>hs_by_custom_threshold := customs, hs_by_default_threshold := dflt\<rparr>)))"

definition GetSensorTempStatsSnapshot :: "int \<Rightarrow> stats_state \<Rightarrow> SensorTempStats smap result" where
  "GetSensorTempStatsSnapshot now st =
     mapE (\<lambda>(k, ss). bindE (close_stats now ss) (\<lambda>ss'. Inr (k, ss'))) (sh_temp_stats_map st)"

definition GetSensorCoolingDeviceRequestStatsSnapshot ::
    "int \<Rightarrow> stats_state \<Rightarrow> int ThermalStats smap smap result"
where
  "GetSensorCoolingDeviceRequestStatsSnapshot now st =
     mapE (\<lambda>(s, m). bindE (mapE (\<lambda>(k, hs). bindE (close_stats now hs) (\<lambda>hs'. Inr (k, hs'))) m)
       (\<lambda>m'. Inr (s, m'))) (sh_cdev_request_stats_map st)"

end
