(* ===== verification/StatsLemmas.thy ===== *)
theory StatsLemmas
  imports StatsReports
begin

text \<open>
  The bucket of a value, the accounting of a record and what keeps the temperature statistics
  within their vectors.
\<close>

section \<open>Binary search\<close>

lemma upper_bound_le: "upper_bound lt xs v first len \<le> first + len"
proof (induction lt xs v first len rule: upper_bound.induct)
  case (1 lt xs v first len)
  then show ?case
    by (subst upper_bound.simps) (auto simp: Let_def intro: order_trans [OF "1.IH"(1)] order_trans [OF "1.IH"(2)])
qed

lemma upper_bound_partition:
  assumes "\<forall>i < first. \<not> lt v (xs ! i)" and "\<forall>i. first + len \<le> i \<and> i < length xs \<longrightarrow> lt v (xs ! i)"
    and "first + len \<le> length xs"
    and mono: "\<forall>i j. i < j \<and> j < length xs \<and> lt v (xs ! i) \<longrightarrow> lt v (xs ! j)"
  shows "(\<forall>i < upper_bound lt xs v first len. \<not> lt v (xs ! i))
    \<and> (\<forall>i. upper_bound lt xs v first len \<le> i \<and> i < length xs \<longrightarrow> lt v (xs ! i))"
  using assms
proof (induction lt xs v first len rule: upper_bound.induct)
  case (1 lt xs v first len)
  show ?case
  proof (cases "len = 0")
    case True
    then show ?thesis using "1.prems" by (simp add: upper_bound.simps)
  next
    case False
    define half where "half = len div 2"
    have h: "half < len" using False by (simp add: half_def)
    have m: "lt v (xs ! i) \<longrightarrow> lt v (xs ! j)" if "i \<le> j" "j < length xs" for i j
      using "1.prems"(4) that by (metis le_neq_implies_less)
    show ?thesis
    proof (cases "lt v (xs ! (first + half))")
      case True
      have step: "upper_bound lt xs v first len = upper_bound lt xs v first half"
        using False True by (subst upper_bound.simps) (simp add: half_def Let_def)
      have "\<forall>i. first + half \<le> i \<and> i < length xs \<longrightarrow> lt v (xs ! i)"
        using m True by blast
      moreover have "first + half \<le> length xs" using "1.prems"(3) h by simp
      ultimately show ?thesis
        unfolding step by (rule "1.IH"(1) [OF False half_def True "1.prems"(1) _ _ "1.prems"(4)])
    next
      case nt: False
      have "\<forall>i < first + half + 1. \<not> lt v (xs ! i)"
      proof (intro allI impI)
        fix i assume "i < first + half + 1"
        then show "\<not> lt v (xs ! i)" using m [of i "first + half"] nt "1.prems"(3) h by simp
      qed
      moreover have e: "first + half + 1 + (len - (half + 1)) = first + len" using h by simp
      have step: "upper_bound lt xs v first len = upper_bound lt xs v (first + half + 1) (len - (half + 1))"
        using False nt by (subst upper_bound.simps) (simp add: half_def Let_def)
      ultimately show ?thesis
        unfolding step using "1.prems"(2,3)
        by (intro "1.IH"(2) [OF False half_def nt _ _ _ "1.prems"(4)]) (simp_all only: e)
    qed
  qed
qed

text \<open>On a sequence split by the comparison, the index found is the number of elements not above.\<close>

lemma upper_bound_count:
  assumes mono: "\<And>i j. i < j \<Longrightarrow> j < length xs \<Longrightarrow> lt v (xs ! i) \<Longrightarrow> lt v (xs ! j)"
  shows "upper_bound lt xs v 0 (length xs) = length (filter (\<lambda>x. \<not> lt v x) xs)"
proof -
  define u where "u = upper_bound lt xs v 0 (length xs)"
  have u: "u \<le> length xs" using upper_bound_le [of lt xs v 0] by (simp add: u_def)
  have p: "(\<forall>i < u. \<not> lt v (xs ! i)) \<and> (\<forall>i. u \<le> i \<and> i < length xs \<longrightarrow> lt v (xs ! i))"
    unfolding u_def by (rule upper_bound_partition) (use mono in auto)
  have "\<forall>x \<in> set (take u xs). \<not> lt v x" using p u by (auto simp: in_set_conv_nth)
  then have "filter (\<lambda>x. \<not> lt v x) (take u xs) = take u xs" by (simp add: filter_id_conv)
  moreover have "\<forall>x \<in> set (drop u xs). lt v x" using p u by (auto simp: in_set_conv_nth)
  then have "filter (\<lambda>x. \<not> lt v x) (drop u xs) = []" by (simp add: filter_empty_conv)
  ultimately have "filter (\<lambda>x. \<not> lt v x) (take u xs @ drop u xs) = take u xs"
    unfolding filter_append by simp
  then show ?thesis using u unfolding u_def [symmetric] by simp
qed

section \<open>Thresholds the parser accepts\<close>

lemma stats_thresholds_increasing:
  assumes "stats_thresholds read flt_le prev vs = okP ts" and "\<forall>t \<in> set ts. \<not> isnan t"
  shows "sorted_wrt flt_lt ts \<and> (\<not> isnan prev \<longrightarrow> (\<forall>t \<in> set ts. flt_lt prev t))"
  using assms
proof (induction vs arbitrary: prev ts)
  case Nil
  then show ?case by auto
next
  case (Cons v vs)
  obtain t ts' where ts: "ts = t # ts'" and t: "\<not> flt_le t prev" "\<not> isnan t"
    and rest: "stats_thresholds read flt_le t vs = okP ts'"
    using Cons.prems by (auto split: if_splits)
  have *: "sorted_wrt flt_lt ts'" "\<forall>x \<in> set ts'. flt_lt t x"
    using Cons.IH [OF rest] Cons.prems(2) ts t by auto
  have "flt_lt prev t" if "\<not> isnan prev" using t that by (simp add: flt_not_le)
  then show ?case using * ts by (auto intro: flt_lt_trans)
qed

lemma upper_bound_sorted:
  assumes "sorted_wrt flt_lt ts"
  shows "upper_bound flt_lt ts v 0 (length ts) = length (filter (\<lambda>t. \<not> flt_lt v t) ts)"
  by (rule upper_bound_count) (use assms in \<open>auto simp: sorted_wrt_iff_nth_less intro: flt_lt_trans\<close>)

section \<open>Records within their vectors\<close>

definition record_ok :: "nat \<Rightarrow> StatsRecord \<Rightarrow> bool" where
  "record_ok n r \<longleftrightarrow> length (sr_time_in_state_ms r) = n \<and> 0 \<le> sr_cur_state r \<and> sr_cur_state r < int n
     \<and> 0 \<le> sr_report_fail_count r \<and> sr_report_fail_count r < kMaxStatsReportingFailCount"

lemma new_record_ok: "0 < n \<Longrightarrow> record_ok n (new_stats_record now n 0)"
  by (simp add: record_ok_def new_stats_record_def kMaxStatsReportingFailCount_def)

lemma updateStatsRecord_ok:
  "record_ok n r \<Longrightarrow> 0 \<le> s \<Longrightarrow> s < int n \<Longrightarrow> \<exists>r'. updateStatsRecord now s r = Inr r' \<and> record_ok n r'"
  by (simp add: updateStatsRecord_def record_ok_def)

lemma switch_state_ok:
  "record_ok n r \<Longrightarrow> 0 \<le> s \<Longrightarrow> s < int n \<Longrightarrow> \<exists>r'. switch_state now s r = Inr r' \<and> record_ok n r'"
  by (simp add: switch_state_def updateStatsRecord_ok)

lemma close_record_ok: "record_ok n r \<Longrightarrow> \<exists>r'. close_record now r = Inr r' \<and> record_ok n r'"
  unfolding close_record_def by (rule updateStatsRecord_ok) (auto simp: record_ok_def)

lemma process_ok:
  assumes "record_ok n r"
  shows "\<exists>ts r'. processStatsRecordForReporting now r = Inr (ts, r') \<and> length ts = n \<and> record_ok n r'"
proof -
  obtain r1 where "updateStatsRecord now (sr_cur_state r) r = Inr r1" "record_ok n r1"
    using close_record_ok [OF assms] unfolding close_record_def by blast
  then show ?thesis by (simp add: processStatsRecordForReporting_def record_ok_def)
qed

lemma restore_ok: "record_ok n r \<Longrightarrow> \<exists>r'. restoreStatsRecordOnFailure now r = Inr r' \<and> record_ok n r'"
  by (auto simp: restoreStatsRecordOnFailure_def record_ok_def new_stats_record_def
        kMaxStatsReportingFailCount_def int32_def is_int32_def INT_MAX_def INT_MIN_def)

text \<open>A report of a record within its vector succeeds and sends one atom made of its buckets.\<close>

lemma report_record_ok:
  assumes "record_ok n r" and "\<And>ts r1. length ts = n \<Longrightarrow> \<exists>a. atom_of ts r1 = Inr a \<and> P a"
    and "\<forall>a \<in> set atoms. P a"
  shows "\<exists>ok r' atoms'. report_record service now atom_of r atoms = Inr (ok, r', atoms')
    \<and> record_ok n r' \<and> (\<forall>a \<in> set atoms'. P a)"
proof -
  obtain ts r1 where p: "processStatsRecordForReporting now r = Inr (ts, r1)" "length ts = n" "record_ok n r1"
    using process_ok [OF assms(1)] by blast
  obtain a where a: "atom_of ts r1 = Inr a" "P a" using assms(2) p(2) by blast
  obtain r2 where r2: "restoreStatsRecordOnFailure now r = Inr r2" "record_ok n r2"
    using restore_ok [OF assms(1)] by blast
  have "record_ok n (r1\<lparr>sr_last_stats_report_time := now\<rparr>)" using p(3) by (simp add: record_ok_def)
  then show ?thesis using p a r2 assms(3) by (auto simp: report_record_def)
qed

section \<open>The temperature statistics\<close>

definition custom_ok :: "'a StatsByThreshold \<Rightarrow> bool" where
  "custom_ok sb \<longleftrightarrow> sb_thresholds sb \<noteq> [] \<and> length (sb_thresholds sb) \<le> kMaxStatsThresholdCount
     \<and> record_ok (length (sb_thresholds sb) + 1) (sb_stats_record sb)"

definition temp_stats_ok :: "('a, 'b) ThermalStats_scheme \<Rightarrow> bool" where
  "temp_stats_ok hs \<longleftrightarrow> (\<forall>sb \<in> set (hs_by_custom_threshold hs). custom_ok sb)
     \<and> (\<forall>r. hs_by_default_threshold hs = Some r \<longrightarrow> record_ok 7 r)"

lemma bucket_ok:
  "ths \<noteq> [] \<Longrightarrow> \<exists>b. calculateThresholdBucket lt to_int ths v = Inr b \<and> 0 \<le> b \<and> b < int (length ths + 1)"
  using upper_bound_le [of lt ths v 0 "length ths"] by (simp add: calculateThresholdBucket_def)

lemma update_custom_ok:
  assumes "custom_ok sb"
  shows "\<exists>sb'. update_custom lt to_int now v sb = Inr sb' \<and> custom_ok sb'"
proof -
  have ne: "sb_thresholds sb \<noteq> []" and r0: "record_ok (length (sb_thresholds sb) + 1) (sb_stats_record sb)"
    using assms by (simp_all add: custom_ok_def)
  obtain b where b: "calculateThresholdBucket lt to_int (sb_thresholds sb) v = Inr b"
      "0 \<le> b" "b < int (length (sb_thresholds sb) + 1)"
    using bucket_ok [OF ne, of lt to_int v] by (elim exE conjE)
  obtain r where "switch_state now b (sb_stats_record sb) = Inr r"
      "record_ok (length (sb_thresholds sb) + 1) r"
    using switch_state_ok [OF r0 b(2,3), of now] by (elim exE conjE)
  then have "update_custom lt to_int now v sb = Inr (sb\<lparr>sb_stats_record := r\<rparr>)"
    and "custom_ok (sb\<lparr>sb_stats_record := r\<rparr>)"
    using b assms by (simp_all add: update_custom_def custom_ok_def)
  then show ?thesis by blast
qed

lemma update_temp_stats_ok:
  assumes "temp_stats_ok ss"
  shows "\<exists>ss'. update_temp_stats now wall t ss = Inr ss' \<and> temp_stats_ok ss'"
proof -
  have "\<exists>cs. mapE (update_custom flt_lt to_int_f now t) (hs_by_custom_threshold ss) = Inr cs
      \<and> (\<forall>sb \<in> set cs. custom_ok sb)"
    by (rule mapE_ok [where P = custom_ok])
      (use assms update_custom_ok in \<open>simp_all add: temp_stats_ok_def\<close>)
  then obtain cs where "mapE (update_custom flt_lt to_int_f now t) (hs_by_custom_threshold ss) = Inr cs"
      "\<forall>sb \<in> set cs. custom_ok sb" by (elim exE conjE)
  then have "update_temp_stats now wall t ss = Inr (track_extremes wall t (ss\<lparr>hs_by_custom_threshold := cs\<rparr>))"
    and "temp_stats_ok (track_extremes wall t (ss\<lparr>hs_by_custom_threshold := cs\<rparr>))"
    using assms by (simp_all add: update_temp_stats_def temp_stats_ok_def track_extremes_def Let_def)
  then show ?thesis by blast
qed

lemma close_custom_ok:
  assumes "custom_ok sb"
  shows "\<exists>sb'. bindE (close_record now (sb_stats_record sb)) (\<lambda>r. Inr (sb\<lparr>sb_stats_record := r\<rparr>)) = Inr sb'
    \<and> custom_ok sb'"
proof -
  obtain r where "close_record now (sb_stats_record sb) = Inr r" "record_ok (length (sb_thresholds sb) + 1) r"
    using close_record_ok [of _ "sb_stats_record sb" now] assms unfolding custom_ok_def by (elim conjE) blast
  then show ?thesis using assms by (simp add: custom_ok_def)
qed

lemma close_stats_ok:
  assumes "temp_stats_ok hs"
  shows "\<exists>hs'. close_stats now hs = Inr hs' \<and> temp_stats_ok hs'"
proof -
  have "\<exists>cs. mapE (\<lambda>sb. bindE (close_record now (sb_stats_record sb))
      (\<lambda>r. Inr (sb\<lparr>sb_stats_record := r\<rparr>))) (hs_by_custom_threshold hs) = Inr cs
      \<and> (\<forall>sb \<in> set cs. custom_ok sb)"
    by (rule mapE_ok [where P = custom_ok])
      (use assms close_custom_ok in \<open>simp_all add: temp_stats_ok_def\<close>)
  then obtain cs where cs: "mapE (\<lambda>sb. bindE (close_record now (sb_stats_record sb))
      (\<lambda>r. Inr (sb\<lparr>sb_stats_record := r\<rparr>))) (hs_by_custom_threshold hs) = Inr cs"
      "\<forall>sb \<in> set cs. custom_ok sb" by (elim exE conjE)
  show ?thesis
  proof (cases "hs_by_default_threshold hs")
    case None
    have "close_stats now hs = Inr (hs\<lparr>hs_by_custom_threshold := cs, hs_by_default_threshold := None\<rparr>)"
      using cs None by (simp add: close_stats_def optE_def)
    moreover have "temp_stats_ok (hs\<lparr>hs_by_custom_threshold := cs, hs_by_default_threshold := None\<rparr>)"
      using cs by (simp add: temp_stats_ok_def)
    ultimately show ?thesis by blast
  next
    case (Some r)
    then obtain r' where "close_record now r = Inr r'" "record_ok 7 r'"
      using assms close_record_ok unfolding temp_stats_ok_def by blast
    then have "close_stats now hs = Inr (hs\<lparr>hs_by_custom_threshold := cs, hs_by_default_threshold := Some r'\<rparr>)"
      and "temp_stats_ok (hs\<lparr>hs_by_custom_threshold := cs, hs_by_default_threshold := Some r'\<rparr>)"
      using cs Some by (simp_all add: close_stats_def optE_def temp_stats_ok_def)
    then show ?thesis by blast
  qed
qed

end
