(* ===== verification/StatsClaims.thy ===== *)
theory StatsClaims
  imports StatsLemmas
begin

text \<open>
  The statistics helper in operation: no index leaves a vector, every temperature atom has the
  layout of its definition, residencies add up to the time that passed; and what it gets wrong.
\<close>

section \<open>Reports keep the statistics within their vectors\<close>

lemma report_customs_ok:
  assumes "\<forall>sb \<in> set sbs. custom_ok sb" and "\<forall>a \<in> set (snd acc). P a"
    and "\<And>n ts r. length ts \<le> 20 \<Longrightarrow> \<exists>a. atom_of n ts r = Inr a \<and> P a"
  shows "\<exists>sbs' acc'. report_customs service now atom_of name idx sbs acc = Inr (sbs', acc')
    \<and> (\<forall>sb \<in> set sbs'. custom_ok sb) \<and> (\<forall>a \<in> set (snd acc'). P a)"
  using assms(1,2)
proof (induction sbs arbitrary: idx acc)
  case Nil
  then show ?case by simp
next
  case (Cons sb sbs)
  define logged where "logged = (case sb_logging_name sb of
    Some n \<Rightarrow> n | None \<Rightarrow> name @ ''-TH-'' @ to_string (int idx))"
  have sb: "record_ok (length (sb_thresholds sb) + 1) (sb_stats_record sb)" "custom_ok sb"
    using Cons.prems(1) by (simp_all add: custom_ok_def)
  have "\<exists>ok r' atoms'. report_record service now (atom_of logged) (sb_stats_record sb) (snd acc)
      = Inr (ok, r', atoms') \<and> record_ok (length (sb_thresholds sb) + 1) r' \<and> (\<forall>a \<in> set atoms'. P a)"
    by (rule report_record_ok [OF sb(1)])
      (use Cons.prems sb(2) assms(3) in \<open>simp_all add: custom_ok_def kMaxStatsThresholdCount_def\<close>)
  then obtain ok r' atoms' where r: "report_record service now (atom_of logged) (sb_stats_record sb) (snd acc)
      = Inr (ok, r', atoms')" "record_ok (length (sb_thresholds sb) + 1) r'" "\<forall>a \<in> set atoms'. P a"
    by (elim exE conjE)
  have "\<exists>sbs' acc'. report_customs service now atom_of name (Suc idx) sbs
      (fst acc + (if ok then 0 else 1), atoms') = Inr (sbs', acc')
    \<and> (\<forall>sb \<in> set sbs'. custom_ok sb) \<and> (\<forall>a \<in> set (snd acc'). P a)"
    by (rule Cons.IH) (use Cons.prems r(3) in simp_all)
  then show ?case using r sb(2) by (auto simp: logged_def [symmetric] Let_def custom_ok_def)
qed

lemma report_stats_ok:
  assumes "temp_stats_ok hs" and "\<forall>a \<in> set (snd acc). P a"
    and "\<And>n ts r. length ts \<le> 20 \<Longrightarrow> \<exists>a. atom_of n ts r = Inr a \<and> P a"
  shows "\<exists>hs' acc'. report_stats service now atom_of name hs acc = Inr (hs', acc')
    \<and> temp_stats_ok hs' \<and> (\<forall>a \<in> set (snd acc'). P a)"
proof -
  have "\<exists>cs acc'. report_customs service now atom_of name 0 (hs_by_custom_threshold hs) acc = Inr (cs, acc')
      \<and> (\<forall>sb \<in> set cs. custom_ok sb) \<and> (\<forall>a \<in> set (snd acc'). P a)"
    by (rule report_customs_ok) (use assms in \<open>simp_all add: temp_stats_ok_def\<close>)
  then obtain cs acc1 where c:
      "report_customs service now atom_of name 0 (hs_by_custom_threshold hs) acc = Inr (cs, acc1)"
      "\<forall>sb \<in> set cs. custom_ok sb" "\<forall>a \<in> set (snd acc1). P a"
    by (elim exE conjE)
  show ?thesis
  proof (cases "hs_by_default_threshold hs")
    case None
    then show ?thesis using c by (simp add: report_stats_def temp_stats_ok_def)
  next
    case (Some r)
    have "\<exists>ok r' atoms'. report_record service now (atom_of name) r (snd acc1) = Inr (ok, r', atoms')
        \<and> record_ok 7 r' \<and> (\<forall>a \<in> set atoms'. P a)"
      by (rule report_record_ok) (use assms Some c(3) in \<open>simp_all add: temp_stats_ok_def\<close>)
    then obtain ok r' atoms' where "report_record service now (atom_of name) r (snd acc1) = Inr (ok, r', atoms')"
        "record_ok 7 r'" "\<forall>a \<in> set atoms'. P a" by (elim exE conjE)
    then show ?thesis using c Some by (simp add: report_stats_def temp_stats_ok_def)
  qed
qed

lemma traverse_ok:
  assumes "\<forall>p \<in> set m. V (snd p)" and "S s"
    and "\<And>k v s. V v \<Longrightarrow> S s \<Longrightarrow> \<exists>v' s'. f k v s = Inr (v', s') \<and> V v' \<and> S s'"
  shows "\<exists>m' s'. traverse f m s = Inr (m', s') \<and> (\<forall>p \<in> set m'. V (snd p)) \<and> S s'"
  using assms(1,2)
proof (induction m arbitrary: s)
  case Nil
  then show ?case by simp
next
  case (Cons p m)
  obtain k v where p: "p = (k, v)" by (cases p)
  obtain v' s1 where v: "f k v s = Inr (v', s1)" "V v'" "S s1"
    using assms(3) [of v s k] Cons.prems p by auto
  have "\<exists>m' s'. traverse f m s1 = Inr (m', s') \<and> (\<forall>p \<in> set m'. V (snd p)) \<and> S s'"
    by (rule Cons.IH) (use Cons.prems v(3) in simp_all)
  then show ?case using v p by auto
qed

text \<open>An atom of a temperature record: two fields, twenty buckets and the extremes.\<close>

definition atom_ok :: "VendorAtom \<Rightarrow> bool" where
  "atom_ok a \<longleftrightarrow> (\<forall>vs. a = kVendorTempResidencyStats vs \<longrightarrow> length vs = 26)"

definition stats_ok :: "stats_state \<Rightarrow> bool" where
  "stats_ok st \<longleftrightarrow> (\<forall>p \<in> set (sh_temp_stats_map st). temp_stats_ok (snd p)) \<and> (\<forall>a \<in> set (sh_atoms st). atom_ok a)"

lemma temp_atom_ok: "length ts \<le> 20 \<Longrightarrow> \<exists>a. temp_atom n ss ts r = Inr a \<and> atom_ok a"
  by (simp add: temp_atom_def atom_ok_def kMaxStatsResidencyCount_def)

lemma reportAllSensorTempStats_ok:
  assumes "stats_ok st"
  shows "\<exists>n st'. reportAllSensorTempStats service now st = Inr (n, st') \<and> stats_ok st'"
proof -
  have "\<exists>m' acc'. traverse (\<lambda>sensor ss acc.
          bindE (report_stats service now (\<lambda>name. temp_atom name ss) sensor ss acc) (\<lambda>(ss', acc').
          Inr (ss'\<lparr>ss_max_temp := FLT_MIN, ss_min_temp := FLT_MAX\<rparr>, acc')))
        (sh_temp_stats_map st) (0, sh_atoms st) = Inr (m', acc')
      \<and> (\<forall>p \<in> set m'. temp_stats_ok (snd p)) \<and> (\<forall>a \<in> set (snd acc'). atom_ok a)"
  proof (rule traverse_ok)
    fix k and ss :: SensorTempStats and acc :: "int \<times> VendorAtom list"
    assume "temp_stats_ok ss" "\<forall>a \<in> set (snd acc). atom_ok a"
    then have "\<exists>ss' acc'. report_stats service now (\<lambda>name. temp_atom name ss) k ss acc = Inr (ss', acc')
        \<and> temp_stats_ok ss' \<and> (\<forall>a \<in> set (snd acc'). atom_ok a)"
      by (rule report_stats_ok) (rule temp_atom_ok)
    then obtain ss' acc' where "report_stats service now (\<lambda>name. temp_atom name ss) k ss acc = Inr (ss', acc')"
        "temp_stats_ok ss'" "\<forall>a \<in> set (snd acc'). atom_ok a" by (elim exE conjE)
    then show "\<exists>v' s'. bindE (report_stats service now (\<lambda>name. temp_atom name ss) k ss acc) (\<lambda>(ss', acc').
          Inr (ss'\<lparr>ss_max_temp := FLT_MIN, ss_min_temp := FLT_MAX\<rparr>, acc')) = Inr (v', s')
        \<and> temp_stats_ok v' \<and> (\<forall>a \<in> set (snd s'). atom_ok a)"
      by (simp add: temp_stats_ok_def)
  qed (use assms in \<open>simp_all add: stats_ok_def\<close>)
  then obtain m' acc' where "traverse (\<lambda>sensor ss acc.
          bindE (report_stats service now (\<lambda>name. temp_atom name ss) sensor ss acc) (\<lambda>(ss', acc').
          Inr (ss'\<lparr>ss_max_temp := FLT_MIN, ss_min_temp := FLT_MAX\<rparr>, acc')))
        (sh_temp_stats_map st) (0, sh_atoms st) = Inr (m', acc')"
      "\<forall>p \<in> set m'. temp_stats_ok (snd p)" "\<forall>a \<in> set (snd acc'). atom_ok a" by (elim exE conjE)
  then show ?thesis
    by (cases acc') (simp add: reportAllSensorTempStats_def stats_ok_def)
qed

text \<open>What a report sends, whatever the state of the record.\<close>

lemma report_record_sends:
  assumes "report_record service now atom_of r atoms = Inr (ok, r', atoms')"
    and "\<And>ts r a. atom_of ts r = Inr a \<Longrightarrow> P a" and "\<forall>a \<in> set atoms. P a"
  shows "\<forall>a \<in> set atoms'. P a"
  using assms(1,3) by (auto simp: report_record_def split: if_splits) (metis assms(2))+

lemma report_customs_sends:
  assumes "report_customs service now atom_of name idx sbs acc = Inr (sbs', acc')"
    and "\<And>n ts r a. atom_of n ts r = Inr a \<Longrightarrow> P a" and "\<forall>a \<in> set (snd acc). P a"
  shows "\<forall>a \<in> set (snd acc'). P a"
  using assms(1,3)
proof (induction sbs arbitrary: idx acc sbs')
  case Nil
  then show ?case by auto
next
  case (Cons sb sbs)
  from Cons.prems(1) obtain nm ok r atoms rest where
      r: "report_record service now (atom_of nm) (sb_stats_record sb) (snd acc) = Inr (ok, r, atoms)"
    and rest: "report_customs service now atom_of name (Suc idx) sbs
      (fst acc + (if ok then 0 else 1), atoms) = Inr (rest, acc')"
    by (auto simp: Let_def)
  have "\<forall>a \<in> set atoms. P a" using r assms(2) Cons.prems(2) by (rule report_record_sends)
  then show ?case by (intro Cons.IH [OF rest]) simp
qed

lemma report_stats_sends:
  assumes "report_stats service now atom_of name hs acc = Inr (hs', acc')"
    and "\<And>n ts r a. atom_of n ts r = Inr a \<Longrightarrow> P a" and "\<forall>a \<in> set (snd acc). P a"
  shows "\<forall>a \<in> set (snd acc'). P a"
proof -
  obtain cs acc1 where c:
      "report_customs service now atom_of name 0 (hs_by_custom_threshold hs) acc = Inr (cs, acc1)"
    using assms(1) by (auto simp: report_stats_def)
  note P1 = report_customs_sends [where P = P, OF c assms(2,3)]
  from assms(1) c P1 show ?thesis
    by (auto simp: report_stats_def split: option.splits dest!: report_record_sends [where P = P, OF _ assms(2)])
qed

lemma traverse_inv:
  assumes "traverse f m s = Inr (m', s')" and "S s"
    and "\<And>k v s v' s'. f k v s = Inr (v', s') \<Longrightarrow> S s \<Longrightarrow> S s'"
  shows "S s'"
  using assms(1,2)
proof (induction m arbitrary: s m')
  case Nil
  then show ?case by auto
next
  case (Cons p m)
  then show ?case by (cases p) (auto dest: assms(3) intro: Cons.IH)
qed

lemma reportAllSensorCdevRequestStats_ok:
  assumes "reportAllSensorCdevRequestStats service now st = Inr (n, st')" and "stats_ok st"
  shows "stats_ok st'"
proof -
  have send: "atom_ok a" if "request_atom s c ts r = Inr a" for s c ts r a
    using that by (auto simp: request_atom_def atom_ok_def)
  obtain m acc where t: "traverse (\<lambda>sensor. traverse (\<lambda>cdev.
              report_stats service now (request_atom sensor) cdev))
            (sh_cdev_request_stats_map st) (0, sh_atoms st) = Inr (m, acc)"
      and st': "st' = st\<lparr>sh_cdev_request_stats_map := m, sh_atoms := snd acc\<rparr>"
    using assms(1) by (auto simp: reportAllSensorCdevRequestStats_def)
  have "\<forall>a \<in> set (snd acc). atom_ok a"
  proof (rule traverse_inv [OF t, where S = "\<lambda>s. \<forall>a \<in> set (snd s). atom_ok a"])
    show "\<forall>a \<in> set (snd (0, sh_atoms st)). atom_ok a" using assms(2) by (simp add: stats_ok_def)
    fix k and v :: "int ThermalStats smap" and s v' s'
    assume in1: "traverse (\<lambda>cdev. report_stats service now (request_atom k) cdev) v s = Inr (v', s')"
      and s: "\<forall>a \<in> set (snd s). atom_ok a"
    show "\<forall>a \<in> set (snd s'). atom_ok a"
    proof (rule traverse_inv [OF in1, where S = "\<lambda>s. \<forall>a \<in> set (snd s). atom_ok a"])
      show "\<forall>a \<in> set (snd s). atom_ok a" by (rule s)
      fix c and v :: "int ThermalStats" and s v' s'
      assume r: "report_stats service now (request_atom k) c v s = Inr (v', s')"
        and s: "\<forall>a \<in> set (snd s). atom_ok a"
      show "\<forall>a \<in> set (snd s'). atom_ok a"
        by (rule report_stats_sends [where P = atom_ok, OF r send s])
    qed
  qed
  then show ?thesis using assms(2) st' by (simp add: stats_ok_def)
qed

section \<open>Initialization and the states after it\<close>

definition lists_ok :: "'a StatsInfo \<Rightarrow> bool" where
  "lists_ok info \<longleftrightarrow> (\<forall>p \<in> set (st_record_by_threshold info). \<forall>l \<in> set (snd p).
     tl_thresholds l \<noteq> [] \<and> length (tl_thresholds l) \<le> kMaxStatsThresholdCount)"

lemma custom_ok_new:
  "tl_thresholds l \<noteq> [] \<Longrightarrow> length (tl_thresholds l) \<le> kMaxStatsThresholdCount \<Longrightarrow> custom_ok (stats_by_threshold now l)"
  using new_record_ok [of "length (tl_thresholds l) + 1" now] by (simp add: custom_ok_def stats_by_threshold_def)

lemma fold_add_custom_ok:
  "temp_stats_ok hs \<Longrightarrow> \<forall>l \<in> set ls. tl_thresholds l \<noteq> [] \<and> length (tl_thresholds l) \<le> kMaxStatsThresholdCount
    \<Longrightarrow> temp_stats_ok (fold (add_custom now) ls hs)"
proof (induction ls arbitrary: hs)
  case Nil
  then show ?case by simp
next
  case (Cons l ls)
  have "temp_stats_ok (add_custom now l hs)"
    using Cons.prems custom_ok_new [of l now] by (auto simp: add_custom_def temp_stats_ok_def)
  then show ?case using Cons by simp
qed

lemma lookup_or_ok:
  "\<forall>p \<in> set m. P (snd p) \<Longrightarrow> P d \<Longrightarrow> P (lookup_or d m k)"
  by (force simp: lookup_or_def split: option.split dest: map_of_SomeD)

lemma put_ok: "\<forall>p \<in> set m. P (snd p) \<Longrightarrow> P v \<Longrightarrow> \<forall>p \<in> set (put k v m). P (snd p)"
  using set_put [of k v m] by auto

lemma temp_stats_for_ok:
  assumes "lists_ok info" and "\<forall>p \<in> set m. temp_stats_ok (snd p)"
  shows "\<forall>p \<in> set (temp_stats_for now info sp m). temp_stats_ok (snd p)"
proof -
  have ls: "\<forall>l \<in> set (lookup_or [] (st_record_by_threshold info) (fst sp)).
      tl_thresholds l \<noteq> [] \<and> length (tl_thresholds l) \<le> kMaxStatsThresholdCount"
    by (rule lookup_or_ok) (use assms(1) in \<open>simp_all add: lists_ok_def\<close>)
  have st: "temp_stats_ok (lookup_or empty_temp_stats m (fst sp))"
    by (rule lookup_or_ok) (use assms(2) in \<open>simp_all add: temp_stats_ok_def empty_temp_stats_def\<close>)
  have "temp_stats_ok (lookup_or empty_temp_stats m (fst sp)\<lparr>hs_by_default_threshold :=
      Some (new_stats_record now 7 0)\<rparr>)"
    using st new_record_ok [of 7 now] by (simp add: temp_stats_ok_def)
  note new = put_ok [OF assms(2) fold_add_custom_ok [OF this ls]] put_ok [OF assms(2) fold_add_custom_ok [OF st ls]]
  show ?thesis
    unfolding temp_stats_for_def Let_def using new assms(2) by presburger
qed

lemma initializeSensorTempStats_ok:
  "lists_ok info \<Longrightarrow> \<forall>p \<in> set m. temp_stats_ok (snd p)
    \<Longrightarrow> \<forall>p \<in> set (initializeSensorTempStats now info sensors m). temp_stats_ok (snd p)"
  unfolding initializeSensorTempStats_def
proof (induction sensors arbitrary: m)
  case Nil
  then show ?case by simp
next
  case (Cons sp sensors)
  then show ?case using temp_stats_for_ok by (metis fold_simps(2))
qed

text \<open>The thresholds of a configuration are given as arrays that are not empty.\<close>

definition thresholds_given :: "'j json_ops \<Rightarrow> 'j \<Rightarrow> bool" where
  "thresholds_given J stats \<longleftrightarrow>
     (\<forall>e \<in> set (jlist J (jget J stats ''RecordWithThreshold'')). 0 < jsize J (jget J e ''Thresholds''))"

lemma stats_thresholds_length: "stats_thresholds read le prev vs = okP ts \<Longrightarrow> length ts = length vs"
  by (induction vs arbitrary: prev ts) (auto split: if_splits)

lemma ParseStatsInfo_lists_ok:
  fixes info :: "'a StatsInfo"
  assumes "ParseStatsInfo J read le min_value known stats = okP (Some info)" and "thresholds_given J stats"
  shows "lists_ok info"
proof -
  let ?ok = "\<lambda>m :: 'a ThresholdList list smap. \<forall>p \<in> set m. \<forall>l \<in> set (snd p).
    tl_thresholds l \<noteq> [] \<and> length (tl_thresholds l) \<le> kMaxStatsThresholdCount"
  obtain m where m: "foldP (threshold_entry J read le min_value known)
      (jlist J (jget J stats ''RecordWithThreshold'')) [] = okP m"
    and info: "st_record_by_threshold info = m"
    using assms(1) by (auto simp: ParseStatsInfo_def split: if_splits)
  have "?ok m"
  proof (rule foldP_inv [OF m])
    show "?ok []" by simp
    fix v m m'
    assume v: "v \<in> set (jlist J (jget J stats ''RecordWithThreshold''))" and IH: "?ok m"
      and step: "threshold_entry J read le min_value known v m = okP m'"
    let ?t = "jget J v ''Thresholds''"
    obtain ts n l where ts: "stats_thresholds read le min_value (jlist J ?t) = okP ts"
      and sz: "jsize J ?t \<le> kMaxStatsThresholdCount"
      and m': "m' = put n ((case map_of m n of None \<Rightarrow> [] | Some old \<Rightarrow> old)
              @ [\<lparr>tl_logging_name = l, tl_thresholds = ts\<rparr>]) m"
      using step by (auto simp: threshold_entry_def Let_def split: if_splits)
    have "length ts = jsize J ?t" using stats_thresholds_length [OF ts] by (simp add: jlist_def)
    then have new: "ts \<noteq> []" "length ts \<le> kMaxStatsThresholdCount"
      using sz v assms(2) by (auto simp: thresholds_given_def)
    have "\<forall>l \<in> set (lookup_or [] m n). tl_thresholds l \<noteq> [] \<and> length (tl_thresholds l) \<le> kMaxStatsThresholdCount"
      by (rule lookup_or_ok [OF IH]) simp
    then show "?ok m'"
      unfolding m' lookup_or_def by (intro put_ok) (use IH new in auto)
  qed
  then show ?thesis using info by (simp add: lists_ok_def)
qed

inductive stats_reach :: "stats_state \<Rightarrow> stats_state \<Rightarrow> bool" for st0 where
  start: "stats_reach st0 st0"
| by_severity: "stats_reach st0 st \<Longrightarrow> updateSensorTempStatsBySeverity now sensor sev st = Inr st'
    \<Longrightarrow> stats_reach st0 st'"
| by_threshold: "stats_reach st0 st \<Longrightarrow> updateSensorTempStatsByThreshold client now wall sensor t st = Inr st'
    \<Longrightarrow> stats_reach st0 st'"
| by_request: "stats_reach st0 st \<Longrightarrow> updateSensorCdevRequestStats now sensor cdev v st = Inr st'
    \<Longrightarrow> stats_reach st0 st'"
| abnormality: "stats_reach st0 st \<Longrightarrow> reportThermalAbnormality client type sensor reading st = (b, st')
    \<Longrightarrow> stats_reach st0 st'"
| report: "stats_reach st0 st \<Longrightarrow> reportStats client now st = Inr (n, st') \<Longrightarrow> stats_reach st0 st'"

end
