(* ===== verification/StatsProps.thy ===== *)
theory StatsProps
  imports StatsClaims ConfigFaults
begin

text \<open>
  The properties of the statistics helper, each with a closed instance.
\<close>

section \<open>Every operation keeps the temperature statistics within their vectors\<close>

lemma stats_ok_put:
  "stats_ok st \<Longrightarrow> temp_stats_ok ss \<Longrightarrow> stats_ok (st\<lparr>sh_temp_stats_map := put sensor ss (sh_temp_stats_map st)\<rparr>)"
  using put_ok [of "sh_temp_stats_map st" temp_stats_ok ss sensor] by (simp add: stats_ok_def)

lemma stats_ok_at: "stats_ok st \<Longrightarrow> map_of (sh_temp_stats_map st) sensor = Some ss \<Longrightarrow> temp_stats_ok ss"
  by (force simp: stats_ok_def dest: map_of_SomeD)

lemma stats_ok_frame:
  "stats_ok st \<Longrightarrow> sh_temp_stats_map st' = sh_temp_stats_map st \<Longrightarrow> \<forall>a \<in> set (sh_atoms st'). atom_ok a \<Longrightarrow> stats_ok st'"
  by (simp add: stats_ok_def)

lemma abnormality_ok: "stats_ok st \<Longrightarrow> stats_ok (snd (reportThermalAbnormality client type name reading st))"
  by (rule stats_ok_frame)
    (auto simp: reportThermalAbnormality_def send_atom_def stats_ok_def atom_ok_def split: option.split)

lemma set_curr_ok: "stats_ok st \<Longrightarrow> stats_ok (set_curr sensor cs st)"
  by (simp add: set_curr_def stats_ok_def)

lemma verify_ok:
  assumes "verifySensorAbnormality client now sensor temp st = Inr st'" and "stats_ok st"
  shows "stats_ok st'"
proof -
  obtain st1 where r: "verify_range client sensor temp st = Inr st1"
    and s: "verify_stuck client now sensor temp st1 = Inr st'"
    using assms(1) by (auto simp: verifySensorAbnormality_def)
  have "stats_ok st1"
    using r assms(2) by (auto simp: verify_range_def intro: abnormality_ok split: option.splits if_splits)
  moreover have "stats_ok st2"
    if "reportThermalAbnormality client ty sensor rd (set_curr sensor cs0 st1) = (ok, st2)" for ty rd cs0 ok st2
    using abnormality_ok [OF set_curr_ok [OF \<open>stats_ok st1\<close>], of client ty sensor rd sensor cs0] that by simp
  ultimately show ?thesis
    using s by (auto simp: verify_stuck_def Let_def intro!: set_curr_ok split: option.splits if_splits prod.splits)
qed

lemma by_severity_ok:
  assumes "stats_ok st"
  shows "\<exists>st'. updateSensorTempStatsBySeverity now sensor sev st = Inr st' \<and> stats_ok st'"
proof (cases "map_of (sh_temp_stats_map st) sensor")
  case None
  then show ?thesis using assms by (simp add: updateSensorTempStatsBySeverity_def)
next
  case (Some ss)
  have ss: "temp_stats_ok ss" using stats_ok_at [OF assms Some] .
  have sev: "int (sev_idx sev) < int 7" by (cases sev) simp_all
  have "\<exists>d. optE (switch_state now (int (sev_idx sev))) (hs_by_default_threshold ss) = Inr d
      \<and> temp_stats_ok (ss\<lparr>hs_by_default_threshold := d\<rparr>)"
  proof (cases "hs_by_default_threshold ss")
    case None
    then show ?thesis using ss by (simp add: optE_def temp_stats_ok_def)
  next
    case (Some r)
    then have "record_ok 7 r" using ss by (simp add: temp_stats_ok_def)
    from switch_state_ok [OF this _ sev, of now] obtain r' where
      "switch_state now (int (sev_idx sev)) r = Inr r'" "record_ok 7 r'" by auto
    then show ?thesis using ss Some by (simp add: optE_def temp_stats_ok_def)
  qed
  then obtain d where "optE (switch_state now (int (sev_idx sev))) (hs_by_default_threshold ss) = Inr d"
      "temp_stats_ok (ss\<lparr>hs_by_default_threshold := d\<rparr>)" by (elim exE conjE)
  then show ?thesis using Some stats_ok_put [OF assms] by (simp add: updateSensorTempStatsBySeverity_def)
qed

lemma by_threshold_ok:
  assumes "updateSensorTempStatsByThreshold client now wall sensor t st = Inr st'" and "stats_ok st"
  shows "stats_ok st'"
proof -
  obtain st1 where v: "verifySensorAbnormality client now sensor t st = Inr st1"
    using assms(1) by (auto simp: updateSensorTempStatsByThreshold_def)
  have ok1: "stats_ok st1" using verify_ok [OF v assms(2)] .
  show ?thesis
  proof (cases "map_of (sh_temp_stats_map st1) sensor")
    case None
    then show ?thesis using assms(1) v ok1 by (simp add: updateSensorTempStatsByThreshold_def)
  next
    case (Some ss)
    obtain ss' where "update_temp_stats now wall t ss = Inr ss'" "temp_stats_ok ss'"
      using update_temp_stats_ok [OF stats_ok_at [OF ok1 Some], of now wall t] by (elim exE conjE)
    then show ?thesis using assms(1) v Some stats_ok_put [OF ok1]
      by (simp add: updateSensorTempStatsByThreshold_def) blast
  qed
qed

lemma reportStats_ok:
  assumes "reportStats client now st = Inr (n, st')" and "stats_ok st"
  shows "stats_ok st'"
proof (cases "since_ms now (sh_last_total_stats_report_time st) < kUpdateIntervalMs \<or> client = None")
  case True
  then show ?thesis using assms by (auto simp: reportStats_def split: if_splits)
next
  case False
  then obtain service n1 st1 n2 st2 where c: "client = Some service"
    and t: "reportAllSensorTempStats service now st = Inr (n1, st1)"
    and r: "reportAllSensorCdevRequestStats service now st1 = Inr (n2, st2)"
    and st': "st' = st2\<lparr>sh_last_total_stats_report_time := now, sh_abnormal_stats_reported := 0\<rparr>"
    using assms(1) by (auto simp: reportStats_def)
  have "stats_ok st1" using reportAllSensorTempStats_ok [OF assms(2), of service now] t by auto
  from reportAllSensorCdevRequestStats_ok [OF r this] show ?thesis by (simp add: st' stats_ok_def)
qed

lemma by_request_ok:
  assumes "updateSensorCdevRequestStats now sensor cdev v st = Inr st'" and "stats_ok st"
  shows "stats_ok st'"
  using assms by (auto simp: updateSensorCdevRequestStats_def stats_ok_def split: option.splits)

lemma stats_reach_ok:
  assumes "stats_reach st0 st" and "stats_ok st0"
  shows "stats_ok st"
  using assms
proof (induction rule: stats_reach.induct)
  case start
  then show ?case .
next
  case (by_severity st now sensor sev st')
  then show ?case using by_severity_ok [of st now sensor sev] by auto
next
  case (by_threshold st client now wall sensor t st')
  then show ?case using by_threshold_ok by blast
next
  case (by_request st now sensor cdev v st')
  then show ?case using by_request_ok by blast
next
  case (abnormality st client type sensor reading b st')
  then show ?case using abnormality_ok [of st client type sensor reading] by simp
next
  case (report st client now n st')
  then show ?case using reportStats_ok by blast
qed

lemma empty_stats_ok: "stats_ok empty_stats_state"
  by (simp add: stats_ok_def empty_stats_state_def)

lemma initializeStats_ok:
  assumes "initializeStats J config sensors cdevs now empty_stats_state = okP st"
    and "thresholds_given J (jget J (jget J config ''Stats'') ''Sensors'')"
  shows "stats_ok st"
proof -
  obtain temp_info abnormal requests where
    p: "ParseSensorStatsConfig J (has sensors) config = okP (temp_info, abnormal)"
    and st: "st = initializeSensorAbnormalityStats
            (case abnormal of None \<Rightarrow> no_abnormal_info | Some i \<Rightarrow> i) sensors
            (empty_stats_state\<lparr>sh_temp_stats_map := initializeSensorTempStats now
                (case temp_info of None \<Rightarrow> no_stats_info | Some i \<Rightarrow> i) sensors
                (sh_temp_stats_map empty_stats_state),
              sh_cdev_request_stats_map := requests\<rparr>)
          \<lparr>sh_last_total_stats_report_time := now, sh_abnormal_stats_reported := 0\<rparr>"
    using assms(1) by (auto simp: initializeStats_def Let_def)
  have "lists_ok (case temp_info of None \<Rightarrow> no_stats_info | Some i \<Rightarrow> i)"
  proof (cases temp_info)
    case None
    then show ?thesis by (simp add: lists_ok_def no_stats_info_def)
  next
    case (Some info)
    have "ParseStatsInfo J (read_float_threshold J) flt_le (fneg FLT_MAX) (has sensors)
        (jget J (jget J config ''Stats'') ''Sensors'') = okP (Some info)"
      using p Some by (auto simp: ParseSensorStatsConfig_def Let_def split: if_splits)
    from ParseStatsInfo_lists_ok [OF this assms(2)] show ?thesis using Some by simp
  qed
  from initializeSensorTempStats_ok [OF this, of "sh_temp_stats_map empty_stats_state" now sensors]
  show ?thesis
    by (simp add: st stats_ok_def initializeSensorAbnormalityStats_def Let_def empty_stats_state_def)
qed

text \<open>
  C20: After an initialization from a configuration whose thresholds are given as arrays, and in
  every state the helper reaches from there, the operations on the temperature statistics (an
  update by severity, the temperature part of a report and the snapshot of the temperature
  statistics) index inside their vectors and succeed, and every temperature atom sent so far has
  the 26 fields of its definition. Nothing is said of the request statistics, whose states are
  stored without a check.
\<close>

theorem stats_within_vectors:
  assumes "initializeStats J config sensors cdevs now0 empty_stats_state = okP st0"
    and "thresholds_given J (jget J (jget J config ''Stats'') ''Sensors'')"
    and "stats_reach st0 st"
  shows "(\<exists>st'. updateSensorTempStatsBySeverity now sensor sev st = Inr st')
    \<and> (\<exists>n st'. reportAllSensorTempStats service now st = Inr (n, st'))
    \<and> (\<exists>snap. GetSensorTempStatsSnapshot now st = Inr snap)
    \<and> (\<forall>vs. kVendorTempResidencyStats vs \<in> set (sh_atoms st) \<longrightarrow> length vs = 26)"
proof -
  have ok: "stats_ok st" using stats_reach_ok [OF assms(3) initializeStats_ok [OF assms(1,2)]] .
  have "\<exists>ys. GetSensorTempStatsSnapshot now st = Inr ys \<and> (\<forall>y \<in> set ys. True)"
    unfolding GetSensorTempStatsSnapshot_def
  proof (rule mapE_ok [where P = "\<lambda>p. temp_stats_ok (snd p)"])
    show "\<forall>p \<in> set (sh_temp_stats_map st). temp_stats_ok (snd p)" using ok by (simp add: stats_ok_def)
    fix p :: "string \<times> SensorTempStats"
    assume "temp_stats_ok (snd p)"
    from close_stats_ok [OF this, of now] obtain ss where "close_stats now (snd p) = Inr ss" by (elim exE conjE)
    then show "\<exists>y. (case p of (k, ss) \<Rightarrow> bindE (close_stats now ss) (\<lambda>ss'. Inr (k, ss'))) = Inr y \<and> True"
      by (cases p) simp
  qed
  moreover have "\<forall>vs. kVendorTempResidencyStats vs \<in> set (sh_atoms st) \<longrightarrow> length vs = 26"
    using ok by (auto simp: stats_ok_def atom_ok_def)
  ultimately show ?thesis
    using by_severity_ok [OF ok, of now sensor sev] reportAllSensorTempStats_ok [OF ok, of service now] by blast
qed

definition ex_stats_config :: json where
  "ex_stats_config = JObj [(''Stats'', JObj [(''Sensors'', JObj
     [(''DefaultThresholdEnableAll'', JBool True),
      (''RecordWithThreshold'', JArr [JObj [(''Name'', JStr ''cpu''), (''Thresholds'', JArr [JNum 2, JNum 5])]])])])]"

lemma ex_stats_thresholds_given:
  "thresholds_given json_values (jget json_values (jget json_values ex_stats_config ''Stats'') ''Sensors'')"
  by (simp add: thresholds_given_def ex_stats_config_def json_eval)

lemma ex_stats_initialized:
  "\<exists>st. initializeStats json_values ex_stats_config [(''cpu'', ex_sensor ex_info)] ex_cdevs 0 empty_stats_state = okP st"
proof -
  have "\<not> flt_le (of_int_f 2) (fneg FLT_MAX)" "\<not> flt_le (of_int_f 5) (of_int_f 2)"
    by (simp_all add: ex_ints FLT_MAX_def fmax_units_def)
  then show ?thesis
    by (simp add: initializeStats_def ex_stats_config_def json_eval ParseSensorStatsConfig_def ParseStatsInfo_def
        record_default_of_def threshold_entry_def read_float_threshold_def has_def kMaxStatsThresholdCount_def
        ParseSensorAbnormalStatsConfig_def ParseCoolingDeviceStatsConfig_def initializeSensorCdevRequestStats_def
        ex_sensor_def ex_info_def request_stats_for_def ex_cdevs_def no_stats_info_def isRecordByDefaultThreshold_def
        lookup_or_def upt_conv_Cons)
qed

theorem stats_within_vectors_witness:
  "\<exists>st0 st'. initializeStats json_values ex_stats_config [(''cpu'', ex_sensor ex_info)] ex_cdevs 0 empty_stats_state = okP st0
    \<and> updateSensorTempStatsBySeverity 5 ''cpu'' SHUTDOWN st0 = Inr st'"
proof -
  obtain st0 where i: "initializeStats json_values ex_stats_config [(''cpu'', ex_sensor ex_info)] ex_cdevs 0
      empty_stats_state = okP st0"
    using ex_stats_initialized by (elim exE)
  then show ?thesis
    using stats_within_vectors [OF i ex_stats_thresholds_given stats_reach.start, of 5 "''cpu''" SHUTDOWN] by blast
qed

end
