(* ===== verification/StatsAccounting.thy ===== *)
theory StatsAccounting
  imports StatsProps
begin

text \<open>
  What the numbers of the statistics mean: which bucket a temperature falls in, that residencies
  add up to the time that passed, and where the code loses or misses some.
\<close>

section \<open>Buckets\<close>

text \<open>
  C21: The bucket of a temperature is the number of configured thresholds it has reached: on the
  thresholds the parser accepts the binary search counts those not above the temperature.
\<close>

theorem bucket_counts_thresholds:
  assumes "stats_thresholds (read_float_threshold J) flt_le (fneg FLT_MAX) vs = okP thresholds"
    and "\<forall>t \<in> set thresholds. \<not> isnan t" and "\<not> isnan temperature" and "thresholds \<noteq> []"
  shows "calculateThresholdBucket flt_lt to_int_f thresholds temperature
    = Inr (int (card {t \<in> set thresholds. flt_le t temperature}))"
proof -
  have sorted: "sorted_wrt flt_lt thresholds"
    using stats_thresholds_increasing [OF assms(1,2)] by simp
  then have "distinct thresholds"
    by (auto simp: sorted_wrt_iff_nth_less distinct_conv_nth) (metis flt_lt_irrefl nat_neq_iff)
  then have "length (filter (\<lambda>t. flt_le t temperature) thresholds) = card {t \<in> set thresholds. flt_le t temperature}"
    using distinct_card [of "filter (\<lambda>t. flt_le t temperature) thresholds"] by simp
  moreover have "filter (\<lambda>t. \<not> flt_lt temperature t) thresholds = filter (\<lambda>t. flt_le t temperature) thresholds"
    by (rule filter_cong) (use assms(2,3) in \<open>simp_all add: flt_not_lt\<close>)
  ultimately show ?thesis
    using upper_bound_sorted [OF sorted] assms(4) by (simp add: calculateThresholdBucket_def)
qed

theorem bucket_counts_thresholds_witness:
  "calculateThresholdBucket flt_lt to_int_f [of_int_f 2, of_int_f 5] (of_int_f 3)
    = Inr (int (card {t \<in> set [of_int_f 2, of_int_f 5]. flt_le t (of_int_f 3)}))"
proof (rule bucket_counts_thresholds [where J = json_values and vs = "[JNum 2, JNum 5]"])
  have "\<not> flt_le (of_int_f 2) (fneg FLT_MAX)" "\<not> flt_le (of_int_f 5) (of_int_f 2)"
    by (simp_all add: ex_ints FLT_MAX_def fmax_units_def)
  then show "stats_thresholds (read_float_threshold json_values) flt_le (fneg FLT_MAX) [JNum 2, JNum 5]
      = okP [of_int_f 2, of_int_f 5]"
    by (simp add: read_float_threshold_def json_eval)
qed (simp_all add: ex_ints)

section \<open>Residencies\<close>

text \<open>
  A history is a list of times and the states that are reported at them. \<open>time_in s cur t es now\<close>
  is how long, from \<open>t\<close> to \<open>now\<close>, the state last reported is \<open>s\<close>, in nanoseconds, when it is
  \<open>cur\<close> at \<open>t\<close>; \<open>visits\<close> counts the stays in \<open>s\<close> and \<open>changes\<close> the reports of another state.
\<close>

fun time_in :: "int \<Rightarrow> int \<Rightarrow> int \<Rightarrow> (int \<times> int) list \<Rightarrow> int \<Rightarrow> int" where
  "time_in s cur t [] now = (if cur = s then now - t else 0)"
| "time_in s cur t (e # es) now = (if cur = s then fst e - t else 0) + time_in s (snd e) (fst e) es now"

fun visits :: "int \<Rightarrow> int \<Rightarrow> (int \<times> int) list \<Rightarrow> int" where
  "visits s cur [] = (if cur = s then 1 else 0)"
| "visits s cur (e # es) = (if cur = s \<and> snd e \<noteq> cur then 1 else 0) + visits s (snd e) es"

fun changes :: "int \<Rightarrow> (int \<times> int) list \<Rightarrow> int" where
  "changes cur [] = 0"
| "changes cur (e # es) = (if snd e \<noteq> cur then 1 else 0) + changes (snd e) es"

lemma time_in_same: "time_in s cur t ((t', cur) # es) now = time_in s cur t es now"
  by (cases es) simp_all

lemma sum_at_state: "0 \<le> cur \<Longrightarrow> cur < int n \<Longrightarrow> (\<Sum>s<n. if cur = int s then x else 0) = (x :: int)"
proof -
  assume c: "0 \<le> cur" "cur < int n"
  then have "(\<Sum>s<n. if cur = int s then x else 0) = (\<Sum>s<n. if s = nat cur then x else 0)"
    by (intro sum.cong) auto
  moreover have "nat cur < n" using c by (simp add: nat_less_iff)
  ultimately show ?thesis by simp
qed

lemma time_in_total:
  assumes "0 \<le> cur" "cur < int n" and "\<forall>e \<in> set es. 0 \<le> snd e \<and> snd e < int n"
  shows "(\<Sum>s<n. time_in (int s) cur t es now) = now - t"
  using assms by (induction es arbitrary: cur t) (simp_all add: sum_at_state sum.distrib)

lemma visits_total:
  assumes "0 \<le> cur" "cur < int n" and "\<forall>e \<in> set es. 0 \<le> snd e \<and> snd e < int n"
  shows "(\<Sum>s<n. visits (int s) cur es) = changes cur es + 1"
  using assms
proof (induction es arbitrary: cur)
  case Nil
  then show ?case by (simp add: sum_at_state)
next
  case (Cons e es)
  have "(\<Sum>s<n. visits (int s) cur (e # es))
      = (\<Sum>s<n. if cur = int s then (if snd e \<noteq> cur then 1 else 0) else 0) + (\<Sum>s<n. visits (int s) (snd e) es)"
    unfolding sum.distrib [symmetric] by (rule sum.cong) auto
  then show ?case using Cons by (simp add: sum_at_state)
qed

text \<open>The record over such a history.\<close>

definition record_states :: "(int \<times> int) list \<Rightarrow> StatsRecord \<Rightarrow> StatsRecord result" where
  "record_states = foldE (\<lambda>e. switch_state (fst e) (snd e))"

lemma updateStatsRecord_adds:
  assumes "record_ok n r" and "is_time now" and "is_time (sr_cur_state_start_time r)"
    and "sr_cur_state_start_time r \<le> now" and "0 \<le> s" and "s < int n"
  obtains r' where "updateStatsRecord now s r = Inr r'" and "record_ok n r'" and "sr_cur_state r' = s"
    and "sr_cur_state_start_time r' = now"
    and "\<And>k. k < n \<Longrightarrow> sr_time_in_state_ms r' ! k = sr_time_in_state_ms r ! k
      + (if int k = sr_cur_state r then (now - sr_cur_state_start_time r) div 1000000 else 0)"
proof
  let ?c = "nat (sr_cur_state r)" and ?d = "(now - sr_cur_state_start_time r) div 1000000"
  let ?r = "r\<lparr>sr_time_in_state_ms := (sr_time_in_state_ms r)[?c := sr_time_in_state_ms r ! ?c + ?d],
    sr_cur_state_start_time := now, sr_cur_state := s\<rparr>"
  show "updateStatsRecord now s r = Inr ?r" and "record_ok n ?r"
    using assms by (simp_all add: updateStatsRecord_def record_ok_def since_ms_time)
  show "sr_time_in_state_ms ?r ! k = sr_time_in_state_ms r ! k
      + (if int k = sr_cur_state r then ?d else 0)" if "k < n" for k
    using assms(1) that by (auto simp: record_ok_def nth_list_update)
qed simp_all

lemma record_states_residencies:
  assumes "record_ok n r" and "\<forall>e \<in> set es. is_time (fst e) \<and> 0 \<le> snd e \<and> snd e < int n"
    and "is_time (sr_cur_state_start_time r)" and "is_time now"
    and "sorted (sr_cur_state_start_time r # map fst es @ [now])"
  shows "\<exists>r1 r'. record_states es r = Inr r1 \<and> close_record now r1 = Inr r' \<and> record_ok n r'
    \<and> (\<forall>k < n. let ns = 1000000 * (sr_time_in_state_ms r' ! k - sr_time_in_state_ms r ! k);
                   t = time_in (int k) (sr_cur_state r) (sr_cur_state_start_time r) es now
         in ns \<le> t \<and> t \<le> ns + 999999 * visits (int k) (sr_cur_state r) es)"
  using assms
proof (induction es arbitrary: r)
  case Nil
  have "0 \<le> sr_cur_state r" "sr_cur_state r < int n" using Nil.prems(1) by (simp_all add: record_ok_def)
  then obtain r' where "updateStatsRecord now (sr_cur_state r) r = Inr r'" "record_ok n r'"
    "\<And>k. k < n \<Longrightarrow> sr_time_in_state_ms r' ! k = sr_time_in_state_ms r ! k
      + (if int k = sr_cur_state r then (now - sr_cur_state_start_time r) div 1000000 else 0)"
    using updateStatsRecord_adds [OF Nil.prems(1,4,3) _ \<open>0 \<le> sr_cur_state r\<close> \<open>sr_cur_state r < int n\<close>] Nil.prems(5)
    by (metis append_Nil list.simps(8) sorted2)
  then show ?case by (auto simp: record_states_def close_record_def Let_def)
next
  case (Cons e es)
  show ?case
  proof (cases "snd e = sr_cur_state r")
    case True
    have "record_states (e # es) r = record_states es r"
      using True by (simp add: record_states_def switch_state_def)
    moreover have "time_in s (sr_cur_state r) t (e # es) now = time_in s (sr_cur_state r) t es now" for s t
      using time_in_same [of s "sr_cur_state r" t "fst e" es now] True by (cases e) simp
    moreover have "visits s (sr_cur_state r) (e # es) = visits s (sr_cur_state r) es" for s
      using True by simp
    moreover have "sorted (sr_cur_state_start_time r # map fst es @ [now])" using Cons.prems(5) by simp
    ultimately show ?thesis using Cons.IH [OF Cons.prems(1) _ Cons.prems(3,4)] Cons.prems(2) by simp
  next
    case False
    have e: "is_time (fst e)" "0 \<le> snd e" "snd e < int n" "sr_cur_state_start_time r \<le> fst e"
      using Cons.prems(2,5) by simp_all
    obtain r1 where r1: "updateStatsRecord (fst e) (snd e) r = Inr r1" "record_ok n r1" "sr_cur_state r1 = snd e"
      "sr_cur_state_start_time r1 = fst e"
      "\<And>k. k < n \<Longrightarrow> sr_time_in_state_ms r1 ! k = sr_time_in_state_ms r ! k
        + (if int k = sr_cur_state r then (fst e - sr_cur_state_start_time r) div 1000000 else 0)"
      using updateStatsRecord_adds [OF Cons.prems(1) e(1) Cons.prems(3) e(4,2,3)] by metis
    have "sorted (sr_cur_state_start_time r1 # map fst es @ [now])" using Cons.prems(5) r1(4) by simp
    then obtain r2 r' where r': "record_states es r1 = Inr r2" "close_record now r2 = Inr r'" "record_ok n r'"
      "\<And>k. k < n \<Longrightarrow> 1000000 * (sr_time_in_state_ms r' ! k - sr_time_in_state_ms r1 ! k)
          \<le> time_in (int k) (snd e) (fst e) es now
        \<and> time_in (int k) (snd e) (fst e) es now
          \<le> 1000000 * (sr_time_in_state_ms r' ! k - sr_time_in_state_ms r1 ! k) + 999999 * visits (int k) (snd e) es"
      using Cons.IH [OF r1(2)] Cons.prems(2,4) e(1) r1(3,4) by (auto simp: Let_def)
    have "record_states (e # es) r = Inr r2" using r1(1) r'(1) False by (simp add: record_states_def switch_state_def)
    moreover have "let ns = 1000000 * (sr_time_in_state_ms r' ! k - sr_time_in_state_ms r ! k);
          t = time_in (int k) (sr_cur_state r) (sr_cur_state_start_time r) (e # es) now
        in ns \<le> t \<and> t \<le> ns + 999999 * visits (int k) (sr_cur_state r) (e # es)" if "k < n" for k
    proof (cases "int k = sr_cur_state r")
      case True
      let ?d = "(fst e - sr_cur_state_start_time r) div 1000000"
      have "1000000 * ?d \<le> fst e - sr_cur_state_start_time r" "fst e - sr_cur_state_start_time r \<le> 1000000 * ?d + 999999"
        by linarith+
      then show ?thesis using r1(5) [OF that] r'(4) [OF that] True False by (simp add: Let_def algebra_simps)
    next
      case False
      then show ?thesis using r1(5) [OF that] r'(4) [OF that] by (simp add: Let_def)
    qed
    ultimately show ?thesis using r'(2,3) by blast
  qed
qed

text \<open>
  C22: The residencies of a record are the time spent in each state. Whatever states, known ones,
  are reported at times that do not decrease, a record created at \<open>t0\<close> and read (closed) at
  \<open>now\<close> holds for each state the time that it was the last one reported, rounded down: less
  than one millisecond is lost for each stay in the state. So the residencies sum to the time since
  the creation, less than one millisecond for each change of state and one for the reading.
\<close>

theorem residencies_add_up:
  assumes "is_time t0" and "is_time now" and "sorted (t0 # map fst es @ [now])" and "0 \<le> s0" and "s0 < int n"
    and "\<And>t s. (t, s) \<in> set es \<Longrightarrow> is_time t \<and> 0 \<le> s \<and> s < int n"
  shows "\<exists>r r'. record_states es (new_stats_record t0 n s0) = Inr r \<and> close_record now r = Inr r'
    \<and> length (sr_time_in_state_ms r') = n
    \<and> (\<forall>k < n. 1000000 * sr_time_in_state_ms r' ! k \<le> time_in (int k) s0 t0 es now
          \<and> time_in (int k) s0 t0 es now \<le> 1000000 * sr_time_in_state_ms r' ! k + 999999 * visits (int k) s0 es)
    \<and> 1000000 * sum_list (sr_time_in_state_ms r') \<le> now - t0
    \<and> now - t0 \<le> 1000000 * sum_list (sr_time_in_state_ms r') + 999999 * (changes s0 es + 1)"
proof -
  let ?r0 = "new_stats_record t0 n s0"
  have r0: "record_ok n ?r0" "sr_cur_state ?r0 = s0" "sr_cur_state_start_time ?r0 = t0"
    "\<And>k. k < n \<Longrightarrow> sr_time_in_state_ms ?r0 ! k = 0"
    using assms(4,5) by (simp_all add: record_ok_def new_stats_record_def kMaxStatsReportingFailCount_def)
  have es: "\<forall>e \<in> set es. is_time (fst e) \<and> 0 \<le> snd e \<and> snd e < int n" using assms(6) by force
  obtain r r' where r': "record_states es ?r0 = Inr r" "close_record now r = Inr r'" "record_ok n r'"
    "\<And>k. k < n \<Longrightarrow> 1000000 * sr_time_in_state_ms r' ! k \<le> time_in (int k) s0 t0 es now
          \<and> time_in (int k) s0 t0 es now \<le> 1000000 * sr_time_in_state_ms r' ! k + 999999 * visits (int k) s0 es"
    using record_states_residencies [OF r0(1) es, unfolded r0(2,3), OF assms(1-3)] r0(4)
    unfolding Let_def by (elim exE conjE) simp
  have len: "length (sr_time_in_state_ms r') = n" using r'(3) by (simp add: record_ok_def)
  then have sum: "sum_list (sr_time_in_state_ms r') = (\<Sum>k<n. sr_time_in_state_ms r' ! k)"
    by (simp add: sum_list_sum_nth atLeast0LessThan)
  have total: "(\<Sum>k<n. time_in (int k) s0 t0 es now) = now - t0" "(\<Sum>k<n. visits (int k) s0 es) = changes s0 es + 1"
    by (rule time_in_total visits_total; use assms(4,5) es in simp)+
  have "(\<Sum>k<n. 1000000 * sr_time_in_state_ms r' ! k) \<le> (\<Sum>k<n. time_in (int k) s0 t0 es now)"
    by (rule sum_mono) (use r'(4) in simp)
  then have low: "1000000 * sum_list (sr_time_in_state_ms r') \<le> now - t0"
    by (simp only: total sum sum_distrib_left)
  have "(\<Sum>k<n. time_in (int k) s0 t0 es now)
      \<le> (\<Sum>k<n. 1000000 * sr_time_in_state_ms r' ! k + 999999 * visits (int k) s0 es)"
    by (rule sum_mono) (use r'(4) in simp)
  also have "\<dots> = 1000000 * sum_list (sr_time_in_state_ms r') + 999999 * (changes s0 es + 1)"
    by (simp only: sum.distrib sum_distrib_left [symmetric] total sum)
  finally have "now - t0 \<le> 1000000 * sum_list (sr_time_in_state_ms r') + 999999 * (changes s0 es + 1)"
    by (simp only: total)
  then show ?thesis using r' len low by blast
qed

theorem residencies_add_up_witness:
  "\<exists>r r'. record_states [(1500000, 2), (4000000, 2), (6000000, 0)] (new_stats_record 0 3 0) = Inr r
    \<and> close_record 9000000 r = Inr r' \<and> 1000000 * sr_time_in_state_ms r' ! 2 \<le> 4500000
    \<and> 4500000 \<le> 1000000 * sr_time_in_state_ms r' ! 2 + 999999"
proof -
  have "\<exists>r r'. record_states [(1500000, 2), (4000000, 2), (6000000, 0)] (new_stats_record 0 3 0) = Inr r
    \<and> close_record 9000000 r = Inr r' \<and> length (sr_time_in_state_ms r') = 3
    \<and> (\<forall>k < 3. 1000000 * sr_time_in_state_ms r' ! k \<le> time_in (int k) 0 0 [(1500000, 2), (4000000, 2), (6000000, 0)] 9000000
          \<and> time_in (int k) 0 0 [(1500000, 2), (4000000, 2), (6000000, 0)] 9000000
              \<le> 1000000 * sr_time_in_state_ms r' ! k + 999999 * visits (int k) 0 [(1500000, 2), (4000000, 2), (6000000, 0)])
    \<and> 1000000 * sum_list (sr_time_in_state_ms r') \<le> 9000000 - 0
    \<and> 9000000 - 0 \<le> 1000000 * sum_list (sr_time_in_state_ms r')
        + 999999 * (changes 0 [(1500000, 2), (4000000, 2), (6000000, 0)] + 1)"
    by (rule residencies_add_up) (auto simp: is_time_def)
  then obtain r r' where r: "record_states [(1500000, 2), (4000000, 2), (6000000, 0)] (new_stats_record 0 3 0) = Inr r"
      "close_record 9000000 r = Inr r'"
    and t: "\<forall>k < 3. 1000000 * sr_time_in_state_ms r' ! k \<le> time_in (int k) 0 0 [(1500000, 2), (4000000, 2), (6000000, 0)] 9000000
          \<and> time_in (int k) 0 0 [(1500000, 2), (4000000, 2), (6000000, 0)] 9000000
              \<le> 1000000 * sr_time_in_state_ms r' ! k + 999999 * visits (int k) 0 [(1500000, 2), (4000000, 2), (6000000, 0)]"
    by (elim exE conjE)
  show ?thesis using r t [rule_format, of 2] by simp
qed

section \<open>What is lost\<close>

text \<open>
  Failed reports are counted over the whole life of a record and not in a row: after two
  failures a successful report keeps the count, and the next failure discards the residencies.
\<close>

theorem failures_counted_across_successes:
  assumes "report_record service now1 atom1 r atoms = Inr (True, r1, atoms1)"
    and "sr_report_fail_count r = 2"
    and "report_record service now2 atom2 r1 atoms1 = Inr (False, r2, atoms2)"
  shows "sum_list (sr_time_in_state_ms r2) = 0 \<and> sr_cur_state_start_time r2 = now2"
proof -
  have "sr_report_fail_count r1 = 2"
    using assms(1,2)
    by (auto simp: report_record_def processStatsRecordForReporting_def updateStatsRecord_def split: if_splits)
  then show ?thesis using assms(3)
    by (auto simp: report_record_def restoreStatsRecordOnFailure_def kMaxStatsReportingFailCount_def
        new_stats_record_def sum_list_replicate split: if_splits)
qed

theorem failures_counted_across_successes_witness:
  "\<exists>r1 r2. report_record (\<lambda>atoms _. atoms = []) 2000000 (\<lambda>_ _. Inr (kVendorTempResidencyStats []))
        (new_stats_record 0 1 0\<lparr>sr_report_fail_count := 2\<rparr>) [] = Inr (True, r1, [kVendorTempResidencyStats []])
    \<and> report_record (\<lambda>atoms _. atoms = []) 9000000 (\<lambda>_ _. Inr (kVendorTempResidencyStats [])) r1
        [kVendorTempResidencyStats []] = Inr (False, r2, [kVendorTempResidencyStats [], kVendorTempResidencyStats []])
    \<and> sum_list (sr_time_in_state_ms r2) = 0"
proof -
  let ?r = "new_stats_record 0 1 0\<lparr>sr_report_fail_count := 2\<rparr>"
  have "\<exists>r1. report_record (\<lambda>atoms _. atoms = []) 2000000 (\<lambda>_ _. Inr (kVendorTempResidencyStats [])) ?r []
      = Inr (True, r1, [kVendorTempResidencyStats []]) \<and> record_ok 1 r1"
    by (simp add: report_record_def processStatsRecordForReporting_def updateStatsRecord_def new_stats_record_def
        record_ok_def kMaxStatsReportingFailCount_def)
  then obtain r1 where r1: "report_record (\<lambda>atoms _. atoms = []) 2000000 (\<lambda>_ _. Inr (kVendorTempResidencyStats [])) ?r []
      = Inr (True, r1, [kVendorTempResidencyStats []])" "record_ok 1 r1" by (elim exE conjE)
  obtain ts r1' where "processStatsRecordForReporting 9000000 r1 = Inr (ts, r1')"
    using process_ok [OF r1(2)] by blast
  moreover obtain r2 where "restoreStatsRecordOnFailure 9000000 r1 = Inr r2"
    using restore_ok [OF r1(2)] by blast
  ultimately have r2: "report_record (\<lambda>atoms _. atoms = []) 9000000 (\<lambda>_ _. Inr (kVendorTempResidencyStats [])) r1
      [kVendorTempResidencyStats []] = Inr (False, r2, [kVendorTempResidencyStats [], kVendorTempResidencyStats []])"
    by (simp add: report_record_def)
  have "sum_list (sr_time_in_state_ms r2) = 0"
    using failures_counted_across_successes [OF r1(1) _ r2] by (simp add: new_stats_record_def)
  then show ?thesis using r1(1) r2 by blast
qed

text \<open>
  The greatest temperature starts from the least positive float: below zero it is never
  recorded, and the report says it is that float, at the time it was last updated.
\<close>

theorem frost_is_no_maximum:
  assumes "\<And>t. t \<in> set temperatures \<Longrightarrow> flt_lt t (Fin 0)" and "ss_max_temp ss = FLT_MIN"
  shows "ss_max_temp (fold (track_extremes wall) temperatures ss) = FLT_MIN
    \<and> ss_max_temp_timestamp (fold (track_extremes wall) temperatures ss) = ss_max_temp_timestamp ss"
  using assms
proof (induction temperatures arbitrary: ss)
  case Nil
  then show ?case by simp
next
  case (Cons t ts)
  have "\<not> flt_lt FLT_MIN t"
    using Cons.prems(1) [of t] flt_lt_trans [of "Fin 0" FLT_MIN t] flt_lt_asym [of t "Fin 0"]
    by (auto simp: FLT_MIN_def)
  then have "ss_max_temp (track_extremes wall t ss) = FLT_MIN"
    "ss_max_temp_timestamp (track_extremes wall t ss) = ss_max_temp_timestamp ss"
    using Cons.prems(2) by (simp_all add: track_extremes_def Let_def)
  then show ?case using Cons by simp
qed

theorem frost_is_no_maximum_witness:
  "ss_max_temp (fold (track_extremes 7) [of_int_f (- 10), of_int_f (- 5)] empty_temp_stats) = FLT_MIN
    \<and> ss_max_temp_timestamp (fold (track_extremes 7) [of_int_f (- 10), of_int_f (- 5)] empty_temp_stats)
        = ss_max_temp_timestamp empty_temp_stats"
  by (rule frost_is_no_maximum) (auto simp: empty_temp_stats_def flt_eval)

text \<open>
  A device with more states than an atom has buckets (20) is recorded with 21 buckets: the
  thresholds that combine the low states leave one bucket too many.
\<close>

theorem compressed_record_has_21_buckets:
  assumes "kMaxStatsResidencyCount \<le> max_state"
  shows "\<exists>sb. default_request_stats now cdev max_state empty_thermal_stats
      = Inr \<lparr>hs_by_custom_threshold = [sb], hs_by_default_threshold = None\<rparr>
    \<and> int (length (sr_time_in_state_ms (sb_stats_record sb))) = kMaxStatsResidencyCount + 1"
  using assms
  by (simp add: default_request_stats_def add_custom_def empty_thermal_stats_def stats_by_threshold_def
      compressed_thresholds_def new_stats_record_def kMaxStatsResidencyCount_def)

theorem compressed_record_has_21_buckets_witness:
  "\<exists>sb. default_request_stats 0 ''cpu0'' 25 empty_thermal_stats
      = Inr \<lparr>hs_by_custom_threshold = [sb], hs_by_default_threshold = None\<rparr>
    \<and> int (length (sr_time_in_state_ms (sb_stats_record sb))) = kMaxStatsResidencyCount + 1"
  by (rule compressed_record_has_21_buckets) (simp add: kMaxStatsResidencyCount_def)

end
