(* ===== verification/HelperState.thy ===== *)
theory HelperState
  imports Text StatsReports Predictions VtTflite PowerRails PidBudget
begin

text \<open>
  \<open>class ThermalFiles\<close> (aidl/thermal/utils/thermal_files.cpp): the paths of the sensors and cooling
  devices. Reading and writing a file are parameters: what a file contains, if it can be read, and
  whether a write succeeds.
\<close>

type_synonym thermal_files = "string smap"

definition getThermalFilePath :: "string \<Rightarrow> thermal_files \<Rightarrow> string" where
  "getThermalFilePath thermal_name m = (case map_of m thermal_name of None \<Rightarrow> [] | Some path \<Rightarrow> path)"

text \<open>\<open>emplace\<close> leaves an entry that is there.\<close>

definition addThermalFile :: "string \<Rightarrow> string \<Rightarrow> thermal_files \<Rightarrow> bool \<times> thermal_files" where
  "addThermalFile thermal_name path m =
     (if has m thermal_name then (False, m) else (True, put thermal_name path m))"

text \<open>\<open>None\<close> is a failure; the code then leaves the text empty.\<close>

definition readThermalFile :: "(string \<Rightarrow> string option) \<Rightarrow> thermal_files \<Rightarrow> string \<Rightarrow> string option" where
  "readThermalFile files m thermal_name =
     (let file_path = getThermalFilePath thermal_name m
      in if file_path = [] then None
         else case files file_path of
           None \<Rightarrow> None
         | Some sensor_reading \<Rightarrow>
             if length sensor_reading \<le> 1 then None else Some (Trim sensor_reading))"

text \<open>Whether the data is written, and the write that was tried.\<close>

definition writeCdevFile ::
    "(string \<Rightarrow> string \<Rightarrow> bool) \<Rightarrow> thermal_files \<Rightarrow> string \<Rightarrow> string \<Rightarrow> bool \<times> string \<times> string"
where
  "writeCdevFile writes m cdev_name text =
     (let file_path = getThermalFilePath (cdev_name @ ''_w'') m in (writes file_path text, file_path, text))"

section \<open>The state of the helper\<close>

text \<open>
  The state of \<open>class ThermalHelperImpl\<close> (aidl/thermal/thermal-helper.h and .cpp), composed of the
  states of the components it owns, and what it reaches outside the program: files, the statistics
  service, system properties, the model library. One operation of the helper sees one time \<open>now\<close>,
  one content of every file and one wall clock.
\<close>

section \<open>State\<close>

record ThermalSample =
  sa_temp :: flt
  sa_timestamp :: int

record EmulTemp =
  em_temp :: flt
  em_severity :: int

record OverrideStatus =
  ov_emul_temp :: "EmulTemp option"
  ov_max_throttling :: bool
  ov_pending_update :: bool

record SensorStatus =
  sn_severity :: severity
  sn_prev_hot_severity :: severity
  sn_prev_cold_severity :: severity
  sn_last_update_time :: int
  sn_thermal_cached :: ThermalSample
  sn_pending_notification :: bool
  sn_override_status :: OverrideStatus

definition fresh_sensor_status :: SensorStatus where
  "fresh_sensor_status = \<lparr> sn_severity = NONE, sn_prev_hot_severity = NONE, sn_prev_cold_severity = NONE,
     sn_last_update_time = TIME_MIN, sn_thermal_cached = \<lparr>sa_temp = NaN, sa_timestamp = TIME_MIN\<rparr>,
     sn_pending_notification = False,
     sn_override_status = \<lparr>ov_emul_temp = None, ov_max_throttling = False, ov_pending_update = False\<rparr> \<rparr>"

text \<open>The status \<open>operator[]\<close> creates for a name that has none: every member is zero.\<close>

definition zero_sensor_status :: SensorStatus where
  "zero_sensor_status = fresh_sensor_status\<lparr> sn_last_update_time := 0,
     sn_thermal_cached := \<lparr>sa_temp = Fin 0, sa_timestamp = 0\<rparr> \<rparr>"

text \<open>
  The estimators are the \<open>vt_estimator\<close> pointers of the virtual sensors, by sensor. What the helper
  gives out is kept in the order in which it does: notifications, the modes and hints sent to the
  power service, the writes to files, and how often the watcher is woken.
\<close>

datatype power_hal_call = SetMode string severity bool | ExtHint Temperature

record helper_state =
  hp_cdev_info_map :: "CdevInfo smap"
  hp_sensor_info_map :: "SensorInfo smap"
  hp_power_rail_switch_map :: "string list smap"
  hp_sensor_status_map :: "SensorStatus smap"
  hp_vt_estimators :: "VirtualTempEstimator smap"
  hp_power_files :: power_files
  hp_thermal_sensors :: thermal_files
  hp_cooling_devices :: thermal_files
  hp_throttling :: throttling_state
  hp_stats :: stats_state
  hp_predictions :: predictions_state
  hp_callbacks :: "Temperature list"
  hp_power_hal_calls :: "power_hal_call list"
  hp_writes :: "(string \<times> string) list"
  hp_wakes :: nat

text \<open>
  \<open>he_has_cb\<close> says whether a callback was given, \<open>he_garbage\<close> is what an uninitialised \<open>float\<close> of
  the stack holds.
\<close>

record 'j helper_env =
  he_files :: "string \<Rightarrow> string option"
  he_writes :: "string \<Rightarrow> string \<Rightarrow> bool"
  he_client :: stats_client
  he_wrapper :: "string \<Rightarrow> 'j tflite_wrapper"
  he_get_property :: "string \<Rightarrow> string"
  he_has_cb :: bool
  he_garbage :: flt
  he_now :: int
  he_wall :: int

section \<open>Access\<close>

definition set_status :: "string \<Rightarrow> (SensorStatus \<Rightarrow> SensorStatus) \<Rightarrow> helper_state \<Rightarrow> helper_state" where
  "set_status name f h =
     (case map_of (hp_sensor_status_map h) name of
        None \<Rightarrow> h
      | Some s \<Rightarrow> h\<lparr>hp_sensor_status_map := put name (f s) (hp_sensor_status_map h)\<rparr>)"

definition set_sensor :: "string \<Rightarrow> (SensorInfo \<Rightarrow> SensorInfo) \<Rightarrow> helper_state \<Rightarrow> helper_state" where
  "set_sensor name f h =
     (case map_of (hp_sensor_info_map h) name of
        None \<Rightarrow> h
      | Some s \<Rightarrow> h\<lparr>hp_sensor_info_map := put name (f s) (hp_sensor_info_map h)\<rparr>)"

definition write_cdev :: "'j helper_env \<Rightarrow> string \<Rightarrow> string \<Rightarrow> helper_state \<Rightarrow> helper_state" where
  "write_cdev env cdev text h =
     (case writeCdevFile (he_writes env) (hp_cooling_devices h) cdev text of
        (ok, path, t) \<Rightarrow> if ok then h\<lparr>hp_writes := hp_writes h @ [(path, t)]\<rparr> else h)"

text \<open>\<open>Temperature\<close> as it is before anything is assigned to it.\<close>

definition no_temperature :: Temperature where
  "no_temperature = \<lparr> tp_type = 0, tp_name = [], tp_value = Fin 0, tp_throttlingStatus = NONE \<rparr>"

end
