(* ===== verification/HelperRead.thy ===== *)
theory HelperRead
  imports HelperState Severity
begin

text \<open>
  Reading a sensor: \<open>readThermalSensor\<close>, \<open>readDataByType\<close>, \<open>runVirtualTempEstimator\<close>,
  \<open>readTemperature\<close> and \<open>getSeverityReference\<close> of aidl/thermal/thermal-helper.cpp, which call each
  other along the links of the configuration. Nothing in the code bounds the recursion. In the
  model the outer functions take the recursive call as an argument and \<open>readThermalSensor\<close> and
  \<open>readTemperature\<close> close the loop with fuel; without fuel they are \<open>Diverges\<close>.
\<close>

section \<open>One input of a virtual sensor\<close>

text \<open>
  A read returns a status, the value of the out-parameter, the log of the readings and the state.
  The out-parameter keeps the value it came with when nothing is assigned.
\<close>

type_synonym sensor_read = "(SensorReadStatus \<times> flt \<times> flt smap \<times> helper_state) result"

definition readDataByType ::
    "(string \<Rightarrow> bool \<Rightarrow> flt \<Rightarrow> flt smap \<Rightarrow> helper_state \<Rightarrow> sensor_read) \<Rightarrow> bool \<Rightarrow> string \<Rightarrow> SensorFusionType
      \<Rightarrow> flt \<Rightarrow> flt smap \<Rightarrow> helper_state \<Rightarrow> (bool \<times> flt \<times> flt smap \<times> helper_state) result"
where
  "readDataByType read_sensor force_no_cache sensor_data type reading_value log h =
     (case type of
        SENSOR \<Rightarrow>
          bindE (read_sensor sensor_data force_no_cache reading_value log h) (\<lambda>(status, v, log', h').
          Inr (status \<noteq> ERROR, v, log', h'))
      | ODPM \<Rightarrow>
          bindE (at_key (pf_power_status (hp_power_files h)) sensor_data) (\<lambda>ps.
          let v = pw_last_updated_avg_power ps
          in Inr (True, v, (if isnan v then log else put sensor_data v log), h))
      | CONSTANT \<Rightarrow> Inr (True, atof sensor_data, log, h)
      | CDEV \<Rightarrow>
          bindE (getCdevMaxRequest (hp_throttling h) sensor_data) (\<lambda>m.
          Inr (case m of Some max_state \<Rightarrow> (True, of_int_f max_state, log, h)
                       | None \<Rightarrow> (False, reading_value, log, h))))"

text \<open>
  A list of inputs with their types: the first failure ends it with \<open>ERROR\<close>, the first value that
  is not there yet with \<open>UNDER_COLLECTING\<close>.
\<close>

fun read_inputs ::
    "(string \<Rightarrow> SensorFusionType \<Rightarrow> flt \<Rightarrow> flt smap \<Rightarrow> helper_state \<Rightarrow> (bool \<times> flt \<times> flt smap \<times> helper_state) result)
      \<Rightarrow> string list \<Rightarrow> SensorFusionType list \<Rightarrow> flt smap \<Rightarrow> helper_state
      \<Rightarrow> (SensorReadStatus \<times> flt list \<times> flt smap \<times> helper_state) result"
where
  "read_inputs rd [] ts log h = Inr (OKAY, [], log, h)"
| "read_inputs rd (n # ns) [] log h = Inl UB"
| "read_inputs rd (n # ns) (t # ts) log h =
     bindE (rd n t NaN log h) (\<lambda>(ok, v, log1, h1).
     if \<not> ok then Inr (ERROR, [], log1, h1)
     else if isnan v then Inr (UNDER_COLLECTING, [], log1, h1)
     else bindE (read_inputs rd ns ts log1 h1) (\<lambda>(status, vs, log2, h2).
          Inr (status, v # vs, log2, h2)))"

section \<open>Formulas\<close>

text \<open>The body of the loop over the linked sensors; \<open>first\<close> is \<open>i == 0\<close>.\<close>

definition fusion_step :: "FormulaOption \<Rightarrow> bool \<Rightarrow> flt \<times> flt \<Rightarrow> flt \<Rightarrow> flt" where
  "fusion_step formula first rc temp_val =
     (case rc of (reading, coefficient) \<Rightarrow>
      (case formula of
         COUNT_THRESHOLD \<Rightarrow>
           if flt_lt coefficient (Fin 0) \<and> flt_lt reading (fneg coefficient)
              \<or> flt_le (Fin 0) coefficient \<and> flt_le coefficient reading
           then fadd temp_val (of_int_f 1) else temp_val
       | WEIGHTED_AVG \<Rightarrow> fadd temp_val (fmul reading coefficient)
       | MAXIMUM \<Rightarrow>
           (let base = (if first then fneg FLT_MAX else temp_val)
            in if flt_lt base (fmul reading coefficient) then fmul reading coefficient else base)
       | MINIMUM \<Rightarrow>
           (let base = (if first then FLT_MAX else temp_val)
            in if flt_lt (fmul reading coefficient) base then fmul reading coefficient else base)
       | _ \<Rightarrow> temp_val))"

definition fuse :: "FormulaOption \<Rightarrow> (flt \<times> flt) list \<Rightarrow> flt" where
  "fuse formula rcs =
     (case rcs of
        [] \<Rightarrow> Fin 0
      | rc # rest \<Rightarrow> fold (fusion_step formula False) rest (fusion_step formula True rc (Fin 0)))"

section \<open>Estimators\<close>

text \<open>The inputs of the model are looked up in the log of the readings.\<close>

fun logged_inputs :: "flt smap \<Rightarrow> string list \<Rightarrow> flt list option" where
  "logged_inputs log [] = Some []"
| "logged_inputs log (n # ns) =
     (case (map_of log n, logged_inputs log ns) of (Some v, Some vs) \<Rightarrow> Some (v # vs) | _ \<Rightarrow> None)"

definition set_estimator :: "string \<Rightarrow> VirtualTempEstimator \<Rightarrow> helper_state \<Rightarrow> helper_state" where
  "set_estimator name vt h = h\<lparr>hp_vt_estimators := put name vt (hp_vt_estimators h)\<rparr>"

text \<open>The outputs of the model are kept for the sensors predicted from this one.\<close>

definition keep_predictions ::
    "int \<Rightarrow> string \<Rightarrow> SensorInfo \<Rightarrow> flt list \<Rightarrow> helper_state \<Rightarrow> helper_state result"
where
  "keep_predictions now name si outputs h =
     (case si_predictor_info si of
        None \<Rightarrow> Inr h
      | Some p \<Rightarrow>
          if pi_supports_predictions p
          then bindE (updateSensor name outputs now (hp_predictions h)) (\<lambda>(ok, preds).
               Inr (h\<lparr>hp_predictions := preds\<rparr>))
          else Inr h)"

text \<open>\<open>backup_sensor_vt\<close> is not initialised.\<close>

definition runVirtualTempEstimator ::
    "(string \<Rightarrow> bool \<Rightarrow> flt \<Rightarrow> flt smap \<Rightarrow> helper_state \<Rightarrow> sensor_read) \<Rightarrow> 'j helper_env \<Rightarrow> string \<Rightarrow> bool
      \<Rightarrow> flt smap \<Rightarrow> helper_state \<Rightarrow> (bool \<times> flt list \<times> flt smap \<times> helper_state) result"
where
  "runVirtualTempEstimator read_sensor env name force_no_cache log h =
     (case (map_of (hp_sensor_info_map h) name, map_of (hp_sensor_status_map h) name,
            map_of (hp_vt_estimators h) name) of
        (Some si, Some status, Some vt) \<Rightarrow>
          (case si_virtual_sensor_info si of
             None \<Rightarrow> Inr (False, [], log, h)
           | Some vs \<Rightarrow>
               (case logged_inputs log (vs_linked_sensors vs) of
                  None \<Rightarrow> Inr (False, [], log, h)
                | Some model_inputs \<Rightarrow>
                    bindE (Estimate (he_wrapper env name) (he_now env) (he_now env) (he_now env) model_inputs vt)
                      (\<lambda>(ret, outputs, vt').
                    let h1 = set_estimator name vt' h
                    in if ret = kVtEstimatorOk then
                         (let out = (case outputs of None \<Rightarrow> [] | Some o' \<Rightarrow> o')
                          in bindE (keep_predictions (he_now env) name si out h1) (\<lambda>h2.
                             Inr (True, out, log, h2)))
                       else if ret = kVtEstimatorLowConfidence \<or> ret = kVtEstimatorUnderSampling then
                         (if vs_backup_sensor vs = [] then Inr (False, [], log, h1)
                          else
                            bindE (readDataByType read_sensor force_no_cache (vs_backup_sensor vs) SENSOR
                                     (he_garbage env) log h1) (\<lambda>(ok, v, log2, h2).
                            Inr (if ok then (True, [v], log2, h2) else (False, [], log2, h2))))
                       else Inr (False, [], log, h1))))
      | _ \<Rightarrow> Inr (False, [], log, h))"

section \<open>A virtual sensor\<close>

definition read_virtual ::
    "(string \<Rightarrow> bool \<Rightarrow> flt \<Rightarrow> flt smap \<Rightarrow> helper_state \<Rightarrow> sensor_read) \<Rightarrow> 'j helper_env \<Rightarrow> string \<Rightarrow> bool
      \<Rightarrow> VirtualSensorInfo \<Rightarrow> flt \<Rightarrow> flt smap \<Rightarrow> helper_state \<Rightarrow> sensor_read"
where
  "read_virtual read_sensor env name force_no_cache vs temp log h =
     bindE (read_inputs (readDataByType read_sensor force_no_cache) (vs_linked_sensors vs)
              (vs_linked_sensors_type vs) log h) (\<lambda>(status, readings, log1, h1).
     if status \<noteq> OKAY then Inr (status, temp, log1, h1)
     else if vs_formula vs = PREVIOUSLY_PREDICTED then
       bindE (readSensor name (he_now env) (hp_predictions h1)) (\<lambda>(status2, v).
       Inr (status2, (case v of Some t \<Rightarrow> t | None \<Rightarrow> temp), log1, h1))
     else if vs_formula vs = USE_ML_MODEL \<or> vs_formula vs = USE_LINEAR_MODEL then
       bindE (runVirtualTempEstimator read_sensor env name force_no_cache log1 h1) (\<lambda>(ok, outputs, log2, h2).
       if \<not> ok then Inr (ERROR, temp, log2, h2)
       else bindE (vec_at outputs 0) (\<lambda>v. Inr (OKAY, v, log2, h2)))
     else
       bindE (read_inputs (readDataByType read_sensor force_no_cache)
                (take (length (vs_linked_sensors vs)) (vs_coefficients vs))
                (vs_coefficients_type vs) log1 h1) (\<lambda>(status2, coefficients, log2, h2).
       if status2 \<noteq> OKAY then Inr (status2, temp, log2, h2)
       else if length coefficients < length (vs_linked_sensors vs) then Inl UB
       else Inr (OKAY, fadd (fuse (vs_formula vs) (zip readings coefficients)) (vs_offset vs), log2, h2)))"

section \<open>A sensor\<close>

text \<open>
  Smoothing mixes the new reading with the cached one. \<open>passive_delay * 2\<close> is a 64-bit product,
  which an unlimited delay overflows.
\<close>

definition kTranTimeoutParam :: int where "kTranTimeoutParam = 2"

definition smooth :: "SensorInfo \<Rightarrow> int \<Rightarrow> flt \<Rightarrow> flt \<Rightarrow> flt result" where
  "smooth si since_last_update cached temp =
     (if isnan (si_step_ratio si) \<or> isnan cached then Inr temp
      else
        bindE (int64 (si_passive_delay si * kTranTimeoutParam)) (\<lambda>limit.
        Inr (if since_last_update < limit
             then fadd (fmul (si_step_ratio si) temp)
                       (fmul (fsub (of_int_f 1) (si_step_ratio si)) cached)
             else temp)))"

definition cache_fresh :: "int \<Rightarrow> SensorInfo \<Rightarrow> ThermalSample \<Rightarrow> bool" where
  "cache_fresh now si c \<longleftrightarrow> sa_timestamp c \<noteq> TIME_MIN
     \<and> since_ms now (sa_timestamp c) < si_time_resolution si \<and> \<not> isnan (sa_temp c)"

definition finish_read ::
    "'j helper_env \<Rightarrow> string \<Rightarrow> SensorInfo \<Rightarrow> int \<Rightarrow> flt \<Rightarrow> flt smap \<Rightarrow> helper_state \<Rightarrow> sensor_read"
where
  "finish_read env name si since_last_update temp0 log h =
     bindE (at_key (hp_sensor_status_map h) name) (\<lambda>status.
     bindE (smooth si since_last_update (sa_temp (sn_thermal_cached status)) temp0) (\<lambda>temp.
     let h1 = set_status name (\<lambda>s. s\<lparr>sn_thermal_cached := \<lparr>sa_temp = temp, sa_timestamp = he_now env\<rparr>\<rparr>) h
     in bindE (updateSensorTempStatsByThreshold (he_client env) (he_now env) (he_wall env) name
                 (fmul temp (si_multiplier si)) (hp_stats h1)) (\<lambda>stats.
        Inr (OKAY, temp, put name temp log, h1\<lparr>hp_stats := stats\<rparr>))))"

definition read_physical :: "'j helper_env \<Rightarrow> string \<Rightarrow> helper_state \<Rightarrow> flt option" where
  "read_physical env name h =
     (case readThermalFile (he_files env) (hp_thermal_sensors h) name of
        None \<Rightarrow> None
      | Some text \<Rightarrow> if text = [] then None else Some (atof (Trim text)))"

definition read_sensor_with ::
    "(string \<Rightarrow> bool \<Rightarrow> flt \<Rightarrow> flt smap \<Rightarrow> helper_state \<Rightarrow> sensor_read) \<Rightarrow> 'j helper_env \<Rightarrow> string \<Rightarrow> bool
      \<Rightarrow> flt \<Rightarrow> flt smap \<Rightarrow> helper_state \<Rightarrow> sensor_read"
where
  "read_sensor_with read_sensor env name force_no_cache temp log h =
     (case (map_of (hp_sensor_info_map h) name, map_of (hp_sensor_status_map h) name) of
        (Some si, Some status) \<Rightarrow>
          (case ov_emul_temp (sn_override_status status) of
             Some e \<Rightarrow> Inr (OKAY, em_temp e, put name (em_temp e) log, h)
           | None \<Rightarrow>
               let cached = sn_thermal_cached status;
                   since_last_update = since_ms (he_now env) (sa_timestamp cached)
               in if \<not> force_no_cache \<and> cache_fresh (he_now env) si cached
                  then Inr (OKAY, sa_temp cached, put name (sa_temp cached) log, h)
                  else
                    (case si_virtual_sensor_info si of
                       None \<Rightarrow>
                         (case read_physical env name h of
                            None \<Rightarrow> Inr (ERROR, temp, log, h)
                          | Some t \<Rightarrow> finish_read env name si since_last_update t log h)
                     | Some vs \<Rightarrow>
                         bindE (read_virtual read_sensor env name force_no_cache vs temp log h)
                           (\<lambda>(st, t, log1, h1).
                         if st \<noteq> OKAY then Inr (st, t, log1, h1)
                         else finish_read env name si since_last_update t log1 h1)))
      | _ \<Rightarrow> Inr (ERROR, temp, log, h))"

fun readThermalSensor ::
    "nat \<Rightarrow> 'j helper_env \<Rightarrow> string \<Rightarrow> bool \<Rightarrow> flt \<Rightarrow> flt smap \<Rightarrow> helper_state \<Rightarrow> sensor_read"
where
  "readThermalSensor 0 env name force_no_cache temp log h = Inl Diverges"
| "readThermalSensor (Suc fuel) env name force_no_cache temp log h =
     read_sensor_with (readThermalSensor fuel env) env name force_no_cache temp log h"

section \<open>A temperature\<close>

text \<open>The new severity of a watched sensor, and what it changes in the status.\<close>

definition update_severity ::
    "SensorInfo \<Rightarrow> severity \<Rightarrow> flt \<Rightarrow> SensorStatus \<Rightarrow> (severity \<times> SensorStatus) result"
where
  "update_severity si severity_reference v s =
     (case getSeverityFromThresholds (si_hot_thresholds si) (si_cold_thresholds si) (si_hot_hysteresis si)
             (si_cold_hysteresis si) (sn_prev_hot_severity s) (sn_prev_cold_severity s) v of
        (hot, cold) \<Rightarrow>
          let sev0 = max (if cold < hot then hot else cold) severity_reference;
              s1 = s\<lparr>sn_prev_hot_severity := hot, sn_prev_cold_severity := cold\<rparr>
          in bindE (case ov_emul_temp (sn_override_status s) of
                      Some e \<Rightarrow> if 0 \<le> em_severity e then vec_at sev_range (em_severity e) else Inr sev0
                    | None \<Rightarrow> Inr sev0) (\<lambda>sev.
             Inr (sev, if sn_severity s1 \<noteq> sev
                       then s1\<lparr>sn_severity := sev, sn_pending_notification := True\<rparr> else s1)))"

text \<open>
  \<open>read_temp\<close> is the recursive call for the sensors the severity refers to. A reference that cannot
  be read makes the whole reference \<open>NONE\<close>.
\<close>

fun severity_reference_loop ::
    "(string \<Rightarrow> helper_state \<Rightarrow> (SensorReadStatus \<times> Temperature \<times> helper_state) result)
      \<Rightarrow> string list \<Rightarrow> severity \<Rightarrow> helper_state \<Rightarrow> (severity \<times> helper_state) result"
where
  "severity_reference_loop read_temp [] target h = Inr (target, h)"
| "severity_reference_loop read_temp (n # ns) target h =
     bindE (read_temp n h) (\<lambda>(status, t, h').
     if status \<noteq> OKAY then Inr (NONE, h')
     else severity_reference_loop read_temp ns (max target (tp_throttlingStatus t)) h')"

definition getSeverityReference ::
    "(string \<Rightarrow> helper_state \<Rightarrow> (SensorReadStatus \<times> Temperature \<times> helper_state) result)
      \<Rightarrow> string \<Rightarrow> helper_state \<Rightarrow> (severity \<times> helper_state) result"
where
  "getSeverityReference read_temp name h =
     (case map_of (hp_sensor_info_map h) name of
        None \<Rightarrow> Inr (NONE, h)
      | Some si \<Rightarrow> severity_reference_loop read_temp (si_severity_reference si) NONE h)"

definition report_temperature ::
    "(string \<Rightarrow> helper_state \<Rightarrow> (SensorReadStatus \<times> Temperature \<times> helper_state) result)
      \<Rightarrow> 'j helper_env \<Rightarrow> string \<Rightarrow> flt \<Rightarrow> helper_state \<Rightarrow> (SensorReadStatus \<times> Temperature \<times> helper_state) result"
where
  "report_temperature read_temp env name temp h =
     bindE (getSeverityReference read_temp name h) (\<lambda>(severity_reference, h1).
     bindE (at_key (hp_sensor_info_map h1) name) (\<lambda>si.
     let out = no_temperature\<lparr>tp_type := si_type si, tp_name := name, tp_value := fmul temp (si_multiplier si)\<rparr>
     in if \<not> si_is_watch si then Inr (OKAY, out, h1)
        else
          bindE (at_key (hp_sensor_status_map h1) name) (\<lambda>s.
          bindE (update_severity si severity_reference (tp_value out) s) (\<lambda>(sev, s').
          let h2 = set_status name (\<lambda>_. s') h1
          in bindE (updateSensorTempStatsBySeverity (he_now env) name sev (hp_stats h2)) (\<lambda>stats.
             Inr (OKAY, out\<lparr>tp_throttlingStatus := sev\<rparr>, h2\<lparr>hp_stats := stats\<rparr>))))))"

text \<open>\<open>fuel\<close> bounds the links of sensors, the other number the references between severities.\<close>

fun readTemperature ::
    "nat \<Rightarrow> nat \<Rightarrow> 'j helper_env \<Rightarrow> string \<Rightarrow> bool \<Rightarrow> helper_state
      \<Rightarrow> (SensorReadStatus \<times> Temperature \<times> helper_state) result"
where
  "readTemperature fuel 0 env name force_no_cache h = Inl Diverges"
| "readTemperature fuel (Suc n) env name force_no_cache h =
     bindE (at_key (hp_sensor_status_map h) name) (\<lambda>_.
     bindE (readThermalSensor fuel env name force_no_cache NaN [] h) (\<lambda>(ret, temp, log, h1).
     if ret = ERROR then
       Inr (ERROR, no_temperature,
            h1\<lparr>hp_stats := snd (reportThermalAbnormality (he_client env) TEMP_READ_FAIL name None (hp_stats h1))\<rparr>)
     else if ret = UNDER_COLLECTING then Inr (UNDER_COLLECTING, no_temperature, h1)
     else if isnan temp then Inr (ERROR, no_temperature, h1)
     else report_temperature (\<lambda>name' h'. readTemperature fuel n env name' False h') env name temp h1))"

end
