(* ===== verification/HelperFrame.thy ===== *)
theory HelperFrame
  imports HelperRead
begin

text \<open>
  The operations the helper calls return: none of them runs into the bound of a recursion. Only
  the recursion along the links of the configuration is left, which the next theory bounds.
\<close>

named_theorems ends_rules \<open>computations that return\<close>

definition ends :: "'a result \<Rightarrow> bool" where
  "ends m \<longleftrightarrow> m \<noteq> Inl Diverges"

lemma ends_values [simp, ends_rules]:
  "ends (Inr x)" "ends (Inl OutOfRange)" "ends (Inl UB)" "ends (Inl Abort)" "ends (Inl BadOptional)"
  "ends (Inl InvalidArgument)"
  by (simp_all add: ends_def)

lemma ends_bindE [ends_rules]: "ends m \<Longrightarrow> (\<And>x. m = Inr x \<Longrightarrow> ends (f x)) \<Longrightarrow> ends (bindE m f)"
  by (cases m) (auto simp: ends_def)

lemma ends_if [ends_rules]: "(b \<Longrightarrow> ends x) \<Longrightarrow> (\<not> b \<Longrightarrow> ends y) \<Longrightarrow> ends (if b then x else y)"
  by simp

lemma ends_option [ends_rules]:
  "(m = None \<Longrightarrow> ends x) \<Longrightarrow> (\<And>v. m = Some v \<Longrightarrow> ends (f v)) \<Longrightarrow>
     ends (case m of None \<Rightarrow> x | Some v \<Rightarrow> f v)"
  by (cases m) simp_all

lemma ends_pair [ends_rules]: "(\<And>a b. p = (a, b) \<Longrightarrow> ends (f a b)) \<Longrightarrow> ends (case p of (a, b) \<Rightarrow> f a b)"
  by (cases p) simp

lemma ends_let [ends_rules]: "(\<And>x. x = v \<Longrightarrow> ends (f x)) \<Longrightarrow> ends (let x = v in f x)"
  by simp

lemma ends_access [simp, ends_rules]:
  "ends (vec_at v i)" "ends (vec_set v i x)" "ends (int32 j)" "ends (int64 j)" "ends (at_key m k)"
  by (simp_all add: vec_at_def vec_set_def int32_def int64_def at_key_def split: option.split)

lemma ends_lround [simp, ends_rules]: "ends (lround x)" "ends (to_int_f x)"
  by (cases x; simp only: lround.simps to_int_f.simps; intro ends_rules; simp)+

lemma ends_read_array [simp, ends_rules]: "ends (read_array a i)"
  by (auto simp: read_array_def intro!: ends_bindE split: option.split)

lemma ends_foldE [ends_rules]: "(\<And>x s. x \<in> set xs \<Longrightarrow> ends (f x s)) \<Longrightarrow> ends (foldE f xs s)"
  by (induction xs arbitrary: s) (auto intro!: ends_bindE)

lemma ends_mapE [ends_rules]: "(\<And>x. x \<in> set xs \<Longrightarrow> ends (f x)) \<Longrightarrow> ends (mapE f xs)"
  by (induction xs) (auto intro!: ends_bindE)

lemma ends_optE [ends_rules]: "(\<And>x. m = Some x \<Longrightarrow> ends (f x)) \<Longrightarrow> ends (optE f m)"
  by (cases m) (auto simp: optE_def intro!: ends_bindE)

section \<open>The components\<close>

lemma ends_getCdevMaxRequest [simp, ends_rules]: "ends (getCdevMaxRequest th cdev)"
  by (auto simp: getCdevMaxRequest_def votes_begin_def intro!: ends_rules split: list.split)

lemma ends_updateStatsRecord [simp, ends_rules]: "ends (updateStatsRecord now s r)"
  by (auto simp: updateStatsRecord_def intro!: ends_rules)

lemma ends_switch_state [simp, ends_rules]: "ends (switch_state now s r)"
  by (auto simp: switch_state_def intro!: ends_rules)

lemma ends_update_custom [ends_rules]:
  "(\<And>v. ends (to_int v)) \<Longrightarrow> ends (update_custom lt to_int now value sb)"
  by (auto simp: update_custom_def calculateThresholdBucket_def intro!: ends_rules)

lemma ends_round_int [simp, ends_rules]: "ends (round_int x)"
  by (auto simp: round_int_def intro!: ends_rules)

lemma ends_verify [simp, ends_rules]: "ends (verify_range client sensor t st)"
    "ends (verify_stuck client now sensor t st)"
  by (auto simp: verify_range_def verify_stuck_def Let_def intro!: ends_rules split: prod.split)

lemma ends_updateSensorTempStats [simp, ends_rules]:
  "ends (updateSensorTempStatsByThreshold client now wall sensor t st)"
  "ends (updateSensorTempStatsBySeverity now sensor sev st)"
  by (auto simp: updateSensorTempStatsByThreshold_def updateSensorTempStatsBySeverity_def
      verifySensorAbnormality_def update_temp_stats_def intro!: ends_rules)

lemma ends_updateSensor [simp, ends_rules]: "ends (updateSensor name values now st)"
  by (auto simp: updateSensor_def intro!: ends_rules)

lemma ends_read_loop [simp, ends_rules]: "ends (read_loop pd p now k)"
proof (induction pd p now k rule: read_loop.induct)
  case (1 pd p now k)
  show ?case
    by (subst read_loop.simps, intro ends_rules) (rule "1.IH", (assumption | rule refl)+)
qed

lemma ends_readSensor [simp, ends_rules]: "ends (readSensor name now st)"
  by (auto simp: readSensor_def intro!: ends_rules)

lemma ends_offset_loop [simp, ends_rules]: "ends (offset_loop ths vals v n)"
  by (induction n) (auto intro!: ends_rules)

lemma ends_add_offset [simp, ends_rules]: "ends (add_offset cm v)"
  by (auto simp: add_offset_def CalculateOffset_def intro!: ends_rules)

lemma ends_add_offsets [simp, ends_rules]: "ends (add_offsets cm vs)"
  by (induction vs) (auto intro!: ends_rules)

lemma ends_weighted_row [simp, ends_rules]: "ends (weighted_row cs xs j k acc)"
  by (induction k arbitrary: j acc) (auto intro!: ends_rules)

lemma ends_weighted_sum [simp, ends_rules]: "ends (weighted_sum cs samples n order l i k acc)"
  by (induction k arbitrary: l i acc) (auto simp: Let_def intro!: ends_rules)

lemma ends_fill_samples [simp, ends_rules]: "ends (fill_samples v i k samples)"
  by (induction k arbitrary: i samples) (auto intro!: ends_rules)

lemma ends_LinearModelEstimate [simp, ends_rules]: "ends (LinearModelEstimate ts vt)"
  by (auto simp: LinearModelEstimate_def Let_def intro!: ends_rules)

lemma ends_read_from [simp, ends_rules]: "ends (read_from a i k)"
  by (induction k arbitrary: i) (auto intro!: ends_rules)

lemma ends_fill_older [simp, ends_rules]: "ends (fill_older v n i j k buf)"
  by (induction k arbitrary: j buf) (auto intro!: ends_rules)

lemma ends_copy_inputs [simp, ends_rules]: "ends (copy_inputs tf n order cur ts i buf)"
  by (induction ts arbitrary: i buf) (auto intro!: ends_rules)

lemma ends_reorder [simp, ends_rules]: "ends (reorder buf start bsize i k)"
  by (induction k arbitrary: i) (auto intro!: ends_rules)

lemma ends_model [simp, ends_rules]: "ends (model_input cur cm tf)"
    "ends (invoke_model wr now inp cm tf vt)"
  by (auto simp: model_input_def invoke_model_def Let_def intro!: ends_rules)

lemma ends_TFliteEstimate [simp, ends_rules]: "ends (TFliteEstimate wr n1 n2 n3 ts vt)"
  unfolding TFliteEstimate_def by (intro ends_rules)

lemma ends_Estimate [simp, ends_rules]: "ends (Estimate wr n1 n2 n3 ts vt)"
  by (simp add: Estimate_def split: VtEstimationType.split)

lemma ends_smooth [simp, ends_rules]: "ends (smooth si d c t)"
  by (auto simp: smooth_def intro!: ends_rules)

lemma ends_finish_read [simp, ends_rules]: "ends (finish_read env name si d t log h)"
  unfolding finish_read_def by (intro ends_rules)

lemma ends_keep_predictions [simp, ends_rules]: "ends (keep_predictions now name si out h)"
  unfolding keep_predictions_def by (intro ends_rules)

section \<open>Two computations that settle on the same result\<close>

definition settles :: "'a result \<Rightarrow> 'a result \<Rightarrow> bool" where
  "settles m m' \<longleftrightarrow> m' = m \<and> ends m"

lemma settles_refl: "ends m \<Longrightarrow> settles m m"
  by (simp add: settles_def)

lemma settles_bindE:
  "settles m m' \<Longrightarrow> (\<And>x. m = Inr x \<Longrightarrow> settles (f x) (f' x)) \<Longrightarrow> settles (bindE m f) (bindE m' f')"
  by (cases m) (auto simp: settles_def ends_def)

lemma settles_if:
  "(b \<Longrightarrow> settles x x') \<Longrightarrow> (\<not> b \<Longrightarrow> settles y y') \<Longrightarrow> settles (if b then x else y) (if b then x' else y')"
  by simp

lemma settles_option:
  "(m = None \<Longrightarrow> settles x x') \<Longrightarrow> (\<And>v. m = Some v \<Longrightarrow> settles (f v) (f' v)) \<Longrightarrow>
     settles (case m of None \<Rightarrow> x | Some v \<Rightarrow> f v) (case m of None \<Rightarrow> x' | Some v \<Rightarrow> f' v)"
  by (cases m) simp_all

lemma settles_pair:
  "(\<And>a b. p = (a, b) \<Longrightarrow> settles (f a b) (f' a b)) \<Longrightarrow>
     settles (case p of (a, b) \<Rightarrow> f a b) (case p of (a, b) \<Rightarrow> f' a b)"
  by (cases p) simp

lemma settles_let: "(\<And>x. x = v \<Longrightarrow> settles (f x) (f' x)) \<Longrightarrow> settles (let x = v in f x) (let x = v in f' x)"
  by simp

lemmas settles_rules = settles_bindE settles_if settles_option settles_pair settles_let

section \<open>Frames\<close>

text \<open>
  What reading a sensor leaves alone: everything but the cached readings, the severities, the
  statistics, the estimators and the predictions. In particular the configuration, which the
  recursion follows, the emulated temperatures and the times of the last updates.
\<close>

definition status_kept :: "SensorStatus \<Rightarrow> OverrideStatus \<times> int" where
  "status_kept s = (sn_override_status s, sn_last_update_time s)"

definition kept ::
    "helper_state \<Rightarrow> CdevInfo smap \<times> SensorInfo smap \<times> string list smap \<times> (string \<times> OverrideStatus \<times> int) list
       \<times> power_files \<times> thermal_files \<times> thermal_files \<times> throttling_state \<times> (string \<times> string) list"
where
  "kept h = (hp_cdev_info_map h, hp_sensor_info_map h, hp_power_rail_switch_map h,
     map (\<lambda>p. (fst p, status_kept (snd p))) (hp_sensor_status_map h),
     hp_power_files h, hp_thermal_sensors h, hp_cooling_devices h, hp_throttling h, hp_writes h)"

text \<open>A computation whose resulting state, found by \<open>st\<close>, keeps these.\<close>

definition keeps :: "('a \<Rightarrow> helper_state) \<Rightarrow> helper_state \<Rightarrow> 'a result \<Rightarrow> bool" where
  "keeps st h m \<longleftrightarrow> (\<forall>x. m = Inr x \<longrightarrow> kept (st x) = kept h)"

named_theorems keeps_rules \<open>computations that keep the configuration\<close>

lemma keeps_Inl [simp, keeps_rules]: "keeps st h (Inl e)"
  by (simp add: keeps_def)

lemma keeps_Inr: "kept (st x) = kept h \<Longrightarrow> keeps st h (Inr x)"
  by (simp add: keeps_def)

lemma keeps_bindE:
  "keeps st1 h m \<Longrightarrow> (\<And>x. m = Inr x \<Longrightarrow> kept (st1 x) = kept h \<Longrightarrow> keeps st h (f x)) \<Longrightarrow> keeps st h (bindE m f)"
  by (cases m) (auto simp: keeps_def)

text \<open>When the first part does not touch the state.\<close>

lemma keeps_bind_value: "(\<And>x. m = Inr x \<Longrightarrow> keeps st h (f x)) \<Longrightarrow> keeps st h (bindE m f)"
  by (cases m) (auto simp: keeps_def)

lemma keeps_trans: "keeps st h' m \<Longrightarrow> kept h' = kept h \<Longrightarrow> keeps st h m"
  by (simp add: keeps_def)

lemma keeps_if [keeps_rules]:
  "(b \<Longrightarrow> keeps st h x) \<Longrightarrow> (\<not> b \<Longrightarrow> keeps st h y) \<Longrightarrow> keeps st h (if b then x else y)"
  by simp

lemma keeps_option [keeps_rules]:
  "(m = None \<Longrightarrow> keeps st h x) \<Longrightarrow> (\<And>v. m = Some v \<Longrightarrow> keeps st h (f v)) \<Longrightarrow>
     keeps st h (case m of None \<Rightarrow> x | Some v \<Rightarrow> f v)"
  by (cases m) simp_all

lemma keeps_pair [keeps_rules]:
  "(\<And>a b. p = (a, b) \<Longrightarrow> keeps st h (f a b)) \<Longrightarrow> keeps st h (case p of (a, b) \<Rightarrow> f a b)"
  by (cases p) simp

lemma keeps_let [keeps_rules]: "(\<And>x. x = v \<Longrightarrow> keeps st h (f x)) \<Longrightarrow> keeps st h (let x = v in f x)"
  by simp

lemma keepsD: "keeps st h m \<Longrightarrow> m = Inr x \<Longrightarrow> kept (st x) = kept h"
  by (simp add: keeps_def)

section \<open>Single updates\<close>

lemma kept_simps [simp]:
  "kept (h\<lparr>hp_stats := s\<rparr>) = kept h" "kept (h\<lparr>hp_predictions := p\<rparr>) = kept h"
  "kept (h\<lparr>hp_vt_estimators := v\<rparr>) = kept h" "kept (set_estimator name vt h) = kept h"
  by (simp_all add: kept_def set_estimator_def)

lemma set_status_info [simp]: "hp_sensor_info_map (set_status n f h) = hp_sensor_info_map h"
  by (simp add: set_status_def split: option.split)

lemma has_set_status [simp]: "has (hp_sensor_status_map (set_status n f h)) k = has (hp_sensor_status_map h) k"
  by (auto simp: set_status_def has_def split: option.split)

lemma map_put_same:
  "map_of m k = Some w \<Longrightarrow> g v = g w \<Longrightarrow>
     map (\<lambda>p. (fst p, g (snd p))) (put k v m) = map (\<lambda>p. (fst p, g (snd p))) m"
  unfolding put_def by (induction m) (auto split: if_splits)

lemma kept_set_status:
  "(\<And>s. status_kept (f s) = status_kept s) \<Longrightarrow> kept (set_status name f h) = kept h"
  unfolding set_status_def
  by (cases "map_of (hp_sensor_status_map h) name") (simp_all add: kept_def map_put_same)

lemma kept_set_status_at:
  "map_of (hp_sensor_status_map h) name = Some s \<Longrightarrow> status_kept s' = status_kept s \<Longrightarrow>
     kept (set_status name (\<lambda>_. s') h) = kept h"
  by (simp add: set_status_def kept_def map_put_same)

lemma kept_info: "kept h' = kept h \<Longrightarrow> hp_sensor_info_map h' = hp_sensor_info_map h"
  by (simp add: kept_def)

lemma map_of_map_snd: "map_of (map (\<lambda>p. (fst p, f (snd p))) m) k = map_option f (map_of m k)"
  by (induction m) auto

lemma kept_status:
  "kept h' = kept h \<Longrightarrow>
     map_option status_kept (map_of (hp_sensor_status_map h') name)
       = map_option status_kept (map_of (hp_sensor_status_map h) name)"
  unfolding kept_def prod.inject map_of_map_snd [symmetric] by simp

lemma kept_status_at:
  assumes "kept h' = kept h" and "map_of (hp_sensor_status_map h) name = Some s"
  shows "\<exists>s'. map_of (hp_sensor_status_map h') name = Some s' \<and> sn_override_status s' = sn_override_status s
     \<and> sn_last_update_time s' = sn_last_update_time s"
  using kept_status [OF assms(1), of name] assms(2) by (auto simp: status_kept_def)

section \<open>Reading\<close>

abbreviation read_state :: "SensorReadStatus \<times> flt \<times> flt smap \<times> helper_state \<Rightarrow> helper_state" where
  "read_state x \<equiv> snd (snd (snd x))"

abbreviation input_state :: "'a \<times> 'b \<times> flt smap \<times> helper_state \<Rightarrow> helper_state" where
  "input_state x \<equiv> snd (snd (snd x))"

lemma keeps_keep_predictions: "keeps (\<lambda>x. x) h (keep_predictions now name si out h)"
  unfolding keep_predictions_def by (intro keeps_rules keeps_bind_value keeps_Inr) simp_all

lemma keeps_finish_read: "keeps read_state h (finish_read env name si d t log h)"
  unfolding finish_read_def by (intro keeps_rules keeps_bind_value keeps_Inr) (simp add: kept_set_status status_kept_def)

text \<open>The recursive call is a reader that keeps the configuration.\<close>

type_synonym reader = "string \<Rightarrow> bool \<Rightarrow> flt \<Rightarrow> flt smap \<Rightarrow> helper_state \<Rightarrow> sensor_read"

definition reader_ok :: "reader \<Rightarrow> bool" where
  "reader_ok R \<longleftrightarrow> (\<forall>name b v log h. keeps read_state h (R name b v log h))"

lemma keeps_readDataByType:
  assumes "reader_ok R"
  shows "keeps input_state h (readDataByType R b d ty v log h)"
proof (cases ty)
  case SENSOR
  have "keeps input_state h (R d b v log h)" using assms by (simp add: reader_ok_def)
  then show ?thesis
    unfolding readDataByType_def SENSOR SensorFusionType.case
    by (rule keeps_bindE) (auto intro!: keeps_Inr)
qed (auto simp: readDataByType_def intro!: keeps_rules keeps_bind_value keeps_Inr split: option.split)

lemma keeps_read_inputs:
  assumes "\<And>n t v log h. keeps input_state h (rd n t v log h)"
  shows "keeps input_state h (read_inputs rd ns ts log h)"
proof (induction ns arbitrary: ts log h)
  case Nil
  then show ?case by (simp add: keeps_def)
next
  case (Cons n ns)
  show ?case
  proof (cases ts)
    case Nil
    then show ?thesis by simp
  next
    case ts: (Cons t ts')
    show ?thesis
      unfolding ts read_inputs.simps
    proof (rule keeps_bindE [OF assms], intro keeps_rules)
      fix x ok p q log1 h1 and v :: flt
      assume "kept (input_state x) = kept h" "x = (ok, p)" "p = (v, q)" "q = (log1, h1)"
      then have k: "kept h1 = kept h" by simp
      show "keeps input_state h (Inr (ERROR, [], log1, h1))"
           "keeps input_state h (Inr (UNDER_COLLECTING, [], log1, h1))"
        using k by (simp_all add: keeps_def)
      show "keeps input_state h (bindE (read_inputs rd ns ts' log1 h1)
              (\<lambda>(status, vs, log2, h2). Inr (status, v # vs, log2, h2)))"
        by (rule keeps_bindE [OF keeps_trans [OF Cons.IH k]]) (auto intro!: keeps_Inr)
    qed
  qed
qed

lemma keeps_runVirtualTempEstimator:
  assumes "reader_ok R"
  shows "keeps input_state h (runVirtualTempEstimator R env name b log h)"
  unfolding runVirtualTempEstimator_def
  by (intro keeps_rules keeps_bind_value keeps_Inr)
    (auto dest!: keepsD [OF keeps_keep_predictions] keepsD [OF keeps_readDataByType [OF assms]])

lemma keeps_read_virtual:
  assumes "reader_ok R"
  shows "keeps read_state h (read_virtual R env name b vs temp log h)"
  unfolding read_virtual_def
  by (intro keeps_rules keeps_bind_value keeps_Inr)
    (auto dest!: keepsD [OF keeps_read_inputs [OF keeps_readDataByType [OF assms]]]
       keepsD [OF keeps_runVirtualTempEstimator [OF assms]])

lemma keeps_read_sensor_with:
  assumes "reader_ok R"
  shows "keeps read_state h (read_sensor_with R env name b temp log h)"
  unfolding read_sensor_with_def
  by (intro keeps_rules keeps_bind_value keeps_Inr keeps_finish_read)
    (auto dest!: keepsD [OF keeps_read_virtual [OF assms]]
       intro: keeps_trans [OF keeps_finish_read])

lemma keeps_readThermalSensor: "reader_ok (readThermalSensor fuel env)"
  by (induction fuel) (simp_all add: reader_ok_def keeps_read_sensor_with)

lemmas readThermalSensor_kept = keepsD [OF keeps_readThermalSensor [unfolded reader_ok_def, rule_format]]

section \<open>Temperatures\<close>

abbreviation temperature_state :: "SensorReadStatus \<times> Temperature \<times> helper_state \<Rightarrow> helper_state" where
  "temperature_state x \<equiv> snd (snd x)"

lemma keeps_severity_reference_loop:
  assumes "\<And>n h. keeps temperature_state h (T n h)"
  shows "keeps snd h (severity_reference_loop T ns target h)"
proof (induction ns arbitrary: target h)
  case Nil
  then show ?case by (simp add: keeps_def)
next
  case (Cons n ns)
  show ?case
    unfolding severity_reference_loop.simps
    by (intro keeps_rules keeps_bind_value)
      (auto dest!: keepsD [OF assms] keepsD [OF Cons.IH] simp: keeps_def)
qed

lemma keeps_report_temperature:
  assumes "\<And>n h. keeps temperature_state h (T n h)"
  shows "keeps temperature_state h (report_temperature T env name temp h)"
proof -
  have ref: "keeps snd h (getSeverityReference T name h)"
    unfolding getSeverityReference_def
    by (intro keeps_rules keeps_severity_reference_loop assms) (simp add: keeps_def)
  have upd: "status_kept s' = status_kept s"
    if "update_severity si ref v s = Inr (sev, s')" for si ref v s sev s'
    using that unfolding update_severity_def by (auto split: prod.splits option.splits if_splits simp: Let_def status_kept_def)
  show ?thesis
    unfolding report_temperature_def
    by (intro keeps_rules keeps_bind_value keeps_Inr)
      (auto dest!: keepsD [OF ref] upd simp: at_key_Inr_iff kept_set_status_at)
qed

lemma keeps_readTemperature: "keeps temperature_state h (readTemperature fuel n env name b h)"
proof (induction n arbitrary: name b h)
  case 0
  then show ?case by simp
next
  case (Suc n)
  show ?case
    unfolding readTemperature.simps
    by (intro keeps_rules keeps_bind_value)
      (auto dest!: readThermalSensor_kept keepsD [OF keeps_report_temperature [OF Suc.IH]] simp: keeps_def)
qed

lemmas readTemperature_kept = keepsD [OF keeps_readTemperature]

end
