(* ===== verification/HelperReading.thy ===== *)
theory HelperReading
  imports HelperFrame
begin

text \<open>
  Reading along the links ends when they are acyclic, and not otherwise.
\<close>

section \<open>Links\<close>

definition sensors_among :: "string list \<Rightarrow> SensorFusionType list \<Rightarrow> string set" where
  "sensors_among ns ts = {n. (n, SENSOR) \<in> set (zip ns ts)}"

text \<open>The sensors that reading a virtual sensor reads.\<close>

definition links :: "VirtualSensorInfo \<Rightarrow> string set" where
  "links vs = sensors_among (vs_linked_sensors vs) (vs_linked_sensors_type vs)
     \<union> sensors_among (vs_coefficients vs) (vs_coefficients_type vs) \<union> {vs_backup_sensor vs}"

text \<open>A rank that falls along the links and one that falls along the severity references.\<close>

definition links_fall :: "(string \<Rightarrow> nat) \<Rightarrow> SensorInfo smap \<Rightarrow> bool" where
  "links_fall rank sensors \<longleftrightarrow> (\<forall>p \<in> set sensors. case si_virtual_sensor_info (snd p) of None \<Rightarrow> True
      | Some vs \<Rightarrow> \<forall>l \<in> links vs. rank l < rank (fst p))"

definition references_fall :: "(string \<Rightarrow> nat) \<Rightarrow> SensorInfo smap \<Rightarrow> bool" where
  "references_fall rank sensors \<longleftrightarrow>
     (\<forall>p \<in> set sensors. \<forall>r \<in> set (si_severity_reference (snd p)). rank r < rank (fst p))"

lemma links_fallD:
  "links_fall rank sensors \<Longrightarrow> map_of sensors name = Some si \<Longrightarrow> si_virtual_sensor_info si = Some vs \<Longrightarrow>
     l \<in> links vs \<Longrightarrow> rank l < rank name"
  unfolding links_fall_def by (drule map_of_SomeD, drule (1) bspec) simp

lemma references_fallD:
  "references_fall rank sensors \<Longrightarrow> map_of sensors name = Some si \<Longrightarrow>
     r \<in> set (si_severity_reference si) \<Longrightarrow> rank r < rank name"
  unfolding references_fall_def by (drule map_of_SomeD, drule (1) bspec) simp

section \<open>Two readers that agree on the links\<close>

definition agree :: "reader \<Rightarrow> reader \<Rightarrow> helper_state \<Rightarrow> string set \<Rightarrow> bool" where
  "agree R R' h ls \<longleftrightarrow>
     (\<forall>l \<in> ls. \<forall>b v log h'. kept h' = kept h \<longrightarrow> settles (R l b v log h') (R' l b v log h'))"

lemma agree_mono: "agree R R' h ls \<Longrightarrow> ls' \<subseteq> ls \<Longrightarrow> agree R R' h ls'"
  by (auto simp: agree_def)

lemma agree_kept: "agree R R' h ls \<Longrightarrow> kept h' = kept h \<Longrightarrow> agree R R' h' ls"
  by (simp add: agree_def)

lemma settles_readDataByType:
  assumes "agree R R' h (if ty = SENSOR then {d} else {})" and "kept h' = kept h"
  shows "settles (readDataByType R b d ty v log h') (readDataByType R' b d ty v log h')"
proof (cases ty)
  case SENSOR
  with assms show ?thesis
    unfolding readDataByType_def SENSOR SensorFusionType.case
    by (intro settles_rules) (auto simp: agree_def intro!: settles_refl)
qed (auto simp: readDataByType_def Let_def intro!: settles_refl ends_rules)

lemma settles_read_inputs:
  assumes "reader_ok R" and "agree R R' h (sensors_among ns ts)" and "kept h' = kept h"
  shows "settles (read_inputs (readDataByType R b) ns ts log h') (read_inputs (readDataByType R' b) ns ts log h')"
  using assms(2,3)
proof (induction ns arbitrary: ts log h')
  case Nil
  then show ?case by (simp add: settles_refl)
next
  case (Cons n ns)
  show ?case
  proof (cases ts)
    case Nil
    then show ?thesis by (simp add: settles_refl)
  next
    case ts: (Cons t ts')
    have here: "agree R R' h (if t = SENSOR then {n} else {})" and there: "agree R R' h (sensors_among ns ts')"
      using Cons.prems(1) unfolding ts by (auto simp: sensors_among_def elim!: agree_mono split: if_splits)
    show ?thesis
      unfolding ts read_inputs.simps
      by (intro settles_rules settles_readDataByType [OF here Cons.prems(2)] Cons.IH [OF there] settles_refl ends_values)
        (use Cons.prems(2) in \<open>auto dest!: keepsD [OF keeps_readDataByType [OF assms(1)]]\<close>)
  qed
qed

lemma settles_runVirtualTempEstimator:
  assumes "agree R R' h {vs_backup_sensor vs}" and "kept h' = kept h"
    and "map_of (hp_sensor_info_map h) name = Some si" and "si_virtual_sensor_info si = Some vs"
  shows "settles (runVirtualTempEstimator R env name b log h') (runVirtualTempEstimator R' env name b log h')"
proof -
  have si: "map_of (hp_sensor_info_map h') name = Some si" using assms(3) by (simp add: kept_info [OF assms(2)])
  have backup: "settles (readDataByType R b (vs_backup_sensor vs) SENSOR g log (set_estimator name vt h'))
      (readDataByType R' b (vs_backup_sensor vs) SENSOR g log (set_estimator name vt h'))" for g vt
    using assms(1,2) by (intro settles_readDataByType [where h = h]) simp_all
  show ?thesis
    unfolding runVirtualTempEstimator_def si option.case prod.case assms(4) Let_def
    by (intro settles_bindE settles_if settles_option settles_pair backup)
      (simp_all add: settles_def ends_rules)
qed

lemma sensors_among_take: "sensors_among (take n ns) ts \<subseteq> sensors_among ns ts"
proof -
  have "set (zip (take n ns) ts) \<subseteq> set (zip ns ts)"
    by (auto simp: set_zip)
  then show ?thesis by (auto simp: sensors_among_def)
qed

lemma settles_read_virtual:
  assumes R: "reader_ok R" and a: "agree R R' h (links vs)" and k: "kept h' = kept h"
    and "map_of (hp_sensor_info_map h) name = Some si" and "si_virtual_sensor_info si = Some vs"
  shows "settles (read_virtual R env name b vs temp log h') (read_virtual R' env name b vs temp log h')"
proof -
  have linked: "agree R R' h (sensors_among (vs_linked_sensors vs) (vs_linked_sensors_type vs))"
    and coefs: "agree R R' h (sensors_among (take (length (vs_linked_sensors vs)) (vs_coefficients vs))
        (vs_coefficients_type vs))"
    and backup: "agree R R' h {vs_backup_sensor vs}"
    by (auto simp: links_def intro!: agree_mono [OF a] dest: subsetD [OF sensors_among_take])
  note kept1 = keepsD [OF keeps_read_inputs [OF keeps_readDataByType [OF R]]]
  show ?thesis
    unfolding read_virtual_def
    by (intro settles_bindE settles_if settles_pair settles_read_inputs [OF R linked k]
        settles_read_inputs [OF R coefs] settles_runVirtualTempEstimator [OF backup _ assms(4,5)])
      (use k in \<open>auto dest!: kept1 simp: settles_refl ends_rules\<close>)
qed

lemma settles_read_sensor_with:
  assumes R: "reader_ok R"
    and a: "\<And>si vs. map_of (hp_sensor_info_map h) name = Some si \<Longrightarrow> si_virtual_sensor_info si = Some vs \<Longrightarrow>
      agree R R' h (links vs)"
  shows "settles (read_sensor_with R env name b temp log h) (read_sensor_with R' env name b temp log h)"
proof (cases "map_of (hp_sensor_info_map h) name")
  case None
  then show ?thesis by (simp add: read_sensor_with_def settles_refl)
next
  case si: (Some si)
  show ?thesis
  proof (cases "si_virtual_sensor_info si")
    case None
    then show ?thesis
      unfolding read_sensor_with_def si prod.case option.case None
      by (intro settles_refl ends_rules)
  next
    case vs: (Some vs)
    show ?thesis
      unfolding read_sensor_with_def si prod.case option.case vs
      by (intro settles_rules settles_read_virtual [OF R a [OF si vs] refl si vs]) (simp_all add: settles_refl)
  qed
qed

section \<open>Termination\<close>

lemma settles_readThermalSensor:
  assumes "links_fall rank (hp_sensor_info_map h)" and "rank name < fuel" and "rank name < fuel'"
  shows "settles (readThermalSensor fuel env name b temp log h) (readThermalSensor fuel' env name b temp log h)"
  using assms
proof (induction fuel arbitrary: fuel' name b temp log h)
  case 0
  then show ?case by simp
next
  case (Suc fuel)
  obtain f where f: "fuel' = Suc f" using Suc.prems(3) by (cases fuel') auto
  have "agree (readThermalSensor fuel env) (readThermalSensor f env) h (links vs)"
    if si: "map_of (hp_sensor_info_map h) name = Some si" and vs: "si_virtual_sensor_info si = Some vs" for si vs
    unfolding agree_def
  proof (intro ballI allI impI)
    fix l b v log h'
    assume l: "l \<in> links vs" and k: "kept h' = kept h"
    have "rank l < rank name" using links_fallD [OF Suc.prems(1) si vs l] .
    then show "settles (readThermalSensor fuel env l b v log h') (readThermalSensor f env l b v log h')"
      using Suc.prems f by (intro Suc.IH) (simp_all add: kept_info [OF k])
  qed
  then show ?case
    unfolding f readThermalSensor.simps by (intro settles_read_sensor_with keeps_readThermalSensor)
qed

lemma settles_severity_reference_loop:
  assumes "\<And>n h. n \<in> set ns \<Longrightarrow> kept h = k \<Longrightarrow> settles (T n h) (T' n h)"
    and "\<And>n h. keeps temperature_state h (T n h)" and "kept h = k"
  shows "settles (severity_reference_loop T ns target h) (severity_reference_loop T' ns target h)"
  using assms(1,3)
proof (induction ns arbitrary: target h)
  case Nil
  then show ?case by (simp add: settles_refl)
next
  case (Cons n ns)
  show ?case
    unfolding severity_reference_loop.simps
    by (intro settles_bindE settles_if settles_pair Cons.IH settles_refl ends_values)
      (use Cons.prems in \<open>auto dest!: keepsD [OF assms(2)]\<close>)
qed

lemma ends_update_severity [simp, ends_rules]: "ends (update_severity si ref v s)"
  unfolding update_severity_def by (intro ends_rules)

lemma settles_report_temperature:
  assumes "\<And>si n h'. map_of (hp_sensor_info_map h) name = Some si \<Longrightarrow> n \<in> set (si_severity_reference si) \<Longrightarrow>
      kept h' = kept h \<Longrightarrow> settles (T n h') (T' n h')"
    and "\<And>n h. keeps temperature_state h (T n h)"
  shows "settles (report_temperature T env name temp h) (report_temperature T' env name temp h)"
proof -
  have "settles (getSeverityReference T name h) (getSeverityReference T' name h)"
    unfolding getSeverityReference_def
    by (intro settles_option settles_severity_reference_loop [where k = "kept h"] assms settles_refl ends_values) auto
  then show ?thesis
    unfolding report_temperature_def
    by (intro settles_bindE settles_pair settles_refl; (assumption | intro ends_rules))
qed

lemma settles_readTemperature:
  assumes "links_fall rank (hp_sensor_info_map h)" and "references_fall rank' (hp_sensor_info_map h)"
    and "\<forall>s. rank s < fuel" and "\<forall>s. rank s < fuel'" and "rank' name < n" and "rank' name < n'"
  shows "settles (readTemperature fuel n env name b h) (readTemperature fuel' n' env name b h)"
  using assms
proof (induction n arbitrary: n' name b h)
  case 0
  then show ?case by simp
next
  case (Suc n)
  obtain m where m: "n' = Suc m" using Suc.prems(6) by (cases n') auto
  have sensor: "settles (readThermalSensor fuel env name b v log h) (readThermalSensor fuel' env name b v log h)" for v log
    using Suc.prems by (intro settles_readThermalSensor) auto
  have report: "settles (report_temperature (\<lambda>l h'. readTemperature fuel n env l False h') env name temp h1)
      (report_temperature (\<lambda>l h'. readTemperature fuel' m env l False h') env name temp h1)"
    if k: "kept h1 = kept h" for temp h1
  proof (intro settles_report_temperature keeps_readTemperature)
    fix si l h'
    assume si: "map_of (hp_sensor_info_map h1) name = Some si" "l \<in> set (si_severity_reference si)"
      and k': "kept h' = kept h1"
    have "rank' l < rank' name"
      using references_fallD [OF Suc.prems(2)] si unfolding kept_info [OF k] by blast
    then show "settles (readTemperature fuel n env l False h') (readTemperature fuel' m env l False h')"
      using Suc.prems m by (intro Suc.IH) (simp_all add: kept_info [OF k'] kept_info [OF k])
  qed
  show ?case
    unfolding m readTemperature.simps
    by (intro settles_bindE settles_if settles_pair sensor report settles_refl ends_values ends_rules)
      (auto dest!: readThermalSensor_kept)
qed

end
