(* ===== verification/HelperOps.thy ===== *)
theory HelperOps
  imports HelperRead
begin

text \<open>
  The requests to \<open>class ThermalHelperImpl\<close>: emulation, cooling devices, the lists the service
  returns, predictions (aidl/thermal/thermal-helper.cpp).
\<close>

section \<open>Emulation\<close>

text \<open>
  Every watched virtual sensor linked to the target, and those linked to it in turn, is updated
  before the next poll. The recursion follows the links upwards; it is bounded by fuel here.
\<close>

definition emul_links :: "string \<Rightarrow> string \<times> SensorInfo \<Rightarrow> bool" where
  "emul_links target p \<longleftrightarrow> si_is_watch (snd p)
     \<and> (case si_virtual_sensor_info (snd p) of None \<Rightarrow> False | Some vs \<Rightarrow> target \<in> set (vs_linked_sensors vs))"

definition mark_for_emul :: "bool \<Rightarrow> SensorStatus \<Rightarrow> SensorStatus" where
  "mark_for_emul max_throttling s = s\<lparr>sn_override_status := (sn_override_status s)
     \<lparr>ov_max_throttling := max_throttling, ov_pending_update := True\<rparr>\<rparr>"

fun checkUpdateSensorForEmul :: "nat \<Rightarrow> string \<Rightarrow> bool \<Rightarrow> helper_state \<Rightarrow> helper_state result" where
  "checkUpdateSensorForEmul 0 target max_throttling h = Inl Diverges"
| "checkUpdateSensorForEmul (Suc fuel) target max_throttling h =
     foldE (\<lambda>p h'.
       if \<not> emul_links target p then Inr h'
       else bindE (at_key (hp_sensor_status_map h') (fst p)) (\<lambda>_.
            checkUpdateSensorForEmul fuel (fst p) max_throttling
              (set_status (fst p) (mark_for_emul max_throttling) h')))
     (hp_sensor_info_map h) h"

definition wake :: "helper_state \<Rightarrow> helper_state" where
  "wake h = h\<lparr>hp_wakes := Suc (hp_wakes h)\<rparr>"

definition override :: "EmulTemp option \<Rightarrow> bool \<Rightarrow> SensorStatus \<Rightarrow> SensorStatus" where
  "override e max_throttling s = s\<lparr>sn_override_status :=
     \<lparr>ov_emul_temp = e, ov_max_throttling = max_throttling, ov_pending_update = True\<rparr>\<rparr>"

definition emulTemp ::
    "nat \<Rightarrow> string \<Rightarrow> flt \<Rightarrow> bool \<Rightarrow> helper_state \<Rightarrow> (bool \<times> helper_state) result"
where
  "emulTemp fuel target temp max_throttling h =
     (if \<not> has (hp_sensor_status_map h) target then Inr (False, h)
      else
        bindE (checkUpdateSensorForEmul fuel target max_throttling
                 (set_status target (override (Some \<lparr>em_temp = temp, em_severity = - 1\<rparr>) max_throttling) h))
          (\<lambda>h'. Inr (True, wake h')))"

text \<open>
  The test lets the number of severities itself through, and every negative number: the thresholds
  are then indexed outside their array.
\<close>

definition emulSeverity ::
    "nat \<Rightarrow> string \<Rightarrow> int \<Rightarrow> bool \<Rightarrow> helper_state \<Rightarrow> (bool \<times> helper_state) result"
where
  "emulSeverity fuel target sev max_throttling h =
     (case (map_of (hp_sensor_status_map h) target, map_of (hp_sensor_info_map h) target) of
        (Some status, Some si) \<Rightarrow>
          if 7 < sev then Inr (False, h)
          else
            bindE (vec_at sev_range sev) (\<lambda>s.
            let temp = fdiv (si_hot_thresholds si s) (si_multiplier si)
            in bindE (checkUpdateSensorForEmul fuel target max_throttling
                        (set_status target (override (Some \<lparr>em_temp = temp, em_severity = sev\<rparr>) max_throttling) h))
                 (\<lambda>h'. Inr (True, wake h')))
      | _ \<Rightarrow> Inr (False, h))"

definition emulClear :: "nat \<Rightarrow> string \<Rightarrow> helper_state \<Rightarrow> (bool \<times> helper_state) result" where
  "emulClear fuel target h =
     (if target = ''all'' then
        bindE (foldE (\<lambda>p h'. checkUpdateSensorForEmul fuel (fst p) False (set_status (fst p) (override None False) h'))
                 (hp_sensor_status_map h) h) (\<lambda>h'. Inr (True, wake h'))
      else if has (hp_sensor_status_map h) target then
        bindE (checkUpdateSensorForEmul fuel target False (set_status target (override None False) h))
          (\<lambda>h'. Inr (True, wake h'))
      else Inr (False, h))"

section \<open>Cooling devices\<close>

record CoolingDevice =
  cd_type :: int
  cd_name :: string
  cd_value :: int

definition readCoolingDevice :: "'j helper_env \<Rightarrow> string \<Rightarrow> helper_state \<Rightarrow> CoolingDevice option result" where
  "readCoolingDevice env cooling_device h =
     (case readThermalFile (he_files env) (hp_cooling_devices h) cooling_device of
        None \<Rightarrow> Inr None
      | Some text \<Rightarrow>
          bindE (at_key (hp_cdev_info_map h) cooling_device) (\<lambda>ci.
          bindE (atoi text) (\<lambda>v.
          Inr (Some \<lparr>cd_type = ci_type ci, cd_name = cooling_device, cd_value = v\<rparr>))))"

text \<open>
  The number written to a device: its power limit for the requested state where it is capped by
  power, the state otherwise. The \<open>long\<close> of \<open>lround\<close> becomes an \<open>int\<close>.
\<close>

definition request_value :: "CdevInfo \<Rightarrow> int \<Rightarrow> int result" where
  "request_value ci max_state =
     (if ci_apply_powercap ci
      then bindE (vec_at (ci_state2power ci) max_state) (\<lambda>p.
           bindE (lround (fdiv p (ci_multiplier ci))) (\<lambda>r. Inr (to_int32 r)))
      else Inr max_state)"

definition update_cooling_device ::
    "'j helper_env \<Rightarrow> string \<Rightarrow> helper_state \<Rightarrow> helper_state result"
where
  "update_cooling_device env target h =
     bindE (at_key (hp_cdev_info_map h) target) (\<lambda>ci.
     bindE (getCdevMaxRequest (hp_throttling h) target) (\<lambda>m.
     case m of
       None \<Rightarrow> Inr h
     | Some max_state \<Rightarrow>
         bindE (request_value ci max_state) (\<lambda>request. Inr (write_cdev env target (to_string request) h))))"

definition updateCoolingDevices ::
    "'j helper_env \<Rightarrow> string list \<Rightarrow> helper_state \<Rightarrow> helper_state result"
where
  "updateCoolingDevices env updated_cdev = foldE (update_cooling_device env) updated_cdev"

section \<open>What the service lists\<close>

record TemperatureThreshold =
  tt_type :: int
  tt_name :: string
  tt_hotThrottlingThresholds :: "flt list"
  tt_coldThrottlingThresholds :: "flt list"

definition readTemperatureThreshold :: "string \<Rightarrow> helper_state \<Rightarrow> TemperatureThreshold option" where
  "readTemperatureThreshold name h =
     (case map_of (hp_sensor_info_map h) name of
        None \<Rightarrow> None
      | Some si \<Rightarrow> Some \<lparr> tt_type = si_type si, tt_name = name,
          tt_hotThrottlingThresholds = map (si_hot_thresholds si) sev_range,
          tt_coldThrottlingThresholds = map (si_cold_thresholds si) sev_range \<rparr>)"

definition listed :: "bool \<Rightarrow> bool \<Rightarrow> int \<Rightarrow> SensorInfo \<Rightarrow> bool" where
  "listed filterType filterCallback type si \<longleftrightarrow>
     \<not> si_is_hidden si \<and> \<not> (filterType \<and> si_type si \<noteq> type) \<and> \<not> (filterCallback \<and> \<not> si_send_cb si)"

fun fill_temperatures ::
    "nat \<Rightarrow> nat \<Rightarrow> 'j helper_env \<Rightarrow> bool \<Rightarrow> bool \<Rightarrow> int \<Rightarrow> (string \<times> SensorInfo) list \<Rightarrow> helper_state
      \<Rightarrow> (Temperature list \<times> helper_state) result"
where
  "fill_temperatures fuel n env filterType filterCallback type [] h = Inr ([], h)"
| "fill_temperatures fuel n env filterType filterCallback type (p # ps) h =
     (if \<not> listed filterType filterCallback type (snd p)
      then fill_temperatures fuel n env filterType filterCallback type ps h
      else
        bindE (readTemperature fuel n env (fst p) False h) (\<lambda>(status, t, h1).
        bindE (fill_temperatures fuel n env filterType filterCallback type ps h1) (\<lambda>(ts, h2).
        Inr (if status = OKAY then t # ts else ts, h2))))"

definition fillCurrentTemperatures ::
    "nat \<Rightarrow> nat \<Rightarrow> 'j helper_env \<Rightarrow> bool \<Rightarrow> bool \<Rightarrow> int \<Rightarrow> helper_state
      \<Rightarrow> (bool \<times> Temperature list \<times> helper_state) result"
where
  "fillCurrentTemperatures fuel n env filterType filterCallback type h =
     bindE (fill_temperatures fuel n env filterType filterCallback type (hp_sensor_info_map h) h) (\<lambda>(ts, h').
     Inr (ts \<noteq> [], ts, h'))"

definition fillTemperatureThresholds :: "bool \<Rightarrow> int \<Rightarrow> helper_state \<Rightarrow> bool \<times> TemperatureThreshold list" where
  "fillTemperatureThresholds filterType type h =
     (let ts = List.map_filter (\<lambda>p. if listed filterType False type (snd p)
                  then readTemperatureThreshold (fst p) h else None) (hp_sensor_info_map h)
      in (ts \<noteq> [], ts))"

definition fillCurrentCoolingDevices ::
    "'j helper_env \<Rightarrow> bool \<Rightarrow> int \<Rightarrow> helper_state \<Rightarrow> (bool \<times> CoolingDevice list) result"
where
  "fillCurrentCoolingDevices env filterType type h =
     bindE (mapE (\<lambda>p. readCoolingDevice env (fst p) h)
              (filter (\<lambda>p. \<not> (filterType \<and> ci_type (snd p) \<noteq> type)) (hp_cdev_info_map h))) (\<lambda>cds.
     let ret = List.map_filter (\<lambda>x. x) cds in Inr (ret \<noteq> [], ret))"

section \<open>Predictions of a sensor's predictor\<close>

text \<open>The predictor's virtual sensor and estimator are dereferenced without a test.\<close>

definition predictor_estimator :: "SensorInfo \<Rightarrow> helper_state \<Rightarrow> VirtualTempEstimator option result" where
  "predictor_estimator si h =
     (case si_predictor_info si of
        None \<Rightarrow> Inr None
      | Some p \<Rightarrow>
          bindE (at_key (hp_sensor_info_map h) (pi_sensor p)) (\<lambda>psi.
          if si_virtual_sensor_info psi = None then Inl UB
          else case map_of (hp_vt_estimators h) (pi_sensor p) of
            None \<Rightarrow> Inl UB
          | Some vt \<Rightarrow> Inr (Some vt)))"

definition getPredictionMaxWindowMs :: "string \<Rightarrow> helper_state \<Rightarrow> nat result" where
  "getPredictionMaxWindowMs name h =
     bindE (at_key (hp_sensor_info_map h) name) (\<lambda>si.
     bindE (predictor_estimator si h) (\<lambda>m.
     Inr (case m of
            None \<Rightarrow> 0
          | Some vt \<Rightarrow> (case GetMaxPredictWindowMs vt of
                         (kVtEstimatorOk, Some w) \<Rightarrow> w | _ \<Rightarrow> 0))))"

definition readPredictionAfterTimeMs :: "int \<Rightarrow> string \<Rightarrow> nat \<Rightarrow> helper_state \<Rightarrow> flt result" where
  "readPredictionAfterTimeMs now name time_ms h =
     bindE (at_key (hp_sensor_info_map h) name) (\<lambda>si.
     bindE (predictor_estimator si h) (\<lambda>m.
     case m of
       None \<Rightarrow> Inr NaN
     | Some vt \<Rightarrow>
         bindE (PredictAfterTimeMs now time_ms vt) (\<lambda>(ret, v).
         Inr (case (ret, v) of (kVtEstimatorOk, Some t) \<Rightarrow> t | _ \<Rightarrow> NaN))))"

definition readTemperaturePredictions :: "string \<Rightarrow> helper_state \<Rightarrow> (bool \<times> flt list) result" where
  "readTemperaturePredictions name h =
     (case map_of (hp_sensor_info_map h) name of
        None \<Rightarrow> Inr (False, [])
      | Some si \<Rightarrow>
          bindE (predictor_estimator si h) (\<lambda>m.
          case m of
            None \<Rightarrow> Inr (False, [])
          | Some vt \<Rightarrow>
              bindE (GetAllPredictions vt) (\<lambda>(ret, ps).
              Inr (ret = kVtEstimatorOk, (case ps of None \<Rightarrow> [] | Some l \<Rightarrow> l)))))"

definition dumpVtEstimatorStatus :: "string \<Rightarrow> helper_state \<Rightarrow> (VtEstimatorStatus \<times> flt list) option result" where
  "dumpVtEstimatorStatus name h =
     (if \<not> (has (hp_sensor_info_map h) name \<and> has (hp_sensor_status_map h) name) then Inr None
      else case map_of (hp_vt_estimators h) name of
        None \<Rightarrow> Inr None
      | Some vt \<Rightarrow> bindE (DumpStatus vt) (\<lambda>d. Inr (Some d)))"

end
