(* ===== verification/HelperInit.thy ===== *)
theory HelperInit
  imports HelperOps ConfigRoot
begin

text \<open>
  How \<open>class ThermalHelperImpl\<close> builds its state (aidl/thermal/thermal-helper.cpp): the paths of
  sensors and cooling devices, the tables of the devices, the trip points, the checks of the
  constructor, and the clearing of all throttling.
\<close>

section \<open>Paths\<close>

text \<open>
  The entries of a directory, with whether each is a directory; \<open>None\<close> when it cannot be opened.
  \<open>emplace\<close> keeps the first path of a name.
\<close>

definition emplace :: "string \<Rightarrow> 'v \<Rightarrow> 'v smap \<Rightarrow> 'v smap" where
  "emplace k v m = (if has m k then m else put k v m)"

definition parseThermalPathMap ::
    "(string \<times> bool) list option \<Rightarrow> (string \<Rightarrow> string option) \<Rightarrow> string \<Rightarrow> string smap"
where
  "parseThermalPathMap dir files name_prefix =
     (case dir of
        None \<Rightarrow> []
      | Some entries \<Rightarrow>
          fold (\<lambda>(d, is_dir) m.
            let path = ''/sys/devices/virtual/thermal/'' @ d
            in if \<not> is_dir \<or> \<not> prefixed name_prefix d then m
               else case files (path @ ''/type'') of
                 None \<Rightarrow> m
               | Some name \<Rightarrow> emplace (Trim name) path m) entries [])"

definition parsePowerCapPathMap :: "string list option \<Rightarrow> (string \<Rightarrow> string option) \<Rightarrow> string smap" where
  "parsePowerCapPathMap dir files =
     (case dir of
        None \<Rightarrow> []
      | Some paths \<Rightarrow>
          fold (\<lambda>path m. case files (path @ ''/name'') of
                 None \<Rightarrow> m
               | Some name \<Rightarrow> emplace (Trim name) path m) paths [])"

definition getThermalZoneTypeById :: "(string \<Rightarrow> string option) \<Rightarrow> int \<Rightarrow> string option" where
  "getThermalZoneTypeById files tz_id =
     map_option Trim (files (''/sys/devices/virtual/thermal/thermal_zone'' @ to_string tz_id @ ''/type''))"

fun initializeSensorMap ::
    "string smap \<Rightarrow> (string \<times> SensorInfo) list \<Rightarrow> thermal_files \<Rightarrow> bool \<times> thermal_files"
where
  "initializeSensorMap path_map [] m = (True, m)"
| "initializeSensorMap path_map ((name, si) # rest) m =
     (if si_virtual_sensor_info si \<noteq> None then initializeSensorMap path_map rest m
      else case map_of path_map (si_zone_name si) of
        None \<Rightarrow> (False, m)
      | Some zone \<Rightarrow>
          (case addThermalFile name (if si_temp_path si = [] then zone @ ''/temp'' else si_temp_path si) m of
             (True, m') \<Rightarrow> initializeSensorMap path_map rest m'
           | (False, m') \<Rightarrow> (False, m')))"

section \<open>Cooling devices\<close>

text \<open>
  The power of each state, read from sysfs when the configuration has none. Numbers are read as
  \<open>unsigned int\<close>, converted to \<open>int\<close> and scaled.
\<close>

definition sysfs_powers :: "flt \<Rightarrow> string \<Rightarrow> flt list" where
  "sysfs_powers multiplier text =
     map (\<lambda>n. fmul (of_int_f (to_int32 n)) multiplier) (read_numbers (- (2 ^ 32 - 1)) (2 ^ 32 - 1) text)"

definition initializeCoolingDeviceEntry ::
    "(string \<Rightarrow> string option) \<Rightarrow> string smap \<Rightarrow> string \<Rightarrow> CdevInfo \<Rightarrow> thermal_files
      \<Rightarrow> (bool \<times> CdevInfo \<times> thermal_files) result"
where
  "initializeCoolingDeviceEntry files path_map name ci m =
     (case map_of path_map name of
        None \<Rightarrow> Inr (False, ci, m)
      | Some path \<Rightarrow>
          let cur_state = path @ ''/cur_state'';
              read_path = (if ci_read_path ci = [] then cur_state else ci_read_path ci);
              write_path = (if ci_write_path ci = [] then cur_state else ci_write_path ci)
          in case addThermalFile name read_path m of
            (False, m1) \<Rightarrow> Inr (False, ci, m1)
          | (True, m1) \<Rightarrow>
              let ci1 = (if ci_state2power ci = []
                         then (case files (path @ ''/state2power_table'') of
                                 None \<Rightarrow> ci
                               | Some text \<Rightarrow> ci\<lparr>ci_state2power := sysfs_powers (ci_multiplier ci) text\<rparr>)
                         else ci)
              in bindE (case files (path @ ''/max_state'') of
                          None \<Rightarrow> Inr INT_MAX
                        | Some text \<Rightarrow>
                            bindE (atoi (Trim text)) (\<lambda>max_state.
                            bindE (if ci_state2power ci1 = [] then Inr 0 else int32 (max_state + 1)) (\<lambda>_.
                            Inr max_state))) (\<lambda>max_state.
                 case addThermalFile (name @ ''_w'') write_path m1 of
                   (ok, m2) \<Rightarrow> Inr (ok, ci1\<lparr>ci_max_state := max_state\<rparr>, m2)))"

text \<open>The power limits of a powercap device must not rise with the state.\<close>

fun falling :: "flt list \<Rightarrow> bool" where
  "falling (p # q # ps) = (\<not> flt_lt p q \<and> falling (q # ps))"
| "falling _ = True"

definition powercap_powers :: "flt \<Rightarrow> string \<Rightarrow> flt list result" where
  "powercap_powers multiplier text =
     mapE (\<lambda>n. bindE (to_int_f (fmul (of_int_f n) multiplier)) (\<lambda>i. Inr (of_int_f i)))
       (read_numbers INT_MIN INT_MAX text)"

definition initializePowercapEntry ::
    "(string \<Rightarrow> string option) \<Rightarrow> string smap \<Rightarrow> string \<Rightarrow> CdevInfo \<Rightarrow> thermal_files
      \<Rightarrow> (bool \<times> CdevInfo \<times> thermal_files) result"
where
  "initializePowercapEntry files path_map name ci m =
     (case map_of path_map name of
        None \<Rightarrow> Inr (False, ci, m)
      | Some root_path \<Rightarrow>
          let powercap_path = root_path @ ''/constraint_0_power_limit_uw''
          in case addThermalFile name powercap_path m of
            (False, m1) \<Rightarrow> Inr (False, ci, m1)
          | (True, m1) \<Rightarrow>
              (case addThermalFile (name @ ''_w'')
                      (if ci_write_path ci = [] then powercap_path else ci_write_path ci) m1 of
                 (False, m2) \<Rightarrow> Inr (False, ci, m2)
               | (True, m2) \<Rightarrow>
                   bindE (if ci_state2power ci \<noteq> [] then Inr (Some (ci_state2power ci))
                          else case files (root_path @ ''/power_levels_uw'') of
                            None \<Rightarrow> Inr None
                          | Some text \<Rightarrow> bindE (powercap_powers (ci_multiplier ci) text) (\<lambda>ps. Inr (Some ps)))
                     (\<lambda>powers.
                   case powers of
                     None \<Rightarrow> Inr (False, ci, m2)
                   | Some ps \<Rightarrow>
                       let ci1 = ci\<lparr>ci_state2power := ps\<rparr>
                       in Inr (if falling ps then (True, ci1\<lparr>ci_max_state := int (length ps) - 1\<rparr>, m2)
                               else (False, ci1, m2)))))"

fun initializeThrottlingMap ::
    "(string \<Rightarrow> string option) \<Rightarrow> string smap \<Rightarrow> string smap \<Rightarrow> (string \<times> CdevInfo) list \<Rightarrow> CdevInfo smap
      \<Rightarrow> thermal_files \<Rightarrow> (bool \<times> CdevInfo smap \<times> thermal_files) result"
where
  "initializeThrottlingMap files cdev_map powercap_map [] cdevs m = Inr (True, cdevs, m)"
| "initializeThrottlingMap files cdev_map powercap_map ((name, ci) # rest) cdevs m =
     bindE (if ci_apply_powercap ci then initializePowercapEntry files powercap_map name ci m
            else initializeCoolingDeviceEntry files cdev_map name ci m) (\<lambda>(ok, ci', m').
     if \<not> ok then Inr (False, put name ci' cdevs, m')
     else initializeThrottlingMap files cdev_map powercap_map rest (put name ci' cdevs) m')"

section \<open>Trip points\<close>

definition setMinTimeout :: "SensorInfo \<Rightarrow> SensorInfo" where
  "setMinTimeout si = si\<lparr>si_polling_delay := kMinPollIntervalMs, si_passive_delay := kMinPollIntervalMs\<rparr>"

definition updateTripPointThreshold ::
    "(string \<Rightarrow> string \<Rightarrow> bool) \<Rightarrow> bool \<Rightarrow> string \<Rightarrow> string \<Rightarrow> (string \<times> string) list \<Rightarrow> bool \<times> (string \<times> string) list"
where
  "updateTripPointThreshold writes is_trip_point_ignorable threshold trip_point_path out =
     (if writes trip_point_path threshold then (True, out @ [(trip_point_path, threshold)])
      else (is_trip_point_ignorable, out))"

text \<open>The first severity with a threshold is written to the zone; a sensor with none is polled.\<close>

definition first_trip :: "SensorInfo \<Rightarrow> severity option" where
  "first_trip si = List.find (\<lambda>s. \<not> isnan (si_hot_thresholds si s) \<and> \<not> isnan (si_hot_hysteresis si s)) sev_range"

definition write_trip ::
    "(string \<Rightarrow> string \<Rightarrow> bool) \<Rightarrow> string \<Rightarrow> SensorInfo \<Rightarrow> (string \<times> string) list
      \<Rightarrow> (bool \<times> (string \<times> string) list) result"
where
  "write_trip writes tz_path si out =
     (case first_trip si of
        None \<Rightarrow> Inr (False, out)
      | Some s \<Rightarrow>
          bindE (lround (fdiv (si_hot_thresholds si s) (si_multiplier si))) (\<lambda>t.
          bindE (lround (fdiv (si_hot_hysteresis si s) (si_multiplier si))) (\<lambda>hy.
          Inr (case updateTripPointThreshold writes (si_is_trip_point_ignorable si) (to_string t)
                      (tz_path @ ''/trip_point_0_temp'') out of
                 (ok1, out1) \<Rightarrow>
                   (case updateTripPointThreshold writes (si_is_trip_point_ignorable si) (to_string hy)
                           (tz_path @ ''/trip_point_0_hyst'') out1 of
                      (ok2, out2) \<Rightarrow> (ok1 \<and> ok2, out2))))))"

definition trip_supported :: "(string \<Rightarrow> string option) \<Rightarrow> bool \<Rightarrow> string \<Rightarrow> bool" where
  "trip_supported files thermal_genl_enabled tz_path \<longleftrightarrow>
     thermal_genl_enabled
     \<or> (case files (tz_path @ ''/policy'') of None \<Rightarrow> False | Some p \<Rightarrow> Trim p = ''user_space'')"

text \<open>
  The zone is looked up under the name of the sensor, not under the name of its zone, with which
  \<open>initializeSensorMap\<close> found its path.
\<close>

definition init_trip_of ::
    "'j helper_env \<Rightarrow> string smap \<Rightarrow> bool \<Rightarrow> string \<Rightarrow> helper_state \<times> string list
      \<Rightarrow> (helper_state \<times> string list) result"
where
  "init_trip_of env path_map thermal_genl_enabled name acc =
     (case acc of (h, monitored_sensors) \<Rightarrow>
      bindE (at_key (hp_sensor_info_map h) name) (\<lambda>si.
      if \<not> si_is_watch si \<or> si_virtual_sensor_info si \<noteq> None then Inr acc
      else
        bindE (at_key path_map name) (\<lambda>tz_path.
        if trip_supported (he_files env) thermal_genl_enabled tz_path
        then bindE (write_trip (he_writes env) tz_path si (hp_writes h)) (\<lambda>(trip_update, out).
             let h1 = h\<lparr>hp_writes := out\<rparr>
             in Inr ((if trip_update then h1 else set_sensor name setMinTimeout h1), name # monitored_sensors))
        else Inr (set_sensor name setMinTimeout h, monitored_sensors))))"

definition initializeTrip ::
    "'j helper_env \<Rightarrow> string smap \<Rightarrow> bool \<Rightarrow> helper_state \<Rightarrow> (helper_state \<times> string list) result"
where
  "initializeTrip env path_map thermal_genl_enabled h =
     foldE (init_trip_of env path_map thermal_genl_enabled) (map fst (hp_sensor_info_map h)) (h, [])"

section \<open>Clearing all throttling\<close>

definition clear_sensor_info :: "SensorInfo \<Rightarrow> SensorInfo" where
  "clear_sensor_info si = si\<lparr> si_is_watch := False, si_throttling_info := None,
     si_hot_thresholds := (\<lambda>_. NaN), si_cold_thresholds := (\<lambda>_. NaN) \<rparr>"

definition clear_sensor :: "bool \<Rightarrow> string \<times> SensorInfo \<Rightarrow> helper_state \<Rightarrow> helper_state" where
  "clear_sensor has_cb p h0 =
     (let name = fst p; si = clear_sensor_info (snd p); h1 = set_sensor name clear_sensor_info h0;
          h2 = (if si_send_cb si \<and> has_cb
                then h1\<lparr>hp_callbacks := hp_callbacks h1 @ [\<lparr>tp_type = si_type si, tp_name = name,
                       tp_value = NaN, tp_throttlingStatus = NONE\<rparr>]\<rparr>
                else h1)
      in if si_send_powerhint si
         then h2\<lparr>hp_power_hal_calls := hp_power_hal_calls h2 @ map (\<lambda>s. SetMode name s False) sev_range\<rparr>
         else h2)"

definition clearAllThrottling :: "'j helper_env \<Rightarrow> helper_state \<Rightarrow> helper_state result" where
  "clearAllThrottling env h =
     bindE (foldE (\<lambda>(name, ci) h'.
              bindE (if ci_apply_powercap ci then request_value ci 0 else Inr 0) (\<lambda>v.
              Inr (write_cdev env name (to_string v) h'))) (hp_cdev_info_map h) h) (\<lambda>h'.
     Inr (fold (clear_sensor (he_has_cb env)) (hp_sensor_info_map h') h'))"

section \<open>The checks of the constructor\<close>

definition isSubSensorValid :: "helper_state \<Rightarrow> string \<Rightarrow> SensorFusionType \<Rightarrow> bool" where
  "isSubSensorValid h sensor_data type =
     (case type of
        SENSOR \<Rightarrow> has (hp_sensor_info_map h) sensor_data
      | ODPM \<Rightarrow> has (pf_power_status (hp_power_files h)) sensor_data
      | _ \<Rightarrow> True)"

definition cap_ceilings :: "int \<Rightarrow> BindedCdevInfo \<Rightarrow> BindedCdevInfo" where
  "cap_ceilings max_state bc = bc\<lparr>bc_cdev_ceiling := (\<lambda>s. min (bc_cdev_ceiling bc s) max_state)\<rparr>"

definition maxCoolingRequestCheck :: "CdevInfo smap \<Rightarrow> BindedCdevInfo smap \<Rightarrow> BindedCdevInfo smap result" where
  "maxCoolingRequestCheck cdevs binded =
     mapE (\<lambda>(name, bc). bindE (at_key cdevs name) (\<lambda>ci. Inr (name, cap_ceilings (ci_max_state ci) bc))) binded"

definition cap_throttling :: "CdevInfo smap \<Rightarrow> ThrottlingInfo \<Rightarrow> ThrottlingInfo result" where
  "cap_throttling cdevs ti =
     bindE (maxCoolingRequestCheck cdevs (ti_binded_cdev_info_map ti)) (\<lambda>binded.
     bindE (mapE (\<lambda>(mode, m). bindE (maxCoolingRequestCheck cdevs m) (\<lambda>m'. Inr (mode, m'))) (ti_profile_map ti))
       (\<lambda>profiles. Inr (ti\<lparr>ti_binded_cdev_info_map := binded, ti_profile_map := profiles\<rparr>)))"

text \<open>Marks the sensors of a list as watched up to the first that does not exist.\<close>

fun watch_all :: "string list \<Rightarrow> helper_state \<Rightarrow> bool \<times> helper_state" where
  "watch_all [] h = (True, h)"
| "watch_all (n # ns) h =
     (if has (hp_sensor_info_map h) n then watch_all ns (set_sensor n (\<lambda>si. si\<lparr>si_is_watch := True\<rparr>) h)
      else (False, h))"

fun sub_sensors_valid :: "helper_state \<Rightarrow> string list \<Rightarrow> SensorFusionType list \<Rightarrow> bool result" where
  "sub_sensors_valid h [] ts = Inr True"
| "sub_sensors_valid h (n # ns) [] = Inl UB"
| "sub_sensors_valid h (n # ns) (t # ts) =
     (if isSubSensorValid h n t then sub_sensors_valid h ns ts else Inr False)"

definition pause_rails :: "string \<Rightarrow> helper_state \<Rightarrow> helper_state result" where
  "pause_rails name h =
     (case map_of (hp_power_rail_switch_map h) name of
        None \<Rightarrow> Inr h
      | Some rails \<Rightarrow>
          bindE (foldE (\<lambda>r. powerSamplingSwitch r False) rails (hp_power_files h)) (\<lambda>pf.
          Inr (h\<lparr>hp_power_files := pf\<rparr>)))"

text \<open>
  One sensor: its status, its throttling, the links of a virtual sensor, its predictor. The state
  is the running flag \<open>ret\<close> and the helper. Only the backup sensor and the predictor leave the loop
  over the sensors; the \<open>break\<close> of an invalid link leaves the inner loop.
\<close>

definition init_throttling ::
    "string \<Rightarrow> SensorInfo \<Rightarrow> helper_state \<Rightarrow> (bool \<times> helper_state) result"
where
  "init_throttling name si h =
     (case si_throttling_info si of
        None \<Rightarrow> Inr (True, h)
      | Some ti \<Rightarrow>
          (case registerThermalThrottling name (Some ti) (hp_cdev_info_map h) (hp_throttling h) of
             (False, th) \<Rightarrow> Inr (False, h\<lparr>hp_throttling := th\<rparr>)
           | (True, th) \<Rightarrow>
               bindE (cap_throttling (hp_cdev_info_map h) ti) (\<lambda>ti'.
               Inr (True, set_sensor name (\<lambda>s. s\<lparr>si_throttling_info := Some ti'\<rparr>) (h\<lparr>hp_throttling := th\<rparr>)))))"

definition init_virtual ::
    "string \<Rightarrow> SensorInfo \<Rightarrow> bool \<times> helper_state \<Rightarrow> (bool \<times> helper_state, unit) ctl result"
where
  "init_virtual name si acc =
     (case acc of (ret, h) \<Rightarrow>
      (case si_virtual_sensor_info si of
         None \<Rightarrow> Inr (Next acc)
       | Some vs \<Rightarrow>
           bindE (sub_sensors_valid h (vs_linked_sensors vs) (vs_linked_sensors_type vs)) (\<lambda>linked_ok.
           if vs_backup_sensor vs \<noteq> [] \<and> \<not> isSubSensorValid h (vs_backup_sensor vs) SENSOR
           then Inr (Break (False, h))
           else
             (case (if si_is_watch si then watch_all (vs_trigger_sensors vs) h else (True, h)) of
                (trigger_ok, h1) \<Rightarrow>
                  (case watch_all (si_severity_reference si) h1 of
                     (reference_ok, h2) \<Rightarrow>
                       bindE (pause_rails name h2) (\<lambda>h3.
                       Inr (Next (ret \<and> linked_ok \<and> trigger_ok \<and> reference_ok, h3))))))))"

text \<open>The predictor of a sensor whose gains are compensated with predictions.\<close>

definition predictor_usable :: "SensorInfo \<Rightarrow> helper_state \<Rightarrow> bool result" where
  "predictor_usable si h =
     (case si_predictor_info si of
        None \<Rightarrow> Inr True
      | Some p \<Rightarrow>
          if \<not> pi_support_pid_compensation p then Inr True
          else
            (case (map_of (hp_sensor_info_map h) (pi_sensor p), map_of (hp_vt_estimators h) (pi_sensor p)) of
               (Some psi, Some vt) \<Rightarrow>
                 if si_virtual_sensor_info psi = None then Inr False
                 else bindE (GetAllPredictions vt) (\<lambda>(status, outputs).
                      Inr (status = kVtEstimatorOk
                           \<and> length (pi_prediction_weights p) = length (case outputs of None \<Rightarrow> [] | Some l \<Rightarrow> l)))
             | _ \<Rightarrow> Inr False))"

definition init_sensor ::
    "string \<Rightarrow> bool \<times> helper_state \<Rightarrow> (bool \<times> helper_state, unit) ctl result"
where
  "init_sensor name acc =
     (case acc of (ret, h0) \<Rightarrow>
      bindE (at_key (hp_sensor_info_map h0) name) (\<lambda>si0.
      let h1 = h0\<lparr>hp_sensor_status_map := put name fresh_sensor_status (hp_sensor_status_map h0)\<rparr>
      in bindE (init_throttling name si0 h1) (\<lambda>(ok, h2).
         if \<not> ok then Inr (Break (False, h2))
         else
           bindE (at_key (hp_sensor_info_map h2) name) (\<lambda>si.
           bindE (init_virtual name si (ret, h2)) (\<lambda>c.
           case c of
             Next (ret', h3) \<Rightarrow>
               bindE (predictor_usable si h3) (\<lambda>usable.
               Inr (if usable then Next (ret', h3) else Break (False, h3)))
           | _ \<Rightarrow> Inr c)))))"

definition init_sensors :: "bool \<Rightarrow> helper_state \<Rightarrow> (bool \<times> helper_state) result" where
  "init_sensors ret h =
     bindE (loopE init_sensor (map fst (hp_sensor_info_map h)) (ret, h)) (\<lambda>c. Inr (ctl_state c))"

end
