(* ===== verification/HelperWatch.thy ===== *)
theory HelperWatch
  imports HelperInit PowerRails StatsHelper ThermalTypes
begin

text \<open>
  \<open>ThermalHelperImpl::thermalWatcherCallbackFunc\<close>, which the watcher thread runs on every event and
  poll (aidl/thermal/thermal-helper.cpp), and the constructor.
\<close>

section \<open>When a sensor is updated\<close>

definition apply_uevent :: "int \<Rightarrow> string \<times> flt \<Rightarrow> helper_state \<Rightarrow> helper_state" where
  "apply_uevent now p h =
     (if isnan (snd p) then h
      else
        let s = (case map_of (hp_sensor_status_map h) (fst p) of None \<Rightarrow> zero_sensor_status | Some s \<Rightarrow> s)
        in h\<lparr>hp_sensor_status_map := put (fst p)
               (s\<lparr>sn_thermal_cached := \<lparr>sa_temp = snd p, sa_timestamp = now\<rparr>\<rparr>) (hp_sensor_status_map h)\<rparr>)"

definition own_sleep :: "SensorInfo \<Rightarrow> severity \<Rightarrow> int" where
  "own_sleep si sev = (if sev \<noteq> NONE then si_passive_delay si else si_polling_delay si)"

text \<open>A throttled trigger sensor makes the sensor poll at its passive delay.\<close>

fun trigger_throttled :: "SensorStatus smap \<Rightarrow> string list \<Rightarrow> bool result" where
  "trigger_throttled statuses [] = Inr False"
| "trigger_throttled statuses (t # ts) =
     bindE (at_key statuses t) (\<lambda>s.
     if sn_severity s \<noteq> NONE then Inr True else trigger_throttled statuses ts)"

definition trigger_sensors :: "SensorInfo \<Rightarrow> string list" where
  "trigger_sensors si = (case si_virtual_sensor_info si of None \<Rightarrow> [] | Some vs \<Rightarrow> vs_trigger_sensors vs)"

definition sleep_of :: "SensorStatus smap \<Rightarrow> SensorInfo \<Rightarrow> severity \<Rightarrow> int result" where
  "sleep_of statuses si sev =
     bindE (trigger_throttled statuses (trigger_sensors si)) (\<lambda>b.
     Inr (if b then si_passive_delay si else own_sleep si sev))"

text \<open>
  Whether an update is forced, whether the cache is bypassed, and the time since the last update.
\<close>

definition update_due ::
    "int \<Rightarrow> flt smap \<Rightarrow> string \<Rightarrow> SensorInfo \<Rightarrow> SensorStatus \<Rightarrow> int \<Rightarrow> bool \<times> bool \<times> int"
where
  "update_due now uevents name si s sleep_ms =
     (if sn_last_update_time s = TIME_MIN then (True, False, 0)
      else
        let elapsed = since_ms now (sn_last_update_time s)
        in if uevents \<noteq> [] then
             (if si_virtual_sensor_info si \<noteq> None
              then (\<exists>t \<in> set (trigger_sensors si). has uevents t, False, elapsed)
              else case map_of uevents name of
                None \<Rightarrow> (False, False, elapsed)
              | Some t \<Rightarrow> (True, isnan t, elapsed))
           else (sleep_ms < elapsed, False, elapsed))"

section \<open>One sensor\<close>

record watch_state =
  wa_helper :: helper_state
  wa_temps :: "Temperature list"
  wa_cdevs :: "string list"
  wa_min_sleep :: int
  wa_power_updated :: bool
  wa_shutdown :: bool

definition switch_rails :: "string \<Rightarrow> bool \<Rightarrow> helper_state \<Rightarrow> helper_state result" where
  "switch_rails name enabled h =
     (case map_of (hp_power_rail_switch_map h) name of
        None \<Rightarrow> Inr h
      | Some rails \<Rightarrow>
          bindE (foldE (\<lambda>r. powerSamplingSwitch r enabled) rails (hp_power_files h)) (\<lambda>pf.
          Inr (h\<lparr>hp_power_files := pf\<rparr>)))"

definition notify_change ::
    "string \<Rightarrow> SensorInfo \<Rightarrow> Temperature \<Rightarrow> int \<Rightarrow> watch_state \<Rightarrow> (int \<times> watch_state) result"
where
  "notify_change name si t sleep_ms w =
     bindE (at_key (hp_sensor_status_map (wa_helper w)) name) (\<lambda>s.
     if \<not> sn_pending_notification s then Inr (sleep_ms, w)
     else
       bindE (switch_rails name (sn_severity s \<noteq> NONE)
                (set_status name (\<lambda>s. s\<lparr>sn_pending_notification := False\<rparr>) (wa_helper w))) (\<lambda>h.
       Inr (own_sleep si (sn_severity s), w\<lparr>wa_helper := h, wa_temps := wa_temps w @ [t]\<rparr>)))"

definition refresh_power :: "'j helper_env \<Rightarrow> watch_state \<Rightarrow> watch_state result" where
  "refresh_power env w =
     (if wa_power_updated w then Inr w
      else bindE (refreshPowerStatus (he_now env) (he_files env) (hp_power_files (wa_helper w))) (\<lambda>(ok, pf).
           Inr (w\<lparr>wa_helper := (wa_helper w)\<lparr>hp_power_files := pf\<rparr>, wa_power_updated := True\<rparr>)))"

text \<open>The requests of the sensor are cleared at \<open>NONE\<close> and computed otherwise.\<close>

definition throttle ::
    "'j helper_env \<Rightarrow> string \<Rightarrow> SensorInfo \<Rightarrow> Temperature \<Rightarrow> severity \<Rightarrow> int \<Rightarrow> bool \<Rightarrow> helper_state \<Rightarrow> helper_state result"
where
  "throttle env name si t sev elapsed max_throttling h =
     (if sev = NONE then Inr (h\<lparr>hp_throttling := clearThrottlingData name (hp_throttling h)\<rparr>)
      else
        bindE (case si_predictor_info si of
                 None \<Rightarrow> Inr []
               | Some p \<Rightarrow>
                   if pi_support_pid_compensation p
                   then bindE (readTemperaturePredictions name h) (\<lambda>(ok, ps). Inr ps)
                   else Inr []) (\<lambda>predictions.
        bindE (thermalThrottlingUpdate (he_get_property env) t si sev elapsed
                 (pf_power_status (hp_power_files h)) (hp_cdev_info_map h) max_throttling predictions
                 (hp_throttling h)) (\<lambda>th.
        Inr (h\<lparr>hp_throttling := th\<rparr>))))"

definition request_stats :: "int \<Rightarrow> string \<Rightarrow> string \<Rightarrow> int \<Rightarrow> stats_state result \<Rightarrow> stats_state result" where
  "request_stats now sensor cdev v st = bindE st (updateSensorCdevRequestStats now sensor cdev v)"

definition compute_requests ::
    "'j helper_env \<Rightarrow> string \<Rightarrow> SensorInfo \<Rightarrow> severity \<Rightarrow> watch_state \<Rightarrow> watch_state result"
where
  "compute_requests env name si sev w =
     (let h = wa_helper w
      in case si_throttling_info si of
           None \<Rightarrow> if has (th_status_map (hp_throttling h)) name then Inl UB else Inr w
         | Some info \<Rightarrow>
             bindE (computeCoolingDevicesRequest (request_stats (he_now env)) name info sev (wa_cdevs w)
                      (Inr (hp_stats h)) (hp_throttling h)) (\<lambda>(th, cdevs, st).
             bindE st (\<lambda>stats.
             Inr (w\<lparr>wa_helper := h\<lparr>hp_throttling := th, hp_stats := stats\<rparr>, wa_cdevs := cdevs\<rparr>))))"

text \<open>
  An update that is due: read, notify, refresh the rails once, throttle, aggregate. \<open>min_sleep_ms\<close>
  and \<open>last_update_time\<close> change only when the temperature could be read.
\<close>

definition update_sensor ::
    "nat \<Rightarrow> nat \<Rightarrow> 'j helper_env \<Rightarrow> string \<Rightarrow> SensorInfo \<Rightarrow> bool \<Rightarrow> int \<Rightarrow> int \<Rightarrow> bool \<Rightarrow> watch_state \<Rightarrow> watch_state result"
where
  "update_sensor fuel n env name si force_no_cache elapsed sleep0 max_throttling w0 =
     bindE (readTemperature fuel n env name force_no_cache (wa_helper w0)) (\<lambda>(ret, t, h1).
     let w1 = w0\<lparr>wa_helper := h1\<rparr>
     in if ret \<noteq> OKAY then Inr w1
        else
          bindE (notify_change name si t sleep0 w1) (\<lambda>(sleep_ms, w2).
          bindE (refresh_power env w2) (\<lambda>w3.
          bindE (at_key (hp_sensor_status_map (wa_helper w3)) name) (\<lambda>s.
          bindE (throttle env name si t (sn_severity s) elapsed max_throttling (wa_helper w3)) (\<lambda>h4.
          bindE (compute_requests env name si (sn_severity s)
                   (w3\<lparr>wa_helper := h4, wa_shutdown := wa_shutdown w3 \<or> sn_severity s = SHUTDOWN\<rparr>)) (\<lambda>w5.
          Inr (w5\<lparr>wa_min_sleep := min (wa_min_sleep w5) sleep_ms,
                  wa_helper := set_status name (\<lambda>s. s\<lparr>sn_last_update_time := he_now env\<rparr>) (wa_helper w5)\<rparr>)))))))"

definition watch_sensor ::
    "nat \<Rightarrow> nat \<Rightarrow> 'j helper_env \<Rightarrow> flt smap \<Rightarrow> string \<Rightarrow> watch_state \<Rightarrow> watch_state result"
where
  "watch_sensor fuel n env uevents name w =
     (let h = wa_helper w in
      bindE (at_key (hp_sensor_status_map h) name) (\<lambda>s.
      bindE (at_key (hp_sensor_info_map h) name) (\<lambda>si.
      if \<not> si_is_watch si then Inr w
      else
        bindE (sleep_of (hp_sensor_status_map h) si (sn_severity s)) (\<lambda>sleep_ms.
        case update_due (he_now env) uevents name si s sleep_ms of
          (due, force_no_cache, elapsed) \<Rightarrow>
            let pending = ov_pending_update (sn_override_status s);
                h1 = set_status name (\<lambda>s. s\<lparr>sn_override_status :=
                       (sn_override_status s)\<lparr>ov_pending_update := False\<rparr>\<rparr>) h
            in if \<not> (due \<or> pending)
               then bindE (int64 (sleep_ms - elapsed)) (\<lambda>remaining.
                    Inr (w\<lparr>wa_helper := h1, wa_min_sleep := min (wa_min_sleep w) remaining\<rparr>))
               else update_sensor fuel n env name si force_no_cache elapsed sleep_ms
                      (ov_max_throttling (sn_override_status s)) (w\<lparr>wa_helper := h1\<rparr>)))))"

section \<open>The callback\<close>

definition send_notification :: "bool \<Rightarrow> Temperature \<Rightarrow> helper_state \<Rightarrow> helper_state result" where
  "send_notification has_cb t h =
     bindE (at_key (hp_sensor_info_map h) (tp_name t)) (\<lambda>si.
     let h1 = (if si_send_cb si \<and> has_cb then h\<lparr>hp_callbacks := hp_callbacks h @ [t]\<rparr> else h)
     in Inr (if si_send_powerhint si
             then h1\<lparr>hp_power_hal_calls := hp_power_hal_calls h1 @ [ExtHint t]\<rparr> else h1))"

definition kPowerLogIntervalMs :: int where "kPowerLogIntervalMs = 60000"

definition log_power :: "int \<Rightarrow> bool \<Rightarrow> helper_state \<Rightarrow> helper_state" where
  "log_power now shutdown_severity_reached h =
     (if kPowerLogIntervalMs \<le> since_ms now (pf_prev_log_time (hp_power_files h)) \<or> shutdown_severity_reached
      then h\<lparr>hp_power_files := snd (logPowerStatus now (hp_power_files h))\<rparr> else h)"

text \<open>The sleep that is returned starts from \<open>milliseconds::max()\<close>.\<close>

definition thermalWatcherCallbackFunc ::
    "nat \<Rightarrow> nat \<Rightarrow> 'j helper_env \<Rightarrow> flt smap \<Rightarrow> helper_state \<Rightarrow> (int \<times> helper_state) result"
where
  "thermalWatcherCallbackFunc fuel n env uevents h0 =
     (let h1 = fold (apply_uevent (he_now env)) uevents h0 in
      bindE (foldE (watch_sensor fuel n env uevents) (map fst (hp_sensor_status_map h1))
               \<lparr> wa_helper = h1, wa_temps = [], wa_cdevs = [], wa_min_sleep = MS_MAX,
                 wa_power_updated = False, wa_shutdown = False \<rparr>) (\<lambda>w.
      bindE (foldE (send_notification (he_has_cb env)) (wa_temps w) (wa_helper w)) (\<lambda>h2.
      bindE (updateCoolingDevices env (wa_cdevs w) h2) (\<lambda>h3.
      bindE (reportStats (he_client env) (he_now env) (hp_stats h3)) (\<lambda>(failed, stats).
      Inr (wa_min_sleep w, log_power (he_now env) (wa_shutdown w) (h3\<lparr>hp_stats := stats\<rparr>)))))))"

section \<open>The constructor\<close>

text \<open>
  What the constructor finds on the device: the configuration (whether it was read, and the JSON
  document), the directories, the system properties, the power service and the watcher thread.
\<close>

record 'j device =
  de_config :: "bool \<times> 'j"
  de_thermal_dir :: "(string \<times> bool) list option"
  de_powercap_dir :: "string list option"
  de_iio_dir :: "string list option"
  de_disabled :: bool
  de_genl :: bool
  de_watching :: bool

definition empty_power_files :: power_files where
  "empty_power_files = \<lparr> pf_energy_info = [], pf_power_status = [], pf_rail_info = [],
     pf_energy_paths = [], pf_prev_log_time = TIME_MIN, pf_prev_energy_info = [] \<rparr>"

definition empty_helper :: helper_state where
  "empty_helper = \<lparr> hp_cdev_info_map = [], hp_sensor_info_map = [], hp_power_rail_switch_map = [],
     hp_sensor_status_map = [], hp_vt_estimators = [], hp_power_files = empty_power_files,
     hp_thermal_sensors = [], hp_cooling_devices = [],
     hp_throttling = \<lparr>th_status_map = [], th_cdev_all_request_map = []\<rparr>, hp_stats = empty_stats_state,
     hp_predictions = \<lparr>predictor_sensors = [], predicted_sensors = []\<rparr>,
     hp_callbacks = [], hp_power_hal_calls = [], hp_writes = [], hp_wakes = 0 \<rparr>"

text \<open>A parser that fails leaves an empty map and the flag \<open>False\<close>.\<close>

definition parsed_or :: "'a \<Rightarrow> 'a parse \<Rightarrow> (bool \<times> 'a) result" where
  "parsed_or d p = bindE p (\<lambda>m. Inr (case m of None \<Rightarrow> (False, d) | Some x \<Rightarrow> (True, x)))"

text \<open>The part of the constructor that reads the configuration and sysfs.\<close>

definition load_devices ::
    "'j json_ops \<Rightarrow> 'j config_env \<Rightarrow> (string \<Rightarrow> int option) \<Rightarrow> 'j helper_env \<Rightarrow> 'j device \<Rightarrow> (bool \<times> helper_state) result"
where
  "load_devices J ce cdev_type_of env dev =
     bindE (parsed_or [] (ParseCoolingDevice J cdev_type_of (snd (de_config dev)))) (\<lambda>(cdevs_ok, cdevs).
     bindE (initializeThrottlingMap (he_files env)
              (parseThermalPathMap (de_thermal_dir dev) (he_files env) ''cooling_device'')
              (parsePowerCapPathMap (de_powercap_dir dev) (he_files env)) cdevs cdevs []) (\<lambda>(map_ok, cdevs', cooling).
     bindE (parsed_or ([], []) (ParseSensorInfo J ce (snd (de_config dev)) cdevs')) (\<lambda>(sensors_ok, sensors, estimators).
     case initializeSensorMap (parseThermalPathMap (de_thermal_dir dev) (he_files env) ''thermal_zone'') sensors [] of
       (paths_ok, thermal_sensors) \<Rightarrow>
         Inr (fst (de_config dev) \<and> cdevs_ok \<and> map_ok \<and> sensors_ok \<and> paths_ok,
              empty_helper\<lparr> hp_cdev_info_map := cdevs', hp_cooling_devices := cooling,
                hp_sensor_info_map := sensors, hp_vt_estimators := estimators,
                hp_thermal_sensors := thermal_sensors \<rparr>))))"

text \<open>
  When the rails do not parse the code keeps the part of the switch map that was filled before the
  error; it is empty here. The result is false in both cases.
\<close>

definition load_rails ::
    "'j json_ops \<Rightarrow> 'j helper_env \<Rightarrow> 'j device \<Rightarrow> bool \<times> helper_state \<Rightarrow> (bool \<times> helper_state) result"
where
  "load_rails J env dev acc =
     bindE (parsed_or ([], []) (ParsePowerRailInfo J (snd (de_config dev)))) (\<lambda>(parsed, rails, switches).
     case registerPowerRailsToWatch (he_now env) (de_iio_dir dev) (he_files env) (parsed, rails)
             (hp_power_files (snd acc)) of
       (registered, pf) \<Rightarrow>
         if \<exists>p \<in> set switches. \<not> has (hp_sensor_info_map (snd acc)) (fst p) then Inl Abort
         else Inr (fst acc \<and> registered, (snd acc)\<lparr>hp_power_files := pf, hp_power_rail_switch_map := switches\<rparr>))"

definition load_stats ::
    "'j json_ops \<Rightarrow> 'j helper_env \<Rightarrow> 'j device \<Rightarrow> bool \<times> helper_state \<Rightarrow> (bool \<times> helper_state) result"
where
  "load_stats J env dev acc =
     bindE (initializePredictionSensors (hp_sensor_info_map (snd acc)) (hp_predictions (snd acc))) (\<lambda>(ok, preds).
     let ret = (fst acc \<and> ok); h = (snd acc)\<lparr>hp_predictions := preds\<rparr>
     in if \<not> ret then Inr (ret, h)
        else bindE (initializeStats J (snd (de_config dev)) (hp_sensor_info_map h) (hp_cdev_info_map h)
                      (he_now env) (hp_stats h)) (\<lambda>m.
             case m of None \<Rightarrow> Inl Abort | Some st \<Rightarrow> Inr (ret, h\<lparr>hp_stats := st\<rparr>)))"

text \<open>
  The end of the constructor, after the sensors (connecting to the power service, which has no
  effect on the state, is left out): with throttling disabled everything is cleared;
  otherwise a failure aborts, and the trip points are written before the watcher starts.
\<close>

definition start_watching ::
    "'j helper_env \<Rightarrow> 'j device \<Rightarrow> bool \<times> helper_state \<Rightarrow> (bool \<times> helper_state) result"
where
  "start_watching env dev acc =
     (if de_disabled dev then
        (if fst acc then bindE (clearAllThrottling env (snd acc)) (\<lambda>h. Inr (True, h))
         else Inr (False, (snd acc)\<lparr>hp_sensor_info_map := [], hp_cdev_info_map := []\<rparr>))
      else if \<not> fst acc then Inl Abort
      else
        bindE (initializeTrip env (parseThermalPathMap (de_thermal_dir dev) (he_files env) ''thermal_zone'')
                 (de_genl dev) (snd acc)) (\<lambda>(h, monitored).
        if de_watching dev then Inr (True, h) else Inl Abort))"

definition ThermalHelperImpl ::
    "'j json_ops \<Rightarrow> 'j config_env \<Rightarrow> (string \<Rightarrow> int option) \<Rightarrow> 'j helper_env \<Rightarrow> 'j device \<Rightarrow> (bool \<times> helper_state) result"
where
  "ThermalHelperImpl J ce cdev_type_of env dev =
     bindE (load_devices J ce cdev_type_of env dev) (\<lambda>a1.
     bindE (load_rails J env dev a1) (\<lambda>a2.
     bindE (load_stats J env dev a2) (\<lambda>a3.
     bindE (init_sensors (fst a3) (snd a3)) (start_watching env dev))))"

section \<open>A concrete helper\<close>

text \<open>
  Concrete helpers for the instances: the physical sensor \<open>cpu\<close>, whose file can be read or not, and
  the watched virtual sensor \<open>skin\<close>, half of it.
\<close>

definition ex_virtual :: "string list \<Rightarrow> VirtualSensorInfo" where
  "ex_virtual linked = \<lparr> vs_linked_sensors = linked, vs_linked_sensors_type = map (\<lambda>_. SENSOR) linked,
     vs_coefficients = map (\<lambda>_. ''0.5'') linked, vs_coefficients_type = map (\<lambda>_. CONSTANT) linked,
     vs_offset = Fin 0, vs_trigger_sensors = [], vs_formula = WEIGHTED_AVG, vs_backup_sensor = [] \<rparr>"

definition ex_skin :: "string list \<Rightarrow> SensorInfo" where
  "ex_skin linked = (ex_sensor ex_info)\<lparr>si_virtual_sensor_info := Some (ex_virtual linked), si_throttling_info := None\<rparr>"

definition ex_cpu :: SensorInfo where
  "ex_cpu = (ex_sensor ex_info)\<lparr>si_throttling_info := None\<rparr>"

definition ex_helper_of :: "SensorInfo smap \<Rightarrow> helper_state" where
  "ex_helper_of sensors = empty_helper\<lparr> hp_sensor_info_map := sensors,
     hp_sensor_status_map := map (\<lambda>p. (fst p, fresh_sensor_status)) sensors,
     hp_thermal_sensors := [(''cpu'', ''/cpu'')] \<rparr>"

definition ex_helper :: helper_state where
  "ex_helper = ex_helper_of [(''cpu'', ex_cpu), (''skin'', ex_skin [''cpu''])]"

text \<open>A helper with the sensor \<open>cpu\<close> only, emulated at 0 degrees.\<close>

definition ex_emulated :: "SensorInfo \<Rightarrow> helper_state" where
  "ex_emulated si = (ex_helper_of [(''cpu'', si)])\<lparr> hp_sensor_status_map :=
     [(''cpu'', override (Some \<lparr>em_temp = Fin 0, em_severity = - 1\<rparr>) False fresh_sensor_status)] \<rparr>"

text \<open>Two virtual sensors that are linked to each other.\<close>

definition ex_cyclic :: helper_state where
  "ex_cyclic = ex_helper_of [(''a'', ex_skin [''b'']), (''b'', ex_skin [''a''])]"

definition ex_wrapper_env :: "string \<Rightarrow> unit tflite_wrapper" where
  "ex_wrapper_env = (\<lambda>_. \<lparr> wr_linked = False, wr_created = False, wr_init_failed = (\<lambda>_. True),
     wr_input_config = None, wr_invoke = (\<lambda>_ _. (True, [])) \<rparr>)"

definition ex_helper_env :: "unit helper_env" where
  "ex_helper_env = \<lparr> he_files = (\<lambda>p. if p = ''/cpu'' then Some ''45'' else None), he_writes = (\<lambda>_ _. True),
     he_client = None, he_wrapper = ex_wrapper_env, he_get_property = (\<lambda>_. []), he_has_cb = True,
     he_garbage = Fin 0, he_now = 1000000000, he_wall = 0 \<rparr>"

lemmas ex_helper_defs = ex_virtual_def ex_skin_def ex_cpu_def ex_helper_of_def ex_emulated_def override_def ex_helper_def ex_cyclic_def
  ex_wrapper_env_def ex_helper_env_def empty_helper_def fresh_sensor_status_def

end
