(* ===== verification/HelperClaims.thy ===== *)
theory HelperClaims
  imports HelperReading HelperWatch
begin

text \<open>Reading and emulating sensors: the properties.\<close>

section \<open>Reading ends\<close>

text \<open>
  C2: Reading a temperature returns for every configuration whose links between sensors and whose
  severity references are acyclic: with a rank that falls along the links and one that falls along
  the references, fuel above the ranks gives a result, and more fuel gives the same one.
\<close>

theorem readTemperature_terminates:
  assumes "links_fall rank (hp_sensor_info_map h)" and "references_fall rank' (hp_sensor_info_map h)"
    and "\<forall>s. rank s < fuel" and "rank' name < n"
  shows "readTemperature fuel n env name b h \<noteq> Inl Diverges
    \<and> (\<forall>fuel' n'. fuel \<le> fuel' \<longrightarrow> n \<le> n' \<longrightarrow>
          readTemperature fuel' n' env name b h = readTemperature fuel n env name b h)"
proof (intro conjI allI impI)
  show "readTemperature fuel n env name b h \<noteq> Inl Diverges"
    using settles_readTemperature [OF assms(1,2,3,3,4,4)] by (simp add: settles_def ends_def)
  fix fuel' n'
  assume le: "fuel \<le> fuel'" "n \<le> n'"
  have more: "\<forall>s. rank s < fuel'" "rank' name < n'" using assms(3,4) le by (auto intro: less_le_trans)
  show "readTemperature fuel' n' env name b h = readTemperature fuel n env name b h"
    using settles_readTemperature [OF assms(1-3) more(1) assms(4) more(2), of env b] by (simp add: settles_def)
qed

theorem readTemperature_terminates_witness:
  "readTemperature 2 1 ex_helper_env ''skin'' False ex_helper \<noteq> Inl Diverges
    \<and> readTemperature 9 7 ex_helper_env ''skin'' False ex_helper = readTemperature 2 1 ex_helper_env ''skin'' False ex_helper"
proof -
  have "links_fall (\<lambda>s. if s = ''skin'' then 1 else 0) (hp_sensor_info_map ex_helper)"
    and "references_fall (\<lambda>_. 0) (hp_sensor_info_map ex_helper)"
    by (simp_all add: ex_helper_defs ex_sensor_def links_fall_def references_fall_def links_def sensors_among_def)
  from readTemperature_terminates [OF this, where fuel = 2 and name = "''skin''" and n = 1 and env = ex_helper_env and b = False] show ?thesis by simp
qed

text \<open>A sensor of \<open>C\<close> is not emulated, has nothing in its cache and reads a sensor of \<open>C\<close> first.\<close>

definition reads_again :: "'j helper_env \<Rightarrow> helper_state \<Rightarrow> string set \<Rightarrow> string \<Rightarrow> bool" where
  "reads_again env h C c \<longleftrightarrow>
     (case (map_of (hp_sensor_info_map h) c, map_of (hp_sensor_status_map h) c) of
        (Some si, Some s) \<Rightarrow>
          ov_emul_temp (sn_override_status s) = None \<and> \<not> cache_fresh (he_now env) si (sn_thermal_cached s)
          \<and> (case si_virtual_sensor_info si of
               None \<Rightarrow> False
             | Some vs \<Rightarrow>
                 (case (vs_linked_sensors vs, vs_linked_sensors_type vs) of
                    (n # _, t # _) \<Rightarrow> n \<in> C \<and> t = SENSOR
                  | _ \<Rightarrow> False))
      | _ \<Rightarrow> False)"

text \<open>
  When each of a set of virtual sensors reads one of them first, no amount of fuel gives a result.
\<close>

lemma first_link_diverges:
  assumes "\<forall>c \<in> C. reads_again env h C c" and "c \<in> C"
  shows "readThermalSensor fuel env c b temp log h = Inl Diverges"
  using assms(2)
proof (induction fuel arbitrary: c temp log)
  case 0
  then show ?case by simp
next
  case (Suc fuel)
  have "reads_again env h C c" using assms(1) Suc.prems by blast
  then obtain si s vs n ns ts where
    si: "map_of (hp_sensor_info_map h) c = Some si" "map_of (hp_sensor_status_map h) c = Some s"
      "ov_emul_temp (sn_override_status s) = None" "\<not> cache_fresh (he_now env) si (sn_thermal_cached s)"
      "si_virtual_sensor_info si = Some vs" "vs_linked_sensors vs = n # ns"
      "vs_linked_sensors_type vs = SENSOR # ts" "n \<in> C"
    by (auto simp: reads_again_def split: option.splits list.splits)
  show ?case
    by (simp add: read_sensor_with_def read_virtual_def readDataByType_def si Suc.IH [OF si(8)])
qed

end
