(* ===== verification/HelperTimes.thy ===== *)
theory HelperTimes
  imports HelperFrame HelperWatch
begin

text \<open>
  How long the watcher sleeps: what one round does to the times of the last updates and to the
  sleep it asks for.
\<close>

section \<open>The times of the last updates\<close>

definition last_update :: "helper_state \<Rightarrow> string \<Rightarrow> int option" where
  "last_update h name = map_option sn_last_update_time (map_of (hp_sensor_status_map h) name)"

definition override_of :: "helper_state \<Rightarrow> string \<Rightarrow> OverrideStatus option" where
  "override_of h name = map_option sn_override_status (map_of (hp_sensor_status_map h) name)"

text \<open>Whether a sensor is marked for the next round, and what it is emulated to be.\<close>

definition pending :: "helper_state \<Rightarrow> string \<Rightarrow> bool" where
  "pending h n \<longleftrightarrow> (case map_of (hp_sensor_status_map h) n of
     None \<Rightarrow> False | Some s \<Rightarrow> ov_pending_update (sn_override_status s))"

definition emulated :: "helper_state \<Rightarrow> string \<Rightarrow> EmulTemp option option" where
  "emulated h n = map_option (\<lambda>s. ov_emul_temp (sn_override_status s)) (map_of (hp_sensor_status_map h) n)"

lemma override_views:
  "pending h n \<longleftrightarrow> (\<exists>ov. override_of h n = Some ov \<and> ov_pending_update ov)"
  "emulated h n = map_option ov_emul_temp (override_of h n)"
  by (auto simp: pending_def emulated_def override_of_def option.map_comp o_def split: option.splits)

text \<open>Nothing that decides when a sensor is updated has changed.\<close>

definition same_times :: "helper_state \<Rightarrow> helper_state \<Rightarrow> bool" where
  "same_times h h' \<longleftrightarrow> hp_sensor_info_map h' = hp_sensor_info_map h \<and> last_update h' = last_update h
     \<and> override_of h' = override_of h"

lemma same_times_refl [simp]: "same_times h h"
  by (simp add: same_times_def)

lemma same_times_trans [trans]: "same_times h h' \<Longrightarrow> same_times h' h'' \<Longrightarrow> same_times h h''"
  by (simp add: same_times_def)

lemma same_times_kept: "kept h' = kept h \<Longrightarrow> same_times h h'"
proof -
  assume k: "kept h' = kept h"
  have "last_update h' n = last_update h n \<and> override_of h' n = override_of h n" for n
    using kept_status [OF k, of n]
    by (auto simp: last_update_def override_of_def status_kept_def map_option_case split: option.splits)
  then show ?thesis using kept_info [OF k] by (auto simp: same_times_def)
qed

lemma same_times_fields [simp]:
  "same_times h (h\<lparr>hp_power_files := pf\<rparr>)" "same_times h (h\<lparr>hp_throttling := th\<rparr>)"
  "same_times h (h\<lparr>hp_stats := st\<rparr>)" "same_times h (h\<lparr>hp_throttling := th, hp_stats := st\<rparr>)"
  "same_times h (h\<lparr>hp_writes := ws\<rparr>)" "same_times h (h\<lparr>hp_callbacks := cs\<rparr>)"
  "same_times h (h\<lparr>hp_power_hal_calls := pc\<rparr>)"
  "same_times h (h\<lparr>hp_callbacks := cs, hp_power_hal_calls := pc\<rparr>)"
  by (simp_all add: same_times_def last_update_def override_of_def fun_eq_iff)

lemma same_times_set_status:
  "(\<And>s. sn_last_update_time (f s) = sn_last_update_time s) \<Longrightarrow> (\<And>s. sn_override_status (f s) = sn_override_status s) \<Longrightarrow>
     same_times h (set_status n f h)"
  by (auto simp: same_times_def set_status_def last_update_def override_of_def fun_eq_iff split: option.split)

text \<open>The update that is pending is cleared when the sensor is looked at.\<close>

definition clear_pending :: "string \<Rightarrow> helper_state \<Rightarrow> helper_state" where
  "clear_pending name = set_status name (\<lambda>s. s\<lparr>sn_override_status := (sn_override_status s)\<lparr>ov_pending_update := False\<rparr>\<rparr>)"

lemma clear_pending_times:
  "hp_sensor_info_map (clear_pending m h) = hp_sensor_info_map h" "last_update (clear_pending m h) = last_update h"
  "override_of (clear_pending m h) t
     = (if t = m then map_option (\<lambda>ov. ov\<lparr>ov_pending_update := False\<rparr>) (override_of h t) else override_of h t)"
  by (auto simp: clear_pending_def set_status_def last_update_def override_of_def fun_eq_iff split: option.split)

section \<open>The steps of an update\<close>

lemma switch_rails_times: "switch_rails name b h = Inr h' \<Longrightarrow> same_times h h'"
  by (auto simp: switch_rails_def split: option.splits)

lemma notify_change_times:
  assumes "notify_change name si t sleep w = Inr (sl, w')"
  shows "same_times (wa_helper w) (wa_helper w') \<and> wa_min_sleep w' = wa_min_sleep w
     \<and> sl \<in> {sleep, si_passive_delay si, si_polling_delay si}"
proof -
  let ?h = "set_status name (\<lambda>s. s\<lparr>sn_pending_notification := False\<rparr>) (wa_helper w)"
  have "same_times (wa_helper w) ?h" by (rule same_times_set_status) simp_all
  then have "same_times (wa_helper w) h'" if "switch_rails name b ?h = Inr h'" for b h'
    by (rule same_times_trans) (rule switch_rails_times [OF that])
  then show ?thesis
    using assms unfolding notify_change_def by (auto split: if_splits simp: own_sleep_def)
qed

lemma refresh_power_times:
  "refresh_power env w = Inr w' \<Longrightarrow>
     same_times (wa_helper w) (wa_helper w') \<and> wa_min_sleep w' = wa_min_sleep w"
  by (auto simp: refresh_power_def split: if_splits)

lemma throttle_times: "throttle env name si t sev elapsed mt h = Inr h' \<Longrightarrow> same_times h h'"
  by (auto simp: throttle_def split: if_splits)

lemma compute_requests_times:
  "compute_requests env name si sev w = Inr w' \<Longrightarrow>
     same_times (wa_helper w) (wa_helper w') \<and> wa_min_sleep w' = wa_min_sleep w"
  by (auto simp: compute_requests_def Let_def split: option.splits if_splits)

text \<open>An update that cannot read the sensor changes nothing here; one that can bounds the sleep.\<close>

lemma update_sensor_times:
  assumes "update_sensor fuel n env name si b elapsed sleep mt w0 = Inr w"
  shows "same_times (wa_helper w0) (wa_helper w) \<and> wa_min_sleep w = wa_min_sleep w0
         \<and> (\<exists>ret t h1. readTemperature fuel n env name b (wa_helper w0) = Inr (ret, t, h1) \<and> ret \<noteq> OKAY)
     \<or> (\<exists>h1 sl. same_times (wa_helper w0) h1
          \<and> wa_helper w = set_status name (\<lambda>s. s\<lparr>sn_last_update_time := he_now env\<rparr>) h1
          \<and> wa_min_sleep w = min (wa_min_sleep w0) sl
          \<and> sl \<in> {sleep, si_passive_delay si, si_polling_delay si})"
proof -
  obtain ret t h1 where rd: "readTemperature fuel n env name b (wa_helper w0) = Inr (ret, t, h1)"
    using assms unfolding update_sensor_def by auto
  have k1: "same_times (wa_helper w0) h1" using readTemperature_kept [OF rd] by (auto intro: same_times_kept)
  let ?w1 = "w0\<lparr>wa_helper := h1\<rparr>"
  show ?thesis
  proof (cases "ret = OKAY")
    case False
    then have "w = ?w1" using assms rd by (auto simp: update_sensor_def)
    then show ?thesis using k1 rd False by auto
  next
    case True
    obtain sl w2 w3 s h4 w5 where
      st: "notify_change name si t sleep ?w1 = Inr (sl, w2)" "refresh_power env w2 = Inr w3"
        "at_key (hp_sensor_status_map (wa_helper w3)) name = Inr s"
        "throttle env name si t (sn_severity s) elapsed mt (wa_helper w3) = Inr h4"
        "compute_requests env name si (sn_severity s)
           (w3\<lparr>wa_helper := h4, wa_shutdown := wa_shutdown w3 \<or> sn_severity s = SHUTDOWN\<rparr>) = Inr w5"
        "w = w5\<lparr>wa_min_sleep := min (wa_min_sleep w5) sl,
           wa_helper := set_status name (\<lambda>s. s\<lparr>sn_last_update_time := he_now env\<rparr>) (wa_helper w5)\<rparr>"
      using assms rd True unfolding update_sensor_def Let_def by auto
    have "same_times (wa_helper w0) (wa_helper w5)" and "wa_min_sleep w5 = wa_min_sleep w0"
      using k1 notify_change_times [OF st(1)] refresh_power_times [OF st(2)] throttle_times [OF st(4)]
        compute_requests_times [OF st(5)] by (auto simp: same_times_def)
    then show ?thesis using st(6) notify_change_times [OF st(1)] by auto
  qed
qed

lemma sleep_of_cases:
  "sleep_of statuses si sev = Inr sl \<Longrightarrow> sl \<in> {si_passive_delay si, si_polling_delay si}"
  by (auto simp: sleep_of_def own_sleep_def split: if_splits)

lemma last_update_set_now:
  "last_update (set_status n (\<lambda>s. s\<lparr>sn_last_update_time := now\<rparr>) h) m
     = (if m = n then map_option (\<lambda>_. now) (last_update h n) else last_update h m)"
  "override_of (set_status n (\<lambda>s. s\<lparr>sn_last_update_time := now\<rparr>) h) = override_of h"
  by (auto simp: last_update_def override_of_def fun_eq_iff set_status_def split: option.split)

section \<open>One sensor in a round\<close>

text \<open>
  What a step of the round does: it touches the sensor it is about only, clears its mark, and updates it
  if it was marked or is due, unless its temperature cannot be read.
\<close>

definition not_read :: "nat \<Rightarrow> nat \<Rightarrow> 'j helper_env \<Rightarrow> string \<Rightarrow> helper_state \<Rightarrow> bool" where
  "not_read fuel n env name h \<longleftrightarrow>
     (\<exists>b ret t h1. readTemperature fuel n env name b h = Inr (ret, t, h1) \<and> ret \<noteq> OKAY)"

lemma watch_sensor_effect:
  assumes "watch_sensor fuel n env uevents m w = Inr w'"
  obtains s si where "map_of (hp_sensor_status_map (wa_helper w)) m = Some s"
    "map_of (hp_sensor_info_map (wa_helper w)) m = Some si" "\<not> si_is_watch si" "w' = w"
  | s si due force elapsed sl where "map_of (hp_sensor_status_map (wa_helper w)) m = Some s"
    "map_of (hp_sensor_info_map (wa_helper w)) m = Some si" "si_is_watch si"
    "sl \<in> {si_passive_delay si, si_polling_delay si}"
    "update_due (he_now env) uevents m si s sl = (due, force, elapsed)"
    "\<not> (due \<or> ov_pending_update (sn_override_status s))" "wa_helper w' = clear_pending m (wa_helper w)"
    "wa_min_sleep w' = min (wa_min_sleep w) (sl - elapsed)"
  | s si due force elapsed sl where "map_of (hp_sensor_status_map (wa_helper w)) m = Some s"
    "map_of (hp_sensor_info_map (wa_helper w)) m = Some si" "si_is_watch si"
    "sl \<in> {si_passive_delay si, si_polling_delay si}"
    "update_due (he_now env) uevents m si s sl = (due, force, elapsed)"
    "same_times (clear_pending m (wa_helper w)) (wa_helper w')" "wa_min_sleep w' = wa_min_sleep w"
    "not_read fuel n env m (clear_pending m (wa_helper w))"
  | s si due force elapsed sl h1 sl' where "map_of (hp_sensor_status_map (wa_helper w)) m = Some s"
    "map_of (hp_sensor_info_map (wa_helper w)) m = Some si" "si_is_watch si"
    "sl \<in> {si_passive_delay si, si_polling_delay si}"
    "update_due (he_now env) uevents m si s sl = (due, force, elapsed)"
    "same_times (clear_pending m (wa_helper w)) h1"
    "wa_helper w' = set_status m (\<lambda>s. s\<lparr>sn_last_update_time := he_now env\<rparr>) h1"
    "wa_min_sleep w' = min (wa_min_sleep w) sl'" "sl' \<in> {si_passive_delay si, si_polling_delay si}"
proof -
  obtain s where s: "map_of (hp_sensor_status_map (wa_helper w)) m = Some s"
    using assms by (cases "map_of (hp_sensor_status_map (wa_helper w)) m") (simp_all add: watch_sensor_def at_key_def)
  obtain si where si: "map_of (hp_sensor_info_map (wa_helper w)) m = Some si"
    using assms s by (cases "map_of (hp_sensor_info_map (wa_helper w)) m") (simp_all add: watch_sensor_def at_key_def)
  show ?thesis
  proof (cases "si_is_watch si")
    case False
    then have "w' = w" using assms s si by (simp add: watch_sensor_def)
    then show ?thesis by (rule that(1) [OF s si False])
  next
    case True
    obtain sl where sl: "sleep_of (hp_sensor_status_map (wa_helper w)) si (sn_severity s) = Inr sl"
      using assms s si True
      by (cases "sleep_of (hp_sensor_status_map (wa_helper w)) si (sn_severity s)") (simp_all add: watch_sensor_def)
    note sl' = sleep_of_cases [OF sl]
    obtain due force elapsed where d: "update_due (he_now env) uevents m si s sl = (due, force, elapsed)"
      by (cases "update_due (he_now env) uevents m si s sl")
    show ?thesis
    proof (cases "due \<or> ov_pending_update (sn_override_status s)")
      case False
      then have "wa_helper w' = clear_pending m (wa_helper w)" "wa_min_sleep w' = min (wa_min_sleep w) (sl - elapsed)"
        using assms s si True sl d by (auto simp: watch_sensor_def clear_pending_def int64_def split: if_splits)
      then show ?thesis by (rule that(2) [OF s si True sl' d False])
    next
      case due: True
      let ?w1 = "w\<lparr>wa_helper := clear_pending m (wa_helper w)\<rparr>"
      have u: "update_sensor fuel n env m si force elapsed sl (ov_max_throttling (sn_override_status s)) ?w1 = Inr w'"
        using assms s si True sl d due by (auto simp: watch_sensor_def clear_pending_def)
      show ?thesis
        using update_sensor_times [OF u]
      proof (elim disjE exE conjE)
        fix ret t h1
        assume a: "same_times (wa_helper ?w1) (wa_helper w')" "wa_min_sleep w' = wa_min_sleep ?w1"
          "readTemperature fuel n env m force (wa_helper ?w1) = Inr (ret, t, h1)" "ret \<noteq> OKAY"
        have "not_read fuel n env m (clear_pending m (wa_helper w))"
          using a(3,4) unfolding not_read_def by (intro exI conjI) (simp_all del: readTemperature.simps)
        then show ?thesis using a(1,2) by (intro that(3) [OF s si True sl' d]) simp_all
      next
        fix h1 slp
        assume a: "same_times (wa_helper ?w1) h1"
          "wa_helper w' = set_status m (\<lambda>s. s\<lparr>sn_last_update_time := he_now env\<rparr>) h1"
          "wa_min_sleep w' = min (wa_min_sleep ?w1) slp" "slp \<in> {sl, si_passive_delay si, si_polling_delay si}"
        then have "wa_min_sleep w' = min (wa_min_sleep w) slp" "slp \<in> {si_passive_delay si, si_polling_delay si}"
          using sl' by auto
        then show ?thesis using a(1,2) by (intro that(4) [OF s si True sl' d, of h1 slp]) simp_all
      qed
    qed
  qed
qed

section \<open>One round\<close>

text \<open>
  The state of the round: the configuration is \<open>info\<close>, and if the time of \<open>name\<close>, which was \<open>t0\<close>, has
  become \<open>now\<close>, the sleep is bounded by the delays of the sensor.
\<close>

definition bounded_sleep :: "SensorInfo smap \<Rightarrow> int \<Rightarrow> string \<Rightarrow> int \<Rightarrow> watch_state \<Rightarrow> bool" where
  "bounded_sleep info now name t0 w \<longleftrightarrow> hp_sensor_info_map (wa_helper w) = info
     \<and> (last_update (wa_helper w) name = Some t0
        \<or> (\<exists>si. map_of info name = Some si \<and> wa_min_sleep w \<le> max (si_passive_delay si) (si_polling_delay si)))"

lemma bounded_sleep_watch_sensor:
  assumes "bounded_sleep info (he_now env) name t0 w" and "watch_sensor fuel n env uevents m w = Inr w'"
  shows "bounded_sleep info (he_now env) name t0 w'"
  using assms(2)
proof (cases rule: watch_sensor_effect)
  case 1
  then show ?thesis using assms(1) by simp
next
  case (2 s si due force elapsed sl)
  then have "wa_min_sleep w' \<le> wa_min_sleep w" by simp
  then show ?thesis using 2(7) assms(1) order_trans by (fastforce simp: bounded_sleep_def clear_pending_times)
next
  case 3
  then show ?thesis using assms(1) by (simp add: bounded_sleep_def same_times_def clear_pending_times)
next
  case 4
  then show ?thesis using assms(1)
    by (cases "m = name") (auto simp: bounded_sleep_def same_times_def last_update_set_now clear_pending_times)
qed

lemma apply_uevents_times:
  assumes "last_update h name = Some t0"
  shows "last_update (fold (apply_uevent now) us h) name = Some t0
     \<and> hp_sensor_info_map (fold (apply_uevent now) us h) = hp_sensor_info_map h"
  using assms
proof (induction us arbitrary: h)
  case Nil
  then show ?case by simp
next
  case (Cons u us)
  have "last_update (apply_uevent now u h) name = Some t0"
      "hp_sensor_info_map (apply_uevent now u h) = hp_sensor_info_map h"
    using Cons.prems by (auto simp: apply_uevent_def last_update_def Let_def split: option.splits)
  then show ?case using Cons.IH by simp
qed

lemma apply_uevents_status:
  assumes "map_of (hp_sensor_status_map h) name = Some s"
  shows "\<exists>s'. map_of (hp_sensor_status_map (fold (apply_uevent now) us h)) name = Some s'
     \<and> sn_last_update_time s' = sn_last_update_time s \<and> sn_override_status s' = sn_override_status s"
  using assms
proof (induction us arbitrary: h s)
  case Nil
  then show ?case by simp
next
  case (Cons u us)
  have "\<exists>s'. map_of (hp_sensor_status_map (apply_uevent now u h)) name = Some s'
      \<and> sn_last_update_time s' = sn_last_update_time s \<and> sn_override_status s' = sn_override_status s"
    using Cons.prems by (auto simp: apply_uevent_def Let_def)
  then obtain s' where s': "map_of (hp_sensor_status_map (apply_uevent now u h)) name = Some s'"
      "sn_last_update_time s' = sn_last_update_time s" "sn_override_status s' = sn_override_status s" by blast
  show ?case using Cons.IH [OF s'(1)] s'(2,3) by simp
qed

lemma foldE_same_times:
  assumes "foldE f xs h = Inr h'" and "\<And>x h h'. f x h = Inr h' \<Longrightarrow> same_times h h'"
  shows "same_times h h'"
  by (rule foldE_inv [OF assms(1), of "same_times h"]) (auto intro: same_times_trans assms(2))

lemma send_notification_times: "send_notification b t h = Inr h' \<Longrightarrow> same_times h h'"
  by (auto simp: send_notification_def Let_def split: if_splits)

lemma write_cdev_times: "same_times h (write_cdev env c t h)"
  by (auto simp: write_cdev_def split: prod.split)

lemma update_cooling_device_times: "update_cooling_device env c h = Inr h' \<Longrightarrow> same_times h h'"
  by (auto simp: update_cooling_device_def write_cdev_times split: option.splits)

lemma log_power_times: "same_times h (log_power now b h)"
  by (simp add: log_power_def)

text \<open>The phases of a round after the sensors change neither times nor overrides.\<close>

lemma round_parts:
  assumes "thermalWatcherCallbackFunc fuel n env uevents h = Inr (ms, h')"
  obtains w where "foldE (watch_sensor fuel n env uevents)
       (map fst (hp_sensor_status_map (fold (apply_uevent (he_now env)) uevents h)))
       \<lparr> wa_helper = fold (apply_uevent (he_now env)) uevents h, wa_temps = [], wa_cdevs = [],
         wa_min_sleep = MS_MAX, wa_power_updated = False, wa_shutdown = False \<rparr> = Inr w"
    and "ms = wa_min_sleep w" and "same_times (wa_helper w) h'"
proof -
  obtain w h2 h3 failed stats where
    r: "foldE (watch_sensor fuel n env uevents)
         (map fst (hp_sensor_status_map (fold (apply_uevent (he_now env)) uevents h)))
         \<lparr> wa_helper = fold (apply_uevent (he_now env)) uevents h, wa_temps = [], wa_cdevs = [],
           wa_min_sleep = MS_MAX, wa_power_updated = False, wa_shutdown = False \<rparr> = Inr w"
      "foldE (send_notification (he_has_cb env)) (wa_temps w) (wa_helper w) = Inr h2"
      "updateCoolingDevices env (wa_cdevs w) h2 = Inr h3"
      "reportStats (he_client env) (he_now env) (hp_stats h3) = Inr (failed, stats)"
      "ms = wa_min_sleep w" "h' = log_power (he_now env) (wa_shutdown w) (h3\<lparr>hp_stats := stats\<rparr>)"
    using assms unfolding thermalWatcherCallbackFunc_def Let_def by auto
  have "same_times (wa_helper w) h2" by (rule foldE_same_times [OF r(2)]) (rule send_notification_times)
  also have "same_times h2 h3"
    by (rule foldE_same_times [OF r(3) [unfolded updateCoolingDevices_def]]) (rule update_cooling_device_times)
  also have "same_times h3 (h3\<lparr>hp_stats := stats\<rparr>)" by simp
  also have "same_times (h3\<lparr>hp_stats := stats\<rparr>) h'" unfolding r(6) by (rule log_power_times)
  finally show thesis by (rule that [OF r(1) r(5)])
qed

section \<open>Every sensor of a round\<close>


lemma watch_sensor_views:
  assumes "watch_sensor fuel n env us m w = Inr w'"
  obtains ov lu where "hp_sensor_info_map (wa_helper w') = hp_sensor_info_map (wa_helper w)"
    and "override_of (wa_helper w') = (override_of (wa_helper w))(m := ov)"
    and "ov = override_of (wa_helper w) m
       \<or> ov = map_option (\<lambda>ov. ov\<lparr>ov_pending_update := False\<rparr>) (override_of (wa_helper w) m)"
    and "last_update (wa_helper w') = (last_update (wa_helper w))(m := lu)"
    and "lu = last_update (wa_helper w) m \<or> lu = Some (he_now env)"
  using assms
proof (cases rule: watch_sensor_effect)
  case 1
  then show ?thesis by (intro that [of "override_of (wa_helper w) m" "last_update (wa_helper w) m"]) simp_all
next
  case 2
  then show ?thesis
    by (intro that [of "override_of (wa_helper w') m" "last_update (wa_helper w) m"])
      (simp_all add: clear_pending_times fun_eq_iff)
next
  case 3
  then show ?thesis
    by (intro that [of "override_of (wa_helper w') m" "last_update (wa_helper w) m"])
      (simp_all add: clear_pending_times same_times_def fun_eq_iff)
next
  case (4 s si due force elapsed sl h1 sl')
  have "last_update (wa_helper w) m = Some (sn_last_update_time s)" using 4(1) by (simp add: last_update_def)
  then show ?thesis using 4(6,7)
    by (intro that [of "override_of (wa_helper w') m" "Some (he_now env)"])
      (simp_all add: clear_pending_times same_times_def last_update_set_now fun_eq_iff)
qed

lemma watch_sensor_frame:
  assumes "watch_sensor fuel n env us m w = Inr w'"
  shows "hp_sensor_info_map (wa_helper w') = hp_sensor_info_map (wa_helper w)"
    and "emulated (wa_helper w') t = emulated (wa_helper w) t"
    and "pending (wa_helper w') t \<Longrightarrow> pending (wa_helper w) t"
    and "t \<noteq> m \<Longrightarrow> override_of (wa_helper w') t = override_of (wa_helper w) t
           \<and> last_update (wa_helper w') t = last_update (wa_helper w) t"
    and "last_update (wa_helper w) t = Some (he_now env) \<Longrightarrow> last_update (wa_helper w') t = Some (he_now env)"
proof -
  obtain ov lu where v: "hp_sensor_info_map (wa_helper w') = hp_sensor_info_map (wa_helper w)"
    "override_of (wa_helper w') = (override_of (wa_helper w))(m := ov)"
    "ov = override_of (wa_helper w) m
       \<or> ov = map_option (\<lambda>ov. ov\<lparr>ov_pending_update := False\<rparr>) (override_of (wa_helper w) m)"
    "last_update (wa_helper w') = (last_update (wa_helper w))(m := lu)"
    "lu = last_update (wa_helper w) m \<or> lu = Some (he_now env)"
    by (rule watch_sensor_views [OF assms])
  show "hp_sensor_info_map (wa_helper w') = hp_sensor_info_map (wa_helper w)" by (rule v(1))
  show "emulated (wa_helper w') t = emulated (wa_helper w) t"
    using v(2,3) by (auto simp: override_views option.map_comp o_def)
  show "pending (wa_helper w) t" if "pending (wa_helper w') t"
    using that v(2,3)
    by (cases "override_of (wa_helper w) m"; cases "t = m") (auto simp: override_views)
  show "override_of (wa_helper w') t = override_of (wa_helper w) t
      \<and> last_update (wa_helper w') t = last_update (wa_helper w) t" if "t \<noteq> m"
    using that v(2,4) by simp
  show "last_update (wa_helper w') t = Some (he_now env)" if "last_update (wa_helper w) t = Some (he_now env)"
    using that v(4,5) by auto
qed

text \<open>
  What a round that has ended did with a watched sensor: its mark is cleared, and it has been
  updated, unless it was neither marked nor due, or could not be read at its turn.
\<close>

definition emul_kept :: "helper_state \<Rightarrow> helper_state \<Rightarrow> bool" where
  "emul_kept h h' \<longleftrightarrow> hp_sensor_info_map h' = hp_sensor_info_map h
     \<and> (\<forall>t e. emulated h t = Some e \<longrightarrow> emulated h' t = Some e)"

lemma emul_kept_trans: "emul_kept h h' \<Longrightarrow> emul_kept h' h'' \<Longrightarrow> emul_kept h h''"
  by (simp add: emul_kept_def)

lemma emul_kept_same_times: "same_times h h' \<Longrightarrow> emul_kept h h'"
  by (simp add: emul_kept_def same_times_def override_views)


lemma emul_kept_uevents: "emul_kept h (fold (apply_uevent now) us h)"
proof -
  have "hp_sensor_info_map (fold (apply_uevent now) us h) = hp_sensor_info_map h"
    by (induction us arbitrary: h) (simp_all add: apply_uevent_def Let_def)
  moreover have "emulated (fold (apply_uevent now) us h) t = Some e" if e: "emulated h t = Some e" for t e
  proof -
    obtain s where s: "map_of (hp_sensor_status_map h) t = Some s" "e = ov_emul_temp (sn_override_status s)"
      using e by (auto simp: emulated_def)
    then show ?thesis using apply_uevents_status [OF s(1), of now us] by (auto simp: emulated_def)
  qed
  ultimately show ?thesis by (simp add: emul_kept_def)
qed

lemma emul_kept_watch_sensor: "watch_sensor fuel n env us m w = Inr w' \<Longrightarrow> emul_kept (wa_helper w) (wa_helper w')"
  using watch_sensor_frame(1,2) unfolding emul_kept_def by metis

lemma emul_kept_loop:
  "foldE (watch_sensor fuel n env us) names w = Inr w' \<Longrightarrow> emul_kept (wa_helper w) (wa_helper w')"
  by (erule foldE_inv [where I = "\<lambda>v. emul_kept (wa_helper w) (wa_helper v)"])
    (simp add: emul_kept_def, blast intro: emul_kept_trans emul_kept_watch_sensor)



lemma round_keeps_emulation:
  assumes "thermalWatcherCallbackFunc fuel n env us h = Inr (ms, h')"
  shows "emul_kept h h'"
proof -
  obtain w where w: "foldE (watch_sensor fuel n env us)
       (map fst (hp_sensor_status_map (fold (apply_uevent (he_now env)) us h)))
       \<lparr> wa_helper = fold (apply_uevent (he_now env)) us h, wa_temps = [], wa_cdevs = [],
         wa_min_sleep = MS_MAX, wa_power_updated = False, wa_shutdown = False \<rparr> = Inr w"
     "same_times (wa_helper w) h'" by (rule round_parts [OF assms])
  have "emul_kept (fold (apply_uevent (he_now env)) us h) (wa_helper w)" using emul_kept_loop [OF w(1)] by simp
  then show ?thesis
    using emul_kept_trans [OF emul_kept_uevents] emul_kept_trans emul_kept_same_times [OF w(2)] by blast
qed

text \<open>
  C7: A sensor that a round has updated is polled again in time: the sleep the round asks for is at
  most the longer of the polling delay and the passive delay of the sensor.
\<close>

theorem updated_sensor_is_polled_again:
  assumes "thermalWatcherCallbackFunc fuel n env uevents h = Inr (ms, h')"
    and "last_update h name = Some t0" and "last_update h' name \<noteq> Some t0"
  shows "\<exists>si. map_of (hp_sensor_info_map h) name = Some si
     \<and> ms \<le> max (si_passive_delay si) (si_polling_delay si)"
proof -
  obtain w where w: "foldE (watch_sensor fuel n env uevents)
       (map fst (hp_sensor_status_map (fold (apply_uevent (he_now env)) uevents h)))
       \<lparr> wa_helper = fold (apply_uevent (he_now env)) uevents h, wa_temps = [], wa_cdevs = [],
         wa_min_sleep = MS_MAX, wa_power_updated = False, wa_shutdown = False \<rparr> = Inr w"
     "ms = wa_min_sleep w" "same_times (wa_helper w) h'" by (rule round_parts [OF assms(1)])
  have "bounded_sleep (hp_sensor_info_map h) (he_now env) name t0 w"
    by (rule foldE_inv [OF w(1)], use apply_uevents_times [OF assms(2)] in \<open>simp add: bounded_sleep_def\<close>)
      (rule bounded_sleep_watch_sensor)
  then show ?thesis
    using assms(3) w(2,3) by (auto simp: bounded_sleep_def same_times_def)
qed

lemma ex_round:
  "(case thermalWatcherCallbackFunc 1 1 ex_helper_env [] (ex_emulated ex_cpu) of
     Inr (ms, h') \<Rightarrow> last_update h' ''cpu'' = Some 1000000000 | _ \<Rightarrow> False)"
  by code_simp

theorem updated_sensor_is_polled_again_witness:
  "\<exists>ms h'. thermalWatcherCallbackFunc 1 1 ex_helper_env [] (ex_emulated ex_cpu) = Inr (ms, h')
     \<and> (\<exists>si. map_of [(''cpu'', ex_cpu)] ''cpu'' = Some si \<and> ms \<le> max (si_passive_delay si) (si_polling_delay si))"
proof -
  let ?h = "ex_emulated ex_cpu"
  obtain ms h' where r: "thermalWatcherCallbackFunc 1 1 ex_helper_env [] ?h = Inr (ms, h')"
      "last_update h' ''cpu'' = Some 1000000000"
    using ex_round by (auto split: sum.splits)
  have "last_update ?h ''cpu'' = Some TIME_MIN" by (simp add: last_update_def ex_helper_defs)
  moreover have "last_update h' ''cpu'' \<noteq> Some TIME_MIN" using r(2) by (simp add: TIME_MIN_def)
  ultimately have "\<exists>si. map_of (hp_sensor_info_map ?h) ''cpu'' = Some si
      \<and> ms \<le> max (si_passive_delay si) (si_polling_delay si)"
    by (rule updated_sensor_is_polled_again [OF r(1)])
  then show ?thesis using r(1) by (auto simp: ex_emulated_def ex_helper_of_def)
qed

section \<open>Sensors that cannot be read\<close>


text \<open>What the round has done so far: nothing but the statistics and the pending flags.\<close>

definition status_core :: "SensorStatus \<Rightarrow> EmulTemp option \<times> ThermalSample \<times> int" where
  "status_core s = (ov_emul_temp (sn_override_status s), sn_thermal_cached s, sn_last_update_time s)"

definition silent :: "helper_state \<Rightarrow> helper_state \<Rightarrow> bool" where
  "silent h h' \<longleftrightarrow> hp_sensor_info_map h' = hp_sensor_info_map h \<and> hp_thermal_sensors h' = hp_thermal_sensors h
     \<and> (\<forall>n. map_option status_core (map_of (hp_sensor_status_map h') n)
            = map_option status_core (map_of (hp_sensor_status_map h) n))
     \<and> sh_last_total_stats_report_time (hp_stats h') = sh_last_total_stats_report_time (hp_stats h)"

lemma silent_refl [simp]: "silent h h"
  by (simp add: silent_def)








section \<open>The round\<close>









end
