(* ===== verification/HelperEmul.thy ===== *)
theory HelperEmul
  imports HelperReading HelperTimes
begin

text \<open>
  Emulation: an emulated temperature is what reads return, and every watched sensor that depends on
  it, through any number of links, is updated in the next round.
\<close>

section \<open>Dependent sensors\<close>

definition affects :: "SensorInfo smap \<Rightarrow> (string \<times> string) set" where
  "affects sensors = {(t, n). \<exists>si. (n, si) \<in> set sensors \<and> emul_links t (n, si)}"

text \<open>What marking the dependent sensors of \<open>t\<close> does to a state.\<close>

definition marked :: "helper_state \<Rightarrow> helper_state \<Rightarrow> bool" where
  "marked h h' \<longleftrightarrow> h' = h\<lparr>hp_sensor_status_map := hp_sensor_status_map h'\<rparr>
     \<and> (\<forall>n. pending h n \<longrightarrow> pending h' n) \<and> (\<forall>n. emulated h' n = emulated h n)"

lemma marked_refl [simp]: "marked h h"
  by (simp add: marked_def)

lemma marked_trans: "marked h h' \<Longrightarrow> marked h' h'' \<Longrightarrow> marked h h''"
  by (cases h; cases h'; cases h'') (simp add: marked_def)

lemma marked_info: "marked h h' \<Longrightarrow> hp_sensor_info_map h' = hp_sensor_info_map h"
  by (cases h; cases h') (simp add: marked_def)

lemma marked_has: "marked h h' \<Longrightarrow> has (hp_sensor_status_map h') n = has (hp_sensor_status_map h) n"
  unfolding marked_def emulated_def has_def by (metis option.map_disc_iff)

lemma marked_set_status:
  "has (hp_sensor_status_map h) n \<Longrightarrow>
     marked h (set_status n (mark_for_emul mt) h) \<and> pending (set_status n (mark_for_emul mt) h) n"
  unfolding has_def marked_def pending_def emulated_def set_status_def mark_for_emul_def
  by (auto split: option.splits)

lemma foldE_each:
  assumes "I s" and "\<And>x s. x \<in> set xs \<Longrightarrow> I s \<Longrightarrow> \<exists>s1. f x s = Inr s1 \<and> I s1 \<and> P x s1 \<and> (\<forall>y. P y s \<longrightarrow> P y s1)"
  shows "\<exists>s'. foldE f xs s = Inr s' \<and> I s' \<and> (\<forall>x \<in> set xs. P x s') \<and> (\<forall>y. P y s \<longrightarrow> P y s')"
  using assms
proof (induction xs arbitrary: s)
  case Nil
  then show ?case by simp
next
  case (Cons x xs)
  obtain s1 where s1: "f x s = Inr s1" "I s1" "P x s1" "\<forall>y. P y s \<longrightarrow> P y s1"
    using Cons.prems(2) [of x s] Cons.prems(1) by auto
  obtain s' where "foldE f xs s1 = Inr s'" "I s'" "\<forall>x \<in> set xs. P x s'" "\<forall>y. P y s1 \<longrightarrow> P y s'"
    using Cons.IH [OF s1(2)] Cons.prems(2) by auto
  with s1 show ?case by auto
qed

lemma checkUpdateSensorForEmul_total:
  assumes "\<forall>p \<in> set sensors. \<forall>t. emul_links t p \<longrightarrow> rank (fst p) < (rank t :: nat)"
    and "\<forall>p \<in> set sensors. has (hp_sensor_status_map h) (fst p)" and "hp_sensor_info_map h = sensors"
    and "rank target < fuel"
  shows "\<exists>h'. checkUpdateSensorForEmul fuel target mt h = Inr h' \<and> marked h h'
     \<and> (\<forall>n. (target, n) \<in> (affects sensors)\<^sup>+ \<longrightarrow> pending h' n)"
  using assms(2-4)
proof (induction fuel arbitrary: target h)
  case 0
  then show ?case by simp
next
  case (Suc fuel)
  let ?step = "\<lambda>p h'. if \<not> emul_links target p then Inr h'
       else bindE (at_key (hp_sensor_status_map h') (fst p)) (\<lambda>_.
            checkUpdateSensorForEmul fuel (fst p) mt (set_status (fst p) (mark_for_emul mt) h'))"
  let ?P = "\<lambda>p h'. emul_links target p \<longrightarrow>
       pending h' (fst p) \<and> (\<forall>n. (fst p, n) \<in> (affects sensors)\<^sup>+ \<longrightarrow> pending h' n)"
  have "\<exists>h'. foldE ?step sensors h = Inr h' \<and> marked h h' \<and> (\<forall>p \<in> set sensors. ?P p h') \<and> (\<forall>y. ?P y h \<longrightarrow> ?P y h')"
  proof (rule foldE_each)
    show "marked h h" by simp
    fix p h1
    assume p: "p \<in> set sensors" and m: "marked h h1"
    show "\<exists>s1. ?step p h1 = Inr s1 \<and> marked h s1 \<and> ?P p s1 \<and> (\<forall>y. ?P y h1 \<longrightarrow> ?P y s1)"
    proof (cases "emul_links target p")
      case False
      then show ?thesis using m by simp
    next
      case True
      have hs: "has (hp_sensor_status_map h1) (fst p)" using Suc.prems(1) p marked_has [OF m] by simp
      let ?h2 = "set_status (fst p) (mark_for_emul mt) h1"
      have m2: "marked h1 ?h2" "pending ?h2 (fst p)" using marked_set_status [OF hs] by auto
      have "\<exists>h'. checkUpdateSensorForEmul fuel (fst p) mt ?h2 = Inr h' \<and> marked ?h2 h'
          \<and> (\<forall>n. (fst p, n) \<in> (affects sensors)\<^sup>+ \<longrightarrow> pending h' n)"
      proof (rule Suc.IH)
        show "\<forall>q \<in> set sensors. has (hp_sensor_status_map ?h2) (fst q)"
          using Suc.prems(1) marked_has [OF m] marked_has [OF m2(1)] by simp
        show "hp_sensor_info_map ?h2 = sensors"
          using Suc.prems(2) marked_info [OF m] marked_info [OF m2(1)] by simp
        have "rank (fst p) < rank target" using assms(1) p True by blast
        then show "rank (fst p) < fuel" using Suc.prems(3) by simp
      qed
      then obtain h3 where h3: "checkUpdateSensorForEmul fuel (fst p) mt ?h2 = Inr h3" "marked ?h2 h3"
          "\<forall>n. (fst p, n) \<in> (affects sensors)\<^sup>+ \<longrightarrow> pending h3 n"
        by (elim exE conjE)
      have m3: "marked h1 h3" using marked_trans [OF m2(1) h3(2)] .
      have "pending h3 (fst p)" using h3(2) m2(2) unfolding marked_def by blast
      moreover have "\<forall>n. pending h1 n \<longrightarrow> pending h3 n" using m3 unfolding marked_def by blast
      moreover have "?step p h1 = Inr h3" using True has_at_key [OF hs] h3(1) by auto
      ultimately show ?thesis using marked_trans [OF m m3] h3(3) by blast
    qed
  qed
  then obtain h' where h': "foldE ?step sensors h = Inr h'" "marked h h'" "\<forall>p \<in> set sensors. ?P p h'"
    by (elim exE conjE)
  have "pending h' n" if "(target, n) \<in> (affects sensors)\<^sup>+" for n
    using that
  proof (cases rule: converse_tranclE [consumes 1, case_names base step])
    case base
    then show ?thesis using h'(3) by (auto simp: affects_def)
  next
    case (step y)
    then show ?thesis using h'(3) by (auto simp: affects_def)
  qed
  then show ?case using h' Suc.prems(2) by auto
qed

section \<open>The operations\<close>

lemma set_status_override:
  "has (hp_sensor_status_map h) n \<Longrightarrow>
     emulated (set_status n (override e mt) h) n = Some e \<and> pending (set_status n (override e mt) h) n"
  by (auto simp: has_def emulated_def pending_def set_status_def override_def)

lemma kept_wake: "kept (wake h) = kept h"
  by (simp add: kept_def wake_def)

lemma kept_emulated: "kept h' = kept h \<Longrightarrow> emulated h' n = emulated h n"
  using kept_status [of h' h n] by (auto simp: emulated_def status_kept_def map_option_case split: option.splits)

lemma emulated_read:
  assumes "emulated h n = Some (Some e)" and "has (hp_sensor_info_map h) n"
  shows "readThermalSensor (Suc k) env n b v log h = Inr (OKAY, em_temp e, put n (em_temp e) log, h)"
  using assms by (auto simp: emulated_def has_def read_sensor_with_def)

lemma override_and_mark:
  assumes "\<forall>p \<in> set (hp_sensor_info_map h). \<forall>t. emul_links t p \<longrightarrow> rank (fst p) < (rank t :: nat)"
    and "\<forall>p \<in> set (hp_sensor_info_map h). has (hp_sensor_status_map h) (fst p)"
    and "has (hp_sensor_status_map h) target" and "rank target < fuel"
  shows "\<exists>h'. checkUpdateSensorForEmul fuel target mt (set_status target (override e mt) h) = Inr h'
     \<and> (\<forall>n. n = target \<or> (target, n) \<in> (affects (hp_sensor_info_map h))\<^sup>+ \<longrightarrow> pending h' n)
     \<and> emulated h' target = Some e
     \<and> h' = (set_status target (override e mt) h)\<lparr>hp_sensor_status_map := hp_sensor_status_map h'\<rparr>"
proof -
  let ?h1 = "set_status target (override e mt) h"
  have "\<exists>h'. checkUpdateSensorForEmul fuel target mt ?h1 = Inr h' \<and> marked ?h1 h'
     \<and> (\<forall>n. (target, n) \<in> (affects (hp_sensor_info_map h))\<^sup>+ \<longrightarrow> pending h' n)"
    using assms by (intro checkUpdateSensorForEmul_total) simp_all
  then show ?thesis
    using set_status_override [OF assms(3)] unfolding marked_def by auto
qed







text \<open>
  An emulated severity that a watched sensor has a threshold for is reported by the next read of
  its temperature (for a sensor without severity references and without severity statistics). For a
  severity without a threshold \<open>emulSeverity\<close> succeeds as well, but the sensor then cannot be read
  any more: the threshold, not a number, becomes its temperature.
\<close>

theorem emulSeverity_is_reported:
  assumes "\<forall>p \<in> set (hp_sensor_info_map h). \<forall>t. emul_links t p \<longrightarrow> rank (fst p) < (rank t :: nat)"
    and "\<forall>p \<in> set (hp_sensor_info_map h). has (hp_sensor_status_map h) (fst p)"
    and "map_of (hp_sensor_info_map h) target = Some si" and "rank target < fuel"
    and "0 \<le> sev" and "sev < 7" and "si_is_watch si" and "si_severity_reference si = []"
    and "map_of (sh_temp_stats_map (hp_stats h)) target = None"
  shows "\<exists>h'. emulSeverity fuel target sev mt h = Inr (True, h')
     \<and> (\<forall>env b k m. \<exists>out h''. readTemperature (Suc k) (Suc m) env target b h' =
          (if isnan (fdiv (si_hot_thresholds si (sev_range ! nat sev)) (si_multiplier si))
           then Inr (ERROR, no_temperature, h'') else Inr (OKAY, out, h''))
          \<and> tp_throttlingStatus out = sev_range ! nat sev)"
proof -
  let ?t = "fdiv (si_hot_thresholds si (sev_range ! nat sev)) (si_multiplier si)"
  let ?e = "\<lparr>em_temp = ?t, em_severity = sev\<rparr>"
  have known: "has (hp_sensor_info_map h) target" using assms(3) by (simp add: has_def)
  have st: "has (hp_sensor_status_map h) target"
    using assms(2) known unfolding has_iff_in_keys by auto
  obtain h1 where h1: "checkUpdateSensorForEmul fuel target mt (set_status target (override (Some ?e) mt) h) = Inr h1"
      "\<forall>n. n = target \<or> (target, n) \<in> (affects (hp_sensor_info_map h))\<^sup>+ \<longrightarrow> pending h1 n"
      "emulated h1 target = Some (Some ?e)"
      "h1 = (set_status target (override (Some ?e) mt) h)\<lparr>hp_sensor_status_map := hp_sensor_status_map h1\<rparr>"
    using override_and_mark [OF assms(1,2) st assms(4), where mt = mt and e = "Some ?e"] by (elim exE conjE)
  have info: "hp_sensor_info_map h1 = hp_sensor_info_map h" and stats: "hp_stats h1 = hp_stats h"
    by (subst h1(4), simp add: set_status_def split: option.split)+
  have len: "vec_at sev_range sev = Inr (sev_range ! nat sev)" using assms(5,6) by (simp add: sev_range_def)
  have "emulSeverity fuel target sev mt h = Inr (True, wake h1)"
    using st assms(3,5,6) h1(1) len by (auto simp: emulSeverity_def has_def Let_def)
  moreover have "\<exists>out h''. readTemperature (Suc k) (Suc m) env target b (wake h1) =
          (if isnan ?t then Inr (ERROR, no_temperature, h'') else Inr (OKAY, out, h''))
          \<and> tp_throttlingStatus out = sev_range ! nat sev" for env b k m
  proof -
    obtain s where s: "map_of (hp_sensor_status_map h1) target = Some s" "ov_emul_temp (sn_override_status s) = Some ?e"
      using h1(3) by (auto simp: emulated_def)
    have rd: "readThermalSensor (Suc k) env target b NaN [] (wake h1)
        = Inr (OKAY, ?t, put target ?t [], wake h1)"
      using emulated_read [of "wake h1" target ?e k env b NaN "[]"] h1(3) known info
      by (simp add: emulated_def wake_def del: readThermalSensor.simps)
    have sev: "\<exists>s'. update_severity si NONE v s = Inr (sev_range ! nat sev, s')" for v
      using s(2) assms(5) len by (auto simp: update_severity_def Let_def split: prod.split)
    show ?thesis
    proof (cases "isnan ?t")
      case True
      have "readTemperature (Suc k) (Suc m) env target b (wake h1) = Inr (ERROR, no_temperature, wake h1)"
        using rd s(1) True by (simp add: wake_def at_key_def)
      then show ?thesis using True by (intro exI [of _ "no_temperature\<lparr>tp_throttlingStatus := sev_range ! nat sev\<rparr>"] exI) simp
    next
      case False
      obtain s' where s': "update_severity si NONE (fmul ?t (si_multiplier si)) s = Inr (sev_range ! nat sev, s')"
        using sev by blast
      show ?thesis
        using rd s(1) s' False assms(3,7,8,9) info stats
        by (simp add: wake_def report_temperature_def getSeverityReference_def at_key_def
            updateSensorTempStatsBySeverity_def Let_def set_status_def)
    qed
  qed
  ultimately show ?thesis by blast
qed

theorem emulSeverity_is_reported_witness:
  "\<exists>h'. emulSeverity 2 ''cpu'' 2 False ex_helper = Inr (True, h')
     \<and> (\<forall>(env :: unit helper_env) b k m. \<exists>out h''. readTemperature (Suc k) (Suc m) env ''cpu'' b h' =
          (if isnan (fdiv (si_hot_thresholds ex_cpu (sev_range ! nat 2)) (si_multiplier ex_cpu))
           then Inr (ERROR, no_temperature, h'') else Inr (OKAY, out, h''))
          \<and> tp_throttlingStatus out = sev_range ! nat 2)"
  by (rule emulSeverity_is_reported [where rank = "\<lambda>s. if s = ''cpu'' then 1 else 0"])
    (auto simp: ex_helper_defs ex_sensor_def emul_links_def has_def empty_stats_state_def)

text \<open>
  The check of \<open>emulSeverity\<close> lets the number of severities and every negative number through:
  they index the thresholds outside of the array.
\<close>

theorem emulSeverity_out_of_range:
  assumes "has (hp_sensor_status_map h) target" and "has (hp_sensor_info_map h) target"
    and "sev = 7 \<or> sev < 0"
  shows "emulSeverity fuel target sev mt h = Inl UB"
  using assms by (auto simp: emulSeverity_def has_def vec_at_def sev_range_def)

theorem emulSeverity_out_of_range_witness:
  "emulSeverity 5 ''cpu'' 7 False ex_helper = Inl UB \<and> emulSeverity 5 ''cpu'' (- 1) False ex_helper = Inl UB"
  by (intro conjI emulSeverity_out_of_range) (simp_all add: ex_helper_defs has_def)

end
