(* ===== verification/HelperWrites.thy ===== *)
theory HelperWrites
  imports HelperWatch ThrottlingReach
begin

text \<open>
  What the formulas of virtual sensors compute, and what is written to the cooling devices.
\<close>

section \<open>Formulas\<close>

abbreviation product_of :: "flt \<times> flt \<Rightarrow> flt" where
  "product_of rc \<equiv> fmul (fst rc) (snd rc)"

lemma fold_maximum:
  assumes "\<not> isnan t" and "\<forall>rc \<in> set rcs. \<not> isnan (product_of rc)"
  shows "fold (fusion_step MAXIMUM False) rcs t \<in> insert t (product_of ` set rcs)
     \<and> flt_le t (fold (fusion_step MAXIMUM False) rcs t)
     \<and> (\<forall>rc \<in> set rcs. flt_le (product_of rc) (fold (fusion_step MAXIMUM False) rcs t))"
  using assms
proof (induction rcs arbitrary: t)
  case Nil
  then show ?case by (simp add: flt_le_refl)
next
  case (Cons rc rcs)
  let ?t = "fusion_step MAXIMUM False rc t" and ?F = "fold (fusion_step MAXIMUM False) rcs (fusion_step MAXIMUM False rc t)"
  have t: "?t = (if flt_lt t (product_of rc) then product_of rc else t)"
    by (simp add: fusion_step_def split: prod.split)
  have "\<not> isnan ?t" "\<forall>rc \<in> set rcs. \<not> isnan (product_of rc)" using Cons.prems t by simp_all
  note IH = Cons.IH [OF this]
  have le: "flt_le t ?t" "flt_le (product_of rc) ?t"
    using Cons.prems t by (auto simp: flt_lt_imp_le flt_le_refl flt_not_lt)
  have "?t \<in> {t, product_of rc}" using t by simp
  moreover have "?F = ?t \<or> ?F \<in> product_of ` set rcs" using IH by simp
  ultimately have "?F \<in> insert t (product_of ` set (rc # rcs))" by (elim disjE) (simp, blast, simp)
  then show ?case
    using IH le unfolding fold_Cons comp_apply by (simp, blast intro: flt_le_trans)
qed

lemma fold_minimum:
  assumes "\<not> isnan t" and "\<forall>rc \<in> set rcs. \<not> isnan (product_of rc)"
  shows "fold (fusion_step MINIMUM False) rcs t \<in> insert t (product_of ` set rcs)
     \<and> flt_le (fold (fusion_step MINIMUM False) rcs t) t
     \<and> (\<forall>rc \<in> set rcs. flt_le (fold (fusion_step MINIMUM False) rcs t) (product_of rc))"
  using assms
proof (induction rcs arbitrary: t)
  case Nil
  then show ?case by (simp add: flt_le_refl)
next
  case (Cons rc rcs)
  let ?t = "fusion_step MINIMUM False rc t" and ?F = "fold (fusion_step MINIMUM False) rcs (fusion_step MINIMUM False rc t)"
  have t: "?t = (if flt_lt (product_of rc) t then product_of rc else t)"
    by (simp add: fusion_step_def split: prod.split)
  have "\<not> isnan ?t" "\<forall>rc \<in> set rcs. \<not> isnan (product_of rc)" using Cons.prems t by simp_all
  note IH = Cons.IH [OF this]
  have le: "flt_le ?t t" "flt_le ?t (product_of rc)"
    using Cons.prems t by (auto simp: flt_lt_imp_le flt_le_refl flt_not_lt)
  have "?t \<in> {t, product_of rc}" using t by simp
  moreover have "?F = ?t \<or> ?F \<in> product_of ` set rcs" using IH by simp
  ultimately have "?F \<in> insert t (product_of ` set (rc # rcs))" by (elim disjE) (simp, blast, simp)
  then show ?case
    using IH le unfolding fold_Cons comp_apply by (simp, blast intro: flt_le_trans)
qed

lemma fuse_maximum:
  "rcs \<noteq> [] \<Longrightarrow> fuse MAXIMUM rcs = fold (fusion_step MAXIMUM False) rcs (fneg FLT_MAX)"
  by (cases rcs) (simp_all add: fuse_def fusion_step_def)

lemma fuse_minimum:
  "rcs \<noteq> [] \<Longrightarrow> fuse MINIMUM rcs = fold (fusion_step MINIMUM False) rcs FLT_MAX"
  by (cases rcs) (simp_all add: fuse_def fusion_step_def)

text \<open>
  The formulas \<open>MAXIMUM\<close> and \<open>MINIMUM\<close> give the greatest and the least of the weighted readings:
  for finite products the loops return one of the products, and no product is above, or below, it.
\<close>

theorem fuse_extremes:
  assumes "rcs \<noteq> []" and "\<forall>rc \<in> set rcs. flt_le (fneg FLT_MAX) (product_of rc) \<and> flt_le (product_of rc) FLT_MAX"
  shows "fuse MAXIMUM rcs \<in> product_of ` set rcs \<and> (\<forall>rc \<in> set rcs. flt_le (product_of rc) (fuse MAXIMUM rcs))
    \<and> fuse MINIMUM rcs \<in> product_of ` set rcs \<and> (\<forall>rc \<in> set rcs. flt_le (fuse MINIMUM rcs) (product_of rc))"
proof -
  have nan: "\<forall>rc \<in> set rcs. \<not> isnan (product_of rc)" using assms(2) by (auto dest: flt_le_not_nan)
  have nn: "\<not> isnan (fneg FLT_MAX)" "\<not> isnan FLT_MAX" by (simp_all add: FLT_MAX_def)
  obtain rc where rc: "rc \<in> set rcs" using assms(1) by (cases rcs) auto
  have eq: "x = y" if "flt_le x y" "flt_le y x" for x y using that by (cases x; cases y) auto
  let ?M = "fuse MAXIMUM rcs" and ?m = "fuse MINIMUM rcs"
  have M: "?M \<in> insert (fneg FLT_MAX) (product_of ` set rcs)" "\<forall>rc \<in> set rcs. flt_le (product_of rc) ?M"
    using fold_maximum [OF nn(1) nan] unfolding fuse_maximum [OF assms(1)] by blast+
  have m: "?m \<in> insert FLT_MAX (product_of ` set rcs)" "\<forall>rc \<in> set rcs. flt_le ?m (product_of rc)"
    using fold_minimum [OF nn(2) nan] unfolding fuse_minimum [OF assms(1)] by blast+
  have "?M \<in> product_of ` set rcs"
  proof (cases "?M = fneg FLT_MAX")
    case True
    then have "product_of rc = ?M" using M(2) rc assms(2) by (intro eq) auto
    then show ?thesis using rc by (intro image_eqI [of _ _ rc]) simp_all
  qed (use M(1) in blast)
  moreover have "?m \<in> product_of ` set rcs"
  proof (cases "?m = FLT_MAX")
    case True
    then have "product_of rc = ?m" using m(2) rc assms(2) by (intro eq) auto
    then show ?thesis using rc by (intro image_eqI [of _ _ rc]) simp_all
  qed (use m(1) in blast)
  ultimately show ?thesis using M(2) m(2) by blast
qed

theorem fuse_extremes_witness:
  "fuse MAXIMUM [(of_int_f 30, of_int_f 1), (of_int_f 40, of_int_f 1)]
      \<in> product_of ` {(of_int_f 30, of_int_f 1), (of_int_f 40, of_int_f 1)}
   \<and> fuse MAXIMUM [(of_int_f 30, of_int_f 1), (of_int_f 40, of_int_f 1)] = of_int_f 40"
proof -
  let ?rcs = "[(of_int_f 30, of_int_f 1), (of_int_f 40, of_int_f 1)]"
  have p: "\<forall>rc \<in> set ?rcs. flt_le (fneg FLT_MAX) (product_of rc) \<and> flt_le (product_of rc) FLT_MAX"
    by code_simp
  have "fuse MAXIMUM ?rcs = of_int_f 40" by code_simp
  then show ?thesis using fuse_extremes [OF _ p] by simp
qed

section \<open>Writes\<close>

definition device_path :: "helper_state \<Rightarrow> string \<Rightarrow> string" where
  "device_path h cdev = getThermalFilePath (cdev @ ''_w'') (hp_cooling_devices h)"

text \<open>The greatest request any sensor has made of a device.\<close>

definition greatest_request :: "throttling_state \<Rightarrow> string \<Rightarrow> int" where
  "greatest_request th cdev = Max (insert 0 (set_mset (sensor_votes cdev (th_status_map th))))"

lemma update_cooling_device_write:
  assumes "th_reach (hp_throttling h)" and "has (th_cdev_all_request_map (hp_throttling h)) cdev"
    and "map_of (hp_cdev_info_map h) cdev = Some ci"
    and "request_value ci (greatest_request (hp_throttling h) cdev) = Inr v"
    and "\<And>p t. he_writes env p t"
  shows "update_cooling_device env cdev h = Inr (h\<lparr>hp_writes := hp_writes h @ [(device_path h cdev, to_string v)]\<rparr>)"
  using assms(3-5) reachable_request [OF assms(1,2)]
  by (simp add: update_cooling_device_def greatest_request_def write_cdev_def writeCdevFile_def device_path_def)

text \<open>
  C4: The cooling devices get what the sensors ask for: in every reachable state of the throttling
  engine \<open>updateCoolingDevices\<close> writes to each of the devices, in order and nothing else, the greatest
  state any sensor has requested of it, as the power limit of that state where the device is capped
  by power.
\<close>

theorem updateCoolingDevices_writes:
  assumes "th_reach (hp_throttling h)" and "\<And>p t. he_writes env p t"
    and "\<And>c. c \<in> set cdevs \<Longrightarrow> has (th_cdev_all_request_map (hp_throttling h)) c
       \<and> (\<exists>ci. map_of (hp_cdev_info_map h) c = Some ci
            \<and> request_value ci (greatest_request (hp_throttling h) c) = Inr (v c))"
  shows "updateCoolingDevices env cdevs h
    = Inr (h\<lparr>hp_writes := hp_writes h @ map (\<lambda>c. (device_path h c, to_string (v c))) cdevs\<rparr>)"
  using assms
proof (induction cdevs arbitrary: h)
  case Nil
  then show ?case by (simp add: updateCoolingDevices_def)
next
  case (Cons c cdevs)
  let ?h = "h\<lparr>hp_writes := hp_writes h @ [(device_path h c, to_string (v c))]\<rparr>"
  obtain ci where "has (th_cdev_all_request_map (hp_throttling h)) c" "map_of (hp_cdev_info_map h) c = Some ci"
      "request_value ci (greatest_request (hp_throttling h) c) = Inr (v c)"
    using Cons.prems(3) [of c] by auto
  then have "update_cooling_device env c h = Inr ?h"
    by (intro update_cooling_device_write [OF Cons.prems(1) _ _ _ Cons.prems(2)])
  moreover have "device_path ?h = device_path h" by (simp add: device_path_def fun_eq_iff)
  moreover have "updateCoolingDevices env cdevs ?h
      = Inr (?h\<lparr>hp_writes := hp_writes ?h @ map (\<lambda>c. (device_path ?h c, to_string (v c))) cdevs\<rparr>)"
    using Cons.prems by (intro Cons.IH) auto
  ultimately show ?case by (simp add: updateCoolingDevices_def)
qed

definition ex_throttled :: helper_state where
  "ex_throttled = ex_helper\<lparr> hp_throttling := fst (projr ex_computed), hp_cdev_info_map := ex_cdevs,
     hp_cooling_devices := [(''fan'', ''/fan''), (''fan_w'', ''/fan'')] \<rparr>"

theorem updateCoolingDevices_writes_witness:
  "updateCoolingDevices ex_helper_env [''fan''] ex_throttled = Inr (ex_throttled\<lparr>hp_writes := hp_writes ex_throttled
      @ map (\<lambda>c. (device_path ex_throttled c, to_string 3)) [''fan'']\<rparr>)"
proof (rule updateCoolingDevices_writes)
  show "th_reach (hp_throttling ex_throttled)" using ex_computed_reach by (simp add: ex_throttled_def)
  show "he_writes ex_helper_env p t" for p t by (simp add: ex_helper_env_def)
  have "has (th_cdev_all_request_map (hp_throttling ex_throttled)) ''fan''"
    by (simp add: ex_throttled_def ex_computed_eq has_def)
  moreover have "greatest_request (hp_throttling ex_throttled) ''fan'' = 3"
  proof -
    have "getCdevMaxRequest (hp_throttling ex_throttled) ''fan'' = Inr (Some 3)"
      by (simp add: ex_throttled_def ex_computed_eq getCdevMaxRequest_def votes_begin_def)
    then show ?thesis
      using reachable_request [of "hp_throttling ex_throttled" "''fan''"] ex_computed_reach calculation
      by (simp add: ex_throttled_def greatest_request_def)
  qed
  ultimately show "has (th_cdev_all_request_map (hp_throttling ex_throttled)) c
       \<and> (\<exists>ci. map_of (hp_cdev_info_map ex_throttled) c = Some ci
            \<and> request_value ci (greatest_request (hp_throttling ex_throttled) c) = Inr 3)"
    if "c \<in> set [''fan'']" for c
    using that by (simp add: ex_throttled_def ex_cdevs_def ex_cdev_def request_value_def)
qed

end
