(* ===== verification/HelperSetup.thy ===== *)
theory HelperSetup
  imports HelperClaims HelperFrame
begin

text \<open>What the constructor's checks establish, and what they miss.\<close>

section \<open>Every link leads somewhere\<close>

text \<open>What the checks look at: the virtual sensors and the rails that have a status.\<close>

definition shape :: "helper_state \<Rightarrow> (string \<times> VirtualSensorInfo option) list \<times> string list" where
  "shape h = (map (\<lambda>p. (fst p, si_virtual_sensor_info (snd p))) (hp_sensor_info_map h),
     map fst (pf_power_status (hp_power_files h)))"

definition linked_ok :: "helper_state \<Rightarrow> VirtualSensorInfo \<Rightarrow> bool" where
  "linked_ok h vs \<longleftrightarrow> sub_sensors_valid h (vs_linked_sensors vs) (vs_linked_sensors_type vs) = Inr True
     \<and> (vs_backup_sensor vs \<noteq> [] \<longrightarrow> has (hp_sensor_info_map h) (vs_backup_sensor vs))"

text \<open>A sensor that has been checked: it has a status and its links are valid.\<close>

definition checked :: "helper_state \<Rightarrow> string \<Rightarrow> bool" where
  "checked h name \<longleftrightarrow> has (hp_sensor_status_map h) name
     \<and> (\<forall>si vs. map_of (hp_sensor_info_map h) name = Some si \<longrightarrow> si_virtual_sensor_info si = Some vs \<longrightarrow>
          linked_ok h vs)"

lemma keys_of_shape: "shape h' = shape h \<Longrightarrow> map fst (hp_sensor_info_map h') = map fst (hp_sensor_info_map h)"
proof -
  assume "shape h' = shape h"
  then have "map fst (map (\<lambda>p. (fst p, si_virtual_sensor_info (snd p))) (hp_sensor_info_map h'))
      = map fst (map (\<lambda>p. (fst p, si_virtual_sensor_info (snd p))) (hp_sensor_info_map h))"
    by (simp add: shape_def)
  then show ?thesis by (simp add: comp_def)
qed

lemma isSubSensorValid_shape: "shape h' = shape h \<Longrightarrow> isSubSensorValid h' n t = isSubSensorValid h n t"
proof -
  assume s: "shape h' = shape h"
  have "set (map fst (hp_sensor_info_map h')) = set (map fst (hp_sensor_info_map h))"
    using keys_of_shape [OF s] by simp
  moreover have "set (map fst (pf_power_status (hp_power_files h'))) = set (map fst (pf_power_status (hp_power_files h)))"
    using s by (simp add: shape_def)
  ultimately show ?thesis
    by (simp add: isSubSensorValid_def has_iff_in_keys split: SensorFusionType.split)
qed

lemma sub_sensors_valid_shape:
  assumes "shape h' = shape h"
  shows "sub_sensors_valid h' ns ts = sub_sensors_valid h ns ts"
proof (induction ns arbitrary: ts)
  case Nil
  then show ?case by simp
next
  case (Cons n ns)
  then show ?case by (cases ts) (simp_all add: isSubSensorValid_shape [OF assms])
qed

lemma linked_ok_shape:
  assumes "shape h' = shape h"
  shows "linked_ok h' vs = linked_ok h vs"
  using isSubSensorValid_shape [OF assms, of _ SENSOR]
  by (simp add: linked_ok_def sub_sensors_valid_shape [OF assms] isSubSensorValid_def)

lemma virtual_of_shape:
  assumes "shape h' = shape h"
  shows "map_option si_virtual_sensor_info (map_of (hp_sensor_info_map h') n)
       = map_option si_virtual_sensor_info (map_of (hp_sensor_info_map h) n)"
  using assms unfolding shape_def prod.inject map_of_map_snd [symmetric] by simp

lemma checked_shape:
  assumes "shape h' = shape h" and "has (hp_sensor_status_map h) n \<Longrightarrow> has (hp_sensor_status_map h') n"
  shows "checked h n \<Longrightarrow> checked h' n"
  using assms(2) virtual_of_shape [OF assms(1), of n] unfolding checked_def linked_ok_shape [OF assms(1)]
  by (cases "map_of (hp_sensor_info_map h) n") auto

subsection \<open>The steps\<close>

lemma shape_simps [simp]:
  "shape (h\<lparr>hp_sensor_status_map := m\<rparr>) = shape h" "shape (h\<lparr>hp_throttling := th\<rparr>) = shape h"
  by (simp_all add: shape_def)

lemma shape_set_sensor:
  "(\<And>s. si_virtual_sensor_info (f s) = si_virtual_sensor_info s) \<Longrightarrow> shape (set_sensor n f h) = shape h"
  unfolding set_sensor_def
  by (cases "map_of (hp_sensor_info_map h) n") (simp_all add: shape_def map_put_same)

lemma set_sensor_status [simp]: "hp_sensor_status_map (set_sensor n f h) = hp_sensor_status_map h"
  by (simp add: set_sensor_def split: option.split)

lemma watch_all_shape:
  "watch_all ns h = (b, h') \<Longrightarrow> shape h' = shape h \<and> hp_sensor_status_map h' = hp_sensor_status_map h"
proof (induction ns arbitrary: h)
  case Nil
  then show ?case by simp
next
  case (Cons n ns)
  have "shape (set_sensor n (\<lambda>si. si\<lparr>si_is_watch := True\<rparr>) h) = shape h" by (rule shape_set_sensor) simp
  with Cons show ?case by (auto split: if_splits)
qed

lemma powerSamplingSwitch_keys:
  "powerSamplingSwitch r b pf = Inr pf' \<Longrightarrow> map fst (pf_power_status pf') = map fst (pf_power_status pf)"
  by (auto simp: powerSamplingSwitch_def Let_def at_key_Inr_iff keys_put_present has_def split: if_splits)

lemma pause_rails_shape:
  assumes "pause_rails name h = Inr h'"
  shows "shape h' = shape h \<and> hp_sensor_status_map h' = hp_sensor_status_map h"
proof (cases "map_of (hp_power_rail_switch_map h) name")
  case None
  then show ?thesis using assms by (simp add: pause_rails_def)
next
  case (Some rails)
  then obtain pf where pf: "foldE (\<lambda>r. powerSamplingSwitch r False) rails (hp_power_files h) = Inr pf"
      "h' = h\<lparr>hp_power_files := pf\<rparr>"
    using assms by (auto simp: pause_rails_def)
  have "map fst (pf_power_status pf) = map fst (pf_power_status (hp_power_files h))"
    by (rule foldE_inv [OF pf(1)]) (auto dest: powerSamplingSwitch_keys)
  then show ?thesis using pf(2) by (simp add: shape_def)
qed

lemma init_throttling_shape:
  assumes "init_throttling name si h = Inr (b, h')"
  shows "shape h' = shape h \<and> hp_sensor_status_map h' = hp_sensor_status_map h"
proof -
  have "shape (set_sensor name (\<lambda>s. s\<lparr>si_throttling_info := ti\<rparr>) h1) = shape h1" for ti h1
    by (rule shape_set_sensor) simp
  then show ?thesis
    using assms unfolding init_throttling_def
    by (auto split: option.splits prod.splits bool.splits)
qed

lemma init_virtual_true:
  assumes "init_virtual name si (ret, h) = Inr c" and "fst (ctl_state c)"
  shows "\<exists>h'. c = Next (True, h') \<and> ret \<and> shape h' = shape h \<and> hp_sensor_status_map h' = hp_sensor_status_map h
     \<and> (\<forall>vs. si_virtual_sensor_info si = Some vs \<longrightarrow> linked_ok h vs)"
proof (cases "si_virtual_sensor_info si")
  case None
  then show ?thesis using assms by (cases ret) (auto simp: init_virtual_def)
next
  case (Some vs)
  obtain l where l: "sub_sensors_valid h (vs_linked_sensors vs) (vs_linked_sensors_type vs) = Inr l"
    using assms(1) Some by (auto simp: init_virtual_def)
  have b: "vs_backup_sensor vs \<noteq> [] \<Longrightarrow> has (hp_sensor_info_map h) (vs_backup_sensor vs)"
    using assms Some l by (auto simp: init_virtual_def isSubSensorValid_def split: if_splits)
  obtain t1 h1 where w1: "(if si_is_watch si then watch_all (vs_trigger_sensors vs) h else (True, h)) = (t1, h1)"
    by fastforce
  obtain t2 h2 where w2: "watch_all (si_severity_reference si) h1 = (t2, h2)" by fastforce
  have c: "bindE (pause_rails name h2) (\<lambda>h3. Inr (Next (ret \<and> l \<and> t1 \<and> t2, h3))) = Inr c"
    using assms(1) Some l w1 w2 b by (auto simp: init_virtual_def isSubSensorValid_def split: if_splits)
  then obtain h3 where h3: "pause_rails name h2 = Inr h3" "c = Next (ret \<and> l \<and> t1 \<and> t2, h3)" by auto
  have "shape h1 = shape h \<and> hp_sensor_status_map h1 = hp_sensor_status_map h"
    using w1 watch_all_shape by (auto split: if_splits)
  then have "shape h3 = shape h \<and> hp_sensor_status_map h3 = hp_sensor_status_map h"
    using watch_all_shape [OF w2] pause_rails_shape [OF h3(1)] by simp
  moreover have "ret \<and> l \<and> t1 \<and> t2" using assms(2) h3(2) by simp
  ultimately show ?thesis using h3(2) l b Some by (auto simp: linked_ok_def)
qed

lemma init_sensor_true:
  assumes "init_sensor name (ret, h) = Inr c" and "fst (ctl_state c)"
  shows "\<exists>h'. c = Next (True, h') \<and> ret \<and> shape h' = shape h
     \<and> (\<forall>n. has (hp_sensor_status_map h) n \<or> n = name \<longrightarrow> has (hp_sensor_status_map h') n) \<and> checked h' name
     \<and> hp_sensor_status_map h' = put name fresh_sensor_status (hp_sensor_status_map h)"
proof -
  let ?h1 = "h\<lparr>hp_sensor_status_map := put name fresh_sensor_status (hp_sensor_status_map h)\<rparr>"
  obtain si0 ok h2 where i: "init_throttling name si0 ?h1 = Inr (ok, h2)"
    and rest: "(if \<not> ok then Inr (Break (False, h2))
         else
           bindE (at_key (hp_sensor_info_map h2) name) (\<lambda>si.
           bindE (init_virtual name si (ret, h2)) (\<lambda>c.
           case c of
             Next (ret', h3) \<Rightarrow>
               bindE (predictor_usable si h3) (\<lambda>usable.
               Inr (if usable then Next (ret', h3) else Break (False, h3)))
           | _ \<Rightarrow> Inr c))) = Inr c"
    using assms(1) unfolding init_sensor_def Let_def by auto
  have ok: ok using rest assms(2) by (auto split: if_splits)
  obtain si c1 where si: "map_of (hp_sensor_info_map h2) name = Some si" and v: "init_virtual name si (ret, h2) = Inr c1"
    and c: "(case c1 of
             Next (ret', h3) \<Rightarrow>
               bindE (predictor_usable si h3) (\<lambda>usable.
               Inr (if usable then Next (ret', h3) else Break (False, h3)))
           | _ \<Rightarrow> Inr c1) = Inr c"
    using rest ok by (auto simp: at_key_Inr_iff)
  have "fst (ctl_state c1)" using c assms(2) by (auto split: ctl.splits if_splits prod.splits)
  then obtain h3 where h3: "c1 = Next (True, h3)" "ret" "shape h3 = shape h2" "hp_sensor_status_map h3 = hp_sensor_status_map h2"
      "\<forall>vs. si_virtual_sensor_info si = Some vs \<longrightarrow> linked_ok h2 vs"
    using init_virtual_true [OF v] by auto
  have c3: "c = Next (True, h3)" using c h3(1) assms(2) by (auto split: if_splits)
  have sh: "shape h3 = shape h" and st: "hp_sensor_status_map h3 = put name fresh_sensor_status (hp_sensor_status_map h)"
    using init_throttling_shape [OF i] h3 by simp_all
  have "checked h3 name"
    using si h3(5) virtual_of_shape [OF h3(3), of name]
    by (auto simp: checked_def st linked_ok_shape [OF h3(3)])
  then show ?thesis using c3 h3(2) sh st by simp
qed

lemma init_sensors_false:
  "loopE init_sensor names (False, h) = Inr c \<Longrightarrow> \<not> fst (ctl_state c)"
proof (induction names arbitrary: h)
  case Nil
  then show ?case by auto
next
  case (Cons n ns)
  obtain c0 where c0: "init_sensor n (False, h) = Inr c0"
    using Cons.prems by (cases "init_sensor n (False, h)") auto
  have "\<not> fst (ctl_state c0)" using init_sensor_true [OF c0] by auto
  then show ?case using Cons c0 by (cases c0) auto
qed

lemma init_sensors_loop:
  assumes "loopE init_sensor names (ret, h) = Inr c" and "fst (ctl_state c)"
  shows "\<exists>h'. ctl_state c = (True, h') \<and> shape h' = shape h
     \<and> (\<forall>n. checked h n \<or> n \<in> set names \<longrightarrow> checked h' n)
     \<and> (\<forall>n. map_of (hp_sensor_status_map h) n = Some fresh_sensor_status \<or> n \<in> set names \<longrightarrow>
          map_of (hp_sensor_status_map h') n = Some fresh_sensor_status)"
  using assms
proof (induction names arbitrary: ret h)
  case Nil
  then show ?case by auto
next
  case (Cons n ns)
  obtain c0 where c0: "init_sensor n (ret, h) = Inr c0"
    using Cons.prems(1) by (cases "init_sensor n (ret, h)") auto
  have t: "fst (ctl_state c0)"
  proof (cases c0)
    case (Next s)
    have "loopE init_sensor ns s = Inr c" using Cons.prems(1) c0 Next by simp
    then have "fst s" using Cons.prems(2) init_sensors_false [of ns "snd s" c] by (cases s; cases "fst s") auto
    then show ?thesis using Next by simp
  qed (use Cons.prems c0 in auto)
  obtain h1 where h1: "c0 = Next (True, h1)" "shape h1 = shape h"
      "\<forall>m. has (hp_sensor_status_map h) m \<or> m = n \<longrightarrow> has (hp_sensor_status_map h1) m" "checked h1 n"
      "hp_sensor_status_map h1 = put n fresh_sensor_status (hp_sensor_status_map h)"
    using init_sensor_true [OF c0 t] by blast
  have keep: "checked h m \<Longrightarrow> checked h1 m" for m
    by (rule checked_shape [OF h1(2)]) (use h1(3) in auto)
  have "loopE init_sensor ns (True, h1) = Inr c" using Cons.prems(1) c0 h1(1) by simp
  from Cons.IH [OF this Cons.prems(2)] show ?case using h1(2,4,5) keep by auto
qed

text \<open>
  C6: When the loop of the constructor over the sensors ends with success, every sensor has a status,
  every sensor and every rail that a virtual sensor links to exists, and so does its backup sensor:
  reading along the links never asks for something unknown.
\<close>

theorem init_sensors_establishes:
  assumes "init_sensors ret h = Inr (True, h')" and "map_of (hp_sensor_info_map h') name = Some si"
  shows "has (hp_sensor_status_map h') name
     \<and> (\<forall>vs. si_virtual_sensor_info si = Some vs \<longrightarrow>
          sub_sensors_valid h' (vs_linked_sensors vs) (vs_linked_sensors_type vs) = Inr True
          \<and> (vs_backup_sensor vs \<noteq> [] \<longrightarrow> has (hp_sensor_status_map h') (vs_backup_sensor vs)))"
proof -
  obtain c where c: "loopE init_sensor (map fst (hp_sensor_info_map h)) (ret, h) = Inr c" "ctl_state c = (True, h')"
    using assms(1) by (auto simp: init_sensors_def)
  have l: "shape h' = shape h" "\<forall>n \<in> set (map fst (hp_sensor_info_map h)). checked h' n"
    using init_sensors_loop [OF c(1)] c(2) by force+
  have all: "checked h' n" if "has (hp_sensor_info_map h') n" for n
    using l(2) that keys_of_shape [OF l(1)] unfolding has_iff_in_keys set_map [symmetric] by (metis list.set_map)
  have "checked h' name" using all assms(2) by (simp add: has_def)
  moreover have "has (hp_sensor_status_map h') n" if "has (hp_sensor_info_map h') n" for n
    using all [OF that] by (simp add: checked_def)
  ultimately show ?thesis using assms(2) by (auto simp: checked_def linked_ok_def)
qed

text \<open>The statuses are the constructor's, so the loop starts without any.\<close>

lemma ex_init_sensors: "\<exists>h'. init_sensors True (ex_helper\<lparr>hp_sensor_status_map := []\<rparr>) = Inr (True, h')
    \<and> map_of (hp_sensor_info_map h') ''skin'' = Some (ex_skin [''cpu''])"
  by (simp add: init_sensors_def init_sensor_def init_throttling_def init_virtual_def predictor_usable_def
      pause_rails_def ex_helper_defs ex_sensor_def isSubSensorValid_def has_def put_def at_key_def)

theorem init_sensors_establishes_witness:
  "\<exists>h'. init_sensors True (ex_helper\<lparr>hp_sensor_status_map := []\<rparr>) = Inr (True, h')
     \<and> has (hp_sensor_status_map h') ''skin''
     \<and> sub_sensors_valid h' [''cpu''] [SENSOR] = Inr True"
proof -
  obtain h' where h': "init_sensors True (ex_helper\<lparr>hp_sensor_status_map := []\<rparr>) = Inr (True, h')"
      "map_of (hp_sensor_info_map h') ''skin'' = Some (ex_skin [''cpu''])"
    using ex_init_sensors by blast
  show ?thesis using init_sensors_establishes [OF h'] h'(1) by (auto simp: ex_skin_def ex_virtual_def)
qed

section \<open>What the checks miss\<close>

text \<open>The first link of a virtual sensor is a sensor of \<open>C\<close>.\<close>

definition first_link_in :: "string set \<Rightarrow> SensorInfo smap \<Rightarrow> string \<Rightarrow> bool" where
  "first_link_in C sensors c \<longleftrightarrow>
     (\<exists>si vs n ns ts. map_of sensors c = Some si \<and> si_virtual_sensor_info si = Some vs
        \<and> vs_linked_sensors vs = n # ns \<and> vs_linked_sensors_type vs = SENSOR # ts \<and> n \<in> C)"

lemma fresh_reads_again:
  assumes "first_link_in C (hp_sensor_info_map h) c" and "map_of (hp_sensor_status_map h) c = Some fresh_sensor_status"
  shows "reads_again env h C c"
  using assms by (auto simp: first_link_in_def reads_again_def fresh_sensor_status_def cache_fresh_def)

text \<open>
  C3: The checks of the constructor accept links that form a cycle, and such a sensor cannot be
  read. Take virtual sensors each of which has as its \<^emph>\<open>first\<close> link a sensor among them. When
  the loop of the constructor over the sensors ends with success, then reading one of them, with the
  sensors and the statuses as the constructor has left them, gives no result whatever the fuel: the
  recursion of the code does not end.
\<close>

theorem cyclic_links_diverge:
  assumes "init_sensors ret h0 = Inr (True, h)"
    and "\<And>c. c \<in> C \<Longrightarrow> first_link_in C (hp_sensor_info_map h0) c"
    and "hp_sensor_info_map h' = hp_sensor_info_map h" and "hp_sensor_status_map h' = hp_sensor_status_map h"
    and "c \<in> C"
  shows "readThermalSensor fuel env c force temp log h' = Inl Diverges"
proof (rule first_link_diverges [OF _ assms(5)], rule ballI)
  fix d
  assume d: "d \<in> C"
  obtain ctl where ctl: "loopE init_sensor (map fst (hp_sensor_info_map h0)) (ret, h0) = Inr ctl" "ctl_state ctl = (True, h)"
    using assms(1) by (auto simp: init_sensors_def)
  have sh: "shape h = shape h0"
    and fresh: "\<And>n. n \<in> set (map fst (hp_sensor_info_map h0)) \<Longrightarrow> map_of (hp_sensor_status_map h) n = Some fresh_sensor_status"
    using init_sensors_loop [OF ctl(1)] ctl(2) by force+
  obtain si where si: "map_of (hp_sensor_info_map h0) d = Some si" using assms(2) [OF d] by (auto simp: first_link_in_def)
  then have "d \<in> set (map fst (hp_sensor_info_map h0))" using map_of_SomeD by force
  note st = fresh [OF this]
  have "first_link_in C (hp_sensor_info_map h) d"
    using assms(2) [OF d] virtual_of_shape [OF sh, of d] si unfolding first_link_in_def by force
  then show "reads_again env h' C d" using fresh_reads_again assms(3,4) st by metis
qed

lemma ex_cyclic_accepted:
  "\<exists>h. init_sensors True (ex_cyclic\<lparr>hp_sensor_status_map := []\<rparr>) = Inr (True, h)"
  by (simp add: init_sensors_def init_sensor_def init_throttling_def init_virtual_def predictor_usable_def
      pause_rails_def ex_helper_defs ex_sensor_def isSubSensorValid_def has_def put_def at_key_def)

theorem cyclic_links_diverge_witness:
  "\<exists>h. init_sensors True (ex_cyclic\<lparr>hp_sensor_status_map := []\<rparr>) = Inr (True, h)
     \<and> readThermalSensor 1000 ex_helper_env ''a'' False NaN [] h = Inl Diverges"
proof -
  obtain h where h: "init_sensors True (ex_cyclic\<lparr>hp_sensor_status_map := []\<rparr>) = Inr (True, h)"
    using ex_cyclic_accepted by blast
  have "readThermalSensor 1000 ex_helper_env ''a'' False NaN [] h = Inl Diverges"
    by (rule cyclic_links_diverge [OF h, of "{''a'', ''b''}"])
      (auto simp: first_link_in_def ex_helper_defs)
  then show ?thesis using h by blast
qed

lemma init_trip_of_info:
  assumes "init_trip_of env path_map genl m (h, ms) = Inr (h', ms')" and "map_of (hp_sensor_info_map h) n = Some si"
  shows "\<exists>si'. map_of (hp_sensor_info_map h') n = Some si' \<and> si_is_watch si' = si_is_watch si
     \<and> si_virtual_sensor_info si' = si_virtual_sensor_info si"
proof -
  have set: "\<exists>si'. map_of (hp_sensor_info_map (set_sensor m setMinTimeout h1)) n = Some si'
      \<and> si_is_watch si' = si_is_watch si \<and> si_virtual_sensor_info si' = si_virtual_sensor_info si"
    if "hp_sensor_info_map h1 = hp_sensor_info_map h" for h1
    using that assms(2) by (auto simp: set_sensor_def setMinTimeout_def split: option.split)
  show ?thesis
    using assms set unfolding init_trip_of_def prod.case
    by (auto simp: Let_def split: if_splits prod.splits)
qed

lemma init_trip_of_path:
  assumes "init_trip_of env path_map genl n (h, ms) = Inr r" and "map_of (hp_sensor_info_map h) n = Some si"
    and "si_is_watch si" and "si_virtual_sensor_info si = None"
  shows "has path_map n"
  using assms unfolding init_trip_of_def by (auto simp: at_key_Inr_iff has_def)

text \<open>
  A watched physical sensor that is named otherwise than its thermal zone stops the service: its
  path is found under the name of the zone (\<open>initializeSensorMap\<close>), but \<open>initializeTrip\<close> looks the
  path up under the name of the sensor and throws.
\<close>

theorem initializeTrip_needs_zone_name:
  assumes "map_of (hp_sensor_info_map h) n = Some si" and "si_is_watch si" and "si_virtual_sensor_info si = None"
    and "\<not> has path_map n"
  shows "\<nexists>r. initializeTrip env path_map genl h = Inr r"
proof
  assume "\<exists>r. initializeTrip env path_map genl h = Inr r"
  then obtain r where r: "foldE (init_trip_of env path_map genl) (map fst (hp_sensor_info_map h)) (h, []) = Inr r"
    by (auto simp: initializeTrip_def)
  have "n \<in> set (map fst (hp_sensor_info_map h))" using map_of_SomeD [OF assms(1)] by force
  then obtain xs ys where xs: "map fst (hp_sensor_info_map h) = xs @ n # ys" by (meson split_list)
  obtain h1 ms where p: "foldE (init_trip_of env path_map genl) xs (h, []) = Inr (h1, ms)"
    and q: "foldE (init_trip_of env path_map genl) (n # ys) (h1, ms) = Inr r"
    using r unfolding xs foldE_append by (auto simp del: foldE.simps)
  let ?I = "\<lambda>s. \<exists>si'. map_of (hp_sensor_info_map (fst s)) n = Some si' \<and> si_is_watch si' \<and> si_virtual_sensor_info si' = None"
  obtain r1 where r1: "init_trip_of env path_map genl n (h1, ms) = Inr r1" using q by auto
  have "?I (h1, ms)"
  proof (rule foldE_inv [OF p])
    show "?I (h, [])" using assms by simp
    show "?I s'" if "?I s" and "init_trip_of env path_map genl x s = Inr s'" for x s s'
      using that init_trip_of_info [of env path_map genl x "fst s" "snd s" "fst s'" "snd s'"] by fastforce
  qed
  then obtain si' where "map_of (hp_sensor_info_map h1) n = Some si'" "si_is_watch si'" "si_virtual_sensor_info si' = None"
    by auto
  then show False using init_trip_of_path [OF r1] assms(4) by blast
qed

definition ex_zone :: SensorInfo where
  "ex_zone = ex_cpu\<lparr>si_zone_name := ''cpu-zone''\<rparr>"

theorem initializeTrip_needs_zone_name_witness:
  "fst (initializeSensorMap [(''cpu-zone'', ''/zone'')] [(''cpu'', ex_zone)] []) \<and>
   (\<nexists>r. initializeTrip ex_helper_env [(''cpu-zone'', ''/zone'')] False (ex_helper_of [(''cpu'', ex_zone)]) = Inr r)"
proof (rule conjI)
  show "fst (initializeSensorMap [(''cpu-zone'', ''/zone'')] [(''cpu'', ex_zone)] [])"
    by (simp add: ex_zone_def ex_helper_defs ex_sensor_def addThermalFile_def has_def)
  show "\<nexists>r. initializeTrip ex_helper_env [(''cpu-zone'', ''/zone'')] False (ex_helper_of [(''cpu'', ex_zone)]) = Inr r"
    by (rule initializeTrip_needs_zone_name [where n = "''cpu''" and si = ex_zone])
      (simp_all add: ex_zone_def ex_helper_defs ex_sensor_def has_def)
qed

text \<open>
  A severity reference of a physical sensor is never checked: the constructor's test of the
  references is among those for virtual sensors. When the sensor it names does not exist, the first
  read of the temperature that gets as far as the severity throws.
\<close>

theorem unknown_severity_reference_throws:
  assumes "map_of (hp_sensor_info_map h) name = Some si" and "si_virtual_sensor_info si = None"
    and "si_severity_reference si = r # rs" and "\<not> has (hp_sensor_status_map h) r"
    and "has (hp_sensor_status_map h) name"
    and "readThermalSensor (Suc k) env name b NaN [] h = Inr (OKAY, t, log, h')" and "\<not> isnan t"
  shows "init_virtual name si (ret, h) = Inr (Next (ret, h))
    \<and> readTemperature (Suc k) (Suc (Suc m)) env name b h = Inl OutOfRange"
proof -
  have k: "kept h' = kept h" using readThermalSensor_kept [OF assms(6)] by simp
  have "map_of (hp_sensor_info_map h') name = Some si" using assms(1) by (simp add: kept_info [OF k])
  moreover have "at_key (hp_sensor_status_map h') r = Inl OutOfRange"
    using kept_status [OF k, of r] assms(4) by (auto simp: has_def at_key_def)
  ultimately show ?thesis
    using assms(2,3,6,7) has_at_key [OF assms(5)]
    by (auto simp: init_virtual_def report_temperature_def getSeverityReference_def simp del: readThermalSensor.simps)
qed

definition ex_referring :: helper_state where
  "ex_referring = ex_emulated (ex_cpu\<lparr>si_severity_reference := [''gpu'']\<rparr>)"

theorem unknown_severity_reference_throws_witness:
  "readTemperature 1 2 ex_helper_env ''cpu'' False ex_referring = Inl OutOfRange"
proof -
  have r: "readThermalSensor (Suc 0) ex_helper_env ''cpu'' False NaN [] ex_referring
      = Inr (OKAY, Fin 0, [(''cpu'', Fin 0)], ex_referring)"
    by (simp add: ex_referring_def ex_helper_defs read_sensor_with_def put_def)
  have "init_virtual ''cpu'' (ex_cpu\<lparr>si_severity_reference := [''gpu'']\<rparr>) (True, ex_referring) = Inr (Next (True, ex_referring))
    \<and> readTemperature (Suc 0) (Suc (Suc 0)) ex_helper_env ''cpu'' False ex_referring = Inl OutOfRange"
    by (rule unknown_severity_reference_throws [OF _ _ _ _ _ r, where r = "''gpu''" and rs = "[]"])
      (simp_all add: ex_referring_def ex_helper_defs ex_sensor_def has_def)
  then show ?thesis by (simp add: numeral_2_eq_2 del: readTemperature.simps)
qed

end
