(* ===== verification/Bytes.thy ===== *)
theory Bytes
  imports Prelude "HOL-Library.Word"
begin

unbundle bit_operations_syntax

text \<open>
  Bytes and objects in memory, as the Wi-Fi HAL reads and writes them. An object (a message from the
  driver, an allocated buffer, an array inside a record) is the list of its bytes, and a pointer into
  it is an offset. Reading or writing outside the object is undefined behaviour (\<open>Inl UB\<close>).

  A number in memory is little-endian, as on the ARM targets the HAL is built for, and the bit-fields
  of a struct are allocated from the least significant bit on, which is what its ABI prescribes.
\<close>

type_synonym u8 = "8 word"
type_synonym u16 = "16 word"
type_synonym u32 = "32 word"
type_synonym u64 = "64 word"
type_synonym bytes = "u8 list"

named_theorems bytes_simps \<open>lengths and contents of byte strings\<close>

section \<open>Numbers in memory\<close>

text \<open>The \<open>n\<close> bytes that hold the unsigned number \<open>v\<close>; higher bits are cut off.\<close>

fun le :: "nat \<Rightarrow> nat \<Rightarrow> bytes" where
  "le 0 v = []"
| "le (Suc n) v = word_of_nat v # le n (v div 256)"

fun unle :: "bytes \<Rightarrow> nat" where
  "unle [] = 0"
| "unle (b # bs) = unat b + 256 * unle bs"

lemma length_le [simp, bytes_simps]: "length (le n v) = n"
  by (induction n arbitrary: v) auto

lemma unat_u8_less [simp]: "unat (b :: u8) < 256"
  using unsigned_less [where ?'a = nat, of b] by simp

lemma unat_word_of_nat8: "unat (word_of_nat v :: u8) = v mod 256"
  by (simp add: unat_of_nat)

lemma unle_le: "unle (le n v) = v mod 256 ^ n"
proof (induction n arbitrary: v)
  case 0
  then show ?case by simp
next
  case (Suc n)
  have "v mod (256 * 256 ^ n) = 256 * (v div 256 mod 256 ^ n) + v mod 256"
    by (rule mod_mult2_eq)
  then show ?case using Suc by (simp add: unat_word_of_nat8)
qed

lemma le_unle: "le (length bs) (unle bs) = bs"
proof (induction bs)
  case Nil
  then show ?case by simp
next
  case (Cons b bs)
  have "unat b < 256" by simp
  then have "(unat b + 256 * unle bs) div 256 = unle bs" by simp
  moreover have "(word_of_nat (unat b + 256 * unle bs) :: u8) = b"
    using \<open>unat b < 256\<close> by (simp only: word_unat_eq_iff unat_word_of_nat8 mod_mult_self2 mod_less)
  ultimately show ?case using Cons by simp
qed

lemma unle_less: "unle bs < 256 ^ length bs"
proof (induction bs)
  case Nil
  then show ?case by simp
next
  case (Cons b bs)
  have "unat b + 256 * unle bs < 256 + 256 * unle bs" by simp
  also have "\<dots> = 256 * Suc (unle bs)" by simp
  also have "\<dots> \<le> 256 * 256 ^ length bs" by (rule mult_le_mono2) (use Cons in simp)
  finally show ?case by simp
qed

lemma unle_inj: "length xs = length ys \<Longrightarrow> unle xs = unle ys \<Longrightarrow> xs = ys"
  by (metis le_unle)

section \<open>Reading\<close>

text \<open>\<open>p[i]\<close> on a byte pointer, and \<open>n\<close> bytes from \<open>p + i\<close> on.\<close>

definition rd8 :: "bytes \<Rightarrow> nat \<Rightarrow> u8 result" where
  "rd8 b i = (if i < length b then Inr (b ! i) else Inl UB)"

definition rd_bytes :: "bytes \<Rightarrow> nat \<Rightarrow> nat \<Rightarrow> bytes result" where
  "rd_bytes b i n = (if i + n \<le> length b then Inr (take n (drop i b)) else Inl UB)"

text \<open>A little-endian number of \<open>n\<close> bytes.\<close>

definition rd_num :: "nat \<Rightarrow> bytes \<Rightarrow> nat \<Rightarrow> nat result" where
  "rd_num n b i = bindE (rd_bytes b i n) (\<lambda>x. Inr (unle x))"

lemma rd8_ok [simp]: "i < length b \<Longrightarrow> rd8 b i = Inr (b ! i)"
  by (simp add: rd8_def)

lemma rd_bytes_ok [simp]: "i + n \<le> length b \<Longrightarrow> rd_bytes b i n = Inr (take n (drop i b))"
  by (simp add: rd_bytes_def)

lemma rd_bytes_Inr_iff: "rd_bytes b i n = Inr x \<longleftrightarrow> i + n \<le> length b \<and> x = take n (drop i b)"
  by (auto simp: rd_bytes_def)

lemma rd_num_ok: "i + n \<le> length b \<Longrightarrow> rd_num n b i = Inr (unle (take n (drop i b)))"
  by (simp add: rd_num_def)

section \<open>Writing\<close>

text \<open>\<open>memcpy(p + i, bs, length bs)\<close>\<close>

definition wr_bytes :: "bytes \<Rightarrow> nat \<Rightarrow> bytes \<Rightarrow> bytes result" where
  "wr_bytes b i bs =
     (if i + length bs \<le> length b then Inr (take i b @ bs @ drop (i + length bs) b) else Inl UB)"

text \<open>\<open>p[i] = x\<close>\<close>

definition wr8 :: "bytes \<Rightarrow> nat \<Rightarrow> u8 \<Rightarrow> bytes result" where
  "wr8 b i x = (if i < length b then Inr (b[i := x]) else Inl UB)"

lemma length_wr_bytes: "wr_bytes b i bs = Inr b' \<Longrightarrow> length b' = length b"
  by (auto simp: wr_bytes_def split: if_splits)

lemma wr8_ok [simp]: "i < length b \<Longrightarrow> wr8 b i x = Inr (b[i := x])"
  by (simp add: wr8_def)

text \<open>
  \<open>memcpy\<close> from a pointer into an array of the record that is filled in: \<open>n\<close> bytes of \<open>src\<close> replace the
  first \<open>n\<close> of the array. The pointer may be \<open>NULL\<close> (\<open>None\<close>), which is harmless when nothing is copied.
\<close>

definition memcpy :: "bytes \<Rightarrow> bytes option \<Rightarrow> nat \<Rightarrow> bytes result" where
  "memcpy dst src n =
     (case src of
        None \<Rightarrow> if n = 0 then Inr dst else Inl UB
      | Some s \<Rightarrow> if n \<le> length s \<and> n \<le> length dst then Inr (take n s @ drop n dst) else Inl UB)"

lemma memcpy_ok: "n \<le> length s \<Longrightarrow> n \<le> length dst \<Longrightarrow> memcpy dst (Some s) n = Inr (take n s @ drop n dst)"
  by (simp add: memcpy_def)

lemma memcpy_0 [simp]: "memcpy dst src 0 = Inr dst"
  by (cases src) (simp_all add: memcpy_def)

lemma length_memcpy: "memcpy dst src n = Inr dst' \<Longrightarrow> length dst' = length dst"
  by (auto simp: memcpy_def split: option.splits if_splits)

section \<open>Bit-fields\<close>

text \<open>
  The unit that a list of bit-fields, each with its width and the value assigned to it, makes up; an
  assignment keeps the low bits of the value.
\<close>

fun pack_bits :: "(nat \<times> nat) list \<Rightarrow> nat" where
  "pack_bits [] = 0"
| "pack_bits ((w, v) # fs) = v mod 2 ^ w + 2 ^ w * pack_bits fs"

text \<open>The field of width \<open>w\<close> that starts at bit \<open>off\<close>.\<close>

definition bit_field :: "nat \<Rightarrow> nat \<Rightarrow> nat \<Rightarrow> nat" where
  "bit_field off w x = x div 2 ^ off mod 2 ^ w"

lemma bit_field_pack_hd: "bit_field 0 w (pack_bits ((w, v) # fs)) = v mod 2 ^ w"
  by (simp add: bit_field_def)

lemma bit_field_pack_tl:
  "bit_field (w + off) w' (pack_bits ((w, v) # fs)) = bit_field off w' (pack_bits fs)"
proof -
  have "(v mod 2 ^ w + 2 ^ w * pack_bits fs) div 2 ^ w = pack_bits fs" by simp
  then show ?thesis by (simp add: bit_field_def power_add div_mult2_eq del: div_mult_self2)
qed

lemma pack_bits_less: "pack_bits fs < 2 ^ sum_list (map fst fs)"
proof (induction fs)
  case Nil
  then show ?case by simp
next
  case (Cons f fs)
  obtain w v where f: "f = (w, v)" by (cases f)
  have "v mod 2 ^ w + 2 ^ w * pack_bits fs < 2 ^ w + 2 ^ w * pack_bits fs" by simp
  also have "\<dots> = 2 ^ w * Suc (pack_bits fs)" by simp
  also have "\<dots> \<le> 2 ^ w * 2 ^ sum_list (map fst fs)" by (rule mult_le_mono2) (use Cons in simp)
  finally show ?case by (simp add: f power_add)
qed

section \<open>Masks\<close>

text \<open>\<open>x \<and> (1 << n)\<close> as a condition.\<close>

definition bit_set :: "nat \<Rightarrow> nat \<Rightarrow> bool" where
  "bit_set n x \<longleftrightarrow> odd (x div 2 ^ n)"

text \<open>C's conversion of a condition to a number.\<close>

definition of_cond :: "bool \<Rightarrow> nat" where
  "of_cond b = (if b then 1 else 0)"

lemma of_cond_simps [simp]: "of_cond True = 1" "of_cond False = 0"
  by (simp_all add: of_cond_def)

end
