(* ===== verification/NlCommand.thy ===== *)
theory NlCommand
  imports Bytes
begin

text \<open>
  The netlink commands of the Wi-Fi HAL (\<open>wlan/wifi_hal/cpp_bindings.h\<close> and \<open>cpp_bindings.cpp\<close>): the
  message that \<open>WifiRequest\<close> assembles, the translation of kernel errors by \<open>WifiCommand\<close>, and the
  vendor commands.

  libnl, the C library's allocator and the numbers of the kernel's nl80211 header are not part of the
  repository: they are the fields of the record \<open>libnl\<close>, which every operation takes as a parameter.
  A message is a value of the type \<open>'m\<close>, of which the model only knows what these functions do to it.
\<close>

datatype WifiError =
    WIFI_SUCCESS | WIFI_ERROR_UNKNOWN | WIFI_ERROR_UNINITIALIZED | WIFI_ERROR_NOT_SUPPORTED
  | WIFI_ERROR_NOT_AVAILABLE | WIFI_ERROR_INVALID_ARGS | WIFI_ERROR_INVALID_REQUEST_ID
  | WIFI_ERROR_TIMED_OUT | WIFI_ERROR_OUT_OF_MEMORY | WIFI_ERROR_BUSY | WIFI_ERROR_TOO_MANY_REQUESTS

text \<open>
  \<open>nl_malloc\<close>: whether \<open>malloc\<close> of that size succeeds; \<open>nl_alloc\<close>: the fresh message of \<open>nlmsg_alloc\<close>,
  \<open>None\<close> for \<open>NULL\<close>; \<open>nl_genlmsg_put\<close>: with the family and the command; \<open>nl_put\<close>: \<open>nla_put\<close>, which
  returns a negative number when the message has no room; \<open>nl_nest_start\<close>: the attribute, or \<open>NULL\<close>;
  \<open>nl_send\<close>: the result of \<open>nl_send_auto_complete\<close>; \<open>nl_replies\<close>: what the handlers of each call of
  \<open>nl_recvmsgs\<close> after it leave in the status variable; \<open>nl_code\<close>: the number of an enumerator of
  \<open>wifi_error\<close>.
\<close>

record 'm libnl =
  nl_malloc :: "nat \<Rightarrow> bool"
  nl_alloc :: "'m option"
  nl_genlmsg_put :: "nat \<Rightarrow> nat \<Rightarrow> 'm \<Rightarrow> 'm"
  nl_put :: "nat \<Rightarrow> bytes \<Rightarrow> 'm \<Rightarrow> int \<times> 'm"
  nl_nest_start :: "nat \<Rightarrow> 'm \<Rightarrow> (nat \<times> 'm) option"
  nl_nest_end :: "nat \<Rightarrow> 'm \<Rightarrow> 'm"
  nl_cb_alloc :: bool
  nl_send :: "'m \<Rightarrow> int"
  nl_replies :: "'m \<Rightarrow> int list"
  nl_if_index :: "string \<Rightarrow> nat"
  nl_code :: "WifiError \<Rightarrow> int"
  NL80211_CMD_VENDOR :: nat
  NL80211_ATTR_VENDOR_ID :: nat
  NL80211_ATTR_VENDOR_SUBCMD :: nat
  NL80211_ATTR_VENDOR_DATA :: nat
  NL80211_ATTR_IFINDEX :: nat

section \<open>WifiRequest\<close>

record 'm WifiRequest =
  rq_family :: nat
  rq_msg :: "'m option"

text \<open>\<open>WifiRequest(int family)\<close>, \<open>destroy\<close>, \<open>create(uint8_t cmd)\<close>\<close>

definition new_request :: "nat \<Rightarrow> 'm WifiRequest" where
  "new_request family = \<lparr>rq_family = family, rq_msg = None\<rparr>"

definition rq_destroy :: "'m WifiRequest \<Rightarrow> 'm WifiRequest" where
  "rq_destroy r = r\<lparr>rq_msg := None\<rparr>"

definition rq_create :: "'m libnl \<Rightarrow> nat \<Rightarrow> 'm WifiRequest \<Rightarrow> int \<times> 'm WifiRequest" where
  "rq_create nl cmd r =
     (case nl_alloc nl of
        Some m \<Rightarrow> (nl_code nl WIFI_SUCCESS,
                   (rq_destroy r)\<lparr>rq_msg := Some (nl_genlmsg_put nl (rq_family r) cmd m)\<rparr>)
      | None \<Rightarrow> (nl_code nl WIFI_ERROR_OUT_OF_MEMORY, rq_destroy r))"

text \<open>
  The \<open>put\<close> functions hand their bytes to \<open>nla_put\<close>, which dereferences the message.
\<close>

definition rq_put :: "'m libnl \<Rightarrow> nat \<Rightarrow> bytes \<Rightarrow> 'm WifiRequest \<Rightarrow> (int \<times> 'm WifiRequest) result" where
  "rq_put nl attr bs r =
     (case rq_msg r of
        None \<Rightarrow> Inl UB
      | Some m \<Rightarrow> (case nl_put nl attr bs m of (e, m) \<Rightarrow> Inr (e, r\<lparr>rq_msg := Some m\<rparr>)))"

definition rq_put_u8 :: "'m libnl \<Rightarrow> nat \<Rightarrow> nat \<Rightarrow> 'm WifiRequest \<Rightarrow> (int \<times> 'm WifiRequest) result" where
  "rq_put_u8 nl attr v = rq_put nl attr (le 1 v)"

definition rq_put_u16 :: "'m libnl \<Rightarrow> nat \<Rightarrow> nat \<Rightarrow> 'm WifiRequest \<Rightarrow> (int \<times> 'm WifiRequest) result" where
  "rq_put_u16 nl attr v = rq_put nl attr (le 2 v)"

definition rq_put_u32 :: "'m libnl \<Rightarrow> nat \<Rightarrow> nat \<Rightarrow> 'm WifiRequest \<Rightarrow> (int \<times> 'm WifiRequest) result" where
  "rq_put_u32 nl attr v = rq_put nl attr (le 4 v)"

definition rq_put_u64 :: "'m libnl \<Rightarrow> nat \<Rightarrow> nat \<Rightarrow> 'm WifiRequest \<Rightarrow> (int \<times> 'm WifiRequest) result" where
  "rq_put_u64 nl attr v = rq_put nl attr (le 8 v)"

text \<open>The text and its final zero.\<close>

definition string_bytes :: "string \<Rightarrow> bytes" where
  "string_bytes s = map (\<lambda>c. of_char c) s @ [0]"

definition rq_put_string :: "'m libnl \<Rightarrow> nat \<Rightarrow> string \<Rightarrow> 'm WifiRequest \<Rightarrow> (int \<times> 'm WifiRequest) result" where
  "rq_put_string nl attr s = rq_put nl attr (string_bytes s)"

text \<open>\<open>put_bytes(attribute, data, len)\<close> with the object that \<open>data\<close> points to.\<close>

definition rq_put_bytes :: "'m libnl \<Rightarrow> nat \<Rightarrow> bytes \<Rightarrow> nat \<Rightarrow> 'm WifiRequest \<Rightarrow> (int \<times> 'm WifiRequest) result" where
  "rq_put_bytes nl attr data len r = bindE (rd_bytes data 0 len) (\<lambda>bs. rq_put nl attr bs r)"

definition rq_attr_start :: "'m libnl \<Rightarrow> nat \<Rightarrow> 'm WifiRequest \<Rightarrow> (nat option \<times> 'm WifiRequest) result" where
  "rq_attr_start nl attr r =
     (case rq_msg r of
        None \<Rightarrow> Inl UB
      | Some m \<Rightarrow> (case nl_nest_start nl attr m of
                     None \<Rightarrow> Inr (None, r)
                   | Some (a, m) \<Rightarrow> Inr (Some a, r\<lparr>rq_msg := Some m\<rparr>)))"

definition rq_attr_end :: "'m libnl \<Rightarrow> nat \<Rightarrow> 'm WifiRequest \<Rightarrow> 'm WifiRequest result" where
  "rq_attr_end nl a r =
     (case rq_msg r of None \<Rightarrow> Inl UB | Some m \<Rightarrow> Inr (r\<lparr>rq_msg := Some (nl_nest_end nl a m)\<rparr>))"

definition rq_set_iface_id :: "'m libnl \<Rightarrow> nat \<Rightarrow> 'm WifiRequest \<Rightarrow> (int \<times> 'm WifiRequest) result" where
  "rq_set_iface_id nl ifindex = rq_put_u32 nl (NL80211_ATTR_IFINDEX nl) ifindex"

section \<open>WifiCommand\<close>

text \<open>The errno values of the kernel that the translation names.\<close>

definition mapKernelErrortoWifiHalError :: "int \<Rightarrow> WifiError" where
  "mapKernelErrortoWifiHalError kern_err =
     (if kern_err \<ge> 0 then WIFI_SUCCESS
      else if kern_err = - 95 then WIFI_ERROR_NOT_SUPPORTED
      else if kern_err = - 11 then WIFI_ERROR_NOT_AVAILABLE
      else if kern_err = - 22 then WIFI_ERROR_INVALID_ARGS
      else if kern_err = - 110 then WIFI_ERROR_TIMED_OUT
      else if kern_err = - 12 then WIFI_ERROR_OUT_OF_MEMORY
      else if kern_err = - 16 then WIFI_ERROR_BUSY
      else if kern_err = - 105 then WIFI_ERROR_TOO_MANY_REQUESTS
      else WIFI_ERROR_UNKNOWN)"

lemma mapKernel_success_iff [simp]: "mapKernelErrortoWifiHalError e = WIFI_SUCCESS \<longleftrightarrow> 0 \<le> e"
  by (simp add: mapKernelErrortoWifiHalError_def)

text \<open>
  \<open>while (status > 0) nl_recvmsgs(cmd_sock, cb)\<close> with the statuses the handlers leave behind. A loop
  that is still waiting when the list ends never returns.
\<close>

fun recv_loop :: "int list \<Rightarrow> int \<Rightarrow> int result" where
  "recv_loop replies status =
     (if status \<le> 0 then Inr status
      else case replies of [] \<Rightarrow> Inl Diverges | s # ss \<Rightarrow> recv_loop ss s)"

declare recv_loop.simps [simp del]

text \<open>
  \<open>requestResponse(WifiRequest)\<close>: the message is sent and its reply awaited; \<open>sock\<close> says whether
  there is a command socket, which is not asked here.
\<close>

definition requestResponse :: "'m libnl \<Rightarrow> 'm WifiRequest \<Rightarrow> WifiError result" where
  "requestResponse nl r =
     (if \<not> nl_cb_alloc nl then Inr (mapKernelErrortoWifiHalError 0)
      else case rq_msg r of
          None \<Rightarrow> Inl UB
        | Some m \<Rightarrow>
            (if nl_send nl m < 0 then Inr (mapKernelErrortoWifiHalError (nl_send nl m))
             else bindE (recv_loop (nl_replies nl m) 1) (\<lambda>err. Inr (mapKernelErrortoWifiHalError err))))"

text \<open>The vendor of the driver's own commands (mtk_vendor_cmd.h).\<close>

definition OUI_MTK :: nat where [simp]: "OUI_MTK = 0x000CE7"

section \<open>WifiVendorCommand\<close>

text \<open>
  The fields of the vendor commands; \<open>vc_sent\<close> is not a field of the class but the log of the messages
  handed to the kernel, newest first.
\<close>

record 'm WifiVendorCommand =
  vc_request :: "'m WifiRequest"
  vc_vendor_id :: nat
  vc_subcmd :: nat
  vc_vendor_data :: "bytes option"
  vc_data_len :: nat
  vc_sent :: "'m list"

definition new_vendor_command :: "nat \<Rightarrow> nat \<Rightarrow> nat \<Rightarrow> 'm WifiVendorCommand" where
  "new_vendor_command family vendor_id subcmd =
     \<lparr>vc_request = new_request family, vc_vendor_id = vendor_id, vc_subcmd = subcmd,
      vc_vendor_data = None, vc_data_len = 0, vc_sent = []\<rparr>"

text \<open>A \<open>put\<close> function of the request, with the error it returns translated.\<close>

definition vc_put ::
  "('m WifiRequest \<Rightarrow> (int \<times> 'm WifiRequest) result) \<Rightarrow> 'm WifiVendorCommand
     \<Rightarrow> (WifiError \<times> 'm WifiVendorCommand) result" where
  "vc_put f c = bindE (f (vc_request c)) (\<lambda>(e, r).
     Inr (mapKernelErrortoWifiHalError e, c\<lparr>vc_request := r\<rparr>))"

definition vc_put_u16 where "vc_put_u16 nl attr v = vc_put (rq_put_u16 nl attr v)"
definition vc_put_u32 where "vc_put_u32 nl attr v = vc_put (rq_put_u32 nl attr v)"
definition vc_put_string where "vc_put_string nl attr s = vc_put (rq_put_string nl attr s)"
definition vc_put_bytes where "vc_put_bytes nl attr data len = vc_put (rq_put_bytes nl attr data len)"
definition vc_set_iface_id where
  "vc_set_iface_id nl name = vc_put (rq_set_iface_id nl (nl_if_index nl name))"

definition vc_attr_start ::
  "'m libnl \<Rightarrow> nat \<Rightarrow> 'm WifiVendorCommand \<Rightarrow> (nat option \<times> 'm WifiVendorCommand) result" where
  "vc_attr_start nl attr c = bindE (rq_attr_start nl attr (vc_request c)) (\<lambda>(a, r).
     Inr (a, c\<lparr>vc_request := r\<rparr>))"

definition vc_attr_end :: "'m libnl \<Rightarrow> nat \<Rightarrow> 'm WifiVendorCommand \<Rightarrow> 'm WifiVendorCommand result" where
  "vc_attr_end nl a c = bindE (rq_attr_end nl a (vc_request c)) (\<lambda>r. Inr (c\<lparr>vc_request := r\<rparr>))"

text \<open>
  The attributes of a parsed message: the bytes of each one that is present. \<open>nla_get_u32\<close> and its
  relatives read that many bytes of it.
\<close>

type_synonym nl_attrs = "nat \<Rightarrow> bytes option"

definition nla_get :: "nat \<Rightarrow> bytes option \<Rightarrow> nat result" where
  "nla_get n a = (case a of None \<Rightarrow> Inl UB | Some b \<Rightarrow> rd_num n b 0)"

text \<open>\<open>nla_data\<close> and \<open>nla_len\<close> of an attribute that may be a null pointer.\<close>

definition nla_bytes :: "bytes option \<Rightarrow> bytes result" where
  "nla_bytes a = (case a of None \<Rightarrow> Inl UB | Some b \<Rightarrow> Inr b)"

text \<open>\<open>WifiVendorCommand::handleEvent\<close> for a message with generic netlink command \<open>cmd\<close>.\<close>

definition vc_handleEvent ::
  "'m libnl \<Rightarrow> nat \<Rightarrow> nl_attrs \<Rightarrow> 'm WifiVendorCommand \<Rightarrow> 'm WifiVendorCommand result" where
  "vc_handleEvent nl cmd tb c =
     (if cmd \<noteq> NL80211_CMD_VENDOR nl then Inr c
      else if tb (NL80211_ATTR_VENDOR_ID nl) = None \<or> tb (NL80211_ATTR_VENDOR_SUBCMD nl) = None then Inr c
      else
        bindE (nla_get 4 (tb (NL80211_ATTR_VENDOR_ID nl))) (\<lambda>vendor_id.
        bindE (nla_get 4 (tb (NL80211_ATTR_VENDOR_SUBCMD nl))) (\<lambda>subcmd.
        let c = c\<lparr>vc_vendor_id := vendor_id, vc_subcmd := subcmd\<rparr>
        in case tb (NL80211_ATTR_VENDOR_DATA nl) of
             None \<Rightarrow> Inr c
           | Some d \<Rightarrow> Inr (c\<lparr>vc_vendor_data := Some d, vc_data_len := length d\<rparr>))))"

text \<open>\<open>WifiVendorCommand::handleResponse\<close>\<close>

definition vc_handleResponse ::
  "'m libnl \<Rightarrow> nat \<Rightarrow> nl_attrs \<Rightarrow> 'm WifiVendorCommand \<Rightarrow> 'm WifiVendorCommand" where
  "vc_handleResponse nl cmd tb c =
     (if cmd = NL80211_CMD_VENDOR nl
      then (case tb (NL80211_ATTR_VENDOR_DATA nl) of
              None \<Rightarrow> c
            | Some d \<Rightarrow> c\<lparr>vc_vendor_data := Some d, vc_data_len := length d\<rparr>)
      else c)"

text \<open>
  \<open>WifiVendorCommand::create\<close>: the vendor message with its data, for the interface \<open>wlan0\<close>.
\<close>

definition vc_create :: "'m libnl \<Rightarrow> 'm WifiVendorCommand \<Rightarrow> (int \<times> 'm WifiVendorCommand) result" where
  "vc_create nl c =
     (case rq_create nl (NL80211_CMD_VENDOR nl) (vc_request c) of (ret, r) \<Rightarrow>
      if ret \<noteq> nl_code nl WIFI_SUCCESS then Inr (ret, c\<lparr>vc_request := r\<rparr>)
      else bindE (rq_put_u32 nl (NL80211_ATTR_VENDOR_ID nl) (vc_vendor_id c) r) (\<lambda>(ret, r).
      if ret \<noteq> nl_code nl WIFI_SUCCESS then Inr (ret, c\<lparr>vc_request := r\<rparr>)
      else bindE (rq_put_u32 nl (NL80211_ATTR_VENDOR_SUBCMD nl) (vc_subcmd c) r) (\<lambda>(ret, r).
      if ret \<noteq> nl_code nl WIFI_SUCCESS then Inr (ret, c\<lparr>vc_request := r\<rparr>)
      else bindE (rq_put_bytes nl (NL80211_ATTR_VENDOR_DATA nl)
                    (case vc_vendor_data c of None \<Rightarrow> [] | Some d \<Rightarrow> d) (vc_data_len c) r) (\<lambda>(ret, r).
      if ret \<noteq> nl_code nl WIFI_SUCCESS then Inr (ret, c\<lparr>vc_request := r\<rparr>)
      else if nl_if_index nl ''wlan0'' = 0 then Inr (nl_code nl WIFI_ERROR_UNKNOWN, c\<lparr>vc_request := r\<rparr>)
      else bindE (rq_set_iface_id nl (nl_if_index nl ''wlan0'') r) (\<lambda>(ret, r).
        Inr (ret, c\<lparr>vc_request := r\<rparr>))))))"

section \<open>C strings\<close>

text \<open>A C string in a buffer: the text before the first zero.\<close>

definition cstr :: "string \<Rightarrow> string" where
  "cstr s = takeWhile (\<lambda>c. c \<noteq> CHR 0x00) s"

text \<open>\<open>strncmp(a, b, n) == 0\<close>\<close>

definition strn_eq :: "nat \<Rightarrow> string \<Rightarrow> string \<Rightarrow> bool" where
  "strn_eq n a b \<longleftrightarrow> take n (cstr a) = take n (cstr b)"

section \<open>The log of what a message carries\<close>

text \<open>
  What libnl documents of its messages, as hypotheses on the record \<open>libnl\<close>: the attributes of a message
  can be observed, and every successful call adds its own.
\<close>

text \<open>
  What libnl documents of the messages, for an observation \<open>attrs\<close> of their attributes: a new message has
  none, and \<open>nla_put\<close> adds one at the end unless it returns an error.
\<close>

definition attr_log :: "'m libnl \<Rightarrow> ('m \<Rightarrow> (nat \<times> bytes) list) \<Rightarrow> bool" where
  "attr_log nl attrs \<longleftrightarrow> nl_code nl WIFI_SUCCESS = 0 \<and> nl_code nl WIFI_ERROR_OUT_OF_MEMORY < 0
     \<and> (\<forall>m. nl_alloc nl = Some m \<longrightarrow> (\<forall>f cmd. attrs (nl_genlmsg_put nl f cmd m) = []))
     \<and> (\<forall>a bs m. 0 \<le> fst (nl_put nl a bs m) \<longrightarrow> attrs (snd (nl_put nl a bs m)) = attrs m @ [(a, bs)])"

lemma rq_put_log:
  assumes "attr_log nl attrs" and "rq_put nl a bs r = Inr (e, r')" and "0 \<le> e"
  shows "\<exists>m m'. rq_msg r = Some m \<and> rq_msg r' = Some m' \<and> attrs m' = attrs m @ [(a, bs)]"
proof -
  obtain m where m: "rq_msg r = Some m" using assms(2) by (cases "rq_msg r") (auto simp: rq_put_def)
  then have "e = fst (nl_put nl a bs m)" and "rq_msg r' = Some (snd (nl_put nl a bs m))"
    using assms(2) by (auto simp: rq_put_def split: prod.splits)
  then show ?thesis using assms(1,3) m by (auto simp: attr_log_def)
qed

text \<open>The libnl of the examples: a message is the list of its attributes, and every call succeeds.\<close>

definition ex_libnl :: "(nat \<times> bytes) list libnl" where
  "ex_libnl =
     \<lparr>nl_malloc = (\<lambda>_. True), nl_alloc = Some [], nl_genlmsg_put = (\<lambda>_ _ m. m),
      nl_put = (\<lambda>a bs m. (0, m @ [(a, bs)])), nl_nest_start = (\<lambda>a m. Some (a, m)), nl_nest_end = (\<lambda>_ m. m),
      nl_cb_alloc = True, nl_send = (\<lambda>_. 0), nl_replies = (\<lambda>_. [1, 0]), nl_if_index = (\<lambda>_. 4),
      nl_code = (\<lambda>e. if e = WIFI_SUCCESS then 0 else - 1), NL80211_CMD_VENDOR = 103, NL80211_ATTR_VENDOR_ID = 195,
      NL80211_ATTR_VENDOR_SUBCMD = 196, NL80211_ATTR_VENDOR_DATA = 197, NL80211_ATTR_IFINDEX = 3\<rparr>"

end
