(* ===== verification/ThermalWatcher.thy ===== *)
theory ThermalWatcher
  imports HelperWatch NlCommand
begin

text \<open>
  The thread that wakes the helper (aidl/thermal/utils/thermal_watcher.cpp): it waits for uevents or
  generic netlink events of the kernel, collects the sensors that they name, and calls the helper,
  which answers with the time until the next call. The sockets and the looper are parameters: what is
  received, and what \<open>pollOnce\<close> returns. Logging, and with it the text that \<open>handleEvent\<close> builds, has no
  counterpart.
\<close>

section \<open>Uevents\<close>

text \<open>
  The strings of a message, each of which ends with a zero; the two zeros that the code appends make the
  end of the message an empty string, at which the loop stops.
\<close>

function uevent_lines :: "string \<Rightarrow> string list" where
  "uevent_lines s =
     (let l = takeWhile (\<lambda>c. c \<noteq> CHR 0x00) s in if l = [] then [] else l # uevent_lines (drop (Suc (length l)) s))"
  by pat_completeness auto
termination
  by (relation "measure length") (auto intro: diff_less simp: takeWhile_eq_Nil_iff)

declare uevent_lines.simps [simp del]

text \<open>The loop over the strings of one message: \<open>thermal_event\<close>, and the sensors found so far.\<close>

fun uevent_line_loop :: "string list \<Rightarrow> string list \<Rightarrow> bool \<times> flt smap \<Rightarrow> bool \<times> flt smap" where
  "uevent_line_loop zones [] (thermal_event, m) = (thermal_event, m)"
| "uevent_line_loop zones (uevent # us) (thermal_event, m) =
     (if \<not> thermal_event then
        if prefixed ''SUBSYSTEM='' uevent then
          if find_sub ''SUBSYSTEM=thermal'' uevent \<noteq> None then uevent_line_loop zones us (True, m)
          else (thermal_event, m)
        else uevent_line_loop zones us (thermal_event, m)
      else
        case find_sub ''NAME='' uevent of
          None \<Rightarrow> uevent_line_loop zones us (thermal_event, m)
        | Some start_pos \<Rightarrow>
            let name = drop (start_pos + 5) uevent
            in (thermal_event, if name \<in> set zones then emplace name NaN m else m))"

definition kUeventMsgLen :: nat where "kUeventMsgLen = 2048"

text \<open>
  The datagrams that the socket holds: a message of the kernel, or one for which
  \<open>uevent_kernel_multicast_recv\<close> fails. The rest is what has not been received.
\<close>

fun uevent_loop :: "string list \<Rightarrow> string option list \<Rightarrow> bool \<times> flt smap \<Rightarrow> flt smap \<times> string option list" where
  "uevent_loop zones [] s = (snd s, [])"
| "uevent_loop zones (None # ms) s = (snd s, ms)"
| "uevent_loop zones (Some msg # ms) s =
     (if msg = [] then (snd s, ms)
      else if kUeventMsgLen \<le> length msg then uevent_loop zones ms s
      else uevent_loop zones ms (uevent_line_loop zones (uevent_lines msg) s))"

definition parseUevent :: "string list \<Rightarrow> string option list \<Rightarrow> flt smap \<Rightarrow> flt smap \<times> string option list" where
  "parseUevent zones ms sensor_map = uevent_loop zones ms (False, sensor_map)"

section \<open>Generic netlink events\<close>

text \<open>The numbers of the kernel's \<open>linux/thermal.h\<close>.\<close>

record thermal_genl =
  THERMAL_GENL_ATTR_TZ_ID :: nat
  THERMAL_GENL_ATTR_TZ_TEMP :: nat
  THERMAL_GENL_EVENT_TZ_TRIP_UP :: nat
  THERMAL_GENL_EVENT_TZ_TRIP_DOWN :: nat
  THERMAL_GENL_EVENT_TZ_GOV_CHANGE :: nat
  THERMAL_GENL_EVENT_TZ_CREATE :: nat
  THERMAL_GENL_EVENT_TZ_DELETE :: nat
  THERMAL_GENL_EVENT_TZ_DISABLE :: nat
  THERMAL_GENL_EVENT_TZ_ENABLE :: nat
  THERMAL_GENL_EVENT_TZ_TRIP_CHANGE :: nat
  THERMAL_GENL_EVENT_TZ_TRIP_ADD :: nat
  THERMAL_GENL_EVENT_TZ_TRIP_DELETE :: nat
  THERMAL_GENL_SAMPLING_TEMP :: nat

definition setAndLogTzId :: "thermal_genl \<Rightarrow> nl_attrs \<Rightarrow> int \<Rightarrow> int result" where
  "setAndLogTzId hw attrs tz_id =
     (case attrs (THERMAL_GENL_ATTR_TZ_ID hw) of
        None \<Rightarrow> Inr tz_id
      | a \<Rightarrow> bindE (nla_get 4 a) (\<lambda>v. Inr (to_int32 (int v))))"

definition setAndLogTzTemp :: "thermal_genl \<Rightarrow> nl_attrs \<Rightarrow> flt \<Rightarrow> flt result" where
  "setAndLogTzTemp hw attrs tz_temp =
     (case attrs (THERMAL_GENL_ATTR_TZ_TEMP hw) of
        None \<Rightarrow> Inr tz_temp
      | a \<Rightarrow> bindE (nla_get 4 a) (\<lambda>v. Inr (of_int_f (to_int32 (int v)))))"

text \<open>
  \<open>handleEvent\<close>: a trip sets zone and temperature, the other events of a zone only the zone, events of
  a cooling device and unknown ones neither.
\<close>

definition trip_events :: "thermal_genl \<Rightarrow> nat list" where
  "trip_events hw = [THERMAL_GENL_EVENT_TZ_TRIP_UP hw, THERMAL_GENL_EVENT_TZ_TRIP_DOWN hw]"

definition zone_events :: "thermal_genl \<Rightarrow> nat list" where
  "zone_events hw =
     [THERMAL_GENL_EVENT_TZ_GOV_CHANGE hw, THERMAL_GENL_EVENT_TZ_CREATE hw, THERMAL_GENL_EVENT_TZ_DELETE hw,
      THERMAL_GENL_EVENT_TZ_DISABLE hw, THERMAL_GENL_EVENT_TZ_ENABLE hw, THERMAL_GENL_EVENT_TZ_TRIP_CHANGE hw,
      THERMAL_GENL_EVENT_TZ_TRIP_ADD hw, THERMAL_GENL_EVENT_TZ_TRIP_DELETE hw, THERMAL_GENL_SAMPLING_TEMP hw]"

definition thermal_handleEvent :: "thermal_genl \<Rightarrow> nat \<times> nl_attrs \<Rightarrow> int \<times> flt \<Rightarrow> (int \<times> flt) result" where
  "thermal_handleEvent hw msg tz_info =
     (case (msg, tz_info) of ((cmd, attrs), (tz_id, tz_temp)) \<Rightarrow>
      if cmd \<in> set (trip_events hw) then
        bindE (setAndLogTzId hw attrs tz_id) (\<lambda>tz_id.
        bindE (setAndLogTzTemp hw attrs tz_temp) (\<lambda>tz_temp. Inr (tz_id, tz_temp)))
      else if cmd \<in> set (zone_events hw) then
        bindE (setAndLogTzId hw attrs tz_id) (\<lambda>tz_id. Inr (tz_id, tz_temp))
      else Inr tz_info)"

text \<open>
  The callbacks that libnl calls while it receives: one call of \<open>nl_recvmsgs\<close> is the list of the
  callbacks that it makes. \<open>CbValid\<close> has the parsed message.
\<close>

datatype 'v nl_callback = CbSeqCheck | CbFinish | CbAck | CbError int | CbValid 'v

definition genl_callback ::
  "thermal_genl \<Rightarrow> (nat \<times> nl_attrs) nl_callback \<Rightarrow> int \<times> int \<times> (int \<times> flt) \<Rightarrow> (int \<times> int \<times> (int \<times> flt)) result" where
  "genl_callback hw c s =
     (case s of (err, dn, tz_info) \<Rightarrow>
      case c of
        CbSeqCheck \<Rightarrow> Inr (err, 1, tz_info)
      | CbFinish \<Rightarrow> Inr (err, 1, tz_info)
      | CbAck \<Rightarrow> Inr (err, 1, tz_info)
      | CbError e \<Rightarrow> Inr (e, dn, tz_info)
      | CbValid msg \<Rightarrow> bindE (thermal_handleEvent hw msg tz_info) (\<lambda>tz_info. Inr (err, dn, tz_info)))"

definition report_zone ::
  "(string \<Rightarrow> string option) \<Rightarrow> string list \<Rightarrow> int \<times> flt \<Rightarrow> flt smap \<Rightarrow> flt smap" where
  "report_zone files zones tz_info m =
     (case getThermalZoneTypeById files (fst tz_info) of
        None \<Rightarrow> m
      | Some name \<Rightarrow> if name \<in> set zones then emplace name (snd tz_info) m else m)"

text \<open>\<open>Diverges\<close>: the list of calls ends before the loop does.\<close>

fun genlink_loop ::
  "thermal_genl \<Rightarrow> (string \<Rightarrow> string option) \<Rightarrow> string list \<Rightarrow> (nat \<times> nl_attrs) nl_callback list list
    \<Rightarrow> int \<times> int \<times> (int \<times> flt) \<Rightarrow> flt smap \<Rightarrow> (flt smap \<times> (nat \<times> nl_attrs) nl_callback list list) result" where
  "genlink_loop hw files zones [] (err, dn, tz_info) m =
     (if dn = 0 \<and> err = 0 then Inl Diverges else Inr (m, []))"
| "genlink_loop hw files zones (c # cs) (err, dn, tz_info) m =
     (if dn = 0 \<and> err = 0 then
        bindE (foldE (genl_callback hw) c (err, dn, tz_info)) (\<lambda>(err, dn, tz_info).
        if fst tz_info < 0 then Inr (m, cs)
        else genlink_loop hw files zones cs (err, dn, tz_info) (report_zone files zones tz_info m))
      else Inr (m, c # cs))"

definition parseGenlink ::
  "thermal_genl \<Rightarrow> (string \<Rightarrow> string option) \<Rightarrow> string list \<Rightarrow> (nat \<times> nl_attrs) nl_callback list list
    \<Rightarrow> flt smap \<Rightarrow> (flt smap \<times> (nat \<times> nl_attrs) nl_callback list list) result" where
  "parseGenlink hw files zones calls sensor_map =
     genlink_loop hw files zones calls (0, 0, (- 1, NaN)) sensor_map"

section \<open>Joining the multicast group\<close>

text \<open>
  \<open>nlSendMsg\<close>: with the result of \<open>nl_send_auto_complete\<close>; \<open>rx_handler\<close> gets the valid messages. Sequence
  numbers are checked by libnl itself.
\<close>

definition send_callback :: "('v \<Rightarrow> 's \<Rightarrow> 's) \<Rightarrow> 'v nl_callback \<Rightarrow> int \<times> int \<times> 's \<Rightarrow> int \<times> int \<times> 's" where
  "send_callback rx_handler c st =
     (case st of (err, dn, x) \<Rightarrow>
      case c of
        CbSeqCheck \<Rightarrow> (err, dn, x)
      | CbFinish \<Rightarrow> (err, 1, x)
      | CbAck \<Rightarrow> (err, 1, x)
      | CbError e \<Rightarrow> (e, dn, x)
      | CbValid msg \<Rightarrow> (err, dn, rx_handler msg x))"

fun nl_send_loop :: "('v \<Rightarrow> 's \<Rightarrow> 's) \<Rightarrow> 'v nl_callback list list \<Rightarrow> int \<times> int \<times> 's \<Rightarrow> (int \<times> 's) result" where
  "nl_send_loop rx_handler [] (err, dn, x) = (if err = 0 \<and> dn = 0 then Inl Diverges else Inr (err, x))"
| "nl_send_loop rx_handler (c # cs) (err, dn, x) =
     (if err = 0 \<and> dn = 0 then nl_send_loop rx_handler cs (fold (send_callback rx_handler) c (err, dn, x))
      else Inr (err, x))"

definition nlSendMsg :: "int \<Rightarrow> ('v \<Rightarrow> 's \<Rightarrow> 's) \<Rightarrow> 'v nl_callback list list \<Rightarrow> 's \<Rightarrow> (int \<times> 's) result" where
  "nlSendMsg sent rx_handler calls data =
     (if sent < 0 then Inr (sent, data) else nl_send_loop rx_handler calls (0, 0, data))"

text \<open>
  \<open>nlFamilyHandle\<close>: the multicast groups of the reply, each with the name and the number that it has, or
  \<open>None\<close> when the reply has no groups. \<open>strncmp\<close> compares as many bytes as the attribute of the name has.
\<close>

fun find_group :: "string \<Rightarrow> (string option \<times> nat option) list \<Rightarrow> int \<Rightarrow> int" where
  "find_group grp [] i = i"
| "find_group grp ((Some name, Some num) # gs) i =
     (if strn_eq (length name) name grp then to_int32 (int num) else find_group grp gs i)"
| "find_group grp (_ # gs) i = find_group grp gs i"

definition nlFamilyHandle :: "string \<Rightarrow> (string option \<times> nat option) list option \<Rightarrow> int \<Rightarrow> int" where
  "nlFamilyHandle grp groups i = (case groups of None \<Rightarrow> i | Some gs \<Rightarrow> find_group grp gs i)"

definition nlGetMulticastId ::
  "int \<Rightarrow> (string option \<times> nat option) list option nl_callback list list \<Rightarrow> string \<Rightarrow> int result" where
  "nlGetMulticastId sent calls grp =
     bindE (nlSendMsg sent (nlFamilyHandle grp) calls (- 2)) (\<lambda>(err, i). Inr (if err \<noteq> 0 then err else i))"

definition socketAddMembership ::
  "int \<Rightarrow> (string option \<times> nat option) list option nl_callback list list \<Rightarrow> (int \<Rightarrow> int) \<Rightarrow> string \<Rightarrow> bool result" where
  "socketAddMembership sent calls add grp =
     bindE (nlGetMulticastId sent calls grp) (\<lambda>mcid. Inr (0 \<le> mcid \<and> add mcid = 0))"

section \<open>The watcher\<close>

text \<open>
  The members of \<open>class ThermalWatcher\<close>. \<open>sleep_ms_\<close> has no value until a registration succeeds (\<open>None\<close>);
  the descriptors are \<open>-1\<close> and the time is zero.
\<close>

record thermal_watcher =
  tw_monitored :: "string list"
  tw_uevent_fd :: int
  tw_genl_fd :: int
  tw_sleep_ms :: "int option"
  tw_last_update :: int

definition new_watcher :: thermal_watcher where
  "new_watcher = \<lparr>tw_monitored = [], tw_uevent_fd = - 1, tw_genl_fd = - 1, tw_sleep_ms = None, tw_last_update = 0\<rparr>"

definition registerFilesToWatch :: "int \<Rightarrow> int \<Rightarrow> string list \<Rightarrow> thermal_watcher \<Rightarrow> thermal_watcher" where
  "registerFilesToWatch fd now sensors_to_watch w =
     (let w = w\<lparr>tw_monitored := tw_monitored w @ sensors_to_watch, tw_uevent_fd := fd\<rparr>
      in if fd < 0 then w else w\<lparr>tw_sleep_ms := Some 0, tw_last_update := now\<rparr>)"

text \<open>The socket: whether it is allocated and connected, its descriptor, and whether the group is joined.\<close>

definition registerFilesToWatchNl ::
  "bool \<Rightarrow> int \<Rightarrow> int \<Rightarrow> bool result \<Rightarrow> int \<Rightarrow> string list \<Rightarrow> thermal_watcher \<Rightarrow> thermal_watcher result" where
  "registerFilesToWatchNl allocated connect_err fd membership now sensors_to_watch w =
     (let w = w\<lparr>tw_monitored := tw_monitored w @ sensors_to_watch\<rparr>
      in if \<not> allocated \<or> connect_err \<noteq> 0 then Inr w
      else let w = w\<lparr>tw_genl_fd := fd\<rparr>
      in if fd < 0 then Inr w
      else bindE membership (\<lambda>joined.
        Inr (if joined then w\<lparr>tw_sleep_ms := Some 0, tw_last_update := now\<rparr> else w)))"

definition startWatchingDeviceFiles :: "bool \<Rightarrow> bool \<Rightarrow> bool" where
  "startWatchingDeviceFiles has_cb started \<longleftrightarrow> has_cb \<and> started"

text \<open>
  What a round of the thread meets: the time, what \<open>pollOnce\<close> returns for a timeout (its result and the
  descriptor, and how many nanoseconds it takes), what the sockets hold, and the time after the callback.
\<close>

record watch_round =
  ro_now :: int
  ro_poll :: "int \<Rightarrow> int \<times> int"
  ro_wait :: "int \<Rightarrow> int"
  ro_uevents :: "string option list"
  ro_genl :: "(nat \<times> nl_attrs) nl_callback list list"
  ro_after :: int

definition collect_sensors ::
  "thermal_genl \<Rightarrow> (string \<Rightarrow> string option) \<Rightarrow> watch_round \<Rightarrow> int \<Rightarrow> thermal_watcher \<Rightarrow> flt smap result" where
  "collect_sensors hw files r fd w =
     (if fd = tw_genl_fd w then bindE (parseGenlink hw files (tw_monitored w) (ro_genl r) []) (\<lambda>(m, _). Inr m)
      else if fd = tw_uevent_fd w then Inr (fst (parseUevent (tw_monitored w) (ro_uevents r) []))
      else Inr [])"

text \<open>
  \<open>threadLoop\<close>, for a callback with a state of its own. The first component of the result is what the callback
  was called with, if it was. \<open>pollOnce\<close> takes an \<open>int\<close>, the sleep has 64 bits.
\<close>

definition threadLoop ::
  "thermal_genl \<Rightarrow> (string \<Rightarrow> string option) \<Rightarrow> (flt smap \<Rightarrow> 'h \<Rightarrow> (int \<times> 'h) result) \<Rightarrow> watch_round
    \<Rightarrow> thermal_watcher \<times> 'h \<Rightarrow> (flt smap option \<times> thermal_watcher \<times> 'h) result" where
  "threadLoop hw files cb r s =
     (case s of (w, h) \<Rightarrow>
      let call = (\<lambda>sensors. bindE (cb sensors h) (\<lambda>(sl, h').
            Inr (Some sensors, w\<lparr>tw_sleep_ms := Some sl, tw_last_update := ro_after r\<rparr>, h')))
      in case tw_sleep_ms w of
           None \<Rightarrow> Inl UB
         | Some sl \<Rightarrow>
             if since_ms (ro_now r) (tw_last_update w) < sl then
               case ro_poll r (to_int32 sl) of (res, fd) \<Rightarrow>
                 if res < 0 then call []
                 else if fd \<noteq> tw_uevent_fd w \<and> fd \<noteq> tw_genl_fd w then Inr (None, w, h)
                 else bindE (collect_sensors hw files r fd w) (\<lambda>sensors.
                      if sensors = [] then Inr (None, w, h) else call sensors)
             else call [])"

text \<open>The watcher of the helper.\<close>

definition helper_round ::
  "nat \<Rightarrow> nat \<Rightarrow> thermal_genl \<Rightarrow> 'j helper_env \<Rightarrow> watch_round
    \<Rightarrow> thermal_watcher \<times> helper_state \<Rightarrow> (flt smap option \<times> thermal_watcher \<times> helper_state) result" where
  "helper_round fuel n hw env = threadLoop hw (he_files env) (thermalWatcherCallbackFunc fuel n env)"

section \<open>What the uevents name\<close>

text \<open>
  A uevent of the kernel for a thermal zone: strings before the subsystem, the subsystem, strings before the
  name, and the name of the zone.
\<close>

record thermal_uevent =
  ue_before :: "string list"
  ue_between :: "string list"
  ue_zone :: string
  ue_after :: "string list"

definition thermal_lines :: "thermal_uevent \<Rightarrow> string list" where
  "thermal_lines u =
     ue_before u @ [''SUBSYSTEM=thermal''] @ ue_between u @ [''NAME='' @ ue_zone u] @ ue_after u"

definition message_of :: "string list \<Rightarrow> string" where
  "message_of ls = concat (map (\<lambda>l. l @ [CHR 0x00]) ls)"

definition message_ok :: "string list \<Rightarrow> bool" where
  "message_ok ls \<longleftrightarrow> ls \<noteq> [] \<and> length (message_of ls) < kUeventMsgLen \<and> (\<forall>l \<in> set ls. l \<noteq> [] \<and> CHR 0x00 \<notin> set l)"

definition nameless :: "string \<Rightarrow> bool" where
  "nameless l \<longleftrightarrow> find_sub ''NAME='' l = None"

definition uevent_ok :: "thermal_uevent \<Rightarrow> bool" where
  "uevent_ok u \<longleftrightarrow> message_ok (thermal_lines u)
     \<and> (\<forall>l \<in> set (ue_before u). \<not> prefixed ''SUBSYSTEM='' l \<and> nameless l) \<and> (\<forall>l \<in> set (ue_between u). nameless l)"

lemma uevent_lines_message:
  assumes "\<forall>l \<in> set ls. l \<noteq> [] \<and> CHR 0x00 \<notin> set l"
  shows "uevent_lines (message_of ls) = ls"
  using assms
proof (induction ls)
  case Nil
  show ?case by (subst uevent_lines.simps) (simp add: message_of_def)
next
  case (Cons l ls)
  have "takeWhile (\<lambda>c. c \<noteq> CHR 0x00) (l @ CHR 0x00 # message_of ls) = l"
    using Cons.prems by (simp add: takeWhile_append)
  moreover have "message_of (l # ls) = l @ CHR 0x00 # message_of ls" by (simp add: message_of_def)
  ultimately show ?case using Cons by (subst uevent_lines.simps) (simp add: Let_def)
qed

lemma nameless_lines:
  assumes "\<forall>l \<in> set ls. nameless l \<and> (th \<or> \<not> prefixed ''SUBSYSTEM='' l)"
  shows "uevent_line_loop zones (ls @ us) (th, m) = uevent_line_loop zones us (th, m)"
  using assms by (induction ls) (auto simp: nameless_def)

lemma find_sub_prefix: "find_sub p (p @ s) = Some 0"
proof -
  have "prefixed p (p @ s)" by (simp add: prefixed_def)
  then show ?thesis by (cases "p @ s") auto
qed

lemma name_line:
  "uevent_line_loop zones ((''NAME='' @ z) # us) (True, m) = (True, if z \<in> set zones then emplace z NaN m else m)"
proof -
  have "find_sub ''NAME='' (''NAME='' @ z) = Some 0" by (rule find_sub_prefix)
  then show ?thesis by simp
qed

lemma thermal_line_loop:
  assumes "uevent_ok u"
  shows "uevent_line_loop zones (thermal_lines u) (th, m)
    = (True, if ue_zone u \<in> set zones then emplace (ue_zone u) NaN m else m)"
proof -
  have "uevent_line_loop zones ([''SUBSYSTEM=thermal''] @ us) (th, m) = uevent_line_loop zones us (True, m)" for us
    by (cases th) (simp_all add: prefixed_def)
  moreover have "uevent_line_loop zones ([''NAME='' @ ue_zone u] @ us) (True, m)
      = (True, if ue_zone u \<in> set zones then emplace (ue_zone u) NaN m else m)" for us
    using name_line by simp
  ultimately show ?thesis using assms
    by (auto simp: thermal_lines_def uevent_ok_def nameless_lines simp del: append.simps uevent_line_loop.simps)
qed

lemma message_received:
  assumes "message_ok ls"
  shows "uevent_loop zones (Some (message_of ls) # ms) s = uevent_loop zones ms (uevent_line_loop zones ls s)"
proof -
  have "message_of ls \<noteq> []" using assms by (cases ls) (auto simp: message_ok_def message_of_def)
  then show ?thesis using assms by (simp add: message_ok_def uevent_lines_message)
qed

lemma uevents_received:
  assumes "\<forall>u \<in> set us. uevent_ok u"
  shows "uevent_loop zones (map (\<lambda>u. Some (message_of (thermal_lines u))) us) (th, m)
    = (fold (\<lambda>z. emplace z NaN) (filter (\<lambda>z. z \<in> set zones) (map ue_zone us)) m, [])"
  using assms
proof (induction us arbitrary: th m)
  case (Cons u us)
  have "message_ok (thermal_lines u)" using Cons.prems by (simp add: uevent_ok_def)
  then show ?case using Cons by (simp add: message_received thermal_line_loop del: uevent_loop.simps)
qed simp

lemma map_of_emplace: "map_of (emplace z v m) x = (if x = z \<and> map_of m z = None then Some v else map_of m x)"
  by (auto simp: emplace_def has_def split: option.splits)

lemma map_of_emplaced:
  "map_of (fold (\<lambda>z. emplace z v) zs m) x
    = (case map_of m x of None \<Rightarrow> if x \<in> set zs then Some v else None | Some y \<Rightarrow> Some y)"
  by (induction zs arbitrary: m) (auto simp: map_of_emplace split: option.splits)

text \<open>
  C26: Whatever uevents of thermal zones are waiting, the watcher receives all of them and reports exactly
  the monitored zones among those that they name, each of them without a temperature.
\<close>

theorem parseUevent_collects:
  assumes "\<forall>u \<in> set us. uevent_ok u"
  shows "\<exists>m. parseUevent zones (map (\<lambda>u. Some (message_of (thermal_lines u))) us) [] = (m, [])
    \<and> (\<forall>x. map_of m x = (if x \<in> set zones \<inter> ue_zone ` set us then Some NaN else None))"
  using assms by (auto simp: parseUevent_def uevents_received map_of_emplaced)

text \<open>
  Once a thermal uevent has been received, the subsystem of the following messages is not looked at:
  the first string of any other uevent in which \<open>NAME=\<close> occurs, be it as the end of another key,
  counts as the name of a zone.
\<close>

theorem uevent_subsystem_not_rechecked:
  assumes "uevent_ok u" and "message_ok (pre @ [l] @ post)" and "\<forall>x \<in> set pre. nameless x"
    and "find_sub ''NAME='' l = Some p" and "drop (p + 5) l \<in> set zones"
  shows "\<exists>m. parseUevent zones [Some (message_of (thermal_lines u)), Some (message_of (pre @ [l] @ post))] [] = (m, [])
    \<and> map_of m (drop (p + 5) l) = Some NaN"
proof -
  have "message_ok (thermal_lines u)" using assms(1) by (simp add: uevent_ok_def)
  moreover have "uevent_line_loop zones (pre @ [l] @ post) (True, m) = (True, emplace (drop (p + 5) l) NaN m)" for m
    using assms(3-5) by (simp add: nameless_lines del: append.simps) simp
  ultimately show ?thesis
    using assms(1,2) by (simp add: parseUevent_def message_received thermal_line_loop map_of_emplace del: uevent_loop.simps append.simps) (auto simp: emplace_def has_def)
qed

section \<open>One event at a time\<close>

text \<open>What libnl documents: it checks the sequence number of a message before it hands the message on.\<close>

definition seq_checked :: "'v nl_callback list \<Rightarrow> bool" where
  "seq_checked c \<longleftrightarrow> CbSeqCheck \<in> set c \<or> (\<forall>msg. CbValid msg \<notin> set c)"

lemma genl_callback_done:
  "genl_callback hw c (err, dn, tz) = Inr (err', dn', tz') \<Longrightarrow>
     (dn = 1 \<longrightarrow> dn' = 1) \<and> (c = CbSeqCheck \<longrightarrow> dn' = 1) \<and> ((\<forall>msg. c \<noteq> CbValid msg) \<longrightarrow> tz' = tz)"
  by (cases c) (auto simp: genl_callback_def)

lemma genl_callbacks_done:
  assumes "foldE (genl_callback hw) cs (err, dn, tz) = Inr (err', dn', tz')"
  shows "(dn = 1 \<or> CbSeqCheck \<in> set cs \<longrightarrow> dn' = 1) \<and> ((\<forall>msg. CbValid msg \<notin> set cs) \<longrightarrow> tz' = tz)"
  using assms
proof (induction cs arbitrary: err dn tz)
  case (Cons c cs)
  obtain e d t where one: "genl_callback hw c (err, dn, tz) = Inr (e, d, t)"
      and rest: "foldE (genl_callback hw) cs (e, d, t) = Inr (err', dn', tz')"
    using Cons.prems by auto
  show ?case using genl_callback_done [OF one] Cons.IH [OF rest] by auto
qed simp

text \<open>
  C27: The loop that receives generic netlink events ends after the first call of \<open>nl_recvmsgs\<close>, whatever this
  finds, since the check of a sequence number already counts as the end: what is reported is the zone
  of the last event of the first datagram, and the other datagrams stay in the socket.
\<close>

theorem parseGenlink_receives_once:
  assumes "seq_checked c"
  shows "parseGenlink hw files zones (c # cs) m =
    bindE (foldE (genl_callback hw) c (0, 0, (- 1, NaN))) (\<lambda>(err, dn, tz_info).
      Inr (if fst tz_info < 0 then m else report_zone files zones tz_info m, cs))"
proof (cases "foldE (genl_callback hw) c (0, 0, (- 1, NaN))")
  case (Inr s)
  obtain err dn tz where s: "s = (err, dn, tz)" by (cases s) auto
  have "dn = 1 \<or> fst tz < 0"
    using genl_callbacks_done [of hw c 0 0 "(- 1, NaN)" err dn tz] Inr s assms by (auto simp: seq_checked_def)
  moreover have "genlink_loop hw files zones cs (err, 1, tz) m' = Inr (m', cs)" for m'
    by (cases cs) auto
  ultimately show ?thesis using Inr s by (auto simp: parseGenlink_def)
qed (simp add: parseGenlink_def)

section \<open>The time between two calls\<close>

text \<open>When a round ends: it takes time only where it polls.\<close>

definition round_end :: "watch_round \<Rightarrow> thermal_watcher \<Rightarrow> int" where
  "round_end r w =
     (case tw_sleep_ms w of
        None \<Rightarrow> ro_now r
      | Some sl \<Rightarrow> if since_ms (ro_now r) (tw_last_update w) < sl then ro_now r + ro_wait r (to_int32 sl) else ro_now r)"

text \<open>A round in which the helper is not called, and the documented bound of \<open>pollOnce\<close>.\<close>

definition quiet ::
  "thermal_genl \<Rightarrow> (string \<Rightarrow> string option) \<Rightarrow> (flt smap \<Rightarrow> 'h \<Rightarrow> (int \<times> 'h) result) \<Rightarrow> thermal_watcher \<times> 'h
    \<Rightarrow> watch_round \<Rightarrow> bool" where
  "quiet hw files cb s r \<longleftrightarrow> (\<exists>s'. threadLoop hw files cb r s = Inr (None, s'))"

definition waits_at_most :: "watch_round \<Rightarrow> bool" where
  "waits_at_most r \<longleftrightarrow> (\<forall>t. 0 \<le> t \<longrightarrow> 0 \<le> ro_wait r t \<and> ro_wait r t \<le> 1000000 * t)"

lemma quiet_round:
  assumes "threadLoop hw files cb r (w, h) = Inr (None, s')"
  shows "s' = (w, h) \<and> (\<exists>sl. tw_sleep_ms w = Some sl \<and> since_ms (ro_now r) (tw_last_update w) < sl
    \<and> 0 \<le> fst (ro_poll r (to_int32 sl)))"
  using assms by (auto simp: threadLoop_def Let_def split: option.splits if_splits prod.splits)

lemma to_int32_id: "is_int32 i \<Longrightarrow> to_int32 i = i"
  by (simp add: to_int32_def is_int32_def INT_MIN_def INT_MAX_def)

lemma early_round:
  assumes "tw_sleep_ms w = Some sl" "0 \<le> sl" "is_int32 sl" "waits_at_most r"
    and "is_time (tw_last_update w)" "is_time (ro_now r)" "tw_last_update w \<le> ro_now r"
  shows "(since_ms (ro_now r) (tw_last_update w) < sl \<longleftrightarrow> ro_now r < tw_last_update w + 1000000 * sl)
    \<and> ro_now r \<le> round_end r w \<and> round_end r w \<le> ro_now r + 1000000 * sl
    \<and> (ro_now r < tw_last_update w + 1000000 * sl \<or> round_end r w = ro_now r)"
proof -
  have "since_ms (ro_now r) (tw_last_update w) < sl \<longleftrightarrow> ro_now r < tw_last_update w + 1000000 * sl"
    using assms(5-7) by (simp add: since_ms_time) linarith
  moreover have "0 \<le> ro_wait r sl" "ro_wait r sl \<le> 1000000 * sl" using assms(2,4) by (auto simp: waits_at_most_def)
  ultimately show ?thesis using assms(1-3) by (auto simp: round_end_def to_int32_id)
qed

text \<open>
  C28: The rounds between two calls of the helper do not delay the next one for long: a round in which the
  helper is not called begins before the sleep that it asked for is over, is ended by an event and
  changes nothing, and the round that follows ends within twice the sleep, however many there were.
\<close>

theorem helper_called_within_two_sleeps:
  assumes "tw_sleep_ms w = Some sl" "0 \<le> sl" "is_int32 sl" "is_time (tw_last_update w)"
    and "quiet hw files cb (w, h) q" "waits_at_most q" "is_time (ro_now q)" "tw_last_update w \<le> ro_now q"
    and "ro_now r = round_end q w" "waits_at_most r" "is_time (ro_now r)"
  shows "threadLoop hw files cb q (w, h) = Inr (None, w, h) \<and> 0 \<le> fst (ro_poll q sl)
    \<and> ro_now q < tw_last_update w + 1000000 * sl
    \<and> round_end r w \<le> tw_last_update w + 2 * (1000000 * sl)"
proof -
  obtain s' where q: "threadLoop hw files cb q (w, h) = Inr (None, s')" using assms(5) by (auto simp: quiet_def)
  have k: "s' = (w, h)" "since_ms (ro_now q) (tw_last_update w) < sl" "0 \<le> fst (ro_poll q sl)"
    using quiet_round [OF q] assms(1,3) by (auto simp: to_int32_id)
  note eq = early_round [OF assms(1-3) assms(6) assms(4,7,8)]
  moreover have "tw_last_update w \<le> ro_now r" using eq assms(8,9) by linarith
  note er = early_round [OF assms(1-3) assms(10) assms(4,11) this]
  ultimately show ?thesis using q k assms(9) by auto
qed

text \<open>
  A registration that fails leaves the sleep without a value, which the thread then reads; and the
  greatest sleep, which the helper answers when no sensor could be read, is the timeout \<open>-1\<close>, for ever.
\<close>

lemma failed_registration_reads_garbage:
  assumes "fd < 0"
  shows "threadLoop hw files cb r (registerFilesToWatch fd now sensors new_watcher, h) = Inl UB"
  using assms by (simp add: threadLoop_def registerFilesToWatch_def new_watcher_def)

lemma greatest_sleep_polls_for_ever: "to_int32 (2 ^ 63 - 1) = - 1"
  by (simp add: to_int32_def)

section \<open>Examples\<close>

definition ex_uevent :: "string \<Rightarrow> thermal_uevent" where
  "ex_uevent z = \<lparr>ue_before = [''change@/devices'', ''ACTION=change''], ue_between = [''TEMP=41000''],
     ue_zone = z, ue_after = [''SEQNUM=7'']\<rparr>"

lemma ex_uevents_ok: "\<forall>u \<in> set [ex_uevent ''cpu'', ex_uevent ''gpu'']. uevent_ok u"
  by (simp add: ex_uevent_def uevent_ok_def message_ok_def thermal_lines_def message_of_def kUeventMsgLen_def
      nameless_def prefixed_def)

lemma parseUevent_collects_witness:
  "\<exists>m. parseUevent [''cpu'', ''skin'']
      (map (\<lambda>u. Some (message_of (thermal_lines u))) [ex_uevent ''cpu'', ex_uevent ''gpu'']) [] = (m, [])
    \<and> map_of m ''cpu'' = Some NaN \<and> map_of m ''gpu'' = None \<and> map_of m ''skin'' = None"
proof -
  obtain m where "parseUevent [''cpu'', ''skin'']
      (map (\<lambda>u. Some (message_of (thermal_lines u))) [ex_uevent ''cpu'', ex_uevent ''gpu'']) [] = (m, [])"
    and "\<And>x. map_of m x = (if x \<in> set [''cpu'', ''skin''] \<inter> ue_zone ` set [ex_uevent ''cpu'', ex_uevent ''gpu'']
           then Some NaN else None)"
    using parseUevent_collects [OF ex_uevents_ok, of "[''cpu'', ''skin'']"] by blast
  then show ?thesis by (auto simp: ex_uevent_def)
qed

definition ex_supply :: "string list" where
  "ex_supply = [''SUBSYSTEM=power_supply''] @ [''POWER_SUPPLY_NAME=battery''] @ []"

lemma uevent_subsystem_not_rechecked_witness:
  "\<exists>m. parseUevent [''battery''] [Some (message_of (thermal_lines (ex_uevent ''cpu''))), Some (message_of ex_supply)] []
      = (m, []) \<and> map_of m ''battery'' = Some NaN"
proof -
  have "find_sub ''NAME='' ''POWER_SUPPLY_NAME=battery'' = Some 13" by (simp add: prefixed_def)
  moreover have "message_ok ([''SUBSYSTEM=power_supply''] @ [''POWER_SUPPLY_NAME=battery''] @ [])"
    by (simp add: message_ok_def message_of_def kUeventMsgLen_def)
  ultimately show ?thesis
    using uevent_subsystem_not_rechecked [of "ex_uevent ''cpu''" "[''SUBSYSTEM=power_supply'']"
        "''POWER_SUPPLY_NAME=battery''" "[]" 13 "[''battery'']"] ex_uevents_ok
    by (simp add: ex_supply_def nameless_def prefixed_def)
qed

definition ex_genl :: thermal_genl where
  "ex_genl = \<lparr>THERMAL_GENL_ATTR_TZ_ID = 2, THERMAL_GENL_ATTR_TZ_TEMP = 3, THERMAL_GENL_EVENT_TZ_TRIP_UP = 6,
     THERMAL_GENL_EVENT_TZ_TRIP_DOWN = 5, THERMAL_GENL_EVENT_TZ_GOV_CHANGE = 13, THERMAL_GENL_EVENT_TZ_CREATE = 1,
     THERMAL_GENL_EVENT_TZ_DELETE = 2, THERMAL_GENL_EVENT_TZ_DISABLE = 3, THERMAL_GENL_EVENT_TZ_ENABLE = 4,
     THERMAL_GENL_EVENT_TZ_TRIP_CHANGE = 7, THERMAL_GENL_EVENT_TZ_TRIP_ADD = 8, THERMAL_GENL_EVENT_TZ_TRIP_DELETE = 9,
     THERMAL_GENL_SAMPLING_TEMP = 0\<rparr>"

definition ex_zone_files :: "string \<Rightarrow> string option" where
  "ex_zone_files p = (if p = ''/sys/devices/virtual/thermal/thermal_zone5/type'' then Some ''cpu'' else None)"

definition ex_trip :: "(nat \<times> nl_attrs) nl_callback list" where
  "ex_trip = [CbSeqCheck, CbValid (6, [2 \<mapsto> le 4 5, 3 \<mapsto> le 4 42])]"

lemma parseGenlink_receives_once_witness:
  "parseGenlink ex_genl ex_zone_files [''cpu''] [ex_trip, ex_trip] [] = Inr ([(''cpu'', of_int_f 42)], [ex_trip])"
proof -
  have "seq_checked ex_trip" by (simp add: seq_checked_def ex_trip_def)
  moreover have "unle (le 4 5) = 5" "unle (le 4 42) = 42" by (simp_all add: unle_le)
  moreover have "to_string 5 = ''5''" "Trim ''cpu'' = ''cpu''" by code_simp+
  ultimately show ?thesis
    using parseGenlink_receives_once [of ex_trip ex_genl ex_zone_files "[''cpu'']" "[ex_trip]" "[]"]
    by (simp add: ex_trip_def ex_genl_def genl_callback_def thermal_handleEvent_def trip_events_def setAndLogTzId_def
        setAndLogTzTemp_def nla_get_def rd_num_ok to_int32_def report_zone_def getThermalZoneTypeById_def ex_zone_files_def
        emplace_def has_def put_def)
qed

definition ex_watch_round :: "int \<Rightarrow> int \<Rightarrow> watch_round" where
  "ex_watch_round now res = \<lparr>ro_now = now, ro_poll = (\<lambda>_. (res, 9)), ro_wait = (\<lambda>t. 999000 * t), ro_uevents = [],
     ro_genl = [], ro_after = now\<rparr>"

definition ex_watcher :: thermal_watcher where
  "ex_watcher = \<lparr>tw_monitored = [''cpu''], tw_uevent_fd = 9, tw_genl_fd = - 1, tw_sleep_ms = Some 1000, tw_last_update = 0\<rparr>"

lemma helper_called_within_two_sleeps_witness:
  "threadLoop ex_genl ex_zone_files (\<lambda>_ n. Inr (1000, Suc n)) (ex_watch_round 0 0) (ex_watcher, 0) = Inr (None, ex_watcher, 0)
    \<and> round_end (ex_watch_round 999000000 (- 3)) ex_watcher \<le> 2000000000"
proof -
  let ?cb = "\<lambda>_ n. Inr (1000, Suc n)"
  have "quiet ex_genl ex_zone_files ?cb (ex_watcher, 0) (ex_watch_round 0 0)"
    by (simp add: quiet_def threadLoop_def ex_watcher_def ex_watch_round_def since_ms_def wrap64_def collect_sensors_def
        parseUevent_def)
  moreover have "waits_at_most (ex_watch_round 0 0)" "waits_at_most (ex_watch_round 999000000 (- 3))"
    by (auto simp: waits_at_most_def ex_watch_round_def)
  moreover have "ro_now (ex_watch_round 999000000 (- 3)) = round_end (ex_watch_round 0 0) ex_watcher"
    by (simp add: round_end_def ex_watch_round_def ex_watcher_def since_ms_def wrap64_def to_int32_def)
  ultimately show ?thesis
    using helper_called_within_two_sleeps [of ex_watcher 1000 ex_genl ex_zone_files ?cb 0 "ex_watch_round 0 0"
        "ex_watch_round 999000000 (- 3)"]
    by (simp add: ex_watcher_def ex_watch_round_def is_int32_def INT_MIN_def INT_MAX_def is_time_def)
qed

end
