(* ===== verification/PowerHal.thy ===== *)
theory PowerHal
  imports HelperWatch
begin

text \<open>
  The client of the power service (aidl/thermal/utils/powerhal_helper.cpp and powerhal_helper.h), which turns
  the severity of a sensor into modes of the power service. The service is a parameter with a state of its
  own, of the type \<open>'w\<close>.
\<close>

section \<open>The power service\<close>

text \<open>
  What an attempt to connect finds: the binder of the service, the interface made of it, the binder of
  its extension, and the interface made of that. \<open>pw_set_mode\<close> tells whether the call returned ok,
  \<open>pw_supported\<close> is \<open>None\<close> when it did not.
\<close>

record power_binders =
  pb_power :: bool
  pb_aidl :: bool
  pb_ext_binder :: bool
  pb_ext :: bool

record 'w power_world =
  pw_connect :: "'w \<Rightarrow> power_binders \<times> 'w"
  pw_set_mode :: "string \<Rightarrow> bool \<Rightarrow> 'w \<Rightarrow> bool \<times> 'w"
  pw_supported :: "string \<Rightarrow> 'w \<Rightarrow> bool option \<times> 'w"

section \<open>The client\<close>

record PowerHintstatus =
  hint_severity_map :: "(severity \<times> severity) list"
  prev_hint_severity :: severity

record power_hal =
  power_hal_aidl_exist :: bool
  power_hal_aidl :: bool
  power_hal_ext_aidl :: bool
  supported_powerhint_map :: "PowerHintstatus smap"

definition new_power_hal :: power_hal where
  "new_power_hal = \<lparr>power_hal_aidl_exist = True, power_hal_aidl = False, power_hal_ext_aidl = False,
     supported_powerhint_map = []\<rparr>"

text \<open>
  \<open>connect\<close>: when the interface of the extension cannot be made, the code goes on to link it to its
  death recipient, through the null pointer.
\<close>

definition power_connect :: "'w power_world \<Rightarrow> power_hal \<times> 'w \<Rightarrow> (bool \<times> power_hal \<times> 'w) result" where
  "power_connect pw s =
     (case s of (p, w) \<Rightarrow>
      if \<not> power_hal_aidl_exist p then Inr (False, p, w)
      else if power_hal_aidl p \<and> power_hal_ext_aidl p then Inr (True, p, w)
      else case pw_connect pw w of (b, w) \<Rightarrow>
        if \<not> pb_power b then Inr (False, p\<lparr>power_hal_aidl_exist := False\<rparr>, w)
        else if \<not> pb_aidl b then Inr (False, p\<lparr>power_hal_aidl := False, power_hal_aidl_exist := False\<rparr>, w)
        else if \<not> pb_ext_binder b then Inr (False, p\<lparr>power_hal_aidl := True, power_hal_aidl_exist := False\<rparr>, w)
        else if \<not> pb_ext b then Inl UB
        else Inr (True, p\<lparr>power_hal_aidl := True, power_hal_ext_aidl := True\<rparr>, w))"

definition severity_name :: "severity \<Rightarrow> string" where
  "severity_name v = (case v of NONE \<Rightarrow> ''NONE'' | LIGHT \<Rightarrow> ''LIGHT'' | MODERATE \<Rightarrow> ''MODERATE'' | SEVERE \<Rightarrow> ''SEVERE''
     | CRITICAL \<Rightarrow> ''CRITICAL'' | EMERGENCY \<Rightarrow> ''EMERGENCY'' | SHUTDOWN \<Rightarrow> ''SHUTDOWN'')"

definition power_hint :: "string \<Rightarrow> severity \<Rightarrow> string" where
  "power_hint type t = ''THERMAL_'' @ type @ ''_'' @ severity_name t"

definition drop_connection :: "power_hal \<Rightarrow> power_hal" where
  "drop_connection p = p\<lparr>power_hal_aidl := False, power_hal_ext_aidl := False\<rparr>"

definition isModeSupported ::
  "'w power_world \<Rightarrow> string \<Rightarrow> severity \<Rightarrow> power_hal \<times> 'w \<Rightarrow> (bool \<times> power_hal \<times> 'w) result" where
  "isModeSupported pw type t s =
     bindE (power_connect pw s) (\<lambda>(connected, p, w).
     if \<not> connected then Inr (False, p, w)
     else case pw_supported pw (power_hint type t) w of
       (None, w) \<Rightarrow> Inr (False, drop_connection p, w)
     | (Some isSupported, w) \<Rightarrow> Inr (isSupported, p, w))"

text \<open>A call that fails is tried once more, over a new connection.\<close>

function power_setMode ::
  "'w power_world \<Rightarrow> string \<Rightarrow> severity \<Rightarrow> bool \<Rightarrow> bool \<Rightarrow> power_hal \<times> 'w \<Rightarrow> (power_hal \<times> 'w) result" where
  "power_setMode pw type t enable error_on_exit s =
     bindE (power_connect pw s) (\<lambda>(connected, p, w).
     if \<not> connected then Inr (p, w)
     else case pw_set_mode pw (power_hint type t) enable w of (is_ok, w) \<Rightarrow>
       if is_ok then Inr (p, w)
       else if \<not> error_on_exit then power_setMode pw type t enable True (drop_connection p, w)
       else Inr (drop_connection p, w))"
  by pat_completeness auto
termination
  by (relation "measure (\<lambda>(_, _, _, _, error_on_exit, _). if error_on_exit then 0 else 1)") auto

declare power_setMode.simps [simp del]

text \<open>\<open>supported_powerhint_map_[name]\<close>: a name without an entry has one from then on, with every member zero.\<close>

definition hint_status :: "power_hal \<Rightarrow> string \<Rightarrow> PowerHintstatus" where
  "hint_status p name =
     (case map_of (supported_powerhint_map p) name of
        None \<Rightarrow> \<lparr>hint_severity_map = [], prev_hint_severity = NONE\<rparr>
      | Some q \<Rightarrow> q)"

definition set_hint :: "string \<Rightarrow> severity \<Rightarrow> severity \<Rightarrow> power_hal \<Rightarrow> power_hal" where
  "set_hint name v c p =
     (let q = hint_status p name
      in p\<lparr>supported_powerhint_map :=
             put name (q\<lparr>hint_severity_map := AList.update v c (hint_severity_map q)\<rparr>) (supported_powerhint_map p)\<rparr>)"

definition read_hint :: "string \<Rightarrow> severity \<Rightarrow> power_hal \<Rightarrow> severity \<times> power_hal" where
  "read_hint name v p =
     (case map_of (hint_severity_map (hint_status p name)) v of
        None \<Rightarrow> (NONE, set_hint name v NONE p)
      | Some c \<Rightarrow> (c, p))"

fun hint_loop ::
  "'w power_world \<Rightarrow> string \<Rightarrow> severity list \<Rightarrow> severity \<Rightarrow> power_hal \<times> 'w \<Rightarrow> (power_hal \<times> 'w) result" where
  "hint_loop pw name [] current_severity s = Inr s"
| "hint_loop pw name (v # vs) current_severity (p, w) =
     (if v = NONE then hint_loop pw name vs current_severity (set_hint name NONE NONE p, w)
      else
        bindE (if power_hal_ext_aidl p then isModeSupported pw name v (p, w) else Inr (False, p, w))
          (\<lambda>(isSupported, p, w).
           let c = (if isSupported then v else current_severity)
           in hint_loop pw name vs c (set_hint name v c p, w)))"

definition updateSupportedPowerHints ::
  "'w power_world \<Rightarrow> SensorInfo smap \<Rightarrow> power_hal \<times> 'w \<Rightarrow> (power_hal \<times> 'w) result" where
  "updateSupportedPowerHints pw sensor_info_map =
     foldE (\<lambda>(name, si) s. if si_send_powerhint si then hint_loop pw name sev_range NONE s else Inr s) sensor_info_map"

fun send_modes ::
  "'w power_world \<Rightarrow> string \<Rightarrow> severity \<Rightarrow> severity list \<Rightarrow> power_hal \<times> 'w \<Rightarrow> (power_hal \<times> 'w) result" where
  "send_modes pw name current_hint_severity [] s = Inr s"
| "send_modes pw name current_hint_severity (v # vs) (p, w) =
     (case read_hint name v p of (c, p) \<Rightarrow>
      if v \<noteq> c then send_modes pw name current_hint_severity vs (p, w)
      else bindE (power_setMode pw name v (v \<le> current_hint_severity) False (p, w))
             (send_modes pw name current_hint_severity vs))"

definition sendPowerExtHint ::
  "'w power_world \<Rightarrow> Temperature \<Rightarrow> power_hal \<times> 'w \<Rightarrow> (power_hal \<times> 'w) result" where
  "sendPowerExtHint pw t s =
     (case s of (p, w) \<Rightarrow>
      let name = tp_name t; prev = prev_hint_severity (hint_status p name)
      in case read_hint name (tp_throttlingStatus t) p of (cur, p) \<Rightarrow>
      if \<not> power_hal_aidl_exist p then Inr (p, w)
      else if prev = cur then Inr (p, w)
      else bindE (send_modes pw name cur sev_range (p, w)) (\<lambda>(p, w).
        Inr (p\<lparr>supported_powerhint_map :=
                 put name ((hint_status p name)\<lparr>prev_hint_severity := cur\<rparr>) (supported_powerhint_map p)\<rparr>, w)))"

text \<open>\<open>reconnect\<close> sends the modes of all severities, also of those that the service does not support.\<close>

definition power_reconnect :: "'w power_world \<Rightarrow> power_hal \<times> 'w \<Rightarrow> (power_hal \<times> 'w) result" where
  "power_reconnect pw s =
     bindE (power_connect pw s) (\<lambda>(connected, p, w).
     if \<not> connected then Inr (p, w)
     else foldE (\<lambda>(name, q). foldE (\<lambda>v. power_setMode pw name v (v \<le> prev_hint_severity q) False) sev_range)
            (supported_powerhint_map p) (p, w))"

definition onPowerHalExtAidlBinderDied :: "'w power_world \<Rightarrow> power_hal \<times> 'w \<Rightarrow> (power_hal \<times> 'w) result" where
  "onPowerHalExtAidlBinderDied pw s = (case s of (p, w) \<Rightarrow> power_reconnect pw (drop_connection p, w))"

text \<open>The constructor connects; that of the helper connects again and then asks for the modes.\<close>

definition PowerHalService :: "'w power_world \<Rightarrow> 'w \<Rightarrow> (power_hal \<times> 'w) result" where
  "PowerHalService pw w = bindE (power_connect pw (new_power_hal, w)) (\<lambda>(_, s). Inr s)"

definition prepare_power_hints :: "'w power_world \<Rightarrow> SensorInfo smap \<Rightarrow> power_hal \<times> 'w \<Rightarrow> (power_hal \<times> 'w) result" where
  "prepare_power_hints pw sensors s =
     bindE (power_connect pw s) (\<lambda>(connected, s).
     if \<not> connected then Inr s else updateSupportedPowerHints pw sensors s)"

text \<open>The calls that the helper makes, in the order in which it makes them.\<close>

fun serve_power_call :: "'w power_world \<Rightarrow> power_hal_call \<Rightarrow> power_hal \<times> 'w \<Rightarrow> (power_hal \<times> 'w) result" where
  "serve_power_call pw (SetMode name v enable) s = power_setMode pw name v enable False s"
| "serve_power_call pw (ExtHint t) s = sendPowerExtHint pw t s"

section \<open>Hints\<close>

lemma severity_name_plain: "CHR ''_'' \<notin> set (severity_name v)"
  by (cases v) (simp_all add: severity_name_def)

lemma severity_name_inj: "severity_name u = severity_name v \<longleftrightarrow> u = v"
  by (cases u; cases v) (simp_all add: severity_name_def)

lemma last_part_inj:
  assumes "x @ c # a = y @ c # b" "c \<notin> set a" "c \<notin> set b"
  shows "x = y \<and> a = b"
proof -
  have "rev a @ c # rev x = rev b @ c # rev y" using arg_cong [OF assms(1), of rev] by simp
  moreover have "takeWhile (\<lambda>d. d \<noteq> c) (rev a @ c # rev x) = rev a" "takeWhile (\<lambda>d. d \<noteq> c) (rev b @ c # rev y) = rev b"
    using assms(2,3) by (simp_all add: takeWhile_append)
  ultimately show ?thesis by auto
qed

lemma power_hint_inj [simp]: "power_hint m u = power_hint n v \<longleftrightarrow> m = n \<and> u = v"
  using last_part_inj [of m "CHR ''_''" "severity_name u" n "severity_name v"]
  by (auto simp: power_hint_def severity_name_plain severity_name_inj)

text \<open>The greatest supported severity that is not above a severity.\<close>

definition greatest_supported :: "(severity \<Rightarrow> bool) \<Rightarrow> severity \<Rightarrow> severity" where
  "greatest_supported knows v = foldl (\<lambda>c u. if u \<noteq> NONE \<and> u \<le> v \<and> knows u then u else c) NONE sev_range"

lemma greatest_supported_le: "u \<noteq> NONE \<Longrightarrow> knows u \<Longrightarrow> u \<le> greatest_supported knows v \<longleftrightarrow> u \<le> v"
  by (cases u; cases v) (simp_all add: greatest_supported_def sev_range_def sev_order)

lemma greatest_supported_self: "greatest_supported knows v = v \<longleftrightarrow> v = NONE \<or> knows v"
  by (cases v) (simp_all add: greatest_supported_def sev_range_def sev_order)

lemma greatest_supported_NONE [simp]: "greatest_supported knows NONE = NONE"
  by (simp add: greatest_supported_self)

section \<open>A service that answers\<close>

text \<open>
  \<open>modes\<close> is what the service has been told. The service is one that answers every call: it says of each
  hint whether it supports it, and does what it is told.
\<close>

definition power_answers :: "'w power_world \<Rightarrow> (string \<Rightarrow> bool) \<Rightarrow> ('w \<Rightarrow> string \<Rightarrow> bool) \<Rightarrow> bool" where
  "power_answers pw knows modes \<longleftrightarrow>
     (\<forall>h w. fst (pw_supported pw h w) = Some (knows h) \<and> modes (snd (pw_supported pw h w)) = modes w)
     \<and> (\<forall>h b w. fst (pw_set_mode pw h b w) \<and> modes (snd (pw_set_mode pw h b w)) = (modes w)(h := b))"

definition power_connected :: "power_hal \<Rightarrow> bool" where
  "power_connected p \<longleftrightarrow> power_hal_aidl_exist p \<and> power_hal_aidl p \<and> power_hal_ext_aidl p"

lemma connected_connect: "power_connected p \<Longrightarrow> power_connect pw (p, w) = Inr (True, p, w)"
  by (simp add: power_connected_def power_connect_def)

lemma answers_supported:
  assumes "power_answers pw knows modes" "power_connected p"
  shows "\<exists>w'. isModeSupported pw name v (p, w) = Inr (knows (power_hint name v), p, w') \<and> modes w' = modes w"
proof -
  obtain r w' where r: "pw_supported pw (power_hint name v) w = (r, w')" by fastforce
  have "fst (r, w') = Some (knows (power_hint name v)) \<and> modes (snd (r, w')) = modes w"
    using assms(1) unfolding r [symmetric] power_answers_def by blast
  then show ?thesis using assms(2) r by (simp add: isModeSupported_def connected_connect)
qed

lemma answers_setMode:
  assumes "power_answers pw knows modes" "power_connected p"
  shows "\<exists>w'. power_setMode pw name v b e (p, w) = Inr (p, w') \<and> modes w' = (modes w)(power_hint name v := b)"
proof -
  obtain r w' where r: "pw_set_mode pw (power_hint name v) b w = (r, w')" by fastforce
  have "fst (r, w') \<and> modes (snd (r, w')) = (modes w)(power_hint name v := b)"
    using assms(1) unfolding r [symmetric] power_answers_def by blast
  then show ?thesis using assms(2) r by (subst power_setMode.simps) (simp add: connected_connect)
qed

text \<open>The table of a sensor has the greatest supported severity for every severity.\<close>

definition hint_table :: "(string \<Rightarrow> bool) \<Rightarrow> power_hal \<Rightarrow> string \<Rightarrow> bool" where
  "hint_table knows p name \<longleftrightarrow> has (supported_powerhint_map p) name
     \<and> map_of (hint_severity_map (hint_status p name))
       = (\<lambda>v. Some (greatest_supported (\<lambda>u. knows (power_hint name u)) v))"

lemma hint_status_set_hint [simp]:
  "hint_status (set_hint name v c p) n =
     (if n = name then (hint_status p n)\<lparr>hint_severity_map := AList.update v c (hint_severity_map (hint_status p n))\<rparr>
      else hint_status p n)"
  by (auto simp: hint_status_def set_hint_def Let_def)

lemma set_hint_kept [simp]:
  "power_connected (set_hint name v c p) = power_connected p"
  "has (supported_powerhint_map (set_hint name v c p)) n = (n = name \<or> has (supported_powerhint_map p) n)"
  by (auto simp: power_connected_def set_hint_def Let_def has_def)

fun hint_entries :: "(severity \<Rightarrow> bool) \<Rightarrow> severity list \<Rightarrow> severity \<Rightarrow> (severity \<rightharpoonup> severity) \<Rightarrow> severity \<rightharpoonup> severity" where
  "hint_entries knows [] c m = m"
| "hint_entries knows (v # vs) c m =
     (if v = NONE then hint_entries knows vs c (m(NONE \<mapsto> NONE))
      else let c' = (if knows v then v else c) in hint_entries knows vs c' (m(v \<mapsto> c')))"

lemma hint_entries_all: "hint_entries knows sev_range NONE m = (\<lambda>v. Some (greatest_supported knows v))"
proof
  fix v show "hint_entries knows sev_range NONE m v = Some (greatest_supported knows v)"
    by (cases v) (simp_all add: greatest_supported_def sev_range_def sev_order Let_def)
qed

lemma hint_loop_answers:
  assumes "power_answers pw knows modes" "power_connected p"
  shows "\<exists>p' w'. hint_loop pw name vs c (p, w) = Inr (p', w') \<and> power_connected p' \<and> modes w' = modes w
    \<and> (\<forall>n. n \<noteq> name \<longrightarrow> hint_status p' n = hint_status p n)
    \<and> (\<forall>n. has (supported_powerhint_map p') n = (has (supported_powerhint_map p) n \<or> n = name \<and> vs \<noteq> []))
    \<and> prev_hint_severity (hint_status p' name) = prev_hint_severity (hint_status p name)
    \<and> map_of (hint_severity_map (hint_status p' name))
        = hint_entries (\<lambda>u. knows (power_hint name u)) vs c (map_of (hint_severity_map (hint_status p name)))"
  using assms(2)
proof (induction vs arbitrary: c p w)
  case (Cons v vs)
  show ?case
  proof (cases "v = NONE")
    case True
    then show ?thesis using Cons.IH [of "set_hint name NONE NONE p" c w] Cons.prems by (fastforce simp: update_conv')
  next
    case False
    obtain w1 where knows: "isModeSupported pw name v (p, w) = Inr (knows (power_hint name v), p, w1)" "modes w1 = modes w"
      using answers_supported [OF assms(1) Cons.prems] by blast
    have ext: "power_hal_ext_aidl p" using Cons.prems by (simp add: power_connected_def)
    let ?c = "if knows (power_hint name v) then v else c"
    show ?thesis using Cons.IH [of "set_hint name v ?c p" ?c w1] Cons.prems False ext knows
      by (fastforce simp: update_conv' Let_def)
  qed
qed simp

lemma hint_loop_table:
  assumes "power_answers pw knows modes" "power_connected p"
  shows "\<exists>p' w'. hint_loop pw name sev_range NONE (p, w) = Inr (p', w') \<and> power_connected p' \<and> modes w' = modes w
    \<and> (\<forall>n. n = name \<or> hint_table knows p n \<longrightarrow> hint_table knows p' n)
    \<and> (\<forall>n. prev_hint_severity (hint_status p' n) = prev_hint_severity (hint_status p n))"
proof -
  have "sev_range \<noteq> []" by (simp add: sev_range_def)
  obtain p' w' where "hint_loop pw name sev_range NONE (p, w) = Inr (p', w')" "power_connected p'" "modes w' = modes w"
    and st: "\<And>n. n \<noteq> name \<Longrightarrow> hint_status p' n = hint_status p n"
    and ha: "\<And>n. has (supported_powerhint_map p') n = (has (supported_powerhint_map p) n \<or> n = name \<and> sev_range \<noteq> [])"
    and pr: "prev_hint_severity (hint_status p' name) = prev_hint_severity (hint_status p name)"
    and tb: "map_of (hint_severity_map (hint_status p' name)) = (\<lambda>v. Some (greatest_supported (\<lambda>u. knows (power_hint name u)) v))"
    using hint_loop_answers [OF assms, of name sev_range NONE w] unfolding hint_entries_all by blast
  moreover have "hint_table knows p' n" if "n = name \<or> hint_table knows p n" for n
    using that st [of n] ha [of n] tb \<open>sev_range \<noteq> []\<close> by (cases "n = name") (auto simp: hint_table_def)
  moreover have "prev_hint_severity (hint_status p' n) = prev_hint_severity (hint_status p n)" for n
    using st [of n] pr by (cases "n = name") auto
  ultimately show ?thesis by blast
qed

section \<open>What the service is told\<close>

lemma read_hint_table: "hint_table knows p name \<Longrightarrow>
    read_hint name v p = (greatest_supported (\<lambda>u. knows (power_hint name u)) v, p)"
  by (simp add: hint_table_def read_hint_def)

lemma send_modes_answers:
  assumes "power_answers pw knows modes" "power_connected p" "hint_table knows p name"
  shows "\<exists>w'. send_modes pw name cur vs (p, w) = Inr (p, w')
    \<and> (\<forall>v. v \<in> set vs \<and> knows (power_hint name v) \<longrightarrow> modes w' (power_hint name v) = (v \<le> cur))
    \<and> (\<forall>h. h \<notin> power_hint name ` set vs \<longrightarrow> modes w' h = modes w h)"
proof (induction vs arbitrary: w)
  case (Cons v vs)
  note rd = read_hint_table [OF assms(3), of v]
  show ?case
  proof (cases "v = NONE \<or> knows (power_hint name v)")
    case True
    then have "greatest_supported (\<lambda>u. knows (power_hint name u)) v = v" by (simp add: greatest_supported_self)
    moreover obtain w1 where "power_setMode pw name v (v \<le> cur) False (p, w) = Inr (p, w1)"
        "modes w1 = (modes w)(power_hint name v := v \<le> cur)"
      using answers_setMode [OF assms(1,2)] by blast
    moreover obtain w' where "send_modes pw name cur vs (p, w1) = Inr (p, w')"
        "\<And>u. u \<in> set vs \<Longrightarrow> knows (power_hint name u) \<Longrightarrow> modes w' (power_hint name u) = (u \<le> cur)"
        "\<And>h. h \<notin> power_hint name ` set vs \<Longrightarrow> modes w' h = modes w1 h"
      using Cons.IH [of w1] by blast
    moreover have "power_hint name v \<in> power_hint name ` set vs \<longleftrightarrow> v \<in> set vs" by auto
    ultimately show ?thesis using rd by (cases "v \<in> set vs") auto
  next
    case False
    then have "greatest_supported (\<lambda>u. knows (power_hint name u)) v \<noteq> v" by (simp add: greatest_supported_self)
    then show ?thesis using Cons.IH [of w] rd False by auto
  qed
qed simp

text \<open>
  The invariant: the client is connected, and for each of the sensors the service has been told the
  modes of the severity \<open>severity_of\<close> that it was last called with.
\<close>

definition power_synced ::
  "(string \<Rightarrow> bool) \<Rightarrow> ('w \<Rightarrow> string \<Rightarrow> bool) \<Rightarrow> string set \<Rightarrow> (string \<Rightarrow> severity) \<Rightarrow> power_hal \<times> 'w \<Rightarrow> bool" where
  "power_synced knows modes names severity_of s \<longleftrightarrow> power_connected (fst s)
     \<and> (\<forall>n \<in> names. hint_table knows (fst s) n
          \<and> prev_hint_severity (hint_status (fst s) n)
              = greatest_supported (\<lambda>u. knows (power_hint n u)) (severity_of n)
          \<and> (\<forall>u. u \<noteq> NONE \<and> knows (power_hint n u) \<longrightarrow> modes (snd s) (power_hint n u) = (u \<le> severity_of n)))"

lemma hint_status_prev [simp]:
  "hint_status (p\<lparr>supported_powerhint_map := put name q (supported_powerhint_map p)\<rparr>) n = (if n = name then q else hint_status p n)"
  by (simp add: hint_status_def)

lemma sendPowerExtHint_syncs:
  assumes "power_answers pw knows modes" "power_synced knows modes names severity_of s" "tp_name t \<in> names"
  shows "\<exists>s'. sendPowerExtHint pw t s = Inr s'
    \<and> power_synced knows modes names (severity_of(tp_name t := tp_throttlingStatus t)) s'"
proof -
  obtain p w where s: "s = (p, w)" by (cases s)
  let ?n = "tp_name t" and ?sev = "tp_throttlingStatus t"
  let ?g = "greatest_supported (\<lambda>u. knows (power_hint ?n u))"
  have con: "power_connected p" and tab: "hint_table knows p ?n"
    and prev: "prev_hint_severity (hint_status p ?n) = ?g (severity_of ?n)"
    and told: "\<And>u. u \<noteq> NONE \<Longrightarrow> knows (power_hint ?n u) \<Longrightarrow> modes w (power_hint ?n u) = (u \<le> severity_of ?n)"
    using assms(2,3) s by (auto simp: power_synced_def)
  have ex: "power_hal_aidl_exist p" using con by (simp add: power_connected_def)
  note rd = read_hint_table [OF tab, of ?sev]
  note le = greatest_supported_le [where knows = "\<lambda>u. knows (power_hint ?n u)"]
  show ?thesis
  proof (cases "?g (severity_of ?n) = ?g ?sev")
    case True
    have "u \<le> severity_of ?n \<longleftrightarrow> u \<le> ?sev" if "u \<noteq> NONE" "knows (power_hint ?n u)" for u
      using le [OF that, of "severity_of ?n"] le [OF that, of ?sev] True by simp
    moreover have "sendPowerExtHint pw t s = Inr s" using s rd prev True by (simp add: sendPowerExtHint_def Let_def)
    ultimately show ?thesis using assms(2) s True by (auto simp: power_synced_def)
  next
    case False
    obtain w' where sent: "send_modes pw ?n (?g ?sev) sev_range (p, w) = Inr (p, w')"
      and new: "\<And>v. knows (power_hint ?n v) \<Longrightarrow> modes w' (power_hint ?n v) = (v \<le> ?g ?sev)"
      and old: "\<And>h. h \<notin> range (power_hint ?n) \<Longrightarrow> modes w' h = modes w h"
      using send_modes_answers [OF assms(1) con tab, of "?g ?sev" sev_range w] by fastforce
    let ?p = "p\<lparr>supported_powerhint_map := put ?n ((hint_status p ?n)\<lparr>prev_hint_severity := ?g ?sev\<rparr>) (supported_powerhint_map p)\<rparr>"
    have run: "sendPowerExtHint pw t s = Inr (?p, w')"
      using s rd prev False ex sent by (simp add: sendPowerExtHint_def Let_def)
    have tabs: "hint_table knows ?p n \<longleftrightarrow> hint_table knows p n" if "n \<in> names" for n
      using tab by (auto simp: hint_table_def has_def)
    have "power_synced knows modes names (severity_of(?n := ?sev)) (?p, w')"
      unfolding power_synced_def
    proof (intro conjI ballI)
      show "power_connected (fst (?p, w'))" using con by (simp add: power_connected_def)
      fix n assume n: "n \<in> names"
      then have at: "hint_table knows p n \<and> prev_hint_severity (hint_status p n)
            = greatest_supported (\<lambda>u. knows (power_hint n u)) (severity_of n)
          \<and> (\<forall>u. u \<noteq> NONE \<and> knows (power_hint n u) \<longrightarrow> modes w (power_hint n u) = (u \<le> severity_of n))"
        using assms(2) s by (simp add: power_synced_def)
      show "hint_table knows (fst (?p, w')) n" using tabs [OF n] at by simp
      show "prev_hint_severity (hint_status (fst (?p, w')) n)
          = greatest_supported (\<lambda>u. knows (power_hint n u)) ((severity_of(?n := ?sev)) n)"
        using at by simp
      show "\<forall>u. u \<noteq> NONE \<and> knows (power_hint n u) \<longrightarrow>
          modes (snd (?p, w')) (power_hint n u) = (u \<le> (severity_of(?n := ?sev)) n)"
      proof (cases "n = ?n")
        case False
        then have "power_hint n u \<notin> range (power_hint ?n)" for u by auto
        then show ?thesis using at old False by simp
      qed (use at new le in auto)
    qed
    then show ?thesis using run by blast
  qed
qed

lemma updateSupportedPowerHints_syncs:
  assumes "power_answers pw knows modes" "power_synced knows modes names (\<lambda>_. NONE) s"
    and "\<forall>n. prev_hint_severity (hint_status (fst s) n) = NONE" "\<forall>h. \<not> modes (snd s) h"
  shows "\<exists>s'. updateSupportedPowerHints pw sensors s = Inr s'
    \<and> power_synced knows modes (names \<union> fst ` {x \<in> set sensors. si_send_powerhint (snd x)}) (\<lambda>_. NONE) s'"
  using assms(2-4)
proof (induction sensors arbitrary: s names)
  case (Cons x sensors)
  obtain name si where x: "x = (name, si)" by (cases x)
  obtain p w where s: "s = (p, w)" by (cases s)
  show ?case
  proof (cases "si_send_powerhint si")
    case True
    have "power_connected p" using Cons.prems(1) s by (simp add: power_synced_def)
    then obtain p' w' where run: "hint_loop pw name sev_range NONE (p, w) = Inr (p', w')" "power_connected p'" "modes w' = modes w"
      and tab: "\<And>n. n = name \<or> hint_table knows p n \<Longrightarrow> hint_table knows p' n"
      and pr: "\<And>n. prev_hint_severity (hint_status p' n) = prev_hint_severity (hint_status p n)"
      using hint_loop_table [OF assms(1)] by blast
    have "power_synced knows modes (insert name names) (\<lambda>_. NONE) (p', w')"
      using Cons.prems s run(2,3) tab pr by (auto simp: power_synced_def)
    then obtain s' where "updateSupportedPowerHints pw sensors (p', w') = Inr s'"
        "power_synced knows modes (insert name names \<union> fst ` {x \<in> set sensors. si_send_powerhint (snd x)}) (\<lambda>_. NONE) s'"
      using Cons.IH [of "insert name names" "(p', w')"] Cons.prems(2,3) run(3) pr s by auto
    moreover have "{y \<in> set (x # sensors). si_send_powerhint (snd y)} = insert x {y \<in> set sensors. si_send_powerhint (snd y)}"
      using True x by auto
    then have "insert name names \<union> fst ` {x \<in> set sensors. si_send_powerhint (snd x)}
        = names \<union> fst ` {y \<in> set (x # sensors). si_send_powerhint (snd y)}" using x by simp
    ultimately show ?thesis using run(1) True x s by (simp add: updateSupportedPowerHints_def)
  next
    case False
    then have "{y \<in> set (x # sensors). si_send_powerhint (snd y)} = {y \<in> set sensors. si_send_powerhint (snd y)}"
      using x by auto
    then show ?thesis using Cons False x by (simp add: updateSupportedPowerHints_def)
  qed
qed (simp add: updateSupportedPowerHints_def)

text \<open>The severity of the last temperature of a sensor.\<close>

definition last_severity :: "Temperature list \<Rightarrow> string \<Rightarrow> severity" where
  "last_severity ts = fold (\<lambda>t m. m(tp_name t := tp_throttlingStatus t)) ts (\<lambda>_. NONE)"

lemma hints_sync:
  assumes "power_answers pw knows modes" "\<forall>t \<in> set ts. tp_name t \<in> names" "power_synced knows modes names m s"
  shows "\<exists>s'. foldE (sendPowerExtHint pw) ts s = Inr s'
    \<and> power_synced knows modes names (fold (\<lambda>t m. m(tp_name t := tp_throttlingStatus t)) ts m) s'"
  using assms(2,3)
proof (induction ts arbitrary: s m)
  case (Cons t ts)
  have "tp_name t \<in> names" using Cons.prems(1) by simp
  from sendPowerExtHint_syncs [OF assms(1) Cons.prems(2) this]
  obtain s1 where s1: "sendPowerExtHint pw t s = Inr s1"
      "power_synced knows modes names (m(tp_name t := tp_throttlingStatus t)) s1" by blast
  have "\<forall>t \<in> set ts. tp_name t \<in> names" using Cons.prems(1) by simp
  from Cons.IH [OF this s1(2)] show ?case using s1(1) by (simp del: fun_upd_apply split_paired_Ex)
qed simp

text \<open>
  C25: As long as the power service answers, the modes that it has been told follow the severities: after
  any sequence of notifications, of each hint that it supports for a sensor the mode is enabled exactly when its
  severity does not exceed that of the last temperature of the sensor, although modes are only sent
  when the greatest supported severity changes.
\<close>

theorem power_hints_follow_severity:
  assumes "power_answers pw knows modes" "power_connected p" "supported_powerhint_map p = []" "\<forall>h. \<not> modes w h"
    and "\<forall>t \<in> set ts. \<exists>si. (tp_name t, si) \<in> set sensors \<and> si_send_powerhint si"
  shows "\<exists>s p' w'. updateSupportedPowerHints pw sensors (p, w) = Inr s
    \<and> foldE (sendPowerExtHint pw) ts s = Inr (p', w')
    \<and> (\<forall>(n, si) \<in> set sensors. si_send_powerhint si \<longrightarrow>
         (\<forall>v. v \<noteq> NONE \<and> knows (power_hint n v) \<longrightarrow> modes w' (power_hint n v) = (v \<le> last_severity ts n)))"
proof -
  let ?names = "fst ` {x \<in> set sensors. si_send_powerhint (snd x)}"
  have "power_synced knows modes {} (\<lambda>_. NONE) (p, w)" using assms(2) by (simp add: power_synced_def)
  moreover have "\<forall>n. prev_hint_severity (hint_status (fst (p, w)) n) = NONE" using assms(3) by (simp add: hint_status_def)
  moreover have "\<forall>h. \<not> modes (snd (p, w)) h" using assms(4) by simp
  ultimately obtain s where s: "updateSupportedPowerHints pw sensors (p, w) = Inr s"
      "power_synced knows modes ({} \<union> ?names) (\<lambda>_. NONE) s"
    using updateSupportedPowerHints_syncs [OF assms(1)] by blast
  have "\<forall>t \<in> set ts. tp_name t \<in> {} \<union> ?names" using assms(5) by force
  then obtain s' where s': "foldE (sendPowerExtHint pw) ts s = Inr s'"
      "power_synced knows modes ({} \<union> ?names) (last_severity ts) s'"
    using hints_sync [OF assms(1) _ s(2)] unfolding last_severity_def by blast
  obtain p' w' where eq: "s' = (p', w')" by (cases s')
  have "modes w' (power_hint n v) = (v \<le> last_severity ts n)"
    if "(n, si) \<in> set sensors" "si_send_powerhint si" "v \<noteq> NONE" "knows (power_hint n v)" for n si v
  proof -
    have "n \<in> {} \<union> ?names" using that(1,2) by force
    from bspec [OF conjunct2 [OF s'(2) [unfolded power_synced_def]] this]
    show ?thesis using that(3,4) eq by simp
  qed
  then show ?thesis using s(1) s'(1) eq by blast
qed

text \<open>
  A service whose extension cannot be made an interface crashes the client; one that lacks the extension
  once is not tried again, also after its death.
\<close>

lemma missing_extension_dereferenced:
  assumes "pw_connect pw w = (\<lparr>pb_power = True, pb_aidl = True, pb_ext_binder = True, pb_ext = False\<rparr>, w')"
  shows "PowerHalService pw w = Inl UB"
  using assms by (simp add: PowerHalService_def power_connect_def new_power_hal_def)

lemma absent_service_not_retried:
  assumes "\<not> power_hal_aidl_exist p"
  shows "onPowerHalExtAidlBinderDied pw (p, w) = Inr (drop_connection p, w)"
  using assms by (simp add: onPowerHalExtAidlBinderDied_def power_reconnect_def power_connect_def drop_connection_def)

section \<open>Examples\<close>

text \<open>A service that has all its parts, supports a set of hints, and remembers the modes.\<close>

definition ex_power_world :: "(string \<Rightarrow> bool) power_world" where
  "ex_power_world =
     \<lparr>pw_connect = (\<lambda>w. (\<lparr>pb_power = True, pb_aidl = True, pb_ext_binder = True, pb_ext = True\<rparr>, w)),
      pw_set_mode = (\<lambda>h b w. (True, w(h := b))),
      pw_supported = (\<lambda>h w. (Some (h \<in> {power_hint ''skin'' LIGHT, power_hint ''skin'' SEVERE}), w))\<rparr>"

lemma ex_power_answers:
  "power_answers ex_power_world (\<lambda>h. h \<in> {power_hint ''skin'' LIGHT, power_hint ''skin'' SEVERE}) (\<lambda>w. w)"
  by (simp add: power_answers_def ex_power_world_def)

definition ex_hot :: "severity \<Rightarrow> Temperature" where
  "ex_hot v = no_temperature\<lparr>tp_name := ''skin'', tp_throttlingStatus := v\<rparr>"

definition ex_hinted :: "SensorInfo smap" where
  "ex_hinted = [(''skin'', (ex_skin [''cpu''])\<lparr>si_send_powerhint := True\<rparr>)]"

lemma power_hints_follow_severity_witness:
  "\<exists>s p' w'. updateSupportedPowerHints ex_power_world ex_hinted
      (\<lparr>power_hal_aidl_exist = True, power_hal_aidl = True, power_hal_ext_aidl = True, supported_powerhint_map = []\<rparr>, \<lambda>_. False)
        = Inr s
    \<and> foldE (sendPowerExtHint ex_power_world) [ex_hot SHUTDOWN, ex_hot MODERATE] s = Inr (p', w')
    \<and> w' (power_hint ''skin'' LIGHT) \<and> \<not> w' (power_hint ''skin'' SEVERE)"
proof -
  let ?p = "\<lparr>power_hal_aidl_exist = True, power_hal_aidl = True, power_hal_ext_aidl = True, supported_powerhint_map = []\<rparr>"
  have "\<forall>t \<in> set [ex_hot SHUTDOWN, ex_hot MODERATE]. \<exists>si. (tp_name t, si) \<in> set ex_hinted \<and> si_send_powerhint si"
    by (simp add: ex_hot_def ex_hinted_def)
  then obtain s p' w' where run: "updateSupportedPowerHints ex_power_world ex_hinted (?p, \<lambda>_. False) = Inr s"
      "foldE (sendPowerExtHint ex_power_world) [ex_hot SHUTDOWN, ex_hot MODERATE] s = Inr (p', w')"
    and modes: "\<forall>(n, si) \<in> set ex_hinted. si_send_powerhint si \<longrightarrow>
      (\<forall>v. v \<noteq> NONE \<and> power_hint n v \<in> {power_hint ''skin'' LIGHT, power_hint ''skin'' SEVERE}
        \<longrightarrow> w' (power_hint n v) = (v \<le> last_severity [ex_hot SHUTDOWN, ex_hot MODERATE] n))"
    using power_hints_follow_severity [OF ex_power_answers, of ?p "\<lambda>_. False" "[ex_hot SHUTDOWN, ex_hot MODERATE]" ex_hinted]
    unfolding power_connected_def by force
  have "last_severity [ex_hot SHUTDOWN, ex_hot MODERATE] ''skin'' = MODERATE" by (simp add: last_severity_def ex_hot_def)
  then have "w' (power_hint ''skin'' LIGHT)" "\<not> w' (power_hint ''skin'' SEVERE)"
    using modes by (auto simp: ex_hinted_def sev_order)
  then show ?thesis using run by blast
qed

end
