(* ===== verification/ThermalService.thy ===== *)
theory ThermalService
  imports ThermalWatcher PowerHal
begin

text \<open>
  The binder service (aidl/thermal/Thermal.h and Thermal.cpp): it hands requests to the helper and the
  notifications of the helper to the clients that have registered a callback. A callback is known by
  the address of its interface; the thread that sends the first notifications takes its events from a
  queue. What the functions that only print the state of the helper print is left out.
\<close>

section \<open>Clients\<close>

text \<open>What the interfaces are: whether one is remote, and its binder.\<close>

record interfaces =
  isRemote :: "nat \<Rightarrow> bool"
  asBinder :: "nat \<Rightarrow> nat"

text \<open>How the clients behave at a moment: which binders are alive, and whether a notification succeeds.\<close>

record clients =
  isAlive :: "nat \<Rightarrow> bool"
  notified :: "nat \<Rightarrow> Temperature \<Rightarrow> bool"

definition interfacesEqual :: "interfaces \<Rightarrow> nat option \<Rightarrow> nat option \<Rightarrow> bool" where
  "interfacesEqual I left right =
     (case (left, right) of
        (Some l, Some r) \<Rightarrow>
          if \<not> isRemote I l \<or> \<not> isRemote I r then l = r else asBinder I l = asBinder I r
      | _ \<Rightarrow> left = right)"

definition same_interface :: "interfaces \<Rightarrow> nat \<Rightarrow> nat \<Rightarrow> bool" where
  "same_interface I l r = interfacesEqual I (Some l) (Some r)"

section \<open>State\<close>

record CallbackSetting =
  cs_callback :: nat
  cs_is_filter_type :: bool
  cs_type :: int

record CoolingDeviceCallbackSetting =
  cds_callback :: nat
  cds_is_filter_type :: bool
  cds_type :: int

text \<open>
  An event of the looper is the closure of its handler: the setting, the filter and the type.
  \<open>sv_sent\<close> is not a member: the notifications in the order in which they are sent, with their receiver.
\<close>

record service =
  sv_initialized :: bool
  sv_helper :: helper_state
  sv_callbacks :: "CallbackSetting list"
  sv_cdev_callbacks :: "CoolingDeviceCallbackSetting list"
  sv_events :: "(CallbackSetting \<times> bool \<times> int) list"
  sv_aborted :: bool
  sv_sent :: "(nat \<times> Temperature) list"

text \<open>
  The constructor, with the result of that of the helper. \<open>aborted_\<close> is not initialised: it is what
  the memory held.
\<close>

definition new_service :: "bool \<Rightarrow> bool \<times> helper_state \<Rightarrow> service" where
  "new_service garbage helper =
     \<lparr>sv_initialized = fst helper, sv_helper = snd helper, sv_callbacks = [], sv_cdev_callbacks = [], sv_events = [],
      sv_aborted = garbage, sv_sent = []\<rparr>"

datatype status = StatusOk | IllegalState string | IllegalArgument string | UnsupportedOperation

definition initErrorStatus :: status where
  "initErrorStatus = IllegalState ''ThermalHAL not initialized properly.''"

definition readErrorStatus :: status where
  "readErrorStatus = IllegalState ''ThermalHal cannot read any sensor data''"

section \<open>Requests\<close>

definition getFilteredTemperatures ::
    "nat \<Rightarrow> nat \<Rightarrow> 'j helper_env \<Rightarrow> bool \<Rightarrow> int \<Rightarrow> service \<Rightarrow> (status \<times> Temperature list \<times> service) result"
where
  "getFilteredTemperatures fuel n env filterType type s =
     (if \<not> sv_initialized s then Inr (initErrorStatus, [], s)
      else bindE (fillCurrentTemperatures fuel n env filterType False type (sv_helper s)) (\<lambda>(found, ts, h).
        Inr (if found then StatusOk else readErrorStatus, ts, s\<lparr>sv_helper := h\<rparr>)))"

text \<open>\<open>TemperatureType::UNKNOWN\<close> and \<open>CoolingType::BATTERY\<close>, which no filter uses.\<close>

definition TemperatureType_UNKNOWN :: int where "TemperatureType_UNKNOWN = - 1"
definition CoolingType_BATTERY :: int where "CoolingType_BATTERY = 1"

definition getTemperatures ::
    "nat \<Rightarrow> nat \<Rightarrow> 'j helper_env \<Rightarrow> service \<Rightarrow> (status \<times> Temperature list \<times> service) result"
where
  "getTemperatures fuel n env = getFilteredTemperatures fuel n env False TemperatureType_UNKNOWN"

definition getTemperaturesWithType ::
    "nat \<Rightarrow> nat \<Rightarrow> 'j helper_env \<Rightarrow> int \<Rightarrow> service \<Rightarrow> (status \<times> Temperature list \<times> service) result"
where
  "getTemperaturesWithType fuel n env type = getFilteredTemperatures fuel n env True type"

definition getFilteredCoolingDevices ::
    "'j helper_env \<Rightarrow> bool \<Rightarrow> int \<Rightarrow> service \<Rightarrow> (status \<times> CoolingDevice list) result"
where
  "getFilteredCoolingDevices env filterType type s =
     (if \<not> sv_initialized s then Inr (initErrorStatus, [])
      else bindE (fillCurrentCoolingDevices env filterType type (sv_helper s)) (\<lambda>(found, cds).
        Inr (if found then StatusOk else readErrorStatus, cds)))"

definition getCoolingDevices :: "'j helper_env \<Rightarrow> service \<Rightarrow> (status \<times> CoolingDevice list) result" where
  "getCoolingDevices env = getFilteredCoolingDevices env False CoolingType_BATTERY"

definition getCoolingDevicesWithType :: "'j helper_env \<Rightarrow> int \<Rightarrow> service \<Rightarrow> (status \<times> CoolingDevice list) result" where
  "getCoolingDevicesWithType env type = getFilteredCoolingDevices env True type"

definition getFilteredTemperatureThresholds :: "bool \<Rightarrow> int \<Rightarrow> service \<Rightarrow> status \<times> TemperatureThreshold list" where
  "getFilteredTemperatureThresholds filterType type s =
     (if \<not> sv_initialized s then (initErrorStatus, [])
      else case fillTemperatureThresholds filterType type (sv_helper s) of
        (found, ts) \<Rightarrow> (if found then StatusOk else readErrorStatus, ts))"

definition getTemperatureThresholds :: "service \<Rightarrow> status \<times> TemperatureThreshold list" where
  "getTemperatureThresholds = getFilteredTemperatureThresholds False TemperatureType_UNKNOWN"

definition getTemperatureThresholdsWithType :: "int \<Rightarrow> service \<Rightarrow> status \<times> TemperatureThreshold list" where
  "getTemperatureThresholdsWithType type = getFilteredTemperatureThresholds True type"

definition forecastSkinTemperature :: "int \<Rightarrow> status" where
  "forecastSkinTemperature seconds = UnsupportedOperation"

section \<open>Callbacks\<close>

definition null_callback :: status where "null_callback = IllegalArgument ''Invalid nullptr callback''"
definition already_registered :: status where "already_registered = IllegalArgument ''Callback already registered''"
definition not_registered :: status where "not_registered = IllegalArgument ''Callback wasn't registered''"

definition register_callback ::
    "interfaces \<Rightarrow> nat option \<Rightarrow> bool \<Rightarrow> int \<Rightarrow> service \<Rightarrow> status \<times> service"
where
  "register_callback I callback filterType type s =
     (case callback of
        None \<Rightarrow> (null_callback, s)
      | Some cb \<Rightarrow>
          if \<not> sv_initialized s then (initErrorStatus, s)
          else if \<exists>c \<in> set (sv_callbacks s). same_interface I (cs_callback c) cb then (already_registered, s)
          else
            let c = \<lparr>cs_callback = cb, cs_is_filter_type = filterType, cs_type = type\<rparr>
            in (StatusOk, s\<lparr>sv_callbacks := sv_callbacks s @ [c], sv_events := sv_events s @ [(c, filterType, type)]\<rparr>))"

definition registerThermalChangedCallback :: "interfaces \<Rightarrow> nat option \<Rightarrow> service \<Rightarrow> status \<times> service" where
  "registerThermalChangedCallback I callback = register_callback I callback False TemperatureType_UNKNOWN"

definition registerThermalChangedCallbackWithType ::
    "interfaces \<Rightarrow> nat option \<Rightarrow> int \<Rightarrow> service \<Rightarrow> status \<times> service"
where
  "registerThermalChangedCallbackWithType I callback type = register_callback I callback True type"

definition unregisterThermalChangedCallback :: "interfaces \<Rightarrow> nat option \<Rightarrow> service \<Rightarrow> status \<times> service" where
  "unregisterThermalChangedCallback I callback s =
     (case callback of
        None \<Rightarrow> (null_callback, s)
      | Some cb \<Rightarrow>
          let kept = filter (\<lambda>c. \<not> same_interface I (cs_callback c) cb) (sv_callbacks s)
          in if length kept = length (sv_callbacks s) then (not_registered, s)
             else (StatusOk, s\<lparr>sv_callbacks := kept\<rparr>))"

definition registerCoolingDeviceChangedCallbackWithType ::
    "interfaces \<Rightarrow> nat option \<Rightarrow> int \<Rightarrow> service \<Rightarrow> status \<times> service"
where
  "registerCoolingDeviceChangedCallbackWithType I callback type s =
     (case callback of
        None \<Rightarrow> (null_callback, s)
      | Some cb \<Rightarrow>
          if \<not> sv_initialized s then (initErrorStatus, s)
          else if \<exists>c \<in> set (sv_cdev_callbacks s). same_interface I (cds_callback c) cb then (already_registered, s)
          else (StatusOk, s\<lparr>sv_cdev_callbacks := sv_cdev_callbacks s
                  @ [\<lparr>cds_callback = cb, cds_is_filter_type = True, cds_type = type\<rparr>]\<rparr>))"

definition unregisterCoolingDeviceChangedCallback :: "interfaces \<Rightarrow> nat option \<Rightarrow> service \<Rightarrow> status \<times> service" where
  "unregisterCoolingDeviceChangedCallback I callback s =
     (case callback of
        None \<Rightarrow> (null_callback, s)
      | Some cb \<Rightarrow>
          let kept = filter (\<lambda>c. \<not> same_interface I (cds_callback c) cb) (sv_cdev_callbacks s)
          in if length kept = length (sv_cdev_callbacks s) then (not_registered, s)
             else (StatusOk, s\<lparr>sv_cdev_callbacks := kept\<rparr>))"

text \<open>\<open>sendThermalChangedCallback\<close>: a client that cannot be notified is removed.\<close>

definition wants :: "Temperature \<Rightarrow> CallbackSetting \<Rightarrow> bool" where
  "wants t c \<longleftrightarrow> \<not> cs_is_filter_type c \<or> tp_type t = cs_type c"

definition sendThermalChangedCallback :: "clients \<Rightarrow> Temperature \<Rightarrow> service \<Rightarrow> service" where
  "sendThermalChangedCallback C t s =
     s\<lparr>sv_sent := sv_sent s @ map (\<lambda>c. (cs_callback c, t)) (filter (wants t) (sv_callbacks s)),
       sv_callbacks := filter (\<lambda>c. wants t c \<longrightarrow> notified C (cs_callback c) t) (sv_callbacks s)\<rparr>"

section \<open>The looper\<close>

text \<open>\<open>callbacks_.erase(it)\<close> for the first entry of the interface.\<close>

fun erase_first :: "('a \<Rightarrow> bool) \<Rightarrow> 'a list \<Rightarrow> 'a list" where
  "erase_first P [] = []"
| "erase_first P (x # xs) = (if P x then xs else x # erase_first P xs)"

text \<open>The handler that a registration leaves: it looks the client up again and sends what is current.\<close>

definition first_notification ::
    "nat \<Rightarrow> nat \<Rightarrow> 'j helper_env \<Rightarrow> interfaces \<Rightarrow> clients \<Rightarrow> CallbackSetting \<times> bool \<times> int \<Rightarrow> service \<Rightarrow> service result"
where
  "first_notification fuel n env I C ev s =
     (case ev of (c, filterType, type) \<Rightarrow>
      bindE (fillCurrentTemperatures fuel n env filterType True type (sv_helper s)) (\<lambda>(found, ts, h).
      let s = s\<lparr>sv_helper := h\<rparr>; same = (\<lambda>cc. same_interface I (cs_callback c) (cs_callback cc))
      in Inr (
        if \<not> found \<or> \<not> (\<exists>cc \<in> set (sv_callbacks s). same cc) then s
        else if isAlive C (asBinder I (cs_callback c)) then
          s\<lparr>sv_sent := sv_sent s
              @ map (\<lambda>t. (cs_callback c, t)) (filter (\<lambda>t. \<not> filterType \<or> tp_type t = type) ts)\<rparr>
        else s\<lparr>sv_callbacks := erase_first same (sv_callbacks s)\<rparr>)))"

text \<open>One round of \<open>Looper::loop\<close>: \<open>None\<close> when the loop has ended, and \<open>Some\<close> of the same state while it waits.\<close>

definition looper_round ::
    "nat \<Rightarrow> nat \<Rightarrow> 'j helper_env \<Rightarrow> interfaces \<Rightarrow> clients \<Rightarrow> service \<Rightarrow> service option result"
where
  "looper_round fuel n env I C s =
     (if sv_aborted s then Inr None
      else case sv_events s of
        [] \<Rightarrow> Inr (Some s)
      | ev # evs \<Rightarrow> bindE (first_notification fuel n env I C ev (s\<lparr>sv_events := evs\<rparr>)) (\<lambda>s'. Inr (Some s')))"

text \<open>\<open>~Looper\<close>: the loop ends after the event that it is handling, whatever is still in the queue.\<close>

definition stop_looper :: "service \<Rightarrow> service" where
  "stop_looper s = s\<lparr>sv_aborted := True\<rparr>"

section \<open>Commands of the shell\<close>

datatype dump_status = STATUS_OK | STATUS_BAD_VALUE

text \<open>
  \<open>dumpThermalData\<close>, without the text: every sensor is read, past its cache, the cooling devices are read and the
  estimators are asked for their status.
\<close>

definition CoolingType_CPU :: int where "CoolingType_CPU = 2"

definition dump_estimators :: "helper_state \<Rightarrow> helper_state result" where
  "dump_estimators h =
     foldE (\<lambda>p h. bindE (dumpVtEstimatorStatus (fst p) h) (\<lambda>_. Inr h)) (hp_sensor_info_map h) h"

definition dumpThermalData ::
    "nat \<Rightarrow> nat \<Rightarrow> 'j helper_env \<Rightarrow> string list \<Rightarrow> service \<Rightarrow> service result"
where
  "dumpThermalData fuel n env args s =
     (if \<not> sv_initialized s then Inr s
      else if args = [] \<or> hd args = ''-a'' then
        bindE (foldE (\<lambda>p h. bindE (readTemperature fuel n env (fst p) True h) (\<lambda>(_, _, h). Inr h))
                 (hp_sensor_info_map (sv_helper s)) (sv_helper s)) (\<lambda>h.
        bindE (fillCurrentCoolingDevices env False CoolingType_CPU h) (\<lambda>_.
        bindE (dump_estimators h) (\<lambda>h. Inr (s\<lparr>sv_helper := h\<rparr>))))
      else bindE (dump_estimators (sv_helper s)) (\<lambda>h. Inr (s\<lparr>sv_helper := h\<rparr>)))"

text \<open>\<open>dump\<close>: \<open>args\<close> has \<open>numArgs\<close> elements.\<close>

definition dump ::
    "nat \<Rightarrow> nat \<Rightarrow> 'j helper_env \<Rightarrow> string list \<Rightarrow> service \<Rightarrow> (dump_status \<times> service) result"
where
  "dump fuel n env args s =
     (let emul = (\<lambda>r. bindE r (\<lambda>(done_ok, h). Inr (if done_ok then STATUS_OK else STATUS_BAD_VALUE, s\<lparr>sv_helper := h\<rparr>)));
          max_throttling = (if length args = 3 then False else args ! 3 = ''max_throttling'')
      in if args = [] \<or> hd args = ''-a'' \<or> hd args = ''-vt-estimator'' then
        bindE (dumpThermalData fuel n env args s) (\<lambda>s. Inr (STATUS_OK, s))
      else if hd args = ''emul_temp'' \<and> 3 \<le> length args then
        emul (emulTemp fuel (args ! 1) (atof (args ! 2)) max_throttling (sv_helper s))
      else if hd args = ''emul_severity'' \<and> 3 \<le> length args then
        emul (bindE (double_to_int (atof_double (args ! 2))) (\<lambda>sev.
                emulSeverity fuel (args ! 1) sev max_throttling (sv_helper s)))
      else if hd args = ''emul_clear'' then
        if length args \<noteq> 2 then Inr (STATUS_BAD_VALUE, s) else emul (emulClear fuel (args ! 1) (sv_helper s))
      else Inr (STATUS_BAD_VALUE, s))"

section \<open>Histories\<close>

text \<open>
  What happens to the service, in the order in which it happens: requests of clients, rounds of the
  looper, and the helper, which works on its own and sends notifications.
\<close>

datatype 'j service_op =
    Register "nat option" bool int
  | Unregister "nat option"
  | RegisterCdev "nat option" int
  | UnregisterCdev "nat option"
  | Notify clients Temperature
  | Looper nat nat "'j helper_env" clients
  | Helper helper_state

fun service_step :: "interfaces \<Rightarrow> 'j service_op \<Rightarrow> service \<Rightarrow> service result" where
  "service_step I (Register cb filterType type) s = Inr (snd (register_callback I cb filterType type s))"
| "service_step I (Unregister cb) s = Inr (snd (unregisterThermalChangedCallback I cb s))"
| "service_step I (RegisterCdev cb type) s = Inr (snd (registerCoolingDeviceChangedCallbackWithType I cb type s))"
| "service_step I (UnregisterCdev cb) s = Inr (snd (unregisterCoolingDeviceChangedCallback I cb s))"
| "service_step I (Notify C t) s = Inr (sendThermalChangedCallback C t s)"
| "service_step I (Looper fuel n env C) s =
     bindE (looper_round fuel n env I C s) (\<lambda>s'. Inr (case s' of None \<Rightarrow> s | Some s' \<Rightarrow> s'))"
| "service_step I (Helper h) s = Inr (s\<lparr>sv_helper := h\<rparr>)"

text \<open>No two settings are of the same interface.\<close>

definition callbacks_distinct :: "interfaces \<Rightarrow> service \<Rightarrow> bool" where
  "callbacks_distinct I s \<longleftrightarrow>
     sorted_wrt (\<lambda>a b. \<not> same_interface I (cs_callback a) (cs_callback b)) (sv_callbacks s)
     \<and> sorted_wrt (\<lambda>a b. \<not> same_interface I (cds_callback a) (cds_callback b)) (sv_cdev_callbacks s)"

lemma same_interface_refl [simp]: "same_interface I l l"
  by (simp add: same_interface_def interfacesEqual_def)

lemma same_interface_sym: "same_interface I l r = same_interface I r l"
  by (auto simp: same_interface_def interfacesEqual_def)

lemma same_interface_trans: "same_interface I l r \<Longrightarrow> same_interface I r m \<Longrightarrow> same_interface I l m"
  by (auto simp: same_interface_def interfacesEqual_def split: if_splits)

lemma sorted_wrt_erase: "sorted_wrt R xs \<Longrightarrow> sorted_wrt R (erase_first P xs)"
proof (induction xs)
  case (Cons x xs)
  have "set (erase_first P xs) \<subseteq> set xs" by (induction xs) auto
  then show ?case using Cons by auto
qed simp

lemma first_notification_distinct:
  assumes "first_notification fuel n env I C ev s = Inr s'" "callbacks_distinct I s"
  shows "callbacks_distinct I s'"
  using assms by (cases ev) (auto simp: first_notification_def Let_def callbacks_distinct_def sorted_wrt_erase split: if_splits)

lemma register_distinct:
  "callbacks_distinct I s \<Longrightarrow> callbacks_distinct I (snd (register_callback I cb b ty s))"
  by (auto simp: register_callback_def callbacks_distinct_def sorted_wrt_append Let_def split: option.split)

lemma register_cdev_distinct:
  "callbacks_distinct I s \<Longrightarrow> callbacks_distinct I (snd (registerCoolingDeviceChangedCallbackWithType I cb ty s))"
  by (auto simp: registerCoolingDeviceChangedCallbackWithType_def callbacks_distinct_def sorted_wrt_append split: option.split)

lemma unregister_distinct:
  "callbacks_distinct I s \<Longrightarrow> callbacks_distinct I (snd (unregisterThermalChangedCallback I cb s))"
  "callbacks_distinct I s \<Longrightarrow> callbacks_distinct I (snd (unregisterCoolingDeviceChangedCallback I cb s))"
  by (auto simp: unregisterThermalChangedCallback_def unregisterCoolingDeviceChangedCallback_def callbacks_distinct_def
      Let_def sorted_wrt_filter split: option.split)

lemma send_distinct:
  "callbacks_distinct I s \<Longrightarrow> callbacks_distinct I (sendThermalChangedCallback C t s)"
  "callbacks_distinct I (s\<lparr>sv_helper := h\<rparr>) = callbacks_distinct I s"
  by (simp_all add: sendThermalChangedCallback_def callbacks_distinct_def sorted_wrt_filter)

lemma service_step_distinct:
  assumes "service_step I op s = Inr s'" "callbacks_distinct I s"
  shows "callbacks_distinct I s'"
  using assms
proof (cases op)
  case (Looper fuel n env C)
  show ?thesis
  proof (cases "sv_aborted s \<or> sv_events s = []")
    case True
    then show ?thesis using assms Looper by (auto simp: looper_round_def split: list.splits if_splits)
  next
    case False
    then obtain ev evs where "sv_events s = ev # evs" by (cases "sv_events s") auto
    then have "first_notification fuel n env I C ev (s\<lparr>sv_events := evs\<rparr>) = Inr s'"
      using assms(1) Looper False by (auto simp: looper_round_def)
    then show ?thesis by (rule first_notification_distinct) (use assms(2) in \<open>simp add: callbacks_distinct_def\<close>)
  qed
qed (auto simp: register_distinct register_cdev_distinct unregister_distinct send_distinct)

lemma service_reach_distinct:
  "foldE (service_step I) ops s = Inr s' \<Longrightarrow> callbacks_distinct I s \<Longrightarrow> callbacks_distinct I s'"
proof (induction ops arbitrary: s)
  case (Cons op ops)
  obtain s1 where "service_step I op s = Inr s1" "foldE (service_step I) ops s1 = Inr s'" using Cons.prems(1) by auto
  then show ?case using Cons.IH service_step_distinct [OF _ Cons.prems(2)] by blast
qed simp

lemma new_service_distinct [simp]: "callbacks_distinct I (new_service garbage helper)"
  by (simp add: new_service_def callbacks_distinct_def)

section \<open>Delivery\<close>

lemma one_of_distinct:
  assumes "sorted_wrt (\<lambda>a b. \<not> same_interface I (cs_callback a) (cs_callback b)) cs" "c \<in> set cs"
  shows "filter (\<lambda>x. same_interface I (cs_callback x) (cs_callback c)) cs = [c]"
  using assms
proof (induction cs)
  case (Cons x cs)
  show ?case
  proof (cases "c = x")
    case True
    then have "\<forall>y \<in> set cs. \<not> same_interface I (cs_callback y) (cs_callback c)"
      using Cons.prems(1) same_interface_sym by auto
    then show ?thesis using True by (simp add: filter_empty_conv)
  qed (use Cons in auto)
qed simp

lemma send_once:
  assumes "callbacks_distinct I s" "c \<in> set (sv_callbacks s)"
  shows "\<exists>new. sv_sent (sendThermalChangedCallback C t s) = sv_sent s @ new
    \<and> filter (\<lambda>x. same_interface I (fst x) (cs_callback c)) new = (if wants t c then [(cs_callback c, t)] else [])
    \<and> (c \<in> set (sv_callbacks (sendThermalChangedCallback C t s)) \<longleftrightarrow> \<not> wants t c \<or> notified C (cs_callback c) t)"
proof -
  have "sorted_wrt (\<lambda>a b. \<not> same_interface I (cs_callback a) (cs_callback b)) (sv_callbacks s)"
    using assms(1) by (simp add: callbacks_distinct_def)
  from one_of_distinct [OF this assms(2)]
  have "filter (wants t) (filter (\<lambda>x. same_interface I (cs_callback x) (cs_callback c)) (sv_callbacks s))
      = (if wants t c then [c] else [])" by simp
  then have "filter (\<lambda>x. same_interface I (fst x) (cs_callback c)) (map (\<lambda>c. (cs_callback c, t)) (filter (wants t) (sv_callbacks s)))
      = (if wants t c then [(cs_callback c, t)] else [])"
    by (simp add: filter_map comp_def conj_commute)
  then show ?thesis using assms(2) by (auto simp: sendThermalChangedCallback_def)
qed

lemma send_all_once:
  assumes "callbacks_distinct I s" "c \<in> set (sv_callbacks s)" "\<forall>t. notified C (cs_callback c) t"
  shows "\<exists>new. sv_sent (fold (sendThermalChangedCallback C) ts s) = sv_sent s @ new
    \<and> filter (\<lambda>x. same_interface I (fst x) (cs_callback c)) new
        = map (\<lambda>t. (cs_callback c, t)) (filter (\<lambda>t. wants t c) ts)
    \<and> c \<in> set (sv_callbacks (fold (sendThermalChangedCallback C) ts s))"
  using assms(1,2)
proof (induction ts arbitrary: s)
  case (Cons t ts)
  let ?s = "sendThermalChangedCallback C t s"
  obtain n1 where n1: "sv_sent ?s = sv_sent s @ n1" "c \<in> set (sv_callbacks ?s)"
      "filter (\<lambda>x. same_interface I (fst x) (cs_callback c)) n1 = (if wants t c then [(cs_callback c, t)] else [])"
    using send_once [OF Cons.prems, of C t] assms(3) by blast
  obtain n2 where "sv_sent (fold (sendThermalChangedCallback C) ts ?s) = sv_sent ?s @ n2"
      "filter (\<lambda>x. same_interface I (fst x) (cs_callback c)) n2 = map (\<lambda>t. (cs_callback c, t)) (filter (\<lambda>t. wants t c) ts)"
      "c \<in> set (sv_callbacks (fold (sendThermalChangedCallback C) ts ?s))"
    using Cons.IH [OF send_distinct(1) [OF Cons.prems(1)] n1(2)] by blast
  then show ?case using n1 by (intro exI [of _ "n1 @ n2"]) simp
qed simp

text \<open>
  Whatever requests, notifications and rounds of the looper came before, a client that is registered gets
  a notification exactly once if its filter lets it through and not at all otherwise, though it may be known
  by several proxies of one binder; it stays registered unless its own notification fails.
\<close>

theorem notification_delivered_once:
  assumes "foldE (service_step I) ops (new_service garbage helper) = Inr s" and "c \<in> set (sv_callbacks s)"
  shows "\<exists>new. sv_sent (sendThermalChangedCallback C t s) = sv_sent s @ new
    \<and> filter (\<lambda>x. same_interface I (fst x) (cs_callback c)) new = (if wants t c then [(cs_callback c, t)] else [])
    \<and> (c \<in> set (sv_callbacks (sendThermalChangedCallback C t s)) \<longleftrightarrow> \<not> wants t c \<or> notified C (cs_callback c) t)"
  by (rule send_once [OF service_reach_distinct [OF assms(1) new_service_distinct] assms(2)])

text \<open>
  C24: The first notification of a registration looks its client up by the interface alone: one that
  registers without a filter, unregisters, and registers for one type before the looper comes to the
  first event gets the temperatures of all types.
\<close>

theorem stale_event_ignores_filter:
  assumes "sv_initialized s" "sv_callbacks s = []" "sv_events s = []" "\<not> sv_aborted s"
    and "fillCurrentTemperatures fuel n env False True TemperatureType_UNKNOWN (sv_helper s) = Inr (True, ts, h)"
    and "isAlive C (asBinder I cb)"
  shows "\<exists>s1 s2 s3 s4. registerThermalChangedCallback I (Some cb) s = (StatusOk, s1)
    \<and> unregisterThermalChangedCallback I (Some cb) s1 = (StatusOk, s2)
    \<and> registerThermalChangedCallbackWithType I (Some cb) type s2 = (StatusOk, s3)
    \<and> looper_round fuel n env I C s3 = Inr (Some s4)
    \<and> sv_callbacks s4 = [\<lparr>cs_callback = cb, cs_is_filter_type = True, cs_type = type\<rparr>]
    \<and> sv_sent s4 = sv_sent s @ map (\<lambda>t. (cb, t)) ts"
  using assms by (simp add: registerThermalChangedCallback_def registerThermalChangedCallbackWithType_def register_callback_def
      unregisterThermalChangedCallback_def looper_round_def first_notification_def Let_def)

text \<open>If the memory of \<open>aborted_\<close> does not happen to be zero, no event is ever handled.\<close>

lemma garbage_ends_looper: "looper_round fuel n env I C (new_service True helper) = Inr None"
  by (simp add: looper_round_def new_service_def)

section \<open>The whole service\<close>

text \<open>
  A round of the watcher's thread with everything that it sets off: the helper works, its notifications go to
  the clients, its hints to the power service.
\<close>

definition system_round ::
    "nat \<Rightarrow> nat \<Rightarrow> thermal_genl \<Rightarrow> 'j helper_env \<Rightarrow> clients \<Rightarrow> 'w power_world \<Rightarrow> watch_round
      \<Rightarrow> thermal_watcher \<times> service \<times> power_hal \<times> 'w
      \<Rightarrow> (flt smap option \<times> thermal_watcher \<times> service \<times> power_hal \<times> 'w) result"
where
  "system_round fuel n hw env C pw r st =
     (case st of (w, s, ph) \<Rightarrow>
      bindE (helper_round fuel n hw env r (w, (sv_helper s)\<lparr>hp_callbacks := [], hp_power_hal_calls := []\<rparr>)) (\<lambda>(called, w, h).
      bindE (foldE (serve_power_call pw) (hp_power_hal_calls h) ph) (\<lambda>ph.
      Inr (called, w, fold (sendThermalChangedCallback C) (hp_callbacks h) (s\<lparr>sv_helper := h\<rparr>), ph))))"

lemma send_keeps_helper [simp]: "sv_helper (fold (sendThermalChangedCallback C) ts s) = sv_helper s"
  by (induction ts arbitrary: s) (simp_all add: sendThermalChangedCallback_def)

text \<open>
  C23: In a round of the thread, a client that answers gets exactly the temperatures that the helper
  notifies of and its filter lets through, each of them once and in the order of the helper, and stays
  registered.
\<close>

theorem system_round_notifies:
  assumes "foldE (service_step I) ops (new_service garbage helper) = Inr s" and "c \<in> set (sv_callbacks s)"
    and "\<forall>t. notified C (cs_callback c) t"
    and "system_round fuel n hw env C pw r (w, s, ph) = Inr (called, w', s', ph')"
  shows "\<exists>new. sv_sent s' = sv_sent s @ new
    \<and> filter (\<lambda>x. same_interface I (fst x) (cs_callback c)) new
        = map (\<lambda>t. (cs_callback c, t)) (filter (\<lambda>t. wants t c) (hp_callbacks (sv_helper s')))
    \<and> c \<in> set (sv_callbacks s')"
proof -
  obtain h where s': "s' = fold (sendThermalChangedCallback C) (hp_callbacks h) (s\<lparr>sv_helper := h\<rparr>)"
    using assms(4) unfolding system_round_def by auto
  have "callbacks_distinct I (s\<lparr>sv_helper := h\<rparr>)"
    using service_reach_distinct [OF assms(1) new_service_distinct] by (simp add: send_distinct)
  from send_all_once [OF this _ assms(3), of "hp_callbacks h"] show ?thesis using s' assms(2) by simp
qed

section \<open>Examples\<close>

text \<open>Two proxies, 1 and 2, of one client, and another client; nobody is dead.\<close>

definition ex_interfaces :: interfaces where
  "ex_interfaces = \<lparr>isRemote = (\<lambda>_. True), asBinder = (\<lambda>i. if i = 2 then 1 else i)\<rparr>"

definition ex_clients :: clients where
  "ex_clients = \<lparr>isAlive = (\<lambda>_. True), notified = (\<lambda>_ _. True)\<rparr>"

definition ex_requests :: "unit service_op list" where
  "ex_requests = [Register (Some 1) True 3, Register (Some 2) False 0, Register (Some 7) False 0]"

definition ex_setting :: CallbackSetting where
  "ex_setting = \<lparr>cs_callback = 1, cs_is_filter_type = True, cs_type = 3\<rparr>"

lemma ex_requests_run:
  "\<exists>s. foldE (service_step ex_interfaces) ex_requests (new_service False (True, ex_helper)) = Inr s
    \<and> ex_setting \<in> set (sv_callbacks s) \<and> length (sv_callbacks s) = 2"
  by (simp add: ex_requests_def register_callback_def new_service_def same_interface_def interfacesEqual_def
      ex_interfaces_def ex_setting_def Let_def)

lemma notification_delivered_once_witness:
  "\<exists>s new. foldE (service_step ex_interfaces) ex_requests (new_service False (True, ex_helper)) = Inr s
    \<and> sv_sent (sendThermalChangedCallback ex_clients (no_temperature\<lparr>tp_type := 3\<rparr>) s) = sv_sent s @ new
    \<and> filter (\<lambda>x. same_interface ex_interfaces (fst x) 1) new = [(1, no_temperature\<lparr>tp_type := 3\<rparr>)]"
proof -
  obtain s where s: "foldE (service_step ex_interfaces) ex_requests (new_service False (True, ex_helper)) = Inr s"
    "ex_setting \<in> set (sv_callbacks s)" using ex_requests_run by blast
  show ?thesis
    using s(1) notification_delivered_once [OF s, of ex_clients "no_temperature\<lparr>tp_type := 3\<rparr>"]
    by (auto simp: ex_setting_def wants_def)
qed

definition ex_service :: service where
  "ex_service = new_service False (True, ex_emulated (ex_cpu\<lparr>si_send_cb := True\<rparr>))"

lemma ex_service_current:
  "case fillCurrentTemperatures 1 1 ex_helper_env False True TemperatureType_UNKNOWN (sv_helper ex_service) of
     Inr (found, ts, h) \<Rightarrow> found \<and> map tp_name ts = [''cpu''] | Inl _ \<Rightarrow> False"
  by code_simp

lemma stale_event_ignores_filter_witness:
  "\<exists>s1 s2 s3 s4 ts. registerThermalChangedCallback ex_interfaces (Some 7) ex_service = (StatusOk, s1)
    \<and> unregisterThermalChangedCallback ex_interfaces (Some 7) s1 = (StatusOk, s2)
    \<and> registerThermalChangedCallbackWithType ex_interfaces (Some 7) 3 s2 = (StatusOk, s3)
    \<and> looper_round 1 1 ex_helper_env ex_interfaces ex_clients s3 = Inr (Some s4)
    \<and> sv_callbacks s4 = [\<lparr>cs_callback = 7, cs_is_filter_type = True, cs_type = 3\<rparr>]
    \<and> sv_sent s4 = map (\<lambda>t. (7, t)) ts \<and> map tp_name ts = [''cpu'']"
proof -
  obtain ts h where fill: "fillCurrentTemperatures 1 1 ex_helper_env False True TemperatureType_UNKNOWN (sv_helper ex_service)
      = Inr (True, ts, h)" "map tp_name ts = [''cpu'']"
    using ex_service_current by (auto split: sum.splits prod.splits)
  have fresh: "sv_initialized ex_service" "sv_callbacks ex_service = []" "sv_events ex_service = []"
    "\<not> sv_aborted ex_service" "sv_sent ex_service = []"
    by (simp_all add: ex_service_def new_service_def)
  have "isAlive ex_clients (asBinder ex_interfaces 7)" by (simp add: ex_clients_def)
  from stale_event_ignores_filter [OF fresh(1-4) fill(1) this, of 3]
  obtain s1 s2 s3 s4 where "registerThermalChangedCallback ex_interfaces (Some 7) ex_service = (StatusOk, s1)"
    "unregisterThermalChangedCallback ex_interfaces (Some 7) s1 = (StatusOk, s2)"
    "registerThermalChangedCallbackWithType ex_interfaces (Some 7) 3 s2 = (StatusOk, s3)"
    "looper_round 1 1 ex_helper_env ex_interfaces ex_clients s3 = Inr (Some s4)"
    "sv_callbacks s4 = [\<lparr>cs_callback = 7, cs_is_filter_type = True, cs_type = 3\<rparr>]"
    "sv_sent s4 = sv_sent ex_service @ map (\<lambda>t. (7, t)) ts" by blast
  then show ?thesis unfolding fresh(5) append_Nil using fill(2) by (intro exI conjI)
qed

text \<open>The sensor \<open>cpu\<close>, emulated at 50 degrees, in the first round of the thread.\<close>

definition ex_hot_service :: service where
  "ex_hot_service = new_service False (True, (ex_helper_of [(''cpu'', ex_cpu)])\<lparr>hp_sensor_status_map :=
     [(''cpu'', override (Some \<lparr>em_temp = of_int_f 50, em_severity = - 1\<rparr>) False fresh_sensor_status)]\<rparr>)"

definition ex_client :: "unit service_op list" where
  "ex_client = [Register (Some 7) False 0]"

definition ex_round_of :: "service \<Rightarrow> (flt smap option \<times> thermal_watcher \<times> service \<times> power_hal \<times> (string \<Rightarrow> bool)) result" where
  "ex_round_of s = system_round 1 1 ex_genl ex_helper_env ex_clients ex_power_world (ex_watch_round 1000000000 0)
     (ex_watcher, s, new_power_hal, \<lambda>_. False)"

lemma ex_round_notifies:
  "case foldE (service_step ex_interfaces) ex_client ex_hot_service of
     Inr s \<Rightarrow> (case ex_round_of s of
        Inr (called, w, s', ph) \<Rightarrow>
          map tp_name (hp_callbacks (sv_helper s')) = [''cpu''] \<and> map tp_throttlingStatus (hp_callbacks (sv_helper s')) = [SEVERE]
          \<and> map cs_callback (sv_callbacks s) = [7] \<and> map cs_is_filter_type (sv_callbacks s) = [False]
      | Inl _ \<Rightarrow> False)
   | Inl _ \<Rightarrow> False"
  by code_simp

lemma system_round_notifies_witness:
  "\<exists>s called w' s' ph' new. foldE (service_step ex_interfaces) ex_client ex_hot_service = Inr s
    \<and> ex_round_of s = Inr (called, w', s', ph') \<and> sv_sent s' = sv_sent s @ new
    \<and> map (\<lambda>x. (fst x, tp_name (snd x))) (filter (\<lambda>x. same_interface ex_interfaces (fst x) 7) new) = [(7, ''cpu'')]"
proof -
  obtain s where s: "foldE (service_step ex_interfaces) ex_client ex_hot_service = Inr s"
    using ex_round_notifies by (auto split: sum.splits)
  then obtain called w' s' ph' where run: "ex_round_of s = Inr (called, w', s', ph')"
    and names: "map tp_name (hp_callbacks (sv_helper s')) = [''cpu'']"
    and cs: "map cs_callback (sv_callbacks s) = [7]" "map cs_is_filter_type (sv_callbacks s) = [False]"
    using ex_round_notifies by (auto split: sum.splits prod.splits)
  obtain c where c: "sv_callbacks s = [c]" "cs_callback c = 7" "\<not> cs_is_filter_type c"
    using cs by (auto simp: map_eq_Cons_conv)
  have "c \<in> set (sv_callbacks s)" and "\<forall>t. notified ex_clients (cs_callback c) t"
    using c by (simp_all add: ex_clients_def)
  from system_round_notifies [OF s [unfolded ex_hot_service_def] this run [unfolded ex_round_of_def]]
  obtain new where "sv_sent s' = sv_sent s @ new"
    "filter (\<lambda>x. same_interface ex_interfaces (fst x) 7) new = map (\<lambda>t. (7, t)) (filter (\<lambda>t. wants t c) (hp_callbacks (sv_helper s')))"
    using c(2) by auto
  moreover have "filter (\<lambda>t. wants t c) (hp_callbacks (sv_helper s')) = hp_callbacks (sv_helper s')"
    using c(3) by (simp add: wants_def)
  moreover have "map (\<lambda>x. (fst x, tp_name (snd x))) (map (\<lambda>t. (7, t)) (hp_callbacks (sv_helper s')))
      = map (Pair 7) (map tp_name (hp_callbacks (sv_helper s')))" by simp
  ultimately show ?thesis using s run names by auto
qed

end
