(* ===== verification/UsbPorts.thy ===== *)
theory UsbPorts
  imports ThermalWatcher
begin

text \<open>
  The USB service (aidl/usb/Usb.h and Usb.cpp): the roles of the Type-C ports, which it reads from sysfs and
  reports to the framework, their switching, and the switching of the data lines. Files, the clock and the
  second thread are parameters: what a file contains when it is read, how a write ends, what a wait returns.
\<close>

section \<open>Roles\<close>

text \<open>
  The types of the interface, without its parcelable fields that the service never sets; a \<open>PortRole\<close> is a union.
  \<open>FAILURE\<close> is \<open>Status::ERROR\<close>.
\<close>

datatype PortPowerRole = POWER_NONE | SOURCE | SINK
datatype PortDataRole = DATA_NONE | HOST | DEVICE
datatype PortMode = MODE_NONE | UFP | DFP | DRP | AUDIO_ACCESSORY | DEBUG_ACCESSORY
datatype ContaminantProtectionMode = MODE_NO_PROTECTION | MODE_FORCE_SINK | MODE_FORCE_SOURCE | MODE_FORCE_DISABLE
datatype ContaminantProtectionStatus =
    NO_PROTECTION | PROTECTION_FORCE_SINK | PROTECTION_FORCE_SOURCE | PROTECTION_FORCE_DISABLE | PROTECTION_DISABLED
datatype ContaminantDetectionStatus = DETECTION_NOT_SUPPORTED | DETECTION_DISABLED | NOT_DETECTED | DETECTED
datatype UsbDataStatus = DATA_UNKNOWN | DATA_ENABLED | DATA_DISABLED_OVERHEAT | DATA_DISABLED_CONTAMINANT | DATA_DISABLED_DOCK | DATA_DISABLED_FORCE
datatype PortRole = PowerRole PortPowerRole | DataRole PortDataRole | ModeRole PortMode

datatype usb_status = SUCCESS | FAILURE | UNRECOGNIZED_ROLE | NOT_SUPPORTED

text \<open>The members of the union: reading one that is not set aborts.\<close>

definition get_powerRole :: "PortRole \<Rightarrow> PortPowerRole result" where
  "get_powerRole r = (case r of PowerRole p \<Rightarrow> Inr p | _ \<Rightarrow> Inl Abort)"

definition get_dataRole :: "PortRole \<Rightarrow> PortDataRole result" where
  "get_dataRole r = (case r of DataRole d \<Rightarrow> Inr d | _ \<Rightarrow> Inl Abort)"

definition get_mode :: "PortRole \<Rightarrow> PortMode result" where
  "get_mode r = (case r of ModeRole m \<Rightarrow> Inr m | _ \<Rightarrow> Inl Abort)"

definition kTypecPath :: string where "kTypecPath = ''/sys/class/typec/''"
definition kDataRoleNode :: string where "kDataRoleNode = ''/data_role''"
definition kPowerRoleNode :: string where "kPowerRoleNode = ''/power_role''"

definition appendRoleNodeHelper :: "string \<Rightarrow> PortRole \<Rightarrow> string" where
  "appendRoleNodeHelper portName role =
     (let node = kTypecPath @ portName
      in case role of
           DataRole _ \<Rightarrow> node @ kDataRoleNode
         | PowerRole _ \<Rightarrow> node @ kPowerRoleNode
         | ModeRole _ \<Rightarrow> node @ ''/port_type'')"

definition convertRoletoString :: "PortRole \<Rightarrow> string" where
  "convertRoletoString role =
     (case role of
        PowerRole SOURCE \<Rightarrow> ''source'' | PowerRole SINK \<Rightarrow> ''sink''
      | DataRole HOST \<Rightarrow> ''host'' | DataRole DEVICE \<Rightarrow> ''device''
      | ModeRole UFP \<Rightarrow> ''sink'' | ModeRole DFP \<Rightarrow> ''source''
      | _ \<Rightarrow> ''none'')"

text \<open>\<open>last - first - 1\<close> is computed in 64 bits: \<open>substr\<close> takes the rest when the brackets are the wrong way round.\<close>

definition extractRole :: "string \<Rightarrow> string" where
  "extractRole roleName =
     (case (find_sub ''['' roleName, find_sub '']'' roleName) of
        (Some first, Some last') \<Rightarrow>
          if first < last' then take (last' - first - 1) (drop (first + 1) roleName) else drop (first + 1) roleName
      | _ \<Rightarrow> roleName)"

section \<open>State\<close>

record PortStatus =
  portName :: string
  currentDataRole :: PortDataRole
  currentPowerRole :: PortPowerRole
  currentMode :: PortMode
  canChangeMode :: bool
  canChangeDataRole :: bool
  canChangePowerRole :: bool
  supportedModes :: "PortMode list"
  usbDataStatus :: "UsbDataStatus list"
  supportedContaminantProtectionModes :: "ContaminantProtectionMode list"
  contaminantProtectionStatus :: ContaminantProtectionStatus
  contaminantDetectionStatus :: ContaminantDetectionStatus
  supportsEnableContaminantPresenceProtection :: bool
  supportsEnableContaminantPresenceDetection :: bool
  supportsComplianceWarnings :: bool

definition no_port_status :: PortStatus where
  "no_port_status = \<lparr>portName = [], currentDataRole = DATA_NONE, currentPowerRole = POWER_NONE, currentMode = MODE_NONE,
     canChangeMode = False, canChangeDataRole = False, canChangePowerRole = False, supportedModes = [], usbDataStatus = [],
     supportedContaminantProtectionModes = [], contaminantProtectionStatus = NO_PROTECTION,
     contaminantDetectionStatus = DETECTION_NOT_SUPPORTED, supportsEnableContaminantPresenceProtection = False,
     supportsEnableContaminantPresenceDetection = False, supportsComplianceWarnings = False\<rparr>"

text \<open>What the framework is told, in the order in which it is.\<close>

datatype usb_notice =
    EnableUsbDataStatus string bool usb_status int
  | EnableUsbDataWhileDockedStatus string usb_status int
  | ResetUsbPortStatus string usb_status int
  | RoleSwitchStatus string PortRole usb_status int
  | LimitPowerTransferStatus string bool usb_status int
  | ContaminantEnabledStatus string bool usb_status int
  | PortStatusChange "PortStatus list" usb_status
  | QueryPortStatus string usb_status int

text \<open>
  The members of \<open>struct Usb\<close>; \<open>us_worker\<close> says whether the second thread runs, \<open>us_writes\<close> are the writes
  that went through.
\<close>

record usb =
  us_callback :: "nat option"
  us_partner_up :: bool
  us_data_enabled :: bool
  us_worker :: bool
  us_notices :: "usb_notice list"
  us_writes :: "(string \<times> string) list"

definition new_usb :: usb where
  "new_usb = \<lparr>us_callback = None, us_partner_up = False, us_data_enabled = True, us_worker = False, us_notices = [], us_writes = []\<rparr>"

text \<open>
  The files at a moment: their contents, whether a write goes through, the entries of the Type-C directory with
  a flag for links, and which directories can be opened. \<open>sx_order\<close> is the order in which a map is iterated over
  (\<open>std::unordered_map\<close> does not fix it), \<open>sx_audio\<close> the compile-time switch.
\<close>

record sysfs =
  sx_controller :: string
  sx_read :: "string \<Rightarrow> string option"
  sx_write :: "string \<Rightarrow> string \<Rightarrow> bool"
  sx_typec :: "(string \<times> bool) list option"
  sx_dir :: "string \<Rightarrow> bool"
  sx_order :: "bool smap \<Rightarrow> bool smap"
  sx_audio :: bool

definition notify :: "usb_notice \<Rightarrow> usb \<Rightarrow> usb" where
  "notify n u = (if us_callback u = None then u else u\<lparr>us_notices := us_notices u @ [n]\<rparr>)"

definition write_file :: "sysfs \<Rightarrow> string \<Rightarrow> string \<Rightarrow> usb \<Rightarrow> bool \<times> usb" where
  "write_file fs path text u =
     (if sx_write fs path text then (True, u\<lparr>us_writes := us_writes u @ [(path, text)]\<rparr>) else (False, u))"

section \<open>The status of the ports\<close>

definition canSwitchRoleHelper :: "sysfs \<Rightarrow> string \<Rightarrow> bool" where
  "canSwitchRoleHelper fs port =
     (case sx_read fs (kTypecPath @ port @ ''-partner/supports_usb_power_delivery'') of
        None \<Rightarrow> False
      | Some supportsPD \<Rightarrow> Trim supportsPD = ''yes'')"

definition getAccessoryConnected :: "sysfs \<Rightarrow> string \<Rightarrow> string option" where
  "getAccessoryConnected fs port = map_option Trim (sx_read fs (kTypecPath @ port @ ''-partner/accessory_mode''))"

text \<open>
  \<open>getCurrentRoleHelper\<close>: the role that is passed tells which one is asked for. The names are not matched
  with it: whatever the file says is stored.
\<close>

definition role_file :: "string \<Rightarrow> PortRole \<Rightarrow> string" where
  "role_file port role =
     (case role of PowerRole _ \<Rightarrow> kTypecPath @ port @ kPowerRoleNode | _ \<Rightarrow> kTypecPath @ port @ kDataRoleNode)"

definition no_role :: "PortRole \<Rightarrow> PortRole" where
  "no_role role = (case role of PowerRole _ \<Rightarrow> PowerRole POWER_NONE | DataRole _ \<Rightarrow> DataRole DATA_NONE | ModeRole _ \<Rightarrow> ModeRole MODE_NONE)"

definition role_of_name :: "string \<Rightarrow> PortRole \<Rightarrow> usb_status \<times> PortRole" where
  "role_of_name roleName role =
     (let is_data = (case role of DataRole _ \<Rightarrow> True | _ \<Rightarrow> False)
      in if roleName = ''source'' then (SUCCESS, PowerRole SOURCE)
         else if roleName = ''sink'' then (SUCCESS, PowerRole SINK)
         else if roleName = ''host'' then (SUCCESS, if is_data then DataRole HOST else ModeRole DFP)
         else if roleName = ''device'' then (SUCCESS, if is_data then DataRole DEVICE else ModeRole UFP)
         else if roleName \<noteq> ''none'' then (UNRECOGNIZED_ROLE, role)
         else (SUCCESS, role))"

definition read_role :: "sysfs \<Rightarrow> string \<Rightarrow> PortRole \<Rightarrow> usb_status \<times> PortRole" where
  "read_role fs port role =
     (case sx_read fs (role_file port role) of
        None \<Rightarrow> (FAILURE, role)
      | Some roleName \<Rightarrow> role_of_name (extractRole (Trim roleName)) role)"

definition getCurrentRoleHelper :: "sysfs \<Rightarrow> string \<Rightarrow> bool \<Rightarrow> PortRole \<Rightarrow> usb_status \<times> PortRole" where
  "getCurrentRoleHelper fs port connected currentRole =
     (let role = no_role currentRole
      in if \<not> connected then (SUCCESS, role)
         else case role of
           ModeRole _ \<Rightarrow>
             (case getAccessoryConnected fs port of
                None \<Rightarrow> (FAILURE, role)
              | Some accessory \<Rightarrow>
                  if accessory = ''analog_audio'' then (SUCCESS, ModeRole AUDIO_ACCESSORY)
                  else if accessory = ''debug'' then (SUCCESS, ModeRole DEBUG_ACCESSORY)
                  else read_role fs port role)
         | _ \<Rightarrow> read_role fs port role)"

text \<open>\<open>strtok(name, "-")\<close>\<close>

definition first_token :: "string \<Rightarrow> string" where
  "first_token s = takeWhile (\<lambda>c. c \<noteq> CHR ''-'') (dropWhile (\<lambda>c. c = CHR ''-'') s)"

definition typec_entry :: "string \<times> bool \<Rightarrow> bool smap \<Rightarrow> bool smap" where
  "typec_entry e names =
     (if \<not> snd e then names
      else if find_sub ''-partner'' (fst e) = None then (if has names (fst e) then names else put (fst e) False names)
      else put (first_token (fst e)) True names)"

definition getTypeCPortNamesHelper :: "sysfs \<Rightarrow> bool smap option" where
  "getTypeCPortNamesHelper fs = map_option (\<lambda>entries. fold typec_entry entries []) (sx_typec fs)"

definition data_status :: "bool \<Rightarrow> UsbDataStatus" where
  "data_status enabled = (if enabled then DATA_ENABLED else DATA_DISABLED_FORCE)"

text \<open>One round of the loop: the status, and whether the loop is left with \<open>goto done\<close>.\<close>

definition port_status :: "sysfs \<Rightarrow> bool \<Rightarrow> string \<times> bool \<Rightarrow> (bool \<times> PortStatus) result" where
  "port_status fs data_enabled port =
     (let ps = no_port_status\<lparr>portName := fst port\<rparr>
      in case getCurrentRoleHelper fs (fst port) (snd port) (PowerRole POWER_NONE) of (st, role) \<Rightarrow>
      if st \<noteq> SUCCESS then Inr (False, ps)
      else bindE (get_powerRole role) (\<lambda>p. let ps = ps\<lparr>currentPowerRole := p\<rparr>
      in case getCurrentRoleHelper fs (fst port) (snd port) (DataRole DATA_NONE) of (st, role) \<Rightarrow>
      if st \<noteq> SUCCESS then Inr (False, ps)
      else bindE (get_dataRole role) (\<lambda>d. let ps = ps\<lparr>currentDataRole := d\<rparr>
      in case getCurrentRoleHelper fs (fst port) (snd port) (ModeRole MODE_NONE) of (st, role) \<Rightarrow>
      if st \<noteq> SUCCESS then Inr (False, ps)
      else bindE (get_mode role) (\<lambda>m.
      let can = (if snd port then canSwitchRoleHelper fs (fst port) else False)
      in Inr (True, ps\<lparr>currentMode := m, canChangeMode := True, canChangeDataRole := can, canChangePowerRole := can,
           supportedModes := [DRP] @ (if sx_audio fs then [AUDIO_ACCESSORY] else []), usbDataStatus := [data_status data_enabled]\<rparr>)))))"

text \<open>The vector has an element for each port from the start; those behind a failure stay as they are.\<close>

fun port_loop :: "sysfs \<Rightarrow> bool \<Rightarrow> (string \<times> bool) list \<Rightarrow> PortStatus list result" where
  "port_loop fs data_enabled [] = Inr []"
| "port_loop fs data_enabled (port # ports) =
     bindE (port_status fs data_enabled port) (\<lambda>(go_on, ps).
     if \<not> go_on then Inr (ps # replicate (length ports) no_port_status)
     else bindE (port_loop fs data_enabled ports) (\<lambda>rest. Inr (ps # rest)))"

definition getPortStatusHelper :: "sysfs \<Rightarrow> usb \<Rightarrow> (usb_status \<times> PortStatus list) result" where
  "getPortStatusHelper fs u =
     (case getTypeCPortNamesHelper fs of
        Some names \<Rightarrow> bindE (port_loop fs (us_data_enabled u) (sx_order fs names)) (\<lambda>ps. Inr (SUCCESS, ps))
      | None \<Rightarrow> Inr (SUCCESS, [no_port_status\<lparr>supportedModes := [UFP], usbDataStatus := [DATA_ENABLED]\<rparr>]))"

definition queryMoistureDetectionStatus :: "PortStatus list \<Rightarrow> PortStatus list" where
  "queryMoistureDetectionStatus = map (\<lambda>ps. ps\<lparr>
     supportedContaminantProtectionModes := supportedContaminantProtectionModes ps @ [MODE_NO_PROTECTION],
     contaminantProtectionStatus := NO_PROTECTION, contaminantDetectionStatus := DETECTION_NOT_SUPPORTED,
     supportsEnableContaminantPresenceDetection := False, supportsEnableContaminantPresenceProtection := False\<rparr>)"

definition queryNonCompliantChargerStatus :: "PortStatus list \<Rightarrow> PortStatus list" where
  "queryNonCompliantChargerStatus = map (\<lambda>ps. ps\<lparr>supportsComplianceWarnings := False\<rparr>)"

definition queryVersionHelper :: "sysfs \<Rightarrow> usb \<Rightarrow> (PortStatus list \<times> usb) result" where
  "queryVersionHelper fs u =
     bindE (getPortStatusHelper fs u) (\<lambda>(st, ps).
     let ps = queryNonCompliantChargerStatus (queryMoistureDetectionStatus ps)
     in Inr (ps, notify (PortStatusChange ps st) u))"

definition queryPortStatus :: "sysfs \<Rightarrow> int \<Rightarrow> usb \<Rightarrow> usb result" where
  "queryPortStatus fs tid u =
     bindE (queryVersionHelper fs u) (\<lambda>(_, u). Inr (notify (QueryPortStatus ''all'' SUCCESS tid) u))"

definition enableContaminantPresenceDetection :: "sysfs \<Rightarrow> string \<Rightarrow> bool \<Rightarrow> int \<Rightarrow> usb \<Rightarrow> usb result" where
  "enableContaminantPresenceDetection fs port enable tid u =
     bindE (queryVersionHelper fs (notify (ContaminantEnabledStatus port False FAILURE tid) u)) (\<lambda>(_, u). Inr u)"

section \<open>Switching\<close>

definition switchToDrp :: "sysfs \<Rightarrow> string \<Rightarrow> usb \<Rightarrow> usb" where
  "switchToDrp fs port u =
     (let filename = appendRoleNodeHelper port (ModeRole MODE_NONE)
      in if filename \<noteq> [] then snd (write_file fs filename ''dual'' u) else u)"

text \<open>
  What \<open>pthread_cond_timedwait\<close> returns each time, a timeout or a wake-up, with \<open>mPartnerUp\<close> as it then is.
  The timeout starts anew with every wait; \<open>Diverges\<close> when the list ends before the loop does. The results
  are whether the role switch succeeded, and \<open>mPartnerUp\<close>.
\<close>

datatype wait_result = TimedOut bool | Woken bool

fun wait_for_partner :: "wait_result list \<Rightarrow> (bool \<times> bool) result" where
  "wait_for_partner [] = Inl Diverges"
| "wait_for_partner (TimedOut up # ws) = Inr (False, up)"
| "wait_for_partner (Woken up # ws) = (if up then Inr (True, True) else wait_for_partner ws)"

text \<open>\<open>opened\<close>: whether \<open>fopen\<close> succeeds; \<open>fputs\<close> is the write of \<open>sysfs\<close>.\<close>

definition switchMode :: "sysfs \<Rightarrow> bool \<Rightarrow> wait_result list \<Rightarrow> string \<Rightarrow> PortRole \<Rightarrow> usb \<Rightarrow> (bool \<times> usb) result" where
  "switchMode fs opened waits port role u =
     (let filename = appendRoleNodeHelper port role
      in if filename = [] then Inr (False, u)
         else if \<not> opened then Inr (False, switchToDrp fs port u)
         else case write_file fs filename (convertRoletoString role) (u\<lparr>us_partner_up := False\<rparr>) of (written, u) \<Rightarrow>
           if \<not> written then Inr (False, switchToDrp fs port u)
           else bindE (wait_for_partner waits) (\<lambda>(switched, up). Inr (switched, switchToDrp fs port (u\<lparr>us_partner_up := up\<rparr>))))"

text \<open>An attempt to set a role: whether the name is written, and what the file contains afterwards.\<close>

fun role_attempts :: "string \<Rightarrow> string \<Rightarrow> (bool \<times> string option) list \<Rightarrow> usb \<Rightarrow> bool \<times> usb" where
  "role_attempts filename name [] u = (False, u)"
| "role_attempts filename name ((written, content) # as) u =
     (if \<not> written then role_attempts filename name as u
      else
        let u = u\<lparr>us_writes := us_writes u @ [(filename, name)]\<rparr>
        in case content of
             None \<Rightarrow> role_attempts filename name as u
           | Some c \<Rightarrow> if extractRole (Trim c) = name then (True, u) else role_attempts filename name as u)"

definition switchRole ::
  "sysfs \<Rightarrow> bool \<Rightarrow> wait_result list \<Rightarrow> (nat \<Rightarrow> bool \<times> string option) \<Rightarrow> string \<Rightarrow> PortRole \<Rightarrow> int \<Rightarrow> usb \<Rightarrow> usb result" where
  "switchRole fs opened waits tries port role tid u =
     (let filename = appendRoleNodeHelper port role; canSwitch = canSwitchRoleHelper fs port
      in if filename = [] then Inr u
         else bindE (case role of
             ModeRole _ \<Rightarrow> switchMode fs opened waits port role u
           | _ \<Rightarrow> Inr (if canSwitch then role_attempts filename (convertRoletoString role) (map tries [0..<20]) u else (False, u)))
           (\<lambda>(roleSwitch, u). Inr (notify (RoleSwitchStatus port role (if roleSwitch then SUCCESS else FAILURE) tid) u)))"

section \<open>Data lines\<close>

definition PULLUP_PATH :: string where "PULLUP_PATH = ''/config/usb_gadget/g1/UDC''"

text \<open>\<open>setMtu3DrForceMode\<close>: the first of the two nodes that can be written.\<close>

definition kModePaths :: "(string \<Rightarrow> string) list" where
  "kModePaths = [\<lambda>c. ''/sys/class/udc/'' @ c @ ''/device/mode'', \<lambda>c. ''/sys/class/udc/'' @ c @ ''/device/cmode'']"

fun write_first :: "sysfs \<Rightarrow> string list \<Rightarrow> string \<Rightarrow> usb \<Rightarrow> bool \<times> usb" where
  "write_first fs [] text u = (False, u)"
| "write_first fs (p # ps) text u =
     (case write_file fs p text u of (done_ok, u) \<Rightarrow> if done_ok then (True, u) else write_first fs ps text u)"

definition setMtu3DrForceMode :: "sysfs \<Rightarrow> string \<Rightarrow> string \<Rightarrow> usb \<Rightarrow> bool \<times> usb" where
  "setMtu3DrForceMode fs controller mode = write_first fs (map (\<lambda>p. p controller) kModePaths) mode"

definition write_pullup :: "sysfs \<Rightarrow> bool \<Rightarrow> string \<Rightarrow> usb \<Rightarrow> bool \<times> usb" where
  "write_pullup fs needed text u = (if needed then write_file fs PULLUP_PATH text u else (True, u))"

definition set_usb_data :: "sysfs \<Rightarrow> bool \<Rightarrow> usb \<Rightarrow> bool \<times> usb" where
  "set_usb_data fs enable u =
     (let controller = sx_controller fs;
          pullup_is = (\<lambda>eq. case sx_read fs PULLUP_PATH of None \<Rightarrow> False | Some p \<Rightarrow> (Trim p = controller) = eq)
      in if controller = [] then (False, u)
      else if enable then
        if us_data_enabled u then (True, u)
        else case write_pullup fs (pullup_is False) controller u of (r1, u) \<Rightarrow>
             case setMtu3DrForceMode fs controller ''1'' u of (r2, u) \<Rightarrow> (r1 \<and> r2, u)
      else case write_pullup fs (pullup_is True) ''none'' u of (r1, u) \<Rightarrow>
           case setMtu3DrForceMode fs controller ''0'' u of (r2, u) \<Rightarrow> (r1 \<and> r2, u))"

definition enableUsbData :: "sysfs \<Rightarrow> string \<Rightarrow> bool \<Rightarrow> int \<Rightarrow> usb \<Rightarrow> usb result" where
  "enableUsbData fs port enable tid u =
     (case set_usb_data fs enable u of (is_ok, u) \<Rightarrow>
      let u = (if is_ok then u\<lparr>us_data_enabled := enable\<rparr> else u);
          u = notify (EnableUsbDataStatus port enable (if is_ok then SUCCESS else FAILURE) tid) u
      in bindE (queryVersionHelper fs u) (\<lambda>(_, u). Inr u))"

definition enableUsbDataWhileDocked :: "string \<Rightarrow> int \<Rightarrow> usb \<Rightarrow> usb" where
  "enableUsbDataWhileDocked port tid = notify (EnableUsbDataWhileDockedStatus port NOT_SUPPORTED tid)"

definition resetUsbPort :: "string \<Rightarrow> int \<Rightarrow> usb \<Rightarrow> usb" where
  "resetUsbPort port tid = notify (ResetUsbPortStatus port NOT_SUPPORTED tid)"

definition limitPowerTransfer :: "string \<Rightarrow> bool \<Rightarrow> int \<Rightarrow> usb \<Rightarrow> usb" where
  "limitPowerTransfer port limit tid u =
     (if 0 \<le> tid then notify (LimitPowerTransferStatus port False NOT_SUPPORTED tid) u else u)"

section \<open>The second thread\<close>

text \<open>\<open>std::regex_match(cp, std::regex("(add)(.*)(-partner)"))\<close>; the dot matches no end of line.\<close>

definition partner_added :: "string \<Rightarrow> bool" where
  "partner_added s \<longleftrightarrow> length ''add-partner'' \<le> length s \<and> prefixed ''add'' s
     \<and> drop (length s - length ''-partner'') s = ''-partner''
     \<and> (\<forall>c \<in> set (drop 3 (take (length s - length ''-partner'') s)). c \<noteq> CHR 0x0A \<and> c \<noteq> CHR 0x0D)"

definition UEVENT_MSG_LEN :: nat where "UEVENT_MSG_LEN = 2048"

definition disconnected_to_drp :: "sysfs \<Rightarrow> PortStatus \<Rightarrow> usb \<Rightarrow> usb" where
  "disconnected_to_drp fs ps u =
     (if sx_dir fs (kTypecPath @ portName ps @ ''-partner'') then u else switchToDrp fs (portName ps) u)"

text \<open>\<open>switching\<close>: the lock of a role switch is held.\<close>

fun usb_event_lines :: "sysfs \<Rightarrow> bool \<Rightarrow> string list \<Rightarrow> usb \<Rightarrow> usb result" where
  "usb_event_lines fs switching [] u = Inr u"
| "usb_event_lines fs switching (l # ls) u =
     (if partner_added l then usb_event_lines fs switching ls (u\<lparr>us_partner_up := True\<rparr>)
      else if prefixed ''DEVTYPE=typec_'' l then
        bindE (queryVersionHelper fs u) (\<lambda>(ps, u).
        Inr (if switching then u else fold (disconnected_to_drp fs) ps u))
      else usb_event_lines fs switching ls u)"

definition uevent_event :: "sysfs \<Rightarrow> bool \<Rightarrow> string option \<Rightarrow> usb \<Rightarrow> usb result" where
  "uevent_event fs switching received u =
     (case received of
        None \<Rightarrow> Inr u
      | Some msg \<Rightarrow>
          if msg = [] \<or> UEVENT_MSG_LEN \<le> length msg then Inr u
          else usb_event_lines fs switching (uevent_lines msg) u)"

text \<open>\<open>setCallback\<close>, with the results of \<open>pthread_kill\<close> and \<open>pthread_create\<close> (zero is success).\<close>

definition setCallback :: "int \<Rightarrow> int \<Rightarrow> nat option \<Rightarrow> usb \<Rightarrow> usb" where
  "setCallback kill create callback u =
     (if (us_callback u = None) = (callback = None) then u\<lparr>us_callback := callback\<rparr>
      else if callback = None then
        (let u = u\<lparr>us_callback := None\<rparr> in if kill = 0 then u\<lparr>us_worker := False\<rparr> else u)
      else if create \<noteq> 0 then u\<lparr>us_callback := None\<rparr>
      else u\<lparr>us_callback := callback, us_worker := True\<rparr>)"

section \<open>What is reported\<close>

text \<open>
  A Type-C port as the kernel shows it: one with a partner has its roles in brackets, in files that end with
  a new line.
\<close>

datatype accessory = NoAccessory | Headset | Debugger

record typec_port =
  pt_name :: string
  pt_connected :: bool
  pt_power :: PortPowerRole
  pt_data :: PortDataRole
  pt_accessory :: accessory
  pt_pd :: bool

definition newline :: string where "newline = [CHR 0x0A]"

definition power_text :: "PortPowerRole \<Rightarrow> string" where
  "power_text p = (case p of SOURCE \<Rightarrow> ''[source] sink'' | SINK \<Rightarrow> ''source [sink]'' | POWER_NONE \<Rightarrow> ''none'') @ newline"

definition data_text :: "PortDataRole \<Rightarrow> string" where
  "data_text d = (case d of HOST \<Rightarrow> ''[host] device'' | DEVICE \<Rightarrow> ''host [device]'' | DATA_NONE \<Rightarrow> ''none'') @ newline"

definition mode_of_data :: "PortDataRole \<Rightarrow> PortMode" where
  "mode_of_data d = (case d of HOST \<Rightarrow> DFP | DEVICE \<Rightarrow> UFP | DATA_NONE \<Rightarrow> MODE_NONE)"

definition accessory_text :: "accessory \<Rightarrow> string" where
  "accessory_text a = (case a of NoAccessory \<Rightarrow> ''none'' | Headset \<Rightarrow> ''analog_audio'' | Debugger \<Rightarrow> ''debug'') @ newline"

definition mode_of_port :: "typec_port \<Rightarrow> PortMode" where
  "mode_of_port p = (case pt_accessory p of NoAccessory \<Rightarrow> mode_of_data (pt_data p)
     | Headset \<Rightarrow> AUDIO_ACCESSORY | Debugger \<Rightarrow> DEBUG_ACCESSORY)"

definition typec_entries :: "typec_port \<Rightarrow> (string \<times> bool) list" where
  "typec_entries p = (pt_name p, True) # (if pt_connected p then [(pt_name p @ ''-partner'', True)] else [])"

definition port_files_ok :: "sysfs \<Rightarrow> typec_port \<Rightarrow> bool" where
  "port_files_ok fs p \<longleftrightarrow> pt_name p \<noteq> [] \<and> CHR ''-'' \<notin> set (pt_name p) \<and>
     (pt_connected p \<longrightarrow>
        sx_read fs (kTypecPath @ pt_name p @ kPowerRoleNode) = Some (power_text (pt_power p))
      \<and> sx_read fs (kTypecPath @ pt_name p @ kDataRoleNode) = Some (data_text (pt_data p))
      \<and> sx_read fs (kTypecPath @ pt_name p @ ''-partner/accessory_mode'') = Some (accessory_text (pt_accessory p))
      \<and> sx_read fs (kTypecPath @ pt_name p @ ''-partner/supports_usb_power_delivery'')
          = Some ((if pt_pd p then ''yes'' else ''no'') @ newline))"

text \<open>
  The directory lists, in any order, a link for each port and one for each partner, and what is not
  a link besides; the iteration of the map gives each of its elements once.
\<close>

definition typec_ok :: "sysfs \<Rightarrow> typec_port list \<Rightarrow> bool" where
  "typec_ok fs ports \<longleftrightarrow>
     (case sx_typec fs of None \<Rightarrow> False
      | Some entries \<Rightarrow> mset (filter snd entries) = mset (concat (map typec_entries ports)))
     \<and> distinct (map pt_name ports)
     \<and> (\<forall>p \<in> set ports. port_files_ok fs p) \<and> (\<forall>m. mset (sx_order fs m) = mset m)"

text \<open>What should be reported of a port.\<close>

definition reported :: "sysfs \<Rightarrow> bool \<Rightarrow> typec_port \<Rightarrow> PortStatus" where
  "reported fs data_enabled p = no_port_status\<lparr>portName := pt_name p,
     currentPowerRole := (if pt_connected p then pt_power p else POWER_NONE),
     currentDataRole := (if pt_connected p then pt_data p else DATA_NONE),
     currentMode := (if pt_connected p then mode_of_port p else MODE_NONE),
     canChangeMode := True, canChangeDataRole := pt_connected p \<and> pt_pd p, canChangePowerRole := pt_connected p \<and> pt_pd p,
     supportedModes := DRP # (if sx_audio fs then [AUDIO_ACCESSORY] else []), usbDataStatus := [data_status data_enabled]\<rparr>"

lemma power_name:
  "extractRole (Trim (power_text p)) = (case p of SOURCE \<Rightarrow> ''source'' | SINK \<Rightarrow> ''sink'' | POWER_NONE \<Rightarrow> ''none'')"
proof (cases p)
  case POWER_NONE show ?thesis unfolding POWER_NONE by code_simp
next
  case SOURCE show ?thesis unfolding SOURCE by code_simp
next
  case SINK show ?thesis unfolding SINK by code_simp
qed

lemma data_name:
  "extractRole (Trim (data_text d)) = (case d of HOST \<Rightarrow> ''host'' | DEVICE \<Rightarrow> ''device'' | DATA_NONE \<Rightarrow> ''none'')"
proof (cases d)
  case DATA_NONE show ?thesis unfolding DATA_NONE by code_simp
next
  case HOST show ?thesis unfolding HOST by code_simp
next
  case DEVICE show ?thesis unfolding DEVICE by code_simp
qed

lemma role_texts:
  "role_of_name (extractRole (Trim (power_text p))) (PowerRole POWER_NONE) = (SUCCESS, PowerRole p)"
  "role_of_name (extractRole (Trim (data_text d))) (DataRole DATA_NONE) = (SUCCESS, DataRole d)"
  "role_of_name (extractRole (Trim (data_text d))) (ModeRole MODE_NONE) = (SUCCESS, ModeRole (mode_of_data d))"
  by (simp_all add: power_name data_name role_of_name_def mode_of_data_def split: PortPowerRole.split PortDataRole.split)

lemma small_texts:
  "Trim (''none'' @ newline) = ''none''" "Trim (''yes'' @ newline) = ''yes''" "Trim (''no'' @ newline) = ''no''"
  "Trim (''analog_audio'' @ newline) = ''analog_audio''" "Trim (''debug'' @ newline) = ''debug''"
  by code_simp+

lemma port_status_reported:
  assumes "port_files_ok fs p"
  shows "port_status fs data_enabled (pt_name p, pt_connected p) = Inr (True, reported fs data_enabled p)"
proof (cases "pt_connected p")
  case False
  then show ?thesis
    by (simp add: port_status_def getCurrentRoleHelper_def no_role_def get_powerRole_def get_dataRole_def get_mode_def
        reported_def no_port_status_def)
next
  case True
  then have reads: "read_role fs (pt_name p) (PowerRole POWER_NONE) = (SUCCESS, PowerRole (pt_power p))"
      "read_role fs (pt_name p) (DataRole DATA_NONE) = (SUCCESS, DataRole (pt_data p))"
      "read_role fs (pt_name p) (ModeRole MODE_NONE) = (SUCCESS, ModeRole (mode_of_data (pt_data p)))"
    using assms by (simp_all add: port_files_ok_def read_role_def role_file_def role_texts)
  have "getAccessoryConnected fs (pt_name p) = Some (case pt_accessory p of NoAccessory \<Rightarrow> ''none''
      | Headset \<Rightarrow> ''analog_audio'' | Debugger \<Rightarrow> ''debug'')"
    using assms True unfolding port_files_ok_def getAccessoryConnected_def accessory_text_def
    by (cases "pt_accessory p") (simp_all add: small_texts [simplified])
  moreover have "canSwitchRoleHelper fs (pt_name p) = pt_pd p"
    using assms True by (cases "pt_pd p") (simp_all add: port_files_ok_def canSwitchRoleHelper_def small_texts [simplified])
  ultimately show ?thesis using True reads
    by (simp add: port_status_def Let_def getCurrentRoleHelper_def no_role_def get_powerRole_def get_dataRole_def get_mode_def
        reported_def no_port_status_def mode_of_port_def split: accessory.split)
qed

lemma no_dash_no_partner: "CHR ''-'' \<notin> set s \<Longrightarrow> find_sub ''-partner'' s = None"
  by (induction s) (auto simp: prefixed_def)

lemma partner_found: "find_sub ''-partner'' (s @ ''-partner'') \<noteq> None"
  by (induction s) (auto simp: prefixed_def)

lemma partner_token:
  assumes "s \<noteq> []" "CHR ''-'' \<notin> set s"
  shows "first_token (s @ ''-partner'') = s"
proof -
  have "dropWhile (\<lambda>c. c = CHR ''-'') (s @ t) = s @ t" for t using assms by (cases s) auto
  moreover have "takeWhile (\<lambda>c. c \<noteq> CHR ''-'') (s @ ''-partner'') = s" using assms(2) by (subst takeWhile_append2) auto
  ultimately show ?thesis by (simp add: first_token_def)
qed

text \<open>What the entries of the directory make of the map: the names, and whether a partner was listed.\<close>

definition is_partner :: "string \<times> bool \<Rightarrow> bool" where
  "is_partner e \<longleftrightarrow> find_sub ''-partner'' (fst e) \<noteq> None"

definition entry_name :: "string \<times> bool \<Rightarrow> string" where
  "entry_name e = (if is_partner e then first_token (fst e) else fst e)"

lemma typec_entry_step:
  "map_of (typec_entry e m) k =
     (if snd e \<and> is_partner e \<and> entry_name e = k then Some True
      else if map_of m k \<noteq> None then map_of m k
      else if snd e \<and> entry_name e = k then Some False else None)"
  by (cases "find_sub ''-partner'' (fst e)"; cases "map_of m k")
    (auto simp: typec_entry_def is_partner_def entry_name_def has_def simp del: find_sub.simps)

lemma typec_entry_lookup:
  "map_of (fold typec_entry es m) k =
     (if \<exists>e \<in> set es. snd e \<and> is_partner e \<and> entry_name e = k then Some True
      else if map_of m k \<noteq> None then map_of m k
      else if \<exists>e \<in> set es. snd e \<and> entry_name e = k then Some False else None)"
proof (induction es arbitrary: m)
  case (Cons e es)
  show ?case
    unfolding fold.simps o_def Cons.IH typec_entry_step
    by (cases "snd e"; cases "is_partner e"; cases "entry_name e = k"; cases "map_of m k") auto
qed simp

lemma typec_entry_distinct: "distinct (map fst m) \<Longrightarrow> distinct (map fst (fold typec_entry es m))"
  by (induction es arbitrary: m) (simp_all add: typec_entry_def distinct_put)

lemma names_of_entries:
  assumes "\<forall>p \<in> set ports. pt_name p \<noteq> [] \<and> CHR ''-'' \<notin> set (pt_name p)" and "distinct (map pt_name ports)"
    and "set (filter snd es) = set (concat (map typec_entries ports))"
  shows "mset (fold typec_entry es []) = mset (map (\<lambda>p. (pt_name p, pt_connected p)) ports)"
proof -
  let ?m = "fold typec_entry es []" and ?ports = "map (\<lambda>p. (pt_name p, pt_connected p)) ports"
  have names: "\<not> is_partner (pt_name p, True)" "entry_name (pt_name p, True) = pt_name p"
    "is_partner (pt_name p @ ''-partner'', True)" "entry_name (pt_name p @ ''-partner'', True) = pt_name p"
    if "p \<in> set ports" for p
    using assms(1) that no_dash_no_partner partner_found partner_token
    by (simp_all add: is_partner_def entry_name_def del: find_sub.simps)
  have links: "(e \<in> set es \<and> snd e)
      \<longleftrightarrow> (\<exists>p \<in> set ports. e = (pt_name p, True) \<or> pt_connected p \<and> e = (pt_name p @ ''-partner'', True))" for e
  proof -
    have "(e \<in> set es \<and> snd e) \<longleftrightarrow> e \<in> set (concat (map typec_entries ports))" unfolding assms(3) [symmetric] by auto
    then show ?thesis by (auto simp: typec_entries_def split: if_splits)
  qed
  have partner: "(\<exists>e \<in> set es. snd e \<and> is_partner e \<and> entry_name e = k) \<longleftrightarrow> (\<exists>p \<in> set ports. pt_name p = k \<and> pt_connected p)" for k
  proof
    assume "\<exists>e \<in> set es. snd e \<and> is_partner e \<and> entry_name e = k"
    then obtain e where e: "e \<in> set es \<and> snd e" "is_partner e" "entry_name e = k" by blast
    then obtain p where p: "p \<in> set ports" "e = (pt_name p, True) \<or> pt_connected p \<and> e = (pt_name p @ ''-partner'', True)"
      unfolding links by blast
    then have "pt_connected p" "pt_name p = k" using e(2,3) names [OF p(1)] by metis+
    then show "\<exists>p \<in> set ports. pt_name p = k \<and> pt_connected p" using p(1) by blast
  next
    assume "\<exists>p \<in> set ports. pt_name p = k \<and> pt_connected p"
    then obtain p where p: "p \<in> set ports" "pt_name p = k" "pt_connected p" by blast
    then have "(pt_name p @ ''-partner'', True) \<in> set es" using links by blast
    then show "\<exists>e \<in> set es. snd e \<and> is_partner e \<and> entry_name e = k"
      using names(3,4) [OF p(1)] p(2) by (intro bexI [of _ "(pt_name p @ ''-partner'', True)"] conjI) simp_all
  qed
  have listed: "(\<exists>e \<in> set es. snd e \<and> entry_name e = k) \<longleftrightarrow> (\<exists>p \<in> set ports. pt_name p = k)" for k
  proof
    assume "\<exists>e \<in> set es. snd e \<and> entry_name e = k"
    then obtain e where e: "e \<in> set es \<and> snd e" "entry_name e = k" by blast
    then obtain p where p: "p \<in> set ports" "e = (pt_name p, True) \<or> pt_connected p \<and> e = (pt_name p @ ''-partner'', True)"
      unfolding links by blast
    then have "pt_name p = k" using e(2) names [OF p(1)] by metis
    then show "\<exists>p \<in> set ports. pt_name p = k" using p(1) by blast
  next
    assume "\<exists>p \<in> set ports. pt_name p = k"
    then obtain p where p: "p \<in> set ports" "pt_name p = k" by blast
    then have "(pt_name p, True) \<in> set es" using links by blast
    then show "\<exists>e \<in> set es. snd e \<and> entry_name e = k"
      using names(2) [OF p(1)] p(2) by (intro bexI [of _ "(pt_name p, True)"] conjI) simp_all
  qed
  have dm: "distinct (map fst ?m)" by (rule typec_entry_distinct) simp
  have same: "p = q" if "p \<in> set ports" "q \<in> set ports" "pt_name p = pt_name q" for p q
    using assms(2) that by (auto simp: distinct_map dest: inj_onD)
  have "(k, b) \<in> set ?m \<longleftrightarrow> (k, b) \<in> set ?ports" for k b
  proof -
    have "(k, b) \<in> set ?m \<longleftrightarrow> map_of ?m k = Some b" using dm by (metis map_of_eq_Some_iff)
    also have "\<dots> \<longleftrightarrow> (\<exists>p \<in> set ports. pt_name p = k \<and> pt_connected p = b)"
      unfolding typec_entry_lookup partner listed using same by auto
    finally show ?thesis by auto
  qed
  then have "set ?m = set ?ports" by auto
  moreover have "distinct ?m" using dm by (simp add: distinct_map)
  moreover have "distinct ?ports" using assms(2) by (auto simp: distinct_map inj_on_def)
  ultimately show ?thesis by (simp only: set_eq_iff_mset_eq_distinct)
qed

lemma port_loop_all:
  "\<forall>p \<in> set ports. port_status fs e (f p) = Inr (True, g p) \<Longrightarrow> port_loop fs e (map f ports @ rest) =
     bindE (port_loop fs e rest) (\<lambda>ps. Inr (map g ports @ ps))"
  by (induction ports) (auto simp: bindE_def split: sum.split)

lemma mset_map_order:
  "mset xs = mset (map f ys) \<Longrightarrow> \<exists>zs. mset zs = mset ys \<and> xs = map f zs"
proof (induction xs arbitrary: ys)
  case (Cons x xs)
  then have "x \<in> set (map f ys)" by (metis list.set_intros(1) mset_eq_setD)
  then obtain y where y: "y \<in> set ys" "f y = x" by auto
  then have "mset (map f ys) = add_mset x (mset (map f (remove1 y ys)))"
    by (metis image_mset_add_mset mset_map mset_remove1 insert_DiffM set_mset_mset)
  then have "mset xs = mset (map f (remove1 y ys))" using Cons.prems by (metis add_mset_remove_trivial mset.simps(2))
  then obtain zs where "mset zs = mset (remove1 y ys)" "xs = map f zs" using Cons.IH by blast
  then show ?case using y by (intro exI [of _ "y # zs"]) simp
qed simp

lemma getPortStatus_reports:
  assumes "typec_ok fs ports"
  shows "\<exists>ps. mset ps = mset ports \<and> getPortStatusHelper fs u = Inr (SUCCESS, map (reported fs (us_data_enabled u)) ps)"
proof -
  let ?entry = "\<lambda>p. (pt_name p, pt_connected p)" and ?e = "us_data_enabled u"
  obtain es where es: "sx_typec fs = Some es" "mset (filter snd es) = mset (concat (map typec_entries ports))"
    using assms by (auto simp: typec_ok_def split: option.splits)
  define names where "names = fold typec_entry es []"
  have "set (filter snd es) = set (concat (map typec_entries ports))" using es(2) by (rule mset_eq_setD)
  then have m: "mset names = mset (map ?entry ports)"
    unfolding names_def using assms by (intro names_of_entries) (auto simp: typec_ok_def port_files_ok_def)
  have names: "getTypeCPortNamesHelper fs = Some names" using es(1) by (simp add: getTypeCPortNamesHelper_def names_def)
  have "mset (sx_order fs names) = mset (map ?entry ports)" using assms m unfolding typec_ok_def by metis
  from mset_map_order [OF this] obtain ps where ps: "mset ps = mset ports" "sx_order fs names = map ?entry ps"
    by blast
  have "set ps = set ports" using ps(1) by (rule mset_eq_setD)
  then have "\<forall>p \<in> set ps. port_status fs ?e (?entry p) = Inr (True, reported fs ?e p)"
    using assms port_status_reported by (simp add: typec_ok_def)
  from port_loop_all [OF this, of "[]"] show ?thesis using names ps by (auto simp: getPortStatusHelper_def)
qed

text \<open>
  C29: Let the directory of the Type-C ports be readable and list, in any order, the link of each
  port and of each partner (and no other link), and let the files of every port with a partner be
  readable and in the format of the kernel, its accessory being none, analog audio or debug. Then a
  query with a registered callback does not abort, changes nothing and tells the framework of each
  port once, in some order, exactly the roles and the mode the kernel shows in its files; then
  that the query has succeeded.
\<close>

theorem queryPortStatus_reports:
  assumes "typec_ok fs ports" and "us_callback u \<noteq> None"
  shows "\<exists>ps. mset ps = mset ports \<and> queryPortStatus fs tid u = Inr (u\<lparr>us_notices := us_notices u @
    [PortStatusChange (map (\<lambda>p. (reported fs (us_data_enabled u) p)\<lparr>
       supportedContaminantProtectionModes := [MODE_NO_PROTECTION]\<rparr>) ps) SUCCESS,
     QueryPortStatus ''all'' SUCCESS tid]\<rparr>)"
proof -
  obtain ps where ps: "mset ps = mset ports" "getPortStatusHelper fs u = Inr (SUCCESS, map (reported fs (us_data_enabled u)) ps)"
    using getPortStatus_reports [OF assms(1)] by blast
  have "queryNonCompliantChargerStatus (queryMoistureDetectionStatus (map (reported fs e) ps))
      = map (\<lambda>p. (reported fs e p)\<lparr>supportedContaminantProtectionModes := [MODE_NO_PROTECTION]\<rparr>) ps" for e
    by (simp add: queryNonCompliantChargerStatus_def queryMoistureDetectionStatus_def reported_def no_port_status_def)
  then show ?thesis using ps assms(2)
    by (intro exI [of _ ps]) (auto simp: queryPortStatus_def queryVersionHelper_def notify_def Let_def)
qed

text \<open>A port with a partner that takes power and is the host, and one without a partner.\<close>

definition example_ports :: "typec_port list" where
  "example_ports = [\<lparr>pt_name = ''port0'', pt_connected = True, pt_power = SINK, pt_data = HOST, pt_accessory = NoAccessory, pt_pd = True\<rparr>,
     \<lparr>pt_name = ''port1'', pt_connected = False, pt_power = POWER_NONE, pt_data = DATA_NONE, pt_accessory = NoAccessory, pt_pd = False\<rparr>]"

definition example_sysfs :: sysfs where
  "example_sysfs = \<lparr>sx_controller = ''11201000.usb0'',
     sx_read = map_of [(kTypecPath @ ''port0'' @ kPowerRoleNode, power_text SINK),
       (kTypecPath @ ''port0'' @ kDataRoleNode, data_text HOST),
       (kTypecPath @ ''port0'' @ ''-partner/accessory_mode'', ''none'' @ newline),
       (kTypecPath @ ''port0'' @ ''-partner/supports_usb_power_delivery'', ''yes'' @ newline)],
     sx_write = (\<lambda>_ _. True), sx_typec = Some [(''port0-partner'', True), (''.'', False), (''port1'', True), (''port0'', True)],
     sx_dir = (\<lambda>_. False), sx_order = rev, sx_audio = False\<rparr>"

lemma example_typec_ok: "typec_ok example_sysfs example_ports"
  by (simp add: typec_ok_def example_sysfs_def example_ports_def typec_entries_def port_files_ok_def kTypecPath_def
      kPowerRoleNode_def kDataRoleNode_def accessory_text_def)

theorem queryPortStatus_reports_witness:
  "\<exists>ps. mset ps = mset example_ports \<and> queryPortStatus example_sysfs 7 (new_usb\<lparr>us_callback := Some 1\<rparr>)
    = Inr (new_usb\<lparr>us_callback := Some 1, us_notices := [
        PortStatusChange (map (\<lambda>p. (reported example_sysfs True p)\<lparr>
          supportedContaminantProtectionModes := [MODE_NO_PROTECTION]\<rparr>) ps) SUCCESS,
        QueryPortStatus ''all'' SUCCESS 7]\<rparr>)"
  using queryPortStatus_reports [OF example_typec_ok, of "new_usb\<lparr>us_callback := Some 1\<rparr>" 7] by (simp add: new_usb_def)

lemma example_reported:
  "reported example_sysfs True \<lparr>pt_name = ''port0'', pt_connected = True, pt_power = SINK, pt_data = HOST, pt_accessory = NoAccessory, pt_pd = True\<rparr>
    = no_port_status\<lparr>portName := ''port0'', currentDataRole := HOST, currentPowerRole := SINK, currentMode := DFP,
        canChangeMode := True, canChangeDataRole := True, canChangePowerRole := True, supportedModes := [DRP],
        usbDataStatus := [DATA_ENABLED]\<rparr>"
  by (simp add: reported_def example_sysfs_def no_port_status_def mode_of_port_def mode_of_data_def data_status_def)

text \<open>
  When the power role of a connected port cannot be read the query still reports success; the ports behind
  it are reported without names, roles and supported modes.
\<close>

lemma unreadable_role_reported_as_success:
  assumes "getTypeCPortNamesHelper fs = Some names" and "sx_order fs names = map f ports @ (name, True) # rest"
    and "\<forall>p \<in> set ports. port_status fs (us_data_enabled u) (f p) = Inr (True, g p)"
    and "sx_read fs (kTypecPath @ name @ kPowerRoleNode) = None"
  shows "getPortStatusHelper fs u
    = Inr (SUCCESS, map g ports @ no_port_status\<lparr>portName := name\<rparr> # replicate (length rest) no_port_status)"
proof -
  have "port_status fs (us_data_enabled u) (name, True) = Inr (False, no_port_status\<lparr>portName := name\<rparr>)"
    using assms(4) by (simp add: port_status_def getCurrentRoleHelper_def no_role_def read_role_def role_file_def)
  then show ?thesis using assms(1,2) port_loop_all [OF assms(3)] by (simp add: getPortStatusHelper_def)
qed

text \<open>A link that is neither a port nor a partner, as that of a cable, is reported as one more port.\<close>

lemma cable_reported_as_port:
  assumes "sx_typec fs = Some [(''port0'', True), (''port0-cable'', True)]"
  shows "getTypeCPortNamesHelper fs = Some [(''port0'', False), (''port0-cable'', False)]"
  using assms by (simp add: getTypeCPortNamesHelper_def typec_entry_def prefixed_def has_def put_def)

section \<open>What a switch reports\<close>

lemma role_attempts_iff:
  "fst (role_attempts filename name as u)
    \<longleftrightarrow> (\<exists>a \<in> set as. fst a \<and> (\<exists>c. snd a = Some c \<and> extractRole (Trim c) = name))"
proof (induction as arbitrary: u)
  case (Cons a as)
  show ?case by (cases a; cases "fst a"; cases "snd a") (auto simp: Let_def Cons.IH)
qed simp

lemma role_attempts_writes:
  "\<exists>n \<le> length as. snd (role_attempts filename name as u) = u\<lparr>us_writes := us_writes u @ replicate n (filename, name)\<rparr>"
proof (induction as arbitrary: u)
  case (Cons a as)
  obtain w c where a: "a = (w, c)" by (cases a)
  let ?u = "u\<lparr>us_writes := us_writes u @ [(filename, name)]\<rparr>"
  obtain n where n: "n \<le> length as"
      "snd (role_attempts filename name as ?u) = ?u\<lparr>us_writes := us_writes ?u @ replicate n (filename, name)\<rparr>"
    using Cons.IH by blast
  have "\<exists>k \<le> Suc (length as). ?u = u\<lparr>us_writes := us_writes u @ replicate k (filename, name)\<rparr>"
    by (rule exI [of _ 1]) simp
  moreover have "\<exists>k \<le> Suc (length as). ?u\<lparr>us_writes := us_writes ?u @ replicate n (filename, name)\<rparr>
      = u\<lparr>us_writes := us_writes u @ replicate k (filename, name)\<rparr>"
    using n(1) by (intro exI [of _ "Suc n"]) simp
  moreover have "\<exists>k \<le> Suc (length as). snd (role_attempts filename name as u)
      = u\<lparr>us_writes := us_writes u @ replicate k (filename, name)\<rparr>"
    using Cons.IH [of u] by (auto intro: le_SucI)
  ultimately show ?case using a n(2) by (simp add: Let_def split: option.split)
qed simp

text \<open>
  C30: Switching the power or data role of a port always ends, writes the name of the role to the node of
  the port at most twenty times, and reports success exactly when in one of the attempts the node then
  shows that role; without power delivery nothing is written.
\<close>

theorem switchRole_reports:
  assumes "us_callback u \<noteq> None" and "\<forall>m. role \<noteq> ModeRole m"
  shows "\<exists>n \<le> 20. switchRole fs opened waits tries port role tid u = Inr (u\<lparr>
      us_writes := us_writes u @ replicate n (appendRoleNodeHelper port role, convertRoletoString role),
      us_notices := us_notices u @ [RoleSwitchStatus port role
        (if canSwitchRoleHelper fs port \<and> (\<exists>i < 20. fst (tries i)
              \<and> (\<exists>c. snd (tries i) = Some c \<and> extractRole (Trim c) = convertRoletoString role))
         then SUCCESS else FAILURE) tid]\<rparr>) \<and> (\<not> canSwitchRoleHelper fs port \<longrightarrow> n = 0)"
proof -
  let ?file = "appendRoleNodeHelper port role" and ?name = "convertRoletoString role" and ?as = "map tries [0..<20]"
  have node: "?file \<noteq> []" by (simp add: appendRoleNodeHelper_def kTypecPath_def Let_def split: PortRole.split)
  have run: "switchRole fs opened waits tries port role tid u =
      (case if canSwitchRoleHelper fs port then role_attempts ?file ?name ?as u else (False, u) of
        (ok, u) \<Rightarrow> Inr (notify (RoleSwitchStatus port role (if ok then SUCCESS else FAILURE) tid) u))"
    using assms(2) node by (cases role) (simp_all add: switchRole_def Let_def split: prod.split)
  show ?thesis
  proof (cases "canSwitchRoleHelper fs port")
    case True
    obtain n where n: "n \<le> 20" "snd (role_attempts ?file ?name ?as u) = u\<lparr>us_writes := us_writes u @ replicate n (?file, ?name)\<rparr>"
      using role_attempts_writes [of ?as ?file ?name u] by auto
    have "fst (role_attempts ?file ?name ?as u) \<longleftrightarrow> (\<exists>i < 20. fst (tries i) \<and> (\<exists>c. snd (tries i) = Some c \<and> extractRole (Trim c) = ?name))"
      by (auto simp: role_attempts_iff)
    then obtain ok where "role_attempts ?file ?name ?as u
          = (ok, u\<lparr>us_writes := us_writes u @ replicate n (?file, ?name)\<rparr>)"
        "ok \<longleftrightarrow> (\<exists>i < 20. fst (tries i) \<and> (\<exists>c. snd (tries i) = Some c \<and> extractRole (Trim c) = ?name))"
      using n(2) by (metis prod.collapse)
    then show ?thesis using run True n(1) assms(1)
      by (intro exI [of _ n]) (simp only: if_True case_prod_conv notify_def, simp)
  next
    case False
    then show ?thesis using run assms(1) by (intro exI [of _ 0]) (simp add: notify_def)
  qed
qed

text \<open>The kernel takes the role at the third attempt: three writes and a success.\<close>

definition example_tries :: "nat \<Rightarrow> bool \<times> string option" where
  "example_tries i = (True, Some (power_text (if i < 2 then SINK else SOURCE)))"

theorem switchRole_reports_witness:
  "\<exists>n \<le> 20. switchRole example_sysfs True [] example_tries ''port0'' (PowerRole SOURCE) 7 (new_usb\<lparr>us_callback := Some 1\<rparr>)
    = Inr (new_usb\<lparr>us_callback := Some 1,
        us_writes := replicate n (''/sys/class/typec/port0/power_role'', ''source''),
        us_notices := [RoleSwitchStatus ''port0'' (PowerRole SOURCE) SUCCESS 7]\<rparr>)"
proof -
  have "\<exists>i < 20. fst (example_tries i) \<and> (\<exists>c. snd (example_tries i) = Some c \<and> extractRole (Trim c) = ''source'')"
    by (intro exI [of _ "2 :: nat"]) (simp add: example_tries_def power_name)
  moreover have "canSwitchRoleHelper example_sysfs ''port0''"
    using example_typec_ok by (simp add: example_sysfs_def canSwitchRoleHelper_def small_texts [simplified] kTypecPath_def
        kPowerRoleNode_def kDataRoleNode_def)
  moreover have "appendRoleNodeHelper ''port0'' (PowerRole SOURCE) = ''/sys/class/typec/port0/power_role''"
    "convertRoletoString (PowerRole SOURCE) = ''source''"
    by (simp_all add: appendRoleNodeHelper_def convertRoletoString_def kTypecPath_def kPowerRoleNode_def)
  ultimately show ?thesis
    using switchRole_reports [of "new_usb\<lparr>us_callback := Some 1\<rparr>" "PowerRole SOURCE" example_sysfs True "[]" example_tries "''port0''" 7]
    by (auto simp: new_usb_def)
qed

text \<open>The second thread runs only while there is a callback, if it can be told to end.\<close>

lemma worker_needs_callback:
  "(us_callback u = None \<longrightarrow> \<not> us_worker u) \<Longrightarrow> us_callback (setCallback 0 create cb u) = None \<longrightarrow> \<not> us_worker (setCallback 0 create cb u)"
  by (auto simp: setCallback_def Let_def)

end
