(* ===== verification/NanTlv.thy ===== *)
theory NanTlv
  imports Bytes
begin

text \<open>
  The type-length-value coding of the NAN messages (\<open>NANTLV_WriteTlv\<close>, \<open>NANTLV_ReadTlv\<close> and \<open>addTlv\<close>
  of \<open>wlan/wifi_hal/nan.cpp\<close>), the TLV types of \<open>nan_i.h\<close>, and the two ways in which the HAL uses it:
  a request writes a sequence of TLVs one after the other into its buffer (\<open>put_rows\<close>), and a parser
  of an indication reads TLVs in a loop until the message is used up (\<open>tlv_loop\<close>).
\<close>

section \<open>TLV types\<close>

text \<open>The enumerators of \<open>NanTlvType\<close>, as the 16-bit numbers the messages carry.\<close>

definition NAN_TLV_TYPE_FIRST :: u16 where [simp]: "NAN_TLV_TYPE_FIRST = 0"
definition NAN_TLV_TYPE_SDF_FIRST :: u16 where [simp]: "NAN_TLV_TYPE_SDF_FIRST = 0"
definition NAN_TLV_TYPE_SERVICE_NAME :: u16 where [simp]: "NAN_TLV_TYPE_SERVICE_NAME = 0"
definition NAN_TLV_TYPE_SDF_MATCH_FILTER :: u16 where [simp]: "NAN_TLV_TYPE_SDF_MATCH_FILTER = 1"
definition NAN_TLV_TYPE_TX_MATCH_FILTER :: u16 where [simp]: "NAN_TLV_TYPE_TX_MATCH_FILTER = 2"
definition NAN_TLV_TYPE_RX_MATCH_FILTER :: u16 where [simp]: "NAN_TLV_TYPE_RX_MATCH_FILTER = 3"
definition NAN_TLV_TYPE_SERVICE_SPECIFIC_INFO :: u16 where [simp]: "NAN_TLV_TYPE_SERVICE_SPECIFIC_INFO = 4"
definition NAN_TLV_TYPE_EXT_SERVICE_SPECIFIC_INFO :: u16 where [simp]: "NAN_TLV_TYPE_EXT_SERVICE_SPECIFIC_INFO = 5"
definition NAN_TLV_TYPE_VENDOR_SPECIFIC_ATTRIBUTE_TRANSMIT :: u16 where [simp]: "NAN_TLV_TYPE_VENDOR_SPECIFIC_ATTRIBUTE_TRANSMIT = 6"
definition NAN_TLV_TYPE_VENDOR_SPECIFIC_ATTRIBUTE_RECEIVE :: u16 where [simp]: "NAN_TLV_TYPE_VENDOR_SPECIFIC_ATTRIBUTE_RECEIVE = 7"
definition NAN_TLV_TYPE_POST_NAN_CONNECTIVITY_CAPABILITIES_RECEIVE :: u16 where [simp]: "NAN_TLV_TYPE_POST_NAN_CONNECTIVITY_CAPABILITIES_RECEIVE = 8"
definition NAN_TLV_TYPE_POST_NAN_DISCOVERY_ATTRIBUTE_RECEIVE :: u16 where [simp]: "NAN_TLV_TYPE_POST_NAN_DISCOVERY_ATTRIBUTE_RECEIVE = 9"
definition NAN_TLV_TYPE_BEACON_SDF_PAYLOAD_RECEIVE :: u16 where [simp]: "NAN_TLV_TYPE_BEACON_SDF_PAYLOAD_RECEIVE = 10"
definition NAN_TLV_TYPE_NAN_DATA_PATH_PARAMS :: u16 where [simp]: "NAN_TLV_TYPE_NAN_DATA_PATH_PARAMS = 11"
definition NAN_TLV_TYPE_NAN_DATA_SUPPORTED_BAND :: u16 where [simp]: "NAN_TLV_TYPE_NAN_DATA_SUPPORTED_BAND = 12"
definition NAN_TLV_TYPE_2G_COMMITTED_DW :: u16 where [simp]: "NAN_TLV_TYPE_2G_COMMITTED_DW = 13"
definition NAN_TLV_TYPE_5G_COMMITTED_DW :: u16 where [simp]: "NAN_TLV_TYPE_5G_COMMITTED_DW = 14"
definition NAN_TLV_TYPE_NAN_DATA_RESPONDER_MODE :: u16 where [simp]: "NAN_TLV_TYPE_NAN_DATA_RESPONDER_MODE = 15"
definition NAN_TLV_TYPE_NAN_DATA_ENABLED_IN_MATCH :: u16 where [simp]: "NAN_TLV_TYPE_NAN_DATA_ENABLED_IN_MATCH = 16"
definition NAN_TLV_TYPE_NAN_SERVICE_ACCEPT_POLICY :: u16 where [simp]: "NAN_TLV_TYPE_NAN_SERVICE_ACCEPT_POLICY = 17"
definition NAN_TLV_TYPE_NAN_CSID :: u16 where [simp]: "NAN_TLV_TYPE_NAN_CSID = 18"
definition NAN_TLV_TYPE_NAN_SCID :: u16 where [simp]: "NAN_TLV_TYPE_NAN_SCID = 19"
definition NAN_TLV_TYPE_NAN_PMK :: u16 where [simp]: "NAN_TLV_TYPE_NAN_PMK = 20"
definition NAN_TLV_TYPE_SDEA_CTRL_PARAMS :: u16 where [simp]: "NAN_TLV_TYPE_SDEA_CTRL_PARAMS = 21"
definition NAN_TLV_TYPE_NAN_RANGING_CFG :: u16 where [simp]: "NAN_TLV_TYPE_NAN_RANGING_CFG = 22"
definition NAN_TLV_TYPE_CONFIG_DISCOVERY_INDICATIONS :: u16 where [simp]: "NAN_TLV_TYPE_CONFIG_DISCOVERY_INDICATIONS = 23"
definition NAN_TLV_TYPE_NAN20_RANGING_REQUEST :: u16 where [simp]: "NAN_TLV_TYPE_NAN20_RANGING_REQUEST = 24"
definition NAN_TLV_TYPE_NAN20_RANGING_RESULT :: u16 where [simp]: "NAN_TLV_TYPE_NAN20_RANGING_RESULT = 25"
definition NAN_TLV_TYPE_NAN20_RANGING_REQUEST_RECEIVED :: u16 where [simp]: "NAN_TLV_TYPE_NAN20_RANGING_REQUEST_RECEIVED = 26"
definition NAN_TLV_TYPE_NAN_PASSPHRASE :: u16 where [simp]: "NAN_TLV_TYPE_NAN_PASSPHRASE = 27"
definition NAN_TLV_TYPE_SDEA_SERVICE_SPECIFIC_INFO :: u16 where [simp]: "NAN_TLV_TYPE_SDEA_SERVICE_SPECIFIC_INFO = 28"
definition NAN_TLV_TYPE_DEV_CAP_ATTR_CAPABILITY :: u16 where [simp]: "NAN_TLV_TYPE_DEV_CAP_ATTR_CAPABILITY = 29"
definition NAN_TLV_TYPE_SDF_LAST :: u16 where [simp]: "NAN_TLV_TYPE_SDF_LAST = 4095"
definition NAN_TLV_TYPE_CONFIG_FIRST :: u16 where [simp]: "NAN_TLV_TYPE_CONFIG_FIRST = 4096"
definition NAN_TLV_TYPE_24G_SUPPORT :: u16 where [simp]: "NAN_TLV_TYPE_24G_SUPPORT = 4096"
definition NAN_TLV_TYPE_24G_BEACON :: u16 where [simp]: "NAN_TLV_TYPE_24G_BEACON = 4097"
definition NAN_TLV_TYPE_24G_SDF :: u16 where [simp]: "NAN_TLV_TYPE_24G_SDF = 4098"
definition NAN_TLV_TYPE_24G_RSSI_CLOSE :: u16 where [simp]: "NAN_TLV_TYPE_24G_RSSI_CLOSE = 4099"
definition NAN_TLV_TYPE_24G_RSSI_MIDDLE :: u16 where [simp]: "NAN_TLV_TYPE_24G_RSSI_MIDDLE = 4100"
definition NAN_TLV_TYPE_24G_RSSI_CLOSE_PROXIMITY :: u16 where [simp]: "NAN_TLV_TYPE_24G_RSSI_CLOSE_PROXIMITY = 4101"
definition NAN_TLV_TYPE_5G_SUPPORT :: u16 where [simp]: "NAN_TLV_TYPE_5G_SUPPORT = 4102"
definition NAN_TLV_TYPE_5G_BEACON :: u16 where [simp]: "NAN_TLV_TYPE_5G_BEACON = 4103"
definition NAN_TLV_TYPE_5G_SDF :: u16 where [simp]: "NAN_TLV_TYPE_5G_SDF = 4104"
definition NAN_TLV_TYPE_5G_RSSI_CLOSE :: u16 where [simp]: "NAN_TLV_TYPE_5G_RSSI_CLOSE = 4105"
definition NAN_TLV_TYPE_5G_RSSI_MIDDLE :: u16 where [simp]: "NAN_TLV_TYPE_5G_RSSI_MIDDLE = 4106"
definition NAN_TLV_TYPE_5G_RSSI_CLOSE_PROXIMITY :: u16 where [simp]: "NAN_TLV_TYPE_5G_RSSI_CLOSE_PROXIMITY = 4107"
definition NAN_TLV_TYPE_SID_BEACON :: u16 where [simp]: "NAN_TLV_TYPE_SID_BEACON = 4108"
definition NAN_TLV_TYPE_HOP_COUNT_LIMIT :: u16 where [simp]: "NAN_TLV_TYPE_HOP_COUNT_LIMIT = 4109"
definition NAN_TLV_TYPE_MASTER_PREFERENCE :: u16 where [simp]: "NAN_TLV_TYPE_MASTER_PREFERENCE = 4110"
definition NAN_TLV_TYPE_CLUSTER_ID_LOW :: u16 where [simp]: "NAN_TLV_TYPE_CLUSTER_ID_LOW = 4111"
definition NAN_TLV_TYPE_CLUSTER_ID_HIGH :: u16 where [simp]: "NAN_TLV_TYPE_CLUSTER_ID_HIGH = 4112"
definition NAN_TLV_TYPE_RSSI_AVERAGING_WINDOW_SIZE :: u16 where [simp]: "NAN_TLV_TYPE_RSSI_AVERAGING_WINDOW_SIZE = 4113"
definition NAN_TLV_TYPE_CLUSTER_OUI_NETWORK_ID :: u16 where [simp]: "NAN_TLV_TYPE_CLUSTER_OUI_NETWORK_ID = 4114"
definition NAN_TLV_TYPE_SOURCE_MAC_ADDRESS :: u16 where [simp]: "NAN_TLV_TYPE_SOURCE_MAC_ADDRESS = 4115"
definition NAN_TLV_TYPE_CLUSTER_ATTRIBUTE_IN_SDF :: u16 where [simp]: "NAN_TLV_TYPE_CLUSTER_ATTRIBUTE_IN_SDF = 4116"
definition NAN_TLV_TYPE_SOCIAL_CHANNEL_SCAN_PARAMS :: u16 where [simp]: "NAN_TLV_TYPE_SOCIAL_CHANNEL_SCAN_PARAMS = 4117"
definition NAN_TLV_TYPE_DEBUGGING_FLAGS :: u16 where [simp]: "NAN_TLV_TYPE_DEBUGGING_FLAGS = 4118"
definition NAN_TLV_TYPE_POST_NAN_CONNECTIVITY_CAPABILITIES_TRANSMIT :: u16 where [simp]: "NAN_TLV_TYPE_POST_NAN_CONNECTIVITY_CAPABILITIES_TRANSMIT = 4119"
definition NAN_TLV_TYPE_POST_NAN_DISCOVERY_ATTRIBUTE_TRANSMIT :: u16 where [simp]: "NAN_TLV_TYPE_POST_NAN_DISCOVERY_ATTRIBUTE_TRANSMIT = 4120"
definition NAN_TLV_TYPE_FURTHER_AVAILABILITY_MAP :: u16 where [simp]: "NAN_TLV_TYPE_FURTHER_AVAILABILITY_MAP = 4121"
definition NAN_TLV_TYPE_HOP_COUNT_FORCE :: u16 where [simp]: "NAN_TLV_TYPE_HOP_COUNT_FORCE = 4122"
definition NAN_TLV_TYPE_RANDOM_FACTOR_FORCE :: u16 where [simp]: "NAN_TLV_TYPE_RANDOM_FACTOR_FORCE = 4123"
definition NAN_TLV_TYPE_RANDOM_UPDATE_TIME :: u16 where [simp]: "NAN_TLV_TYPE_RANDOM_UPDATE_TIME = 4124"
definition NAN_TLV_TYPE_EARLY_WAKEUP :: u16 where [simp]: "NAN_TLV_TYPE_EARLY_WAKEUP = 4125"
definition NAN_TLV_TYPE_PERIODIC_SCAN_INTERVAL :: u16 where [simp]: "NAN_TLV_TYPE_PERIODIC_SCAN_INTERVAL = 4126"
definition NAN_TLV_TYPE_DW_INTERVAL :: u16 where [simp]: "NAN_TLV_TYPE_DW_INTERVAL = 4128"
definition NAN_TLV_TYPE_DB_INTERVAL :: u16 where [simp]: "NAN_TLV_TYPE_DB_INTERVAL = 4129"
definition NAN_TLV_TYPE_FURTHER_AVAILABILITY :: u16 where [simp]: "NAN_TLV_TYPE_FURTHER_AVAILABILITY = 4130"
definition NAN_TLV_TYPE_24G_CHANNEL :: u16 where [simp]: "NAN_TLV_TYPE_24G_CHANNEL = 4131"
definition NAN_TLV_TYPE_5G_CHANNEL :: u16 where [simp]: "NAN_TLV_TYPE_5G_CHANNEL = 4132"
definition NAN_TLV_TYPE_DISC_MAC_ADDR_RANDOM_INTERVAL :: u16 where [simp]: "NAN_TLV_TYPE_DISC_MAC_ADDR_RANDOM_INTERVAL = 4133"
definition NAN_TLV_TYPE_RANGING_AUTO_RESPONSE_CFG :: u16 where [simp]: "NAN_TLV_TYPE_RANGING_AUTO_RESPONSE_CFG = 4134"
definition NAN_TLV_TYPE_SUBSCRIBE_SID_BEACON :: u16 where [simp]: "NAN_TLV_TYPE_SUBSCRIBE_SID_BEACON = 4135"
definition NAN_TLV_TYPE_DW_EARLY_TERMINATION :: u16 where [simp]: "NAN_TLV_TYPE_DW_EARLY_TERMINATION = 4136"
definition NAN_TLV_TYPE_TX_RX_CHAINS :: u16 where [simp]: "NAN_TLV_TYPE_TX_RX_CHAINS = 4137"
definition NAN_TLV_TYPE_ENABLE_DEVICE_RANGING :: u16 where [simp]: "NAN_TLV_TYPE_ENABLE_DEVICE_RANGING = 4138"
definition NAN_TLV_TYPE_CONFIG_LAST :: u16 where [simp]: "NAN_TLV_TYPE_CONFIG_LAST = 8191"
definition NAN_TLV_TYPE_ATTRS_FIRST :: u16 where [simp]: "NAN_TLV_TYPE_ATTRS_FIRST = 8192"
definition NAN_TLV_TYPE_AVAILABILITY_INTERVALS_MAP :: u16 where [simp]: "NAN_TLV_TYPE_AVAILABILITY_INTERVALS_MAP = 8192"
definition NAN_TLV_TYPE_WLAN_MESH_ID :: u16 where [simp]: "NAN_TLV_TYPE_WLAN_MESH_ID = 8193"
definition NAN_TLV_TYPE_MAC_ADDRESS :: u16 where [simp]: "NAN_TLV_TYPE_MAC_ADDRESS = 8194"
definition NAN_TLV_TYPE_RECEIVED_RSSI_VALUE :: u16 where [simp]: "NAN_TLV_TYPE_RECEIVED_RSSI_VALUE = 8195"
definition NAN_TLV_TYPE_CLUSTER_ATTRIBUTE :: u16 where [simp]: "NAN_TLV_TYPE_CLUSTER_ATTRIBUTE = 8196"
definition NAN_TLV_TYPE_WLAN_INFRA_SSID :: u16 where [simp]: "NAN_TLV_TYPE_WLAN_INFRA_SSID = 8197"
definition NAN_TLV_TYPE_ATTRS_LAST :: u16 where [simp]: "NAN_TLV_TYPE_ATTRS_LAST = 12287"
definition NAN_TLV_TYPE_EVENTS_FIRST :: u16 where [simp]: "NAN_TLV_TYPE_EVENTS_FIRST = 12288"
definition NAN_TLV_TYPE_EVENT_SELF_STATION_MAC_ADDRESS :: u16 where [simp]: "NAN_TLV_TYPE_EVENT_SELF_STATION_MAC_ADDRESS = 12288"
definition NAN_TLV_TYPE_EVENT_STARTED_CLUSTER :: u16 where [simp]: "NAN_TLV_TYPE_EVENT_STARTED_CLUSTER = 12289"
definition NAN_TLV_TYPE_EVENT_JOINED_CLUSTER :: u16 where [simp]: "NAN_TLV_TYPE_EVENT_JOINED_CLUSTER = 12290"
definition NAN_TLV_TYPE_EVENT_CLUSTER_SCAN_RESULTS :: u16 where [simp]: "NAN_TLV_TYPE_EVENT_CLUSTER_SCAN_RESULTS = 12291"
definition NAN_TLV_TYPE_FAW_MEM_AVAIL :: u16 where [simp]: "NAN_TLV_TYPE_FAW_MEM_AVAIL = 12292"
definition NAN_TLV_TYPE_EVENTS_LAST :: u16 where [simp]: "NAN_TLV_TYPE_EVENTS_LAST = 16383"
definition NAN_TLV_TYPE_TCA_FIRST :: u16 where [simp]: "NAN_TLV_TYPE_TCA_FIRST = 16384"
definition NAN_TLV_TYPE_CLUSTER_SIZE_REQ :: u16 where [simp]: "NAN_TLV_TYPE_CLUSTER_SIZE_REQ = 16384"
definition NAN_TLV_TYPE_CLUSTER_SIZE_RSP :: u16 where [simp]: "NAN_TLV_TYPE_CLUSTER_SIZE_RSP = 16385"
definition NAN_TLV_TYPE_TCA_LAST :: u16 where [simp]: "NAN_TLV_TYPE_TCA_LAST = 32767"
definition NAN_TLV_TYPE_STATS_FIRST :: u16 where [simp]: "NAN_TLV_TYPE_STATS_FIRST = 32768"
definition NAN_TLV_TYPE_DE_PUBLISH_STATS :: u16 where [simp]: "NAN_TLV_TYPE_DE_PUBLISH_STATS = 32768"
definition NAN_TLV_TYPE_DE_SUBSCRIBE_STATS :: u16 where [simp]: "NAN_TLV_TYPE_DE_SUBSCRIBE_STATS = 32769"
definition NAN_TLV_TYPE_DE_MAC_STATS :: u16 where [simp]: "NAN_TLV_TYPE_DE_MAC_STATS = 32770"
definition NAN_TLV_TYPE_DE_TIMING_SYNC_STATS :: u16 where [simp]: "NAN_TLV_TYPE_DE_TIMING_SYNC_STATS = 32771"
definition NAN_TLV_TYPE_DE_DW_STATS :: u16 where [simp]: "NAN_TLV_TYPE_DE_DW_STATS = 32772"
definition NAN_TLV_TYPE_DE_STATS :: u16 where [simp]: "NAN_TLV_TYPE_DE_STATS = 32773"
definition NAN_TLV_TYPE_STATS_LAST :: u16 where [simp]: "NAN_TLV_TYPE_STATS_LAST = 36863"
definition NAN_TLV_TYPE_TESTMODE_FIRST :: u16 where [simp]: "NAN_TLV_TYPE_TESTMODE_FIRST = 36864"
definition NAN_TLV_TYPE_TESTMODE_GENERIC_CMD :: u16 where [simp]: "NAN_TLV_TYPE_TESTMODE_GENERIC_CMD = 36864"
definition NAN_TLV_TYPE_TESTMODE_LAST :: u16 where [simp]: "NAN_TLV_TYPE_TESTMODE_LAST = 37000"
definition NAN_TLV_TYPE_LAST :: u16 where [simp]: "NAN_TLV_TYPE_LAST = 65535"

section \<open>Writing and reading one TLV\<close>

text \<open>
  \<open>struct NanTlv\<close>. The value is a pointer; \<open>None\<close> is \<open>NULL\<close>, and \<open>Some v\<close> gives the bytes that may be
  read from it: for a TLV to be written those of the object it points to, for one that was read those
  from its value to the end of the message.
\<close>

record NanTlv =
  nt_type :: u16
  nt_length :: u16
  nt_value :: "bytes option"

text \<open>\<open>SIZEOF_TLV_HDR\<close>\<close>

definition SIZEOF_TLV_HDR :: nat where [simp]: "SIZEOF_TLV_HDR = 4"

text \<open>\<open>pInTlv->value[i]\<close>\<close>

definition rd_value :: "bytes option \<Rightarrow> nat \<Rightarrow> u8 result" where
  "rd_value v i = (case v of None \<Rightarrow> Inl UB | Some bs \<Rightarrow> rd8 bs i)"

text \<open>The loop that copies \<open>n\<close> further bytes, from \<open>value[i]\<close> to \<open>*pOutTlv\<close> at offset \<open>p\<close>.\<close>

fun copy_value :: "bytes option \<Rightarrow> nat \<Rightarrow> nat \<Rightarrow> nat \<Rightarrow> bytes \<Rightarrow> bytes result" where
  "copy_value v 0 i p b = Inr b"
| "copy_value v (Suc n) i p b =
     bindE (rd_value v i) (\<lambda>x. bindE (wr8 b p x) (copy_value v n (Suc i) (Suc p)))"

text \<open>
  The number of bytes written, modulo \<open>2 ^ 16\<close>, and the buffer. \<open>pOutTlv\<close> is the offset at which the
  TLV goes into the buffer \<open>b\<close>.
\<close>

definition NANTLV_WriteTlv :: "NanTlv option \<Rightarrow> nat option \<Rightarrow> bytes \<Rightarrow> (u16 \<times> bytes) result" where
  "NANTLV_WriteTlv pInTlv pOutTlv b =
     (case pInTlv of
        None \<Rightarrow> Inr (0, b)
      | Some t \<Rightarrow>
          (case pOutTlv of
             None \<Rightarrow> Inr (0, b)
           | Some p \<Rightarrow>
               bindE (wr8 b p (ucast (nt_type t AND 0xFF))) (\<lambda>b.
               bindE (wr8 b (p + 1) (ucast (drop_bit 8 (nt_type t AND 0xFF00)))) (\<lambda>b.
               bindE (wr8 b (p + 2) (ucast (nt_length t AND 0xFF))) (\<lambda>b.
               bindE (wr8 b (p + 3) (ucast (drop_bit 8 (nt_length t AND 0xFF00)))) (\<lambda>b.
               bindE (copy_value (nt_value t) (unat (nt_length t)) 0 (p + 4) b) (\<lambda>b.
               Inr (4 + nt_length t, b))))))))"

text \<open>
  The number of bytes read, modulo \<open>2 ^ 16\<close>, and what \<open>*pOutTlv\<close> holds afterwards.
\<close>

definition NANTLV_ReadTlv :: "bytes \<Rightarrow> nat option \<Rightarrow> NanTlv option \<Rightarrow> (u16 \<times> NanTlv option) result" where
  "NANTLV_ReadTlv b pInTlv pOutTlv =
     (case pInTlv of
        None \<Rightarrow> Inr (0, pOutTlv)
      | Some p \<Rightarrow>
          (case pOutTlv of
             None \<Rightarrow> Inr (0, None)
           | Some _ \<Rightarrow>
               bindE (rd8 b p) (\<lambda>t0.
               bindE (rd8 b (p + 1)) (\<lambda>t1.
               bindE (rd8 b (p + 2)) (\<lambda>l0.
               bindE (rd8 b (p + 3)) (\<lambda>l1.
               let type = ucast t0 OR push_bit 8 (ucast t1);
                   len = ucast l0 OR push_bit 8 (ucast l1)
               in if len \<noteq> 0
                  then Inr (4 + len, Some \<lparr>nt_type = type, nt_length = len,
                                           nt_value = Some (drop (p + 4) b)\<rparr>)
                  else Inr (4, Some \<lparr>nt_type = type, nt_length = len, nt_value = None\<rparr>)))))))"

text \<open>The pointer behind the TLV that \<open>addTlv\<close> has written.\<close>

definition addTlv :: "u16 \<Rightarrow> u16 \<Rightarrow> bytes option \<Rightarrow> nat \<Rightarrow> bytes \<Rightarrow> (nat \<times> bytes) result" where
  "addTlv type len value pOutTlv b =
     bindE (NANTLV_WriteTlv (Some \<lparr>nt_type = type, nt_length = len, nt_value = value\<rparr>) (Some pOutTlv) b)
       (\<lambda>(n, b). Inr (pOutTlv + unat n, b))"

section \<open>Their contract\<close>

text \<open>The bytes of a TLV: type, length and value.\<close>

definition tlv_bytes :: "u16 \<Rightarrow> bytes \<Rightarrow> bytes" where
  "tlv_bytes t v = le 2 (unat t) @ le 2 (length v) @ v"

lemma le_2: "le 2 v = [word_of_nat v, word_of_nat (v div 256)]"
  by (simp add: numeral_2_eq_2)

lemma length_tlv_bytes [simp, bytes_simps]: "length (tlv_bytes t v) = 4 + length v"
  by (simp add: tlv_bytes_def)

lemma low_byte_mask: "(255 :: u16) = mask 8" and high_byte_mask: "(65280 :: u16) = push_bit 8 (mask 8)"
  by (simp_all add: mask_eq_decr_exp)

lemma ucast_low_byte: "(ucast (w AND 0xFF) :: u8) = word_of_nat (unat w)" for w :: u16
  unfolding low_byte_mask
  by (rule bit_word_eqI) (auto simp: bit_simps)

lemma ucast_high_byte: "(ucast (drop_bit 8 (w AND 0xFF00)) :: u8) = word_of_nat (unat w div 256)" for w :: u16
proof -
  have "(word_of_nat (unat w div 256) :: u8) = ucast (drop_bit 8 w)"
    by (simp add: word_unat_eq_iff unat_word_of_nat8 unsigned_drop_bit_eq drop_bit_eq_div unsigned_ucast_eq take_bit_eq_mod unat_div_distrib)
  then show ?thesis unfolding high_byte_mask
    by (simp only:) (rule bit_word_eqI, auto simp: bit_simps)
qed

lemma join_bytes: "ucast l OR push_bit 8 (ucast h) = (word_of_nat (unat l + 256 * unat h) :: u16)" for l h :: u8
proof (rule word_unat_eq_iff [THEN iffD2])
  have disj: "ucast l AND push_bit 8 (ucast h) = (0 :: u16)"
    by (rule bit_word_eqI) (auto simp: bit_simps dest: bit_imp_le_length)
  have h: "unat (ucast h :: u16) = unat h" "unat (ucast l :: u16) = unat l"
    by (simp_all add: unsigned_ucast_eq take_bit_eq_mod less_trans [OF unat_u8_less])
  have "unat l + 256 * unat h < 65536" using unat_u8_less [of l] unat_u8_less [of h] by linarith
  then show "unat (ucast l OR push_bit 8 (ucast h) :: u16) = unat (word_of_nat (unat l + 256 * unat h) :: u16)"
    using disj h by (simp add: disjunctive_add_eq_or [symmetric] push_bit_eq_mult unat_word_ariths unat_of_nat mult.commute)
qed

text \<open>A loop that copies from an object with enough bytes into a buffer with enough room.\<close>

lemma copy_value_ok:
  assumes "i + n \<le> length v" and "p + n \<le> length b"
  shows "copy_value (Some v) n i p b = Inr (take p b @ take n (drop i v) @ drop (p + n) b)"
  using assms
proof (induction n arbitrary: i p b)
  case 0
  then show ?case by simp
next
  case (Suc n)
  have step: "copy_value (Some v) (Suc n) i p b = copy_value (Some v) n (Suc i) (Suc p) (b[p := v ! i])"
    using Suc.prems by (simp add: rd_value_def)
  have "take (Suc p) (b[p := v ! i]) = take p b @ [v ! i]"
    using Suc.prems by (simp add: take_Suc_conv_app_nth)
  moreover have "take (Suc n) (drop i v) = v ! i # take n (drop (Suc i) v)"
    using Suc.prems by (simp add: Cons_nth_drop_Suc [symmetric])
  ultimately show ?case
    unfolding step using Suc.prems by (subst Suc.IH) simp_all
qed

lemma write_four:
  assumes "p + 4 \<le> length b"
  shows "bindE (wr8 b p w) (\<lambda>b. bindE (wr8 b (p + 1) x) (\<lambda>b. bindE (wr8 b (p + 2) y) (\<lambda>b.
           bindE (wr8 b (p + 3) z) f))) = f (take p b @ [w, x, y, z] @ drop (p + 4) b)"
proof -
  obtain a c where b: "b = a @ c" "length a = p" and c: "4 \<le> length c"
    using assms that [of "take p b" "drop p b"] by simp
  obtain c0 c1 c2 c3 d where "c = c0 # c1 # c2 # c3 # d"
    using c by (auto simp: numeral_eq_Suc Suc_le_length_iff)
  then show ?thesis using b by (simp add: list_update_append)
qed

lemma WriteTlv_bytes:
  assumes "p + 4 \<le> length b"
  shows "NANTLV_WriteTlv (Some \<lparr>nt_type = t, nt_length = n, nt_value = v\<rparr>) (Some p) b
    = bindE (copy_value v (unat n) 0 (p + 4)
        (take p b @ [word_of_nat (unat t), word_of_nat (unat t div 256), word_of_nat (unat n),
                     word_of_nat (unat n div 256)] @ drop (p + 4) b)) (\<lambda>b. Inr (4 + n, b))"
  unfolding NANTLV_WriteTlv_def option.case NanTlv.simps ucast_low_byte ucast_high_byte
  by (rule write_four) (rule assms)

lemma addTlv_ok:
  assumes "unat n \<le> length v" and "unat n + 4 < 65536" and "p + 4 + unat n \<le> length b"
  shows "addTlv t n (Some v) p b
    = Inr (p + 4 + unat n, take p b @ tlv_bytes t (take (unat n) v) @ drop (p + 4 + unat n) b)"
proof -
  have "unat (4 + n) = 4 + unat n" using assms(2) by (simp add: unat_word_ariths)
  moreover have "drop (4 + unat n) (w # x # y # z # drop (p + 4) b) = drop (p + 4 + unat n) b" for w x y z
    by (simp add: numeral_eq_Suc add.commute)
  moreover have "p + 4 \<le> length b" using assms by simp
  ultimately show ?thesis using assms
    by (simp add: addTlv_def WriteTlv_bytes copy_value_ok tlv_bytes_def le_2 del: drop_Suc_Cons)
qed

text \<open>Reading a TLV that lies in the message in full.\<close>

lemma u16_of_bytes: "word_of_nat (unat t mod 256) + 256 * word_of_nat (unat t div 256 mod 256) = (t :: u16)"
proof -
  have "unat t < 65536" using unsigned_less [where ?'a = nat, of t] by simp
  then have "unat t div 256 < 256" by simp
  then have eq: "unat t mod 256 + 256 * (unat t div 256 mod 256) = unat t" by simp
  have "word_of_nat (unat t mod 256 + 256 * (unat t div 256 mod 256)) = t" unfolding eq by simp
  then show ?thesis by simp
qed

lemma ReadTlv_parts:
  assumes "drop p b = t0 # t1 # l0 # l1 # r"
  shows "NANTLV_ReadTlv b (Some p) (Some old) =
    (let len = word_of_nat (unat l0 + 256 * unat l1)
     in Inr (4 + len, Some \<lparr>nt_type = word_of_nat (unat t0 + 256 * unat t1), nt_length = len,
               nt_value = (if len = 0 then None else Some r)\<rparr>))"
proof -
  have "length b - p = length r + 4" using arg_cong [OF assms, of length] by simp
  then have n: "b ! (p + i) = (t0 # t1 # l0 # l1 # r) ! i" "p + i < length b" if "i < 4" for i
    using that nth_drop [of p b i] by (simp_all add: assms)
  have r: "drop (p + 4) b = r" using assms drop_drop [of 4 p b] by (simp add: add.commute)
  have len: "p < length b" "p + 1 < length b" "p + 2 < length b" "p + 3 < length b"
    using n(2) [of 0] n(2) [of 1] n(2) [of 2] n(2) [of 3] by simp_all
  have nth: "b ! p = t0" "b ! (p + 1) = t1" "b ! (p + 2) = l0" "b ! (p + 3) = l1"
    using n(1) [of 0] n(1) [of 1] n(1) [of 2] n(1) [of 3] by simp_all
  show ?thesis
    unfolding NANTLV_ReadTlv_def option.case rd8_ok [OF len(1)] rd8_ok [OF len(2)] rd8_ok [OF len(3)]
      rd8_ok [OF len(4)] bindE_simps join_bytes nth r Let_def
    by (simp only: if_True if_False split: if_splits) simp
qed

lemma ReadTlv_ok:
  assumes "length v < 65532"
  shows "NANTLV_ReadTlv (a @ tlv_bytes t v @ c) (Some (length a)) (Some old)
    = Inr (4 + word_of_nat (length v),
           Some \<lparr>nt_type = t, nt_length = word_of_nat (length v), nt_value = (if v = [] then None else Some (v @ c))\<rparr>)"
proof -
  define l :: u16 where "l = word_of_nat (length v)"
  have u: "unat l = length v" using assms by (simp add: l_def unat_of_nat)
  have l0: "l = 0 \<longleftrightarrow> v = []" using u by (auto simp: word_unat_eq_iff)
  have two: "word_of_nat (unat (word_of_nat (unat w) :: u8) + 256 * unat (word_of_nat (unat w div 256) :: u8)) = w"
    for w :: u16
    using u16_of_bytes [of w] by (simp only: unat_word_of_nat8 of_nat_add of_nat_mult of_nat_numeral)
  have "drop (length a) (a @ tlv_bytes t v @ c)
      = word_of_nat (unat t) # word_of_nat (unat t div 256) # word_of_nat (unat l) # word_of_nat (unat l div 256) # v @ c"
    by (simp only: tlv_bytes_def le_2 u append_eq_conv_conj) simp
  from ReadTlv_parts [OF this, of old] show ?thesis
    unfolding two Let_def l_def [symmetric] using u l0 by simp
qed

section \<open>Writing a sequence of TLVs\<close>

text \<open>
  A request writes its TLVs one after the other, most of them only if a flag of the request asks for
  it. A row \<open>(c, t, n, v)\<close> stands for \<open>if (c) tlvs = addTlv(t, n, v, tlvs)\<close>; the state is the
  pointer \<open>tlvs\<close> and the message.
\<close>

type_synonym tlv_row = "bool \<times> u16 \<times> nat \<times> bytes"

definition put_row :: "tlv_row \<Rightarrow> nat \<times> bytes \<Rightarrow> (nat \<times> bytes) result" where
  "put_row r s = (case r of (c, t, n, v) \<Rightarrow>
     (case s of (p, b) \<Rightarrow> if c then addTlv t (word_of_nat n) (Some v) p b else Inr (p, b)))"

definition put_rows :: "tlv_row list \<Rightarrow> nat \<times> bytes \<Rightarrow> (nat \<times> bytes) result" where
  "put_rows = foldE put_row"

text \<open>The TLVs of the rows whose flag is set, with the room they take.\<close>

definition row_tlvs :: "tlv_row list \<Rightarrow> (u16 \<times> bytes) list" where
  "row_tlvs rs = concat (map (\<lambda>(c, t, n, v). if c then [(t, take n v)] else []) rs)"

definition tlvs_bytes :: "(u16 \<times> bytes) list \<Rightarrow> bytes" where
  "tlvs_bytes ts = concat (map (\<lambda>(t, v). tlv_bytes t v) ts)"

fun rows_size :: "tlv_row list \<Rightarrow> nat" where
  "rows_size [] = 0"
| "rows_size ((c, t, n, v) # rs) = (if c then 4 + n else 0) + rows_size rs"

text \<open>A row may be written: its object has the bytes, and its length fits the field.\<close>

definition row_ok :: "tlv_row \<Rightarrow> bool" where
  "row_ok r = (case r of (c, t, n, v) \<Rightarrow> c \<longrightarrow> n \<le> length v \<and> n + 4 < 65536)"

lemma row_tlvs_simps [simp]:
  "row_tlvs [] = []"
  "row_tlvs ((c, t, n, v) # rs) = (if c then [(t, take n v)] else []) @ row_tlvs rs"
  by (simp_all add: row_tlvs_def)

lemma row_tlvs_append [simp]: "row_tlvs (rs @ rs') = row_tlvs rs @ row_tlvs rs'"
  by (simp add: row_tlvs_def)

lemma tlvs_bytes_simps [simp]:
  "tlvs_bytes [] = []"
  "tlvs_bytes ((t, v) # ts) = tlv_bytes t v @ tlvs_bytes ts"
  "tlvs_bytes (ts @ ts') = tlvs_bytes ts @ tlvs_bytes ts'"
  by (simp_all add: tlvs_bytes_def)

lemma rows_size_append [simp]: "rows_size (rs @ rs') = rows_size rs + rows_size rs'"
  by (induction rs rule: rows_size.induct) simp_all

lemma length_rows_bytes:
  "\<forall>r \<in> set rs. row_ok r \<Longrightarrow> length (tlvs_bytes (row_tlvs rs)) = rows_size rs"
  by (induction rs rule: rows_size.induct) (auto simp: row_ok_def)

lemma put_rows_append: "put_rows (rs @ rs') s = bindE (put_rows rs s) (put_rows rs')"
  by (simp add: put_rows_def foldE_append)

text \<open>The rows come out as the bytes of their TLVs, in the place of as many bytes of the buffer.\<close>

lemma put_rows_ok:
  assumes "\<forall>r \<in> set rs. row_ok r" and "p + rows_size rs \<le> length b"
  shows "put_rows rs (p, b)
    = Inr (p + rows_size rs, take p b @ tlvs_bytes (row_tlvs rs) @ drop (p + rows_size rs) b)"
  using assms
proof (induction rs arbitrary: p b rule: rows_size.induct)
  case 1
  then show ?case by (simp add: put_rows_def)
next
  case (2 c t n v rs)
  show ?case
  proof (cases c)
    case True
    have n: "n \<le> length v" "n + 4 < 65536" using "2.prems"(1) True by (simp_all add: row_ok_def)
    then have u: "unat (word_of_nat n :: u16) = n" by (simp add: unat_of_nat)
    let ?b = "take p b @ tlv_bytes t (take n v) @ drop (p + 4 + n) b"
    have put: "put_row (c, t, n, v) (p, b) = Inr (p + 4 + n, ?b)"
      using True n "2.prems"(2) by (simp add: put_row_def addTlv_ok u)
    have "put_rows rs (p + 4 + n, ?b) = Inr (p + 4 + n + rows_size rs,
        take (p + 4 + n) ?b @ tlvs_bytes (row_tlvs rs) @ drop (p + 4 + n + rows_size rs) ?b)"
      using "2.prems" True n by (intro "2.IH") auto
    moreover have "take (p + 4 + n) ?b = take p b @ tlv_bytes t (take n v)"
      and "drop (p + 4 + n + rows_size rs) ?b = drop (p + 4 + n + rows_size rs) b"
      using n "2.prems"(2) True by (simp_all add: add.commute)
    ultimately show ?thesis using True put by (simp add: put_rows_def add.assoc)
  next
    case False
    then show ?thesis using "2.IH" [of p b] "2.prems" by (simp add: put_rows_def put_row_def)
  qed
qed

section \<open>Reading a sequence of TLVs\<close>

text \<open>
  \<open>while ((remainingLen > 0) \<and>\<and> (0 != (readLen = NANTLV_ReadTlv(pInputTlv, \<and>outputTlv)))) { ... }\<close>:
  \<open>f\<close> is the \<open>switch\<close> of the body, \<open>p\<close> the pointer \<open>pInputTlv\<close>.
\<close>

definition no_tlv :: NanTlv where
  "no_tlv = \<lparr>nt_type = 0, nt_length = 0, nt_value = None\<rparr>"

lemma uint_positive: "n \<noteq> 0 \<Longrightarrow> 0 < uint (n :: u16)"
  using unsigned_greater_eq [where ?'a = int, of n] unsigned_eq_0_iff [where ?'a = int, of n] by linarith

function tlv_loop :: "(NanTlv \<Rightarrow> 's \<Rightarrow> 's result) \<Rightarrow> bytes \<Rightarrow> nat \<Rightarrow> int \<Rightarrow> 's \<Rightarrow> 's result" where
  "tlv_loop f b p remainingLen s =
     (if remainingLen \<le> 0 then Inr s
      else bindE (NANTLV_ReadTlv b (Some p) (Some no_tlv)) (\<lambda>(readLen, outputTlv).
        if readLen = 0 then Inr s
        else case outputTlv of
            None \<Rightarrow> Inl UB
          | Some t \<Rightarrow> bindE (f t s) (tlv_loop f b (p + unat readLen) (remainingLen - int (unat readLen)))))"
  by pat_completeness auto
termination
  by (relation "measure (\<lambda>(f, b, p, remainingLen, s). nat remainingLen)") (auto simp: uint_positive)

declare tlv_loop.simps [simp del]

text \<open>
  What \<open>NANTLV_ReadTlv\<close> returns for a TLV of type \<open>t\<close> with value \<open>v\<close>, in a message that goes on with
  \<open>rest\<close>, and at the end of a message.
\<close>

definition tlv_at :: "u16 \<Rightarrow> bytes \<Rightarrow> bytes \<Rightarrow> NanTlv" where
  "tlv_at t v rest =
     \<lparr>nt_type = t, nt_length = word_of_nat (length v), nt_value = (if v = [] then None else Some (v @ rest))\<rparr>"

definition tlv_of :: "u16 \<Rightarrow> bytes \<Rightarrow> NanTlv" where
  "tlv_of t v = tlv_at t v []"

definition tlvs_fit :: "(u16 \<times> bytes) list \<Rightarrow> bool" where
  "tlvs_fit ts \<longleftrightarrow> (\<forall>(t, v) \<in> set ts. length v < 65532)"

lemma tlvs_fit_simps [simp]:
  "tlvs_fit []" "tlvs_fit ((t, v) # ts) \<longleftrightarrow> length v < 65532 \<and> tlvs_fit ts"
  by (auto simp: tlvs_fit_def)

lemma tlvs_fit_append [simp]: "tlvs_fit (ts @ us) \<longleftrightarrow> tlvs_fit ts \<and> tlvs_fit us"
  by (auto simp: tlvs_fit_def)

text \<open>
  The body \<open>f\<close> of the loop \<^emph>\<open>handles\<close> a TLV under an invariant if it succeeds, stays inside the value of
  the TLV (what follows it makes no difference), and keeps the invariant.
\<close>

definition handles :: "('s \<Rightarrow> bool) \<Rightarrow> (NanTlv \<Rightarrow> 's \<Rightarrow> 's result) \<Rightarrow> u16 \<times> bytes \<Rightarrow> bool" where
  "handles I f tv \<longleftrightarrow> (\<forall>s. I s \<longrightarrow> (\<exists>s'. I s' \<and> (\<forall>rest. f (tlv_at (fst tv) (snd tv) rest) s = Inr s')))"

lemma handlesI:
  "(\<And>s. I s \<Longrightarrow> \<exists>s'. I s' \<and> (\<forall>rest. f (tlv_at t v rest) s = Inr s')) \<Longrightarrow> handles I f (t, v)"
  by (simp add: handles_def)

lemma handlesE:
  assumes "handles I f (t, v)" and "I s"
  obtains s' where "I s'" and "\<forall>rest. f (tlv_at t v rest) s = Inr s'"
  using assms by (auto simp: handles_def)

text \<open>A message that holds the TLVs \<open>ts\<close> is taken apart into them.\<close>

definition each_tlv :: "(NanTlv \<Rightarrow> 's \<Rightarrow> 's result) \<Rightarrow> (u16 \<times> bytes) list \<Rightarrow> 's \<Rightarrow> 's result" where
  "each_tlv f ts = foldE (\<lambda>(t, v). f (tlv_of t v)) ts"

lemma tlv_loop_prefix:
  assumes "tlvs_fit ts" and "\<forall>tv \<in> set ts. handles I f tv" and "I s" and "0 \<le> k"
  shows "\<exists>s'. each_tlv f ts s = Inr s' \<and> I s'
    \<and> tlv_loop f (a @ tlvs_bytes ts @ c) (length a) (int (length (tlvs_bytes ts)) + k) s
      = tlv_loop f (a @ tlvs_bytes ts @ c) (length a + length (tlvs_bytes ts)) k s'"
  using assms(1-3)
proof (induction ts arbitrary: a s)
  case Nil
  then show ?case by (simp add: each_tlv_def)
next
  case (Cons tv ts)
  obtain t v where tv: "tv = (t, v)" by (cases tv)
  have v: "length v < 65532" and fit: "tlvs_fit ts" and rest: "\<forall>tv \<in> set ts. handles I f tv"
    and here: "handles I f (t, v)"
    using Cons.prems by (simp_all add: tv)
  obtain s1 where s1: "I s1" "\<forall>rest. f (tlv_at t v rest) s = Inr s1"
    by (rule handlesE [OF here Cons.prems(3)])
  obtain n :: u16 where n: "n = 4 + word_of_nat (length v)" by simp
  have u: "unat n = 4 + length v"
    using v by (simp add: n unat_word_ariths unat_of_nat)
  then have n0: "n \<noteq> 0" "uint n = 4 + int (length v)"
    by (auto simp: word_unat_eq_iff uint_nat simp del: of_nat_unat)
  let ?rest = "tlvs_bytes ts @ c"
  have read: "NANTLV_ReadTlv (a @ tlv_bytes t v @ ?rest) (Some (length a)) (Some no_tlv)
      = Inr (n, Some (tlv_at t v ?rest))"
    using ReadTlv_ok [OF v, of a t ?rest no_tlv] by (simp add: tlv_at_def n)
  let ?b = "a @ tlvs_bytes (tv # ts) @ c"
  have b: "?b = (a @ tlv_bytes t v) @ ?rest" by (simp add: tv)
  have first: "tlv_loop f ?b (length a) (int (length (tlvs_bytes (tv # ts))) + k) s
      = tlv_loop f ?b (length (a @ tlv_bytes t v)) (int (length (tlvs_bytes ts)) + k) s1"
    using n0 assms(4) s1(2) read u by (subst tlv_loop.simps) (simp add: tv algebra_simps)
  obtain s' where "each_tlv f ts s1 = Inr s'" and "I s'"
    and others: "tlv_loop f ?b (length (a @ tlv_bytes t v)) (int (length (tlvs_bytes ts)) + k) s1
      = tlv_loop f ?b (length (a @ tlv_bytes t v) + length (tlvs_bytes ts)) k s'"
    using Cons.IH [OF fit rest s1(1), of "a @ tlv_bytes t v"] unfolding b by blast
  moreover have "each_tlv f (tv # ts) s = each_tlv f ts s1"
    using s1(2) by (simp add: each_tlv_def tlv_of_def tv)
  ultimately show ?case
    unfolding first others by (simp add: tv add.assoc)
qed

lemma tlv_loop_done [simp]: "tlv_loop f b p 0 s = Inr s"
  by (simp add: tlv_loop.simps)

lemma tlv_loop_encoded:
  assumes "tlvs_fit ts" and "\<forall>tv \<in> set ts. handles I f tv" and "I s"
  shows "\<exists>s'. each_tlv f ts s = Inr s' \<and> I s'
    \<and> tlv_loop f (a @ tlvs_bytes ts @ c) (length a) (int (length (tlvs_bytes ts))) s = Inr s'"
  using tlv_loop_prefix [OF assms, of 0 a c] by simp

text \<open>A loop that believes in more bytes than the message has reads past its end.\<close>

lemma tlv_loop_past_end:
  assumes "0 < k" and "length b < p + 4"
  shows "tlv_loop f b p k s = Inl UB"
proof -
  have "NANTLV_ReadTlv b (Some p) (Some no_tlv) = Inl UB"
    using assms(2) by (auto simp: NANTLV_ReadTlv_def rd8_def bindE_def)
  then show ?thesis using assms(1) by (simp add: tlv_loop.simps)
qed

lemma tlv_loop_overrun:
  assumes "tlvs_fit ts" and "\<forall>tv \<in> set ts. handles I f tv" and "I s" and "0 < k"
  shows "tlv_loop f (a @ tlvs_bytes ts) (length a) (int (length (tlvs_bytes ts)) + k) s = Inl UB"
  using tlv_loop_prefix [OF assms(1-3), of k a "[]"] assms(4) by (auto simp: tlv_loop_past_end)

end
