(* ===== verification/NanMessage.thy ===== *)
theory NanMessage
  imports NanTlv NlCommand
begin

text \<open>
  The messages that the HAL and the firmware exchange (\<open>wlan/wifi_hal/nan_i.h\<close>): the numbers of the
  messages, of the indications and of the firmware's status codes, the message header, and the
  conversions between the firmware's words and a MAC address.
\<close>

section \<open>Numbers\<close>

text \<open>\<open>NanMsgId\<close>, as the 12 bits of the header hold it\<close>

definition NAN_MSG_ID_ERROR_RSP :: nat where [simp]: "NAN_MSG_ID_ERROR_RSP = 0"
definition NAN_MSG_ID_CONFIGURATION_REQ :: nat where [simp]: "NAN_MSG_ID_CONFIGURATION_REQ = 1"
definition NAN_MSG_ID_CONFIGURATION_RSP :: nat where [simp]: "NAN_MSG_ID_CONFIGURATION_RSP = 2"
definition NAN_MSG_ID_PUBLISH_SERVICE_REQ :: nat where [simp]: "NAN_MSG_ID_PUBLISH_SERVICE_REQ = 3"
definition NAN_MSG_ID_PUBLISH_SERVICE_RSP :: nat where [simp]: "NAN_MSG_ID_PUBLISH_SERVICE_RSP = 4"
definition NAN_MSG_ID_PUBLISH_SERVICE_CANCEL_REQ :: nat where [simp]: "NAN_MSG_ID_PUBLISH_SERVICE_CANCEL_REQ = 5"
definition NAN_MSG_ID_PUBLISH_SERVICE_CANCEL_RSP :: nat where [simp]: "NAN_MSG_ID_PUBLISH_SERVICE_CANCEL_RSP = 6"
definition NAN_MSG_ID_PUBLISH_REPLIED_IND :: nat where [simp]: "NAN_MSG_ID_PUBLISH_REPLIED_IND = 7"
definition NAN_MSG_ID_PUBLISH_TERMINATED_IND :: nat where [simp]: "NAN_MSG_ID_PUBLISH_TERMINATED_IND = 8"
definition NAN_MSG_ID_SUBSCRIBE_SERVICE_REQ :: nat where [simp]: "NAN_MSG_ID_SUBSCRIBE_SERVICE_REQ = 9"
definition NAN_MSG_ID_SUBSCRIBE_SERVICE_RSP :: nat where [simp]: "NAN_MSG_ID_SUBSCRIBE_SERVICE_RSP = 10"
definition NAN_MSG_ID_SUBSCRIBE_SERVICE_CANCEL_REQ :: nat where [simp]: "NAN_MSG_ID_SUBSCRIBE_SERVICE_CANCEL_REQ = 11"
definition NAN_MSG_ID_SUBSCRIBE_SERVICE_CANCEL_RSP :: nat where [simp]: "NAN_MSG_ID_SUBSCRIBE_SERVICE_CANCEL_RSP = 12"
definition NAN_MSG_ID_MATCH_IND :: nat where [simp]: "NAN_MSG_ID_MATCH_IND = 13"
definition NAN_MSG_ID_MATCH_EXPIRED_IND :: nat where [simp]: "NAN_MSG_ID_MATCH_EXPIRED_IND = 14"
definition NAN_MSG_ID_SUBSCRIBE_TERMINATED_IND :: nat where [simp]: "NAN_MSG_ID_SUBSCRIBE_TERMINATED_IND = 15"
definition NAN_MSG_ID_DE_EVENT_IND :: nat where [simp]: "NAN_MSG_ID_DE_EVENT_IND = 16"
definition NAN_MSG_ID_TRANSMIT_FOLLOWUP_REQ :: nat where [simp]: "NAN_MSG_ID_TRANSMIT_FOLLOWUP_REQ = 17"
definition NAN_MSG_ID_TRANSMIT_FOLLOWUP_RSP :: nat where [simp]: "NAN_MSG_ID_TRANSMIT_FOLLOWUP_RSP = 18"
definition NAN_MSG_ID_FOLLOWUP_IND :: nat where [simp]: "NAN_MSG_ID_FOLLOWUP_IND = 19"
definition NAN_MSG_ID_STATS_REQ :: nat where [simp]: "NAN_MSG_ID_STATS_REQ = 20"
definition NAN_MSG_ID_STATS_RSP :: nat where [simp]: "NAN_MSG_ID_STATS_RSP = 21"
definition NAN_MSG_ID_ENABLE_REQ :: nat where [simp]: "NAN_MSG_ID_ENABLE_REQ = 22"
definition NAN_MSG_ID_ENABLE_RSP :: nat where [simp]: "NAN_MSG_ID_ENABLE_RSP = 23"
definition NAN_MSG_ID_DISABLE_REQ :: nat where [simp]: "NAN_MSG_ID_DISABLE_REQ = 24"
definition NAN_MSG_ID_DISABLE_RSP :: nat where [simp]: "NAN_MSG_ID_DISABLE_RSP = 25"
definition NAN_MSG_ID_DISABLE_IND :: nat where [simp]: "NAN_MSG_ID_DISABLE_IND = 26"
definition NAN_MSG_ID_TCA_REQ :: nat where [simp]: "NAN_MSG_ID_TCA_REQ = 27"
definition NAN_MSG_ID_TCA_RSP :: nat where [simp]: "NAN_MSG_ID_TCA_RSP = 28"
definition NAN_MSG_ID_TCA_IND :: nat where [simp]: "NAN_MSG_ID_TCA_IND = 29"
definition NAN_MSG_ID_BEACON_SDF_REQ :: nat where [simp]: "NAN_MSG_ID_BEACON_SDF_REQ = 30"
definition NAN_MSG_ID_BEACON_SDF_RSP :: nat where [simp]: "NAN_MSG_ID_BEACON_SDF_RSP = 31"
definition NAN_MSG_ID_BEACON_SDF_IND :: nat where [simp]: "NAN_MSG_ID_BEACON_SDF_IND = 32"
definition NAN_MSG_ID_CAPABILITIES_REQ :: nat where [simp]: "NAN_MSG_ID_CAPABILITIES_REQ = 33"
definition NAN_MSG_ID_CAPABILITIES_RSP :: nat where [simp]: "NAN_MSG_ID_CAPABILITIES_RSP = 34"
definition NAN_MSG_ID_SELF_TRANSMIT_FOLLOWUP_IND :: nat where [simp]: "NAN_MSG_ID_SELF_TRANSMIT_FOLLOWUP_IND = 35"
definition NAN_MSG_ID_RANGING_REQUEST_RECEVD_IND :: nat where [simp]: "NAN_MSG_ID_RANGING_REQUEST_RECEVD_IND = 36"
definition NAN_MSG_ID_RANGING_RESULT_IND :: nat where [simp]: "NAN_MSG_ID_RANGING_RESULT_IND = 37"
definition NAN_MSG_ID_TESTMODE_REQ :: nat where [simp]: "NAN_MSG_ID_TESTMODE_REQ = 1025"
definition NAN_MSG_ID_TESTMODE_RSP :: nat where [simp]: "NAN_MSG_ID_TESTMODE_RSP = 1026"

text \<open>\<open>NanIndicationType\<close>\<close>

definition NAN_INDICATION_PUBLISH_REPLIED :: nat where [simp]: "NAN_INDICATION_PUBLISH_REPLIED = 0"
definition NAN_INDICATION_PUBLISH_TERMINATED :: nat where [simp]: "NAN_INDICATION_PUBLISH_TERMINATED = 1"
definition NAN_INDICATION_MATCH :: nat where [simp]: "NAN_INDICATION_MATCH = 2"
definition NAN_INDICATION_MATCH_EXPIRED :: nat where [simp]: "NAN_INDICATION_MATCH_EXPIRED = 3"
definition NAN_INDICATION_SUBSCRIBE_TERMINATED :: nat where [simp]: "NAN_INDICATION_SUBSCRIBE_TERMINATED = 4"
definition NAN_INDICATION_DE_EVENT :: nat where [simp]: "NAN_INDICATION_DE_EVENT = 5"
definition NAN_INDICATION_FOLLOWUP :: nat where [simp]: "NAN_INDICATION_FOLLOWUP = 6"
definition NAN_INDICATION_DISABLED :: nat where [simp]: "NAN_INDICATION_DISABLED = 7"
definition NAN_INDICATION_TCA :: nat where [simp]: "NAN_INDICATION_TCA = 8"
definition NAN_INDICATION_BEACON_SDF_PAYLOAD :: nat where [simp]: "NAN_INDICATION_BEACON_SDF_PAYLOAD = 9"
definition NAN_INDICATION_SELF_TRANSMIT_FOLLOWUP :: nat where [simp]: "NAN_INDICATION_SELF_TRANSMIT_FOLLOWUP = 10"
definition NAN_INDICATION_RANGING_REQUEST_RECEIVED :: nat where [simp]: "NAN_INDICATION_RANGING_REQUEST_RECEIVED = 11"
definition NAN_INDICATION_RANGING_RESULT :: nat where [simp]: "NAN_INDICATION_RANGING_RESULT = 12"
definition NAN_INDICATION_UNKNOWN :: nat where [simp]: "NAN_INDICATION_UNKNOWN = 65535"

text \<open>\<open>NanInternalStatusType\<close>\<close>

definition NAN_I_STATUS_SUCCESS :: nat where [simp]: "NAN_I_STATUS_SUCCESS = 0"
definition NAN_I_STATUS_TIMEOUT :: nat where [simp]: "NAN_I_STATUS_TIMEOUT = 1"
definition NAN_I_STATUS_DE_FAILURE :: nat where [simp]: "NAN_I_STATUS_DE_FAILURE = 2"
definition NAN_I_STATUS_INVALID_MSG_VERSION :: nat where [simp]: "NAN_I_STATUS_INVALID_MSG_VERSION = 3"
definition NAN_I_STATUS_INVALID_MSG_LEN :: nat where [simp]: "NAN_I_STATUS_INVALID_MSG_LEN = 4"
definition NAN_I_STATUS_INVALID_MSG_ID :: nat where [simp]: "NAN_I_STATUS_INVALID_MSG_ID = 5"
definition NAN_I_STATUS_INVALID_HANDLE :: nat where [simp]: "NAN_I_STATUS_INVALID_HANDLE = 6"
definition NAN_I_STATUS_NO_SPACE_AVAILABLE :: nat where [simp]: "NAN_I_STATUS_NO_SPACE_AVAILABLE = 7"
definition NAN_I_STATUS_INVALID_PUBLISH_TYPE :: nat where [simp]: "NAN_I_STATUS_INVALID_PUBLISH_TYPE = 8"
definition NAN_I_STATUS_INVALID_TX_TYPE :: nat where [simp]: "NAN_I_STATUS_INVALID_TX_TYPE = 9"
definition NAN_I_STATUS_INVALID_MATCH_ALGORITHM :: nat where [simp]: "NAN_I_STATUS_INVALID_MATCH_ALGORITHM = 10"
definition NAN_I_STATUS_DISABLE_IN_PROGRESS :: nat where [simp]: "NAN_I_STATUS_DISABLE_IN_PROGRESS = 11"
definition NAN_I_STATUS_INVALID_TLV_LEN :: nat where [simp]: "NAN_I_STATUS_INVALID_TLV_LEN = 12"
definition NAN_I_STATUS_INVALID_TLV_TYPE :: nat where [simp]: "NAN_I_STATUS_INVALID_TLV_TYPE = 13"
definition NAN_I_STATUS_MISSING_TLV_TYPE :: nat where [simp]: "NAN_I_STATUS_MISSING_TLV_TYPE = 14"
definition NAN_I_STATUS_INVALID_TOTAL_TLVS_LEN :: nat where [simp]: "NAN_I_STATUS_INVALID_TOTAL_TLVS_LEN = 15"
definition NAN_I_STATUS_INVALID_REQUESTER_INSTANCE_ID :: nat where [simp]: "NAN_I_STATUS_INVALID_REQUESTER_INSTANCE_ID = 16"
definition NAN_I_STATUS_INVALID_TLV_VALUE :: nat where [simp]: "NAN_I_STATUS_INVALID_TLV_VALUE = 17"
definition NAN_I_STATUS_INVALID_TX_PRIORITY :: nat where [simp]: "NAN_I_STATUS_INVALID_TX_PRIORITY = 18"
definition NAN_I_STATUS_INVALID_CONNECTION_MAP :: nat where [simp]: "NAN_I_STATUS_INVALID_CONNECTION_MAP = 19"
definition NAN_I_STATUS_INVALID_THRESHOLD_CROSSING_ALERT_ID :: nat where [simp]: "NAN_I_STATUS_INVALID_THRESHOLD_CROSSING_ALERT_ID = 20"
definition NAN_I_STATUS_INVALID_STATS_ID :: nat where [simp]: "NAN_I_STATUS_INVALID_STATS_ID = 21"
definition NAN_I_STATUS_NAN_NOT_ALLOWED :: nat where [simp]: "NAN_I_STATUS_NAN_NOT_ALLOWED = 22"
definition NAN_I_STATUS_NO_OTA_ACK :: nat where [simp]: "NAN_I_STATUS_NO_OTA_ACK = 23"
definition NAN_I_STATUS_TX_FAIL :: nat where [simp]: "NAN_I_STATUS_TX_FAIL = 24"
definition NAN_I_STATUS_NAN_ALREADY_ENABLED :: nat where [simp]: "NAN_I_STATUS_NAN_ALREADY_ENABLED = 25"
definition NAN_I_STATUS_FOLLOWUP_QUEUE_FULL :: nat where [simp]: "NAN_I_STATUS_FOLLOWUP_QUEUE_FULL = 26"
definition NAN_I_STATUS_INVALID_RSSI_CLOSE_VALUE :: nat where [simp]: "NAN_I_STATUS_INVALID_RSSI_CLOSE_VALUE = 4096"
definition NAN_I_STATUS_INVALID_RSSI_MIDDLE_VALUE :: nat where [simp]: "NAN_I_STATUS_INVALID_RSSI_MIDDLE_VALUE = 4097"
definition NAN_I_STATUS_INVALID_HOP_COUNT_LIMIT :: nat where [simp]: "NAN_I_STATUS_INVALID_HOP_COUNT_LIMIT = 4098"
definition NAN_I_STATUS_INVALID_MASTER_PREFERENCE_VALUE :: nat where [simp]: "NAN_I_STATUS_INVALID_MASTER_PREFERENCE_VALUE = 4099"
definition NAN_I_STATUS_INVALID_LOW_CLUSTER_ID_VALUE :: nat where [simp]: "NAN_I_STATUS_INVALID_LOW_CLUSTER_ID_VALUE = 4100"
definition NAN_I_STATUS_INVALID_HIGH_CLUSTER_ID_VALUE :: nat where [simp]: "NAN_I_STATUS_INVALID_HIGH_CLUSTER_ID_VALUE = 4101"
definition NAN_I_STATUS_INVALID_BACKGROUND_SCAN_PERIOD :: nat where [simp]: "NAN_I_STATUS_INVALID_BACKGROUND_SCAN_PERIOD = 4102"
definition NAN_I_STATUS_INVALID_RSSI_PROXIMITY_VALUE :: nat where [simp]: "NAN_I_STATUS_INVALID_RSSI_PROXIMITY_VALUE = 4103"
definition NAN_I_STATUS_INVALID_SCAN_CHANNEL :: nat where [simp]: "NAN_I_STATUS_INVALID_SCAN_CHANNEL = 4104"
definition NAN_I_STATUS_INVALID_POST_NAN_CONNECTIVITY_CAPABILITIES_BITMAP :: nat where [simp]: "NAN_I_STATUS_INVALID_POST_NAN_CONNECTIVITY_CAPABILITIES_BITMAP = 4105"
definition NAN_I_STATUS_INVALID_FURTHER_AVAILABILITY_MAP_NUMCHAN_VALUE :: nat where [simp]: "NAN_I_STATUS_INVALID_FURTHER_AVAILABILITY_MAP_NUMCHAN_VALUE = 4106"
definition NAN_I_STATUS_INVALID_FURTHER_AVAILABILITY_MAP_DURATION_VALUE :: nat where [simp]: "NAN_I_STATUS_INVALID_FURTHER_AVAILABILITY_MAP_DURATION_VALUE = 4107"
definition NAN_I_STATUS_INVALID_FURTHER_AVAILABILITY_MAP_CLASS_VALUE :: nat where [simp]: "NAN_I_STATUS_INVALID_FURTHER_AVAILABILITY_MAP_CLASS_VALUE = 4108"
definition NAN_I_STATUS_INVALID_FURTHER_AVAILABILITY_MAP_CHANNEL_VALUE :: nat where [simp]: "NAN_I_STATUS_INVALID_FURTHER_AVAILABILITY_MAP_CHANNEL_VALUE = 4109"
definition NAN_I_STATUS_INVALID_FURTHER_AVAILABILITY_MAP_AVAILABILITY_INTERVAL_BITMAP_VALUE :: nat where [simp]: "NAN_I_STATUS_INVALID_FURTHER_AVAILABILITY_MAP_AVAILABILITY_INTERVAL_BITMAP_VALUE = 4110"
definition NAN_I_STATUS_INVALID_FURTHER_AVAILABILITY_MAP_MAP_ID :: nat where [simp]: "NAN_I_STATUS_INVALID_FURTHER_AVAILABILITY_MAP_MAP_ID = 4111"
definition NAN_I_STATUS_INVALID_POST_NAN_DISCOVERY_CONN_TYPE_VALUE :: nat where [simp]: "NAN_I_STATUS_INVALID_POST_NAN_DISCOVERY_CONN_TYPE_VALUE = 4112"
definition NAN_I_STATUS_INVALID_POST_NAN_DISCOVERY_DEVICE_ROLE_VALUE :: nat where [simp]: "NAN_I_STATUS_INVALID_POST_NAN_DISCOVERY_DEVICE_ROLE_VALUE = 4113"
definition NAN_I_STATUS_INVALID_POST_NAN_DISCOVERY_DURATION_VALUE :: nat where [simp]: "NAN_I_STATUS_INVALID_POST_NAN_DISCOVERY_DURATION_VALUE = 4114"
definition NAN_I_STATUS_INVALID_POST_NAN_DISCOVERY_BITMAP_VALUE :: nat where [simp]: "NAN_I_STATUS_INVALID_POST_NAN_DISCOVERY_BITMAP_VALUE = 4115"
definition NAN_I_STATUS_MISSING_FUTHER_AVAILABILITY_MAP :: nat where [simp]: "NAN_I_STATUS_MISSING_FUTHER_AVAILABILITY_MAP = 4116"
definition NAN_I_STATUS_INVALID_BAND_CONFIG_FLAGS :: nat where [simp]: "NAN_I_STATUS_INVALID_BAND_CONFIG_FLAGS = 4117"
definition NAN_I_STATUS_INVALID_RANDOM_FACTOR_UPDATE_TIME_VALUE :: nat where [simp]: "NAN_I_STATUS_INVALID_RANDOM_FACTOR_UPDATE_TIME_VALUE = 4118"
definition NAN_I_STATUS_INVALID_ONGOING_SCAN_PERIOD :: nat where [simp]: "NAN_I_STATUS_INVALID_ONGOING_SCAN_PERIOD = 4119"
definition NAN_I_STATUS_INVALID_DW_INTERVAL_VALUE :: nat where [simp]: "NAN_I_STATUS_INVALID_DW_INTERVAL_VALUE = 4120"
definition NAN_I_STATUS_INVALID_DB_INTERVAL_VALUE :: nat where [simp]: "NAN_I_STATUS_INVALID_DB_INTERVAL_VALUE = 4121"
definition NAN_I_PUBLISH_SUBSCRIBE_TERMINATED_REASON_INVALID :: nat where [simp]: "NAN_I_PUBLISH_SUBSCRIBE_TERMINATED_REASON_INVALID = 8192"
definition NAN_I_PUBLISH_SUBSCRIBE_TERMINATED_REASON_TIMEOUT :: nat where [simp]: "NAN_I_PUBLISH_SUBSCRIBE_TERMINATED_REASON_TIMEOUT = 8193"
definition NAN_I_PUBLISH_SUBSCRIBE_TERMINATED_REASON_USER_REQUEST :: nat where [simp]: "NAN_I_PUBLISH_SUBSCRIBE_TERMINATED_REASON_USER_REQUEST = 8194"
definition NAN_I_PUBLISH_SUBSCRIBE_TERMINATED_REASON_FAILURE :: nat where [simp]: "NAN_I_PUBLISH_SUBSCRIBE_TERMINATED_REASON_FAILURE = 8195"
definition NAN_I_PUBLISH_SUBSCRIBE_TERMINATED_REASON_COUNT_REACHED :: nat where [simp]: "NAN_I_PUBLISH_SUBSCRIBE_TERMINATED_REASON_COUNT_REACHED = 8196"
definition NAN_I_PUBLISH_SUBSCRIBE_TERMINATED_REASON_DE_SHUTDOWN :: nat where [simp]: "NAN_I_PUBLISH_SUBSCRIBE_TERMINATED_REASON_DE_SHUTDOWN = 8197"
definition NAN_I_PUBLISH_SUBSCRIBE_TERMINATED_REASON_DISABLE_IN_PROGRESS :: nat where [simp]: "NAN_I_PUBLISH_SUBSCRIBE_TERMINATED_REASON_DISABLE_IN_PROGRESS = 8198"
definition NAN_I_PUBLISH_SUBSCRIBE_TERMINATED_REASON_POST_DISC_ATTR_EXPIRED :: nat where [simp]: "NAN_I_PUBLISH_SUBSCRIBE_TERMINATED_REASON_POST_DISC_ATTR_EXPIRED = 8199"
definition NAN_I_PUBLISH_SUBSCRIBE_TERMINATED_REASON_POST_DISC_LEN_EXCEEDED :: nat where [simp]: "NAN_I_PUBLISH_SUBSCRIBE_TERMINATED_REASON_POST_DISC_LEN_EXCEEDED = 8200"
definition NAN_I_PUBLISH_SUBSCRIBE_TERMINATED_REASON_FURTHER_AVAIL_MAP_EMPTY :: nat where [simp]: "NAN_I_PUBLISH_SUBSCRIBE_TERMINATED_REASON_FURTHER_AVAIL_MAP_EMPTY = 8201"
definition NDP_I_UNSUPPORTED_CONCURRENCY :: nat where [simp]: "NDP_I_UNSUPPORTED_CONCURRENCY = 9000"
definition NDP_I_NAN_DATA_IFACE_CREATE_FAILED :: nat where [simp]: "NDP_I_NAN_DATA_IFACE_CREATE_FAILED = 9001"
definition NDP_I_NAN_DATA_IFACE_DELETE_FAILED :: nat where [simp]: "NDP_I_NAN_DATA_IFACE_DELETE_FAILED = 9002"
definition NDP_I_DATA_INITIATOR_REQUEST_FAILED :: nat where [simp]: "NDP_I_DATA_INITIATOR_REQUEST_FAILED = 9003"
definition NDP_I_DATA_RESPONDER_REQUEST_FAILED :: nat where [simp]: "NDP_I_DATA_RESPONDER_REQUEST_FAILED = 9004"
definition NDP_I_INVALID_SERVICE_INSTANCE_ID :: nat where [simp]: "NDP_I_INVALID_SERVICE_INSTANCE_ID = 9005"
definition NDP_I_INVALID_NDP_INSTANCE_ID :: nat where [simp]: "NDP_I_INVALID_NDP_INSTANCE_ID = 9006"
definition NDP_I_INVALID_RESPONSE_CODE :: nat where [simp]: "NDP_I_INVALID_RESPONSE_CODE = 9007"
definition NDP_I_INVALID_APP_INFO_LEN :: nat where [simp]: "NDP_I_INVALID_APP_INFO_LEN = 9008"
definition NDP_I_MGMT_FRAME_REQUEST_FAILED :: nat where [simp]: "NDP_I_MGMT_FRAME_REQUEST_FAILED = 9009"
definition NDP_I_MGMT_FRAME_RESPONSE_FAILED :: nat where [simp]: "NDP_I_MGMT_FRAME_RESPONSE_FAILED = 9010"
definition NDP_I_MGMT_FRAME_CONFIRM_FAILED :: nat where [simp]: "NDP_I_MGMT_FRAME_CONFIRM_FAILED = 9011"
definition NDP_I_END_FAILED :: nat where [simp]: "NDP_I_END_FAILED = 9012"
definition NDP_I_MGMT_FRAME_END_REQUEST_FAILED :: nat where [simp]: "NDP_I_MGMT_FRAME_END_REQUEST_FAILED = 9013"
definition NDP_I_MGMT_FRAME_SECURITY_INSTALL_FAILED :: nat where [simp]: "NDP_I_MGMT_FRAME_SECURITY_INSTALL_FAILED = 9014"
definition NDP_I_VENDOR_SPECIFIC_ERROR :: nat where [simp]: "NDP_I_VENDOR_SPECIFIC_ERROR = 9500"

section \<open>The message header\<close>

text \<open>
  \<open>struct NanMsgHeader\<close>: version and number share 16 bits, and length, handle and transaction have 16
  each. An assignment to a field keeps its low bits.
\<close>

record NanMsgHeader =
  msgVersion :: nat
  msgId :: nat
  msgLen :: nat
  handle :: nat
  transactionId :: nat

definition header_size :: nat where [simp]: "header_size = 8"

definition NAN_MSG_VERSION1 :: nat where [simp]: "NAN_MSG_VERSION1 = 1"

definition header_bytes :: "NanMsgHeader \<Rightarrow> bytes" where
  "header_bytes h = le 2 (pack_bits [(4, msgVersion h), (12, msgId h)]) @ le 2 (msgLen h)
     @ le 2 (handle h) @ le 2 (transactionId h)"

lemma length_header_bytes [simp, bytes_simps]: "length (header_bytes h) = 8"
  by (simp add: header_bytes_def)

definition read_header :: "bytes \<Rightarrow> NanMsgHeader result" where
  "read_header b =
     bindE (rd_num 2 b 0) (\<lambda>w.
     bindE (rd_num 2 b 2) (\<lambda>len.
     bindE (rd_num 2 b 4) (\<lambda>h.
     bindE (rd_num 2 b 6) (\<lambda>tid.
     Inr \<lparr>msgVersion = bit_field 0 4 w, msgId = bit_field 4 12 w, msgLen = len, handle = h,
          transactionId = tid\<rparr>))))"

definition header_fits :: "NanMsgHeader \<Rightarrow> bool" where
  "header_fits h \<longleftrightarrow> msgVersion h < 16 \<and> msgId h < 4096 \<and> msgLen h < 65536 \<and> handle h < 65536
     \<and> transactionId h < 65536"

lemma read_header_bytes:
  assumes "header_fits h"
  shows "read_header (header_bytes h @ r) = Inr h"
proof -
  obtain v i l k t where h: "h = \<lparr>msgVersion = v, msgId = i, msgLen = l, handle = k, transactionId = t\<rparr>"
    by (cases h)
  have "pack_bits [(4, v), (12, i)] < 65536" using pack_bits_less [of "[(4, v), (12, i)]"] by simp
  then have "unle (le 2 (pack_bits [(4, v), (12, i)])) = pack_bits [(4, v), (12, i)]"
    by (simp only: unle_le) simp
  moreover have "unle (le 2 n) = n" if "n < 65536" for n using that by (simp add: unle_le)
  moreover have "bit_field 4 12 (pack_bits [(4, v), (12, i)]) = i mod 4096"
    using bit_field_pack_tl [of 4 0 12 v "[(12, i)]"] bit_field_pack_hd [of 12 i "[]"] by simp
  ultimately show ?thesis
    using assms bit_field_pack_hd [of 4 v "[(12, i)]"] unfolding h
    by (simp add: read_header_def header_bytes_def header_fits_def rd_num_ok del: pack_bits.simps)
qed

text \<open>The number of a message: the first 16 bits, without the version.\<close>

definition msg_id_of :: "bytes \<Rightarrow> nat result" where
  "msg_id_of b = bindE (rd_num 2 b 0) (\<lambda>w. Inr (bit_field 4 12 w))"

section \<open>MAC addresses\<close>

text \<open>\<open>NAN_MAC_ADDR_LEN\<close> is a number of the platform's header; a MAC address has six bytes.\<close>

text \<open>\<open>FW_MAC_ADDR_TO_CHAR_ARRAY\<close> and \<open>CHAR_ARRAY_TO_MAC_ADDR\<close>\<close>

definition fw_to_char_array :: "u32 \<times> u32 \<Rightarrow> bytes" where
  "fw_to_char_array m = (case m of (lo, hi) \<Rightarrow>
     [ucast (lo AND 0xff), ucast (drop_bit 8 lo AND 0xff), ucast (drop_bit 16 lo AND 0xff),
      ucast (drop_bit 24 lo AND 0xff), ucast (hi AND 0xff), ucast (drop_bit 8 hi AND 0xff)])"

definition char_array_to_fw :: "bytes \<Rightarrow> (u32 \<times> u32) result" where
  "char_array_to_fw a =
     bindE (rd8 a 0) (\<lambda>a0. bindE (rd8 a 1) (\<lambda>a1. bindE (rd8 a 2) (\<lambda>a2. bindE (rd8 a 3) (\<lambda>a3.
     bindE (rd8 a 4) (\<lambda>a4. bindE (rd8 a 5) (\<lambda>a5.
     Inr (ucast a0 OR push_bit 8 (ucast a1) OR push_bit 16 (ucast a2) OR push_bit 24 (ucast a3),
          ucast a4 OR push_bit 8 (ucast a5))))))))"

lemma byte_mask32: "(255 :: u32) = mask 8"
  by (simp add: mask_eq_decr_exp)

lemma mac_roundtrip:
  assumes "length a = 6"
  shows "bindE (char_array_to_fw a) (\<lambda>m. Inr (fw_to_char_array m)) = Inr a"
proof -
  obtain a0 a1 a2 a3 a4 a5 where a: "a = [a0, a1, a2, a3, a4, a5]"
    using assms by (auto simp: numeral_eq_Suc length_Suc_conv)
  show ?thesis
    unfolding a char_array_to_fw_def fw_to_char_array_def byte_mask32
    by (simp, intro conjI; rule bit_word_eqI) (auto simp: bit_simps dest: bit_imp_le_length)
qed

end
