(* ===== verification/NanRequest.thy ===== *)
theory NanRequest
  imports NanMessage
begin

text \<open>
  The requests to the firmware (\<open>wlan/wifi_hal/nan_req.cpp\<close>): every \<open>putNan...\<close> of \<open>NanCommand\<close>
  computes the length of its message, allocates and clears it, fills in the header and the parameters,
  writes the TLVs, and puts the message into the netlink command.

  The request structures are declared in the platform's \<open>hardware_legacy/wifi_hal.h\<close>, which is not part
  of the repository. Their fields are modelled by how the code uses them: a field that is tested as a
  \<open>bool\<close>, one whose number is used as a \<open>nat\<close>, and one whose storage is copied as its bytes, so that
  \<open>sizeof\<close> of such a field is the number of its bytes. The numbers that the header defines are the
  fields of the record \<open>nan_hw\<close>.
\<close>

record nan_hw =
  NAN_MAC_ADDR_LEN :: nat
  NAN_MAX_SOCIAL_CHANNELS :: nat
  NAN_CHANNEL_24G_BAND :: nat
  NAN_CHANNEL_5G_BAND_LOW :: nat
  NAN_CHANNEL_5G_BAND_HIGH :: nat
  NAN_MAX_POSTDISCOVERY_LEN :: nat
  NAN_MAX_FAM_CHANNELS :: nat
  NAN_CONN_WLAN_MESH :: nat
  NAN_CONN_WLAN_INFRA :: nat
  NAN_SECURITY_KEY_INPUT_PMK :: nat
  NAN_SECURITY_KEY_INPUT_PASSPHRASE :: nat
  NAN_PMK_INFO_LEN :: nat
  NAN_SECURITY_MIN_PASSPHRASE_LEN :: nat
  NAN_SECURITY_MAX_PASSPHRASE_LEN :: nat
  NAN_DATA_PATH_MULTICAST_MSG :: nat
  NAN_DATA_PATH_UNICAST_MSG :: nat
  NAN_ENABLE_RANGE_REPORT :: nat
  NAN_RANGING_INDICATE_INGRESS_MET_MASK :: nat
  NAN_RANGING_INDICATE_EGRESS_MET_MASK :: nat
  NAN_RANGE_REQUEST_ACCEPT :: nat
  NAN_RANGE_REQUEST_REJECT :: nat
  NAN_RANGE_REQUEST_CANCEL :: nat
  NAN_TX_PRIORITY_HIGH :: nat
  NAN_TCA_ID_CLUSTER_SIZE :: nat
  sizeof_NanServiceAcceptPolicy :: nat
  NAN_MAX_SERVICE_NAME_LEN :: nat
  NAN_MAX_MATCH_FILTER_LEN :: nat
  NAN_MAX_SERVICE_SPECIFIC_INFO_LEN :: nat
  NAN_MAX_SDEA_SERVICE_SPECIFIC_INFO_LEN :: nat
  NAN_MAX_VSA_DATA_LEN :: nat
  NAN_MAX_FRAME_DATA_LEN :: nat
  NAN_EVENT_ID_DISC_MAC_ADDR :: nat
  NAN_EVENT_ID_STARTED_CLUSTER :: nat
  NAN_EVENT_ID_JOINED_CLUSTER :: nat
  NAN_DP_CONFIG_SECURITY :: nat
  NAN_DP_CONFIG_NO_SECURITY :: nat
  NAN_RANGING_ENABLE :: nat
  NAN_RANGING_DISABLE :: nat

section \<open>What all requests do\<close>

text \<open>\<open>NanCommand::cleanup\<close>\<close>

definition cleanup :: "'m WifiVendorCommand \<Rightarrow> 'm WifiVendorCommand" where
  "cleanup c = c\<lparr>vc_vendor_data := None, vc_request := rq_destroy (vc_request c)\<rparr>"

text \<open>\<open>malloc\<close> and \<open>memset\<close> of the message, and its header.\<close>

definition request_header :: "nat \<Rightarrow> nat \<Rightarrow> nat \<Rightarrow> nat \<Rightarrow> NanMsgHeader" where
  "request_header msg_id len h tid =
     \<lparr>msgVersion = NAN_MSG_VERSION1, msgId = msg_id, msgLen = len, handle = h, transactionId = tid\<rparr>"

text \<open>
  The last lines of each of them: the message becomes the vendor data and goes into the netlink message.
\<close>

definition put_vendor_data ::
  "'m libnl \<Rightarrow> bytes \<Rightarrow> 'm WifiVendorCommand \<Rightarrow> (WifiError \<times> 'm WifiVendorCommand) result" where
  "put_vendor_data nl msg c =
     (let c = c\<lparr>vc_vendor_data := Some msg, vc_data_len := length msg\<rparr>
      in bindE (vc_put_bytes nl (NL80211_ATTR_VENDOR_DATA nl) msg (length msg) c) (\<lambda>(ret, c).
         if ret \<noteq> WIFI_SUCCESS then Inr (ret, cleanup c) else Inr (ret, c)))"

text \<open>
  A request with parameters \<open>params\<close> after its header and the TLVs that \<open>body\<close> writes behind them.
\<close>

definition put_request ::
  "'m libnl \<Rightarrow> nat \<Rightarrow> NanMsgHeader \<Rightarrow> bytes \<Rightarrow> (nat \<times> bytes \<Rightarrow> (nat \<times> bytes) result)
     \<Rightarrow> 'm WifiVendorCommand \<Rightarrow> (WifiError \<times> 'm WifiVendorCommand) result" where
  "put_request nl message_len hdr params body c =
     (if \<not> nl_malloc nl message_len then Inr (WIFI_ERROR_OUT_OF_MEMORY, cleanup c)
      else bindE (wr_bytes (replicate message_len 0) 0 (header_bytes hdr @ params)) (\<lambda>msg.
           bindE (body (header_size + length params, msg)) (\<lambda>(tlvs, msg).
           put_vendor_data nl msg c)))"

text \<open>What a field that the code tests and also copies counts as in the test.\<close>

definition nonzero :: "bytes \<Rightarrow> bool" where
  "nonzero b \<longleftrightarrow> unle b \<noteq> 0"

text \<open>\<open>c ? SIZEOF_TLV_HDR + n : 0\<close>\<close>

definition opt_len :: "bool \<Rightarrow> nat \<Rightarrow> nat" where
  "opt_len c n = (if c then SIZEOF_TLV_HDR + n else 0)"

section \<open>Enable\<close>

record NanSocialChannelScanParams =
  dwell_time :: "nat list"
  scan_period :: "nat list"

record NanConfigDW =
  config_2dot4g_dw_band :: bool
  dw_2dot4g_interval_val :: bytes
  config_5g_dw_band :: bool
  dw_5g_interval_val :: bytes

record NanEnableRequest =
  er_master_pref :: bytes
  er_cluster_low :: bytes
  er_cluster_high :: bytes
  er_config_support_5g :: bool
  er_support_5g_val :: bytes
  er_config_sid_beacon :: bool
  er_sid_beacon_val :: bytes
  er_config_2dot4g_rssi_close :: bool
  er_rssi_close_2dot4g_val :: bytes
  er_config_2dot4g_rssi_middle :: bool
  er_rssi_middle_2dot4g_val :: bytes
  er_config_2dot4g_rssi_proximity :: bool
  er_rssi_proximity_2dot4g_val :: bytes
  er_config_hop_count_limit :: bool
  er_hop_count_limit_val :: bytes
  er_config_2dot4g_support :: bool
  er_support_2dot4g_val :: bytes
  er_config_2dot4g_beacons :: bool
  er_beacon_2dot4g_val :: bytes
  er_config_2dot4g_sdf :: bool
  er_sdf_2dot4g_val :: bytes
  er_config_5g_beacons :: bool
  er_beacon_5g_val :: bytes
  er_config_5g_sdf :: bool
  er_sdf_5g_val :: bytes
  er_config_5g_rssi_close :: bool
  er_rssi_close_5g_val :: bytes
  er_config_5g_rssi_middle :: bool
  er_rssi_middle_5g_val :: bytes
  er_config_5g_rssi_close_proximity :: bool
  er_rssi_close_proximity_5g_val :: bytes
  er_config_rssi_window_size :: bool
  er_rssi_window_size_val :: bytes
  er_config_oui :: bool
  er_oui_val :: bytes
  er_config_intf_addr :: bool
  er_intf_addr_val :: bytes
  er_config_cluster_attribute_val :: bytes
  er_config_scan_params :: bool
  er_scan_params_val :: NanSocialChannelScanParams
  er_config_random_factor_force :: bool
  er_random_factor_force_val :: bytes
  er_config_hop_count_force :: bool
  er_hop_count_force_val :: bytes
  er_config_24g_channel :: bool
  er_channel_24g_val :: bytes
  er_config_5g_channel :: bool
  er_channel_5g_val :: bytes
  er_config_dw :: NanConfigDW
  er_config_disc_mac_addr_randomization :: bool
  er_disc_mac_addr_rand_interval_sec :: bytes
  er_discovery_indication_cfg :: nat
  er_config_subscribe_sid_beacon :: bool
  er_subscribe_sid_beacon_val :: bytes
  er_config_discovery_beacon_int :: bool
  er_discovery_beacon_interval :: bytes
  er_config_nss :: bool
  er_nss :: bytes
  er_config_enable_ranging :: bool
  er_enable_ranging :: bytes
  er_config_dw_early_termination :: bool
  er_enable_dw_termination :: bytes
  er_config_ndpe_attr :: bool
  er_use_ndpe_attr :: nat

text \<open>\<open>fillNanSocialChannelParamVal\<close>: a word for every social channel.\<close>

definition fillNanSocialChannelParamVal :: "nan_hw \<Rightarrow> NanSocialChannelScanParams \<Rightarrow> u32 list result" where
  "fillNanSocialChannelParamVal hw sp =
     bindE (foldE (\<lambda>i arr.
              bindE (vec_at (scan_period sp) (int i)) (\<lambda>period.
              bindE (vec_at (dwell_time sp) (int i)) (\<lambda>dwell.
              vec_set arr (int i) (push_bit 16 (word_of_nat period) OR push_bit 8 (word_of_nat dwell)))))
            [0..<NAN_MAX_SOCIAL_CHANNELS hw] (replicate (NAN_MAX_SOCIAL_CHANNELS hw) 0)) (\<lambda>arr.
     foldE (\<lambda>(i, ch) arr. bindE (vec_at arr (int i)) (\<lambda>w. vec_set arr (int i) (w OR ch)))
       [(NAN_CHANNEL_24G_BAND hw, 6), (NAN_CHANNEL_5G_BAND_LOW hw, 44), (NAN_CHANNEL_5G_BAND_HIGH hw, 149)] arr)"

definition social_rows :: "u32 list \<Rightarrow> tlv_row list" where
  "social_rows arr = map (\<lambda>w. (True, NAN_TLV_TYPE_SOCIAL_CHANNEL_SCAN_PARAMS, 4, le 4 (unat w))) arr"

text \<open>\<open>struct NanDevCapAttrCap\<close> with the NDPE flag\<close>

definition dev_cap_bytes :: "nat \<Rightarrow> bytes" where
  "dev_cap_bytes use_ndpe_attr = le 4 (pack_bits [(1, 0), (1, 0), (1, 0), (1, use_ndpe_attr), (28, 0)])"

text \<open>\<open>NAN_MAX_ENABLE_REQ_SIZE\<close>\<close>

definition NAN_MAX_ENABLE_REQ_SIZE :: nat where
  "NAN_MAX_ENABLE_REQ_SIZE = header_size + SIZEOF_TLV_HDR + 2 + SIZEOF_TLV_HDR + 2 + SIZEOF_TLV_HDR + 1"

definition enable_len :: "nan_hw \<Rightarrow> NanEnableRequest \<Rightarrow> nat" where
  "enable_len hw r =
     NAN_MAX_ENABLE_REQ_SIZE
     + opt_len (er_config_support_5g r) (length (er_support_5g_val r))
     + opt_len (er_config_sid_beacon r) (length (er_sid_beacon_val r))
     + opt_len (er_config_2dot4g_rssi_close r) (length (er_rssi_close_2dot4g_val r))
     + opt_len (er_config_2dot4g_rssi_middle r) (length (er_rssi_middle_2dot4g_val r))
     + opt_len (er_config_hop_count_limit r) (length (er_hop_count_limit_val r))
     + opt_len (er_config_2dot4g_support r) (length (er_support_2dot4g_val r))
     + opt_len (er_config_2dot4g_beacons r) (length (er_beacon_2dot4g_val r))
     + opt_len (er_config_2dot4g_sdf r) (length (er_sdf_2dot4g_val r))
     + opt_len (er_config_5g_beacons r) (length (er_beacon_5g_val r))
     + opt_len (er_config_5g_sdf r) (length (er_sdf_5g_val r))
     + opt_len (er_config_5g_rssi_close r) (length (er_rssi_close_5g_val r))
     + opt_len (er_config_5g_rssi_middle r) (length (er_rssi_middle_5g_val r))
     + opt_len (er_config_2dot4g_rssi_proximity r) (length (er_rssi_proximity_2dot4g_val r))
     + opt_len (er_config_5g_rssi_close_proximity r) (length (er_rssi_close_proximity_5g_val r))
     + opt_len (er_config_rssi_window_size r) (length (er_rssi_window_size_val r))
     + opt_len (er_config_oui r) (length (er_oui_val r))
     + opt_len (er_config_intf_addr r) (length (er_intf_addr_val r))
     + opt_len (nonzero (er_config_cluster_attribute_val r)) (length (er_config_cluster_attribute_val r))
     + (if er_config_scan_params r then NAN_MAX_SOCIAL_CHANNELS hw * (SIZEOF_TLV_HDR + 4) else 0)
     + opt_len (er_config_random_factor_force r) (length (er_random_factor_force_val r))
     + opt_len (er_config_hop_count_force r) (length (er_hop_count_force_val r))
     + opt_len (er_config_24g_channel r) 4
     + opt_len (er_config_5g_channel r) 4
     + opt_len (config_2dot4g_dw_band (er_config_dw r)) 4
     + opt_len (config_5g_dw_band (er_config_dw r)) 4
     + opt_len (er_config_disc_mac_addr_randomization r) 4
     + (SIZEOF_TLV_HDR + 4)
     + opt_len (er_config_subscribe_sid_beacon r) (length (er_subscribe_sid_beacon_val r))
     + opt_len (er_config_discovery_beacon_int r) 4
     + opt_len (er_config_nss r) 4
     + opt_len (er_config_enable_ranging r) 4
     + opt_len (er_config_dw_early_termination r) 4
     + opt_len (er_config_ndpe_attr r) 4"

text \<open>The TLVs before and behind those of the social channels.\<close>

definition enable_rows1 :: "NanEnableRequest \<Rightarrow> tlv_row list" where
  "enable_rows1 r =
    [(True, NAN_TLV_TYPE_CLUSTER_ID_LOW, length (er_cluster_low r), er_cluster_low r),
     (True, NAN_TLV_TYPE_CLUSTER_ID_HIGH, length (er_cluster_high r), er_cluster_high r),
     (True, NAN_TLV_TYPE_MASTER_PREFERENCE, length (er_master_pref r), er_master_pref r),
     (er_config_support_5g r, NAN_TLV_TYPE_5G_SUPPORT, length (er_support_5g_val r), er_support_5g_val r),
     (er_config_sid_beacon r, NAN_TLV_TYPE_SID_BEACON, length (er_sid_beacon_val r), er_sid_beacon_val r),
     (er_config_2dot4g_rssi_close r, NAN_TLV_TYPE_24G_RSSI_CLOSE, length (er_rssi_close_2dot4g_val r),
        er_rssi_close_2dot4g_val r),
     (er_config_2dot4g_rssi_middle r, NAN_TLV_TYPE_24G_RSSI_MIDDLE, length (er_rssi_middle_2dot4g_val r),
        er_rssi_middle_2dot4g_val r),
     (er_config_hop_count_limit r, NAN_TLV_TYPE_HOP_COUNT_LIMIT, length (er_hop_count_limit_val r),
        er_hop_count_limit_val r),
     (er_config_2dot4g_support r, NAN_TLV_TYPE_24G_SUPPORT, length (er_support_2dot4g_val r),
        er_support_2dot4g_val r),
     (er_config_2dot4g_beacons r, NAN_TLV_TYPE_24G_BEACON, length (er_beacon_2dot4g_val r),
        er_beacon_2dot4g_val r),
     (er_config_2dot4g_sdf r, NAN_TLV_TYPE_24G_SDF, length (er_sdf_2dot4g_val r), er_sdf_2dot4g_val r),
     (er_config_5g_beacons r, NAN_TLV_TYPE_5G_BEACON, length (er_beacon_5g_val r), er_beacon_5g_val r),
     (er_config_5g_sdf r, NAN_TLV_TYPE_5G_SDF, length (er_sdf_5g_val r), er_sdf_5g_val r),
     (er_config_2dot4g_rssi_proximity r, NAN_TLV_TYPE_24G_RSSI_CLOSE_PROXIMITY,
        length (er_rssi_proximity_2dot4g_val r), er_rssi_proximity_2dot4g_val r),
     (er_config_5g_rssi_close r, NAN_TLV_TYPE_5G_RSSI_CLOSE, length (er_rssi_close_5g_val r),
        er_rssi_close_5g_val r),
     (er_config_5g_rssi_middle r, NAN_TLV_TYPE_5G_RSSI_MIDDLE, length (er_rssi_middle_5g_val r),
        er_rssi_middle_5g_val r),
     (er_config_5g_rssi_close_proximity r, NAN_TLV_TYPE_5G_RSSI_CLOSE_PROXIMITY,
        length (er_rssi_close_proximity_5g_val r), er_rssi_close_proximity_5g_val r),
     (er_config_rssi_window_size r, NAN_TLV_TYPE_RSSI_AVERAGING_WINDOW_SIZE,
        length (er_rssi_window_size_val r), er_rssi_window_size_val r),
     (er_config_oui r, NAN_TLV_TYPE_CLUSTER_OUI_NETWORK_ID, length (er_oui_val r), er_oui_val r),
     (er_config_intf_addr r, NAN_TLV_TYPE_SOURCE_MAC_ADDRESS, length (er_intf_addr_val r), er_intf_addr_val r),
     (nonzero (er_config_cluster_attribute_val r), NAN_TLV_TYPE_CLUSTER_ATTRIBUTE_IN_SDF,
        length (er_config_cluster_attribute_val r), er_config_cluster_attribute_val r)]"

definition enable_rows2 :: "NanEnableRequest \<Rightarrow> tlv_row list" where
  "enable_rows2 r =
    [(er_config_random_factor_force r, NAN_TLV_TYPE_RANDOM_FACTOR_FORCE, length (er_random_factor_force_val r),
        er_random_factor_force_val r),
     (er_config_hop_count_force r, NAN_TLV_TYPE_HOP_COUNT_FORCE, length (er_hop_count_force_val r),
        er_hop_count_force_val r),
     (er_config_24g_channel r, NAN_TLV_TYPE_24G_CHANNEL, 4, er_channel_24g_val r),
     (er_config_5g_channel r, NAN_TLV_TYPE_5G_CHANNEL, 4, er_channel_5g_val r),
     (config_2dot4g_dw_band (er_config_dw r), NAN_TLV_TYPE_2G_COMMITTED_DW,
        length (dw_2dot4g_interval_val (er_config_dw r)), dw_2dot4g_interval_val (er_config_dw r)),
     (config_5g_dw_band (er_config_dw r), NAN_TLV_TYPE_5G_COMMITTED_DW,
        length (dw_5g_interval_val (er_config_dw r)), dw_5g_interval_val (er_config_dw r)),
     (er_config_disc_mac_addr_randomization r, NAN_TLV_TYPE_DISC_MAC_ADDR_RANDOM_INTERVAL, 4,
        er_disc_mac_addr_rand_interval_sec r),
     (True, NAN_TLV_TYPE_CONFIG_DISCOVERY_INDICATIONS, 4, le 4 (er_discovery_indication_cfg r)),
     (er_config_subscribe_sid_beacon r, NAN_TLV_TYPE_SUBSCRIBE_SID_BEACON,
        length (er_subscribe_sid_beacon_val r), er_subscribe_sid_beacon_val r),
     (er_config_discovery_beacon_int r, NAN_TLV_TYPE_DB_INTERVAL, 4, er_discovery_beacon_interval r),
     (er_config_nss r, NAN_TLV_TYPE_TX_RX_CHAINS, 4, er_nss r),
     (er_config_enable_ranging r, NAN_TLV_TYPE_ENABLE_DEVICE_RANGING, 4, er_enable_ranging r),
     (er_config_dw_early_termination r, NAN_TLV_TYPE_DW_EARLY_TERMINATION, 4, er_enable_dw_termination r),
     (er_config_ndpe_attr r, NAN_TLV_TYPE_DEV_CAP_ATTR_CAPABILITY, 4, dev_cap_bytes (er_use_ndpe_attr r))]"

definition enable_body :: "nan_hw \<Rightarrow> NanEnableRequest \<Rightarrow> nat \<times> bytes \<Rightarrow> (nat \<times> bytes) result" where
  "enable_body hw r s =
     bindE (put_rows (enable_rows1 r) s) (\<lambda>s.
     bindE (if er_config_scan_params r
            then bindE (fillNanSocialChannelParamVal hw (er_scan_params_val r)) (\<lambda>arr. put_rows (social_rows arr) s)
            else Inr s) (\<lambda>s.
     put_rows (enable_rows2 r) s))"

definition putNanEnable ::
  "'m libnl \<Rightarrow> nan_hw \<Rightarrow> nat \<Rightarrow> NanEnableRequest option \<Rightarrow> 'm WifiVendorCommand
     \<Rightarrow> (WifiError \<times> 'm WifiVendorCommand) result" where
  "putNanEnable nl hw tid pReq c =
     (case pReq of
        None \<Rightarrow> Inr (WIFI_ERROR_INVALID_ARGS, cleanup c)
      | Some r \<Rightarrow>
          let message_len = enable_len hw r
          in put_request nl message_len (request_header NAN_MSG_ID_ENABLE_REQ message_len 0 tid) []
               (enable_body hw r) c)"

section \<open>Disable\<close>

definition putNanDisable ::
  "'m libnl \<Rightarrow> nat \<Rightarrow> 'm WifiVendorCommand \<Rightarrow> (WifiError \<times> 'm WifiVendorCommand) result" where
  "putNanDisable nl tid c =
     put_request nl header_size (request_header NAN_MSG_ID_DISABLE_REQ header_size 0 tid) [] Inr c"

section \<open>Configuration\<close>

record NanTransmitPostConnectivityCapability =
  payload_transmit_flag :: bool
  is_mesh_supported :: bool
  is_ibss_supported :: bool
  wlan_infra_field :: bool
  is_tdls_supported :: bool
  is_wfds_supported :: bool
  is_wfd_supported :: bool

definition getNanTransmitPostConnectivityCapabilityVal :: "NanTransmitPostConnectivityCapability \<Rightarrow> nat" where
  "getNanTransmitPostConnectivityCapabilityVal c =
     push_bit 16 (of_cond (payload_transmit_flag c)) OR push_bit 5 (of_cond (is_mesh_supported c))
     OR push_bit 4 (of_cond (is_ibss_supported c)) OR push_bit 3 (of_cond (wlan_infra_field c))
     OR push_bit 2 (of_cond (is_tdls_supported c)) OR push_bit 1 (of_cond (is_wfds_supported c))
     OR of_cond (is_wfd_supported c)"

record NanTransmitPostDiscovery =
  tx_type :: nat
  tx_role :: nat
  tx_transmit_freq :: bool
  tx_duration :: nat
  tx_avail_interval_bitmap :: bytes
  tx_addr :: bytes
  tx_mesh_id_len :: nat
  tx_mesh_id :: bytes
  tx_infrastructure_ssid_len :: nat
  tx_infrastructure_ssid_val :: bytes

definition calcNanTransmitPostDiscoverySize :: "nan_hw \<Rightarrow> NanTransmitPostDiscovery \<Rightarrow> nat" where
  "calcNanTransmitPostDiscoverySize hw d =
     4 + 4 + (SIZEOF_TLV_HDR + NAN_MAC_ADDR_LEN hw)
     + opt_len (tx_type d = NAN_CONN_WLAN_MESH hw) (tx_mesh_id_len d)
     + opt_len (tx_type d = NAN_CONN_WLAN_INFRA hw) (tx_infrastructure_ssid_len d)"

definition post_discovery_rows :: "nan_hw \<Rightarrow> NanTransmitPostDiscovery \<Rightarrow> tlv_row list" where
  "post_discovery_rows hw d =
    [(True, NAN_TLV_TYPE_MAC_ADDRESS, NAN_MAC_ADDR_LEN hw, tx_addr d),
     (tx_type d = NAN_CONN_WLAN_MESH hw, NAN_TLV_TYPE_WLAN_MESH_ID, tx_mesh_id_len d, tx_mesh_id d),
     (tx_type d = NAN_CONN_WLAN_INFRA hw, NAN_TLV_TYPE_WLAN_INFRA_SSID, tx_infrastructure_ssid_len d,
        tx_infrastructure_ssid_val d)]"

text \<open>\<open>fillNanTransmitPostDiscoveryVal\<close> with \<open>pOutValue\<close> at offset \<open>q\<close> of the message\<close>

definition fillNanTransmitPostDiscoveryVal ::
  "nan_hw \<Rightarrow> NanTransmitPostDiscovery \<Rightarrow> nat \<Rightarrow> bytes \<Rightarrow> bytes result" where
  "fillNanTransmitPostDiscoveryVal hw d q msg =
     bindE (wr8 msg q (word_of_nat (tx_type d))) (\<lambda>msg.
     bindE (wr8 msg (q + 1) (word_of_nat (tx_role d))) (\<lambda>msg.
     bindE (wr8 msg (q + 2) (word_of_nat (of_cond (tx_transmit_freq d) OR push_bit 1 (tx_duration d AND 3)))) (\<lambda>msg.
     bindE (wr_bytes msg (q + 4) (tx_avail_interval_bitmap d)) (\<lambda>msg.
     bindE (put_rows (post_discovery_rows hw d) (q + 8, msg)) (\<lambda>(_, msg). Inr msg)))))"

text \<open>
  The value is filled in where the TLV will have it, and \<open>addTlv\<close> then copies it onto itself.
\<close>

definition put_in_place ::
  "u16 \<Rightarrow> nat \<Rightarrow> (nat \<Rightarrow> bytes \<Rightarrow> bytes result) \<Rightarrow> nat \<times> bytes \<Rightarrow> (nat \<times> bytes) result" where
  "put_in_place type n fill s = (case s of (tlvs, msg) \<Rightarrow>
     bindE (fill (tlvs + SIZEOF_TLV_HDR) msg) (\<lambda>msg.
     addTlv type (word_of_nat n) (Some (drop (tlvs + SIZEOF_TLV_HDR) msg)) tlvs msg))"

record NanFurtherAvailabilityChannel =
  fc_entry_control :: nat
  fc_class_val :: nat
  fc_channel :: nat
  fc_mapid :: nat
  fc_avail_interval_bitmap :: bytes

record NanFurtherAvailabilityMap =
  fam_numchans :: nat
  fam_famchan :: "NanFurtherAvailabilityChannel list"

text \<open>\<open>sizeof(NanFurtherAvailabilityChan)\<close>\<close>

definition fam_chan_size :: nat where [simp]: "fam_chan_size = 7"

definition calcNanFurtherAvailabilityMapSize :: "nan_hw \<Rightarrow> NanFurtherAvailabilityMap \<Rightarrow> nat" where
  "calcNanFurtherAvailabilityMapSize hw f =
     (if fam_numchans f \<noteq> 0 \<and> fam_numchans f \<le> NAN_MAX_FAM_CHANNELS hw
      then 1 + fam_numchans f * fam_chan_size else 0)"

text \<open>\<open>struct NanFurtherAvailabilityChan\<close>, whose reserved bits are those of the cleared buffer\<close>

definition put_fam_chan :: "NanFurtherAvailabilityMap \<Rightarrow> nat \<Rightarrow> nat \<Rightarrow> bytes \<Rightarrow> bytes result" where
  "put_fam_chan f q idx msg =
     (let p = q + 1 + idx * fam_chan_size in
      bindE (vec_at (fam_famchan f) (int idx)) (\<lambda>ch.
      bindE (wr_bytes msg p (le 1 (pack_bits [(2, fc_entry_control ch), (4, fc_mapid ch), (2, 0)])
               @ le 1 (fc_class_val ch) @ le 1 (fc_channel ch))) (\<lambda>msg.
      bindE (rd_bytes (fc_avail_interval_bitmap ch) 0 4) (\<lambda>bm. wr_bytes msg (p + 3) bm))))"

definition fillNanFurtherAvailabilityMapVal ::
  "nan_hw \<Rightarrow> NanFurtherAvailabilityMap \<Rightarrow> nat \<Rightarrow> bytes \<Rightarrow> bytes result" where
  "fillNanFurtherAvailabilityMapVal hw f q msg =
     bindE (wr_bytes msg q (replicate (calcNanFurtherAvailabilityMapSize hw f) 0)) (\<lambda>msg.
     bindE (wr8 msg q (word_of_nat (fam_numchans f))) (\<lambda>msg.
     foldE (put_fam_chan f q) [0..<fam_numchans f] msg))"

record NanConfigRequest =
  cr_config_sid_beacon :: bool
  cr_sid_beacon :: bytes
  cr_config_rssi_proximity :: nat
  cr_rssi_proximity :: bytes
  cr_config_master_pref :: bool
  cr_master_pref :: bytes
  cr_config_5g_rssi_close_proximity :: bool
  cr_rssi_close_proximity_5g_val :: bytes
  cr_config_rssi_window_size :: bool
  cr_rssi_window_size_val :: bytes
  cr_config_cluster_attribute_val :: bytes
  cr_config_scan_params :: bool
  cr_scan_params_val :: NanSocialChannelScanParams
  cr_config_random_factor_force :: bool
  cr_random_factor_force_val :: bytes
  cr_config_hop_count_force :: bool
  cr_hop_count_force_val :: bytes
  cr_config_conn_capability :: bool
  cr_conn_capability_val :: NanTransmitPostConnectivityCapability
  cr_num_config_discovery_attr :: nat
  cr_discovery_attr_val :: "NanTransmitPostDiscovery list"
  cr_config_fam :: bool
  cr_fam_val :: NanFurtherAvailabilityMap
  cr_config_dw :: NanConfigDW
  cr_config_disc_mac_addr_randomization :: bool
  cr_disc_mac_addr_rand_interval_sec :: bytes
  cr_discovery_indication_cfg :: nat
  cr_config_subscribe_sid_beacon :: bool
  cr_subscribe_sid_beacon_val :: bytes
  cr_config_discovery_beacon_int :: bool
  cr_discovery_beacon_interval :: bytes
  cr_config_nss :: bool
  cr_nss :: bytes
  cr_config_enable_ranging :: bool
  cr_enable_ranging :: bytes
  cr_config_dw_early_termination :: bool
  cr_enable_dw_termination :: bytes
  cr_config_ndpe_attr :: bool
  cr_use_ndpe_attr :: nat

text \<open>The discovery attributes that the request says it has; an index past them is undefined.\<close>

definition config_discovery_attrs :: "NanConfigRequest \<Rightarrow> NanTransmitPostDiscovery list result" where
  "config_discovery_attrs r =
     (if cr_num_config_discovery_attr r \<le> length (cr_discovery_attr_val r)
      then Inr (take (cr_num_config_discovery_attr r) (cr_discovery_attr_val r)) else Inl UB)"

definition config_len :: "nan_hw \<Rightarrow> NanConfigRequest \<Rightarrow> NanTransmitPostDiscovery list \<Rightarrow> nat" where
  "config_len hw r attrs =
     header_size
     + opt_len (cr_config_sid_beacon r) (length (cr_sid_beacon r))
     + opt_len (cr_config_master_pref r) (length (cr_master_pref r))
     + opt_len (cr_config_rssi_proximity r \<noteq> 0) (length (cr_rssi_proximity r))
     + opt_len (cr_config_5g_rssi_close_proximity r) (length (cr_rssi_close_proximity_5g_val r))
     + opt_len (cr_config_rssi_window_size r) (length (cr_rssi_window_size_val r))
     + opt_len (nonzero (cr_config_cluster_attribute_val r)) (length (cr_config_cluster_attribute_val r))
     + (if cr_config_scan_params r then NAN_MAX_SOCIAL_CHANNELS hw * (SIZEOF_TLV_HDR + 4) else 0)
     + opt_len (cr_config_random_factor_force r) (length (cr_random_factor_force_val r))
     + opt_len (cr_config_hop_count_force r) (length (cr_hop_count_force_val r))
     + opt_len (cr_config_conn_capability r) 4
     + opt_len (config_2dot4g_dw_band (cr_config_dw r)) 4
     + opt_len (config_5g_dw_band (cr_config_dw r)) 4
     + opt_len (cr_config_disc_mac_addr_randomization r) 4
     + opt_len (cr_config_subscribe_sid_beacon r) (length (cr_subscribe_sid_beacon_val r))
     + (SIZEOF_TLV_HDR + 4)
     + opt_len (cr_config_discovery_beacon_int r) 4
     + opt_len (cr_config_nss r) 4
     + opt_len (cr_config_enable_ranging r) 4
     + opt_len (cr_config_dw_early_termination r) 4
     + opt_len (cr_config_ndpe_attr r) 4
     + sum_list (map (\<lambda>d. SIZEOF_TLV_HDR + calcNanTransmitPostDiscoverySize hw d) attrs)
     + opt_len (cr_config_fam r \<and> calcNanFurtherAvailabilityMapSize hw (cr_fam_val r) \<noteq> 0)
         (calcNanFurtherAvailabilityMapSize hw (cr_fam_val r))"

definition config_rows1 :: "NanConfigRequest \<Rightarrow> tlv_row list" where
  "config_rows1 r =
    [(cr_config_sid_beacon r, NAN_TLV_TYPE_SID_BEACON, length (cr_sid_beacon r), cr_sid_beacon r),
     (cr_config_master_pref r, NAN_TLV_TYPE_MASTER_PREFERENCE, length (cr_master_pref r), cr_master_pref r),
     (cr_config_rssi_window_size r, NAN_TLV_TYPE_RSSI_AVERAGING_WINDOW_SIZE,
        length (cr_rssi_window_size_val r), cr_rssi_window_size_val r),
     (cr_config_rssi_proximity r \<noteq> 0, NAN_TLV_TYPE_24G_RSSI_CLOSE_PROXIMITY, length (cr_rssi_proximity r),
        cr_rssi_proximity r),
     (cr_config_5g_rssi_close_proximity r, NAN_TLV_TYPE_5G_RSSI_CLOSE_PROXIMITY,
        length (cr_rssi_close_proximity_5g_val r), cr_rssi_close_proximity_5g_val r),
     (nonzero (cr_config_cluster_attribute_val r), NAN_TLV_TYPE_CLUSTER_ATTRIBUTE_IN_SDF,
        length (cr_config_cluster_attribute_val r), cr_config_cluster_attribute_val r)]"

definition config_rows2 :: "NanConfigRequest \<Rightarrow> tlv_row list" where
  "config_rows2 r =
    [(cr_config_random_factor_force r, NAN_TLV_TYPE_RANDOM_FACTOR_FORCE, length (cr_random_factor_force_val r),
        cr_random_factor_force_val r),
     (cr_config_hop_count_force r, NAN_TLV_TYPE_HOP_COUNT_FORCE, length (cr_hop_count_force_val r),
        cr_hop_count_force_val r),
     (cr_config_conn_capability r, NAN_TLV_TYPE_POST_NAN_CONNECTIVITY_CAPABILITIES_TRANSMIT, 4,
        le 4 (getNanTransmitPostConnectivityCapabilityVal (cr_conn_capability_val r)))]"

definition config_rows3 :: "NanConfigRequest \<Rightarrow> tlv_row list" where
  "config_rows3 r =
    [(config_2dot4g_dw_band (cr_config_dw r), NAN_TLV_TYPE_2G_COMMITTED_DW,
        length (dw_2dot4g_interval_val (cr_config_dw r)), dw_2dot4g_interval_val (cr_config_dw r)),
     (config_5g_dw_band (cr_config_dw r), NAN_TLV_TYPE_5G_COMMITTED_DW,
        length (dw_5g_interval_val (cr_config_dw r)), dw_5g_interval_val (cr_config_dw r)),
     (cr_config_disc_mac_addr_randomization r, NAN_TLV_TYPE_DISC_MAC_ADDR_RANDOM_INTERVAL, 4,
        cr_disc_mac_addr_rand_interval_sec r),
     (cr_config_subscribe_sid_beacon r, NAN_TLV_TYPE_SUBSCRIBE_SID_BEACON,
        length (cr_subscribe_sid_beacon_val r), cr_subscribe_sid_beacon_val r),
     (cr_config_discovery_beacon_int r, NAN_TLV_TYPE_DB_INTERVAL, 4, cr_discovery_beacon_interval r),
     (True, NAN_TLV_TYPE_CONFIG_DISCOVERY_INDICATIONS, 4, le 4 (cr_discovery_indication_cfg r)),
     (cr_config_nss r, NAN_TLV_TYPE_TX_RX_CHAINS, 4, cr_nss r),
     (cr_config_enable_ranging r, NAN_TLV_TYPE_ENABLE_DEVICE_RANGING, 4, cr_enable_ranging r),
     (cr_config_dw_early_termination r, NAN_TLV_TYPE_DW_EARLY_TERMINATION, 4, cr_enable_dw_termination r),
     (cr_config_ndpe_attr r, NAN_TLV_TYPE_DEV_CAP_ATTR_CAPABILITY, 4, dev_cap_bytes (cr_use_ndpe_attr r))]"

definition config_body ::
  "nan_hw \<Rightarrow> NanConfigRequest \<Rightarrow> NanTransmitPostDiscovery list \<Rightarrow> nat \<times> bytes \<Rightarrow> (nat \<times> bytes) result" where
  "config_body hw r attrs s =
     bindE (put_rows (config_rows1 r) s) (\<lambda>s.
     bindE (if cr_config_scan_params r
            then bindE (fillNanSocialChannelParamVal hw (cr_scan_params_val r)) (\<lambda>arr. put_rows (social_rows arr) s)
            else Inr s) (\<lambda>s.
     bindE (put_rows (config_rows2 r) s) (\<lambda>s.
     bindE (foldE (\<lambda>d. put_in_place NAN_TLV_TYPE_POST_NAN_DISCOVERY_ATTRIBUTE_TRANSMIT
                          (calcNanTransmitPostDiscoverySize hw d) (fillNanTransmitPostDiscoveryVal hw d)) attrs s) (\<lambda>s.
     bindE (if cr_config_fam r \<and> calcNanFurtherAvailabilityMapSize hw (cr_fam_val r) \<noteq> 0
            then put_in_place NAN_TLV_TYPE_FURTHER_AVAILABILITY_MAP
                   (calcNanFurtherAvailabilityMapSize hw (cr_fam_val r))
                   (fillNanFurtherAvailabilityMapVal hw (cr_fam_val r)) s
            else Inr s) (\<lambda>s.
     put_rows (config_rows3 r) s)))))"

definition putNanConfig ::
  "'m libnl \<Rightarrow> nan_hw \<Rightarrow> nat \<Rightarrow> NanConfigRequest option \<Rightarrow> 'm WifiVendorCommand
     \<Rightarrow> (WifiError \<times> 'm WifiVendorCommand) result" where
  "putNanConfig nl hw tid pReq c =
     (case pReq of
        None \<Rightarrow> Inr (WIFI_ERROR_INVALID_ARGS, cleanup c)
      | Some r \<Rightarrow>
          if cr_num_config_discovery_attr r > NAN_MAX_POSTDISCOVERY_LEN hw
          then Inr (WIFI_ERROR_INVALID_ARGS, cleanup c)
          else bindE (config_discovery_attrs r) (\<lambda>attrs.
               let message_len = config_len hw r attrs
               in put_request nl message_len (request_header NAN_MSG_ID_CONFIGURATION_REQ message_len 0 tid) []
                    (config_body hw r attrs) c))"

end
