(* ===== verification/NanError.thy ===== *)
theory NanError
  imports NanRequest
begin

text \<open>
  How the status codes of the firmware become those of the framework (\<open>wlan/wifi_hal/nan_rsp.cpp\<close>): the
  two tables, \<open>isNanResponse\<close>, \<open>getIndicationType\<close> of \<open>nan_ind.cpp\<close>, and \<open>NanErrorTranslation\<close>.

  The framework's codes are enumerators of the platform's header, and so fields of the record
  \<open>nan_codes\<close>. A C string is the text before its final zero.
\<close>

record nan_codes =
  NAN_STATUS_SUCCESS :: nat
  NAN_STATUS_INTERNAL_FAILURE :: nat
  NAN_STATUS_INVALID_PUBLISH_SUBSCRIBE_ID :: nat
  NAN_STATUS_NO_RESOURCE_AVAILABLE :: nat
  NAN_STATUS_INVALID_PARAM :: nat
  NAN_STATUS_PROTOCOL_FAILURE :: nat
  NAN_STATUS_INVALID_REQUESTOR_INSTANCE_ID :: nat
  NAN_STATUS_NAN_NOT_ALLOWED :: nat
  NAN_STATUS_NO_OTA_ACK :: nat
  NAN_STATUS_ALREADY_ENABLED :: nat
  NAN_STATUS_FOLLOWUP_QUEUE_FULL :: nat
  NAN_STATUS_UNSUPPORTED_CONCURRENCY_NAN_DISABLED :: nat
  NAN_STATUS_INVALID_NDP_ID :: nat
  NAN_ERROR_STR_LEN :: nat

text \<open>\<open>strlcpy(dst, src, n)\<close> and \<open>strlcat(dst, src, n)\<close>: a text of at most \<open>n - 1\<close> characters.\<close>

definition strlcpy :: "string \<Rightarrow> nat \<Rightarrow> string" where
  "strlcpy src n = take (n - 1) src"

definition strlcat :: "string \<Rightarrow> string \<Rightarrow> nat \<Rightarrow> string" where
  "strlcat dst src n = dst @ take (n - 1 - length dst) src"

section \<open>The tables\<close>

definition tlvToStr :: "(u16 \<times> string) list" where
  "tlvToStr =
    [(NAN_TLV_TYPE_SDF_MATCH_FILTER, '' SDF match filter''),
     (NAN_TLV_TYPE_TX_MATCH_FILTER, '' Tx match filter''),
     (NAN_TLV_TYPE_RX_MATCH_FILTER, '' Rx match filter''),
     (NAN_TLV_TYPE_SERVICE_SPECIFIC_INFO, '' Service specific info''),
     (NAN_TLV_TYPE_EXT_SERVICE_SPECIFIC_INFO, '' Extended Service specific info''),
     (NAN_TLV_TYPE_VENDOR_SPECIFIC_ATTRIBUTE_TRANSMIT, '' Vendor specific attribute transmit''),
     (NAN_TLV_TYPE_VENDOR_SPECIFIC_ATTRIBUTE_RECEIVE, '' Vendor specific attribute receive''),
     (NAN_TLV_TYPE_POST_NAN_CONNECTIVITY_CAPABILITIES_RECEIVE, '' Post Nan connectivity capability receive''),
     (NAN_TLV_TYPE_POST_NAN_DISCOVERY_ATTRIBUTE_RECEIVE, '' Post Nan discovery attribute receive''),
     (NAN_TLV_TYPE_BEACON_SDF_PAYLOAD_RECEIVE, '' Beacon SDF payload receive''),
     (NAN_TLV_TYPE_CONFIG_FIRST, '' Config first''),
     (NAN_TLV_TYPE_24G_SUPPORT, '' 2.4G support''),
     (NAN_TLV_TYPE_24G_BEACON, '' 2.4G beacon''),
     (NAN_TLV_TYPE_24G_SDF, '' 2.4G SDF''),
     (NAN_TLV_TYPE_24G_RSSI_CLOSE, '' 2.4G RSSI close''),
     (NAN_TLV_TYPE_24G_RSSI_MIDDLE, '' 2.4G RSSI middle''),
     (NAN_TLV_TYPE_24G_RSSI_CLOSE_PROXIMITY, '' 2.4G RSSI close proximity''),
     (NAN_TLV_TYPE_5G_SUPPORT, '' 5G support''),
     (NAN_TLV_TYPE_5G_BEACON, '' 5G beacon''),
     (NAN_TLV_TYPE_5G_SDF, '' 5G SDF''),
     (NAN_TLV_TYPE_5G_RSSI_CLOSE, '' 5G RSSI close''),
     (NAN_TLV_TYPE_5G_RSSI_MIDDLE, '' 5G RSSI middle''),
     (NAN_TLV_TYPE_5G_RSSI_CLOSE_PROXIMITY, '' 5G RSSI close proximity''),
     (NAN_TLV_TYPE_SID_BEACON, '' SID beacon''),
     (NAN_TLV_TYPE_HOP_COUNT_LIMIT, '' Hop count limit''),
     (NAN_TLV_TYPE_MASTER_PREFERENCE, '' Master preference''),
     (NAN_TLV_TYPE_CLUSTER_ID_LOW, '' Cluster ID low''),
     (NAN_TLV_TYPE_CLUSTER_ID_HIGH, '' Cluster ID high''),
     (NAN_TLV_TYPE_RSSI_AVERAGING_WINDOW_SIZE, '' RSSI averaging window size''),
     (NAN_TLV_TYPE_CLUSTER_OUI_NETWORK_ID, '' Cluster OUI network ID''),
     (NAN_TLV_TYPE_SOURCE_MAC_ADDRESS, '' Source MAC address''),
     (NAN_TLV_TYPE_CLUSTER_ATTRIBUTE_IN_SDF, '' Cluster attribute in SDF''),
     (NAN_TLV_TYPE_SOCIAL_CHANNEL_SCAN_PARAMS, '' Social channel scan params''),
     (NAN_TLV_TYPE_DEBUGGING_FLAGS, '' Debugging flags''),
     (NAN_TLV_TYPE_POST_NAN_CONNECTIVITY_CAPABILITIES_TRANSMIT, '' Post nan connectivity capabilities transmit''),
     (NAN_TLV_TYPE_POST_NAN_DISCOVERY_ATTRIBUTE_TRANSMIT, '' Post nan discovery attribute transmit''),
     (NAN_TLV_TYPE_FURTHER_AVAILABILITY_MAP, '' Further availability map''),
     (NAN_TLV_TYPE_HOP_COUNT_FORCE, '' Hop count force''),
     (NAN_TLV_TYPE_RANDOM_FACTOR_FORCE, '' Random factor force''),
     (NAN_TLV_TYPE_RANDOM_UPDATE_TIME, '' Random update time''),
     (NAN_TLV_TYPE_EARLY_WAKEUP, '' Early wakeup''),
     (NAN_TLV_TYPE_PERIODIC_SCAN_INTERVAL, '' Periodic scan interval''),
     (NAN_TLV_TYPE_DW_INTERVAL, '' DW interval''),
     (NAN_TLV_TYPE_DB_INTERVAL, '' DB interval''),
     (NAN_TLV_TYPE_FURTHER_AVAILABILITY, '' Further availability''),
     (NAN_TLV_TYPE_24G_CHANNEL, '' 2.4G channel''),
     (NAN_TLV_TYPE_5G_CHANNEL, '' 5G channel''),
     (NAN_TLV_TYPE_CONFIG_LAST, '' Config last''),
     (NAN_TLV_TYPE_ATTRS_FIRST, '' Attributes first''),
     (NAN_TLV_TYPE_AVAILABILITY_INTERVALS_MAP, '' Availability intervals map''),
     (NAN_TLV_TYPE_WLAN_MESH_ID, '' WLAN mesh ID''),
     (NAN_TLV_TYPE_MAC_ADDRESS, '' MAC address''),
     (NAN_TLV_TYPE_RECEIVED_RSSI_VALUE, '' Received RSSI value''),
     (NAN_TLV_TYPE_CLUSTER_ATTRIBUTE, '' Cluster attribute''),
     (NAN_TLV_TYPE_WLAN_INFRA_SSID, '' WLAN infra SSID''),
     (NAN_TLV_TYPE_ATTRS_LAST, '' Attributes last''),
     (NAN_TLV_TYPE_EVENTS_FIRST, '' Events first''),
     (NAN_TLV_TYPE_EVENT_SELF_STATION_MAC_ADDRESS, '' Event Self station MAC address''),
     (NAN_TLV_TYPE_EVENT_STARTED_CLUSTER, '' Event started cluster''),
     (NAN_TLV_TYPE_EVENT_JOINED_CLUSTER, '' Event joined cluster''),
     (NAN_TLV_TYPE_EVENT_CLUSTER_SCAN_RESULTS, '' Event cluster scan results''),
     (NAN_TLV_TYPE_FAW_MEM_AVAIL, '' FAW memory availability''),
     (NAN_TLV_TYPE_EVENTS_LAST, '' Events last''),
     (NAN_TLV_TYPE_TCA_FIRST, '' TCA-Threshold Crossing Alert first''),
     (NAN_TLV_TYPE_CLUSTER_SIZE_REQ, '' Cluster size request''),
     (NAN_TLV_TYPE_CLUSTER_SIZE_RSP, '' Cluster size response''),
     (NAN_TLV_TYPE_TCA_LAST, '' TCA last''),
     (NAN_TLV_TYPE_STATS_FIRST, '' Stats first''),
     (NAN_TLV_TYPE_DE_PUBLISH_STATS, '' Discovery engine publish stats''),
     (NAN_TLV_TYPE_DE_SUBSCRIBE_STATS, '' Discovery engine subscribe stats''),
     (NAN_TLV_TYPE_DE_MAC_STATS, '' Discovery engine MAC stats''),
     (NAN_TLV_TYPE_DE_TIMING_SYNC_STATS, '' Discovery engine timing sync stats''),
     (NAN_TLV_TYPE_DE_DW_STATS, '' Discovery engine DW stats''),
     (NAN_TLV_TYPE_DE_STATS, '' Discovery engine stats''),
     (NAN_TLV_TYPE_STATS_LAST, '' Stats last''),
     (NAN_TLV_TYPE_LAST, '' Last'')]"

text \<open>The framework's code, the firmware's code and the text.\<close>

definition errorCodeTranslation :: "nan_codes \<Rightarrow> (nat \<times> nat \<times> string) list" where
  "errorCodeTranslation k =
    [(NAN_STATUS_SUCCESS k, NAN_I_STATUS_SUCCESS, ''NAN status success''),
     (NAN_STATUS_INTERNAL_FAILURE k, NAN_I_STATUS_DE_FAILURE, ''NAN Discovery engine failure''),
     (NAN_STATUS_INVALID_PUBLISH_SUBSCRIBE_ID k, NAN_I_STATUS_INVALID_HANDLE, ''Invalid Publish/Subscribe ID''),
     (NAN_STATUS_NO_RESOURCE_AVAILABLE k, NAN_I_STATUS_NO_SPACE_AVAILABLE, ''No space available''),
     (NAN_STATUS_INVALID_PARAM k, NAN_I_STATUS_INVALID_PUBLISH_TYPE, ''Invalid Publish type, can be 0 or 1''),
     (NAN_STATUS_INVALID_PARAM k, NAN_I_STATUS_INVALID_TX_TYPE, ''Invalid Tx type''),
     (NAN_STATUS_INVALID_PARAM k, NAN_I_STATUS_INVALID_MSG_VERSION, ''Invalid internal message version''),
     (NAN_STATUS_INVALID_PARAM k, NAN_I_STATUS_INVALID_MSG_LEN, ''Invalid message length''),
     (NAN_STATUS_INVALID_PARAM k, NAN_I_STATUS_INVALID_MSG_ID, ''Invalid message ID''),
     (NAN_STATUS_INVALID_PARAM k, NAN_I_STATUS_INVALID_MATCH_ALGORITHM,
        ''Invalid matching algorithm, can be 0(match once), 1(match continuous) or 2(match never)''),
     (NAN_STATUS_INVALID_PARAM k, NAN_I_STATUS_INVALID_TLV_LEN, ''Invalid TLV length''),
     (NAN_STATUS_INVALID_PARAM k, NAN_I_STATUS_INVALID_TLV_TYPE, ''Invalid TLV type''),
     (NAN_STATUS_INVALID_PARAM k, NAN_I_STATUS_MISSING_TLV_TYPE, ''Missing TLV type''),
     (NAN_STATUS_INVALID_PARAM k, NAN_I_STATUS_INVALID_TOTAL_TLVS_LEN, ''Invalid total TLV length''),
     (NAN_STATUS_INVALID_PARAM k, NAN_I_STATUS_INVALID_TLV_VALUE, ''Invalid TLV value''),
     (NAN_STATUS_INVALID_PARAM k, NAN_I_STATUS_INVALID_TX_PRIORITY, ''Invalid Tx priority''),
     (NAN_STATUS_INVALID_PARAM k, NAN_I_STATUS_INVALID_CONNECTION_MAP, ''Invalid connection map''),
     (NAN_STATUS_INVALID_PARAM k, NAN_I_STATUS_INVALID_THRESHOLD_CROSSING_ALERT_ID,
        ''Invalid TCA-Threshold Crossing Alert ID''),
     (NAN_STATUS_INVALID_PARAM k, NAN_I_STATUS_INVALID_STATS_ID, ''Invalid STATS ID''),
     (NAN_STATUS_PROTOCOL_FAILURE k, NAN_I_STATUS_TX_FAIL, ''Tx Fail''),
     (NAN_STATUS_INVALID_PARAM k, NAN_I_STATUS_INVALID_RSSI_CLOSE_VALUE,
        ''Invalid RSSI close value range is 20dbm to 60dbm''),
     (NAN_STATUS_INVALID_PARAM k, NAN_I_STATUS_INVALID_RSSI_MIDDLE_VALUE,
        ''Invalid RSSI middle value range is 20dbm to 75dbm''),
     (NAN_STATUS_INVALID_PARAM k, NAN_I_STATUS_INVALID_HOP_COUNT_LIMIT,
        ''Invalid hop count limit, max hop count limit is 5''),
     (NAN_STATUS_INVALID_PARAM k, NAN_I_STATUS_INVALID_HIGH_CLUSTER_ID_VALUE,
        ''Invalid cluster ID value. Please set the cluster id high greater than the cluster id low''),
     (NAN_STATUS_INVALID_PARAM k, NAN_I_STATUS_INVALID_BACKGROUND_SCAN_PERIOD,
        ''Invalid background scan period. The range is 10 to 30 milliseconds''),
     (NAN_STATUS_INVALID_PARAM k, NAN_I_STATUS_INVALID_SCAN_CHANNEL,
        ''Invalid scan channel. Only valid channels are the NAN social channels''),
     (NAN_STATUS_INVALID_PARAM k, NAN_I_STATUS_INVALID_POST_NAN_CONNECTIVITY_CAPABILITIES_BITMAP,
        ''Invalid post nan connectivity bitmap''),
     (NAN_STATUS_INVALID_PARAM k, NAN_I_STATUS_INVALID_FURTHER_AVAILABILITY_MAP_NUMCHAN_VALUE,
        ''Invalid further availability map number of channel value''),
     (NAN_STATUS_INVALID_PARAM k, NAN_I_STATUS_INVALID_FURTHER_AVAILABILITY_MAP_DURATION_VALUE,
        ''Invalid further availability map duration value''),
     (NAN_STATUS_INVALID_PARAM k, NAN_I_STATUS_INVALID_FURTHER_AVAILABILITY_MAP_CLASS_VALUE,
        ''Invalid further availability map class value''),
     (NAN_STATUS_INVALID_PARAM k, NAN_I_STATUS_INVALID_FURTHER_AVAILABILITY_MAP_CHANNEL_VALUE,
        ''Invalid further availability map channel value''),
     (NAN_STATUS_INVALID_PARAM k, NAN_I_STATUS_INVALID_FURTHER_AVAILABILITY_MAP_AVAILABILITY_INTERVAL_BITMAP_VALUE,
        ''Invalid further availability map availability interval bitmap value''),
     (NAN_STATUS_INVALID_PARAM k, NAN_I_STATUS_INVALID_FURTHER_AVAILABILITY_MAP_MAP_ID,
        ''Invalid further availability map map ID''),
     (NAN_STATUS_INVALID_PARAM k, NAN_I_STATUS_INVALID_POST_NAN_DISCOVERY_CONN_TYPE_VALUE,
        ''Invalid post nan discovery connection type value''),
     (NAN_STATUS_INVALID_PARAM k, NAN_I_STATUS_INVALID_POST_NAN_DISCOVERY_DEVICE_ROLE_VALUE,
        ''Invalid post nan discovery device role value''),
     (NAN_STATUS_INVALID_PARAM k, NAN_I_STATUS_INVALID_POST_NAN_DISCOVERY_DURATION_VALUE,
        ''Invalid post nan discovery duration value''),
     (NAN_STATUS_INVALID_PARAM k, NAN_I_STATUS_INVALID_POST_NAN_DISCOVERY_BITMAP_VALUE,
        ''Invalid post nan discovery bitmap value''),
     (NAN_STATUS_INVALID_PARAM k, NAN_I_STATUS_MISSING_FUTHER_AVAILABILITY_MAP,
        ''Missing further availability map''),
     (NAN_STATUS_INVALID_PARAM k, NAN_I_STATUS_INVALID_BAND_CONFIG_FLAGS, ''Invalid band configuration flags''),
     (NAN_STATUS_INVALID_PARAM k, NAN_I_STATUS_INVALID_RANDOM_FACTOR_UPDATE_TIME_VALUE,
        ''Invalid random factor update time value''),
     (NAN_STATUS_INVALID_PARAM k, NAN_I_STATUS_INVALID_ONGOING_SCAN_PERIOD, ''Invalid ongoing scan period''),
     (NAN_STATUS_INVALID_PARAM k, NAN_I_STATUS_INVALID_DW_INTERVAL_VALUE, ''Invalid DW interval value''),
     (NAN_STATUS_INVALID_PARAM k, NAN_I_STATUS_INVALID_DB_INTERVAL_VALUE, ''Invalid DB interval value''),
     (NAN_STATUS_SUCCESS k, NAN_I_PUBLISH_SUBSCRIBE_TERMINATED_REASON_TIMEOUT, ''Terminated Reason: Timeout''),
     (NAN_STATUS_SUCCESS k, NAN_I_PUBLISH_SUBSCRIBE_TERMINATED_REASON_USER_REQUEST,
        ''Terminated Reason: User Request''),
     (NAN_STATUS_SUCCESS k, NAN_I_PUBLISH_SUBSCRIBE_TERMINATED_REASON_COUNT_REACHED,
        ''Terminated Reason: Count Reached''),
     (NAN_STATUS_INVALID_REQUESTOR_INSTANCE_ID k, NAN_I_STATUS_INVALID_REQUESTER_INSTANCE_ID,
        ''Invalid match handle''),
     (NAN_STATUS_NAN_NOT_ALLOWED k, NAN_I_STATUS_NAN_NOT_ALLOWED, ''Nan not allowed''),
     (NAN_STATUS_NO_OTA_ACK k, NAN_I_STATUS_NO_OTA_ACK, ''No OTA ack''),
     (NAN_STATUS_ALREADY_ENABLED k, NAN_I_STATUS_NAN_ALREADY_ENABLED, ''NAN is Already enabled''),
     (NAN_STATUS_FOLLOWUP_QUEUE_FULL k, NAN_I_STATUS_FOLLOWUP_QUEUE_FULL, ''Follow-up queue full''),
     (NAN_STATUS_UNSUPPORTED_CONCURRENCY_NAN_DISABLED k, NDP_I_UNSUPPORTED_CONCURRENCY,
        ''Unsupported Concurrency''),
     (NAN_STATUS_INTERNAL_FAILURE k, NDP_I_NAN_DATA_IFACE_CREATE_FAILED, ''NAN data interface create failed''),
     (NAN_STATUS_INTERNAL_FAILURE k, NDP_I_NAN_DATA_IFACE_DELETE_FAILED, ''NAN data interface delete failed''),
     (NAN_STATUS_INTERNAL_FAILURE k, NDP_I_DATA_INITIATOR_REQUEST_FAILED, ''NAN data initiator request failed''),
     (NAN_STATUS_INTERNAL_FAILURE k, NDP_I_DATA_RESPONDER_REQUEST_FAILED, ''NAN data responder request failed''),
     (NAN_STATUS_INVALID_NDP_ID k, NDP_I_INVALID_NDP_INSTANCE_ID, ''Invalid NDP instance ID''),
     (NAN_STATUS_INVALID_PARAM k, NDP_I_INVALID_RESPONSE_CODE, ''Invalid response code''),
     (NAN_STATUS_INVALID_PARAM k, NDP_I_INVALID_APP_INFO_LEN, ''Invalid app info length''),
     (NAN_STATUS_PROTOCOL_FAILURE k, NDP_I_MGMT_FRAME_REQUEST_FAILED, ''Management frame request failed''),
     (NAN_STATUS_PROTOCOL_FAILURE k, NDP_I_MGMT_FRAME_RESPONSE_FAILED, ''Management frame response failed''),
     (NAN_STATUS_PROTOCOL_FAILURE k, NDP_I_MGMT_FRAME_CONFIRM_FAILED, ''Management frame confirm failed''),
     (NAN_STATUS_INTERNAL_FAILURE k, NDP_I_END_FAILED, ''NDP end failed''),
     (NAN_STATUS_PROTOCOL_FAILURE k, NDP_I_MGMT_FRAME_END_REQUEST_FAILED, ''Management frame end request failed''),
     (NAN_STATUS_INTERNAL_FAILURE k, NDP_I_VENDOR_SPECIFIC_ERROR, ''Vendor specific error'')]"

text \<open>The index at which a loop over a table stops: that of the first row with the key, or its length.\<close>

fun find_row :: "('a \<Rightarrow> bool) \<Rightarrow> 'a list \<Rightarrow> nat" where
  "find_row p [] = 0"
| "find_row p (x # xs) = (if p x then 0 else Suc (find_row p xs))"

lemma find_row_le: "find_row p xs \<le> length xs"
  by (induction xs) auto

lemma find_row_nth: "find_row p xs < length xs \<Longrightarrow> p (xs ! find_row p xs)"
  by (induction xs) auto

lemma find_row_ex: "find_row p xs < length xs \<longleftrightarrow> (\<exists>x \<in> set xs. p x)"
  by (induction xs) auto

section \<open>Which message it is\<close>

definition isNanResponse :: "'m libnl \<Rightarrow> bytes option \<Rightarrow> int result" where
  "isNanResponse nl ev =
     (case ev of
        None \<Rightarrow> Inr (nl_code nl WIFI_ERROR_INVALID_ARGS)
      | Some b \<Rightarrow> bindE (msg_id_of b) (\<lambda>i.
          Inr (if i \<in> {NAN_MSG_ID_ERROR_RSP, NAN_MSG_ID_CONFIGURATION_RSP, NAN_MSG_ID_PUBLISH_SERVICE_CANCEL_RSP,
                       NAN_MSG_ID_PUBLISH_SERVICE_RSP, NAN_MSG_ID_SUBSCRIBE_SERVICE_RSP,
                       NAN_MSG_ID_SUBSCRIBE_SERVICE_CANCEL_RSP, NAN_MSG_ID_TRANSMIT_FOLLOWUP_RSP,
                       NAN_MSG_ID_STATS_RSP, NAN_MSG_ID_ENABLE_RSP, NAN_MSG_ID_DISABLE_RSP, NAN_MSG_ID_TCA_RSP,
                       NAN_MSG_ID_BEACON_SDF_RSP, NAN_MSG_ID_CAPABILITIES_RSP, NAN_MSG_ID_TESTMODE_RSP}
               then 1 else 0)))"

definition indication_of :: "nat \<Rightarrow> nat" where
  "indication_of i =
     (if i = NAN_MSG_ID_PUBLISH_REPLIED_IND then NAN_INDICATION_PUBLISH_REPLIED
      else if i = NAN_MSG_ID_PUBLISH_TERMINATED_IND then NAN_INDICATION_PUBLISH_TERMINATED
      else if i = NAN_MSG_ID_MATCH_IND then NAN_INDICATION_MATCH
      else if i = NAN_MSG_ID_MATCH_EXPIRED_IND then NAN_INDICATION_MATCH_EXPIRED
      else if i = NAN_MSG_ID_FOLLOWUP_IND then NAN_INDICATION_FOLLOWUP
      else if i = NAN_MSG_ID_SUBSCRIBE_TERMINATED_IND then NAN_INDICATION_SUBSCRIBE_TERMINATED
      else if i = NAN_MSG_ID_DE_EVENT_IND then NAN_INDICATION_DE_EVENT
      else if i = NAN_MSG_ID_DISABLE_IND then NAN_INDICATION_DISABLED
      else if i = NAN_MSG_ID_TCA_IND then NAN_INDICATION_TCA
      else if i = NAN_MSG_ID_BEACON_SDF_IND then NAN_INDICATION_BEACON_SDF_PAYLOAD
      else if i = NAN_MSG_ID_SELF_TRANSMIT_FOLLOWUP_IND then NAN_INDICATION_SELF_TRANSMIT_FOLLOWUP
      else if i = NAN_MSG_ID_RANGING_REQUEST_RECEVD_IND then NAN_INDICATION_RANGING_REQUEST_RECEIVED
      else if i = NAN_MSG_ID_RANGING_RESULT_IND then NAN_INDICATION_RANGING_RESULT
      else NAN_INDICATION_UNKNOWN)"

definition getIndicationType :: "bytes option \<Rightarrow> nat result" where
  "getIndicationType ev =
     (case ev of None \<Rightarrow> Inr NAN_INDICATION_UNKNOWN | Some b \<Rightarrow> bindE (msg_id_of b) (\<lambda>i. Inr (indication_of i)))"

section \<open>Translation\<close>

text \<open>
  The status (or reason) and the text that a response and the indications of a termination have in
  common.
\<close>

record nan_verdict =
  vd_status :: nat
  vd_nan_error :: string

text \<open>
  The text about the TLV that the firmware complains about: the loop finds it at index \<open>j\<close> of \<open>tlvToStr\<close>,
  and the code then takes the text at \<open>i\<close>, the index of the error in the other table.
\<close>

definition tlv_info :: "nan_codes \<Rightarrow> nat \<Rightarrow> nat \<Rightarrow> nat \<Rightarrow> string result" where
  "tlv_info k i firmwareErrorRecvd valueRcvd =
     (if firmwareErrorRecvd = NAN_I_STATUS_INVALID_TLV_TYPE
         \<and> find_row (\<lambda>(t, _). unat t = valueRcvd) tlvToStr < length tlvToStr
      then bindE (vec_at tlvToStr (int i)) (\<lambda>(_, s). Inr (strlcpy s (NAN_ERROR_STR_LEN k)))
      else Inr [])"

definition translate_response :: "nan_codes \<Rightarrow> nat \<Rightarrow> nat \<Rightarrow> nan_verdict \<Rightarrow> nan_verdict result" where
  "translate_response k firmwareErrorRecvd valueRcvd v =
     (let i = find_row (\<lambda>(_, fe, _). fe = firmwareErrorRecvd) (errorCodeTranslation k)
      in if i < length (errorCodeTranslation k)
         then case errorCodeTranslation k ! i of (st, _, s) \<Rightarrow>
              bindE (tlv_info k i firmwareErrorRecvd valueRcvd) (\<lambda>tlvInfo.
              Inr \<lparr>vd_status = st, vd_nan_error = strlcat (strlcpy s (NAN_ERROR_STR_LEN k)) tlvInfo (NAN_ERROR_STR_LEN k)\<rparr>)
         else Inr \<lparr>vd_status = NAN_STATUS_INTERNAL_FAILURE k,
                   vd_nan_error = strlcpy ''NAN Discovery engine failure'' (NAN_ERROR_STR_LEN k)\<rparr>)"

definition translate_reason :: "nan_codes \<Rightarrow> nat \<Rightarrow> nan_verdict \<Rightarrow> nan_verdict" where
  "translate_reason k firmwareErrorRecvd v =
     (let i = find_row (\<lambda>(_, fe, _). fe = firmwareErrorRecvd) (errorCodeTranslation k)
      in if i < length (errorCodeTranslation k)
         then case errorCodeTranslation k ! i of (st, _, s) \<Rightarrow>
              \<lparr>vd_status = st, vd_nan_error = strlcpy s (NAN_ERROR_STR_LEN k)\<rparr>
         else \<lparr>vd_status = NAN_STATUS_INTERNAL_FAILURE k,
               vd_nan_error = strlcpy ''NAN Discovery engine failure'' (NAN_ERROR_STR_LEN k)\<rparr>)"

definition NanErrorTranslation ::
  "'m libnl \<Rightarrow> nan_codes \<Rightarrow> bytes option \<Rightarrow> nat \<Rightarrow> nat \<Rightarrow> nan_verdict \<Rightarrow> bool \<Rightarrow> nan_verdict result" where
  "NanErrorTranslation nl k ev firmwareErrorRecvd valueRcvd v is_ndp_rsp =
     bindE (if is_ndp_rsp then Inr 1 else isNanResponse nl ev) (\<lambda>rsp.
     if rsp \<noteq> 0 then translate_response k firmwareErrorRecvd valueRcvd v
     else bindE (getIndicationType ev) (\<lambda>msg_id.
          if msg_id \<in> {NAN_INDICATION_PUBLISH_TERMINATED, NAN_INDICATION_SUBSCRIBE_TERMINATED,
                       NAN_INDICATION_SELF_TRANSMIT_FOLLOWUP, NAN_INDICATION_DISABLED}
          then Inr (translate_reason k firmwareErrorRecvd v) else Inr v))"

end
