(* ===== verification/NanService.thy ===== *)
theory NanService
  imports NanRequest
begin

text \<open>
  The other requests of \<open>wlan/wifi_hal/nan_req.cpp\<close>: publishing and subscribing a service, follow-up
  messages, statistics, threshold alerts, beacon payloads, capabilities and the test mode.
\<close>

section \<open>What publishing and subscribing share\<close>

record NanSecurityKeyInfo =
  ki_key_type :: nat
  ki_pmk_len :: nat
  ki_pmk :: bytes
  ki_passphrase_len :: nat
  ki_passphrase :: bytes

record NanSdeaCtrlParams =
  sd_config_nan_data_path :: nat
  sd_ndp_type :: nat
  sd_security_cfg :: nat
  sd_ranging_state :: nat
  sd_range_report :: nat
  sd_qos_cfg :: nat

record NanRangingCfg =
  rc_ranging_interval_msec :: nat
  rc_config_ranging_indications :: nat
  rc_distance_ingress_mm :: nat
  rc_distance_egress_mm :: nat

record NanRangeResponseCfg =
  rr_publish_id :: nat
  rr_requestor_instance_id :: nat
  rr_peer_addr :: bytes
  rr_ranging_response :: nat

definition uses_pmk :: "nan_hw \<Rightarrow> NanSecurityKeyInfo \<Rightarrow> bool" where
  "uses_pmk hw k \<longleftrightarrow> ki_key_type k = NAN_SECURITY_KEY_INPUT_PMK hw \<and> ki_pmk_len k = NAN_PMK_INFO_LEN hw"

definition uses_passphrase :: "nan_hw \<Rightarrow> NanSecurityKeyInfo \<Rightarrow> bool" where
  "uses_passphrase hw k \<longleftrightarrow> ki_key_type k = NAN_SECURITY_KEY_INPUT_PASSPHRASE hw
     \<and> NAN_SECURITY_MIN_PASSPHRASE_LEN hw \<le> ki_passphrase_len k
     \<and> ki_passphrase_len k \<le> NAN_SECURITY_MAX_PASSPHRASE_LEN hw"

definition key_len :: "nan_hw \<Rightarrow> NanSecurityKeyInfo \<Rightarrow> nat" where
  "key_len hw k =
     (if uses_pmk hw k then SIZEOF_TLV_HDR + NAN_PMK_INFO_LEN hw
      else if uses_passphrase hw k then SIZEOF_TLV_HDR + ki_passphrase_len k else 0)"

definition key_rows :: "nan_hw \<Rightarrow> NanSecurityKeyInfo \<Rightarrow> tlv_row list" where
  "key_rows hw k =
    [(uses_pmk hw k, NAN_TLV_TYPE_NAN_PMK, ki_pmk_len k, ki_pmk k),
     (\<not> uses_pmk hw k \<and> uses_passphrase hw k, NAN_TLV_TYPE_NAN_PASSPHRASE, ki_passphrase_len k, ki_passphrase k)]"

definition has_sdea :: "NanSdeaCtrlParams \<Rightarrow> bool" where
  "has_sdea s \<longleftrightarrow> sd_config_nan_data_path s \<noteq> 0 \<or> sd_security_cfg s \<noteq> 0 \<or> sd_ranging_state s \<noteq> 0
     \<or> sd_range_report s \<noteq> 0 \<or> sd_qos_cfg s \<noteq> 0"

text \<open>
  \<open>struct NanFWSdeaCtrlParams\<close> as the two requests fill it in; they differ in the bit \<open>range_report\<close>.
\<close>

definition sdea_bytes :: "nan_hw \<Rightarrow> NanSdeaCtrlParams \<Rightarrow> nat \<Rightarrow> bytes" where
  "sdea_bytes hw s range_report =
     le 4 (pack_bits
       [(1, 0), (1, 0),
        (1, if sd_config_nan_data_path s \<noteq> 0 then 1 else 0),
        (1, if sd_config_nan_data_path s \<noteq> 0
            then (if bit_set 0 (sd_ndp_type s) then NAN_DATA_PATH_MULTICAST_MSG hw else NAN_DATA_PATH_UNICAST_MSG hw)
            else 0),
        (1, 0),
        (1, sd_qos_cfg s), (1, sd_security_cfg s), (1, sd_ranging_state s),
        (1, 0), (1, 0), (6, 0), (1, range_report), (15, 0)])"

definition publish_range_report :: "nan_hw \<Rightarrow> NanSdeaCtrlParams \<Rightarrow> nat" where
  "publish_range_report hw s =
     (if sd_range_report s \<noteq> 0 \<and> drop_bit 1 (sd_range_report s AND NAN_ENABLE_RANGE_REPORT hw) \<noteq> 0 then 1 else 0)"

text \<open>In \<open>range_report & NAN_ENABLE_RANGE_REPORT >> 1\<close> the shift binds tighter than the mask.\<close>

definition subscribe_range_report :: "nan_hw \<Rightarrow> NanSdeaCtrlParams \<Rightarrow> nat" where
  "subscribe_range_report hw s =
     (if sd_range_report s \<noteq> 0 \<and> sd_range_report s AND drop_bit 1 (NAN_ENABLE_RANGE_REPORT hw) \<noteq> 0 then 1 else 0)"

definition has_ranging :: "NanRangingCfg \<Rightarrow> bool" where
  "has_ranging r \<longleftrightarrow> rc_ranging_interval_msec r \<noteq> 0 \<or> rc_config_ranging_indications r \<noteq> 0
     \<or> rc_distance_ingress_mm r \<noteq> 0 \<or> rc_distance_egress_mm r \<noteq> 0"

text \<open>\<open>struct NanFWRangeConfigParams\<close>\<close>

definition ranging_bytes :: "nan_hw \<Rightarrow> NanRangingCfg \<Rightarrow> bytes" where
  "ranging_bytes hw r =
     le 4 0 @ le 4 (rc_ranging_interval_msec r) @ le 4 (rc_config_ranging_indications r)
     @ le 4 (if rc_config_ranging_indications r AND NAN_RANGING_INDICATE_INGRESS_MET_MASK hw \<noteq> 0
             then rc_distance_ingress_mm r else 0)
     @ le 4 (if rc_config_ranging_indications r AND NAN_RANGING_INDICATE_EGRESS_MET_MASK hw \<noteq> 0
             then rc_distance_egress_mm r else 0)"

lemma length_sdea_bytes [simp, bytes_simps]: "length (sdea_bytes hw s n) = 4"
  by (simp add: sdea_bytes_def)

lemma length_ranging_bytes [simp, bytes_simps]: "length (ranging_bytes hw r) = 20"
  by (simp add: ranging_bytes_def)

text \<open>The flags of \<open>struct NanFWRangeReqMsg\<close>\<close>

definition range_flags :: "nan_hw \<Rightarrow> NanRangeResponseCfg \<Rightarrow> bytes" where
  "range_flags hw r =
     le 4 (pack_bits [(1, of_cond (rr_ranging_response r = NAN_RANGE_REQUEST_ACCEPT hw)),
                      (1, of_cond (rr_ranging_response r = NAN_RANGE_REQUEST_REJECT hw)),
                      (1, of_cond (rr_ranging_response r = NAN_RANGE_REQUEST_CANCEL hw)), (29, 0)])"

lemma length_range_flags [simp, bytes_simps]: "length (range_flags hw r) = 4"
  by (simp add: range_flags_def)

text \<open>The struct as \<open>putNanPublish\<close> fills it in, with the macro \<open>CHAR_ARRAY_TO_MAC_ADDR\<close>, \<dots>\<close>

definition publish_range_req :: "nan_hw \<Rightarrow> NanRangeResponseCfg \<Rightarrow> bytes result" where
  "publish_range_req hw r =
     bindE (char_array_to_fw (rr_peer_addr r)) (\<lambda>(lo, hi).
     Inr (le 4 (unat lo) @ le 4 (unat hi) @ le 4 (rr_publish_id r mod 2 ^ 16) @ range_flags hw r))"

text \<open>\<dots> and as \<open>putNanSubscribe\<close> does, with \<open>memcpy\<close> of the address over the two cleared words.\<close>

definition subscribe_range_req :: "nan_hw \<Rightarrow> NanRangeResponseCfg \<Rightarrow> bytes result" where
  "subscribe_range_req hw r =
     bindE (rd_bytes (rr_peer_addr r) 0 (NAN_MAC_ADDR_LEN hw)) (\<lambda>addr.
     bindE (wr_bytes (le 4 0 @ le 4 0 @ le 4 (rr_requestor_instance_id r) @ range_flags hw r) 0 addr) Inr)"

section \<open>Publish\<close>

record NanPublishRequest =
  pr_publish_id :: nat
  pr_ttl :: nat
  pr_period :: nat
  pr_publish_type :: nat
  pr_tx_type :: nat
  pr_publish_count :: nat
  pr_service_name_len :: nat
  pr_service_name :: bytes
  pr_publish_match_indicator :: nat
  pr_service_specific_info_len :: nat
  pr_service_specific_info :: bytes
  pr_rx_match_filter_len :: nat
  pr_rx_match_filter :: bytes
  pr_tx_match_filter_len :: nat
  pr_tx_match_filter :: bytes
  pr_rssi_threshold_flag :: nat
  pr_connmap :: nat
  pr_recv_indication_cfg :: nat
  pr_service_responder_policy :: bytes
  pr_cipher_type :: nat
  pr_key_info :: NanSecurityKeyInfo
  pr_sdea_params :: NanSdeaCtrlParams
  pr_ranging_cfg :: NanRangingCfg
  pr_sdea_service_specific_info_len :: nat
  pr_sdea_service_specific_info :: bytes
  pr_range_response_cfg :: NanRangeResponseCfg

text \<open>\<open>struct NanPublishServiceReqParams\<close>; the code does not assign \<open>ota_flag\<close>.\<close>

definition publish_params :: "NanPublishRequest \<Rightarrow> bytes" where
  "publish_params r =
     le 2 (pr_ttl r) @ le 2 (pr_period r)
     @ le 4 (pack_bits
         [(1, if bit_set 3 (pr_recv_indication_cfg r) then 0 else 1), (2, pr_publish_type r),
          (1, pr_tx_type r), (1, pr_rssi_threshold_flag r), (1, 0), (2, pr_publish_match_indicator r),
          (8, pr_publish_count r), (8, pr_connmap r),
          (1, of_cond (bit_set 0 (pr_recv_indication_cfg r))),
          (1, of_cond (bit_set 1 (pr_recv_indication_cfg r))),
          (1, of_cond (bit_set 2 (pr_recv_indication_cfg r))), (5, 0)])"

lemma length_publish_params [simp, bytes_simps]: "length (publish_params r) = 8"
  by (simp add: publish_params_def)

definition publish_has_range :: "nan_hw \<Rightarrow> NanPublishRequest \<Rightarrow> bool" where
  "publish_has_range hw r \<longleftrightarrow> rr_publish_id (pr_range_response_cfg r) \<noteq> 0
     \<or> rr_ranging_response (pr_range_response_cfg r) \<ge> NAN_RANGE_REQUEST_ACCEPT hw"

definition publish_len :: "nan_hw \<Rightarrow> NanPublishRequest \<Rightarrow> nat" where
  "publish_len hw r =
     header_size + 8
     + opt_len (pr_service_name_len r \<noteq> 0) (pr_service_name_len r)
     + opt_len (pr_service_specific_info_len r \<noteq> 0) (pr_service_specific_info_len r)
     + opt_len (pr_rx_match_filter_len r \<noteq> 0) (pr_rx_match_filter_len r)
     + opt_len (pr_tx_match_filter_len r \<noteq> 0) (pr_tx_match_filter_len r)
     + (SIZEOF_TLV_HDR + sizeof_NanServiceAcceptPolicy hw)
     + opt_len (pr_cipher_type r \<noteq> 0) 4
     + opt_len (has_sdea (pr_sdea_params r)) 4
     + opt_len (has_ranging (pr_ranging_cfg r)) 20
     + opt_len (publish_has_range hw r) 16
     + opt_len (pr_sdea_service_specific_info_len r \<noteq> 0) (pr_sdea_service_specific_info_len r)
     + key_len hw (pr_key_info r)"

definition publish_rows :: "nan_hw \<Rightarrow> NanPublishRequest \<Rightarrow> tlv_row list" where
  "publish_rows hw r =
    [(pr_service_name_len r \<noteq> 0, NAN_TLV_TYPE_SERVICE_NAME, pr_service_name_len r, pr_service_name r),
     (pr_service_specific_info_len r \<noteq> 0, NAN_TLV_TYPE_SERVICE_SPECIFIC_INFO, pr_service_specific_info_len r,
        pr_service_specific_info r),
     (pr_rx_match_filter_len r \<noteq> 0, NAN_TLV_TYPE_RX_MATCH_FILTER, pr_rx_match_filter_len r, pr_rx_match_filter r),
     (pr_tx_match_filter_len r \<noteq> 0, NAN_TLV_TYPE_TX_MATCH_FILTER, pr_tx_match_filter_len r, pr_tx_match_filter r),
     (True, NAN_TLV_TYPE_NAN_SERVICE_ACCEPT_POLICY, sizeof_NanServiceAcceptPolicy hw, pr_service_responder_policy r),
     (pr_cipher_type r \<noteq> 0, NAN_TLV_TYPE_NAN_CSID, 4, le 4 (pr_cipher_type r))]
    @ key_rows hw (pr_key_info r) @
    [(has_sdea (pr_sdea_params r), NAN_TLV_TYPE_SDEA_CTRL_PARAMS, 4,
        sdea_bytes hw (pr_sdea_params r) (publish_range_report hw (pr_sdea_params r))),
     (has_ranging (pr_ranging_cfg r), NAN_TLV_TYPE_NAN_RANGING_CFG, 20, ranging_bytes hw (pr_ranging_cfg r)),
     (pr_sdea_service_specific_info_len r \<noteq> 0, NAN_TLV_TYPE_SDEA_SERVICE_SPECIFIC_INFO,
        pr_sdea_service_specific_info_len r, pr_sdea_service_specific_info r)]"

definition publish_body :: "nan_hw \<Rightarrow> NanPublishRequest \<Rightarrow> nat \<times> bytes \<Rightarrow> (nat \<times> bytes) result" where
  "publish_body hw r s =
     bindE (put_rows (publish_rows hw r) s) (\<lambda>s.
     if publish_has_range hw r
     then bindE (publish_range_req hw (pr_range_response_cfg r)) (\<lambda>v.
          put_rows [(True, NAN_TLV_TYPE_NAN20_RANGING_REQUEST, 16, v)] s)
     else Inr s)"

definition putNanPublish ::
  "'m libnl \<Rightarrow> nan_hw \<Rightarrow> nat \<Rightarrow> NanPublishRequest option \<Rightarrow> 'm WifiVendorCommand
     \<Rightarrow> (WifiError \<times> 'm WifiVendorCommand) result" where
  "putNanPublish nl hw tid pReq c =
     (case pReq of
        None \<Rightarrow> Inr (WIFI_ERROR_INVALID_ARGS, cleanup c)
      | Some r \<Rightarrow>
          let message_len = publish_len hw r;
              h = (if pr_publish_id r = 0 then 65535 else pr_publish_id r)
          in put_request nl message_len (request_header NAN_MSG_ID_PUBLISH_SERVICE_REQ message_len h tid)
               (publish_params r) (publish_body hw r) c)"

definition putNanPublishCancel ::
  "'m libnl \<Rightarrow> nat \<Rightarrow> nat option \<Rightarrow> 'm WifiVendorCommand \<Rightarrow> (WifiError \<times> 'm WifiVendorCommand) result" where
  "putNanPublishCancel nl tid publish_id c =
     (case publish_id of
        None \<Rightarrow> Inr (WIFI_ERROR_INVALID_ARGS, cleanup c)
      | Some i \<Rightarrow> put_request nl header_size
                    (request_header NAN_MSG_ID_PUBLISH_SERVICE_CANCEL_REQ header_size i tid) [] Inr c)"

section \<open>Subscribe\<close>

record NanSubscribeRequest =
  sr_subscribe_id :: nat
  sr_ttl :: nat
  sr_period :: nat
  sr_subscribe_type :: nat
  sr_serviceResponseFilter :: nat
  sr_serviceResponseInclude :: nat
  sr_useServiceResponseFilter :: nat
  sr_ssiRequiredForMatchIndication :: nat
  sr_subscribe_match_indicator :: nat
  sr_subscribe_count :: nat
  sr_service_name_len :: nat
  sr_service_name :: bytes
  sr_service_specific_info_len :: nat
  sr_service_specific_info :: bytes
  sr_rx_match_filter_len :: nat
  sr_rx_match_filter :: bytes
  sr_tx_match_filter_len :: nat
  sr_tx_match_filter :: bytes
  sr_rssi_threshold_flag :: nat
  sr_connmap :: nat
  sr_num_intf_addr_present :: nat
  sr_intf_addr :: "bytes list"
  sr_recv_indication_cfg :: nat
  sr_cipher_type :: nat
  sr_key_info :: NanSecurityKeyInfo
  sr_sdea_params :: NanSdeaCtrlParams
  sr_ranging_cfg :: NanRangingCfg
  sr_sdea_service_specific_info_len :: nat
  sr_sdea_service_specific_info :: bytes
  sr_range_response_cfg :: NanRangeResponseCfg

text \<open>\<open>struct NanSubscribeServiceReqParams\<close>\<close>

definition subscribe_params :: "NanSubscribeRequest \<Rightarrow> bytes" where
  "subscribe_params r =
     le 2 (sr_ttl r) @ le 2 (sr_period r)
     @ le 4 (pack_bits
         [(1, sr_subscribe_type r), (1, sr_serviceResponseFilter r), (1, sr_serviceResponseInclude r),
          (1, sr_useServiceResponseFilter r), (1, sr_ssiRequiredForMatchIndication r),
          (2, sr_subscribe_match_indicator r), (1, 0), (8, sr_subscribe_count r),
          (1, sr_rssi_threshold_flag r), (1, 0),
          (1, of_cond (bit_set 0 (sr_recv_indication_cfg r))),
          (1, of_cond (bit_set 1 (sr_recv_indication_cfg r))),
          (1, of_cond (bit_set 2 (sr_recv_indication_cfg r))), (3, 0), (8, sr_connmap r)])"

lemma length_subscribe_params [simp, bytes_simps]: "length (subscribe_params r) = 8"
  by (simp add: subscribe_params_def)

definition subscribe_len :: "nan_hw \<Rightarrow> NanSubscribeRequest \<Rightarrow> nat" where
  "subscribe_len hw r =
     header_size + 8
     + opt_len (sr_service_name_len r \<noteq> 0) (sr_service_name_len r)
     + opt_len (sr_service_specific_info_len r \<noteq> 0) (sr_service_specific_info_len r)
     + opt_len (sr_rx_match_filter_len r \<noteq> 0) (sr_rx_match_filter_len r)
     + opt_len (sr_tx_match_filter_len r \<noteq> 0) (sr_tx_match_filter_len r)
     + opt_len (sr_cipher_type r \<noteq> 0) 4
     + opt_len (has_sdea (sr_sdea_params r)) 4
     + opt_len (has_ranging (sr_ranging_cfg r)) 20
     + opt_len (rr_requestor_instance_id (sr_range_response_cfg r) \<noteq> 0
                \<or> rr_ranging_response (sr_range_response_cfg r) \<noteq> 0) 16
     + opt_len (sr_sdea_service_specific_info_len r \<noteq> 0) (sr_sdea_service_specific_info_len r)
     + sr_num_intf_addr_present r * (SIZEOF_TLV_HDR + NAN_MAC_ADDR_LEN hw)
     + key_len hw (sr_key_info r)"

definition subscribe_rows1 :: "NanSubscribeRequest \<Rightarrow> tlv_row list" where
  "subscribe_rows1 r =
    [(sr_service_name_len r \<noteq> 0, NAN_TLV_TYPE_SERVICE_NAME, sr_service_name_len r, sr_service_name r),
     (sr_service_specific_info_len r \<noteq> 0, NAN_TLV_TYPE_SERVICE_SPECIFIC_INFO, sr_service_specific_info_len r,
        sr_service_specific_info r),
     (sr_rx_match_filter_len r \<noteq> 0, NAN_TLV_TYPE_RX_MATCH_FILTER, sr_rx_match_filter_len r, sr_rx_match_filter r),
     (sr_tx_match_filter_len r \<noteq> 0, NAN_TLV_TYPE_TX_MATCH_FILTER, sr_tx_match_filter_len r, sr_tx_match_filter r)]"

definition subscribe_addrs :: "NanSubscribeRequest \<Rightarrow> bytes list result" where
  "subscribe_addrs r =
     (if sr_num_intf_addr_present r \<le> length (sr_intf_addr r)
      then Inr (take (sr_num_intf_addr_present r) (sr_intf_addr r)) else Inl UB)"

definition subscribe_rows2 :: "nan_hw \<Rightarrow> NanSubscribeRequest \<Rightarrow> tlv_row list" where
  "subscribe_rows2 hw r =
    [(sr_cipher_type r \<noteq> 0, NAN_TLV_TYPE_NAN_CSID, 4, le 4 (sr_cipher_type r))]
    @ key_rows hw (sr_key_info r) @
    [(has_sdea (sr_sdea_params r), NAN_TLV_TYPE_SDEA_CTRL_PARAMS, 4,
        sdea_bytes hw (sr_sdea_params r) (subscribe_range_report hw (sr_sdea_params r))),
     (has_ranging (sr_ranging_cfg r), NAN_TLV_TYPE_NAN_RANGING_CFG, 20, ranging_bytes hw (sr_ranging_cfg r)),
     (sr_sdea_service_specific_info_len r \<noteq> 0, NAN_TLV_TYPE_SDEA_SERVICE_SPECIFIC_INFO,
        sr_sdea_service_specific_info_len r, sr_sdea_service_specific_info r)]"

definition subscribe_has_range :: "nan_hw \<Rightarrow> NanSubscribeRequest \<Rightarrow> bool" where
  "subscribe_has_range hw r \<longleftrightarrow> rr_requestor_instance_id (sr_range_response_cfg r) \<noteq> 0
     \<or> rr_ranging_response (sr_range_response_cfg r) \<ge> NAN_RANGE_REQUEST_ACCEPT hw"

definition subscribe_body :: "nan_hw \<Rightarrow> NanSubscribeRequest \<Rightarrow> nat \<times> bytes \<Rightarrow> (nat \<times> bytes) result" where
  "subscribe_body hw r s =
     bindE (put_rows (subscribe_rows1 r) s) (\<lambda>s.
     bindE (subscribe_addrs r) (\<lambda>addrs.
     bindE (put_rows (map (\<lambda>a. (True, NAN_TLV_TYPE_MAC_ADDRESS, NAN_MAC_ADDR_LEN hw, a)) addrs) s) (\<lambda>s.
     bindE (put_rows (subscribe_rows2 hw r) s) (\<lambda>s.
     if subscribe_has_range hw r
     then bindE (subscribe_range_req hw (sr_range_response_cfg r)) (\<lambda>v.
          put_rows [(True, NAN_TLV_TYPE_NAN20_RANGING_REQUEST, 16, v)] s)
     else Inr s))))"

definition putNanSubscribe ::
  "'m libnl \<Rightarrow> nan_hw \<Rightarrow> nat \<Rightarrow> NanSubscribeRequest option \<Rightarrow> 'm WifiVendorCommand
     \<Rightarrow> (WifiError \<times> 'm WifiVendorCommand) result" where
  "putNanSubscribe nl hw tid pReq c =
     (case pReq of
        None \<Rightarrow> Inr (WIFI_ERROR_INVALID_ARGS, cleanup c)
      | Some r \<Rightarrow>
          let message_len = subscribe_len hw r;
              h = (if sr_subscribe_id r = 0 then 65535 else sr_subscribe_id r)
          in put_request nl message_len (request_header NAN_MSG_ID_SUBSCRIBE_SERVICE_REQ message_len h tid)
               (subscribe_params r) (subscribe_body hw r) c)"

definition putNanSubscribeCancel ::
  "'m libnl \<Rightarrow> nat \<Rightarrow> nat option \<Rightarrow> 'm WifiVendorCommand \<Rightarrow> (WifiError \<times> 'm WifiVendorCommand) result" where
  "putNanSubscribeCancel nl tid subscribe_id c =
     (case subscribe_id of
        None \<Rightarrow> Inr (WIFI_ERROR_INVALID_ARGS, cleanup c)
      | Some i \<Rightarrow> put_request nl header_size
                    (request_header NAN_MSG_ID_SUBSCRIBE_SERVICE_CANCEL_REQ header_size i tid) [] Inr c)"

section \<open>Follow-up messages\<close>

record NanTransmitFollowupRequest =
  tf_publish_subscribe_id :: nat
  tf_requestor_instance_id :: nat
  tf_addr :: bytes
  tf_priority :: nat
  tf_dw_or_faw :: nat
  tf_service_specific_info_len :: nat
  tf_service_specific_info :: bytes
  tf_recv_indication_cfg :: nat
  tf_sdea_service_specific_info_len :: nat
  tf_sdea_service_specific_info :: bytes

text \<open>\<open>struct NanTransmitFollowupReqParams\<close>\<close>

definition followup_params :: "nan_hw \<Rightarrow> NanTransmitFollowupRequest \<Rightarrow> bytes" where
  "followup_params hw r =
     le 4 (tf_requestor_instance_id r)
     @ le 4 (pack_bits [(4, if tf_priority r \<noteq> NAN_TX_PRIORITY_HIGH hw then 1 else 2), (1, tf_dw_or_faw r),
                        (1, of_cond (bit_set 0 (tf_recv_indication_cfg r))), (26, 0)])"

lemma length_followup_params [simp, bytes_simps]: "length (followup_params hw r) = 8"
  by (simp add: followup_params_def)

definition followup_len :: "NanTransmitFollowupRequest \<Rightarrow> nat" where
  "followup_len r =
     header_size + 8
     + opt_len (tf_service_specific_info_len r \<noteq> 0) (tf_service_specific_info_len r)
     + opt_len (tf_sdea_service_specific_info_len r \<noteq> 0) (tf_sdea_service_specific_info_len r)
     + (SIZEOF_TLV_HDR + length (tf_addr r))"

definition followup_rows :: "NanTransmitFollowupRequest \<Rightarrow> tlv_row list" where
  "followup_rows r =
    [(True, NAN_TLV_TYPE_MAC_ADDRESS, length (tf_addr r), tf_addr r),
     (tf_service_specific_info_len r \<noteq> 0, NAN_TLV_TYPE_SERVICE_SPECIFIC_INFO, tf_service_specific_info_len r,
        tf_service_specific_info r),
     (tf_sdea_service_specific_info_len r \<noteq> 0, NAN_TLV_TYPE_SDEA_SERVICE_SPECIFIC_INFO,
        tf_sdea_service_specific_info_len r, tf_sdea_service_specific_info r)]"

definition putNanTransmitFollowup ::
  "'m libnl \<Rightarrow> nan_hw \<Rightarrow> nat \<Rightarrow> NanTransmitFollowupRequest option \<Rightarrow> 'm WifiVendorCommand
     \<Rightarrow> (WifiError \<times> 'm WifiVendorCommand) result" where
  "putNanTransmitFollowup nl hw tid pReq c =
     (case pReq of
        None \<Rightarrow> Inr (WIFI_ERROR_INVALID_ARGS, cleanup c)
      | Some r \<Rightarrow>
          put_request nl (followup_len r)
            (request_header NAN_MSG_ID_TRANSMIT_FOLLOWUP_REQ (followup_len r) (tf_publish_subscribe_id r) tid)
            (followup_params hw r) (put_rows (followup_rows r)) c)"

section \<open>Statistics\<close>

record NanStatsRequest =
  st_stats_type :: nat
  st_clear :: nat

text \<open>\<open>struct NanStatsReqParams\<close>\<close>

definition stats_params :: "NanStatsRequest \<Rightarrow> bytes" where
  "stats_params r = le 4 (pack_bits [(8, st_stats_type r), (1, st_clear r), (23, 0)])"

definition putNanStats ::
  "'m libnl \<Rightarrow> nat \<Rightarrow> NanStatsRequest option \<Rightarrow> 'm WifiVendorCommand
     \<Rightarrow> (WifiError \<times> 'm WifiVendorCommand) result" where
  "putNanStats nl tid pReq c =
     (case pReq of
        None \<Rightarrow> Inr (WIFI_ERROR_INVALID_ARGS, cleanup c)
      | Some r \<Rightarrow> put_request nl (header_size + 4) (request_header NAN_MSG_ID_STATS_REQ (header_size + 4) 0 tid)
                    (stats_params r) Inr c)"

section \<open>Threshold crossing alerts\<close>

record NanTCARequest =
  tca_type :: nat
  tca_rising_direction_evt_flag :: nat
  tca_falling_direction_evt_flag :: nat
  tca_clear :: nat
  tca_threshold :: nat

definition tca_value :: "NanTCARequest \<Rightarrow> bytes" where
  "tca_value r =
     le 4 ((tca_rising_direction_evt_flag r AND 1) OR push_bit 1 (tca_falling_direction_evt_flag r AND 1)
           OR push_bit 2 (tca_clear r AND 1))
     @ le 4 (tca_threshold r)"

text \<open>
  The type is only looked at once the message has been allocated and its header written.
\<close>

definition putNanTCA ::
  "'m libnl \<Rightarrow> nan_hw \<Rightarrow> nat \<Rightarrow> NanTCARequest option \<Rightarrow> 'm WifiVendorCommand
     \<Rightarrow> (WifiError \<times> 'm WifiVendorCommand) result" where
  "putNanTCA nl hw tid pReq c =
     (case pReq of
        None \<Rightarrow> Inr (WIFI_ERROR_INVALID_ARGS, cleanup c)
      | Some r \<Rightarrow>
          let message_len = header_size + (SIZEOF_TLV_HDR + 8)
          in if \<not> nl_malloc nl message_len then Inr (WIFI_ERROR_OUT_OF_MEMORY, cleanup c)
             else if tca_type r = NAN_TCA_ID_CLUSTER_SIZE hw
             then put_request nl message_len (request_header NAN_MSG_ID_TCA_REQ message_len 0 tid) []
                    (put_rows [(True, NAN_TLV_TYPE_CLUSTER_SIZE_REQ, 8, tca_value r)]) c
             else Inr (WIFI_ERROR_INVALID_ARGS, cleanup c))"

section \<open>Beacon payload\<close>

record NanBeaconSdfPayloadRequest =
  vsa_payload_transmit_flag :: nat
  vsa_tx_in_discovery_beacon :: nat
  vsa_tx_in_sync_beacon :: nat
  vsa_tx_in_service_discovery :: nat
  vsa_vendor_oui :: nat
  vsa_vsa_len :: nat
  vsa_vsa :: bytes

definition vsa_word :: "NanBeaconSdfPayloadRequest \<Rightarrow> nat" where
  "vsa_word r =
     (vsa_payload_transmit_flag r AND 1) OR push_bit 1 (vsa_tx_in_discovery_beacon r AND 1)
     OR push_bit 2 (vsa_tx_in_sync_beacon r AND 1) OR push_bit 3 (vsa_tx_in_service_discovery r AND 1)
     OR push_bit 8 (vsa_vendor_oui r AND 0xFFFFFF)"

definition putNanBeaconSdfPayload ::
  "'m libnl \<Rightarrow> nat \<Rightarrow> NanBeaconSdfPayloadRequest option \<Rightarrow> 'm WifiVendorCommand
     \<Rightarrow> (WifiError \<times> 'm WifiVendorCommand) result" where
  "putNanBeaconSdfPayload nl tid pReq c =
     (case pReq of
        None \<Rightarrow> Inr (WIFI_ERROR_INVALID_ARGS, cleanup c)
      | Some r \<Rightarrow>
          let message_len = header_size + SIZEOF_TLV_HDR + 4 + vsa_vsa_len r;
              tlv_len = 4 + vsa_vsa_len r
          in if \<not> nl_malloc nl message_len then Inr (WIFI_ERROR_OUT_OF_MEMORY, cleanup c)
             else if \<not> nl_malloc nl tlv_len then Inr (WIFI_ERROR_OUT_OF_MEMORY, cleanup c)
             else bindE (rd_bytes (vsa_vsa r) 0 (vsa_vsa_len r)) (\<lambda>vsa.
                  put_request nl message_len (request_header NAN_MSG_ID_BEACON_SDF_REQ message_len 0 tid) []
                    (put_rows [(True, NAN_TLV_TYPE_VENDOR_SPECIFIC_ATTRIBUTE_TRANSMIT, tlv_len,
                                le 4 (vsa_word r) @ vsa)]) c))"

section \<open>Capabilities and test mode\<close>

definition putNanCapabilities ::
  "'m libnl \<Rightarrow> nat \<Rightarrow> 'm WifiVendorCommand \<Rightarrow> (WifiError \<times> 'm WifiVendorCommand) result" where
  "putNanCapabilities nl tid c =
     put_request nl header_size (request_header NAN_MSG_ID_CAPABILITIES_REQ header_size 0 tid) [] Inr c"

text \<open>\<open>struct NanDebugParams\<close>: the command and a block of \<open>NAN_MAX_DEBUG_MESSAGE_DATA_LEN\<close> bytes\<close>

definition NAN_MAX_DEBUG_MESSAGE_DATA_LEN :: nat where [simp]: "NAN_MAX_DEBUG_MESSAGE_DATA_LEN = 100"

record NanDebugParams =
  dbg_cmd :: nat
  dbg_debug_cmd_data :: bytes

text \<open>
  The log dumps \<open>debug_msg_length\<close> bytes (a 16-bit argument) of the block, and the TLV carries as many of
  the whole struct.
\<close>

definition putNanDebugCommand ::
  "'m libnl \<Rightarrow> NanDebugParams \<Rightarrow> nat \<Rightarrow> 'm WifiVendorCommand \<Rightarrow> (WifiError \<times> 'm WifiVendorCommand) result" where
  "putNanDebugCommand nl debug debug_msg_length c =
     (let message_len = header_size + (SIZEOF_TLV_HDR + debug_msg_length)
      in if \<not> nl_malloc nl message_len then Inr (WIFI_ERROR_OUT_OF_MEMORY, cleanup c)
         else bindE (rd_bytes (dbg_debug_cmd_data debug) 0 (debug_msg_length mod 2 ^ 16)) (\<lambda>_.
              put_request nl message_len (request_header NAN_MSG_ID_TESTMODE_REQ message_len 0 0) []
                (put_rows [(True, NAN_TLV_TYPE_TESTMODE_GENERIC_CMD, debug_msg_length,
                            le 4 (dbg_cmd debug) @ dbg_debug_cmd_data debug)]) c))"

end
