(* ===== verification/NanIndication.thy ===== *)
theory NanIndication
  imports NanError NanService
begin

text \<open>
  The indications of the firmware (\<open>wlan/wifi_hal/nan_ind.cpp\<close>): the parsers \<open>getNan...\<close>, which fill in
  the event structures of the framework, and \<open>handleNanIndication\<close>, which picks the parser and calls
  the handler.

  The event structures are declared in the platform's header. As with the requests, an array of such a
  structure is the list of its bytes, so that \<open>sizeof\<close> is its length; the structures as \<open>memset\<close> leaves
  them, with arrays of the platform's sizes, are the fields of the record \<open>nan_events\<close>. A parser gets the
  message \<open>ev\<close> and its length \<open>n\<close>, which are the fields \<open>mNanVendorEvent\<close> and \<open>mNanDataLen\<close>.
\<close>

section \<open>Copying a value\<close>

text \<open>
  \<open>if (outputTlv.length > cap) outputTlv.length = cap; memcpy(dst, outputTlv.value, outputTlv.length)\<close>,
  with the length that remains.
\<close>

definition copy_tlv :: "nat \<Rightarrow> bytes \<Rightarrow> NanTlv \<Rightarrow> (bytes \<times> nat) result" where
  "copy_tlv cap dst t =
     (let n = min (unat (nt_length t)) cap in bindE (memcpy dst (nt_value t) n) (\<lambda>d. Inr (d, n)))"

text \<open>The frequent case in which the bound is the size of the array.\<close>

definition copy_array :: "bytes \<Rightarrow> NanTlv \<Rightarrow> bytes result" where
  "copy_array dst t = bindE (copy_tlv (length dst) dst t) (\<lambda>(d, _). Inr d)"

text \<open>\<open>&outputTlv.value[i]\<close> as the source of a copy.\<close>

definition value_from :: "nat \<Rightarrow> NanTlv \<Rightarrow> bytes option" where
  "value_from i t = map_option (drop i) (nt_value t)"

text \<open>The TLVs of a message behind its fixed part of \<open>p\<close> bytes; \<open>n\<close> is the length of the message.\<close>

definition read_message :: "(NanTlv \<Rightarrow> 's \<Rightarrow> 's result) \<Rightarrow> bytes \<Rightarrow> nat \<Rightarrow> nat \<Rightarrow> 's \<Rightarrow> 's result" where
  "read_message f ev n p s = tlv_loop f ev p (int n - int p) s"

section \<open>Publish replied\<close>

record NanPublishRepliedInd =
  pri_requestor_instance_id :: nat
  pri_addr :: bytes
  pri_rssi_value :: bytes

definition publish_replied_tlv :: "NanTlv \<Rightarrow> NanPublishRepliedInd \<Rightarrow> NanPublishRepliedInd result" where
  "publish_replied_tlv t e =
     (if nt_type t = NAN_TLV_TYPE_MAC_ADDRESS then
        bindE (copy_array (pri_addr e) t) (\<lambda>d. Inr (e\<lparr>pri_addr := d\<rparr>))
      else if nt_type t = NAN_TLV_TYPE_RECEIVED_RSSI_VALUE then
        bindE (copy_array (pri_rssi_value e) t) (\<lambda>d. Inr (e\<lparr>pri_rssi_value := d\<rparr>))
      else Inr e)"

text \<open>
  The TLVs start behind the handle, at offset 12, and the loop counts down from the length less the
  header alone.
\<close>

definition getNanPublishReplied ::
  "bytes option \<Rightarrow> nat \<Rightarrow> NanPublishRepliedInd \<Rightarrow> (WifiError \<times> NanPublishRepliedInd) result" where
  "getNanPublishReplied ev n e =
     (case ev of
        None \<Rightarrow> Inr (WIFI_ERROR_INVALID_ARGS, e)
      | Some b \<Rightarrow>
          bindE (rd_num 4 b header_size) (\<lambda>h.
          bindE (tlv_loop publish_replied_tlv b (header_size + 4) (int n - int header_size)
                   (e\<lparr>pri_requestor_instance_id := h, pri_rssi_value := replicate (length (pri_rssi_value e)) 0\<rparr>)) (\<lambda>e.
          Inr (WIFI_SUCCESS, e))))"

section \<open>Terminations\<close>

record NanTerminatedInd =
  ti_id :: nat
  ti_verdict :: nan_verdict

text \<open>
  \<open>NanPublishTerminatedInd\<close>, \<open>NanSubscribeTerminatedInd\<close>, \<open>NanTransmitFollowupInd\<close> (and \<open>NanDisabledInd\<close>
  without the identifier): the code writes reason and text of the first three through a pointer to the
  first type.
\<close>

definition get_terminated ::
  "'m libnl \<Rightarrow> nan_codes \<Rightarrow> bytes option \<Rightarrow> nat \<Rightarrow> nat \<Rightarrow> NanTerminatedInd \<Rightarrow> (WifiError \<times> NanTerminatedInd) result" where
  "get_terminated nl k ev id_at reason_len e =
     (case ev of
        None \<Rightarrow> Inr (WIFI_ERROR_INVALID_ARGS, e)
      | Some b \<Rightarrow>
          bindE (rd_num 2 b id_at) (\<lambda>i.
          bindE (rd_num reason_len b header_size) (\<lambda>reason.
          bindE (NanErrorTranslation nl k ev reason 0 (ti_verdict e) False) (\<lambda>v.
          Inr (WIFI_SUCCESS, \<lparr>ti_id = i, ti_verdict = v\<rparr>)))))"

text \<open>The handle is at offset 4 of the header, the transaction at offset 6.\<close>

definition getNanPublishTerminated where
  "getNanPublishTerminated nl k ev e = get_terminated nl k ev 4 2 e"

definition getNanSubscribeTerminated where
  "getNanSubscribeTerminated nl k ev e = get_terminated nl k ev 4 2 e"

definition getNanTransmitFollowupInd where
  "getNanTransmitFollowupInd nl k ev e = get_terminated nl k ev 6 4 e"

definition getNanDisabled ::
  "'m libnl \<Rightarrow> nan_codes \<Rightarrow> bytes option \<Rightarrow> nan_verdict \<Rightarrow> (WifiError \<times> nan_verdict) result" where
  "getNanDisabled nl k ev v =
     (case ev of
        None \<Rightarrow> Inr (WIFI_ERROR_INVALID_ARGS, v)
      | Some b \<Rightarrow>
          bindE (rd_num 2 b header_size) (\<lambda>reason.
          bindE (NanErrorTranslation nl k ev reason 0 v False) (\<lambda>v. Inr (WIFI_SUCCESS, v))))"

section \<open>What a match carries\<close>

record NanReceivePostConnectivityCapability =
  rx_is_mesh_supported :: nat
  rx_is_ibss_supported :: nat
  rx_wlan_infra_field :: nat
  rx_is_tdls_supported :: nat
  rx_is_wfds_supported :: nat
  rx_is_wfd_supported :: nat

definition getNanReceivePostConnectivityCapabilityVal ::
  "bytes option \<Rightarrow> NanReceivePostConnectivityCapability \<Rightarrow> NanReceivePostConnectivityCapability result" where
  "getNanReceivePostConnectivityCapabilityVal pInValue c =
     (case pInValue of
        None \<Rightarrow> Inr c
      | Some v \<Rightarrow> bindE (rd8 v 0) (\<lambda>x.
          Inr \<lparr>rx_is_mesh_supported = unat (x AND push_bit 5 1), rx_is_ibss_supported = unat (x AND push_bit 4 1),
               rx_wlan_infra_field = unat (x AND push_bit 3 1), rx_is_tdls_supported = unat (x AND push_bit 2 1),
               rx_is_wfds_supported = unat (x AND push_bit 1 1), rx_is_wfd_supported = unat (x AND 1)\<rparr>))"

definition getNanReceiveSdeaCtrlParams ::
  "nan_hw \<Rightarrow> bytes option \<Rightarrow> NanSdeaCtrlParams \<Rightarrow> NanSdeaCtrlParams result" where
  "getNanReceiveSdeaCtrlParams hw pInValue s =
     (case pInValue of
        None \<Rightarrow> Inr s
      | Some v \<Rightarrow> bindE (rd8 v 0) (\<lambda>x.
          Inr (s\<lparr>sd_security_cfg := (if bit x 6 then NAN_DP_CONFIG_SECURITY hw else NAN_DP_CONFIG_NO_SECURITY hw),
                 sd_ranging_state := (if bit x 7 then NAN_RANGING_ENABLE hw else NAN_RANGING_DISABLE hw)\<rparr>)))"

record NanReceivePostDiscovery =
  rd_type :: nat
  rd_role :: nat
  rd_duration :: nat
  rd_mapid :: nat
  rd_avail_interval_bitmap :: bytes
  rd_addr :: bytes
  rd_mesh_id_len :: nat
  rd_mesh_id :: bytes
  rd_infrastructure_ssid_len :: nat
  rd_infrastructure_ssid_val :: bytes

definition post_discovery_tlv :: "NanTlv \<Rightarrow> NanReceivePostDiscovery \<Rightarrow> NanReceivePostDiscovery result" where
  "post_discovery_tlv t e =
     (if nt_type t = NAN_TLV_TYPE_MAC_ADDRESS then
        bindE (copy_array (rd_addr e) t) (\<lambda>d. Inr (e\<lparr>rd_addr := d\<rparr>))
      else if nt_type t = NAN_TLV_TYPE_WLAN_MESH_ID then
        bindE (copy_tlv (length (rd_mesh_id e)) (rd_mesh_id e) t) (\<lambda>(d, n).
          Inr (e\<lparr>rd_mesh_id := d, rd_mesh_id_len := n\<rparr>))
      else if nt_type t = NAN_TLV_TYPE_WLAN_INFRA_SSID then
        bindE (copy_tlv (length (rd_infrastructure_ssid_val e)) (rd_infrastructure_ssid_val e) t) (\<lambda>(d, n).
          Inr (e\<lparr>rd_infrastructure_ssid_val := d, rd_infrastructure_ssid_len := n\<rparr>))
      else Inr e)"

text \<open>The result is \<open>-1\<close> and the structure untouched, or 0 and it is filled in.\<close>

definition getNanReceivePostDiscoveryVal ::
  "bytes option \<Rightarrow> nat \<Rightarrow> NanReceivePostDiscovery \<Rightarrow> (int \<times> NanReceivePostDiscovery) result" where
  "getNanReceivePostDiscoveryVal pInValue len e =
     (case pInValue of
        None \<Rightarrow> Inr (- 1, e)
      | Some v \<Rightarrow>
          if len \<le> 8 then Inr (- 1, e)
          else bindE (rd8 v 0) (\<lambda>v0. bindE (rd8 v 1) (\<lambda>v1. bindE (rd8 v 2) (\<lambda>v2.
               bindE (memcpy (rd_avail_interval_bitmap e) (Some (drop 4 v)) (length (rd_avail_interval_bitmap e))) (\<lambda>bm.
               bindE (tlv_loop post_discovery_tlv v 8 (int len - 8)
                 (e\<lparr>rd_type := unat v0, rd_role := unat v1, rd_duration := unat (v2 AND 3),
                    rd_mapid := unat (drop_bit 2 v2 AND 15), rd_avail_interval_bitmap := bm\<rparr>)) (\<lambda>e.
               Inr (0, e)))))))"

text \<open>One channel of the map; \<open>pFac\<close> points to the array of the event.\<close>

definition get_fam_chan ::
  "bytes \<Rightarrow> nat \<Rightarrow> NanFurtherAvailabilityChannel list \<Rightarrow> NanFurtherAvailabilityChannel list result" where
  "get_fam_chan v i chs =
     (let p = 1 + i * fam_chan_size in
      bindE (vec_at chs (int i)) (\<lambda>ch.
      bindE (rd8 v p) (\<lambda>ctrl. bindE (rd8 v (p + 1)) (\<lambda>cls. bindE (rd8 v (p + 2)) (\<lambda>channel.
      bindE (memcpy (fc_avail_interval_bitmap ch) (Some (drop (p + 3) v)) (length (fc_avail_interval_bitmap ch))) (\<lambda>bm.
      vec_set chs (int i) \<lparr>fc_entry_control = bit_field 0 2 (unat ctrl), fc_class_val = unat cls,
        fc_channel = unat channel, fc_mapid = bit_field 2 4 (unat ctrl), fc_avail_interval_bitmap = bm\<rparr>))))))"

text \<open>The number of channels is stored before it is checked.\<close>

definition getNanFurtherAvailabilityMap ::
  "nan_hw \<Rightarrow> bytes option \<Rightarrow> nat \<Rightarrow> nat \<times> NanFurtherAvailabilityChannel list
     \<Rightarrow> (int \<times> nat \<times> NanFurtherAvailabilityChannel list) result" where
  "getNanFurtherAvailabilityMap hw pInValue len s =
     (case pInValue of
        None \<Rightarrow> Inr (- 1, s)
      | Some v \<Rightarrow>
          if len = 0 then Inr (- 1, s)
          else bindE (rd8 v 0) (\<lambda>c.
               let num_chans = unat c
               in if num_chans > NAN_MAX_FAM_CHANNELS hw then Inr (- 1, num_chans, snd s)
                  else if len < 1 + num_chans * fam_chan_size then Inr (- 1, num_chans, snd s)
                  else bindE (foldE (get_fam_chan v) [0..<num_chans] (snd s)) (\<lambda>chs. Inr (0, num_chans, chs))))"

section \<open>Match\<close>

record NanMatchInd =
  mi_publish_subscribe_id :: nat
  mi_requestor_instance_id :: nat
  mi_match_occured_flag :: nat
  mi_out_of_resource_flag :: nat
  mi_service_specific_info_len :: nat
  mi_service_specific_info :: bytes
  mi_sdf_match_filter_len :: nat
  mi_sdf_match_filter :: bytes
  mi_addr :: bytes
  mi_rssi_value :: bytes
  mi_is_conn_capability_valid :: nat
  mi_conn_capability :: NanReceivePostConnectivityCapability
  mi_num_rx_discovery_attr :: nat
  mi_discovery_attr :: "NanReceivePostDiscovery list"
  mi_num_chans :: nat
  mi_famchan :: "NanFurtherAvailabilityChannel list"
  mi_cluster_attribute_len :: nat
  mi_cluster_attribute :: bytes
  mi_peer_cipher_type :: bytes
  mi_scid_len :: nat
  mi_scid :: bytes
  mi_peer_sdea_params :: NanSdeaCtrlParams
  mi_range_info :: bytes
  mi_sdea_service_specific_info_len :: nat
  mi_sdea_service_specific_info :: bytes

definition match_discovery_attr :: "nan_hw \<Rightarrow> NanTlv \<Rightarrow> NanMatchInd \<Rightarrow> NanMatchInd result" where
  "match_discovery_attr hw t e =
     (let idx = mi_num_rx_discovery_attr e
      in if idx \<ge> NAN_MAX_POSTDISCOVERY_LEN hw then Inr e
         else bindE (vec_at (mi_discovery_attr e) (int idx)) (\<lambda>d.
              bindE (getNanReceivePostDiscoveryVal (nt_value t) (unat (nt_length t)) d) (\<lambda>(ret, d).
              bindE (vec_set (mi_discovery_attr e) (int idx) d) (\<lambda>ds.
              Inr (if ret = 0 then e\<lparr>mi_discovery_attr := ds, mi_num_rx_discovery_attr := idx + 1\<rparr>
                   else e\<lparr>mi_discovery_attr := ds\<rparr>)))))"

text \<open>
  The service's information is cut off at \<open>NAN_MAX_SERVICE_NAME_LEN\<close>, the bound of a service's name; in a
  follow-up it is \<open>NAN_MAX_SERVICE_SPECIFIC_INFO_LEN\<close>.
\<close>

definition match_tlv :: "nan_hw \<Rightarrow> NanTlv \<Rightarrow> NanMatchInd \<Rightarrow> NanMatchInd result" where
  "match_tlv hw t e =
     (if nt_type t = NAN_TLV_TYPE_SERVICE_SPECIFIC_INFO then
        bindE (copy_tlv (NAN_MAX_SERVICE_NAME_LEN hw) (mi_service_specific_info e) t) (\<lambda>(d, n).
          Inr (e\<lparr>mi_service_specific_info_len := n, mi_service_specific_info := d\<rparr>))
      else if nt_type t = NAN_TLV_TYPE_SDF_MATCH_FILTER then
        bindE (copy_tlv (NAN_MAX_MATCH_FILTER_LEN hw) (mi_sdf_match_filter e) t) (\<lambda>(d, n).
          Inr (e\<lparr>mi_sdf_match_filter_len := n, mi_sdf_match_filter := d\<rparr>))
      else if nt_type t = NAN_TLV_TYPE_MAC_ADDRESS then
        bindE (copy_array (mi_addr e) t) (\<lambda>d. Inr (e\<lparr>mi_addr := d\<rparr>))
      else if nt_type t = NAN_TLV_TYPE_RECEIVED_RSSI_VALUE then
        bindE (copy_array (mi_rssi_value e) t) (\<lambda>d. Inr (e\<lparr>mi_rssi_value := d\<rparr>))
      else if nt_type t = NAN_TLV_TYPE_POST_NAN_CONNECTIVITY_CAPABILITIES_RECEIVE then
        (if nt_length t \<noteq> 4 then Inr e
         else bindE (getNanReceivePostConnectivityCapabilityVal (nt_value t) (mi_conn_capability e)) (\<lambda>c.
              Inr (e\<lparr>mi_is_conn_capability_valid := 1, mi_conn_capability := c\<rparr>)))
      else if nt_type t = NAN_TLV_TYPE_POST_NAN_DISCOVERY_ATTRIBUTE_RECEIVE then match_discovery_attr hw t e
      else if nt_type t = NAN_TLV_TYPE_FURTHER_AVAILABILITY_MAP then
        bindE (getNanFurtherAvailabilityMap hw (nt_value t) (unat (nt_length t)) (mi_num_chans e, mi_famchan e))
          (\<lambda>(_, c, chs). Inr (e\<lparr>mi_num_chans := c, mi_famchan := chs\<rparr>))
      else if nt_type t = NAN_TLV_TYPE_CLUSTER_ATTRIBUTE then
        bindE (copy_tlv (length (mi_cluster_attribute e)) (mi_cluster_attribute e) t) (\<lambda>(d, n).
          Inr (e\<lparr>mi_cluster_attribute := d, mi_cluster_attribute_len := n\<rparr>))
      else if nt_type t = NAN_TLV_TYPE_NAN_CSID then
        bindE (copy_array (mi_peer_cipher_type e) t) (\<lambda>d. Inr (e\<lparr>mi_peer_cipher_type := d\<rparr>))
      else if nt_type t = NAN_TLV_TYPE_NAN_SCID then
        bindE (copy_tlv (length (mi_scid e)) (mi_scid e) t) (\<lambda>(d, n). Inr (e\<lparr>mi_scid_len := n, mi_scid := d\<rparr>))
      else if nt_type t = NAN_TLV_TYPE_SDEA_CTRL_PARAMS then
        (if nt_length t \<noteq> 4 then Inr e
         else bindE (getNanReceiveSdeaCtrlParams hw (nt_value t) (mi_peer_sdea_params e)) (\<lambda>s.
              Inr (e\<lparr>mi_peer_sdea_params := s\<rparr>)))
      else if nt_type t = NAN_TLV_TYPE_NAN20_RANGING_RESULT then
        bindE (copy_array (mi_range_info e) t) (\<lambda>d. Inr (e\<lparr>mi_range_info := d\<rparr>))
      else if nt_type t = NAN_TLV_TYPE_SDEA_SERVICE_SPECIFIC_INFO then
        bindE (copy_tlv (NAN_MAX_SDEA_SERVICE_SPECIFIC_INFO_LEN hw) (mi_sdea_service_specific_info e) t) (\<lambda>(d, n).
          Inr (e\<lparr>mi_sdea_service_specific_info_len := n, mi_sdea_service_specific_info := d\<rparr>))
      else Inr e)"

definition getNanMatch :: "nan_hw \<Rightarrow> bytes option \<Rightarrow> nat \<Rightarrow> NanMatchInd \<Rightarrow> (WifiError \<times> NanMatchInd) result" where
  "getNanMatch hw ev n e =
     (case ev of
        None \<Rightarrow> Inr (WIFI_ERROR_INVALID_ARGS, e)
      | Some b \<Rightarrow>
          bindE (rd_num 2 b 4) (\<lambda>h.
          bindE (rd_num 4 b header_size) (\<lambda>inst.
          bindE (rd_num 4 b (header_size + 4)) (\<lambda>flags.
          bindE (read_message (match_tlv hw) b n (header_size + 8)
            (e\<lparr>mi_publish_subscribe_id := h, mi_requestor_instance_id := inst,
               mi_match_occured_flag := bit_field 0 1 flags, mi_out_of_resource_flag := bit_field 1 1 flags\<rparr>)) (\<lambda>e.
          Inr (WIFI_SUCCESS, e))))))"

record NanMatchExpiredInd =
  me_publish_subscribe_id :: nat
  me_requestor_instance_id :: nat

definition getNanMatchExpired ::
  "bytes option \<Rightarrow> NanMatchExpiredInd \<Rightarrow> (WifiError \<times> NanMatchExpiredInd) result" where
  "getNanMatchExpired ev e =
     (case ev of
        None \<Rightarrow> Inr (WIFI_ERROR_INVALID_ARGS, e)
      | Some b \<Rightarrow>
          bindE (rd_num 2 b 4) (\<lambda>h. bindE (rd_num 4 b header_size) (\<lambda>inst.
          Inr (WIFI_SUCCESS, \<lparr>me_publish_subscribe_id = h, me_requestor_instance_id = inst\<rparr>))))"

section \<open>Follow-up\<close>

record NanFollowupInd =
  fi_publish_subscribe_id :: nat
  fi_requestor_instance_id :: nat
  fi_dw_or_faw :: nat
  fi_addr :: bytes
  fi_service_specific_info_len :: nat
  fi_service_specific_info :: bytes
  fi_sdea_service_specific_info_len :: nat
  fi_sdea_service_specific_info :: bytes

definition followup_tlv :: "nan_hw \<Rightarrow> NanTlv \<Rightarrow> NanFollowupInd \<Rightarrow> NanFollowupInd result" where
  "followup_tlv hw t e =
     (if nt_type t = NAN_TLV_TYPE_SERVICE_SPECIFIC_INFO \<or> nt_type t = NAN_TLV_TYPE_EXT_SERVICE_SPECIFIC_INFO then
        bindE (copy_tlv (NAN_MAX_SERVICE_SPECIFIC_INFO_LEN hw) (fi_service_specific_info e) t) (\<lambda>(d, n).
          Inr (e\<lparr>fi_service_specific_info_len := n, fi_service_specific_info := d\<rparr>))
      else if nt_type t = NAN_TLV_TYPE_MAC_ADDRESS then
        bindE (copy_array (fi_addr e) t) (\<lambda>d. Inr (e\<lparr>fi_addr := d\<rparr>))
      else if nt_type t = NAN_TLV_TYPE_SDEA_SERVICE_SPECIFIC_INFO then
        bindE (copy_tlv (NAN_MAX_SDEA_SERVICE_SPECIFIC_INFO_LEN hw) (fi_sdea_service_specific_info e) t) (\<lambda>(d, n).
          Inr (e\<lparr>fi_sdea_service_specific_info_len := n, fi_sdea_service_specific_info := d\<rparr>))
      else Inr e)"

definition getNanFollowup :: "nan_hw \<Rightarrow> bytes option \<Rightarrow> nat \<Rightarrow> NanFollowupInd \<Rightarrow> (WifiError \<times> NanFollowupInd) result" where
  "getNanFollowup hw ev n e =
     (case ev of
        None \<Rightarrow> Inr (WIFI_ERROR_INVALID_ARGS, e)
      | Some b \<Rightarrow>
          bindE (rd_num 2 b 4) (\<lambda>h.
          bindE (rd_num 4 b header_size) (\<lambda>inst.
          bindE (rd_num 4 b (header_size + 4)) (\<lambda>flags.
          bindE (read_message (followup_tlv hw) b n (header_size + 8)
            (e\<lparr>fi_publish_subscribe_id := h, fi_requestor_instance_id := inst, fi_dw_or_faw := bit_field 0 1 flags\<rparr>)) (\<lambda>e.
          Inr (WIFI_SUCCESS, e))))))"

end
