(* ===== verification/NanEvents.thy ===== *)
theory NanEvents
  imports NanIndication
begin

text \<open>
  The other indications of \<open>wlan/wifi_hal/nan_ind.cpp\<close> (discovery engine, threshold alerts, beacon
  payloads, ranging), and \<open>handleNanIndication\<close>, which dispatches all of them.
\<close>

section \<open>Discovery engine events\<close>

text \<open>The two arrays are members of the event's \<open>data\<close>.\<close>

record NanDiscEngEventInd =
  de_event_type :: nat
  de_mac_addr :: bytes
  de_cluster :: bytes

definition disc_eng_tlv :: "nan_hw \<Rightarrow> NanTlv \<Rightarrow> NanDiscEngEventInd \<Rightarrow> NanDiscEngEventInd result" where
  "disc_eng_tlv hw t e =
     (if nt_type t = NAN_TLV_TYPE_EVENT_SELF_STATION_MAC_ADDRESS then
        bindE (copy_tlv (NAN_MAC_ADDR_LEN hw) (de_mac_addr e) t) (\<lambda>(d, _).
          Inr (e\<lparr>de_mac_addr := d, de_event_type := NAN_EVENT_ID_DISC_MAC_ADDR hw\<rparr>))
      else if nt_type t = NAN_TLV_TYPE_EVENT_STARTED_CLUSTER then
        bindE (copy_tlv (NAN_MAC_ADDR_LEN hw) (de_cluster e) t) (\<lambda>(d, _).
          Inr (e\<lparr>de_cluster := d, de_event_type := NAN_EVENT_ID_STARTED_CLUSTER hw\<rparr>))
      else if nt_type t = NAN_TLV_TYPE_EVENT_JOINED_CLUSTER then
        bindE (copy_tlv (NAN_MAC_ADDR_LEN hw) (de_cluster e) t) (\<lambda>(d, _).
          Inr (e\<lparr>de_cluster := d, de_event_type := NAN_EVENT_ID_JOINED_CLUSTER hw\<rparr>))
      else Inr e)"

definition getNanDiscEngEvent ::
  "nan_hw \<Rightarrow> bytes option \<Rightarrow> nat \<Rightarrow> NanDiscEngEventInd \<Rightarrow> (WifiError \<times> NanDiscEngEventInd) result" where
  "getNanDiscEngEvent hw ev n e =
     (case ev of
        None \<Rightarrow> Inr (WIFI_ERROR_INVALID_ARGS, e)
      | Some b \<Rightarrow>
          bindE (read_message (disc_eng_tlv hw) b n header_size
            (e\<lparr>de_mac_addr := replicate (length (de_mac_addr e)) 0, de_cluster := replicate (length (de_cluster e)) 0\<rparr>)) (\<lambda>e.
          Inr (WIFI_SUCCESS, e)))"

section \<open>Threshold crossing alerts\<close>

record NanTCAInd =
  tc_tca_type :: nat
  tc_rising_direction_evt_flag :: nat
  tc_falling_direction_evt_flag :: nat
  tc_cluster_size :: bytes

definition tca_tlv :: "nan_hw \<Rightarrow> NanTlv \<Rightarrow> NanTCAInd \<Rightarrow> NanTCAInd result" where
  "tca_tlv hw t e =
     (if nt_type t = NAN_TLV_TYPE_CLUSTER_SIZE_RSP \<and> nt_length t = 8 then
        bindE (rd_value (nt_value t) 0) (\<lambda>x.
        bindE (memcpy (tc_cluster_size e) (value_from 4 t) (length (tc_cluster_size e))) (\<lambda>d.
        Inr \<lparr>tc_tca_type = NAN_TCA_ID_CLUSTER_SIZE hw, tc_rising_direction_evt_flag = unat (x AND 1),
             tc_falling_direction_evt_flag = unat (drop_bit 1 (x AND 2)), tc_cluster_size = d\<rparr>))
      else Inr e)"

definition getNanTca :: "nan_hw \<Rightarrow> bytes option \<Rightarrow> nat \<Rightarrow> NanTCAInd \<Rightarrow> (WifiError \<times> NanTCAInd) result" where
  "getNanTca hw ev n e =
     (case ev of
        None \<Rightarrow> Inr (WIFI_ERROR_INVALID_ARGS, e)
      | Some b \<Rightarrow>
          bindE (read_message (tca_tlv hw) b n header_size
            (e\<lparr>tc_cluster_size := replicate (length (tc_cluster_size e)) 0\<rparr>)) (\<lambda>e.
          Inr (WIFI_SUCCESS, e)))"

section \<open>Beacon payload\<close>

record NanBeaconSdfPayloadInd =
  bi_addr :: bytes
  bi_is_vsa_received :: nat
  bi_vsa_received_on :: nat
  bi_vendor_oui :: bytes
  bi_attr_len :: nat
  bi_vsa :: bytes
  bi_is_beacon_sdf_payload_received :: nat
  bi_frame_len :: nat
  bi_frame_data :: bytes

definition beacon_tlv :: "nan_hw \<Rightarrow> NanTlv \<Rightarrow> NanBeaconSdfPayloadInd \<Rightarrow> NanBeaconSdfPayloadInd result" where
  "beacon_tlv hw t e =
     (if nt_type t = NAN_TLV_TYPE_MAC_ADDRESS then
        bindE (copy_array (bi_addr e) t) (\<lambda>d. Inr (e\<lparr>bi_addr := d\<rparr>))
      else if nt_type t = NAN_TLV_TYPE_VENDOR_SPECIFIC_ATTRIBUTE_RECEIVE then
        (if unat (nt_length t) < 4 then Inr e
         else bindE (rd_value (nt_value t) 0) (\<lambda>x.
              bindE (memcpy (bi_vendor_oui e) (value_from 1 t) 3) (\<lambda>oui.
              let len = min (unat (nt_length t) - 4) (NAN_MAX_VSA_DATA_LEN hw)
              in bindE (if len = 0 then Inr (bi_vsa e) else memcpy (bi_vsa e) (value_from 4 t) len) (\<lambda>vsa.
                 Inr (e\<lparr>bi_is_vsa_received := 1, bi_vsa_received_on := unat (drop_bit 1 x AND 7),
                        bi_vendor_oui := oui, bi_attr_len := len, bi_vsa := vsa\<rparr>)))))
      else if nt_type t = NAN_TLV_TYPE_BEACON_SDF_PAYLOAD_RECEIVE then
        bindE (copy_tlv (NAN_MAX_FRAME_DATA_LEN hw) (bi_frame_data e) t) (\<lambda>(d, n).
          Inr (e\<lparr>bi_is_beacon_sdf_payload_received := 1, bi_frame_len := n, bi_frame_data := d\<rparr>))
      else Inr e)"

definition getNanBeaconSdfPayload ::
  "nan_hw \<Rightarrow> bytes option \<Rightarrow> nat \<Rightarrow> NanBeaconSdfPayloadInd \<Rightarrow> (WifiError \<times> NanBeaconSdfPayloadInd) result" where
  "getNanBeaconSdfPayload hw ev n e =
     (case ev of
        None \<Rightarrow> Inr (WIFI_ERROR_INVALID_ARGS, e)
      | Some b \<Rightarrow>
          bindE (read_message (beacon_tlv hw) b n header_size
            (e\<lparr>bi_frame_len := 0, bi_frame_data := replicate (length (bi_frame_data e)) 0\<rparr>)) (\<lambda>e.
          Inr (WIFI_SUCCESS, e)))"

section \<open>Ranging\<close>

record NanRangeRequestInd =
  rq_publish_id :: nat
  rq_range_req_intf_addr :: bytes

text \<open>
  The local \<open>fwRangeReqRecvd\<close> (two words of the address and the identifier) is not initialised: a value
  that does not fill it leaves words behind that are then read.
\<close>

definition range_request_tlv :: "NanTlv \<Rightarrow> NanRangeRequestInd \<Rightarrow> NanRangeRequestInd result" where
  "range_request_tlv t e =
     (if nt_type t = NAN_TLV_TYPE_NAN20_RANGING_REQUEST_RECEIVED then
        if unat (nt_length t) < 12 then Inl UB
        else bindE (memcpy (replicate 12 0) (nt_value t) 12) (\<lambda>m.
             bindE (wr_bytes (rq_range_req_intf_addr e) 0
                      (fw_to_char_array (word_of_nat (unle (take 4 m)), word_of_nat (unle (take 4 (drop 4 m)))))) (\<lambda>a.
             Inr (e\<lparr>rq_range_req_intf_addr := a, rq_publish_id := unle (drop 8 m) mod 2 ^ 16\<rparr>)))
      else Inr e)"

definition getNanRangeRequestReceivedInd ::
  "bytes option \<Rightarrow> nat \<Rightarrow> NanRangeRequestInd \<Rightarrow> (WifiError \<times> NanRangeRequestInd) result" where
  "getNanRangeRequestReceivedInd ev n e =
     (case ev of
        None \<Rightarrow> Inr (WIFI_ERROR_INVALID_ARGS, e)
      | Some b \<Rightarrow> bindE (read_message range_request_tlv b n header_size e) (\<lambda>e. Inr (WIFI_SUCCESS, e)))"

record NanRangeReportInd =
  rp_publish_id :: nat
  rp_range_measurement_mm :: nat
  rp_range_req_intf_addr :: bytes

definition range_report_tlv :: "nan_hw \<Rightarrow> NanTlv \<Rightarrow> NanRangeReportInd \<Rightarrow> NanRangeReportInd result" where
  "range_report_tlv hw t e =
     (if nt_type t = NAN_TLV_TYPE_MAC_ADDRESS then
        bindE (copy_tlv (NAN_MAC_ADDR_LEN hw) (rp_range_req_intf_addr e) t) (\<lambda>(d, _).
          Inr (e\<lparr>rp_range_req_intf_addr := d\<rparr>))
      else if nt_type t = NAN_TLV_TYPE_NAN20_RANGING_RESULT then
        if unat (nt_length t) < 12 then Inl UB
        else bindE (memcpy (replicate 12 0) (nt_value t) 12) (\<lambda>m.
             Inr (e\<lparr>rp_range_measurement_mm := unle (drop 8 m), rp_publish_id := unle (take 4 m) mod 2 ^ 16\<rparr>))
      else Inr e)"

definition getNanRangeReportInd ::
  "nan_hw \<Rightarrow> bytes option \<Rightarrow> nat \<Rightarrow> NanRangeReportInd \<Rightarrow> (WifiError \<times> NanRangeReportInd) result" where
  "getNanRangeReportInd hw ev n e =
     (case ev of
        None \<Rightarrow> Inr (WIFI_ERROR_INVALID_ARGS, e)
      | Some b \<Rightarrow> bindE (read_message (range_report_tlv hw) b n header_size e) (\<lambda>e. Inr (WIFI_SUCCESS, e)))"

section \<open>Dispatch\<close>

text \<open>What a handler is called with.\<close>

datatype NanEvent =
    EventPublishReplied NanPublishRepliedInd
  | EventPublishTerminated NanTerminatedInd
  | EventMatch NanMatchInd
  | EventMatchExpired NanMatchExpiredInd
  | EventSubscribeTerminated NanTerminatedInd
  | EventFollowup NanFollowupInd
  | EventDiscEngEvent NanDiscEngEventInd
  | EventDisabled nan_verdict
  | EventTca NanTCAInd
  | EventBeaconSdfPayload NanBeaconSdfPayloadInd
  | EventTransmitFollowup NanTerminatedInd
  | EventRangeRequest NanRangeRequestInd
  | EventRangeReport NanRangeReportInd

text \<open>The events as \<open>memset\<close> leaves them.\<close>

record nan_events =
  z_publish_replied :: NanPublishRepliedInd
  z_terminated :: NanTerminatedInd
  z_match :: NanMatchInd
  z_match_expired :: NanMatchExpiredInd
  z_followup :: NanFollowupInd
  z_disc_eng :: NanDiscEngEventInd
  z_disabled :: nan_verdict
  z_tca :: NanTCAInd
  z_beacon :: NanBeaconSdfPayloadInd
  z_range_request :: NanRangeRequestInd
  z_range_report :: NanRangeReportInd

text \<open>
  The result and the events handed to the handlers. \<open>handlers i\<close> says whether the handler for
  indications of type \<open>i\<close> is set.
\<close>

definition deliver :: "bool \<Rightarrow> ('e \<Rightarrow> NanEvent) \<Rightarrow> (WifiError \<times> 'e) result \<Rightarrow> (WifiError \<times> NanEvent list) result" where
  "deliver h mk r = bindE r (\<lambda>(res, e). Inr (res, if res = WIFI_SUCCESS \<and> h then [mk e] else []))"

definition handleNanIndication ::
  "'m libnl \<Rightarrow> nan_hw \<Rightarrow> nan_codes \<Rightarrow> nan_events \<Rightarrow> (nat \<Rightarrow> bool) \<Rightarrow> bytes option \<Rightarrow> nat
     \<Rightarrow> (WifiError \<times> NanEvent list) result" where
  "handleNanIndication nl hw k z handlers ev n =
     bindE (getIndicationType ev) (\<lambda>msg_id.
       if msg_id = NAN_INDICATION_PUBLISH_REPLIED then
         deliver (handlers msg_id) EventPublishReplied (getNanPublishReplied ev n (z_publish_replied z))
       else if msg_id = NAN_INDICATION_PUBLISH_TERMINATED then
         deliver (handlers msg_id) EventPublishTerminated (getNanPublishTerminated nl k ev (z_terminated z))
       else if msg_id = NAN_INDICATION_MATCH then
         deliver (handlers msg_id) EventMatch (getNanMatch hw ev n (z_match z))
       else if msg_id = NAN_INDICATION_MATCH_EXPIRED then
         deliver (handlers msg_id) EventMatchExpired (getNanMatchExpired ev (z_match_expired z))
       else if msg_id = NAN_INDICATION_SUBSCRIBE_TERMINATED then
         deliver (handlers msg_id) EventSubscribeTerminated (getNanSubscribeTerminated nl k ev (z_terminated z))
       else if msg_id = NAN_INDICATION_DE_EVENT then
         deliver (handlers msg_id) EventDiscEngEvent (getNanDiscEngEvent hw ev n (z_disc_eng z))
       else if msg_id = NAN_INDICATION_FOLLOWUP then
         deliver (handlers msg_id) EventFollowup (getNanFollowup hw ev n (z_followup z))
       else if msg_id = NAN_INDICATION_DISABLED then
         deliver (handlers msg_id) EventDisabled (getNanDisabled nl k ev (z_disabled z))
       else if msg_id = NAN_INDICATION_TCA then
         deliver (handlers msg_id) EventTca (getNanTca hw ev n (z_tca z))
       else if msg_id = NAN_INDICATION_BEACON_SDF_PAYLOAD then
         deliver (handlers msg_id) EventBeaconSdfPayload (getNanBeaconSdfPayload hw ev n (z_beacon z))
       else if msg_id = NAN_INDICATION_SELF_TRANSMIT_FOLLOWUP then
         deliver (handlers msg_id) EventTransmitFollowup (getNanTransmitFollowupInd nl k ev (z_terminated z))
       else if msg_id = NAN_INDICATION_RANGING_REQUEST_RECEIVED then
         deliver (handlers msg_id) EventRangeRequest (getNanRangeRequestReceivedInd ev n (z_range_request z))
       else if msg_id = NAN_INDICATION_RANGING_RESULT then
         deliver (handlers msg_id) EventRangeReport (getNanRangeReportInd hw ev n (z_range_report z))
       else Inr (WIFI_ERROR_INVALID_REQUEST_ID, []))"

end
