(* ===== verification/NanResponse.thy ===== *)
theory NanResponse
  imports NanError
begin

text \<open>
  The responses of the firmware (\<open>wlan/wifi_hal/nan_rsp.cpp\<close>): \<open>getNanResponse\<close>, the statistics that
  \<open>handleNanStatsResponse\<close> copies out of the firmware's structs, and \<open>handleNanResponse\<close>.

  The numbers and the sizes of the framework's structures are not in the repository: they are the fields
  of \<open>nan_stats_hw\<close>. A framework structure that is filled in is the list of its fields, with their names,
  in the order of the assignments.
\<close>

record nan_stats_hw =
  NAN_STATS_ID_DE_PUBLISH :: nat
  NAN_STATS_ID_DE_SUBSCRIBE :: nat
  NAN_STATS_ID_DE_DW :: nat
  NAN_STATS_ID_DE_MAC :: nat
  NAN_STATS_ID_DE_TIMING_SYNC :: nat
  NAN_STATS_ID_DE :: nat
  sizeof_NanPublishStats :: nat
  sizeof_NanSubscribeStats :: nat
  sizeof_NanDWStats :: nat
  sizeof_NanMacStats :: nat
  sizeof_NanSyncStats :: nat
  sizeof_NanDeStats :: nat
  sizeof_stats_data :: nat

section \<open>Structs of the firmware\<close>

text \<open>A packed struct: its fields, in order, with their sizes.\<close>

type_synonym struct_layout = "(string \<times> nat) list"

fun field_at :: "struct_layout \<Rightarrow> string \<Rightarrow> (nat \<times> nat) option" where
  "field_at [] f = None"
| "field_at ((g, w) # l) f = (if g = f then Some (0, w) else map_option (\<lambda>(o', w'). (w + o', w')) (field_at l f))"

text \<open>\<open>p->f\<close> where \<open>p\<close> points to the start of \<open>b\<close>\<close>

definition read_field :: "struct_layout \<Rightarrow> bytes \<Rightarrow> string \<Rightarrow> nat result" where
  "read_field l b f = (case field_at l f of None \<Rightarrow> Inl UB | Some (i, w) \<Rightarrow> rd_num w b i)"

text \<open>The assignments \<open>s.d = p->f\<close> for the pairs \<open>(d, f)\<close>.\<close>

fun copy_fields :: "struct_layout \<Rightarrow> bytes \<Rightarrow> (string \<times> string) list \<Rightarrow> (string \<times> nat) list result" where
  "copy_fields l b [] = Inr []"
| "copy_fields l b ((d, f) # ps) =
     bindE (read_field l b f) (\<lambda>v. bindE (copy_fields l b ps) (\<lambda>r. Inr ((d, v) # r)))"

definition same :: "string list \<Rightarrow> (string \<times> string) list" where
  "same fs = map (\<lambda>f. (f, f)) fs"

definition FwNanPublishStats :: struct_layout where
  "FwNanPublishStats =
    [(''validPublishServiceReqMsgs'', 4), (''validPublishServiceRspMsgs'', 4), (''validPublishServiceCancelReqMsgs'', 4),
     (''validPublishServiceCancelRspMsgs'', 4), (''validPublishRepliedIndMsgs'', 4), (''validPublishTerminatedIndMsgs'', 4),
     (''validActiveSubscribes'', 4), (''validMatches'', 4), (''validFollowups'', 4),
     (''invalidPublishServiceReqMsgs'', 4), (''invalidPublishServiceCancelReqMsgs'', 4), (''invalidActiveSubscribes'', 4),
     (''invalidMatches'', 4), (''invalidFollowups'', 4), (''publishCount'', 4),
     (''publishNewMatchCount'', 4), (''pubsubGlobalNewMatchCount'', 4)]"

definition FwNanSubscribeStats :: struct_layout where
  "FwNanSubscribeStats =
    [(''validSubscribeServiceReqMsgs'', 4), (''validSubscribeServiceRspMsgs'', 4), (''validSubscribeServiceCancelReqMsgs'', 4),
     (''validSubscribeServiceCancelRspMsgs'', 4), (''validSubscribeTerminatedIndMsgs'', 4), (''validSubscribeMatchIndMsgs'', 4),
     (''validSubscribeUnmatchIndMsgs'', 4), (''validSolicitedPublishes'', 4), (''validMatches'', 4),
     (''validFollowups'', 4), (''invalidSubscribeServiceReqMsgs'', 4), (''invalidSubscribeServiceCancelReqMsgs'', 4),
     (''invalidSubscribeFollowupReqMsgs'', 4), (''invalidSolicitedPublishes'', 4), (''invalidMatches'', 4),
     (''invalidFollowups'', 4), (''subscribeCount'', 4), (''bloomFilterIndex'', 4),
     (''subscribeNewMatchCount'', 4), (''pubsubGlobalNewMatchCount'', 4)]"

definition FwNanMacStats :: struct_layout where
  "FwNanMacStats =
    [(''validFrames'', 4), (''validActionFrames'', 4), (''validBeaconFrames'', 4),
     (''ignoredActionFrames'', 4), (''ignoredBeaconFrames'', 4), (''invalidFrames'', 4),
     (''invalidActionFrames'', 4), (''invalidBeaconFrames'', 4), (''invalidMacHeaders'', 4),
     (''invalidPafHeaders'', 4), (''nonNanBeaconFrames'', 4), (''earlyActionFrames'', 4),
     (''inDwActionFrames'', 4), (''lateActionFrames'', 4), (''framesQueued'', 4),
     (''totalTRSpUpdates'', 4), (''completeByTRSp'', 4), (''completeByTp75DW'', 4),
     (''completeByTendDW'', 4), (''lateActionFramesTx'', 4), (''twIncreases'', 4),
     (''twDecreases'', 4), (''twChanges'', 4), (''twHighwater'', 4),
     (''bloomFilterIndex'', 4)]"

definition FwNanSyncStats :: struct_layout where
  "FwNanSyncStats =
    [(''currTsf'', 8), (''myRank'', 8), (''currAmRank'', 8),
     (''lastAmRank'', 8), (''currAmBTT'', 4), (''lastAmBTT'', 4),
     (''currAmHopCount'', 1), (''currRole'', 1), (''currClusterId'', 2),
     (''reserved1'', 4), (''timeSpentInCurrRole'', 8), (''totalTimeSpentAsMaster'', 8),
     (''totalTimeSpentAsNonMasterSync'', 8), (''totalTimeSpentAsNonMasterNonSync'', 8), (''transitionsToAnchorMaster'', 4),
     (''transitionsToMaster'', 4), (''transitionsToNonMasterSync'', 4), (''transitionsToNonMasterNonSync'', 4),
     (''amrUpdateCount'', 4), (''amrUpdateRankChangedCount'', 4), (''amrUpdateBTTChangedCount'', 4),
     (''amrUpdateHcChangedCount'', 4), (''amrUpdateNewDeviceCount'', 4), (''amrExpireCount'', 4),
     (''mergeCount'', 4), (''beaconsAboveHcLimit'', 4), (''beaconsBelowRssiThresh'', 4),
     (''beaconsIgnoredNoSpace'', 4), (''beaconsForOurCluster'', 4), (''beaconsForOtherCluster'', 4),
     (''beaconCancelRequests'', 4), (''beaconCancelFailures'', 4), (''beaconUpdateRequests'', 4),
     (''beaconUpdateFailures'', 4), (''syncBeaconTxAttempts'', 4), (''syncBeaconTxFailures'', 4),
     (''discBeaconTxAttempts'', 4), (''discBeaconTxFailures'', 4), (''amHopCountExpireCount'', 4),
     (''ndpChannelFreq'', 4), (''ndpChannelFreq2'', 4), (''schedUpdateChannelFreq'', 4)]"

definition FwNanDeStats :: struct_layout where
  "FwNanDeStats =
    [(''validErrorRspMsgs'', 4), (''validTransmitFollowupReqMsgs'', 4), (''validTransmitFollowupRspMsgs'', 4),
     (''validFollowupIndMsgs'', 4), (''validConfigurationReqMsgs'', 4), (''validConfigurationRspMsgs'', 4),
     (''validStatsReqMsgs'', 4), (''validStatsRspMsgs'', 4), (''validEnableReqMsgs'', 4),
     (''validEnableRspMsgs'', 4), (''validDisableReqMsgs'', 4), (''validDisableRspMsgs'', 4),
     (''validDisableIndMsgs'', 4), (''validEventIndMsgs'', 4), (''validTcaReqMsgs'', 4),
     (''validTcaRspMsgs'', 4), (''validTcaIndMsgs'', 4), (''invalidTransmitFollowupReqMsgs'', 4),
     (''invalidConfigurationReqMsgs'', 4), (''invalidStatsReqMsgs'', 4), (''invalidEnableReqMsgs'', 4),
     (''invalidDisableReqMsgs'', 4), (''invalidTcaReqMsgs'', 4)]"

section \<open>What is copied\<close>

definition publish_copies :: "(string \<times> string) list" where
  "publish_copies = same
    [''validPublishServiceReqMsgs'', ''validPublishServiceRspMsgs'', ''validPublishServiceCancelReqMsgs'',
     ''validPublishServiceCancelRspMsgs'', ''validPublishRepliedIndMsgs'', ''validPublishTerminatedIndMsgs'',
     ''validActiveSubscribes'', ''validMatches'', ''validFollowups'',
     ''invalidPublishServiceReqMsgs'', ''invalidPublishServiceCancelReqMsgs'', ''invalidActiveSubscribes'',
     ''invalidMatches'', ''invalidFollowups'', ''publishCount'',
     ''publishNewMatchCount'', ''pubsubGlobalNewMatchCount'']"

definition subscribe_copies :: "(string \<times> string) list" where
  "subscribe_copies = same
    [''validSubscribeServiceReqMsgs'', ''validSubscribeServiceRspMsgs'', ''validSubscribeServiceCancelReqMsgs'',
     ''validSubscribeServiceCancelRspMsgs'', ''validSubscribeTerminatedIndMsgs'', ''validSubscribeMatchIndMsgs'',
     ''validSubscribeUnmatchIndMsgs'', ''validSolicitedPublishes'', ''validMatches'',
     ''validFollowups'', ''invalidSubscribeServiceReqMsgs'', ''invalidSubscribeServiceCancelReqMsgs'',
     ''invalidSubscribeFollowupReqMsgs'', ''invalidSolicitedPublishes'', ''invalidMatches'',
     ''invalidFollowups'', ''subscribeCount'', ''bloomFilterIndex'',
     ''subscribeNewMatchCount'', ''pubsubGlobalNewMatchCount'']"

definition dw_copies :: "(string \<times> string) list" where
  "dw_copies = same
    [''validFrames'', ''validActionFrames'', ''validBeaconFrames'',
     ''ignoredActionFrames'', ''ignoredBeaconFrames'', ''invalidFrames'',
     ''invalidActionFrames'', ''invalidBeaconFrames'', ''invalidMacHeaders'',
     ''invalidPafHeaders'', ''nonNanBeaconFrames'', ''earlyActionFrames'',
     ''inDwActionFrames'', ''lateActionFrames'', ''framesQueued'',
     ''totalTRSpUpdates'', ''completeByTRSp'', ''completeByTp75DW'',
     ''completeByTendDW'', ''lateActionFramesTx'']"

definition mac_copies :: "(string \<times> string) list" where
  "mac_copies = same
    [''validFrames'', ''validActionFrames'', ''validBeaconFrames'',
     ''ignoredActionFrames'', ''ignoredBeaconFrames'', ''invalidFrames'',
     ''invalidActionFrames'', ''invalidBeaconFrames'', ''invalidMacHeaders'',
     ''invalidPafHeaders'', ''nonNanBeaconFrames'', ''earlyActionFrames'',
     ''inDwActionFrames'', ''lateActionFrames'', ''framesQueued'',
     ''totalTRSpUpdates'', ''completeByTRSp'', ''completeByTp75DW'',
     ''completeByTendDW'', ''lateActionFramesTx'', ''twIncreases'',
     ''twDecreases'', ''twChanges'', ''twHighwater'',
     ''bloomFilterIndex'']"

definition sync_copies :: "(string \<times> string) list" where
  "sync_copies = same
    [''currTsf'', ''myRank'', ''currAmRank'',
     ''lastAmRank'', ''currAmBTT'', ''lastAmBTT'',
     ''currAmHopCount'', ''currRole'', ''currClusterId'',
     ''timeSpentInCurrRole'', ''totalTimeSpentAsMaster'', ''totalTimeSpentAsNonMasterSync'',
     ''totalTimeSpentAsNonMasterNonSync'', ''transitionsToAnchorMaster'', ''transitionsToMaster'',
     ''transitionsToNonMasterSync'', ''transitionsToNonMasterNonSync'', ''amrUpdateCount'',
     ''amrUpdateRankChangedCount'', ''amrUpdateBTTChangedCount'', ''amrUpdateHcChangedCount'',
     ''amrUpdateNewDeviceCount'', ''amrExpireCount'', ''mergeCount'',
     ''beaconsAboveHcLimit'', ''beaconsBelowRssiThresh'', ''beaconsIgnoredNoSpace'']
   @ [(''beaconsForOurCluster'', ''beaconsForOtherCluster'')]
   @ same
    [''beaconsForOtherCluster'', ''beaconCancelRequests'', ''beaconCancelFailures'',
     ''beaconUpdateRequests'', ''beaconUpdateFailures'', ''syncBeaconTxAttempts'',
     ''syncBeaconTxFailures'', ''discBeaconTxAttempts'', ''discBeaconTxFailures'',
     ''amHopCountExpireCount'', ''ndpChannelFreq'', ''ndpChannelFreq2'',
     ''schedUpdateChannelFreq'']"

definition de_copies :: "(string \<times> string) list" where
  "de_copies = same
    [''validErrorRspMsgs'', ''validTransmitFollowupReqMsgs'', ''validTransmitFollowupRspMsgs'',
     ''validFollowupIndMsgs'', ''validConfigurationReqMsgs'', ''validConfigurationRspMsgs'',
     ''validStatsReqMsgs'', ''validStatsRspMsgs'', ''validEnableReqMsgs'',
     ''validEnableRspMsgs'', ''validDisableReqMsgs'', ''validDisableRspMsgs'',
     ''validDisableIndMsgs'', ''validEventIndMsgs'', ''validTcaReqMsgs'',
     ''validTcaRspMsgs'', ''validTcaIndMsgs'', ''invalidTransmitFollowupReqMsgs'',
     ''invalidConfigurationReqMsgs'', ''invalidStatsReqMsgs'', ''invalidEnableReqMsgs'',
     ''invalidDisableReqMsgs'', ''invalidTcaReqMsgs'']"

section \<open>Responses\<close>

datatype NanResponseType =
    NAN_RESPONSE_ERROR | NAN_RESPONSE_CONFIG | NAN_RESPONSE_PUBLISH_CANCEL | NAN_RESPONSE_PUBLISH
  | NAN_RESPONSE_SUBSCRIBE | NAN_RESPONSE_SUBSCRIBE_CANCEL | NAN_RESPONSE_TRANSMIT_FOLLOWUP
  | NAN_RESPONSE_STATS | NAN_RESPONSE_ENABLED | NAN_RESPONSE_DISABLED | NAN_RESPONSE_TCA
  | NAN_RESPONSE_BEACON_SDF_PAYLOAD | NAN_GET_CAPABILITIES | NAN_DP_INTERFACE_CREATE | NAN_DP_INTERFACE_DELETE
  | NAN_DP_INITIATOR_RESPONSE | NAN_DP_RESPONDER_RESPONSE | NAN_DP_END

text \<open>The union \<open>body\<close>; \<open>None\<close> of the statistics stands for the data that are still cleared.\<close>

datatype nan_body =
    no_body
  | publish_response nat
  | subscribe_response nat
  | stats_response nat "(string \<times> nat) list option"
  | nan_capabilities "(string \<times> nat) list"
  | data_request_response nat

record NanResponseMsg =
  rs_verdict :: nan_verdict
  rs_response_type :: NanResponseType
  rs_body :: nan_body

definition handleNanStatsResponse ::
  "nan_stats_hw \<Rightarrow> nat \<Rightarrow> bytes option \<Rightarrow> nat \<Rightarrow> (string \<times> nat) list option result" where
  "handleNanStatsResponse sh stats_type rspBuf message_len =
     (let copy = (\<lambda>size l ps.
            if message_len \<noteq> size then Inr None
            else case rspBuf of None \<Rightarrow> Inl UB | Some b \<Rightarrow> bindE (copy_fields l b ps) (\<lambda>r. Inr (Some r)))
      in if stats_type = NAN_STATS_ID_DE_PUBLISH sh then copy (sizeof_NanPublishStats sh) FwNanPublishStats publish_copies
         else if stats_type = NAN_STATS_ID_DE_SUBSCRIBE sh then
           copy (sizeof_NanSubscribeStats sh) FwNanSubscribeStats subscribe_copies
         else if stats_type = NAN_STATS_ID_DE_DW sh then copy (sizeof_NanDWStats sh) FwNanMacStats dw_copies
         else if stats_type = NAN_STATS_ID_DE_MAC sh then copy (sizeof_NanMacStats sh) FwNanMacStats mac_copies
         else if stats_type = NAN_STATS_ID_DE_TIMING_SYNC sh then copy (sizeof_NanSyncStats sh) FwNanSyncStats sync_copies
         else if stats_type = NAN_STATS_ID_DE sh then copy (sizeof_NanDeStats sh) FwNanDeStats de_copies
         else Inr None)"

text \<open>\<open>NanCapabilitiesRspMsg\<close> up to its bit-fields\<close>

definition capabilities_layout :: struct_layout where
  "capabilities_layout =
    [(''fwHeader'', 8), (''status'', 4), (''value'', 4),
     (''max_concurrent_nan_clusters'', 4), (''max_publishes'', 4), (''max_subscribes'', 4),
     (''max_service_name_len'', 4), (''max_match_filter_len'', 4), (''max_total_match_filter_len'', 4),
     (''max_service_specific_info_len'', 4), (''max_vsa_data_len'', 4), (''max_mesh_data_len'', 4),
     (''max_ndi_interfaces'', 4), (''max_ndp_sessions'', 4), (''max_app_info_len'', 4),
     (''max_queued_transmit_followup_msgs'', 4), (''ndp_supported_bands'', 4), (''cipher_suites_supported'', 4),
     (''max_scid_len'', 4), (''flags'', 4), (''max_subscribe_address'', 4)]"

definition get_capabilities :: "bytes \<Rightarrow> (string \<times> nat) list result" where
  "get_capabilities b =
     bindE (copy_fields capabilities_layout b (same
       [''max_concurrent_nan_clusters'', ''max_publishes'', ''max_subscribes'',
        ''max_service_name_len'', ''max_match_filter_len'', ''max_total_match_filter_len'',
        ''max_service_specific_info_len'', ''max_vsa_data_len'', ''max_mesh_data_len'',
        ''max_ndi_interfaces'', ''max_ndp_sessions'', ''max_app_info_len'',
        ''max_queued_transmit_followup_msgs'', ''ndp_supported_bands'', ''cipher_suites_supported'',
        ''max_scid_len''])) (\<lambda>r.
     bindE (read_field capabilities_layout b ''flags'') (\<lambda>flags.
     bindE (read_field capabilities_layout b ''max_subscribe_address'') (\<lambda>addrs.
     Inr (r @ [(''is_ndp_security_supported'', bit_field 0 1 flags),
               (''max_sdea_service_specific_info_len'', bit_field 1 16 flags),
               (''max_subscribe_address'', addrs), (''ndpe_attr_supported'', bit_field 27 1 flags)]))))"

text \<open>
  The responses that consist of a header, a status of \<open>w\<close> bytes and, with \<open>has_value\<close>, a value: the
  transaction, and the message with status and text.
\<close>

definition get_status ::
  "'m libnl \<Rightarrow> nan_codes \<Rightarrow> bytes \<Rightarrow> nat \<Rightarrow> bool \<Rightarrow> NanResponseMsg \<Rightarrow> (nat \<times> NanResponseMsg) result" where
  "get_status nl k b w has_value rsp =
     bindE (rd_num 2 b 6) (\<lambda>tid.
     bindE (rd_num w b header_size) (\<lambda>status.
     bindE (if has_value then rd_num w b (header_size + w) else Inr 0) (\<lambda>value.
     bindE (NanErrorTranslation nl k (Some b) status value (rs_verdict rsp) False) (\<lambda>v.
     Inr (tid, rsp\<lparr>rs_verdict := v\<rparr>)))))"

text \<open>The response to a statistics request, whose only TLV has the data.\<close>

definition get_stats ::
  "nan_stats_hw \<Rightarrow> bytes \<Rightarrow> nat \<Rightarrow> nat \<times> NanResponseMsg \<Rightarrow> (nat \<times> NanResponseMsg) result" where
  "get_stats sh b n s = (case s of (tid, rsp) \<Rightarrow>
     bindE (rd_num 1 b (header_size + 4)) (\<lambda>stats_type.
     if int n - int (header_size + 6) > 0
     then bindE (NANTLV_ReadTlv b (Some (header_size + 6)) (Some no_tlv)) (\<lambda>(_, outputTlv).
          case outputTlv of
            None \<Rightarrow> Inl UB
          | Some t \<Rightarrow>
              bindE (if unat (nt_length t) \<le> sizeof_stats_data sh
                     then handleNanStatsResponse sh stats_type (nt_value t) (unat (nt_length t)) else Inr None) (\<lambda>d.
              Inr (tid, rsp\<lparr>rs_response_type := NAN_RESPONSE_STATS, rs_body := stats_response stats_type d\<rparr>)))
     else Inr (tid, rsp\<lparr>rs_response_type := NAN_RESPONSE_STATS, rs_body := stats_response stats_type None\<rparr>)))"

text \<open>
  The result, the transaction (unless there is none) and the response; \<open>rsp\<close> is the cleared structure.
\<close>

definition getNanResponse ::
  "'m libnl \<Rightarrow> nan_codes \<Rightarrow> nan_stats_hw \<Rightarrow> bytes option \<Rightarrow> nat \<Rightarrow> NanResponseMsg
     \<Rightarrow> (int \<times> nat option \<times> NanResponseMsg) result" where
  "getNanResponse nl k sh ev n rsp =
     (case ev of
        None \<Rightarrow> Inr (nl_code nl WIFI_ERROR_INVALID_ARGS, None, rsp)
      | Some b \<Rightarrow>
          bindE (msg_id_of b) (\<lambda>i.
          let finish = (\<lambda>ty body r. bindE r (\<lambda>(tid, rsp).
                 Inr (0, Some tid, rsp\<lparr>rs_response_type := ty, rs_body := body\<rparr>)));
              plain = (\<lambda>ty has_value. finish ty (rs_body rsp) (get_status nl k b 2 has_value rsp));
              with_handle = (\<lambda>ty mk. bindE (rd_num 2 b 4) (\<lambda>h. finish ty (mk h) (get_status nl k b 2 True rsp)))
          in if i = NAN_MSG_ID_ERROR_RSP then plain NAN_RESPONSE_ERROR True
             else if i = NAN_MSG_ID_CONFIGURATION_RSP then plain NAN_RESPONSE_CONFIG True
             else if i = NAN_MSG_ID_PUBLISH_SERVICE_CANCEL_RSP then with_handle NAN_RESPONSE_PUBLISH_CANCEL publish_response
             else if i = NAN_MSG_ID_PUBLISH_SERVICE_RSP then with_handle NAN_RESPONSE_PUBLISH publish_response
             else if i = NAN_MSG_ID_SUBSCRIBE_SERVICE_RSP then with_handle NAN_RESPONSE_SUBSCRIBE subscribe_response
             else if i = NAN_MSG_ID_SUBSCRIBE_SERVICE_CANCEL_RSP then
               with_handle NAN_RESPONSE_SUBSCRIBE_CANCEL subscribe_response
             else if i = NAN_MSG_ID_TRANSMIT_FOLLOWUP_RSP then plain NAN_RESPONSE_TRANSMIT_FOLLOWUP True
             else if i = NAN_MSG_ID_STATS_RSP then
               bindE (bindE (get_status nl k b 2 True rsp) (get_stats sh b n)) (\<lambda>(tid, rsp). Inr (0, Some tid, rsp))
             else if i = NAN_MSG_ID_ENABLE_RSP then plain NAN_RESPONSE_ENABLED True
             else if i = NAN_MSG_ID_DISABLE_RSP then plain NAN_RESPONSE_DISABLED False
             else if i = NAN_MSG_ID_TCA_RSP then plain NAN_RESPONSE_TCA True
             else if i = NAN_MSG_ID_BEACON_SDF_RSP then plain NAN_RESPONSE_BEACON_SDF_PAYLOAD False
             else if i = NAN_MSG_ID_CAPABILITIES_RSP then
               bindE (get_status nl k b 4 True rsp) (\<lambda>(tid, rsp).
               bindE (get_capabilities b) (\<lambda>caps.
               Inr (0, Some tid, rsp\<lparr>rs_response_type := NAN_GET_CAPABILITIES, rs_body := nan_capabilities caps\<rparr>)))
             else Inr (- 1, None, rsp)))"

section \<open>Handling a response\<close>

record NanStaParameter =
  sp_master_pref :: nat
  sp_random_factor :: nat
  sp_hop_count :: nat
  sp_beacon_transmit_time :: nat
  sp_ndp_channel_freq :: nat
  sp_master_rank :: nat

definition stat :: "(string \<times> nat) list option \<Rightarrow> string \<Rightarrow> nat" where
  "stat d f = (case d of None \<Rightarrow> 0 | Some fs \<Rightarrow> (case map_of fs f of None \<Rightarrow> 0 | Some v \<Rightarrow> v))"

definition fill_sta_parameter :: "(string \<times> nat) list option \<Rightarrow> NanStaParameter" where
  "fill_sta_parameter d =
     \<lparr>sp_master_pref = drop_bit 56 (stat d ''myRank'' AND 0xFF00000000000000),
      sp_random_factor = drop_bit 48 (stat d ''myRank'' AND 0x00FF000000000000),
      sp_hop_count = stat d ''currAmHopCount'', sp_beacon_transmit_time = stat d ''currAmBTT'',
      sp_ndp_channel_freq = stat d ''ndpChannelFreq'', sp_master_rank = stat d ''myRank''\<rparr>"

text \<open>
  The result, \<open>mStaParam\<close> (where the response to \<open>getNanStaParameter\<close> goes) and the responses that
  \<open>NotifyResponse\<close>, if it is set, is called with.
\<close>

definition handleNanResponse ::
  "'m libnl \<Rightarrow> nan_codes \<Rightarrow> nan_stats_hw \<Rightarrow> NanResponseMsg \<Rightarrow> bool \<Rightarrow> bytes option \<Rightarrow> nat \<Rightarrow> NanStaParameter option
     \<Rightarrow> (int \<times> NanStaParameter option \<times> (nat option \<times> NanResponseMsg) list) result" where
  "handleNanResponse nl k sh z notify ev n mStaParam =
     bindE (getNanResponse nl k sh ev n z) (\<lambda>(ret, tid, rsp).
       case (rs_body rsp, mStaParam) of
         (stats_response ty d, Some _) \<Rightarrow>
           if ret = 0 \<and> rs_response_type rsp = NAN_RESPONSE_STATS \<and> ty = NAN_STATS_ID_DE_TIMING_SYNC sh
           then Inr (ret, Some (fill_sta_parameter d), [])
           else Inr (ret, mStaParam, if ret = 0 \<and> notify then [(tid, rsp)] else [])
       | _ \<Rightarrow> Inr (ret, mStaParam, if ret = 0 \<and> notify then [(tid, rsp)] else []))"

end
