(* ===== verification/NanDataPath.thy ===== *)
theory NanDataPath
  imports NanResponse
begin

text \<open>
  The NAN data path: the vendor attributes of \<open>wlan/wifi_hal/mtk_vendor_cmd.h\<close>, the indications of
  \<open>nan_ind.cpp\<close> (\<open>getNdpRequest\<close>, \<open>getNdpConfirm\<close>, \<open>getNdpScheduleUpdate\<close>, \<open>handleNdpIndication\<close>) and
  \<open>handleNdpResponse\<close> of \<open>nan_rsp.cpp\<close>. Here the messages are netlink attributes; an attribute that the
  message does not have is a null pointer, whose data and length must not be asked for.
\<close>

section \<open>Attributes\<close>

definition MTK_WLAN_VENDOR_ATTR_NDP_PARAM_INVALID :: nat where [simp]: "MTK_WLAN_VENDOR_ATTR_NDP_PARAM_INVALID = 0"
definition MTK_WLAN_VENDOR_ATTR_NDP_SUBCMD :: nat where [simp]: "MTK_WLAN_VENDOR_ATTR_NDP_SUBCMD = 1"
definition MTK_WLAN_VENDOR_ATTR_NDP_TRANSACTION_ID :: nat where [simp]: "MTK_WLAN_VENDOR_ATTR_NDP_TRANSACTION_ID = 2"
definition MTK_WLAN_VENDOR_ATTR_NDP_SERVICE_INSTANCE_ID :: nat where [simp]: "MTK_WLAN_VENDOR_ATTR_NDP_SERVICE_INSTANCE_ID = 3"
definition MTK_WLAN_VENDOR_ATTR_NDP_CHANNEL :: nat where [simp]: "MTK_WLAN_VENDOR_ATTR_NDP_CHANNEL = 4"
definition MTK_WLAN_VENDOR_ATTR_NDP_PEER_DISCOVERY_MAC_ADDR :: nat where [simp]: "MTK_WLAN_VENDOR_ATTR_NDP_PEER_DISCOVERY_MAC_ADDR = 5"
definition MTK_WLAN_VENDOR_ATTR_NDP_IFACE_STR :: nat where [simp]: "MTK_WLAN_VENDOR_ATTR_NDP_IFACE_STR = 6"
definition MTK_WLAN_VENDOR_ATTR_NDP_CONFIG_SECURITY :: nat where [simp]: "MTK_WLAN_VENDOR_ATTR_NDP_CONFIG_SECURITY = 7"
definition MTK_WLAN_VENDOR_ATTR_NDP_CONFIG_QOS :: nat where [simp]: "MTK_WLAN_VENDOR_ATTR_NDP_CONFIG_QOS = 8"
definition MTK_WLAN_VENDOR_ATTR_NDP_APP_INFO :: nat where [simp]: "MTK_WLAN_VENDOR_ATTR_NDP_APP_INFO = 9"
definition MTK_WLAN_VENDOR_ATTR_NDP_INSTANCE_ID :: nat where [simp]: "MTK_WLAN_VENDOR_ATTR_NDP_INSTANCE_ID = 10"
definition MTK_WLAN_VENDOR_ATTR_NDP_INSTANCE_ID_ARRAY :: nat where [simp]: "MTK_WLAN_VENDOR_ATTR_NDP_INSTANCE_ID_ARRAY = 11"
definition MTK_WLAN_VENDOR_ATTR_NDP_RESPONSE_CODE :: nat where [simp]: "MTK_WLAN_VENDOR_ATTR_NDP_RESPONSE_CODE = 12"
definition MTK_WLAN_VENDOR_ATTR_NDP_NDI_MAC_ADDR :: nat where [simp]: "MTK_WLAN_VENDOR_ATTR_NDP_NDI_MAC_ADDR = 13"
definition MTK_WLAN_VENDOR_ATTR_NDP_DRV_RESPONSE_STATUS_TYPE :: nat where [simp]: "MTK_WLAN_VENDOR_ATTR_NDP_DRV_RESPONSE_STATUS_TYPE = 14"
definition MTK_WLAN_VENDOR_ATTR_NDP_DRV_RETURN_VALUE :: nat where [simp]: "MTK_WLAN_VENDOR_ATTR_NDP_DRV_RETURN_VALUE = 15"
definition MTK_WLAN_VENDOR_ATTR_NDP_CHANNEL_CONFIG :: nat where [simp]: "MTK_WLAN_VENDOR_ATTR_NDP_CHANNEL_CONFIG = 16"
definition MTK_WLAN_VENDOR_ATTR_NDP_CSID :: nat where [simp]: "MTK_WLAN_VENDOR_ATTR_NDP_CSID = 17"
definition MTK_WLAN_VENDOR_ATTR_NDP_PMK :: nat where [simp]: "MTK_WLAN_VENDOR_ATTR_NDP_PMK = 18"
definition MTK_WLAN_VENDOR_ATTR_NDP_SCID :: nat where [simp]: "MTK_WLAN_VENDOR_ATTR_NDP_SCID = 19"
definition MTK_WLAN_VENDOR_ATTR_NDP_PASSPHRASE :: nat where [simp]: "MTK_WLAN_VENDOR_ATTR_NDP_PASSPHRASE = 20"
definition MTK_WLAN_VENDOR_ATTR_NDP_SERVICE_NAME :: nat where [simp]: "MTK_WLAN_VENDOR_ATTR_NDP_SERVICE_NAME = 21"
definition MTK_WLAN_VENDOR_ATTR_NDP_SCHEDULE_UPDATE_REASON :: nat where [simp]: "MTK_WLAN_VENDOR_ATTR_NDP_SCHEDULE_UPDATE_REASON = 22"
definition MTK_WLAN_VENDOR_ATTR_NDP_NSS :: nat where [simp]: "MTK_WLAN_VENDOR_ATTR_NDP_NSS = 23"
definition MTK_WLAN_VENDOR_ATTR_NDP_NUM_CHANNELS :: nat where [simp]: "MTK_WLAN_VENDOR_ATTR_NDP_NUM_CHANNELS = 24"
definition MTK_WLAN_VENDOR_ATTR_NDP_CHANNEL_WIDTH :: nat where [simp]: "MTK_WLAN_VENDOR_ATTR_NDP_CHANNEL_WIDTH = 25"
definition MTK_WLAN_VENDOR_ATTR_NDP_CHANNEL_INFO :: nat where [simp]: "MTK_WLAN_VENDOR_ATTR_NDP_CHANNEL_INFO = 26"
definition MTK_WLAN_VENDOR_ATTR_NDP_IPV6_ADDR :: nat where [simp]: "MTK_WLAN_VENDOR_ATTR_NDP_IPV6_ADDR = 27"
definition MTK_WLAN_VENDOR_ATTR_NDP_TRANSPORT_PORT :: nat where [simp]: "MTK_WLAN_VENDOR_ATTR_NDP_TRANSPORT_PORT = 28"
definition MTK_WLAN_VENDOR_ATTR_NDP_TRANSPORT_PROTOCOL :: nat where [simp]: "MTK_WLAN_VENDOR_ATTR_NDP_TRANSPORT_PROTOCOL = 29"
definition MTK_WLAN_VENDOR_ATTR_NDP_PARAMS_AFTER_LAST :: nat where [simp]: "MTK_WLAN_VENDOR_ATTR_NDP_PARAMS_AFTER_LAST = 30"
definition MTK_WLAN_VENDOR_ATTR_NDP_PARAMS_MAX :: nat where [simp]: "MTK_WLAN_VENDOR_ATTR_NDP_PARAMS_MAX = 29"

text \<open>Commands\<close>

definition MTK_WLAN_VENDOR_ATTR_NDP_INVALID :: nat where [simp]: "MTK_WLAN_VENDOR_ATTR_NDP_INVALID = 0"
definition MTK_WLAN_VENDOR_ATTR_NDP_INTERFACE_CREATE :: nat where [simp]: "MTK_WLAN_VENDOR_ATTR_NDP_INTERFACE_CREATE = 1"
definition MTK_WLAN_VENDOR_ATTR_NDP_INTERFACE_DELETE :: nat where [simp]: "MTK_WLAN_VENDOR_ATTR_NDP_INTERFACE_DELETE = 2"
definition MTK_WLAN_VENDOR_ATTR_NDP_INITIATOR_REQUEST :: nat where [simp]: "MTK_WLAN_VENDOR_ATTR_NDP_INITIATOR_REQUEST = 3"
definition MTK_WLAN_VENDOR_ATTR_NDP_INITIATOR_RESPONSE :: nat where [simp]: "MTK_WLAN_VENDOR_ATTR_NDP_INITIATOR_RESPONSE = 4"
definition MTK_WLAN_VENDOR_ATTR_NDP_RESPONDER_REQUEST :: nat where [simp]: "MTK_WLAN_VENDOR_ATTR_NDP_RESPONDER_REQUEST = 5"
definition MTK_WLAN_VENDOR_ATTR_NDP_RESPONDER_RESPONSE :: nat where [simp]: "MTK_WLAN_VENDOR_ATTR_NDP_RESPONDER_RESPONSE = 6"
definition MTK_WLAN_VENDOR_ATTR_NDP_END_REQUEST :: nat where [simp]: "MTK_WLAN_VENDOR_ATTR_NDP_END_REQUEST = 7"
definition MTK_WLAN_VENDOR_ATTR_NDP_END_RESPONSE :: nat where [simp]: "MTK_WLAN_VENDOR_ATTR_NDP_END_RESPONSE = 8"
definition MTK_WLAN_VENDOR_ATTR_NDP_REQUEST_IND :: nat where [simp]: "MTK_WLAN_VENDOR_ATTR_NDP_REQUEST_IND = 9"
definition MTK_WLAN_VENDOR_ATTR_NDP_CONFIRM_IND :: nat where [simp]: "MTK_WLAN_VENDOR_ATTR_NDP_CONFIRM_IND = 10"
definition MTK_WLAN_VENDOR_ATTR_NDP_END_IND :: nat where [simp]: "MTK_WLAN_VENDOR_ATTR_NDP_END_IND = 11"
definition MTK_WLAN_VENDOR_ATTR_NDP_SCHEDULE_UPDATE_IND :: nat where [simp]: "MTK_WLAN_VENDOR_ATTR_NDP_SCHEDULE_UPDATE_IND = 12"

section \<open>Fields of the events\<close>

text \<open>\<open>nla_len\<close>\<close>

definition nla_len :: "bytes option \<Rightarrow> nat result" where
  "nla_len a = (case a of None \<Rightarrow> Inl UB | Some d \<Rightarrow> Inr (length d))"

text \<open>
  \<open>len = nla_len(a); len = sizeof(dst) <= len ? sizeof(dst) : len; memcpy(dst, nla_data(a), len)\<close>, with
  the length that was copied.
\<close>

definition copy_attr :: "bytes \<Rightarrow> bytes option \<Rightarrow> (bytes \<times> nat) result" where
  "copy_attr dst a =
     bindE (nla_len a) (\<lambda>len.
     let len = (if length dst \<le> len then length dst else len)
     in bindE (memcpy dst a len) (\<lambda>d. Inr (d, len)))"

record NanDataPathAppInfo =
  ndp_app_info_len :: nat
  ndp_app_info :: bytes

definition copy_app_info :: "nl_attrs \<Rightarrow> NanDataPathAppInfo \<Rightarrow> NanDataPathAppInfo result" where
  "copy_app_info tb i =
     (if tb MTK_WLAN_VENDOR_ATTR_NDP_APP_INFO = None then Inr i
      else bindE (copy_attr (ndp_app_info i) (tb MTK_WLAN_VENDOR_ATTR_NDP_APP_INFO)) (\<lambda>(d, n).
           Inr \<lparr>ndp_app_info_len = n, ndp_app_info = d\<rparr>))"

section \<open>Data request\<close>

record NanDataPathRequestInd =
  dr_service_instance_id :: nat
  dr_peer_disc_mac_addr :: bytes
  dr_ndp_instance_id :: nat
  dr_app_info :: NanDataPathAppInfo

definition getNdpRequest :: "nl_attrs \<Rightarrow> NanDataPathRequestInd \<Rightarrow> (WifiError \<times> NanDataPathRequestInd) result" where
  "getNdpRequest tb e =
     (if tb MTK_WLAN_VENDOR_ATTR_NDP_SERVICE_INSTANCE_ID = None
         \<or> tb MTK_WLAN_VENDOR_ATTR_NDP_PEER_DISCOVERY_MAC_ADDR = None
         \<or> tb MTK_WLAN_VENDOR_ATTR_NDP_INSTANCE_ID = None
      then Inr (WIFI_ERROR_INVALID_ARGS, e)
      else
        bindE (nla_get 2 (tb MTK_WLAN_VENDOR_ATTR_NDP_SERVICE_INSTANCE_ID)) (\<lambda>service.
        bindE (copy_attr (dr_peer_disc_mac_addr e) (tb MTK_WLAN_VENDOR_ATTR_NDP_PEER_DISCOVERY_MAC_ADDR)) (\<lambda>(addr, _).
        bindE (nla_get 4 (tb MTK_WLAN_VENDOR_ATTR_NDP_INSTANCE_ID)) (\<lambda>ndp.
        bindE (copy_app_info tb (dr_app_info e)) (\<lambda>info.
        Inr (WIFI_SUCCESS, \<lparr>dr_service_instance_id = service, dr_peer_disc_mac_addr = addr,
                            dr_ndp_instance_id = ndp, dr_app_info = info\<rparr>))))))"

section \<open>Channels\<close>

record NanChannelInfo =
  ci_channel :: nat
  ci_bandwidth :: nat
  ci_nss :: nat

text \<open>
  The loop over the nested attributes. What \<open>nla_ok\<close>, \<open>nla_next\<close> and \<open>nla_parse\<close> of libnl make of the
  attribute \<open>CHANNEL_INFO\<close> is the list \<open>chs\<close> of the parsed attributes; \<open>limit\<close> is
  \<open>NAN_MAX_CHANNEL_INFO_SUPPORTED\<close>, \<open>i\<close> the index at which the next one is stored. A missing number
  ends the function with an error.
\<close>

fun channel_loop ::
  "nat \<Rightarrow> nl_attrs list \<Rightarrow> nat \<Rightarrow> NanChannelInfo list \<Rightarrow> (WifiError \<times> NanChannelInfo list) result" where
  "channel_loop limit [] i cs = Inr (WIFI_SUCCESS, cs)"
| "channel_loop limit (tb2 # chs) i cs =
     (if i \<ge> limit then Inr (WIFI_SUCCESS, cs)
      else if tb2 MTK_WLAN_VENDOR_ATTR_NDP_CHANNEL = None then Inr (WIFI_ERROR_INVALID_ARGS, cs)
      else bindE (nla_get 4 (tb2 MTK_WLAN_VENDOR_ATTR_NDP_CHANNEL)) (\<lambda>ch.
           bindE (vec_at cs (int i)) (\<lambda>c.
           bindE (vec_set cs (int i) (c\<lparr>ci_channel := ch\<rparr>)) (\<lambda>cs.
           if tb2 MTK_WLAN_VENDOR_ATTR_NDP_CHANNEL_WIDTH = None then Inr (WIFI_ERROR_INVALID_ARGS, cs)
           else bindE (nla_get 4 (tb2 MTK_WLAN_VENDOR_ATTR_NDP_CHANNEL_WIDTH)) (\<lambda>bw.
           bindE (vec_set cs (int i) (c\<lparr>ci_channel := ch, ci_bandwidth := bw\<rparr>)) (\<lambda>cs.
           if tb2 MTK_WLAN_VENDOR_ATTR_NDP_NSS = None then Inr (WIFI_ERROR_INVALID_ARGS, cs)
           else bindE (nla_get 4 (tb2 MTK_WLAN_VENDOR_ATTR_NDP_NSS)) (\<lambda>nss.
           bindE (vec_set cs (int i) (c\<lparr>ci_channel := ch, ci_bandwidth := bw, ci_nss := nss\<rparr>)) (\<lambda>cs.
           channel_loop limit chs (Suc i) cs))))))))"

text \<open>The channels of an event that says it has some.\<close>

definition get_channels ::
  "(bytes \<Rightarrow> nl_attrs list) \<Rightarrow> nat \<Rightarrow> bytes option \<Rightarrow> nat \<Rightarrow> NanChannelInfo list
     \<Rightarrow> (WifiError \<times> NanChannelInfo list) result" where
  "get_channels nested limit info num_channels cs =
     (if num_channels = 0 then Inr (WIFI_SUCCESS, cs)
      else case info of None \<Rightarrow> Inl UB | Some d \<Rightarrow> channel_loop limit (nested d) 0 cs)"

section \<open>Data confirm\<close>

record NanDataPathConfirmInd =
  dc_ndp_instance_id :: nat
  dc_peer_ndi_mac_addr :: bytes
  dc_rsp_code :: nat
  dc_app_info :: NanDataPathAppInfo
  dc_reason_code :: nat
  dc_num_channels :: nat
  dc_channel_info :: "NanChannelInfo list"

definition ndp_reason :: "nan_codes \<Rightarrow> nat \<Rightarrow> nat" where
  "ndp_reason k drv_reason_code =
     (if drv_reason_code \<in> {NDP_I_MGMT_FRAME_REQUEST_FAILED, NDP_I_MGMT_FRAME_RESPONSE_FAILED,
                            NDP_I_MGMT_FRAME_CONFIRM_FAILED, NDP_I_MGMT_FRAME_SECURITY_INSTALL_FAILED}
      then NAN_STATUS_PROTOCOL_FAILURE k else drv_reason_code)"

text \<open>
  \<open>MTK_WLAN_VENDOR_ATTR_NDP_DRV_RETURN_VALUE\<close> is read without a check, two bytes are read of the
  instance identifier, and the channels are asked for only when there are too many of them.
\<close>

definition getNdpConfirm ::
  "nan_codes \<Rightarrow> (bytes \<Rightarrow> nl_attrs list) \<Rightarrow> nat \<Rightarrow> nl_attrs \<Rightarrow> NanDataPathConfirmInd
     \<Rightarrow> (WifiError \<times> NanDataPathConfirmInd) result" where
  "getNdpConfirm k nested limit tb e =
     (if tb MTK_WLAN_VENDOR_ATTR_NDP_INSTANCE_ID = None \<or> tb MTK_WLAN_VENDOR_ATTR_NDP_NDI_MAC_ADDR = None
         \<or> tb MTK_WLAN_VENDOR_ATTR_NDP_RESPONSE_CODE = None
      then Inr (WIFI_ERROR_INVALID_ARGS, e)
      else
        bindE (nla_get 2 (tb MTK_WLAN_VENDOR_ATTR_NDP_INSTANCE_ID)) (\<lambda>ndp.
        bindE (copy_attr (dc_peer_ndi_mac_addr e) (tb MTK_WLAN_VENDOR_ATTR_NDP_NDI_MAC_ADDR)) (\<lambda>(addr, _).
        bindE (nla_get 4 (tb MTK_WLAN_VENDOR_ATTR_NDP_RESPONSE_CODE)) (\<lambda>rsp.
        bindE (copy_app_info tb (dc_app_info e)) (\<lambda>info.
        bindE (nla_get 4 (tb MTK_WLAN_VENDOR_ATTR_NDP_DRV_RETURN_VALUE)) (\<lambda>drv.
        let e = e\<lparr>dc_ndp_instance_id := ndp, dc_peer_ndi_mac_addr := addr, dc_rsp_code := rsp, dc_app_info := info,
                  dc_reason_code := ndp_reason k drv\<rparr>
        in bindE (if tb MTK_WLAN_VENDOR_ATTR_NDP_NUM_CHANNELS = None then Inr (dc_num_channels e)
                  else nla_get 4 (tb MTK_WLAN_VENDOR_ATTR_NDP_NUM_CHANNELS)) (\<lambda>num.
           let e = e\<lparr>dc_num_channels := num\<rparr>
           in if tb MTK_WLAN_VENDOR_ATTR_NDP_NUM_CHANNELS \<noteq> None \<and> num > limit
                 \<and> tb MTK_WLAN_VENDOR_ATTR_NDP_CHANNEL_INFO = None
              then Inr (WIFI_ERROR_INVALID_ARGS, e)
              else bindE (get_channels nested limit (tb MTK_WLAN_VENDOR_ATTR_NDP_CHANNEL_INFO) num (dc_channel_info e))
                     (\<lambda>(ret, cs). Inr (ret, e\<lparr>dc_channel_info := cs\<rparr>)))))))))"

section \<open>Schedule update\<close>

text \<open>The identifiers are those of the array; the others of the event are what the allocation holds.\<close>

record NanDataPathScheduleUpdateInd =
  su_peer_mac_addr :: bytes
  su_schedule_update_reason_code :: nat
  su_num_channels :: nat
  su_channel_info :: "NanChannelInfo list"
  su_num_ndp_instances :: nat
  su_ndp_instance_id :: bytes

text \<open>\<open>nla_memcpy(dst, a, n)\<close>: not more than the attribute has.\<close>

definition nla_memcpy :: "bytes \<Rightarrow> bytes option \<Rightarrow> nat \<Rightarrow> bytes result" where
  "nla_memcpy dst a n = bindE (nla_len a) (\<lambda>len. memcpy dst a (min n len))"

definition getNdpScheduleUpdate ::
  "(bytes \<Rightarrow> nl_attrs list) \<Rightarrow> nat \<Rightarrow> nl_attrs \<Rightarrow> NanDataPathScheduleUpdateInd
     \<Rightarrow> (WifiError \<times> NanDataPathScheduleUpdateInd) result" where
  "getNdpScheduleUpdate nested limit tb e =
     bindE (copy_attr (su_peer_mac_addr e) (tb MTK_WLAN_VENDOR_ATTR_NDP_PEER_DISCOVERY_MAC_ADDR)) (\<lambda>(addr, _).
     bindE (nla_get 4 (tb MTK_WLAN_VENDOR_ATTR_NDP_SCHEDULE_UPDATE_REASON)) (\<lambda>reason.
     let e = e\<lparr>su_peer_mac_addr := addr, su_schedule_update_reason_code := reason\<rparr>
     in bindE (get_channels nested limit (tb MTK_WLAN_VENDOR_ATTR_NDP_CHANNEL_INFO) (su_num_channels e)
                 (su_channel_info e)) (\<lambda>(ret, cs).
        let e = e\<lparr>su_channel_info := cs\<rparr>
        in if ret \<noteq> WIFI_SUCCESS then Inr (ret, e)
           else bindE (if su_num_ndp_instances e = 0 then Inr (su_ndp_instance_id e)
                       else nla_memcpy (su_ndp_instance_id e) (tb MTK_WLAN_VENDOR_ATTR_NDP_INSTANCE_ID_ARRAY)
                              (4 * su_num_ndp_instances e)) (\<lambda>ids.
                Inr (WIFI_SUCCESS, e\<lparr>su_ndp_instance_id := ids\<rparr>)))))"

section \<open>Dispatch\<close>

text \<open>What the handlers are called with; the end of a data path may come without an event.\<close>

datatype NdpEvent =
    EventDataRequest NanDataPathRequestInd
  | EventDataConfirm NanDataPathConfirmInd
  | EventDataEnd "(nat \<times> bytes) option"
  | EventScheduleUpdate NanDataPathScheduleUpdateInd

text \<open>The cleared events, and the one whose allocation is not cleared.\<close>

record ndp_events =
  z_data_request :: NanDataPathRequestInd
  z_data_confirm :: NanDataPathConfirmInd
  z_schedule_update :: NanDataPathScheduleUpdateInd
  sizeof_NanDataPathEndInd :: nat
  sizeof_NanDataPathScheduleUpdateInd :: nat
  NAN_MAX_CHANNEL_INFO_SUPPORTED :: nat

text \<open>The number of identifiers in the array, as an \<open>u8\<close>.\<close>

definition num_ndp_ids :: "bytes \<Rightarrow> nat" where
  "num_ndp_ids ids = (length ids div 4) mod 256"

definition handleNdpIndication ::
  "'m libnl \<Rightarrow> nan_codes \<Rightarrow> (bytes \<Rightarrow> nl_attrs list) \<Rightarrow> ndp_events \<Rightarrow> (nat \<Rightarrow> bool) \<Rightarrow> nat \<Rightarrow> nl_attrs
     \<Rightarrow> (WifiError \<times> NdpEvent list) result" where
  "handleNdpIndication nl k nested z handlers ndpCmdType tb =
     (let limit = NAN_MAX_CHANNEL_INFO_SUPPORTED z;
          call = (\<lambda>res ev. Inr (res, if res = WIFI_SUCCESS \<and> handlers ndpCmdType then [ev] else []))
      in if ndpCmdType = MTK_WLAN_VENDOR_ATTR_NDP_REQUEST_IND then
           bindE (getNdpRequest tb (z_data_request z)) (\<lambda>(res, e). call res (EventDataRequest e))
         else if ndpCmdType = MTK_WLAN_VENDOR_ATTR_NDP_CONFIRM_IND then
           bindE (getNdpConfirm k nested limit tb (z_data_confirm z)) (\<lambda>(res, e). call res (EventDataConfirm e))
         else if ndpCmdType = MTK_WLAN_VENDOR_ATTR_NDP_END_IND then
           (case tb MTK_WLAN_VENDOR_ATTR_NDP_INSTANCE_ID_ARRAY of
              None \<Rightarrow> Inr (WIFI_ERROR_INVALID_ARGS, [])
            | Some ids \<Rightarrow>
                let num = num_ndp_ids ids
                in if num = 0 then call WIFI_SUCCESS (EventDataEnd None)
                   else if \<not> nl_malloc nl (sizeof_NanDataPathEndInd z + 4 * num) then Inr (WIFI_ERROR_OUT_OF_MEMORY, [])
                   else bindE (nla_memcpy (replicate (4 * num) 0) (Some ids) (4 * num)) (\<lambda>d.
                        call WIFI_SUCCESS (EventDataEnd (Some (num, d)))))
         else if ndpCmdType = MTK_WLAN_VENDOR_ATTR_NDP_SCHEDULE_UPDATE_IND then
           (if tb MTK_WLAN_VENDOR_ATTR_NDP_PEER_DISCOVERY_MAC_ADDR = None
               \<or> tb MTK_WLAN_VENDOR_ATTR_NDP_SCHEDULE_UPDATE_REASON = None
               \<or> tb MTK_WLAN_VENDOR_ATTR_NDP_INSTANCE_ID_ARRAY = None
            then Inr (WIFI_ERROR_INVALID_ARGS, [])
            else
              bindE (if tb MTK_WLAN_VENDOR_ATTR_NDP_NUM_CHANNELS = None then Inr 0
                     else nla_get 4 (tb MTK_WLAN_VENDOR_ATTR_NDP_NUM_CHANNELS)) (\<lambda>num_channels.
              if num_channels > limit \<and> tb MTK_WLAN_VENDOR_ATTR_NDP_CHANNEL_INFO = None
              then Inr (WIFI_ERROR_INVALID_ARGS, [])
              else
                bindE (nla_bytes (tb MTK_WLAN_VENDOR_ATTR_NDP_INSTANCE_ID_ARRAY)) (\<lambda>ids.
                let num = num_ndp_ids ids
                in if \<not> nl_malloc nl (sizeof_NanDataPathScheduleUpdateInd z + 4 * num)
                   then Inr (WIFI_ERROR_OUT_OF_MEMORY, [])
                   else bindE (getNdpScheduleUpdate nested limit tb
                          ((z_schedule_update z)\<lparr>su_num_channels := num_channels, su_num_ndp_instances := num,
                             su_ndp_instance_id := replicate (4 * num) 0\<rparr>)) (\<lambda>(res, e).
                        call res (EventScheduleUpdate e)))))
         else Inr (WIFI_ERROR_INVALID_REQUEST_ID, []))"

section \<open>Responses\<close>

definition handleNdpResponse ::
  "'m libnl \<Rightarrow> nan_codes \<Rightarrow> NanResponseMsg \<Rightarrow> bool \<Rightarrow> NanResponseType \<Rightarrow> nl_attrs
     \<Rightarrow> (WifiError \<times> (nat \<times> NanResponseMsg) list) result" where
  "handleNdpResponse nl k z notify ndpCmdType tb =
     (if tb MTK_WLAN_VENDOR_ATTR_NDP_TRANSACTION_ID = None
         \<or> tb MTK_WLAN_VENDOR_ATTR_NDP_DRV_RESPONSE_STATUS_TYPE = None
         \<or> tb MTK_WLAN_VENDOR_ATTR_NDP_DRV_RETURN_VALUE = None
      then Inr (WIFI_ERROR_INVALID_ARGS, [])
      else
        bindE (nla_get 2 (tb MTK_WLAN_VENDOR_ATTR_NDP_TRANSACTION_ID)) (\<lambda>tid.
        bindE (nla_get 4 (tb MTK_WLAN_VENDOR_ATTR_NDP_DRV_RESPONSE_STATUS_TYPE)) (\<lambda>status.
        bindE (nla_get 4 (tb MTK_WLAN_VENDOR_ATTR_NDP_DRV_RETURN_VALUE)) (\<lambda>val.
        bindE (NanErrorTranslation nl k None status val (rs_verdict z) True) (\<lambda>v.
        let rsp = z\<lparr>rs_verdict := v, rs_response_type := ndpCmdType\<rparr>
        in bindE (if ndpCmdType = NAN_DP_INITIATOR_RESPONSE
                  then (if tb MTK_WLAN_VENDOR_ATTR_NDP_INSTANCE_ID = None then Inr None
                        else bindE (nla_get 4 (tb MTK_WLAN_VENDOR_ATTR_NDP_INSTANCE_ID)) (\<lambda>i.
                             Inr (Some (rsp\<lparr>rs_body := data_request_response i\<rparr>))))
                  else Inr (Some rsp)) (\<lambda>r.
           case r of
             None \<Rightarrow> Inr (WIFI_ERROR_INVALID_ARGS, [])
           | Some rsp \<Rightarrow> Inr (WIFI_SUCCESS, if notify then [(tid, rsp)] else [])))))))"

end
