(* ===== verification/NanCommand.thy ===== *)
theory NanCommand
  imports NanEvents NanDataPath
begin

text \<open>
  \<open>NanCommand\<close> and the functions that the framework calls (\<open>wlan/wifi_hal/nan.cpp\<close>, with \<open>requestEvent\<close>
  of \<open>nan_req.cpp\<close>): every request builds a command, fills in its message and sends it; every event of
  the driver is taken apart and handed to the callbacks.
\<close>

definition MTK_SUBCMD_NAN :: nat where [simp]: "MTK_SUBCMD_NAN = 12"
definition MTK_SUBCMD_NDP :: nat where [simp]: "MTK_SUBCMD_NDP = 81"
definition MTK_WLAN_VENDOR_ATTR_NAN :: nat where [simp]: "MTK_WLAN_VENDOR_ATTR_NAN = 2"

section \<open>Creating and sending\<close>

text \<open>\<open>NanCommand::create\<close>\<close>

definition nan_create :: "'m libnl \<Rightarrow> 'm WifiVendorCommand \<Rightarrow> (WifiError \<times> 'm WifiVendorCommand) result" where
  "nan_create nl c =
     (let ok = nl_code nl WIFI_SUCCESS;
          out = (\<lambda>ret r. Inr (mapKernelErrortoWifiHalError ret, c\<lparr>vc_request := (if ret \<noteq> ok then rq_destroy r else r)\<rparr>))
      in case rq_create nl (NL80211_CMD_VENDOR nl) (vc_request c) of (ret, r) \<Rightarrow>
         if ret \<noteq> ok then out ret r
         else bindE (rq_put_u32 nl (NL80211_ATTR_VENDOR_ID nl) (vc_vendor_id c) r) (\<lambda>(ret, r).
              if ret \<noteq> ok then out ret r
              else bindE (rq_put_u32 nl (NL80211_ATTR_VENDOR_SUBCMD nl) (vc_subcmd c) r) (\<lambda>(ret, r). out ret r)))"

text \<open>
  \<open>NanCommand::requestEvent\<close>: the message is sent and the acknowledgement awaited; data and message are
  given up in every case.
\<close>

definition requestEvent :: "'m libnl \<Rightarrow> bool \<Rightarrow> 'm WifiVendorCommand \<Rightarrow> (WifiError \<times> 'm WifiVendorCommand) result" where
  "requestEvent nl cmd_sock c =
     (if \<not> nl_cb_alloc nl \<or> \<not> cmd_sock then Inr (WIFI_ERROR_OUT_OF_MEMORY, cleanup c)
      else case rq_msg (vc_request c) of
          None \<Rightarrow> Inl UB
        | Some m \<Rightarrow>
            if nl_send nl m < 0 then Inr (mapKernelErrortoWifiHalError (nl_send nl m), cleanup c)
            else bindE (recv_loop (nl_replies nl m) 1) (\<lambda>status.
                 Inr (mapKernelErrortoWifiHalError status, cleanup (c\<lparr>vc_sent := m # vc_sent c\<rparr>))))"

text \<open>The interface that a request is for: the generic netlink family, its name, and whether there is a socket.\<close>

record nan_iface =
  if_family :: nat
  if_name :: string
  if_cmd_sock :: bool

text \<open>
  What the requests have in common: a new command, its message, the interface, \<open>fill\<close>, and the sending.
  The result comes with the messages that have been sent.
\<close>

definition nan_request ::
  "'m libnl \<Rightarrow> nan_iface \<Rightarrow> ('m WifiVendorCommand \<Rightarrow> (WifiError \<times> 'm WifiVendorCommand) result)
     \<Rightarrow> (WifiError \<times> 'm list) result" where
  "nan_request nl i fill =
     bindE (nan_create nl (new_vendor_command (if_family i) OUI_MTK MTK_SUBCMD_NAN)) (\<lambda>(ret, c).
     if ret \<noteq> WIFI_SUCCESS then Inr (ret, vc_sent c)
     else bindE (vc_set_iface_id nl (if_name i) c) (\<lambda>(ret, c).
     if ret \<noteq> WIFI_SUCCESS then Inr (ret, vc_sent c)
     else bindE (fill c) (\<lambda>(ret, c).
     if ret \<noteq> WIFI_SUCCESS then Inr (ret, vc_sent c)
     else bindE (requestEvent nl (if_cmd_sock i) c) (\<lambda>(ret, c). Inr (ret, vc_sent c)))))"

section \<open>The requests of the framework\<close>

definition nan_enable_request ::
  "'m libnl \<Rightarrow> nan_hw \<Rightarrow> nan_iface \<Rightarrow> nat \<Rightarrow> NanEnableRequest option \<Rightarrow> (WifiError \<times> 'm list) result" where
  "nan_enable_request nl hw i tid msg =
     (case msg of
        None \<Rightarrow> Inl UB
      | Some r \<Rightarrow> if \<not> nonzero (er_support_2dot4g_val r) then Inr (WIFI_ERROR_NOT_SUPPORTED, [])
                  else nan_request nl i (putNanEnable nl hw tid msg))"

definition nan_disable_request :: "'m libnl \<Rightarrow> nan_iface \<Rightarrow> nat \<Rightarrow> (WifiError \<times> 'm list) result" where
  "nan_disable_request nl i tid = nan_request nl i (putNanDisable nl tid)"

definition nan_publish_request ::
  "'m libnl \<Rightarrow> nan_hw \<Rightarrow> nan_iface \<Rightarrow> nat \<Rightarrow> NanPublishRequest option \<Rightarrow> (WifiError \<times> 'm list) result" where
  "nan_publish_request nl hw i tid msg = nan_request nl i (putNanPublish nl hw tid msg)"

definition nan_publish_cancel_request ::
  "'m libnl \<Rightarrow> nan_iface \<Rightarrow> nat \<Rightarrow> nat option \<Rightarrow> (WifiError \<times> 'm list) result" where
  "nan_publish_cancel_request nl i tid msg = nan_request nl i (putNanPublishCancel nl tid msg)"

definition nan_subscribe_request ::
  "'m libnl \<Rightarrow> nan_hw \<Rightarrow> nan_iface \<Rightarrow> nat \<Rightarrow> NanSubscribeRequest option \<Rightarrow> (WifiError \<times> 'm list) result" where
  "nan_subscribe_request nl hw i tid msg = nan_request nl i (putNanSubscribe nl hw tid msg)"

definition nan_subscribe_cancel_request ::
  "'m libnl \<Rightarrow> nan_iface \<Rightarrow> nat \<Rightarrow> nat option \<Rightarrow> (WifiError \<times> 'm list) result" where
  "nan_subscribe_cancel_request nl i tid msg = nan_request nl i (putNanSubscribeCancel nl tid msg)"

definition nan_transmit_followup_request ::
  "'m libnl \<Rightarrow> nan_hw \<Rightarrow> nan_iface \<Rightarrow> nat \<Rightarrow> NanTransmitFollowupRequest option \<Rightarrow> (WifiError \<times> 'm list) result" where
  "nan_transmit_followup_request nl hw i tid msg = nan_request nl i (putNanTransmitFollowup nl hw tid msg)"

definition nan_stats_request ::
  "'m libnl \<Rightarrow> nan_iface \<Rightarrow> nat \<Rightarrow> NanStatsRequest option \<Rightarrow> (WifiError \<times> 'm list) result" where
  "nan_stats_request nl i tid msg = nan_request nl i (putNanStats nl tid msg)"

definition nan_config_request ::
  "'m libnl \<Rightarrow> nan_hw \<Rightarrow> nan_iface \<Rightarrow> nat \<Rightarrow> NanConfigRequest option \<Rightarrow> (WifiError \<times> 'm list) result" where
  "nan_config_request nl hw i tid msg =
     (case msg of
        None \<Rightarrow> Inl UB
      | Some r \<Rightarrow> if cr_config_rssi_proximity r \<noteq> 1 \<and> unle (cr_sid_beacon r) \<noteq> 1 then Inr (WIFI_ERROR_NOT_SUPPORTED, [])
                  else nan_request nl i (putNanConfig nl hw tid msg))"

definition nan_tca_request ::
  "'m libnl \<Rightarrow> nan_hw \<Rightarrow> nan_iface \<Rightarrow> nat \<Rightarrow> NanTCARequest option \<Rightarrow> (WifiError \<times> 'm list) result" where
  "nan_tca_request nl hw i tid msg = nan_request nl i (putNanTCA nl hw tid msg)"

definition nan_beacon_sdf_payload_request ::
  "'m libnl \<Rightarrow> nan_iface \<Rightarrow> nat \<Rightarrow> NanBeaconSdfPayloadRequest option \<Rightarrow> (WifiError \<times> 'm list) result" where
  "nan_beacon_sdf_payload_request nl i tid msg = nan_request nl i (putNanBeaconSdfPayload nl tid msg)"

definition nan_get_capabilities :: "'m libnl \<Rightarrow> nan_iface \<Rightarrow> nat \<Rightarrow> (WifiError \<times> 'm list) result" where
  "nan_get_capabilities nl i tid = nan_request nl i (putNanCapabilities nl tid)"

definition nan_debug_command_config ::
  "'m libnl \<Rightarrow> nan_iface \<Rightarrow> NanDebugParams \<Rightarrow> int \<Rightarrow> (WifiError \<times> 'm list) result" where
  "nan_debug_command_config nl i debug debug_msg_length =
     (if debug_msg_length \<le> 0 then Inr (WIFI_ERROR_UNKNOWN, [])
      else nan_request nl i (putNanDebugCommand nl debug (nat debug_msg_length)))"

section \<open>The requests of the data path\<close>

text \<open>\<open>nan_initialize_vendor_cmd\<close>\<close>

definition nan_initialize_vendor_cmd ::
  "'m libnl \<Rightarrow> nan_iface \<Rightarrow> (WifiError \<times> 'm WifiVendorCommand) result" where
  "nan_initialize_vendor_cmd nl i =
     bindE (nan_create nl (new_vendor_command (if_family i) OUI_MTK MTK_SUBCMD_NDP)) (\<lambda>(ret, c).
     if ret \<noteq> WIFI_SUCCESS then Inr (ret, c)
     else bindE (vc_set_iface_id nl (if_name i) c) (\<lambda>(ret, c).
     if ret \<noteq> WIFI_SUCCESS then Inr (ret, c) else Inr (WIFI_SUCCESS, c)))"

text \<open>
  The calls of a body, one after the other until one of them fails: \<open>True\<close> if none did. An attribute with
  attributes in it is a call of its own.
\<close>

type_synonym 'm call = "'m WifiVendorCommand \<Rightarrow> (bool \<times> 'm WifiVendorCommand) result"

fun calls :: "'m call list \<Rightarrow> 'm call" where
  "calls [] c = Inr (True, c)"
| "calls (f # fs) c = bindE (f c) (\<lambda>(ok, c). if ok then calls fs c else Inr (False, c))"

definition put_call :: "('m WifiVendorCommand \<Rightarrow> (WifiError \<times> 'm WifiVendorCommand) result) \<Rightarrow> 'm call" where
  "put_call f c = bindE (f c) (\<lambda>(ret, c). Inr (ret = WIFI_SUCCESS, c))"

definition nest_call :: "'m libnl \<Rightarrow> nat \<Rightarrow> 'm call list \<Rightarrow> 'm call" where
  "nest_call nl attr fs c =
     bindE (vc_attr_start nl attr c) (\<lambda>(a, c).
     case a of
       None \<Rightarrow> Inr (False, c)
     | Some a \<Rightarrow> bindE (calls fs c) (\<lambda>(ok, c).
         if ok then bindE (vc_attr_end nl a c) (\<lambda>c. Inr (True, c)) else Inr (False, c)))"

definition when_call :: "bool \<Rightarrow> 'm call \<Rightarrow> 'm call list" where
  "when_call b f = (if b then [f] else [])"

text \<open>
  The rest of every data path request, with the \<open>ret\<close> that it has by then. A call that fails goes to
  \<open>cleanup\<close>, where \<open>ret\<close> is returned as it is.
\<close>

definition ndp_send ::
  "'m libnl \<Rightarrow> nan_iface \<Rightarrow> WifiError \<Rightarrow> 'm call list \<Rightarrow> 'm WifiVendorCommand \<Rightarrow> (WifiError \<times> 'm list) result" where
  "ndp_send nl i ret fs c =
     bindE (nest_call nl (NL80211_ATTR_VENDOR_DATA nl) fs c) (\<lambda>(ok, c).
     if \<not> ok then Inr (ret, vc_sent c)
     else bindE (requestEvent nl (if_cmd_sock i) c) (\<lambda>(ret, c). Inr (ret, vc_sent c)))"

definition ndp_request :: "'m libnl \<Rightarrow> nan_iface \<Rightarrow> 'm call list \<Rightarrow> (WifiError \<times> 'm list) result" where
  "ndp_request nl i fs =
     bindE (nan_initialize_vendor_cmd nl i) (\<lambda>(ret, c).
     if ret \<noteq> WIFI_SUCCESS then Inr (ret, vc_sent c) else ndp_send nl i ret fs c)"

definition nan_data_interface_create ::
  "'m libnl \<Rightarrow> nan_iface \<Rightarrow> nat \<Rightarrow> string option \<Rightarrow> (WifiError \<times> 'm list) result" where
  "nan_data_interface_create nl i tid iface_name =
     (case iface_name of
        None \<Rightarrow> Inr (WIFI_ERROR_INVALID_ARGS, [])
      | Some name \<Rightarrow> ndp_request nl i
          [put_call (vc_put_u32 nl MTK_WLAN_VENDOR_ATTR_NDP_SUBCMD MTK_WLAN_VENDOR_ATTR_NDP_INTERFACE_CREATE),
           put_call (vc_put_u16 nl MTK_WLAN_VENDOR_ATTR_NDP_TRANSACTION_ID tid),
           put_call (vc_put_string nl MTK_WLAN_VENDOR_ATTR_NDP_IFACE_STR name)])"

definition nan_data_interface_delete ::
  "'m libnl \<Rightarrow> nan_iface \<Rightarrow> nat \<Rightarrow> string option \<Rightarrow> (WifiError \<times> 'm list) result" where
  "nan_data_interface_delete nl i tid iface_name =
     (case iface_name of
        None \<Rightarrow> Inr (WIFI_ERROR_INVALID_ARGS, [])
      | Some name \<Rightarrow> ndp_request nl i
          [put_call (vc_put_u32 nl MTK_WLAN_VENDOR_ATTR_NDP_SUBCMD MTK_WLAN_VENDOR_ATTR_NDP_INTERFACE_DELETE),
           put_call (vc_put_u16 nl MTK_WLAN_VENDOR_ATTR_NDP_TRANSACTION_ID tid),
           put_call (vc_put_string nl MTK_WLAN_VENDOR_ATTR_NDP_IFACE_STR name)])"

text \<open>The numbers of the platform's header that only these requests use.\<close>

record ndp_hw =
  NAN_CIPHER_SUITE_SHARED_KEY_NONE :: nat
  NAN_DP_CHANNEL_NOT_REQUESTED :: nat
  NAN_DP_CONFIG_QOS :: nat

definition OUT_OF_BAND_SERVICE_INSTANCE_ID :: nat where [simp]: "OUT_OF_BAND_SERVICE_INSTANCE_ID = 0"

record NanDataPathInitiatorRequest =
  di_requestor_instance_id :: nat
  di_channel_request_type :: nat
  di_channel :: nat
  di_peer_disc_mac_addr :: bytes
  di_ndp_iface :: string
  di_security_cfg :: nat
  di_qos_cfg :: nat
  di_app_info :: NanDataPathAppInfo
  di_cipher_type :: nat
  di_key_info :: NanSecurityKeyInfo
  di_service_name_len :: nat
  di_service_name :: bytes

record NanDataPathIndicationResponse =
  dn_ndp_instance_id :: nat
  dn_ndp_iface :: string
  dn_security_cfg :: nat
  dn_qos_cfg :: nat
  dn_app_info :: NanDataPathAppInfo
  dn_rsp_code :: nat
  dn_cipher_type :: nat
  dn_key_info :: NanSecurityKeyInfo
  dn_service_name_len :: nat
  dn_service_name :: bytes

text \<open>What the two requests have in common: application information, security, cipher, key and service name.\<close>

definition ndp_common_calls ::
  "'m libnl \<Rightarrow> nan_hw \<Rightarrow> ndp_hw \<Rightarrow> NanDataPathAppInfo \<Rightarrow> nat \<Rightarrow> nat \<Rightarrow> nat \<Rightarrow> NanSecurityKeyInfo \<Rightarrow> nat \<Rightarrow> bytes
     \<Rightarrow> 'm call list" where
  "ndp_common_calls nl hw dh info security qos cipher key name_len name =
     when_call (ndp_app_info_len info \<noteq> 0)
       (put_call (vc_put_bytes nl MTK_WLAN_VENDOR_ATTR_NDP_APP_INFO (ndp_app_info info) (ndp_app_info_len info)))
     @ when_call (security = NAN_DP_CONFIG_SECURITY hw)
       (nest_call nl MTK_WLAN_VENDOR_ATTR_NDP_CONFIG_SECURITY
          [put_call (vc_put_u32 nl 1 0)])
     @ when_call (qos = NAN_DP_CONFIG_QOS dh) (nest_call nl MTK_WLAN_VENDOR_ATTR_NDP_CONFIG_QOS [])
     @ when_call (cipher \<noteq> NAN_CIPHER_SUITE_SHARED_KEY_NONE dh)
       (put_call (vc_put_u32 nl MTK_WLAN_VENDOR_ATTR_NDP_CSID cipher))
     @ (if uses_pmk hw key
        then [put_call (vc_put_bytes nl MTK_WLAN_VENDOR_ATTR_NDP_PMK (ki_pmk key) (ki_pmk_len key))]
        else if uses_passphrase hw key
        then [put_call (vc_put_bytes nl MTK_WLAN_VENDOR_ATTR_NDP_PASSPHRASE (ki_passphrase key) (ki_passphrase_len key))]
        else [])
     @ when_call (name_len \<noteq> 0) (put_call (vc_put_bytes nl MTK_WLAN_VENDOR_ATTR_NDP_SERVICE_NAME name name_len))"

text \<open>A cipher needs a key, and out of band a service name; this is asked once the command has been created.\<close>

definition nan_data_request_initiator ::
  "'m libnl \<Rightarrow> nan_hw \<Rightarrow> ndp_hw \<Rightarrow> nan_iface \<Rightarrow> nat \<Rightarrow> NanDataPathInitiatorRequest option \<Rightarrow> (WifiError \<times> 'm list) result" where
  "nan_data_request_initiator nl hw dh i tid msg =
     (case msg of
        None \<Rightarrow> Inr (WIFI_ERROR_INVALID_ARGS, [])
      | Some r \<Rightarrow>
          bindE (nan_initialize_vendor_cmd nl i) (\<lambda>(ret, c).
          if ret \<noteq> WIFI_SUCCESS then Inr (ret, vc_sent c)
          else if di_cipher_type r \<noteq> NAN_CIPHER_SUITE_SHARED_KEY_NONE dh
                  \<and> ki_pmk_len (di_key_info r) = 0 \<and> ki_passphrase_len (di_key_info r) = 0
          then Inr (WIFI_ERROR_INVALID_ARGS, vc_sent c)
          else if di_cipher_type r \<noteq> NAN_CIPHER_SUITE_SHARED_KEY_NONE dh
                  \<and> di_requestor_instance_id r = OUT_OF_BAND_SERVICE_INSTANCE_ID \<and> di_service_name_len r = 0
          then Inr (WIFI_ERROR_INVALID_ARGS, vc_sent c)
          else ndp_send nl i ret
            ([put_call (vc_put_u32 nl MTK_WLAN_VENDOR_ATTR_NDP_SUBCMD MTK_WLAN_VENDOR_ATTR_NDP_INITIATOR_REQUEST),
              put_call (vc_put_u16 nl MTK_WLAN_VENDOR_ATTR_NDP_TRANSACTION_ID tid),
              put_call (vc_put_u32 nl MTK_WLAN_VENDOR_ATTR_NDP_SERVICE_INSTANCE_ID (di_requestor_instance_id r)),
              put_call (vc_put_bytes nl MTK_WLAN_VENDOR_ATTR_NDP_PEER_DISCOVERY_MAC_ADDR (di_peer_disc_mac_addr r)
                (NAN_MAC_ADDR_LEN hw)),
              put_call (vc_put_string nl MTK_WLAN_VENDOR_ATTR_NDP_IFACE_STR (di_ndp_iface r))]
             @ (if di_channel_request_type r \<noteq> NAN_DP_CHANNEL_NOT_REQUESTED dh
                then [put_call (vc_put_u32 nl MTK_WLAN_VENDOR_ATTR_NDP_CHANNEL_CONFIG (di_channel_request_type r)),
                      put_call (vc_put_u32 nl MTK_WLAN_VENDOR_ATTR_NDP_CHANNEL (di_channel r))]
                else [])
             @ ndp_common_calls nl hw dh (di_app_info r) (di_security_cfg r) (di_qos_cfg r) (di_cipher_type r)
                 (di_key_info r) (di_service_name_len r) (di_service_name r)) c))"

definition nan_data_indication_response ::
  "'m libnl \<Rightarrow> nan_hw \<Rightarrow> ndp_hw \<Rightarrow> nan_iface \<Rightarrow> nat \<Rightarrow> NanDataPathIndicationResponse option \<Rightarrow> (WifiError \<times> 'm list) result" where
  "nan_data_indication_response nl hw dh i tid msg =
     (case msg of
        None \<Rightarrow> Inr (WIFI_ERROR_INVALID_ARGS, [])
      | Some r \<Rightarrow>
          bindE (nan_initialize_vendor_cmd nl i) (\<lambda>(ret, c).
          if ret \<noteq> WIFI_SUCCESS then Inr (ret, vc_sent c)
          else if dn_cipher_type r \<noteq> NAN_CIPHER_SUITE_SHARED_KEY_NONE dh
                  \<and> ki_pmk_len (dn_key_info r) = 0 \<and> ki_passphrase_len (dn_key_info r) = 0
          then Inr (WIFI_ERROR_INVALID_ARGS, vc_sent c)
          else ndp_send nl i ret
            ([put_call (vc_put_u32 nl MTK_WLAN_VENDOR_ATTR_NDP_SUBCMD MTK_WLAN_VENDOR_ATTR_NDP_RESPONDER_REQUEST),
              put_call (vc_put_u16 nl MTK_WLAN_VENDOR_ATTR_NDP_TRANSACTION_ID tid),
              put_call (vc_put_u32 nl MTK_WLAN_VENDOR_ATTR_NDP_INSTANCE_ID (dn_ndp_instance_id r)),
              put_call (vc_put_string nl MTK_WLAN_VENDOR_ATTR_NDP_IFACE_STR (dn_ndp_iface r)),
              put_call (vc_put_u32 nl MTK_WLAN_VENDOR_ATTR_NDP_RESPONSE_CODE (dn_rsp_code r))]
             @ ndp_common_calls nl hw dh (dn_app_info r) (dn_security_cfg r) (dn_qos_cfg r) (dn_cipher_type r)
                 (dn_key_info r) (dn_service_name_len r) (dn_service_name r)) c))"

record NanDataPathEndRequest =
  de_num_ndp_instances :: nat
  de_ndp_instance_id :: bytes

definition nan_data_end ::
  "'m libnl \<Rightarrow> nan_iface \<Rightarrow> nat \<Rightarrow> NanDataPathEndRequest option \<Rightarrow> (WifiError \<times> 'm list) result" where
  "nan_data_end nl i tid msg =
     (case msg of
        None \<Rightarrow> Inr (WIFI_ERROR_INVALID_ARGS, [])
      | Some r \<Rightarrow> ndp_request nl i
          [put_call (vc_put_u32 nl MTK_WLAN_VENDOR_ATTR_NDP_SUBCMD MTK_WLAN_VENDOR_ATTR_NDP_END_REQUEST),
           put_call (vc_put_u16 nl MTK_WLAN_VENDOR_ATTR_NDP_TRANSACTION_ID tid),
           put_call (vc_put_bytes nl MTK_WLAN_VENDOR_ATTR_NDP_INSTANCE_ID_ARRAY (de_ndp_instance_id r)
             (de_num_ndp_instances r * 4))])"

section \<open>Events of the driver\<close>

text \<open>
  What an event is handled with: the platform's numbers and cleared structures, the callbacks that are
  set, and libnl's parsers (\<open>ne_parse\<close>: the attributes of vendor data, \<open>ne_nested\<close>: those in the
  attributes inside one).
\<close>

record nan_env =
  ne_hw :: nan_hw
  ne_codes :: nan_codes
  ne_stats :: nan_stats_hw
  ne_events :: nan_events
  ne_ndp :: ndp_events
  ne_rsp :: NanResponseMsg
  ne_handlers :: "nat \<Rightarrow> bool"
  ne_ndp_handlers :: "nat \<Rightarrow> bool"
  ne_notify :: bool
  ne_parse :: "bytes \<Rightarrow> nl_attrs"
  ne_nested :: "bytes \<Rightarrow> nl_attrs list"

datatype nan_callback =
    NotifyResponse "nat option" NanResponseMsg
  | Indication NanEvent
  | NdpIndication NdpEvent

definition ndp_response_type :: "nat \<Rightarrow> NanResponseType option" where
  "ndp_response_type t =
     (if t = MTK_WLAN_VENDOR_ATTR_NDP_INTERFACE_CREATE then Some NAN_DP_INTERFACE_CREATE
      else if t = MTK_WLAN_VENDOR_ATTR_NDP_INTERFACE_DELETE then Some NAN_DP_INTERFACE_DELETE
      else if t = MTK_WLAN_VENDOR_ATTR_NDP_INITIATOR_RESPONSE then Some NAN_DP_INITIATOR_RESPONSE
      else if t = MTK_WLAN_VENDOR_ATTR_NDP_RESPONDER_RESPONSE then Some NAN_DP_RESPONDER_RESPONSE
      else if t = MTK_WLAN_VENDOR_ATTR_NDP_END_RESPONSE then Some NAN_DP_END else None)"

text \<open>The part for \<open>MTK_SUBCMD_NAN\<close>; the callbacks that are called, and \<open>mStaParam\<close>.\<close>

definition handle_nan ::
  "'m libnl \<Rightarrow> nan_env \<Rightarrow> nl_attrs \<Rightarrow> NanStaParameter option \<Rightarrow> (nan_callback list \<times> NanStaParameter option) result" where
  "handle_nan nl env tb sta =
     bindE (nla_bytes (tb MTK_WLAN_VENDOR_ATTR_NAN)) (\<lambda>d.
     bindE (isNanResponse nl (Some d)) (\<lambda>rsp.
     if rsp \<noteq> 0
     then bindE (handleNanResponse nl (ne_codes env) (ne_stats env) (ne_rsp env) (ne_notify env) (Some d) (length d) sta)
            (\<lambda>(_, sta, out). Inr (map (\<lambda>(tid, r). NotifyResponse tid r) out, sta))
     else bindE (handleNanIndication nl (ne_hw env) (ne_codes env) (ne_events env) (ne_handlers env) (Some d) (length d))
            (\<lambda>(_, out). Inr (map Indication out, sta))))"

text \<open>The part for \<open>MTK_SUBCMD_NDP\<close>\<close>

definition handle_ndp :: "'m libnl \<Rightarrow> nan_env \<Rightarrow> nl_attrs \<Rightarrow> nan_callback list result" where
  "handle_ndp nl env tb =
     (case tb MTK_WLAN_VENDOR_ATTR_NDP_SUBCMD of
        None \<Rightarrow> Inr []
      | Some a \<Rightarrow>
          bindE (nla_get 4 (Some a)) (\<lambda>t.
          case ndp_response_type t of
            Some ty \<Rightarrow> bindE (handleNdpResponse nl (ne_codes env) (ne_rsp env) (ne_notify env) ty tb)
                         (\<lambda>(_, out). Inr (map (\<lambda>(tid, r). NotifyResponse (Some tid) r) out))
          | None \<Rightarrow>
              if t \<in> {MTK_WLAN_VENDOR_ATTR_NDP_REQUEST_IND, MTK_WLAN_VENDOR_ATTR_NDP_CONFIRM_IND,
                       MTK_WLAN_VENDOR_ATTR_NDP_END_IND, MTK_WLAN_VENDOR_ATTR_NDP_SCHEDULE_UPDATE_IND}
              then bindE (handleNdpIndication nl (ne_codes env) (ne_nested env) (ne_ndp env) (ne_ndp_handlers env) t tb)
                     (\<lambda>(_, out). Inr (map NdpIndication out))
              else Inr []))"

text \<open>\<open>NanCommand::handleEvent\<close>, of a message with the generic netlink command \<open>cmd\<close> and the attributes \<open>tb\<close>.\<close>

definition nan_handleEvent ::
  "'m libnl \<Rightarrow> nan_env \<Rightarrow> nat \<Rightarrow> nl_attrs \<Rightarrow> 'm WifiVendorCommand \<times> NanStaParameter option
     \<Rightarrow> (nan_callback list \<times> 'm WifiVendorCommand \<times> NanStaParameter option) result" where
  "nan_handleEvent nl env cmd tb s = (case s of (c, sta) \<Rightarrow>
     bindE (vc_handleEvent nl cmd tb c) (\<lambda>c.
     bindE (rd_bytes (case vc_vendor_data c of None \<Rightarrow> [] | Some d \<Rightarrow> d) 0 (vc_data_len c)) (\<lambda>data.
     if vc_subcmd c = MTK_SUBCMD_NAN
     then bindE (handle_nan nl env (ne_parse env data) sta) (\<lambda>(out, sta). Inr (out, c, sta))
     else if vc_subcmd c = MTK_SUBCMD_NDP
     then bindE (handle_ndp nl env (ne_parse env data)) (\<lambda>out. Inr (out, c, sta))
     else Inr ([], c, sta))))"

end
