(* ===== verification/NanWrites.thy ===== *)
theory NanWrites
  imports NanService
begin

text \<open>
  What the requests write. A part of a request \<^emph>\<open>writes\<close> a list of TLVs if, started behind what has been
  written already in a cleared buffer with enough room, it appends exactly the bytes of these TLVs and
  leaves its pointer behind them. Parts that follow each other write the TLVs of both, so each request
  is taken apart along its code.
\<close>

definition writes :: "(nat \<times> bytes \<Rightarrow> (nat \<times> bytes) result) \<Rightarrow> (u16 \<times> bytes) list \<Rightarrow> bool" where
  "writes f ts \<longleftrightarrow> (\<forall>a k. f (length a, a @ replicate (length (tlvs_bytes ts) + k) 0)
     = Inr (length a + length (tlvs_bytes ts), a @ tlvs_bytes ts @ replicate k 0))"

lemma writesD:
  "writes f ts \<Longrightarrow> n = length (tlvs_bytes ts) + k \<Longrightarrow> f (length a, a @ replicate n 0)
     = Inr (length a + length (tlvs_bytes ts), a @ tlvs_bytes ts @ replicate k 0)"
  by (simp add: writes_def)

lemma writes_Inr: "writes Inr []"
  by (simp add: writes_def)

lemma writes_bindE:
  assumes "writes f ts" and "writes g us"
  shows "writes (\<lambda>s. bindE (f s) g) (ts @ us)"
  unfolding writes_def
proof (intro allI)
  fix a k
  have "f (length a, a @ replicate (length (tlvs_bytes (ts @ us)) + k) 0)
      = Inr (length a + length (tlvs_bytes ts), a @ tlvs_bytes ts @ replicate (length (tlvs_bytes us) + k) 0)"
    by (rule writesD [OF assms(1)]) simp
  moreover have "g (length (a @ tlvs_bytes ts), (a @ tlvs_bytes ts) @ replicate (length (tlvs_bytes us) + k) 0)
      = Inr (length (a @ tlvs_bytes ts) + length (tlvs_bytes us), (a @ tlvs_bytes ts) @ tlvs_bytes us @ replicate k 0)"
    by (rule writesD [OF assms(2)]) simp
  ultimately show "bindE (f (length a, a @ replicate (length (tlvs_bytes (ts @ us)) + k) 0)) g
      = Inr (length a + length (tlvs_bytes (ts @ us)), a @ tlvs_bytes (ts @ us) @ replicate k 0)"
    by (simp add: add.assoc)
qed

lemma writes_if:
  "(c \<Longrightarrow> writes f ts) \<Longrightarrow> writes (\<lambda>s. if c then f s else Inr s) (if c then ts else [])"
  by (simp add: writes_Inr)

lemma writes_value:
  "m = Inr v \<Longrightarrow> writes (f v) ts \<Longrightarrow> writes (\<lambda>s. bindE m (\<lambda>v. f v s)) ts"
  by simp

lemma writes_rows:
  assumes "\<forall>r \<in> set rs. row_ok r"
  shows "writes (put_rows rs) (row_tlvs rs)"
  using length_rows_bytes [OF assms] put_rows_ok [OF assms]
  by (simp add: writes_def)

lemma writes_foldE:
  assumes "\<And>x. x \<in> set xs \<Longrightarrow> writes (f x) (g x)"
  shows "writes (foldE f xs) (concat (map g xs))"
  using assms
proof (induction xs)
  case Nil
  then show ?case by (simp add: writes_def)
next
  case (Cons x xs)
  then have "writes (\<lambda>s. bindE (f x s) (foldE f xs)) (g x @ concat (map g xs))"
    by (intro writes_bindE) auto
  then show ?case by (simp add: writes_def)
qed

text \<open>A value that is filled in in place.\<close>

definition fills :: "(nat \<Rightarrow> bytes \<Rightarrow> bytes result) \<Rightarrow> bytes \<Rightarrow> bool" where
  "fills f v \<longleftrightarrow> (\<forall>a k. f (length a) (a @ replicate (length v + k) 0) = Inr (a @ v @ replicate k 0))"

lemma fillsD:
  "fills f v \<Longrightarrow> q = length a \<Longrightarrow> n = length v + k \<Longrightarrow> f q (a @ replicate n 0) = Inr (a @ v @ replicate k 0)"
  by (simp add: fills_def)

lemma writes_in_place:
  assumes "fills f v" and "n = length v" and "n + 4 < 65536"
  shows "writes (put_in_place t n f) [(t, v)]"
  unfolding writes_def
proof (intro allI)
  fix a :: bytes and k
  have u: "unat (word_of_nat n :: u16) = n" using assms(3) by (simp add: unat_of_nat)
  let ?z = "replicate 4 (0 :: u8)"
  have "a @ replicate (length (tlvs_bytes [(t, v)]) + k) 0 = (a @ ?z) @ replicate (length v + k) 0"
    using replicate_add [of 4 "length v + k" "0 :: u8"] by (simp add: add.assoc)
  then have "f (length a + 4) (a @ replicate (length (tlvs_bytes [(t, v)]) + k) 0)
      = Inr ((a @ ?z) @ v @ replicate k 0)"
    by (simp only:) (rule fillsD [OF assms(1)], simp_all)
  moreover have "addTlv t (word_of_nat n) (Some (v @ replicate k 0)) (length a) ((a @ ?z) @ v @ replicate k 0)
      = Inr (length a + 4 + length v, a @ tlv_bytes t v @ replicate k 0)"
    using assms u by (simp add: addTlv_ok)
  ultimately show "put_in_place t n f (length a, a @ replicate (length (tlvs_bytes [(t, v)]) + k) 0)
      = Inr (length a + length (tlvs_bytes [(t, v)]), a @ tlvs_bytes [(t, v)] @ replicate k 0)"
    by (simp add: put_in_place_def add.assoc)
qed

text \<open>
  A request whose length is that of its header, its parameters and the TLVs that it writes: the message
  consists of exactly these.
\<close>

lemma put_request_writes:
  assumes "writes body ts" and "nl_malloc nl len"
    and "len = header_size + length params + length (tlvs_bytes ts) + slack"
  shows "put_request nl len hdr params body c
    = put_vendor_data nl (header_bytes hdr @ params @ tlvs_bytes ts @ replicate slack 0) c"
proof -
  let ?h = "header_bytes hdr @ params"
  have "wr_bytes (replicate len 0) 0 ?h = Inr (?h @ replicate (length (tlvs_bytes ts) + slack) 0)"
    using assms(3) by (simp add: wr_bytes_def)
  moreover have "body (length ?h, ?h @ replicate (length (tlvs_bytes ts) + slack) 0)
      = Inr (length ?h + length (tlvs_bytes ts), ?h @ tlvs_bytes ts @ replicate slack 0)"
    by (rule writesD [OF assms(1)]) simp
  ultimately show ?thesis using assms(2) by (simp add: put_request_def)
qed

section \<open>The values that are filled in in place\<close>

definition post_discovery_value :: "nan_hw \<Rightarrow> NanTransmitPostDiscovery \<Rightarrow> bytes" where
  "post_discovery_value hw d =
     [word_of_nat (tx_type d), word_of_nat (tx_role d),
      word_of_nat (of_cond (tx_transmit_freq d) OR push_bit 1 (tx_duration d AND 3)), 0]
     @ tx_avail_interval_bitmap d @ tlvs_bytes (row_tlvs (post_discovery_rows hw d))"

definition post_discovery_ok :: "nan_hw \<Rightarrow> NanTransmitPostDiscovery \<Rightarrow> bool" where
  "post_discovery_ok hw d \<longleftrightarrow> length (tx_avail_interval_bitmap d) = 4
     \<and> (\<forall>r \<in> set (post_discovery_rows hw d). row_ok r)
     \<and> calcNanTransmitPostDiscoverySize hw d + 4 < 65536"

lemma length_post_discovery_value:
  assumes "post_discovery_ok hw d"
  shows "length (post_discovery_value hw d) = calcNanTransmitPostDiscoverySize hw d"
proof -
  have rows: "\<forall>r \<in> set (post_discovery_rows hw d). row_ok r" and "length (tx_avail_interval_bitmap d) = 4"
    using assms by (simp_all add: post_discovery_ok_def)
  then show ?thesis
    using length_rows_bytes [OF rows]
    by (simp add: post_discovery_value_def calcNanTransmitPostDiscoverySize_def post_discovery_rows_def opt_len_def)
qed

lemma fills_post_discovery:
  assumes "post_discovery_ok hw d"
  shows "fills (fillNanTransmitPostDiscoveryVal hw d) (post_discovery_value hw d)"
  unfolding fills_def
proof (intro allI)
  fix a :: bytes and k
  let ?bm = "tx_avail_interval_bitmap d" and ?ts = "row_tlvs (post_discovery_rows hw d)"
  let ?h = "[word_of_nat (tx_type d), word_of_nat (tx_role d),
      word_of_nat (of_cond (tx_transmit_freq d) OR push_bit 1 (tx_duration d AND 3)), 0] :: bytes"
  have bm: "length ?bm = 4" and rows: "\<forall>r \<in> set (post_discovery_rows hw d). row_ok r"
    using assms by (simp_all add: post_discovery_ok_def)
  let ?m = "length (tlvs_bytes ?ts) + k"
  have start: "a @ replicate (length (post_discovery_value hw d) + k) 0 = a @ replicate 8 0 @ replicate ?m 0"
    using bm by (simp add: post_discovery_value_def numeral_eq_Suc)
  have "put_rows (post_discovery_rows hw d) (length (a @ ?h @ ?bm), (a @ ?h @ ?bm) @ replicate ?m 0)
      = Inr (length (a @ ?h @ ?bm) + length (tlvs_bytes ?ts), (a @ ?h @ ?bm) @ tlvs_bytes ?ts @ replicate k 0)"
    by (rule writesD [OF writes_rows [OF rows]]) simp
  then have put: "put_rows (post_discovery_rows hw d) (length a + 8, a @ ?h @ ?bm @ replicate ?m 0)
      = Inr (length a + 8 + length (tlvs_bytes ?ts), a @ ?h @ ?bm @ tlvs_bytes ?ts @ replicate k 0)"
    using bm by simp
  have "a @ replicate 8 0 @ r = a @ 0 # 0 # 0 # 0 # 0 # 0 # 0 # 0 # r" for r :: bytes
    by (simp add: numeral_eq_Suc)
  then show "fillNanTransmitPostDiscoveryVal hw d (length a) (a @ replicate (length (post_discovery_value hw d) + k) 0)
      = Inr (a @ post_discovery_value hw d @ replicate k 0)"
    using put bm unfolding start
    by (simp add: fillNanTransmitPostDiscoveryVal_def wr_bytes_def list_update_append post_discovery_value_def)
qed

definition fam_chan_bytes :: "NanFurtherAvailabilityChannel \<Rightarrow> bytes" where
  "fam_chan_bytes ch =
     le 1 (pack_bits [(2, fc_entry_control ch), (4, fc_mapid ch), (2, 0)]) @ le 1 (fc_class_val ch)
     @ le 1 (fc_channel ch) @ fc_avail_interval_bitmap ch"

definition fam_value :: "NanFurtherAvailabilityMap \<Rightarrow> bytes" where
  "fam_value f = word_of_nat (fam_numchans f) # concat (map fam_chan_bytes (take (fam_numchans f) (fam_famchan f)))"

definition fam_ok :: "nan_hw \<Rightarrow> NanFurtherAvailabilityMap \<Rightarrow> bool" where
  "fam_ok hw f \<longleftrightarrow> fam_numchans f \<noteq> 0 \<and> fam_numchans f \<le> NAN_MAX_FAM_CHANNELS hw
     \<and> fam_numchans f \<le> length (fam_famchan f) \<and> fam_numchans f < 256
     \<and> (\<forall>ch \<in> set (fam_famchan f). length (fc_avail_interval_bitmap ch) = 4)"

lemma length_fam_chans:
  assumes "\<forall>ch \<in> set chs. length (fc_avail_interval_bitmap ch) = 4"
  shows "length (concat (map fam_chan_bytes chs)) = 7 * length chs"
  using assms by (induction chs) (simp_all add: fam_chan_bytes_def)

lemma length_fam_value:
  assumes "fam_ok hw f"
  shows "length (fam_value f) = calcNanFurtherAvailabilityMapSize hw f"
proof -
  have "\<forall>ch \<in> set (take (fam_numchans f) (fam_famchan f)). length (fc_avail_interval_bitmap ch) = 4"
    using assms by (auto simp: fam_ok_def dest: in_set_takeD)
  from length_fam_chans [OF this] show ?thesis
    using assms by (simp add: fam_value_def calcNanFurtherAvailabilityMapSize_def fam_ok_def)
qed

text \<open>One channel goes behind those before it.\<close>

lemma put_fam_chan_ok:
  assumes "i < length (fam_famchan f)" and "length (fc_avail_interval_bitmap (fam_famchan f ! i)) = 4"
    and "length w = q + 1 + 7 * i"
  shows "put_fam_chan f q i (w @ replicate (7 + k) 0) = Inr (w @ fam_chan_bytes (fam_famchan f ! i) @ replicate k 0)"
proof -
  have "w @ replicate (7 + k) 0 = w @ [0, 0, 0] @ replicate (4 + k) (0 :: u8)"
    by (simp add: numeral_eq_Suc)
  then show ?thesis using assms
    by (simp add: put_fam_chan_def fam_chan_bytes_def wr_bytes_def Let_def mult.commute)
qed

lemma fill_fam_chans:
  assumes "n \<le> length (fam_famchan f)" and "\<forall>ch \<in> set (fam_famchan f). length (fc_avail_interval_bitmap ch) = 4"
    and "length w = q + 1"
  shows "foldE (put_fam_chan f q) [0..<n] (w @ replicate (7 * n + k) 0)
    = Inr (w @ concat (map fam_chan_bytes (take n (fam_famchan f))) @ replicate k 0)"
  using assms(1)
proof (induction n arbitrary: k)
  case 0
  then show ?case by simp
next
  case (Suc n)
  let ?done = "w @ concat (map fam_chan_bytes (take n (fam_famchan f)))"
  have "7 * Suc n + k = 7 * n + (7 + k)" by simp
  then have "foldE (put_fam_chan f q) [0..<n] (w @ replicate (7 * Suc n + k) 0) = Inr (?done @ replicate (7 + k) 0)"
    using Suc.IH [of "7 + k"] Suc.prems by (simp only:) simp
  moreover have "length ?done = q + 1 + 7 * n"
  proof -
    have "\<forall>ch \<in> set (take n (fam_famchan f)). length (fc_avail_interval_bitmap ch) = 4"
      using assms(2) by (auto dest: in_set_takeD)
    from length_fam_chans [OF this] show ?thesis using assms(3) Suc.prems by simp
  qed
  then have "put_fam_chan f q n (?done @ replicate (7 + k) 0) = Inr (?done @ fam_chan_bytes (fam_famchan f ! n) @ replicate k 0)"
    using Suc.prems assms(2) by (intro put_fam_chan_ok) auto
  ultimately show ?case using Suc.prems
    by (simp add: foldE_append take_Suc_conv_app_nth)
qed

lemma fills_fam:
  assumes "fam_ok hw f"
  shows "fills (fillNanFurtherAvailabilityMapVal hw f) (fam_value f)"
  unfolding fills_def
proof (intro allI)
  fix a :: bytes and k
  let ?n = "fam_numchans f"
  have n: "?n \<le> length (fam_famchan f)" and bm: "\<forall>ch \<in> set (fam_famchan f). length (fc_avail_interval_bitmap ch) = 4"
    using assms by (simp_all add: fam_ok_def)
  have len: "length (fam_value f) = 1 + 7 * ?n" "calcNanFurtherAvailabilityMapSize hw f = 1 + 7 * ?n"
    using length_fam_value [OF assms] assms by (simp_all add: calcNanFurtherAvailabilityMapSize_def fam_ok_def)
  have clear: "wr_bytes (a @ replicate (1 + 7 * ?n + k) 0) (length a) (replicate (1 + 7 * ?n) 0)
      = Inr (a @ replicate (1 + 7 * ?n + k) 0)"
    by (simp add: wr_bytes_def replicate_add)
  have "foldE (put_fam_chan f (length a)) [0..<?n] ((a @ [word_of_nat ?n]) @ replicate (7 * ?n + k) 0)
      = Inr ((a @ [word_of_nat ?n]) @ concat (map fam_chan_bytes (take ?n (fam_famchan f))) @ replicate k 0)"
    by (rule fill_fam_chans [OF n bm]) simp
  then show "fillNanFurtherAvailabilityMapVal hw f (length a) (a @ replicate (length (fam_value f) + k) 0)
      = Inr (a @ fam_value f @ replicate k 0)"
    unfolding len fillNanFurtherAvailabilityMapVal_def clear bindE_simps
    by (simp add: fam_value_def list_update_append)
qed

section \<open>Social channels\<close>

lemma fill_social_length:
  assumes "fillNanSocialChannelParamVal hw sp = Inr arr"
  shows "length arr = NAN_MAX_SOCIAL_CHANNELS hw"
proof -
  obtain arr1 where
    first: "foldE (\<lambda>i arr.
              bindE (vec_at (scan_period sp) (int i)) (\<lambda>period.
              bindE (vec_at (dwell_time sp) (int i)) (\<lambda>dwell.
              vec_set arr (int i) (push_bit 16 (word_of_nat period) OR push_bit 8 (word_of_nat dwell)))))
            [0..<NAN_MAX_SOCIAL_CHANNELS hw] (replicate (NAN_MAX_SOCIAL_CHANNELS hw) 0) = Inr arr1" and
    second: "foldE (\<lambda>(i, ch) arr. bindE (vec_at arr (int i)) (\<lambda>w. vec_set arr (int i) (w OR ch)))
       [(NAN_CHANNEL_24G_BAND hw, 6), (NAN_CHANNEL_5G_BAND_LOW hw, 44), (NAN_CHANNEL_5G_BAND_HIGH hw, 149)] arr1 = Inr arr"
    using assms unfolding fillNanSocialChannelParamVal_def by (elim bindE_eq_InrE) blast
  have "length arr1 = NAN_MAX_SOCIAL_CHANNELS hw"
    by (rule foldE_inv [OF first]) (auto simp: vec_set_def split: if_splits)
  then show ?thesis
    by (rule foldE_inv [OF second]) (auto simp: vec_set_def split: if_splits)
qed

lemma fill_social_total:
  assumes "NAN_MAX_SOCIAL_CHANNELS hw \<le> length (scan_period sp)" and "NAN_MAX_SOCIAL_CHANNELS hw \<le> length (dwell_time sp)"
    and "NAN_CHANNEL_24G_BAND hw < NAN_MAX_SOCIAL_CHANNELS hw" and "NAN_CHANNEL_5G_BAND_LOW hw < NAN_MAX_SOCIAL_CHANNELS hw"
    and "NAN_CHANNEL_5G_BAND_HIGH hw < NAN_MAX_SOCIAL_CHANNELS hw"
  shows "\<exists>arr. fillNanSocialChannelParamVal hw sp = Inr arr"
proof -
  let ?I = "\<lambda>arr :: u32 list. length arr = NAN_MAX_SOCIAL_CHANNELS hw"
  have "\<exists>arr. foldE (\<lambda>i arr.
              bindE (vec_at (scan_period sp) (int i)) (\<lambda>period.
              bindE (vec_at (dwell_time sp) (int i)) (\<lambda>dwell.
              vec_set arr (int i) (push_bit 16 (word_of_nat period) OR push_bit 8 (word_of_nat dwell)))))
            [0..<NAN_MAX_SOCIAL_CHANNELS hw] (replicate (NAN_MAX_SOCIAL_CHANNELS hw) 0) = Inr arr \<and> ?I arr"
    by (rule foldE_total) (use assms(1,2) in auto)
  then show ?thesis using assms(3-5) by (auto simp: fillNanSocialChannelParamVal_def)
qed

lemma writes_social:
  assumes "fillNanSocialChannelParamVal hw sp = Inr arr"
  shows "writes (put_rows (social_rows arr)) (row_tlvs (social_rows arr))"
  by (rule writes_rows) (auto simp: social_rows_def row_ok_def)

lemma length_social_tlvs: "length (tlvs_bytes (row_tlvs (social_rows arr))) = 8 * length arr"
  by (induction arr) (simp_all add: social_rows_def)

end
