(* ===== verification/NanRequestClaims.thy ===== *)
theory NanRequestClaims
  imports NanWrites
begin

text \<open>
  What the requests send: every message consists of its header, its parameters and one TLV for each
  attribute that the request asks for, and its length, which the code computes beforehand in a sum of
  its own, is that of what it then writes.
\<close>

section \<open>Rows and lengths\<close>

lemma rows_size_opt_len:
  "rows_size [] = 0" "rows_size ((c, t, n, v) # rs) = opt_len c n + rows_size rs"
  by (simp_all add: opt_len_def)

definition rows_ok :: "tlv_row list \<Rightarrow> bool" where
  "rows_ok rs \<longleftrightarrow> (\<forall>r \<in> set rs. row_ok r)"

lemma rows_okD: "rows_ok rs \<Longrightarrow> \<forall>r \<in> set rs. row_ok r"
  by (simp add: rows_ok_def)

lemma rows_ok_simps:
  "rows_ok []" "rows_ok (r # rs) \<longleftrightarrow> row_ok r \<and> rows_ok rs" "rows_ok (rs @ rs') \<longleftrightarrow> rows_ok rs \<and> rows_ok rs'"
  by (auto simp: rows_ok_def)

lemmas row_length = length_rows_bytes [OF rows_okD]

lemma rows_fit: "rows_ok rs \<Longrightarrow> tlvs_fit (row_tlvs rs)"
  by (induction rs rule: rows_size.induct) (auto simp: rows_ok_simps row_ok_def)

section \<open>Reading a request back\<close>

text \<open>
  All TLVs of the part of a message that starts at \<open>p\<close>, type and value, as the HAL's own reader finds
  them.
\<close>

definition collect_tlv :: "NanTlv \<Rightarrow> (u16 \<times> bytes) list \<Rightarrow> (u16 \<times> bytes) list result" where
  "collect_tlv t ts = bindE (memcpy (replicate (unat (nt_length t)) 0) (nt_value t) (unat (nt_length t)))
     (\<lambda>v. Inr (ts @ [(nt_type t, v)]))"

definition read_tlvs :: "bytes \<Rightarrow> nat \<Rightarrow> (u16 \<times> bytes) list result" where
  "read_tlvs msg p = tlv_loop collect_tlv msg p (int (length msg) - int p) []"

text \<open>
  A message that is understood as the header, the parameters and the TLVs that it is meant to carry,
  and whose header has its length.
\<close>

definition carries :: "bytes \<Rightarrow> NanMsgHeader \<Rightarrow> bytes \<Rightarrow> (u16 \<times> bytes) list \<Rightarrow> bool" where
  "carries msg hdr params ts \<longleftrightarrow>
     length msg = msgLen hdr \<and> read_header msg = Inr hdr
     \<and> rd_bytes msg header_size (length params) = Inr params
     \<and> read_tlvs msg (header_size + length params) = Inr ts"

lemma collect_tlv_at: "length v < 65532 \<Longrightarrow> collect_tlv (tlv_at t v rest) us = Inr (us @ [(t, v)])"
  by (simp add: collect_tlv_def tlv_at_def memcpy_def unat_of_nat)

lemma collect_tlvs: "tlvs_fit ts \<Longrightarrow> each_tlv collect_tlv ts us = Inr (us @ ts)"
  by (induction ts arbitrary: us) (auto simp: each_tlv_def tlv_of_def collect_tlv_at)

lemma carries_message:
  assumes "header_fits hdr" and "tlvs_fit ts" and "msgLen hdr = header_size + length params + length (tlvs_bytes ts)"
  shows "carries (header_bytes hdr @ params @ tlvs_bytes ts) hdr params ts"
proof -
  let ?h = "header_bytes hdr @ params"
  have "\<forall>tv \<in> set ts. handles (\<lambda>_. True) collect_tlv tv"
    using assms(2) by (auto simp: handles_def tlvs_fit_def collect_tlv_at)
  from tlv_loop_encoded [OF assms(2) this TrueI, of "[]" ?h "[]"] show ?thesis
    using assms by (auto simp: carries_def read_tlvs_def collect_tlvs read_header_bytes)
qed

lemma request_carries:
  assumes "writes body ts" and "tlvs_fit ts" and "nl_malloc nl len" and "header_fits hdr" and "msgLen hdr = len"
    and "len = header_size + length params + length (tlvs_bytes ts)"
  shows "\<exists>msg. put_request nl len hdr params body c = put_vendor_data nl msg c \<and> carries msg hdr params ts"
  using put_request_writes [OF assms(1,3), of params 0 hdr c] carries_message [OF assms(4,2), of params] assms(5,6)
  by auto

text \<open>The header of a request fits if its numbers do.\<close>

lemma request_header_fits:
  "header_fits (request_header i n h tid) \<longleftrightarrow> i < 4096 \<and> n < 65536 \<and> h < 65536 \<and> tid < 65536"
  by (simp add: header_fits_def request_header_def)

lemma msgLen_request_header [simp]: "msgLen (request_header i n h tid) = n"
  by (simp add: request_header_def)

section \<open>Social channels\<close>

definition scan_ok :: "nan_hw \<Rightarrow> NanSocialChannelScanParams \<Rightarrow> bool" where
  "scan_ok hw sp \<longleftrightarrow> NAN_MAX_SOCIAL_CHANNELS hw \<le> length (scan_period sp)
     \<and> NAN_MAX_SOCIAL_CHANNELS hw \<le> length (dwell_time sp)
     \<and> NAN_CHANNEL_24G_BAND hw < NAN_MAX_SOCIAL_CHANNELS hw \<and> NAN_CHANNEL_5G_BAND_LOW hw < NAN_MAX_SOCIAL_CHANNELS hw
     \<and> NAN_CHANNEL_5G_BAND_HIGH hw < NAN_MAX_SOCIAL_CHANNELS hw"

definition scan_tlvs :: "nan_hw \<Rightarrow> NanSocialChannelScanParams \<Rightarrow> (u16 \<times> bytes) list" where
  "scan_tlvs hw sp = (case fillNanSocialChannelParamVal hw sp of
     Inl _ \<Rightarrow> [] | Inr arr \<Rightarrow> row_tlvs (social_rows arr))"

lemma rows_ok_social: "rows_ok (social_rows arr)"
  by (auto simp: rows_ok_def social_rows_def row_ok_def)

lemma writes_scan:
  assumes "scan_ok hw sp"
  shows "writes (\<lambda>s. bindE (fillNanSocialChannelParamVal hw sp) (\<lambda>arr. put_rows (social_rows arr) s)) (scan_tlvs hw sp)"
    and "length (tlvs_bytes (scan_tlvs hw sp)) = NAN_MAX_SOCIAL_CHANNELS hw * 8"
    and "tlvs_fit (scan_tlvs hw sp)"
proof -
  obtain arr where arr: "fillNanSocialChannelParamVal hw sp = Inr arr"
    using assms fill_social_total unfolding scan_ok_def by blast
  then show "writes (\<lambda>s. bindE (fillNanSocialChannelParamVal hw sp) (\<lambda>arr. put_rows (social_rows arr) s)) (scan_tlvs hw sp)"
    by (simp add: scan_tlvs_def writes_social)
  show "length (tlvs_bytes (scan_tlvs hw sp)) = NAN_MAX_SOCIAL_CHANNELS hw * 8" and "tlvs_fit (scan_tlvs hw sp)"
    using arr fill_social_length [OF arr] by (simp_all add: scan_tlvs_def length_social_tlvs rows_fit rows_ok_social)
qed

section \<open>Enable\<close>

text \<open>
  A request whose objects have the sizes that the code takes for granted: those that it copies as
  four bytes have them, and the three attributes that every request has are of the sizes in
  \<open>NAN_MAX_ENABLE_REQ_SIZE\<close>.
\<close>

definition enable_ok :: "nan_hw \<Rightarrow> NanEnableRequest \<Rightarrow> bool" where
  "enable_ok hw r \<longleftrightarrow> rows_ok (enable_rows1 r) \<and> rows_ok (enable_rows2 r)
     \<and> (er_config_scan_params r \<longrightarrow> scan_ok hw (er_scan_params_val r))
     \<and> length (er_cluster_low r) = 2 \<and> length (er_cluster_high r) = 2 \<and> length (er_master_pref r) = 1
     \<and> length (dw_2dot4g_interval_val (er_config_dw r)) = 4 \<and> length (dw_5g_interval_val (er_config_dw r)) = 4"

definition enable_tlvs :: "nan_hw \<Rightarrow> NanEnableRequest \<Rightarrow> (u16 \<times> bytes) list" where
  "enable_tlvs hw r =
     row_tlvs (enable_rows1 r) @ (if er_config_scan_params r then scan_tlvs hw (er_scan_params_val r) else [])
     @ row_tlvs (enable_rows2 r)"

lemma enable_len_tlvs:
  assumes "enable_ok hw r"
  shows "enable_len hw r = header_size + length (tlvs_bytes (enable_tlvs hw r))"
proof -
  have "enable_len hw r = header_size + (rows_size (enable_rows1 r)
      + (if er_config_scan_params r then NAN_MAX_SOCIAL_CHANNELS hw * (SIZEOF_TLV_HDR + 4) else 0)
      + rows_size (enable_rows2 r))"
    using assms unfolding enable_ok_def enable_rows1_def enable_rows2_def rows_size_opt_len enable_len_def
      NAN_MAX_ENABLE_REQ_SIZE_def
    by (simp add: opt_len_def [of True])
  then show ?thesis
    using assms by (simp add: enable_tlvs_def row_length writes_scan enable_ok_def)
qed

lemma enable_writes:
  assumes "enable_ok hw r"
  shows "writes (enable_body hw r) (enable_tlvs hw r)"
  unfolding enable_body_def enable_tlvs_def
  using assms by (intro writes_bindE writes_if writes_scan writes_rows rows_okD) (simp_all add: enable_ok_def)

lemma enable_fit: "enable_ok hw r \<Longrightarrow> tlvs_fit (enable_tlvs hw r)"
  by (simp add: enable_tlvs_def enable_ok_def rows_fit writes_scan)

text \<open>
  the enable request sends a message that carries its header, with the message's length, and
  exactly the TLVs of the attributes that are configured, in the code's order.
\<close>

theorem putNanEnable_carries:
  assumes "enable_ok hw r" and "nl_malloc nl (enable_len hw r)" and "enable_len hw r < 65536" and "tid < 65536"
  shows "\<exists>msg. putNanEnable nl hw tid (Some r) c = put_vendor_data nl msg c
    \<and> carries msg (request_header NAN_MSG_ID_ENABLE_REQ (enable_len hw r) 0 tid) [] (enable_tlvs hw r)"
proof -
  have "\<exists>msg. put_request nl (enable_len hw r) (request_header NAN_MSG_ID_ENABLE_REQ (enable_len hw r) 0 tid) []
        (enable_body hw r) c = put_vendor_data nl msg c
      \<and> carries msg (request_header NAN_MSG_ID_ENABLE_REQ (enable_len hw r) 0 tid) [] (enable_tlvs hw r)"
    by (rule request_carries)
      (use assms in \<open>simp_all add: enable_writes enable_fit request_header_fits enable_len_tlvs\<close>)
  then show ?thesis by (simp only: putNanEnable_def Let_def option.case)
qed

section \<open>Configuration\<close>

definition has_fam :: "nan_hw \<Rightarrow> NanConfigRequest \<Rightarrow> bool" where
  "has_fam hw r \<longleftrightarrow> cr_config_fam r \<and> calcNanFurtherAvailabilityMapSize hw (cr_fam_val r) \<noteq> 0"

definition config_attrs :: "NanConfigRequest \<Rightarrow> NanTransmitPostDiscovery list" where
  "config_attrs r = take (cr_num_config_discovery_attr r) (cr_discovery_attr_val r)"

definition config_ok :: "nan_hw \<Rightarrow> NanConfigRequest \<Rightarrow> bool" where
  "config_ok hw r \<longleftrightarrow> rows_ok (config_rows1 r) \<and> rows_ok (config_rows2 r) \<and> rows_ok (config_rows3 r)
     \<and> (cr_config_scan_params r \<longrightarrow> scan_ok hw (cr_scan_params_val r))
     \<and> cr_num_config_discovery_attr r \<le> NAN_MAX_POSTDISCOVERY_LEN hw
     \<and> cr_num_config_discovery_attr r \<le> length (cr_discovery_attr_val r)
     \<and> (\<forall>d \<in> set (config_attrs r). post_discovery_ok hw d)
     \<and> (has_fam hw r \<longrightarrow> fam_ok hw (cr_fam_val r))
     \<and> length (dw_2dot4g_interval_val (cr_config_dw r)) = 4 \<and> length (dw_5g_interval_val (cr_config_dw r)) = 4"

definition config_tlvs :: "nan_hw \<Rightarrow> NanConfigRequest \<Rightarrow> (u16 \<times> bytes) list" where
  "config_tlvs hw r =
     row_tlvs (config_rows1 r) @ (if cr_config_scan_params r then scan_tlvs hw (cr_scan_params_val r) else [])
     @ row_tlvs (config_rows2 r)
     @ map (\<lambda>d. (NAN_TLV_TYPE_POST_NAN_DISCOVERY_ATTRIBUTE_TRANSMIT, post_discovery_value hw d)) (config_attrs r)
     @ (if has_fam hw r then [(NAN_TLV_TYPE_FURTHER_AVAILABILITY_MAP, fam_value (cr_fam_val r))] else [])
     @ row_tlvs (config_rows3 r)"

lemma attrs_tlvs:
  assumes "\<forall>d \<in> set ds. post_discovery_ok hw d"
  shows "length (tlvs_bytes (map (\<lambda>d. (t, post_discovery_value hw d)) ds))
      = sum_list (map (\<lambda>d. SIZEOF_TLV_HDR + calcNanTransmitPostDiscoverySize hw d) ds)"
    and "tlvs_fit (map (\<lambda>d. (t, post_discovery_value hw d)) ds)"
  using assms by (induction ds) (auto simp: length_post_discovery_value post_discovery_ok_def)

lemma config_len_tlvs:
  assumes "config_ok hw r"
  shows "config_len hw r (config_attrs r) = header_size + length (tlvs_bytes (config_tlvs hw r))"
proof -
  have "config_len hw r (config_attrs r) = header_size + (rows_size (config_rows1 r)
      + (if cr_config_scan_params r then NAN_MAX_SOCIAL_CHANNELS hw * (SIZEOF_TLV_HDR + 4) else 0)
      + rows_size (config_rows2 r)
      + sum_list (map (\<lambda>d. SIZEOF_TLV_HDR + calcNanTransmitPostDiscoverySize hw d) (config_attrs r))
      + opt_len (has_fam hw r) (calcNanFurtherAvailabilityMapSize hw (cr_fam_val r)) + rows_size (config_rows3 r))"
    using assms unfolding config_ok_def config_rows1_def config_rows2_def config_rows3_def rows_size_opt_len
      config_len_def has_fam_def
    by (simp add: opt_len_def [of True])
  then show ?thesis
    using assms
    by (simp add: config_tlvs_def row_length writes_scan config_ok_def attrs_tlvs
        length_fam_value [of hw "cr_fam_val r"] opt_len_def)
qed

lemma config_writes:
  assumes "config_ok hw r"
  shows "writes (config_body hw r (config_attrs r)) (config_tlvs hw r)"
proof -
  have attrs: "\<forall>d \<in> set (config_attrs r). post_discovery_ok hw d" using assms by (simp add: config_ok_def)
  have put: "writes (put_in_place t (calcNanTransmitPostDiscoverySize hw d) (fillNanTransmitPostDiscoveryVal hw d))
      [(t, post_discovery_value hw d)]" if "d \<in> set (config_attrs r)" for d t
    using attrs that by (intro writes_in_place fills_post_discovery)
      (simp_all add: length_post_discovery_value, simp add: post_discovery_ok_def)
  have attrs: "writes (foldE (\<lambda>d. put_in_place t (calcNanTransmitPostDiscoverySize hw d)
      (fillNanTransmitPostDiscoveryVal hw d)) (config_attrs r)) (map (\<lambda>d. (t, post_discovery_value hw d)) (config_attrs r))" for t
    using writes_foldE [OF put] by simp
  have fam: "writes (put_in_place t (calcNanFurtherAvailabilityMapSize hw (cr_fam_val r))
      (fillNanFurtherAvailabilityMapVal hw (cr_fam_val r))) [(t, fam_value (cr_fam_val r))]" if "has_fam hw r" for t
  proof -
    have ok: "fam_ok hw (cr_fam_val r)" using assms that by (simp add: config_ok_def)
    then show ?thesis by (intro writes_in_place fills_fam)
      (simp_all add: length_fam_value, simp add: calcNanFurtherAvailabilityMapSize_def fam_ok_def)
  qed
  show ?thesis
    unfolding config_body_def config_tlvs_def has_fam_def [symmetric]
    using assms fam
    by (intro writes_bindE writes_if writes_scan writes_rows rows_okD attrs) (simp_all add: config_ok_def)
qed

lemma fam_fits: "fam_ok hw f \<Longrightarrow> length (fam_value f) < 65532"
  by (simp add: length_fam_value) (simp add: calcNanFurtherAvailabilityMapSize_def fam_ok_def)

lemma config_fit: "config_ok hw r \<Longrightarrow> tlvs_fit (config_tlvs hw r)"
  by (simp add: config_tlvs_def config_ok_def rows_fit writes_scan attrs_tlvs fam_fits [of hw "cr_fam_val r"])

text \<open>
  C32: the configuration request likewise, with the post-discovery attributes and the further
  availability map that are written in place into the message.
\<close>

theorem putNanConfig_carries:
  assumes "config_ok hw r" and "nl_malloc nl (config_len hw r (config_attrs r))"
    and "config_len hw r (config_attrs r) < 65536" and "tid < 65536"
  shows "\<exists>msg. putNanConfig nl hw tid (Some r) c = put_vendor_data nl msg c
    \<and> carries msg (request_header NAN_MSG_ID_CONFIGURATION_REQ (config_len hw r (config_attrs r)) 0 tid) []
        (config_tlvs hw r)"
proof -
  have "\<exists>msg. put_request nl (config_len hw r (config_attrs r))
        (request_header NAN_MSG_ID_CONFIGURATION_REQ (config_len hw r (config_attrs r)) 0 tid) []
        (config_body hw r (config_attrs r)) c = put_vendor_data nl msg c
      \<and> carries msg (request_header NAN_MSG_ID_CONFIGURATION_REQ (config_len hw r (config_attrs r)) 0 tid) []
          (config_tlvs hw r)"
    by (rule request_carries)
      (use assms in \<open>simp_all add: config_writes config_fit request_header_fits config_len_tlvs\<close>)
  moreover have "\<not> NAN_MAX_POSTDISCOVERY_LEN hw < cr_num_config_discovery_attr r"
    and "config_discovery_attrs r = Inr (config_attrs r)"
    using assms(1) by (simp_all add: config_ok_def config_discovery_attrs_def config_attrs_def)
  ultimately show ?thesis by (simp only: putNanConfig_def Let_def option.case if_False bindE_simps)
qed

end
