(* ===== verification/NanServiceClaims.thy ===== *)
theory NanServiceClaims
  imports NanRequestClaims
begin

text \<open>
  What the requests for services send: the messages of publishing, subscribing and following up, and
  where the two ways of filling in the same firmware struct agree and where they do not.
\<close>

section \<open>The ranging request in a publish and a subscribe message\<close>

text \<open>
  The macro that splits an address into two words, which are then stored, leaves the same bytes as the
  copy of the address over two cleared words.
\<close>

lemma le_or_bytes:
  "le 4 (unat (ucast a OR push_bit 8 (ucast b) OR push_bit 16 (ucast c) OR push_bit 24 (ucast d) :: u32)) = [a, b, c, d]"
  for a b c d :: u8
proof -
  let ?w = "ucast a OR push_bit 8 (ucast b) OR push_bit 16 (ucast c) OR push_bit 24 (ucast d) :: u32"
  have digit: "word_of_nat (unat w div 256 ^ i) = (ucast (drop_bit (8 * i) w) :: u8)" for i and w :: u32
  proof (rule word_unat_eq_iff [THEN iffD2])
    have "take_bit 32 (unat w) = unat w"
      using unsigned_less [where ?'a = nat, of w] by (simp add: take_bit_nat_eq_self)
    then have "unat (drop_bit (8 * i) w) = unat w div 256 ^ i"
      by (simp add: unsigned_drop_bit_eq power_mult drop_bit_eq_div [of _ "unat w"])
    then show "unat (word_of_nat (unat w div 256 ^ i) :: u8) = unat (ucast (drop_bit (8 * i) w) :: u8)"
      unfolding unat_word_of_nat8 unsigned_ucast_eq by (simp only: take_bit_eq_mod) simp
  qed
  have "le 4 v = [word_of_nat v, word_of_nat (v div 256), word_of_nat (v div 256 ^ 2), word_of_nat (v div 256 ^ 3)]" for v
  proof -
    have four: "4 = Suc (Suc (Suc (Suc 0)))" by simp
    show ?thesis unfolding four le.simps by (simp add: div_mult2_eq [symmetric])
  qed
  then have "le 4 (unat ?w) = [ucast (drop_bit 0 ?w), ucast (drop_bit 8 ?w), ucast (drop_bit 16 ?w), ucast (drop_bit 24 ?w)]"
    using digit [of ?w 0] digit [of ?w 1] digit [of ?w 2] digit [of ?w 3] by simp
  also have "\<dots> = [a, b, c, d]"
    by (simp only: list.inject, intro conjI; (rule bit_word_eqI)?) (auto simp: bit_simps dest: bit_imp_le_length)
  finally show ?thesis .
qed

lemma fw_bytes:
  assumes "length addr = 6"
  shows "\<exists>lo hi. char_array_to_fw addr = Inr (lo, hi) \<and> le 4 (unat lo) @ le 4 (unat hi) = addr @ [0, 0]"
proof -
  obtain a0 a1 a2 a3 a4 a5 where a: "addr = [a0, a1, a2, a3, a4, a5]"
    using assms by (auto simp: numeral_eq_Suc length_Suc_conv)
  show ?thesis
    using le_or_bytes [of a0 a1 a2 a3] le_or_bytes [of a4 a5 0 0] by (simp add: a char_array_to_fw_def)
qed

lemma range_request_bytes:
  assumes "length (rr_peer_addr r) = 6" and "NAN_MAC_ADDR_LEN hw = 6"
  shows "publish_range_req hw r = Inr (rr_peer_addr r @ [0, 0] @ le 4 (rr_publish_id r mod 2 ^ 16) @ range_flags hw r)"
    and "subscribe_range_req hw r = Inr (rr_peer_addr r @ [0, 0] @ le 4 (rr_requestor_instance_id r) @ range_flags hw r)"
proof -
  obtain lo hi where "char_array_to_fw (rr_peer_addr r) = Inr (lo, hi)"
    and "le 4 (unat lo) @ le 4 (unat hi) = rr_peer_addr r @ [0, 0]"
    using fw_bytes [OF assms(1)] by blast
  then show "publish_range_req hw r = Inr (rr_peer_addr r @ [0, 0] @ le 4 (rr_publish_id r mod 2 ^ 16) @ range_flags hw r)"
    by (simp add: publish_range_req_def flip: append_assoc)
  have "le n 0 = replicate n 0" for n by (induction n) simp_all
  then have "wr_bytes (le 4 0 @ le 4 0 @ ys) 0 (rr_peer_addr r) = Inr (rr_peer_addr r @ replicate 2 0 @ ys)" for ys
    using assms(1) by (simp add: wr_bytes_def)
  then have "wr_bytes (le 4 0 @ le 4 0 @ ys) 0 (rr_peer_addr r) = Inr (rr_peer_addr r @ [0, 0] @ ys)" for ys
    by (simp add: numeral_2_eq_2)
  then show "subscribe_range_req hw r = Inr (rr_peer_addr r @ [0, 0] @ le 4 (rr_requestor_instance_id r) @ range_flags hw r)"
    using assms by (simp add: subscribe_range_req_def)
qed

text \<open>
  the range report that a service asks for. With the platform's values (1 disables the report and
  2 enables it) publishing sets the firmware's bit exactly when the report is enabled; subscribing,
  where the shift binds tighter than the mask, sets it when the report is disabled and clears it when
  it is enabled.
\<close>

theorem range_report_precedence:
  assumes "NAN_ENABLE_RANGE_REPORT hw = 2"
  shows "publish_range_report hw (s\<lparr>sd_range_report := 2\<rparr>) = 1
    \<and> publish_range_report hw (s\<lparr>sd_range_report := 1\<rparr>) = 0
    \<and> subscribe_range_report hw (s\<lparr>sd_range_report := 2\<rparr>) = 0
    \<and> subscribe_range_report hw (s\<lparr>sd_range_report := 1\<rparr>) = 1"
  using assms by (simp_all add: publish_range_report_def subscribe_range_report_def drop_bit_eq_div)

section \<open>Publish\<close>

lemma key_len_rows: "rows_size (key_rows hw k) = key_len hw k"
  by (simp add: key_rows_def key_len_def uses_pmk_def)

definition peer_ok :: "nan_hw \<Rightarrow> NanRangeResponseCfg \<Rightarrow> bool" where
  "peer_ok hw r \<longleftrightarrow> length (rr_peer_addr r) = 6 \<and> NAN_MAC_ADDR_LEN hw = 6"

definition range_tlv :: "NanRangeResponseCfg \<Rightarrow> nan_hw \<Rightarrow> nat \<Rightarrow> u16 \<times> bytes" where
  "range_tlv r hw i = (NAN_TLV_TYPE_NAN20_RANGING_REQUEST, rr_peer_addr r @ [0, 0] @ le 4 i @ range_flags hw r)"

definition publish_ok :: "nan_hw \<Rightarrow> NanPublishRequest \<Rightarrow> bool" where
  "publish_ok hw r \<longleftrightarrow> rows_ok (publish_rows hw r)
     \<and> (publish_has_range hw r \<longrightarrow> peer_ok hw (pr_range_response_cfg r))"

definition publish_tlvs :: "nan_hw \<Rightarrow> NanPublishRequest \<Rightarrow> (u16 \<times> bytes) list" where
  "publish_tlvs hw r = row_tlvs (publish_rows hw r)
     @ (if publish_has_range hw r
        then [range_tlv (pr_range_response_cfg r) hw (rr_publish_id (pr_range_response_cfg r) mod 2 ^ 16)] else [])"

lemma writes_range:
  assumes "f = Inr v" and "length v = 16"
  shows "writes (\<lambda>s. bindE f (\<lambda>v. put_rows [(True, t, 16, v)] s)) [(t, v)]"
proof -
  have "writes (put_rows [(True, t, 16, v)]) (row_tlvs [(True, t, 16, v)])"
    by (rule writes_rows) (simp add: row_ok_def assms(2))
  then show ?thesis using assms by simp
qed

lemma publish_len_tlvs:
  assumes "publish_ok hw r"
  shows "publish_len hw r = header_size + length (publish_params r) + length (tlvs_bytes (publish_tlvs hw r))"
proof -
  have "publish_len hw r = header_size + 8 + rows_size (publish_rows hw r) + opt_len (publish_has_range hw r) 16"
    unfolding publish_rows_def publish_len_def rows_size_append rows_size_opt_len key_len_rows
    by (simp add: opt_len_def [of True])
  then show ?thesis
    using assms by (simp add: publish_ok_def publish_tlvs_def row_length range_tlv_def peer_ok_def opt_len_def)
qed

lemma publish_writes:
  assumes "publish_ok hw r"
  shows "writes (publish_body hw r) (publish_tlvs hw r)"
  unfolding publish_body_def publish_tlvs_def range_tlv_def
  using assms
  by (intro writes_bindE writes_if writes_rows rows_okD writes_range)
    (simp_all add: publish_ok_def peer_ok_def range_request_bytes)

text \<open>
  The message of a publish request carries its header, its eight bytes of parameters and exactly
  the TLVs of what the service has: name, service information, filters, policy, cipher, key, data path
  parameters, ranging.
\<close>

lemma putNanPublish_carries:
  assumes "publish_ok hw r" and "nl_malloc nl (publish_len hw r)" and "publish_len hw r < 65536" and "tid < 65536"
    and "pr_publish_id r < 65536"
  shows "\<exists>msg. putNanPublish nl hw tid (Some r) c = put_vendor_data nl msg c
    \<and> carries msg (request_header NAN_MSG_ID_PUBLISH_SERVICE_REQ (publish_len hw r)
                     (if pr_publish_id r = 0 then 65535 else pr_publish_id r) tid)
        (publish_params r) (publish_tlvs hw r)"
proof -
  let ?hdr = "request_header NAN_MSG_ID_PUBLISH_SERVICE_REQ (publish_len hw r)
                (if pr_publish_id r = 0 then 65535 else pr_publish_id r) tid"
  have "tlvs_fit (publish_tlvs hw r)"
    using assms(1) by (simp add: publish_tlvs_def publish_ok_def rows_fit range_tlv_def peer_ok_def)
  then have "\<exists>msg. put_request nl (publish_len hw r) ?hdr (publish_params r) (publish_body hw r) c
        = put_vendor_data nl msg c \<and> carries msg ?hdr (publish_params r) (publish_tlvs hw r)"
    using assms by (intro request_carries)
      (simp_all add: publish_writes request_header_fits publish_len_tlvs del: length_publish_params)
  then show ?thesis by (simp only: putNanPublish_def Let_def option.case)
qed

section \<open>Subscribe\<close>

text \<open>
  The length counts a ranging request when the response is not zero, and the message has one when it is
  at least \<open>NAN_RANGE_REQUEST_ACCEPT\<close>: the two are the same only because the platform's enumeration
  starts with 1.
\<close>

definition subscribe_ok :: "nan_hw \<Rightarrow> NanSubscribeRequest \<Rightarrow> bool" where
  "subscribe_ok hw r \<longleftrightarrow> rows_ok (subscribe_rows1 r) \<and> rows_ok (subscribe_rows2 hw r)
     \<and> NAN_RANGE_REQUEST_ACCEPT hw = 1 \<and> NAN_MAC_ADDR_LEN hw = 6
     \<and> sr_num_intf_addr_present r \<le> length (sr_intf_addr r) \<and> (\<forall>a \<in> set (sr_intf_addr r). length a = 6)
     \<and> (subscribe_has_range hw r \<longrightarrow> peer_ok hw (sr_range_response_cfg r))"

definition addr_rows :: "nan_hw \<Rightarrow> NanSubscribeRequest \<Rightarrow> tlv_row list" where
  "addr_rows hw r = map (\<lambda>a. (True, NAN_TLV_TYPE_MAC_ADDRESS, NAN_MAC_ADDR_LEN hw, a))
     (take (sr_num_intf_addr_present r) (sr_intf_addr r))"

definition subscribe_tlvs :: "nan_hw \<Rightarrow> NanSubscribeRequest \<Rightarrow> (u16 \<times> bytes) list" where
  "subscribe_tlvs hw r = row_tlvs (subscribe_rows1 r) @ row_tlvs (addr_rows hw r) @ row_tlvs (subscribe_rows2 hw r)
     @ (if subscribe_has_range hw r
        then [range_tlv (sr_range_response_cfg r) hw (rr_requestor_instance_id (sr_range_response_cfg r))] else [])"

lemma addr_rows_ok:
  assumes "subscribe_ok hw r"
  shows "rows_ok (addr_rows hw r)"
    and "rows_size (addr_rows hw r) = sr_num_intf_addr_present r * (SIZEOF_TLV_HDR + NAN_MAC_ADDR_LEN hw)"
proof -
  have "rows_size (map (\<lambda>a. (True, t, n, a)) as) = length as * (4 + n)" for t n as
    by (induction as) auto
  then show "rows_size (addr_rows hw r) = sr_num_intf_addr_present r * (SIZEOF_TLV_HDR + NAN_MAC_ADDR_LEN hw)"
    using assms by (simp add: addr_rows_def subscribe_ok_def)
  show "rows_ok (addr_rows hw r)"
    using assms by (auto simp: rows_ok_def addr_rows_def row_ok_def subscribe_ok_def dest: in_set_takeD)
qed

lemma subscribe_len_tlvs:
  assumes "subscribe_ok hw r"
  shows "subscribe_len hw r = header_size + length (subscribe_params r) + length (tlvs_bytes (subscribe_tlvs hw r))"
proof -
  have range: "subscribe_has_range hw r \<longleftrightarrow> rr_requestor_instance_id (sr_range_response_cfg r) \<noteq> 0
                \<or> rr_ranging_response (sr_range_response_cfg r) \<noteq> 0"
    using assms by (auto simp: subscribe_ok_def subscribe_has_range_def)
  have "subscribe_len hw r = header_size + 8 + rows_size (subscribe_rows1 r)
      + sr_num_intf_addr_present r * (SIZEOF_TLV_HDR + NAN_MAC_ADDR_LEN hw)
      + rows_size (subscribe_rows2 hw r) + opt_len (subscribe_has_range hw r) 16"
    unfolding subscribe_rows1_def subscribe_rows2_def subscribe_len_def rows_size_append rows_size_opt_len key_len_rows
      range [symmetric]
    by (simp add: opt_len_def [of True])
  then show ?thesis
    using assms addr_rows_ok [OF assms]
    by (simp add: subscribe_ok_def subscribe_tlvs_def row_length range_tlv_def peer_ok_def opt_len_def)
qed

lemma subscribe_writes:
  assumes "subscribe_ok hw r"
  shows "writes (subscribe_body hw r) (subscribe_tlvs hw r)"
proof -
  have "subscribe_addrs r = Inr (take (sr_num_intf_addr_present r) (sr_intf_addr r))"
    using assms by (simp add: subscribe_addrs_def subscribe_ok_def)
  then show ?thesis
    unfolding subscribe_body_def subscribe_tlvs_def range_tlv_def
    using assms addr_rows_ok [OF assms]
    by (simp only: bindE_simps addr_rows_def [symmetric])
      (intro writes_bindE writes_if writes_rows rows_okD writes_range,
        simp_all add: subscribe_ok_def peer_ok_def range_request_bytes)
qed

text \<open>
  The message of a subscribe request carries its header, its eight bytes of parameters and exactly
  the TLVs of what it asks for, one of them for every address of the service response filter.
\<close>

lemma putNanSubscribe_carries:
  assumes "subscribe_ok hw r" and "nl_malloc nl (subscribe_len hw r)" and "subscribe_len hw r < 65536" and "tid < 65536"
    and "sr_subscribe_id r < 65536"
  shows "\<exists>msg. putNanSubscribe nl hw tid (Some r) c = put_vendor_data nl msg c
    \<and> carries msg (request_header NAN_MSG_ID_SUBSCRIBE_SERVICE_REQ (subscribe_len hw r)
                     (if sr_subscribe_id r = 0 then 65535 else sr_subscribe_id r) tid)
        (subscribe_params r) (subscribe_tlvs hw r)"
proof -
  let ?hdr = "request_header NAN_MSG_ID_SUBSCRIBE_SERVICE_REQ (subscribe_len hw r)
                (if sr_subscribe_id r = 0 then 65535 else sr_subscribe_id r) tid"
  have "tlvs_fit (subscribe_tlvs hw r)"
    using assms(1) addr_rows_ok [OF assms(1)]
    by (simp add: subscribe_tlvs_def subscribe_ok_def rows_fit range_tlv_def peer_ok_def)
  then have "\<exists>msg. put_request nl (subscribe_len hw r) ?hdr (subscribe_params r) (subscribe_body hw r) c
        = put_vendor_data nl msg c \<and> carries msg ?hdr (subscribe_params r) (subscribe_tlvs hw r)"
    using assms by (intro request_carries)
      (simp_all add: subscribe_writes request_header_fits subscribe_len_tlvs del: length_subscribe_params)
  then show ?thesis by (simp only: putNanSubscribe_def Let_def option.case)
qed

section \<open>Follow-up messages\<close>

lemma putNanTransmitFollowup_carries:
  assumes "rows_ok (followup_rows r)" and "nl_malloc nl (followup_len r)" and "followup_len r < 65536" and "tid < 65536"
    and "tf_publish_subscribe_id r < 65536"
  shows "\<exists>msg. putNanTransmitFollowup nl hw tid (Some r) c = put_vendor_data nl msg c
    \<and> carries msg (request_header NAN_MSG_ID_TRANSMIT_FOLLOWUP_REQ (followup_len r) (tf_publish_subscribe_id r) tid)
        (followup_params hw r) (row_tlvs (followup_rows r))"
proof -
  have "followup_len r = header_size + length (followup_params hw r) + rows_size (followup_rows r)"
    unfolding followup_len_def followup_rows_def rows_size_opt_len by (simp add: opt_len_def [of True])
  then have "\<exists>msg. put_request nl (followup_len r) (request_header NAN_MSG_ID_TRANSMIT_FOLLOWUP_REQ (followup_len r)
        (tf_publish_subscribe_id r) tid) (followup_params hw r) (put_rows (followup_rows r)) c
        = put_vendor_data nl msg c \<and> carries msg (request_header NAN_MSG_ID_TRANSMIT_FOLLOWUP_REQ (followup_len r)
        (tf_publish_subscribe_id r) tid) (followup_params hw r) (row_tlvs (followup_rows r))"
    using assms by (intro request_carries writes_rows rows_okD)
      (simp_all add: rows_fit request_header_fits row_length del: length_followup_params)
  then show ?thesis by (simp only: putNanTransmitFollowup_def Let_def option.case)
qed

end
