(* ===== verification/NanCommandClaims.thy ===== *)
theory NanCommandClaims
  imports NanCommand NanServiceClaims NlCommand
begin

text \<open>
  What the requests of the framework come to: an accepted discovery request is one netlink message with
  the request in it; a data path request that did not fit into its message is reported as accepted.
\<close>

section \<open>The message\<close>

text \<open>A command whose message has the attributes \<open>as\<close>, and that has sent nothing.\<close>

definition holds_attrs :: "('m \<Rightarrow> (nat \<times> bytes) list) \<Rightarrow> (nat \<times> bytes) list \<Rightarrow> 'm WifiVendorCommand \<Rightarrow> bool" where
  "holds_attrs attrs as c \<longleftrightarrow> vc_sent c = [] \<and> (\<exists>m. rq_msg (vc_request c) = Some m \<and> attrs m = as)"

lemma vc_put_log:
  assumes "attr_log nl attrs" and "holds_attrs attrs as c" and "vc_put (rq_put nl a bs) c = Inr (WIFI_SUCCESS, c')"
  shows "holds_attrs attrs (as @ [(a, bs)]) c'"
proof -
  obtain e r where put: "rq_put nl a bs (vc_request c) = Inr (e, r)" and e: "0 \<le> e" and c': "c' = c\<lparr>vc_request := r\<rparr>"
    using assms(3) by (auto simp: vc_put_def)
  from rq_put_log [OF assms(1) put e] assms(2) show ?thesis by (auto simp: holds_attrs_def c')
qed

lemma nan_create_log:
  assumes "attr_log nl attrs" and "nan_create nl (new_vendor_command f oui sub) = Inr (WIFI_SUCCESS, c)"
  shows "holds_attrs attrs [(NL80211_ATTR_VENDOR_ID nl, le 4 oui), (NL80211_ATTR_VENDOR_SUBCMD nl, le 4 sub)] c
    \<or> rq_msg (vc_request c) = None"
proof (cases "rq_msg (vc_request c) = None")
  case False
  have ok: "nl_code nl WIFI_SUCCESS = 0" using assms(1) by (simp add: attr_log_def)
  obtain m where m: "nl_alloc nl = Some m"
    using assms(1,2) by (cases "nl_alloc nl") (auto simp: nan_create_def rq_create_def Let_def attr_log_def)
  let ?m = "nl_genlmsg_put nl f (NL80211_CMD_VENDOR nl) m"
  let ?r = "(new_request f)\<lparr>rq_msg := Some ?m\<rparr>"
  obtain e r where put1: "rq_put nl (NL80211_ATTR_VENDOR_ID nl) (le 4 oui) ?r = Inr (e, r)"
    by (cases "nl_put nl (NL80211_ATTR_VENDOR_ID nl) (le 4 oui) ?m") (simp add: rq_put_def)
  have e: "e = 0" using assms(2) False m put1 ok
    by (auto simp: nan_create_def rq_create_def Let_def rq_put_u32_def new_vendor_command_def new_request_def
        rq_destroy_def split: if_splits)
  obtain e' r' where put2: "rq_put nl (NL80211_ATTR_VENDOR_SUBCMD nl) (le 4 sub) r = Inr (e', r')"
    using assms(2) m put1 ok e
    by (auto simp: nan_create_def rq_create_def Let_def rq_put_u32_def new_vendor_command_def new_request_def
        rq_destroy_def split: if_splits)
  have e': "e' = 0" and c: "vc_sent c = []" "vc_request c = r'"
    using assms(2) False m put1 put2 ok e
    by (auto simp: nan_create_def rq_create_def Let_def rq_put_u32_def new_vendor_command_def new_request_def
        rq_destroy_def split: if_splits)
  have "attrs ?m = []" using assms(1) m by (simp add: attr_log_def)
  with rq_put_log [OF assms(1) put1] rq_put_log [OF assms(1) put2] e e' c show ?thesis
    by (auto simp: holds_attrs_def)
qed simp

text \<open>A request that hands \<open>msg\<close> to the netlink message.\<close>

lemma put_vendor_data_log:
  assumes "attr_log nl attrs" and "holds_attrs attrs as c" and "put_vendor_data nl msg c = Inr (WIFI_SUCCESS, c')"
  shows "holds_attrs attrs (as @ [(NL80211_ATTR_VENDOR_DATA nl, msg)]) c'"
proof -
  let ?c = "c\<lparr>vc_vendor_data := Some msg, vc_data_len := length msg\<rparr>"
  have "vc_put (rq_put nl (NL80211_ATTR_VENDOR_DATA nl) msg) ?c = Inr (WIFI_SUCCESS, c')"
    using assms(3) by (auto simp: put_vendor_data_def vc_put_bytes_def vc_put_def rq_put_bytes_def rd_bytes_def
        Let_def split: if_splits)
  moreover have "holds_attrs attrs as ?c" using assms(2) by (simp add: holds_attrs_def)
  ultimately show ?thesis by (intro vc_put_log [OF assms(1)])
qed

lemma requestEvent_log:
  assumes "holds_attrs attrs as c" and "requestEvent nl sock c = Inr (WIFI_SUCCESS, c')"
  shows "\<exists>m. vc_sent c' = [m] \<and> attrs m = as \<and> 0 \<le> nl_send nl m"
  using assms by (auto simp: requestEvent_def holds_attrs_def cleanup_def split: if_splits)

text \<open>The attributes of the message of a request.\<close>

definition request_attrs :: "'m libnl \<Rightarrow> nan_iface \<Rightarrow> bytes \<Rightarrow> (nat \<times> bytes) list" where
  "request_attrs nl i msg =
     [(NL80211_ATTR_VENDOR_ID nl, le 4 OUI_MTK), (NL80211_ATTR_VENDOR_SUBCMD nl, le 4 MTK_SUBCMD_NAN),
      (NL80211_ATTR_IFINDEX nl, le 4 (nl_if_index nl (if_name i))), (NL80211_ATTR_VENDOR_DATA nl, msg)]"

text \<open>
  A request that is reported as accepted is one message, which has been sent; and it is accepted when
  libnl does its part.
\<close>

lemma nan_request_message:
  assumes "attr_log nl attrs" and "\<And>c. \<exists>msg. fill c = put_vendor_data nl msg c \<and> P msg"
    and "nan_request nl i fill = Inr (WIFI_SUCCESS, sent)"
  shows "\<exists>m msg. sent = [m] \<and> attrs m = request_attrs nl i msg \<and> 0 \<le> nl_send nl m \<and> P msg"
proof -
  obtain c1 c2 c3 c4 where
    create: "nan_create nl (new_vendor_command (if_family i) OUI_MTK MTK_SUBCMD_NAN) = Inr (WIFI_SUCCESS, c1)" and
    iface: "vc_put (rq_put nl (NL80211_ATTR_IFINDEX nl) (le 4 (nl_if_index nl (if_name i)))) c1 = Inr (WIFI_SUCCESS, c2)" and
    vendor: "fill c2 = Inr (WIFI_SUCCESS, c3)" and
    send: "requestEvent nl (if_cmd_sock i) c3 = Inr (WIFI_SUCCESS, c4)" "sent = vc_sent c4"
    using assms(3)
    by (auto simp: nan_request_def vc_set_iface_id_def rq_set_iface_id_def rq_put_u32_def split: if_splits)
  obtain msg where msg: "fill c2 = put_vendor_data nl msg c2" "P msg" using assms(2) by blast
  have "rq_msg (vc_request c1) \<noteq> None"
    using iface by (auto simp: vc_put_def rq_put_def split: option.splits)
  with nan_create_log [OF assms(1) create] have
    "holds_attrs attrs [(NL80211_ATTR_VENDOR_ID nl, le 4 OUI_MTK), (NL80211_ATTR_VENDOR_SUBCMD nl, le 4 MTK_SUBCMD_NAN)] c1"
    by simp
  from put_vendor_data_log [OF assms(1) vc_put_log [OF assms(1) this iface] vendor [unfolded msg]]
  have "holds_attrs attrs (request_attrs nl i msg) c3" by (simp add: request_attrs_def)
  from requestEvent_log [OF this send(1)] msg(2) show ?thesis by (auto simp: send(2))
qed

definition nl_delivers :: "'m libnl \<Rightarrow> bool" where
  "nl_delivers nl \<longleftrightarrow> nl_alloc nl \<noteq> None \<and> nl_cb_alloc nl \<and> (\<forall>a bs m. fst (nl_put nl a bs m) = 0)
     \<and> (\<forall>m. 0 \<le> nl_send nl m \<and> recv_loop (nl_replies nl m) 1 = Inr 0)"

lemma rq_put_delivers:
  assumes "nl_delivers nl" and "rq_msg r = Some m"
  shows "rq_put nl a bs r = Inr (0, r\<lparr>rq_msg := Some (snd (nl_put nl a bs m))\<rparr>)"
  using assms by (auto simp: rq_put_def nl_delivers_def split: prod.splits) (metis fst_conv)

lemma nan_request_succeeds:
  assumes "nl_code nl WIFI_SUCCESS = 0" and "nl_delivers nl" and "if_cmd_sock i"
    and "\<And>c. \<exists>msg. fill c = put_vendor_data nl msg c"
  shows "\<exists>sent. nan_request nl i fill = Inr (WIFI_SUCCESS, sent)"
proof -
  obtain m0 where m0: "nl_alloc nl = Some m0" using assms(2) by (auto simp: nl_delivers_def)
  let ?new = "new_vendor_command (if_family i) OUI_MTK MTK_SUBCMD_NAN :: 'a WifiVendorCommand"
  have "\<exists>c m. nan_create nl ?new = Inr (WIFI_SUCCESS, c) \<and> rq_msg (vc_request c) = Some m"
    using assms(1) m0
    by (simp add: nan_create_def Let_def rq_create_def rq_put_u32_def rq_put_delivers [OF assms(2)] del: OUI_MTK_def MTK_SUBCMD_NAN_def)
  then obtain c m where c: "nan_create nl ?new = Inr (WIFI_SUCCESS, c)" "rq_msg (vc_request c) = Some m" by blast
  obtain c' m' where c': "vc_set_iface_id nl (if_name i) c = Inr (WIFI_SUCCESS, c')" "rq_msg (vc_request c') = Some m'"
    using c(2) by (simp add: vc_set_iface_id_def vc_put_def rq_set_iface_id_def rq_put_u32_def rq_put_delivers [OF assms(2)])
  obtain msg where msg: "fill c' = put_vendor_data nl msg c'" using assms(4) by blast
  obtain c'' m'' where c'': "fill c' = Inr (WIFI_SUCCESS, c'')" "rq_msg (vc_request c'') = Some m''"
    using c'(2) by (simp add: msg put_vendor_data_def Let_def vc_put_bytes_def vc_put_def rq_put_bytes_def rd_bytes_def
        rq_put_delivers [OF assms(2)])
  have "\<exists>c3. requestEvent nl (if_cmd_sock i) c'' = Inr (WIFI_SUCCESS, c3)"
    using assms(2,3) c''(2) by (auto simp: requestEvent_def nl_delivers_def not_less [symmetric])
  with c c' c'' show ?thesis by (auto simp: nan_request_def)
qed

lemma nan_request_delivers:
  assumes "attr_log nl attrs" and "nl_delivers nl" and "if_cmd_sock i"
    and "\<And>c. \<exists>msg. fill c = put_vendor_data nl msg c \<and> P msg"
  shows "\<exists>m msg. nan_request nl i fill = Inr (WIFI_SUCCESS, [m]) \<and> attrs m = request_attrs nl i msg \<and> P msg"
proof -
  have "nl_code nl WIFI_SUCCESS = 0" using assms(1) by (simp add: attr_log_def)
  then obtain sent where sent: "nan_request nl i fill = Inr (WIFI_SUCCESS, sent)"
    using nan_request_succeeds [OF _ assms(2,3), of fill] assms(4) by blast
  from nan_request_message [OF assms(1,4) sent] sent show ?thesis by auto
qed

text \<open>
  C31: A publish request within its bounds, on an interface with a socket and with a libnl that does its
  part, is accepted, and what has been sent is one message, to the interface and with the vendor's
  command, whose vendor data the HAL's own reader finds to have the header, the parameters and one TLV
  for each attribute of the request.
\<close>

theorem nan_publish_request_delivers:
  assumes "attr_log nl attrs" and "nl_delivers nl" and "if_cmd_sock i"
    and "publish_ok hw r" and "nl_malloc nl (publish_len hw r)" and "publish_len hw r < 65536" and "tid < 65536"
    and "pr_publish_id r < 65536"
  shows "\<exists>m msg. nan_publish_request nl hw i tid (Some r) = Inr (WIFI_SUCCESS, [m])
    \<and> attrs m = request_attrs nl i msg
    \<and> carries msg (request_header NAN_MSG_ID_PUBLISH_SERVICE_REQ (publish_len hw r)
                     (if pr_publish_id r = 0 then 65535 else pr_publish_id r) tid)
        (publish_params r) (publish_tlvs hw r)"
  unfolding nan_publish_request_def
  by (rule nan_request_delivers [OF assms(1-3)]) (rule putNanPublish_carries [OF assms(4-8)])

text \<open>The same for a subscribe request.\<close>

theorem nan_subscribe_request_delivers:
  assumes "attr_log nl attrs" and "nl_delivers nl" and "if_cmd_sock i"
    and "subscribe_ok hw r" and "nl_malloc nl (subscribe_len hw r)" and "subscribe_len hw r < 65536" and "tid < 65536"
    and "sr_subscribe_id r < 65536"
  shows "\<exists>m msg. nan_subscribe_request nl hw i tid (Some r) = Inr (WIFI_SUCCESS, [m])
    \<and> attrs m = request_attrs nl i msg
    \<and> carries msg (request_header NAN_MSG_ID_SUBSCRIBE_SERVICE_REQ (subscribe_len hw r)
                     (if sr_subscribe_id r = 0 then 65535 else sr_subscribe_id r) tid)
        (subscribe_params r) (subscribe_tlvs hw r)"
  unfolding nan_subscribe_request_def
  by (rule nan_request_delivers [OF assms(1-3)]) (rule putNanSubscribe_carries [OF assms(4-8)])

section \<open>Data path requests\<close>

text \<open>The first attribute of the body does not fit.\<close>

lemma nest_first_fails:
  assumes "\<And>bs m. fst (nl_put nl a bs m) < 0" and "rq_msg (vc_request c) \<noteq> None"
  shows "\<exists>c'. nest_call nl data (put_call (vc_put_u32 nl a v) # fs) c = Inr (False, c') \<and> vc_sent c' = vc_sent c"
proof -
  have fails: "\<exists>c'. put_call (vc_put_u32 nl a v) c = Inr (False, c') \<and> vc_sent c' = vc_sent c"
    if "rq_msg (vc_request c) = Some m" for c m
    using assms(1) [of "le 4 v" m] that
    by (cases "nl_put nl a (le 4 v) m")
      (auto simp: put_call_def vc_put_u32_def rq_put_u32_def vc_put_def rq_put_def)
  moreover obtain m where "rq_msg (vc_request c) = Some m" using assms(2) by auto
  ultimately show ?thesis
  proof (cases "nl_nest_start nl data m")
    case (Some am)
    obtain k m' where am: "am = (k, m')" by (cases am)
    let ?c = "c\<lparr>vc_request := (vc_request c)\<lparr>rq_msg := Some m'\<rparr>\<rparr>"
    have start: "vc_attr_start nl data c = Inr (Some k, ?c)"
      using Some am \<open>rq_msg (vc_request c) = Some m\<close> by (simp add: vc_attr_start_def rq_attr_start_def)
    obtain c' where "put_call (vc_put_u32 nl a v) ?c = Inr (False, c')" and "vc_sent c' = vc_sent ?c"
      using fails [of ?c m'] by auto
    with start show ?thesis by (simp add: nest_call_def)
  qed (simp add: nest_call_def vc_attr_start_def rq_attr_start_def)
qed

lemma nan_create_sent: "nan_create nl c = Inr (ret, c') \<Longrightarrow> vc_sent c' = vc_sent c"
  by (auto simp: nan_create_def Let_def split: prod.splits if_splits)

lemma initialized_command:
  assumes "nan_initialize_vendor_cmd nl i = Inr (WIFI_SUCCESS, c)"
  shows "rq_msg (vc_request c) \<noteq> None \<and> vc_sent c = []"
  using assms
  by (auto simp: nan_initialize_vendor_cmd_def vc_set_iface_id_def rq_set_iface_id_def rq_put_u32_def vc_put_def
      rq_put_def new_vendor_command_def dest!: nan_create_sent split: if_splits option.splits prod.splits)

lemma ndp_first_fails:
  assumes "\<And>bs m. fst (nl_put nl a bs m) < 0" and "nan_initialize_vendor_cmd nl i = Inr (WIFI_SUCCESS, c)"
  shows "ndp_send nl i WIFI_SUCCESS (put_call (vc_put_u32 nl a v) # fs) c = Inr (WIFI_SUCCESS, [])"
  using nest_first_fails [OF assms(1), of c "NL80211_ATTR_VENDOR_DATA nl" v fs] initialized_command [OF assms(2)]
  by (auto simp: ndp_send_def)

text \<open>
  The data path requests test each \<open>put\<close> of their body and jump to \<open>cleanup\<close> when one fails, but \<open>ret\<close>
  still has the \<open>WIFI_SUCCESS\<close> of the initialisation there: when the message has no room for the body,
  each of the five requests returns success and nothing has been sent.
\<close>

theorem full_message_reported_as_success:
  assumes "nan_initialize_vendor_cmd nl i = Inr (WIFI_SUCCESS, c)"
    and "\<And>bs m. fst (nl_put nl MTK_WLAN_VENDOR_ATTR_NDP_SUBCMD bs m) < 0"
    and "di_cipher_type ri = NAN_CIPHER_SUITE_SHARED_KEY_NONE dh" and "dn_cipher_type rr = NAN_CIPHER_SUITE_SHARED_KEY_NONE dh"
  shows "nan_data_interface_create nl i tid (Some name) = Inr (WIFI_SUCCESS, [])
    \<and> nan_data_interface_delete nl i tid (Some name) = Inr (WIFI_SUCCESS, [])
    \<and> nan_data_request_initiator nl hw dh i tid (Some ri) = Inr (WIFI_SUCCESS, [])
    \<and> nan_data_indication_response nl hw dh i tid (Some rr) = Inr (WIFI_SUCCESS, [])
    \<and> nan_data_end nl i tid (Some re) = Inr (WIFI_SUCCESS, [])"
  using ndp_first_fails [OF assms(2,1)] assms
  by (simp add: nan_data_interface_create_def nan_data_interface_delete_def nan_data_request_initiator_def
      nan_data_indication_response_def nan_data_end_def ndp_request_def del: One_nat_def)

section \<open>Confirmations\<close>

text \<open>A confirmation with the three attributes that are asked for, each of at least the size that is read.\<close>

definition confirm_attrs :: "nl_attrs \<Rightarrow> NanDataPathConfirmInd \<Rightarrow> bool" where
  "confirm_attrs tb e \<longleftrightarrow>
     (\<exists>i a r. tb MTK_WLAN_VENDOR_ATTR_NDP_INSTANCE_ID = Some i \<and> tb MTK_WLAN_VENDOR_ATTR_NDP_NDI_MAC_ADDR = Some a
        \<and> tb MTK_WLAN_VENDOR_ATTR_NDP_RESPONSE_CODE = Some r \<and> 2 \<le> length i \<and> 4 \<le> length r)"

lemma copy_attr_total: "\<exists>d n. copy_attr dst (Some a) = Inr (d, n)"
  by (simp add: copy_attr_def nla_len_def memcpy_def Let_def)

lemma copy_app_info_total: "\<exists>j. copy_app_info tb j0 = Inr j"
proof (cases "tb MTK_WLAN_VENDOR_ATTR_NDP_APP_INFO")
  case (Some a)
  obtain d n where "copy_attr (ndp_app_info j0) (Some a) = Inr (d, n)" using copy_attr_total by blast
  with Some show ?thesis by (simp add: copy_app_info_def del: MTK_WLAN_VENDOR_ATTR_NDP_APP_INFO_def)
qed (simp add: copy_app_info_def del: MTK_WLAN_VENDOR_ATTR_NDP_APP_INFO_def)

text \<open>
  a confirmation of a data path that has the attributes that are asked for is not safe to read: without
  the driver's return value, or with a number of channels that is within the limit and no list of channels,
  a null pointer is dereferenced. The test that should see to the list only does so beyond the limit.
\<close>

theorem confirm_dereferences_null:
  assumes "confirm_attrs tb e"
  shows "(tb MTK_WLAN_VENDOR_ATTR_NDP_DRV_RETURN_VALUE = None \<longrightarrow> getNdpConfirm k nested limit tb e = Inl UB)
    \<and> (\<forall>d n. tb MTK_WLAN_VENDOR_ATTR_NDP_DRV_RETURN_VALUE = Some d \<and> 4 \<le> length d
          \<and> tb MTK_WLAN_VENDOR_ATTR_NDP_NUM_CHANNELS = Some n \<and> length n = 4 \<and> 0 < unle n \<and> unle n \<le> limit
          \<and> tb MTK_WLAN_VENDOR_ATTR_NDP_CHANNEL_INFO = None
        \<longrightarrow> getNdpConfirm k nested limit tb e = Inl UB)"
proof -
  obtain i a r where tb: "tb 10 = Some i" "tb 13 = Some a" "tb 12 = Some r" "2 \<le> length i" "4 \<le> length r"
    using assms by (auto simp: confirm_attrs_def)
  obtain d n where addr: "copy_attr (dc_peer_ndi_mac_addr e) (Some a) = Inr (d, n)" using copy_attr_total by blast
  obtain j where info: "copy_app_info tb (dc_app_info e) = Inr j" using copy_app_info_total by blast
  show ?thesis
    using tb addr info by (auto simp: getNdpConfirm_def nla_get_def rd_num_ok get_channels_def Let_def)
qed

end
