(* ===== verification/NanIndicationClaims.thy ===== *)
theory NanIndicationClaims
  imports NanEvents NanWrites
begin

text \<open>
  What the parsers make of the messages: a well-formed message is read to its end without leaving it
  or the arrays of the event, and the exceptions to this.
\<close>

section \<open>Reading values\<close>

lemma unat_len16: "length v < 65532 \<Longrightarrow> unat (word_of_nat (length v) :: u16) = length v"
  by (simp add: unat_of_nat)

lemma tlv_at_fields [simp]:
  "nt_type (tlv_at t v rest) = t" "nt_length (tlv_at t v rest) = word_of_nat (length v)"
  "nt_value (tlv_at t v rest) = (if v = [] then None else Some (v @ rest))"
  by (simp_all add: tlv_at_def)

text \<open>A copy takes no more than the value, and no more than the cap.\<close>

lemma copy_tlv_at:
  assumes "length v < 65532" and "cap \<le> length dst"
  shows "copy_tlv cap dst (tlv_at t v rest) = Inr (take cap v @ drop (min (length v) cap) dst, min (length v) cap)"
proof (cases "v = []")
  case True
  then show ?thesis by (simp add: copy_tlv_def Let_def)
next
  case False
  have "take (min (length v) cap) (v @ rest) = take cap v" by (simp add: min_def)
  moreover have "min (length v) cap \<le> length v + length rest" and "min (length v) cap \<le> length dst"
    using assms(2) by linarith+
  ultimately show ?thesis using False assms(1) by (simp add: copy_tlv_def unat_len16 memcpy_def Let_def)
qed

lemma copy_array_at:
  assumes "length v < 65532"
  shows "copy_array dst (tlv_at t v rest) = Inr (take (length dst) v @ drop (length v) dst)"
  using copy_tlv_at [OF assms order_refl, of dst t rest] by (simp add: copy_array_def min_def)

text \<open>A message with a fixed part and the TLVs \<open>ts\<close>.\<close>

lemma read_message_ok:
  assumes "tlvs_fit ts" and "\<forall>tv \<in> set ts. handles I f tv" and "I s" and "length a = p"
  shows "\<exists>s'. each_tlv f ts s = Inr s' \<and> I s'
    \<and> read_message f (a @ tlvs_bytes ts) (length (a @ tlvs_bytes ts)) p s = Inr s'"
  using tlv_loop_encoded [OF assms(1-3), of a "[]"] assms(4) by (simp add: read_message_def)

section \<open>Publish replied\<close>

lemma publish_replied_handles: "length v < 65532 \<Longrightarrow> handles (\<lambda>_. True) publish_replied_tlv (t, v)"
  by (rule handlesI, cases "t = NAN_TLV_TYPE_MAC_ADDRESS"; cases "t = NAN_TLV_TYPE_RECEIVED_RSSI_VALUE")
    (simp_all add: publish_replied_tlv_def copy_array_at)

text \<open>
  C35: the length from which the loop for a replied publish counts down does not exclude the four bytes
  of the handle, so every well-formed indication, with whatever TLVs, is read past its end.
\<close>

theorem getNanPublishReplied_overruns:
  assumes "tlvs_fit ts" and "length params = 4"
  shows "getNanPublishReplied (Some (header_bytes hdr @ params @ tlvs_bytes ts))
           (length (header_bytes hdr @ params @ tlvs_bytes ts)) e = Inl UB"
proof -
  let ?e = "e\<lparr>pri_requestor_instance_id := unle params, pri_rssi_value := replicate (length (pri_rssi_value e)) 0\<rparr>"
  have "\<forall>tv \<in> set ts. handles (\<lambda>_. True) publish_replied_tlv tv"
    using assms(1) by (auto simp: tlvs_fit_def intro: publish_replied_handles)
  from tlv_loop_overrun [OF assms(1) this TrueI, of 4 "header_bytes hdr @ params" ?e]
  have "tlv_loop publish_replied_tlv (header_bytes hdr @ params @ tlvs_bytes ts) 12
      (int (length (tlvs_bytes ts)) + 4) ?e = Inl UB"
    using assms(2) by simp
  moreover have "rd_num 4 (header_bytes hdr @ params @ tlvs_bytes ts) 8 = Inr (unle params)"
    using assms(2) by (simp add: rd_num_ok)
  ultimately show ?thesis using assms(2) by (simp add: getNanPublishReplied_def ac_simps)
qed

section \<open>Further availability\<close>

text \<open>The channels as the message carries them: only the low bits of a field that is a bit-field or a byte.\<close>

definition fam_carried :: "NanFurtherAvailabilityChannel \<Rightarrow> NanFurtherAvailabilityChannel" where
  "fam_carried ch = ch\<lparr>fc_entry_control := fc_entry_control ch mod 4, fc_class_val := fc_class_val ch mod 256,
     fc_channel := fc_channel ch mod 256, fc_mapid := fc_mapid ch mod 16\<rparr>"


lemma fam_carried_fields:
  "fam_carried ch = \<lparr>fc_entry_control = fc_entry_control ch mod 4, fc_class_val = fc_class_val ch mod 256,
     fc_channel = fc_channel ch mod 256, fc_mapid = fc_mapid ch mod 16,
     fc_avail_interval_bitmap = fc_avail_interval_bitmap ch\<rparr>"
  by (cases ch) (simp add: fam_carried_def)

lemma drop_fam_chans:
  assumes "\<forall>ch \<in> set chs. length (fc_avail_interval_bitmap ch) = 4" and "i < length chs"
  shows "drop (7 * i) (concat (map fam_chan_bytes chs)) = fam_chan_bytes (chs ! i) @ concat (map fam_chan_bytes (drop (Suc i) chs))"
proof -
  have chs: "chs = take i chs @ chs ! i # drop (Suc i) chs" using assms(2) by (rule id_take_nth_drop)
  have "length (concat (map fam_chan_bytes (take i chs))) = 7 * i"
    using length_fam_chans [of "take i chs"] assms by (auto dest: in_set_takeD)
  then show ?thesis by (subst chs) (simp del: take_all)
qed

lemma unle_1 [simp]: "unle [b] = unat b"
  by simp

lemma get_fam_chan_ok:
  assumes "drop (1 + i * fam_chan_size) v = fam_chan_bytes ch @ r" and "i < length chs"
    and "length (fc_avail_interval_bitmap ch) = 4" and "length (fc_avail_interval_bitmap (chs ! i)) = 4"
  shows "get_fam_chan v i chs = Inr (chs[i := fam_carried ch])"
proof -
  let ?p = "1 + i * fam_chan_size" and ?x = "pack_bits [(2, fc_entry_control ch), (4, fc_mapid ch), (2, 0)]"
  have bytes: "drop ?p v = word_of_nat ?x # word_of_nat (fc_class_val ch) # word_of_nat (fc_channel ch)
      # fc_avail_interval_bitmap ch @ r"
    using assms(1) by (simp add: fam_chan_bytes_def)
  have len: "?p + 7 \<le> length v"
    using arg_cong [OF bytes, of length] assms(3) by simp
  have nth: "v ! (?p + j) = drop ?p v ! j" if "j < 3" for j
    using len that by simp
  have "?x < 256" using pack_bits_less [of "[(2, fc_entry_control ch), (4, fc_mapid ch), (2, 0)]"] by simp
  then have x: "unat (word_of_nat ?x :: u8) = ?x" by (simp only: unat_word_of_nat8) simp
  have fields: "bit_field 0 2 ?x = fc_entry_control ch mod 4" "bit_field 2 4 ?x = fc_mapid ch mod 16"
    using bit_field_pack_hd [of 2 "fc_entry_control ch"] bit_field_pack_tl [of 2 0 4 "fc_entry_control ch"]
      bit_field_pack_hd [of 4 "fc_mapid ch"] by (simp_all del: pack_bits.simps)
  have rd: "rd8 v ?p = Inr (word_of_nat ?x)" "rd8 v (?p + 1) = Inr (word_of_nat (fc_class_val ch))"
    "rd8 v (?p + 2) = Inr (word_of_nat (fc_channel ch))"
    using len nth [of 0] nth [of 1] nth [of 2] unfolding bytes by (simp_all add: rd8_def)
  have "drop (?p + 3) v = drop 3 (drop ?p v)" by (simp add: add.commute)
  then have "memcpy (fc_avail_interval_bitmap (chs ! i)) (Some (drop (?p + 3) v)) 4 = Inr (fc_avail_interval_bitmap ch)"
    unfolding bytes using assms(3,4) by (simp add: memcpy_def)
  then show ?thesis
    using assms(2,4) rd x fields
    by (simp add: get_fam_chan_def Let_def fam_carried_fields unat_word_of_nat8 del: pack_bits.simps fam_chan_size_def)
qed

lemma get_fam_chans_ok:
  assumes "\<forall>ch \<in> set fs. length (fc_avail_interval_bitmap ch) = 4" and "v = b # concat (map fam_chan_bytes fs) @ rest"
    and "n \<le> length fs" and "length fs \<le> length chs" and "\<forall>ch \<in> set chs. length (fc_avail_interval_bitmap ch) = 4"
  shows "foldE (get_fam_chan v) [0..<n] chs = Inr (map fam_carried (take n fs) @ drop n chs)"
  using assms(3)
proof (induction n)
  case 0
  then show ?case by simp
next
  case (Suc n)
  let ?chs = "map fam_carried (take n fs) @ drop n chs"
  have n: "n < length fs" "n < length chs" using Suc.prems assms(4) by simp_all
  have "length (concat (map fam_chan_bytes fs)) = 7 * length fs"
    by (rule length_fam_chans [OF assms(1)])
  then have "drop (7 * n) (concat (map fam_chan_bytes fs) @ rest) = drop (7 * n) (concat (map fam_chan_bytes fs)) @ rest"
    using n by simp
  then have "drop (1 + n * fam_chan_size) v
      = fam_chan_bytes (fs ! n) @ concat (map fam_chan_bytes (drop (Suc n) fs)) @ rest"
    using drop_fam_chans [OF assms(1) n(1)] assms(2) by (simp add: mult.commute)
  moreover have "?chs ! n = chs ! n" using n by (simp add: nth_append)
  ultimately have "get_fam_chan v n ?chs = Inr (?chs[n := fam_carried (fs ! n)])"
    using n assms(1,5) by (intro get_fam_chan_ok) auto
  moreover have "?chs[n := fam_carried (fs ! n)] = map fam_carried (take (Suc n) fs) @ drop (Suc n) chs"
    using n by (simp add: list_update_append take_Suc_conv_app_nth Cons_nth_drop_Suc [symmetric])
  ultimately show ?case using Suc by (simp add: foldE_append)
qed

text \<open>The encoding, as \<open>fills_fam\<close> has it, is what the parser reads.\<close>

lemma fam_value_read:
  assumes "fam_ok hw f" and "fam_numchans f \<le> length chs" and "\<forall>ch \<in> set chs. length (fc_avail_interval_bitmap ch) = 4"
  shows "getNanFurtherAvailabilityMap hw (Some (fam_value f @ rest)) (length (fam_value f)) (c, chs)
    = Inr (0, fam_numchans f, map fam_carried (take (fam_numchans f) (fam_famchan f)) @ drop (fam_numchans f) chs)"
proof -
  let ?n = "fam_numchans f" and ?fs = "take (fam_numchans f) (fam_famchan f)"
  have ok: "?n \<noteq> 0" "?n \<le> NAN_MAX_FAM_CHANNELS hw" "?n \<le> length (fam_famchan f)" "?n < 256"
    and bm: "\<forall>ch \<in> set ?fs. length (fc_avail_interval_bitmap ch) = 4"
    using assms(1) by (auto simp: fam_ok_def dest: in_set_takeD)
  have v: "fam_value f @ rest = word_of_nat ?n # concat (map fam_chan_bytes ?fs) @ rest"
    by (simp add: fam_value_def)
  have "foldE (get_fam_chan (fam_value f @ rest)) [0..<?n] chs = Inr (map fam_carried (take ?n ?fs) @ drop ?n chs)"
    by (rule get_fam_chans_ok [OF bm v]) (use ok assms(2,3) in auto)
  moreover have "length (fam_value f) = 1 + ?n * 7" "rd8 (fam_value f @ rest) 0 = Inr (word_of_nat ?n)"
    using length_fam_value [OF assms(1)] ok by (simp_all add: calcNanFurtherAvailabilityMapSize_def fam_value_def)
  ultimately show ?thesis
    using ok by (simp add: getNanFurtherAvailabilityMap_def unat_word_of_nat8 Let_def)
qed

text \<open>
  C34: What \<open>fillNanFurtherAvailabilityMapVal\<close> writes into the zeroed rest of a message, with room for the size
  computed beforehand and whatever lies before it, is read back by the parser of the indications: as many
  channels as the map has, in order, each with what its bit-fields and bytes hold of it (\<open>fam_carried\<close>). The
  map has at least one channel, at most as many as the platform allows, and the event has room for them.
\<close>

theorem fam_roundtrip:
  assumes "fam_ok hw f" and "fam_numchans f \<le> length chs" and "\<forall>ch \<in> set chs. length (fc_avail_interval_bitmap ch) = 4"
  shows "\<exists>msg. fillNanFurtherAvailabilityMapVal hw f (length a) (a @ replicate (calcNanFurtherAvailabilityMapSize hw f + k) 0)
        = Inr (a @ msg)
    \<and> getNanFurtherAvailabilityMap hw (Some msg) (calcNanFurtherAvailabilityMapSize hw f) (c, chs)
        = Inr (0, fam_numchans f, map fam_carried (take (fam_numchans f) (fam_famchan f)) @ drop (fam_numchans f) chs)"
proof (intro exI conjI)
  note size = length_fam_value [OF assms(1)]
  show "fillNanFurtherAvailabilityMapVal hw f (length a) (a @ replicate (calcNanFurtherAvailabilityMapSize hw f + k) 0)
      = Inr (a @ (fam_value f @ replicate k 0))"
    by (rule fillsD [OF fills_fam [OF assms(1)]]) (simp_all add: size)
  show "getNanFurtherAvailabilityMap hw (Some (fam_value f @ replicate k 0)) (calcNanFurtherAvailabilityMapSize hw f) (c, chs)
      = Inr (0, fam_numchans f, map fam_carried (take (fam_numchans f) (fam_famchan f)) @ drop (fam_numchans f) chs)"
    using fam_value_read [OF assms] by (simp only: size)
qed

end
