(* ===== verification/NanMatchClaims.thy ===== *)
theory NanMatchClaims
  imports NanIndicationClaims
begin

text \<open>
  A match indication is the richest of the messages: here it is shown to be read to its end, whatever
  well-formed TLVs it has, within the arrays of the event, and what the lengths in the event are bounded by.
\<close>

section \<open>Values with a structure of their own\<close>

definition fam_read :: "bytes \<Rightarrow> nat \<Rightarrow> NanFurtherAvailabilityChannel" where
  "fam_read v i =
     (let p = 1 + i * 7 in
      \<lparr>fc_entry_control = bit_field 0 2 (unat (v ! p)), fc_class_val = unat (v ! (p + 1)),
       fc_channel = unat (v ! (p + 2)), fc_mapid = bit_field 2 4 (unat (v ! p)),
       fc_avail_interval_bitmap = take 4 (drop (p + 3) v)\<rparr>)"

definition fam_array :: "NanFurtherAvailabilityChannel list \<Rightarrow> bool" where
  "fam_array chs \<longleftrightarrow> (\<forall>ch \<in> set chs. length (fc_avail_interval_bitmap ch) = 4)"

lemma get_fam_chan_local:
  assumes "8 + 7 * i \<le> length v" and "i < length chs" and "fam_array chs"
  shows "get_fam_chan (v @ rest) i chs = Inr (chs[i := fam_read v i])"
proof -
  have "length (fc_avail_interval_bitmap (chs ! i)) = 4" using assms(2,3) by (simp add: fam_array_def)
  moreover have "4 \<le> length v + length rest - (4 + i * 7)" using assms(1) by simp
  ultimately show ?thesis
    using assms(1,2)
    by (simp add: get_fam_chan_def fam_read_def rd8_def nth_append memcpy_def Let_def mult.commute)
qed

lemma get_fam_chans_local:
  assumes "1 + 7 * n \<le> length v" and "n \<le> length chs" and "fam_array chs"
  shows "\<exists>chs'. (\<forall>rest. foldE (get_fam_chan (v @ rest)) [0..<n] chs = Inr chs') \<and> length chs' = length chs \<and> fam_array chs'"
  using assms(1,2)
proof (induction n)
  case 0
  then show ?case using assms(3) by simp
next
  case (Suc n)
  then obtain chs' where chs': "\<forall>rest. foldE (get_fam_chan (v @ rest)) [0..<n] chs = Inr chs'"
    "length chs' = length chs" "fam_array chs'" by auto
  have "fam_array (chs'[n := fam_read v n])"
    using chs'(3) Suc.prems(1) set_update_subset_insert [of chs' n "fam_read v n"]
    by (auto simp: fam_array_def fam_read_def Let_def)
  then show ?case
    using chs' Suc.prems get_fam_chan_local [of n v chs'] by (auto simp: foldE_append)
qed

lemma fam_total:
  assumes "NAN_MAX_FAM_CHANNELS hw \<le> length chs" and "fam_array chs"
  shows "\<exists>ret c' chs'. (\<forall>rest. getNanFurtherAvailabilityMap hw (if v = [] then None else Some (v @ rest)) (length v) (c, chs)
      = Inr (ret, c', chs')) \<and> length chs' = length chs \<and> fam_array chs'"
proof (cases "v = []")
  case True
  then show ?thesis using assms(2) by (simp add: getNanFurtherAvailabilityMap_def)
next
  case False
  then have v0: "rd8 (v @ rest) 0 = Inr (v ! 0)" for rest by (simp add: rd8_def nth_append)
  let ?n = "unat (v ! 0)"
  consider "?n > NAN_MAX_FAM_CHANNELS hw" | "?n \<le> NAN_MAX_FAM_CHANNELS hw" "length v < 1 + ?n * 7"
    | "?n \<le> NAN_MAX_FAM_CHANNELS hw" "1 + 7 * ?n \<le> length v" by fastforce
  then show ?thesis
  proof cases
    case 3
    then obtain chs' where "\<forall>rest. foldE (get_fam_chan (v @ rest)) [0..<?n] chs = Inr chs'"
      "length chs' = length chs" "fam_array chs'"
      using get_fam_chans_local [of ?n v chs] assms by auto
    then show ?thesis using False 3 v0 by (simp add: getNanFurtherAvailabilityMap_def Let_def mult.commute)
  qed (use False v0 assms(2) in \<open>auto simp: getNanFurtherAvailabilityMap_def Let_def\<close>)
qed

text \<open>A discovery attribute: too short to be looked at, or eight bytes and TLVs.\<close>

definition disc_value :: "bytes \<Rightarrow> bool" where
  "disc_value v \<longleftrightarrow> length v \<le> 8 \<or> (\<exists>a us. v = a @ tlvs_bytes us \<and> length a = 8 \<and> tlvs_fit us)"

lemma post_discovery_handles:
  assumes "length v < 65532"
  shows "handles (\<lambda>d. length (rd_avail_interval_bitmap d) = 4) post_discovery_tlv (t, v)"
  by (rule handlesI, cases "t = NAN_TLV_TYPE_MAC_ADDRESS"; cases "t = NAN_TLV_TYPE_WLAN_MESH_ID";
      cases "t = NAN_TLV_TYPE_WLAN_INFRA_SSID")
    (simp_all add: post_discovery_tlv_def copy_array_at copy_tlv_at assms)

lemma disc_total:
  assumes "disc_value v" and "length (rd_avail_interval_bitmap d) = 4"
  shows "\<exists>ret d'. (\<forall>rest. getNanReceivePostDiscoveryVal (if v = [] then None else Some (v @ rest)) (length v) d
      = Inr (ret, d')) \<and> length (rd_avail_interval_bitmap d') = 4"
proof (cases "length v \<le> 8")
  case True
  then show ?thesis using assms(2) by (simp add: getNanReceivePostDiscoveryVal_def)
next
  case False
  then obtain a us where v: "v = a @ tlvs_bytes us" "length a = 8" "tlvs_fit us"
    using assms(1) by (auto simp: disc_value_def)
  have nth: "rd8 (v @ rest) i = Inr (v ! i)" if "i < 8" for i rest
    using False that by (simp add: rd8_def nth_append)
  have "take 4 (drop 4 (v @ rest)) = take 4 (drop 4 v)" for rest
    using False by simp
  then have bm: "memcpy (rd_avail_interval_bitmap d) (Some (drop 4 (v @ rest))) 4 = Inr (take 4 (drop 4 v))" for rest
    using False assms(2) by (simp add: memcpy_def)
  let ?d = "d\<lparr>rd_type := unat (v ! 0), rd_role := unat (v ! 1), rd_duration := unat (v ! 2 AND 3),
                    rd_mapid := unat (drop_bit 2 (v ! 2) AND 15), rd_avail_interval_bitmap := take 4 (drop 4 v)\<rparr>"
  have "\<forall>tv \<in> set us. handles (\<lambda>d. length (rd_avail_interval_bitmap d) = 4) post_discovery_tlv tv"
    using v(3) by (auto simp: tlvs_fit_def intro: post_discovery_handles)
  moreover have "length (rd_avail_interval_bitmap ?d) = 4" using False by simp
  ultimately have enc: "\<exists>s'. each_tlv post_discovery_tlv us ?d = Inr s' \<and> length (rd_avail_interval_bitmap s') = 4
      \<and> tlv_loop post_discovery_tlv (a @ tlvs_bytes us @ rest) (length a) (int (length (tlvs_bytes us))) ?d = Inr s'" for rest
    by (rule tlv_loop_encoded [OF v(3)])
  obtain d' where d': "each_tlv post_discovery_tlv us ?d = Inr d'" "length (rd_avail_interval_bitmap d') = 4"
    using enc [of "[]"] by auto
  have "v @ rest = a @ tlvs_bytes us @ rest" "int (length v) - 8 = int (length (tlvs_bytes us))" for rest
    using v(1,2) by simp_all
  then have loop: "tlv_loop post_discovery_tlv (v @ rest) 8 (int (length v) - 8) ?d = Inr d'" for rest
    using enc [of rest] d'(1) v(2) by simp
  have "v \<noteq> []" using False by auto
  then have "getNanReceivePostDiscoveryVal (if v = [] then None else Some (v @ rest)) (length v) d = Inr (0, d')" for rest
    using False assms(2) nth [of 0 rest] nth [of 1 rest] nth [of 2 rest] bm [of rest] loop [of rest]
    by (simp add: getNanReceivePostDiscoveryVal_def)
  then show ?thesis using d'(2) by blast
qed

section \<open>The event of a match\<close>

text \<open>The arrays have the sizes of the platform's header.\<close>

definition match_arrays :: "nan_hw \<Rightarrow> NanMatchInd \<Rightarrow> bool" where
  "match_arrays hw e \<longleftrightarrow> NAN_MAX_SERVICE_NAME_LEN hw \<le> length (mi_service_specific_info e)
     \<and> NAN_MAX_MATCH_FILTER_LEN hw \<le> length (mi_sdf_match_filter e)
     \<and> NAN_MAX_SDEA_SERVICE_SPECIFIC_INFO_LEN hw \<le> length (mi_sdea_service_specific_info e)
     \<and> NAN_MAX_POSTDISCOVERY_LEN hw \<le> length (mi_discovery_attr e)
     \<and> (\<forall>d \<in> set (mi_discovery_attr e). length (rd_avail_interval_bitmap d) = 4)
     \<and> NAN_MAX_FAM_CHANNELS hw \<le> length (mi_famchan e) \<and> fam_array (mi_famchan e)"

text \<open>What the event says about its arrays is true of them; the number of channels is not among this.\<close>

definition match_lengths :: "nan_hw \<Rightarrow> NanMatchInd \<Rightarrow> bool" where
  "match_lengths hw e \<longleftrightarrow> mi_service_specific_info_len e \<le> NAN_MAX_SERVICE_NAME_LEN hw
     \<and> mi_sdf_match_filter_len e \<le> NAN_MAX_MATCH_FILTER_LEN hw
     \<and> mi_cluster_attribute_len e \<le> length (mi_cluster_attribute e) \<and> mi_scid_len e \<le> length (mi_scid e)
     \<and> mi_sdea_service_specific_info_len e \<le> NAN_MAX_SDEA_SERVICE_SPECIFIC_INFO_LEN hw
     \<and> mi_num_rx_discovery_attr e \<le> NAN_MAX_POSTDISCOVERY_LEN hw"

definition match_inv :: "nan_hw \<Rightarrow> NanMatchInd \<Rightarrow> bool" where
  "match_inv hw e \<longleftrightarrow> match_arrays hw e \<and> match_lengths hw e"

lemma discovery_total:
  assumes "length v < 65532" and "disc_value v" and "match_inv hw e"
  shows "\<exists>e'. match_inv hw e' \<and> (\<forall>rest. match_discovery_attr hw (tlv_at t v rest) e = Inr e')"
proof (cases "mi_num_rx_discovery_attr e \<ge> NAN_MAX_POSTDISCOVERY_LEN hw")
  case True
  then show ?thesis using assms(3) by (simp add: match_discovery_attr_def)
next
  case False
  let ?i = "mi_num_rx_discovery_attr e"
  have i: "?i < length (mi_discovery_attr e)"
    using False assms(3) by (simp add: match_inv_def match_arrays_def)
  then have "length (rd_avail_interval_bitmap (mi_discovery_attr e ! ?i)) = 4"
    using assms(3) by (simp add: match_inv_def match_arrays_def)
  from disc_total [OF assms(2) this] obtain ret d' where
    d': "\<forall>rest. getNanReceivePostDiscoveryVal (if v = [] then None else Some (v @ rest)) (length v)
           (mi_discovery_attr e ! ?i) = Inr (ret, d')" "length (rd_avail_interval_bitmap d') = 4"
    by blast
  let ?ds = "(mi_discovery_attr e)[?i := d']"
  let ?e = "if ret = 0 then e\<lparr>mi_discovery_attr := ?ds, mi_num_rx_discovery_attr := ?i + 1\<rparr>
            else e\<lparr>mi_discovery_attr := ?ds\<rparr>"
  have "match_discovery_attr hw (tlv_at t v rest) e = Inr ?e" for rest
    using False i d'(1) assms(1) by (simp add: match_discovery_attr_def unat_len16 Let_def)
  moreover have "\<forall>d \<in> set ?ds. length (rd_avail_interval_bitmap d) = 4"
    using assms(3) d'(2) set_update_subset_insert [of "mi_discovery_attr e" ?i d']
    by (auto simp: match_inv_def match_arrays_def)
  then have "match_inv hw ?e"
    using assms(3) False by (simp add: match_inv_def match_arrays_def match_lengths_def)
  ultimately show ?thesis by blast
qed

lemma fam_channels_total:
  assumes "length v < 65532" and "match_inv hw e"
  shows "\<exists>e'. match_inv hw e' \<and> (\<forall>rest. match_tlv hw (tlv_at NAN_TLV_TYPE_FURTHER_AVAILABILITY_MAP v rest) e = Inr e')"
proof -
  have "NAN_MAX_FAM_CHANNELS hw \<le> length (mi_famchan e)" and "fam_array (mi_famchan e)"
    using assms(2) by (simp_all add: match_inv_def match_arrays_def)
  from fam_total [OF this, of v "mi_num_chans e"] obtain ret c' chs' where
    "\<forall>rest. getNanFurtherAvailabilityMap hw (if v = [] then None else Some (v @ rest)) (length v)
      (mi_num_chans e, mi_famchan e) = Inr (ret, c', chs')" "length chs' = length (mi_famchan e)" "fam_array chs'"
    by blast
  then have "match_tlv hw (tlv_at NAN_TLV_TYPE_FURTHER_AVAILABILITY_MAP v rest) e
      = Inr (e\<lparr>mi_num_chans := c', mi_famchan := chs'\<rparr>) \<and> match_inv hw (e\<lparr>mi_num_chans := c', mi_famchan := chs'\<rparr>)" for rest
    using assms by (simp add: match_tlv_def unat_len16 match_inv_def match_arrays_def match_lengths_def)
  then show ?thesis by blast
qed

lemma four_bytes:
  assumes "length v < 65532" and "word_of_nat (length v) = (4 :: u16)"
  shows "length v = 4"
  using arg_cong [OF assms(2), of unat] unat_len16 [OF assms(1)] by simp

lemma kept_length: "cap \<le> n \<Longrightarrow> min l cap + (n - min l cap) = n" for cap n l :: nat
  by simp

lemma match_handles:
  assumes "length v < 65532" and "t = NAN_TLV_TYPE_POST_NAN_DISCOVERY_ATTRIBUTE_RECEIVE \<Longrightarrow> disc_value v"
  shows "handles (match_inv hw) (match_tlv hw) (t, v)"
proof (rule handlesI)
  fix e
  assume inv: "match_inv hw e"
  note defs = match_tlv_def match_inv_def match_arrays_def match_lengths_def copy_tlv_at [OF assms(1)]
    copy_array_at [OF assms(1)] kept_length
  consider "t = NAN_TLV_TYPE_SERVICE_SPECIFIC_INFO" | "t = NAN_TLV_TYPE_SDF_MATCH_FILTER"
    | "t = NAN_TLV_TYPE_MAC_ADDRESS" | "t = NAN_TLV_TYPE_RECEIVED_RSSI_VALUE"
    | (conn) "t = NAN_TLV_TYPE_POST_NAN_CONNECTIVITY_CAPABILITIES_RECEIVE"
    | (disc) "t = NAN_TLV_TYPE_POST_NAN_DISCOVERY_ATTRIBUTE_RECEIVE"
    | (fam) "t = NAN_TLV_TYPE_FURTHER_AVAILABILITY_MAP"
    | "t = NAN_TLV_TYPE_CLUSTER_ATTRIBUTE" | "t = NAN_TLV_TYPE_NAN_CSID" | "t = NAN_TLV_TYPE_NAN_SCID"
    | (sdea) "t = NAN_TLV_TYPE_SDEA_CTRL_PARAMS" | "t = NAN_TLV_TYPE_NAN20_RANGING_RESULT"
    | "t = NAN_TLV_TYPE_SDEA_SERVICE_SPECIFIC_INFO"
    | (other) "t \<notin> {NAN_TLV_TYPE_SERVICE_SPECIFIC_INFO, NAN_TLV_TYPE_SDF_MATCH_FILTER, NAN_TLV_TYPE_MAC_ADDRESS,
        NAN_TLV_TYPE_RECEIVED_RSSI_VALUE, NAN_TLV_TYPE_POST_NAN_CONNECTIVITY_CAPABILITIES_RECEIVE,
        NAN_TLV_TYPE_POST_NAN_DISCOVERY_ATTRIBUTE_RECEIVE, NAN_TLV_TYPE_FURTHER_AVAILABILITY_MAP,
        NAN_TLV_TYPE_CLUSTER_ATTRIBUTE, NAN_TLV_TYPE_NAN_CSID, NAN_TLV_TYPE_NAN_SCID, NAN_TLV_TYPE_SDEA_CTRL_PARAMS,
        NAN_TLV_TYPE_NAN20_RANGING_RESULT, NAN_TLV_TYPE_SDEA_SERVICE_SPECIFIC_INFO}"
    by blast
  then show "\<exists>e'. match_inv hw e' \<and> (\<forall>rest. match_tlv hw (tlv_at t v rest) e = Inr e')"
  proof cases
    case conn
    show ?thesis
    proof (cases "word_of_nat (length v) = (4 :: u16)")
      case True
      then have "length v = 4" using four_bytes assms(1) by blast
      then have "v \<noteq> []" "\<And>rest. rd8 (v @ rest) 0 = Inr (v ! 0)" by (auto simp: rd8_def nth_append)
      then show ?thesis using conn inv True
        by (simp add: getNanReceivePostConnectivityCapabilityVal_def defs)
    qed (use conn inv in \<open>simp add: defs\<close>)
  next
    case sdea
    show ?thesis
    proof (cases "word_of_nat (length v) = (4 :: u16)")
      case True
      then have "length v = 4" using four_bytes assms(1) by blast
      then have "v \<noteq> []" "\<And>rest. rd8 (v @ rest) 0 = Inr (v ! 0)" by (auto simp: rd8_def nth_append)
      then show ?thesis using sdea inv True
        by (simp add: getNanReceiveSdeaCtrlParams_def defs)
    qed (use sdea inv in \<open>simp add: defs\<close>)
  next
    case disc
    then show ?thesis using discovery_total [OF assms(1) assms(2) inv] by (simp add: match_tlv_def)
  next
    case fam
    then show ?thesis using fam_channels_total [OF assms(1) inv] by simp
  next
    case other
    then show ?thesis using inv by (simp add: match_tlv_def)
  qed (use inv in \<open>simp_all add: defs\<close>)
qed

section \<open>Match indications\<close>

text \<open>The event with the fields that come from the header and the parameters.\<close>

definition match_start :: "NanMsgHeader \<Rightarrow> bytes \<Rightarrow> NanMatchInd \<Rightarrow> NanMatchInd" where
  "match_start hdr params e = e\<lparr>mi_publish_subscribe_id := handle hdr, mi_requestor_instance_id := unle (take 4 params),
     mi_match_occured_flag := bit_field 0 1 (unle (drop 4 params)),
     mi_out_of_resource_flag := bit_field 1 1 (unle (drop 4 params))\<rparr>"

lemma getNanMatch_read:
  assumes "header_fits hdr" and "length params = 8"
  shows "getNanMatch hw (Some (header_bytes hdr @ params @ r)) n e
    = bindE (read_message (match_tlv hw) (header_bytes hdr @ params @ r) n 16 (match_start hdr params e))
        (\<lambda>e. Inr (WIFI_SUCCESS, e))"
proof -
  have "unle (le 2 (handle hdr)) = handle hdr" using assms(1) by (simp add: unle_le header_fits_def)
  then have "rd_num 2 (header_bytes hdr @ params @ r) 4 = Inr (handle hdr)"
    by (simp add: rd_num_ok header_bytes_def)
  moreover have "rd_num 4 (header_bytes hdr @ params @ r) 8 = Inr (unle (take 4 params))"
    and "rd_num 4 (header_bytes hdr @ params @ r) 12 = Inr (unle (drop 4 params))"
    using assms(2) by (simp_all add: rd_num_ok)
  ultimately show ?thesis by (simp add: getNanMatch_def match_start_def)
qed

text \<open>The number of channels is the one that the last further availability map claims, bounded or not.\<close>

lemma match_tlv_chans:
  assumes "match_tlv hw (tlv_of t v) e = Inr e'"
  shows "mi_num_chans e' = mi_num_chans e
    \<or> t = NAN_TLV_TYPE_FURTHER_AVAILABILITY_MAP \<and> v \<noteq> [] \<and> mi_num_chans e' = unat (hd v)"
  using assms
  by (auto simp: match_tlv_def match_discovery_attr_def getNanFurtherAvailabilityMap_def rd8_def Let_def tlv_of_def tlv_at_def
      hd_conv_nth split: if_splits option.splits)

lemma each_match_chans:
  "each_tlv (match_tlv hw) ts e = Inr e' \<Longrightarrow> mi_num_chans e' = mi_num_chans e
    \<or> (\<exists>v. (NAN_TLV_TYPE_FURTHER_AVAILABILITY_MAP, v) \<in> set ts \<and> v \<noteq> [] \<and> mi_num_chans e' = unat (hd v))"
proof (induction ts arbitrary: e)
  case Nil
  then show ?case by (simp add: each_tlv_def)
next
  case (Cons tv ts)
  obtain t v where tv: "tv = (t, v)" by (cases tv)
  obtain e1 where "match_tlv hw (tlv_of t v) e = Inr e1" "each_tlv (match_tlv hw) ts e1 = Inr e'"
    using Cons.prems by (auto simp: each_tlv_def tv)
  then show ?case using Cons.IH match_tlv_chans tv by fastforce
qed

text \<open>
  C33: A match indication whose TLVs are well formed, those of the discovery attributes included, is read to
  its end whatever TLVs it has and in whatever order, without leaving the message or an array of the
  event: the result is success and the event that its TLVs make, one after the other, of the one with the
  header's fields. The lengths in it are those of its arrays at most, all but the number of channels:
  that is the one the event had, or the first byte of a further availability map, which nothing bounds.
\<close>

theorem getNanMatch_total:
  assumes "header_fits hdr" and "length params = 8" and "tlvs_fit ts"
    and "\<forall>(t, v) \<in> set ts. t = NAN_TLV_TYPE_POST_NAN_DISCOVERY_ATTRIBUTE_RECEIVE \<longrightarrow> disc_value v"
    and "match_arrays hw e" and "match_lengths hw e"
  shows "\<exists>e'. getNanMatch hw (Some (header_bytes hdr @ params @ tlvs_bytes ts))
                 (length (header_bytes hdr @ params @ tlvs_bytes ts)) e = Inr (WIFI_SUCCESS, e')
    \<and> each_tlv (match_tlv hw) ts (match_start hdr params e) = Inr e' \<and> match_arrays hw e' \<and> match_lengths hw e'
    \<and> (mi_num_chans e' = mi_num_chans e
       \<or> (\<exists>v. (NAN_TLV_TYPE_FURTHER_AVAILABILITY_MAP, v) \<in> set ts \<and> v \<noteq> [] \<and> mi_num_chans e' = unat (hd v)))"
proof -
  have "\<forall>tv \<in> set ts. handles (match_inv hw) (match_tlv hw) tv"
    using assms(3,4) by (auto simp: tlvs_fit_def intro!: match_handles)
  moreover have "match_inv hw (match_start hdr params e)"
    using assms(5,6) by (simp add: match_inv_def match_arrays_def match_lengths_def match_start_def)
  ultimately obtain e' where "each_tlv (match_tlv hw) ts (match_start hdr params e) = Inr e'" and "match_inv hw e'"
    and "read_message (match_tlv hw) ((header_bytes hdr @ params) @ tlvs_bytes ts)
      (length ((header_bytes hdr @ params) @ tlvs_bytes ts)) 16 (match_start hdr params e) = Inr e'"
    using read_message_ok [OF assms(3), of "match_inv hw" "match_tlv hw" _ "header_bytes hdr @ params" 16] assms(2) by auto
  then show ?thesis using each_match_chans [of hw ts "match_start hdr params e" e']
    by (simp add: getNanMatch_read [OF assms(1,2)] match_inv_def match_start_def)
qed

text \<open>
  the number of channels of a further availability map is stored before it is checked, and the
  result of the check is not looked at: a match indication whose map claims more channels than the
  event has room for is reported as successful, with that number and an array without them.
\<close>

theorem num_chans_not_bounded:
  assumes "header_fits hdr" and "length params = 8" and "length v < 65531" and "NAN_MAX_FAM_CHANNELS hw < unat b"
  shows "getNanMatch hw (Some (header_bytes hdr @ params @ tlv_bytes NAN_TLV_TYPE_FURTHER_AVAILABILITY_MAP (b # v)))
           (length (header_bytes hdr @ params @ tlv_bytes NAN_TLV_TYPE_FURTHER_AVAILABILITY_MAP (b # v))) e
    = Inr (WIFI_SUCCESS, (match_start hdr params e)\<lparr>mi_num_chans := unat b\<rparr>)"
proof -
  let ?ts = "[(NAN_TLV_TYPE_FURTHER_AVAILABILITY_MAP, b # v)]" and ?f = "\<lambda>e. e\<lparr>mi_num_chans := unat b\<rparr>"
  have u: "unat (word_of_nat (length (b # v)) :: u16) = Suc (length v)" using unat_len16 [of "b # v"] assms(3) by simp
  have f: "match_tlv hw (tlv_at NAN_TLV_TYPE_FURTHER_AVAILABILITY_MAP (b # v) rest) e = Inr (?f e)" for rest e
    using assms(4) u by (simp add: match_tlv_def getNanFurtherAvailabilityMap_def Let_def rd8_def)
  have "\<forall>tv \<in> set ?ts. handles (\<lambda>_. True) (match_tlv hw) tv"
    using f by (simp add: handles_def)
  from read_message_ok [OF _ this TrueI, of "header_bytes hdr @ params" 16 "match_start hdr params e"] show ?thesis
    using assms(2,3) f [of "[]"] by (simp add: getNanMatch_read [OF assms(1,2)] each_tlv_def tlv_of_def)
qed

end
