(* ===== verification/NanResponseClaims.thy ===== *)
theory NanResponseClaims
  imports NanResponse
begin

text \<open>
  What the framework is told: the statistics are those of the firmware's struct (but for one field), and
  a complaint about a TLV names the wrong one.
\<close>

section \<open>Structs\<close>

text \<open>The bytes of a struct whose field \<open>f\<close> has the value \<open>val f\<close>, and that the values fit.\<close>

definition struct_bytes :: "struct_layout \<Rightarrow> (string \<Rightarrow> nat) \<Rightarrow> bytes" where
  "struct_bytes l val = concat (map (\<lambda>(f, w). le w (val f)) l)"

definition struct_fits :: "struct_layout \<Rightarrow> (string \<Rightarrow> nat) \<Rightarrow> bool" where
  "struct_fits l val \<longleftrightarrow> (\<forall>(f, w) \<in> set l. val f < 256 ^ w)"

lemma field_at_bytes:
  assumes "field_at l f = Some (i, w)"
  shows "(f, w) \<in> set l \<and> i + w \<le> length (struct_bytes l val)
    \<and> take w (drop i (struct_bytes l val)) = le w (val f)"
  using assms
proof (induction l f arbitrary: i w rule: field_at.induct)
  case (1 f)
  then show ?case by simp
next
  case (2 g w' l f)
  show ?case
  proof (cases "g = f")
    case True
    then show ?thesis using "2.prems" by (auto simp: struct_bytes_def)
  next
    case False
    then obtain j where j: "field_at l f = Some (j, w)" "i = w' + j" using "2.prems" by auto
    have "drop (w' + j) (le w' (val g) @ x) = drop j x" for x by simp
    then show ?thesis using "2.IH" [OF False j(1)] j(2) by (simp add: struct_bytes_def)
  qed
qed

lemma field_at_ex: "f \<in> fst ` set l \<Longrightarrow> \<exists>i w. field_at l f = Some (i, w)"
  by (induction l f rule: field_at.induct) auto

lemma read_field_bytes:
  assumes "f \<in> fst ` set l" and "struct_fits l val"
  shows "read_field l (struct_bytes l val @ rest) f = Inr (val f)"
proof -
  obtain i w where f: "field_at l f = Some (i, w)" using field_at_ex [OF assms(1)] by blast
  have "(f, w) \<in> set l" and "i + w \<le> length (struct_bytes l val)"
    and "take w (drop i (struct_bytes l val)) = le w (val f)"
    using field_at_bytes [OF f] by blast+
  moreover from this(1) have "val f < 256 ^ w" using assms(2) by (auto simp: struct_fits_def)
  ultimately show ?thesis
    by (simp add: read_field_def f rd_num_ok unle_le)
qed

lemma copy_fields_bytes:
  assumes "snd ` set ps \<subseteq> fst ` set l" and "struct_fits l val"
  shows "copy_fields l (struct_bytes l val @ rest) ps = Inr (map (\<lambda>(d, f). (d, val f)) ps)"
  using assms(1)
proof (induction ps)
  case (Cons p ps)
  then show ?case by (cases p) (simp add: read_field_bytes [OF _ assms(2)])
qed simp

section \<open>Statistics\<close>

text \<open>For each kind of statistics: its number, the size that the message has to have, the firmware's struct, what is copied.\<close>

definition stats_table :: "nan_stats_hw \<Rightarrow> (nat \<times> nat \<times> struct_layout \<times> (string \<times> string) list) list" where
  "stats_table sh =
    [(NAN_STATS_ID_DE_PUBLISH sh, sizeof_NanPublishStats sh, FwNanPublishStats, publish_copies),
     (NAN_STATS_ID_DE_SUBSCRIBE sh, sizeof_NanSubscribeStats sh, FwNanSubscribeStats, subscribe_copies),
     (NAN_STATS_ID_DE_DW sh, sizeof_NanDWStats sh, FwNanMacStats, dw_copies),
     (NAN_STATS_ID_DE_MAC sh, sizeof_NanMacStats sh, FwNanMacStats, mac_copies),
     (NAN_STATS_ID_DE_TIMING_SYNC sh, sizeof_NanSyncStats sh, FwNanSyncStats, sync_copies),
     (NAN_STATS_ID_DE sh, sizeof_NanDeStats sh, FwNanDeStats, de_copies)]"

lemma copies_of_fields:
  "snd ` set publish_copies \<subseteq> fst ` set FwNanPublishStats"
  "snd ` set subscribe_copies \<subseteq> fst ` set FwNanSubscribeStats"
  "snd ` set dw_copies \<subseteq> fst ` set FwNanMacStats" "snd ` set mac_copies \<subseteq> fst ` set FwNanMacStats"
  "snd ` set sync_copies \<subseteq> fst ` set FwNanSyncStats" "snd ` set de_copies \<subseteq> fst ` set FwNanDeStats"
  by code_simp+

text \<open>The chain of conditions is a look-up in the table.\<close>

lemma handleNanStatsResponse_table:
  "handleNanStatsResponse sh i buf n = (case map_of (stats_table sh) i of
      None \<Rightarrow> Inr None
    | Some (sz, l, ps) \<Rightarrow> if n \<noteq> sz then Inr None
        else case buf of None \<Rightarrow> Inl UB | Some b \<Rightarrow> bindE (copy_fields l b ps) (\<lambda>r. Inr (Some r)))"
proof -
  have if_case: "(case (if c then Some x else y) of None \<Rightarrow> a | Some z \<Rightarrow> f z) = (if c then f x else case y of None \<Rightarrow> a | Some z \<Rightarrow> f z)"
    for c x y a f by simp
  show ?thesis
    unfolding handleNanStatsResponse_def stats_table_def Let_def map_of.simps fun_upd_apply fst_conv snd_conv if_case
      prod.case option.case by (rule refl)
qed

text \<open>
  for every kind of statistics, a message that holds the firmware's struct and has the size that the
  framework's has gives exactly the values of the struct's fields, each in the field that it is assigned to.
\<close>

theorem handleNanStatsResponse_copies:
  assumes "distinct (map fst (stats_table sh))" and "(i, sz, l, ps) \<in> set (stats_table sh)" and "struct_fits l val"
  shows "handleNanStatsResponse sh i (Some (struct_bytes l val @ rest)) sz = Inr (Some (map (\<lambda>(d, f). (d, val f)) ps))"
proof -
  have "snd ` set ps \<subseteq> fst ` set l" using assms(2) copies_of_fields by (auto simp: stats_table_def)
  from copy_fields_bytes [OF this assms(3), of rest] show ?thesis
    using assms(1,2) by (simp add: handleNanStatsResponse_table)
qed

text \<open>A message of another size leaves the data as they are.\<close>

lemma handleNanStatsResponse_size:
  assumes "distinct (map fst (stats_table sh))" and "(i, sz, l, ps) \<in> set (stats_table sh)" and "n \<noteq> sz"
  shows "handleNanStatsResponse sh i buf n = Inr None"
  using assms by (simp add: handleNanStatsResponse_table)

text \<open>
  In the timing statistics, the number of beacons of the own cluster that the framework gets is that
  of the other clusters; the firmware's number for the own cluster does not reach it.
\<close>

theorem beaconsForOurCluster_lost:
  assumes "distinct (map fst (stats_table sh))" and "struct_fits FwNanSyncStats val"
  shows "\<exists>fs. handleNanStatsResponse sh (NAN_STATS_ID_DE_TIMING_SYNC sh) (Some (struct_bytes FwNanSyncStats val @ rest))
              (sizeof_NanSyncStats sh) = Inr (Some fs)
    \<and> stat (Some fs) ''beaconsForOurCluster'' = val ''beaconsForOtherCluster''
    \<and> stat (Some fs) ''beaconsForOtherCluster'' = val ''beaconsForOtherCluster''
    \<and> ''beaconsForOurCluster'' \<notin> snd ` set sync_copies"
proof -
  let ?fs = "map (\<lambda>(d, f). (d, val f)) sync_copies"
  have sync: "(NAN_STATS_ID_DE_TIMING_SYNC sh, sizeof_NanSyncStats sh, FwNanSyncStats, sync_copies) \<in> set (stats_table sh)"
    by (simp add: stats_table_def)
  have "snd ` set sync_copies \<subseteq> fst ` set FwNanSyncStats" by (rule copies_of_fields)
  from copy_fields_bytes [OF this assms(2), of rest]
  have "handleNanStatsResponse sh (NAN_STATS_ID_DE_TIMING_SYNC sh) (Some (struct_bytes FwNanSyncStats val @ rest))
      (sizeof_NanSyncStats sh) = Inr (Some ?fs)"
    using assms(1) sync by (simp add: handleNanStatsResponse_table)
  moreover have "stat (Some ?fs) ''beaconsForOurCluster'' = val ''beaconsForOtherCluster''"
    and "stat (Some ?fs) ''beaconsForOtherCluster'' = val ''beaconsForOtherCluster''"
    by (simp_all add: stat_def sync_copies_def same_def)
  moreover have "''beaconsForOurCluster'' \<notin> snd ` set sync_copies" by (simp add: sync_copies_def same_def)
  ultimately show ?thesis by blast
qed

section \<open>Errors\<close>

lemma tlv_type_row: "find_row (\<lambda>(_, fe, _). fe = NAN_I_STATUS_INVALID_TLV_TYPE) (errorCodeTranslation k) = 11"
  by (simp add: errorCodeTranslation_def)

lemma error_rows: "length (errorCodeTranslation k) = 65"
  by (simp add: errorCodeTranslation_def)

text \<open>
  when the firmware rejects the type of a TLV, the text that the framework gets is about 2.4G
  support, whichever of the known TLVs it was: the text is taken at the index of the error, not at that of
  the TLV.
\<close>

theorem invalid_tlv_names_24G:
  assumes "valueRcvd \<in> (\<lambda>(t, _). unat t) ` set tlvToStr" and "100 \<le> NAN_ERROR_STR_LEN k"
  shows "translate_response k NAN_I_STATUS_INVALID_TLV_TYPE valueRcvd v
    = Inr \<lparr>vd_status = NAN_STATUS_INVALID_PARAM k, vd_nan_error = ''Invalid TLV type 2.4G support''\<rparr>"
proof -
  have row: "errorCodeTranslation k ! 11 = (NAN_STATUS_INVALID_PARAM k, NAN_I_STATUS_INVALID_TLV_TYPE, ''Invalid TLV type'')"
    by (simp add: errorCodeTranslation_def)
  have "find_row (\<lambda>(t, _). unat t = valueRcvd) tlvToStr < length tlvToStr"
    using assms(1) by (auto simp: find_row_ex)
  moreover have "vec_at tlvToStr 11 = Inr (NAN_TLV_TYPE_24G_SUPPORT, '' 2.4G support'')"
    by (simp add: vec_at_def tlvToStr_def)
  ultimately have "tlv_info k 11 NAN_I_STATUS_INVALID_TLV_TYPE valueRcvd = Inr '' 2.4G support''"
    using assms(2) by (simp add: tlv_info_def strlcpy_def)
  moreover have "strlcpy ''Invalid TLV type'' (NAN_ERROR_STR_LEN k) = ''Invalid TLV type''"
    using assms(2) by (simp add: strlcpy_def)
  ultimately show ?thesis
    using assms(2)
    by (simp only: translate_response_def tlv_type_row error_rows row Let_def) (simp add: strlcat_def)
qed

end
