(* ===== verification/NanWitnesses.thy ===== *)
theory NanWitnesses
  imports NanCommandClaims NanMatchClaims NanResponseClaims
begin

text \<open>
  The properties of the NAN requests, indications and responses on concrete input: the platform's numbers
  with small arrays, a libnl whose messages are the lists of their attributes, and one request of each kind.
\<close>

section \<open>Examples\<close>

definition ex_hw :: "nan_hw" where
  "ex_hw =
     \<lparr>NAN_MAC_ADDR_LEN = 6, NAN_MAX_SOCIAL_CHANNELS = 3, NAN_CHANNEL_24G_BAND = 0, NAN_CHANNEL_5G_BAND_LOW = 1,
     NAN_CHANNEL_5G_BAND_HIGH = 2, NAN_MAX_POSTDISCOVERY_LEN = 2, NAN_MAX_FAM_CHANNELS = 2,
     NAN_CONN_WLAN_MESH = 4, NAN_CONN_WLAN_INFRA = 0, NAN_SECURITY_KEY_INPUT_PMK = 1,
     NAN_SECURITY_KEY_INPUT_PASSPHRASE = 2, NAN_PMK_INFO_LEN = 32, NAN_SECURITY_MIN_PASSPHRASE_LEN = 8,
     NAN_SECURITY_MAX_PASSPHRASE_LEN = 63, NAN_DATA_PATH_MULTICAST_MSG = 1, NAN_DATA_PATH_UNICAST_MSG = 0,
     NAN_ENABLE_RANGE_REPORT = 2, NAN_RANGING_INDICATE_INGRESS_MET_MASK = 2,
     NAN_RANGING_INDICATE_EGRESS_MET_MASK = 4, NAN_RANGE_REQUEST_ACCEPT = 1, NAN_RANGE_REQUEST_REJECT = 2,
     NAN_RANGE_REQUEST_CANCEL = 3, NAN_TX_PRIORITY_HIGH = 2, NAN_TCA_ID_CLUSTER_SIZE = 0,
     sizeof_NanServiceAcceptPolicy = 4, NAN_MAX_SERVICE_NAME_LEN = 4, NAN_MAX_MATCH_FILTER_LEN = 4,
     NAN_MAX_SERVICE_SPECIFIC_INFO_LEN = 1024, NAN_MAX_SDEA_SERVICE_SPECIFIC_INFO_LEN = 4,
     NAN_MAX_VSA_DATA_LEN = 1024, NAN_MAX_FRAME_DATA_LEN = 504, NAN_EVENT_ID_DISC_MAC_ADDR = 0,
     NAN_EVENT_ID_STARTED_CLUSTER = 1, NAN_EVENT_ID_JOINED_CLUSTER = 2, NAN_DP_CONFIG_SECURITY = 1,
     NAN_DP_CONFIG_NO_SECURITY = 0, NAN_RANGING_ENABLE = 1, NAN_RANGING_DISABLE = 0\<rparr>"

text \<open>One whose messages have no room for the first attribute of a data path request.\<close>

definition ex_full_libnl :: "(nat \<times> bytes) list libnl" where
  "ex_full_libnl = ex_libnl\<lparr>nl_put := (\<lambda>a bs m. if a = 1 then (- 90, m) else (0, m @ [(a, bs)]))\<rparr>"

definition ex_iface :: nan_iface where
  "ex_iface = \<lparr>if_family = 28, if_name = ''aware0'', if_cmd_sock = True\<rparr>"

definition ex_nan_command :: "(nat \<times> bytes) list WifiVendorCommand" where
  "ex_nan_command = new_vendor_command 28 OUI_MTK MTK_SUBCMD_NAN"

definition ex_enable :: "NanEnableRequest" where
  "ex_enable =
     \<lparr>er_master_pref = [2], er_cluster_low = [0, 0], er_cluster_high = [255, 255], er_config_support_5g = True,
     er_support_5g_val = [1], er_config_sid_beacon = False, er_sid_beacon_val = [],
     er_config_2dot4g_rssi_close = False, er_rssi_close_2dot4g_val = [], er_config_2dot4g_rssi_middle = False,
     er_rssi_middle_2dot4g_val = [], er_config_2dot4g_rssi_proximity = False,
     er_rssi_proximity_2dot4g_val = [], er_config_hop_count_limit = False, er_hop_count_limit_val = [],
     er_config_2dot4g_support = False, er_support_2dot4g_val = [1], er_config_2dot4g_beacons = False,
     er_beacon_2dot4g_val = [], er_config_2dot4g_sdf = False, er_sdf_2dot4g_val = [],
     er_config_5g_beacons = False, er_beacon_5g_val = [], er_config_5g_sdf = False, er_sdf_5g_val = [],
     er_config_5g_rssi_close = False, er_rssi_close_5g_val = [], er_config_5g_rssi_middle = False,
     er_rssi_middle_5g_val = [], er_config_5g_rssi_close_proximity = False,
     er_rssi_close_proximity_5g_val = [], er_config_rssi_window_size = False, er_rssi_window_size_val = [],
     er_config_oui = False, er_oui_val = [], er_config_intf_addr = False, er_intf_addr_val = [],
     er_config_cluster_attribute_val = [], er_config_scan_params = True,
     er_scan_params_val = \<lparr>dwell_time = [200, 200, 200], scan_period = [20, 20, 20]\<rparr>,
     er_config_random_factor_force = False, er_random_factor_force_val = [], er_config_hop_count_force = False,
     er_hop_count_force_val = [], er_config_24g_channel = False, er_channel_24g_val = [],
     er_config_5g_channel = False, er_channel_5g_val = [],
     er_config_dw = \<lparr>config_2dot4g_dw_band = True, dw_2dot4g_interval_val = [1, 0, 0, 0], config_5g_dw_band = False,
     dw_5g_interval_val = [1, 0, 0, 0]\<rparr>,
     er_config_disc_mac_addr_randomization = False, er_disc_mac_addr_rand_interval_sec = [],
     er_discovery_indication_cfg = 0, er_config_subscribe_sid_beacon = False, er_subscribe_sid_beacon_val = [],
     er_config_discovery_beacon_int = False, er_discovery_beacon_interval = [], er_config_nss = False,
     er_nss = [], er_config_enable_ranging = False, er_enable_ranging = [],
     er_config_dw_early_termination = False, er_enable_dw_termination = [], er_config_ndpe_attr = True,
     er_use_ndpe_attr = 1\<rparr>"

definition ex_config :: "NanConfigRequest" where
  "ex_config =
     \<lparr>cr_config_sid_beacon = True, cr_sid_beacon = [1], cr_config_rssi_proximity = 0, cr_rssi_proximity = [],
     cr_config_master_pref = False, cr_master_pref = [], cr_config_5g_rssi_close_proximity = False,
     cr_rssi_close_proximity_5g_val = [], cr_config_rssi_window_size = False, cr_rssi_window_size_val = [],
     cr_config_cluster_attribute_val = [], cr_config_scan_params = False,
     cr_scan_params_val = \<lparr>dwell_time = [], scan_period = []\<rparr>,
     cr_config_random_factor_force = False, cr_random_factor_force_val = [], cr_config_hop_count_force = False,
     cr_hop_count_force_val = [], cr_config_conn_capability = False,
     cr_conn_capability_val = \<lparr>payload_transmit_flag = False, is_mesh_supported = False, is_ibss_supported = False,
     wlan_infra_field = False, is_tdls_supported = False, is_wfds_supported = False, is_wfd_supported = False\<rparr>,
     cr_num_config_discovery_attr = 1,
     cr_discovery_attr_val = [\<lparr>tx_type = 0, tx_role = 1, tx_transmit_freq = True, tx_duration = 2,
     tx_avail_interval_bitmap = [1, 2, 3, 4], tx_addr = [1, 2, 3, 4, 5, 6], tx_mesh_id_len = 0,
     tx_mesh_id = [], tx_infrastructure_ssid_len = 0, tx_infrastructure_ssid_val = []\<rparr>],
     cr_config_fam = True,
     cr_fam_val = \<lparr>fam_numchans = 1,
     fam_famchan = [\<lparr>fc_entry_control = 1, fc_class_val = 81, fc_channel = 6, fc_mapid = 3, fc_avail_interval_bitmap = [255, 0, 0, 1]\<rparr>]\<rparr>,
     cr_config_dw = \<lparr>config_2dot4g_dw_band = False, dw_2dot4g_interval_val = [1, 0, 0, 0], config_5g_dw_band = False,
     dw_5g_interval_val = [1, 0, 0, 0]\<rparr>,
     cr_config_disc_mac_addr_randomization = False, cr_disc_mac_addr_rand_interval_sec = [],
     cr_discovery_indication_cfg = 0, cr_config_subscribe_sid_beacon = False, cr_subscribe_sid_beacon_val = [],
     cr_config_discovery_beacon_int = False, cr_discovery_beacon_interval = [], cr_config_nss = False,
     cr_nss = [], cr_config_enable_ranging = False, cr_enable_ranging = [],
     cr_config_dw_early_termination = False, cr_enable_dw_termination = [], cr_config_ndpe_attr = False,
     cr_use_ndpe_attr = 0\<rparr>"

definition ex_publish :: "NanPublishRequest" where
  "ex_publish =
     \<lparr>pr_publish_id = 7, pr_ttl = 0, pr_period = 0, pr_publish_type = 0, pr_tx_type = 0, pr_publish_count = 0,
     pr_service_name_len = 3, pr_service_name = [1, 2, 3], pr_publish_match_indicator = 0,
     pr_service_specific_info_len = 0, pr_service_specific_info = [], pr_rx_match_filter_len = 0,
     pr_rx_match_filter = [], pr_tx_match_filter_len = 0, pr_tx_match_filter = [], pr_rssi_threshold_flag = 0,
     pr_connmap = 0, pr_recv_indication_cfg = 0, pr_service_responder_policy = [0, 0, 0, 0],
     pr_cipher_type = 1,
     pr_key_info = \<lparr>ki_key_type = 0, ki_pmk_len = 0, ki_pmk = [], ki_passphrase_len = 0, ki_passphrase = []\<rparr>,
     pr_sdea_params = \<lparr>sd_config_nan_data_path = 0, sd_ndp_type = 0, sd_security_cfg = 0, sd_ranging_state = 0,
     sd_range_report = 0, sd_qos_cfg = 0\<rparr>,
     pr_ranging_cfg = \<lparr>rc_ranging_interval_msec = 0, rc_config_ranging_indications = 0, rc_distance_ingress_mm = 0,
     rc_distance_egress_mm = 0\<rparr>,
     pr_sdea_service_specific_info_len = 0, pr_sdea_service_specific_info = [],
     pr_range_response_cfg = \<lparr>rr_publish_id = 9, rr_requestor_instance_id = 0, rr_peer_addr = [1, 2, 3, 4, 5, 6],
     rr_ranging_response = 0\<rparr>\<rparr>"

definition ex_match :: "NanMatchInd" where
  "ex_match =
     \<lparr>mi_publish_subscribe_id = 0, mi_requestor_instance_id = 0, mi_match_occured_flag = 0,
     mi_out_of_resource_flag = 0, mi_service_specific_info_len = 0, mi_service_specific_info = [0, 0, 0, 0],
     mi_sdf_match_filter_len = 0, mi_sdf_match_filter = [0, 0, 0, 0], mi_addr = [], mi_rssi_value = [],
     mi_is_conn_capability_valid = 0,
     mi_conn_capability = \<lparr>rx_is_mesh_supported = 0, rx_is_ibss_supported = 0, rx_wlan_infra_field = 0, rx_is_tdls_supported = 0,
     rx_is_wfds_supported = 0, rx_is_wfd_supported = 0\<rparr>,
     mi_num_rx_discovery_attr = 0,
     mi_discovery_attr = replicate 2 \<lparr>rd_type = 0, rd_role = 0, rd_duration = 0, rd_mapid = 0, rd_avail_interval_bitmap = [0, 0, 0, 0],
     rd_addr = [], rd_mesh_id_len = 0, rd_mesh_id = [], rd_infrastructure_ssid_len = 0,
     rd_infrastructure_ssid_val = []\<rparr>,
     mi_num_chans = 0,
     mi_famchan = replicate 2 \<lparr>fc_entry_control = 0, fc_class_val = 0, fc_channel = 0, fc_mapid = 0, fc_avail_interval_bitmap = [0, 0, 0, 0]\<rparr>,
     mi_cluster_attribute_len = 0, mi_cluster_attribute = [], mi_peer_cipher_type = [], mi_scid_len = 0,
     mi_scid = [],
     mi_peer_sdea_params = \<lparr>sd_config_nan_data_path = 0, sd_ndp_type = 0, sd_security_cfg = 0, sd_ranging_state = 0,
     sd_range_report = 0, sd_qos_cfg = 0\<rparr>,
     mi_range_info = [], mi_sdea_service_specific_info_len = 0, mi_sdea_service_specific_info = [0, 0, 0, 0]\<rparr>"

definition ex_stats_hw :: nan_stats_hw where
  "ex_stats_hw =
     \<lparr>NAN_STATS_ID_DE_PUBLISH = 0, NAN_STATS_ID_DE_SUBSCRIBE = 1, NAN_STATS_ID_DE_DW = 4, NAN_STATS_ID_DE_MAC = 2,
      NAN_STATS_ID_DE_TIMING_SYNC = 3, NAN_STATS_ID_DE = 5, sizeof_NanPublishStats = 44, sizeof_NanSubscribeStats = 52,
      sizeof_NanDWStats = 60, sizeof_NanMacStats = 92, sizeof_NanSyncStats = 84, sizeof_NanDeStats = 36,
      sizeof_stats_data = 92\<rparr>"

definition ex_codes :: "nan_codes" where
  "ex_codes =
     \<lparr>NAN_STATUS_SUCCESS = 0, NAN_STATUS_INTERNAL_FAILURE = 1, NAN_STATUS_INVALID_PUBLISH_SUBSCRIBE_ID = 2,
     NAN_STATUS_NO_RESOURCE_AVAILABLE = 3, NAN_STATUS_INVALID_PARAM = 4, NAN_STATUS_PROTOCOL_FAILURE = 5,
     NAN_STATUS_INVALID_REQUESTOR_INSTANCE_ID = 6, NAN_STATUS_NAN_NOT_ALLOWED = 7, NAN_STATUS_NO_OTA_ACK = 8,
     NAN_STATUS_ALREADY_ENABLED = 9, NAN_STATUS_FOLLOWUP_QUEUE_FULL = 10,
     NAN_STATUS_UNSUPPORTED_CONCURRENCY_NAN_DISABLED = 11, NAN_STATUS_INVALID_NDP_ID = 12,
     NAN_ERROR_STR_LEN = 255\<rparr>"

definition ex_confirm :: "NanDataPathConfirmInd" where
  "ex_confirm =
     \<lparr>dc_ndp_instance_id = 0, dc_peer_ndi_mac_addr = replicate 6 0, dc_rsp_code = 0,
     dc_app_info = \<lparr>ndp_app_info_len = 0, ndp_app_info = []\<rparr>, dc_reason_code = 0,
     dc_num_channels = 0, dc_channel_info = []\<rparr>"

definition ex_initiator :: "NanDataPathInitiatorRequest" where
  "ex_initiator =
     \<lparr>di_requestor_instance_id = 0, di_channel_request_type = 0, di_channel = 0,
     di_peer_disc_mac_addr = replicate 6 0, di_ndp_iface = '''', di_security_cfg = 0, di_qos_cfg = 0,
     di_app_info = \<lparr>ndp_app_info_len = 0, ndp_app_info = []\<rparr>, di_cipher_type = 0,
     di_key_info = \<lparr>ki_key_type = 0, ki_pmk_len = 0, ki_pmk = [], ki_passphrase_len = 0, ki_passphrase = []\<rparr>,
     di_service_name_len = 0, di_service_name = []\<rparr>"

definition ex_responder :: "NanDataPathIndicationResponse" where
  "ex_responder =
     \<lparr>dn_ndp_instance_id = 0, dn_ndp_iface = '''', dn_security_cfg = 0, dn_qos_cfg = 0,
     dn_app_info = \<lparr>ndp_app_info_len = 0, ndp_app_info = []\<rparr>, dn_rsp_code = 0,
     dn_cipher_type = 0,
     dn_key_info = \<lparr>ki_key_type = 0, ki_pmk_len = 0, ki_pmk = [], ki_passphrase_len = 0, ki_passphrase = []\<rparr>,
     dn_service_name_len = 0, dn_service_name = []\<rparr>"

definition ex_attrs :: "(nat \<times> bytes) list \<Rightarrow> nl_attrs" where
  "ex_attrs = map_of"

text \<open>The attributes of a confirmation that says it has one channel, and does not list it.\<close>

definition ex_confirm_attrs :: "(nat \<times> bytes) list" where
  "ex_confirm_attrs = [(10, [7, 0, 0, 0]), (13, [1, 2, 3, 4, 5, 6]), (12, [0, 0, 0, 0]), (24, [1, 0, 0, 0])]"

definition ex_params :: "nat \<Rightarrow> bytes" where "ex_params n = replicate n 0"

section \<open>Requests\<close>

lemma ex_attr_log: "attr_log ex_libnl (\<lambda>m. m)"
  by (simp add: attr_log_def ex_libnl_def)

lemma ex_delivers: "nl_delivers ex_libnl"
  by (simp add: nl_delivers_def ex_libnl_def recv_loop.simps)

lemma ex_malloc: "nl_malloc ex_libnl n"
  by (simp add: ex_libnl_def)

lemma ex_enable_ok: "enable_ok ex_hw ex_enable" "enable_len ex_hw ex_enable < 65536"
  by (simp_all add: enable_ok_def rows_ok_def row_ok_def enable_rows1_def enable_rows2_def scan_ok_def ex_enable_def ex_hw_def
      nonzero_def dev_cap_bytes_def enable_len_def opt_len_def NAN_MAX_ENABLE_REQ_SIZE_def)

lemma putNanEnable_carries_witness:
  "\<exists>msg. putNanEnable ex_libnl ex_hw 5 (Some ex_enable) ex_nan_command = put_vendor_data ex_libnl msg ex_nan_command
    \<and> carries msg (request_header NAN_MSG_ID_ENABLE_REQ (enable_len ex_hw ex_enable) 0 5) [] (enable_tlvs ex_hw ex_enable)"
  by (rule putNanEnable_carries [OF ex_enable_ok(1) ex_malloc ex_enable_ok(2)]) simp

lemma ex_config_ok: "config_ok ex_hw ex_config" "config_len ex_hw ex_config (config_attrs ex_config) < 65536"
  by (simp_all add: config_ok_def rows_ok_def row_ok_def config_rows1_def config_rows2_def config_rows3_def ex_config_def
      ex_hw_def nonzero_def dev_cap_bytes_def config_len_def opt_len_def config_attrs_def post_discovery_ok_def has_fam_def
      post_discovery_rows_def calcNanTransmitPostDiscoverySize_def fam_ok_def calcNanFurtherAvailabilityMapSize_def)

lemma putNanConfig_carries_witness:
  "\<exists>msg. putNanConfig ex_libnl ex_hw 5 (Some ex_config) ex_nan_command = put_vendor_data ex_libnl msg ex_nan_command
    \<and> carries msg (request_header NAN_MSG_ID_CONFIGURATION_REQ (config_len ex_hw ex_config (config_attrs ex_config)) 0 5) []
        (config_tlvs ex_hw ex_config)"
  by (rule putNanConfig_carries [OF ex_config_ok(1) ex_malloc ex_config_ok(2)]) simp

lemma ex_publish_ok: "publish_ok ex_hw ex_publish" "publish_len ex_hw ex_publish < 65536" "pr_publish_id ex_publish < 65536"
  by (simp_all add: publish_ok_def rows_ok_def row_ok_def publish_rows_def key_rows_def uses_pmk_def uses_passphrase_def
      peer_ok_def publish_len_def key_len_def opt_len_def publish_has_range_def has_sdea_def has_ranging_def ex_publish_def
      ex_hw_def)

lemma nan_publish_request_delivers_witness:
  "\<exists>m msg. nan_publish_request ex_libnl ex_hw ex_iface 5 (Some ex_publish) = Inr (WIFI_SUCCESS, [m])
    \<and> m = request_attrs ex_libnl ex_iface msg
    \<and> carries msg (request_header NAN_MSG_ID_PUBLISH_SERVICE_REQ (publish_len ex_hw ex_publish)
                     (if pr_publish_id ex_publish = 0 then 65535 else pr_publish_id ex_publish) 5)
        (publish_params ex_publish) (publish_tlvs ex_hw ex_publish)"
  by (rule nan_publish_request_delivers [OF ex_attr_log ex_delivers _ ex_publish_ok(1) ex_malloc ex_publish_ok(2) _ ex_publish_ok(3)])
    (simp_all add: ex_iface_def)

lemma range_report_precedence_witness:
  "subscribe_range_report ex_hw (pr_sdea_params ex_publish\<lparr>sd_range_report := 2\<rparr>) = 0"
  using range_report_precedence [of ex_hw "pr_sdea_params ex_publish"] by (simp add: ex_hw_def)

lemma full_message_reported_as_success_witness:
  "nan_data_interface_create ex_full_libnl ex_iface 5 (Some ''aware_data0'') = Inr (WIFI_SUCCESS, [])
   \<and> nan_data_request_initiator ex_full_libnl ex_hw \<lparr>NAN_CIPHER_SUITE_SHARED_KEY_NONE = 0,
        NAN_DP_CHANNEL_NOT_REQUESTED = 0, NAN_DP_CONFIG_QOS = 1\<rparr> ex_iface 5 (Some ex_initiator) = Inr (WIFI_SUCCESS, [])"
proof -
  obtain c where c: "nan_initialize_vendor_cmd ex_full_libnl ex_iface = Inr (WIFI_SUCCESS, c)"
    by (simp add: nan_initialize_vendor_cmd_def nan_create_def rq_create_def rq_put_u32_def rq_put_def vc_set_iface_id_def
        rq_set_iface_id_def vc_put_def new_vendor_command_def new_request_def rq_destroy_def ex_full_libnl_def ex_libnl_def
        ex_iface_def Let_def)
  have "fst (nl_put ex_full_libnl MTK_WLAN_VENDOR_ATTR_NDP_SUBCMD bs m) < 0" for bs m
    by (simp add: ex_full_libnl_def)
  from full_message_reported_as_success [OF c this, of ex_initiator "\<lparr>NAN_CIPHER_SUITE_SHARED_KEY_NONE = 0,
      NAN_DP_CHANNEL_NOT_REQUESTED = 0, NAN_DP_CONFIG_QOS = 1\<rparr>" ex_responder 5 "''aware_data0''" ex_hw
      "\<lparr>de_num_ndp_instances = 0, de_ndp_instance_id = []\<rparr>"]
  show ?thesis by (simp add: ex_initiator_def ex_responder_def)
qed

section \<open>Indications\<close>

definition ex_header :: NanMsgHeader where
  "ex_header = request_header 22 48 7 5"

definition ex_fam :: bytes where
  "ex_fam = fam_value (cr_fam_val ex_config)"

definition ex_tlvs :: "(u16 \<times> bytes) list" where
  "ex_tlvs = [(NAN_TLV_TYPE_SERVICE_SPECIFIC_INFO, [1, 2, 3]), (NAN_TLV_TYPE_FURTHER_AVAILABILITY_MAP, ex_fam)]"

lemma ex_header_fits: "header_fits ex_header"
  by (simp add: header_fits_def ex_header_def request_header_def)

lemma ex_tlvs_fit: "tlvs_fit ex_tlvs"
  by (simp add: tlvs_fit_def ex_tlvs_def ex_fam_def fam_value_def fam_chan_bytes_def ex_config_def)

lemma getNanMatch_total_witness:
  "\<exists>e'. getNanMatch ex_hw (Some (header_bytes ex_header @ ex_params 8 @ tlvs_bytes ex_tlvs))
                 (length (header_bytes ex_header @ ex_params 8 @ tlvs_bytes ex_tlvs)) ex_match = Inr (WIFI_SUCCESS, e')
    \<and> each_tlv (match_tlv ex_hw) ex_tlvs (match_start ex_header (ex_params 8) ex_match) = Inr e'
    \<and> match_arrays ex_hw e' \<and> match_lengths ex_hw e'
    \<and> (mi_num_chans e' = mi_num_chans ex_match \<or> (\<exists>v. (NAN_TLV_TYPE_FURTHER_AVAILABILITY_MAP, v) \<in> set ex_tlvs
          \<and> v \<noteq> [] \<and> mi_num_chans e' = unat (hd v)))"
  by (rule getNanMatch_total [OF ex_header_fits _ ex_tlvs_fit])
    (simp_all add: ex_params_def ex_tlvs_def match_arrays_def match_lengths_def fam_array_def ex_match_def ex_hw_def)

lemma num_chans_not_bounded_witness:
  "getNanMatch ex_hw (Some (header_bytes ex_header @ ex_params 8 @ tlv_bytes NAN_TLV_TYPE_FURTHER_AVAILABILITY_MAP [200]))
           (length (header_bytes ex_header @ ex_params 8 @ tlv_bytes NAN_TLV_TYPE_FURTHER_AVAILABILITY_MAP [200])) ex_match
    = Inr (WIFI_SUCCESS, (match_start ex_header (ex_params 8) ex_match)\<lparr>mi_num_chans := 200\<rparr>)"
proof -
  have "NAN_MAX_FAM_CHANNELS ex_hw < unat (200 :: u8)" by (simp add: ex_hw_def)
  from num_chans_not_bounded [OF ex_header_fits _ _ this, of "ex_params 8" "[]" ex_match]
  show ?thesis by (simp add: ex_params_def)
qed

lemma getNanPublishReplied_overruns_witness:
  "getNanPublishReplied (Some (header_bytes ex_header @ ex_params 4 @ tlvs_bytes ex_tlvs))
           (length (header_bytes ex_header @ ex_params 4 @ tlvs_bytes ex_tlvs))
     \<lparr>pri_requestor_instance_id = 0, pri_addr = replicate 6 0, pri_rssi_value = [0]\<rparr> = Inl UB"
  by (rule getNanPublishReplied_overruns [OF ex_tlvs_fit]) (simp add: ex_params_def)

lemma fam_roundtrip_witness:
  "\<exists>msg. fillNanFurtherAvailabilityMapVal ex_hw (cr_fam_val ex_config) 2
        ([1, 2] @ replicate (calcNanFurtherAvailabilityMapSize ex_hw (cr_fam_val ex_config) + 3) 0) = Inr ([1, 2] @ msg)
    \<and> getNanFurtherAvailabilityMap ex_hw (Some msg) (calcNanFurtherAvailabilityMapSize ex_hw (cr_fam_val ex_config))
        (0, mi_famchan ex_match)
      = Inr (0, 1, map fam_carried (take 1 (fam_famchan (cr_fam_val ex_config))) @ drop 1 (mi_famchan ex_match))"
proof -
  have ok: "fam_ok ex_hw (cr_fam_val ex_config)" and n: "fam_numchans (cr_fam_val ex_config) = 1"
    by (simp_all add: fam_ok_def ex_hw_def ex_config_def)
  have "fam_numchans (cr_fam_val ex_config) \<le> length (mi_famchan ex_match)"
    "\<forall>ch \<in> set (mi_famchan ex_match). length (fc_avail_interval_bitmap ch) = 4"
    by (simp_all add: n ex_match_def)
  from fam_roundtrip [OF ok this, of "[1, 2]" 3 0] show ?thesis by (simp add: n flip: numeral_2_eq_2)
qed

lemma confirm_dereferences_null_witness:
  "getNdpConfirm ex_codes (\<lambda>_. []) 4 (ex_attrs ex_confirm_attrs) ex_confirm = Inl UB
   \<and> getNdpConfirm ex_codes (\<lambda>_. []) 4 (ex_attrs ((15, [0, 0, 0, 0]) # ex_confirm_attrs)) ex_confirm = Inl UB"
  using confirm_dereferences_null [of "ex_attrs ex_confirm_attrs" ex_confirm ex_codes "\<lambda>_. []" 4]
    confirm_dereferences_null [of "ex_attrs ((15, [0, 0, 0, 0]) # ex_confirm_attrs)" ex_confirm ex_codes "\<lambda>_. []" 4]
  by (simp add: confirm_attrs_def ex_attrs_def ex_confirm_attrs_def)

section \<open>Responses\<close>

lemma handleNanStatsResponse_copies_witness:
  "handleNanStatsResponse ex_stats_hw 0 (Some (struct_bytes FwNanPublishStats (\<lambda>_. 7) @ [])) 44
    = Inr (Some (map (\<lambda>(d, f). (d, 7)) publish_copies))"
  using handleNanStatsResponse_copies [of ex_stats_hw 0 44 FwNanPublishStats publish_copies "\<lambda>_. 7" "[]"]
  by (simp add: stats_table_def ex_stats_hw_def struct_fits_def FwNanPublishStats_def)

lemma invalid_tlv_names_24G_witness:
  "translate_response ex_codes NAN_I_STATUS_INVALID_TLV_TYPE (unat NAN_TLV_TYPE_RX_MATCH_FILTER)
       \<lparr>vd_status = 0, vd_nan_error = []\<rparr>
    = Inr \<lparr>vd_status = NAN_STATUS_INVALID_PARAM ex_codes, vd_nan_error = ''Invalid TLV type 2.4G support''\<rparr>"
  by (rule invalid_tlv_names_24G) (simp_all add: tlvToStr_def ex_codes_def)

end
