(* ===== verification/WifiTables.thy ===== *)
theory WifiTables
  imports NlCommand
begin

text \<open>
  The tables of the Wi-Fi HAL (\<open>wlan/wifi_hal/common.h\<close> and \<open>common.cpp\<close>): the handlers of events and the
  outstanding commands, kept in two arrays of fixed size, and the dispatch of an event by
  \<open>internal_valid_message_handler\<close> of wifi_hal.cpp.

  A command object is known by its address, of the type \<open>'c\<close>, a callback by a value of the type \<open>'f\<close>. The
  arrays come from \<open>malloc\<close>: what their entries hold before the first use is arbitrary, and an entry that
  has been left behind keeps its contents.
\<close>

section \<open>Names of interfaces\<close>

definition MAX_IFACENAME_LEN :: nat where "MAX_IFACENAME_LEN = 8"

text \<open>\<open>strncpy(name, s, sizeof(name)); name[sizeof(name) - 1] = '\<Zero>'\<close> for an array of \<open>MAX_IFACENAME_LEN + 1\<close>\<close>

definition name_buffer :: "string \<Rightarrow> string" where
  "name_buffer s =
     (take (MAX_IFACENAME_LEN + 1) (cstr s @ replicate (MAX_IFACENAME_LEN + 1) (CHR 0x00)))
       [MAX_IFACENAME_LEN := CHR 0x00]"

section \<open>Arrays with a count\<close>

text \<open>\<open>a[i]\<close> and \<open>a[i] = x\<close>\<close>

definition arr_at :: "'x list \<Rightarrow> nat \<Rightarrow> 'x result" where
  "arr_at a i = (if i < length a then Inr (a ! i) else Inl UB)"

definition arr_set :: "'x list \<Rightarrow> nat \<Rightarrow> 'x \<Rightarrow> 'x list result" where
  "arr_set a i x = (if i < length a then Inr (a[i := x]) else Inl UB)"

text \<open>\<open>memmove(&a[i], &a[i + 1], (n - i - 1) * sizeof(a[0]))\<close>\<close>

definition arr_close :: "'x list \<Rightarrow> nat \<Rightarrow> nat \<Rightarrow> 'x list result" where
  "arr_close a i n =
     (if i < n \<and> n \<le> length a
      then Inr (take i a @ take (n - i - 1) (drop (i + 1) a) @ drop (n - 1) a) else Inl UB)"

text \<open>The loops \<open>for (int i = 0; i < n; i++)\<close> that look for the first entry with a property.\<close>

function arr_search :: "('x \<Rightarrow> bool) \<Rightarrow> 'x list \<Rightarrow> nat \<Rightarrow> nat \<Rightarrow> nat option result" where
  "arr_search P a n i =
     (if i < n
      then bindE (arr_at a i) (\<lambda>x. if P x then Inr (Some i) else arr_search P a n (i + 1))
      else Inr None)"
  by pat_completeness auto
termination by (relation "measure (\<lambda>(P, a, n, i). n - i)") auto

declare arr_search.simps [simp del]

section \<open>The state\<close>

record ('f, 'c) cb_info =
  cb_nl_cmd :: int
  cb_vendor_id :: u32
  cb_vendor_subcmd :: int
  cb_func :: "'f option"
  cb_arg :: "'c option"
  cb_ifname :: string

record 'c cmd_info =
  ci_id :: int
  ci_cmd :: "'c option"

record ('f, 'c) hal_tables =
  event_cb :: "('f, 'c) cb_info list"
  num_event_cb :: nat
  alloc_event_cb :: nat
  hal_cmd :: "'c cmd_info list"
  num_cmd :: nat
  alloc_cmd :: nat

definition DEFAULT_EVENT_CB_SIZE :: nat where "DEFAULT_EVENT_CB_SIZE = 64"
definition DEFAULT_CMD_SIZE :: nat where "DEFAULT_CMD_SIZE = 64"

text \<open>
  The part of \<open>wifi_initialize\<close> that makes the tables; \<open>cbs\<close> and \<open>cmds\<close> are what \<open>malloc\<close> returned, \<open>None\<close>
  for \<open>NULL\<close>, at which the function frees what it has and returns an error.
\<close>

definition init_tables ::
  "('f, 'c) cb_info list option \<Rightarrow> 'c cmd_info list option \<Rightarrow> (WifiError + ('f, 'c) hal_tables)" where
  "init_tables cbs cmds =
     (case cbs of
        None \<Rightarrow> Inl WIFI_ERROR_OUT_OF_MEMORY
      | Some cbs \<Rightarrow>
          (case cmds of
             None \<Rightarrow> Inl WIFI_ERROR_OUT_OF_MEMORY
           | Some cmds \<Rightarrow>
               Inr \<lparr>event_cb = cbs, num_event_cb = 0, alloc_event_cb = DEFAULT_EVENT_CB_SIZE,
                    hal_cmd = cmds, num_cmd = 0, alloc_cmd = DEFAULT_CMD_SIZE\<rparr>))"

section \<open>Handlers\<close>

text \<open>The name of the interface is not written.\<close>

definition wifi_register_handler ::
  "int \<Rightarrow> 'f option \<Rightarrow> 'c option \<Rightarrow> ('f, 'c) hal_tables \<Rightarrow> (WifiError \<times> ('f, 'c) hal_tables) result" where
  "wifi_register_handler cmd func arg info =
     (if num_event_cb info < alloc_event_cb info then
        bindE (arr_at (event_cb info) (num_event_cb info)) (\<lambda>cbi.
        bindE (arr_set (event_cb info) (num_event_cb info)
                 (cbi\<lparr>cb_nl_cmd := cmd, cb_vendor_id := 0, cb_vendor_subcmd := 0,
                      cb_func := func, cb_arg := arg\<rparr>)) (\<lambda>a.
        Inr (WIFI_SUCCESS, info\<lparr>event_cb := a, num_event_cb := num_event_cb info + 1\<rparr>)))
      else Inr (WIFI_ERROR_OUT_OF_MEMORY, info))"

text \<open>The test of \<open>wifi_register_vendor_handler\<close>, which does not look at \<open>nl_cmd\<close>.\<close>

definition same_vendor_event :: "u32 \<Rightarrow> int \<Rightarrow> string option \<Rightarrow> ('f, 'c) cb_info \<Rightarrow> bool" where
  "same_vendor_event vid subcmd ifname cbi \<longleftrightarrow>
     cb_vendor_id cbi = vid \<and> cb_vendor_subcmd cbi = subcmd \<and>
     (case ifname of None \<Rightarrow> True | Some s \<Rightarrow> strn_eq MAX_IFACENAME_LEN (cb_ifname cbi) s)"

definition wifi_register_vendor_handler ::
  "'m libnl \<Rightarrow> u32 \<Rightarrow> int \<Rightarrow> 'f option \<Rightarrow> 'c option \<Rightarrow> string option \<Rightarrow> ('f, 'c) hal_tables
     \<Rightarrow> (WifiError \<times> ('f, 'c) hal_tables) result" where
  "wifi_register_vendor_handler nl vid subcmd func arg ifname info =
     bindE (arr_search (same_vendor_event vid subcmd ifname) (event_cb info) (num_event_cb info) 0) (\<lambda>found.
     case found of
       Some i \<Rightarrow>
         bindE (arr_at (event_cb info) i) (\<lambda>cbi.
         bindE (arr_set (event_cb info) i (cbi\<lparr>cb_func := func, cb_arg := arg\<rparr>)) (\<lambda>a.
         Inr (WIFI_SUCCESS, info\<lparr>event_cb := a\<rparr>)))
     | None \<Rightarrow>
         if num_event_cb info < alloc_event_cb info then
           bindE (arr_at (event_cb info) (num_event_cb info)) (\<lambda>cbi.
           bindE (arr_set (event_cb info) (num_event_cb info)
                    \<lparr>cb_nl_cmd = int (NL80211_CMD_VENDOR nl), cb_vendor_id = vid, cb_vendor_subcmd = subcmd,
                     cb_func = func, cb_arg = arg,
                     cb_ifname = (case ifname of None \<Rightarrow> (cb_ifname cbi)[0 := CHR 0x00]
                                               | Some s \<Rightarrow> name_buffer s)\<rparr>) (\<lambda>a.
           Inr (WIFI_SUCCESS, info\<lparr>event_cb := a, num_event_cb := num_event_cb info + 1\<rparr>)))
         else Inr (WIFI_ERROR_OUT_OF_MEMORY, info))"

definition wifi_unregister_handler ::
  "'m libnl \<Rightarrow> int \<Rightarrow> ('f, 'c) hal_tables \<Rightarrow> ('f, 'c) hal_tables result" where
  "wifi_unregister_handler nl cmd info =
     (if cmd = int (NL80211_CMD_VENDOR nl) then Inr info
      else bindE (arr_search (\<lambda>cbi. cb_nl_cmd cbi = cmd) (event_cb info) (num_event_cb info) 0) (\<lambda>found.
      case found of
        None \<Rightarrow> Inr info
      | Some i \<Rightarrow>
          bindE (arr_close (event_cb info) i (num_event_cb info)) (\<lambda>a.
          Inr (info\<lparr>event_cb := a, num_event_cb := num_event_cb info - 1\<rparr>))))"

definition wifi_unregister_vendor_handler ::
  "'m libnl \<Rightarrow> u32 \<Rightarrow> int \<Rightarrow> string option \<Rightarrow> ('f, 'c) hal_tables \<Rightarrow> ('f, 'c) hal_tables result" where
  "wifi_unregister_vendor_handler nl vid subcmd ifname info =
     bindE (arr_search (\<lambda>cbi. cb_nl_cmd cbi = int (NL80211_CMD_VENDOR nl) \<and>
                              same_vendor_event vid subcmd ifname cbi)
              (event_cb info) (num_event_cb info) 0) (\<lambda>found.
     case found of
       None \<Rightarrow> Inr info
     | Some i \<Rightarrow>
         bindE (arr_close (event_cb info) i (num_event_cb info)) (\<lambda>a.
         Inr (info\<lparr>event_cb := a, num_event_cb := num_event_cb info - 1\<rparr>)))"

section \<open>Commands\<close>

definition wifi_register_cmd ::
  "int \<Rightarrow> 'c option \<Rightarrow> ('f, 'c) hal_tables \<Rightarrow> (WifiError \<times> ('f, 'c) hal_tables) result" where
  "wifi_register_cmd i cmd info =
     (if num_cmd info < alloc_cmd info then
        bindE (arr_set (hal_cmd info) (num_cmd info) \<lparr>ci_id = i, ci_cmd = cmd\<rparr>) (\<lambda>a.
        Inr (WIFI_SUCCESS, info\<lparr>hal_cmd := a, num_cmd := num_cmd info + 1\<rparr>))
      else Inr (WIFI_ERROR_OUT_OF_MEMORY, info))"

text \<open>The two functions \<open>wifi_unregister_cmd\<close>: by number, with the command removed, and by address.\<close>

definition wifi_unregister_cmd ::
  "int \<Rightarrow> ('f, 'c) hal_tables \<Rightarrow> ('c option \<times> ('f, 'c) hal_tables) result" where
  "wifi_unregister_cmd i info =
     bindE (arr_search (\<lambda>ci. ci_id ci = i) (hal_cmd info) (num_cmd info) 0) (\<lambda>found.
     case found of
       None \<Rightarrow> Inr (None, info)
     | Some k \<Rightarrow>
         bindE (arr_at (hal_cmd info) k) (\<lambda>ci.
         bindE (arr_close (hal_cmd info) k (num_cmd info)) (\<lambda>a.
         Inr (ci_cmd ci, info\<lparr>hal_cmd := a, num_cmd := num_cmd info - 1\<rparr>))))"

definition wifi_unregister_cmd_ptr ::
  "'c option \<Rightarrow> ('f, 'c) hal_tables \<Rightarrow> ('f, 'c) hal_tables result" where
  "wifi_unregister_cmd_ptr cmd info =
     bindE (arr_search (\<lambda>ci. ci_cmd ci = cmd) (hal_cmd info) (num_cmd info) 0) (\<lambda>found.
     case found of
       None \<Rightarrow> Inr info
     | Some k \<Rightarrow>
         bindE (arr_close (hal_cmd info) k (num_cmd info)) (\<lambda>a.
         Inr (info\<lparr>hal_cmd := a, num_cmd := num_cmd info - 1\<rparr>)))"

definition wifi_get_cmd :: "int \<Rightarrow> ('f, 'c) hal_tables \<Rightarrow> 'c option result" where
  "wifi_get_cmd i info =
     bindE (arr_search (\<lambda>ci. ci_id ci = i) (hal_cmd info) (num_cmd info) 0) (\<lambda>found.
     case found of
       None \<Rightarrow> Inr None
     | Some k \<Rightarrow> bindE (arr_at (hal_cmd info) k) (\<lambda>ci. Inr (ci_cmd ci)))"

section \<open>Dispatch of an event\<close>

text \<open>\<open>WifiEvent::get_u32\<close>: 0 for an attribute that is missing.\<close>

definition ev_u32 :: "nl_attrs \<Rightarrow> nat \<Rightarrow> nat result" where
  "ev_u32 tb a = (case tb a of None \<Rightarrow> Inr 0 | Some b \<Rightarrow> rd_num 4 b 0)"

text \<open>What is done to command objects and handlers, in the order in which it happens.\<close>

datatype ('f, 'c) cb_action = AddRef 'c | ReleaseRef 'c | Invoke 'f "'c option"

definition call_handler :: "('f, 'c) cb_info \<Rightarrow> ('f, 'c) cb_action list" where
  "call_handler cbi =
     (case cb_arg cbi of None \<Rightarrow> [] | Some c \<Rightarrow> [AddRef c]) @
     (case cb_func cbi of None \<Rightarrow> [] | Some f \<Rightarrow> [Invoke f (cb_arg cbi)]) @
     (case cb_arg cbi of None \<Rightarrow> [] | Some c \<Rightarrow> [ReleaseRef c])"

text \<open>The test of the loop, for the command and, in a vendor event, the vendor and the subcommand.\<close>

definition handles_event :: "'m libnl \<Rightarrow> int \<Rightarrow> u32 \<Rightarrow> int \<Rightarrow> ('f, 'c) cb_info \<Rightarrow> bool" where
  "handles_event nl cmd vid subcmd cbi \<longleftrightarrow>
     cmd = cb_nl_cmd cbi \<and>
     \<not> (cmd = int (NL80211_CMD_VENDOR nl) \<and> (vid \<noteq> cb_vendor_id cbi \<or> subcmd \<noteq> cb_vendor_subcmd cbi))"

text \<open>The vendor and the subcommand of an event, 0 when it is not a vendor event.\<close>

definition event_key :: "'m libnl \<Rightarrow> nat \<Rightarrow> nl_attrs \<Rightarrow> (u32 \<times> int) result" where
  "event_key nl cmd tb =
     (if cmd = NL80211_CMD_VENDOR nl
      then bindE (ev_u32 tb (NL80211_ATTR_VENDOR_ID nl)) (\<lambda>v.
           bindE (ev_u32 tb (NL80211_ATTR_VENDOR_SUBCMD nl)) (\<lambda>s.
           Inr (word_of_nat v, sint (word_of_nat s :: u32))))
      else Inr (0, 0))"

text \<open>
  \<open>internal_valid_message_handler\<close>; \<open>parsed\<close> is the generic netlink command and the attributes that
  \<open>WifiEvent::parse\<close> finds, \<open>None\<close> when it fails. The handlers are called after the lock is released.
\<close>

definition internal_valid_message_handler ::
  "'m libnl \<Rightarrow> (nat \<times> nl_attrs) option \<Rightarrow> ('f, 'c) hal_tables \<Rightarrow> ('f, 'c) cb_action list result" where
  "internal_valid_message_handler nl parsed info =
     (case parsed of
        None \<Rightarrow> Inr []
      | Some (cmd, tb) \<Rightarrow>
          bindE (event_key nl cmd tb) (\<lambda>(vid, subcmd).
          bindE (arr_search (handles_event nl (int cmd) vid subcmd) (event_cb info) (num_event_cb info) 0) (\<lambda>found.
          case found of
            None \<Rightarrow> Inr []
          | Some i \<Rightarrow> bindE (arr_at (event_cb info) i) (\<lambda>cbi. Inr (call_handler cbi)))))"

end
