(* ===== verification/WifiRegistry.thy ===== *)
theory WifiRegistry
  imports WifiTables Prelude
begin

text \<open>
  The tables as lists: what the array operations do to the entries in use, the abstract registry that
  the operations of common.cpp implement, and the simulation between both.
\<close>

section \<open>Arrays with a count\<close>

fun first_index :: "('x \<Rightarrow> bool) \<Rightarrow> 'x list \<Rightarrow> nat option" where
  "first_index P [] = None"
| "first_index P (x # xs) = (if P x then Some 0 else map_option Suc (first_index P xs))"

lemma first_index_Some: "first_index P xs = Some i \<Longrightarrow> i < length xs \<and> P (xs ! i)"
  by (induction xs arbitrary: i) (auto split: if_splits)

lemma first_index_None: "first_index P xs = None \<longleftrightarrow> (\<forall>x \<in> set xs. \<not> P x)"
  by (induction xs) auto

lemma first_index_find: "List.find P xs = map_option (nth xs) (first_index P xs)"
  by (induction xs) (auto simp: option.map_comp comp_def intro: option.map_cong)

lemma first_index_map: "first_index P (map f xs) = first_index (\<lambda>x. P (f x)) xs"
  by (induction xs) simp_all

lemma first_index_cong: "(\<And>x. x \<in> set xs \<Longrightarrow> P x = Q x) \<Longrightarrow> first_index P xs = first_index Q xs"
  by (induction xs) auto

text \<open>The list without its first element with a property.\<close>

fun remove_first :: "('x \<Rightarrow> bool) \<Rightarrow> 'x list \<Rightarrow> 'x list" where
  "remove_first P [] = []"
| "remove_first P (x # xs) = (if P x then xs else x # remove_first P xs)"

lemma remove_first_index:
  "remove_first P xs = (case first_index P xs of None \<Rightarrow> xs | Some i \<Rightarrow> take i xs @ drop (i + 1) xs)"
  by (induction xs) (auto split: option.splits)

lemma remove_first_map: "remove_first P (map f xs) = map f (remove_first (\<lambda>x. P (f x)) xs)"
  by (induction xs) auto

lemma remove_first_cong: "(\<And>x. x \<in> set xs \<Longrightarrow> P x = Q x) \<Longrightarrow> remove_first P xs = remove_first Q xs"
  by (induction xs) auto

lemma set_remove_first: "set (remove_first P xs) \<subseteq> set xs"
  by (induction xs) auto

lemma length_remove_first: "length (remove_first P xs) \<le> length xs"
  by (induction xs) auto

lemma arr_search_ok:
  assumes "n \<le> length a"
  shows "arr_search P a n i = Inr (map_option ((+) i) (first_index P (drop i (take n a))))"
proof (induction "n - i" arbitrary: i)
  case 0
  then show ?case by (subst arr_search.simps) simp
next
  case (Suc k)
  then have i: "i < n" and k: "k = n - (i + 1)" by simp_all
  have d: "drop i (take n a) = a ! i # drop (i + 1) (take n a)"
    using i assms by (simp add: Cons_nth_drop_Suc [symmetric])
  have "arr_search P a n (i + 1)
      = Inr (map_option ((+) (i + 1)) (first_index P (drop (i + 1) (take n a))))"
    by (rule Suc.hyps(1) [OF k])
  then show ?case
    using i assms
    by (subst arr_search.simps) (auto simp: arr_at_def d option.map_comp comp_def intro: option.map_cong)
qed

lemma arr_search_0: "n \<le> length a \<Longrightarrow> arr_search P a n 0 = Inr (first_index P (take n a))"
  by (cases "first_index P (take n a)") (simp_all add: arr_search_ok)

lemma take_append_entry: "n < length a \<Longrightarrow> take (n + 1) (a[n := x]) = take n a @ [x]"
  by (simp add: take_Suc_conv_app_nth)

lemma arr_close_ok:
  assumes "first_index P (take n a) = Some i" "n \<le> length a"
  shows "\<exists>b. arr_close a i n = Inr b \<and> length b = length a \<and> take (n - 1) b = remove_first P (take n a)"
proof -
  have i: "i < n" using first_index_Some [OF assms(1)] by simp
  define b where "b = take i a @ take (n - i - 1) (drop (i + 1) a) @ drop (n - 1) a"
  have "arr_close a i n = Inr b" using i assms(2) by (simp add: arr_close_def b_def)
  moreover have "length b = length a" using i assms(2) by (simp add: b_def)
  moreover have "take (n - 1) b = take i a @ take (n - i - 1) (drop (i + 1) a)"
    using i assms(2) by (simp add: b_def)
  moreover have "remove_first P (take n a) = take i a @ take (n - i - 1) (drop (i + 1) a)"
    using i by (simp add: remove_first_index assms(1) drop_take min_def)
  ultimately show ?thesis by simp
qed

section \<open>The registry\<close>

text \<open>
  The registry as its users see it: the handlers and the commands in the order of registration, of a
  name what \<open>strncmp\<close> sees of it. An ordinary handler, whose vendor is 0, has no name.
\<close>

type_synonym ('f, 'c) registry = "('f, 'c) cb_info list \<times> 'c cmd_info list"

definition short_name :: "string \<Rightarrow> string" where
  "short_name s = take MAX_IFACENAME_LEN (cstr s)"

definition handler_view :: "('f, 'c) cb_info \<Rightarrow> ('f, 'c) cb_info" where
  "handler_view cbi = cbi\<lparr>cb_ifname := (if cb_vendor_id cbi = 0 then [] else short_name (cb_ifname cbi))\<rparr>"

definition registry :: "('f, 'c) hal_tables \<Rightarrow> ('f, 'c) registry" where
  "registry info =
     (map handler_view (take (num_event_cb info) (event_cb info)), take (num_cmd info) (hal_cmd info))"

text \<open>The tables are within their arrays.\<close>

definition tables_ok :: "('f, 'c) hal_tables \<Rightarrow> bool" where
  "tables_ok info \<longleftrightarrow>
     num_event_cb info \<le> DEFAULT_EVENT_CB_SIZE \<and> alloc_event_cb info = DEFAULT_EVENT_CB_SIZE \<and>
     length (event_cb info) = DEFAULT_EVENT_CB_SIZE \<and>
     num_cmd info \<le> DEFAULT_CMD_SIZE \<and> alloc_cmd info = DEFAULT_CMD_SIZE \<and>
     length (hal_cmd info) = DEFAULT_CMD_SIZE"

datatype ('f, 'c) table_op =
    RegisterHandler int "'f option" "'c option"
  | RegisterVendor u32 int "'f option" "'c option" "string option"
  | UnregisterHandler int
  | UnregisterVendor u32 int "string option"
  | RegisterCmd int "'c option"
  | UnregisterCmd int
  | UnregisterCmdPtr "'c option"

text \<open>Vendors have a number other than 0.\<close>

fun op_ok :: "('f, 'c) table_op \<Rightarrow> bool" where
  "op_ok (RegisterVendor vid _ _ _ _) \<longleftrightarrow> vid \<noteq> 0"
| "op_ok (UnregisterVendor vid _ _) \<longleftrightarrow> vid \<noteq> 0"
| "op_ok _ \<longleftrightarrow> True"

fun table_step :: "'m libnl \<Rightarrow> ('f, 'c) table_op \<Rightarrow> ('f, 'c) hal_tables \<Rightarrow> ('f, 'c) hal_tables result" where
  "table_step nl (RegisterHandler cmd f c) info = bindE (wifi_register_handler cmd f c info) (\<lambda>r. Inr (snd r))"
| "table_step nl (RegisterVendor v s f c n) info =
     bindE (wifi_register_vendor_handler nl v s f c n info) (\<lambda>r. Inr (snd r))"
| "table_step nl (UnregisterHandler cmd) info = wifi_unregister_handler nl cmd info"
| "table_step nl (UnregisterVendor v s n) info = wifi_unregister_vendor_handler nl v s n info"
| "table_step nl (RegisterCmd i c) info = bindE (wifi_register_cmd i c info) (\<lambda>r. Inr (snd r))"
| "table_step nl (UnregisterCmd i) info = bindE (wifi_unregister_cmd i info) (\<lambda>r. Inr (snd r))"
| "table_step nl (UnregisterCmdPtr c) info = wifi_unregister_cmd_ptr c info"

text \<open>The registry's operations.\<close>

definition names_event :: "u32 \<Rightarrow> int \<Rightarrow> string option \<Rightarrow> ('f, 'c) cb_info \<Rightarrow> bool" where
  "names_event vid subcmd ifname h \<longleftrightarrow>
     cb_vendor_id h = vid \<and> cb_vendor_subcmd h = subcmd \<and>
     (case ifname of None \<Rightarrow> True | Some s \<Rightarrow> cb_ifname h = short_name s)"

definition add_within :: "nat \<Rightarrow> 'x \<Rightarrow> 'x list \<Rightarrow> 'x list" where
  "add_within cap x xs = (if length xs < cap then xs @ [x] else xs)"

definition vendor_handler ::
  "'m libnl \<Rightarrow> u32 \<Rightarrow> int \<Rightarrow> 'f option \<Rightarrow> 'c option \<Rightarrow> string option \<Rightarrow> ('f, 'c) cb_info" where
  "vendor_handler nl v s f c ifname =
     \<lparr>cb_nl_cmd = int (NL80211_CMD_VENDOR nl), cb_vendor_id = v, cb_vendor_subcmd = s, cb_func = f,
      cb_arg = c, cb_ifname = (case ifname of None \<Rightarrow> [] | Some n \<Rightarrow> short_name n)\<rparr>"

fun registry_step :: "'m libnl \<Rightarrow> ('f, 'c) table_op \<Rightarrow> ('f, 'c) registry \<Rightarrow> ('f, 'c) registry" where
  "registry_step nl (RegisterHandler cmd f c) (hs, cs) =
     (add_within DEFAULT_EVENT_CB_SIZE
        \<lparr>cb_nl_cmd = cmd, cb_vendor_id = 0, cb_vendor_subcmd = 0, cb_func = f, cb_arg = c, cb_ifname = []\<rparr> hs, cs)"
| "registry_step nl (RegisterVendor v s f c n) (hs, cs) =
     ((case first_index (names_event v s n) hs of
         Some i \<Rightarrow> hs[i := (hs ! i)\<lparr>cb_func := f, cb_arg := c\<rparr>]
       | None \<Rightarrow> add_within DEFAULT_EVENT_CB_SIZE (vendor_handler nl v s f c n) hs), cs)"
| "registry_step nl (UnregisterHandler cmd) (hs, cs) =
     (if cmd = int (NL80211_CMD_VENDOR nl) then hs else remove_first (\<lambda>h. cb_nl_cmd h = cmd) hs, cs)"
| "registry_step nl (UnregisterVendor v s n) (hs, cs) =
     (remove_first (\<lambda>h. cb_nl_cmd h = int (NL80211_CMD_VENDOR nl) \<and> names_event v s n h) hs, cs)"
| "registry_step nl (RegisterCmd i c) (hs, cs) = (hs, add_within DEFAULT_CMD_SIZE \<lparr>ci_id = i, ci_cmd = c\<rparr> cs)"
| "registry_step nl (UnregisterCmd i) (hs, cs) = (hs, remove_first (\<lambda>x. ci_id x = i) cs)"
| "registry_step nl (UnregisterCmdPtr c) (hs, cs) = (hs, remove_first (\<lambda>x. ci_cmd x = c) cs)"

lemma handler_view_fields [simp]:
  "cb_nl_cmd (handler_view h) = cb_nl_cmd h" "cb_vendor_id (handler_view h) = cb_vendor_id h"
  "cb_vendor_subcmd (handler_view h) = cb_vendor_subcmd h"
  "cb_func (handler_view h) = cb_func h" "cb_arg (handler_view h) = cb_arg h"
  by (simp_all add: handler_view_def)

lemma names_event_view: "v \<noteq> 0 \<Longrightarrow> names_event v s n (handler_view h) \<longleftrightarrow> same_vendor_event v s n h"
  by (auto simp: names_event_def same_vendor_event_def handler_view_def strn_eq_def short_name_def
      split: option.splits)

lemma cstr_append_zero: "cstr (s @ CHR 0x00 # t) = cstr s"
  by (induction s) (simp_all add: cstr_def)

lemma cstr_zeros: "\<forall>c \<in> set xs. c \<noteq> CHR 0x00 \<Longrightarrow> cstr (xs @ replicate k (CHR 0x00)) = xs"
proof (induction xs)
  case Nil
  show ?case by (cases k) (simp_all add: cstr_def)
next
  case (Cons x xs)
  then show ?case by (simp add: cstr_def)
qed

lemma cstr_no_zero: "c \<in> set (cstr s) \<Longrightarrow> c \<noteq> CHR 0x00"
  unfolding cstr_def by (drule set_takeWhileD) simp

lemma cstr_take: "cstr (take n (cstr s @ replicate k (CHR 0x00))) = take n (cstr s)"
proof -
  have "\<forall>c \<in> set (take n (cstr s)). c \<noteq> CHR 0x00"
    by (auto dest: in_set_takeD cstr_no_zero)
  then show ?thesis
    unfolding take_append take_replicate by (rule cstr_zeros)
qed

lemma last_updated: "length xs = n \<Longrightarrow> (xs @ [x])[n := z] = xs @ [z]"
  by (induction xs arbitrary: n) auto

lemma short_name_buffer: "short_name (name_buffer s) = short_name s"
proof -
  let ?M = MAX_IFACENAME_LEN and ?z = "CHR 0x00"
  let ?t = "cstr s @ replicate (?M + 1) ?z"
  have len: "?M < length ?t" by simp
  have "name_buffer s = (take ?M ?t @ [?t ! ?M])[?M := ?z]"
    unfolding name_buffer_def using take_Suc_conv_app_nth [OF len] by simp
  also have "\<dots> = take ?M ?t @ [?z]" by (rule last_updated) simp
  finally have "cstr (name_buffer s) = take ?M (cstr s)"
    by (simp only: cstr_append_zero cstr_take)
  then show ?thesis by (simp add: short_name_def)
qed

section \<open>The tables implement the registry\<close>

text \<open>
  The tables implement the registry: every operation, from any state within the arrays, does to the
  entries in use what the registry's operation does, and an event is handed to the first handler of
  the registry that fits.
\<close>

definition refines ::
  "'m libnl \<Rightarrow> ('f, 'c) table_op \<Rightarrow> ('f, 'c) hal_tables \<Rightarrow> bool" where
  "refines nl op info \<longleftrightarrow>
     (\<exists>info'. table_step nl op info = Inr info' \<and> tables_ok info' \<and>
              registry info' = registry_step nl op (registry info))"

lemma refines_RegisterHandler:
  assumes "tables_ok info"
  shows "refines nl (RegisterHandler cmd f c) info"
  using assms
  by (auto simp: refines_def wifi_register_handler_def arr_at_def arr_set_def registry_def tables_ok_def add_within_def handler_view_def take_append_entry [unfolded Suc_eq_plus1 [symmetric]])

lemma refines_RegisterCmd:
  assumes "tables_ok info"
  shows "refines nl (RegisterCmd i c) info"
  using assms
  by (auto simp: refines_def wifi_register_cmd_def arr_set_def registry_def tables_ok_def add_within_def take_append_entry [unfolded Suc_eq_plus1 [symmetric]])

text \<open>Removing the first entry that fits, in either table.\<close>

lemma remove_entry:
  assumes "n \<le> length a"
  shows "\<exists>b m. (case first_index P (take n a) of None \<Rightarrow> Inr (a, n)
                 | Some i \<Rightarrow> bindE (arr_close a i n) (\<lambda>b. Inr (b, n - 1))) = Inr (b, m)
    \<and> length b = length a \<and> m \<le> n \<and> take m b = remove_first P (take n a)"
proof (cases "first_index P (take n a)")
  case None
  then show ?thesis by (simp add: remove_first_index)
next
  case (Some i)
  then show ?thesis using arr_close_ok [OF Some assms] by auto
qed

lemma refines_UnregisterHandler:
  assumes "tables_ok info"
  shows "refines nl (UnregisterHandler cmd) info"
proof (cases "cmd = int (NL80211_CMD_VENDOR nl)")
  case True
  then show ?thesis using assms by (simp add: refines_def wifi_unregister_handler_def registry_def)
next
  case False
  then show ?thesis
    using assms remove_entry [of "num_event_cb info" "event_cb info" "\<lambda>h. cb_nl_cmd h = cmd"]
    by (auto simp: refines_def wifi_unregister_handler_def arr_search_0 registry_def
        remove_first_map tables_ok_def split: option.splits)
qed

lemma refines_UnregisterVendor:
  assumes "tables_ok info" "v \<noteq> 0"
  shows "refines nl (UnregisterVendor v s n) info"
  using assms remove_entry [of "num_event_cb info" "event_cb info"
      "\<lambda>h. cb_nl_cmd h = int (NL80211_CMD_VENDOR nl) \<and> same_vendor_event v s n h"]
  by (auto simp: refines_def wifi_unregister_vendor_handler_def arr_search_0 registry_def
      remove_first_map names_event_view tables_ok_def split: option.splits)

lemma refines_UnregisterCmd:
  assumes "tables_ok info"
  shows "refines nl (UnregisterCmd i) info"
  using assms remove_entry [of "num_cmd info" "hal_cmd info" "\<lambda>x. ci_id x = i"]
  by (auto simp: refines_def wifi_unregister_cmd_def arr_search_0 registry_def
      arr_at_def tables_ok_def dest!: first_index_Some split: option.splits)

lemma refines_UnregisterCmdPtr:
  assumes "tables_ok info"
  shows "refines nl (UnregisterCmdPtr c) info"
  using assms remove_entry [of "num_cmd info" "hal_cmd info" "\<lambda>x. ci_cmd x = c"]
  by (auto simp: refines_def wifi_unregister_cmd_ptr_def arr_search_0 registry_def tables_ok_def split: option.splits)

lemma refines_RegisterVendor:
  fixes info :: "('f, 'c) hal_tables"
  assumes "tables_ok info" "v \<noteq> 0"
  shows "refines nl (RegisterVendor v s f c n) info"
proof -
  let ?k = "num_event_cb info" and ?a = "event_cb info"
  have first: "first_index (names_event v s n) (map handler_view (take ?k ?a))
      = first_index (same_vendor_event v s n) (take ?k ?a)"
    by (simp add: first_index_map names_event_view assms(2))
  show ?thesis
  proof (cases "first_index (same_vendor_event v s n) (take ?k ?a)")
    case None
    have "handler_view \<lparr>cb_nl_cmd = int (NL80211_CMD_VENDOR nl), cb_vendor_id = v, cb_vendor_subcmd = s,
            cb_func = f, cb_arg = c,
            cb_ifname = (case n of None \<Rightarrow> (cb_ifname x)[0 := CHR 0x00] | Some m \<Rightarrow> name_buffer m)\<rparr>
        = vendor_handler nl v s f c n" for x :: "('f, 'c) cb_info"
      using assms(2)
      by (cases n; cases "cb_ifname x")
         (simp_all add: handler_view_def vendor_handler_def short_name_buffer,
          simp_all add: short_name_def cstr_def)
    then show ?thesis
      using assms None first
      by (auto simp: refines_def wifi_register_vendor_handler_def arr_search_0 arr_at_def arr_set_def
          registry_def tables_ok_def add_within_def
          take_append_entry [unfolded Suc_eq_plus1 [symmetric]])
  next
    case (Some i)
    have i: "i < ?k" using first_index_Some [OF Some] by simp
    have "handler_view (x\<lparr>cb_func := f, cb_arg := c\<rparr>) = (handler_view x)\<lparr>cb_func := f, cb_arg := c\<rparr>"
      for x :: "('f, 'c) cb_info"
      by (simp add: handler_view_def)
    then show ?thesis
      using assms Some first i
      by (auto simp: refines_def wifi_register_vendor_handler_def arr_search_0 arr_at_def arr_set_def
          registry_def tables_ok_def take_update_swap map_update)
  qed
qed

lemma table_step_refines:
  assumes "tables_ok info" "op_ok op"
  shows "\<exists>info'. table_step nl op info = Inr info' \<and> tables_ok info' \<and>
    registry info' = registry_step nl op (registry info)"
proof -
  have "refines nl op info"
    using assms refines_RegisterHandler refines_RegisterVendor refines_UnregisterHandler
      refines_UnregisterVendor refines_RegisterCmd refines_UnregisterCmd refines_UnregisterCmdPtr
    by (cases op) simp_all
  then show ?thesis by (simp add: refines_def)
qed

interpretation tables: simulation tables_ok registry "table_step nl" "registry_step nl" op_ok for nl
  by unfold_locales (rule table_step_refines)

lemma init_tables_ok:
  assumes "init_tables (Some cbs) (Some cmds) = Inr info"
    "length cbs = DEFAULT_EVENT_CB_SIZE" "length cmds = DEFAULT_CMD_SIZE"
  shows "tables_ok info" "registry info = ([], [])"
  using assms by (auto simp: init_tables_def tables_ok_def registry_def)

text \<open>The first handler of the registry that fits gets the event.\<close>

definition registry_dispatch ::
  "'m libnl \<Rightarrow> int \<Rightarrow> u32 \<Rightarrow> int \<Rightarrow> ('f, 'c) cb_info list \<Rightarrow> ('f, 'c) cb_action list" where
  "registry_dispatch nl cmd vid subcmd hs =
     (case List.find (handles_event nl cmd vid subcmd) hs of None \<Rightarrow> [] | Some h \<Rightarrow> call_handler h)"

lemma handles_event_view [simp]: "handles_event nl cmd v s (handler_view h) = handles_event nl cmd v s h"
  by (simp add: handles_event_def)

lemma call_handler_view [simp]: "call_handler (handler_view h) = call_handler h"
  by (simp add: call_handler_def split: option.split)

lemma dispatch_refines:
  assumes "tables_ok info"
  shows "internal_valid_message_handler nl (Some (cmd, tb)) info =
    bindE (event_key nl cmd tb) (\<lambda>(v, s). Inr (registry_dispatch nl (int cmd) v s (fst (registry info))))"
proof -
  let ?n = "num_event_cb info" and ?a = "event_cb info"
  have n: "?n \<le> length ?a" using assms by (simp add: tables_ok_def)
  have "(case first_index (handles_event nl (int cmd) v s) (take ?n ?a) of
           None \<Rightarrow> Inr [] | Some i \<Rightarrow> bindE (arr_at ?a i) (\<lambda>cbi. Inr (call_handler cbi)))
      = Inr (registry_dispatch nl (int cmd) v s (fst (registry info)))" for v s
  proof (cases "first_index (handles_event nl (int cmd) v s) (take ?n ?a)")
    case None
    then show ?thesis
      by (simp add: registry_dispatch_def registry_def first_index_find first_index_map)
  next
    case (Some i)
    then have "i < ?n" using first_index_Some [OF Some] by simp
    then show ?thesis
      using n Some
      by (simp add: registry_dispatch_def registry_def first_index_find first_index_map arr_at_def)
  qed
  then show ?thesis
    unfolding internal_valid_message_handler_def
    by (simp add: arr_search_0 [OF n] cong: bindE_cong)
qed

end
