(* ===== verification/WifiRequests.thy ===== *)
theory WifiRequests
  imports NlCommand
begin

text \<open>
  The requests of \<open>wlan/wifi_hal/wifi_hal.cpp\<close>: \<open>WifiRequest::create(id, subcmd)\<close> of cpp_bindings.cpp, the
  messages that the command classes create, \<open>WifiCommand::requestResponse\<close>, and the functions of the HAL
  that send them. The numbers are those of common.h and mtk_vendor_cmd.h; those of the kernel's nl80211
  header and of the platform are fields of \<open>libnl\<close> and of \<open>wifi_hw\<close>.

  A request ends with the \<open>int\<close> that the code returns and the messages that have been sent.
\<close>

section \<open>Numbers\<close>

definition GOOGLE_OUI :: nat where "GOOGLE_OUI = 0x001A11"

definition WIFI_SUBCMD_GET_CHANNEL_LIST :: nat where "WIFI_SUBCMD_GET_CHANNEL_LIST = 1"
definition WIFI_SUBCMD_GET_FEATURE_SET :: nat where "WIFI_SUBCMD_GET_FEATURE_SET = 2"
definition WIFI_SUBCMD_SET_PNO_RANDOM_MAC_OUI :: nat where "WIFI_SUBCMD_SET_PNO_RANDOM_MAC_OUI = 4"
definition WIFI_SUBCMD_SET_COUNTRY_CODE :: nat where "WIFI_SUBCMD_SET_COUNTRY_CODE = 6"
definition WIFI_SUBCMD_SET_RSSI_MONITOR :: nat where "WIFI_SUBCMD_SET_RSSI_MONITOR = 7"
definition WIFI_SUBCMD_GET_ROAMING_CAPABILITIES :: nat where "WIFI_SUBCMD_GET_ROAMING_CAPABILITIES = 8"
definition WIFI_SUBCMD_CONFIG_ROAMING :: nat where "WIFI_SUBCMD_CONFIG_ROAMING = 10"
definition WIFI_SUBCMD_ENABLE_ROAMING :: nat where "WIFI_SUBCMD_ENABLE_ROAMING = 11"
definition WIFI_SUBCMD_SELECT_TX_POWER_SCENARIO :: nat where "WIFI_SUBCMD_SELECT_TX_POWER_SCENARIO = 12"
definition WIFI_SUBCMD_SET_MULTISTA_PRIMARY_CONNECTION :: nat where
  "WIFI_SUBCMD_SET_MULTISTA_PRIMARY_CONNECTION = 13"
definition WIFI_SUBCMD_SET_MULTISTA_USE_CASE :: nat where "WIFI_SUBCMD_SET_MULTISTA_USE_CASE = 14"
definition WIFI_LSTATS_SUBCMD_GET_INFO :: nat where "WIFI_LSTATS_SUBCMD_GET_INFO = 0x1200"

definition WIFI_ATTRIBUTE_BAND :: nat where "WIFI_ATTRIBUTE_BAND = 1"
definition WIFI_ATTRIBUTE_NUM_CHANNELS :: nat where "WIFI_ATTRIBUTE_NUM_CHANNELS = 2"
definition WIFI_ATTRIBUTE_CHANNEL_LIST :: nat where "WIFI_ATTRIBUTE_CHANNEL_LIST = 3"
definition WIFI_ATTRIBUTE_FEATURE_SET :: nat where "WIFI_ATTRIBUTE_FEATURE_SET = 5"
definition WIFI_ATTRIBUTE_PNO_RANDOM_MAC_OUI :: nat where "WIFI_ATTRIBUTE_PNO_RANDOM_MAC_OUI = 6"
definition WIFI_ATTRIBUTE_COUNTRY_CODE :: nat where "WIFI_ATTRIBUTE_COUNTRY_CODE = 8"
definition WIFI_ATTRIBUTE_ROAMING_CAPABILITIES :: nat where "WIFI_ATTRIBUTE_ROAMING_CAPABILITIES = 9"
definition WIFI_ATTRIBUTE_ROAMING_BLACKLIST_NUM :: nat where "WIFI_ATTRIBUTE_ROAMING_BLACKLIST_NUM = 10"
definition WIFI_ATTRIBUTE_ROAMING_BLACKLIST_BSSID :: nat where "WIFI_ATTRIBUTE_ROAMING_BLACKLIST_BSSID = 11"
definition WIFI_ATTRIBUTE_ROAMING_WHITELIST_NUM :: nat where "WIFI_ATTRIBUTE_ROAMING_WHITELIST_NUM = 12"
definition WIFI_ATTRIBUTE_ROAMING_WHITELIST_SSID :: nat where "WIFI_ATTRIBUTE_ROAMING_WHITELIST_SSID = 13"
definition WIFI_ATTRIBUTE_ROAMING_STATE :: nat where "WIFI_ATTRIBUTE_ROAMING_STATE = 14"
definition WIFI_ATTRIBUTE_TX_POWER_SCENARIO :: nat where "WIFI_ATTRIBUTE_TX_POWER_SCENARIO = 15"
definition WIFI_ATTRIBUTE_CONCURRENCY_MATRIX :: nat where "WIFI_ATTRIBUTE_CONCURRENCY_MATRIX = 16"

definition WIFI_ATTRIBUTE_RSSI_MONITOR_MAX_RSSI :: nat where "WIFI_ATTRIBUTE_RSSI_MONITOR_MAX_RSSI = 1"
definition WIFI_ATTRIBUTE_RSSI_MONITOR_MIN_RSSI :: nat where "WIFI_ATTRIBUTE_RSSI_MONITOR_MIN_RSSI = 2"
definition WIFI_ATTRIBUTE_RSSI_MONITOR_START :: nat where "WIFI_ATTRIBUTE_RSSI_MONITOR_START = 3"
definition MULTISTA_ATTRIBUTE_PRIMARY_IFACE :: nat where "MULTISTA_ATTRIBUTE_PRIMARY_IFACE = 1"
definition MULTISTA_ATTRIBUTE_USE_CASE :: nat where "MULTISTA_ATTRIBUTE_USE_CASE = 2"
definition WIFI_ATTRIBUTE_USABLE_CHANNEL_BAND :: nat where "WIFI_ATTRIBUTE_USABLE_CHANNEL_BAND = 1"
definition WIFI_ATTRIBUTE_USABLE_CHANNEL_IFACE :: nat where "WIFI_ATTRIBUTE_USABLE_CHANNEL_IFACE = 2"
definition WIFI_ATTRIBUTE_USABLE_CHANNEL_FILTER :: nat where "WIFI_ATTRIBUTE_USABLE_CHANNEL_FILTER = 3"
definition WIFI_ATTRIBUTE_USABLE_CHANNEL_MAX_SIZE :: nat where "WIFI_ATTRIBUTE_USABLE_CHANNEL_MAX_SIZE = 4"
definition WIFI_ATTRIBUTE_USABLE_CHANNEL_RESP_ARRAY :: nat where "WIFI_ATTRIBUTE_USABLE_CHANNEL_RESP_ARRAY = 1"

definition MTK_SUBCMD_GET_RADIO_COMBO_MATRIX :: nat where "MTK_SUBCMD_GET_RADIO_COMBO_MATRIX = 2"
definition MTK_SUBCMD_GET_APF_CAPABILITIES :: nat where "MTK_SUBCMD_GET_APF_CAPABILITIES = 14"
definition MTK_SUBCMD_SET_PACKET_FILTER :: nat where "MTK_SUBCMD_SET_PACKET_FILTER = 15"
definition MTK_SUBCMD_READ_PACKET_FILTER :: nat where "MTK_SUBCMD_READ_PACKET_FILTER = 16"
definition MTK_SUBCMD_GET_USABLE_CHANNEL :: nat where "MTK_SUBCMD_GET_USABLE_CHANNEL = 82"
definition MTK_SUBCMD_GET_CHIP_CAPABILITIES :: nat where "MTK_SUBCMD_GET_CHIP_CAPABILITIES = 83"
definition MTK_SUBCMD_GET_CHIP_CONCURRENCY_MATRIX :: nat where "MTK_SUBCMD_GET_CHIP_CONCURRENCY_MATRIX = 84"
definition MTK_APF_ATTRIBUTE_VERSION :: nat where "MTK_APF_ATTRIBUTE_VERSION = 1"
definition MTK_APF_ATTRIBUTE_MAX_LEN :: nat where "MTK_APF_ATTRIBUTE_MAX_LEN = 2"
definition MTK_APF_ATTRIBUTE_PROGRAM :: nat where "MTK_APF_ATTRIBUTE_PROGRAM = 3"
definition MTK_APF_ATTRIBUTE_PROGRAM_LEN :: nat where "MTK_APF_ATTRIBUTE_PROGRAM_LEN = 4"

record wifi_hw =
  NL80211_CMD_NEW_INTERFACE :: nat
  NL80211_CMD_DEL_INTERFACE :: nat
  NL80211_ATTR_IFNAME :: nat
  NL80211_ATTR_IFTYPE :: nat
  NL80211_IFTYPE_STATION :: nat
  NL80211_IFTYPE_AP :: nat
  NL80211_IFTYPE_P2P_DEVICE :: nat
  NL80211_IFTYPE_NAN :: nat
  MAX_SSID_LENGTH :: nat
  MAX_BLACKLIST_BSSID :: nat
  MAX_WHITELIST_SSID :: nat

text \<open>An \<open>int\<close> passed as \<open>uint32_t\<close>.\<close>

definition as_u32 :: "int \<Rightarrow> nat" where
  "as_u32 i = nat (i mod 2 ^ 32)"

section \<open>Messages\<close>

text \<open>
  The functions \<open>create\<close> and \<open>createRequest\<close> go through a list of calls, each of which may leave the
  function with a result. \<open>or_fail\<close>: with a negative result; \<open>ignoring\<close>: never.
\<close>

type_synonym 'm request_step = "'m WifiRequest \<Rightarrow> (int option \<times> 'm WifiRequest) result"

fun request_steps :: "'m request_step list \<Rightarrow> 'm request_step" where
  "request_steps [] r = Inr (None, r)"
| "request_steps (f # fs) r =
     bindE (f r) (\<lambda>(x, r). case x of Some e \<Rightarrow> Inr (Some e, r) | None \<Rightarrow> request_steps fs r)"

definition or_fail :: "('m WifiRequest \<Rightarrow> (int \<times> 'm WifiRequest) result) \<Rightarrow> 'm request_step" where
  "or_fail f r = bindE (f r) (\<lambda>(e, r). Inr (if e < 0 then Some e else None, r))"

definition ignoring :: "('m WifiRequest \<Rightarrow> (int \<times> 'm WifiRequest) result) \<Rightarrow> 'm request_step" where
  "ignoring f r = bindE (f r) (\<lambda>(_, r). Inr (None, r))"

text \<open>
  \<open>attr_start(attr)\<close>, the calls, \<open>attr_end\<close>. Without the attribute the function ends with the error, or,
  where the code does not look at it, goes on until \<open>attr_end\<close> dereferences it.
\<close>

definition in_attr :: "'m libnl \<Rightarrow> nat \<Rightarrow> int option \<Rightarrow> 'm request_step list \<Rightarrow> 'm request_step" where
  "in_attr nl attr err fs r =
     bindE (rq_attr_start nl attr r) (\<lambda>(a, r).
     if a = None \<and> err \<noteq> None then Inr (err, r)
     else bindE (request_steps fs r) (\<lambda>(x, r).
       case x of
         Some e \<Rightarrow> Inr (Some e, r)
       | None \<Rightarrow> (case a of None \<Rightarrow> Inl UB | Some a \<Rightarrow> bindE (rq_attr_end nl a r) (\<lambda>r. Inr (None, r)))))"

definition vendor_data :: "'m libnl \<Rightarrow> 'm request_step list \<Rightarrow> 'm request_step" where
  "vendor_data nl = in_attr nl (NL80211_ATTR_VENDOR_DATA nl) (Some (nl_code nl WIFI_ERROR_UNKNOWN))"

definition vendor_data_blind :: "'m libnl \<Rightarrow> 'm request_step list \<Rightarrow> 'm request_step" where
  "vendor_data_blind nl = in_attr nl (NL80211_ATTR_VENDOR_DATA nl) None"

text \<open>A function that ends with \<open>ret\<close> unless a call has left it.\<close>

definition ending_with :: "int \<Rightarrow> 'm request_step \<Rightarrow> 'm WifiRequest \<Rightarrow> (int \<times> 'm WifiRequest) result" where
  "ending_with ret f r = bindE (f r) (\<lambda>(x, r). Inr (case x of Some e \<Rightarrow> e | None \<Rightarrow> ret, r))"

text \<open>
  \<open>WifiRequest::create(uint32_t id, int subcmd)\<close> for a request whose \<open>mIface\<close> is \<open>iface\<close>.
\<close>

definition rq_create_vendor ::
  "'m libnl \<Rightarrow> int \<Rightarrow> nat \<Rightarrow> nat \<Rightarrow> 'm WifiRequest \<Rightarrow> (int \<times> 'm WifiRequest) result" where
  "rq_create_vendor nl iface vid subcmd r =
     (case rq_create nl (NL80211_CMD_VENDOR nl) r of (res, r) \<Rightarrow>
      if res < 0 then Inr (res, r)
      else bindE (rq_put_u32 nl (NL80211_ATTR_VENDOR_ID nl) vid r) (\<lambda>(res, r).
      if res < 0 then Inr (res, r)
      else bindE (rq_put_u32 nl (NL80211_ATTR_VENDOR_SUBCMD nl) subcmd r) (\<lambda>(res, r).
      if res < 0 then Inr (res, r)
      else if iface \<noteq> - 1 then rq_set_iface_id nl (as_u32 iface) r
      else Inr (res, r))))"

section \<open>The commands\<close>

text \<open>A command for an interface: the family of the HAL and the number of the interface.\<close>

record wifi_iface =
  wi_family :: nat
  wi_id :: int

text \<open>One attribute in the vendor data.\<close>

definition single_attribute ::
  "'m libnl \<Rightarrow> int \<Rightarrow> nat \<Rightarrow> nat \<Rightarrow> ('m WifiRequest \<Rightarrow> (int \<times> 'm WifiRequest) result) \<Rightarrow> 'm WifiRequest
     \<Rightarrow> (int \<times> 'm WifiRequest) result" where
  "single_attribute nl iface oui subcmd f =
     ending_with (nl_code nl WIFI_SUCCESS)
       (request_steps [or_fail (rq_create_vendor nl iface oui subcmd), vendor_data nl [or_fail f]])"

definition SetCountryCode_create where
  "SetCountryCode_create nl iface code =
     single_attribute nl iface GOOGLE_OUI WIFI_SUBCMD_SET_COUNTRY_CODE
       (rq_put_string nl WIFI_ATTRIBUTE_COUNTRY_CODE code)"

definition EnableRoaming_create where
  "EnableRoaming_create nl iface state =
     single_attribute nl iface GOOGLE_OUI WIFI_SUBCMD_ENABLE_ROAMING
       (rq_put_u32 nl WIFI_ATTRIBUTE_ROAMING_STATE state)"

definition SelectTxPower_create where
  "SelectTxPower_create nl iface scenario =
     single_attribute nl iface GOOGLE_OUI WIFI_SUBCMD_SELECT_TX_POWER_SCENARIO
       (rq_put_u32 nl WIFI_ATTRIBUTE_TX_POWER_SCENARIO (as_u32 scenario))"

definition SetScanMacOui_create where
  "SetScanMacOui_create nl iface scan_oui =
     single_attribute nl iface GOOGLE_OUI WIFI_SUBCMD_SET_PNO_RANDOM_MAC_OUI
       (rq_put_bytes nl WIFI_ATTRIBUTE_PNO_RANDOM_MAC_OUI scan_oui 3)"

text \<open>\<open>MultiStaSetPrimaryCommand\<close>, which ends the attribute also when the value does not fit.\<close>

definition put_and_end ::
  "'m libnl \<Rightarrow> ('m WifiRequest \<Rightarrow> (int \<times> 'm WifiRequest) result) \<Rightarrow> 'm request_step" where
  "put_and_end nl f r =
     bindE (rq_attr_start nl (NL80211_ATTR_VENDOR_DATA nl) r) (\<lambda>(a, r).
     case a of
       None \<Rightarrow> Inr (Some (nl_code nl WIFI_ERROR_UNKNOWN), r)
     | Some a \<Rightarrow> bindE (f r) (\<lambda>(ret, r).
         bindE (rq_attr_end nl a r) (\<lambda>r. Inr (if ret < 0 then Some ret else None, r))))"

definition MultiStaSetPrimary_create where
  "MultiStaSetPrimary_create nl iface =
     ending_with (nl_code nl WIFI_SUCCESS)
       (request_steps
          [or_fail (rq_create_vendor nl iface GOOGLE_OUI WIFI_SUBCMD_SET_MULTISTA_PRIMARY_CONNECTION),
           put_and_end nl (rq_put_u32 nl MULTISTA_ATTRIBUTE_PRIMARY_IFACE (as_u32 iface))])"

text \<open>The commands that are made with the handle of the HAL have no interface of their own.\<close>

definition MultiStaSetUseCase_create where
  "MultiStaSetUseCase_create nl ctrl use_case =
     ending_with (nl_code nl WIFI_SUCCESS)
       (request_steps
          [or_fail (rq_create_vendor nl (- 1) GOOGLE_OUI WIFI_SUBCMD_SET_MULTISTA_USE_CASE),
           ignoring (rq_put_u32 nl (NL80211_ATTR_IFINDEX nl) (as_u32 ctrl)),
           put_and_end nl (rq_put_u32 nl MULTISTA_ATTRIBUTE_USE_CASE (as_u32 use_case))])"

text \<open>\<open>GetChannelListCommand\<close>, which returns the result of its last call.\<close>

definition GetChannelList_create where
  "GetChannelList_create nl iface band r =
     bindE (request_steps [or_fail (rq_create_vendor nl iface GOOGLE_OUI WIFI_SUBCMD_GET_CHANNEL_LIST)] r) (\<lambda>(x, r).
     case x of
       Some e \<Rightarrow> Inr (e, r)
     | None \<Rightarrow>
         bindE (rq_attr_start nl (NL80211_ATTR_VENDOR_DATA nl) r) (\<lambda>(a, r).
         case a of
           None \<Rightarrow> Inr (nl_code nl WIFI_ERROR_UNKNOWN, r)
         | Some a \<Rightarrow>
             bindE (rq_put_u32 nl WIFI_ATTRIBUTE_BAND (as_u32 band) r) (\<lambda>(ret, r).
             if ret < 0 then Inr (ret, r)
             else bindE (rq_attr_end nl a r) (\<lambda>r. Inr (ret, r)))))"

datatype feature_kind = FeatureSet | RoamingCapabilities | OtherFeature

definition GetFeatureSet_create where
  "GetFeatureSet_create nl iface kind r =
     (case kind of
        FeatureSet \<Rightarrow> rq_create_vendor nl iface GOOGLE_OUI WIFI_SUBCMD_GET_FEATURE_SET r
      | RoamingCapabilities \<Rightarrow> rq_create_vendor nl iface GOOGLE_OUI WIFI_SUBCMD_GET_ROAMING_CAPABILITIES r
      | OtherFeature \<Rightarrow> Inr (- 1, r))"

definition GetLinkStats_create where
  "GetLinkStats_create nl iface = rq_create_vendor nl iface GOOGLE_OUI WIFI_LSTATS_SUBCMD_GET_INFO"

text \<open>Creating and deleting an interface; the results of the \<open>put\<close> functions are not looked at.\<close>

definition AddInterface_create where
  "AddInterface_create nl hw ctrl ifname iftype r =
     (case rq_create nl (NL80211_CMD_NEW_INTERFACE hw) r of (ret, r) \<Rightarrow>
      if ret < 0 then Inr (ret, r)
      else ending_with (nl_code nl WIFI_SUCCESS)
             (request_steps
                [ignoring (rq_put_u32 nl (NL80211_ATTR_IFINDEX nl) (as_u32 ctrl)),
                 ignoring (rq_put_string nl (NL80211_ATTR_IFNAME hw) ifname),
                 ignoring (rq_put_u32 nl (NL80211_ATTR_IFTYPE hw) iftype)]) r)"

definition DeleteInterface_create where
  "DeleteInterface_create nl hw ifname r =
     (case rq_create nl (NL80211_CMD_DEL_INTERFACE hw) r of (ret, r) \<Rightarrow>
      if ret < 0 then Inr (ret, r)
      else if nl_if_index nl ifname = 0 then Inr (nl_code nl WIFI_ERROR_UNKNOWN, r)
      else ending_with (nl_code nl WIFI_SUCCESS)
             (ignoring (rq_put_u32 nl (NL80211_ATTR_IFINDEX nl) (nl_if_index nl ifname))) r)"

text \<open>\<open>SetRSSIMonitorCommand::createRequest\<close>; the signal strengths are signed bytes.\<close>

definition SetRSSIMonitor_createRequest ::
  "'m libnl \<Rightarrow> int \<Rightarrow> int \<Rightarrow> int \<Rightarrow> nat \<Rightarrow> 'm WifiRequest \<Rightarrow> (int \<times> 'm WifiRequest) result" where
  "SetRSSIMonitor_createRequest nl iface max_rssi min_rssi enable r =
     bindE (rq_create_vendor nl iface GOOGLE_OUI WIFI_SUBCMD_SET_RSSI_MONITOR r) (\<lambda>(res, r).
     if res < 0 then Inr (res, r)
     else bindE (rq_attr_start nl (NL80211_ATTR_VENDOR_DATA nl) r) (\<lambda>(a, r).
     case a of
       None \<Rightarrow> Inr (nl_code nl WIFI_ERROR_UNKNOWN, r)
     | Some a \<Rightarrow>
         bindE (rq_put_u32 nl WIFI_ATTRIBUTE_RSSI_MONITOR_MAX_RSSI
                  (if enable \<noteq> 0 then as_u32 max_rssi else 0) r) (\<lambda>(res, r).
         if res < 0 then Inr (res, r)
         else bindE (rq_put_u32 nl WIFI_ATTRIBUTE_RSSI_MONITOR_MIN_RSSI
                       (if enable \<noteq> 0 then as_u32 min_rssi else 0) r) (\<lambda>(res, r).
         if res < 0 then Inr (res, r)
         else bindE (rq_put_u32 nl WIFI_ATTRIBUTE_RSSI_MONITOR_START enable r) (\<lambda>(res, r).
         if res < 0 then Inr (res, r)
         else bindE (rq_attr_end nl a r) (\<lambda>r. Inr (res, r)))))))"

text \<open>
  \<open>ConfigRoamingCommand::createRequest\<close>: the addresses and names of the configuration up to the numbers
  it gives. A name is copied into a local array of \<open>MAX_SSID_LENGTH + 1\<close> and ended with a zero.
\<close>

record ssid_t =
  ssid_length :: nat
  ssid_str :: bytes

record wifi_roaming_config =
  num_blacklist_bssid :: nat
  blacklist_bssid :: "bytes list"
  num_whitelist_ssid :: nat
  whitelist_ssid :: "ssid_t list"

definition put_blacklisted :: "'m libnl \<Rightarrow> wifi_roaming_config \<Rightarrow> nat \<Rightarrow> 'm request_step" where
  "put_blacklisted nl config i r =
     bindE (vec_at (blacklist_bssid config) (int i)) (\<lambda>a.
     or_fail (rq_put_bytes nl WIFI_ATTRIBUTE_ROAMING_BLACKLIST_BSSID a 6) r)"

definition put_whitelisted :: "'m libnl \<Rightarrow> wifi_hw \<Rightarrow> wifi_roaming_config \<Rightarrow> nat \<Rightarrow> 'm request_step" where
  "put_whitelisted nl hw config i r =
     bindE (vec_at (whitelist_ssid config) (int i)) (\<lambda>s.
     bindE (memcpy (replicate (MAX_SSID_LENGTH hw + 1) 0) (Some (ssid_str s)) (ssid_length s)) (\<lambda>ssid.
     bindE (wr8 ssid (ssid_length s) 0) (\<lambda>ssid.
     or_fail (rq_put_bytes nl WIFI_ATTRIBUTE_ROAMING_WHITELIST_SSID ssid (ssid_length s + 1)) r)))"

definition ConfigRoaming_createRequest where
  "ConfigRoaming_createRequest nl hw iface config =
     ending_with (nl_code nl WIFI_SUCCESS)
       (request_steps
          [or_fail (rq_create_vendor nl iface GOOGLE_OUI WIFI_SUBCMD_CONFIG_ROAMING),
           vendor_data nl
             (or_fail (rq_put_u32 nl WIFI_ATTRIBUTE_ROAMING_BLACKLIST_NUM (num_blacklist_bssid config))
              # map (put_blacklisted nl config) [0..<num_blacklist_bssid config]
              @ or_fail (rq_put_u32 nl WIFI_ATTRIBUTE_ROAMING_WHITELIST_NUM (num_whitelist_ssid config))
              # map (put_whitelisted nl hw config) [0..<num_whitelist_ssid config])])"

text \<open>\<open>AndroidPacketFilterCommand::createRequest\<close>\<close>

datatype apf_request = SetApfProgram bytes nat | GetApfCapabilities | ReadApfProgram

definition AndroidPacketFilter_createRequest where
  "AndroidPacketFilter_createRequest nl iface req r =
     (case req of
        SetApfProgram program len \<Rightarrow>
          bindE (rq_create_vendor nl iface OUI_MTK MTK_SUBCMD_SET_PACKET_FILTER r) (\<lambda>(res, r).
          if res < 0 then Inr (res, r)
          else bindE (rq_attr_start nl (NL80211_ATTR_VENDOR_DATA nl) r) (\<lambda>(a, r).
               bindE (rq_put_bytes nl MTK_APF_ATTRIBUTE_PROGRAM program len r) (\<lambda>(res, r).
               case a of None \<Rightarrow> Inl UB | Some a \<Rightarrow> bindE (rq_attr_end nl a r) (\<lambda>r. Inr (res, r)))))
      | GetApfCapabilities \<Rightarrow>
          bindE (rq_create_vendor nl iface OUI_MTK MTK_SUBCMD_GET_APF_CAPABILITIES r) (\<lambda>(res, r).
          if res < 0 then Inr (res, r) else ending_with res (vendor_data_blind nl []) r)
      | ReadApfProgram \<Rightarrow>
          bindE (rq_create_vendor nl iface OUI_MTK MTK_SUBCMD_READ_PACKET_FILTER r) (\<lambda>(res, r).
          if res < 0 then Inr (res, r) else ending_with res (vendor_data_blind nl []) r))"

text \<open>
  The queries of the driver. Where creating the message fails, \<open>GetSupportedRadioCombinationsMatrixCommand\<close>
  and \<open>GetChipCapabilitiesCommand\<close> go on.
\<close>

definition query_create where
  "query_create nl subcmd ctrl =
     ending_with (nl_code nl WIFI_SUCCESS)
       (request_steps
          [ignoring (rq_create_vendor nl (- 1) OUI_MTK subcmd),
           ignoring (rq_put_u32 nl (NL80211_ATTR_IFINDEX nl) (as_u32 ctrl)),
           vendor_data nl []])"

definition GetSupportedRadioCombinationsMatrix_create where
  "GetSupportedRadioCombinationsMatrix_create nl ctrl = query_create nl MTK_SUBCMD_GET_RADIO_COMBO_MATRIX ctrl"

definition GetChipCapabilities_create where
  "GetChipCapabilities_create nl ctrl = query_create nl MTK_SUBCMD_GET_CHIP_CAPABILITIES ctrl"

definition GetChipConcurrencyMatrix_createRequest where
  "GetChipConcurrencyMatrix_createRequest nl ctrl =
     ending_with (nl_code nl WIFI_SUCCESS)
       (request_steps
          [or_fail (rq_create_vendor nl ctrl OUI_MTK MTK_SUBCMD_GET_CHIP_CONCURRENCY_MATRIX),
           ignoring (rq_put_u32 nl (NL80211_ATTR_IFINDEX nl) (as_u32 ctrl))])"

definition unless_success :: "'m libnl \<Rightarrow> ('m WifiRequest \<Rightarrow> (int \<times> 'm WifiRequest) result) \<Rightarrow> 'm request_step" where
  "unless_success nl f r =
     bindE (f r) (\<lambda>(e, r). Inr (if e \<noteq> nl_code nl WIFI_SUCCESS then Some e else None, r))"

definition GetUsableChannel_createRequest where
  "GetUsableChannel_createRequest nl ctrl band_mask iface_mode_mask filter_mask max_size =
     ending_with (nl_code nl WIFI_SUCCESS)
       (request_steps
          [or_fail (rq_create_vendor nl ctrl OUI_MTK MTK_SUBCMD_GET_USABLE_CHANNEL),
           vendor_data_blind nl
             [unless_success nl (rq_put_u32 nl WIFI_ATTRIBUTE_USABLE_CHANNEL_BAND band_mask),
              unless_success nl (rq_put_u32 nl WIFI_ATTRIBUTE_USABLE_CHANNEL_IFACE iface_mode_mask),
              unless_success nl (rq_put_u32 nl WIFI_ATTRIBUTE_USABLE_CHANNEL_FILTER filter_mask),
              unless_success nl (rq_put_u32 nl WIFI_ATTRIBUTE_USABLE_CHANNEL_MAX_SIZE max_size)]])"

section \<open>Sending\<close>

text \<open>\<open>requestResponse(WifiRequest)\<close>, with the message that the kernel has accepted.\<close>

definition send_request :: "'m libnl \<Rightarrow> 'm WifiRequest \<Rightarrow> (int \<times> 'm list) result" where
  "send_request nl r =
     bindE (requestResponse nl r) (\<lambda>e.
     Inr (nl_code nl e,
          case rq_msg r of
            None \<Rightarrow> []
          | Some m \<Rightarrow> if nl_cb_alloc nl \<and> 0 \<le> nl_send nl m then [m] else []))"

text \<open>\<open>requestResponse()\<close> and the functions \<open>start\<close>, for a fresh message; \<open>create\<close> fills it in.\<close>

definition request_response ::
  "'m libnl \<Rightarrow> nat \<Rightarrow> ('m WifiRequest \<Rightarrow> (int \<times> 'm WifiRequest) result) \<Rightarrow> (int \<times> 'm list) result" where
  "request_response nl family create =
     bindE (create (new_request family)) (\<lambda>(err, r).
     if err < 0 then Inr (err, []) else send_request nl r)"

text \<open>The functions \<open>start\<close> that go on only with \<open>WIFI_SUCCESS\<close>.\<close>

definition start_if_success ::
  "'m libnl \<Rightarrow> nat \<Rightarrow> ('m WifiRequest \<Rightarrow> (int \<times> 'm WifiRequest) result) \<Rightarrow> (int \<times> 'm list) result" where
  "start_if_success nl family create =
     bindE (create (new_request family)) (\<lambda>(err, r).
     if err \<noteq> nl_code nl WIFI_SUCCESS then Inr (err, []) else send_request nl r)"

section \<open>The functions of the HAL\<close>

text \<open>A null pointer for the interface is \<open>None\<close>.\<close>

definition for_iface ::
  "'m libnl \<Rightarrow> wifi_iface option \<Rightarrow> (wifi_iface \<Rightarrow> (int \<times> 'm list) result) \<Rightarrow> (int \<times> 'm list) result" where
  "for_iface nl iface f =
     (case iface of None \<Rightarrow> Inr (nl_code nl WIFI_ERROR_INVALID_ARGS, []) | Some i \<Rightarrow> f i)"

definition wifi_set_country_code ::
  "'m libnl \<Rightarrow> wifi_iface option \<Rightarrow> string option \<Rightarrow> (int \<times> 'm list) result" where
  "wifi_set_country_code nl iface code =
     for_iface nl iface (\<lambda>i. case code of
       None \<Rightarrow> Inr (nl_code nl WIFI_ERROR_INVALID_ARGS, [])
     | Some c \<Rightarrow> request_response nl (wi_family i) (SetCountryCode_create nl (wi_id i) c))"

definition wifi_enable_firmware_roaming where
  "wifi_enable_firmware_roaming nl iface state =
     for_iface nl iface (\<lambda>i. request_response nl (wi_family i) (EnableRoaming_create nl (wi_id i) state))"

definition wifi_select_tx_power_scenario where
  "wifi_select_tx_power_scenario nl iface scenario =
     for_iface nl iface (\<lambda>i. request_response nl (wi_family i) (SelectTxPower_create nl (wi_id i) scenario))"

definition wifi_reset_tx_power_scenario where
  "wifi_reset_tx_power_scenario nl iface =
     for_iface nl iface (\<lambda>i. request_response nl (wi_family i) (SelectTxPower_create nl (wi_id i) (- 1)))"

definition wifi_set_scanning_mac_oui where
  "wifi_set_scanning_mac_oui nl iface scan_oui =
     for_iface nl iface (\<lambda>i. request_response nl (wi_family i) (SetScanMacOui_create nl (wi_id i) scan_oui))"

definition wifi_multi_sta_set_primary_connection where
  "wifi_multi_sta_set_primary_connection nl iface =
     for_iface nl iface (\<lambda>i. request_response nl (wi_family i) (MultiStaSetPrimary_create nl (wi_id i)))"

text \<open>The handle of the HAL is the family of its messages.\<close>

definition wifi_multi_sta_set_use_case ::
  "'m libnl \<Rightarrow> nat option \<Rightarrow> int \<Rightarrow> (int \<times> 'm list) result" where
  "wifi_multi_sta_set_use_case nl handle use_case =
     (case handle of
        None \<Rightarrow> Inr (nl_code nl WIFI_ERROR_INVALID_ARGS, [])
      | Some family \<Rightarrow>
          if nl_if_index nl ''wlan0'' = 0 then Inr (nl_code nl WIFI_ERROR_UNKNOWN, [])
          else request_response nl family
                 (MultiStaSetUseCase_create nl (int (nl_if_index nl ''wlan0'')) use_case))"

text \<open>The capabilities of roaming that the driver has reported, 0 before it has.\<close>

record wifi_roaming_capabilities =
  max_blacklist_size :: nat
  max_whitelist_size :: nat

definition wifi_configure_roaming ::
  "'m libnl \<Rightarrow> wifi_hw \<Rightarrow> wifi_roaming_capabilities \<Rightarrow> wifi_iface option \<Rightarrow> wifi_roaming_config option
     \<Rightarrow> (int \<times> 'm list) result" where
  "wifi_configure_roaming nl hw capa iface config =
     for_iface nl iface (\<lambda>i. case config of
       None \<Rightarrow> Inr (nl_code nl WIFI_ERROR_INVALID_ARGS, [])
     | Some c \<Rightarrow>
         if num_blacklist_bssid c > max_blacklist_size capa then Inr (nl_code nl WIFI_ERROR_NOT_SUPPORTED, [])
         else if num_whitelist_ssid c > max_whitelist_size capa then Inr (nl_code nl WIFI_ERROR_NOT_SUPPORTED, [])
         else start_if_success nl (wi_family i) (ConfigRoaming_createRequest nl hw (wi_id i) c))"

definition wifi_set_packet_filter ::
  "'m libnl \<Rightarrow> wifi_iface option \<Rightarrow> bytes option \<Rightarrow> nat \<Rightarrow> (int \<times> 'm list) result" where
  "wifi_set_packet_filter nl iface program len =
     for_iface nl iface (\<lambda>i. case program of
       None \<Rightarrow> Inr (nl_code nl WIFI_ERROR_INVALID_ARGS, [])
     | Some p \<Rightarrow>
         if len = 0 then Inr (nl_code nl WIFI_ERROR_INVALID_ARGS, [])
         else request_response nl (wi_family i) (AndroidPacketFilter_createRequest nl (wi_id i) (SetApfProgram p len)))"

end
