(* ===== verification/WifiRtt.thy ===== *)
theory WifiRtt
  imports WifiRequests WifiTables
begin

text \<open>
  Ranging (\<open>wlan/wifi_hal/wifi_rtt.h\<close> and \<open>wifi_rtt.cpp\<close>): the requests to the driver and the results that
  come back. The life of a request, between the tables of the HAL, is in \<open>WifiMonitor\<close>.
\<close>

section \<open>Requests\<close>

definition RTT_SUBCMD_SET_CONFIG :: nat where "RTT_SUBCMD_SET_CONFIG = 0x1100"
definition RTT_SUBCMD_CANCEL_CONFIG :: nat where "RTT_SUBCMD_CANCEL_CONFIG = 0x1101"
definition RTT_SUBCMD_GETCAPABILITY :: nat where "RTT_SUBCMD_GETCAPABILITY = 0x1102"

definition RTT_ATTRIBUTE_TARGET_CNT :: nat where "RTT_ATTRIBUTE_TARGET_CNT = 1"
definition RTT_ATTRIBUTE_TARGET_INFO :: nat where "RTT_ATTRIBUTE_TARGET_INFO = 2"
definition RTT_ATTRIBUTE_TARGET_MAC :: nat where "RTT_ATTRIBUTE_TARGET_MAC = 3"
definition RTT_ATTRIBUTE_TARGET_TYPE :: nat where "RTT_ATTRIBUTE_TARGET_TYPE = 4"
definition RTT_ATTRIBUTE_TARGET_PEER :: nat where "RTT_ATTRIBUTE_TARGET_PEER = 5"
definition RTT_ATTRIBUTE_TARGET_CHAN :: nat where "RTT_ATTRIBUTE_TARGET_CHAN = 6"
definition RTT_ATTRIBUTE_TARGET_PERIOD :: nat where "RTT_ATTRIBUTE_TARGET_PERIOD = 7"
definition RTT_ATTRIBUTE_TARGET_NUM_BURST :: nat where "RTT_ATTRIBUTE_TARGET_NUM_BURST = 8"
definition RTT_ATTRIBUTE_TARGET_NUM_FTM_BURST :: nat where "RTT_ATTRIBUTE_TARGET_NUM_FTM_BURST = 9"
definition RTT_ATTRIBUTE_TARGET_NUM_RETRY_FTM :: nat where "RTT_ATTRIBUTE_TARGET_NUM_RETRY_FTM = 10"
definition RTT_ATTRIBUTE_TARGET_NUM_RETRY_FTMR :: nat where "RTT_ATTRIBUTE_TARGET_NUM_RETRY_FTMR = 11"
definition RTT_ATTRIBUTE_TARGET_LCI :: nat where "RTT_ATTRIBUTE_TARGET_LCI = 12"
definition RTT_ATTRIBUTE_TARGET_LCR :: nat where "RTT_ATTRIBUTE_TARGET_LCR = 13"
definition RTT_ATTRIBUTE_TARGET_BURST_DURATION :: nat where "RTT_ATTRIBUTE_TARGET_BURST_DURATION = 14"
definition RTT_ATTRIBUTE_TARGET_PREAMBLE :: nat where "RTT_ATTRIBUTE_TARGET_PREAMBLE = 15"
definition RTT_ATTRIBUTE_TARGET_BW :: nat where "RTT_ATTRIBUTE_TARGET_BW = 16"
definition RTT_ATTRIBUTE_RESULT_CNT :: nat where "RTT_ATTRIBUTE_RESULT_CNT = 32"
definition RTT_ATTRIBUTE_RESULT :: nat where "RTT_ATTRIBUTE_RESULT = 33"

text \<open>
  \<open>wifi_rtt_config\<close> of the platform; the channel, a struct that is passed on as it is, is its bytes.
\<close>

record wifi_rtt_config =
  rtt_addr :: bytes
  rtt_type :: nat
  rtt_peer :: nat
  rtt_channel :: bytes
  rtt_burst_period :: nat
  rtt_num_burst :: nat
  rtt_num_frames_per_burst :: nat
  rtt_num_retries_per_rtt_frame :: nat
  rtt_num_retries_per_ftmr :: nat
  rtt_LCI_request :: nat
  rtt_LCR_request :: nat
  rtt_burst_duration :: nat
  rtt_preamble :: nat
  rtt_bw :: nat

text \<open>The attributes of one target; the number of the enclosing attribute is its index.\<close>

definition target_steps :: "'m libnl \<Rightarrow> wifi_rtt_config \<Rightarrow> 'm request_step list" where
  "target_steps nl c =
     [or_fail (rq_put_bytes nl RTT_ATTRIBUTE_TARGET_MAC (rtt_addr c) 6),
      or_fail (rq_put_u8 nl RTT_ATTRIBUTE_TARGET_TYPE (rtt_type c)),
      or_fail (rq_put_u8 nl RTT_ATTRIBUTE_TARGET_PEER (rtt_peer c)),
      or_fail (rq_put nl RTT_ATTRIBUTE_TARGET_CHAN (rtt_channel c)),
      or_fail (rq_put_u32 nl RTT_ATTRIBUTE_TARGET_NUM_BURST (rtt_num_burst c)),
      or_fail (rq_put_u32 nl RTT_ATTRIBUTE_TARGET_NUM_FTM_BURST (rtt_num_frames_per_burst c)),
      or_fail (rq_put_u32 nl RTT_ATTRIBUTE_TARGET_NUM_RETRY_FTM (rtt_num_retries_per_rtt_frame c)),
      or_fail (rq_put_u32 nl RTT_ATTRIBUTE_TARGET_NUM_RETRY_FTMR (rtt_num_retries_per_ftmr c)),
      or_fail (rq_put_u32 nl RTT_ATTRIBUTE_TARGET_PERIOD (rtt_burst_period c)),
      or_fail (rq_put_u32 nl RTT_ATTRIBUTE_TARGET_BURST_DURATION (rtt_burst_duration c)),
      or_fail (rq_put_u8 nl RTT_ATTRIBUTE_TARGET_LCI (rtt_LCI_request c)),
      or_fail (rq_put_u8 nl RTT_ATTRIBUTE_TARGET_LCR (rtt_LCR_request c)),
      or_fail (rq_put_u8 nl RTT_ATTRIBUTE_TARGET_BW (rtt_bw c)),
      or_fail (rq_put_u8 nl RTT_ATTRIBUTE_TARGET_PREAMBLE (rtt_preamble c))]"

definition put_target :: "'m libnl \<Rightarrow> nat \<times> wifi_rtt_config \<Rightarrow> 'm request_step" where
  "put_target nl p = in_attr nl (fst p) (Some (nl_code nl WIFI_ERROR_OUT_OF_MEMORY)) (target_steps nl (snd p))"

definition RttRequest_create ::
  "'m libnl \<Rightarrow> int \<Rightarrow> wifi_rtt_config list \<Rightarrow> 'm WifiRequest \<Rightarrow> (int \<times> 'm WifiRequest) result" where
  "RttRequest_create nl iface configs =
     ending_with (nl_code nl WIFI_SUCCESS)
       (request_steps
          [or_fail (rq_create_vendor nl iface GOOGLE_OUI RTT_SUBCMD_SET_CONFIG),
           vendor_data_blind nl
             [or_fail (rq_put_u8 nl RTT_ATTRIBUTE_TARGET_CNT (length configs)),
              in_attr nl RTT_ATTRIBUTE_TARGET_INFO None (map (put_target nl) (enumerate 0 configs))]])"

text \<open>The message of \<open>RttRequestCommand::cancel\<close>, and \<open>RttCancelCommand\<close>.\<close>

definition RttRequest_cancel_create where
  "RttRequest_cancel_create nl iface =
     ending_with (nl_code nl WIFI_SUCCESS)
       (request_steps
          [or_fail (rq_create_vendor nl iface GOOGLE_OUI RTT_SUBCMD_CANCEL_CONFIG),
           vendor_data nl [or_fail (rq_put_u8 nl RTT_ATTRIBUTE_TARGET_CNT 0)]])"

definition put_cancelled :: "'m libnl \<Rightarrow> bytes list \<Rightarrow> nat \<Rightarrow> 'm request_step" where
  "put_cancelled nl addrs i r =
     bindE (vec_at addrs (int i)) (\<lambda>a. or_fail (rq_put_bytes nl RTT_ATTRIBUTE_TARGET_MAC a 6) r)"

definition RttCancel_create where
  "RttCancel_create nl iface num_devices addrs =
     ending_with (nl_code nl WIFI_SUCCESS)
       (request_steps
          [or_fail (rq_create_vendor nl iface GOOGLE_OUI RTT_SUBCMD_CANCEL_CONFIG),
           vendor_data nl
             (or_fail (rq_put_u8 nl RTT_ATTRIBUTE_TARGET_CNT num_devices)
              # map (put_cancelled nl addrs) [0..<num_devices])])"

definition wifi_rtt_range_cancel ::
  "'m libnl \<Rightarrow> wifi_iface option \<Rightarrow> nat \<Rightarrow> bytes list \<Rightarrow> (int \<times> 'm list) result" where
  "wifi_rtt_range_cancel nl iface num_devices addrs =
     for_iface nl iface (\<lambda>i.
       if num_devices = 0 then Inr (nl_code nl WIFI_ERROR_INVALID_ARGS, [])
       else request_response nl (wi_family i) (RttCancel_create nl (wi_id i) num_devices addrs))"

section \<open>Results\<close>

definition DOT11_HDR_LEN :: nat where "DOT11_HDR_LEN = 2"
definition DOT11_MNG_MEASURE_REQUEST_ID :: u8 where "DOT11_MNG_MEASURE_REQUEST_ID = 38"
definition DOT11_MEASURE_TYPE_LCI :: u8 where "DOT11_MEASURE_TYPE_LCI = 8"
definition DOT11_MEASURE_TYPE_CIVICLOC :: u8 where "DOT11_MEASURE_TYPE_CIVICLOC = 11"

definition MAX_RESULTS :: nat where "MAX_RESULTS = 1024"

text \<open>
  A result is the block that has been copied from the message. Its pointers to the location elements
  are either the bytes of the message or point into the block.
\<close>

datatype ie_pointer = AsSent | Inside nat

record wifi_rtt_result =
  res_block :: bytes
  res_LCI :: ie_pointer
  res_LCR :: ie_pointer

text \<open>The fields \<open>id\<close>, \<open>len\<close> and \<open>type\<close> of the packed \<open>dot11_rm_ie_t\<close> at an offset of the block.\<close>

definition ie_id :: "bytes \<Rightarrow> nat \<Rightarrow> u8 result" where "ie_id b i = rd8 b i"
definition ie_len :: "bytes \<Rightarrow> nat \<Rightarrow> nat result" where "ie_len b i = bindE (rd8 b (i + 1)) (\<lambda>x. Inr (unat x))"
definition ie_type :: "bytes \<Rightarrow> nat \<Rightarrow> u8 result" where "ie_type b i = rd8 b (i + 4)"

text \<open>The element behind the first one, if it is of type \<open>t\<close>; \<open>left\<close> is the length from the first one on.\<close>

definition next_element :: "bytes \<Rightarrow> nat \<Rightarrow> nat \<Rightarrow> u8 \<Rightarrow> nat option result" where
  "next_element b off left t =
     bindE (ie_len b off) (\<lambda>len.
     if int left - int (len + DOT11_HDR_LEN) \<le> 0 then Inr None
     else
       let off2 = off + (len + DOT11_HDR_LEN)
       in bindE (ie_id b off2) (\<lambda>id2.
          if id2 \<noteq> DOT11_MNG_MEASURE_REQUEST_ID then Inr None
          else bindE (ie_type b off2) (\<lambda>ty2. Inr (if ty2 = t then Some off2 else None))))"

definition inside_or :: "ie_pointer \<Rightarrow> nat option \<Rightarrow> ie_pointer" where
  "inside_or p x = (case x of None \<Rightarrow> p | Some i \<Rightarrow> Inside i)"

text \<open>The search for the trailing elements; \<open>sz\<close> is \<open>sizeof(wifi_rtt_result)\<close>.\<close>

definition patch_pointers :: "nat \<Rightarrow> bytes \<Rightarrow> wifi_rtt_result result" where
  "patch_pointers sz b =
     (let r = \<lparr>res_block = b, res_LCI = AsSent, res_LCR = AsSent\<rparr>
      in if length b \<le> sz then Inr r
         else bindE (ie_id b sz) (\<lambda>i.
         if i \<noteq> DOT11_MNG_MEASURE_REQUEST_ID then Inr r
         else bindE (ie_type b sz) (\<lambda>ty.
         if ty = DOT11_MEASURE_TYPE_LCI then
           bindE (next_element b sz (length b - sz) DOT11_MEASURE_TYPE_CIVICLOC) (\<lambda>x.
           Inr (r\<lparr>res_LCI := Inside sz, res_LCR := inside_or AsSent x\<rparr>))
         else if ty = DOT11_MEASURE_TYPE_CIVICLOC then
           bindE (next_element b sz (length b - sz) DOT11_MEASURE_TYPE_LCI) (\<lambda>x.
           Inr (r\<lparr>res_LCR := Inside sz, res_LCI := inside_or AsSent x\<rparr>))
         else Inr r)))"

text \<open>
  The loop over the attributes of the event, with the number of results that the driver announces and
  the results so far, of which the array has room for \<open>MAX_RESULTS\<close>.
\<close>

fun rtt_results ::
  "(nat \<Rightarrow> bool) \<Rightarrow> nat \<Rightarrow> (nat \<times> bytes) list \<Rightarrow> nat \<Rightarrow> wifi_rtt_result list \<Rightarrow> (nat \<times> wifi_rtt_result list) result" where
  "rtt_results malloc sz [] cnt rs = Inr (cnt, rs)"
| "rtt_results malloc sz ((t, b) # as) cnt rs =
     (if t = RTT_ATTRIBUTE_RESULT_CNT then bindE (rd_num 4 b 0) (\<lambda>n. rtt_results malloc sz as n rs)
      else if t = RTT_ATTRIBUTE_RESULT then
        (if b = [] then Inr (cnt, rs)
         else if MAX_RESULTS \<le> length rs then Inl UB
         else if \<not> malloc (length b) then Inr (cnt, rs)
         else bindE (patch_pointers sz b) (\<lambda>r. rtt_results malloc sz as cnt (rs @ [r])))
      else rtt_results malloc sz as cnt rs)"

section \<open>Capabilities\<close>

definition RttGetCapabilities_create where
  "RttGetCapabilities_create nl iface = rq_create_vendor nl iface GOOGLE_OUI RTT_SUBCMD_GETCAPABILITY"

text \<open>The vendor and the subcommand of an answer are read, for the log.\<close>

definition log_ids :: "'m libnl \<Rightarrow> nl_attrs \<Rightarrow> 'a result \<Rightarrow> 'a result" where
  "log_ids nl tb f =
     bindE (ev_u32 tb (NL80211_ATTR_VENDOR_ID nl)) (\<lambda>_.
     bindE (ev_u32 tb (NL80211_ATTR_VENDOR_SUBCMD nl)) (\<lambda>_. f))"

text \<open>The bytes of the answer, as many as the caller's struct has.\<close>

definition RttGetCapabilities_handleResponse ::
  "'m libnl \<Rightarrow> nat \<Rightarrow> nl_attrs \<Rightarrow> bytes \<Rightarrow> bytes result" where
  "RttGetCapabilities_handleResponse nl cmd tb caps =
     (if cmd \<noteq> NL80211_CMD_VENDOR nl then Inr caps
      else log_ids nl tb
        (case tb (NL80211_ATTR_VENDOR_DATA nl) of
           None \<Rightarrow> Inr caps
         | Some d \<Rightarrow> if d = [] then Inr caps else memcpy caps (Some d) (min (length d) (length caps))))"

end
