(* ===== verification/WifiMonitor.thy ===== *)
theory WifiMonitor
  imports WifiRtt WifiTables
begin

text \<open>
  The commands that outlive the call that starts them (\<open>wlan/wifi_hal/wifi_hal.cpp\<close> and \<open>wifi_rtt.cpp\<close>):
  monitoring the signal strength, ranging, and the handler of subsystem restarts. Each is an object
  on the heap, entered into the tables of the HAL, and freed when its last reference is released. The
  objects are a parameter \<open>heap\<close>; what happens to their references is the list of actions returned.
\<close>

definition WIFI_EVENT_RSSI_MONITOR :: int where "WIFI_EVENT_RSSI_MONITOR = 7"
definition RTT_EVENT_COMPLETE :: int where "RTT_EVENT_COMPLETE = 4"
definition MTK_EVENT_RESET_TRIGGERED :: int where "MTK_EVENT_RESET_TRIGGERED = 15"
definition HAL_SUBSYSTEM_RESET_ID :: int where "HAL_SUBSYSTEM_RESET_ID = 0"

abbreviation google :: u32 where "google \<equiv> word_of_nat GOOGLE_OUI"
abbreviation mediatek :: u32 where "mediatek \<equiv> word_of_nat OUI_MTK"

section \<open>The objects\<close>

record interface_info =
  ii_family :: nat
  ii_name :: string
  ii_id :: int

text \<open>The name and the number of the interface are those it had when the command was made.\<close>

record rssi_monitor =
  rm_family :: nat
  rm_max_rssi :: int
  rm_min_rssi :: int
  rm_iface_name :: string
  rm_iface_id :: int

record rtt_request =
  rt_family :: nat
  rt_iface_id :: int
  rt_configs :: "wifi_rtt_config list"

datatype wifi_object =
    RssiMonitor rssi_monitor
  | RttRequest rtt_request
  | RestartHandler int

definition new_rssi_monitor :: "interface_info \<Rightarrow> int \<Rightarrow> int \<Rightarrow> rssi_monitor" where
  "new_rssi_monitor i max_rssi min_rssi =
     \<lparr>rm_family = ii_family i, rm_max_rssi = max_rssi, rm_min_rssi = min_rssi,
      rm_iface_name = name_buffer (ii_name i), rm_iface_id = ii_id i\<rparr>"

section \<open>Starting\<close>

text \<open>A state with the messages that have been sent on the way.\<close>

type_synonym ('f, 'c, 'm) started = "(int \<times> ('f, 'c) hal_tables \<times> 'm list) result"

text \<open>
  \<open>SetRSSIMonitorCommand::start\<close>. The result of registering the handler is not kept, so the branch that
  takes it back is never taken.
\<close>

definition SetRSSIMonitor_start ::
  "'m libnl \<Rightarrow> rssi_monitor \<Rightarrow> 'f \<Rightarrow> 'c \<Rightarrow> ('f, 'c) hal_tables \<Rightarrow> ('f, 'c, 'm) started" where
  "SetRSSIMonitor_start nl m f c info =
     bindE (SetRSSIMonitor_createRequest nl (rm_iface_id m) (rm_max_rssi m) (rm_min_rssi m) 1
              (new_request (rm_family m))) (\<lambda>(result, r).
     if result < 0 then Inr (result, info, [])
     else bindE (send_request nl r) (\<lambda>(result, sent).
     if result < 0 then Inr (result, info, sent)
     else bindE (wifi_register_vendor_handler nl google WIFI_EVENT_RSSI_MONITOR (Some f) (Some c)
                   (Some (rm_iface_name m)) info) (\<lambda>(_, info).
     if result < 0 then
       bindE (wifi_unregister_vendor_handler nl google WIFI_EVENT_RSSI_MONITOR (Some (rm_iface_name m)) info)
         (\<lambda>info. Inr (result, info, sent))
     else Inr (result, info, sent))))"

text \<open>\<open>RttRequestCommand::start\<close>, which registers the handler first, without a name.\<close>

definition RttRequest_start ::
  "'m libnl \<Rightarrow> rtt_request \<Rightarrow> 'f \<Rightarrow> 'c \<Rightarrow> ('f, 'c) hal_tables \<Rightarrow> ('f, 'c, 'm) started" where
  "RttRequest_start nl q f c info =
     bindE (wifi_register_vendor_handler nl google RTT_EVENT_COMPLETE (Some f) (Some c) None info) (\<lambda>(_, info).
     bindE (request_response nl (rt_family q) (RttRequest_create nl (rt_iface_id q) (rt_configs q))) (\<lambda>(result, sent).
     if result \<noteq> nl_code nl WIFI_SUCCESS then Inr (result, info, sent)
     else Inr (nl_code nl WIFI_SUCCESS, info, sent)))"

text \<open>\<open>SetSubsystemRestartHandlerCommand::start\<close>\<close>

definition SetSubsystemRestartHandler_start ::
  "'m libnl \<Rightarrow> 'f \<Rightarrow> 'c \<Rightarrow> ('f, 'c) hal_tables \<Rightarrow> ('f, 'c, 'm) started" where
  "SetSubsystemRestartHandler_start nl f c info =
     bindE (wifi_register_vendor_handler nl mediatek MTK_EVENT_RESET_TRIGGERED (Some f) (Some c) None info) (\<lambda>(e, info).
     if nl_code nl e < 0 then
       bindE (wifi_unregister_vendor_handler nl mediatek MTK_EVENT_RESET_TRIGGERED None info)
         (\<lambda>info. Inr (nl_code nl e, info, []))
     else Inr (nl_code nl e, info, []))"

text \<open>
  The part that \<open>wifi_start_rssi_monitoring\<close>, \<open>wifi_rtt_range_request\<close> and
  \<open>wifi_set_subsystem_restart_handler\<close> share: the new object \<open>c\<close> is entered into the table of commands and
  started; when either fails it is taken out again, by its number, and released.
\<close>

type_synonym ('f, 'c, 'm) outcome = "(int \<times> ('f, 'c) hal_tables \<times> ('f, 'c) cb_action list \<times> 'm list) result"

definition start_registered ::
  "'m libnl \<Rightarrow> int \<Rightarrow> 'c \<Rightarrow> (('f, 'c) hal_tables \<Rightarrow> ('f, 'c, 'm) started) \<Rightarrow> ('f, 'c) hal_tables
     \<Rightarrow> ('f, 'c, 'm) outcome" where
  "start_registered nl i c start info =
     bindE (wifi_register_cmd i (Some c) info) (\<lambda>(e, info).
     if e \<noteq> WIFI_SUCCESS then Inr (nl_code nl e, info, [ReleaseRef c], [])
     else bindE (start info) (\<lambda>(result, info, sent).
     if result \<noteq> nl_code nl WIFI_SUCCESS then
       bindE (wifi_unregister_cmd i info) (\<lambda>(_, info). Inr (result, info, [ReleaseRef c], sent))
     else Inr (result, info, [], sent)))"

definition wifi_start_rssi_monitoring ::
  "'m libnl \<Rightarrow> int \<Rightarrow> interface_info option \<Rightarrow> int \<Rightarrow> int \<Rightarrow> 'f \<Rightarrow> 'c \<Rightarrow> ('f, 'c) hal_tables \<Rightarrow> ('f, 'c, 'm) outcome" where
  "wifi_start_rssi_monitoring nl i iface max_rssi min_rssi f c info =
     (case iface of
        None \<Rightarrow> Inr (nl_code nl WIFI_ERROR_INVALID_ARGS, info, [], [])
      | Some ii \<Rightarrow> start_registered nl i c (SetRSSIMonitor_start nl (new_rssi_monitor ii max_rssi min_rssi) f c) info)"

definition wifi_rtt_range_request ::
  "'m libnl \<Rightarrow> int \<Rightarrow> interface_info option \<Rightarrow> wifi_rtt_config list \<Rightarrow> 'f \<Rightarrow> 'c \<Rightarrow> ('f, 'c) hal_tables \<Rightarrow> ('f, 'c, 'm) outcome" where
  "wifi_rtt_range_request nl i iface configs f c info =
     (case iface of
        None \<Rightarrow> Inr (nl_code nl WIFI_ERROR_INVALID_ARGS, info, [], [])
      | Some ii \<Rightarrow>
          if configs = [] then Inr (nl_code nl WIFI_ERROR_INVALID_ARGS, info, [], [])
          else start_registered nl i c
                 (RttRequest_start nl \<lparr>rt_family = ii_family ii, rt_iface_id = ii_id ii, rt_configs = configs\<rparr> f c) info)"

definition wifi_set_subsystem_restart_handler ::
  "'m libnl \<Rightarrow> 'f \<Rightarrow> 'c \<Rightarrow> ('f, 'c) hal_tables \<Rightarrow> ('f, 'c, 'm) outcome" where
  "wifi_set_subsystem_restart_handler nl f c info =
     start_registered nl HAL_SUBSYSTEM_RESET_ID c (SetSubsystemRestartHandler_start nl f c) info"

section \<open>Cancelling\<close>

text \<open>\<open>SetRSSIMonitorCommand::cancel\<close>: the driver is only told while the interface is the one it was.\<close>

definition SetRSSIMonitor_cancel ::
  "'m libnl \<Rightarrow> rssi_monitor \<Rightarrow> ('f, 'c) hal_tables \<Rightarrow> (('f, 'c) hal_tables \<times> 'm list) result" where
  "SetRSSIMonitor_cancel nl m info =
     (let index = nl_if_index nl (cstr (rm_iface_name m));
          unregister = (\<lambda>sent. bindE (wifi_unregister_vendor_handler nl google WIFI_EVENT_RSSI_MONITOR
                                        (Some (rm_iface_name m)) info) (\<lambda>info. Inr (info, sent)))
      in if index = 0 \<or> int index \<noteq> rm_iface_id m then unregister []
         else bindE (SetRSSIMonitor_createRequest nl (int index) (rm_max_rssi m) (rm_min_rssi m) 0
                       (new_request (rm_family m))) (\<lambda>(result, r).
              if result \<noteq> nl_code nl WIFI_SUCCESS then unregister []
              else bindE (send_request nl r) (\<lambda>(_, sent). unregister sent)))"

text \<open>\<open>RttRequestCommand::cancel\<close>, which leaves the handler when the message cannot be made.\<close>

definition RttRequest_cancel ::
  "'m libnl \<Rightarrow> rtt_request \<Rightarrow> ('f, 'c) hal_tables \<Rightarrow> (('f, 'c) hal_tables \<times> 'm list) result" where
  "RttRequest_cancel nl q info =
     bindE (RttRequest_cancel_create nl (rt_iface_id q) (new_request (rt_family q))) (\<lambda>(result, r).
     if result < 0 then Inr (info, [])
     else bindE (send_request nl r) (\<lambda>(_, sent).
     bindE (wifi_unregister_vendor_handler nl google RTT_EVENT_COMPLETE None info) (\<lambda>info. Inr (info, sent))))"

definition SetSubsystemRestartHandler_cancel ::
  "'m libnl \<Rightarrow> int \<Rightarrow> ('f, 'c) hal_tables \<Rightarrow> (('f, 'c) hal_tables \<times> 'm list) result" where
  "SetSubsystemRestartHandler_cancel nl i info =
     bindE (wifi_unregister_vendor_handler nl mediatek MTK_EVENT_RESET_TRIGGERED None info) (\<lambda>info.
     bindE (wifi_unregister_cmd i info) (\<lambda>(_, info). Inr (info, [])))"

text \<open>The virtual function \<open>cancel\<close>; a pointer to no object is dereferenced.\<close>

definition cancel_object ::
  "'m libnl \<Rightarrow> ('c \<Rightarrow> wifi_object option) \<Rightarrow> 'c \<Rightarrow> ('f, 'c) hal_tables
     \<Rightarrow> (('f, 'c) hal_tables \<times> 'm list) result" where
  "cancel_object nl heap c info =
     (case heap c of
        None \<Rightarrow> Inl UB
      | Some (RssiMonitor m) \<Rightarrow> SetRSSIMonitor_cancel nl m info
      | Some (RttRequest q) \<Rightarrow> RttRequest_cancel nl q info
      | Some (RestartHandler i) \<Rightarrow> SetSubsystemRestartHandler_cancel nl i info)"

definition wifi_cancel_cmd ::
  "'m libnl \<Rightarrow> ('c \<Rightarrow> wifi_object option) \<Rightarrow> int \<Rightarrow> ('f, 'c) hal_tables \<Rightarrow> ('f, 'c, 'm) outcome" where
  "wifi_cancel_cmd nl heap i info =
     bindE (wifi_unregister_cmd i info) (\<lambda>(cmd, info).
     case cmd of
       None \<Rightarrow> Inr (nl_code nl WIFI_ERROR_INVALID_ARGS, info, [], [])
     | Some c \<Rightarrow> bindE (cancel_object nl heap c info) (\<lambda>(info, sent).
         Inr (nl_code nl WIFI_SUCCESS, info, [ReleaseRef c], sent)))"

text \<open>The number \<open>-1\<close> stands for whatever monitors this interface.\<close>

definition wifi_stop_rssi_monitoring ::
  "'m libnl \<Rightarrow> ('c \<Rightarrow> wifi_object option) \<Rightarrow> int \<Rightarrow> interface_info option \<Rightarrow> ('f, 'c) hal_tables
     \<Rightarrow> ('f, 'c, 'm) outcome" where
  "wifi_stop_rssi_monitoring nl heap i iface info =
     (case iface of
        None \<Rightarrow> Inr (nl_code nl WIFI_ERROR_INVALID_ARGS, info, [], [])
      | Some ii \<Rightarrow>
          if i = - 1 then
            bindE (SetRSSIMonitor_cancel nl (new_rssi_monitor ii 0 0) info) (\<lambda>(info, sent).
            Inr (nl_code nl WIFI_SUCCESS, info, [], sent))
          else wifi_cancel_cmd nl heap i info)"

section \<open>Cleaning up\<close>

text \<open>
  The loop of \<open>wifi_cleanup\<close> over the commands that are left, from the first one that has not proved to be
  bad; a null pointer in the table is asked for again and again.
\<close>

fun cleanup_commands ::
  "nat \<Rightarrow> 'm libnl \<Rightarrow> ('c \<Rightarrow> wifi_object option) \<Rightarrow> nat \<Rightarrow> ('f, 'c) hal_tables
     \<Rightarrow> (('f, 'c) hal_tables \<times> ('f, 'c) cb_action list) result" where
  "cleanup_commands 0 nl heap bad info = Inl Diverges"
| "cleanup_commands (Suc fuel) nl heap bad info =
     (if num_cmd info \<le> bad then Inr (info, [])
      else bindE (arr_at (hal_cmd info) bad) (\<lambda>cmdi.
      case ci_cmd cmdi of
        None \<Rightarrow> cleanup_commands fuel nl heap bad info
      | Some c \<Rightarrow>
          bindE (cancel_object nl heap c info) (\<lambda>(info', _).
          bindE (cleanup_commands fuel nl heap
                   (if num_cmd info' = num_cmd info then bad + 1 else bad) info') (\<lambda>(info'', acts).
          Inr (info'', ReleaseRef c # acts)))))"

section \<open>Events\<close>

text \<open>
  \<open>SetRSSIMonitorCommand::handleEvent\<close>: what the callback is given, the address and the signal strength.
  The vendor data is an attribute in turn: its length, its type and the \<open>rssi_monitor_evt\<close>.
\<close>

definition RSSI_MONITOR_EVT_VERSION :: u8 where "RSSI_MONITOR_EVT_VERSION = 1"

definition SetRSSIMonitor_handleEvent :: "bool \<Rightarrow> bytes option \<Rightarrow> (bytes \<times> int) option result" where
  "SetRSSIMonitor_handleEvent has_callback vendor =
     (case vendor of
        None \<Rightarrow> Inr None
      | Some d \<Rightarrow>
          if d = [] then Inr None
          else bindE (rd_num 2 d 2) (\<lambda>ty.
          if int ty \<noteq> WIFI_EVENT_RSSI_MONITOR then Inr None
          else bindE (rd8 d 4) (\<lambda>version.
               bindE (rd8 d 5) (\<lambda>rssi.
               bindE (rd_bytes d 6 6) (\<lambda>bssid.
               if version \<noteq> RSSI_MONITOR_EVT_VERSION then Inr None
               else Inr (if has_callback then Some (bssid, sint rssi) else None))))))"

text \<open>
  \<open>RttRequestCommand::handleEvent\<close> of the command \<open>c\<close> with number \<open>i\<close>: the results for the callback, the
  handler and the command out of their tables, and the reference of the table released. An event
  without data is ignored.
\<close>

definition RttRequest_handleEvent ::
  "'m libnl \<Rightarrow> nat \<Rightarrow> int \<Rightarrow> (bytes \<Rightarrow> (nat \<times> bytes) list) \<Rightarrow> bytes option \<Rightarrow> ('f, 'c) hal_tables
     \<Rightarrow> (wifi_rtt_result list option \<times> ('f, 'c) hal_tables \<times> ('f, 'c) cb_action list) result" where
  "RttRequest_handleEvent nl sz i nested vendor info =
     (case vendor of
        None \<Rightarrow> Inr (None, info, [])
      | Some d \<Rightarrow>
          if d = [] then Inr (None, info, [])
          else
            bindE (rtt_results (nl_malloc nl) sz (nested d) 0 []) (\<lambda>(_, rs).
            bindE (wifi_unregister_vendor_handler nl google RTT_EVENT_COMPLETE None info) (\<lambda>info.
            bindE (wifi_unregister_cmd i info) (\<lambda>(cmd, info).
            Inr (Some rs, info, case cmd of None \<Rightarrow> [] | Some c \<Rightarrow> [ReleaseRef c])))))"

end
