(* ===== verification/WifiReplies.thy ===== *)
theory WifiReplies
  imports WifiRtt
begin

text \<open>
  The answers of the driver to the queries of \<open>wlan/wifi_hal/wifi_hal.cpp\<close>: the functions
  \<open>handleResponse\<close>, which fill in what the caller has passed. An answer is its generic netlink command
  and its attributes; \<open>nested\<close> is libnl's iteration over the attributes inside another one. The
  structures of the platform are arrays of bytes or the values of their fields.
\<close>

section \<open>Answers\<close>

text \<open>
  Only a vendor command with vendor data is looked at; otherwise what is passed stays as it is.
\<close>

definition on_vendor_data ::
  "'m libnl \<Rightarrow> nat \<Rightarrow> nl_attrs \<Rightarrow> 's \<Rightarrow> (bytes \<Rightarrow> 's result) \<Rightarrow> 's result" where
  "on_vendor_data nl cmd tb s f =
     (if cmd \<noteq> NL80211_CMD_VENDOR nl then Inr s
      else case tb (NL80211_ATTR_VENDOR_DATA nl) of
          None \<Rightarrow> Inr s
        | Some d \<Rightarrow> if d = [] then Inr s else f d)"

definition on_logged_vendor_data ::
  "'m libnl \<Rightarrow> nat \<Rightarrow> nl_attrs \<Rightarrow> 's \<Rightarrow> (bytes \<Rightarrow> 's result) \<Rightarrow> 's result" where
  "on_logged_vendor_data nl cmd tb s f =
     (if cmd \<noteq> NL80211_CMD_VENDOR nl then Inr s
      else log_ids nl tb (on_vendor_data nl cmd tb s f))"

text \<open>An attribute: its type and its data.\<close>

type_synonym nl_nested = "bytes \<Rightarrow> (nat \<times> bytes) list"

section \<open>Features and roaming\<close>

text \<open>\<open>GetFeatureSetCommand\<close> for the feature set, a number of 64 bits; \<open>None\<close> for a null pointer.\<close>

definition GetFeatureSet_handleResponse ::
  "'m libnl \<Rightarrow> nat \<Rightarrow> nl_attrs \<Rightarrow> bytes option \<Rightarrow> bytes option result" where
  "GetFeatureSet_handleResponse nl cmd tb fset =
     on_logged_vendor_data nl cmd tb fset (\<lambda>d.
       case fset of
         None \<Rightarrow> Inr None
       | Some s \<Rightarrow> bindE (memcpy s (Some d) (min (length d) (length s))) (\<lambda>s. Inr (Some s)))"

text \<open>The same command for the capabilities of roaming, which are capped.\<close>

definition roaming_attr ::
  "wifi_hw \<Rightarrow> nat \<times> bytes \<Rightarrow> wifi_roaming_capabilities \<Rightarrow> wifi_roaming_capabilities result" where
  "roaming_attr hw a cap =
     (if fst a = WIFI_ATTRIBUTE_ROAMING_BLACKLIST_NUM then
        bindE (rd_num 4 (snd a) 0) (\<lambda>n. Inr (cap\<lparr>max_blacklist_size := min n (MAX_BLACKLIST_BSSID hw)\<rparr>))
      else if fst a = WIFI_ATTRIBUTE_ROAMING_WHITELIST_NUM then
        bindE (rd_num 4 (snd a) 0) (\<lambda>n. Inr (cap\<lparr>max_whitelist_size := min n (MAX_WHITELIST_SSID hw)\<rparr>))
      else Inr cap)"

definition GetRoaming_handleResponse ::
  "'m libnl \<Rightarrow> wifi_hw \<Rightarrow> nl_nested \<Rightarrow> nat \<Rightarrow> nl_attrs \<Rightarrow> wifi_roaming_capabilities
     \<Rightarrow> wifi_roaming_capabilities result" where
  "GetRoaming_handleResponse nl hw nested cmd tb caps =
     on_logged_vendor_data nl cmd tb caps (\<lambda>d.
       foldE (roaming_attr hw) (nested d) \<lparr>max_blacklist_size = 0, max_whitelist_size = 0\<rparr>)"

text \<open>
  \<open>wifi_get_roaming_capabilities\<close>: the driver is asked the first time, and its answers \<open>replies\<close> are kept
  if the request succeeds. \<open>capa\<close> is what is kept, \<open>caps\<close> the struct of the caller.
\<close>

definition wifi_get_roaming_capabilities ::
  "'m libnl \<Rightarrow> wifi_hw \<Rightarrow> nl_nested \<Rightarrow> wifi_iface option \<Rightarrow> (nat \<times> nl_attrs) list
     \<Rightarrow> wifi_roaming_capabilities \<Rightarrow> wifi_roaming_capabilities
     \<Rightarrow> (int \<times> wifi_roaming_capabilities \<times> wifi_roaming_capabilities) result" where
  "wifi_get_roaming_capabilities nl hw nested iface replies capa caps =
     (case iface of
        None \<Rightarrow> Inr (nl_code nl WIFI_ERROR_INVALID_ARGS, capa, caps)
      | Some i \<Rightarrow>
          if max_blacklist_size capa = 0 \<and> max_whitelist_size capa = 0 then
            bindE (request_response nl (wi_family i) (GetFeatureSet_create nl (wi_id i) RoamingCapabilities)) (\<lambda>(ret, sent).
            bindE (if sent = [] then Inr caps
                   else foldE (\<lambda>(cmd, tb). GetRoaming_handleResponse nl hw nested cmd tb) replies caps) (\<lambda>caps.
            Inr (ret, if ret = nl_code nl WIFI_SUCCESS then caps else capa, caps)))
          else Inr (nl_code nl WIFI_SUCCESS, capa, capa))"

section \<open>Channels\<close>

text \<open>
  \<open>GetChannelListCommand\<close>: \<open>cl_num\<close> is the variable of the loop, \<open>cl_count\<close> and \<open>cl_channels\<close> what the
  caller passes. The announced number is read as an \<open>int\<close> and multiplied as a \<open>size_t\<close>.
\<close>

record channel_list =
  cl_num :: int
  cl_count :: int
  cl_channels :: bytes

definition channel_attr :: "int \<Rightarrow> nat \<times> bytes \<Rightarrow> channel_list \<Rightarrow> channel_list result" where
  "channel_attr max_channels a s =
     (if fst a = WIFI_ATTRIBUTE_NUM_CHANNELS then
        bindE (rd_num 4 (snd a) 0) (\<lambda>n.
        let num = min (sint (word_of_nat n :: u32)) max_channels
        in Inr (s\<lparr>cl_num := num, cl_count := num\<rparr>))
      else if fst a = WIFI_ATTRIBUTE_CHANNEL_LIST \<and> cl_num s \<noteq> 0 then
        bindE (if cl_num s < 0 then Inl UB
               else memcpy (cl_channels s) (Some (snd a)) (4 * nat (cl_num s))) (\<lambda>c.
        Inr (s\<lparr>cl_channels := c\<rparr>))
      else Inr s)"

definition GetChannelList_handleResponse ::
  "'m libnl \<Rightarrow> nl_nested \<Rightarrow> int \<Rightarrow> nat \<Rightarrow> nl_attrs \<Rightarrow> int \<times> bytes \<Rightarrow> (int \<times> bytes) result" where
  "GetChannelList_handleResponse nl nested max_channels cmd tb out =
     on_logged_vendor_data nl cmd tb out (\<lambda>d.
       bindE (foldE (channel_attr max_channels) (nested d)
                \<lparr>cl_num = 0, cl_count = fst out, cl_channels = snd out\<rparr>) (\<lambda>s.
       Inr (cl_count s, cl_channels s)))"

text \<open>
  \<open>GetUsableChannelCommand\<close>: one attribute with the number of channels and the channels, of \<open>usz\<close> bytes
  each, behind a header of \<open>uoff\<close> bytes. The length that the attribute gives is an \<open>int\<close> compared as a \<open>size_t\<close>.
\<close>

definition to_size_t :: "int \<Rightarrow> nat" where
  "to_size_t i = nat (i mod 2 ^ 64)"

definition GetUsableChannel_handleResponse ::
  "'m libnl \<Rightarrow> nat \<Rightarrow> nat \<Rightarrow> nat \<Rightarrow> nl_attrs \<Rightarrow> nat \<times> bytes \<Rightarrow> (nat \<times> bytes) result" where
  "GetUsableChannel_handleResponse nl uoff usz cmd tb out =
     on_vendor_data nl cmd tb out (\<lambda>d.
       bindE (rd_num 2 d 2) (\<lambda>ty.
       if ty \<noteq> WIFI_ATTRIBUTE_USABLE_CHANNEL_RESP_ARRAY then Inr out
       else bindE (rd_num 2 d 0) (\<lambda>nla_len.
       let len = to_size_t (int nla_len - 4)
       in if len < 2 then Inr out
          else bindE (rd_num 2 d 4) (\<lambda>n.
          if len < usz * n + uoff then Inr out
          else bindE (memcpy (snd out) (if 4 + uoff \<le> length d then Some (drop (4 + uoff) d) else None) (usz * n)) (\<lambda>c.
               Inr (n, c))))))"

section \<open>Packet filter\<close>

record apf_out =
  apf_version :: nat
  apf_max_len :: nat
  apf_program :: bytes

text \<open>The length that the caller asks for, not that of the attribute, is copied.\<close>

definition apf_attr :: "apf_request \<Rightarrow> nat \<Rightarrow> nat \<times> bytes \<Rightarrow> apf_out \<Rightarrow> apf_out result" where
  "apf_attr req program_len a s =
     (case req of
        SetApfProgram _ _ \<Rightarrow> Inr s
      | GetApfCapabilities \<Rightarrow>
          if fst a = MTK_APF_ATTRIBUTE_VERSION then
            bindE (rd_num 4 (snd a) 0) (\<lambda>n. Inr (s\<lparr>apf_version := n\<rparr>))
          else if fst a = MTK_APF_ATTRIBUTE_MAX_LEN then
            bindE (rd_num 4 (snd a) 0) (\<lambda>n. Inr (s\<lparr>apf_max_len := n\<rparr>))
          else Inr s
      | ReadApfProgram \<Rightarrow>
          if fst a = MTK_APF_ATTRIBUTE_PROGRAM then
            bindE (memcpy (apf_program s) (Some (snd a)) program_len) (\<lambda>p. Inr (s\<lparr>apf_program := p\<rparr>))
          else if fst a = MTK_APF_ATTRIBUTE_PROGRAM_LEN then
            bindE (rd_num 4 (snd a) 0) (\<lambda>_. Inr s)
          else Inr s)"

definition AndroidPacketFilter_handleResponse ::
  "'m libnl \<Rightarrow> nl_nested \<Rightarrow> apf_request \<Rightarrow> nat \<Rightarrow> nat \<Rightarrow> nl_attrs \<Rightarrow> apf_out \<Rightarrow> apf_out result" where
  "AndroidPacketFilter_handleResponse nl nested req program_len cmd tb s =
     on_logged_vendor_data nl cmd tb s (\<lambda>d.
       foldE (apf_attr req program_len) (nested d)
         (if req = GetApfCapabilities then s\<lparr>apf_version := 0, apf_max_len := 0\<rparr> else s))"

section \<open>Chip\<close>

record wifi_chip_capabilities =
  max_mlo_association_link_count :: nat
  max_mlo_str_link_count :: nat
  max_concurrent_tdls_session_count :: nat

definition RESP_MAX_MLO_ASSOCIATION_LINK_COUNT :: nat where "RESP_MAX_MLO_ASSOCIATION_LINK_COUNT = 1"
definition RESP_MAX_MLO_STR_LINK_COUNT :: nat where "RESP_MAX_MLO_STR_LINK_COUNT = 2"
definition RESP_MAX_CONCURRENT_TDLS_SESSION_COUNT :: nat where "RESP_MAX_CONCURRENT_TDLS_SESSION_COUNT = 3"

definition chip_attr ::
  "nat \<times> bytes \<Rightarrow> wifi_chip_capabilities \<Rightarrow> wifi_chip_capabilities result" where
  "chip_attr a c =
     (if fst a = RESP_MAX_MLO_ASSOCIATION_LINK_COUNT then
        bindE (rd_num 4 (snd a) 0) (\<lambda>n. Inr (c\<lparr>max_mlo_association_link_count := n\<rparr>))
      else if fst a = RESP_MAX_MLO_STR_LINK_COUNT then
        bindE (rd_num 4 (snd a) 0) (\<lambda>n. Inr (c\<lparr>max_mlo_str_link_count := n\<rparr>))
      else if fst a = RESP_MAX_CONCURRENT_TDLS_SESSION_COUNT then
        bindE (rd_num 4 (snd a) 0) (\<lambda>n. Inr (c\<lparr>max_concurrent_tdls_session_count := n\<rparr>))
      else Inr c)"

definition GetChipCapabilities_handleResponse ::
  "'m libnl \<Rightarrow> nl_nested \<Rightarrow> nat \<Rightarrow> nl_attrs \<Rightarrow> wifi_chip_capabilities
     \<Rightarrow> wifi_chip_capabilities result" where
  "GetChipCapabilities_handleResponse nl nested cmd tb c =
     on_vendor_data nl cmd tb c (\<lambda>d.
       foldE chip_attr (nested d)
         \<lparr>max_mlo_association_link_count = 2 ^ 32 - 1, max_mlo_str_link_count = 2 ^ 32 - 1,
          max_concurrent_tdls_session_count = 2 ^ 32 - 1\<rparr>)"

text \<open>\<open>GetChipConcurrencyMatrixCommand\<close>; an attribute that is too long ends the loop.\<close>

definition matrix_attr :: "nat \<times> bytes \<Rightarrow> bytes \<Rightarrow> (bytes, unit) ctl result" where
  "matrix_attr a m =
     (if fst a = WIFI_ATTRIBUTE_CONCURRENCY_MATRIX then
        if length (snd a) \<le> length m then
          bindE (memcpy m (Some (snd a)) (length (snd a))) (\<lambda>m. Inr (Next m))
        else Inr (Break m)
      else Inr (Next m))"

definition GetChipConcurrencyMatrix_handleResponse ::
  "'m libnl \<Rightarrow> nl_nested \<Rightarrow> nat \<Rightarrow> nl_attrs \<Rightarrow> bytes \<Rightarrow> bytes result" where
  "GetChipConcurrencyMatrix_handleResponse nl nested cmd tb m =
     on_vendor_data nl cmd tb m (\<lambda>d.
       bindE (loopE matrix_attr (nested d) (replicate (length m) 0)) (\<lambda>c. Inr (ctl_state c)))"

section \<open>Logger, alerts and offloaded packets\<close>

text \<open>
  Versions and memory dumps (\<open>wlan/wifi_hal/wifi_logger.cpp\<close>) and keep-alive packets
  (\<open>wlan/wifi_hal/wifi_offload.cpp\<close>). Null pointers of the caller are \<open>None\<close>.
\<close>

subsection \<open>Versions\<close>

definition LOGGER_GET_VER :: nat where "LOGGER_GET_VER = 0x1401"
definition LOGGER_DRIVER_MEM_DUMP :: nat where "LOGGER_DRIVER_MEM_DUMP = 0x1402"
definition LOGGER_ATTRIBUTE_DRIVER_VER :: nat where "LOGGER_ATTRIBUTE_DRIVER_VER = 1"
definition LOGGER_ATTRIBUTE_FW_VER :: nat where "LOGGER_ATTRIBUTE_FW_VER = 2"

datatype version_kind = GET_FW_VER | GET_DRV_VER

definition DebugCommand_createRequest ::
  "'m libnl \<Rightarrow> int \<Rightarrow> version_kind \<Rightarrow> 'm WifiRequest \<Rightarrow> (int \<times> 'm WifiRequest) result" where
  "DebugCommand_createRequest nl iface kind =
     ending_with (nl_code nl WIFI_SUCCESS)
       (request_steps
          [unless_success nl (rq_create_vendor nl iface GOOGLE_OUI LOGGER_GET_VER),
           vendor_data_blind nl
             [unless_success nl (rq_put nl
                (if kind = GET_FW_VER then LOGGER_ATTRIBUTE_FW_VER else LOGGER_ATTRIBUTE_DRIVER_VER) [])]])"

text \<open>
  The buffer, of which the caller says that it has \<open>n\<close> bytes, is cleared and receives the answer; a
  longer answer is cut and leaves \<open>n\<close> as it is.
\<close>

definition DebugCommand_handleResponse ::
  "'m libnl \<Rightarrow> nat \<Rightarrow> nl_attrs \<Rightarrow> nat \<times> bytes \<Rightarrow> (nat \<times> bytes) result" where
  "DebugCommand_handleResponse nl cmd tb out =
     on_vendor_data nl cmd tb out (\<lambda>d.
       bindE (memcpy (snd out) (Some d) (min (length d) (fst out))) (\<lambda>b.
       Inr (if fst out < length d then fst out else length d, b)))"

definition get_version ::
  "'m libnl \<Rightarrow> wifi_iface option \<Rightarrow> bytes option \<Rightarrow> int \<Rightarrow> version_kind \<Rightarrow> (nat \<times> nl_attrs) list
     \<Rightarrow> (int \<times> bytes option) result" where
  "get_version nl iface buffer buffer_size kind replies =
     (case (iface, buffer) of
        (Some i, Some b) \<Rightarrow>
          if buffer_size \<le> 0 then Inr (nl_code nl WIFI_ERROR_INVALID_ARGS, Some b)
          else
            bindE (wr_bytes b 0 (replicate (nat buffer_size) 0)) (\<lambda>b.
            bindE (start_if_success nl (wi_family i) (DebugCommand_createRequest nl (wi_id i) kind)) (\<lambda>(ret, sent).
            bindE (if sent = [] then Inr (nat buffer_size, b)
                   else foldE (\<lambda>(cmd, tb). DebugCommand_handleResponse nl cmd tb) replies (nat buffer_size, b)) (\<lambda>(_, b).
            Inr (ret, Some b))))
      | _ \<Rightarrow> Inr (nl_code nl WIFI_ERROR_INVALID_ARGS, buffer))"

definition wifi_get_firmware_version where
  "wifi_get_firmware_version nl iface buffer buffer_size replies =
     get_version nl iface buffer buffer_size GET_FW_VER replies"

definition wifi_get_driver_version where
  "wifi_get_driver_version nl iface buffer buffer_size replies =
     get_version nl iface buffer buffer_size GET_DRV_VER replies"

subsection \<open>Memory dump\<close>

text \<open>What the callback is given.\<close>

definition MemoryDump_handleResponse :: "'m libnl \<Rightarrow> nat \<Rightarrow> nl_attrs \<Rightarrow> bool \<Rightarrow> bytes list \<Rightarrow> bytes list result" where
  "MemoryDump_handleResponse nl cmd tb has_callback dumps =
     on_vendor_data nl cmd tb dumps (\<lambda>d. Inr (if has_callback then dumps @ [d] else dumps))"

definition wifi_get_driver_memory_dump ::
  "'m libnl \<Rightarrow> wifi_iface option \<Rightarrow> bool \<Rightarrow> (nat \<times> nl_attrs) list \<Rightarrow> (int \<times> bytes list) result" where
  "wifi_get_driver_memory_dump nl iface has_callback replies =
     (case iface of
        None \<Rightarrow> Inr (nl_code nl WIFI_ERROR_INVALID_ARGS, [])
      | Some i \<Rightarrow>
          bindE (start_if_success nl (wi_family i)
                   (rq_create_vendor nl (wi_id i) GOOGLE_OUI LOGGER_DRIVER_MEM_DUMP)) (\<lambda>(ret, sent).
          bindE (if sent = [] then Inr []
                 else foldE (\<lambda>(cmd, tb). MemoryDump_handleResponse nl cmd tb has_callback) replies []) (\<lambda>dumps.
          Inr (ret, dumps))))"

subsection \<open>Keep-alive packets\<close>

definition WIFI_OFFLOAD_START_MKEEP_ALIVE :: nat where "WIFI_OFFLOAD_START_MKEEP_ALIVE = 0x1600"
definition WIFI_OFFLOAD_STOP_MKEEP_ALIVE :: nat where "WIFI_OFFLOAD_STOP_MKEEP_ALIVE = 0x1601"
definition MKEEP_ALIVE_ATTRIBUTE_ID :: nat where "MKEEP_ALIVE_ATTRIBUTE_ID = 1"
definition MKEEP_ALIVE_ATTRIBUTE_IP_PKT_LEN :: nat where "MKEEP_ALIVE_ATTRIBUTE_IP_PKT_LEN = 2"
definition MKEEP_ALIVE_ATTRIBUTE_IP_PKT :: nat where "MKEEP_ALIVE_ATTRIBUTE_IP_PKT = 3"
definition MKEEP_ALIVE_ATTRIBUTE_SRC_MAC_ADDR :: nat where "MKEEP_ALIVE_ATTRIBUTE_SRC_MAC_ADDR = 4"
definition MKEEP_ALIVE_ATTRIBUTE_DST_MAC_ADDR :: nat where "MKEEP_ALIVE_ATTRIBUTE_DST_MAC_ADDR = 5"
definition MKEEP_ALIVE_ATTRIBUTE_PERIOD_MSEC :: nat where "MKEEP_ALIVE_ATTRIBUTE_PERIOD_MSEC = 6"

record keep_alive =
  ka_ip_packet :: bytes
  ka_ip_packet_len :: nat
  ka_src_mac_addr :: bytes
  ka_dst_mac_addr :: bytes
  ka_period_msec :: nat

text \<open>
  The message that starts sending the packet, or stops it (\<open>None\<close>). The result of the last call is
  returned, and the caller sends the message only if it is \<open>WIFI_SUCCESS\<close>.
\<close>

definition MKeepAlive_createRequest ::
  "'m libnl \<Rightarrow> int \<Rightarrow> nat \<Rightarrow> keep_alive option \<Rightarrow> 'm WifiRequest \<Rightarrow> (int \<times> 'm WifiRequest) result" where
  "MKeepAlive_createRequest nl iface index ka =
     ending_with (nl_code nl WIFI_SUCCESS)
       (request_steps
          [unless_success nl (rq_create_vendor nl iface GOOGLE_OUI
             (if ka = None then WIFI_OFFLOAD_STOP_MKEEP_ALIVE else WIFI_OFFLOAD_START_MKEEP_ALIVE)),
           vendor_data nl
             (case ka of
                None \<Rightarrow> [unless_success nl (rq_put_u8 nl MKEEP_ALIVE_ATTRIBUTE_ID index)]
              | Some k \<Rightarrow>
                  [or_fail (rq_put_u8 nl MKEEP_ALIVE_ATTRIBUTE_ID index),
                   or_fail (rq_put_u16 nl MKEEP_ALIVE_ATTRIBUTE_IP_PKT_LEN (ka_ip_packet_len k)),
                   or_fail (rq_put_bytes nl MKEEP_ALIVE_ATTRIBUTE_IP_PKT (ka_ip_packet k) (ka_ip_packet_len k)),
                   or_fail (rq_put_bytes nl MKEEP_ALIVE_ATTRIBUTE_SRC_MAC_ADDR (ka_src_mac_addr k) 6),
                   or_fail (rq_put_bytes nl MKEEP_ALIVE_ATTRIBUTE_DST_MAC_ADDR (ka_dst_mac_addr k) 6),
                   unless_success nl (rq_put_u32 nl MKEEP_ALIVE_ATTRIBUTE_PERIOD_MSEC (ka_period_msec k))])])"

text \<open>The platform's bounds of the identifiers and of the packet.\<close>

record offload_hw =
  N_AVAIL_ID :: int
  MKEEP_ALIVE_IP_PKT_MAX :: nat

definition wifi_start_sending_offloaded_packet ::
  "'m libnl \<Rightarrow> offload_hw \<Rightarrow> int \<Rightarrow> wifi_iface option \<Rightarrow> bytes option \<Rightarrow> nat \<Rightarrow> bytes option \<Rightarrow> bytes option
     \<Rightarrow> nat \<Rightarrow> (int \<times> 'm list) result" where
  "wifi_start_sending_offloaded_packet nl hw i iface ip_packet ip_packet_len src dst period =
     (case (iface, ip_packet, src, dst) of
        (Some ifc, Some p, Some s, Some d) \<Rightarrow>
          if i \<le> 0 \<or> N_AVAIL_ID hw < i \<or> MKEEP_ALIVE_IP_PKT_MAX hw < ip_packet_len \<or> period = 0
          then Inr (nl_code nl WIFI_ERROR_INVALID_ARGS, [])
          else start_if_success nl (wi_family ifc)
                 (MKeepAlive_createRequest nl (wi_id ifc) (nat i)
                    (Some \<lparr>ka_ip_packet = p, ka_ip_packet_len = ip_packet_len, ka_src_mac_addr = s,
                           ka_dst_mac_addr = d, ka_period_msec = period\<rparr>))
      | _ \<Rightarrow> Inr (nl_code nl WIFI_ERROR_INVALID_ARGS, []))"

definition wifi_stop_sending_offloaded_packet ::
  "'m libnl \<Rightarrow> offload_hw \<Rightarrow> int \<Rightarrow> wifi_iface option \<Rightarrow> (int \<times> 'm list) result" where
  "wifi_stop_sending_offloaded_packet nl hw i iface =
     (case iface of
        Some ifc \<Rightarrow>
          if i \<le> 0 \<or> N_AVAIL_ID hw < i then Inr (nl_code nl WIFI_ERROR_INVALID_ARGS, [])
          else start_if_success nl (wi_family ifc) (MKeepAlive_createRequest nl (wi_id ifc) (nat i) None)
      | None \<Rightarrow> Inr (nl_code nl WIFI_ERROR_INVALID_ARGS, []))"

end
