(* ===== verification/WifiRadio.thy ===== *)
theory WifiRadio
  imports WifiReplies
begin

text \<open>
  The two answers of \<open>wlan/wifi_hal/wifi_hal.cpp\<close> with a structure of their own: the matrix of radio
  combinations, which is rebuilt for the framework, and the link layer statistics, which are checked
  and handed on. The layouts of the platform's structs are the fields of \<open>combo_hw\<close> and \<open>stats_layout\<close>.
\<close>

section \<open>Radio combinations\<close>

definition COMB_MATRIX_LEN :: nat where "COMB_MATRIX_LEN = 6"
definition RADIO_COMBINATIONS_MATRIX_MATRIX :: nat where "RADIO_COMBINATIONS_MATRIX_MATRIX = 1"

record ANDROID_T_COMB_UNIT =
  band_0 :: nat
  ant_0 :: nat
  band_1 :: nat
  ant_1 :: nat

definition comb_unit :: "bytes \<Rightarrow> nat \<Rightarrow> ANDROID_T_COMB_UNIT" where
  "comb_unit d i =
     \<lparr>band_0 = unat (d ! (4 * i)), ant_0 = unat (d ! (4 * i + 1)),
      band_1 = unat (d ! (4 * i + 2)), ant_1 = unat (d ! (4 * i + 3))\<rparr>"

datatype wlan_mac_band = WLAN_MAC_2_4_BAND | WLAN_MAC_5_0_BAND | WLAN_MAC_6_0_BAND | WLAN_MAC_60_0_BAND
datatype wifi_antenna_configuration =
  WIFI_ANTENNA_1X1 | WIFI_ANTENNA_2X2 | WIFI_ANTENNA_3X3 | WIFI_ANTENNA_4X4

definition convert_band :: "nat \<Rightarrow> wlan_mac_band option" where
  "convert_band b =
     (if b = 2 then Some WLAN_MAC_2_4_BAND
      else if b = 5 then Some WLAN_MAC_5_0_BAND
      else if b = 6 then Some WLAN_MAC_6_0_BAND
      else if b = 60 then Some WLAN_MAC_60_0_BAND
      else None)"

definition convert_antenna :: "nat \<Rightarrow> wifi_antenna_configuration option" where
  "convert_antenna a =
     (if a = 1 then Some WIFI_ANTENNA_1X1
      else if a = 2 then Some WIFI_ANTENNA_2X2
      else if a = 3 then Some WIFI_ANTENNA_3X3
      else if a = 5 then Some WIFI_ANTENNA_4X4
      else None)"

text \<open>The sizes of the matrix without its combinations, of a combination without its radios, of a radio.\<close>

record combo_hw =
  sizeof_matrix :: nat
  sizeof_combination :: nat
  sizeof_configuration :: nat

definition unit_size :: "combo_hw \<Rightarrow> ANDROID_T_COMB_UNIT \<Rightarrow> nat" where
  "unit_size hw u =
     (if band_0 u \<noteq> 0
      then sizeof_combination hw + sizeof_configuration hw + (if band_1 u \<noteq> 0 then sizeof_configuration hw else 0)
      else 0)"

text \<open>\<open>check_sanity\<close>: the size that the matrix will have, and the number of combinations.\<close>

definition check_sanity :: "combo_hw \<Rightarrow> ANDROID_T_COMB_UNIT list \<Rightarrow> nat \<times> nat" where
  "check_sanity hw us =
     fold (\<lambda>u (sz, cnt). if band_0 u \<noteq> 0 then (sz + unit_size hw u, cnt + 1) else (sz, cnt))
       us (sizeof_matrix hw, 0)"

text \<open>
  The matrix of the caller: the number of combinations, and the combinations that have been written,
  each the list of its radios.
\<close>

record radio_matrix =
  rm_num :: nat
  rm_combos :: "(wlan_mac_band \<times> wifi_antenna_configuration) list list"

text \<open>One radio, \<open>None\<close> when the band or the antenna is not known.\<close>

definition convert_radio :: "nat \<Rightarrow> nat \<Rightarrow> (wlan_mac_band \<times> wifi_antenna_configuration) option" where
  "convert_radio b a =
     (case (convert_band b, convert_antenna a) of (Some x, Some y) \<Rightarrow> Some (x, y) | _ \<Rightarrow> None)"

text \<open>
  The loop that fills the buffer of \<open>cap\<close> bytes from offset \<open>off\<close> on. At a radio that is not known the
  function is left, with what has been written so far; the combination it stops at is left unfinished.
\<close>

fun fill_combos ::
  "combo_hw \<Rightarrow> nat \<Rightarrow> ANDROID_T_COMB_UNIT list \<Rightarrow> nat \<Rightarrow> radio_matrix \<Rightarrow> (bool \<times> radio_matrix) result" where
  "fill_combos hw cap [] off m = Inr (True, m)"
| "fill_combos hw cap (u # us) off m =
     (if band_0 u = 0 then fill_combos hw cap us off m
      else if cap < off + unit_size hw u then Inl UB
      else case convert_radio (band_0 u) (ant_0 u) of
          None \<Rightarrow> Inr (False, m)
        | Some r0 \<Rightarrow>
            if band_1 u = 0 then
              fill_combos hw cap us (off + unit_size hw u) (m\<lparr>rm_combos := rm_combos m @ [ [r0] ]\<rparr>)
            else (case convert_radio (band_1 u) (ant_1 u) of
                None \<Rightarrow> Inr (False, m)
              | Some r1 \<Rightarrow>
                  fill_combos hw cap us (off + unit_size hw u) (m\<lparr>rm_combos := rm_combos m @ [ [r0, r1] ]\<rparr>)))"

text \<open>One attribute of the answer; the caller's \<open>rc_size\<close> is written before it is compared with the room.\<close>

definition combo_attr ::
  "combo_hw \<Rightarrow> nat \<Rightarrow> nat \<times> bytes \<Rightarrow> nat \<times> radio_matrix \<Rightarrow> (nat \<times> radio_matrix, unit) ctl result" where
  "combo_attr hw cap a s =
     (if fst a \<noteq> RADIO_COMBINATIONS_MATRIX_MATRIX then Inr (Next s)
      else if length (snd a) < 4 * COMB_MATRIX_LEN then Inr (Break s)
      else
        let us = map (comb_unit (snd a)) [0..<COMB_MATRIX_LEN];
            (rc_size, cnt) = check_sanity hw us
        in if cap < rc_size then Inr (Break (rc_size, snd s))
           else bindE (fill_combos hw cap us (sizeof_matrix hw) \<lparr>rm_num = cnt, rm_combos = []\<rparr>) (\<lambda>(ok, m).
                Inr (if ok then Next (rc_size, m) else Break (rc_size, m))))"

definition GetSupportedRadioCombinationsMatrix_handleResponse ::
  "'m libnl \<Rightarrow> nl_nested \<Rightarrow> combo_hw \<Rightarrow> nat \<Rightarrow> nat \<Rightarrow> nl_attrs \<Rightarrow> nat \<times> radio_matrix
     \<Rightarrow> (nat \<times> radio_matrix) result" where
  "GetSupportedRadioCombinationsMatrix_handleResponse nl nested hw cap cmd tb s =
     on_logged_vendor_data nl cmd tb s (\<lambda>d.
       bindE (loopE (combo_attr hw cap) (nested d) s) (\<lambda>c. Inr (ctl_state c)))"

section \<open>Link layer statistics\<close>

text \<open>
  Offsets of the members that the check reads and of the trailing arrays, which are also the sizes of
  the headers before them, and the sizes of their elements.
\<close>

record stats_layout =
  ml_num_links :: nat
  ml_links :: nat
  link_num_peers :: nat
  link_peer_info :: nat
  peer_num_rate :: nat
  peer_rate_stats :: nat
  sizeof_rate_stat :: nat
  radio_num_channels :: nat
  radio_num_tx_levels :: nat
  radio_channels :: nat
  sizeof_channel_stat :: nat

text \<open>A 32-bit number at an offset that may be anywhere.\<close>

definition u32_at :: "bytes \<Rightarrow> int \<Rightarrow> nat result" where
  "u32_at d p = (if p < 0 then Inl UB else rd_num 4 d (nat p))"

text \<open>
  \<open>int expected_size = header + count * sizeof(...)\<close>, and \<open>confirmed_size + expected_size > len\<close> in 32 bits.
\<close>

definition expected_size :: "nat \<Rightarrow> nat \<Rightarrow> nat \<Rightarrow> int" where
  "expected_size header n sz = sint (word_of_nat (header + n * sz) :: u32)"

definition add_u32 :: "nat \<Rightarrow> int \<Rightarrow> nat" where
  "add_u32 confirmed n = as_u32 (int confirmed + n)"

text \<open>
  The peers of a link: \<open>n\<close> are left, the current one is at \<open>p\<close>. The result is the size confirmed by then,
  \<open>None\<close> if the message is too short. \<open>len\<close> is the length of the message.
\<close>

fun check_peers :: "stats_layout \<Rightarrow> bytes \<Rightarrow> nat \<Rightarrow> int \<Rightarrow> nat \<Rightarrow> nat option result" where
  "check_peers lay d 0 p confirmed = Inr (Some confirmed)"
| "check_peers lay d (Suc n) p confirmed =
     (if length d < confirmed + peer_rate_stats lay then Inr None
      else bindE (u32_at d (p + int (peer_num_rate lay))) (\<lambda>num_rate.
      let e = expected_size (peer_rate_stats lay) num_rate (sizeof_rate_stat lay);
          c = add_u32 confirmed e
      in if length d < c then Inr None else check_peers lay d n (p + e) c))"

fun check_links :: "stats_layout \<Rightarrow> bytes \<Rightarrow> nat \<Rightarrow> nat \<Rightarrow> nat \<Rightarrow> nat option result" where
  "check_links lay d 0 p confirmed = Inr (Some confirmed)"
| "check_links lay d (Suc n) p confirmed =
     (if length d < confirmed + link_peer_info lay then Inr None
      else bindE (u32_at d (int (p + link_num_peers lay))) (\<lambda>num_peers.
      bindE (check_peers lay d num_peers (int (p + link_peer_info lay))
               (add_u32 confirmed (int (link_peer_info lay)))) (\<lambda>c.
      case c of None \<Rightarrow> Inr None | Some c \<Rightarrow> check_links lay d n c c)))"

text \<open>
  The radios, with the number of transmission levels before each of them, at which its pointer is set
  in the end.
\<close>

fun check_radios ::
  "stats_layout \<Rightarrow> bytes \<Rightarrow> nat \<Rightarrow> int \<Rightarrow> nat \<Rightarrow> nat \<Rightarrow> (int \<times> nat) list
     \<Rightarrow> (nat \<times> nat \<times> (int \<times> nat) list) option result" where
  "check_radios lay d 0 p confirmed levels ptrs = Inr (Some (confirmed, levels, ptrs))"
| "check_radios lay d (Suc n) p confirmed levels ptrs =
     (if length d < confirmed + radio_channels lay then Inr None
      else bindE (u32_at d (p + int (radio_num_channels lay))) (\<lambda>num_channels.
      let e = expected_size (radio_channels lay) num_channels (sizeof_channel_stat lay);
          c = add_u32 confirmed e
      in if length d < c then Inr None
         else bindE (u32_at d (p + int (radio_num_tx_levels lay))) (\<lambda>num_levels.
              check_radios lay d n (p + e) c (add_u32 levels (int num_levels)) (ptrs @ [(p, levels)]))))"

text \<open>
  \<open>check_data_sanity\<close>: the number of radios, the offset of the first one, and where the pointers of the
  radios are set. \<open>new\<close> says whether an array of that many elements can be allocated; if not the
  program is ended by an exception.
\<close>

record stats_checked =
  sc_num_radios :: nat
  sc_radios :: nat
  sc_tx_pointers :: "(int \<times> nat) list"

definition check_data_sanity ::
  "stats_layout \<Rightarrow> (nat \<Rightarrow> bool) \<Rightarrow> bytes option \<Rightarrow> stats_checked option result" where
  "check_data_sanity lay new data =
     (case data of
        None \<Rightarrow> Inr None
      | Some d \<Rightarrow>
          if length d < ml_links lay then Inr None
          else bindE (u32_at d (int (ml_num_links lay))) (\<lambda>links.
          let num_links = sint (word_of_nat links :: u32)
          in if num_links \<le> 0 then Inr None
             else bindE (check_links lay d (nat num_links) (ml_links lay) (ml_links lay)) (\<lambda>c.
             case c of
               None \<Rightarrow> Inr None
             | Some c \<Rightarrow>
                 if length d < c + 4 then Inr None
                 else bindE (u32_at d (int c)) (\<lambda>num_radios.
                 if \<not> new num_radios then Inl Abort
                 else bindE (check_radios lay d num_radios (int (add_u32 c 4)) (add_u32 c 4) 0 []) (\<lambda>r.
                 case r of
                   None \<Rightarrow> Inr None
                 | Some (confirmed, levels, ptrs) \<Rightarrow>
                     if length d < confirmed + levels * 4 then Inr None
                     else Inr (Some \<lparr>sc_num_radios = num_radios, sc_radios = add_u32 c 4,
                                     sc_tx_pointers = ptrs\<rparr>))))))"

text \<open>
  \<open>GetLinkStatsCommand::handleResponse\<close>: what the callback is given. The vendor is read, for the callback.
\<close>

definition GetLinkStats_handleResponse ::
  "'m libnl \<Rightarrow> stats_layout \<Rightarrow> (nat \<Rightarrow> bool) \<Rightarrow> nat \<Rightarrow> nl_attrs \<Rightarrow> (nat \<times> stats_checked) option result" where
  "GetLinkStats_handleResponse nl lay new cmd tb =
     (if cmd \<noteq> NL80211_CMD_VENDOR nl then Inr None
      else bindE (ev_u32 tb (NL80211_ATTR_VENDOR_ID nl)) (\<lambda>vid.
           bindE (check_data_sanity lay new (tb (NL80211_ATTR_VENDOR_DATA nl))) (\<lambda>r.
           Inr (map_option (\<lambda>s. (vid, s)) r))))"

section \<open>Sizes and bounds\<close>

text \<open>
  The matrix of radio combinations fits the buffer that the framework passes; and what the check of the
  link layer statistics makes of the sizes that a message claims.
\<close>

subsection \<open>Radio combinations\<close>

text \<open>The units that describe a combination, and the size of the combinations that have been written.\<close>

abbreviation used_units :: "ANDROID_T_COMB_UNIT list \<Rightarrow> ANDROID_T_COMB_UNIT list" where
  "used_units us \<equiv> filter (\<lambda>u. band_0 u \<noteq> 0) us"

definition combos_size :: "combo_hw \<Rightarrow> (wlan_mac_band \<times> wifi_antenna_configuration) list list \<Rightarrow> nat" where
  "combos_size hw cs = sum_list (map (\<lambda>c. sizeof_combination hw + length c * sizeof_configuration hw) cs)"

lemma combos_size_append [simp]: "combos_size hw (cs @ ds) = combos_size hw cs + combos_size hw ds"
  by (simp add: combos_size_def)

lemma check_sanity_eq:
  "check_sanity hw us = (sizeof_matrix hw + sum_list (map (unit_size hw) us), length (used_units us))"
proof -
  have "fold (\<lambda>u (sz, cnt). if band_0 u \<noteq> 0 then (sz + unit_size hw u, cnt + 1) else (sz, cnt)) us (sz, cnt)
      = (sz + sum_list (map (unit_size hw) us), cnt + length (used_units us))" for sz cnt
  proof (induction us arbitrary: sz cnt)
    case (Cons u us)
    then show ?case by (simp add: unit_size_def)
  qed simp
  then show ?thesis by (simp add: check_sanity_def)
qed

text \<open>What the loop has written when it gets to the end.\<close>

definition filled :: "combo_hw \<Rightarrow> ANDROID_T_COMB_UNIT list \<Rightarrow> radio_matrix \<Rightarrow> radio_matrix \<Rightarrow> bool" where
  "filled hw us m m' \<longleftrightarrow> rm_num m' = rm_num m
     \<and> length (rm_combos m') = length (rm_combos m) + length (used_units us)
     \<and> combos_size hw (rm_combos m') = combos_size hw (rm_combos m) + sum_list (map (unit_size hw) us)"

lemma filled_Cons:
  assumes "filled hw us (m\<lparr>rm_combos := rm_combos m @ [rs]\<rparr>) m'" "band_0 u \<noteq> 0"
    "length rs = (if band_1 u = 0 then 1 else 2)"
  shows "filled hw (u # us) m m'"
  using assms by (auto simp: filled_def unit_size_def combos_size_def split: if_splits)

lemma fill_combos_fits:
  assumes "off + sum_list (map (unit_size hw) us) \<le> cap"
  shows "\<exists>ok m'. fill_combos hw cap us off m = Inr (ok, m') \<and> (ok \<longrightarrow> filled hw us m m')"
  using assms
proof (induction us arbitrary: off m)
  case Nil
  then show ?case by (auto simp: filled_def intro: exI [of _ True])
next
  case (Cons u us)
  show ?case
  proof (cases "band_0 u = 0")
    case True
    then have "unit_size hw u = 0" by (simp add: unit_size_def)
    then show ?thesis using Cons.IH [of off m] Cons.prems True by (simp add: filled_def)
  next
    case False
    have room: "off + unit_size hw u + sum_list (map (unit_size hw) us) \<le> cap" using Cons.prems by simp
    have next_unit: "\<exists>ok m'. fill_combos hw cap us (off + unit_size hw u) (m\<lparr>rm_combos := rm_combos m @ [rs]\<rparr>)
        = Inr (ok, m') \<and> (ok \<longrightarrow> filled hw (u # us) m m')"
      if "length rs = (if band_1 u = 0 then 1 else 2)" for rs
      using Cons.IH [OF room, of "m\<lparr>rm_combos := rm_combos m @ [rs]\<rparr>"] filled_Cons [OF _ False that] by blast
    show ?thesis
      using False room next_unit by (auto split: option.splits)
  qed
qed

text \<open>
  C40: The matrix of radio combinations never leaves the buffer of the framework, whatever the driver
  reports; and when the whole of it has been converted, the number of combinations is that of the
  entries, and the size that is reported is exactly the size of what has been written.
\<close>

theorem radio_combinations_fit:
  assumes "fst a = RADIO_COMBINATIONS_MATRIX_MATRIX"
  shows "\<exists>c. combo_attr hw cap a s = Inr c \<and> (\<forall>rc m. c = Next (rc, m) \<longrightarrow>
    rc \<le> cap \<and> length (rm_combos m) = rm_num m \<and> rc = sizeof_matrix hw + combos_size hw (rm_combos m))"
proof -
  define us where "us = map (comb_unit (snd a)) [0..<COMB_MATRIX_LEN]"
  let ?rc = "sizeof_matrix hw + sum_list (map (unit_size hw) us)"
  let ?m = "\<lparr>rm_num = length (used_units us), rm_combos = []\<rparr>"
  show ?thesis
  proof (cases "length (snd a) < 4 * COMB_MATRIX_LEN \<or> cap < ?rc")
    case True
    then show ?thesis using assms by (auto simp: combo_attr_def us_def check_sanity_eq Let_def)
  next
    case False
    then obtain ok m' where fill: "fill_combos hw cap us (sizeof_matrix hw) ?m = Inr (ok, m')"
      and ok: "ok \<longrightarrow> filled hw us ?m m'"
      using fill_combos_fits [of "sizeof_matrix hw" hw us cap ?m] by auto
    have "combo_attr hw cap a s = Inr (if ok then Next (?rc, m') else Break (?rc, m'))"
      using False assms fill by (simp add: combo_attr_def us_def [symmetric] check_sanity_eq Let_def)
    then show ?thesis using False ok by (auto simp: filled_def combos_size_def)
  qed
qed

subsection \<open>Link layer statistics\<close>

text \<open>
  The size of a trailing array is computed in 32 bits: elements whose sizes add up to a multiple of
  4 GB do not count.
\<close>

lemma expected_size_wraps:
  assumes "n * sz mod 2 ^ 32 = 0" "header < 2 ^ 31"
  shows "expected_size header n sz = int header"
proof -
  have "(word_of_nat (n * sz) :: u32) = 0"
    unfolding word_of_nat_eq_0_iff using assms(1) by (simp only: mod_eq_0_iff_dvd) simp
  then have "(word_of_nat (header + n * sz) :: u32) = word_of_nat header" by (simp only: of_nat_add add_0_right)
  then show ?thesis
    using assms(2) unfolding expected_size_def by (simp add: sint_uint unsigned_of_nat take_bit_nat_eq_self
        signed_take_bit_int_eq_self)
qed

text \<open>So a peer that claims so many rates is accepted, at the end of the message even.\<close>

lemma claimed_rates_accepted:
  assumes "rd_num 4 d (p + peer_num_rate lay) = Inr num_rate" "num_rate * sizeof_rate_stat lay mod 2 ^ 32 = 0"
    and "peer_rate_stats lay < 2 ^ 31" "length d < 2 ^ 31" "confirmed + peer_rate_stats lay \<le> length d"
  shows "check_peers lay d 1 (int p) confirmed = Inr (Some (confirmed + peer_rate_stats lay))"
proof -
  have "u32_at d (int p + int (peer_num_rate lay)) = Inr num_rate"
    using assms(1) by (simp add: u32_at_def nat_add_distrib)
  moreover have "add_u32 confirmed (int (peer_rate_stats lay)) = confirmed + peer_rate_stats lay"
    using assms(4,5) by (simp add: add_u32_def as_u32_def)
  ultimately show ?thesis
    using assms(5) expected_size_wraps [OF assms(2,3)] by (simp add: Let_def)
qed

end
