(* ===== verification/WifiQueries.thy ===== *)
theory WifiQueries
  imports WifiMonitor WifiRadio
begin

text \<open>
  The functions of the HAL that ask the driver and return what it answers (\<open>wlan/wifi_hal/wifi_hal.cpp\<close>,
  \<open>wifi_rtt.cpp\<close>), the requests that wait for an event (\<open>cpp_bindings.cpp\<close>), and the functions that do
  nothing yet. The answers of the driver are the list \<open>replies\<close> of generic netlink commands with their
  attributes; null pointers of the caller are \<open>None\<close>.
\<close>

section \<open>Queries\<close>

text \<open>A request, and the answers to it handed to \<open>handleResponse\<close> if it has been sent.\<close>

definition query ::
  "(int \<times> 'm list) result \<Rightarrow> (nat \<Rightarrow> nl_attrs \<Rightarrow> 's \<Rightarrow> 's result) \<Rightarrow> (nat \<times> nl_attrs) list \<Rightarrow> 's
     \<Rightarrow> (int \<times> 's) result" where
  "query req handle replies s =
     bindE req (\<lambda>(ret, sent).
     bindE (if sent = [] then Inr s else foldE (\<lambda>(cmd, tb). handle cmd tb) replies s) (\<lambda>s.
     Inr (ret, s)))"

definition wifi_get_supported_feature_set ::
  "'m libnl \<Rightarrow> wifi_iface option \<Rightarrow> (nat \<times> nl_attrs) list \<Rightarrow> bytes option \<Rightarrow> (int \<times> bytes option) result" where
  "wifi_get_supported_feature_set nl iface replies pset =
     (case (iface, pset) of
        (Some i, Some s) \<Rightarrow>
          query (request_response nl (wi_family i) (GetFeatureSet_create nl (wi_id i) FeatureSet))
            (GetFeatureSet_handleResponse nl) replies (Some s)
      | _ \<Rightarrow> Inr (nl_code nl WIFI_ERROR_INVALID_ARGS, pset))"

text \<open>The array of the caller is cleared first; a channel is an \<open>int\<close>.\<close>

definition wifi_get_valid_channels ::
  "'m libnl \<Rightarrow> nl_nested \<Rightarrow> wifi_iface option \<Rightarrow> int \<Rightarrow> int \<Rightarrow> (nat \<times> nl_attrs) list \<Rightarrow> bytes option \<Rightarrow> int option
     \<Rightarrow> (int \<times> int option \<times> bytes option) result" where
  "wifi_get_valid_channels nl nested iface band max_channels replies channels num_channels =
     (case (iface, channels, num_channels) of
        (Some i, Some c, Some n) \<Rightarrow>
          if max_channels < 0 then Inl UB
          else
            bindE (wr_bytes c 0 (replicate (4 * nat max_channels) 0)) (\<lambda>c.
            bindE (query (request_response nl (wi_family i) (GetChannelList_create nl (wi_id i) band))
                     (GetChannelList_handleResponse nl nested max_channels) replies (n, c)) (\<lambda>(ret, n, c).
            Inr (ret, Some n, Some c)))
      | _ \<Rightarrow> Inr (nl_code nl WIFI_ERROR_INVALID_ARGS, num_channels, channels))"

text \<open>A driver that does not support the filter is reported as one of version 0.\<close>

definition wifi_get_packet_filter_capabilities ::
  "'m libnl \<Rightarrow> nl_nested \<Rightarrow> wifi_iface option \<Rightarrow> (nat \<times> nl_attrs) list \<Rightarrow> apf_out option
     \<Rightarrow> (int \<times> apf_out option) result" where
  "wifi_get_packet_filter_capabilities nl nested iface replies out =
     (case (iface, out) of
        (Some i, Some s) \<Rightarrow>
          bindE (query (request_response nl (wi_family i)
                          (AndroidPacketFilter_createRequest nl (wi_id i) GetApfCapabilities))
                   (AndroidPacketFilter_handleResponse nl nested GetApfCapabilities 0) replies s) (\<lambda>(ret, s).
          if ret = nl_code nl WIFI_ERROR_NOT_SUPPORTED
          then Inr (nl_code nl WIFI_SUCCESS, Some (s\<lparr>apf_version := 0, apf_max_len := 0\<rparr>))
          else Inr (ret, Some s))
      | _ \<Rightarrow> Inr (nl_code nl WIFI_ERROR_INVALID_ARGS, out))"

text \<open>The offset that the caller gives is not used.\<close>

definition wifi_read_packet_filter ::
  "'m libnl \<Rightarrow> nl_nested \<Rightarrow> wifi_iface option \<Rightarrow> nat \<Rightarrow> nat \<Rightarrow> (nat \<times> nl_attrs) list \<Rightarrow> apf_out option
     \<Rightarrow> (int \<times> apf_out option) result" where
  "wifi_read_packet_filter nl nested iface src_offset len replies out =
     (case (iface, out) of
        (Some i, Some s) \<Rightarrow>
          if len = 0 then Inr (nl_code nl WIFI_ERROR_INVALID_ARGS, out)
          else
            bindE (query (request_response nl (wi_family i)
                            (AndroidPacketFilter_createRequest nl (wi_id i) ReadApfProgram))
                     (AndroidPacketFilter_handleResponse nl nested ReadApfProgram len) replies s) (\<lambda>(ret, s).
            Inr (ret, Some s))
      | _ \<Rightarrow> Inr (nl_code nl WIFI_ERROR_INVALID_ARGS, out))"

text \<open>What the callback is given, in the order of the answers.\<close>

definition wifi_get_link_stats ::
  "'m libnl \<Rightarrow> stats_layout \<Rightarrow> (nat \<Rightarrow> bool) \<Rightarrow> wifi_iface option \<Rightarrow> (nat \<times> nl_attrs) list
     \<Rightarrow> (int \<times> (nat \<times> stats_checked) list) result" where
  "wifi_get_link_stats nl lay new iface replies =
     (case iface of
        None \<Rightarrow> Inr (nl_code nl WIFI_ERROR_INVALID_ARGS, [])
      | Some i \<Rightarrow>
          query (request_response nl (wi_family i) (GetLinkStats_create nl (wi_id i)))
            (\<lambda>cmd tb calls. bindE (GetLinkStats_handleResponse nl lay new cmd tb) (\<lambda>r.
               Inr (case r of None \<Rightarrow> calls | Some x \<Rightarrow> calls @ [x]))) replies [])"

text \<open>The struct of the caller is cleared by the constructor of the command.\<close>

definition wifi_get_rtt_capabilities ::
  "'m libnl \<Rightarrow> wifi_iface option \<Rightarrow> (nat \<times> nl_attrs) list \<Rightarrow> bytes option \<Rightarrow> (int \<times> bytes option) result" where
  "wifi_get_rtt_capabilities nl iface replies caps =
     (case (iface, caps) of
        (Some i, Some c) \<Rightarrow>
          bindE (query (request_response nl (wi_family i) (RttGetCapabilities_create nl (wi_id i)))
                   (RttGetCapabilities_handleResponse nl) replies (replicate (length c) 0)) (\<lambda>(ret, c).
          Inr (ret, Some c))
      | _ \<Rightarrow> Inr (nl_code nl WIFI_ERROR_INVALID_ARGS, caps))"

text \<open>The queries of the chip go through the interface \<open>wlan0\<close>; the handle is the family.\<close>

definition with_wlan0 ::
  "'m libnl \<Rightarrow> nat option \<Rightarrow> 's \<Rightarrow> (nat \<Rightarrow> int \<Rightarrow> (int \<times> 's) result) \<Rightarrow> (int \<times> 's) result" where
  "with_wlan0 nl handle s f =
     (case handle of
        None \<Rightarrow> Inr (nl_code nl WIFI_ERROR_INVALID_ARGS, s)
      | Some family \<Rightarrow>
          if nl_if_index nl ''wlan0'' = 0 then Inr (nl_code nl WIFI_ERROR_UNKNOWN, s)
          else f family (int (nl_if_index nl ''wlan0'')))"

definition wifi_get_supported_radio_combinations_matrix ::
  "'m libnl \<Rightarrow> nl_nested \<Rightarrow> combo_hw \<Rightarrow> nat option \<Rightarrow> nat \<Rightarrow> (nat \<times> nl_attrs) list \<Rightarrow> nat \<times> radio_matrix
     \<Rightarrow> (int \<times> nat \<times> radio_matrix) result" where
  "wifi_get_supported_radio_combinations_matrix nl nested hw handle max_size replies s =
     with_wlan0 nl handle s (\<lambda>family ctrl.
       query (request_response nl family (GetSupportedRadioCombinationsMatrix_create nl ctrl))
         (GetSupportedRadioCombinationsMatrix_handleResponse nl nested hw max_size) replies s)"

definition wifi_get_usable_channels ::
  "'m libnl \<Rightarrow> nat \<Rightarrow> nat \<Rightarrow> nat option \<Rightarrow> nat \<Rightarrow> nat \<Rightarrow> nat \<Rightarrow> nat \<Rightarrow> (nat \<times> nl_attrs) list \<Rightarrow> (nat \<times> bytes) option
     \<Rightarrow> (int \<times> (nat \<times> bytes) option) result" where
  "wifi_get_usable_channels nl uoff usz handle band_mask iface_mode_mask filter_mask max_size replies out =
     (case out of
        None \<Rightarrow> Inr (nl_code nl WIFI_ERROR_INVALID_ARGS, None)
      | Some s \<Rightarrow> with_wlan0 nl handle (Some s) (\<lambda>family ctrl.
          bindE (query (start_if_success nl family
                          (GetUsableChannel_createRequest nl ctrl band_mask iface_mode_mask filter_mask max_size))
                   (GetUsableChannel_handleResponse nl uoff usz) replies s) (\<lambda>(ret, s).
          Inr (ret, Some s))))"

definition wifi_get_chip_capabilities ::
  "'m libnl \<Rightarrow> nl_nested \<Rightarrow> nat option \<Rightarrow> (nat \<times> nl_attrs) list \<Rightarrow> wifi_chip_capabilities option
     \<Rightarrow> (int \<times> wifi_chip_capabilities option) result" where
  "wifi_get_chip_capabilities nl nested handle replies out =
     (case out of
        None \<Rightarrow> Inr (nl_code nl WIFI_ERROR_INVALID_ARGS, None)
      | Some c \<Rightarrow> with_wlan0 nl handle (Some c) (\<lambda>family ctrl.
          bindE (query (request_response nl family (GetChipCapabilities_create nl ctrl))
                   (GetChipCapabilities_handleResponse nl nested) replies c) (\<lambda>(ret, c).
          Inr (ret, Some c))))"

definition wifi_get_supported_iface_concurrency_matrix ::
  "'m libnl \<Rightarrow> nl_nested \<Rightarrow> nat option \<Rightarrow> (nat \<times> nl_attrs) list \<Rightarrow> bytes option \<Rightarrow> (int \<times> bytes option) result" where
  "wifi_get_supported_iface_concurrency_matrix nl nested handle replies matrix =
     (case matrix of
        None \<Rightarrow> Inr (nl_code nl WIFI_ERROR_INVALID_ARGS, None)
      | Some m \<Rightarrow> with_wlan0 nl handle (Some m) (\<lambda>family ctrl.
          bindE (query (start_if_success nl family (GetChipConcurrencyMatrix_createRequest nl ctrl))
                   (GetChipConcurrencyMatrix_handleResponse nl nested) replies m) (\<lambda>(ret, m).
          Inr (ret, Some m))))"

text \<open>\<open>strncpy\<close> into the buffer of the caller, of which it says that it has \<open>n\<close> bytes.\<close>

definition wifi_get_iface_name ::
  "'m libnl \<Rightarrow> interface_info option \<Rightarrow> string option \<Rightarrow> nat \<Rightarrow> (int \<times> string option) result" where
  "wifi_get_iface_name nl iface name n =
     (case (iface, name) of
        (Some i, Some b) \<Rightarrow>
          if n = 0 \<or> length b < n then Inl UB
          else Inr (nl_code nl WIFI_SUCCESS,
                 Some ((take n (cstr (ii_name i) @ replicate n (CHR 0x00)))[n - 1 := CHR 0x00] @ drop n b))
      | _ \<Rightarrow> Inr (nl_code nl WIFI_ERROR_INVALID_ARGS, name))"

section \<open>Requests that wait for an event\<close>

text \<open>
  \<open>requestEvent\<close> and \<open>requestVendorEvent\<close> of the command \<open>c\<close>, while no other call changes the tables: \<open>wait\<close>
  is what the condition variable returns. The handler is taken back in any case.
\<close>

definition send_and_wait ::
  "'m libnl \<Rightarrow> nat \<Rightarrow> ('m WifiRequest \<Rightarrow> (int \<times> 'm WifiRequest) result) \<Rightarrow> int \<Rightarrow> (int \<times> 'm list) result" where
  "send_and_wait nl family create wait =
     bindE (create (new_request family)) (\<lambda>(res, r).
     if res < 0 then Inr (res, [])
     else case rq_msg r of
         None \<Rightarrow> Inl UB
       | Some m \<Rightarrow>
           if nl_send nl m < 0 then Inr (nl_code nl (mapKernelErrortoWifiHalError (nl_send nl m)), [])
           else Inr (wait, [m]))"

definition requestEvent_waiting ::
  "'m libnl \<Rightarrow> nat \<Rightarrow> ('m WifiRequest \<Rightarrow> (int \<times> 'm WifiRequest) result) \<Rightarrow> int \<Rightarrow> 'f \<Rightarrow> 'c \<Rightarrow> int
     \<Rightarrow> ('f, 'c) hal_tables \<Rightarrow> ('f, 'c, 'm) started" where
  "requestEvent_waiting nl family create cmd f c wait info =
     bindE (wifi_register_handler cmd (Some f) (Some c) info) (\<lambda>(e, info).
     if nl_code nl e < 0 then Inr (nl_code nl e, info, [])
     else bindE (send_and_wait nl family create wait) (\<lambda>(res, sent).
          bindE (wifi_unregister_handler nl cmd info) (\<lambda>info. Inr (res, info, sent))))"

definition requestVendorEvent ::
  "'m libnl \<Rightarrow> nat \<Rightarrow> ('m WifiRequest \<Rightarrow> (int \<times> 'm WifiRequest) result) \<Rightarrow> u32 \<Rightarrow> int \<Rightarrow> 'f \<Rightarrow> 'c \<Rightarrow> int
     \<Rightarrow> ('f, 'c) hal_tables \<Rightarrow> ('f, 'c, 'm) started" where
  "requestVendorEvent nl family create vid subcmd f c wait info =
     bindE (wifi_register_vendor_handler nl vid subcmd (Some f) (Some c) None info) (\<lambda>(e, info).
     if nl_code nl e < 0 then Inr (nl_code nl e, info, [])
     else bindE (send_and_wait nl family create wait) (\<lambda>(res, sent).
          bindE (wifi_unregister_vendor_handler nl vid subcmd None info) (\<lambda>info. Inr (res, info, sent))))"

section \<open>Restarts of the subsystem\<close>

definition MTK_SSR_ATTRIBUTE_RESET_REASON :: nat where "MTK_SSR_ATTRIBUTE_RESET_REASON = 1"

text \<open>
  \<open>SetSubsystemRestartHandlerCommand::handleEvent\<close>: the number whose decimal representation the callback
  is given. The vendor data is an attribute in turn, with the reason inside; one that claims to be
  longer than the data is read past its end.
\<close>

definition SetSubsystemRestartHandler_handleEvent ::
  "'m libnl \<Rightarrow> nl_nested \<Rightarrow> bool \<Rightarrow> nl_attrs \<Rightarrow> nat option result" where
  "SetSubsystemRestartHandler_handleEvent nl nested has_callback tb =
     bindE (ev_u32 tb (NL80211_ATTR_VENDOR_SUBCMD nl)) (\<lambda>event_id.
     case tb (NL80211_ATTR_VENDOR_DATA nl) of
       None \<Rightarrow> Inr None
     | Some d \<Rightarrow>
         if d = [] \<or> int event_id \<noteq> MTK_EVENT_RESET_TRIGGERED then Inr None
         else bindE (rd_num 2 d 0) (\<lambda>len.
              bindE (if len \<le> 4 then Inr [] else rd_bytes d 4 (len - 4)) (\<lambda>inner.
              bindE (foldE (\<lambda>(t, b) reason.
                       if t = MTK_SSR_ATTRIBUTE_RESET_REASON then rd_num 4 b 0 else Inr reason)
                     (nested inner) (2 ^ 32 - 1)) (\<lambda>reason.
              Inr (if has_callback then Some reason else None)))))"

section \<open>Multicast groups\<close>

text \<open>
  \<open>GetMulticastIdCommand::handleResponse\<close> for the groups of the answer, each with its name and its
  number as far as it has them: the first group whose name, over its own length, is the one asked for.
\<close>

fun multicast_id :: "string \<Rightarrow> (string option \<times> nat option) list \<Rightarrow> int \<Rightarrow> int" where
  "multicast_id grp [] i = i"
| "multicast_id grp ((name, num) # gs) i =
     (case (name, num) of
        (Some n, Some x) \<Rightarrow>
          if n \<noteq> [] \<and> strn_eq (length n) n grp then sint (word_of_nat x :: u32) else multicast_id grp gs i
      | _ \<Rightarrow> multicast_id grp gs i)"

text \<open>\<open>wifi_get_multicast_id\<close> and \<open>wifi_add_membership\<close>, with the result of the request and of the socket.\<close>

definition wifi_get_multicast_id :: "int \<Rightarrow> (string option \<times> nat option) list option \<Rightarrow> string \<Rightarrow> int" where
  "wifi_get_multicast_id res groups grp =
     (if res < 0 then res else case groups of None \<Rightarrow> - 1 | Some gs \<Rightarrow> multicast_id grp gs (- 1))"

definition wifi_add_membership ::
  "int \<Rightarrow> (string option \<times> nat option) list option \<Rightarrow> (int \<Rightarrow> int) \<Rightarrow> string \<Rightarrow> int" where
  "wifi_add_membership res groups add grp =
     (let i = wifi_get_multicast_id res groups grp in if i < 0 then i else add i)"

section \<open>Functions without the driver\<close>

definition wifi_trigger_subsystem_restart :: "'m libnl \<Rightarrow> int" where
  "wifi_trigger_subsystem_restart nl = nl_code nl WIFI_ERROR_NOT_SUPPORTED"

text \<open>Functions that check their pointers and return success with an empty result.\<close>

definition dummy_result :: "'m libnl \<Rightarrow> bool \<Rightarrow> 's \<Rightarrow> 's \<Rightarrow> int \<times> 's" where
  "dummy_result nl pointers_given s s' =
     (if pointers_given then (nl_code nl WIFI_SUCCESS, s') else (nl_code nl WIFI_ERROR_INVALID_ARGS, s))"

definition wifi_get_wake_reason_stats_dummy :: "'m libnl \<Rightarrow> bool \<Rightarrow> bytes \<Rightarrow> int \<times> bytes" where
  "wifi_get_wake_reason_stats_dummy nl given cnt = dummy_result nl given cnt (replicate (length cnt) 0)"

definition wifi_get_tx_pkt_fates_dummy :: "'m libnl \<Rightarrow> bool \<Rightarrow> nat \<Rightarrow> int \<times> nat" where
  "wifi_get_tx_pkt_fates_dummy nl given n = dummy_result nl given n 0"

definition wifi_get_rx_pkt_fates_dummy :: "'m libnl \<Rightarrow> bool \<Rightarrow> nat \<Rightarrow> int \<times> nat" where
  "wifi_get_rx_pkt_fates_dummy nl given n = dummy_result nl given n 0"

definition wifi_get_logger_supported_feature_set_dummy :: "'m libnl \<Rightarrow> bool \<Rightarrow> nat \<Rightarrow> int \<times> nat" where
  "wifi_get_logger_supported_feature_set_dummy nl given support = dummy_result nl given support 0"

definition wifi_set_link_stats :: "'m libnl \<Rightarrow> bool \<Rightarrow> int" where
  "wifi_set_link_stats nl given = fst (dummy_result nl given () ())"

definition wifi_clear_link_stats :: "'m libnl \<Rightarrow> bool \<Rightarrow> int" where
  "wifi_clear_link_stats nl given = fst (dummy_result nl given () ())"

text \<open>
  \<open>wifi_set_scan_mode\<close>: the private command that the driver is given for an interface, \<open>None\<close> when the
  socket cannot be created; \<open>ioctl\<close> is what the call returns.
\<close>

definition wifi_set_scan_mode ::
  "'m libnl \<Rightarrow> interface_info option \<Rightarrow> bool \<Rightarrow> bool \<Rightarrow> (string \<Rightarrow> string \<Rightarrow> int) \<Rightarrow> int \<times> (string \<times> string) option" where
  "wifi_set_scan_mode nl iface enable socket ioctl =
     (case iface of
        None \<Rightarrow> (nl_code nl WIFI_ERROR_INVALID_ARGS, None)
      | Some i \<Rightarrow>
          if \<not> socket then (nl_code nl WIFI_ERROR_UNKNOWN, None)
          else
            let name = cstr (ii_name i);
                buf = ''set_fw_param alwaysscanen '' @ (if enable then ''1'' else ''0'')
            in (nl_code nl (if ioctl name buf < 0 then WIFI_ERROR_UNKNOWN else WIFI_SUCCESS), Some (name, buf)))"

end
