(* ===== verification/WifiClaims.thy ===== *)
theory WifiClaims
  imports WifiRegistry WifiMonitor WifiQueries NlCommand
begin

text \<open>
  The states that the tables go through, from \<open>wifi_initialize\<close> on, and what holds in all of them; what
  the registration of a vendor handler means for later events.
\<close>

inductive tables_reach :: "'m libnl \<Rightarrow> ('f, 'c) hal_tables \<Rightarrow> bool" for nl where
  init: "init_tables (Some cbs) (Some cmds) = Inr info \<Longrightarrow> length cbs = DEFAULT_EVENT_CB_SIZE \<Longrightarrow>
    length cmds = DEFAULT_CMD_SIZE \<Longrightarrow> tables_reach nl info"
| step: "tables_reach nl info \<Longrightarrow> op_ok op \<Longrightarrow> table_step nl op info = Inr info' \<Longrightarrow> tables_reach nl info'"

text \<open>A handler with a vendor is a handler of vendor events.\<close>

definition vendor_wf :: "'m libnl \<Rightarrow> ('f, 'c) registry \<Rightarrow> bool" where
  "vendor_wf nl reg \<longleftrightarrow> (\<forall>h \<in> set (fst reg). cb_vendor_id h \<noteq> 0 \<longrightarrow> cb_nl_cmd h = int (NL80211_CMD_VENDOR nl))"

lemma set_add_within: "set (add_within n x xs) \<subseteq> insert x (set xs)"
  by (auto simp: add_within_def)

lemma vendor_wf_step: "vendor_wf nl reg \<Longrightarrow> vendor_wf nl (registry_step nl op reg)"
proof (cases op)
  case (RegisterVendor v s f c n)
  assume wf: "vendor_wf nl reg"
  obtain hs cs where reg: "reg = (hs, cs)" by (cases reg)
  have "cb_nl_cmd (hs ! i) = int (NL80211_CMD_VENDOR nl)"
    if "first_index (names_event v s n) hs = Some i" "cb_vendor_id (hs ! i) \<noteq> 0" for i
    using first_index_Some [OF that(1)] that(2) wf by (simp add: vendor_wf_def reg)
  then show ?thesis
    using wf
    by (auto simp: vendor_wf_def reg RegisterVendor vendor_handler_def
        dest!: set_mp [OF set_add_within] set_mp [OF set_update_subset_insert] split: option.splits)
qed (cases reg; auto simp: vendor_wf_def dest: set_mp [OF set_remove_first] set_mp [OF set_add_within])+

lemma tables_reach_inv:
  "tables_reach nl info \<Longrightarrow> tables_ok info \<and> vendor_wf nl (registry info)"
proof (induction rule: tables_reach.induct)
  case (init cbs cmds info)
  then show ?case using init_tables_ok [of cbs cmds info] by (simp add: vendor_wf_def)
next
  case (step info op info')
  then show ?case using tables.stepD [OF step.hyps(3)] vendor_wf_step [of nl "registry info" op] by auto
qed

section \<open>Delivery\<close>

text \<open>
  An event of a vendor goes to the handler that was registered for it last, whatever was registered
  before, provided that the table had room or the event had a handler already.
\<close>

definition has_room :: "u32 \<Rightarrow> int \<Rightarrow> ('f, 'c) registry \<Rightarrow> bool" where
  "has_room v s reg \<longleftrightarrow>
     length (fst reg) < DEFAULT_EVENT_CB_SIZE \<or>
     (\<exists>h \<in> set (fst reg). cb_vendor_id h = v \<and> cb_vendor_subcmd h = s)"

lemma handles_vendor:
  assumes "vendor_wf nl (hs, cs)" "v \<noteq> 0" "h \<in> set hs"
  shows "handles_event nl (int (NL80211_CMD_VENDOR nl)) v s h \<longleftrightarrow> names_event v s None h"
  using assms by (auto simp: handles_event_def names_event_def vendor_wf_def)

lemma find_updated:
  assumes "first_index P xs = Some i" "Q y" "\<And>x. x \<in> set xs \<Longrightarrow> Q x = P x"
  shows "List.find Q (xs[i := y]) = Some y"
  using assms by (induction xs arbitrary: i) (auto split: if_splits nat.splits)

lemma find_appended:
  assumes "\<And>x. x \<in> set xs \<Longrightarrow> \<not> Q x" "Q y"
  shows "List.find Q (xs @ [y]) = Some y"
  using assms by (induction xs) auto

lemma registry_delivers:
  assumes "vendor_wf nl reg" "v \<noteq> 0" "has_room v s reg"
  shows "registry_dispatch nl (int (NL80211_CMD_VENDOR nl)) v s
      (fst (registry_step nl (RegisterVendor v s (Some f) (Some c) None) reg))
    = [AddRef c, Invoke f (Some c), ReleaseRef c]"
proof -
  obtain hs cs where reg: "reg = (hs, cs)" by (cases reg)
  let ?Q = "handles_event nl (int (NL80211_CMD_VENDOR nl)) v s" and ?P = "names_event v s None"
  have eq: "?Q h = ?P h" if "h \<in> set hs" for h
    using handles_vendor [of nl hs cs v h s] assms(1,2) that by (simp add: reg)
  show ?thesis
  proof (cases "first_index ?P hs")
    case None
    then have no: "\<not> ?P h" if "h \<in> set hs" for h using that by (simp add: first_index_None)
    then have "length hs < DEFAULT_EVENT_CB_SIZE"
      using assms(3) by (auto simp: has_room_def reg names_event_def)
    moreover have "List.find ?Q (hs @ [vendor_handler nl v s (Some f) (Some c) None])
        = Some (vendor_handler nl v s (Some f) (Some c) None)"
    proof (rule find_appended)
      show "\<not> ?Q x" if "x \<in> set hs" for x using eq [OF that] no [OF that] by simp
    qed (simp add: handles_event_def vendor_handler_def)
    ultimately show ?thesis
      by (simp add: reg None add_within_def registry_dispatch_def call_handler_def vendor_handler_def)
  next
    case (Some i)
    let ?h = "(hs ! i)\<lparr>cb_func := Some f, cb_arg := Some c\<rparr>"
    have "?Q (hs ! i)" using first_index_Some [OF Some] eq [of "hs ! i"] by simp
    then have "?Q ?h" by (simp add: handles_event_def)
    then have "List.find ?Q (hs[i := ?h]) = Some ?h" by (rule find_updated [OF Some]) (rule eq)
    then show ?thesis by (simp add: reg Some registry_dispatch_def call_handler_def)
  qed
qed

text \<open>The key of an event with the two attributes.\<close>

lemma event_key_vendor:
  assumes "tb (NL80211_ATTR_VENDOR_ID nl) = Some (le 4 v)" "tb (NL80211_ATTR_VENDOR_SUBCMD nl) = Some (le 4 s)"
    "v < 2 ^ 32" "s < 2 ^ 31"
  shows "event_key nl (NL80211_CMD_VENDOR nl) tb = Inr (word_of_nat v, int s)"
proof -
  have s: "sint (word_of_nat s :: u32) = int s"
    using assms(4) by (simp add: signed_of_nat signed_take_bit_int_eq_self)
  show ?thesis
    using assms(1-3) s assms(4)
    by (simp add: event_key_def ev_u32_def rd_num_def rd_bytes_def unle_le)
qed

section \<open>What the histories of the tables guarantee\<close>

text \<open>
  The tables of the Wi-Fi HAL implement a registry; the commands that are refused by the driver leave
  something behind in it; and cleaning up ends.
\<close>

subsection \<open>The registry\<close>

text \<open>
  C36: Any sequence of registrations and removals of handlers and commands, from the initialisation on,
  stays within the two arrays and leaves in them what the abstract registry has: lists in the order of
  registration, of at most 64 entries, where registering a vendor handler again replaces its callback
  and removing takes out the first match. An event goes to the first handler of the registry that fits,
  with its command referenced meanwhile.
\<close>

theorem tables_implement_registry:
  fixes info0 :: "('f, 'c) hal_tables"
  assumes "init_tables (Some cbs) (Some cmds) = Inr info0"
    and "length cbs = DEFAULT_EVENT_CB_SIZE" "length cmds = DEFAULT_CMD_SIZE" and "\<forall>op \<in> set ops. op_ok op"
  shows "\<exists>info. foldE (table_step nl) ops info0 = Inr info
    \<and> registry info = fold (registry_step nl) ops ([], [])
    \<and> (\<forall>cmd tb. internal_valid_message_handler nl (Some (cmd, tb)) info =
         bindE (event_key nl cmd tb) (\<lambda>(v, s). Inr (registry_dispatch nl (int cmd) v s (fst (registry info)))))"
proof -
  obtain info where "foldE (table_step nl) ops info0 = Inr info" and ok: "tables_ok info"
    and "registry info = fold (registry_step nl) ops ([], [])"
    using tables.run_refines [of info0 ops nl] init_tables_ok [OF assms(1-3)] assms(4) by auto
  then show ?thesis using dispatch_refines [OF ok, of nl] by auto
qed

text \<open>
  A request that waits for a vendor event leaves the registry as it was, whether it got the event or not,
  unless the event had a handler before, which it would take out.
\<close>

lemma remove_first_none: "\<not> (\<exists>x \<in> set xs. P x) \<Longrightarrow> remove_first P (xs @ ys) = xs @ remove_first P ys"
  by (induction xs) auto

lemma requestVendorEvent_restores:
  fixes info :: "('f, 'c) hal_tables"
  assumes "tables_ok info" "vid \<noteq> 0" "0 \<le> nl_code nl WIFI_SUCCESS"
    and fresh: "\<not> (\<exists>h \<in> set (fst (registry info)). names_event vid subcmd None h)"
    and run: "requestVendorEvent nl family create vid subcmd f c wait info = Inr (res, info', sent)"
  shows "registry info' = registry info"
proof -
  let ?reg = "RegisterVendor vid subcmd (Some f) (Some c) None" and ?unreg = "UnregisterVendor vid subcmd None"
  obtain e info1 where reg: "wifi_register_vendor_handler nl vid subcmd (Some f) (Some c) None info = Inr (e, info1)"
    using run by (auto simp: requestVendorEvent_def)
  obtain hs cs where hs: "registry info = (hs, cs)" by (cases "registry info")
  have none: "first_index (names_event vid subcmd None) hs = None"
    using fresh hs by (simp add: first_index_None)
  have 1: "tables_ok info1" "registry info1 = (add_within DEFAULT_EVENT_CB_SIZE (vendor_handler nl vid subcmd (Some f) (Some c) None) hs, cs)"
    using table_step_refines [OF assms(1), of ?reg nl] reg assms(2) hs none by auto
  show ?thesis
  proof (cases "nl_code nl e < 0")
    case True
    then have "info' = info1" "e \<noteq> WIFI_SUCCESS" using run reg assms(3) by (auto simp: requestVendorEvent_def)
    then have "info' = info" using reg
      by (auto simp: wifi_register_vendor_handler_def split: option.splits if_splits)
    then show ?thesis by simp
  next
    case False
    then have step: "table_step nl ?unreg info1 = Inr info'"
      using run reg by (auto simp: requestVendorEvent_def)
    have "remove_first (\<lambda>h. cb_nl_cmd h = int (NL80211_CMD_VENDOR nl) \<and> names_event vid subcmd None h)
        (add_within DEFAULT_EVENT_CB_SIZE (vendor_handler nl vid subcmd (Some f) (Some c) None) hs) = hs"
      using fresh hs remove_first_none [of hs _ "[]"]
      by (auto simp: add_within_def remove_first_none vendor_handler_def names_event_def)
    then show ?thesis
      using tables.stepD [OF step 1(1)] assms(2) 1(2) hs by auto
  qed
qed

subsection \<open>Commands that fail\<close>

text \<open>What is left behind by a command that was entered and did not start.\<close>

lemma start_registered_fails:
  fixes info :: "('f, 'c) hal_tables"
  assumes "start_registered nl i c start info = Inr (e, info', acts, sent)" and "e \<noteq> nl_code nl WIFI_SUCCESS"
    and "tables_ok info" and "num_cmd info < alloc_cmd info"
  shows "\<exists>info1 info2. table_step nl (RegisterCmd i (Some c)) info = Inr info1 \<and> start info1 = Inr (e, info2, sent)
    \<and> table_step nl (UnregisterCmd i) info2 = Inr info' \<and> acts = [ReleaseRef c]"
proof -
  obtain info1 where reg: "wifi_register_cmd i (Some c) info = Inr (WIFI_SUCCESS, info1)"
    using assms(3,4) by (auto simp: wifi_register_cmd_def arr_set_def tables_ok_def)
  then obtain r info2 where "start info1 = Inr (e, info2, sent)" "wifi_unregister_cmd i info2 = Inr (r, info')"
    "acts = [ReleaseRef c]"
    using assms(1,2) by (auto simp: start_registered_def split: if_splits)
  then show ?thesis using reg by auto
qed

lemma RttRequest_start_handlers:
  assumes "RttRequest_start nl q f c info = Inr (e, info', sent)"
  shows "table_step nl (RegisterVendor google RTT_EVENT_COMPLETE (Some f) (Some c) None) info = Inr info'"
  using assms by (auto simp: RttRequest_start_def split: if_splits)

lemma google_nonzero: "google \<noteq> 0"
  by (simp add: GOOGLE_OUI_def)

text \<open>
  C37: A ranging request that the driver refuses is released, which frees the command, but its handler
  stays: from any reachable state with room in the tables, the next ranging event calls the handler
  with the freed command.
\<close>

theorem refused_range_request_dangles:
  fixes info :: "('f, 'c) hal_tables"
  assumes reach: "tables_reach nl info" and room: "num_cmd info < alloc_cmd info" "has_room google RTT_EVENT_COMPLETE (registry info)"
    and failed: "wifi_rtt_range_request nl i (Some iface) configs f c info = Inr (e, info', acts, sent)"
      "e \<noteq> nl_code nl WIFI_SUCCESS" "configs \<noteq> []"
    and event: "tb (NL80211_ATTR_VENDOR_ID nl) = Some (le 4 GOOGLE_OUI)"
      "tb (NL80211_ATTR_VENDOR_SUBCMD nl) = Some (le 4 (nat RTT_EVENT_COMPLETE))"
  shows "acts = [ReleaseRef c]
    \<and> internal_valid_message_handler nl (Some (NL80211_CMD_VENDOR nl, tb)) info'
      = Inr [AddRef c, Invoke f (Some c), ReleaseRef c]"
proof -
  let ?reg = "RegisterVendor google RTT_EVENT_COMPLETE (Some f) (Some c) None"
  have ok: "tables_ok info" and wf: "vendor_wf nl (registry info)"
    using tables_reach_inv [OF reach] by simp_all
  let ?start = "RttRequest_start nl \<lparr>rt_family = ii_family iface, rt_iface_id = ii_id iface, rt_configs = configs\<rparr> f c"
  have "start_registered nl i c ?start info = Inr (e, info', acts, sent)"
    using failed(1,3) by (simp add: wifi_rtt_range_request_def)
  from start_registered_fails [OF this failed(2) ok room(1)] obtain info1 info2 where
    s1: "table_step nl (RegisterCmd i (Some c)) info = Inr info1" and s2: "?start info1 = Inr (e, info2, sent)"
    and s3: "table_step nl (UnregisterCmd i) info2 = Inr info'" and acts: "acts = [ReleaseRef c]"
    by blast
  have r1: "tables_ok info1" "registry info1 = registry_step nl (RegisterCmd i (Some c)) (registry info)"
    using tables.stepD [OF s1 ok] by simp_all
  have r2: "tables_ok info2" "registry info2 = registry_step nl ?reg (registry info1)"
    using tables.stepD [OF RttRequest_start_handlers [OF s2] r1(1)] google_nonzero by simp_all
  have r3: "tables_ok info'" "fst (registry info') = fst (registry info2)"
    using tables.stepD [OF s3 r2(1)] by (cases "registry info2"; simp)+
  have "fst (registry info1) = fst (registry info)" by (cases "registry info") (simp add: r1(2))
  then have "registry_dispatch nl (int (NL80211_CMD_VENDOR nl)) google RTT_EVENT_COMPLETE (fst (registry info'))
      = [AddRef c, Invoke f (Some c), ReleaseRef c]"
    using registry_delivers [of nl "registry info1" google RTT_EVENT_COMPLETE f c] wf room(2) google_nonzero
    unfolding r3(2) r2(2) by (simp add: vendor_wf_def has_room_def)
  moreover have "event_key nl (NL80211_CMD_VENDOR nl) tb = Inr (google, RTT_EVENT_COMPLETE)"
    using event_key_vendor [OF event] by (simp add: GOOGLE_OUI_def RTT_EVENT_COMPLETE_def)
  ultimately show ?thesis by (simp add: acts dispatch_refines [OF r3(1)])
qed

text \<open>Starting a monitor only touches the handlers.\<close>

lemma vendor_ops_keep_commands:
  assumes "tables_ok info" "v \<noteq> 0"
  shows "table_step nl (RegisterVendor v s f c n) info = Inr info1 \<Longrightarrow>
      tables_ok info1 \<and> snd (registry info1) = snd (registry info)"
    and "table_step nl (UnregisterVendor v s n) info = Inr info1 \<Longrightarrow>
      tables_ok info1 \<and> snd (registry info1) = snd (registry info)"
  using tables.stepD [OF _ assms(1), of nl _ info1] assms(2) by (cases "registry info"; fastforce)+

lemma SetRSSIMonitor_start_keeps_commands:
  assumes "SetRSSIMonitor_start nl m f c info = Inr (e, info', sent)" and "tables_ok info"
  shows "tables_ok info' \<and> snd (registry info') = snd (registry info)"
proof -
  let ?reg = "RegisterVendor google WIFI_EVENT_RSSI_MONITOR (Some f) (Some c) (Some (rm_iface_name m))"
  let ?unreg = "UnregisterVendor google WIFI_EVENT_RSSI_MONITOR (Some (rm_iface_name m))"
  have "info' = info \<or> table_step nl ?reg info = Inr info'
      \<or> (\<exists>info1. table_step nl ?reg info = Inr info1 \<and> table_step nl ?unreg info1 = Inr info')"
    using assms(1) by (auto simp: SetRSSIMonitor_start_def split: if_splits option.splits)
  then show ?thesis
    using vendor_ops_keep_commands [OF assms(2) google_nonzero]
      vendor_ops_keep_commands [OF _ google_nonzero]
    by (metis assms(2))
qed

lemma remove_first_found: "\<exists>x \<in> set xs. P x \<Longrightarrow> remove_first P (xs @ ys) = remove_first P xs @ ys"
  by (induction xs) auto

lemma wifi_get_cmd_found:
  assumes "tables_ok info" "wifi_get_cmd i info = Inr (Some old)"
  shows "\<exists>x \<in> set (snd (registry info)). ci_id x = i"
proof -
  have "num_cmd info \<le> length (hal_cmd info)" using assms(1) by (simp add: tables_ok_def)
  then have "first_index (\<lambda>x. ci_id x = i) (take (num_cmd info) (hal_cmd info)) \<noteq> None"
    using assms(2) by (auto simp: wifi_get_cmd_def arr_search_0 split: option.splits)
  then show ?thesis by (simp add: registry_def first_index_None)
qed

text \<open>
  When a monitor cannot be started under a number that another command has, the entry of the other
  command is taken out of the table and the new command, which is freed, stays in it.
\<close>

theorem failed_monitor_replaces_command:
  fixes info :: "('f, 'c) hal_tables"
  assumes reach: "tables_reach nl info" and room: "num_cmd info < alloc_cmd info"
    and other: "wifi_get_cmd i info = Inr (Some old)"
    and failed: "wifi_start_rssi_monitoring nl i (Some iface) max_rssi min_rssi f c info = Inr (e, info', acts, sent)"
      "e \<noteq> nl_code nl WIFI_SUCCESS"
  shows "acts = [ReleaseRef c] \<and>
    snd (registry info') = remove_first (\<lambda>x. ci_id x = i) (snd (registry info)) @ [\<lparr>ci_id = i, ci_cmd = Some c\<rparr>]"
proof -
  have ok: "tables_ok info" using tables_reach_inv [OF reach] by simp
  let ?start = "SetRSSIMonitor_start nl (new_rssi_monitor iface max_rssi min_rssi) f c"
  have "start_registered nl i c ?start info = Inr (e, info', acts, sent)"
    using failed(1) by (simp add: wifi_start_rssi_monitoring_def)
  from start_registered_fails [OF this failed(2) ok room] obtain info1 info2 where
    s1: "table_step nl (RegisterCmd i (Some c)) info = Inr info1" and s2: "?start info1 = Inr (e, info2, sent)"
    and s3: "table_step nl (UnregisterCmd i) info2 = Inr info'" and acts: "acts = [ReleaseRef c]"
    by blast
  obtain hs cs where reg: "registry info = (hs, cs)" by (cases "registry info")
  have len: "length cs < DEFAULT_CMD_SIZE"
    using reg ok room by (auto simp: registry_def tables_ok_def)
  have r1: "tables_ok info1" "snd (registry info1) = cs @ [\<lparr>ci_id = i, ci_cmd = Some c\<rparr>]"
    using tables.stepD [OF s1 ok] reg len by (auto simp: add_within_def)
  have r2: "tables_ok info2" "snd (registry info2) = snd (registry info1)"
    using SetRSSIMonitor_start_keeps_commands [OF s2 r1(1)] by simp_all
  have "snd (registry info') = remove_first (\<lambda>x. ci_id x = i) (snd (registry info2))"
    using tables.stepD [OF s3 r2(1)] by (cases "registry info2"; simp)
  then show ?thesis
    using wifi_get_cmd_found [OF ok other] by (simp add: acts r2(2) r1(2) reg remove_first_found)
qed

subsection \<open>Cleaning up\<close>

text \<open>Operations that only the driver can hold up: the requests that wait for its answer.\<close>

definition answers :: "'m libnl \<Rightarrow> bool" where
  "answers nl \<longleftrightarrow> (\<forall>m. recv_loop (nl_replies nl m) 1 \<noteq> Inl Diverges)"

lemma bindE_eq_Inl: "bindE m f = Inl e \<longleftrightarrow> m = Inl e \<or> (\<exists>a. m = Inr a \<and> f a = Inl e)"
  by (cases m) auto

lemma returns_arr [simp]:
  "arr_at a i \<noteq> Inl Diverges" "arr_set a i x \<noteq> Inl Diverges" "arr_close a i n \<noteq> Inl Diverges"
  by (simp_all add: arr_at_def arr_set_def arr_close_def)

lemma returns_put [simp]: "rq_put nl a bs r \<noteq> Inl Diverges"
  by (simp add: rq_put_def split: option.splits prod.splits)

lemma returns_attr [simp]:
  "rq_attr_start nl a r \<noteq> Inl Diverges" "rq_attr_end nl k r \<noteq> Inl Diverges"
  by (simp_all add: rq_attr_start_def rq_attr_end_def split: option.splits prod.splits)

lemma returns_create_vendor [simp]: "rq_create_vendor nl iface v s r \<noteq> Inl Diverges"
  by (auto simp: rq_create_vendor_def rq_put_u32_def rq_set_iface_id_def bindE_eq_Inl split: prod.splits if_splits)

lemma returns_rssi_request [simp]: "SetRSSIMonitor_createRequest nl iface mx mn en r \<noteq> Inl Diverges"
  by (auto simp: SetRSSIMonitor_createRequest_def rq_put_u32_def bindE_eq_Inl split: if_splits option.splits)

lemma returns_rtt_cancel [simp]: "RttRequest_cancel_create nl iface r \<noteq> Inl Diverges"
  by (auto simp: RttRequest_cancel_create_def ending_with_def or_fail_def vendor_data_def in_attr_def rq_put_u8_def
      bindE_eq_Inl split: if_splits option.splits)

lemma returns_send_request: "answers nl \<Longrightarrow> send_request nl r \<noteq> Inl Diverges"
  by (auto simp: send_request_def requestResponse_def answers_def bindE_eq_Inl split: option.splits if_splits)

text \<open>Cancelling a command takes entries out of the tables, and adds none.\<close>

definition shrinks :: "('f, 'c) hal_tables \<Rightarrow> ('f, 'c) hal_tables \<Rightarrow> bool" where
  "shrinks info info' \<longleftrightarrow> tables_ok info' \<and> num_cmd info' \<le> num_cmd info \<and>
     set (snd (registry info')) \<subseteq> set (snd (registry info))"

lemma num_cmd_registry: "tables_ok info \<Longrightarrow> num_cmd info = length (snd (registry info))"
  by (simp add: tables_ok_def registry_def)

lemma shrinks_trans: "shrinks a b \<Longrightarrow> shrinks b c \<Longrightarrow> shrinks a c"
  by (auto simp: shrinks_def)

lemma shrinks_refl: "tables_ok info \<Longrightarrow> shrinks info info"
  by (simp add: shrinks_def)

lemma unregister_vendor_shrinks:
  assumes "tables_ok info" "v \<noteq> 0"
  shows "\<exists>info'. wifi_unregister_vendor_handler nl v s n info = Inr info' \<and> shrinks info info'"
proof -
  obtain info' where step: "wifi_unregister_vendor_handler nl v s n info = Inr info'"
    using table_step_refines [OF assms(1), of "UnregisterVendor v s n" nl] assms(2) by auto
  then have "tables_ok info' \<and> snd (registry info') = snd (registry info)"
    using vendor_ops_keep_commands(2) [OF assms] by simp
  then show ?thesis using step assms(1) by (auto simp: shrinks_def num_cmd_registry)
qed

lemma unregister_cmd_shrinks:
  assumes "tables_ok info"
  shows "\<exists>c info'. wifi_unregister_cmd i info = Inr (c, info') \<and> shrinks info info'"
proof -
  obtain info' where step: "table_step ex_libnl (UnregisterCmd i) info = Inr info'" and ok: "tables_ok info'"
    and reg: "registry info' = registry_step ex_libnl (UnregisterCmd i) (registry info)"
    using table_step_refines [OF assms, of "UnregisterCmd i" ex_libnl] by auto
  have "snd (registry info') = remove_first (\<lambda>x. ci_id x = i) (snd (registry info))"
    using reg by (cases "registry info") simp
  then have "shrinks info info'"
    using ok assms by (simp add: shrinks_def num_cmd_registry set_remove_first length_remove_first)
  then show ?thesis using step by auto
qed

lemma mediatek_nonzero: "mediatek \<noteq> 0"
  by simp

lemma cancel_object_shrinks:
  assumes "tables_ok info" "cancel_object nl heap c info = Inr (info', sent)"
  shows "shrinks info info'"
proof (cases "heap c")
  case (Some x)
  have vendor: "shrinks info i1" if "wifi_unregister_vendor_handler nl v s n info = Inr i1" "v \<noteq> 0" for v s n i1
    using unregister_vendor_shrinks [OF assms(1) that(2), of nl s n] that(1) by simp
  show ?thesis
  proof (cases x)
    case (RssiMonitor m)
    then show ?thesis
      using assms(2) Some vendor google_nonzero
      by (auto simp: cancel_object_def SetRSSIMonitor_cancel_def Let_def split: if_splits)
  next
    case (RttRequest q)
    then show ?thesis
      using assms Some vendor google_nonzero shrinks_refl
      by (auto simp: cancel_object_def RttRequest_cancel_def split: if_splits)
  next
    case (RestartHandler i)
    then obtain i1 r where 1: "wifi_unregister_vendor_handler nl mediatek MTK_EVENT_RESET_TRIGGERED None info = Inr i1"
      and 2: "wifi_unregister_cmd i i1 = Inr (r, info')"
      using assms(2) Some by (auto simp: cancel_object_def SetSubsystemRestartHandler_cancel_def)
    have s1: "shrinks info i1" by (rule vendor [OF 1 mediatek_nonzero])
    then have "shrinks i1 info'" using unregister_cmd_shrinks [of i1 i] 2 by (auto simp: shrinks_def)
    then show ?thesis using s1 shrinks_trans by blast
  qed
qed (use assms in \<open>simp add: cancel_object_def\<close>)

lemma cancel_object_returns:
  assumes "tables_ok info" "answers nl"
  shows "cancel_object nl heap c info \<noteq> Inl Diverges"
proof -
  have vendor: "wifi_unregister_vendor_handler nl v s n info \<noteq> Inl Diverges" if "v \<noteq> 0" for v s n
    using unregister_vendor_shrinks [OF assms(1) that, of nl s n] by auto
  have cmd: "wifi_unregister_cmd i i1 \<noteq> Inl Diverges"
    if "wifi_unregister_vendor_handler nl mediatek s None info = Inr i1" for i s i1
  proof -
    have "tables_ok i1"
      using unregister_vendor_shrinks [OF assms(1) mediatek_nonzero, of nl s None] that by (simp add: shrinks_def)
    then show ?thesis using unregister_cmd_shrinks [of i1 i] by auto
  qed
  show ?thesis
    using vendor [OF google_nonzero] vendor [OF mediatek_nonzero] cmd returns_send_request [OF assms(2)]
    by (auto simp: cancel_object_def SetRSSIMonitor_cancel_def RttRequest_cancel_def Let_def
        SetSubsystemRestartHandler_cancel_def bindE_eq_Inl split: option.splits wifi_object.splits if_splits)
qed

lemma cleanup_returns:
  assumes "tables_ok info" "\<forall>x \<in> set (snd (registry info)). ci_cmd x \<noteq> None" "answers nl"
    "num_cmd info - bad < fuel" "fuel \<le> fuel'"
  shows "cleanup_commands fuel nl heap bad info \<noteq> Inl Diverges
    \<and> cleanup_commands fuel' nl heap bad info = cleanup_commands fuel nl heap bad info"
  using assms
proof (induction fuel arbitrary: fuel' bad info)
  case 0
  then show ?case by simp
next
  case (Suc fuel)
  obtain fuel1 where fuel': "fuel' = Suc fuel1" and le: "fuel \<le> fuel1" using Suc.prems(5) by (cases fuel') auto
  show ?case
  proof (cases "num_cmd info \<le> bad")
    case False
    let ?x = "hal_cmd info ! bad"
    have at: "arr_at (hal_cmd info) bad = Inr ?x"
      using False Suc.prems(1) by (simp add: arr_at_def tables_ok_def)
    have "?x = snd (registry info) ! bad" using False by (simp add: registry_def)
    then have "?x \<in> set (snd (registry info))"
      using False num_cmd_registry [OF Suc.prems(1)] by simp
    then obtain c where c: "ci_cmd ?x = Some c" using Suc.prems(2) by auto
    show ?thesis
    proof (cases "cancel_object nl heap c info")
      case (Inl e)
      then show ?thesis
        using False at c cancel_object_returns [OF Suc.prems(1,3), of heap c] by (simp add: fuel')
    next
      case (Inr p)
      obtain info' sent where p: "p = (info', sent)" by (cases p)
      have sh: "shrinks info info'" using cancel_object_shrinks [OF Suc.prems(1)] Inr p by simp
      let ?bad = "if num_cmd info' = num_cmd info then bad + 1 else bad"
      have "num_cmd info' - ?bad < fuel" using sh False Suc.prems(4) by (auto simp: shrinks_def)
      moreover have "tables_ok info'" "\<forall>x \<in> set (snd (registry info')). ci_cmd x \<noteq> None"
        using sh Suc.prems(2) by (auto simp: shrinks_def)
      ultimately have "cleanup_commands fuel nl heap ?bad info' \<noteq> Inl Diverges
          \<and> cleanup_commands fuel1 nl heap ?bad info' = cleanup_commands fuel nl heap ?bad info'"
        using Suc.IH [of info' ?bad fuel1] Suc.prems(3) le by blast
      then show ?thesis using False at c Inr p by (auto simp: fuel' bindE_eq_Inl)
    qed
  qed (simp add: fuel')
qed

text \<open>
  C38: Cleaning up ends in every reachable state whose commands are objects, if the driver answers the
  requests: fuel above the number of commands suffices, and more fuel gives the same.
\<close>

theorem cleanup_terminates:
  assumes "tables_reach nl info" and "\<forall>x \<in> set (snd (registry info)). ci_cmd x \<noteq> None" and "answers nl"
    and "num_cmd info < fuel"
  shows "cleanup_commands fuel nl heap 0 info \<noteq> Inl Diverges
    \<and> (\<forall>fuel' \<ge> fuel. cleanup_commands fuel' nl heap 0 info = cleanup_commands fuel nl heap 0 info)"
proof -
  have "cleanup_commands fuel nl heap 0 info \<noteq> Inl Diverges
      \<and> cleanup_commands fuel' nl heap 0 info = cleanup_commands fuel nl heap 0 info" if "fuel \<le> fuel'" for fuel'
    by (rule cleanup_returns) (use tables_reach_inv [OF assms(1)] assms(2-4) that in simp_all)
  then show ?thesis by blast
qed

text \<open>A null pointer in the table is asked for for ever.\<close>

lemma cleanup_null_diverges:
  assumes "tables_ok info" "bad < num_cmd info" "ci_cmd (hal_cmd info ! bad) = None"
  shows "cleanup_commands fuel nl heap bad info = Inl Diverges"
proof (induction fuel)
  case (Suc fuel)
  then show ?case using assms by (simp add: arr_at_def tables_ok_def)
qed simp

end
