(* ===== verification/WifiIfaces.thy ===== *)
theory WifiIfaces
  imports WifiMonitor NlCommand
begin

text \<open>
  The network interfaces (\<open>wlan/wifi_hal/wifi_hal.cpp\<close>): the array that \<open>wifi_init_interfaces\<close> fills from
  the directory \<open>/sys/class/net\<close>, and the interfaces that the HAL itself has created. The directory is read
  twice; its two listings, \<open>None\<close> when it cannot be opened, are parameters, as is the success of
  \<open>malloc\<close> for the array and for each entry.
\<close>

section \<open>The array of interfaces\<close>

definition starts_with :: "string \<Rightarrow> string \<Rightarrow> bool" where
  "starts_with p s \<longleftrightarrow> take (length p) s = p"

definition is_wifi_interface :: "string \<Rightarrow> bool" where
  "is_wifi_interface name \<longleftrightarrow>
     \<not> (\<not> starts_with ''wlan'' name \<and> \<not> starts_with ''p2p'' name \<and> \<not> starts_with ''ap'' name)"

definition wifi_names :: "string list \<Rightarrow> string list" where
  "wifi_names dir = filter (\<lambda>n. \<not> starts_with ''.'' n \<and> is_wifi_interface n) dir"

text \<open>\<open>get_interface\<close>, with the handle that the caller adds.\<close>

definition get_interface :: "'m libnl \<Rightarrow> nat \<Rightarrow> string \<Rightarrow> interface_info" where
  "get_interface nl family name =
     \<lparr>ii_family = family, ii_name = name_buffer name, ii_id = int (nl_if_index nl name)\<rparr>"

text \<open>\<open>info->interfaces\<close>: null, freed but still there, or an array whose entries may be null.\<close>

datatype iface_array = NullArray | FreedArray | IfaceArray "interface_info option list"

record iface_state =
  is_interfaces :: iface_array
  is_num :: nat

text \<open>The second loop, for the names from the \<open>i\<close>-th one on: \<open>None\<close> when an entry cannot be allocated.\<close>

fun fill_interfaces ::
  "'m libnl \<Rightarrow> nat \<Rightarrow> (nat \<Rightarrow> bool) \<Rightarrow> string list \<Rightarrow> nat \<Rightarrow> interface_info option list
     \<Rightarrow> interface_info option list option result" where
  "fill_interfaces nl family malloc [] i a = Inr (Some a)"
| "fill_interfaces nl family malloc (n # ns) i a =
     (if \<not> malloc i then Inr None
      else bindE (arr_set a i (Some (get_interface nl family n))) (\<lambda>a.
           fill_interfaces nl family malloc ns (i + 1) a))"

record net_dir =
  nd_first :: "string list option"
  nd_second :: "string list option"
  nd_malloc_array :: bool
  nd_malloc_entry :: "nat \<Rightarrow> bool"

definition wifi_init_interfaces ::
  "'m libnl \<Rightarrow> nat \<Rightarrow> net_dir \<Rightarrow> iface_state \<Rightarrow> (WifiError \<times> iface_state) result" where
  "wifi_init_interfaces nl family net s =
     (case nd_first net of
        None \<Rightarrow> Inr (WIFI_ERROR_UNKNOWN, s)
      | Some dir1 \<Rightarrow>
          let n = length (wifi_names dir1)
          in if n = 0 then Inr (WIFI_ERROR_NOT_AVAILABLE, s)
             else (case nd_second net of
                     None \<Rightarrow> Inr (WIFI_ERROR_UNKNOWN, s)
                   | Some dir2 \<Rightarrow>
                       if \<not> nd_malloc_array net then Inr (WIFI_ERROR_OUT_OF_MEMORY, s\<lparr>is_interfaces := NullArray\<rparr>)
                       else bindE (fill_interfaces nl family (nd_malloc_entry net) (wifi_names dir2) 0
                                     (replicate n None)) (\<lambda>filled.
                            case filled of
                              None \<Rightarrow> Inr (WIFI_ERROR_OUT_OF_MEMORY, s\<lparr>is_interfaces := FreedArray\<rparr>)
                            | Some a \<Rightarrow> Inr (WIFI_SUCCESS, s\<lparr>is_interfaces := IfaceArray a, is_num := n\<rparr>))))"

text \<open>Freeing the entries and the array, in \<open>wifi_get_ifaces\<close> and \<open>internal_cleaned_up_handler\<close>.\<close>

definition free_interfaces :: "iface_state \<Rightarrow> unit result" where
  "free_interfaces s =
     (case is_interfaces s of
        NullArray \<Rightarrow> if is_num s = 0 then Inr () else Inl UB
      | FreedArray \<Rightarrow> Inl UB
      | IfaceArray a \<Rightarrow> if is_num s \<le> length a then Inr () else Inl UB)"

definition wifi_get_ifaces ::
  "'m libnl \<Rightarrow> nat \<Rightarrow> net_dir \<Rightarrow> iface_state \<Rightarrow> (WifiError \<times> iface_state) result" where
  "wifi_get_ifaces nl family net s =
     bindE (if 0 < is_num s
            then bindE (free_interfaces s) (\<lambda>_. Inr (s\<lparr>is_interfaces := NullArray, is_num := 0\<rparr>))
            else Inr s) (\<lambda>s.
     wifi_init_interfaces nl family net s)"

text \<open>The part of \<open>internal_cleaned_up_handler\<close> that is about interfaces.\<close>

definition cleaned_up_interfaces :: "iface_state \<Rightarrow> unit result" where
  "cleaned_up_interfaces s = (if is_interfaces s = NullArray then Inr () else free_interfaces s)"

text \<open>The first of the \<open>n\<close> entries with a name; a null entry is dereferenced.\<close>

fun iface_handle_loop :: "interface_info option list \<Rightarrow> string \<Rightarrow> nat \<Rightarrow> interface_info option result" where
  "iface_handle_loop a name 0 = Inr None"
| "iface_handle_loop [] name (Suc n) = Inl UB"
| "iface_handle_loop (x # a) name (Suc n) =
     (case x of
        None \<Rightarrow> Inl UB
      | Some i \<Rightarrow> if cstr (ii_name i) = cstr name then Inr (Some i) else iface_handle_loop a name n)"

definition wifi_get_iface_handle :: "iface_state option \<Rightarrow> string option \<Rightarrow> interface_info option result" where
  "wifi_get_iface_handle handle name =
     (case (handle, name) of
        (Some s, Some n) \<Rightarrow>
          (case is_interfaces s of
             IfaceArray a \<Rightarrow> iface_handle_loop a n (is_num s)
           | _ \<Rightarrow> if is_num s = 0 then Inr None else Inl UB)
      | _ \<Rightarrow> Inr None)"

section \<open>Interfaces created by the HAL\<close>

datatype wifi_interface_type = IFACE_STA | IFACE_AP | IFACE_P2P | IFACE_NAN | IFACE_OTHER

definition nl80211_type :: "wifi_hw \<Rightarrow> wifi_interface_type \<Rightarrow> nat option" where
  "nl80211_type hw t =
     (case t of
        IFACE_STA \<Rightarrow> Some (NL80211_IFTYPE_STATION hw)
      | IFACE_AP \<Rightarrow> Some (NL80211_IFTYPE_AP hw)
      | IFACE_P2P \<Rightarrow> Some (NL80211_IFTYPE_P2P_DEVICE hw)
      | IFACE_NAN \<Rightarrow> Some (NL80211_IFTYPE_NAN hw)
      | IFACE_OTHER \<Rightarrow> None)"

text \<open>The vector \<open>hal_created_ifaces\<close> is the list \<open>created\<close>; the handle is the family, \<open>None\<close> for null.\<close>

definition wifi_virtual_interface_create ::
  "'m libnl \<Rightarrow> wifi_hw \<Rightarrow> nat option \<Rightarrow> string option \<Rightarrow> wifi_interface_type \<Rightarrow> string list
     \<Rightarrow> (int \<times> string list \<times> 'm list) result" where
  "wifi_virtual_interface_create nl hw handle ifname iface_type created =
     (case (handle, ifname) of
        (Some family, Some name) \<Rightarrow>
          (case nl80211_type hw iface_type of
             None \<Rightarrow> Inr (nl_code nl WIFI_ERROR_INVALID_ARGS, created, [])
           | Some ty \<Rightarrow>
               if nl_if_index nl ''wlan0'' = 0 then Inr (nl_code nl WIFI_ERROR_UNKNOWN, created, [])
               else if nl_if_index nl name \<noteq> 0 then Inr (nl_code nl WIFI_SUCCESS, created, [])
               else bindE (request_response nl family
                             (AddInterface_create nl hw (int (nl_if_index nl ''wlan0'')) name ty)) (\<lambda>(result, sent).
                    Inr (result,
                         if result = nl_code nl WIFI_SUCCESS then created @ [name] else created, sent)))
      | _ \<Rightarrow> Inr (nl_code nl WIFI_ERROR_INVALID_ARGS, created, []))"

definition is_hal_created_iface :: "string \<Rightarrow> string list \<Rightarrow> bool" where
  "is_hal_created_iface ifname created \<longleftrightarrow> List.member created ifname"

definition wifi_virtual_interface_delete ::
  "'m libnl \<Rightarrow> wifi_hw \<Rightarrow> nat option \<Rightarrow> string option \<Rightarrow> string list \<Rightarrow> (int \<times> string list \<times> 'm list) result" where
  "wifi_virtual_interface_delete nl hw handle ifname created =
     (case (handle, ifname) of
        (Some family, Some name) \<Rightarrow>
          if \<not> is_hal_created_iface name created then Inr (nl_code nl WIFI_SUCCESS, created, [])
          else bindE (request_response nl family (DeleteInterface_create nl hw name)) (\<lambda>(result, sent).
               Inr (result, filter (\<lambda>x. x \<noteq> name) created, sent))
      | _ \<Rightarrow> Inr (nl_code nl WIFI_ERROR_INVALID_ARGS, created, []))"

text \<open>
  The range-based loop of \<open>remove_all_hal_created_ifaces\<close> at the \<open>i\<close>-th of the \<open>n\<close> elements that the vector
  had when the loop started. The function that is called erases from the same vector; an element
  behind its new end has been destroyed.
\<close>

function remove_loop ::
  "'m libnl \<Rightarrow> wifi_hw \<Rightarrow> nat \<Rightarrow> nat \<Rightarrow> nat \<Rightarrow> string list \<Rightarrow> 'm list \<Rightarrow> (string list \<times> 'm list) result" where
  "remove_loop nl hw family n i created sent =
     (if i < n then
        bindE (arr_at created i) (\<lambda>name.
        bindE (wifi_virtual_interface_delete nl hw (Some family) (Some name) created) (\<lambda>(_, created, s).
        remove_loop nl hw family n (i + 1) created (sent @ s)))
      else Inr (created, sent))"
  by pat_completeness auto
termination by (relation "measure (\<lambda>(nl, hw, family, n, i, created, sent). n - i)") auto

declare remove_loop.simps [simp del]

definition remove_all_hal_created_ifaces ::
  "'m libnl \<Rightarrow> wifi_hw \<Rightarrow> nat \<Rightarrow> string list \<Rightarrow> (string list \<times> 'm list) result" where
  "remove_all_hal_created_ifaces nl hw family created =
     bindE (remove_loop nl hw family (length created) 0 created []) (\<lambda>(_, sent). Inr ([], sent))"

section \<open>What the interface list guarantees\<close>

text \<open>
  The interfaces: what the array holds after the directory has been read twice, and the removal of the
  interfaces that the HAL has created.
\<close>

subsection \<open>The array\<close>

lemma fill_interfaces_fits:
  assumes "i + length ns \<le> length a" "\<And>k. malloc k"
  shows "fill_interfaces nl family malloc ns i a
    = Inr (Some (take i a @ map (\<lambda>n. Some (get_interface nl family n)) ns @ drop (i + length ns) a))"
  using assms(1)
proof (induction ns arbitrary: i a)
  case (Cons n ns)
  let ?x = "Some (get_interface nl family n)"
  have "take (i + 1) (a[i := ?x]) = take i a @ [?x]"
    using Cons.prems by (simp add: take_Suc_conv_app_nth)
  then show ?case using Cons.IH [of "i + 1" "a[i := ?x]"] Cons.prems assms(2) by (simp add: arr_set_def)
qed simp

lemma fill_interfaces_overruns:
  assumes "length a < i + length ns" "i \<le> length a" "\<And>k. malloc k"
  shows "fill_interfaces nl family malloc ns i a = Inl UB"
  using assms(1,2)
proof (induction ns arbitrary: i a)
  case (Cons n ns)
  show ?case
  proof (cases "i < length a")
    case True
    then show ?thesis
      using Cons.IH [of "a[i := Some (get_interface nl family n)]" "i + 1"] Cons.prems assms(3)
      by (simp add: arr_set_def)
  qed (use assms(3) in \<open>simp add: arr_set_def\<close>)
qed simp

text \<open>
  The array of interfaces is made for the number of Wi-Fi interfaces of the first listing and filled
  from the second: it holds the interfaces of the second in their order, followed by null entries if
  there are fewer by then, and it is overrun if there are more. Its number of entries is that of the
  first listing in any case.
\<close>

theorem wifi_init_interfaces_fills:
  assumes "nd_first net = Some dir1" "nd_second net = Some dir2" "nd_malloc_array net" "\<And>k. nd_malloc_entry net k"
    and "wifi_names dir1 \<noteq> []"
  shows "wifi_init_interfaces nl family net s =
    (let n = length (wifi_names dir1); m = length (wifi_names dir2)
     in if n < m then Inl UB
        else Inr (WIFI_SUCCESS,
               s\<lparr>is_interfaces := IfaceArray (map (\<lambda>x. Some (get_interface nl family x)) (wifi_names dir2)
                                              @ replicate (n - m) None),
                 is_num := n\<rparr>))"
  using assms fill_interfaces_fits [of 0 "wifi_names dir2" "replicate (length (wifi_names dir1)) None"
      "nd_malloc_entry net" nl family]
    fill_interfaces_overruns [of "replicate (length (wifi_names dir1)) None" 0 "wifi_names dir2"
      "nd_malloc_entry net" nl family]
  by (auto simp: wifi_init_interfaces_def Let_def)

text \<open>An entry that is missing by then is dereferenced by the search for a name that is not found before.\<close>

lemma missing_interface_dereferenced:
  assumes "\<forall>x \<in> set xs. cstr (ii_name x) \<noteq> cstr name" "0 < k"
  shows "iface_handle_loop (map Some xs @ replicate k None) name (length xs + k) = Inl UB"
  using assms
proof (induction xs)
  case Nil
  then show ?case by (cases k) simp_all
qed simp

text \<open>After an entry could not be allocated the array is freed a second time.\<close>

lemma failed_allocation_freed_twice:
  assumes "nd_first net = Some dir1" "nd_second net = Some (n # dir2)" "nd_malloc_array net" "\<not> nd_malloc_entry net 0"
    and "wifi_names dir1 \<noteq> []" "wifi_names [n] = [n]"
  shows "\<exists>s'. wifi_init_interfaces nl family net s = Inr (WIFI_ERROR_OUT_OF_MEMORY, s') \<and> cleaned_up_interfaces s' = Inl UB"
  using assms by (auto simp: wifi_init_interfaces_def Let_def wifi_names_def cleaned_up_interfaces_def
      free_interfaces_def split: if_splits)

subsection \<open>Interfaces created by the HAL\<close>

text \<open>A deletion returns, whatever the driver says to it.\<close>

definition deletions_return :: "'m libnl \<Rightarrow> wifi_hw \<Rightarrow> nat \<Rightarrow> bool" where
  "deletions_return nl hw family \<longleftrightarrow>
     (\<forall>name. \<exists>r. request_response nl family (DeleteInterface_create nl hw name) = Inr r)"

lemma delete_created:
  assumes "deletions_return nl hw family" "name \<in> set created"
  shows "\<exists>e sent. wifi_virtual_interface_delete nl hw (Some family) (Some name) created
    = Inr (e, filter (\<lambda>x. x \<noteq> name) created, sent)"
proof -
  obtain e sent where "request_response nl family (DeleteInterface_create nl hw name) = Inr (e, sent)"
    using assms(1) by (fastforce simp: deletions_return_def)
  then show ?thesis using assms(2) by (simp add: wifi_virtual_interface_delete_def is_hal_created_iface_def)
qed

lemma filter_shrinks: "x \<in> set xs \<Longrightarrow> length (filter (\<lambda>y. y \<noteq> x) xs) < length xs"
  by (induction xs) (auto simp: less_Suc_eq_le)

text \<open>The loop overtakes the end of the shrinking vector.\<close>

lemma remove_loop_faults:
  assumes "deletions_return nl hw family" "length created + i \<le> n" "2 \<le> n" "i < n" "i = 0 \<longrightarrow> length created = n"
  shows "remove_loop nl hw family n i created sent = Inl UB"
  using assms(2-)
proof (induction "n - i" arbitrary: i created sent)
  case (Suc k)
  show ?case
  proof (cases "i < length created")
    case False
    then show ?thesis using Suc.prems(3) by (subst remove_loop.simps) (simp add: arr_at_def)
  next
    case True
    let ?name = "created ! i" and ?rest = "filter (\<lambda>x. x \<noteq> created ! i) created"
    obtain e s where del: "wifi_virtual_interface_delete nl hw (Some family) (Some ?name) created = Inr (e, ?rest, s)"
      using delete_created [OF assms(1), of ?name created] True by auto
    have less: "length ?rest < length created" using filter_shrinks [of ?name created] True by simp
    have "i + 1 < n" using True Suc.prems(1,2) by linarith
    then have "remove_loop nl hw family n (i + 1) ?rest (sent @ s) = Inl UB"
      using Suc.hyps(1) [of "i + 1" ?rest "sent @ s"] Suc.hyps(2) Suc.prems(1,2) less by simp
    then show ?thesis using Suc.prems(3) True del by (subst remove_loop.simps) (simp add: arr_at_def)
  qed
qed simp

text \<open>
  Removing the interfaces that the HAL has created, when the Wi-Fi HAL is cleaned up, works for at
  most one of them. With two or more the loop goes on to elements that the deletions have removed from
  the vector.
\<close>

theorem remove_all_hal_created_ifaces_faults:
  assumes "deletions_return nl hw family"
  shows "(2 \<le> length created \<longrightarrow> remove_all_hal_created_ifaces nl hw family created = Inl UB)
    \<and> (length created < 2 \<longrightarrow> (\<exists>sent. remove_all_hal_created_ifaces nl hw family created = Inr ([], sent)))"
proof (intro conjI impI)
  assume "2 \<le> length created"
  then show "remove_all_hal_created_ifaces nl hw family created = Inl UB"
    using remove_loop_faults [OF assms, of created 0 "length created" "[]"]
    by (cases created) (simp_all add: remove_all_hal_created_ifaces_def)
next
  assume "length created < 2"
  then consider "created = []" | name where "created = [name]"
    by (cases created) (auto simp: less_Suc_eq)
  then show "\<exists>sent. remove_all_hal_created_ifaces nl hw family created = Inr ([], sent)"
  proof cases
    case 1
    then show ?thesis
      by (simp add: remove_all_hal_created_ifaces_def remove_loop.simps [of nl hw family 0 0])
  next
    case 2
    then obtain e sent where "wifi_virtual_interface_delete nl hw (Some family) (Some name) created = Inr (e, [], sent)"
      using delete_created [OF assms, of name created] by auto
    then show ?thesis
      using 2 by (simp add: remove_all_hal_created_ifaces_def remove_loop.simps [of nl hw family "Suc 0"]
          arr_at_def)
  qed
qed

end
