(* ===== verification/WifiRequestClaims.thy ===== *)
theory WifiRequestClaims
  imports WifiRtt NlCommand
begin

text \<open>
  What the requests send. A step of a request \<^emph>\<open>adds\<close> a list of attributes if, whenever it goes on, it has
  put exactly these into the message; steps that follow each other add both lists, and so does an
  enclosing attribute with what is in it.
\<close>

text \<open>Opening and closing an attribute does not touch the attributes that have been put.\<close>

definition nest_log :: "'m libnl \<Rightarrow> ('m \<Rightarrow> (nat \<times> bytes) list) \<Rightarrow> bool" where
  "nest_log nl attrs \<longleftrightarrow>
     (\<forall>a m k m'. nl_nest_start nl a m = Some (k, m') \<longrightarrow> attrs m' = attrs m)
     \<and> (\<forall>k m. attrs (nl_nest_end nl k m) = attrs m)"

text \<open>Every error of the platform is negative.\<close>

definition errors_negative :: "'m libnl \<Rightarrow> bool" where
  "errors_negative nl \<longleftrightarrow> (\<forall>e. e \<noteq> WIFI_SUCCESS \<longrightarrow> nl_code nl e < 0)"

definition adds :: "('m \<Rightarrow> (nat \<times> bytes) list) \<Rightarrow> 'm request_step \<Rightarrow> (nat \<times> bytes) list \<Rightarrow> bool" where
  "adds attrs f as \<longleftrightarrow>
     (\<forall>r m r'. rq_msg r = Some m \<longrightarrow> f r = Inr (None, r') \<longrightarrow> (\<exists>m'. rq_msg r' = Some m' \<and> attrs m' = attrs m @ as))"

lemma addsD: "adds attrs f as \<Longrightarrow> rq_msg r = Some m \<Longrightarrow> f r = Inr (None, r') \<Longrightarrow>
    \<exists>m'. rq_msg r' = Some m' \<and> attrs m' = attrs m @ as"
  by (auto simp: adds_def)

lemma adds_put:
  assumes "attr_log nl attrs"
  shows "adds attrs (or_fail (rq_put nl a bs)) [(a, bs)]"
  unfolding adds_def or_fail_def using rq_put_log [OF assms] by (fastforce split: if_splits)

lemma adds_put_number:
  assumes "attr_log nl attrs"
  shows "adds attrs (or_fail (rq_put_u8 nl a v)) [(a, le 1 v)]" "adds attrs (or_fail (rq_put_u32 nl a v)) [(a, le 4 v)]"
  unfolding rq_put_u8_def rq_put_u32_def by (rule adds_put [OF assms])+

lemma adds_put_bytes:
  assumes "attr_log nl attrs"
  shows "adds attrs (or_fail (rq_put_bytes nl a bs n)) [(a, take n bs)]"
  using adds_put [OF assms, of a "take n bs"]
  unfolding adds_def or_fail_def rq_put_bytes_def rd_bytes_def by auto

lemma adds_Nil: "adds attrs (request_steps []) []"
  by (simp add: adds_def)

lemma adds_Cons:
  assumes "adds attrs f as" "adds attrs (request_steps fs) bs"
  shows "adds attrs (request_steps (f # fs)) (as @ bs)"
proof (unfold adds_def, intro allI impI)
  fix r m r'
  assume m: "rq_msg r = Some m" and run: "request_steps (f # fs) r = Inr (None, r')"
  then obtain r1 where 1: "f r = Inr (None, r1)" and 2: "request_steps fs r1 = Inr (None, r')"
    by (auto split: option.splits)
  obtain m1 where m1: "rq_msg r1 = Some m1" "attrs m1 = attrs m @ as" using addsD [OF assms(1) m 1] by auto
  then show "\<exists>m'. rq_msg r' = Some m' \<and> attrs m' = attrs m @ as @ bs"
    using addsD [OF assms(2) m1(1) 2] by auto
qed

lemma adds_append:
  assumes "adds attrs (request_steps fs) as" "adds attrs (request_steps gs) bs"
  shows "adds attrs (request_steps (fs @ gs)) (as @ bs)"
proof -
  have "request_steps (fs @ gs) r = bindE (request_steps fs r) (\<lambda>(x, r).
      case x of Some e \<Rightarrow> Inr (Some e, r) | None \<Rightarrow> request_steps gs r)" for r
  proof (induction fs arbitrary: r)
    case (Cons f fs)
    then show ?case by (cases "f r") (auto split: option.splits)
  qed simp
  note run_append = this
  show ?thesis
  proof (unfold adds_def, intro allI impI)
    fix r m r'
    assume m: "rq_msg r = Some m" and run: "request_steps (fs @ gs) r = Inr (None, r')"
    then obtain r1 where 1: "request_steps fs r = Inr (None, r1)" and 2: "request_steps gs r1 = Inr (None, r')"
      by (auto simp: run_append split: option.splits)
    obtain m1 where m1: "rq_msg r1 = Some m1" "attrs m1 = attrs m @ as" using addsD [OF assms(1) m 1] by auto
    then show "\<exists>m'. rq_msg r' = Some m' \<and> attrs m' = attrs m @ as @ bs"
      using addsD [OF assms(2) m1(1) 2] by auto
  qed
qed

lemma adds_map:
  assumes "\<And>i. i \<in> set is \<Longrightarrow> adds attrs (f i) (as i)"
  shows "adds attrs (request_steps (map f is)) (concat (map as is))"
  using assms
proof (induction "is")
  case (Cons i "is")
  then have "adds attrs (request_steps (f i # map f is)) (as i @ concat (map as is))"
    by (intro adds_Cons) auto
  then show ?case by (simp only: list.map concat.simps)
qed (simp only: list.map concat.simps adds_Nil)

lemma adds_in_attr:
  assumes "nest_log nl attrs" "adds attrs (request_steps fs) as"
  shows "adds attrs (in_attr nl a err fs) as"
proof (unfold adds_def, intro allI impI)
  fix r m r'
  assume m: "rq_msg r = Some m" and run: "in_attr nl a err fs r = Inr (None, r')"
  obtain k m1 where start: "nl_nest_start nl a m = Some (k, m1)" and
    body: "\<exists>r2. request_steps fs (r\<lparr>rq_msg := Some m1\<rparr>) = Inr (None, r2) \<and> rq_attr_end nl k r2 = Inr r'"
  proof (cases "nl_nest_start nl a m")
    case None
    then show ?thesis using run m
      by (auto simp: in_attr_def rq_attr_start_def split: if_splits option.splits)
  next
    case (Some p)
    then show ?thesis using run m that
      by (cases p) (auto simp: in_attr_def rq_attr_start_def split: if_splits option.splits)
  qed
  then obtain r2 where r2: "request_steps fs (r\<lparr>rq_msg := Some m1\<rparr>) = Inr (None, r2)" and
    end_k: "rq_attr_end nl k r2 = Inr r'" by blast
  obtain m2 where m2: "rq_msg r2 = Some m2" "attrs m2 = attrs m1 @ as"
    using addsD [OF assms(2) _ r2, of m1] by auto
  show "\<exists>m'. rq_msg r' = Some m' \<and> attrs m' = attrs m @ as"
    using assms(1) start m2 end_k by (auto simp: nest_log_def rq_attr_end_def)
qed

text \<open>The vendor command for an interface.\<close>

definition command_attrs :: "'m libnl \<Rightarrow> int \<Rightarrow> nat \<Rightarrow> nat \<Rightarrow> (nat \<times> bytes) list" where
  "command_attrs nl iface vid subcmd =
     [(NL80211_ATTR_VENDOR_ID nl, le 4 vid), (NL80211_ATTR_VENDOR_SUBCMD nl, le 4 subcmd)]
     @ (if iface = - 1 then [] else [(NL80211_ATTR_IFINDEX nl, le 4 (as_u32 iface))])"

lemma create_vendor_log:
  assumes log: "attr_log nl attrs"
    and run: "rq_create_vendor nl iface vid subcmd r = Inr (e, r')" "0 \<le> e"
  shows "\<exists>m. rq_msg r' = Some m \<and> attrs m = command_attrs nl iface vid subcmd"
proof -
  obtain m0 where alloc: "nl_alloc nl = Some m0"
    using run log by (cases "nl_alloc nl") (auto simp: rq_create_vendor_def rq_create_def attr_log_def)
  define r0 where "r0 = (rq_destroy r)\<lparr>rq_msg := Some (nl_genlmsg_put nl (rq_family r) (NL80211_CMD_VENDOR nl) m0)\<rparr>"
  have m0: "attrs (nl_genlmsg_put nl (rq_family r) (NL80211_CMD_VENDOR nl) m0) = []" "\<not> nl_code nl WIFI_SUCCESS < 0"
    using log alloc by (auto simp: attr_log_def)
  obtain e1 r1 where p1: "rq_put nl (NL80211_ATTR_VENDOR_ID nl) (le 4 vid) r0 = Inr (e1, r1)"
    using run alloc m0(2) by (auto simp: rq_create_vendor_def rq_create_def rq_put_u32_def r0_def)
  have e1: "0 \<le> e1" using run alloc m0(2) p1
    by (auto simp: rq_create_vendor_def rq_create_def rq_put_u32_def r0_def split: if_splits)
  obtain e2 r2 where p2: "rq_put nl (NL80211_ATTR_VENDOR_SUBCMD nl) (le 4 subcmd) r1 = Inr (e2, r2)"
    using run alloc m0(2) p1 e1 by (auto simp: rq_create_vendor_def rq_create_def rq_put_u32_def r0_def)
  have e2: "0 \<le> e2" and last: "if iface = - 1 then r' = r2
      else rq_put nl (NL80211_ATTR_IFINDEX nl) (le 4 (as_u32 iface)) r2 = Inr (e, r')"
    using run alloc m0(2) p1 e1 p2
    by (auto simp: rq_create_vendor_def rq_create_def rq_put_u32_def rq_set_iface_id_def r0_def split: if_splits)
  obtain m2 where m2: "rq_msg r2 = Some m2"
    "attrs m2 = [(NL80211_ATTR_VENDOR_ID nl, le 4 vid), (NL80211_ATTR_VENDOR_SUBCMD nl, le 4 subcmd)]"
    using rq_put_log [OF log p1 e1] rq_put_log [OF log p2 e2] m0(1) by (auto simp: r0_def)
  show ?thesis
  proof (cases "iface = - 1")
    case True
    then show ?thesis using last m2 by (simp add: command_attrs_def)
  next
    case False
    then have "rq_put nl (NL80211_ATTR_IFINDEX nl) (le 4 (as_u32 iface)) r2 = Inr (e, r')" using last by simp
    from rq_put_log [OF log this run(2)] m2 False show ?thesis by (auto simp: command_attrs_def)
  qed
qed

text \<open>
  A request that reports success has been sent, unless there was no memory for the callbacks of libnl, which
  \<open>requestResponse\<close> takes for success.
\<close>

lemma sent_request:
  assumes "send_request nl r = Inr (nl_code nl WIFI_SUCCESS, sent)" and "rq_msg r = Some m"
    and "errors_negative nl" "nl_code nl WIFI_SUCCESS = 0"
  shows "sent = (if nl_cb_alloc nl then [m] else [])"
  using assms
  by (auto simp: send_request_def requestResponse_def errors_negative_def split: if_splits)
     (metis less_irrefl linorder_not_le mapKernel_success_iff)

text \<open>A step that leaves the function does so with a negative number.\<close>

definition fails_negative :: "'m request_step \<Rightarrow> bool" where
  "fails_negative f \<longleftrightarrow> (\<forall>r e r'. f r = Inr (Some e, r') \<longrightarrow> e < 0)"

lemma fails_or_fail: "fails_negative (or_fail f)"
  by (auto simp: fails_negative_def or_fail_def split: if_splits)

lemma fails_steps:
  assumes "\<forall>f \<in> set fs. fails_negative f"
  shows "fails_negative (request_steps fs)"
  using assms
proof (induction fs)
  case (Cons f fs)
  then show ?case by (fastforce simp: fails_negative_def split: option.splits)
qed (simp add: fails_negative_def)

lemma fails_in_attr:
  assumes "fails_negative (request_steps fs)" "e < 0"
  shows "fails_negative (in_attr nl a (Some e) fs)"
  using assms by (fastforce simp: fails_negative_def in_attr_def split: if_splits option.splits)

text \<open>Hence a command that reports success has gone through all its steps and sent its message.\<close>

lemma started_steps:
  assumes "fails_negative f" "nl_code nl WIFI_SUCCESS = 0"
    and "start_if_success nl family (ending_with (nl_code nl WIFI_SUCCESS) f) = Inr (nl_code nl WIFI_SUCCESS, sent)"
  obtains r where "f (new_request family) = Inr (None, r)" "send_request nl r = Inr (nl_code nl WIFI_SUCCESS, sent)"
proof (cases "f (new_request family)")
  case (Inl e)
  then show ?thesis using assms(3) by (simp add: start_if_success_def ending_with_def)
next
  case (Inr p)
  obtain x r where p: "p = (x, r)" by (cases p)
  show ?thesis
  proof (cases x)
    case None
    then show ?thesis using that assms(3) Inr p by (simp add: start_if_success_def ending_with_def)
  next
    case (Some e)
    then have "e < 0" using assms(1) Inr p unfolding fails_negative_def by blast
    then show ?thesis using assms(2,3) Inr p Some by (simp add: start_if_success_def ending_with_def)
  qed
qed

lemma vendor_request_sent:
  assumes log: "attr_log nl attrs" "nest_log nl attrs" and errors: "errors_negative nl"
    and body: "fails_negative (request_steps body)" "adds attrs (request_steps body) data"
    and start: "start_if_success nl family (ending_with (nl_code nl WIFI_SUCCESS) (request_steps
        [or_fail (rq_create_vendor nl iface vid subcmd), vendor_data nl body])) = Inr (nl_code nl WIFI_SUCCESS, sent)"
  shows "\<exists>m. sent = (if nl_cb_alloc nl then [m] else []) \<and> attrs m = command_attrs nl iface vid subcmd @ data"
proof -
  have zero: "nl_code nl WIFI_SUCCESS = 0" using log(1) by (simp add: attr_log_def)
  have "nl_code nl WIFI_ERROR_UNKNOWN < 0" using errors by (simp add: errors_negative_def)
  then have "fails_negative (request_steps [or_fail (rq_create_vendor nl iface vid subcmd), vendor_data nl body])"
    using body(1) by (intro fails_steps) (auto simp: fails_or_fail vendor_data_def intro!: fails_in_attr)
  from started_steps [OF this zero start] obtain r where
    steps: "request_steps [or_fail (rq_create_vendor nl iface vid subcmd), vendor_data nl body] (new_request family) = Inr (None, r)"
    and send: "send_request nl r = Inr (nl_code nl WIFI_SUCCESS, sent)" by blast
  obtain r1 where create: "or_fail (rq_create_vendor nl iface vid subcmd) (new_request family) = Inr (None, r1)"
    and vendor: "vendor_data nl body r1 = Inr (None, r)"
    using steps by (auto split: option.splits)
  obtain e where "rq_create_vendor nl iface vid subcmd (new_request family) = Inr (e, r1)" "0 \<le> e"
    using create by (auto simp: or_fail_def split: if_splits)
  from create_vendor_log [OF log(1) this] obtain m1 where
    m1: "rq_msg r1 = Some m1" "attrs m1 = command_attrs nl iface vid subcmd" by blast
  have "adds attrs (vendor_data nl body) data"
    using body(2) unfolding vendor_data_def by (rule adds_in_attr [OF log(2)])
  from addsD [OF this m1(1) vendor] obtain m where
    m: "rq_msg r = Some m" "attrs m = command_attrs nl iface vid subcmd @ data" by (auto simp: m1(2))
  then show ?thesis using sent_request [OF send m(1) errors zero] by blast
qed

section \<open>Roaming\<close>

definition roaming_attrs :: "'m libnl \<Rightarrow> wifi_iface \<Rightarrow> wifi_roaming_config \<Rightarrow> (nat \<times> bytes) list" where
  "roaming_attrs nl i c =
     command_attrs nl (wi_id i) GOOGLE_OUI WIFI_SUBCMD_CONFIG_ROAMING
     @ [(WIFI_ATTRIBUTE_ROAMING_BLACKLIST_NUM, le 4 (num_blacklist_bssid c))]
     @ map (\<lambda>k. (WIFI_ATTRIBUTE_ROAMING_BLACKLIST_BSSID, take 6 (blacklist_bssid c ! k))) [0..<num_blacklist_bssid c]
     @ [(WIFI_ATTRIBUTE_ROAMING_WHITELIST_NUM, le 4 (num_whitelist_ssid c))]
     @ map (\<lambda>k. (WIFI_ATTRIBUTE_ROAMING_WHITELIST_SSID,
                 take (ssid_length (whitelist_ssid c ! k)) (ssid_str (whitelist_ssid c ! k)) @ [0]))
         [0..<num_whitelist_ssid c]"

lemma adds_blacklisted:
  assumes "attr_log nl attrs"
  shows "adds attrs (put_blacklisted nl c k)
    [(WIFI_ATTRIBUTE_ROAMING_BLACKLIST_BSSID, take 6 (blacklist_bssid c ! k))]"
  using adds_put_bytes [OF assms] unfolding adds_def put_blacklisted_def by (auto simp: vec_at_Inr_iff)

lemma adds_whitelisted:
  assumes "attr_log nl attrs"
  shows "adds attrs (put_whitelisted nl hw c k)
    [(WIFI_ATTRIBUTE_ROAMING_WHITELIST_SSID,
      take (ssid_length (whitelist_ssid c ! k)) (ssid_str (whitelist_ssid c ! k)) @ [0])]"
proof (unfold adds_def, intro allI impI)
  fix r m r'
  let ?s = "whitelist_ssid c ! k"
  let ?n = "ssid_length ?s" and ?z = "replicate (MAX_SSID_LENGTH hw + 1) 0 :: bytes"
  assume m: "rq_msg r = Some m" and run: "put_whitelisted nl hw c k r = Inr (None, r')"
  obtain b b' where copy: "memcpy ?z (Some (ssid_str ?s)) ?n = Inr b" "wr8 b ?n 0 = Inr b'"
    and put: "or_fail (rq_put_bytes nl WIFI_ATTRIBUTE_ROAMING_WHITELIST_SSID b' (?n + 1)) r = Inr (None, r')"
    using run by (auto simp: put_whitelisted_def vec_at_Inr_iff)
  have n: "?n \<le> length (ssid_str ?s)" and b: "b = take ?n (ssid_str ?s) @ drop ?n ?z"
    using copy(1) by (auto simp: memcpy_def split: if_splits)
  have "?n < length b" and b': "b' = b[?n := 0]" using copy(2) by (auto simp: wr8_def split: if_splits)
  then have "take (?n + 1) b' = take ?n b @ [0]" by (simp add: take_Suc_conv_app_nth)
  moreover have "take ?n b = take ?n (ssid_str ?s)" using n by (simp add: b)
  ultimately show "\<exists>m'. rq_msg r' = Some m' \<and> attrs m' = attrs m @
      [(WIFI_ATTRIBUTE_ROAMING_WHITELIST_SSID, take ?n (ssid_str ?s) @ [0])]"
    using addsD [OF adds_put_bytes [OF assms] m put] by simp
qed

lemma concat_singletons: "concat (map (\<lambda>i. [f i]) xs) = map f xs"
  by (induction xs) simp_all

lemma fails_roaming:
  "fails_negative (request_steps (or_fail f # map (put_blacklisted nl c) ks @ or_fail g # map (put_whitelisted nl hw c) ls))"
proof -
  have "fails_negative (put_blacklisted nl c k)" "fails_negative (put_whitelisted nl hw c k)" for k
    using fails_or_fail unfolding fails_negative_def put_blacklisted_def put_whitelisted_def by auto
  then show ?thesis by (intro fails_steps) (auto simp: fails_or_fail)
qed

text \<open>
  C39: Configuring the roaming reports success only with lists within the limits that the driver has
  reported. Then exactly one message has been sent: the vendor command for the interface, with the number of
  addresses and the addresses that are avoided, the number of networks and their names, each ended by a
  zero; or none at all, when libnl had no memory for its callbacks.
\<close>

theorem wifi_configure_roaming_sends:
  assumes log: "attr_log nl attrs" "nest_log nl attrs" and errors: "errors_negative nl"
    and ok: "wifi_configure_roaming nl hw capa (Some i) (Some c) = Inr (nl_code nl WIFI_SUCCESS, sent)"
  shows "num_blacklist_bssid c \<le> max_blacklist_size capa \<and> num_whitelist_ssid c \<le> max_whitelist_size capa
    \<and> (\<exists>m. sent = (if nl_cb_alloc nl then [m] else []) \<and> attrs m = roaming_attrs nl i c)"
proof -
  have zero: "nl_code nl WIFI_SUCCESS = 0" using log(1) by (simp add: attr_log_def)
  have "nl_code nl WIFI_ERROR_NOT_SUPPORTED < 0" using errors by (simp add: errors_negative_def)
  then have within: "num_blacklist_bssid c \<le> max_blacklist_size capa" "num_whitelist_ssid c \<le> max_whitelist_size capa"
    and start: "start_if_success nl (wi_family i) (ConfigRoaming_createRequest nl hw (wi_id i) c)
      = Inr (nl_code nl WIFI_SUCCESS, sent)"
    using ok zero by (auto simp: wifi_configure_roaming_def for_iface_def split: if_splits)
  show ?thesis
    using vendor_request_sent [OF log errors fails_roaming
        adds_Cons [OF adds_put_number(2) [OF log(1)] adds_append
          [OF adds_map [OF adds_blacklisted [OF log(1)], unfolded concat_singletons]
            adds_Cons [OF adds_put_number(2) [OF log(1)]
              adds_map [OF adds_whitelisted [OF log(1)], unfolded concat_singletons]]]]
        start [unfolded ConfigRoaming_createRequest_def]] within
    by (simp add: roaming_attrs_def)
qed

end
