(* ===== verification/WifiWitnesses.thy ===== *)
theory WifiWitnesses
  imports WifiClaims WifiIfaces WifiRequestClaims WifiRadio WifiReplies
begin

text \<open>
  The properties of the Wi-Fi HAL's core at concrete inputs: a driver that answers every request, one
  that refuses it, and tables with 64 entries each.
\<close>

section \<open>Tables\<close>

definition ex_cb :: "(nat, nat) cb_info" where
  "ex_cb = \<lparr>cb_nl_cmd = 0, cb_vendor_id = 0, cb_vendor_subcmd = 0, cb_func = None, cb_arg = None, cb_ifname = []\<rparr>"

definition ex_cmd :: "nat cmd_info" where
  "ex_cmd = \<lparr>ci_id = 0, ci_cmd = None\<rparr>"

definition ex_tables :: "(nat, nat) hal_tables" where
  "ex_tables = \<lparr>event_cb = replicate 64 ex_cb, num_event_cb = 0, alloc_event_cb = 64,
     hal_cmd = replicate 64 ex_cmd, num_cmd = 0, alloc_cmd = 64\<rparr>"

lemma ex_tables_init:
  "init_tables (Some (replicate 64 ex_cb)) (Some (replicate 64 ex_cmd)) = Inr ex_tables"
  by (simp add: init_tables_def ex_tables_def DEFAULT_EVENT_CB_SIZE_def DEFAULT_CMD_SIZE_def)

lemma ex_tables_reach: "tables_reach nl ex_tables"
  by (rule tables_reach.init [OF ex_tables_init]) (simp_all add: DEFAULT_EVENT_CB_SIZE_def DEFAULT_CMD_SIZE_def)

text \<open>What a request is made of, for the evaluation of one.\<close>

lemmas request_eval = rq_create_vendor_def rq_create_def rq_destroy_def new_request_def rq_put_u32_def rq_put_u8_def
  rq_put_bytes_def rq_put_def rq_set_iface_id_def rq_attr_start_def rq_attr_end_def in_attr_def vendor_data_def
  vendor_data_blind_def or_fail_def ending_with_def request_response_def send_request_def requestResponse_def
  mapKernelErrortoWifiHalError_def recv_loop.simps

text \<open>What the tables do at their first entry.\<close>

lemmas table_eval = wifi_register_cmd_def wifi_unregister_cmd_def wifi_register_vendor_handler_def
  wifi_unregister_vendor_handler_def arr_set_def arr_at_def arr_close_def arr_search.simps

definition ex_ops :: "(nat, nat) table_op list" where
  "ex_ops = [RegisterHandler 34 (Some 1) None, RegisterVendor google 7 (Some 2) (Some 10) (Some ''wlan0''),
     RegisterCmd 5 (Some 10), RegisterVendor google 7 (Some 3) (Some 11) (Some ''wlan0''),
     RegisterCmd 6 (Some 11), UnregisterCmd 5, UnregisterHandler 34]"

lemma ex_ops_ok: "\<forall>op \<in> set ex_ops. op_ok op"
  using google_nonzero by (simp add: ex_ops_def)

lemma ex_ops_registry: "fold (registry_step ex_libnl) ex_ops ([], []) =
    ([\<lparr>cb_nl_cmd = 103, cb_vendor_id = google, cb_vendor_subcmd = 7, cb_func = Some 3, cb_arg = Some 11,
       cb_ifname = short_name ''wlan0''\<rparr>], [\<lparr>ci_id = 6, ci_cmd = Some 11\<rparr>])"
  by (simp add: ex_ops_def add_within_def names_event_def vendor_handler_def strn_eq_def cstr_def short_name_def
      MAX_IFACENAME_LEN_def DEFAULT_EVENT_CB_SIZE_def DEFAULT_CMD_SIZE_def ex_libnl_def)

lemma tables_implement_registry_witness:
  "\<exists>info. foldE (table_step ex_libnl) ex_ops ex_tables = Inr info
    \<and> registry info = ([\<lparr>cb_nl_cmd = 103, cb_vendor_id = google, cb_vendor_subcmd = 7, cb_func = Some 3,
         cb_arg = Some 11, cb_ifname = short_name ''wlan0''\<rparr>], [\<lparr>ci_id = 6, ci_cmd = Some 11\<rparr>])"
  using tables_implement_registry [OF ex_tables_init _ _ ex_ops_ok, of ex_libnl, unfolded ex_ops_registry]
  by (auto simp: DEFAULT_EVENT_CB_SIZE_def DEFAULT_CMD_SIZE_def)

section \<open>Requests that the driver refuses\<close>

definition busy_libnl :: "(nat \<times> bytes) list libnl" where
  "busy_libnl = ex_libnl\<lparr>nl_replies := (\<lambda>_. [1, - 16])\<rparr>"

definition ex_wlan0 :: interface_info where
  "ex_wlan0 = \<lparr>ii_family = 27, ii_name = ''wlan0'', ii_id = 4\<rparr>"

definition ex_rtt_config :: wifi_rtt_config where
  "ex_rtt_config = \<lparr>rtt_addr = [2, 0, 0, 0, 0, 1], rtt_type = 2, rtt_peer = 1, rtt_channel = replicate 16 0,
     rtt_burst_period = 0, rtt_num_burst = 0, rtt_num_frames_per_burst = 8, rtt_num_retries_per_rtt_frame = 0,
     rtt_num_retries_per_ftmr = 0, rtt_LCI_request = 0, rtt_LCR_request = 0, rtt_burst_duration = 15,
     rtt_preamble = 4, rtt_bw = 4\<rparr>"

definition ex_event :: "nat \<Rightarrow> bytes option" where
  "ex_event = [NL80211_ATTR_VENDOR_ID busy_libnl \<mapsto> le 4 GOOGLE_OUI,
     NL80211_ATTR_VENDOR_SUBCMD busy_libnl \<mapsto> le 4 (nat RTT_EVENT_COMPLETE)]"

definition result_code :: "('a \<times> 'b) result \<Rightarrow> 'a option" where
  "result_code r = (case r of Inl _ \<Rightarrow> None | Inr (e, _) \<Rightarrow> Some e)"

lemma result_code_Some: "result_code r = Some e \<Longrightarrow> \<exists>a b c. r = Inr (e, a, b, c)"
  by (auto simp: result_code_def split: sum.splits prod.splits)

lemma refused_range:
  "result_code (wifi_rtt_range_request busy_libnl 5 (Some ex_wlan0) [ex_rtt_config] (2 :: nat) (10 :: nat) ex_tables)
    = Some (- 1)"
  by (simp add: result_code_def wifi_rtt_range_request_def start_registered_def RttRequest_start_def
      RttRequest_create_def target_steps_def put_target_def ex_wlan0_def ex_rtt_config_def busy_libnl_def
      ex_libnl_def ex_tables_def request_eval table_eval rd_bytes_def)

lemma ex_tables_room:
  "num_cmd ex_tables < alloc_cmd ex_tables" "has_room google RTT_EVENT_COMPLETE (registry ex_tables)"
  by (simp_all add: ex_tables_def has_room_def registry_def DEFAULT_EVENT_CB_SIZE_def)

lemma refused_range_request_dangles_witness:
  "\<exists>info' sent. wifi_rtt_range_request busy_libnl 5 (Some ex_wlan0) [ex_rtt_config] 2 10 ex_tables
      = Inr (- 1, info', [ReleaseRef 10], sent)
    \<and> internal_valid_message_handler busy_libnl (Some (103, ex_event)) info'
      = Inr [AddRef 10, Invoke 2 (Some 10), ReleaseRef 10]"
proof -
  obtain info' acts sent where run: "wifi_rtt_range_request busy_libnl 5 (Some ex_wlan0) [ex_rtt_config] 2 10 ex_tables
      = Inr (- 1, info', acts, sent)"
    using result_code_Some [OF refused_range] by blast
  show ?thesis
    using refused_range_request_dangles [OF ex_tables_reach ex_tables_room run, of ex_event] run
    by (auto simp: ex_event_def busy_libnl_def ex_libnl_def)
qed

definition monitored_tables :: "(nat, nat) hal_tables" where
  "monitored_tables = ex_tables\<lparr>hal_cmd := \<lparr>ci_id = 5, ci_cmd = Some 10\<rparr> # replicate 63 ex_cmd, num_cmd := 1\<rparr>"

lemma replicate_64: "replicate 64 x = x # replicate 63 x"
  by (simp add: numeral_eq_Suc)

lemma monitored_reach: "tables_reach nl monitored_tables"
  by (rule tables_reach.step [where op = "RegisterCmd 5 (Some 10)", OF ex_tables_reach])
     (simp_all add: monitored_tables_def ex_tables_def wifi_register_cmd_def arr_set_def replicate_64)

lemma refused_monitor:
  "result_code (wifi_start_rssi_monitoring busy_libnl 5 (Some ex_wlan0) (- 30) (- 80) (2 :: nat) 11 monitored_tables)
    = Some (- 1)"
  by (simp add: result_code_def wifi_start_rssi_monitoring_def start_registered_def SetRSSIMonitor_start_def
      SetRSSIMonitor_createRequest_def new_rssi_monitor_def ex_wlan0_def busy_libnl_def ex_libnl_def
      monitored_tables_def ex_tables_def request_eval table_eval)

lemma failed_monitor_replaces_command_witness:
  "\<exists>info' sent. wifi_start_rssi_monitoring busy_libnl 5 (Some ex_wlan0) (- 30) (- 80) 2 11 monitored_tables
      = Inr (- 1, info', [ReleaseRef 11], sent)
    \<and> snd (registry info') = [\<lparr>ci_id = 5, ci_cmd = Some 11\<rparr>]"
proof -
  obtain info' acts sent where run:
    "wifi_start_rssi_monitoring busy_libnl 5 (Some ex_wlan0) (- 30) (- 80) 2 11 monitored_tables = Inr (- 1, info', acts, sent)"
    using result_code_Some [OF refused_monitor] by blast
  have "num_cmd monitored_tables < alloc_cmd monitored_tables" "wifi_get_cmd 5 monitored_tables = Inr (Some 10)"
    by (simp_all add: monitored_tables_def ex_tables_def wifi_get_cmd_def arr_search.simps arr_at_def)
  from failed_monitor_replaces_command [OF monitored_reach this run] run show ?thesis
    by (auto simp: busy_libnl_def ex_libnl_def registry_def monitored_tables_def)
qed

definition ex_heap :: "nat \<Rightarrow> wifi_object option" where
  "ex_heap = [10 \<mapsto> RssiMonitor (new_rssi_monitor ex_wlan0 (- 30) (- 80))]"

lemma cleanup_terminates_witness:
  "cleanup_commands 2 ex_libnl ex_heap 0 monitored_tables \<noteq> Inl Diverges
    \<and> cleanup_commands 50 ex_libnl ex_heap 0 monitored_tables = cleanup_commands 2 ex_libnl ex_heap 0 monitored_tables"
proof -
  have "answers ex_libnl" by (simp add: answers_def ex_libnl_def recv_loop.simps)
  moreover have "\<forall>x \<in> set (snd (registry monitored_tables)). ci_cmd x \<noteq> None" "num_cmd monitored_tables < 2"
    by (simp_all add: monitored_tables_def registry_def)
  moreover have "(2 :: nat) \<le> 50" by simp
  ultimately show ?thesis using cleanup_terminates [OF monitored_reach [of ex_libnl], of 2 ex_heap] by blast
qed

section \<open>Interfaces and requests\<close>

definition ex_dir :: net_dir where
  "ex_dir = \<lparr>nd_first = Some [''.'', ''wlan0'', ''lo'', ''p2p0''], nd_second = Some [''.'', ''wlan0'', ''lo''],
     nd_malloc_array = True, nd_malloc_entry = (\<lambda>_. True)\<rparr>"

lemma wifi_init_interfaces_fills_witness:
  "wifi_init_interfaces ex_libnl 27 ex_dir \<lparr>is_interfaces = NullArray, is_num = 0\<rparr>
    = Inr (WIFI_SUCCESS, \<lparr>is_interfaces = IfaceArray [Some (get_interface ex_libnl 27 ''wlan0''), None], is_num = 2\<rparr>)"
  using wifi_init_interfaces_fills [of ex_dir "[''.'', ''wlan0'', ''lo'', ''p2p0'']" "[''.'', ''wlan0'', ''lo'']"
      ex_libnl 27 "\<lparr>is_interfaces = NullArray, is_num = 0\<rparr>"]
  by (simp add: ex_dir_def wifi_names_def starts_with_def is_wifi_interface_def)

definition ex_wifi_hw :: wifi_hw where
  "ex_wifi_hw = \<lparr>NL80211_CMD_NEW_INTERFACE = 7, NL80211_CMD_DEL_INTERFACE = 8, NL80211_ATTR_IFNAME = 4,
     NL80211_ATTR_IFTYPE = 5, NL80211_IFTYPE_STATION = 2, NL80211_IFTYPE_AP = 3, NL80211_IFTYPE_P2P_DEVICE = 10,
     NL80211_IFTYPE_NAN = 12, MAX_SSID_LENGTH = 32, MAX_BLACKLIST_BSSID = 16, MAX_WHITELIST_SSID = 8\<rparr>"

lemma ex_deletions_return: "deletions_return ex_libnl ex_wifi_hw 27"
  by (auto simp: deletions_return_def request_response_def DeleteInterface_create_def send_request_def requestResponse_def
      ending_with_def ignoring_def rq_put_u32_def rq_put_def rq_create_def rq_destroy_def new_request_def ex_libnl_def
      recv_loop.simps)

lemma remove_all_hal_created_ifaces_faults_witness:
  "remove_all_hal_created_ifaces ex_libnl ex_wifi_hw 27 [''wlan1'', ''p2p0''] = Inl UB
    \<and> (\<exists>sent. remove_all_hal_created_ifaces ex_libnl ex_wifi_hw 27 [''wlan1''] = Inr ([], sent))"
  using remove_all_hal_created_ifaces_faults [OF ex_deletions_return, of "[''wlan1'', ''p2p0'']"]
    remove_all_hal_created_ifaces_faults [OF ex_deletions_return, of "[''wlan1'']"] by simp

definition ex_roaming :: wifi_roaming_config where
  "ex_roaming = \<lparr>num_blacklist_bssid = 1, blacklist_bssid = [ [2, 0, 0, 0, 0, 9] ], num_whitelist_ssid = 1,
     whitelist_ssid = [\<lparr>ssid_length = 2, ssid_str = [104, 105, 0, 0]\<rparr>]\<rparr>"

definition ex_capa :: wifi_roaming_capabilities where
  "ex_capa = \<lparr>max_blacklist_size = 16, max_whitelist_size = 8\<rparr>"

lemma wifi_configure_roaming_sends_witness:
  "\<exists>m. wifi_configure_roaming ex_libnl ex_wifi_hw ex_capa (Some \<lparr>wi_family = 27, wi_id = 4\<rparr>) (Some ex_roaming) = Inr (0, [m])
    \<and> m = [(195, le 4 0x001A11), (196, le 4 WIFI_SUBCMD_CONFIG_ROAMING), (3, le 4 4),
           (WIFI_ATTRIBUTE_ROAMING_BLACKLIST_NUM, le 4 1), (WIFI_ATTRIBUTE_ROAMING_BLACKLIST_BSSID, [2, 0, 0, 0, 0, 9]),
           (WIFI_ATTRIBUTE_ROAMING_WHITELIST_NUM, le 4 1), (WIFI_ATTRIBUTE_ROAMING_WHITELIST_SSID, [104, 105, 0])]"
proof -
  let ?run = "wifi_configure_roaming ex_libnl ex_wifi_hw ex_capa (Some \<lparr>wi_family = 27, wi_id = 4\<rparr>) (Some ex_roaming)"
  have "result_code ?run = Some 0"
    by (simp add: result_code_def wifi_configure_roaming_def for_iface_def ConfigRoaming_createRequest_def put_blacklisted_def
        put_whitelisted_def ex_roaming_def ex_capa_def ex_wifi_hw_def ex_libnl_def start_if_success_def request_eval
        rd_bytes_def vec_at_def memcpy_def wr8_def)
  then obtain sent where run: "?run = Inr (0, sent)"
    by (auto simp: result_code_def split: sum.splits prod.splits)
  have "attr_log ex_libnl (\<lambda>m. m)" "nest_log ex_libnl (\<lambda>m. m)" "errors_negative ex_libnl"
    by (auto simp: attr_log_def nest_log_def errors_negative_def ex_libnl_def)
  from wifi_configure_roaming_sends [OF this, of ex_wifi_hw ex_capa "\<lparr>wi_family = 27, wi_id = 4\<rparr>" ex_roaming sent] run
  show ?thesis
    by (auto simp: roaming_attrs_def command_attrs_def ex_roaming_def ex_libnl_def GOOGLE_OUI_def as_u32_def)
qed

section \<open>Radio combinations\<close>

definition ex_combo_hw :: combo_hw where
  "ex_combo_hw = \<lparr>sizeof_matrix = 4, sizeof_combination = 4, sizeof_configuration = 8\<rparr>"

definition ex_combos :: bytes where
  "ex_combos = [2, 2, 5, 2, 6, 1, 0, 0, 0, 0, 0, 0, 0, 0, 0, 0, 0, 0, 0, 0, 0, 0, 0, 0]"

lemma radio_combinations_fit_witness:
  "\<exists>rc m. combo_attr ex_combo_hw 100 (1, ex_combos) (0, \<lparr>rm_num = 0, rm_combos = []\<rparr>) = Inr (Next (rc, m)) \<and> rc \<le> 100
    \<and> length (rm_combos m) = rm_num m \<and> rc = sizeof_matrix ex_combo_hw + combos_size ex_combo_hw (rm_combos m)"
proof -
  have "\<exists>x. combo_attr ex_combo_hw 100 (1, ex_combos) (0, \<lparr>rm_num = 0, rm_combos = []\<rparr>) = Inr (Next x)"
    by (simp add: combo_attr_def ex_combo_hw_def ex_combos_def comb_unit_def check_sanity_def unit_size_def
        convert_radio_def convert_band_def convert_antenna_def RADIO_COMBINATIONS_MATRIX_MATRIX_def
        COMB_MATRIX_LEN_def upt_rec)
  moreover have "fst (1, ex_combos) = RADIO_COMBINATIONS_MATRIX_MATRIX"
    by (simp add: RADIO_COMBINATIONS_MATRIX_MATRIX_def)
  ultimately show ?thesis using radio_combinations_fit [of "(1, ex_combos)" ex_combo_hw 100 "(0, \<lparr>rm_num = 0, rm_combos = []\<rparr>)"] by auto
qed

end
