(* ===== verification/Spec2Isabelle.thy ===== *)
theory Spec2Isabelle
  imports PidRequests VoteInvariant Severity PredictionsRing VtClaims PowerClaims ConfigFaults StatsAccounting HelperClaims HelperEmul HelperTimes HelperWrites HelperSetup ThermalService UsbPorts NanWitnesses WifiWitnesses
begin

text \<open>
  A verification library for three hardware abstraction layers of the repository: the thermal service
  (\<open>aidl/thermal\<close>), the Wi-Fi HAL (\<open>wlan/wifi_hal\<close>), of the latter NAN (Neighbour Awareness
  Networking) and the core, and the USB service (\<open>aidl/usb\<close>). All are C++; the model follows the code function by function.

  \<^bold>\<open>Conventions.\<close> A definition has the name of the C++ function it models, the field of a record the
  name of the member behind a short tag of its struct. A function that can fault returns
  \<open>fault + 'a\<close> (\<open>Prelude\<close>): \<open>Inl UB\<close> is undefined behaviour (an index outside a vector, an access
  outside an object, a null pointer, a signed overflow that the code does not exclude), other faults
  are the exceptions and aborts of the library functions, and \<open>Inl Diverges\<close> stands for a call that
  does not return. Errors that the code reports by a result are ordinary results of the model. State
  is passed explicitly: an operation returns the changed record. An unordered map is an
  association list in the order of iteration, which no theorem fixes. Logging and tracing have no
  counterpart, nor has locking: an operation that holds its lock throughout is one step.

  \<^bold>\<open>Parameters.\<close> What is not in the repository is an argument of the definitions that use it: the
  contents of files and the success of writes (functions of the path), the clock (\<open>now\<close>, \<open>wall\<close>),
  jsoncpp (record \<open>json_ops\<close> of \<open>Text\<close>), the TensorFlow Lite library, the statistics service,
  system properties, libnl and the numbers of the kernel's nl80211 header (record \<open>libnl\<close> of
  \<open>NlCommand\<close>), and the structures and numbers of the platform's \<open>hardware_legacy\<close> headers (\<open>nan_hw\<close>,
  \<open>nan_codes\<close>, \<open>nan_events\<close>, \<open>nan_stats_hw\<close>, \<open>ndp_hw\<close>, \<open>wifi_hw\<close>, \<open>combo_hw\<close>, \<open>stats_layout\<close>,
  \<open>offload_hw\<close>). The witnesses instantiate each of them.

  \<^bold>\<open>Shared theories.\<close> \<open>Prelude\<close> (faults and their sequencing, maps, 32-bit and 64-bit integers, loops
  over containers, and the locale of functional refinements, interpreted on the tables of the Wi-Fi HAL), \<open>Floats\<close> (binary32 with rounding to nearest even), \<open>Text\<close> (the text functions of
  the C library and android-base, the operations of jsoncpp), \<open>Bytes\<close> (objects in memory, little-endian).
\<close>

text \<open>
  \<^bold>\<open>The thermal service.\<close> \<open>ThermalHelperImpl\<close> (thermal-helper.cpp) owns the other components and runs
  them from its watcher callback: a sensor is read (through a file, or as a formula, an estimator or a
  prediction over other sensors), its severity is determined with hysteresis, the throttling engine
  turns temperature and severity into a request for every cooling device, the greatest request of
  all sensors is written, and the statistics are updated.

  \<^item> \<open>ThermalTypes\<close>: the records of thermal_info.h, thermal_throttling.h, power_files.h, thermal-helper.h,
    and concrete ones for the witnesses.
  \<^item> \<open>Throttling\<close>, \<open>PidBudget\<close>: utils/thermal_throttling.cpp. The state is the record of the
    two maps of the class, the votes of a device a multiset. \<open>VoteInvariant\<close> and
    \<open>ThrottlingReach\<close> (with the step relation of its entry points) show that votes and requests agree
    in every reachable state; \<open>PidLemmas\<close> and \<open>PidRequests\<close> bound the power budget and tell what it
    requests.
  \<^item> \<open>Severity\<close>: \<open>getSeverityFromThresholds\<close> and its hysteresis.
  \<^item> \<open>Predictions\<close>, \<open>PredictionsRing\<close>: utils/thermal_predictions_helper.cpp; the ring implements a
    bounded history (a locale), and a read finds the newest sample of the right age.
  \<^item> \<open>VtEstimator\<close>, \<open>VtTflite\<close>, \<open>VtProps\<close>, \<open>VtClaims\<close>: virtualtemp_estimator/; the estimator as a
    list of samples, of which the model sees the last ones (with support for under-sampling, copies stand for
    missing ones), and predictions stay within the output buffer.
  \<^item> \<open>PowerRails\<close>, \<open>PowerClaims\<close>: utils/power_files.cpp; the histories of the rails in every reachable
    state, and the round trip of a line of the energy files.
  \<^item> \<open>ConfigValues\<close>, \<open>ConfigSensor\<close>, \<open>ConfigCdev\<close>, \<open>ConfigRoot\<close>: utils/thermal_info.cpp;
    \<open>ConfigClaims\<close> and \<open>ConfigFaults\<close>: what an accepted configuration guarantees the components that
    read it, which configurations fault.
  \<^item> \<open>StatsHelper\<close>, \<open>StatsReports\<close>: utils/thermal_stats_helper.cpp; \<open>StatsLemmas\<close>,
    \<open>StatsClaims\<close>, \<open>StatsProps\<close>, \<open>StatsAccounting\<close>: buckets, layout of the reports, accounting of time.
  \<^item> \<open>HelperState\<close>, \<open>HelperRead\<close>, \<open>HelperOps\<close>, \<open>HelperInit\<close>, \<open>HelperWatch\<close>: thermal-helper.cpp and
    utils/thermal_files.cpp. \<open>HelperFrame\<close> and \<open>HelperReading\<close> prepare \<open>HelperClaims\<close> (reading ends for
    acyclic links, and not where each of some sensors reads one of them first); \<open>HelperEmul\<close>, \<open>HelperTimes\<close>, \<open>HelperWrites\<close>, \<open>HelperSetup\<close>:
    emulation, what a round of the watcher does to each sensor and its sleep, what is written to the devices,
    what the constructor checks (cyclic links pass).

  \<^item> \<open>ThermalWatcher\<close>: utils/thermal_watcher.cpp, the thread that calls the helper: what it makes of uevents and
    of netlink events, and when the helper is called again.
  \<^item> \<open>PowerHal\<close>: utils/powerhal_helper.cpp, the client of the power service, which is a parameter with a
    state; the modes follow the severities of the sensors.
  \<^item> \<open>ThermalService\<close>: Thermal.cpp, the requests of clients, their callbacks, the looper and the commands of
    \<open>dump\<close>. \<open>system_round\<close> puts the parts together: a round of the watcher's thread with the helper, the
    notifications to the clients and the hints to the power service.

  \<^bold>\<open>Bounds and fuel.\<close> Reading a sensor follows the links of the configuration, which the code does not
  bound: \<open>readThermalSensor\<close> and \<open>readTemperature\<close> take fuel, without which they are \<open>Diverges\<close>. With
  acyclic links fuel above the rank of the sensor suffices and more fuel changes nothing; on a cycle
  of first links no fuel suffices. \<open>ParseThermalConfig\<close> takes fuel for the inclusion of files; fuel above the number
  of files suffices. All other loops are structural or bounded by their container. \<open>int\<close> is checked for
  overflow where the code adds, \<open>size_t\<close> and times are unbounded.
\<close>

text \<open>
  \<^bold>\<open>NAN.\<close> A call of the framework (nan.cpp) creates a \<open>NanCommand\<close>, which writes a firmware message into a
  buffer it has allocated (nan_req.cpp), puts it into a netlink message (cpp_bindings.cpp) and sends
  this; the firmware answers with responses (nan_rsp.cpp) and indications (nan_ind.cpp), which are read
  into structures of the framework and handed to its handlers. All messages are a header, a
  struct of parameters and a list of type-length-value triples (nan_i.h, nan_cert.h).

  \<^item> \<open>NlCommand\<close>: \<open>WifiRequest\<close>, \<open>WifiCommand::requestResponse\<close>, \<open>mapKernelErrortoWifiHalError\<close> and
    \<open>WifiVendorCommand\<close> of cpp_bindings.h and cpp_bindings.cpp.
  \<^item> \<open>NanTlv\<close>, \<open>NanMessage\<close>: the coding of TLVs and the message header (nan_i.h, nan.cpp). A buffer is
    its list of bytes, the cursor \<open>u8* tlvs\<close> an offset.
  \<^item> \<open>NanRequest\<close>, \<open>NanService\<close>: the functions \<open>putNan...\<close> of nan_req.cpp.
  \<^item> \<open>NanIndication\<close>, \<open>NanEvents\<close>: the parsers \<open>getNan...\<close> and the dispatch of nan_ind.cpp.
  \<^item> \<open>NanError\<close>, \<open>NanResponse\<close>: nan_rsp.cpp, with the translation of status codes.
  \<^item> \<open>NanDataPath\<close>: the data path messages, which are netlink attributes (mtk_vendor_cmd.h, nan_ind.cpp,
    nan_rsp.cpp).
  \<^item> \<open>NanCommand\<close>: nan.cpp, from the entry points of the framework to the command that is sent.

  \<open>NanWrites\<close> has the calculus of the requests: a part of a request writes a list of TLVs, and parts
  that follow each other write both lists; \<open>NanRequestClaims\<close> and \<open>NanServiceClaims\<close> use it to show that a
  message consists of exactly the TLVs that are asked for, and that the length that the code
  computes beforehand is that of what it writes. \<open>NanIndicationClaims\<close> and \<open>NanMatchClaims\<close> show that
  well-formed messages are read to their end within the arrays of the event, and which ones are
  not; \<open>NanResponseClaims\<close> and \<open>NanCommandClaims\<close> what the framework is told. \<open>NanWitnesses\<close> applies these
  theorems to concrete requests and messages.

  \<^bold>\<open>Bounds.\<close> The loop over the TLVs of a message (\<open>tlv_loop\<close>) is proved to end, since each round takes at
  least the header of a TLV off the length that is left. The loop of \<open>requestResponse\<close> waits for replies of the kernel:
  it takes the list of statuses they leave behind, and is \<open>Diverges\<close> when the list ends first. Numbers
  in messages have the width of their field; \<open>le\<close> truncates as an assignment to the field does.
\<close>

text \<open>
  \<^bold>\<open>The core of the Wi-Fi HAL.\<close> The framework calls the functions of a table with the handle of the HAL or of
  an interface. Most of them make a command object, which sends a vendor command of the driver and reads
  its answers; some enter the object into the tables of the HAL, where events of the driver find it
  until it is cancelled.

  \<^item> \<open>WifiTables\<close>: the two tables of \<open>hal_info\<close> (common.h, common.cpp), handlers of events and outstanding
    commands, and the dispatch of an event (\<open>internal_valid_message_handler\<close>). \<open>WifiRegistry\<close> states the
    registry that they implement and proves it; \<open>WifiClaims\<close> has the reachable states of the tables
    and what an event finds there.
  \<^item> \<open>WifiRequests\<close>: \<open>WifiRequest::create(id, subcmd)\<close>, the messages that the command classes of
    wifi_hal.cpp create, and the functions that only send one. A \<open>create\<close> function is a list of steps, each
    of which may leave it with an error. \<open>WifiRequestClaims\<close> has a calculus of what the steps put into the
    message.
  \<^item> \<open>WifiReplies\<close>, \<open>WifiRadio\<close>: the functions \<open>handleResponse\<close>, among them the matrix of radio combinations and
    the check of the link layer statistics, with their sizes and bounds.
  \<^item> \<open>WifiMonitor\<close>: the commands that stay in the tables (signal strength monitoring, ranging, subsystem
    restarts), from start to cancellation, and \<open>wifi_cleanup\<close>. Objects are addresses; what is done to
    their reference counts is the list of actions that an operation returns. \<open>WifiClaims\<close>: a command that fails
    to start leaves the tables wrong, and cleaning up ends.
  \<^item> \<open>WifiIfaces\<close>: the array of network interfaces and the interfaces that the HAL creates.
  \<^item> \<open>WifiQueries\<close>: the functions that return what the driver answers, and requests that wait for an event.
  \<^item> \<open>WifiRtt\<close>, \<open>WifiReplies\<close>: wifi_rtt.cpp; wifi_logger.cpp and wifi_offload.cpp.

  \<open>WifiWitnesses\<close> applies the theorems to a driver that answers and to one that refuses. \<open>cleanup_commands\<close>
  takes fuel, since the code does not bound its loop: with commands that are objects fuel above their
  number suffices; at a null pointer none does. Directories are read twice, so their listings are two
  parameters.
\<close>

text \<open>
  \<^bold>\<open>The USB service.\<close> \<open>UsbPorts\<close>: Usb.cpp and Usb.h. It reads the roles of the Type-C ports from sysfs and
  reports them, switches them, and switches the data lines; a second thread follows the uevents. The files at
  a moment are the record \<open>sysfs\<close>; the attempts of a role switch and the results of waiting for the
  partner are parameters. What the framework is told is kept in the state, so that the theorems can state it:
  a query reports the ports as the kernel shows them, if the files have its format, and a role switch ends within twenty attempts and reports
  what the node shows.
\<close>

text \<open>
  \<^bold>\<open>Not modelled.\<close> Of the thermal service: the text that \<open>dump\<close> writes (Thermal.cpp), the registration
  of the process (service.cpp), the interleaving of its threads within an operation; the loading of the
  estimator's shared library, of which the entry points are parameters. Of the Wi-Fi HAL: threads and the
  condition variables that commands wait for (the result of a wait is a parameter, and \<open>getNanStaParameter\<close>
  is left out); the opening of sockets and the event loop; the functions that print a message or a struct to
  the log; the contents of wake-up reasons and ring buffers, which are empty. The wpa_supplicant
  plug-in works on the internal structures of wpa_supplicant, which are not in the repository.
  Of the USB service: the event loop of its second thread (\<open>work\<close>), signals and locks. The older USB service
  (aidl/usb-legacy) and the other services (USB gadget, Bluetooth, vibrator, health, power, memory) are thin layers over sysfs and
  binder, the applications are user interfaces in Java.
\<close>

end
